(* ===== verification/Prelude.thy ===== *)
theory Prelude
  imports Main "HOL-Library.Word" "HOL-Library.Product_Lexorder"
begin

text \<open>
  Shared vocabulary of the development: ordered validation checks, Python's list and
  rounding idioms, and a state monad with exceptions (Python mutates state and may
  raise half way: the state reached so far is kept). Nothing here is specific to the
  control panel; the component theories only use these names and the collections.
\<close>

named_theorems check_simps \<open>turn an ordered list of checks into its conjuncts\<close>
named_theorems monad_simps \<open>unfold the state-and-exception combinators\<close>
named_theorems wp_simps \<open>weakest preconditions of the combinators\<close>

unbundle bit_operations_syntax

type_synonym text_points = "int list"  \<comment> \<open>a Python str as its code points\<close>

subsection \<open>Ordered checks\<close>

text \<open>
  A validator of the code is a sequence of \<^verbatim>\<open>if bad: raise ...\<close> statements. The first
  condition that holds decides the error; the sequence passes when none holds.
\<close>

definition first_failure :: "(bool \<times> 'e) list \<Rightarrow> 'e option" where
  "first_failure cs = map_option snd (find fst cs)"

lemma first_failure_Nil [check_simps]: "first_failure [] = None"
  by (simp add: first_failure_def)

lemma first_failure_Cons [check_simps]:
  "first_failure ((bad, e) # cs) = (if bad then Some e else first_failure cs)"
  by (simp add: first_failure_def)

lemma first_failure_append:
  "first_failure (as @ bs) =
     (case first_failure as of None \<Rightarrow> first_failure bs | Some e \<Rightarrow> Some e)"
  by (induction as) (auto simp: check_simps)

lemma first_failure_append_None [check_simps]:
  "first_failure (as @ bs) = None \<longleftrightarrow> first_failure as = None \<and> first_failure bs = None"
  by (simp add: first_failure_append split: option.splits)

lemma first_failure_None_iff: "first_failure cs = None \<longleftrightarrow> (\<forall>c \<in> set cs. \<not> fst c)"
  by (simp only: first_failure_def option.map_disc_iff find_None_iff) blast

lemma first_failure_Some_mem: "first_failure cs = Some e \<Longrightarrow> (True, e) \<in> set cs"
  by (auto simp: first_failure_def find_Some_iff)
    (metis (full_types) eq_fst_iff nth_mem snd_conv)

lemma first_failure_None_mem:
  "first_failure cs = None \<Longrightarrow> (bad, e) \<in> set cs \<Longrightarrow> \<not> bad"
  by (auto simp: first_failure_None_iff)

lemma first_failure_concat_None:
  "first_failure (concat css) = None \<longleftrightarrow> (\<forall>cs \<in> set css. first_failure cs = None)"
  by (auto simp: first_failure_None_iff)

definition raise_first :: "'e option \<Rightarrow> 'a \<Rightarrow> 'e + 'a" where
  "raise_first err value = (case err of None \<Rightarrow> Inr value | Some e \<Rightarrow> Inl e)"

lemma raise_first_Inr [check_simps]: "raise_first err v = Inr w \<longleftrightarrow> err = None \<and> v = w"
  by (auto simp: raise_first_def split: option.splits)

lemma raise_first_Inl [check_simps]: "raise_first err v = Inl e \<longleftrightarrow> err = Some e"
  by (auto simp: raise_first_def split: option.splits)

definition ebind :: "'e + 'a \<Rightarrow> ('a \<Rightarrow> 'e + 'b) \<Rightarrow> 'e + 'b" where
  "ebind m k = (case m of Inl e \<Rightarrow> Inl e | Inr a \<Rightarrow> k a)"

lemma ebind_Inl [simp]: "ebind (Inl e) k = Inl e"
  and ebind_Inr [simp]: "ebind (Inr a) k = k a"
  by (simp_all add: ebind_def)

lemma ebind_eq_Inr: "ebind m k = Inr b \<longleftrightarrow> (\<exists>a. m = Inr a \<and> k a = Inr b)"
  by (cases m) auto

subsection \<open>Python list idioms\<close>

definition enumerate_int :: "'a list \<Rightarrow> (int \<times> 'a) list" where
  "enumerate_int xs = zip (map int [0..<length xs]) xs"

text \<open>\<^verbatim>\<open>xs[:n]\<close> for an int \<open>n\<close>: a negative bound counts from the end.\<close>

definition py_prefix :: "'a list \<Rightarrow> int \<Rightarrow> 'a list" where
  "py_prefix xs n = (if n < 0 then take (length xs - nat (- n)) xs else take (nat n) xs)"

text \<open>\<^verbatim>\<open>xs[-n:]\<close>, the last \<open>n\<close> elements, for a positive literal \<open>n\<close>.\<close>

definition py_last :: "nat \<Rightarrow> 'a list \<Rightarrow> 'a list" where
  "py_last n xs = drop (length xs - n) xs"

lemma length_py_last [simp]: "length (py_last n xs) = min n (length xs)"
  by (simp add: py_last_def)

lemma set_py_last: "set (py_last n xs) \<subseteq> set xs"
  by (simp add: py_last_def set_drop_subset)

text \<open>A dict in insertion order: replacing a key keeps its place, a new key goes last.\<close>

fun dict_set :: "('k \<times> 'v) list \<Rightarrow> 'k \<Rightarrow> 'v \<Rightarrow> ('k \<times> 'v) list" where
  "dict_set [] k v = [(k, v)]"
| "dict_set ((k', v') # d) k v = (if k' = k then (k, v) # d else (k', v') # dict_set d k v)"

definition dict_del :: "('k \<times> 'v) list \<Rightarrow> 'k \<Rightarrow> ('k \<times> 'v) list" where
  "dict_del d k = filter (\<lambda>p. fst p \<noteq> k) d"

lemma map_of_dict_set [simp]: "map_of (dict_set d k v) = (map_of d)(k \<mapsto> v)"
  by (induction d) (auto simp: fun_eq_iff)

lemma map_of_dict_del [simp]: "map_of (dict_del d k) = (map_of d)(k := None)"
  by (induction d) (auto simp: dict_del_def fun_eq_iff)

lemma set_dict_set: "set (dict_set d k v) \<subseteq> insert (k, v) (set d)"
  by (induction d) (auto split: if_splits)

lemma keys_dict_set: "fst ` set (dict_set d k v) = insert k (fst ` set d)"
proof (induction d)
  case (Cons a d)
  then show ?case by (cases a) (simp add: insert_commute)
qed simp

lemma keys_dict_del: "fst ` set (dict_del d k) = fst ` set d - {k}"
  by (force simp: dict_del_def)

lemma distinct_dict_set [simp]:
  "distinct (map fst (dict_set d k v)) \<longleftrightarrow> distinct (map fst d)"
proof (induction d)
  case (Cons a d)
  then show ?case
    using keys_dict_set [of d k v] by (cases a) auto
qed simp

lemma distinct_dict_del [simp]: "distinct (map fst d) \<Longrightarrow> distinct (map fst (dict_del d k))"
  by (simp add: dict_del_def distinct_map_filter)

lemma length_dict_del [simp]: "length (dict_del d k) \<le> length d"
  by (simp add: dict_del_def)

lemma length_dict_del_mem: "k \<in> fst ` set d \<Longrightarrow> length (dict_del d k) < length d"
  by (force simp: dict_del_def intro: length_filter_less)

lemma length_dict_set:
  "length (dict_set d k v) = (if k \<in> fst ` set d then length d else Suc (length d))"
proof (induction d)
  case (Cons a d)
  then show ?case by (cases a) simp
qed simp

lemma map_of_None_key: "map_of d k = None \<longleftrightarrow> k \<notin> fst ` set d"
  by (rule map_of_eq_None_iff)

subsection \<open>Rounding\<close>

text \<open>
  Python's \<^verbatim>\<open>round\<close> of the exact quotient \<open>n / d\<close> (\<open>d > 0\<close>): to the nearest integer,
  a tie to the even neighbour.
\<close>

definition round_div :: "int \<Rightarrow> int \<Rightarrow> int" where
  "round_div n d =
     (let q = n div d; r = n mod d
      in if 2 * r < d then q else if d < 2 * r then q + 1
         else if even q then q else q + 1)"

lemma round_div_bounds:
  assumes "0 < d"
  shows "2 * n - d \<le> 2 * (d * round_div n d) \<and> 2 * (d * round_div n d) \<le> 2 * n + d"
proof -
  have n: "n = d * (n div d) + n mod d" by simp
  have r: "0 \<le> n mod d" "n mod d < d" using assms by simp_all
  have cases: "round_div n d = n div d \<and> 2 * (n mod d) \<le> d
      \<or> round_div n d = n div d + 1 \<and> d \<le> 2 * (n mod d)"
    by (auto simp: round_div_def Let_def)
  then show ?thesis
  proof
    assume a: "round_div n d = n div d \<and> 2 * (n mod d) \<le> d"
    then have "d * round_div n d = d * (n div d)" by simp
    with a n r show ?thesis by linarith
  next
    assume a: "round_div n d = n div d + 1 \<and> d \<le> 2 * (n mod d)"
    then have "d * round_div n d = d * (n div d) + d" by (simp add: algebra_simps)
    with a n r show ?thesis by linarith
  qed
qed

lemma round_div_mono:
  assumes "0 < d" and "m \<le> n"
  shows "round_div m d \<le> round_div n d"
proof -
  have q: "m div d \<le> n div d" using assms by (simp add: zdiv_mono1)
  show ?thesis
  proof (cases "m div d = n div d")
    case True
    then have "m mod d \<le> n mod d"
      using assms(2) div_mult_mod_eq [of m d] div_mult_mod_eq [of n d] True by (metis add_le_cancel_left)
    with True show ?thesis by (auto simp: round_div_def Let_def)
  next
    case False
    with q have "m div d + 1 \<le> n div d" by simp
    then show ?thesis by (auto simp: round_div_def Let_def)
  qed
qed

lemma round_div_exact [simp]: "0 < d \<Longrightarrow> round_div (d * k) d = k"
  by (simp add: round_div_def)

lemma round_div_le:
  assumes "0 < d" and "n \<le> d * k"
  shows "round_div n d \<le> k"
  using round_div_mono [OF assms] assms(1) by simp

lemma round_div_ge:
  assumes "0 < d" and "d * k \<le> n"
  shows "k \<le> round_div n d"
  using round_div_mono [OF assms] assms(1) by simp

subsection \<open>Masks and list sums\<close>

lemma and_not_mask_int: "(k::int) AND NOT (mask n) = 2 ^ n * (k div 2 ^ n)"
proof -
  have "k AND NOT (mask n) = push_bit n (drop_bit n k)"
    by (rule bit_eqI) (auto simp: bit_simps)
  then show ?thesis by (simp add: push_bit_eq_mult drop_bit_eq_div)
qed

lemma mask_split_int: "(k::int) = (k AND NOT (mask n)) + (k AND mask n)"
  by (simp add: and_not_mask_int take_bit_eq_mod flip: take_bit_eq_mask)

lemma sum_list_update_group:
  "i < length xs \<Longrightarrow> sum_list (xs[i := x]) = sum_list xs - xs ! i + (x :: 'a :: ab_group_add)"
  by (induction xs arbitrary: i) (auto split: nat.splits)

lemma sum_list_map_mod_div:
  fixes f :: "'a \<Rightarrow> int"
  shows "(\<Sum>x\<leftarrow>xs. f x) = d * (\<Sum>x\<leftarrow>xs. f x div d) + (\<Sum>x\<leftarrow>xs. f x mod d)"
proof (induction xs)
  case (Cons x xs)
  have "f x = d * (f x div d) + f x mod d" by simp
  with Cons show ?case by (simp add: algebra_simps)
qed simp

lemma sum_list_mod_bounds:
  fixes f :: "'a \<Rightarrow> int"
  assumes "0 < d"
  shows "0 \<le> (\<Sum>x\<leftarrow>xs. f x mod d)" and "xs \<noteq> [] \<Longrightarrow> (\<Sum>x\<leftarrow>xs. f x mod d) < d * int (length xs)"
proof -
  have pos: "0 \<le> f x mod d" and lt: "f x mod d < d" for x using assms by simp_all
  show "0 \<le> (\<Sum>x\<leftarrow>xs. f x mod d)" by (induction xs) (auto simp: pos)
  show "xs \<noteq> [] \<Longrightarrow> (\<Sum>x\<leftarrow>xs. f x mod d) < d * int (length xs)"
  proof (induction xs)
    case (Cons x xs)
    then show ?case using lt [of x] by (cases "xs = []") (auto simp: algebra_simps)
  qed simp
qed

subsection \<open>State with exceptions\<close>

type_synonym ('s, 'e, 'a) action = "'s \<Rightarrow> ('e + 'a) \<times> 's"

definition ret :: "'a \<Rightarrow> ('s, 'e, 'a) action" where
  "ret a = (\<lambda>s. (Inr a, s))"

definition raise_error :: "'e \<Rightarrow> ('s, 'e, 'a) action" where
  "raise_error e = (\<lambda>s. (Inl e, s))"

definition modify_state :: "('s \<Rightarrow> 's) \<Rightarrow> ('s, 'e, unit) action" where
  "modify_state f = (\<lambda>s. (Inr (), f s))"

definition with_state :: "('s \<Rightarrow> ('s, 'e, 'a) action) \<Rightarrow> ('s, 'e, 'a) action" where
  "with_state f = (\<lambda>s. f s s)"

definition bind_action :: "('s, 'e, 'a) action \<Rightarrow> ('a \<Rightarrow> ('s, 'e, 'b) action) \<Rightarrow> ('s, 'e, 'b) action" where
  "bind_action m k = (\<lambda>s. case m s of (Inl e, s') \<Rightarrow> (Inl e, s') | (Inr a, s') \<Rightarrow> k a s')"

definition then_action :: "('s, 'e, 'a) action \<Rightarrow> ('s, 'e, 'b) action \<Rightarrow> ('s, 'e, 'b) action" where
  "then_action m k = bind_action m (\<lambda>_. k)"

text \<open>
  \<^verbatim>\<open>try: body finally: cleanup\<close>. The cleanup always runs; when it raises itself, its
  exception replaces the outcome of the body.
\<close>

definition finally_action :: "('s, 'e, 'a) action \<Rightarrow> ('s, 'e, 'b) action \<Rightarrow> ('s, 'e, 'a) action" where
  "finally_action body cleanup =
     (\<lambda>s. case body s of (r, s') \<Rightarrow>
        (case cleanup s' of (Inl e, s'') \<Rightarrow> (Inl e, s'') | (Inr _, s'') \<Rightarrow> (r, s'')))"

text \<open>\<^verbatim>\<open>try: body except Exception as e: handler(e)\<close>, the handler starting in the state the body left.\<close>

definition catch_action :: "('s, 'e, 'a) action \<Rightarrow> ('e \<Rightarrow> ('s, 'e, 'a) action) \<Rightarrow> ('s, 'e, 'a) action" where
  "catch_action body handler =
     (\<lambda>s. case body s of (Inl e, s') \<Rightarrow> handler e s' | (Inr a, s') \<Rightarrow> (Inr a, s'))"

fun for_each :: "('x \<Rightarrow> ('s, 'e, unit) action) \<Rightarrow> 'x list \<Rightarrow> ('s, 'e, unit) action" where
  "for_each f [] = ret ()"
| "for_each f (x # xs) = then_action (f x) (for_each f xs)"

lemma ret_apply [monad_simps]: "ret a s = (Inr a, s)"
  by (simp add: ret_def)

lemma raise_apply [monad_simps]: "raise_error e s = (Inl e, s)"
  by (simp add: raise_error_def)

lemma modify_apply [monad_simps]: "modify_state f s = (Inr (), f s)"
  by (simp add: modify_state_def)

lemma with_state_apply [monad_simps]: "with_state f s = f s s"
  by (simp add: with_state_def)

lemma bind_apply [monad_simps]:
  "bind_action m k s = (case m s of (Inl e, s') \<Rightarrow> (Inl e, s') | (Inr a, s') \<Rightarrow> k a s')"
  by (simp add: bind_action_def)

lemma then_apply [monad_simps]:
  "then_action m k s = (case m s of (Inl e, s') \<Rightarrow> (Inl e, s') | (Inr a, s') \<Rightarrow> k s')"
  by (simp add: then_action_def bind_action_def)

lemma finally_apply [monad_simps]:
  "finally_action body cleanup s =
     (case body s of (r, s') \<Rightarrow>
        (case cleanup s' of (Inl e, s'') \<Rightarrow> (Inl e, s'') | (Inr _, s'') \<Rightarrow> (r, s'')))"
  by (simp add: finally_action_def)

lemma catch_apply [monad_simps]:
  "catch_action body handler s =
     (case body s of (Inl e, s') \<Rightarrow> handler e s' | (Inr a, s') \<Rightarrow> (Inr a, s'))"
  by (simp add: catch_action_def)

text \<open>A loop body that always succeeds and keeps an invariant makes the loop do both.\<close>

lemma for_each_invariant:
  assumes "\<And>x s. x \<in> set xs \<Longrightarrow> I s \<Longrightarrow> fst (f x s) = Inr () \<and> I (snd (f x s))"
    and "I s"
  shows "fst (for_each f xs s) = Inr () \<and> I (snd (for_each f xs s))"
  using assms
proof (induction xs arbitrary: s)
  case Nil
  then show ?case by (simp add: monad_simps)
next
  case (Cons x xs)
  obtain r s' where run: "f x s = (r, s')" by (cases "f x s")
  from Cons.prems(1) [of x s] Cons.prems(2) run have "r = Inr ()" and "I s'" by auto
  moreover from Cons.IH [of s'] Cons.prems(1) \<open>I s'\<close>
  have "fst (for_each f xs s') = Inr () \<and> I (snd (for_each f xs s'))" by simp
  ultimately show ?case by (simp add: monad_simps run)
qed

subsection \<open>Postconditions of actions\<close>

text \<open>
  \<open>wp m Q E s\<close>: run from \<open>s\<close>, the action returns a value and a state in \<open>Q\<close> or raises an error with
  a state in \<open>E\<close>. The combinators rewrite (\<open>wp_simps\<close>); named operations get a rule of their own.
\<close>

definition wp :: "('s, 'e, 'a) action \<Rightarrow> ('a \<Rightarrow> 's \<Rightarrow> bool) \<Rightarrow> ('e \<Rightarrow> 's \<Rightarrow> bool) \<Rightarrow> 's \<Rightarrow> bool" where
  "wp m Q E s = (case m s of (Inr a, s') \<Rightarrow> Q a s' | (Inl e, s') \<Rightarrow> E e s')"

lemma wp_ret [wp_simps]: "wp (ret a) Q E = Q a"
  by (rule ext) (simp add: wp_def monad_simps)

lemma wp_raise [wp_simps]: "wp (raise_error e) Q E = E e"
  by (rule ext) (simp add: wp_def monad_simps)

lemma wp_modify [wp_simps]: "wp (modify_state f) Q E = (\<lambda>s. Q () (f s))"
  by (rule ext) (simp add: wp_def monad_simps)

lemma wp_with_state [wp_simps]: "wp (with_state g) Q E = (\<lambda>s. wp (g s) Q E s)"
  by (rule ext) (simp add: wp_def monad_simps)

lemma wp_bind [wp_simps]: "wp (bind_action m k) Q E = wp m (\<lambda>a. wp (k a) Q E) E"
  by (rule ext) (simp add: wp_def monad_simps split: prod.splits sum.splits)

lemma wp_then [wp_simps]: "wp (then_action m k) Q E = wp m (\<lambda>_. wp k Q E) E"
  by (rule ext) (simp add: wp_def monad_simps split: prod.splits sum.splits)

lemma wp_catch [wp_simps]: "wp (catch_action m h) Q E = wp m Q (\<lambda>e. wp (h e) Q E)"
  by (rule ext) (simp add: wp_def monad_simps split: prod.splits sum.splits)

lemma wp_mono:
  assumes "wp m Q E s" and "\<And>a s'. Q a s' \<Longrightarrow> Q' a s'" and "\<And>e s'. E e s' \<Longrightarrow> E' e s'"
  shows "wp m Q' E' s"
  using assms by (auto simp: wp_def split: prod.splits sum.splits)

lemma wp_resultD:
  assumes "wp m Q E s" and "m s = (r, s')"
  shows "case r of Inr a \<Rightarrow> Q a s' | Inl e \<Rightarrow> E e s'"
  using assms by (auto simp: wp_def split: sum.splits)

lemma wpI: "(\<And>r s'. m s = (r, s') \<Longrightarrow> case r of Inr a \<Rightarrow> Q a s' | Inl e \<Rightarrow> E e s') \<Longrightarrow> wp m Q E s"
  by (cases "m s") (auto simp: wp_def split: sum.splits)

lemma wp_conj: "wp m Q E s \<Longrightarrow> wp m Q' E' s \<Longrightarrow> wp m (\<lambda>a s'. Q a s' \<and> Q' a s') (\<lambda>e s'. E e s' \<and> E' e s') s"
  by (auto simp: wp_def split: prod.splits sum.splits)

text \<open>A loop with an invariant over the elements already handled.\<close>

lemma wp_for_each:
  assumes "\<And>ys x zs s. xs = ys @ x # zs \<Longrightarrow> I ys s \<Longrightarrow> wp (f x) (\<lambda>_. I (ys @ [x])) E s"
    and "I [] s"
  shows "wp (for_each f xs) (\<lambda>_. I xs) E s"
proof -
  have "I ys s \<Longrightarrow> xs = ys @ zs \<Longrightarrow> wp (for_each f zs) (\<lambda>_. I xs) E s" for ys zs
  proof (induction zs arbitrary: ys s)
    case (Cons z zs)
    from assms(1) [OF Cons.prems(2,1)] have "wp (f z) (\<lambda>_. I (ys @ [z])) E s" .
    then show ?case
      using Cons.IH [of "ys @ [z]"] Cons.prems(2) by (auto simp: wp_simps elim: wp_mono)
  qed (simp add: wp_simps)
  from this [of "[]" xs] assms(2) show ?thesis by simp
qed

subsection \<open>Decimal text\<close>

fun decimal :: "nat \<Rightarrow> string" where
  "decimal n =
     (if n < 10 then [char_of (48 + n)] else decimal (n div 10) @ [char_of (48 + n mod 10)])"

declare decimal.simps [simp del]

fun undecimal :: "string \<Rightarrow> nat \<Rightarrow> nat" where
  "undecimal [] acc = acc"
| "undecimal (c # cs) acc = undecimal cs (10 * acc + (of_char c - 48))"

lemma undecimal_append: "undecimal (xs @ ys) acc = undecimal ys (undecimal xs acc)"
  by (induction xs arbitrary: acc) auto

lemma undecimal_decimal [simp]: "undecimal (decimal n) 0 = n"
proof (induction n rule: decimal.induct)
  case (1 n)
  show ?case
  proof (cases "n < 10")
    case True
    then show ?thesis by (simp add: decimal.simps [of n] of_char_of)
  next
    case False
    with 1 have "undecimal (decimal (n div 10)) 0 = n div 10" by simp
    with False show ?thesis
      by (simp add: decimal.simps [of n] undecimal_append of_char_of)
  qed
qed

lemma decimal_inject [simp]: "decimal m = decimal n \<longleftrightarrow> m = n"
  by (metis undecimal_decimal)

lemma decimal_digits: "c \<in> set (decimal n) \<Longrightarrow> (48::nat) \<le> of_char c \<and> (of_char c::nat) \<le> 57"
proof (induction n rule: decimal.induct)
  case (1 n)
  then show ?case
    by (cases "n < 10") (auto simp: decimal.simps [of n] of_char_of)
qed

end
