(* ===== verification/Switch_Data.thy ===== *)
theory Switch_Data
  imports Prelude
begin

text \<open>
  The data model of models.py: the fixed EPL inventory, one record per pydantic model
  and, per model, the ordered list of its checks (the declared field constraints first,
  then the validators in the order of the source). Numbers are Python ints, so every
  range is a check and not a property of the type. Names carry the model's initials
  because record fields are global in HOL.
\<close>

subsection \<open>Physical inventory\<close>

definition EPLS :: "int list" where
  "EPLS = [0, 1, 2, 5, 6, 7]"

record physical =
  ph_epl :: int
  ph_mpo :: int
  ph_resource :: int
  ph_position :: int
  ph_mux :: int
  ph_base :: int

definition PHYSICAL :: "(int \<times> physical) list" where
  "PHYSICAL = map (\<lambda>(index, epl). (epl,
     \<lparr>ph_epl = epl, ph_mpo = index div 3 + 1, ph_resource = index, ph_position = index mod 3,
      ph_mux = push_bit (nat (index div 3)) 1, ph_base = index * 4 + 1\<rparr>)) (enumerate_int EPLS)"

text \<open>
  \<^verbatim>\<open>PHYSICAL[epl]\<close>. Every EPL that reaches a lookup passed \<open>valid_epl\<close>; the fallback entry
  stands for the KeyError of a number outside the inventory and is never a slot of the board.
\<close>

definition no_physical :: physical where
  "no_physical = \<lparr>ph_epl = -1, ph_mpo = 0, ph_resource = -1, ph_position = 0, ph_mux = 0, ph_base = 0\<rparr>"

definition physical_of :: "int \<Rightarrow> physical" where
  "physical_of epl = (case map_of PHYSICAL epl of Some p \<Rightarrow> p | None \<Rightarrow> no_physical)"

abbreviation base_of :: "int \<Rightarrow> int" where "base_of epl \<equiv> ph_base (physical_of epl)"

lemma PHYSICAL_eval:
  "PHYSICAL =
    [(0, \<lparr>ph_epl = 0, ph_mpo = 1, ph_resource = 0, ph_position = 0, ph_mux = 1, ph_base = 1\<rparr>),
     (1, \<lparr>ph_epl = 1, ph_mpo = 1, ph_resource = 1, ph_position = 1, ph_mux = 1, ph_base = 5\<rparr>),
     (2, \<lparr>ph_epl = 2, ph_mpo = 1, ph_resource = 2, ph_position = 2, ph_mux = 1, ph_base = 9\<rparr>),
     (5, \<lparr>ph_epl = 5, ph_mpo = 2, ph_resource = 3, ph_position = 0, ph_mux = 2, ph_base = 13\<rparr>),
     (6, \<lparr>ph_epl = 6, ph_mpo = 2, ph_resource = 4, ph_position = 1, ph_mux = 2, ph_base = 17\<rparr>),
     (7, \<lparr>ph_epl = 7, ph_mpo = 2, ph_resource = 5, ph_position = 2, ph_mux = 2, ph_base = 21\<rparr>)]"
  by (simp add: PHYSICAL_def EPLS_def enumerate_int_def upt_rec)

lemma physical_of_eval:
  "physical_of 0 = \<lparr>ph_epl = 0, ph_mpo = 1, ph_resource = 0, ph_position = 0, ph_mux = 1, ph_base = 1\<rparr>"
  "physical_of 1 = \<lparr>ph_epl = 1, ph_mpo = 1, ph_resource = 1, ph_position = 1, ph_mux = 1, ph_base = 5\<rparr>"
  "physical_of 2 = \<lparr>ph_epl = 2, ph_mpo = 1, ph_resource = 2, ph_position = 2, ph_mux = 1, ph_base = 9\<rparr>"
  "physical_of 5 = \<lparr>ph_epl = 5, ph_mpo = 2, ph_resource = 3, ph_position = 0, ph_mux = 2, ph_base = 13\<rparr>"
  "physical_of 6 = \<lparr>ph_epl = 6, ph_mpo = 2, ph_resource = 4, ph_position = 1, ph_mux = 2, ph_base = 17\<rparr>"
  "physical_of 7 = \<lparr>ph_epl = 7, ph_mpo = 2, ph_resource = 5, ph_position = 2, ph_mux = 2, ph_base = 21\<rparr>"
  by (simp_all add: physical_of_def PHYSICAL_eval)

lemma EPLS_cases:
  assumes "epl \<in> set EPLS"
  obtains "epl = 0" | "epl = 1" | "epl = 2" | "epl = 5" | "epl = 6" | "epl = 7"
  using assms by (auto simp: EPLS_def)

definition STORM_CONTROLLER_CAPACITY :: int where "STORM_CONTROLLER_CAPACITY = 16"
definition STORM_MIN_RATE_KBPS :: int where "STORM_MIN_RATE_KBPS = 22000"

subsection \<open>Enumerations and records\<close>

datatype vlan_mode = Access | Trunk
datatype group_mode = Mode100G | Mode40G | Split
datatype lag_mode = Static | Active | Passive
datatype lag_period = Fast | Slow
datatype classification = Pcp | Dscp
datatype dcbx_mode = DcbxOff | DcbxIeee
datatype trust_mode = TrustNone | TrustPcp
datatype scheduler_mode = Strict | Drr
datatype mirror_direction = MirrorRx | MirrorTx | MirrorBoth
datatype fan_response = S5_45 | S10_9 | S21_6 | S43_7
datatype board_profile = HW4_B0 | HW5_A11

record split_vlan_backup =
  sb_enabled :: bool
  sb_vlan_mode :: vlan_mode
  sb_pvid :: "int option"
  sb_tagged_vlans :: "int list"
  sb_ingress_filtering :: bool

record port_group =
  pg_epl :: int
  pg_mode :: group_mode
  pg_lane_speeds :: "int list"
  pg_split_vlan_backup :: "split_vlan_backup list option"

record storm_control =
  st_broadcast_kbps :: int
  st_multicast_kbps :: int
  st_unknown_unicast_kbps :: int

record port_config =
  pc_name :: text_points
  pc_enabled :: bool
  pc_mtu :: int
  pc_vlan_mode :: vlan_mode
  pc_pvid :: "int option"
  pc_tagged_vlans :: "int list"
  pc_ingress_filtering :: bool
  pc_edge :: bool
  pc_bpdu_guard :: bool
  pc_path_cost :: int
  pc_port_priority :: int
  pc_lldp :: bool
  pc_direct_receiver :: bool
  pc_storm :: storm_control
  pc_ingress_kbps :: int
  pc_egress_kbps :: int

record vlan =
  vl_id :: int
  vl_name :: text_points

record lag =
  lg_name :: string
  lg_members :: "int list"
  lg_mode :: lag_mode
  lg_minimum_links :: int
  lg_periodic :: lag_period

record static_mac =
  sm_mac :: string
  sm_vlan :: int
  sm_port :: int

record rstp =
  rs_enabled :: bool
  rs_bridge_priority :: int

record lldp =
  ll_enabled :: bool
  ll_transmit_interval :: int
  ll_hold_multiplier :: int

record multicast_group =
  mg_address :: string
  mg_vlan :: int
  mg_ports :: "int list"

record igmp =
  ig_enabled :: bool
  ig_vlans :: "int list"
  ig_router_ports :: "int list"
  ig_fast_leave_ports :: "int list"
  ig_membership_timeout :: int
  ig_static_groups :: "multicast_group list"

record pfc_watchdog =
  wd_enabled :: bool
  wd_detect_ms :: int
  wd_recovery_ms :: int
  wd_cooldown_ms :: int

record roce =
  ro_enabled :: bool
  ro_ports :: "int list"
  ro_classification :: classification
  ro_dscp :: int
  ro_cnp_dscp :: int
  ro_dcbx :: dcbx_mode
  ro_watchdog :: pfc_watchdog
  ro_cable_length_m :: int
  ro_response_time_ns :: int

record qos =
  qo_roce :: roce
  qo_trust :: trust_mode
  qo_default_priority :: int
  qo_priority_map :: "int list"
  qo_scheduler :: scheduler_mode
  qo_weights :: "int list"

record mirror =
  mi_enabled :: bool
  mi_source :: "int option"
  mi_destination :: "int option"
  mi_direction :: mirror_direction

record fan_curve =
  fc_idle_temperature_c :: int
  fc_load_temperature_c :: int
  fc_critical_temperature_c :: int
  fc_idle_speed_percent :: int
  fc_load_speed_percent :: int
  fc_hysteresis_c :: int
  fc_response_time :: fan_response

record switch_configuration =
  sc_profile :: board_profile
  sc_groups :: "port_group list"
  sc_ports :: "(int \<times> port_config) list"
  sc_vlans :: "vlan list"
  sc_lags :: "lag list"
  sc_static_macs :: "static_mac list"
  sc_mac_aging_seconds :: int
  sc_rstp :: rstp
  sc_lldp :: lldp
  sc_igmp :: igmp
  sc_qos :: qos
  sc_mirror :: mirror
  sc_fan :: fan_curve

subsection \<open>Defaults\<close>

definition default_group :: "int \<Rightarrow> port_group" where
  "default_group epl = \<lparr>pg_epl = epl, pg_mode = Mode100G, pg_lane_speeds = [25, 25, 25, 25],
     pg_split_vlan_backup = None\<rparr>"

definition default_storm :: storm_control where
  "default_storm = \<lparr>st_broadcast_kbps = 0, st_multicast_kbps = 0, st_unknown_unicast_kbps = 0\<rparr>"

definition default_port :: port_config where
  "default_port = \<lparr>pc_name = [], pc_enabled = False, pc_mtu = 1518, pc_vlan_mode = Access,
     pc_pvid = None, pc_tagged_vlans = [], pc_ingress_filtering = True, pc_edge = False,
     pc_bpdu_guard = False, pc_path_cost = 0, pc_port_priority = 128, pc_lldp = True,
     pc_direct_receiver = False, pc_storm = default_storm, pc_ingress_kbps = 0,
     pc_egress_kbps = 0\<rparr>"

definition default_watchdog :: pfc_watchdog where
  "default_watchdog = \<lparr>wd_enabled = False, wd_detect_ms = 5000, wd_recovery_ms = 100,
     wd_cooldown_ms = 30000\<rparr>"

definition default_roce :: roce where
  "default_roce = \<lparr>ro_enabled = False, ro_ports = [], ro_classification = Pcp, ro_dscp = 26,
     ro_cnp_dscp = 48, ro_dcbx = DcbxOff, ro_watchdog = default_watchdog,
     ro_cable_length_m = 10, ro_response_time_ns = 3000\<rparr>"

definition default_qos :: qos where
  "default_qos = \<lparr>qo_roce = default_roce, qo_trust = TrustNone, qo_default_priority = 0,
     qo_priority_map = [0, 1, 2, 3, 4, 5, 6, 7], qo_scheduler = Drr,
     qo_weights = [1, 1, 1, 1, 1, 1, 1, 1]\<rparr>"

definition default_mirror :: mirror where
  "default_mirror = \<lparr>mi_enabled = False, mi_source = None, mi_destination = None,
     mi_direction = MirrorBoth\<rparr>"

definition default_fan :: fan_curve where
  "default_fan = \<lparr>fc_idle_temperature_c = 35, fc_load_temperature_c = 70,
     fc_critical_temperature_c = 80, fc_idle_speed_percent = 50, fc_load_speed_percent = 80,
     fc_hysteresis_c = 4, fc_response_time = S10_9\<rparr>"

definition default_rstp :: rstp where
  "default_rstp = \<lparr>rs_enabled = True, rs_bridge_priority = 32768\<rparr>"

definition default_lldp :: lldp where
  "default_lldp = \<lparr>ll_enabled = True, ll_transmit_interval = 30, ll_hold_multiplier = 4\<rparr>"

definition default_igmp :: igmp where
  "default_igmp = \<lparr>ig_enabled = False, ig_vlans = [], ig_router_ports = [],
     ig_fast_leave_ports = [], ig_membership_timeout = 260, ig_static_groups = []\<rparr>"

definition default_configuration :: switch_configuration where
  "default_configuration = \<lparr>sc_profile = HW4_B0, sc_groups = map default_group EPLS,
     sc_ports = map (\<lambda>p. (int p, default_port)) [1..<25],
     sc_vlans = [\<lparr>vl_id = 1, vl_name = [100, 101, 102, 97, 117, 108, 116]\<rparr>],
     sc_lags = [], sc_static_macs = [], sc_mac_aging_seconds = 300, sc_rstp = default_rstp,
     sc_lldp = default_lldp, sc_igmp = default_igmp, sc_qos = default_qos,
     sc_mirror = default_mirror, sc_fan = default_fan\<rparr>"

end
