(* ===== verification/Switch_Checks.thy ===== *)
theory Switch_Checks
  imports Switch_Data
begin

text \<open>
  The per-model validation of models.py (declared constraints, then validators) and the
  port arithmetic of \<^verbatim>\<open>PortGroup\<close> and \<^verbatim>\<open>SwitchConfiguration\<close>: active slots, speeds and the
  references that keep a slot in use.
\<close>

subsection \<open>Errors of the models\<close>

datatype reference =
  RefRoce | RefAdmin | RefVlan | RefRstp | RefTraffic | RefLag string | RefStaticMac | RefMirror | RefIgmp

datatype roce_issue =
  IssueTooFewPorts | IssuePriorityMapData | IssueDefaultPriorityData | IssuePriorityMapCnp
| IssueDefaultPriorityCnp | IssueLldpDisabled | IssueTrustConflict | IssuePortKind int
| IssuePortDisabled int | IssuePortVlan int | IssuePortLldp int | IssueEgressShaping int
| IssueIngressLimit int | IssueHeadroom int | IssueNoCommonVlan | IssueBufferBudget

datatype config_error =
  FieldError string
| BackupTaggedDuplicate | BackupNativeTagged | BackupEnabledWithoutVlan | UnknownEpl
| StormBelowMinimum | IngressBelowMinimum
| TaggedDuplicate | AccessWithTagged | NativeTagged | GuardWithoutEdge
| MacFormat | MacNotUnicast | AddressFormat | NotMulticast
| WatchdogCooldown | RoceDuplicatePorts | RoceTooFewPorts | RoceSameDscp
| MirrorEndpoints | FanTemperatures | FanSpeeds
| EplSet | SlotSet | VlanDuplicate | TooManyControllers int
| InactiveReferenced int "reference list" | PortUnknownVlan int | PortWithoutVlan int
| PortRateAboveSpeed int | BackupNotRestored
| LagDuplicate | LagMember | LagMinimumLinks | LagProfile string
| RoceInvalid roce_issue
| MacUnknown | MacNotMember | MacDuplicate
| MirrorInactive | MirrorLagMember
| IgmpUnknownVlan | IgmpInactivePort | IgmpPortNotSnooped | IgmpFastLeave
| GroupDuplicate | GroupUnknown | GroupNotMember | GroupMacCollision | GroupTooMany

type_synonym checks = "(bool \<times> config_error) list"

definition field :: "string \<Rightarrow> bool \<Rightarrow> bool \<times> config_error" where
  "field name ok = (\<not> ok, FieldError name)"

lemma fst_field [simp]: "fst (field name ok) = (\<not> ok)"
  by (simp add: field_def)

lemma first_failure_field [check_simps]:
  "first_failure (field name ok # cs) = (if ok then first_failure cs else Some (FieldError name))"
  by (simp add: field_def check_simps)

subsection \<open>Constrained types\<close>

definition port_number :: "int \<Rightarrow> bool" where "port_number p \<longleftrightarrow> 1 \<le> p \<and> p \<le> 24"
definition vlan_number :: "int \<Rightarrow> bool" where "vlan_number v \<longleftrightarrow> 1 \<le> v \<and> v \<le> 4094"

definition label :: "text_points \<Rightarrow> bool" where
  "label s \<longleftrightarrow> length s \<le> 64 \<and> list_all (\<lambda>c. \<not> c < 32 \<and> c \<noteq> 127) s"

definition opt_in :: "int option \<Rightarrow> int list \<Rightarrow> bool" where
  "opt_in v xs \<longleftrightarrow> (case v of None \<Rightarrow> False | Some x \<Rightarrow> x \<in> set xs)"

definition opt_ok :: "('a \<Rightarrow> bool) \<Rightarrow> 'a option \<Rightarrow> bool" where
  "opt_ok ok v \<longleftrightarrow> (case v of None \<Rightarrow> True | Some x \<Rightarrow> ok x)"

lemma opt_in_simps [simp]: "opt_in None xs \<longleftrightarrow> False" "opt_in (Some x) xs \<longleftrightarrow> x \<in> set xs"
  by (simp_all add: opt_in_def)

lemma opt_ok_simps [simp]: "opt_ok ok None" "opt_ok ok (Some x) \<longleftrightarrow> ok x"
  by (simp_all add: opt_ok_def)

subsection \<open>Ports and their recovery records\<close>

definition split_vlan_backup_checks :: "split_vlan_backup \<Rightarrow> checks" where
  "split_vlan_backup_checks b =
    [field ''pvid'' (opt_ok vlan_number (sb_pvid b)),
     field ''tagged_vlans'' (length (sb_tagged_vlans b) \<le> 64 \<and> list_all vlan_number (sb_tagged_vlans b)),
     (\<not> distinct (sb_tagged_vlans b), BackupTaggedDuplicate),
     (sb_vlan_mode b = Access \<and> sb_tagged_vlans b \<noteq> [] \<or> opt_in (sb_pvid b) (sb_tagged_vlans b),
      BackupNativeTagged),
     (sb_enabled b \<and> sb_pvid b = None \<and> sb_tagged_vlans b = [], BackupEnabledWithoutVlan)]"

definition port_group_checks :: "port_group \<Rightarrow> checks" where
  "port_group_checks g =
    [(pg_epl g \<notin> set EPLS, UnknownEpl),
     field ''lane_speeds'' (length (pg_lane_speeds g) = 4 \<and> list_all (\<lambda>s. s = 10 \<or> s = 25) (pg_lane_speeds g)),
     field ''split_vlan_backup'' (opt_ok (\<lambda>bs. length bs = 4) (pg_split_vlan_backup g))]
    @ (case pg_split_vlan_backup g of None \<Rightarrow> [] | Some bs \<Rightarrow> concat (map split_vlan_backup_checks bs))"

text \<open>\<^verbatim>\<open>PortGroup.active_ports\<close>: all four slots when split, otherwise the base slot.\<close>

definition group_active_ports :: "port_group \<Rightarrow> int list" where
  "group_active_ports g =
     (let base = base_of (pg_epl g)
      in if pg_mode g = Split then [base, base + 1, base + 2, base + 3] else [base])"

definition group_speed :: "port_group \<Rightarrow> int \<Rightarrow> int" where
  "group_speed g port =
     (if port \<notin> set (group_active_ports g) then 0
      else case pg_mode g of
             Split \<Rightarrow> pg_lane_speeds g ! nat (port - base_of (pg_epl g))
           | Mode100G \<Rightarrow> 100
           | Mode40G \<Rightarrow> 40)"

definition rate_ok :: "int \<Rightarrow> bool" where "rate_ok r \<longleftrightarrow> 0 \<le> r \<and> r \<le> 100000000"

definition below_minimum :: "int \<Rightarrow> bool" where
  "below_minimum r \<longleftrightarrow> 0 < r \<and> r < STORM_MIN_RATE_KBPS"

definition storm_rates :: "storm_control \<Rightarrow> int list" where
  "storm_rates s = [st_broadcast_kbps s, st_multicast_kbps s, st_unknown_unicast_kbps s]"

definition storm_control_checks :: "storm_control \<Rightarrow> checks" where
  "storm_control_checks s =
     concat (map (\<lambda>r. [field ''storm'' (rate_ok r), (below_minimum r, StormBelowMinimum)]) (storm_rates s))"

definition port_config_checks :: "port_config \<Rightarrow> checks" where
  "port_config_checks p =
    [field ''name'' (label (pc_name p)),
     field ''mtu'' (1514 \<le> pc_mtu p \<and> pc_mtu p \<le> 9216),
     field ''pvid'' (opt_ok vlan_number (pc_pvid p)),
     field ''tagged_vlans'' (length (pc_tagged_vlans p) \<le> 64 \<and> list_all vlan_number (pc_tagged_vlans p)),
     field ''path_cost'' (0 \<le> pc_path_cost p \<and> pc_path_cost p \<le> 200000000),
     field ''port_priority''
       (0 \<le> pc_port_priority p \<and> pc_port_priority p \<le> 240 \<and> pc_port_priority p mod 16 = 0)]
    @ storm_control_checks (pc_storm p) @
    [field ''ingress_kbps'' (rate_ok (pc_ingress_kbps p)),
     (below_minimum (pc_ingress_kbps p), IngressBelowMinimum),
     field ''egress_kbps'' (rate_ok (pc_egress_kbps p)),
     (\<not> distinct (pc_tagged_vlans p), TaggedDuplicate),
     (pc_vlan_mode p = Access \<and> pc_tagged_vlans p \<noteq> [], AccessWithTagged),
     (opt_in (pc_pvid p) (pc_tagged_vlans p), NativeTagged),
     (pc_bpdu_guard p \<and> \<not> pc_edge p, GuardWithoutEdge)]"

definition vlan_checks :: "vlan \<Rightarrow> checks" where
  "vlan_checks v = [field ''id'' (vlan_number (vl_id v)), field ''name'' (label (vl_name v))]"

text \<open>The pattern \<^verbatim>\<open>^ae(?:[0-9]|[1-5][0-9]|6[0-3])$\<close>: exactly ae0 to ae63.\<close>

definition lag_name_ok :: "string \<Rightarrow> bool" where
  "lag_name_ok n \<longleftrightarrow> n \<in> set (map (\<lambda>i. ''ae'' @ decimal i) [0..<64])"

definition lag_field_checks :: "lag \<Rightarrow> checks" where
  "lag_field_checks l =
    [field ''name'' (lag_name_ok (lg_name l)),
     field ''members'' (1 \<le> length (lg_members l) \<and> length (lg_members l) \<le> 16
                        \<and> list_all port_number (lg_members l)),
     field ''minimum_links'' (1 \<le> lg_minimum_links l \<and> lg_minimum_links l \<le> 16)]"

subsection \<open>Addresses\<close>

definition hex_digit :: "char \<Rightarrow> bool" where
  "hex_digit c \<longleftrightarrow> c \<in> set ''0123456789abcdefABCDEF''"

definition lower :: "char \<Rightarrow> char" where
  "lower c = (let n = (of_char c :: nat) in if 65 \<le> n \<and> n \<le> 90 then char_of (n + 32) else c)"

fun hex_value :: "char \<Rightarrow> int" where
  "hex_value c =
    (let n = int (of_char (lower c)) in if 97 \<le> n then n - 87 else n - 48)"

text \<open>\<^verbatim>\<open>re.fullmatch(r"(?:[0-9A-Fa-f]{2}:){5}[0-9A-Fa-f]{2}", value)\<close>\<close>

definition mac_format :: "string \<Rightarrow> bool" where
  "mac_format s \<longleftrightarrow> length s = 17 \<and>
     list_all (\<lambda>i. if i mod 3 = 2 then s ! i = CHR '':'' else hex_digit (s ! i)) [0..<17]"

definition first_octet :: "string \<Rightarrow> int" where
  "first_octet s = 16 * hex_value (s ! 0) + hex_value (s ! 1)"

definition static_mac_checks :: "static_mac \<Rightarrow> checks" where
  "static_mac_checks m =
    [(\<not> mac_format (sm_mac m), MacFormat),
     (odd (first_octet (sm_mac m)) \<or> map lower (sm_mac m) = ''00:00:00:00:00:00'', MacNotUnicast),
     field ''vlan'' (vlan_number (sm_vlan m)), field ''port'' (port_number (sm_port m))]"

fun split_on :: "char \<Rightarrow> string \<Rightarrow> string list" where
  "split_on sep [] = [[]]"
| "split_on sep (c # cs) =
     (if c = sep then [] # split_on sep cs
      else case split_on sep cs of [] \<Rightarrow> [[c]] | w # ws \<Rightarrow> (c # w) # ws)"

definition digit :: "char \<Rightarrow> bool" where "digit c \<longleftrightarrow> c \<in> set ''0123456789''"

text \<open>
  \<^verbatim>\<open>ipaddress.IPv4Address(str)\<close>: four decimal octets of one to three ASCII digits, without
  leading zeros, none above 255. The canonical text of such an address is the text itself.
\<close>

definition octet_ok :: "string \<Rightarrow> bool" where
  "octet_ok s \<longleftrightarrow> s \<noteq> [] \<and> length s \<le> 3 \<and> list_all digit s
     \<and> (length s = 1 \<or> hd s \<noteq> CHR ''0'') \<and> undecimal s 0 \<le> 255"

definition parse_ipv4 :: "string \<Rightarrow> int option" where
  "parse_ipv4 s =
     (let parts = split_on (CHR ''.'') s
      in if length parts = 4 \<and> list_all octet_ok parts
         then Some (foldl (\<lambda>acc part. 256 * acc + int (undecimal part 0)) 0 parts) else None)"

definition is_multicast :: "int \<Rightarrow> bool" where
  "is_multicast a \<longleftrightarrow> drop_bit 28 a = 14"

definition ipv4_value :: "string \<Rightarrow> int" where
  "ipv4_value s = (case parse_ipv4 s of None \<Rightarrow> 0 | Some a \<Rightarrow> a)"

definition multicast_group_checks :: "multicast_group \<Rightarrow> checks" where
  "multicast_group_checks g =
    [(parse_ipv4 (mg_address g) = None, AddressFormat),
     (\<not> is_multicast (ipv4_value (mg_address g)), NotMulticast),
     field ''vlan'' (vlan_number (mg_vlan g)),
     field ''ports'' (1 \<le> length (mg_ports g) \<and> length (mg_ports g) \<le> 24 \<and> list_all port_number (mg_ports g))]"

subsection \<open>Protocols and quality of service\<close>

definition rstp_checks :: "rstp \<Rightarrow> checks" where
  "rstp_checks r = [field ''bridge_priority''
     (0 \<le> rs_bridge_priority r \<and> rs_bridge_priority r \<le> 61440 \<and> rs_bridge_priority r mod 4096 = 0)]"

definition lldp_checks :: "lldp \<Rightarrow> checks" where
  "lldp_checks l =
    [field ''transmit_interval'' (5 \<le> ll_transmit_interval l \<and> ll_transmit_interval l \<le> 3600),
     field ''hold_multiplier'' (2 \<le> ll_hold_multiplier l \<and> ll_hold_multiplier l \<le> 10)]"

definition igmp_checks :: "igmp \<Rightarrow> checks" where
  "igmp_checks i =
    [field ''vlans'' (length (ig_vlans i) \<le> 256 \<and> list_all vlan_number (ig_vlans i)),
     field ''router_ports'' (list_all port_number (ig_router_ports i)),
     field ''fast_leave_ports'' (list_all port_number (ig_fast_leave_ports i)),
     field ''membership_timeout'' (10 \<le> ig_membership_timeout i \<and> ig_membership_timeout i \<le> 3600),
     field ''static_groups'' (length (ig_static_groups i) \<le> 256)]
    @ concat (map multicast_group_checks (ig_static_groups i))"

definition pfc_watchdog_checks :: "pfc_watchdog \<Rightarrow> checks" where
  "pfc_watchdog_checks w =
    [field ''detect_ms'' (1000 \<le> wd_detect_ms w \<and> wd_detect_ms w \<le> 60000),
     field ''recovery_ms'' (100 \<le> wd_recovery_ms w \<and> wd_recovery_ms w \<le> 1000),
     field ''cooldown_ms'' (10000 \<le> wd_cooldown_ms w \<and> wd_cooldown_ms w \<le> 600000),
     (wd_cooldown_ms w < wd_detect_ms w, WatchdogCooldown)]"

definition roce_checks :: "roce \<Rightarrow> checks" where
  "roce_checks r =
    [field ''ports'' (length (ro_ports r) \<le> 24 \<and> list_all port_number (ro_ports r)),
     field ''dscp'' (0 \<le> ro_dscp r \<and> ro_dscp r \<le> 63),
     field ''cnp_dscp'' (0 \<le> ro_cnp_dscp r \<and> ro_cnp_dscp r \<le> 63)]
    @ pfc_watchdog_checks (ro_watchdog r) @
    [field ''cable_length_m'' (0 \<le> ro_cable_length_m r \<and> ro_cable_length_m r \<le> 100),
     field ''response_time_ns'' (500 \<le> ro_response_time_ns r \<and> ro_response_time_ns r \<le> 10000),
     (\<not> distinct (ro_ports r), RoceDuplicatePorts),
     (ro_enabled r \<and> length (ro_ports r) < 2, RoceTooFewPorts),
     (ro_classification r = Dscp \<and> ro_dscp r = ro_cnp_dscp r, RoceSameDscp)]"

definition qos_checks :: "qos \<Rightarrow> checks" where
  "qos_checks q = roce_checks (qo_roce q) @
    [field ''default_priority'' (0 \<le> qo_default_priority q \<and> qo_default_priority q \<le> 7),
     field ''priority_map'' (length (qo_priority_map q) = 8 \<and> list_all (\<lambda>x. 0 \<le> x \<and> x \<le> 7) (qo_priority_map q)),
     field ''weights'' (length (qo_weights q) = 8 \<and> list_all (\<lambda>x. 1 \<le> x \<and> x \<le> 255) (qo_weights q))]"

definition mirror_checks :: "mirror \<Rightarrow> checks" where
  "mirror_checks m =
    [field ''source'' (opt_ok port_number (mi_source m)),
     field ''destination'' (opt_ok port_number (mi_destination m)),
     (mi_enabled m \<and> (mi_source m = None \<or> mi_destination m = None \<or> mi_source m = mi_destination m),
      MirrorEndpoints)]"

definition fan_curve_checks :: "fan_curve \<Rightarrow> checks" where
  "fan_curve_checks f =
    [field ''idle_temperature_c'' (10 \<le> fc_idle_temperature_c f \<and> fc_idle_temperature_c f \<le> 80),
     field ''load_temperature_c'' (20 \<le> fc_load_temperature_c f \<and> fc_load_temperature_c f \<le> 90),
     field ''critical_temperature_c'' (30 \<le> fc_critical_temperature_c f \<and> fc_critical_temperature_c f \<le> 100),
     field ''idle_speed_percent'' (25 \<le> fc_idle_speed_percent f \<and> fc_idle_speed_percent f \<le> 100),
     field ''load_speed_percent'' (25 \<le> fc_load_speed_percent f \<and> fc_load_speed_percent f \<le> 100),
     field ''hysteresis_c'' (1 \<le> fc_hysteresis_c f \<and> fc_hysteresis_c f \<le> 15),
     (\<not> (fc_idle_temperature_c f + 10 \<le> fc_load_temperature_c f
         \<and> fc_load_temperature_c f < fc_critical_temperature_c f), FanTemperatures),
     (fc_load_speed_percent f < fc_idle_speed_percent f, FanSpeeds)]"

subsection \<open>Ports of a configuration\<close>

text \<open>
  \<^verbatim>\<open>self.ports[p]\<close>. A port number that reaches a lookup is in 1..24 by its field constraint,
  and the slot check has required all of 1..24 to be present, so the fallback (the KeyError)
  is not reached by a validation that gets that far; \<open>slot_lookup\<close> in the theory
  Switch\_Config proves it.
\<close>

definition port_of :: "switch_configuration \<Rightarrow> int \<Rightarrow> port_config" where
  "port_of c p = (case map_of (sc_ports c) p of Some cfg \<Rightarrow> cfg | None \<Rightarrow> default_port)"

definition active_ports :: "switch_configuration \<Rightarrow> int list" where
  "active_ports c = concat (map group_active_ports (sc_groups c))"

definition speed :: "switch_configuration \<Rightarrow> int \<Rightarrow> int" where
  "speed c port =
     (case find (\<lambda>g. port \<in> set (group_active_ports g)) (sc_groups c) of
        None \<Rightarrow> 0 | Some g \<Rightarrow> group_speed g port)"

text \<open>The VLANs of a port, \<^verbatim>\<open>{p.pvid, *p.tagged_vlans}\<close> without the None.\<close>

definition port_vlan_list :: "port_config \<Rightarrow> int list" where
  "port_vlan_list p = (case pc_pvid p of None \<Rightarrow> [] | Some v \<Rightarrow> [v]) @ pc_tagged_vlans p"

lemma set_port_vlan_list: "set (port_vlan_list p) = set_option (pc_pvid p) \<union> set (pc_tagged_vlans p)"
  by (auto simp: port_vlan_list_def split: option.splits)

definition references :: "switch_configuration \<Rightarrow> int \<Rightarrow> reference list" where
  "references c port =
     (let p = port_of c port; r = qo_roce (sc_qos c); i = sc_igmp c; m = sc_mirror c in
      (if ro_enabled r \<and> port \<in> set (ro_ports r) then [RefRoce] else [])
    @ (if pc_enabled p then [RefAdmin] else [])
    @ (if pc_pvid p \<noteq> None \<or> pc_tagged_vlans p \<noteq> [] then [RefVlan] else [])
    @ (if pc_edge p \<or> pc_bpdu_guard p \<or> pc_path_cost p \<noteq> 0 then [RefRstp] else [])
    @ (if pc_ingress_kbps p \<noteq> 0 \<or> pc_egress_kbps p \<noteq> 0 \<or> list_ex (\<lambda>r. r \<noteq> 0) (storm_rates (pc_storm p))
       then [RefTraffic] else [])
    @ map (\<lambda>l. RefLag (lg_name l)) (filter (\<lambda>l. port \<in> set (lg_members l)) (sc_lags c))
    @ (if list_ex (\<lambda>e. sm_port e = port) (sc_static_macs c) then [RefStaticMac] else [])
    @ (if mi_enabled m \<and> (mi_source m = Some port \<or> mi_destination m = Some port) then [RefMirror] else [])
    @ (if port \<in> set (ig_router_ports i) \<or> port \<in> set (ig_fast_leave_ports i)
          \<or> list_ex (\<lambda>g. port \<in> set (mg_ports g)) (ig_static_groups i) then [RefIgmp] else []))"

subsection \<open>Facts about slots\<close>

lemma group_active_ports_range:
  assumes "pg_epl g \<in> set EPLS" and "p \<in> set (group_active_ports g)"
  shows "port_number p \<and> base_of (pg_epl g) \<le> p \<and> p < base_of (pg_epl g) + 4"
  using assms(1)
  by (rule EPLS_cases)
    (use assms(2) in \<open>auto simp: group_active_ports_def physical_of_eval port_number_def Let_def
       split: if_splits\<close>)

lemma base_of_separated:
  assumes "a \<in> set EPLS" and "b \<in> set EPLS" and "a \<noteq> b"
  shows "base_of a + 4 \<le> base_of b \<or> base_of b + 4 \<le> base_of a"
  using assms(1,2)
  by (elim EPLS_cases) (use assms(3) in \<open>simp_all add: physical_of_eval\<close>)

lemma group_active_ports_disjoint:
  assumes "pg_epl g \<in> set EPLS" and "pg_epl h \<in> set EPLS" and "pg_epl g \<noteq> pg_epl h"
    and "p \<in> set (group_active_ports g)"
  shows "p \<notin> set (group_active_ports h)"
  using base_of_separated [OF assms(1-3)] group_active_ports_range [OF assms(1,4)]
    group_active_ports_range [OF assms(2), of p] by auto

lemma group_speed_active:
  assumes "first_failure (port_group_checks g) = None" and "p \<in> set (group_active_ports g)"
  shows "group_speed g p \<in> {10, 25, 40, 100}"
proof -
  from assms(1) have epl: "pg_epl g \<in> set EPLS"
    and lanes: "length (pg_lane_speeds g) = 4" "list_all (\<lambda>s. s = 10 \<or> s = 25) (pg_lane_speeds g)"
    by (auto simp: port_group_checks_def check_simps field_def split: if_splits)
  from group_active_ports_range [OF epl assms(2)]
  have "nat (p - base_of (pg_epl g)) < 4" by auto
  with lanes have "pg_lane_speeds g ! nat (p - base_of (pg_epl g)) \<in> {10, 25}"
    by (auto simp: list_all_length)
  then show ?thesis using assms(2) by (auto simp: group_speed_def split: group_mode.splits)
qed

lemma group_speed_inactive: "p \<notin> set (group_active_ports g) \<Longrightarrow> group_speed g p = 0"
  by (simp add: group_speed_def)

end
