(* ===== verification/Roce_Policy.thy ===== *)
theory Roce_Policy
  imports Switch_Checks
begin

text \<open>
  The static RoCE envelope of roce.py: the DSCP map, the DCBX policy with its bandwidth
  apportionment, the headroom and buffer arithmetic and the list of configuration issues.
  The bandwidth shares of any eight positive weights are shown to sum to exactly 100 with
  no class below one percent, and the shares to be within one percent of proportionality.
\<close>

subsection \<open>Constants and maps\<close>

definition SEGMENT :: int where "SEGMENT = 192"
definition PAUSE_BUFFER_BYTES :: int where "PAUSE_BUFFER_BYTES = 49152"
definition MAX_CARDINAL_PORTS :: int where "MAX_CARDINAL_PORTS = 30"
definition MEMORY_SEGMENTS :: int where "MEMORY_SEGMENTS = 24576"
definition RESERVED_SEGMENTS :: int where "RESERVED_SEGMENTS = 256"
definition CNP_PRIORITY :: int where "CNP_PRIORITY = 6"
definition CNP_TC :: int where "CNP_TC = 7"

definition dscp_map :: "switch_configuration \<Rightarrow> int list" where
  "dscp_map c =
     (let r = qo_roce (sc_qos c); values = replicate 64 0
      in if ro_enabled r \<and> ro_classification r = Dscp
         then values[nat (ro_dscp r) := 3, nat (ro_cnp_dscp r) := CNP_PRIORITY] else values)"

record dcbx_app =
  da_selector :: int
  da_protocol :: int
  da_priority :: int

record dcbx_policy =
  dp_enabled :: bool
  dp_pfc_mask :: int
  dp_priority_map :: "int list"
  dp_bandwidth :: "int list"
  dp_tsa_map :: "int list"
  dp_applications :: "dcbx_app list"

text \<open>The traffic classes that take part in the ETS apportionment.\<close>

definition ets_classes :: "classification \<Rightarrow> int list" where
  "ets_classes cl = filter (\<lambda>tc. \<not> (cl = Dscp \<and> tc = CNP_TC)) [0, 1, 2, 3, 4, 5, 6, 7]"

text \<open>
  The two loops over the classes: one percent plus the floor of the proportional share, then
  one more percent for the classes with the largest remainders (ties to the lower class).
\<close>

definition base_bandwidth :: "int list \<Rightarrow> int list \<Rightarrow> int list" where
  "base_bandwidth classes weights =
     (let total = sum_list (map (\<lambda>tc. weights ! nat tc) classes);
          remaining = 100 - int (length classes)
      in fold (\<lambda>tc bw. bw[nat tc := 1 + remaining * (weights ! nat tc) div total]) classes
           (replicate 8 0))"

definition remainder_order :: "int list \<Rightarrow> int list \<Rightarrow> int list" where
  "remainder_order classes weights =
     (let total = sum_list (map (\<lambda>tc. weights ! nat tc) classes);
          remaining = 100 - int (length classes)
      in sort_key (\<lambda>tc. (- (remaining * (weights ! nat tc) mod total), tc)) classes)"

definition ets_bandwidth :: "int list \<Rightarrow> int list \<Rightarrow> int list" where
  "ets_bandwidth classes weights =
     (let bw = base_bandwidth classes weights
      in fold (\<lambda>tc bw. bw[nat tc := bw ! nat tc + 1])
           (py_prefix (remainder_order classes weights) (100 - sum_list bw)) bw)"

definition dcbx_policy_of :: "switch_configuration \<Rightarrow> dcbx_policy" where
  "dcbx_policy_of c =
     (let r = qo_roce (sc_qos c); classes = ets_classes (ro_classification r)
      in \<lparr>dp_enabled = ro_enabled r \<and> ro_dcbx r = DcbxIeee, dp_pfc_mask = 8,
          dp_priority_map = qo_priority_map (sc_qos c),
          dp_bandwidth = ets_bandwidth classes (qo_weights (sc_qos c)),
          dp_tsa_map = map (\<lambda>tc. if tc \<in> set classes then 2 else 0) [0, 1, 2, 3, 4, 5, 6, 7],
          dp_applications =
            (if ro_classification r = Dscp
             then [\<lparr>da_selector = 5, da_protocol = ro_dscp r, da_priority = 3\<rparr>,
                   \<lparr>da_selector = 5, da_protocol = ro_cnp_dscp r, da_priority = 6\<rparr>]
             else [\<lparr>da_selector = 3, da_protocol = 4791, da_priority = 3\<rparr>])\<rparr>)"

subsection \<open>Buffer arithmetic\<close>

definition port_vlans :: "port_config \<Rightarrow> classification \<Rightarrow> int list" where
  "port_vlans p cl =
     (if cl = Pcp then (if pc_vlan_mode p = Trunk then pc_tagged_vlans p else [])
      else pc_tagged_vlans p @ (case pc_pvid p of None \<Rightarrow> [] | Some v \<Rightarrow> [v]))"

definition frame_bytes :: "int \<Rightarrow> int" where
  "frame_bytes mtu = (mtu + 25) AND NOT 3"

definition headroom_bytes :: "int \<Rightarrow> int \<Rightarrow> int \<Rightarrow> int \<Rightarrow> int" where
  "headroom_bytes speed_gbps l2_mtu cable_m response_ns =
     (let frame = frame_bytes l2_mtu;
          flight = (speed_gbps * (response_ns + 10 * cable_m) + 7) div 8
      in ((flight + 2 * frame + 1500 + SEGMENT - 1) div SEGMENT) * SEGMENT)"

record buffer_budget =
  bb_pause_buffer_bytes :: int
  bb_cardinal_ports :: int
  bb_lossless_partition_bytes :: int
  bb_remaining_bytes :: int
  bb_valid :: bool

definition buffer_budget_for :: "int \<Rightarrow> int \<Rightarrow> buffer_budget" where
  "buffer_budget_for max_l2_mtu cardinal_ports =
     (let frame = frame_bytes max_l2_mtu;
          partition = ((MEMORY_SEGMENTS - RESERVED_SEGMENTS) div 2) * SEGMENT;
          overshoot = ((cardinal_ports * frame + SEGMENT - 1) div SEGMENT) * SEGMENT;
          available = partition - overshoot - cardinal_ports * PAUSE_BUFFER_BYTES
      in \<lparr>bb_pause_buffer_bytes = PAUSE_BUFFER_BYTES, bb_cardinal_ports = cardinal_ports,
          bb_lossless_partition_bytes = partition, bb_remaining_bytes = available,
          bb_valid = (0 < cardinal_ports \<and> cardinal_ports \<le> MAX_CARDINAL_PORTS \<and> available > SEGMENT)\<rparr>)"

abbreviation buffer_budget :: "int \<Rightarrow> buffer_budget" where
  "buffer_budget mtu \<equiv> buffer_budget_for mtu MAX_CARDINAL_PORTS"

definition max_mtu :: "switch_configuration \<Rightarrow> int" where
  "max_mtu c = fold (\<lambda>p m. max m (pc_mtu (snd p))) (tl (sc_ports c)) (pc_mtu (snd (hd (sc_ports c))))"

subsection \<open>Configuration issues\<close>

definition lag_members :: "switch_configuration \<Rightarrow> int list" where
  "lag_members c = concat (map lg_members (sc_lags c))"

definition reserves :: "int list \<Rightarrow> int \<Rightarrow> int \<Rightarrow> bool" where
  "reserves priority_map priority tc \<longleftrightarrow> priority_map ! nat priority = tc \<and>
     \<not> list_ex (\<lambda>(p, t). t = tc \<and> p \<noteq> priority) (enumerate_int priority_map)"

definition port_issues :: "switch_configuration \<Rightarrow> int \<Rightarrow> (bool \<times> roce_issue) list" where
  "port_issues c n =
     (let r = qo_roce (sc_qos c); p = port_of c n in
      [(n \<notin> set (active_ports c) \<or> n \<in> set (lag_members c), IssuePortKind n),
       (\<not> pc_enabled p \<or> speed c n \<notin> {10, 25, 40, 100}, IssuePortDisabled n),
       (port_vlans p (ro_classification r) = [], IssuePortVlan n),
       (ro_dcbx r = DcbxIeee \<and> \<not> pc_lldp p, IssuePortLldp n),
       (ro_classification r = Dscp \<and> pc_egress_kbps p \<noteq> 0, IssueEgressShaping n),
       (pc_ingress_kbps p \<noteq> 0, IssueIngressLimit n),
       (headroom_bytes (speed c n) (pc_mtu p) (ro_cable_length_m r) (ro_response_time_ns r)
          > PAUSE_BUFFER_BYTES, IssueHeadroom n)])"

definition common_vlans :: "switch_configuration \<Rightarrow> int list" where
  "common_vlans c =
     (let r = qo_roce (sc_qos c); vl = (\<lambda>n. port_vlans (port_of c n) (ro_classification r)) in
      case ro_ports r of
        [] \<Rightarrow> []
      | n # ns \<Rightarrow> filter (\<lambda>v. list_all (\<lambda>m. v \<in> set (vl m)) ns) (vl n))"

definition issue_checks :: "switch_configuration \<Rightarrow> (bool \<times> roce_issue) list" where
  "issue_checks c =
     (let q = sc_qos c; r = qo_roce q; selected = ro_ports r in
      [(length (remdups selected) < 2, IssueTooFewPorts),
       (\<not> reserves (qo_priority_map q) 3 3, IssuePriorityMapData),
       (qo_default_priority q = 3, IssueDefaultPriorityData),
       (ro_classification r = Dscp \<and> \<not> reserves (qo_priority_map q) CNP_PRIORITY CNP_TC, IssuePriorityMapCnp),
       (ro_classification r = Dscp \<and> qo_default_priority q = 6, IssueDefaultPriorityCnp),
       (ro_dcbx r = DcbxIeee \<and> \<not> ll_enabled (sc_lldp c), IssueLldpDisabled),
       (qo_trust q \<noteq> TrustNone
          \<and> list_ex (\<lambda>(n, p). pc_enabled p \<and> n \<notin> set selected) (sc_ports c), IssueTrustConflict)]
    @ concat (map (port_issues c) selected) @
      [(selected \<noteq> [] \<and> common_vlans c = [], IssueNoCommonVlan),
       (\<not> bb_valid (buffer_budget (max_mtu c)), IssueBufferBudget)])"

text \<open>\<^verbatim>\<open>configuration_issues\<close> returns every issue found, in the order of the source.\<close>

definition configuration_issues :: "switch_configuration \<Rightarrow> roce_issue list" where
  "configuration_issues c =
     (if \<not> ro_enabled (qo_roce (sc_qos c)) then [] else map snd (filter fst (issue_checks c)))"

lemma configuration_issues_Nil:
  "configuration_issues c = [] \<longleftrightarrow>
     (ro_enabled (qo_roce (sc_qos c)) \<longrightarrow> first_failure (issue_checks c) = None)"
  by (auto simp: configuration_issues_def first_failure_None_iff filter_empty_conv)

subsection \<open>Headroom arithmetic\<close>

lemma frame_bytes_eq: "frame_bytes mtu = 4 * ((mtu + 25) div 4)"
  using and_not_mask_int [of "mtu + 25" 2] by (simp add: frame_bytes_def mask_eq_exp_minus_1)

lemma frame_bytes_bounds: "mtu + 22 \<le> frame_bytes mtu \<and> frame_bytes mtu \<le> mtu + 25"
  unfolding frame_bytes_eq by presburger

lemma frame_bytes_mono: "m \<le> n \<Longrightarrow> frame_bytes m \<le> frame_bytes n"
  unfolding frame_bytes_eq by (simp add: zdiv_mono1)

lemma round_up_segment:
  "n \<le> ((n + SEGMENT - 1) div SEGMENT) * SEGMENT \<and> ((n + SEGMENT - 1) div SEGMENT) * SEGMENT < n + SEGMENT"
  unfolding SEGMENT_def by presburger

subsection \<open>Bandwidth shares\<close>

lemma length_fold_update [simp]: "length (fold (\<lambda>tc bw. bw[h tc := g tc bw]) xs bw) = length bw"
  by (induction xs arbitrary: bw) auto

lemma nth_fold_assign:
  "distinct xs \<Longrightarrow> (\<forall>tc \<in> set xs. nat tc < length bw \<and> 0 \<le> tc) \<Longrightarrow> i < length bw \<Longrightarrow>
   fold (\<lambda>tc bw. bw[nat tc := g tc]) xs bw ! i = (if int i \<in> set xs then g (int i) else bw ! i)"
  by (induction xs arbitrary: bw) (auto simp: nth_list_update)

lemma sum_fold_assign:
  fixes g :: "int \<Rightarrow> int"
  shows "distinct xs \<Longrightarrow> (\<forall>tc \<in> set xs. nat tc < length bw \<and> 0 \<le> tc \<and> bw ! nat tc = 0) \<Longrightarrow>
   sum_list (fold (\<lambda>tc bw. bw[nat tc := g tc]) xs bw) = sum_list bw + (\<Sum>tc\<leftarrow>xs. g tc)"
proof (induction xs arbitrary: bw)
  case (Cons x xs)
  then have "\<forall>tc \<in> set xs. (bw[nat x := g x]) ! nat tc = 0"
    by (auto simp: nth_list_update nat_eq_iff2)
  with Cons show ?case by (simp add: sum_list_update_group)
qed simp

lemma sum_fold_increment:
  fixes bw :: "int list"
  shows "(\<forall>tc \<in> set xs. nat tc < length bw) \<Longrightarrow>
   sum_list (fold (\<lambda>tc bw. bw[nat tc := bw ! nat tc + 1]) xs bw) = sum_list bw + int (length xs)"
  by (induction xs arbitrary: bw) (simp_all add: sum_list_update_group)

lemma nth_fold_increment:
  fixes bw :: "int list"
  shows "distinct xs \<Longrightarrow> (\<forall>tc \<in> set xs. nat tc < length bw \<and> 0 \<le> tc) \<Longrightarrow> i < length bw \<Longrightarrow>
   fold (\<lambda>tc bw. bw[nat tc := bw ! nat tc + 1]) xs bw ! i = bw ! i + (if int i \<in> set xs then 1 else 0)"
  by (induction xs arbitrary: bw) (auto simp: nth_list_update)

text \<open>
  The apportionment for any distinct classes below eight and positive weights: the shares
  sum to 100, a class gets one percent plus the floor or the ceiling of its proportional
  share of the rest, and every other class gets nothing.
\<close>

definition proportional :: "int list \<Rightarrow> int list \<Rightarrow> int \<Rightarrow> int" where
  "proportional classes weights tc =
     (100 - int (length classes)) * (weights ! nat tc) div (\<Sum>c\<leftarrow>classes. weights ! nat c)"

lemma ets_bandwidth_core:
  assumes classes: "distinct classes" "classes \<noteq> []" "set classes \<subseteq> {0..<8}"
    and weights: "\<forall>tc \<in> set classes. 1 \<le> weights ! nat tc"
  shows "length (ets_bandwidth classes weights) = 8"
    and "sum_list (ets_bandwidth classes weights) = 100"
    and "\<And>i. i < 8 \<Longrightarrow> int i \<notin> set classes \<Longrightarrow> ets_bandwidth classes weights ! i = 0"
    and "\<And>i. int i \<in> set classes \<Longrightarrow>
           1 + proportional classes weights (int i) \<le> ets_bandwidth classes weights ! i
         \<and> ets_bandwidth classes weights ! i \<le> 2 + proportional classes weights (int i)"
proof -
  define T where "T = (\<Sum>c\<leftarrow>classes. weights ! nat c)"
  define R where "R = 100 - int (length classes)"
  define g where "g = (\<lambda>tc. 1 + R * (weights ! nat tc) div T)"
  define bw where "bw = base_bandwidth classes weights"
  define order where "order = remainder_order classes weights"
  define D where "D = (\<Sum>c\<leftarrow>classes. R * (weights ! nat c) mod T)"
  have "\<And>xs. xs \<noteq> [] \<Longrightarrow> \<forall>tc \<in> set xs. 1 \<le> weights ! nat tc \<Longrightarrow> 0 < (\<Sum>c\<leftarrow>xs. weights ! nat c)"
  proof -
    fix xs show "xs \<noteq> [] \<Longrightarrow> \<forall>tc \<in> set xs. 1 \<le> weights ! nat tc \<Longrightarrow> 0 < (\<Sum>c\<leftarrow>xs. weights ! nat c)"
    proof (induction xs)
      case (Cons a xs)
      then show ?case by (cases "xs = []") fastforce+
    qed simp
  qed
  with classes(2) weights have T: "0 < T" unfolding T_def by blast
  have in8: "\<forall>tc \<in> set classes. nat tc < 8 \<and> 0 \<le> tc" using classes(3) by (force simp: nat_less_iff)
  have bw: "bw = fold (\<lambda>tc bw. bw[nat tc := g tc]) classes (replicate 8 0)"
    by (simp add: bw_def base_bandwidth_def Let_def g_def R_def T_def)
  have len: "length bw = 8" by (simp add: bw)
  have nth: "bw ! i = (if int i \<in> set classes then g (int i) else 0)" if "i < 8" for i
    using nth_fold_assign [of classes "replicate 8 0" i g] classes(1) in8 that by (simp add: bw)
  have "sum_list bw = (\<Sum>tc\<leftarrow>classes. g tc)"
    using sum_fold_assign [of classes "replicate 8 0" g] classes(1) in8
    by (simp add: bw sum_list_replicate)
  then have sum_bw: "sum_list bw = int (length classes) + (\<Sum>c\<leftarrow>classes. R * (weights ! nat c) div T)"
    by (simp add: g_def sum_list_addf sum_list_triv)
  have "R * T = T * (\<Sum>c\<leftarrow>classes. R * (weights ! nat c) div T) + D"
    using sum_list_map_mod_div [of "\<lambda>c. R * (weights ! nat c)" classes T]
    by (simp add: T_def D_def sum_list_const_mult)
  then have defect: "T * (100 - sum_list bw) = D"
    by (simp add: sum_bw R_def algebra_simps)
  have "0 \<le> D" unfolding D_def using T by (rule sum_list_mod_bounds(1))
  have "D < T * int (length classes)" unfolding D_def using T classes(2) by (rule sum_list_mod_bounds(2))
  with defect T \<open>0 \<le> D\<close> have k0: "0 \<le> 100 - sum_list bw" and k1: "100 - sum_list bw < int (length classes)"
    by (metis zero_le_mult_iff order_less_le not_less, metis mult_less_cancel_left_pos)
  have order: "distinct order" "set order = set classes" "length order = length classes"
    using classes(1) by (simp_all add: order_def remainder_order_def Let_def)
  define extra where "extra = py_prefix order (100 - sum_list bw)"
  have extra: "extra = take (nat (100 - sum_list bw)) order"
    using k0 by (simp add: extra_def py_prefix_def)
  have extra_facts: "distinct extra" "set extra \<subseteq> set classes" "int (length extra) = 100 - sum_list bw"
    using order k0 k1 set_take_subset [of "nat (100 - sum_list bw)" order] by (auto simp: extra)
  have extra8: "\<forall>tc \<in> set extra. nat tc < 8 \<and> 0 \<le> tc" using in8 extra_facts(2) by blast
  have result: "ets_bandwidth classes weights =
      fold (\<lambda>tc bw. bw[nat tc := bw ! nat tc + 1]) extra bw"
    by (simp add: ets_bandwidth_def Let_def extra_def order_def bw_def)
  have nth_result: "ets_bandwidth classes weights ! i = bw ! i + (if int i \<in> set extra then 1 else 0)"
    if "i < 8" for i
    using nth_fold_increment [of extra bw i] extra_facts extra8 that by (auto simp: result len)
  show "length (ets_bandwidth classes weights) = 8" by (simp add: result len)
  show "sum_list (ets_bandwidth classes weights) = 100"
    using sum_fold_increment [of extra bw] extra_facts extra8 by (auto simp: result len)
  show "ets_bandwidth classes weights ! i = 0" if "i < 8" "int i \<notin> set classes" for i
    using nth_result [OF that(1)] nth [OF that(1)] that extra_facts(2) by auto
  show "1 + proportional classes weights (int i) \<le> ets_bandwidth classes weights ! i
      \<and> ets_bandwidth classes weights ! i \<le> 2 + proportional classes weights (int i)"
    if "int i \<in> set classes" for i
  proof -
    from in8 that have "i < 8" by force
    with nth_result [of i] nth [of i] that show ?thesis
      by (auto simp: g_def proportional_def R_def T_def)
  qed
qed

lemma ets_classes_props:
  "distinct (ets_classes cl)" "ets_classes cl \<noteq> []" "set (ets_classes cl) \<subseteq> {0..<8}"
  "cl = Pcp \<Longrightarrow> set (ets_classes cl) = {0..<8}" "cl = Dscp \<Longrightarrow> set (ets_classes cl) = {0..<7}"
  by (cases cl; auto simp: ets_classes_def CNP_TC_def)+

end
