(* ===== verification/Switch_Config.thy ===== *)
theory Switch_Config
  imports Roce_Policy
begin

text \<open>
  Validation of a whole configuration (\<^verbatim>\<open>SwitchConfiguration.cross_validate\<close> after the field
  checks of every nested model) and the invariant a validated configuration satisfies.
\<close>

subsection \<open>Normalisation and field checks\<close>

text \<open>The MAC validator returns the lower-case text; no other validator changes its value.\<close>

definition normalise :: "switch_configuration \<Rightarrow> switch_configuration" where
  "normalise c = c\<lparr>sc_static_macs := map (\<lambda>m. m\<lparr>sm_mac := map lower (sm_mac m)\<rparr>) (sc_static_macs c)\<rparr>"

definition field_checks :: "switch_configuration \<Rightarrow> checks" where
  "field_checks c =
     [field ''groups'' (length (sc_groups c) = 6)]
   @ concat (map port_group_checks (sc_groups c))
   @ concat (map (\<lambda>p. port_config_checks (snd p)) (sc_ports c))
   @ [field ''vlans'' (length (sc_vlans c) \<le> 4094)]
   @ concat (map vlan_checks (sc_vlans c))
   @ [field ''lags'' (length (sc_lags c) \<le> 64)]
   @ concat (map lag_field_checks (sc_lags c))
   @ [field ''static_macs'' (length (sc_static_macs c) \<le> 1024)]
   @ concat (map static_mac_checks (sc_static_macs c))
   @ [field ''mac_aging_seconds'' (10 \<le> sc_mac_aging_seconds c \<and> sc_mac_aging_seconds c \<le> 1000000)]
   @ rstp_checks (sc_rstp c) @ lldp_checks (sc_lldp c) @ igmp_checks (sc_igmp c)
   @ qos_checks (sc_qos c) @ mirror_checks (sc_mirror c) @ fan_curve_checks (sc_fan c)"

subsection \<open>Cross validation\<close>

definition vlan_ids :: "switch_configuration \<Rightarrow> int list" where
  "vlan_ids c = map vl_id (sc_vlans c)"

definition controllers :: "switch_configuration \<Rightarrow> int" where
  "controllers c = sum_list (map (\<lambda>(n, p). (if pc_ingress_kbps p \<noteq> 0 then 1 else 0)
      + int (length (filter (\<lambda>r. r \<noteq> 0) (storm_rates (pc_storm p))))) (sc_ports c))"

definition port_cross_checks :: "switch_configuration \<Rightarrow> int \<times> port_config \<Rightarrow> checks" where
  "port_cross_checks c entry = (case entry of (port, cfg) \<Rightarrow>
     [(port \<notin> set (active_ports c) \<and> references c port \<noteq> [], InactiveReferenced port (references c port)),
      (\<not> set (port_vlan_list cfg) \<subseteq> set (vlan_ids c), PortUnknownVlan port),
      (pc_enabled cfg \<and> pc_pvid cfg = None \<and> pc_tagged_vlans cfg = [], PortWithoutVlan port),
      (list_ex (\<lambda>rate. rate \<noteq> 0 \<and> rate > speed c port * 1000000)
         (pc_ingress_kbps cfg # pc_egress_kbps cfg # storm_rates (pc_storm cfg)), PortRateAboveSpeed port)])"

definition lag_profile ::
  "switch_configuration \<Rightarrow> int \<Rightarrow> int \<times> int \<times> vlan_mode \<times> int option \<times> int list \<times> bool" where
  "lag_profile c n = (let p = port_of c n in
     (speed c n, pc_mtu p, pc_vlan_mode p, pc_pvid p, sort (pc_tagged_vlans p), pc_ingress_filtering p))"

text \<open>The loop over the LAGs carries the names and members of the LAGs already accepted.\<close>

fun lag_cross_checks :: "switch_configuration \<Rightarrow> string list \<Rightarrow> int list \<Rightarrow> lag list \<Rightarrow> checks" where
  "lag_cross_checks c names members [] = []"
| "lag_cross_checks c names members (l # ls) =
     [(lg_name l \<in> set names \<or> \<not> distinct (lg_members l), LagDuplicate),
      (\<not> set (lg_members l) \<subseteq> set (active_ports c) \<or> set members \<inter> set (lg_members l) \<noteq> {}, LagMember),
      (lg_minimum_links l > int (length (lg_members l)), LagMinimumLinks),
      (length (remdups (map (lag_profile c) (lg_members l))) \<noteq> 1, LagProfile (lg_name l))]
   @ lag_cross_checks c (lg_name l # names) (lg_members l @ members) ls"

fun static_mac_cross_checks :: "switch_configuration \<Rightarrow> (string \<times> int) list \<Rightarrow> static_mac list \<Rightarrow> checks" where
  "static_mac_cross_checks c seen [] = []"
| "static_mac_cross_checks c seen (m # ms) =
     [(sm_vlan m \<notin> set (vlan_ids c) \<or> sm_port m \<notin> set (active_ports c), MacUnknown),
      (sm_vlan m \<notin> set (port_vlan_list (port_of c (sm_port m))), MacNotMember),
      ((sm_mac m, sm_vlan m) \<in> set seen, MacDuplicate)]
   @ static_mac_cross_checks c ((sm_mac m, sm_vlan m) # seen) ms"

definition mirror_cross_checks :: "switch_configuration \<Rightarrow> checks" where
  "mirror_cross_checks c = (let m = sc_mirror c in
     [(mi_enabled m \<and> \<not> (opt_in (mi_source m) (active_ports c) \<and> opt_in (mi_destination m) (active_ports c)),
       MirrorInactive),
      (mi_enabled m \<and> opt_in (mi_destination m) (lag_members c), MirrorLagMember)])"

definition snooped_vlans :: "switch_configuration \<Rightarrow> int list" where
  "snooped_vlans c = ig_vlans (sc_igmp c) @ map mg_vlan (ig_static_groups (sc_igmp c))"

definition igmp_cross_checks :: "switch_configuration \<Rightarrow> checks" where
  "igmp_cross_checks c = (let i = sc_igmp c; ports = ig_router_ports i @ ig_fast_leave_ports i in
     [(\<not> set (ig_vlans i) \<subseteq> set (vlan_ids c), IgmpUnknownVlan),
      (\<not> set ports \<subseteq> set (active_ports c), IgmpInactivePort)]
   @ map (\<lambda>p. (set (snooped_vlans c) \<inter> set (port_vlan_list (port_of c p)) = {}, IgmpPortNotSnooped)) ports
   @ map (\<lambda>p. (\<not> pc_direct_receiver (port_of c p), IgmpFastLeave)) (ig_fast_leave_ports i))"

text \<open>The multicast MAC of an IPv4 group keeps only its low 23 bits.\<close>

definition group_mac :: "multicast_group \<Rightarrow> int" where
  "group_mac g = ipv4_value (mg_address g) AND 0x7fffff"

fun group_cross_checks :: "switch_configuration \<Rightarrow> multicast_group list \<Rightarrow> multicast_group list \<Rightarrow> checks" where
  "group_cross_checks c earlier [] = []"
| "group_cross_checks c earlier (g # gs) =
     [(list_ex (\<lambda>h. mg_vlan h = mg_vlan g \<and> mg_address h = mg_address g) earlier, GroupDuplicate),
      (mg_vlan g \<notin> set (vlan_ids c) \<or> \<not> set (mg_ports g) \<subseteq> set (active_ports c), GroupUnknown),
      (list_ex (\<lambda>p. mg_vlan g \<notin> set (port_vlan_list (port_of c p))) (mg_ports g), GroupNotMember),
      (list_ex (\<lambda>h. mg_vlan h = mg_vlan g \<and> group_mac h = group_mac g \<and> mg_address h \<noteq> mg_address g) earlier,
       GroupMacCollision)]
   @ group_cross_checks c (g # earlier) gs"

definition group_members :: "switch_configuration \<Rightarrow> multicast_group \<Rightarrow> (int \<times> string \<times> int) list" where
  "group_members c g = map (\<lambda>p. (mg_vlan g, mg_address g, p))
     (mg_ports g @ filter (\<lambda>p. mg_vlan g \<in> set (port_vlan_list (port_of c p))) (ig_router_ports (sc_igmp c)))"

definition static_members :: "switch_configuration \<Rightarrow> (int \<times> string \<times> int) list" where
  "static_members c = remdups (concat (map (group_members c) (ig_static_groups (sc_igmp c))))"

definition cross_checks :: "switch_configuration \<Rightarrow> checks" where
  "cross_checks c =
     [(set (map pg_epl (sc_groups c)) \<noteq> set EPLS, EplSet),
      (set (map fst (sc_ports c)) \<noteq> set (map int [1..<25]), SlotSet),
      (\<not> distinct (vlan_ids c), VlanDuplicate),
      (controllers c > STORM_CONTROLLER_CAPACITY, TooManyControllers (controllers c))]
   @ concat (map (port_cross_checks c) (sc_ports c))
   @ [(list_ex (\<lambda>g. pg_mode g = Split \<and> pg_split_vlan_backup g \<noteq> None) (sc_groups c), BackupNotRestored)]
   @ lag_cross_checks c [] [] (sc_lags c)
   @ (case configuration_issues c of [] \<Rightarrow> [] | issue # _ \<Rightarrow> [(True, RoceInvalid issue)])
   @ static_mac_cross_checks c [] (sc_static_macs c)
   @ mirror_cross_checks c
   @ igmp_cross_checks c
   @ group_cross_checks c [] (ig_static_groups (sc_igmp c))
   @ [(length (static_members c) > 32, GroupTooMany)]"

definition validate_configuration :: "switch_configuration \<Rightarrow> config_error + switch_configuration" where
  "validate_configuration c =
     raise_first (first_failure (field_checks c @ cross_checks (normalise c))) (normalise c)"

definition valid_configuration :: "switch_configuration \<Rightarrow> bool" where
  "valid_configuration c \<longleftrightarrow> validate_configuration c = Inr c"

subsection \<open>What acceptance means\<close>

lemma lower_idem [simp]: "lower (lower c) = lower c"
proof -
  have "(of_char c :: nat) < 256" by simp
  then show ?thesis by (auto simp: lower_def Let_def of_char_of)
qed

lemma normalise_idem [simp]: "normalise (normalise c) = normalise c"
  by (simp add: normalise_def comp_def)

lemma normalise_fields [simp]:
  "sc_groups (normalise c) = sc_groups c" "sc_ports (normalise c) = sc_ports c"
  "sc_vlans (normalise c) = sc_vlans c" "sc_lags (normalise c) = sc_lags c"
  "sc_igmp (normalise c) = sc_igmp c" "sc_qos (normalise c) = sc_qos c"
  "sc_mirror (normalise c) = sc_mirror c" "sc_fan (normalise c) = sc_fan c"
  "sc_lldp (normalise c) = sc_lldp c" "sc_rstp (normalise c) = sc_rstp c"
  "sc_profile (normalise c) = sc_profile c" "sc_mac_aging_seconds (normalise c) = sc_mac_aging_seconds c"
  by (simp_all add: normalise_def)

lemma lower_eq_colon [simp]: "lower c = CHR '':'' \<longleftrightarrow> c = CHR '':''"
proof -
  have "(of_char c :: nat) < 256" by simp
  moreover have "c = CHR '':'' \<longleftrightarrow> (of_char c :: nat) = 58"
    using of_char_eq_iff [where ?'a = nat, of c "CHR '':''"] by simp
  moreover have "lower c = CHR '':'' \<longleftrightarrow> (of_char (lower c) :: nat) = 58"
    using of_char_eq_iff [where ?'a = nat, of "lower c" "CHR '':''"] by simp
  ultimately show ?thesis by (auto simp: lower_def Let_def of_char_of)
qed

lemma hex_digit_lower:
  assumes "hex_digit c"
  shows "hex_digit (lower c)"
proof -
  have "list_all (\<lambda>c. hex_digit (lower c)) ''0123456789abcdefABCDEF''" by code_simp
  with assms show ?thesis unfolding hex_digit_def [of c] list_all_iff by blast
qed

lemma mac_format_lower:
  assumes "mac_format s"
  shows "mac_format (map lower s)"
  using assms by (auto simp: mac_format_def list_all_iff hex_digit_lower)

lemma first_octet_lower:
  assumes "mac_format s"
  shows "first_octet (map lower s) = first_octet s"
  using assms by (auto simp: mac_format_def first_octet_def)

lemma static_mac_checks_lower:
  assumes "first_failure (static_mac_checks m) = None"
  shows "first_failure (static_mac_checks (m\<lparr>sm_mac := map lower (sm_mac m)\<rparr>)) = None"
  using assms
  by (auto simp: static_mac_checks_def check_simps field_def mac_format_lower first_octet_lower comp_def
      split: if_splits)

lemma field_checks_normalise:
  assumes "first_failure (field_checks c) = None"
  shows "first_failure (field_checks (normalise c)) = None"
proof -
  have "sc_static_macs (normalise c) = map (\<lambda>m. m\<lparr>sm_mac := map lower (sm_mac m)\<rparr>) (sc_static_macs c)"
    by (simp add: normalise_def)
  then show ?thesis
    using assms static_mac_checks_lower
    by (simp add: field_checks_def first_failure_append_None first_failure_field first_failure_Nil
        first_failure_concat_None split: if_splits)
qed

lemma validate_Inr:
  "validate_configuration c = Inr v \<longleftrightarrow>
     first_failure (field_checks c) = None \<and> first_failure (cross_checks (normalise c)) = None \<and> v = normalise c"
  by (auto simp: validate_configuration_def check_simps split: option.splits)

definition lag_uniform :: "switch_configuration \<Rightarrow> lag \<Rightarrow> bool" where
  "lag_uniform c l \<longleftrightarrow>
     (\<forall>p \<in> set (lg_members l). \<forall>q \<in> set (lg_members l). lag_profile c p = lag_profile c q)"

lemma lag_cross_checks_pass:
  assumes "first_failure (lag_cross_checks c names members ls) = None"
  shows "distinct (map lg_name ls) \<and> set (map lg_name ls) \<inter> set names = {}
    \<and> distinct (concat (map lg_members ls)) \<and> set (concat (map lg_members ls)) \<inter> set members = {}
    \<and> (\<forall>l \<in> set ls. set (lg_members l) \<subseteq> set (active_ports c)
         \<and> lg_minimum_links l \<le> int (length (lg_members l))
         \<and> lag_uniform c l)"
  using assms
proof (induction ls arbitrary: names members)
  case (Cons l ls)
  from Cons.prems have one: "length (remdups (map (lag_profile c) (lg_members l))) = 1"
    by (simp add: check_simps split: if_splits)
  then obtain x where "set (map (lag_profile c) (lg_members l)) = {x}"
    by (metis One_nat_def length_0_conv length_Suc_conv list.set(1,2) set_remdups)
  then have "\<forall>p \<in> set (lg_members l). lag_profile c p = x" by auto
  then have "lag_uniform c l" by (simp add: lag_uniform_def)
  moreover from Cons.prems have this_lag:
    "lg_name l \<notin> set names" "distinct (lg_members l)" "set (lg_members l) \<subseteq> set (active_ports c)"
    "set members \<inter> set (lg_members l) = {}" "lg_minimum_links l \<le> int (length (lg_members l))"
    and rest: "first_failure (lag_cross_checks c (lg_name l # names) (lg_members l @ members) ls) = None"
    by (simp_all add: check_simps split: if_splits)
  moreover note Cons.IH [OF rest]
  ultimately show ?case by auto
qed simp

lemma static_mac_cross_checks_pass:
  assumes "first_failure (static_mac_cross_checks c seen ms) = None"
  shows "distinct (map (\<lambda>m. (sm_mac m, sm_vlan m)) ms)
    \<and> set (map (\<lambda>m. (sm_mac m, sm_vlan m)) ms) \<inter> set seen = {}
    \<and> (\<forall>m \<in> set ms. sm_vlan m \<in> set (vlan_ids c) \<and> sm_port m \<in> set (active_ports c)
         \<and> sm_vlan m \<in> set (port_vlan_list (port_of c (sm_port m))))"
  using assms
proof (induction ms arbitrary: seen)
  case (Cons m ms)
  from Cons.prems Cons.IH [of "(sm_mac m, sm_vlan m) # seen"] show ?case
    by (auto simp: check_simps split: if_splits)
qed simp

lemma group_cross_checks_pass:
  assumes "first_failure (group_cross_checks c earlier gs) = None"
  shows "(\<forall>g \<in> set gs. mg_vlan g \<in> set (vlan_ids c) \<and> set (mg_ports g) \<subseteq> set (active_ports c)
         \<and> (\<forall>p \<in> set (mg_ports g). mg_vlan g \<in> set (port_vlan_list (port_of c p)))
         \<and> (\<forall>h \<in> set earlier. mg_vlan h = mg_vlan g \<longrightarrow> group_mac h \<noteq> group_mac g))
    \<and> distinct (map (\<lambda>g. (mg_vlan g, group_mac g)) gs)"
  using assms
proof (induction gs arbitrary: earlier)
  case (Cons g gs)
  from Cons.prems have this_group:
    "mg_vlan g \<in> set (vlan_ids c)" "set (mg_ports g) \<subseteq> set (active_ports c)"
    "\<forall>p \<in> set (mg_ports g). mg_vlan g \<in> set (port_vlan_list (port_of c p))"
    "\<forall>h \<in> set earlier. mg_vlan h = mg_vlan g \<longrightarrow> group_mac h \<noteq> group_mac g"
    and rest: "first_failure (group_cross_checks c (g # earlier) gs) = None"
    by (auto simp: check_simps list_ex_iff split: if_splits)
  from Cons.IH [OF rest] this_group show ?case by auto
qed simp

text \<open>The facts an accepted configuration carries, as one predicate for the proofs to share.\<close>

definition accepted :: "switch_configuration \<Rightarrow> bool" where
  "accepted c \<longleftrightarrow> first_failure (field_checks c) = None \<and> first_failure (cross_checks c) = None"

lemma accepted_fields:
  assumes "first_failure (field_checks c) = None"
  shows "\<forall>g \<in> set (sc_groups c). first_failure (port_group_checks g) = None"
    and "length (sc_groups c) = 6"
    and "\<forall>p \<in> set (sc_ports c). first_failure (port_config_checks (snd p)) = None"
    and "first_failure (qos_checks (sc_qos c)) = None"
    and "first_failure (fan_curve_checks (sc_fan c)) = None"
    and "first_failure (mirror_checks (sc_mirror c)) = None"
    and "first_failure (igmp_checks (sc_igmp c)) = None"
    and "\<forall>l \<in> set (sc_lags c). first_failure (lag_field_checks l) = None"
    and "\<forall>m \<in> set (sc_static_macs c). first_failure (static_mac_checks m) = None"
  using assms
  by (auto simp: field_checks_def check_simps first_failure_concat_None field_def
      split: if_splits option.splits)

lemma accepted_cross:
  assumes "first_failure (cross_checks c) = None"
  shows "set (map pg_epl (sc_groups c)) = set EPLS"
    and "set (map fst (sc_ports c)) = set (map int [1..<25])"
    and "distinct (vlan_ids c)"
    and "controllers c \<le> STORM_CONTROLLER_CAPACITY"
    and "\<forall>entry \<in> set (sc_ports c). first_failure (port_cross_checks c entry) = None"
    and "\<forall>g \<in> set (sc_groups c). pg_mode g = Split \<longrightarrow> pg_split_vlan_backup g = None"
    and "first_failure (lag_cross_checks c [] [] (sc_lags c)) = None"
    and "configuration_issues c = []"
    and "first_failure (static_mac_cross_checks c [] (sc_static_macs c)) = None"
    and "first_failure (mirror_cross_checks c) = None"
    and "first_failure (igmp_cross_checks c) = None"
    and "first_failure (group_cross_checks c [] (ig_static_groups (sc_igmp c))) = None"
    and "length (static_members c) \<le> 32"
  using assms
  by (auto simp: cross_checks_def check_simps first_failure_concat_None list_ex_iff
      split: if_splits option.splits list.splits)

lemma validate_accepted:
  assumes "validate_configuration c = Inr v"
  shows "first_failure (field_checks v) = None" and "first_failure (cross_checks v) = None"
    and "v = normalise c"
  using assms field_checks_normalise by (auto simp: validate_Inr)

subsection \<open>Slots of an accepted configuration\<close>

text \<open>Every slot number is a key, so no lookup of an accepted configuration is a KeyError.\<close>

lemma slot_lookup:
  assumes "first_failure (cross_checks c) = None" and "port_number p"
  obtains cfg where "map_of (sc_ports c) p = Some cfg" and "port_of c p = cfg" and "(p, cfg) \<in> set (sc_ports c)"
proof -
  have "1 \<le> nat p" "nat p < 25" "int (nat p) = p" using assms(2) by (auto simp: port_number_def)
  then have "p \<in> set (map int [1..<25])"
    using image_eqI [of p int "nat p" "{1..<25}"] by simp
  then have "p \<in> fst ` set (sc_ports c)" using accepted_cross(2) [OF assms(1)] by simp
  then obtain cfg where "map_of (sc_ports c) p = Some cfg"
    by (metis map_of_eq_None_iff not_None_eq)
  with that show ?thesis by (auto simp: port_of_def dest: map_of_SomeD)
qed

lemma accepted_groups:
  assumes "first_failure (field_checks c) = None" and "first_failure (cross_checks c) = None"
  shows "distinct (map pg_epl (sc_groups c))"
    and "\<forall>g \<in> set (sc_groups c). pg_epl g \<in> set EPLS"
proof -
  have "card (set (map pg_epl (sc_groups c))) = 6"
    using accepted_cross(1) [OF assms(2)] by (simp add: EPLS_def)
  moreover have "length (map pg_epl (sc_groups c)) = 6" using accepted_fields(2) [OF assms(1)] by simp
  ultimately show "distinct (map pg_epl (sc_groups c))" by (metis card_distinct)
  show "\<forall>g \<in> set (sc_groups c). pg_epl g \<in> set EPLS"
    using accepted_cross(1) [OF assms(2)] by auto
qed

lemma active_port_group:
  assumes "p \<in> set (active_ports c)"
  obtains g where "g \<in> set (sc_groups c)" and "p \<in> set (group_active_ports g)"
  using assms by (auto simp: active_ports_def)

lemma active_port_number:
  assumes "first_failure (field_checks c) = None" and "first_failure (cross_checks c) = None"
    and "p \<in> set (active_ports c)"
  shows "port_number p"
  using active_port_group [OF assms(3)] accepted_groups(2) [OF assms(1,2)] group_active_ports_range
  by metis

lemma speed_of_active:
  assumes "first_failure (field_checks c) = None" and "p \<in> set (active_ports c)"
  shows "speed c p \<in> {10, 25, 40, 100}"
proof -
  obtain g where "find (\<lambda>g. p \<in> set (group_active_ports g)) (sc_groups c) = Some g"
    using assms(2) by (cases "find (\<lambda>g. p \<in> set (group_active_ports g)) (sc_groups c)")
      (auto simp: active_ports_def find_None_iff)
  moreover from this have "g \<in> set (sc_groups c)" "p \<in> set (group_active_ports g)"
    by (auto simp: find_Some_iff)
  ultimately show ?thesis
    using group_speed_active accepted_fields(1) [OF assms(1)] by (simp add: speed_def)
qed

lemma speed_of_inactive: "p \<notin> set (active_ports c) \<Longrightarrow> speed c p = 0"
  by (auto simp: speed_def active_ports_def find_Some_iff split: option.splits)

lemma distinct_active_ports:
  assumes "first_failure (field_checks c) = None" and "first_failure (cross_checks c) = None"
  shows "distinct (active_ports c)"
proof -
  have *: "distinct (map pg_epl gs) \<Longrightarrow> \<forall>g \<in> set gs. pg_epl g \<in> set EPLS \<Longrightarrow>
      distinct (concat (map group_active_ports gs))" for gs
  proof (induction gs)
    case (Cons g gs)
    have "distinct (group_active_ports g)" by (simp add: group_active_ports_def Let_def)
    moreover have "set (group_active_ports g) \<inter> set (concat (map group_active_ports gs)) = {}"
      using Cons.prems group_active_ports_disjoint by fastforce
    ultimately show ?case using Cons by simp
  qed simp
  show ?thesis
    unfolding active_ports_def using * accepted_groups [OF assms] by blast
qed

end
