(* ===== verification/Config_Properties.thy ===== *)
theory Config_Properties
  imports Switch_Config
begin

text \<open>
  The properties of an accepted configuration, stated for the result of
  \<^verbatim>\<open>SwitchConfiguration.model_validate\<close>, with one concrete configuration (a split group, a
  40G group, a LAG, a RoCE pair, a mirror, a static MAC and a multicast group) that is
  accepted and witnesses their hypotheses.
\<close>

subsection \<open>A concrete configuration\<close>

definition sample_port :: "int \<Rightarrow> int list \<Rightarrow> port_config" where
  "sample_port native tagged = default_port\<lparr>pc_enabled := True, pc_vlan_mode := Trunk,
     pc_pvid := Some native, pc_tagged_vlans := tagged\<rparr>"

definition sample_ports :: "(int \<times> port_config) list" where
  "sample_ports = map (\<lambda>p. (int p,
     if p = 1 \<or> p = 2 then sample_port 1 [20]
     else if p = 5 \<or> p = 13 then sample_port 1 [10]
     else if p = 9 then (sample_port 1 [20])\<lparr>pc_direct_receiver := True, pc_ingress_kbps := 30000\<rparr>
     else default_port)) [1..<25]"

definition sample_configuration :: switch_configuration where
  "sample_configuration = default_configuration\<lparr>
     sc_groups := [(default_group 0)\<lparr>pg_mode := Split, pg_lane_speeds := [10, 10, 25, 25]\<rparr>,
       default_group 1, (default_group 2)\<lparr>pg_mode := Mode40G\<rparr>, default_group 5, default_group 6,
       default_group 7],
     sc_ports := sample_ports,
     sc_vlans := [\<lparr>vl_id = 1, vl_name = []\<rparr>, \<lparr>vl_id = 10, vl_name = []\<rparr>, \<lparr>vl_id = 20, vl_name = []\<rparr>],
     sc_lags := [\<lparr>lg_name = ''ae0'', lg_members = [1, 2], lg_mode = Active, lg_minimum_links = 1,
       lg_periodic = Fast\<rparr>],
     sc_static_macs := [\<lparr>sm_mac = ''02:00:00:00:00:0a'', sm_vlan = 10, sm_port = 5\<rparr>],
     sc_igmp := default_igmp\<lparr>ig_enabled := True, ig_vlans := [20], ig_router_ports := [1],
       ig_fast_leave_ports := [9],
       ig_static_groups := [\<lparr>mg_address = ''239.1.2.3'', mg_vlan = 20, mg_ports = [9]\<rparr>]\<rparr>,
     sc_qos := default_qos\<lparr>qo_roce := default_roce\<lparr>ro_enabled := True, ro_ports := [5, 13]\<rparr>\<rparr>,
     sc_mirror := \<lparr>mi_enabled = True, mi_source = Some 5, mi_destination = Some 17,
       mi_direction = MirrorRx\<rparr>\<rparr>"

lemma sample_accepted: "validate_configuration sample_configuration = Inr sample_configuration"
  by code_simp

lemma sample_ports_active: "active_ports sample_configuration = [1, 2, 3, 4, 5, 9, 13, 17, 21]"
  by code_simp

subsection \<open>Slots\<close>

text \<open>C14: in every configuration the validation accepts, the active slots are distinct numbers
  of 1..24, an active slot runs at 10, 25, 40 or 100 Gb/s and an inactive one at none, and an
  inactive slot is referenced by nothing (not enabled, in no VLAN, LAG, mirror, multicast or RoCE
  setting).\<close>

theorem accepted_slots:
  assumes "validate_configuration c = Inr v"
  shows "distinct (active_ports v) \<and>
    (\<forall>p. (p \<in> set (active_ports v) \<longrightarrow> 1 \<le> p \<and> p \<le> 24 \<and> speed v p \<in> {10, 25, 40, 100})
       \<and> (p \<notin> set (active_ports v) \<longrightarrow> speed v p = 0)
       \<and> (1 \<le> p \<and> p \<le> 24 \<and> p \<notin> set (active_ports v) \<longrightarrow> references v p = []))"
proof -
  note ok = validate_accepted(1,2) [OF assms]
  have "references v p = []" if "1 \<le> p" "p \<le> 24" "p \<notin> set (active_ports v)" for p
  proof -
    from that(1,2) have "port_number p" by (simp add: port_number_def)
    from slot_lookup [OF ok(2) this] obtain cfg where "(p, cfg) \<in> set (sc_ports v)" by blast
    with accepted_cross(5) [OF ok(2)] that(3) show ?thesis
      by (fastforce simp: port_cross_checks_def check_simps split: if_splits)
  qed
  moreover have "1 \<le> p \<and> p \<le> 24" if "p \<in> set (active_ports v)" for p
    using active_port_number [OF ok that] by (simp add: port_number_def)
  ultimately show ?thesis
    using distinct_active_ports [OF ok] speed_of_active [OF ok(1)] speed_of_inactive by blast
qed

theorem accepted_slots_witness:
  "speed sample_configuration 9 \<in> {10, 25, 40, 100} \<and> references sample_configuration 8 = []"
proof -
  note a = accepted_slots [OF sample_accepted, unfolded sample_ports_active]
  show ?thesis using a [THEN conjunct2, rule_format, of 9] a [THEN conjunct2, rule_format, of 8] by simp
qed

subsection \<open>Traffic policies\<close>

text \<open>C15: an accepted configuration never programs a rate limit above the speed of its port, and
  never asks the chip for more than its sixteen storm and ingress controllers.\<close>

theorem accepted_rates:
  assumes "validate_configuration c = Inr v" and "(n, p) \<in> set (sc_ports v)"
    and "rate \<in> set (pc_ingress_kbps p # pc_egress_kbps p # storm_rates (pc_storm p))" and "rate \<noteq> 0"
  shows "0 < rate \<and> rate \<le> speed v n * 1000000 \<and> n \<in> set (active_ports v) \<and> controllers v \<le> 16"
proof -
  note ok = validate_accepted(1,2) [OF assms(1)]
  have "first_failure (port_cross_checks v (n, p)) = None"
    using accepted_cross(5) [OF ok(2)] assms(2) by blast
  then have le: "rate \<le> speed v n * 1000000"
    using assms(3,4) by (auto simp: port_cross_checks_def check_simps list_ex_iff split: if_splits)
  have "first_failure (port_config_checks p) = None"
    using accepted_fields(3) [OF ok(1)] assms(2) by force
  then have "0 \<le> rate"
    using assms(3)
    by (auto simp: port_config_checks_def check_simps storm_control_checks_def storm_rates_def rate_ok_def
        split: if_splits option.splits)
  with assms(4) have "0 < rate" by simp
  moreover from this le have "speed v n \<noteq> 0" by auto
  then have "n \<in> set (active_ports v)" using speed_of_inactive by blast
  ultimately show ?thesis
    using le accepted_cross(4) [OF ok(2)] by (simp add: STORM_CONTROLLER_CAPACITY_def)
qed

theorem accepted_rates_witness:
  "(30000 :: int) \<le> speed sample_configuration 9 * 1000000 \<and> controllers sample_configuration \<le> 16"
proof -
  define p where "p = (sample_port 1 [20])\<lparr>pc_direct_receiver := True, pc_ingress_kbps := 30000\<rparr>"
  have "(9, p) \<in> set (sc_ports sample_configuration)"
    by (simp add: sample_configuration_def sample_ports_def p_def upt_rec)
  from accepted_rates [OF sample_accepted this, of 30000] show ?thesis by (simp add: p_def)
qed

subsection \<open>Link aggregation\<close>

text \<open>C16: in an accepted configuration LAG names are unique, no port belongs to two LAGs, every
  member is an active slot, a LAG never needs more links than it has members, and all members
  agree on speed, MTU, VLAN mode, native VLAN, tagged VLAN set and ingress filtering.\<close>

theorem accepted_lags:
  assumes "validate_configuration c = Inr v"
  shows "distinct (map lg_name (sc_lags v)) \<and> distinct (lag_members v)
    \<and> set (lag_members v) \<subseteq> set (active_ports v)
    \<and> (\<forall>l \<in> set (sc_lags v). lg_minimum_links l \<le> int (length (lg_members l))
         \<and> (\<forall>p \<in> set (lg_members l). \<forall>q \<in> set (lg_members l). lag_profile v p = lag_profile v q))"
proof -
  note pass = lag_cross_checks_pass [OF accepted_cross(7) [OF validate_accepted(2) [OF assms]]]
  have "distinct (map lg_name (sc_lags v)) \<and> distinct (lag_members v)
      \<and> set (lag_members v) \<subseteq> set (active_ports v)"
    using pass by (auto simp: lag_members_def)
  moreover have "\<forall>l \<in> set (sc_lags v). lg_minimum_links l \<le> int (length (lg_members l))
      \<and> lag_uniform v l"
    using pass by blast
  ultimately show ?thesis unfolding lag_uniform_def by blast
qed

theorem accepted_lags_witness:
  "lag_profile sample_configuration 1 = lag_profile sample_configuration 2"
proof -
  define l where "l = \<lparr>lg_name = ''ae0'', lg_members = [1, 2], lg_mode = Active, lg_minimum_links = 1,
    lg_periodic = Fast\<rparr>"
  have "l \<in> set (sc_lags sample_configuration)" "1 \<in> set (lg_members l)" "2 \<in> set (lg_members l)"
    by (simp_all add: sample_configuration_def l_def)
  with accepted_lags [OF sample_accepted] show ?thesis by blast
qed

subsection \<open>Forwarding tables\<close>

text \<open>In an accepted configuration every static MAC entry is unique per VLAN and names a port
  that carries the VLAN; multicast groups of one VLAN never share a multicast MAC, every static
  member port carries the VLAN of its group, and the static members with the router ports are at
  most 32.\<close>

theorem accepted_tables:
  assumes "validate_configuration c = Inr v"
  shows "distinct (map (\<lambda>m. (sm_mac m, sm_vlan m)) (sc_static_macs v))
    \<and> (\<forall>m \<in> set (sc_static_macs v). sm_port m \<in> set (active_ports v)
         \<and> sm_vlan m \<in> set (port_vlan_list (port_of v (sm_port m))))
    \<and> distinct (map (\<lambda>g. (mg_vlan g, group_mac g)) (ig_static_groups (sc_igmp v)))
    \<and> (\<forall>g \<in> set (ig_static_groups (sc_igmp v)). \<forall>p \<in> set (mg_ports g).
         p \<in> set (active_ports v) \<and> mg_vlan g \<in> set (port_vlan_list (port_of v p)))
    \<and> length (static_members v) \<le> 32"
  using static_mac_cross_checks_pass [OF accepted_cross(9) [OF validate_accepted(2) [OF assms]]]
    group_cross_checks_pass [OF accepted_cross(12) [OF validate_accepted(2) [OF assms]]]
    accepted_cross(13) [OF validate_accepted(2) [OF assms]]
  by auto

theorem accepted_tables_witness: "10 \<in> set (port_vlan_list (port_of sample_configuration 5))"
proof -
  define m where "m = \<lparr>sm_mac = ''02:00:00:00:00:0a'', sm_vlan = 10, sm_port = 5\<rparr>"
  have "m \<in> set (sc_static_macs sample_configuration)"
    by (simp add: sample_configuration_def m_def)
  with accepted_tables [OF sample_accepted] have "sm_vlan m \<in> set (port_vlan_list (port_of sample_configuration (sm_port m)))"
    by blast
  then show ?thesis by (simp add: m_def)
qed

subsection \<open>Idempotence\<close>

text \<open>C17: validation is idempotent: what it returns is accepted again and returned unchanged, so a
  configuration stored by the panel and read back validates to itself.\<close>

theorem validate_idempotent:
  assumes "validate_configuration c = Inr v"
  shows "validate_configuration v = Inr v"
proof -
  from validate_accepted [OF assms] have "normalise v = v" by simp
  with validate_accepted(1,2) [OF assms] show ?thesis by (simp add: validate_Inr)
qed

theorem validate_idempotent_witness:
  "validate_configuration sample_configuration = Inr sample_configuration"
  using validate_idempotent [OF sample_accepted] .

subsection \<open>RoCE\<close>

text \<open>C18: with RoCE enabled in an accepted configuration, at least two distinct ports take part;
  each is an active, enabled slot outside every LAG with no ingress policer, its headroom demand
  fits the pause buffer; all of them share a VLAN of the classified kind; traffic class 3 is
  reached from priority 3 alone; and the chip-wide buffer budget is positive.\<close>

theorem accepted_roce:
  assumes "validate_configuration c = Inr v" and "ro_enabled (qo_roce (sc_qos v))"
  defines "r \<equiv> qo_roce (sc_qos v)"
  shows "2 \<le> length (ro_ports r) \<and> distinct (ro_ports r)
    \<and> (\<forall>n \<in> set (ro_ports r). n \<in> set (active_ports v) \<and> n \<notin> set (lag_members v)
         \<and> pc_enabled (port_of v n) \<and> pc_ingress_kbps (port_of v n) = 0
         \<and> headroom_bytes (speed v n) (pc_mtu (port_of v n)) (ro_cable_length_m r) (ro_response_time_ns r)
             \<le> PAUSE_BUFFER_BYTES)
    \<and> (\<exists>vid. \<forall>n \<in> set (ro_ports r). vid \<in> set (port_vlans (port_of v n) (ro_classification r)))
    \<and> (\<forall>i < 8. qo_priority_map (sc_qos v) ! i = 3 \<longleftrightarrow> i = 3)
    \<and> SEGMENT < bb_remaining_bytes (buffer_budget (max_mtu v))"
proof -
  note ok = validate_accepted(1,2) [OF assms(1)]
  have checks: "first_failure (issue_checks v) = None"
    using accepted_cross(8) [OF ok(2)] assms(2) by (simp add: configuration_issues_Nil)
  have qos: "first_failure (qos_checks (sc_qos v)) = None" by (rule accepted_fields(4) [OF ok(1)])
  then have dup: "distinct (ro_ports r)" and len: "length (qo_priority_map (sc_qos v)) = 8"
    by (auto simp: qos_checks_def roce_checks_def check_simps r_def
        split: if_splits option.splits)
  from checks have two: "2 \<le> length (ro_ports r)"
    and pm: "reserves (qo_priority_map (sc_qos v)) 3 3"
    and ports: "\<forall>n \<in> set (ro_ports r). first_failure (port_issues v n) = None"
    and common: "ro_ports r = [] \<or> common_vlans v \<noteq> []"
    and budget: "bb_valid (buffer_budget (max_mtu v))"
    using dup
    by (auto simp: issue_checks_def first_failure_concat_None check_simps
        Let_def r_def distinct_remdups_id split: if_splits)
  have map: "\<forall>i < 8. qo_priority_map (sc_qos v) ! i = 3 \<longleftrightarrow> i = 3"
    using pm len
    by (fastforce simp: reserves_def list_ex_iff enumerate_int_def set_zip)
  from common two obtain vid where "vid \<in> set (common_vlans v)"
    by (cases "common_vlans v") auto
  with two have "\<forall>n \<in> set (ro_ports r). vid \<in> set (port_vlans (port_of v n) (ro_classification r))"
    by (cases "ro_ports r") (auto simp: common_vlans_def Let_def r_def list_all_iff)
  moreover have "SEGMENT < bb_remaining_bytes (buffer_budget (max_mtu v))"
    using budget by (auto simp: buffer_budget_for_def Let_def)
  ultimately show ?thesis
    using two dup map ports by (auto simp: port_issues_def Let_def r_def check_simps split: if_splits)
qed

theorem accepted_roce_witness:
  "headroom_bytes (speed sample_configuration 5) 1518 10 3000 \<le> PAUSE_BUFFER_BYTES"
proof -
  have on: "ro_enabled (qo_roce (sc_qos sample_configuration))"
    by (simp add: sample_configuration_def)
  have five: "5 \<in> set (ro_ports (qo_roce (sc_qos sample_configuration)))"
    by (simp add: sample_configuration_def)
  have "pc_mtu (port_of sample_configuration 5) = 1518"
    "ro_cable_length_m (qo_roce (sc_qos sample_configuration)) = 10"
    "ro_response_time_ns (qo_roce (sc_qos sample_configuration)) = 3000"
    by code_simp+
  with accepted_roce [OF sample_accepted on] five show ?thesis by metis
qed

text \<open>The DCBX policy advertised for an accepted configuration gives eight bandwidth shares
  that sum to exactly 100 percent; every class of the scheduler gets at least one percent and
  within one percent of its weight's share of the rest, and with DSCP classification the strict
  CNP class 7 gets none.\<close>

theorem dcbx_bandwidth:
  assumes "validate_configuration c = Inr v"
  defines "p \<equiv> dcbx_policy_of v" and "classes \<equiv> ets_classes (ro_classification (qo_roce (sc_qos v)))"
  shows "length (dp_bandwidth p) = 8 \<and> sum_list (dp_bandwidth p) = 100
    \<and> (\<forall>i < 8. if int i \<in> set classes
         then 1 + proportional classes (qo_weights (sc_qos v)) (int i) \<le> dp_bandwidth p ! i
            \<and> dp_bandwidth p ! i \<le> 2 + proportional classes (qo_weights (sc_qos v)) (int i)
         else i = 7 \<and> dp_bandwidth p ! i = 0)"
proof -
  have "first_failure (qos_checks (sc_qos v)) = None"
    by (rule accepted_fields(4) [OF validate_accepted(1) [OF assms(1)]])
  then have w: "length (qo_weights (sc_qos v)) = 8" "\<forall>x \<in> set (qo_weights (sc_qos v)). 1 \<le> x"
    by (auto simp: qos_checks_def check_simps list_all_iff split: if_splits)
  note cl = ets_classes_props [of "ro_classification (qo_roce (sc_qos v))", folded classes_def]
  have "\<forall>tc \<in> set classes. 1 \<le> qo_weights (sc_qos v) ! nat tc"
    using w cl(3) by (auto simp: nat_less_iff intro!: bspec [OF w(2)] nth_mem)
  note core = ets_bandwidth_core [OF cl(1-3) this]
  have bw: "dp_bandwidth p = ets_bandwidth classes (qo_weights (sc_qos v))"
    by (simp add: p_def dcbx_policy_of_def classes_def Let_def)
  have "i = 7" if "i < 8" "int i \<notin> set classes" for i
    using that cl(4,5) by (cases "ro_classification (qo_roce (sc_qos v))") (auto simp: classes_def)
  with core show ?thesis by (simp add: bw)
qed

theorem dcbx_bandwidth_witness:
  "sum_list (dp_bandwidth (dcbx_policy_of sample_configuration)) = 100"
  using dcbx_bandwidth [OF sample_accepted] by blast

end
