(* ===== verification/Board.thy ===== *)
theory Board
  imports Switch_Config
begin

text \<open>
  The board algorithms of board.py over an abstract register bus: the branch multiplexer held
  by a context manager, the LM96163 fan program, the optical transmit mask with its bounded
  write retries, and the group and bandwidth computations. The bus is an interface: the code's
  \<^verbatim>\<open>Bus\<close> protocol as a record of operations. The laws of a register device and what the
  algorithms do on one are in Register_Bus.
\<close>

subsection \<open>Errors and bus operations\<close>

datatype hw_error =
  BusLost | PyTypeError | PyValueError | PyIndexError | PyLookup | StoredInvalid config_error
| Lm96163Readback int | Lm96163NotLut
| ObtArgument | ObtNotLatched int int nat | ObtReadback int
| IdentityMismatch
| Injected string | PendingUnconfirmed | RevisionChanged | NotAwaiting | NoMatchingPending
| ReadbackDiffers | RollbackDisabled | RollbackFailed hw_error hw_error
| ManualWhilePending | ManualNoSensor | EyeReplaced | EyeBusy
| Native string

record 'b bus_ops =
  bus_read :: "int \<Rightarrow> int option \<Rightarrow> nat \<Rightarrow> ('b, hw_error, int list) action"
  bus_write :: "int \<Rightarrow> int option \<Rightarrow> int list \<Rightarrow> ('b, hw_error, unit) action"

text \<open>\<^verbatim>\<open>bus.read(a, r)[0]\<close> and \<^verbatim>\<open>bus.write(a, r, bytes([v]))\<close>; \<^verbatim>\<open>bytes\<close> rejects a value outside 0..255.\<close>

definition read_byte :: "'b bus_ops \<Rightarrow> int \<Rightarrow> int option \<Rightarrow> ('b, hw_error, int) action" where
  "read_byte ops a r = bind_action (bus_read ops a r 1)
     (\<lambda>bs. case bs of [] \<Rightarrow> raise_error PyIndexError | b # _ \<Rightarrow> ret b)"

definition write_byte :: "'b bus_ops \<Rightarrow> int \<Rightarrow> int option \<Rightarrow> int \<Rightarrow> ('b, hw_error, unit) action" where
  "write_byte ops a r v =
     (if 0 \<le> v \<and> v < 256 then bus_write ops a r [v] else raise_error PyValueError)"

definition selected_bus :: "'b bus_ops \<Rightarrow> int \<Rightarrow> ('b, hw_error, 'a) action \<Rightarrow> ('b, hw_error, 'a) action" where
  "selected_bus ops branch body =
     bind_action (read_byte ops 0x58 None) (\<lambda>previous.
       finally_action (then_action (write_byte ops 0x58 None branch) body)
         (write_byte ops 0x58 None previous))"

subsection \<open>Fan curve\<close>

text \<open>
  The ratio \<^verbatim>\<open>index / 8\<close> and its products are exact binary fractions, and a PWM register value
  \<^verbatim>\<open>percent * 255 / 100\<close> is at least 1/100 away from a tie unless it is one, so Python's float
  rounding is the exact half-even rounding of the quotient.
\<close>

definition lut_points :: "fan_curve \<Rightarrow> (int \<times> int) list" where
  "lut_points c =
     (0, fc_idle_speed_percent c)
     # map (\<lambda>index. (round_div (8 * fc_idle_temperature_c c
                         + (fc_load_temperature_c c - fc_idle_temperature_c c) * index) 8,
                     round_div (8 * fc_idle_speed_percent c
                         + (fc_load_speed_percent c - fc_idle_speed_percent c) * index) 8))
           [0, 1, 2, 3, 4, 5, 6, 7, 8]
     @ [(fc_critical_temperature_c c, 100), (127, 100)]"

fun response_code :: "fan_response \<Rightarrow> int" where
  "response_code S5_45 = 0x11"
| "response_code S10_9 = 0x13"
| "response_code S21_6 = 0x15"
| "response_code S43_7 = 0x17"

definition lut_registers :: "(int \<times> int) list \<Rightarrow> (int \<times> int) list" where
  "lut_registers points = concat (map (\<lambda>(index, temperature, pwm).
     [(0x50 + 2 * index, temperature), (0x51 + 2 * index, round_div (pwm * 255) 100)])
     (enumerate_int points))"

definition fan_register_program :: "fan_curve \<Rightarrow> (int \<times> int) list" where
  "fan_register_program c =
     [(0x30, 0x02), (0x4A, 0x30), (0x4B, 0x3F), (0x4D, 0x08), (0x4C, 0xFF),
      (0x45, response_code (fc_response_time c)), (0x4E, 0), (0x4F, fc_hysteresis_c c)]
     @ lut_registers (lut_points c)
     @ [(0x03, 0x06), (0x19, fc_critical_temperature_c c), (0x21, fc_hysteresis_c c)]"

definition write_verified :: "'b bus_ops \<Rightarrow> int \<times> int \<Rightarrow> ('b, hw_error, unit) action" where
  "write_verified ops rv = (case rv of (register, v) \<Rightarrow>
     then_action (write_byte ops 0x4C (Some register) v)
       (bind_action (read_byte ops 0x4C (Some register)) (\<lambda>got.
          if got \<noteq> v then raise_error (Lm96163Readback register) else ret ())))"

definition enter_lut_mode :: "'b bus_ops \<Rightarrow> ('b, hw_error, unit) action" where
  "enter_lut_mode ops =
     then_action (write_byte ops 0x4C (Some 0x4A) 0x10)
       (bind_action (read_byte ops 0x4C (Some 0x4A)) (\<lambda>got.
          if got \<noteq> 0x10 then raise_error Lm96163NotLut else ret ()))"

text \<open>The fallback: direct mode at full PWM, its own errors swallowed, then the error raised again.\<close>

definition full_speed_fallback :: "'b bus_ops \<Rightarrow> hw_error \<Rightarrow> ('b, hw_error, unit) action" where
  "full_speed_fallback ops e =
     (\<lambda>b. (Inl e, snd (then_action (write_byte ops 0x4C (Some 0x4A) 0x30)
                         (write_byte ops 0x4C (Some 0x4C) 0xFF) b)))"

definition apply_fan_curve :: "'b bus_ops \<Rightarrow> fan_curve \<Rightarrow> ('b, hw_error, unit) action" where
  "apply_fan_curve ops c =
     selected_bus ops 0x08
       (catch_action
          (then_action (for_each (write_verified ops) (fan_register_program c)) (enter_lut_mode ops))
          (full_speed_fallback ops))"

definition tach_rpm :: "int \<Rightarrow> int \<Rightarrow> int \<times> int option" where
  "tach_rpm lsb msb =
     (let count = push_bit 8 msb OR lsb
      in (count, if count = 0 \<or> count = 0xFFFF then None else Some (round_div 5400000 count)))"

subsection \<open>Optical transmit mask\<close>

definition tx_mask_bytes :: "int \<Rightarrow> int \<Rightarrow> int" where
  "tx_mask_bytes high low = push_bit 8 (high AND 0x0F) OR low"

definition branch_of :: "int \<Rightarrow> int" where
  "branch_of mpo = push_bit (nat (mpo - 1)) 1"

definition read_tx_mask_selected :: "'b bus_ops \<Rightarrow> ('b, hw_error, int) action" where
  "read_tx_mask_selected ops =
     bind_action (read_byte ops 0x50 (Some 56)) (\<lambda>high.
     bind_action (read_byte ops 0x50 (Some 57)) (\<lambda>low. ret (tx_mask_bytes high low)))"

definition read_tx_mask :: "'b bus_ops \<Rightarrow> int \<Rightarrow> ('b, hw_error, int) action" where
  "read_tx_mask ops mpo = selected_bus ops (branch_of mpo) (read_tx_mask_selected ops)"

text \<open>
  The retry loop \<^verbatim>\<open>for attempt in range(retries + 1)\<close>, counting the writes still allowed; the
  last attempt only reads.
\<close>

fun latch :: "'b bus_ops \<Rightarrow> int \<Rightarrow> nat \<Rightarrow> int \<Rightarrow> int \<Rightarrow> nat \<Rightarrow> ('b, hw_error, unit) action" where
  "latch ops mpo retries register v 0 =
     bind_action (read_byte ops 0x50 (Some register)) (\<lambda>got.
       if got = v then ret () else raise_error (ObtNotLatched mpo register retries))"
| "latch ops mpo retries register v (Suc left) =
     bind_action (read_byte ops 0x50 (Some register)) (\<lambda>got.
       if got = v then ret ()
       else then_action (write_byte ops 0x50 (Some register) v)
              (latch ops mpo retries register v left))"

definition update_tx_mask ::
  "'b bus_ops \<Rightarrow> int \<Rightarrow> int \<Rightarrow> int \<Rightarrow> nat \<Rightarrow> ('b, hw_error, int) action" where
  "update_tx_mask ops mpo lane_mask enabled_mask retries =
     (if mpo \<notin> {1, 2} \<or> lane_mask AND NOT 0xFFF \<noteq> 0 \<or> enabled_mask AND NOT lane_mask \<noteq> 0
      then raise_error ObtArgument
      else selected_bus ops (branch_of mpo)
        (bind_action (read_byte ops 0x50 (Some 56)) (\<lambda>high.
         bind_action (read_byte ops 0x50 (Some 57)) (\<lambda>low.
           let before = tx_mask_bytes high low;
               target = (before AND NOT lane_mask) OR enabled_mask
           in then_action (latch ops mpo retries 56 ((high AND 0xF0) OR drop_bit 8 target) retries)
             (then_action (latch ops mpo retries 57 (target AND 0xFF) retries)
               (bind_action (read_tx_mask_selected ops) (\<lambda>observed.
                  if observed \<noteq> target then raise_error (ObtReadback mpo) else ret observed)))))))"

definition default_retries :: nat where "default_retries = 12"

subsection \<open>Groups\<close>

definition lane_bits :: "int \<Rightarrow> int list \<Rightarrow> int" where
  "lane_bits position lanes = fold (\<lambda>lane v. v OR push_bit (nat (position * 4 + lane)) 1) lanes 0"

definition group_enabled_mask :: "switch_configuration \<Rightarrow> port_group \<Rightarrow> int" where
  "group_enabled_mask c g =
     (let ph = physical_of (pg_epl g)
      in fold (\<lambda>port v. if pc_enabled (port_of c port)
                 then v OR lane_bits (ph_position ph)
                        (if pg_mode g \<noteq> Split then [0, 1, 2, 3] else [port - ph_base ph])
                 else v) (group_active_ports g) 0)"

definition group_lane_mask :: "int \<Rightarrow> int" where
  "group_lane_mask epl = push_bit (nat (ph_position (physical_of epl) * 4)) 0xF"

text \<open>\<^verbatim>\<open>{g.epl: g for g in groups}\<close>: a later group of the same EPL replaces an earlier one.\<close>

definition group_of :: "switch_configuration \<Rightarrow> int \<Rightarrow> port_group option" where
  "group_of c epl = find (\<lambda>g. pg_epl g = epl) (rev (sc_groups c))"

definition changed_groups :: "switch_configuration \<Rightarrow> switch_configuration \<Rightarrow> int list" where
  "changed_groups before after =
     map pg_epl (filter (\<lambda>g. case group_of before (pg_epl g) of
         None \<Rightarrow> True
       | Some old \<Rightarrow> (pg_mode g, pg_lane_speeds g) \<noteq> (pg_mode old, pg_lane_speeds old))
       (sc_groups after))"

definition group_for_port :: "int \<Rightarrow> int" where
  "group_for_port port = EPLS ! nat ((port - 1) div 4)"

record bandwidth_report =
  bw_external_gbps :: int
  bw_total_scheduler_gbps :: int
  bw_over_sku_budget :: bool

definition bandwidth :: "switch_configuration \<Rightarrow> bandwidth_report" where
  "bandwidth c =
     (let external = sum_list (map (speed c) (remdups (active_ports c)))
      in \<lparr>bw_external_gbps = external, bw_total_scheduler_gbps = external + 20,
          bw_over_sku_budget = (external + 20 > 600)\<rparr>)"

subsection \<open>Board identity\<close>

record board_identity =
  bi_profile :: string
  bi_subsystem_vendor :: string
  bi_subsystem_device :: string
  bi_vpd_version :: string
  bi_model :: string

datatype board_family = B0 | A11

definition profile_family :: "string \<Rightarrow> board_family option" where
  "profile_family p = (if p = ''sil001-hw4-b0'' then Some B0
     else if p = ''sil001-hw5-a11'' then Some A11 else None)"

definition upper :: "char \<Rightarrow> char" where
  "upper c = (let n = (of_char c :: nat) in if 97 \<le> n \<and> n \<le> 122 then char_of (n - 32) else c)"

definition version_family :: "string \<Rightarrow> board_family option" where
  "version_family v =
     (case dropWhile (\<lambda>c. c = CHR ''0'') v of [] \<Rightarrow> None
      | c # _ \<Rightarrow> Some (if (of_char c :: nat) \<ge> of_char (CHR ''6'') then A11 else B0))"

definition validate_identity :: "board_identity \<Rightarrow> hw_error + unit" where
  "validate_identity b =
     (if profile_family (bi_profile b) = None
         \<or> profile_family (bi_profile b) \<noteq> version_family (bi_vpd_version b)
         \<or> map lower (bi_subsystem_vendor b) \<noteq> ''1374''
         \<or> map lower (bi_subsystem_device b) \<noteq> ''01d0''
         \<or> map upper (bi_model b) \<notin> {''PE31625G24DIRA'', ''PE31625G24DIRA-MPS''}
         \<or> length (bi_vpd_version b) \<noteq> 4 \<or> \<not> list_all digit (bi_vpd_version b)
      then Inl IdentityMismatch else Inr ())"

end
