(* ===== verification/Register_Bus.thy ===== *)
theory Register_Bus
  imports Board
begin

text \<open>
  The board algorithms on a live register device. The locale \<open>register_bus\<close> states the laws of
  the bus (writes may be lost a known number of times); under them a transmit-mask update succeeds
  exactly as far as the retries reach and never touches another register, and the fan program
  either runs to the hardware LUT or falls back to full PWM.
\<close>

subsection \<open>The fan program\<close>

definition is_byte :: "int \<Rightarrow> bool" where "is_byte v \<longleftrightarrow> 0 \<le> v \<and> v < 256"

lemma fan_checks_bounds:
  assumes "first_failure (fan_curve_checks c) = None"
  shows "10 \<le> fc_idle_temperature_c c" "fc_idle_temperature_c c + 10 \<le> fc_load_temperature_c c"
    "fc_load_temperature_c c < fc_critical_temperature_c c" "fc_critical_temperature_c c \<le> 100"
    "25 \<le> fc_idle_speed_percent c" "fc_idle_speed_percent c \<le> fc_load_speed_percent c"
    "fc_load_speed_percent c \<le> 100" "1 \<le> fc_hysteresis_c c" "fc_hysteresis_c c \<le> 15"
  using assms by (auto simp: fan_curve_checks_def check_simps split: if_splits)

definition ramp :: "int \<Rightarrow> int \<Rightarrow> int \<Rightarrow> int" where
  "ramp lo hi index = round_div (8 * lo + (hi - lo) * index) 8"

lemma ramp_bounds: "lo \<le> hi \<Longrightarrow> 0 \<le> i \<Longrightarrow> i \<le> 8 \<Longrightarrow> lo \<le> ramp lo hi i \<and> ramp lo hi i \<le> hi"
proof -
  assume a: "lo \<le> hi" "0 \<le> i" "i \<le> 8"
  then have "0 \<le> (hi - lo) * i" "(hi - lo) * i \<le> (hi - lo) * 8"
    by (simp, intro mult_left_mono) simp_all
  then have "8 * lo \<le> 8 * lo + (hi - lo) * i" "8 * lo + (hi - lo) * i \<le> 8 * hi" by (simp_all add: algebra_simps)
  then show ?thesis unfolding ramp_def by (auto intro: round_div_ge round_div_le)
qed

lemma ramp_mono: "lo \<le> hi \<Longrightarrow> i \<le> j \<Longrightarrow> ramp lo hi i \<le> ramp lo hi j"
  by (auto simp: ramp_def intro!: round_div_mono mult_left_mono)

lemma ramp_ends: "ramp lo hi 0 = lo" "ramp lo hi 8 = hi"
  using round_div_exact [of 8 lo] round_div_exact [of 8 hi] by (simp_all add: ramp_def algebra_simps)

lemma lut_points_ramp:
  "lut_points c = (0, fc_idle_speed_percent c)
     # map (\<lambda>i. (ramp (fc_idle_temperature_c c) (fc_load_temperature_c c) i,
                 ramp (fc_idle_speed_percent c) (fc_load_speed_percent c) i)) [0, 1, 2, 3, 4, 5, 6, 7, 8]
     @ [(fc_critical_temperature_c c, 100), (127, 100)]"
  by (simp add: lut_points_def ramp_def)

lemma lut_points_shape:
  assumes "first_failure (fan_curve_checks c) = None"
  shows "length (lut_points c) = 12" and "sorted (map fst (lut_points c))" and "sorted (map snd (lut_points c))"
    and "\<forall>(t, p) \<in> set (lut_points c). 0 \<le> t \<and> t \<le> 127 \<and> 25 \<le> p \<and> p \<le> 100"
proof -
  note b = fan_checks_bounds [OF assms]
  let ?t = "ramp (fc_idle_temperature_c c) (fc_load_temperature_c c)"
  let ?p = "ramp (fc_idle_speed_percent c) (fc_load_speed_percent c)"
  have t: "fc_idle_temperature_c c \<le> ?t i \<and> ?t i \<le> fc_load_temperature_c c" if "0 \<le> i" "i \<le> 8" for i
    using ramp_bounds that b(2) by simp
  have p: "fc_idle_speed_percent c \<le> ?p i \<and> ?p i \<le> fc_load_speed_percent c" if "0 \<le> i" "i \<le> 8" for i
    using ramp_bounds that b(6) by simp
  have tm: "?t i \<le> ?t j" if "i \<le> j" for i j using ramp_mono that b(2) by simp
  have pm: "?p i \<le> ?p j" if "i \<le> j" for i j using ramp_mono that b(6) by simp
  show "length (lut_points c) = 12" by (simp add: lut_points_ramp)
  show "sorted (map fst (lut_points c))"
    using b t [of 0] t [of 8] t [of 1] t [of 2] t [of 3] t [of 4] t [of 5] t [of 6] t [of 7]
    by (simp add: lut_points_ramp tm)
  show "sorted (map snd (lut_points c))"
    using b p [of 0] p [of 8] p [of 1] p [of 2] p [of 3] p [of 4] p [of 5] p [of 6] p [of 7]
    by (simp add: lut_points_ramp pm)
  show "\<forall>(t, p) \<in> set (lut_points c). 0 \<le> t \<and> t \<le> 127 \<and> 25 \<le> p \<and> p \<le> 100"
    using b t [of 0] t [of 8] t [of 1] t [of 2] t [of 3] t [of 4] t [of 5] t [of 6] t [of 7]
      p [of 0] p [of 8] p [of 1] p [of 2] p [of 3] p [of 4] p [of 5] p [of 6] p [of 7]
    by (simp add: lut_points_ramp)
qed

lemma pwm_byte: "0 \<le> p \<Longrightarrow> p \<le> 100 \<Longrightarrow> is_byte (round_div (p * 255) 100)"
  using round_div_ge [of 100 0 "p * 255"] round_div_le [of 100 "p * 255" 255] by (simp add: is_byte_def)

lemma lut_registers_eval:
  "lut_registers (lut_points c) = concat (map (\<lambda>(i, t, p). [(0x50 + 2 * i, t), (0x51 + 2 * i, round_div (p * 255) 100)])
     (zip [0, 1, 2, 3, 4, 5, 6, 7, 8, 9, 10, 11] (lut_points c)))"
  by (simp add: lut_registers_def enumerate_int_def lut_points_ramp upt_rec)

lemma fan_program_bytes:
  assumes "first_failure (fan_curve_checks c) = None"
  shows "\<forall>(r, v) \<in> set (fan_register_program c). is_byte v"
proof -
  have "is_byte t \<and> is_byte (round_div (p * 255) 100)" if "(i, t, p) \<in> set (enumerate_int (lut_points c))" for i t p
  proof -
    have "(t, p) \<in> set (lut_points c)" using that by (auto simp: enumerate_int_def dest: set_zip_rightD)
    with lut_points_shape(4) [OF assms] have "0 \<le> t \<and> t \<le> 127 \<and> 25 \<le> p \<and> p \<le> 100" by blast
    then show ?thesis using pwm_byte [of p] by (simp add: is_byte_def)
  qed
  then have "\<forall>(r, v) \<in> set (lut_registers (lut_points c)). is_byte v"
    by (fastforce simp: lut_registers_def)
  moreover have "is_byte (response_code r)" for r by (cases r) (simp_all add: is_byte_def)
  ultimately show ?thesis
    using fan_checks_bounds [OF assms] by (auto simp: fan_register_program_def is_byte_def)
qed

lemma fan_program_registers:
  "map fst (fan_register_program c) =
     [0x30, 0x4A, 0x4B, 0x4D, 0x4C, 0x45, 0x4E, 0x4F, 0x50, 0x51, 0x52, 0x53, 0x54, 0x55, 0x56, 0x57, 0x58, 0x59,
      0x5A, 0x5B, 0x5C, 0x5D, 0x5E, 0x5F, 0x60, 0x61, 0x62, 0x63, 0x64, 0x65, 0x66, 0x67, 0x03, 0x19, 0x21]"
  unfolding fan_register_program_def lut_registers_eval by (simp add: lut_points_ramp)

lemma fan_program_distinct: "distinct (map fst (fan_register_program c))"
  by (simp add: fan_program_registers)

lemma fan_program_direct_mode: "(0x4A, 0x30) \<in> set (fan_register_program c)"
  by (simp add: fan_register_program_def)


subsection \<open>The contract of a register device\<close>

text \<open>
  A live bus holds a branch register and byte cells per branch, device and register. A write may be
  lost: \<open>drops b k\<close> tells how many more writes of cell \<open>k\<close> will be ignored by the device, which
  is what the retries of the transmit mask are for. The branch register itself is never lost.
\<close>

lemma is_byte_take_bit: "is_byte v \<longleftrightarrow> take_bit 8 v = v"
  by (auto simp: is_byte_def take_bit_int_eq_self_iff)

lemma byte_bit: "is_byte v \<Longrightarrow> bit v i \<Longrightarrow> i < 8"
  by (metis is_byte_take_bit bit_take_bit_iff)

lemma mask_literals:
  "(0x0F::int) = mask 4" "(0xF0::int) = push_bit 4 (mask 4)" "(0xFF::int) = mask 8" "(0xFFF::int) = mask 12"
  by (simp_all add: mask_eq_exp_minus_1 push_bit_eq_mult)

lemma and_not_zero_bit: "(a::int) AND NOT b = 0 \<Longrightarrow> bit a i \<Longrightarrow> bit b i"
  by (metis bit_0_eq bit_and_iff bit_not_int_iff bot_apply bot_bool_def)

lemma tx_mask_bits: "bit (tx_mask_bytes high low) i \<longleftrightarrow> (8 \<le> i \<and> i < 12 \<and> bit high (i - 8)) \<or> bit low i"
  unfolding tx_mask_bytes_def mask_literals by (auto simp: bit_simps)

lemma is_byteI: "(\<And>i. bit v i \<Longrightarrow> i < 8) \<Longrightarrow> is_byte v"
  unfolding is_byte_take_bit by (rule bit_eqI) (auto simp: bit_simps)

lemma tx_target:
  assumes "is_byte high" and "is_byte low" and "lane AND NOT 0xFFF = 0" and "enabled AND NOT lane = 0"
  defines "target \<equiv> (tx_mask_bytes high low AND NOT lane) OR enabled"
  shows "is_byte ((high AND 0xF0) OR drop_bit 8 target)" and "is_byte (target AND 0xFF)"
    and "tx_mask_bytes ((high AND 0xF0) OR drop_bit 8 target) (target AND 0xFF) = target"
proof -
  have lane: "bit lane i \<Longrightarrow> i < 12" for i
    using and_not_zero_bit [OF assms(3)] unfolding mask_literals by (auto simp: bit_simps)
  have en: "bit enabled i \<Longrightarrow> bit lane i" for i using and_not_zero_bit [OF assms(4)] .
  have t: "bit target i \<longleftrightarrow> bit (tx_mask_bytes high low) i \<and> \<not> bit lane i \<or> bit enabled i" for i
    by (auto simp: target_def bit_simps)
  have t12: "bit target i \<Longrightarrow> i < 12" for i
    using t [of i] lane [of i] en [of i] byte_bit [OF assms(2), of i] unfolding tx_mask_bits by fastforce
  show "is_byte ((high AND 0xF0) OR drop_bit 8 target)"
    unfolding mask_literals by (rule is_byteI) (use t12 in \<open>fastforce simp: bit_simps\<close>)
  show "is_byte (target AND 0xFF)"
    unfolding mask_literals by (rule is_byteI) (auto simp: bit_simps)
  show "tx_mask_bytes ((high AND 0xF0) OR drop_bit 8 target) (target AND 0xFF) = target"
    by (rule bit_eqI) (unfold tx_mask_bits mask_literals, use t12 in \<open>auto simp: bit_simps\<close>)
qed

text \<open>
  The whole update, on any live bus: it succeeds when the device loses fewer writes than the
  retries allow, and fails with the register that did not latch otherwise.
\<close>

definition tx_outcome ::
  "int \<Rightarrow> int \<Rightarrow> int \<Rightarrow> nat \<Rightarrow> (int \<times> int \<times> int \<Rightarrow> int) \<Rightarrow> (int \<times> int \<times> int \<Rightarrow> nat) \<Rightarrow>
   hw_error + int \<Rightarrow> (int \<times> int \<times> int \<Rightarrow> int) \<Rightarrow> (int \<times> int \<times> int \<Rightarrow> nat) \<Rightarrow> bool" where
  "tx_outcome mpo lane enabled retries c d res c' d' \<longleftrightarrow>
     (\<forall>k. d' k \<le> d k) \<and>
     (let h = (branch_of mpo, 0x50, 56); l = (branch_of mpo, 0x50, 57);
          target = (tx_mask_bytes (c h) (c l) AND NOT lane) OR enabled;
          vh = (c h AND 0xF0) OR drop_bit 8 target; vl = target AND 0xFF
      in (\<forall>k. k \<noteq> h \<and> k \<noteq> l \<longrightarrow> c' k = c k \<and> d' k = d k)
       \<and> (res = Inr target \<and> c' h = vh \<and> c' l = vl
          \<or> res = Inl (ObtNotLatched mpo 56 retries) \<and> retries \<le> d h \<and> c' h = c h \<and> c' l = c l
          \<or> res = Inl (ObtNotLatched mpo 57 retries) \<and> retries \<le> d l \<and> c' h = vh \<and> c' l = c l))"

text \<open>
  What \<^verbatim>\<open>apply_fan_curve\<close> leaves on a live bus: all registers programmed and the LUT running, or an
  error with the fan in direct mode at full PWM, provided those two writes are not lost themselves.
\<close>

definition fan_outcome ::
  "fan_curve \<Rightarrow> (int \<times> int \<times> int \<Rightarrow> int) \<Rightarrow> (int \<times> int \<times> int \<Rightarrow> nat) \<Rightarrow>
   hw_error + unit \<Rightarrow> (int \<times> int \<times> int \<Rightarrow> int) \<Rightarrow> (int \<times> int \<times> int \<Rightarrow> nat) \<Rightarrow> bool" where
  "fan_outcome curve c d res c' d' \<longleftrightarrow>
     (\<forall>k. \<not> (fst k = 0x08 \<and> fst (snd k) = 0x4C) \<longrightarrow> c' k = c k \<and> d' k = d k)
   \<and> (res = Inr () \<and> (\<forall>k. d' k \<le> d k) \<and> c' (0x08, 0x4C, 0x4A) = 0x10
        \<and> (\<forall>(r, v) \<in> set (fan_register_program curve). r \<noteq> 0x4A \<longrightarrow> c' (0x08, 0x4C, r) = v)
      \<or> (\<exists>e. res = Inl e) \<and> (\<exists>r. 0 < d (0x08, 0x4C, r))
        \<and> (d (0x08, 0x4C, 0x4A) = 0 \<and> d (0x08, 0x4C, 0x4C) = 0 \<longrightarrow>
             c' (0x08, 0x4C, 0x4A) = 0x30 \<and> c' (0x08, 0x4C, 0x4C) = 0xFF))"

locale register_bus =
  fixes ops :: "'b bus_ops"
    and mux :: "'b \<Rightarrow> int"
    and cell :: "'b \<Rightarrow> int \<times> int \<times> int \<Rightarrow> int"
    and drops :: "'b \<Rightarrow> int \<times> int \<times> int \<Rightarrow> nat"
    and live :: "'b \<Rightarrow> bool"
  assumes bytes: "live b \<Longrightarrow> is_byte (mux b) \<and> is_byte (cell b k)"
    and read_mux: "live b \<Longrightarrow> bus_read ops 0x58 None 1 b = (Inr [mux b], b)"
    and read_cell: "live b \<Longrightarrow> a \<noteq> 0x58 \<Longrightarrow> bus_read ops a (Some r) 1 b = (Inr [cell b (mux b, a, r)], b)"
    and write_mux: "live b \<Longrightarrow> is_byte v \<Longrightarrow>
      \<exists>b'. bus_write ops 0x58 None [v] b = (Inr (), b') \<and> live b' \<and> mux b' = v
         \<and> cell b' = cell b \<and> drops b' = drops b"
    and write_cell: "live b \<Longrightarrow> is_byte v \<Longrightarrow> a \<noteq> 0x58 \<Longrightarrow>
      \<exists>b'. bus_write ops a (Some r) [v] b = (Inr (), b') \<and> live b' \<and> mux b' = mux b
         \<and> cell b' = (if drops b (mux b, a, r) = 0 then (cell b)((mux b, a, r) := v) else cell b)
         \<and> drops b' = (drops b)((mux b, a, r) := drops b (mux b, a, r) - 1)"
begin

lemma read_byte_mux: "live b \<Longrightarrow> read_byte ops 0x58 None b = (Inr (mux b), b)"
  by (simp add: read_byte_def monad_simps read_mux [simplified])

lemma read_byte_cell:
  "live b \<Longrightarrow> a \<noteq> 0x58 \<Longrightarrow> read_byte ops a (Some r) b = (Inr (cell b (mux b, a, r)), b)"
  by (simp add: read_byte_def monad_simps read_cell [simplified])

lemma write_byte_mux:
  assumes "live b" and "is_byte v"
  obtains b' where "write_byte ops 0x58 None v b = (Inr (), b')" and "live b'" and "mux b' = v"
    and "cell b' = cell b" and "drops b' = drops b"
  using write_mux [OF assms] assms(2) by (auto simp: write_byte_def is_byte_def)

lemma write_byte_cell:
  assumes "live b" and "is_byte v" and "a \<noteq> 0x58"
  obtains b' where "write_byte ops a (Some r) v b = (Inr (), b')" and "live b'" and "mux b' = mux b"
    and "cell b' = (if drops b (mux b, a, r) = 0 then (cell b)((mux b, a, r) := v) else cell b)"
    and "drops b' = (drops b)((mux b, a, r) := drops b (mux b, a, r) - 1)"
  using write_cell [OF assms, of r] assms(2) by (auto simp: write_byte_def is_byte_def)

text \<open>Whatever the body does, the branch that was selected before is selected again.\<close>

lemma selected_bus_run:
  assumes "live b" and "is_byte branch"
    and "\<And>b1. live b1 \<Longrightarrow> mux b1 = branch \<Longrightarrow> cell b1 = cell b \<Longrightarrow> drops b1 = drops b \<Longrightarrow>
      \<exists>res b2. body b1 = (res, b2) \<and> live b2 \<and> Q res (cell b2) (drops b2)"
  shows "\<exists>res b3. selected_bus ops branch body b = (res, b3) \<and> live b3 \<and> mux b3 = mux b
    \<and> Q res (cell b3) (drops b3)"
proof -
  obtain b1 where b1: "write_byte ops 0x58 None branch b = (Inr (), b1)" "live b1" "mux b1 = branch"
    "cell b1 = cell b" "drops b1 = drops b"
    using write_byte_mux [OF assms(1,2)] .
  then obtain res b2 where b2: "body b1 = (res, b2)" "live b2" "Q res (cell b2) (drops b2)"
    using assms(3) by blast
  have "is_byte (mux b)" using bytes [OF assms(1)] by simp
  from write_byte_mux [OF b2(2) this] obtain b3 where b3:
    "write_byte ops 0x58 None (mux b) b2 = (Inr (), b3)" "live b3" "mux b3 = mux b"
    "cell b3 = cell b2" "drops b3 = drops b2" .
  have "selected_bus ops branch body b = (res, b3)"
    by (simp add: selected_bus_def monad_simps read_byte_mux [OF assms(1)] b1 b2 b3)
  with b2 b3 show ?thesis by metis
qed

text \<open>The retry loop: it latches the value exactly when the device loses fewer writes than allowed.\<close>

lemma latch_run:
  assumes "live b" and "is_byte v" and "k = (mux b, 0x50, register)"
  shows "\<exists>b'. latch ops mpo retries register v left b =
      (if cell b k = v \<or> drops b k < left then Inr () else Inl (ObtNotLatched mpo register retries), b')
    \<and> live b' \<and> mux b' = mux b
    \<and> cell b' = (if drops b k < left then (cell b)(k := v) else cell b)
    \<and> (\<forall>k'. k' \<noteq> k \<longrightarrow> drops b' k' = drops b k') \<and> drops b' k \<le> drops b k"
  using assms(1) unfolding assms(3)
proof (induction left arbitrary: b)
  case 0
  then show ?case by (auto simp: monad_simps read_byte_cell)
next
  case (Suc left)
  let ?k = "(mux b, 80, register)"
  show ?case
  proof (cases "cell b ?k = v")
    case True
    with Suc.prems show ?thesis by (auto simp: monad_simps read_byte_cell fun_upd_idem)
  next
    case False
    obtain b1 where b1: "write_byte ops 80 (Some register) v b = (Inr (), b1)" "live b1" "mux b1 = mux b"
      "cell b1 = (if drops b ?k = 0 then (cell b)(?k := v) else cell b)"
      "drops b1 = (drops b)(?k := drops b ?k - 1)"
      using write_byte_cell [OF Suc.prems assms(2), where a = 80 and r = register] by auto
    from False Suc.prems have "latch ops mpo retries register v (Suc left) b = latch ops mpo retries register v left b1"
      by (simp add: monad_simps read_byte_cell b1)
    with Suc.IH [OF b1(2)] False show ?thesis
      by (cases "drops b ?k") (auto simp: b1 fun_upd_idem split: if_splits)
  qed
qed

lemma read_tx_mask_selected_run:
  assumes "live b"
  shows "read_tx_mask_selected ops b = (Inr (tx_mask_bytes (cell b (mux b, 0x50, 56)) (cell b (mux b, 0x50, 57))), b)"
  using assms by (simp add: read_tx_mask_selected_def monad_simps read_byte_cell)

lemma read_tx_mask_run:
  assumes "live b" and "mpo \<in> {1, 2}"
  obtains b' where "read_tx_mask ops mpo b =
      (Inr (tx_mask_bytes (cell b (branch_of mpo, 0x50, 56)) (cell b (branch_of mpo, 0x50, 57))), b')"
    and "live b'" and "mux b' = mux b" and "cell b' = cell b" and "drops b' = drops b"
proof -
  have br: "is_byte (branch_of mpo)" using assms(2) by (auto simp: branch_of_def is_byte_def)
  let ?Q = "\<lambda>res c d. res = Inr (tx_mask_bytes (cell b (branch_of mpo, 0x50, 56)) (cell b (branch_of mpo, 0x50, 57)))
         \<and> c = cell b \<and> d = drops b"
  have body: "\<exists>res b2. read_tx_mask_selected ops b1 = (res, b2) \<and> live b2 \<and> ?Q res (cell b2) (drops b2)"
    if "live b1" "mux b1 = branch_of mpo" "cell b1 = cell b" "drops b1 = drops b" for b1
    using that by (simp add: read_tx_mask_selected_run)
  have "\<exists>res b3. selected_bus ops (branch_of mpo) (read_tx_mask_selected ops) b = (res, b3) \<and> live b3
      \<and> mux b3 = mux b \<and> ?Q res (cell b3) (drops b3)"
    by (rule selected_bus_run [OF assms(1) br]) (rule body)
  with that show thesis unfolding read_tx_mask_def by blast
qed

lemma update_tx_mask_run:
  assumes "live b" and "mpo \<in> {1, 2}" and "lane AND NOT 0xFFF = 0" and "enabled AND NOT lane = 0"
  obtains res b' where "update_tx_mask ops mpo lane enabled retries b = (res, b')" and "live b'"
    and "mux b' = mux b"
    and "tx_outcome mpo lane enabled retries (cell b) (drops b) res (cell b') (drops b')"
proof -
  define h where "h = (branch_of mpo, 0x50::int, 56::int)"
  define l where "l = (branch_of mpo, 0x50::int, 57::int)"
  have hl: "h \<noteq> l" by (simp add: h_def l_def)
  define target where "target = (tx_mask_bytes (cell b h) (cell b l) AND NOT lane) OR enabled"
  define vh where "vh = (cell b h AND 0xF0) OR drop_bit 8 target"
  define vl where "vl = target AND 0xFF"
  have br: "is_byte (branch_of mpo)" using assms(2) by (auto simp: branch_of_def is_byte_def)
  note tt = tx_target [OF conjunct2 [OF bytes [OF assms(1)], of h] conjunct2 [OF bytes [OF assms(1)], of l] assms(3,4),
      folded target_def, folded vh_def vl_def]
  let ?body = "bind_action (read_byte ops 0x50 (Some 56)) (\<lambda>high.
         bind_action (read_byte ops 0x50 (Some 57)) (\<lambda>low.
           let before = tx_mask_bytes high low;
               target = (before AND NOT lane) OR enabled
           in then_action (latch ops mpo retries 56 ((high AND 0xF0) OR drop_bit 8 target) retries)
             (then_action (latch ops mpo retries 57 (target AND 0xFF) retries)
               (bind_action (read_tx_mask_selected ops) (\<lambda>observed.
                  if observed \<noteq> target then raise_error (ObtReadback mpo) else ret observed)))))"
  let ?Q = "tx_outcome mpo lane enabled retries (cell b) (drops b)"
  have body: "\<exists>res b2. ?body b1 = (res, b2) \<and> live b2 \<and> ?Q res (cell b2) (drops b2)"
    if b1: "live b1" "mux b1 = branch_of mpo" "cell b1 = cell b" "drops b1 = drops b" for b1
  proof -
    have k1: "h = (mux b1, 0x50, 56)" by (simp add: h_def b1)
    obtain b2 where b2: "latch ops mpo retries 56 vh retries b1 =
        (if cell b1 h = vh \<or> drops b1 h < retries then Inr () else Inl (ObtNotLatched mpo 56 retries), b2)"
      "live b2" "mux b2 = mux b1" "cell b2 = (if drops b1 h < retries then (cell b1)(h := vh) else cell b1)"
      "\<forall>k'. k' \<noteq> h \<longrightarrow> drops b2 k' = drops b1 k'" "drops b2 h \<le> drops b1 h"
      using latch_run [OF b1(1) tt(1) k1, of mpo retries retries] by blast
    have k2: "l = (mux b2, 0x50, 57)" by (simp add: l_def b1 b2)
    obtain b3 where b3: "latch ops mpo retries 57 vl retries b2 =
        (if cell b2 l = vl \<or> drops b2 l < retries then Inr () else Inl (ObtNotLatched mpo 57 retries), b3)"
      "live b3" "mux b3 = mux b2" "cell b3 = (if drops b2 l < retries then (cell b2)(l := vl) else cell b2)"
      "\<forall>k'. k' \<noteq> l \<longrightarrow> drops b3 k' = drops b2 k'" "drops b3 l \<le> drops b2 l"
      using latch_run [OF b2(2) tt(2) k2, of mpo retries retries] by blast
    have r1: "read_byte ops 80 (Some 56) b1 = (Inr (cell b h), b1)"
      and r2: "read_byte ops 80 (Some 57) b1 = (Inr (cell b l), b1)"
      by (simp_all add: read_byte_cell b1 h_def l_def)
    have o: "read_tx_mask_selected ops b3 = (Inr (tx_mask_bytes (cell b3 h) (cell b3 l)), b3)"
      by (simp add: read_tx_mask_selected_run b1 b2 b3 h_def l_def)
    have c3h: "cell b3 h = cell b2 h" using hl b3(4) by simp
    have le2: "drops b2 k \<le> drops b k" for k using b2(5,6) b1(4) by (metis order_refl)
    have le3: "drops b3 k \<le> drops b k" for k using b3(5,6) le2 by (metis order_trans)
    have out: "tx_outcome mpo lane enabled retries (cell b) (drops b) res c' d' \<longleftrightarrow>
        (\<forall>k. d' k \<le> drops b k) \<and>
        (\<forall>k. k \<noteq> h \<and> k \<noteq> l \<longrightarrow> c' k = cell b k \<and> d' k = drops b k)
       \<and> (res = Inr target \<and> c' h = vh \<and> c' l = vl
          \<or> res = Inl (ObtNotLatched mpo 56 retries) \<and> retries \<le> drops b h \<and> c' h = cell b h \<and> c' l = cell b l
          \<or> res = Inl (ObtNotLatched mpo 57 retries) \<and> retries \<le> drops b l \<and> c' h = vh \<and> c' l = cell b l)" for res c' d'
      by (simp only: tx_outcome_def Let_def h_def [symmetric] l_def [symmetric] target_def [symmetric]
          vh_def [symmetric] vl_def [symmetric])
    show ?thesis
      unfolding out
      apply (simp only: bind_apply then_apply r1 r2 prod.case sum.case Let_def target_def [symmetric] vh_def [symmetric] vl_def [symmetric] b2)
      using b1 tt(3) hl
      apply (auto simp: monad_simps b2 b3 o c3h le2 le3)
      done
  qed
  have upd: "update_tx_mask ops mpo lane enabled retries = selected_bus ops (branch_of mpo) ?body"
    unfolding update_tx_mask_def using assms(2-4) by (simp only: not_not simp_thms if_False)
  have "\<exists>res b3. selected_bus ops (branch_of mpo) ?body b = (res, b3) \<and> live b3
      \<and> mux b3 = mux b \<and> ?Q res (cell b3) (drops b3)"
    by (rule selected_bus_run [OF assms(1) br]) (rule body)
  with that show thesis unfolding upd by blast
qed

lemma write_verified_run:
  assumes "live b" and "is_byte v" and "K = (mux b, 0x4C, r)"
  obtains b' where "write_verified ops (r, v) b = (if cell b' K = v then Inr () else Inl (Lm96163Readback r), b')"
    and "live b'" and "mux b' = mux b" and "\<forall>k. k \<noteq> K \<longrightarrow> cell b' k = cell b k \<and> drops b' k = drops b k"
    and "drops b' K \<le> drops b K" and "drops b K = 0 \<Longrightarrow> cell b' K = v"
proof -
  have "(0x4C::int) \<noteq> 0x58" by simp
  from write_byte_cell [OF assms(1,2) this, of r] obtain b' where b':
    "write_byte ops 0x4C (Some r) v b = (Inr (), b')" "live b'" "mux b' = mux b"
    "cell b' = (if drops b K = 0 then (cell b)(K := v) else cell b)"
    "drops b' = (drops b)(K := drops b K - 1)" unfolding assms(3) .
  show thesis
  proof (rule that)
    show "write_verified ops (r, v) b = (if cell b' K = v then Inr () else Inl (Lm96163Readback r), b')"
      by (simp add: write_verified_def monad_simps b'(1) read_byte_cell b'(2,3) assms(3))
  qed (use b' in auto)
qed

lemma program_run:
  assumes "live b" and "\<forall>(r, v) \<in> set prog. is_byte v" and "distinct (map fst prog)"
  shows "\<exists>res b'. for_each (write_verified ops) prog b = (res, b') \<and> live b' \<and> mux b' = mux b
    \<and> (\<forall>k. (\<forall>r \<in> fst ` set prog. k \<noteq> (mux b, 0x4C, r)) \<longrightarrow> cell b' k = cell b k \<and> drops b' k = drops b k)
    \<and> (\<forall>k. drops b' k \<le> drops b k)
    \<and> (res = Inr () \<and> (\<forall>(r, v) \<in> set prog. cell b' (mux b, 0x4C, r) = v)
       \<or> (\<exists>r. res = Inl (Lm96163Readback r) \<and> 0 < drops b (mux b, 0x4C, r)))"
  using assms
proof (induction prog arbitrary: b)
  case Nil
  then show ?case by (simp add: monad_simps)
next
  case (Cons rv prog)
  obtain r v where rv: "rv = (r, v)" by fastforce
  define K where "K = (mux b, 0x4C::int, r)"
  have "is_byte v" using Cons.prems(2) by (simp add: rv)
  from write_verified_run [OF Cons.prems(1) this K_def] obtain b1 where b1:
    "write_verified ops (r, v) b = (if cell b1 K = v then Inr () else Inl (Lm96163Readback r), b1)"
    "live b1" "mux b1 = mux b" "\<forall>k. k \<noteq> K \<longrightarrow> cell b1 k = cell b k \<and> drops b1 k = drops b k"
    "drops b1 K \<le> drops b K" "drops b K = 0 \<Longrightarrow> cell b1 K = v" by blast
  have le: "drops b1 k \<le> drops b k" for k using b1(4,5) by (metis order_refl)
  show ?case
  proof (cases "cell b1 K = v")
    case False
    with b1 le show ?thesis by (auto simp: rv monad_simps K_def)
  next
    case True
    from Cons.IH [OF b1(2)] Cons.prems(2,3) obtain res b2 where b2:
      "for_each (write_verified ops) prog b1 = (res, b2)" "live b2" "mux b2 = mux b1"
      "\<forall>k. (\<forall>r \<in> fst ` set prog. k \<noteq> (mux b1, 0x4C, r)) \<longrightarrow> cell b2 k = cell b1 k \<and> drops b2 k = drops b1 k"
      "\<forall>k. drops b2 k \<le> drops b1 k"
      "res = Inr () \<and> (\<forall>(r, v) \<in> set prog. cell b2 (mux b1, 0x4C, r) = v)
       \<or> (\<exists>r. res = Inl (Lm96163Readback r) \<and> 0 < drops b1 (mux b1, 0x4C, r))"
      by (auto simp: rv)
    have "K \<noteq> (mux b1, 0x4C, r')" if "r' \<in> fst ` set prog" for r'
      using that Cons.prems(3) by (auto simp: K_def rv)
    then have K2: "cell b2 K = v" using b2(4) True by metis
    have "for_each (write_verified ops) (rv # prog) b = (res, b2)"
      using True by (simp add: rv monad_simps b1(1) b2(1))
    moreover have "\<forall>k. (\<forall>r \<in> fst ` set (rv # prog). k \<noteq> (mux b, 0x4C, r)) \<longrightarrow>
        cell b2 k = cell b k \<and> drops b2 k = drops b k"
      using b2(4) b1(3,4) by (simp add: rv K_def)
    moreover have "\<forall>k. drops b2 k \<le> drops b k" using le b2(5) order_trans by blast
    moreover have "res = Inr () \<and> (\<forall>(r, v) \<in> set (rv # prog). cell b2 (mux b, 0x4C, r) = v)
       \<or> (\<exists>r. res = Inl (Lm96163Readback r) \<and> 0 < drops b (mux b, 0x4C, r))"
      using b2(6)
    proof
      assume "res = Inr () \<and> (\<forall>(r, v) \<in> set prog. cell b2 (mux b1, 0x4C, r) = v)"
      with K2 b1(3) show ?thesis by (auto simp: rv K_def)
    next
      assume "\<exists>r. res = Inl (Lm96163Readback r) \<and> 0 < drops b1 (mux b1, 0x4C, r)"
      with le b1(3) show ?thesis by (metis less_le_trans)
    qed
    ultimately show ?thesis using b2(2,3) b1(3) by metis
  qed
qed

lemma fallback_run:
  assumes "live b" and "mux b = 0x08"
  obtains b' where "full_speed_fallback ops e b = (Inl e, b')" and "live b'" and "mux b' = 0x08"
    and "\<forall>k. \<not> (fst k = 0x08 \<and> fst (snd k) = 0x4C) \<longrightarrow> cell b' k = cell b k \<and> drops b' k = drops b k"
    and "drops b (0x08, 0x4C, 0x4A) = 0 \<Longrightarrow> drops b (0x08, 0x4C, 0x4C) = 0 \<Longrightarrow>
      cell b' (0x08, 0x4C, 0x4A) = 0x30 \<and> cell b' (0x08, 0x4C, 0x4C) = 0xFF"
proof -
  have n: "(0x4C::int) \<noteq> 0x58" by simp
  have "is_byte 0x30" "is_byte 0xFF" by (simp_all add: is_byte_def)
  from write_byte_cell [OF assms(1) this(1) n, of "0x4A"] obtain b1 where b1:
    "write_byte ops 0x4C (Some 0x4A) 0x30 b = (Inr (), b1)" "live b1" "mux b1 = mux b"
    "cell b1 = (if drops b (mux b, 0x4C, 0x4A) = 0 then (cell b)((mux b, 0x4C, 0x4A) := 0x30) else cell b)"
    "drops b1 = (drops b)((mux b, 0x4C, 0x4A) := drops b (mux b, 0x4C, 0x4A) - 1)" .
  from write_byte_cell [OF b1(2) \<open>is_byte 0xFF\<close> n, of "0x4C"] obtain b2 where b2:
    "write_byte ops 0x4C (Some 0x4C) 0xFF b1 = (Inr (), b2)" "live b2" "mux b2 = mux b1"
    "cell b2 = (if drops b1 (mux b1, 0x4C, 0x4C) = 0 then (cell b1)((mux b1, 0x4C, 0x4C) := 0xFF) else cell b1)"
    "drops b2 = (drops b1)((mux b1, 0x4C, 0x4C) := drops b1 (mux b1, 0x4C, 0x4C) - 1)" .
  show thesis
    by (rule that [of b2]) (auto simp: full_speed_fallback_def monad_simps b1 b2 assms)
qed

lemma apply_fan_curve_run:
  assumes "live b" and "first_failure (fan_curve_checks curve) = None"
  obtains res b' where "apply_fan_curve ops curve b = (res, b')" and "live b'" and "mux b' = mux b"
    and "fan_outcome curve (cell b) (drops b) res (cell b') (drops b')"
proof -
  let ?body = "catch_action
          (then_action (for_each (write_verified ops) (fan_register_program curve)) (enter_lut_mode ops))
          (full_speed_fallback ops)"
  let ?Q = "fan_outcome curve (cell b) (drops b)"
  have body: "\<exists>res b2. ?body b1 = (res, b2) \<and> live b2 \<and> ?Q res (cell b2) (drops b2)"
    if start: "live b1" "mux b1 = 0x08" "cell b1 = cell b" "drops b1 = drops b" for b1
  proof -
    from program_run [OF start(1) fan_program_bytes [OF assms(2)] fan_program_distinct]
    obtain res b2 where b2: "for_each (write_verified ops) (fan_register_program curve) b1 = (res, b2)" "live b2"
      "mux b2 = mux b1"
      "\<forall>k. (\<forall>r \<in> fst ` set (fan_register_program curve). k \<noteq> (mux b1, 0x4C, r)) \<longrightarrow>
        cell b2 k = cell b1 k \<and> drops b2 k = drops b1 k"
      "\<forall>k. drops b2 k \<le> drops b1 k"
      "res = Inr () \<and> (\<forall>(r, v) \<in> set (fan_register_program curve). cell b2 (mux b1, 0x4C, r) = v)
       \<or> (\<exists>r. res = Inl (Lm96163Readback r) \<and> 0 < drops b1 (mux b1, 0x4C, r))"
      by blast
    have frame2: "\<forall>k. \<not> (fst k = 0x08 \<and> fst (snd k) = 0x4C) \<longrightarrow> cell b2 k = cell b k \<and> drops b2 k = drops b k"
      using b2(4) start by auto
    have failed: ?thesis
      if e: "then_action (for_each (write_verified ops) (fan_register_program curve)) (enter_lut_mode ops) b1 = (Inl e, b3)"
        and b3: "live b3" "mux b3 = 0x08"
          "\<forall>k. \<not> (fst k = 0x08 \<and> fst (snd k) = 0x4C) \<longrightarrow> cell b3 k = cell b k \<and> drops b3 k = drops b k"
          "\<forall>k. drops b3 k \<le> drops b k" "\<exists>r. 0 < drops b (0x08, 0x4C, r)" for e b3
    proof -
      from fallback_run [OF b3(1,2), of e] obtain b4 where b4: "full_speed_fallback ops e b3 = (Inl e, b4)" "live b4"
        "\<forall>k. \<not> (fst k = 0x08 \<and> fst (snd k) = 0x4C) \<longrightarrow> cell b4 k = cell b3 k \<and> drops b4 k = drops b3 k"
        "drops b3 (0x08, 0x4C, 0x4A) = 0 \<Longrightarrow> drops b3 (0x08, 0x4C, 0x4C) = 0 \<Longrightarrow>
          cell b4 (0x08, 0x4C, 0x4A) = 0x30 \<and> cell b4 (0x08, 0x4C, 0x4C) = 0xFF" by metis
      have "?Q (Inl e) (cell b4) (drops b4)"
        unfolding fan_outcome_def
      proof (intro conjI disjI2)
        show "\<forall>k. \<not> (fst k = 0x08 \<and> fst (snd k) = 0x4C) \<longrightarrow> cell b4 k = cell b k \<and> drops b4 k = drops b k"
          using b3(3) b4(3) by simp
        show "\<exists>e'. Inl e = Inl e'" by simp
        show "\<exists>r. 0 < drops b (0x08, 0x4C, r)" by (rule b3(5))
        show "drops b (0x08, 0x4C, 0x4A) = 0 \<and> drops b (0x08, 0x4C, 0x4C) = 0 \<longrightarrow>
            cell b4 (0x08, 0x4C, 0x4A) = 0x30 \<and> cell b4 (0x08, 0x4C, 0x4C) = 0xFF"
          using b3(4) b4(4) by (metis le_zero_eq)
      qed
      with e b4 show ?thesis by (simp add: catch_apply)
    qed
    show ?thesis
    proof (cases "res = Inr ()")
      case False
      with b2(6) obtain r where r: "res = Inl (Lm96163Readback r)" "0 < drops b1 (mux b1, 0x4C, r)" by blast
      show ?thesis
        by (rule failed [of "Lm96163Readback r" b2]) (use b2 r start frame2 in \<open>auto simp: then_apply\<close>)
    next
      case True
      define K where "K = (8::int, 0x4C::int, 0x4A::int)"
      have "(0x4C::int) \<noteq> 0x58" "is_byte 0x10" by (simp_all add: is_byte_def)
      from write_byte_cell [OF b2(2) this(2,1), of "0x4A"] obtain b3 where b3:
        "write_byte ops 0x4C (Some 0x4A) 0x10 b2 = (Inr (), b3)" "live b3" "mux b3 = 0x08"
        "cell b3 = (if drops b2 K = 0 then (cell b2)(K := 0x10) else cell b2)"
        "drops b3 = (drops b2)(K := drops b2 K - 1)" unfolding b2(3) start(2) K_def .
      have rd: "read_byte ops 0x4C (Some 0x4A) b3 = (Inr (cell b3 K), b3)"
        by (simp add: read_byte_cell b3 K_def)
      have frame3: "\<forall>k. \<not> (fst k = 0x08 \<and> fst (snd k) = 0x4C) \<longrightarrow> cell b3 k = cell b k \<and> drops b3 k = drops b k"
        using frame2 b3(4,5) by (auto simp: K_def)
      have le3: "drops b3 k \<le> drops b k" for k
        using b2(5) [rule_format, of k] start(4) by (auto simp: b3(5))
      show ?thesis
      proof (cases "cell b3 K = 0x10")
        case lut: True
        have "cell b3 (8, 0x4C, r) = v" if "(r, v) \<in> set (fan_register_program curve)" "r \<noteq> 0x4A" for r v
          using that b2(6) True b3(4) start(2) by (auto simp: K_def)
        then have "?Q (Inr ()) (cell b3) (drops b3)"
          unfolding fan_outcome_def using frame3 lut le3 by (auto simp: K_def)
        moreover have "?body b1 = (Inr (), b3)"
          using True lut by (simp add: catch_apply then_apply b2(1) enter_lut_mode_def bind_apply b3(1) rd ret_apply)
        ultimately show ?thesis using b3(2) by blast
      next
        case lut: False
        have "drops b2 K \<noteq> 0" using lut b3(4) by (auto split: if_splits)
        then have "0 < drops b K" using b2(5) start(4) by (metis gr0I le_zero_eq)
        moreover note le3
        moreover have "then_action (for_each (write_verified ops) (fan_register_program curve)) (enter_lut_mode ops) b1
            = (Inl Lm96163NotLut, b3)"
          using True lut by (simp add: then_apply b2(1) enter_lut_mode_def bind_apply b3(1) rd raise_apply)
        ultimately show ?thesis
          using failed [of Lm96163NotLut b3] b3(2,3) frame3 unfolding K_def by blast
      qed
    qed
  qed
  have "is_byte 8" by (simp add: is_byte_def)
  have "\<exists>res b3. selected_bus ops 0x08 ?body b = (res, b3) \<and> live b3 \<and> mux b3 = mux b \<and> ?Q res (cell b3) (drops b3)"
    by (rule selected_bus_run [OF assms(1) \<open>is_byte 8\<close>]) (rule body)
  with that show thesis unfolding apply_fan_curve_def by blast
qed

end

end
