(* ===== verification/Simulated_Bus.thy ===== *)
theory Simulated_Bus
  imports Register_Bus
begin

text \<open>
  The \<^verbatim>\<open>SimulatedBus\<close> of simulator.py and its interpretation as a register device. A register
  that was never written reads 0, which makes the dictionary a total function; the events are kept
  newest first.
\<close>

subsection \<open>The bus\<close>

record sim_bus =
  sim_mux :: int
  sim_registers :: "int \<times> int \<times> int \<Rightarrow> int"
  sim_events :: "(int \<times> int \<times> int option \<times> int list) list"
  sim_drop_writes :: "int \<times> int \<times> int \<Rightarrow> nat"
  sim_unavailable :: bool

definition fresh_bus :: sim_bus where
  "fresh_bus = \<lparr>sim_mux = 1, sim_registers = (\<lambda>_. 0), sim_events = [], sim_drop_writes = (\<lambda>_. 0),
     sim_unavailable = False\<rparr>"

definition sim_read :: "int \<Rightarrow> int option \<Rightarrow> nat \<Rightarrow> (sim_bus, hw_error, int list) action" where
  "sim_read address register n b =
     (if sim_unavailable b then (Inl BusLost, b)
      else if address = 0x58 then (Inr [sim_mux b], b)
      else case register of
        None \<Rightarrow> (if n = 0 then Inr [] else Inl PyTypeError, b)
      | Some r \<Rightarrow> (Inr (map (\<lambda>offset. sim_registers b (sim_mux b, address, r + int offset)) [0..<n]), b))"

fun store_bytes :: "int \<times> int \<times> int \<Rightarrow> int list \<Rightarrow> (int \<times> int \<times> int \<Rightarrow> int) \<Rightarrow> int \<times> int \<times> int \<Rightarrow> int" where
  "store_bytes k [] regs = regs"
| "store_bytes (branch, a, r) (v # vs) regs = store_bytes (branch, a, r + 1) vs (regs((branch, a, r) := v))"

definition sim_write :: "int \<Rightarrow> int option \<Rightarrow> int list \<Rightarrow> (sim_bus, hw_error, unit) action" where
  "sim_write address register bytes b0 =
     (if sim_unavailable b0 then (Inl BusLost, b0)
      else let b = b0\<lparr>sim_events := (sim_mux b0, address, register, bytes) # sim_events b0\<rparr>
      in if address = 0x58
         then case bytes of [] \<Rightarrow> (Inl PyIndexError, b) | v # _ \<Rightarrow> (Inr (), b\<lparr>sim_mux := v\<rparr>)
         else case register of
           None \<Rightarrow> (if bytes = [] then Inr () else Inl PyTypeError, b)
         | Some r \<Rightarrow>
             let k = (sim_mux b, address, r)
             in if sim_drop_writes b k \<noteq> 0
                then (Inr (), b\<lparr>sim_drop_writes := (sim_drop_writes b)(k := sim_drop_writes b k - 1)\<rparr>)
                else (Inr (), b\<lparr>sim_registers := store_bytes k bytes (sim_registers b)\<rparr>))"

definition sim_ops :: "sim_bus bus_ops" where
  "sim_ops = \<lparr>bus_read = sim_read, bus_write = sim_write\<rparr>"

definition sim_bytes :: "sim_bus \<Rightarrow> bool" where
  "sim_bytes b \<longleftrightarrow> is_byte (sim_mux b) \<and> (\<forall>k. is_byte (sim_registers b k))"

definition sim_live :: "sim_bus \<Rightarrow> bool" where
  "sim_live b \<longleftrightarrow> \<not> sim_unavailable b \<and> sim_bytes b"

interpretation sim: register_bus sim_ops sim_mux sim_registers sim_drop_writes sim_live
proof
  fix b v and a r :: int and k
  assume live: "sim_live b"
  show "is_byte (sim_mux b) \<and> is_byte (sim_registers b k)"
    using live by (cases k) (simp add: sim_live_def sim_bytes_def)
  show "bus_read sim_ops 0x58 None 1 b = (Inr [sim_mux b], b)"
    using live by (simp add: sim_ops_def sim_read_def sim_live_def)
  show "bus_read sim_ops a (Some r) 1 b = (Inr [sim_registers b (sim_mux b, a, r)], b)" if "a \<noteq> 0x58"
    using live that by (simp add: sim_ops_def sim_read_def sim_live_def)
  assume v: "is_byte v"
  show "\<exists>b'. bus_write sim_ops 0x58 None [v] b = (Inr (), b') \<and> sim_live b' \<and> sim_mux b' = v
      \<and> sim_registers b' = sim_registers b \<and> sim_drop_writes b' = sim_drop_writes b"
    using live v by (auto simp: sim_ops_def sim_write_def sim_live_def sim_bytes_def Let_def)
  show "\<exists>b'. bus_write sim_ops a (Some r) [v] b = (Inr (), b') \<and> sim_live b' \<and> sim_mux b' = sim_mux b
      \<and> sim_registers b' = (if sim_drop_writes b (sim_mux b, a, r) = 0
           then (sim_registers b)((sim_mux b, a, r) := v) else sim_registers b)
      \<and> sim_drop_writes b' = (sim_drop_writes b)((sim_mux b, a, r) := sim_drop_writes b (sim_mux b, a, r) - 1)"
    if "a \<noteq> 0x58"
    using live v that by (auto simp: sim_ops_def sim_write_def sim_live_def sim_bytes_def Let_def fun_upd_idem)
qed

subsection \<open>A bus that does not answer\<close>

lemma sim_unavailable_selected:
  assumes "sim_unavailable b"
  shows "selected_bus sim_ops branch body b = (Inl BusLost, b)"
  using assms by (simp add: selected_bus_def read_byte_def sim_ops_def sim_read_def monad_simps)

subsection \<open>Transmit masks\<close>

definition tx_mask_of :: "sim_bus \<Rightarrow> int \<Rightarrow> int" where
  "tx_mask_of b mpo = tx_mask_bytes (sim_registers b (branch_of mpo, 0x50, 56)) (sim_registers b (branch_of mpo, 0x50, 57))"

lemma branch_distinct: "m \<in> {1, 2} \<Longrightarrow> n \<in> {1, 2} \<Longrightarrow> branch_of m = branch_of n \<longleftrightarrow> m = n"
  by (auto simp: branch_of_def)

text \<open>
  An update changes lanes of its own group only, whether it succeeds or not, and when it succeeds
  the lanes are the requested ones. The other connector is never touched.
\<close>

lemma partial_latch_bits:
  assumes "enabled AND NOT lane = 0" and "target = (tx_mask_bytes high low AND NOT lane) OR enabled"
  shows "tx_mask_bytes ((high AND 0xF0) OR drop_bit 8 target) low AND NOT lane = tx_mask_bytes high low AND NOT lane"
proof (rule bit_eqI)
  fix n
  have "bit enabled i \<Longrightarrow> bit lane i" for i using and_not_zero_bit [OF assms(1)] .
  then show "bit (tx_mask_bytes ((high AND 0xF0) OR drop_bit 8 target) low AND NOT lane) n
      = bit (tx_mask_bytes high low AND NOT lane) n"
    unfolding assms(2) mask_literals by (auto simp: bit_simps tx_mask_bits)
qed

definition tx_update :: "sim_bus \<Rightarrow> int \<Rightarrow> int \<Rightarrow> int \<Rightarrow> hw_error + int \<Rightarrow> sim_bus \<Rightarrow> bool" where
  "tx_update b mpo lane enabled res b' \<longleftrightarrow>
     sim_bytes b' \<and> sim_unavailable b' = sim_unavailable b
   \<and> (\<forall>m \<in> {1, 2}. m \<noteq> mpo \<longrightarrow> tx_mask_of b' m = tx_mask_of b m)
   \<and> tx_mask_of b' mpo AND NOT lane = tx_mask_of b mpo AND NOT lane
   \<and> (\<forall>v. res = Inr v \<longrightarrow> v = (tx_mask_of b mpo AND NOT lane) OR enabled \<and> tx_mask_of b' mpo = v)"

lemma sim_update_tx_mask:
  assumes "sim_bytes b" and "mpo \<in> {1, 2}" and "lane AND NOT 0xFFF = 0" and "enabled AND NOT lane = 0"
    and "update_tx_mask sim_ops mpo lane enabled retries b = (res, b')"
  shows "tx_update b mpo lane enabled res b'"
proof (cases "sim_unavailable b")
  case True
  then have "update_tx_mask sim_ops mpo lane enabled retries b = (Inl BusLost, b)"
    using assms(2-4) True by (auto simp: update_tx_mask_def sim_unavailable_selected)
  with assms(1,5) show ?thesis by (auto simp: tx_update_def)
next
  case False
  with assms(1) have "sim_live b" by (simp add: sim_live_def)
  from sim.update_tx_mask_run [OF this assms(2-4), of retries] assms(5)
  have live: "sim_live b'" and out: "tx_outcome mpo lane enabled retries (sim_registers b) (sim_drop_writes b)
      res (sim_registers b') (sim_drop_writes b')"
    by (metis Pair_inject)+
  let ?h = "(branch_of mpo, 0x50::int, 56::int)" and ?l = "(branch_of mpo, 0x50::int, 57::int)"
  let ?target = "(tx_mask_of b mpo AND NOT lane) OR enabled"
  have byte: "is_byte (sim_registers b k)" for k using assms(1) unfolding sim_bytes_def by blast
  note tt = tx_target [OF byte byte assms(3,4), of ?h ?l, folded tx_mask_of_def]
  have other: "tx_mask_of b' m = tx_mask_of b m" if "m \<in> {1, 2}" "m \<noteq> mpo" for m
    using out that branch_distinct [OF that(1) assms(2)] by (simp add: tx_mask_of_def tx_outcome_def Let_def)
  have enabled: "enabled AND NOT lane = 0" by (rule assms(4))
  have keep: "?target AND NOT lane = tx_mask_of b mpo AND NOT lane"
    by (rule bit_eqI) (use and_not_zero_bit [OF assms(4)] in \<open>auto simp: bit_simps\<close>)
  have "tx_mask_of b' mpo AND NOT lane = tx_mask_of b mpo AND NOT lane
      \<and> (\<forall>v. res = Inr v \<longrightarrow> v = ?target \<and> tx_mask_of b' mpo = v)"
    using out unfolding tx_outcome_def Let_def tx_mask_of_def [symmetric]
  proof (elim conjE disjE)
    assume "res = Inr ?target" "sim_registers b' ?h = sim_registers b ?h AND 0xF0 OR drop_bit 8 ?target"
      "sim_registers b' ?l = ?target AND 0xFF"
    with tt(3) keep show ?thesis by (simp add: tx_mask_of_def [of b'])
  next
    assume "res = Inl (ObtNotLatched mpo 56 retries)" "sim_registers b' ?h = sim_registers b ?h"
      "sim_registers b' ?l = sim_registers b ?l"
    then show ?thesis by (simp add: tx_mask_of_def)
  next
    assume "res = Inl (ObtNotLatched mpo 57 retries)"
      "sim_registers b' ?h = sim_registers b ?h AND 0xF0 OR drop_bit 8 ?target"
      "sim_registers b' ?l = sim_registers b ?l"
    then show ?thesis
      using partial_latch_bits [OF assms(4) refl, of "sim_registers b ?h" "sim_registers b ?l"]
      by (simp add: tx_mask_of_def)
  qed
  with other live False show ?thesis by (auto simp: tx_update_def sim_live_def)
qed

lemma sim_read_tx_mask:
  assumes "sim_bytes b" and "mpo \<in> {1, 2}" and "read_tx_mask sim_ops mpo b = (res, b')"
  shows "sim_bytes b' \<and> sim_unavailable b' = sim_unavailable b \<and> tx_mask_of b' = tx_mask_of b
    \<and> res = (if sim_unavailable b then Inl BusLost else Inr (tx_mask_of b mpo))"
proof (cases "sim_unavailable b")
  case True
  then show ?thesis using assms by (auto simp: read_tx_mask_def sim_unavailable_selected)
next
  case False
  with assms(1) have "sim_live b" by (simp add: sim_live_def)
  from sim.read_tx_mask_run [OF this assms(2)] assms(3) False show ?thesis
    by (fastforce simp: tx_mask_of_def sim_live_def)
qed

lemma sim_apply_fan_curve:
  assumes "sim_bytes b" and "first_failure (fan_curve_checks curve) = None"
    and "apply_fan_curve sim_ops curve b = (res, b')"
  shows "sim_bytes b' \<and> sim_unavailable b' = sim_unavailable b \<and> (\<forall>mpo \<in> {1, 2}. tx_mask_of b' mpo = tx_mask_of b mpo)
    \<and> (sim_unavailable b \<and> res = Inl BusLost \<and> b' = b
       \<or> \<not> sim_unavailable b \<and> fan_outcome curve (sim_registers b) (sim_drop_writes b) res
           (sim_registers b') (sim_drop_writes b'))"
proof (cases "sim_unavailable b")
  case True
  then show ?thesis using assms by (auto simp: apply_fan_curve_def sim_unavailable_selected)
next
  case False
  with assms(1) have "sim_live b" by (simp add: sim_live_def)
  from sim.apply_fan_curve_run [OF this assms(2)] assms(3)
  have live: "sim_live b'" and out: "fan_outcome curve (sim_registers b) (sim_drop_writes b) res
      (sim_registers b') (sim_drop_writes b')" by (metis Pair_inject)+
  have "tx_mask_of b' mpo = tx_mask_of b mpo" for mpo
    using out by (simp add: fan_outcome_def tx_mask_of_def)
  with live out False show ?thesis by (simp add: sim_live_def)
qed

end
