(* ===== verification/Mock_Configd.thy ===== *)
theory Mock_Configd
  imports Simulated_Bus
begin

text \<open>
  The \<^verbatim>\<open>MockConfigd\<close> authority of simulator.py: the active configuration, the pending
  before-image, the simulated hardware and the state file. Every operation of the class is an
  action on the record \<open>configd\<close>; the clock is read once per operation and passed as \<open>now\<close>, in
  milliseconds. The state file is kept as the list of all images ever written, newest first, so
  that a crash in the middle of an operation can be stated: the file then holds one of them.
  Temperatures are in hundredths of a degree.
\<close>

subsection \<open>State\<close>

datatype commit_phase = Applying | AwaitingConfirmation
datatype transaction_state = TxConfirmed | TxRolledBack

record pending_commit =
  pd_job :: string
  pd_before :: switch_configuration
  pd_phase :: commit_phase
  pd_deadline :: int

record transaction =
  tr_job :: string
  tr_revision :: int
  tr_state :: transaction_state

record image =
  im_revision :: int
  im_configuration :: switch_configuration
  im_pending :: "pending_commit option"
  im_last_transaction :: "transaction option"

datatype sensor_quality = SensorSimulated | SensorStale | SensorUnavailable

record sensor_sample =
  se_quality :: sensor_quality
  se_sampled_at :: "int option"
  se_temperatures :: "(string \<times> int) list"
  se_rpm :: "int option"
  se_tach_count :: int
  se_pwm_percent :: int
  se_manual :: bool
  se_manual_expires_at :: "int option"

record configd =
  cd_disk :: "image list"
  cd_configuration :: switch_configuration
  cd_revision :: int
  cd_pending :: "pending_commit option"
  cd_last_transaction :: "transaction option"
  cd_degraded_ports :: "int set"
  cd_bus :: sim_bus
  cd_hardware :: switch_configuration
  cd_trace :: "(string \<times> int option \<times> int) list"
  cd_failure :: "string option"
  cd_fail_rollback :: bool
  cd_sample_count :: int
  cd_manual_until :: int
  cd_manual_pwm :: "int option"
  cd_temperature :: int
  cd_tach_count :: int
  cd_sensor_error :: bool
  cd_counter_epoch :: "int \<Rightarrow> int"
  cd_counter_start :: int
  cd_last_sensor :: "sensor_sample option"

type_synonym 'a configd_action = "(configd, hw_error, 'a) action"

record configd_snapshot =
  sn_revision :: int
  sn_configuration :: switch_configuration
  sn_pending :: "pending_commit option"
  sn_last_transaction :: "transaction option"
  sn_degraded_ports :: "int set"

definition image_of :: "configd \<Rightarrow> image" where
  "image_of s = \<lparr>im_revision = cd_revision s, im_configuration = cd_configuration s,
     im_pending = cd_pending s, im_last_transaction = cd_last_transaction s\<rparr>"

definition persist :: "unit configd_action" where
  "persist = modify_state (\<lambda>s. s\<lparr>cd_disk := image_of s # cd_disk s\<rparr>)"

definition view :: "configd \<Rightarrow> configd_snapshot" where
  "view s = \<lparr>sn_revision = cd_revision s, sn_configuration = cd_configuration s,
     sn_pending = cd_pending s, sn_last_transaction = cd_last_transaction s,
     sn_degraded_ports = cd_degraded_ports s\<rparr>"

definition on_bus :: "(sim_bus, hw_error, 'a) action \<Rightarrow> 'a configd_action" where
  "on_bus m = (\<lambda>s. case m (cd_bus s) of (r, b) \<Rightarrow> (r, s\<lparr>cd_bus := b\<rparr>))"

subsection \<open>Steps on the hardware\<close>

definition trace_step :: "int \<Rightarrow> string \<Rightarrow> int option \<Rightarrow> unit configd_action" where
  "trace_step now name epl = modify_state (\<lambda>s. s\<lparr>cd_trace := cd_trace s @ [(name, epl, now)]\<rparr>)"

definition step :: "int \<Rightarrow> string \<Rightarrow> int option \<Rightarrow> unit configd_action" where
  "step now name epl = then_action (trace_step now name epl)
     (with_state (\<lambda>s. if cd_failure s = Some name
        then then_action (modify_state (\<lambda>s. s\<lparr>cd_failure := None\<rparr>)) (raise_error (Injected name))
        else ret ()))"

definition set_lanes :: "int \<Rightarrow> int \<Rightarrow> unit configd_action" where
  "set_lanes epl enabled = bind_action
     (on_bus (update_tx_mask sim_ops (ph_mpo (physical_of epl)) (group_lane_mask epl) enabled default_retries))
     (\<lambda>_. ret ())"

definition set_hardware :: "switch_configuration \<Rightarrow> unit configd_action" where
  "set_hardware c = modify_state (\<lambda>s. s\<lparr>cd_hardware := c\<rparr>)"

definition restore_hardware :: "switch_configuration \<Rightarrow> unit configd_action" where
  "restore_hardware c =
     then_action (for_each (\<lambda>g. set_lanes (pg_epl g) (group_enabled_mask c g)) (sc_groups c))
       (then_action (on_bus (apply_fan_curve sim_ops (sc_fan c))) (set_hardware c))"

definition ports_of_epl :: "int \<Rightarrow> int list" where
  "ports_of_epl epl = map (\<lambda>lane. base_of epl + lane) [0, 1, 2, 3]"

definition admin_groups :: "switch_configuration \<Rightarrow> switch_configuration \<Rightarrow> int list" where
  "admin_groups before target =
     map (\<lambda>(p, _). group_for_port p)
       (filter (\<lambda>(p, _). pc_enabled (port_of target p) \<noteq> pc_enabled (port_of before p)) (sc_ports target))"

definition affected_groups :: "switch_configuration \<Rightarrow> switch_configuration \<Rightarrow> int list" where
  "affected_groups before target = sort (remdups (changed_groups before target @ admin_groups before target))"

definition first_group :: "switch_configuration \<Rightarrow> int \<Rightarrow> port_group option" where
  "first_group c epl = find (\<lambda>g. pg_epl g = epl) (sc_groups c)"

definition bump_epochs :: "int \<Rightarrow> unit configd_action" where
  "bump_epochs epl = modify_state (\<lambda>s. s\<lparr>cd_counter_epoch := (\<lambda>p. if p \<in> set (ports_of_epl epl)
     then cd_counter_epoch s p + 1 else cd_counter_epoch s p)\<rparr>)"

definition apply_group :: "int \<Rightarrow> switch_configuration \<Rightarrow> switch_configuration \<Rightarrow> int \<Rightarrow> unit configd_action" where
  "apply_group now before target epl =
     (case first_group target epl of
        None \<Rightarrow> raise_error PyLookup
      | Some g \<Rightarrow>
          then_action (step now ''quiesce_protocols'' (Some epl))
         (then_action (step now ''disable_group'' (Some epl))
         (then_action (set_lanes epl 0)
         (then_action (if epl \<in> set (changed_groups before target)
            then then_action (step now ''set_ethernet_mode'' (Some epl)) (bump_epochs epl) else ret ())
         (then_action (step now ''restore_group_configuration'' (Some epl))
         (then_action (set_lanes epl (group_enabled_mask target g))
         (then_action (step now ''verify_group'' (Some epl))
         (step now ''resume_protocols'' (Some epl)))))))))"

definition clear_manual :: "unit configd_action" where
  "clear_manual = modify_state (\<lambda>s. s\<lparr>cd_manual_pwm := None, cd_manual_until := 0\<rparr>)"

definition apply_fan :: "int \<Rightarrow> switch_configuration \<Rightarrow> switch_configuration \<Rightarrow> unit configd_action" where
  "apply_fan now before target =
     (if sc_fan target \<noteq> sc_fan before
      then then_action (step now ''fan_write'' None)
             (then_action (on_bus (apply_fan_curve sim_ops (sc_fan target))) clear_manual)
      else ret ())"

definition finish_apply :: "int \<Rightarrow> switch_configuration \<Rightarrow> int list \<Rightarrow> unit configd_action" where
  "finish_apply now target affected =
     then_action (step now ''apply_l2'' None)
    (then_action (set_hardware target)
    (then_action (step now ''readback'' None)
    (with_state (\<lambda>s. if cd_hardware s \<noteq> target then raise_error ReadbackDiffers
       else modify_state (\<lambda>s. s\<lparr>cd_degraded_ports :=
              cd_degraded_ports s - set (concat (map ports_of_epl affected))\<rparr>)))))"

definition undo_group :: "int \<Rightarrow> (int \<times> int) list \<Rightarrow> int \<Rightarrow> unit configd_action" where
  "undo_group now masks epl =
     (case map_of masks (ph_mpo (physical_of epl)) of
        None \<Rightarrow> raise_error PyLookup
      | Some m \<Rightarrow> then_action (set_lanes epl (m AND group_lane_mask epl))
                   (trace_step now ''rollback_group'' (Some epl)))"

definition undo_hardware ::
  "int \<Rightarrow> switch_configuration \<Rightarrow> switch_configuration \<Rightarrow> int list \<Rightarrow> (int \<times> int) list \<Rightarrow> unit configd_action" where
  "undo_hardware now before target affected masks =
     with_state (\<lambda>s. if cd_fail_rollback s then raise_error RollbackDisabled
       else then_action (for_each (undo_group now masks) affected)
         (then_action (if sc_fan target \<noteq> sc_fan before
             then on_bus (apply_fan_curve sim_ops (sc_fan before)) else ret ())
           (set_hardware before)))"

text \<open>\<^verbatim>\<open>except Exception: pass\<close> around the last attempt to darken a group.\<close>

definition degrade_group :: "int \<Rightarrow> unit configd_action" where
  "degrade_group epl =
     then_action (modify_state (\<lambda>s. s\<lparr>cd_degraded_ports := cd_degraded_ports s \<union> set (ports_of_epl epl)\<rparr>))
       (catch_action (set_lanes epl 0) (\<lambda>_. ret ()))"

fun read_masks :: "int list \<Rightarrow> (int \<times> int) list configd_action" where
  "read_masks [] = ret []"
| "read_masks (mpo # mpos) = bind_action (on_bus (read_tx_mask sim_ops mpo)) (\<lambda>m.
     bind_action (read_masks mpos) (\<lambda>ms. ret ((mpo, m) # ms)))"

definition affected_connectors :: "int list \<Rightarrow> int list" where
  "affected_connectors affected = sort (remdups (map (\<lambda>e. ph_mpo (physical_of e)) affected))"

definition apply_hardware :: "int \<Rightarrow> switch_configuration \<Rightarrow> switch_configuration \<Rightarrow> unit configd_action" where
  "apply_hardware now before target =
     (let affected = affected_groups before target
      in bind_action (read_masks (affected_connectors affected)) (\<lambda>masks.
        catch_action
          (then_action (for_each (apply_group now before target) affected)
            (then_action (apply_fan now before target) (finish_apply now target affected)))
          (\<lambda>e. then_action
            (catch_action (undo_hardware now before target affected masks)
              (\<lambda>rollback. then_action (for_each degrade_group affected) (raise_error (RollbackFailed e rollback))))
            (raise_error e))))"

subsection \<open>Commit, confirmation, rollback and the clock\<close>

definition expire_manual :: "int \<Rightarrow> unit configd_action" where
  "expire_manual now = with_state (\<lambda>s.
     if cd_manual_pwm s \<noteq> None \<and> cd_manual_until s \<le> now
     then then_action (on_bus (apply_fan_curve sim_ops (sc_fan (cd_configuration s)))) clear_manual
     else ret ())"

text \<open>\<^verbatim>\<open>SwitchConfiguration.model_validate\<close> of a stored configuration.\<close>

definition load_configuration :: "switch_configuration \<Rightarrow> switch_configuration configd_action" where
  "load_configuration c = (case validate_configuration c of
     Inl e \<Rightarrow> raise_error (StoredInvalid e) | Inr v \<Rightarrow> ret v)"

text \<open>
  \<^verbatim>\<open>rollback\<close> up to its final \<^verbatim>\<open>snapshot()\<close>. The tick of that snapshot finds no pending commit, so
  only the manual PWM can expire in it (\<open>rollback_snapshot\<close> below).
\<close>

definition rollback_core :: "int \<Rightarrow> string \<Rightarrow> unit configd_action" where
  "rollback_core now job = with_state (\<lambda>s.
     case cd_pending s of
       None \<Rightarrow> raise_error NoMatchingPending
     | Some p \<Rightarrow> if pd_job p \<noteq> job then raise_error NoMatchingPending
         else bind_action (load_configuration (pd_before p)) (\<lambda>target.
           then_action (apply_hardware now (cd_configuration s) target)
             (then_action (modify_state (\<lambda>s. s\<lparr>
                 cd_last_transaction := Some \<lparr>tr_job = job, tr_revision = cd_revision s, tr_state = TxRolledBack\<rparr>,
                 cd_configuration := target, cd_revision := cd_revision s + 1, cd_pending := None\<rparr>))
               persist)))"

definition due :: "int \<Rightarrow> configd \<Rightarrow> bool" where
  "due now s \<longleftrightarrow> (case cd_pending s of None \<Rightarrow> False
     | Some p \<Rightarrow> pd_phase p = AwaitingConfirmation \<and> pd_deadline p \<le> now)"

definition pending_job :: "configd \<Rightarrow> string" where
  "pending_job s = (case cd_pending s of None \<Rightarrow> [] | Some p \<Rightarrow> pd_job p)"

definition tick :: "int \<Rightarrow> unit configd_action" where
  "tick now = then_action
     (with_state (\<lambda>s. if due now s
        then then_action (rollback_core now (pending_job s)) (expire_manual now) else ret ()))
     (expire_manual now)"

definition snapshot :: "int \<Rightarrow> configd_snapshot configd_action" where
  "snapshot now = then_action (tick now) (with_state (\<lambda>s. ret (view s)))"

definition rollback :: "int \<Rightarrow> string \<Rightarrow> configd_snapshot configd_action" where
  "rollback now job = then_action (rollback_core now job) (snapshot now)"

definition set_pending :: "pending_commit option \<Rightarrow> unit configd_action" where
  "set_pending p = modify_state (\<lambda>s. s\<lparr>cd_pending := p\<rparr>)"

definition apply_configuration ::
  "int \<Rightarrow> switch_configuration \<Rightarrow> int \<Rightarrow> string \<Rightarrow> int \<Rightarrow> configd_snapshot configd_action" where
  "apply_configuration now target expected job timeout =
     then_action (tick now) (with_state (\<lambda>s.
       if cd_pending s \<noteq> None then raise_error PendingUnconfirmed
       else if expected \<noteq> cd_revision s then raise_error RevisionChanged
       else let before = cd_configuration s;
                p = \<lparr>pd_job = job, pd_before = before, pd_phase = Applying, pd_deadline = now + 1000 * timeout\<rparr>
       in then_action (set_pending (Some p))
         (then_action persist
         (then_action (catch_action (apply_hardware now before target)
             (\<lambda>e. then_action (set_pending None) (then_action persist (raise_error e))))
         (then_action (modify_state (\<lambda>s. s\<lparr>cd_configuration := target, cd_revision := cd_revision s + 1,
             cd_pending := Some (p\<lparr>pd_phase := AwaitingConfirmation\<rparr>)\<rparr>))
         (then_action persist (snapshot now)))))))"

definition confirm :: "int \<Rightarrow> string \<Rightarrow> configd_snapshot configd_action" where
  "confirm now job = then_action (tick now) (with_state (\<lambda>s.
     if cd_pending s = None \<or> pending_job s \<noteq> job then raise_error NotAwaiting
     else then_action (modify_state (\<lambda>s. s\<lparr>
            cd_last_transaction := Some \<lparr>tr_job = job, tr_revision = cd_revision s, tr_state = TxConfirmed\<rparr>,
            cd_pending := None\<rparr>))
       (then_action persist (snapshot now))))"

subsection \<open>Starting from a state file\<close>

definition boot_state :: "int \<Rightarrow> image list \<Rightarrow> image \<Rightarrow> configd" where
  "boot_state now disk im = \<lparr>cd_disk = disk, cd_configuration = im_configuration im, cd_revision = im_revision im,
     cd_pending = im_pending im, cd_last_transaction = im_last_transaction im, cd_degraded_ports = {},
     cd_bus = fresh_bus, cd_hardware = im_configuration im, cd_trace = [], cd_failure = None,
     cd_fail_rollback = False, cd_sample_count = 0, cd_manual_until = 0, cd_manual_pwm = None,
     cd_temperature = 4225, cd_tach_count = 0x0DF3, cd_sensor_error = False, cd_counter_epoch = (\<lambda>_. 0),
     cd_counter_start = now, cd_last_sensor = None\<rparr>"

text \<open>A missing state file is the empty object: default configuration, revision 1, nothing pending.\<close>

definition empty_image :: image where
  "empty_image = \<lparr>im_revision = 1, im_configuration = default_configuration, im_pending = None,
     im_last_transaction = None\<rparr>"

definition stored_image :: "image list \<Rightarrow> image" where
  "stored_image disk = (case disk of [] \<Rightarrow> empty_image | im # _ \<Rightarrow> im)"

definition restart :: "int \<Rightarrow> image list \<Rightarrow> hw_error + configd" where
  "restart now disk =
     (let im = stored_image disk in
      case validate_configuration (im_configuration im) of
        Inl e \<Rightarrow> Inl (StoredInvalid e)
      | Inr c \<Rightarrow>
          (case (case im_pending im of
              None \<Rightarrow> Inr (boot_state now disk (im\<lparr>im_configuration := c\<rparr>))
            | Some p \<Rightarrow> (case validate_configuration (pd_before p) of
                Inl e \<Rightarrow> Inl (StoredInvalid e)
              | Inr before \<Rightarrow> Inr (boot_state now disk
                  \<lparr>im_revision = im_revision im + 1, im_configuration = before, im_pending = None,
                   im_last_transaction = Some \<lparr>tr_job = pd_job p, tr_revision = im_revision im,
                     tr_state = TxRolledBack\<rparr>\<rparr>))) of
             Inl e \<Rightarrow> Inl e
           | Inr s \<Rightarrow>
               (case then_action (restore_hardware (cd_configuration s)) persist s of
                  (Inl e, _) \<Rightarrow> Inl e
                | (Inr _, s') \<Rightarrow> Inr s')))"

subsection \<open>Manual PWM, sensors, ports and tables\<close>

definition manual :: "int \<Rightarrow> int \<Rightarrow> int \<Rightarrow> (int \<times> int) configd_action" where
  "manual now pwm_percent duration_seconds = then_action (tick now) (with_state (\<lambda>s.
     if cd_pending s \<noteq> None then raise_error ManualWhilePending
     else if cd_sensor_error s then raise_error ManualNoSensor
     else let pwm = (if cd_temperature s \<ge> 100 * fc_critical_temperature_c (sc_fan (cd_configuration s))
                     then 100 else pwm_percent);
              until = now + 1000 * duration_seconds
       in then_action (modify_state (\<lambda>s. s\<lparr>cd_manual_pwm := Some pwm, cd_manual_until := until\<rparr>))
            (ret (pwm, until))))"

definition lut_pwm :: "fan_curve \<Rightarrow> int \<Rightarrow> int" where
  "lut_pwm curve temperature =
     (case find (\<lambda>(t, _). 100 * t \<le> temperature) (rev (lut_points curve)) of
        Some (_, pwm) \<Rightarrow> pwm | None \<Rightarrow> fc_idle_speed_percent curve)"

definition current_pwm :: "configd \<Rightarrow> int" where
  "current_pwm s = (let curve = sc_fan (cd_configuration s) in
     if cd_temperature s \<ge> 100 * fc_critical_temperature_c curve then 100
     else case cd_manual_pwm s of Some pwm \<Rightarrow> pwm | None \<Rightarrow> lut_pwm curve (cd_temperature s))"

definition no_sample :: sensor_sample where
  "no_sample = \<lparr>se_quality = SensorUnavailable, se_sampled_at = None, se_temperatures = [], se_rpm = None,
     se_tach_count = 0, se_pwm_percent = 0, se_manual = False, se_manual_expires_at = None\<rparr>"

definition sensors :: "int \<Rightarrow> sensor_sample configd_action" where
  "sensors now = then_action (tick now)
     (then_action (modify_state (\<lambda>s. s\<lparr>cd_sample_count := cd_sample_count s + 1\<rparr>))
     (with_state (\<lambda>s.
       if cd_sensor_error s
       then ret (case cd_last_sensor s of None \<Rightarrow> no_sample | Some sample \<Rightarrow> sample\<lparr>se_quality := SensorStale\<rparr>)
       else let (count, rpm) = tach_rpm (cd_tach_count s AND 255) (drop_bit 8 (cd_tach_count s));
                sample = \<lparr>se_quality = SensorSimulated, se_sampled_at = Some now,
                  se_temperatures = [(''fm10840_core'', cd_temperature s), (''obt1'', 3850), (''obt2'', 3925),
                    (''atom_cpu'', 4350)],
                  se_rpm = rpm, se_tach_count = count, se_pwm_percent = current_pwm s,
                  se_manual = (cd_manual_pwm s \<noteq> None),
                  se_manual_expires_at = (if cd_manual_until s = 0 then None else Some (cd_manual_until s))\<rparr>
       in then_action (modify_state (\<lambda>s. s\<lparr>cd_last_sensor := Some sample\<rparr>)) (ret sample))))"

record port_row =
  pr_id :: int
  pr_epl :: int
  pr_mpo :: int
  pr_lane :: int
  pr_active :: bool
  pr_enabled :: bool
  pr_speed_gbps :: int
  pr_link_up :: bool
  pr_counter_epoch :: int
  pr_octets :: int
  pr_sampled_at :: int
  pr_degraded :: bool

definition port_row_of :: "int \<Rightarrow> configd \<Rightarrow> port_group \<Rightarrow> int \<Rightarrow> port_row" where
  "port_row_of now s g lane =
     (let port = base_of (pg_epl g) + lane; cfg = port_of (cd_configuration s) port;
          active = port \<in> set (group_active_ports g);
          up = active \<and> pc_enabled cfg \<and> port \<notin> cd_degraded_ports s
      in \<lparr>pr_id = port, pr_epl = pg_epl g, pr_mpo = ph_mpo (physical_of (pg_epl g)), pr_lane = lane,
          pr_active = active, pr_enabled = pc_enabled cfg, pr_speed_gbps = group_speed g port,
          pr_link_up = up, pr_counter_epoch = cd_counter_epoch s port,
          pr_octets = (if up then max 0 (now - cd_counter_start s) * (port + 1) * 12500 div 1000 else 0),
          pr_sampled_at = now, pr_degraded = (port \<in> cd_degraded_ports s)\<rparr>)"

definition ports :: "int \<Rightarrow> port_row list configd_action" where
  "ports now = then_action (tick now) (with_state (\<lambda>s.
     ret (concat (map (\<lambda>g. map (port_row_of now s g) [0, 1, 2, 3])
       (sort_key (\<lambda>g. ph_resource (physical_of (pg_epl g))) (sc_groups (cd_configuration s)))))))"

definition optics :: "(int \<times> int) list configd_action" where
  "optics = read_masks [1, 2]"

definition clear_fdb :: "int \<Rightarrow> unit configd_action" where
  "clear_fdb now = step now ''clear_dynamic_fdb'' None"

subsection \<open>Operations as data\<close>

text \<open>
  The public operations in one type, so that a run of the authority is a sequence of them. \<open>perform\<close>
  forgets the returned value; an apply takes a configuration that passed its validation.
\<close>

datatype operation =
  OpSnapshot | OpApply switch_configuration int string int | OpConfirm string | OpRollback string
| OpManual int int | OpSensors | OpPorts | OpOptics | OpClearFdb

definition forget :: "'a configd_action \<Rightarrow> unit configd_action" where
  "forget m = bind_action m (\<lambda>_. ret ())"

fun perform :: "int \<Rightarrow> operation \<Rightarrow> unit configd_action" where
  "perform now OpSnapshot = forget (snapshot now)"
| "perform now (OpApply c expected job timeout) = forget (apply_configuration now c expected job timeout)"
| "perform now (OpConfirm job) = forget (confirm now job)"
| "perform now (OpRollback job) = forget (rollback now job)"
| "perform now (OpManual pwm seconds) = forget (manual now pwm seconds)"
| "perform now OpSensors = forget (sensors now)"
| "perform now OpPorts = forget (ports now)"
| "perform now OpOptics = forget optics"
| "perform now OpClearFdb = clear_fdb now"

definition operation_ok :: "operation \<Rightarrow> bool" where
  "operation_ok op = (case op of OpApply c _ _ _ \<Rightarrow> valid_configuration c | _ \<Rightarrow> True)"

record fault =
  fl_failure :: "string option"
  fl_fail_rollback :: bool
  fl_drop_writes :: "int \<times> int \<times> int \<Rightarrow> nat"
  fl_unavailable :: bool
  fl_sensor_error :: bool
  fl_temperature :: int
  fl_tach_count :: int

text \<open>The attributes a fault-injecting test sets from outside, between two operations.\<close>

definition inject :: "fault \<Rightarrow> configd \<Rightarrow> configd" where
  "inject f s = s\<lparr>cd_failure := fl_failure f, cd_fail_rollback := fl_fail_rollback f,
     cd_bus := (cd_bus s)\<lparr>sim_drop_writes := fl_drop_writes f, sim_unavailable := fl_unavailable f\<rparr>,
     cd_sensor_error := fl_sensor_error f, cd_temperature := fl_temperature f, cd_tach_count := fl_tach_count f\<rparr>"

inductive moves :: "configd \<Rightarrow> configd \<Rightarrow> bool" where
  moves_operation: "operation_ok op \<Longrightarrow> perform now op s = (r, s') \<Longrightarrow> moves s s'"
| moves_crash: "operation_ok op \<Longrightarrow> perform now op s = (r, t) \<Longrightarrow> k \<le> length (cd_disk t) - length (cd_disk s) \<Longrightarrow>
    restart later (drop k (cd_disk t)) = Inr s' \<Longrightarrow> moves s s'"
| moves_fault: "moves s (inject f s)"

inductive reachable :: "configd \<Rightarrow> bool" where
  reachable_boot: "restart now [] = Inr s \<Longrightarrow> reachable s"
| reachable_moves: "reachable s \<Longrightarrow> moves s s' \<Longrightarrow> reachable s'"

end
