(* ===== verification/Configd_Hardware.thy ===== *)
theory Configd_Hardware
  imports Mock_Configd
begin

text \<open>
  What the hardware part of an apply does to the simulated board: lanes, hardware copy and degraded
  ports after a success, after an error with a successful restoration, and after a failed one.
\<close>

subsection \<open>Lane masks of the groups\<close>

lemma lane_mask_props:
  assumes "epl \<in> set EPLS"
  shows "ph_mpo (physical_of epl) \<in> {1, 2}" and "group_lane_mask epl AND NOT 0xFFF = 0"
  using assms by (auto elim!: EPLS_cases simp: physical_of_eval group_lane_mask_def)

lemma lane_mask_disjoint:
  assumes "e \<in> set EPLS" and "f \<in> set EPLS" and "e \<noteq> f" and "ph_mpo (physical_of e) = ph_mpo (physical_of f)"
  shows "group_lane_mask e AND group_lane_mask f = 0"
  using assms by (auto elim!: EPLS_cases simp: physical_of_eval group_lane_mask_def)

lemma lane_bits_within:
  assumes "epl \<in> set EPLS" and "\<forall>l \<in> set lanes. l \<in> {0, 1, 2, 3}"
  shows "lane_bits (ph_position (physical_of epl)) lanes AND NOT (group_lane_mask epl) = 0"
proof -
  let ?f = "\<lambda>lane v. v OR push_bit (nat (ph_position (physical_of epl) * 4 + lane)) 1"
  have step: "?f l v AND NOT (group_lane_mask epl) = v AND NOT (group_lane_mask epl)" if "l \<in> {0, 1, 2, 3}" for l v
  proof -
    have one: "push_bit (nat (ph_position (physical_of epl) * 4 + l)) 1 AND NOT (group_lane_mask epl) = 0"
      using assms(1) that by (auto elim!: EPLS_cases simp: physical_of_eval group_lane_mask_def)
    show ?thesis unfolding bit.conj_disj_distrib2 one by simp
  qed
  have "fold ?f lanes v AND NOT (group_lane_mask epl) = v AND NOT (group_lane_mask epl)" for v
    using assms(2)
  proof (induction lanes arbitrary: v)
    case (Cons l lanes)
    from Cons.prems have "fold ?f lanes (?f l v) AND NOT (group_lane_mask epl) = ?f l v AND NOT (group_lane_mask epl)"
      by (intro Cons.IH) simp
    with step Cons.prems show ?case by simp
  qed simp
  then show ?thesis by (simp add: lane_bits_def)
qed

lemma group_enabled_within:
  assumes "pg_epl g \<in> set EPLS"
  shows "group_enabled_mask c g AND NOT (group_lane_mask (pg_epl g)) = 0"
proof -
  let ?m = "NOT (group_lane_mask (pg_epl g))"
  let ?lanes = "\<lambda>port. if pg_mode g \<noteq> Split then [0, 1, 2, 3] else [port - base_of (pg_epl g)]"
  let ?f = "\<lambda>port v. if pc_enabled (port_of c port)
                 then v OR lane_bits (ph_position (physical_of (pg_epl g))) (?lanes port) else v"
  have step: "?f p v AND ?m = v AND ?m" if "p \<in> set (group_active_ports g)" for p v
  proof -
    have "\<forall>l \<in> set (?lanes p). l \<in> {0, 1, 2, 3}"
      using that by (auto simp: group_active_ports_def Let_def split: if_splits)
    from lane_bits_within [OF assms this] show ?thesis by (simp add: bit.conj_disj_distrib2)
  qed
  have "fold ?f ps v AND ?m = v AND ?m" if "set ps \<subseteq> set (group_active_ports g)" for ps v
    using that
  proof (induction ps arbitrary: v)
    case (Cons p ps)
    then have "fold ?f ps (?f p v) AND ?m = ?f p v AND ?m" by (intro Cons.IH) simp
    with step [of p v] Cons.prems show ?case by simp
  qed simp
  from this [of "group_active_ports g" 0] show ?thesis by (simp add: group_enabled_mask_def Let_def)
qed

definition enabled_lanes :: "switch_configuration \<Rightarrow> int \<Rightarrow> int" where
  "enabled_lanes c epl = (case first_group c epl of None \<Rightarrow> 0 | Some g \<Rightarrow> group_enabled_mask c g)"

lemma first_group_epl: "first_group c epl = Some g \<Longrightarrow> pg_epl g = epl \<and> g \<in> set (sc_groups c)"
  by (auto simp: first_group_def find_Some_iff)

lemma enabled_within: "epl \<in> set EPLS \<Longrightarrow> enabled_lanes c epl AND NOT (group_lane_mask epl) = 0"
  using group_enabled_within first_group_epl by (fastforce simp: enabled_lanes_def split: option.splits)

definition lanes_of :: "sim_bus \<Rightarrow> int \<Rightarrow> int" where
  "lanes_of b epl = tx_mask_of b (ph_mpo (physical_of epl)) AND group_lane_mask epl"

lemma tx_update_lanes:
  assumes "tx_update b (ph_mpo (physical_of epl)) (group_lane_mask epl) enabled res b'"
    and "epl \<in> set EPLS" and "enabled AND NOT (group_lane_mask epl) = 0"
  shows "\<forall>f \<in> set EPLS. f \<noteq> epl \<longrightarrow> lanes_of b' f = lanes_of b f"
    and "\<And>v. res = Inr v \<Longrightarrow> lanes_of b' epl = enabled"
proof -
  note u = assms(1) [unfolded tx_update_def]
  show "\<forall>f \<in> set EPLS. f \<noteq> epl \<longrightarrow> lanes_of b' f = lanes_of b f"
  proof (intro ballI impI)
    fix f assume f: "f \<in> set EPLS" "f \<noteq> epl"
    show "lanes_of b' f = lanes_of b f"
    proof (cases "ph_mpo (physical_of f) = ph_mpo (physical_of epl)")
      case True
      have sub: "NOT (group_lane_mask epl) AND group_lane_mask f = group_lane_mask f"
        using lane_mask_disjoint [OF assms(2) f(1)] f(2) True
        by (intro bit_eqI) (auto simp: bit_simps dest: arg_cong [where f = "\<lambda>x. bit x _"])
      have "x AND group_lane_mask f = (x AND NOT (group_lane_mask epl)) AND group_lane_mask f" for x
        by (simp add: and.assoc sub)
      with u True show ?thesis by (metis lanes_of_def)
    next
      case False
      with u lane_mask_props(1) [OF f(1)] have "tx_mask_of b' (ph_mpo (physical_of f)) = tx_mask_of b (ph_mpo (physical_of f))"
        by blast
      then show ?thesis by (simp add: lanes_of_def)
    qed
  qed
  fix v assume "res = Inr v"
  with u have "tx_mask_of b' (ph_mpo (physical_of epl)) =
      (tx_mask_of b (ph_mpo (physical_of epl)) AND NOT (group_lane_mask epl)) OR enabled" by blast
  moreover have "enabled AND group_lane_mask epl = enabled"
    using and_not_zero_bit [OF assms(3)] by (intro bit_eqI) (auto simp: bit_simps)
  ultimately show "lanes_of b' epl = enabled"
    by (simp add: lanes_of_def bit.conj_disj_distrib2 and.assoc)
qed

subsection \<open>The parts of the state an apply may touch\<close>

text \<open>
  \<open>keeps A s s'\<close>: between the two states the committed part (configuration, revision, pending commit,
  last transaction and state file) and the settings of the simulator are the same, and the lanes of
  every group outside \<open>A\<close> are unchanged; a manual PWM is kept or ended.
\<close>

definition keeps :: "int set \<Rightarrow> configd \<Rightarrow> configd \<Rightarrow> bool" where
  "keeps A s s' \<longleftrightarrow>
     cd_disk s' = cd_disk s \<and> image_of s' = image_of s \<and> cd_fail_rollback s' = cd_fail_rollback s
   \<and> sim_unavailable (cd_bus s') = sim_unavailable (cd_bus s)
   \<and> (sim_bytes (cd_bus s) \<longrightarrow> sim_bytes (cd_bus s'))
   \<and> (cd_manual_pwm s' = None \<or> cd_manual_pwm s' = cd_manual_pwm s \<and> cd_manual_until s' = cd_manual_until s)
   \<and> (\<forall>epl \<in> set EPLS. epl \<notin> A \<longrightarrow> lanes_of (cd_bus s') epl = lanes_of (cd_bus s) epl)"

definition same_ports :: "configd \<Rightarrow> configd \<Rightarrow> bool" where
  "same_ports s s' \<longleftrightarrow> cd_hardware s' = cd_hardware s \<and> cd_degraded_ports s' = cd_degraded_ports s"

lemma keeps_refl [simp]: "keeps A s s" and same_ports_refl [simp]: "same_ports s s"
  by (simp_all add: keeps_def same_ports_def)

lemma keeps_trans: "keeps A s t \<Longrightarrow> keeps A t u \<Longrightarrow> keeps A s u"
  and same_ports_trans: "same_ports s t \<Longrightarrow> same_ports t u \<Longrightarrow> same_ports s u"
  by (auto simp: keeps_def same_ports_def)

lemma keeps_mono: "keeps A s t \<Longrightarrow> A \<subseteq> B \<Longrightarrow> keeps B s t"
  by (auto simp: keeps_def)

lemma keeps_bytes: "keeps A s t \<Longrightarrow> sim_bytes (cd_bus s) \<Longrightarrow> sim_bytes (cd_bus t)"
  by (simp add: keeps_def)

lemma keeps_lanes: "keeps A s t \<Longrightarrow> epl \<in> set EPLS \<Longrightarrow> epl \<notin> A \<Longrightarrow> lanes_of (cd_bus t) epl = lanes_of (cd_bus s) epl"
  by (simp add: keeps_def)

text \<open>The outcome of a step that leaves every lane alone.\<close>

lemma wp_step:
  assumes "\<And>s'. keeps {} s s' \<Longrightarrow> same_ports s s' \<Longrightarrow> cd_bus s' = cd_bus s \<Longrightarrow> Q () s'"
    and "\<And>e s'. keeps {} s s' \<Longrightarrow> same_ports s s' \<Longrightarrow> cd_bus s' = cd_bus s \<Longrightarrow> E (Injected name) s'"
  shows "wp (step now name epl) Q E s"
  using assms by (auto simp: step_def trace_step_def wp_simps keeps_def same_ports_def image_of_def)

lemma wp_set_lanes:
  assumes "epl \<in> set EPLS" and "enabled AND NOT (group_lane_mask epl) = 0" and "sim_bytes (cd_bus s)"
    and "\<And>s'. keeps {epl} s s' \<Longrightarrow> same_ports s s' \<Longrightarrow> lanes_of (cd_bus s') epl = enabled \<Longrightarrow> Q () s'"
    and "\<And>e s'. keeps {epl} s s' \<Longrightarrow> same_ports s s' \<Longrightarrow> E e s'"
  shows "wp (set_lanes epl enabled) Q E s"
proof -
  obtain res b' where run: "update_tx_mask sim_ops (ph_mpo (physical_of epl)) (group_lane_mask epl) enabled
      default_retries (cd_bus s) = (res, b')"
    by (metis surj_pair)
  have u: "tx_update (cd_bus s) (ph_mpo (physical_of epl)) (group_lane_mask epl) enabled res b'"
    by (rule sim_update_tx_mask [OF assms(3) lane_mask_props [OF assms(1)] assms(2) run])
  note l = tx_update_lanes [OF u assms(1,2)]
  have k: "keeps {epl} s (s\<lparr>cd_bus := b'\<rparr>)" and p: "same_ports s (s\<lparr>cd_bus := b'\<rparr>)"
    using u l(1) by (simp_all add: keeps_def same_ports_def image_of_def tx_update_def)
  show ?thesis
  proof (cases res)
    case (Inr v)
    with l(2) assms(4) [OF k p] show ?thesis by (simp add: set_lanes_def on_bus_def wp_def monad_simps run)
  next
    case (Inl e)
    with Inl assms(5) [OF k p] show ?thesis by (simp add: set_lanes_def on_bus_def wp_def monad_simps run)
  qed
qed

lemma wp_fan:
  assumes "first_failure (fan_curve_checks curve) = None" and "sim_bytes (cd_bus s)"
    and "\<And>r s'. keeps {} s s' \<Longrightarrow> same_ports s s' \<Longrightarrow> Q () s'"
    and "\<And>e s'. keeps {} s s' \<Longrightarrow> same_ports s s' \<Longrightarrow> E e s'"
  shows "wp (on_bus (apply_fan_curve sim_ops curve)) Q E s"
proof -
  obtain res b' where run: "apply_fan_curve sim_ops curve (cd_bus s) = (res, b')" by (metis surj_pair)
  note f = sim_apply_fan_curve [OF assms(2,1) run]
  have "lanes_of b' epl = lanes_of (cd_bus s) epl" if "epl \<in> set EPLS" for epl
    using f lane_mask_props(1) [OF that] by (auto simp: lanes_of_def)
  with f have "keeps {} s (s\<lparr>cd_bus := b'\<rparr>)" "same_ports s (s\<lparr>cd_bus := b'\<rparr>)"
    by (simp_all add: keeps_def same_ports_def image_of_def)
  with assms(3,4) show ?thesis by (cases res) (simp_all add: on_bus_def wp_def run)
qed

lemma wp_apply_group:
  assumes "epl \<in> set EPLS" and "sim_bytes (cd_bus s)" and "first_group target epl = Some g"
    and "\<And>s'. keeps {epl} s s' \<Longrightarrow> same_ports s s' \<Longrightarrow> lanes_of (cd_bus s') epl = enabled_lanes target epl \<Longrightarrow> Q () s'"
    and "\<And>e s'. keeps {epl} s s' \<Longrightarrow> same_ports s s' \<Longrightarrow> E e s'"
  shows "wp (apply_group now before target epl) Q E s"
proof -
  have err: "E e s'" if "keeps {epl} s t" "same_ports s t" "keeps {epl} t s'" "same_ports t s'" for e t s'
    using that assms(5) keeps_trans same_ports_trans by metis
  have e0: "keeps {epl} t u" if "keeps {} t u" for t u using keeps_mono [OF that] by simp
  have bump: "keeps {epl} t (t\<lparr>cd_counter_epoch := f\<rparr>)" "same_ports t (t\<lparr>cd_counter_epoch := f\<rparr>)" for t f
    by (simp_all add: keeps_def same_ports_def image_of_def)
  let ?R = "\<lambda>t. keeps {epl} s t \<and> same_ports s t"
  have bytes: "sim_bytes (cd_bus t)" if "?R t" for t using that assms(2) keeps_bytes by blast
  have mode: "wp (if epl \<in> set (changed_groups before target)
            then then_action (step now ''set_ethernet_mode'' (Some epl)) (bump_epochs epl) else ret ())
      (\<lambda>_. ?R) E t" if "?R t" for t
    using that e0 bump err
    by (auto simp: wp_simps bump_epochs_def intro!: wp_step elim: keeps_trans same_ports_trans)
      (meson keeps_trans same_ports_trans)+
  have st: "wp (step now name (Some epl)) (\<lambda>_ u. ?R u \<and> cd_bus u = cd_bus t) E t" if "?R t" for t name
    using that e0 err by (intro wp_step) (blast intro: keeps_trans same_ports_trans)+
  have dark: "wp (set_lanes epl 0) (\<lambda>_. ?R) E t" if "?R t" for t
    using that bytes err
    by (intro wp_set_lanes [OF assms(1)]) (auto intro: keeps_trans same_ports_trans)
  have light: "wp (set_lanes epl (group_enabled_mask target g))
      (\<lambda>_ u. ?R u \<and> lanes_of (cd_bus u) epl = enabled_lanes target epl) E t" if "?R t" for t
    using that bytes err group_enabled_within first_group_epl [OF assms(3)] assms(1,3)
    by (intro wp_set_lanes [OF assms(1)]) (auto intro: keeps_trans same_ports_trans simp: enabled_lanes_def)
  have fin: "wp (step now ''resume_protocols'' (Some epl)) Q E t"
    if "?R t \<and> lanes_of (cd_bus t) epl = enabled_lanes target epl" for t
    by (rule wp_mono [OF st]) (use that in \<open>auto intro: assms(4)\<close>)
  have fin2: "wp (step now ''verify_group'' (Some epl)) (\<lambda>_. wp (step now ''resume_protocols'' (Some epl)) Q E) E t"
    if "?R t \<and> lanes_of (cd_bus t) epl = enabled_lanes target epl" for t
    by (rule wp_mono [OF st]) (use that in \<open>auto intro: fin\<close>)
  show ?thesis
    unfolding apply_group_def assms(3) option.case wp_then
    by (rule wp_mono [OF st], simp, rule wp_mono [OF st], simp, rule wp_mono [OF dark], simp,
        rule wp_mono [OF mode], simp, rule wp_mono [OF st], simp, rule wp_mono [OF light], simp,
        rule fin2, simp_all)
qed

subsection \<open>The loops\<close>

lemma wp_read_masks:
  assumes "set mpos \<subseteq> {1, 2}" and "sim_bytes (cd_bus s)"
    and "\<And>s'. keeps {} s s' \<Longrightarrow> same_ports s s' \<Longrightarrow> Q (map (\<lambda>m. (m, tx_mask_of (cd_bus s) m)) mpos) s'"
    and "\<And>e s'. keeps {} s s' \<Longrightarrow> same_ports s s' \<Longrightarrow> E e s'"
  shows "wp (read_masks mpos) Q E s"
proof -
  have "wp (read_masks mpos)
      (\<lambda>ms s'. keeps {} s s' \<and> same_ports s s' \<and> tx_mask_of (cd_bus s') = tx_mask_of (cd_bus s)
         \<and> ms = map (\<lambda>m. (m, tx_mask_of (cd_bus s) m)) mpos)
      (\<lambda>e s'. keeps {} s s' \<and> same_ports s s') s"
    using assms(1,2)
  proof (induction mpos arbitrary: s)
    case (Cons m mpos)
    obtain res b' where run: "read_tx_mask sim_ops m (cd_bus s) = (res, b')" by (metis surj_pair)
    have f: "sim_bytes b'" "sim_unavailable b' = sim_unavailable (cd_bus s)" "tx_mask_of b' = tx_mask_of (cd_bus s)"
      "res = (if sim_unavailable (cd_bus s) then Inl BusLost else Inr (tx_mask_of (cd_bus s) m))"
      using sim_read_tx_mask [OF Cons.prems(2) _ run] Cons.prems(1) by auto
    let ?t = "s\<lparr>cd_bus := b'\<rparr>"
    have k: "keeps {} s ?t" "same_ports s ?t"
      using f by (simp_all add: keeps_def same_ports_def image_of_def lanes_of_def)
    have tail: "wp (read_masks mpos)
      (\<lambda>ms s'. keeps {} ?t s' \<and> same_ports ?t s' \<and> tx_mask_of (cd_bus s') = tx_mask_of (cd_bus ?t)
         \<and> ms = map (\<lambda>m. (m, tx_mask_of (cd_bus ?t) m)) mpos)
      (\<lambda>e s'. keeps {} ?t s' \<and> same_ports ?t s') ?t"
      using Cons.IH [of ?t] Cons.prems f by simp
    have step: "wp (on_bus (read_tx_mask sim_ops m)) Q E s
        = (case res of Inr v \<Rightarrow> Q v ?t | Inl e \<Rightarrow> E e ?t)" for Q E
      by (simp add: wp_def on_bus_def run split: sum.splits)
    show ?case
    proof (cases res)
      case (Inl e)
      then show ?thesis using k by (simp add: wp_simps step)
    next
      case (Inr v)
      with f(4) have "v = tx_mask_of (cd_bus s) m" by (simp split: if_splits)
      with Inr show ?thesis
        by (simp add: wp_simps step) (rule wp_mono [OF tail], use k f(3) in \<open>auto simp: wp_ret intro: keeps_trans same_ports_trans\<close>)
    qed
  qed (simp add: wp_simps)
  then show ?thesis by (rule wp_mono) (auto intro: assms(3,4))
qed

lemma wp_undo_group:
  assumes "epl \<in> set EPLS" and "sim_bytes (cd_bus s)"
    and "map_of masks (ph_mpo (physical_of epl)) = Some (tx_mask_of b0 (ph_mpo (physical_of epl)))"
    and "\<And>s'. keeps {epl} s s' \<Longrightarrow> same_ports s s' \<Longrightarrow> lanes_of (cd_bus s') epl = lanes_of b0 epl \<Longrightarrow> Q () s'"
    and "\<And>e s'. keeps {epl} s s' \<Longrightarrow> same_ports s s' \<Longrightarrow> E e s'"
  shows "wp (undo_group now masks epl) Q E s"
proof -
  have tr: "keeps {epl} s' (s'\<lparr>cd_trace := t\<rparr>)" "same_ports s' (s'\<lparr>cd_trace := t\<rparr>)" for s' t
    by (simp_all add: keeps_def same_ports_def image_of_def)
  have "(x AND group_lane_mask epl) AND NOT (group_lane_mask epl) = 0" for x
    by (rule bit_eqI) (auto simp: bit_simps)
  then show ?thesis
    unfolding undo_group_def assms(3) option.case wp_then
    by (intro wp_set_lanes [OF assms(1) _ assms(2)])
      (auto simp: trace_step_def wp_simps lanes_of_def intro!: assms(4,5) intro: keeps_trans same_ports_trans tr)
qed

text \<open>
  A loop over groups whose body works on its own lanes: afterwards every listed group has what its
  body promised, since the later bodies leave it alone.
\<close>

lemma wp_group_loop:
  assumes "set epls \<subseteq> set EPLS" and "distinct epls" and "sim_bytes (cd_bus s)"
    and body: "\<And>epl t Q E. epl \<in> set epls \<Longrightarrow> sim_bytes (cd_bus t) \<Longrightarrow>
      (\<And>t'. keeps {epl} t t' \<Longrightarrow> same_ports t t' \<Longrightarrow> lanes_of (cd_bus t') epl = want epl \<Longrightarrow> Q () t') \<Longrightarrow>
      (\<And>e t'. keeps {epl} t t' \<Longrightarrow> same_ports t t' \<Longrightarrow> E e t') \<Longrightarrow> wp (f epl) Q E t"
    and "\<And>s'. keeps (set epls) s s' \<Longrightarrow> same_ports s s' \<Longrightarrow>
      \<forall>epl \<in> set epls. lanes_of (cd_bus s') epl = want epl \<Longrightarrow> Q () s'"
    and "\<And>e s'. keeps (set epls) s s' \<Longrightarrow> same_ports s s' \<Longrightarrow> E e s'"
  shows "wp (for_each f epls) Q E s"
proof -
  let ?I = "\<lambda>ys t. keeps (set epls) s t \<and> same_ports s t \<and> (\<forall>epl \<in> set ys. lanes_of (cd_bus t) epl = want epl)"
  have "wp (for_each f epls) (\<lambda>_. ?I epls) (\<lambda>e t. keeps (set epls) s t \<and> same_ports s t) s"
  proof (rule wp_for_each [where I = ?I])
    show "?I [] s" by simp
    fix ys x zs t assume xs: "epls = ys @ x # zs" and I: "?I ys t"
    have bt: "sim_bytes (cd_bus t)" using I assms(3) keeps_bytes by blast
    have xm: "x \<in> set epls" by (simp add: xs)
    show "wp (f x) (\<lambda>_. ?I (ys @ [x])) (\<lambda>e t. keeps (set epls) s t \<and> same_ports s t) t"
    proof (rule body [OF xm bt])
      fix t' assume t': "keeps {x} t t'" "same_ports t t'"
      have k: "keeps (set epls) s t'" "same_ports s t'"
        using I t' keeps_mono [OF t'(1), of "set epls"] xm
        by (auto intro: keeps_trans same_ports_trans)
      then show "keeps (set epls) s t' \<and> same_ports s t'" ..
      assume "lanes_of (cd_bus t') x = want x"
      moreover have "lanes_of (cd_bus t') y = want y" if "y \<in> set ys" for y
      proof -
        have "y \<noteq> x" "y \<in> set EPLS" using that xs assms(1,2) by auto
        then show ?thesis using keeps_lanes [OF t'(1)] I that by simp
      qed
      ultimately show "?I (ys @ [x]) t'" using k by auto
    qed
  qed
  then show ?thesis by (rule wp_mono) (auto intro: assms(5,6))
qed

lemma wp_degrade_groups:
  assumes "set epls \<subseteq> set EPLS" and "sim_bytes (cd_bus s)"
    and "\<And>s'. keeps (set epls) s s' \<Longrightarrow>
      cd_degraded_ports s' = cd_degraded_ports s \<union> set (concat (map ports_of_epl epls)) \<Longrightarrow> Q () s'"
  shows "wp (for_each degrade_group epls) Q E s"
proof -
  let ?I = "\<lambda>ys t. keeps (set epls) s t
    \<and> cd_degraded_ports t = cd_degraded_ports s \<union> set (concat (map ports_of_epl ys))"
  have "wp (for_each degrade_group epls) (\<lambda>_. ?I epls) E s"
  proof (rule wp_for_each [where I = ?I])
    show "?I [] s" by simp
    fix ys x zs t assume xs: "epls = ys @ x # zs" and I: "?I ys t"
    let ?t = "t\<lparr>cd_degraded_ports := cd_degraded_ports t \<union> set (ports_of_epl x)\<rparr>"
    have b: "sim_bytes (cd_bus ?t)" using I assms(2) keeps_bytes by auto
    have x: "x \<in> set EPLS" "x \<in> set epls" using assms(1) xs by auto
    have kt: "keeps (set epls) s ?t" using I by (simp add: keeps_def image_of_def)
    have k: "keeps (set epls) s u" if "keeps {x} ?t u" for u
      using keeps_trans [OF kt] keeps_mono [OF that] x(2) by blast
    show "wp (degrade_group x) (\<lambda>_. ?I (ys @ [x])) E t"
      unfolding degrade_group_def wp_then wp_modify wp_catch
      by (rule wp_set_lanes [OF x(1) _ b]) (use I k in \<open>auto simp: same_ports_def wp_simps\<close>)
  qed
  then show ?thesis by (rule wp_mono) (auto intro: assms(3))
qed

subsection \<open>The whole apply\<close>

lemma valid_accepted:
  assumes "valid_configuration c"
  shows "first_failure (field_checks c) = None" and "first_failure (cross_checks c) = None"
  using assms validate_accepted by (auto simp: valid_configuration_def)

lemma valid_first_group:
  assumes "valid_configuration c" and "epl \<in> set EPLS"
  obtains g where "first_group c epl = Some g"
proof -
  have "epl \<in> set (map pg_epl (sc_groups c))"
    using accepted_cross(1) [OF valid_accepted(2) [OF assms(1)]] assms(2) by simp
  then have "first_group c epl \<noteq> None" by (auto simp: first_group_def find_None_iff)
  with that show thesis by auto
qed

lemma group_for_port_epl: "1 \<le> p \<Longrightarrow> p \<le> 24 \<Longrightarrow> group_for_port p \<in> set EPLS"
proof -
  assume "1 \<le> p" "p \<le> 24"
  then have "nat ((p - 1) div 4) < length EPLS" by (simp add: EPLS_def nat_less_iff)
  then show ?thesis unfolding group_for_port_def by (rule nth_mem)
qed

lemma affected_epls:
  assumes "valid_configuration target"
  shows "set (affected_groups before target) \<subseteq> set EPLS" and "distinct (affected_groups before target)"
proof -
  have "set (changed_groups before target) \<subseteq> set EPLS"
    using accepted_groups(2) [OF valid_accepted [OF assms]] by (auto simp: changed_groups_def)
  moreover have "group_for_port p \<in> set EPLS" if "(p, cfg) \<in> set (sc_ports target)" for p cfg
  proof -
    have "p \<in> set (map int [1..<25])"
      using accepted_cross(2) [OF valid_accepted(2) [OF assms]] that by force
    then show ?thesis by (intro group_for_port_epl) auto
  qed
  ultimately show "set (affected_groups before target) \<subseteq> set EPLS"
    by (auto simp: affected_groups_def admin_groups_def)
  show "distinct (affected_groups before target)" by (simp add: affected_groups_def)
qed

lemma valid_fan: "valid_configuration c \<Longrightarrow> first_failure (fan_curve_checks (sc_fan c)) = None"
  using accepted_fields(5) valid_accepted(1) by blast

definition hw_applied :: "int set \<Rightarrow> switch_configuration \<Rightarrow> configd \<Rightarrow> configd \<Rightarrow> bool" where
  "hw_applied A target s s' \<longleftrightarrow> keeps A s s' \<and> cd_hardware s' = target
     \<and> cd_degraded_ports s' = cd_degraded_ports s - (\<Union>epl \<in> A. set (ports_of_epl epl))
     \<and> (\<forall>epl \<in> A. lanes_of (cd_bus s') epl = enabled_lanes target epl)"

definition hw_failed :: "int set \<Rightarrow> switch_configuration \<Rightarrow> configd \<Rightarrow> hw_error \<Rightarrow> configd \<Rightarrow> bool" where
  "hw_failed A before s e s' \<longleftrightarrow> keeps A s s' \<and>
     (cd_hardware s' \<in> {before, cd_hardware s} \<and> cd_degraded_ports s' = cd_degraded_ports s
        \<and> (\<forall>epl \<in> A. lanes_of (cd_bus s') epl = lanes_of (cd_bus s) epl)
      \<or> (\<exists>cause rollback. e = RollbackFailed cause rollback)
        \<and> cd_degraded_ports s' = cd_degraded_ports s \<union> (\<Union>epl \<in> A. set (ports_of_epl epl)))"

definition progress :: "int set \<Rightarrow> configd \<Rightarrow> configd \<Rightarrow> bool" where
  "progress A s s' \<longleftrightarrow> keeps A s s' \<and> cd_degraded_ports s' = cd_degraded_ports s"

lemma progress_intro: "keeps {} t u \<Longrightarrow> same_ports t u \<Longrightarrow> progress A s t \<Longrightarrow> progress A s u"
  using keeps_mono [of "{}" t u A] keeps_trans by (auto simp: progress_def same_ports_def)

lemma wp_forward:
  assumes "valid_configuration target" and "sim_bytes (cd_bus s)" and A_def: "A = affected_groups before target"
  shows "wp (then_action (for_each (apply_group now before target) A)
      (then_action (apply_fan now before target) (finish_apply now target A)))
    (\<lambda>_. hw_applied (set A) target s) (\<lambda>_. progress (set A) s) s"
proof -
  note A = affected_epls [OF assms(1), of before, folded A_def]
  have bytes: "sim_bytes (cd_bus t)" if "keeps X s t" for X t using keeps_bytes that assms(2) by blast
  let ?lanes = "\<lambda>t. \<forall>epl \<in> set A. lanes_of (cd_bus t) epl = enabled_lanes target epl"
  have groups: "wp (for_each (apply_group now before target) A)
      (\<lambda>_ t. progress (set A) s t \<and> ?lanes t) (\<lambda>_. progress (set A) s) s"
  proof (rule wp_group_loop [OF A assms(2)])
    fix epl and t :: configd and Q :: "unit \<Rightarrow> configd \<Rightarrow> bool" and E :: "hw_error \<Rightarrow> configd \<Rightarrow> bool"
    assume epl: "epl \<in> set A" and b: "sim_bytes (cd_bus t)"
    obtain g where g: "first_group target epl = Some g"
      using valid_first_group [OF assms(1)] epl A(1) by blast
    assume "\<And>t'. keeps {epl} t t' \<Longrightarrow> same_ports t t' \<Longrightarrow> lanes_of (cd_bus t') epl = enabled_lanes target epl \<Longrightarrow> Q () t'"
      "\<And>e t'. keeps {epl} t t' \<Longrightarrow> same_ports t t' \<Longrightarrow> E e t'"
    with epl A(1) show "wp (apply_group now before target epl) Q E t"
      by (intro wp_apply_group [OF _ b g]) auto
  qed (auto simp: progress_def same_ports_def)
  have lanes: "?lanes u" if "?lanes t" "keeps {} t u" for t u
    using that A(1) keeps_lanes by (metis empty_iff subsetD)
  have manual: "keeps {} t (t\<lparr>cd_manual_pwm := None, cd_manual_until := y\<rparr>)"
    "same_ports t (t\<lparr>cd_manual_pwm := None, cd_manual_until := y\<rparr>)" for t y
    by (simp_all add: keeps_def same_ports_def image_of_def)
  have fan: "wp (apply_fan now before target) (\<lambda>_ u. progress (set A) s u \<and> ?lanes u) (\<lambda>_. progress (set A) s) t"
    if t: "progress (set A) s t" "?lanes t" for t
  proof -
    have step: "wp (on_bus (apply_fan_curve sim_ops (sc_fan target)))
       (\<lambda>_. wp clear_manual (\<lambda>_ v. progress (set A) s v \<and> ?lanes v) (\<lambda>_. progress (set A) s)) (\<lambda>_. progress (set A) s) u"
      if u: "keeps {} t u" "same_ports t u" for u
    proof (rule wp_fan [OF valid_fan [OF assms(1)]])
      have pu: "progress (set A) s u" using progress_intro u t(1) by blast
      then show "sim_bytes (cd_bus u)" using bytes by (auto simp: progress_def)
      fix v assume v: "keeps {} u v" "same_ports u v"
      show pv: "progress (set A) s v" using progress_intro [OF v pu] .
      have "?lanes v" using lanes [OF lanes [OF t(2) u(1)] v(1)] .
      then show "wp clear_manual (\<lambda>_ v. progress (set A) s v \<and> ?lanes v) (\<lambda>_. progress (set A) s) v"
        using progress_intro [OF manual pv] lanes [OF _ manual(1)] by (auto simp: clear_manual_def wp_simps)
    qed
    show ?thesis
      unfolding apply_fan_def
      by (auto simp: wp_simps t intro!: wp_step step intro: progress_intro [OF _ _ t(1)])
  qed
  have finish: "wp (finish_apply now target A) (\<lambda>_. hw_applied (set A) target s) (\<lambda>_. progress (set A) s) t"
    if t: "progress (set A) s t" "?lanes t" for t
  proof -
    have last: "wp (with_state (\<lambda>s. if cd_hardware s \<noteq> target then raise_error ReadbackDiffers
       else modify_state (\<lambda>s. s\<lparr>cd_degraded_ports :=
              cd_degraded_ports s - set (concat (map ports_of_epl A))\<rparr>)))
       (\<lambda>_. hw_applied (set A) target s) (\<lambda>_. progress (set A) s) w"
      if w: "keeps {} u w" "same_ports u w" "u = v\<lparr>cd_hardware := target\<rparr>" "keeps {} t v" "same_ports t v" for u v w
    proof -
      have "progress (set A) s v" using progress_intro w(4,5) t(1) by blast
      then have "progress (set A) s u" by (simp add: w(3) progress_def keeps_def image_of_def)
      then have pw: "progress (set A) s w" using progress_intro w(1,2) by blast
      have "?lanes u" using lanes [OF t(2) w(4)] by (simp add: w(3))
      then have "?lanes w" using lanes [OF _ w(1)] by blast
      moreover have "cd_hardware w = target" using w(2,3) by (simp add: same_ports_def)
      ultimately show ?thesis using pw
        by (auto simp: wp_simps hw_applied_def progress_def keeps_def image_of_def)
    qed
    show ?thesis
      unfolding finish_apply_def set_hardware_def wp_then wp_modify
    proof (rule wp_step; (rule wp_step)?)
      fix v w assume v: "keeps {} t v" "same_ports t v" 
        and w: "keeps {} (v\<lparr>cd_hardware := target\<rparr>) w" "same_ports (v\<lparr>cd_hardware := target\<rparr>) w"
      show "wp (with_state (\<lambda>s. if cd_hardware s \<noteq> target then raise_error ReadbackDiffers
         else modify_state (\<lambda>s. s\<lparr>cd_degraded_ports :=
                cd_degraded_ports s - set (concat (map ports_of_epl A))\<rparr>)))
         (\<lambda>_. hw_applied (set A) target s) (\<lambda>_. progress (set A) s) w"
        using last [OF w refl v] .
    next
      fix v w assume v: "keeps {} t v" "same_ports t v"
        and w: "keeps {} (v\<lparr>cd_hardware := target\<rparr>) w" "same_ports (v\<lparr>cd_hardware := target\<rparr>) w"
      have "progress (set A) s v" using progress_intro v t(1) by blast
      then have "progress (set A) s (v\<lparr>cd_hardware := target\<rparr>)" by (simp add: progress_def keeps_def image_of_def)
      then show "progress (set A) s w" using progress_intro w by blast
    next
      fix v assume v: "keeps {} t v" "same_ports t v"
      show "progress (set A) s v" using progress_intro v t(1) by blast
    qed
  qed
  have rest: "wp (apply_fan now before target)
      (\<lambda>_. wp (finish_apply now target A) (\<lambda>_. hw_applied (set A) target s) (\<lambda>_. progress (set A) s))
      (\<lambda>_. progress (set A) s) t"
    if "progress (set A) s t \<and> ?lanes t" for t
    by (rule wp_mono [OF fan]) (use that finish in auto)
  show ?thesis
    unfolding wp_then by (rule wp_mono [OF groups]) (rule rest)
qed

lemma wp_undo:
  assumes "valid_configuration before" and "set A \<subseteq> set EPLS" and "distinct A" and "sim_bytes (cd_bus t)"
    and masks: "\<And>epl. epl \<in> set A \<Longrightarrow>
      map_of masks (ph_mpo (physical_of epl)) = Some (tx_mask_of b0 (ph_mpo (physical_of epl)))"
  shows "wp (undo_hardware now before target A masks)
    (\<lambda>_ u. keeps (set A) t u \<and> cd_degraded_ports u = cd_degraded_ports t \<and> cd_hardware u = before
       \<and> (\<forall>epl \<in> set A. lanes_of (cd_bus u) epl = lanes_of b0 epl))
    (\<lambda>_ u. keeps (set A) t u \<and> cd_degraded_ports u = cd_degraded_ports t) t"
proof -
  let ?Q = "\<lambda>_ u. keeps (set A) t u \<and> cd_degraded_ports u = cd_degraded_ports t \<and> cd_hardware u = before
       \<and> (\<forall>epl \<in> set A. lanes_of (cd_bus u) epl = lanes_of b0 epl)"
  let ?E = "\<lambda>_ u. keeps (set A) t u \<and> cd_degraded_ports u = cd_degraded_ports t"
  have body: "wp (undo_group now masks epl) Q E u"
    if "epl \<in> set A" "sim_bytes (cd_bus u)"
      "\<And>t'. keeps {epl} u t' \<Longrightarrow> same_ports u t' \<Longrightarrow> lanes_of (cd_bus t') epl = lanes_of b0 epl \<Longrightarrow> Q () t'"
      "\<And>e t'. keeps {epl} u t' \<Longrightarrow> same_ports u t' \<Longrightarrow> E e t'" for epl u Q E
    using that assms(2) by (intro wp_undo_group [OF _ _ masks]) auto
  have hw: "wp (set_hardware before) ?Q ?E v"
    if "keeps (set A) t v" "same_ports t v" "\<forall>epl \<in> set A. lanes_of (cd_bus v) epl = lanes_of b0 epl" for v
    using that by (simp add: set_hardware_def wp_simps keeps_def same_ports_def image_of_def)
  have fan: "wp (if sc_fan target \<noteq> sc_fan before then on_bus (apply_fan_curve sim_ops (sc_fan before)) else ret ())
      (\<lambda>_. wp (set_hardware before) ?Q ?E) ?E u"
    if u: "keeps (set A) t u" "same_ports t u" "\<forall>epl \<in> set A. lanes_of (cd_bus u) epl = lanes_of b0 epl" for u
  proof -
    have next_state: "keeps (set A) t v \<and> same_ports t v \<and> (\<forall>epl \<in> set A. lanes_of (cd_bus v) epl = lanes_of b0 epl)"
      if v: "keeps {} u v" "same_ports u v" for v
      using u v keeps_trans [OF u(1) keeps_mono [OF v(1)]] same_ports_trans [OF u(2) v(2)]
        keeps_lanes [OF v(1)] assms(2) by auto
    have "sim_bytes (cd_bus u)" using u(1) assms(4) keeps_bytes by blast
    then have "wp (on_bus (apply_fan_curve sim_ops (sc_fan before))) (\<lambda>_. wp (set_hardware before) ?Q ?E) ?E u"
      using next_state by (intro wp_fan [OF valid_fan [OF assms(1)]] hw) (auto simp: same_ports_def)
    with hw [OF u] show ?thesis by (simp add: wp_simps)
  qed
  have "wp (for_each (undo_group now masks) A) (\<lambda>_. wp (if sc_fan target \<noteq> sc_fan before
      then on_bus (apply_fan_curve sim_ops (sc_fan before)) else ret ())
      (\<lambda>_. wp (set_hardware before) ?Q ?E) ?E) ?E t"
    by (rule wp_group_loop [OF assms(2-4), where want = "lanes_of b0"])
      (use body fan in \<open>auto simp: same_ports_def\<close>)
  then show ?thesis by (simp add: undo_hardware_def wp_simps)
qed

theorem wp_apply_hardware:
  assumes "valid_configuration before" and "valid_configuration target" and "sim_bytes (cd_bus s)"
  shows "wp (apply_hardware now before target)
    (\<lambda>_. hw_applied (set (affected_groups before target)) target s)
    (hw_failed (set (affected_groups before target)) before s) s"
proof -
  define A where "A = affected_groups before target"
  note epls = affected_epls [OF assms(2), of before, folded A_def]
  let ?M = "affected_connectors A"
  have conn: "set ?M \<subseteq> {1, 2}"
    using epls(1) lane_mask_props(1) by (auto simp: affected_connectors_def)
  let ?masks = "map (\<lambda>m. (m, tx_mask_of (cd_bus s) m)) ?M"
  have masks: "map_of ?masks (ph_mpo (physical_of epl)) = Some (tx_mask_of (cd_bus s) (ph_mpo (physical_of epl)))"
    if "epl \<in> set A" for epl
    using that by (simp add: map_of_map_restrict affected_connectors_def restrict_map_def)
  have lanes0: "lanes_of (cd_bus t) epl = lanes_of (cd_bus s) epl"
    if "keeps {} s t" "epl \<in> set A" for t epl
    using keeps_lanes [OF that(1)] that(2) epls(1) by blast
  have handler: "wp (then_action
      (catch_action (undo_hardware now before target A ?masks)
        (\<lambda>rollback. then_action (for_each degrade_group A) (raise_error (RollbackFailed e rollback))))
      (raise_error e)) Q (hw_failed (set A) before s) u"
    if u: "progress (set A) t u" "keeps {} s t" "same_ports s t" for e t u and Q :: "unit \<Rightarrow> configd \<Rightarrow> bool"
  proof -
    have k: "keeps (set A) s u" "cd_degraded_ports u = cd_degraded_ports s"
      using u keeps_trans [OF keeps_mono [OF u(2)]] by (auto simp: progress_def same_ports_def)
    have b: "sim_bytes (cd_bus u)" using k(1) assms(3) keeps_bytes by blast
    have deg: "wp (for_each degrade_group A) (\<lambda>_. hw_failed (set A) before s (RollbackFailed e r)) Z v"
      if "keeps (set A) u v" "cd_degraded_ports v = cd_degraded_ports u" for v r Z
    proof (rule wp_degrade_groups [OF epls(1)])
      show "sim_bytes (cd_bus v)" using that(1) b keeps_bytes by blast
      fix w assume w: "keeps (set A) v w"
        "cd_degraded_ports w = cd_degraded_ports v \<union> set (concat (map ports_of_epl A))"
      have "keeps (set A) s w" using k(1) that(1) w(1) keeps_trans by blast
      with w(2) that(2) k(2) show "hw_failed (set A) before s (RollbackFailed e r) w"
        by (simp add: hw_failed_def)
    qed
    show ?thesis
      unfolding wp_then wp_catch wp_raise
      by (rule wp_mono [OF wp_undo [OF assms(1) epls b masks]])
        (use k keeps_trans [OF k(1)] deg in \<open>auto simp: hw_failed_def\<close>)
  qed
  have forward: "wp (catch_action (then_action (for_each (apply_group now before target) A)
      (then_action (apply_fan now before target) (finish_apply now target A)))
      (\<lambda>e. then_action
        (catch_action (undo_hardware now before target A ?masks)
          (\<lambda>rollback. then_action (for_each degrade_group A) (raise_error (RollbackFailed e rollback))))
        (raise_error e)))
      (\<lambda>_. hw_applied (set A) target s) (hw_failed (set A) before s) t"
    if t: "keeps {} s t" "same_ports s t" for t
  proof -
    have b: "sim_bytes (cd_bus t)" using t(1) assms(3) keeps_bytes by blast
    have up: "hw_applied (set A) target s u" if "hw_applied (set A) target t u" for u
      using that t keeps_trans [OF keeps_mono [OF t(1)], of "set A"] by (auto simp: hw_applied_def same_ports_def)
    show ?thesis
      unfolding wp_catch
      by (rule wp_mono [OF wp_forward [OF assms(2) b A_def]]) (auto intro: up handler t)
  qed
  have "wp (read_masks ?M) (\<lambda>masks. wp (catch_action (then_action (for_each (apply_group now before target) A)
      (then_action (apply_fan now before target) (finish_apply now target A)))
      (\<lambda>e. then_action
        (catch_action (undo_hardware now before target A masks)
          (\<lambda>rollback. then_action (for_each degrade_group A) (raise_error (RollbackFailed e rollback))))
        (raise_error e)))
      (\<lambda>_. hw_applied (set A) target s) (hw_failed (set A) before s)) (hw_failed (set A) before s) s"
  proof (rule wp_read_masks [OF conn assms(3)])
    fix e t assume t: "keeps {} s t" "same_ports s t"
    then show "hw_failed (set A) before s e t"
      using keeps_mono [OF t(1), of "set A"] lanes0 [OF t(1)] by (simp add: hw_failed_def same_ports_def)
  qed (rule forward)
  then show ?thesis unfolding apply_hardware_def Let_def A_def [symmetric] wp_bind .
qed

end
