(* ===== verification/Configd_Safety.thy ===== *)
theory Configd_Safety
  imports Configd_Hardware
begin

text \<open>
  The invariant of the simulated authority over every reachable state: operations in any order,
  injected faults, lost register writes, an unreachable bus, and crashes that leave any of the
  images an operation has written as the state file.
\<close>

subsection \<open>Groups an apply does not touch\<close>

lemma find_rev_unique:
  assumes "distinct (map f xs)"
  shows "find (\<lambda>x. f x = k) (rev xs) = find (\<lambda>x. f x = k) xs"
  using assms
proof (induction xs)
  case (Cons x xs)
  have "find (\<lambda>x. f x = k) (ys @ [x]) = (case find (\<lambda>x. f x = k) ys of None \<Rightarrow> if f x = k then Some x else None | Some y \<Rightarrow> Some y)" for ys
    by (induction ys) auto
  moreover have "f x = k \<Longrightarrow> find (\<lambda>x. f x = k) xs = None"
    using Cons.prems by (auto simp: find_None_iff image_iff)
  ultimately show ?case using Cons by (auto split: option.splits)
qed simp

lemma group_of_first:
  assumes "valid_configuration c"
  shows "group_of c epl = first_group c epl"
  unfolding group_of_def first_group_def
  by (rule find_rev_unique [OF accepted_groups(1) [OF valid_accepted [OF assms]]])

lemma first_group_unique:
  assumes "valid_configuration c" and "g \<in> set (sc_groups c)"
  shows "first_group c (pg_epl g) = Some g"
proof -
  have "first_group c (pg_epl g) \<noteq> None" using assms(2) by (auto simp: first_group_def find_None_iff)
  then obtain h where h: "first_group c (pg_epl g) = Some h" by auto
  with first_group_epl have "pg_epl h = pg_epl g" "h \<in> set (sc_groups c)" by auto
  with accepted_groups(1) [OF valid_accepted [OF assms(1)]] assms(2) have "h = g"
    by (auto simp: distinct_map dest: inj_onD)
  with h show ?thesis by simp
qed

lemma active_port_bounds:
  assumes "pg_epl g \<in> set EPLS" and "p \<in> set (group_active_ports g)"
  shows "1 \<le> p" and "p \<le> 24" and "group_for_port p = pg_epl g" and "p \<in> set (ports_of_epl (pg_epl g))"
  using assms
  by (auto elim!: EPLS_cases simp: group_active_ports_def physical_of_eval Let_def group_for_port_def EPLS_def
      ports_of_epl_def split: if_splits)

lemma enabled_lanes_unaffected:
  assumes "valid_configuration before" and "valid_configuration target" and "epl \<in> set EPLS"
    and "epl \<notin> set (affected_groups before target)"
  shows "enabled_lanes target epl = enabled_lanes before epl"
proof -
  obtain g h where g: "first_group target epl = Some g" and h: "first_group before epl = Some h"
    using valid_first_group [OF assms(2,3)] valid_first_group [OF assms(1,3)] by metis
  have e: "pg_epl g = epl" "g \<in> set (sc_groups target)" "pg_epl h = epl"
    using first_group_epl [OF g] first_group_epl [OF h] by auto
  have "epl \<notin> set (changed_groups before target)" using assms(4) by (simp add: affected_groups_def)
  then have mode: "pg_mode g = pg_mode h"
    using e h by (auto simp: changed_groups_def group_of_first [OF assms(1)])
  then have act: "group_active_ports g = group_active_ports h" by (simp add: group_active_ports_def e)
  have same: "pc_enabled (port_of target p) = pc_enabled (port_of before p)" if p: "p \<in> set (group_active_ports g)" for p
  proof (rule ccontr)
    assume ne: "\<not> ?thesis"
    note b = active_port_bounds [OF _ p, unfolded e(1), OF assms(3)]
    then have "port_number p" by (simp add: port_number_def)
    from slot_lookup [OF valid_accepted(2) [OF assms(2)] this] obtain cfg where "(p, cfg) \<in> set (sc_ports target)" by blast
    with ne have "group_for_port p \<in> set (admin_groups before target)" by (force simp: admin_groups_def)
    with b(3) assms(4) show False by (simp add: affected_groups_def)
  qed
  have "group_enabled_mask target g = group_enabled_mask before h"
    unfolding group_enabled_mask_def Let_def act [symmetric] e mode [symmetric]
    by (rule fold_cong) (use same in auto)
  then show ?thesis by (simp add: enabled_lanes_def g h)
qed

lemma ports_of_epl_disjoint:
  "e \<in> set EPLS \<Longrightarrow> f \<in> set EPLS \<Longrightarrow> e \<noteq> f \<Longrightarrow> set (ports_of_epl e) \<inter> set (ports_of_epl f) = {}"
  by (auto elim!: EPLS_cases simp: ports_of_epl_def physical_of_eval)

subsection \<open>A quiet bus\<close>

definition quiet_bus :: "sim_bus \<Rightarrow> bool" where
  "quiet_bus b \<longleftrightarrow> sim_live b \<and> (\<forall>k. sim_drop_writes b k = 0)"

lemma quiet_update:
  assumes "quiet_bus b" and "mpo \<in> {1, 2}" and "lane AND NOT 0xFFF = 0" and "enabled AND NOT lane = 0"
    and "0 < retries" and "update_tx_mask sim_ops mpo lane enabled retries b = (res, b')"
  shows "quiet_bus b' \<and> (\<exists>v. res = Inr v)"
proof -
  have live: "sim_live b" and zero: "\<And>k. sim_drop_writes b k = 0" using assms(1) by (auto simp: quiet_bus_def)
  from sim.update_tx_mask_run [OF live assms(2-4), of retries] assms(6)
  have "sim_live b'" and out: "tx_outcome mpo lane enabled retries (sim_registers b) (sim_drop_writes b)
      res (sim_registers b') (sim_drop_writes b')" by (metis Pair_inject)+
  from out zero assms(5) have "\<forall>k. sim_drop_writes b' k = 0" "\<exists>v. res = Inr v"
    unfolding tx_outcome_def by (auto simp: Let_def)
  with \<open>sim_live b'\<close> show ?thesis by (simp add: quiet_bus_def)
qed

lemma quiet_fan:
  assumes "quiet_bus b" and "first_failure (fan_curve_checks curve) = None"
    and "apply_fan_curve sim_ops curve b = (res, b')"
  shows "res = Inr ()"
proof -
  have f: "sim_bytes b" "\<not> sim_unavailable b" "\<And>k. sim_drop_writes b k = 0"
    using assms(1) by (auto simp: quiet_bus_def sim_live_def)
  from sim_apply_fan_curve [OF f(1) assms(2,3)] f(2,3) show ?thesis by (auto simp: fan_outcome_def)
qed

lemma fresh_bus_quiet: "quiet_bus fresh_bus"
  by (simp add: quiet_bus_def sim_live_def sim_bytes_def fresh_bus_def is_byte_def)

lemma wp_restore_hardware:
  assumes "valid_configuration c" and "quiet_bus (cd_bus s)"
  shows "wp (restore_hardware c)
    (\<lambda>_ t. keeps (set EPLS) s t \<and> cd_hardware t = c \<and> cd_degraded_ports t = cd_degraded_ports s
       \<and> (\<forall>epl \<in> set EPLS. lanes_of (cd_bus t) epl = enabled_lanes c epl))
    (\<lambda>_ _. False) s"
proof -
  let ?I = "\<lambda>gs t. keeps (set EPLS) s t \<and> same_ports s t \<and> quiet_bus (cd_bus t)
    \<and> (\<forall>g \<in> set gs. lanes_of (cd_bus t) (pg_epl g) = enabled_lanes c (pg_epl g))"
  note groups = accepted_groups [OF valid_accepted [OF assms(1)]]
  have loop: "wp (for_each (\<lambda>g. set_lanes (pg_epl g) (group_enabled_mask c g)) (sc_groups c))
      (\<lambda>_. ?I (sc_groups c)) (\<lambda>_ _. False) s"
  proof (rule wp_for_each [where I = ?I])
    show "?I [] s" using assms(2) by simp
    fix ys g zs t assume xs: "sc_groups c = ys @ g # zs" and I: "?I ys t"
    have g: "pg_epl g \<in> set EPLS" "g \<in> set (sc_groups c)" using groups(2) xs by auto
    have within: "group_enabled_mask c g AND NOT (group_lane_mask (pg_epl g)) = 0"
      by (rule group_enabled_within [OF g(1)])
    have en: "group_enabled_mask c g = enabled_lanes c (pg_epl g)"
      by (simp add: enabled_lanes_def first_group_unique [OF assms(1) g(2)])
    have bytes: "sim_bytes (cd_bus t)" using I by (auto simp: quiet_bus_def sim_live_def)
    have post: "wp (set_lanes (pg_epl g) (group_enabled_mask c g))
        (\<lambda>_ u. keeps {pg_epl g} t u \<and> same_ports t u \<and> lanes_of (cd_bus u) (pg_epl g) = group_enabled_mask c g)
        (\<lambda>_ u. True) t"
      by (rule wp_set_lanes [OF g(1) within bytes]) simp_all
    have quiet: "wp (set_lanes (pg_epl g) (group_enabled_mask c g)) (\<lambda>_ u. quiet_bus (cd_bus u)) (\<lambda>_ _. False) t"
    proof -
      obtain res b' where run: "update_tx_mask sim_ops (ph_mpo (physical_of (pg_epl g))) (group_lane_mask (pg_epl g))
          (group_enabled_mask c g) default_retries (cd_bus t) = (res, b')" by (metis surj_pair)
      have "0 < default_retries" by (simp add: default_retries_def)
      with quiet_update [OF _ lane_mask_props [OF g(1)] within _ run] I obtain v where "quiet_bus b'" "res = Inr v" by blast
      then show ?thesis by (simp add: set_lanes_def on_bus_def wp_def monad_simps run)
    qed
    show "wp (set_lanes (pg_epl g) (group_enabled_mask c g)) (\<lambda>_. ?I (ys @ [g])) (\<lambda>_ _. False) t"
    proof (rule wp_mono [OF wp_conj [OF post quiet]])
      fix u assume u: "(keeps {pg_epl g} t u \<and> same_ports t u \<and> lanes_of (cd_bus u) (pg_epl g) = group_enabled_mask c g)
        \<and> quiet_bus (cd_bus u)"
      have old: "lanes_of (cd_bus u) (pg_epl y) = enabled_lanes c (pg_epl y)" if "y \<in> set ys" for y
      proof -
        have "pg_epl y \<noteq> pg_epl g" "pg_epl y \<in> set EPLS" using that xs groups by (auto simp: image_iff)
        with u I that show ?thesis using keeps_lanes [of "{pg_epl g}" t u] by simp
      qed
      have "keeps (set EPLS) t u" using u keeps_mono [of "{pg_epl g}" t u] g(1) by blast
      with u I old en show "?I (ys @ [g]) u" by (auto intro: keeps_trans same_ports_trans)
    qed simp
  qed
  have fan: "wp (on_bus (apply_fan_curve sim_ops (sc_fan c)))
      (\<lambda>_ u. keeps {} t u \<and> same_ports t u) (\<lambda>_ _. False) t" if "quiet_bus (cd_bus t)" for t
  proof -
    have "wp (on_bus (apply_fan_curve sim_ops (sc_fan c))) (\<lambda>_ _. True) (\<lambda>_ _. False) t"
      using quiet_fan [OF that valid_fan [OF assms(1)]]
      by (cases "apply_fan_curve sim_ops (sc_fan c) (cd_bus t)") (simp add: on_bus_def wp_def)
    moreover have "wp (on_bus (apply_fan_curve sim_ops (sc_fan c)))
      (\<lambda>_ u. keeps {} t u \<and> same_ports t u) (\<lambda>_ _. True) t"
      using that by (intro wp_fan [OF valid_fan [OF assms(1)]]) (auto simp: quiet_bus_def sim_live_def)
    ultimately show ?thesis by (rule wp_mono [OF wp_conj]) auto
  qed
  have epls: "set (map pg_epl (sc_groups c)) = set EPLS" by (rule accepted_cross(1) [OF valid_accepted(2) [OF assms(1)]])
  have fin: "wp (on_bus (apply_fan_curve sim_ops (sc_fan c)))
      (\<lambda>_. wp (set_hardware c) (\<lambda>_ t. keeps (set EPLS) s t \<and> cd_hardware t = c \<and> cd_degraded_ports t = cd_degraded_ports s
       \<and> (\<forall>epl \<in> set EPLS. lanes_of (cd_bus t) epl = enabled_lanes c epl)) (\<lambda>_ _. False)) (\<lambda>_ _. False) t"
    if I: "?I (sc_groups c) t" for t
  proof -
    have tl: "lanes_of (cd_bus t) epl = enabled_lanes c epl" if "epl \<in> set EPLS" for epl
    proof -
      from that epls obtain g where "g \<in> set (sc_groups c)" "epl = pg_epl g" by auto
      with I show ?thesis by blast
    qed
    have last: "keeps (set EPLS) s (u\<lparr>cd_hardware := c\<rparr>) \<and> cd_degraded_ports u = cd_degraded_ports s
        \<and> (\<forall>epl \<in> set EPLS. lanes_of (cd_bus u) epl = enabled_lanes c epl)"
      if u: "keeps {} t u" "same_ports t u" for u
    proof -
      have "keeps (set EPLS) s u" using I keeps_trans [of "set EPLS" s t u] keeps_mono [OF u(1), of "set EPLS"] by simp
      moreover have "lanes_of (cd_bus u) epl = enabled_lanes c epl" if "epl \<in> set EPLS" for epl
        using keeps_lanes [OF u(1) that] tl [OF that] by simp
      ultimately show ?thesis using I u(2) by (simp add: keeps_def image_of_def same_ports_def)
    qed
    have quiet: "quiet_bus (cd_bus t)" using I by simp
    show ?thesis
      by (rule wp_mono [OF fan [OF quiet]]) (use last in \<open>auto simp: set_hardware_def wp_simps\<close>)
  qed
  show ?thesis
    unfolding restore_hardware_def wp_then by (rule wp_mono [OF loop]) (use fin in auto)
qed

subsection \<open>The invariant\<close>

definition image_ok :: "image \<Rightarrow> bool" where
  "image_ok im \<longleftrightarrow> valid_configuration (im_configuration im)
     \<and> (\<forall>p. im_pending im = Some p \<longrightarrow> valid_configuration (pd_before p))"

definition lanes_follow :: "configd \<Rightarrow> bool" where
  "lanes_follow s \<longleftrightarrow> (\<forall>epl \<in> set EPLS.
     lanes_of (cd_bus s) epl = enabled_lanes (cd_configuration s) epl
     \<or> set (ports_of_epl epl) \<subseteq> cd_degraded_ports s)"

definition configd_ok :: "configd \<Rightarrow> bool" where
  "configd_ok s \<longleftrightarrow> sim_bytes (cd_bus s) \<and> (\<forall>im \<in> set (cd_disk s). image_ok im)
     \<and> (\<exists>rest. cd_disk s = image_of s # rest)
     \<and> (\<forall>p. cd_pending s = Some p \<longrightarrow> pd_phase p = AwaitingConfirmation)
     \<and> lanes_follow s"

lemma image_of_simps [simp]:
  "im_revision (image_of s) = cd_revision s" "im_configuration (image_of s) = cd_configuration s"
  "im_pending (image_of s) = cd_pending s" "im_last_transaction (image_of s) = cd_last_transaction s"
  by (simp_all add: image_of_def)

lemma configd_okD:
  assumes "configd_ok s"
  shows "valid_configuration (cd_configuration s)" and "cd_pending s = Some p \<Longrightarrow> valid_configuration (pd_before p)"
    and "sim_bytes (cd_bus s)" and "lanes_follow s" and "\<forall>im \<in> set (cd_disk s). image_ok im"
    and "cd_pending s = Some p \<Longrightarrow> pd_phase p = AwaitingConfirmation"
    and "stored_image (cd_disk s) = image_of s"
proof -
  from assms obtain rest where d: "cd_disk s = image_of s # rest" by (auto simp: configd_ok_def)
  then have "image_ok (image_of s)" using assms by (auto simp: configd_ok_def)
  then show "valid_configuration (cd_configuration s)"
    "cd_pending s = Some p \<Longrightarrow> valid_configuration (pd_before p)" by (auto simp: image_ok_def)
  show "stored_image (cd_disk s) = image_of s" by (simp add: stored_image_def d)
qed (use assms in \<open>auto simp: configd_ok_def\<close>)

text \<open>A revision number names one configuration: it never goes back, and keeping it keeps the configuration.\<close>

definition evolves :: "image \<Rightarrow> image \<Rightarrow> bool" where
  "evolves i j \<longleftrightarrow> im_revision i \<le> im_revision j
     \<and> (im_revision j = im_revision i \<longrightarrow> im_configuration j = im_configuration i)"

lemma evolves_refl [simp]: "evolves i i" by (simp add: evolves_def)

lemma evolves_trans: "evolves i j \<Longrightarrow> evolves j k \<Longrightarrow> evolves i k"
  by (auto simp: evolves_def)

definition stepped :: "configd \<Rightarrow> configd \<Rightarrow> bool" where
  "stepped s s' \<longleftrightarrow> configd_ok s' \<and> evolves (image_of s) (image_of s')
     \<and> (\<exists>written. cd_disk s' = written @ cd_disk s \<and> (\<forall>im \<in> set written. evolves (image_of s) im))"

lemma stepped_refl: "configd_ok s \<Longrightarrow> stepped s s"
  by (simp add: stepped_def)

lemma stepped_trans:
  assumes "stepped s t" and "stepped t u"
  shows "stepped s u"
proof -
  from assms obtain w1 w2 where
    w: "cd_disk t = w1 @ cd_disk s" "\<forall>im \<in> set w1. evolves (image_of s) im"
      "cd_disk u = w2 @ cd_disk t" "\<forall>im \<in> set w2. evolves (image_of t) im"
    by (auto simp: stepped_def)
  have e: "evolves (image_of s) (image_of t)" using assms(1) by (simp add: stepped_def)
  then have "cd_disk u = (w2 @ w1) @ cd_disk s" "\<forall>im \<in> set (w2 @ w1). evolves (image_of s) im"
    using w evolves_trans by auto
  with assms e evolves_trans show ?thesis unfolding stepped_def by blast
qed

text \<open>\<open>still\<close>: committed part, ports and lanes are the same; only the fan, the trace or the counters moved.\<close>

definition still :: "configd \<Rightarrow> configd \<Rightarrow> bool" where
  "still s t \<longleftrightarrow> keeps {} s t \<and> same_ports s t"

lemma still_refl [simp]: "still s s" by (simp add: still_def)

lemma still_trans: "still s t \<Longrightarrow> still t u \<Longrightarrow> still s u"
  by (auto simp: still_def intro: keeps_trans same_ports_trans)

lemma image_of_eqD:
  "image_of t = image_of s \<Longrightarrow> cd_configuration t = cd_configuration s \<and> cd_revision t = cd_revision s
     \<and> cd_pending t = cd_pending s \<and> cd_last_transaction t = cd_last_transaction s"
  by (simp add: image_of_def)

lemma stillD:
  assumes "still s t"
  shows "cd_disk t = cd_disk s" and "image_of t = image_of s" and "cd_pending t = cd_pending s"
    and "cd_configuration t = cd_configuration s" and "cd_revision t = cd_revision s"
    and "cd_hardware t = cd_hardware s" and "cd_degraded_ports t = cd_degraded_ports s"
    and "cd_last_transaction t = cd_last_transaction s"
  using assms image_of_eqD [of t s] by (auto simp: still_def keeps_def same_ports_def)

lemma still_ok:
  assumes "still s t" and "configd_ok s"
  shows "configd_ok t"
  using assms stillD [OF assms(1)]
  by (auto simp: configd_ok_def lanes_follow_def still_def keeps_def)

lemma still_stepped: "still s t \<Longrightarrow> configd_ok s \<Longrightarrow> stepped s t"
  using still_ok stillD(1,2) by (simp add: stepped_def)

text \<open>Committing new data over a hardware state that already follows it.\<close>

lemma follow_applied:
  assumes "valid_configuration (cd_configuration s)" and "valid_configuration target" and "lanes_follow s"
    and "hw_applied (set (affected_groups (cd_configuration s) target)) target s t" and "cd_configuration u = target"
    and "cd_bus u = cd_bus t" and "cd_degraded_ports u = cd_degraded_ports t"
  shows "lanes_follow u"
  unfolding lanes_follow_def
proof
  fix epl assume epl: "epl \<in> set EPLS"
  let ?A = "set (affected_groups (cd_configuration s) target)"
  show "lanes_of (cd_bus u) epl = enabled_lanes (cd_configuration u) epl
      \<or> set (ports_of_epl epl) \<subseteq> cd_degraded_ports u"
  proof (cases "epl \<in> ?A")
    case True
    with assms(4-7) show ?thesis by (simp add: hw_applied_def)
  next
    case False
    have lanes: "lanes_of (cd_bus t) epl = lanes_of (cd_bus s) epl"
      using assms(4) keeps_lanes epl False by (auto simp: hw_applied_def)
    have "enabled_lanes target epl = enabled_lanes (cd_configuration s) epl"
      by (rule enabled_lanes_unaffected [OF assms(1,2) epl False])
    moreover have "set (ports_of_epl epl) \<inter> (\<Union>f \<in> ?A. set (ports_of_epl f)) = {}"
      using False epl affected_epls(1) [OF assms(2)] ports_of_epl_disjoint by blast
    ultimately show ?thesis
      using assms(3-7) lanes epl by (auto simp: lanes_follow_def hw_applied_def)
  qed
qed

lemma follow_failed:
  assumes "lanes_follow s" and "hw_failed A before s e t" and "cd_configuration u = cd_configuration s"
    and "cd_bus u = cd_bus t" and "cd_degraded_ports u = cd_degraded_ports t"
  shows "lanes_follow u"
  unfolding lanes_follow_def
proof
  fix epl assume epl: "epl \<in> set EPLS"
  have old: "lanes_of (cd_bus s) epl = enabled_lanes (cd_configuration s) epl
      \<or> set (ports_of_epl epl) \<subseteq> cd_degraded_ports s"
    using assms(1) epl by (simp add: lanes_follow_def)
  have keep: "lanes_of (cd_bus t) epl = lanes_of (cd_bus s) epl" if "epl \<notin> A"
    using assms(2) keeps_lanes [OF _ epl that] by (simp add: hw_failed_def)
  from assms(2) have "cd_degraded_ports t = cd_degraded_ports s \<and> (epl \<in> A \<longrightarrow> lanes_of (cd_bus t) epl = lanes_of (cd_bus s) epl)
      \<or> cd_degraded_ports s \<subseteq> cd_degraded_ports t \<and> (epl \<in> A \<longrightarrow> set (ports_of_epl epl) \<subseteq> cd_degraded_ports t)"
    by (auto simp: hw_failed_def)
  with old keep assms(3-5) show "lanes_of (cd_bus u) epl = enabled_lanes (cd_configuration u) epl
      \<or> set (ports_of_epl epl) \<subseteq> cd_degraded_ports u"
    by (cases "epl \<in> A") auto
qed

subsection \<open>Operations\<close>

text \<open>No manual PWM test is overdue, so the clock has nothing to do for it.\<close>

definition settled :: "int \<Rightarrow> configd \<Rightarrow> bool" where
  "settled now s \<longleftrightarrow> cd_manual_pwm s = None \<or> now < cd_manual_until s"

lemma keeps_settled: "keeps A s t \<Longrightarrow> settled now s \<Longrightarrow> settled now t"
  by (auto simp: keeps_def settled_def)

lemma settled_expire: "settled now s \<Longrightarrow> expire_manual now s = (Inr (), s)"
  by (auto simp: settled_def expire_manual_def monad_simps)

lemma settled_tick: "settled now s \<Longrightarrow> \<not> due now s \<Longrightarrow> tick now s = (Inr (), s)"
  by (simp add: tick_def monad_simps settled_expire)

lemma wp_expire_manual:
  assumes "configd_ok s"
  shows "wp (expire_manual now) (\<lambda>_ t. still s t \<and> settled now t) (\<lambda>_. still s) s"
proof (cases "settled now s")
  case True
  then show ?thesis by (simp add: wp_def settled_expire)
next
  case False
  have clear: "wp clear_manual (\<lambda>_ t. still s t \<and> settled now t) (\<lambda>_. still s) t" if "still s t" for t
    using that by (auto simp: clear_manual_def wp_simps still_def keeps_def same_ports_def image_of_def settled_def)
  have "wp (on_bus (apply_fan_curve sim_ops (sc_fan (cd_configuration s))))
      (\<lambda>_. wp clear_manual (\<lambda>_ t. still s t \<and> settled now t) (\<lambda>_. still s)) (\<lambda>_. still s) s"
    by (rule wp_fan [OF valid_fan [OF configd_okD(1) [OF assms]] configd_okD(3) [OF assms]])
      (use clear in \<open>auto simp: still_def\<close>)
  with False show ?thesis by (auto simp: expire_manual_def wp_simps settled_def)
qed

text \<open>The state a rollback reaches, and the state a failed rollback leaves.\<close>

definition rolled_back :: "configd \<Rightarrow> pending_commit \<Rightarrow> configd \<Rightarrow> bool" where
  "rolled_back s p t \<longleftrightarrow> configd_ok t \<and> cd_disk t = image_of t # cd_disk s
     \<and> image_of t = \<lparr>im_revision = cd_revision s + 1, im_configuration = pd_before p, im_pending = None,
         im_last_transaction = Some \<lparr>tr_job = pd_job p, tr_revision = cd_revision s, tr_state = TxRolledBack\<rparr>\<rparr>
     \<and> cd_hardware t = pd_before p"

definition uncommitted :: "configd \<Rightarrow> configd \<Rightarrow> bool" where
  "uncommitted s t \<longleftrightarrow> configd_ok t \<and> cd_disk t = cd_disk s \<and> image_of t = image_of s"

lemma still_uncommitted: "still s t \<Longrightarrow> configd_ok s \<Longrightarrow> uncommitted s t"
  using still_ok stillD(1,2) by (simp add: uncommitted_def)

lemma uncommitted_stepped: "uncommitted s t \<Longrightarrow> stepped s t"
  by (simp add: uncommitted_def stepped_def)

lemma rolled_back_stepped:
  assumes "rolled_back s p t"
  shows "stepped s t"
proof -
  have e: "evolves (image_of s) (image_of t)" using assms by (simp add: rolled_back_def evolves_def)
  have "cd_disk t = [image_of t] @ cd_disk s" using assms by (simp add: rolled_back_def)
  with e have "\<exists>w. cd_disk t = w @ cd_disk s \<and> (\<forall>im \<in> set w. evolves (image_of s) im)"
    by (intro exI [of _ "[image_of t]"]) simp
  with e assms show ?thesis by (auto simp: stepped_def rolled_back_def)
qed

lemma hw_failed_uncommitted:
  assumes "configd_ok s" and "hw_failed A before s e t"
  shows "uncommitted s t"
proof -
  have k: "cd_disk t = cd_disk s" "image_of t = image_of s" "sim_bytes (cd_bus t)"
    using assms by (auto simp: hw_failed_def keeps_def configd_ok_def)
  moreover have "lanes_follow t"
    using follow_failed [OF configd_okD(4) [OF assms(1)] assms(2)] image_of_eqD [OF k(2)] by blast
  ultimately show ?thesis using assms(1) image_of_eqD [OF k(2)] by (auto simp: uncommitted_def configd_ok_def)
qed

lemma wp_rollback_core:
  assumes "configd_ok s"
  shows "wp (rollback_core now job)
    (\<lambda>_ t. \<exists>p. cd_pending s = Some p \<and> pd_job p = job \<and> rolled_back s p t) (\<lambda>_. uncommitted s) s"
proof (cases "cd_pending s")
  case None
  then show ?thesis using assms by (simp add: rollback_core_def wp_simps uncommitted_def)
next
  case (Some p)
  show ?thesis
  proof (cases "pd_job p = job")
    case False
    with Some assms show ?thesis by (simp add: rollback_core_def wp_simps uncommitted_def)
  next
    case True
    have before: "valid_configuration (pd_before p)" by (rule configd_okD(2) [OF assms Some])
    then have load: "load_configuration (pd_before p) = ret (pd_before p)"
      by (simp add: load_configuration_def valid_configuration_def)
    let ?f = "\<lambda>t. t\<lparr>cd_last_transaction := Some \<lparr>tr_job = job, tr_revision = cd_revision t, tr_state = TxRolledBack\<rparr>,
        cd_configuration := pd_before p, cd_revision := cd_revision t + 1, cd_pending := None\<rparr>"
    have fin: "rolled_back s p (?f t\<lparr>cd_disk := image_of (?f t) # cd_disk t\<rparr>)"
      if hw: "hw_applied (set (affected_groups (cd_configuration s) (pd_before p))) (pd_before p) s t" for t
    proof -
      let ?u = "?f t\<lparr>cd_disk := image_of (?f t) # cd_disk t\<rparr>"
      have k: "cd_disk t = cd_disk s" "image_of t = image_of s" "sim_bytes (cd_bus t)" "cd_hardware t = pd_before p"
        using hw assms by (auto simp: hw_applied_def keeps_def configd_ok_def)
      have "lanes_follow ?u"
        by (rule follow_applied [OF configd_okD(1) [OF assms] before configd_okD(4) [OF assms] hw]) simp_all
      moreover have "image_of ?u = image_of (?f t)" by (simp add: image_of_def)
      ultimately show ?thesis
        using k image_of_eqD [OF k(2)] assms before True
        by (auto simp: rolled_back_def configd_ok_def image_ok_def image_of_def)
    qed
    let ?commit = "then_action (modify_state ?f) persist"
    have after: "wp ?commit (\<lambda>_. rolled_back s p) E t"
      if hw: "hw_applied (set (affected_groups (cd_configuration s) (pd_before p))) (pd_before p) s t" for t E
      using fin [OF hw] by (simp add: wp_simps persist_def)
    have split: "wp (rollback_core now job) Q E s =
        wp (apply_hardware now (cd_configuration s) (pd_before p)) (\<lambda>_. wp ?commit Q E) E s" for Q E
      by (simp add: rollback_core_def wp_simps Some True load)
    have done_ok: "wp ?commit (\<lambda>_ t. \<exists>p. cd_pending s = Some p \<and> pd_job p = job \<and> rolled_back s p t) E t"
      if "hw_applied (set (affected_groups (cd_configuration s) (pd_before p))) (pd_before p) s t" for t E
      by (rule wp_mono [OF after [OF that]]) (auto simp: Some True)
    show ?thesis
      unfolding split
      by (rule wp_mono [OF wp_apply_hardware [OF configd_okD(1) [OF assms] before configd_okD(3) [OF assms]]])
        (rule done_ok hw_failed_uncommitted [OF assms], assumption)+
  qed
qed

definition ticked :: "int \<Rightarrow> configd \<Rightarrow> configd \<Rightarrow> bool" where
  "ticked now s t \<longleftrightarrow> \<not> due now s \<and> still s t
     \<or> due now s \<and> (\<exists>p m. cd_pending s = Some p \<and> rolled_back s p m \<and> still m t)"

lemma ticked_stepped: "ticked now s t \<Longrightarrow> configd_ok s \<Longrightarrow> stepped s t"
  unfolding ticked_def
  by (metis rolled_back_def rolled_back_stepped still_stepped stepped_trans)

lemma ticked_not_due:
  assumes "ticked now s t"
  shows "\<not> due now t"
  using assms by (auto simp: ticked_def rolled_back_def due_def dest!: stillD(3) image_of_eqD split: option.splits)
    (simp_all add: image_of_def)

lemma wp_tick:
  assumes "configd_ok s"
  shows "wp (tick now) (\<lambda>_ t. ticked now s t \<and> settled now t)
    (\<lambda>_ t. \<not> settled now s \<and> ticked now s t \<or> due now s \<and> (ticked now s t \<or> uncommitted s t)) s"
proof (cases "due now s")
  case False
  show ?thesis
  proof (cases "settled now s")
    case True
    with False show ?thesis by (simp add: wp_def settled_tick ticked_def)
  next
    case unsettled: False
    show ?thesis
      using False unsettled
      by (simp add: tick_def wp_simps ticked_def) (rule wp_mono [OF wp_expire_manual [OF assms]], auto)
  qed
next
  case True
  then obtain p where p: "cd_pending s = Some p" by (auto simp: due_def split: option.splits)
  let ?T = "\<lambda>t. \<exists>m. rolled_back s p m \<and> still m t"
  have one: "wp (expire_manual now) (\<lambda>_ t. ?T t \<and> settled now t) (\<lambda>_. ?T) t" if t: "?T t" for t
  proof -
    from t obtain m where m: "rolled_back s p m" "still m t" by blast
    then have "configd_ok t" using still_ok by (auto simp: rolled_back_def)
    from wp_expire_manual [OF this] show ?thesis
      by (rule wp_mono) (use m still_trans in blast)+
  qed
  have roll: "wp (rollback_core now (pending_job s)) (\<lambda>_. rolled_back s p) (\<lambda>_. uncommitted s) s"
    by (rule wp_mono [OF wp_rollback_core [OF assms]]) (auto simp: p)
  have inner: "wp (expire_manual now) (\<lambda>_. wp (expire_manual now) (\<lambda>_ t. ?T t \<and> settled now t) (\<lambda>_. ?T)) (\<lambda>_. ?T) t"
    if "rolled_back s p t" for t
  proof -
    have t: "?T t" using that still_refl by blast
    show ?thesis by (rule wp_mono [OF one [OF t]]) (use one in auto)
  qed
  have "wp (tick now) (\<lambda>_ t. ?T t \<and> settled now t) (\<lambda>_ t. ?T t \<or> uncommitted s t) s"
    unfolding tick_def wp_then wp_with_state using True
    by (simp add: wp_then)
      (rule wp_mono [OF roll], rule wp_mono [OF inner], auto elim!: wp_mono)
  then show ?thesis by (rule wp_mono) (use True p in \<open>auto simp: ticked_def\<close>)
qed

lemma wp_snapshot:
  assumes "configd_ok s"
  shows "wp (snapshot now) (\<lambda>v t. ticked now s t \<and> v = view t)
    (\<lambda>_ t. \<not> settled now s \<and> ticked now s t \<or> due now s \<and> (ticked now s t \<or> uncommitted s t)) s"
  unfolding snapshot_def wp_then
  by (rule wp_mono [OF wp_tick [OF assms]]) (auto simp: wp_simps)

lemma no_pending_not_due: "cd_pending s = None \<Longrightarrow> \<not> due now s"
  by (simp add: due_def)

lemma wp_rollback:
  assumes "configd_ok s"
  shows "wp (rollback now job)
    (\<lambda>v t. \<exists>p m. cd_pending s = Some p \<and> pd_job p = job \<and> rolled_back s p m \<and> still m t \<and> v = view t)
    (\<lambda>_ t. uncommitted s t \<or> (\<exists>p m. cd_pending s = Some p \<and> pd_job p = job \<and> rolled_back s p m \<and> still m t)) s"
proof -
  have snap: "wp (snapshot now)
      (\<lambda>v t. \<exists>p m. cd_pending s = Some p \<and> pd_job p = job \<and> rolled_back s p m \<and> still m t \<and> v = view t)
      (\<lambda>_ t. uncommitted s t \<or> (\<exists>p m. cd_pending s = Some p \<and> pd_job p = job \<and> rolled_back s p m \<and> still m t)) m"
    if m: "\<exists>p. cd_pending s = Some p \<and> pd_job p = job \<and> rolled_back s p m" for m
  proof -
    from m obtain p where p: "cd_pending s = Some p" "pd_job p = job" "rolled_back s p m" by blast
    have "cd_pending m = None" using p(3) by (auto simp: rolled_back_def image_of_def)
    then have nd: "\<not> due now m" by (rule no_pending_not_due)
    have "configd_ok m" using p(3) by (simp add: rolled_back_def)
    from wp_snapshot [OF this] show ?thesis by (rule wp_mono) (use p nd in \<open>auto simp: ticked_def\<close>)
  qed
  show ?thesis
    unfolding rollback_def wp_then
    by (rule wp_mono [OF wp_rollback_core [OF assms]]) (use snap in auto)
qed

definition request :: "int \<Rightarrow> configd \<Rightarrow> string \<Rightarrow> int \<Rightarrow> commit_phase \<Rightarrow> pending_commit" where
  "request now m job timeout phase = \<lparr>pd_job = job, pd_before = cd_configuration m, pd_phase = phase,
     pd_deadline = now + 1000 * timeout\<rparr>"

definition applying_image :: "int \<Rightarrow> configd \<Rightarrow> string \<Rightarrow> int \<Rightarrow> image" where
  "applying_image now m job timeout = (image_of m)\<lparr>im_pending := Some (request now m job timeout Applying)\<rparr>"

definition applied_image :: "int \<Rightarrow> configd \<Rightarrow> switch_configuration \<Rightarrow> string \<Rightarrow> int \<Rightarrow> image" where
  "applied_image now m target job timeout = (image_of m)\<lparr>im_revision := cd_revision m + 1, im_configuration := target,
     im_pending := Some (request now m job timeout AwaitingConfirmation)\<rparr>"

definition applied :: "int \<Rightarrow> configd \<Rightarrow> switch_configuration \<Rightarrow> string \<Rightarrow> int \<Rightarrow> configd \<Rightarrow> bool" where
  "applied now m target job timeout u \<longleftrightarrow> configd_ok u \<and> cd_hardware u = target
     \<and> image_of u = applied_image now m target job timeout
     \<and> cd_disk u = [applied_image now m target job timeout, applying_image now m job timeout] @ cd_disk m
     \<and> settled now u"

text \<open>After a failed attempt the groups in \<open>A\<close> have their lanes back, or all their ports are degraded;
  the other groups kept their lanes either way.\<close>

definition put_back :: "int set \<Rightarrow> hw_error \<Rightarrow> configd \<Rightarrow> configd \<Rightarrow> bool" where
  "put_back A e m u \<longleftrightarrow>
     (\<forall>epl \<in> set EPLS. epl \<notin> A \<longrightarrow> lanes_of (cd_bus u) epl = lanes_of (cd_bus m) epl)
   \<and> ((\<forall>epl \<in> A. lanes_of (cd_bus u) epl = lanes_of (cd_bus m) epl)
        \<and> cd_hardware u \<in> {cd_configuration m, cd_hardware m} \<and> cd_degraded_ports u = cd_degraded_ports m
      \<or> (\<exists>cause rollback. e = RollbackFailed cause rollback)
        \<and> cd_degraded_ports u = cd_degraded_ports m \<union> (\<Union>epl \<in> A. set (ports_of_epl epl)))"

definition apply_failed ::
  "int \<Rightarrow> configd \<Rightarrow> switch_configuration \<Rightarrow> string \<Rightarrow> int \<Rightarrow> hw_error \<Rightarrow> configd \<Rightarrow> bool" where
  "apply_failed now m target job timeout e u \<longleftrightarrow> configd_ok u \<and> image_of u = image_of m
     \<and> cd_disk u = [image_of m, applying_image now m job timeout] @ cd_disk m
     \<and> put_back (set (affected_groups (cd_configuration m) target)) e m u"

definition accepts :: "configd \<Rightarrow> int \<Rightarrow> bool" where
  "accepts m expected \<longleftrightarrow> cd_pending m = None \<and> expected = cd_revision m"

lemma wp_apply_configuration:
  assumes "configd_ok s" and "valid_configuration target"
  shows "wp (apply_configuration now target expected job timeout)
    (\<lambda>v t. v = view t \<and> (\<exists>m u. ticked now s m \<and> accepts m expected
       \<and> applied now m target job timeout u \<and> ticked now u t))
    (\<lambda>e t. (ticked now s t \<or> due now s \<and> uncommitted s t)
       \<or> (\<exists>m. ticked now s m \<and> accepts m expected \<and> apply_failed now m target job timeout e t)
       \<or> (\<exists>m u. ticked now s m \<and> accepts m expected \<and> applied now m target job timeout u
             \<and> due now u \<and> (ticked now u t \<or> uncommitted u t))) s"
    (is "wp ?m ?Q ?E s")
proof -
  have body: "wp (let before = cd_configuration m;
                p = \<lparr>pd_job = job, pd_before = before, pd_phase = Applying, pd_deadline = now + 1000 * timeout\<rparr>
       in then_action (set_pending (Some p))
         (then_action persist
         (then_action (catch_action (apply_hardware now before target)
             (\<lambda>e. then_action (set_pending None) (then_action persist (raise_error e))))
         (then_action (modify_state (\<lambda>s. s\<lparr>cd_configuration := target, cd_revision := cd_revision s + 1,
             cd_pending := Some (p\<lparr>pd_phase := AwaitingConfirmation\<rparr>)\<rparr>))
         (then_action persist (snapshot now)))))) ?Q ?E m"
    if m: "ticked now s m" "accepts m expected" "configd_ok m" "settled now m" for m
  proof -
    let ?A = "set (affected_groups (cd_configuration m) target)"
    define m1 where "m1 = m\<lparr>cd_pending := Some (request now m job timeout Applying),
      cd_disk := applying_image now m job timeout # cd_disk m\<rparr>"
    have m1: "valid_configuration (cd_configuration m1)" "lanes_follow m1" "sim_bytes (cd_bus m1)"
      "cd_configuration m1 = cd_configuration m"
      using configd_okD [OF m(3)] by (simp_all add: m1_def lanes_follow_def)
    have im1: "image_of m1 = applying_image now m job timeout" "cd_disk m1 = applying_image now m job timeout # cd_disk m"
      by (simp_all add: m1_def applying_image_def image_of_def)
    have none: "cd_pending m = None" using m(2) by (simp add: accepts_def)
    let ?none = "\<lambda>t. t\<lparr>cd_pending := None, cd_disk := image_of (t\<lparr>cd_pending := None\<rparr>) # cd_disk t\<rparr>"
    have failed: "apply_failed now m target job timeout e (?none t)"
      if hw: "hw_failed ?A (cd_configuration m) m1 e t" for e t
    proof -
      have k: "cd_disk t = cd_disk m1" "image_of t = image_of m1" "sim_bytes (cd_bus t)"
        using hw m1(3) by (simp_all add: hw_failed_def keeps_def)
      have im: "image_of (t\<lparr>cd_pending := None\<rparr>) = image_of m"
        using k(2) [unfolded im1] none by (simp add: applying_image_def image_of_def)
      have im': "image_of (?none t) = image_of m" using im by (simp add: image_of_def)
      have "lanes_follow (?none t)"
        by (rule follow_failed [OF m1(2) hw]) (use image_of_eqD [OF k(2)] in simp_all)
      moreover have "image_ok (applying_image now m job timeout)" "image_ok (image_of m)"
        using configd_okD [OF m(3)] none by (auto simp: image_ok_def applying_image_def request_def)
      ultimately have "configd_ok (?none t)"
        using k im im' configd_okD(5) [OF m(3)] by (simp add: configd_ok_def im1)
      moreover have "put_back ?A e m (?none t)"
        using hw keeps_lanes [of ?A m1 t] unfolding hw_failed_def put_back_def by (auto simp: m1_def)
      ultimately show ?thesis using k im im' by (simp add: apply_failed_def im1)
    qed
    let ?ok = "\<lambda>t. t\<lparr>cd_configuration := target, cd_revision := cd_revision t + 1,
        cd_pending := Some (request now m job timeout AwaitingConfirmation)\<rparr>"
    have done_ok: "applied now m target job timeout (?ok t\<lparr>cd_disk := image_of (?ok t) # cd_disk t\<rparr>)"
      if hw: "hw_applied ?A target m1 t" for t
    proof -
      let ?u = "?ok t\<lparr>cd_disk := image_of (?ok t) # cd_disk t\<rparr>"
      have k: "cd_disk t = cd_disk m1" "image_of t = image_of m1" "sim_bytes (cd_bus t)" "cd_hardware t = target"
        using hw m1(3) by (simp_all add: hw_applied_def keeps_def)
      have im: "image_of (?ok t) = applied_image now m target job timeout"
        using k(2) [unfolded im1] by (simp add: applied_image_def applying_image_def image_of_def)
      have im': "image_of ?u = applied_image now m target job timeout" using im by (simp add: image_of_def)
      have "lanes_follow ?u"
        by (rule follow_applied [OF m1(1) assms(2) m1(2) _]) (use hw m1(4) in simp_all)
      moreover have "image_ok (applying_image now m job timeout)" "image_ok (applied_image now m target job timeout)"
        using configd_okD [OF m(3)] none assms(2)
        by (auto simp: image_ok_def applying_image_def applied_image_def request_def)
      ultimately have "configd_ok ?u"
        using k im im' configd_okD(5) [OF m(3)] by (simp add: configd_ok_def im1 request_def)
      moreover have "settled now ?u"
      proof -
        have "keeps ?A m1 t" using hw by (simp add: hw_applied_def)
        from keeps_settled [OF this, of now] m(4) show ?thesis by (simp add: settled_def m1_def)
      qed
      ultimately show ?thesis using k im im' by (simp add: applied_def im1)
    qed
    have snap: "wp (snapshot now) ?Q ?E u" if u: "applied now m target job timeout u" for u
    proof -
      have ok: "configd_ok u" and st: "settled now u" using u by (simp_all add: applied_def)
      from wp_snapshot [OF ok] show ?thesis by (rule wp_mono) (use u m st in blast)+
    qed
    have hw: "wp (apply_hardware now (cd_configuration m) target) (\<lambda>_. hw_applied ?A target m1)
        (hw_failed ?A (cd_configuration m) m1) m1"
      by (rule wp_apply_hardware [OF _ assms(2) m1(3)]) (use m1 in simp)
    have pend: "\<lparr>pd_job = job, pd_before = cd_configuration m, pd_phase = Applying, pd_deadline = now + 1000 * timeout\<rparr>
        = request now m job timeout Applying"
      "(request now m job timeout Applying)\<lparr>pd_phase := AwaitingConfirmation\<rparr> = request now m job timeout AwaitingConfirmation"
      by (simp_all add: request_def)
    let ?handler = "\<lambda>e. then_action (set_pending None) (then_action persist (raise_error e))"
    let ?tail = "then_action (modify_state (\<lambda>s. s\<lparr>cd_configuration := target, cd_revision := cd_revision s + 1,
             cd_pending := Some (request now m job timeout AwaitingConfirmation)\<rparr>))
         (then_action persist (snapshot now))"
    have start: "wp (set_pending (Some (request now m job timeout Applying))) (\<lambda>_. wp persist (\<lambda>_. X) E) E m = X m1" for X E
      by (simp add: set_pending_def persist_def wp_simps m1_def applying_image_def image_of_def)
    have handler: "wp (?handler e) Q ?E t" if "hw_failed ?A (cd_configuration m) m1 e t"
      for e t and Q :: "unit \<Rightarrow> configd \<Rightarrow> bool"
      using failed [OF that] m by (auto simp: set_pending_def persist_def wp_simps)
    have tail: "wp ?tail ?Q ?E t" if "hw_applied ?A target m1 t" for t
      using snap [OF done_ok [OF that]] by (simp add: persist_def wp_simps)
    have "wp (catch_action (apply_hardware now (cd_configuration m) target) ?handler) (\<lambda>_. wp ?tail ?Q ?E) ?E m1"
      unfolding wp_catch by (rule wp_mono [OF hw]) (rule tail handler, assumption)+
    then show ?thesis
      unfolding Let_def pend wp_then [of "set_pending _"] wp_then [of persist "then_action (catch_action _ _) _"] start
        wp_then [of "catch_action _ _"] .
  qed
  show ?thesis
    unfolding apply_configuration_def wp_then wp_with_state
  proof (rule wp_mono [OF wp_tick [OF assms(1)]])
    fix m assume "ticked now s m \<and> settled now m"
    then have m: "ticked now s m" and st: "settled now m" by auto
    show "wp (if cd_pending m \<noteq> None then raise_error PendingUnconfirmed
       else if expected \<noteq> cd_revision m then raise_error RevisionChanged
       else let before = cd_configuration m;
                p = \<lparr>pd_job = job, pd_before = before, pd_phase = Applying, pd_deadline = now + 1000 * timeout\<rparr>
       in then_action (set_pending (Some p))
         (then_action persist
         (then_action (catch_action (apply_hardware now before target)
             (\<lambda>e. then_action (set_pending None) (then_action persist (raise_error e))))
         (then_action (modify_state (\<lambda>s. s\<lparr>cd_configuration := target, cd_revision := cd_revision s + 1,
             cd_pending := Some (p\<lparr>pd_phase := AwaitingConfirmation\<rparr>)\<rparr>))
         (then_action persist (snapshot now)))))) ?Q ?E m"
      using body [OF m] st m ticked_stepped [OF m assms(1)] by (simp add: wp_raise accepts_def stepped_def)
  qed blast
qed

lemma applied_stepped:
  assumes "configd_ok m" and "applied now m target job timeout u"
  shows "stepped m u"
proof -
  have "evolves (image_of m) (applied_image now m target job timeout)"
    "evolves (image_of m) (applying_image now m job timeout)"
    by (simp_all add: evolves_def applied_image_def applying_image_def)
  with assms show ?thesis
    unfolding stepped_def applied_def
    by (intro conjI exI [of _ "[applied_image now m target job timeout, applying_image now m job timeout]"]) auto
qed

lemma apply_failed_stepped:
  assumes "configd_ok m" and "apply_failed now m target job timeout e u"
  shows "stepped m u"
proof -
  have "evolves (image_of m) (applying_image now m job timeout)"
    by (simp add: evolves_def applying_image_def)
  with assms show ?thesis
    unfolding stepped_def apply_failed_def
    by (intro conjI exI [of _ "[image_of m, applying_image now m job timeout]"]) auto
qed

lemma apply_stepped:
  assumes "configd_ok s" and "valid_configuration target"
  shows "wp (apply_configuration now target expected job timeout) (\<lambda>_. stepped s) (\<lambda>_. stepped s) s"
proof (rule wp_mono [OF wp_apply_configuration [OF assms]])
  note t = ticked_stepped [OF _ assms(1)]
  have mid: "stepped s u" if "ticked now s m" "applied now m target job timeout u" for m u
    using t [OF that(1)] that applied_stepped stepped_trans by (metis stepped_def)
  have tail: "stepped s v" if "ticked now s m" "applied now m target job timeout u" "ticked now u v \<or> uncommitted u v" for m u v
    using mid [OF that(1,2)] that(3) ticked_stepped uncommitted_stepped stepped_trans by (metis stepped_def)
  fix v u
  {
    assume "v = view u \<and> (\<exists>m w. ticked now s m \<and> accepts m expected \<and> applied now m target job timeout w \<and> ticked now w u)"
    then show "stepped s u" using tail by blast
  }
next
  note t = ticked_stepped [OF _ assms(1)]
  fix e u
  assume *: "(ticked now s u \<or> due now s \<and> uncommitted s u) \<or>
     (\<exists>m. ticked now s m \<and> accepts m expected \<and> apply_failed now m target job timeout e u) \<or>
     (\<exists>m w. ticked now s m \<and> accepts m expected \<and> applied now m target job timeout w \<and>
        due now w \<and> (ticked now w u \<or> uncommitted w u))"
  then consider "ticked now s u" | "uncommitted s u"
    | m where "ticked now s m" "apply_failed now m target job timeout e u"
    | m w where "ticked now s m" "applied now m target job timeout w" "ticked now w u \<or> uncommitted w u"
    by blast
  then show "stepped s u"
  proof cases
    case 3
    with t show ?thesis using apply_failed_stepped stepped_trans by (metis stepped_def)
  next
    case 4
    with t have "stepped s w" using applied_stepped stepped_trans by (metis stepped_def)
    with 4 show ?thesis using ticked_stepped uncommitted_stepped stepped_trans by (metis stepped_def)
  qed (auto intro: t uncommitted_stepped)
qed

definition confirmed :: "configd \<Rightarrow> pending_commit \<Rightarrow> configd \<Rightarrow> bool" where
  "confirmed m p u \<longleftrightarrow> configd_ok u \<and> cd_hardware u = cd_hardware m \<and> cd_disk u = image_of u # cd_disk m
     \<and> image_of u = (image_of m)\<lparr>im_pending := None, im_last_transaction :=
          Some \<lparr>tr_job = pd_job p, tr_revision = cd_revision m, tr_state = TxConfirmed\<rparr>\<rparr>"

lemma wp_confirm:
  assumes "configd_ok s"
  shows "wp (confirm now job)
    (\<lambda>v t. v = view t \<and> \<not> due now s \<and> (\<exists>m u p. still s m \<and> cd_pending s = Some p \<and> pd_job p = job
        \<and> confirmed m p u \<and> still u t))
    (\<lambda>e t. ticked now s t \<or> due now s \<and> uncommitted s t
        \<or> (\<exists>m u p. still s m \<and> cd_pending s = Some p \<and> pd_job p = job \<and> confirmed m p u \<and> still u t)) s"
    (is "wp ?m ?Q ?E s")
  unfolding confirm_def wp_then [of "tick _"]
proof (rule wp_mono [OF wp_tick [OF assms]])
  fix m assume "ticked now s m \<and> settled now m"
  then have m: "ticked now s m" ..
  have ok: "configd_ok m" using ticked_stepped [OF m assms] by (simp add: stepped_def)
  show "wp (with_state (\<lambda>s. if cd_pending s = None \<or> pending_job s \<noteq> job then raise_error NotAwaiting
     else then_action (modify_state (\<lambda>s. s\<lparr>
            cd_last_transaction := Some \<lparr>tr_job = job, tr_revision = cd_revision s, tr_state = TxConfirmed\<rparr>,
            cd_pending := None\<rparr>))
       (then_action persist (snapshot now)))) ?Q ?E m"
  proof (cases "cd_pending m = None \<or> pending_job m \<noteq> job")
    case True
    with m show ?thesis by (auto simp: wp_simps)
  next
    case False
    then obtain p where p: "cd_pending m = Some p" "pd_job p = job" by (auto simp: pending_job_def)
    have nd: "\<not> due now s" and st: "still s m"
      using m p(1) by (auto simp: ticked_def rolled_back_def image_of_def dest!: stillD(3))
    let ?f = "\<lambda>t. t\<lparr>cd_last_transaction := Some \<lparr>tr_job = job, tr_revision = cd_revision t, tr_state = TxConfirmed\<rparr>,
            cd_pending := None\<rparr>"
    let ?u = "?f m\<lparr>cd_disk := image_of (?f m) # cd_disk m\<rparr>"
    have im: "image_of ?u = image_of (?f m)" by (simp add: image_of_def)
    have "lanes_follow ?u" using configd_okD(4) [OF ok] by (simp add: lanes_follow_def)
    then have u: "confirmed m p ?u"
      using ok im p configd_okD(1) [OF ok] by (auto simp: confirmed_def configd_ok_def image_ok_def image_of_def)
    then have okd: "configd_ok ?u" by (simp add: confirmed_def)
    have pend: "cd_pending s = Some p" using stillD(3) [OF st] p(1) by simp
    from wp_snapshot [OF okd, of now] have "wp (snapshot now) ?Q ?E ?u"
      by (rule wp_mono) (use nd st u p(2) pend in \<open>auto simp: ticked_def due_def\<close>)
    with False p show ?thesis by (simp add: wp_simps persist_def)
  qed
qed blast

lemma confirmed_stepped:
  assumes "confirmed m p u"
  shows "stepped m u"
proof -
  have e: "evolves (image_of m) (image_of u)" using assms by (simp add: confirmed_def evolves_def)
  with assms show ?thesis
    unfolding stepped_def confirmed_def by (intro conjI exI [of _ "[image_of u]"]) auto
qed

lemma default_valid: "valid_configuration default_configuration"
  by code_simp

subsection \<open>Starting\<close>

lemma restart_run:
  assumes "image_ok (stored_image disk)" and "\<forall>im \<in> set disk. image_ok im"
  defines "im \<equiv> stored_image disk"
  shows "\<exists>s. restart now disk = Inr s \<and> configd_ok s \<and> cd_pending s = None \<and> cd_hardware s = cd_configuration s
    \<and> cd_disk s = image_of s # disk \<and> cd_degraded_ports s = {}
    \<and> (case im_pending im of
         None \<Rightarrow> image_of s = im
       | Some p \<Rightarrow> cd_configuration s = pd_before p \<and> cd_revision s = im_revision im + 1)"
proof -
  define j where "j = (case im_pending im of None \<Rightarrow> im
    | Some p \<Rightarrow> \<lparr>im_revision = im_revision im + 1, im_configuration = pd_before p, im_pending = None,
        im_last_transaction = Some \<lparr>tr_job = pd_job p, tr_revision = im_revision im, tr_state = TxRolledBack\<rparr>\<rparr>)"
  have v: "valid_configuration (im_configuration im)" using assms(1) by (simp add: image_ok_def im_def)
  have jv: "valid_configuration (im_configuration j)" "im_pending j = None"
    using assms(1) v by (auto simp: image_ok_def im_def j_def split: option.splits)
  let ?s = "boot_state now disk j"
  have s: "cd_configuration ?s = im_configuration j" "image_of ?s = j" "cd_disk ?s = disk"
    "cd_degraded_ports ?s = {}" "cd_bus ?s = fresh_bus"
    by (simp_all add: boot_state_def image_of_def)
  have cong: "im\<lparr>im_configuration := im_configuration im\<rparr> = im" by simp
  obtain r t where run: "restore_hardware (im_configuration j) ?s = (r, t)" by (metis surj_pair)
  from wp_resultD [OF wp_restore_hardware [OF jv(1)] run] s(5) fresh_bus_quiet
  have r: "r = Inr ()" and k: "keeps (set EPLS) ?s t" and hw: "cd_hardware t = im_configuration j"
    and dg: "cd_degraded_ports t = {}" and lanes: "\<forall>epl \<in> set EPLS. lanes_of (cd_bus t) epl = enabled_lanes (im_configuration j) epl"
    using s(4) by (auto split: sum.splits)
  let ?u = "t\<lparr>cd_disk := image_of t # cd_disk t\<rparr>"
  have it: "image_of t = j" "cd_disk t = disk" using k s(2,3) by (simp_all add: keeps_def)
  have bytes: "sim_bytes (cd_bus t)"
    using k s(5) fresh_bus_quiet by (simp add: keeps_def quiet_bus_def sim_live_def)
  have same: "image_of ?u = j" using it(1) by (simp add: image_of_def)
  have jt: "cd_configuration t = im_configuration j" "cd_pending t = None" "cd_revision t = im_revision j"
    using it(1) jv(2) by (auto simp: image_of_def)
  have "configd_ok ?u"
    using bytes lanes jt it same assms(2) jv
    by (auto simp: configd_ok_def lanes_follow_def image_ok_def)
  moreover have "restart now disk = Inr ?u"
  proof -
    have "restart now disk = (case then_action (restore_hardware (im_configuration j)) persist ?s of
                  (Inl e, _) \<Rightarrow> Inl e | (Inr _, s') \<Rightarrow> Inr s')"
      using v assms(1)
      by (auto simp: restart_def Let_def im_def [symmetric] valid_configuration_def j_def image_ok_def boot_state_def
          split: option.splits)
    with run r show ?thesis by (simp add: monad_simps persist_def)
  qed
  ultimately show ?thesis
    using jt it same hw dg by (auto simp: j_def split: option.splits)
qed

lemma restart_evolves:
  assumes "image_ok (stored_image disk)" and "\<forall>im \<in> set disk. image_ok im" and "restart now disk = Inr s"
    and "evolves i (stored_image disk)"
  shows "configd_ok s \<and> evolves i (image_of s)"
proof -
  from restart_run [OF assms(1,2), of now] assms(3) have s: "configd_ok s"
    "case im_pending (stored_image disk) of None \<Rightarrow> image_of s = stored_image disk
       | Some p \<Rightarrow> cd_configuration s = pd_before p \<and> cd_revision s = im_revision (stored_image disk) + 1" by auto
  then have "evolves (stored_image disk) (image_of s)"
  proof (cases "im_pending (stored_image disk)")
    case None
    with s(2) show ?thesis by (simp del: image_of_simps)
  qed (simp add: evolves_def)
  with s assms(4) evolves_trans show ?thesis by blast
qed

subsection \<open>Every operation and every move\<close>

lemma wp_after_tick:
  assumes "configd_ok s" and "\<And>m. stepped s m \<Longrightarrow> configd_ok m \<Longrightarrow> wp body (\<lambda>_. stepped m) (\<lambda>_. stepped m) m"
  shows "wp (then_action (tick now) body) (\<lambda>_. stepped s) (\<lambda>_. stepped s) s"
  unfolding wp_then
proof (rule wp_mono [OF wp_tick [OF assms(1)]])
  fix m assume "ticked now s m \<and> settled now m"
  then have m: "stepped s m" using ticked_stepped [OF _ assms(1)] by blast
  then have ok: "configd_ok m" by (simp add: stepped_def)
  show "wp body (\<lambda>_. stepped s) (\<lambda>_. stepped s) m"
    by (rule wp_mono [OF assms(2) [OF m ok]]) (use stepped_trans [OF m] in blast)+
qed (use ticked_stepped [OF _ assms(1)] uncommitted_stepped in blast)

lemma wp_forget: "wp (forget m) Q E = wp m (\<lambda>_. Q ()) E"
  by (simp add: forget_def wp_simps)

text \<open>Attributes that are neither stored nor part of the hardware may change freely.\<close>

lemma unstored_stepped:
  assumes "configd_ok s" and "image_of t = image_of s" and "cd_disk t = cd_disk s" and "cd_bus t = cd_bus s"
    and "cd_degraded_ports t = cd_degraded_ports s"
  shows "stepped s t"
  using assms(1,3-5) image_of_eqD [OF assms(2)] unfolding stepped_def configd_ok_def lanes_follow_def assms(2) by simp

lemma perform_stepped:
  assumes "configd_ok s" and "operation_ok op"
  shows "wp (perform now op) (\<lambda>_. stepped s) (\<lambda>_. stepped s) s"
proof (cases op)
  case OpSnapshot
  then show ?thesis
    using wp_after_tick [OF assms(1), of "with_state (\<lambda>s. ret (view s))" now]
    by (simp add: wp_forget snapshot_def wp_simps stepped_refl)
next
  case (OpApply c expected job timeout)
  then show ?thesis
    using apply_stepped [OF assms(1)] assms(2) by (simp add: wp_forget operation_ok_def)
next
  case (OpConfirm job)
  have "stepped s t" if "still s m" "confirmed m p u" "still u t" for m u t p
  proof -
    have "stepped s m" using still_stepped that(1) assms(1) by blast
    moreover have "stepped m u" using confirmed_stepped that(2) by blast
    moreover from this have "stepped u t" using still_stepped that(3) by (simp add: stepped_def)
    ultimately show ?thesis using stepped_trans by blast
  qed
  then show ?thesis
    unfolding OpConfirm perform.simps wp_forget
    by (intro wp_mono [OF wp_confirm [OF assms(1)]])
      (use ticked_stepped [OF _ assms(1)] uncommitted_stepped in blast)+
next
  case (OpRollback job)
  have "stepped s t" if "rolled_back s p m" "still m t" for p m t
    using that rolled_back_stepped still_stepped stepped_trans by (metis stepped_def)
  then show ?thesis
    unfolding OpRollback perform.simps wp_forget
    by (intro wp_mono [OF wp_rollback [OF assms(1)]]) (use uncommitted_stepped in blast)+
next
  case (OpManual pwm seconds)
  show ?thesis
    unfolding OpManual perform.simps wp_forget manual_def
    by (rule wp_after_tick [OF assms(1)])
      (auto simp: wp_simps Let_def intro: unstored_stepped)
next
  case OpSensors
  show ?thesis
    unfolding OpSensors perform.simps wp_forget sensors_def
    by (rule wp_after_tick [OF assms(1)])
      (auto simp: wp_simps Let_def stepped_refl intro: unstored_stepped split: prod.splits)
next
  case OpPorts
  show ?thesis
    unfolding OpPorts perform.simps wp_forget ports_def
    by (rule wp_after_tick [OF assms(1)]) (simp add: wp_simps stepped_refl)
next
  case OpOptics
  have "wp optics (\<lambda>_. still s) (\<lambda>_. still s) s"
    unfolding optics_def by (rule wp_read_masks) (use configd_okD(3) [OF assms(1)] in \<open>auto simp: still_def\<close>)
  then show ?thesis
    unfolding OpOptics perform.simps wp_forget
    by (rule wp_mono) (use still_stepped assms(1) in blast)+
next
  case OpClearFdb
  show ?thesis
    unfolding OpClearFdb perform.simps clear_fdb_def
    by (rule wp_step) (use still_stepped [OF _ assms(1)] in \<open>auto simp: still_def\<close>)
qed

lemma inject_ok:
  assumes "configd_ok s"
  shows "configd_ok (inject f s)" and "image_of (inject f s) = image_of s"
  using assms
  by (simp_all add: configd_ok_def inject_def image_of_def lanes_follow_def lanes_of_def tx_mask_of_def sim_bytes_def)

lemma moves_ok:
  assumes "configd_ok s" and "moves s s'"
  shows "configd_ok s' \<and> evolves (image_of s) (image_of s')"
  using assms(2)
proof (cases rule: moves.cases)
  case (moves_operation op now r)
  with wp_resultD [OF perform_stepped [OF assms(1)]] show ?thesis
    by (fastforce simp: stepped_def split: sum.splits)
next
  case (moves_crash op now r t k later)
  from wp_resultD [OF perform_stepped [OF assms(1) moves_crash(1)] moves_crash(2)]
  have "stepped s t" by (auto split: sum.splits)
  then obtain w where w: "configd_ok t" "cd_disk t = w @ cd_disk s" "\<forall>im \<in> set w. evolves (image_of s) im"
    by (auto simp: stepped_def)
  from assms(1) obtain rest where rest: "cd_disk s = image_of s # rest" by (auto simp: configd_ok_def)
  have k: "k \<le> length w" using moves_crash(3) w(2) by simp
  have sub: "set (drop k (cd_disk t)) \<subseteq> set (cd_disk t)" by (rule set_drop_subset)
  then have ok: "\<forall>im \<in> set (drop k (cd_disk t)). image_ok im" using configd_okD(5) [OF w(1)] by blast
  have ne: "drop k (cd_disk t) \<noteq> []" using k w(2) rest by simp
  then have st: "stored_image (drop k (cd_disk t)) = cd_disk t ! k"
    by (simp add: stored_image_def hd_drop_conv_nth split: list.splits) (metis hd_drop_conv_nth list.sel(1) drop_eq_Nil not_le list.simps(3))
  have "evolves (image_of s) (cd_disk t ! k)"
    using k w(2,3) rest by (cases "k < length w") (auto simp: nth_append)
  moreover have "image_ok (cd_disk t ! k)"
    using ok ne st by (metis stored_image_def list.case_eq_if list.set_sel(1) list.case(2) list.exhaust_sel)
  ultimately show ?thesis using restart_evolves [OF _ ok moves_crash(4)] st by simp
next
  case (moves_fault f)
  with inject_ok [OF assms(1)] show ?thesis by simp
qed

lemma reachable_ok: "reachable s \<Longrightarrow> configd_ok s"
proof (induction rule: reachable.induct)
  case (reachable_boot now s)
  have "image_ok (stored_image [])"
    using default_valid by (simp add: image_ok_def stored_image_def empty_image_def)
  from restart_run [OF this, of now] reachable_boot show ?case by auto
qed (use moves_ok in blast)

end
