(* ===== verification/Configd_Liveness.thy ===== *)
theory Configd_Liveness
  imports Configd_Safety
begin

text \<open>
  Without injected faults the authority makes progress: every hardware step succeeds on a bus that
  loses no write, so a commit of a valid configuration at the current revision is accepted.
\<close>

subsection \<open>Without faults\<close>

definition healthy :: "configd \<Rightarrow> bool" where
  "healthy s \<longleftrightarrow> quiet_bus (cd_bus s) \<and> cd_failure s = None"

lemma quiet_fan_bus:
  assumes "quiet_bus b" and "first_failure (fan_curve_checks curve) = None"
    and "apply_fan_curve sim_ops curve b = (res, b')"
  shows "quiet_bus b' \<and> res = Inr ()"
proof -
  have f: "sim_bytes b" "\<not> sim_unavailable b" "\<And>k. sim_drop_writes b k = 0"
    using assms(1) by (auto simp: quiet_bus_def sim_live_def)
  from sim_apply_fan_curve [OF f(1) assms(2,3)] f(2,3) show ?thesis
    by (auto simp: fan_outcome_def quiet_bus_def sim_live_def)
qed

lemma healthy_step: "healthy s \<Longrightarrow> wp (step now name epl) (\<lambda>_ t. healthy t \<and> cd_hardware t = cd_hardware s) (\<lambda>_ _. False) s"
  by (simp add: step_def trace_step_def wp_simps healthy_def)

lemma healthy_set_lanes:
  assumes "healthy s" and "epl \<in> set EPLS" and "enabled AND NOT (group_lane_mask epl) = 0"
  shows "wp (set_lanes epl enabled) (\<lambda>_. healthy) (\<lambda>_ _. False) s"
proof -
  obtain res b' where run: "update_tx_mask sim_ops (ph_mpo (physical_of epl)) (group_lane_mask epl) enabled
      default_retries (cd_bus s) = (res, b')" by (metis surj_pair)
  have "0 < default_retries" by (simp add: default_retries_def)
  with quiet_update [OF _ lane_mask_props [OF assms(2)] assms(3) _ run] assms(1)
  obtain v where "quiet_bus b'" "res = Inr v" by (auto simp: healthy_def)
  with assms(1) show ?thesis by (simp add: set_lanes_def on_bus_def wp_def monad_simps run healthy_def)
qed

lemma healthy_fan:
  assumes "healthy s" and "first_failure (fan_curve_checks curve) = None"
  shows "wp (on_bus (apply_fan_curve sim_ops curve)) (\<lambda>_. healthy) (\<lambda>_ _. False) s"
proof -
  obtain res b' where run: "apply_fan_curve sim_ops curve (cd_bus s) = (res, b')" by (metis surj_pair)
  with quiet_fan_bus [OF _ assms(2) run] assms(1) show ?thesis by (simp add: on_bus_def wp_def healthy_def)
qed

lemma healthy_apply_group:
  assumes "healthy s" and "valid_configuration target" and "epl \<in> set EPLS"
  shows "wp (apply_group now before target epl) (\<lambda>_. healthy) (\<lambda>_ _. False) s"
proof -
  obtain g where g: "first_group target epl = Some g" using valid_first_group [OF assms(2,3)] .
  have within: "group_enabled_mask target g AND NOT (group_lane_mask epl) = 0"
    using group_enabled_within [of g target] first_group_epl [OF g] assms(3) by simp
  have st: "wp (step now name (Some epl)) (\<lambda>_. healthy) (\<lambda>_ _. False) t" if "healthy t" for t name
    by (rule wp_mono [OF healthy_step [OF that]]) auto
  have mode: "wp (if epl \<in> set (changed_groups before target)
            then then_action (step now ''set_ethernet_mode'' (Some epl)) (bump_epochs epl) else ret ())
      (\<lambda>_. healthy) (\<lambda>_ _. False) t" if "healthy t" for t
    using that by (auto simp: wp_simps bump_epochs_def healthy_def intro!: wp_mono [OF st])
  have dark: "wp (set_lanes epl 0) (\<lambda>_. healthy) (\<lambda>_ _. False) t" if "healthy t" for t
    by (rule healthy_set_lanes [OF that assms(3)]) simp
  have light: "wp (set_lanes epl (group_enabled_mask target g)) (\<lambda>_. healthy) (\<lambda>_ _. False) t" if "healthy t" for t
    by (rule healthy_set_lanes [OF that assms(3) within])
  show ?thesis
    unfolding apply_group_def g option.case wp_then
    by (rule wp_mono [OF st], rule assms(1), rule wp_mono [OF st], assumption, rule wp_mono [OF dark], assumption,
        rule wp_mono [OF mode], assumption, rule wp_mono [OF st], assumption, rule wp_mono [OF light], assumption,
        rule wp_mono [OF st], assumption, rule st, assumption)
      simp_all
qed

lemma healthy_apply_hardware:
  assumes "healthy s" and "valid_configuration target"
  shows "wp (apply_hardware now before target) (\<lambda>_. healthy) (\<lambda>_ _. False) s"
proof -
  let ?A = "affected_groups before target"
  note epls = affected_epls [OF assms(2), of before]
  have conn: "set (affected_connectors ?A) \<subseteq> {1, 2}"
    using epls(1) lane_mask_props(1) by (auto simp: affected_connectors_def)
  have masks: "wp (read_masks mpos) (\<lambda>_. healthy) (\<lambda>_ _. False) t" if "healthy t" "set mpos \<subseteq> {1, 2}" for mpos t
    using that
  proof (induction mpos arbitrary: t)
    case (Cons m mpos)
    obtain res b' where run: "read_tx_mask sim_ops m (cd_bus t) = (res, b')" by (metis surj_pair)
    have live: "sim_live (cd_bus t)" using Cons.prems(1) by (simp add: healthy_def quiet_bus_def)
    have m: "m \<in> {1, 2}" using Cons.prems(2) by simp
    obtain v where b': "res = Inr v" "sim_live b'" "sim_drop_writes b' = sim_drop_writes (cd_bus t)"
      using sim.read_tx_mask_run [OF live m] run by (metis Pair_inject)
    then have "healthy (t\<lparr>cd_bus := b'\<rparr>)" using Cons.prems(1) by (simp add: healthy_def quiet_bus_def)
    from Cons.IH [OF this] Cons.prems(2)
    have "wp (read_masks mpos) (\<lambda>_. healthy) (\<lambda>_ _. False) (t\<lparr>cd_bus := b'\<rparr>)" by simp
    moreover have "wp (on_bus (read_tx_mask sim_ops m)) Q E t = Q v (t\<lparr>cd_bus := b'\<rparr>)" for Q E
      by (simp add: wp_def on_bus_def run b'(1))
    ultimately show ?case by (simp add: wp_simps)
  qed (simp add: wp_simps)
  have groups: "wp (for_each (apply_group now before target) ?A) (\<lambda>_. healthy) (\<lambda>_ _. False) t" if "healthy t" for t
  proof (rule wp_for_each [where I = "\<lambda>_. healthy"])
    fix ys x zs u assume "?A = ys @ x # zs" and u: "healthy u"
    then have "x \<in> set ?A" by simp
    with epls(1) have "x \<in> set EPLS" by blast
    from healthy_apply_group [OF u assms(2) this]
    show "wp (apply_group now before target x) (\<lambda>_. healthy) (\<lambda>_ _. False) u" .
  qed (rule that)
  have fan: "wp (apply_fan now before target) (\<lambda>_. healthy) (\<lambda>_ _. False) t" if "healthy t" for t
  proof -
    have *: "wp (on_bus (apply_fan_curve sim_ops (sc_fan target))) (\<lambda>_. wp clear_manual (\<lambda>_. healthy) (\<lambda>_ _. False)) (\<lambda>_ _. False) u"
      if "healthy u" for u
      by (rule wp_mono [OF healthy_fan [OF that valid_fan [OF assms(2)]]]) (simp_all add: clear_manual_def wp_simps healthy_def)
    show ?thesis
      using that by (auto simp: apply_fan_def wp_simps intro!: wp_mono [OF healthy_step] *)
  qed
  have finish: "wp (finish_apply now target ?A) (\<lambda>_. healthy) (\<lambda>_ _. False) t" if "healthy t" for t
  proof -
    have last: "wp (step now ''readback'' None) (\<lambda>_. wp (with_state (\<lambda>s. if cd_hardware s \<noteq> target then raise_error ReadbackDiffers
       else modify_state (\<lambda>s. s\<lparr>cd_degraded_ports := cd_degraded_ports s - set (concat (map ports_of_epl ?A))\<rparr>)))
       (\<lambda>_. healthy) (\<lambda>_ _. False)) (\<lambda>_ _. False) (u\<lparr>cd_hardware := target\<rparr>)" if "healthy u" for u
    proof -
      have "healthy (u\<lparr>cd_hardware := target\<rparr>)" using that by (simp add: healthy_def)
      from healthy_step [OF this] show ?thesis by (rule wp_mono) (auto simp: wp_simps healthy_def)
    qed
    show ?thesis
      unfolding finish_apply_def set_hardware_def wp_then wp_modify
      by (rule wp_mono [OF healthy_step [OF that]]) (use last in auto)
  qed
  have fwd: "wp (catch_action (then_action (for_each (apply_group now before target) ?A)
      (then_action (apply_fan now before target) (finish_apply now target ?A))) h) (\<lambda>_. healthy) (\<lambda>_ _. False) t"
    if "healthy t" for t h
    unfolding wp_catch wp_then
    by (rule wp_mono [OF groups [OF that]], rule wp_mono [OF fan], assumption, rule wp_mono [OF finish]) auto
  show ?thesis
    unfolding apply_hardware_def Let_def wp_bind
    by (rule wp_mono [OF masks [OF assms(1) conn]]) (use fwd in auto)
qed

lemma fault_free_commit:
  assumes "configd_ok s" and "healthy s" and "cd_pending s = None" and "settled now s" and "valid_configuration c"
    and "0 < timeout"
  shows "wp (apply_configuration now c (cd_revision s) job timeout) (\<lambda>v t. v = view t \<and> healthy t) (\<lambda>_ _. False) s"
    (is "wp ?m ?Q ?E s")
proof -
  have nd: "\<not> due now s" by (rule no_pending_not_due [OF assms(3)])
  let ?A = "set (affected_groups (cd_configuration s) c)"
  let ?p = "request now s job timeout Applying"
  define m1 where "m1 = s\<lparr>cd_pending := Some ?p, cd_disk := image_of (s\<lparr>cd_pending := Some ?p\<rparr>) # cd_disk s\<rparr>"
  have start: "wp (tick now) (\<lambda>_. X) E s = X s" for X E
    by (simp add: wp_def settled_tick [OF assms(4) nd])
  have m1: "healthy m1" "sim_bytes (cd_bus m1)" "settled now m1"
    using assms(2,4) configd_okD(3) [OF assms(1)] by (simp_all add: m1_def healthy_def settled_def)
  have hw: "wp (apply_hardware now (cd_configuration s) c) (\<lambda>_ t. hw_applied ?A c m1 t \<and> healthy t) (\<lambda>_ _. False) m1"
    by (rule wp_mono [OF wp_conj [OF wp_apply_hardware [OF configd_okD(1) [OF assms(1)] assms(5) m1(2)]
          healthy_apply_hardware [OF m1(1) assms(5)]]]) auto
  let ?tail = "then_action (modify_state (\<lambda>s. s\<lparr>cd_configuration := c, cd_revision := cd_revision s + 1,
             cd_pending := Some (?p\<lparr>pd_phase := AwaitingConfirmation\<rparr>)\<rparr>)) (then_action persist (snapshot now))"
  have tail: "wp ?tail ?Q ?E t" if t: "hw_applied ?A c m1 t \<and> healthy t" for t
  proof -
    have "keeps ?A m1 t" using t by (simp add: hw_applied_def)
    from keeps_settled [OF this m1(3)] have st: "settled now t" .
    define u where "u = t\<lparr>cd_configuration := c, cd_revision := cd_revision t + 1,
        cd_pending := Some (?p\<lparr>pd_phase := AwaitingConfirmation\<rparr>)\<rparr>"
    define w where "w = u\<lparr>cd_disk := image_of u # cd_disk u\<rparr>"
    have "settled now w" "\<not> due now w"
      using st assms(6) by (simp_all add: w_def u_def settled_def due_def request_def)
    then have "tick now w = (Inr (), w)" by (rule settled_tick)
    then have "wp (snapshot now) ?Q ?E w"
      using t by (simp add: snapshot_def wp_simps) (simp add: wp_def w_def u_def healthy_def)
    then show ?thesis by (simp add: wp_simps persist_def w_def u_def)
  qed
  have pend: "\<lparr>pd_job = job, pd_before = cd_configuration s, pd_phase = Applying, pd_deadline = now + 1000 * timeout\<rparr> = ?p"
    by (simp add: request_def)
  have "wp (catch_action (apply_hardware now (cd_configuration s) c)
             (\<lambda>e. then_action (set_pending None) (then_action persist (raise_error e)))) (\<lambda>_. wp ?tail ?Q ?E) ?E m1"
    unfolding wp_catch by (rule wp_mono [OF hw]) (use tail in auto)
  moreover have "wp (set_pending (Some ?p)) (\<lambda>_. wp persist (\<lambda>_. X) E) E s = X m1" for X and E :: "hw_error \<Rightarrow> configd \<Rightarrow> bool"
    by (simp add: set_pending_def persist_def wp_simps m1_def)
  ultimately show ?thesis
    unfolding apply_configuration_def wp_then [of "tick _"] start wp_with_state Let_def pend
    using assms(3) by (simp add: wp_then [of "set_pending _"] wp_then [of persist "then_action (catch_action _ _) _"]
        wp_then [of "catch_action _ _"])
qed

lemma healthy_expire_manual:
  assumes "healthy s" and "valid_configuration (cd_configuration s)"
  shows "wp (expire_manual now) (\<lambda>_. healthy) (\<lambda>_ _. False) s"
proof (cases "settled now s")
  case True
  with assms(1) show ?thesis by (simp add: wp_def settled_expire)
next
  case False
  have "wp (on_bus (apply_fan_curve sim_ops (sc_fan (cd_configuration s))))
      (\<lambda>_. wp clear_manual (\<lambda>_. healthy) (\<lambda>_ _. False)) (\<lambda>_ _. False) s"
    by (rule wp_mono [OF healthy_fan [OF assms(1) valid_fan [OF assms(2)]]])
      (auto simp: clear_manual_def wp_simps healthy_def)
  with False show ?thesis by (auto simp: expire_manual_def wp_simps settled_def)
qed

lemma healthy_rollback_core:
  assumes "configd_ok s" and "healthy s" and "cd_pending s = Some p"
  shows "wp (rollback_core now (pd_job p)) (\<lambda>_. healthy) (\<lambda>_ _. False) s"
proof -
  have before: "valid_configuration (pd_before p)" by (rule configd_okD(2) [OF assms(1,3)])
  then have load: "load_configuration (pd_before p) = ret (pd_before p)"
    by (simp add: load_configuration_def valid_configuration_def)
  show ?thesis
    by (simp add: rollback_core_def wp_simps assms(3) load)
      (rule wp_mono [OF healthy_apply_hardware [OF assms(2) before]], simp_all add: wp_simps persist_def healthy_def)
qed

lemma healthy_tick:
  assumes "configd_ok s" and "healthy s"
  shows "wp (tick now) (\<lambda>_. healthy) (\<lambda>_ _. False) s"
proof -
  let ?I = "\<lambda>t. healthy t \<and> valid_configuration (cd_configuration t)"
  have expire: "wp (expire_manual now) (\<lambda>_. ?I) (\<lambda>_ _. False) t" if "?I t" "configd_ok t" for t
    by (rule wp_mono [OF wp_conj [OF healthy_expire_manual wp_expire_manual [OF that(2)]]])
      (use that stillD(4) in auto)
  have stays: "wp (expire_manual now) (\<lambda>_ t. ?I t \<and> configd_ok t) (\<lambda>_ _. False) t" if "?I t" "configd_ok t" for t
    by (rule wp_mono [OF wp_conj [OF expire [OF that] wp_expire_manual [OF that(2)]]])
      (use still_ok that(2) in auto)
  have twice: "wp (expire_manual now) (\<lambda>_. wp (expire_manual now) (\<lambda>_. healthy) (\<lambda>_ _. False)) (\<lambda>_ _. False) t"
    if "?I t" "configd_ok t" for t
    by (rule wp_mono [OF stays [OF that]]) (use healthy_expire_manual in auto)
  show ?thesis
  proof (cases "due now s")
    case False
    with healthy_expire_manual [OF assms(2) configd_okD(1) [OF assms(1)]] show ?thesis
      by (simp add: tick_def wp_simps)
  next
    case True
    then obtain p where p: "cd_pending s = Some p" by (auto simp: due_def split: option.splits)
    have roll: "wp (rollback_core now (pd_job p)) (\<lambda>_ t. ?I t \<and> configd_ok t) (\<lambda>_ _. False) s"
      by (rule wp_mono [OF wp_conj [OF healthy_rollback_core [OF assms p] wp_rollback_core [OF assms(1)]]])
        (auto simp: rolled_back_def dest: configd_okD(1))
    have "wp (rollback_core now (pd_job p))
        (\<lambda>_. wp (expire_manual now) (\<lambda>_. wp (expire_manual now) (\<lambda>_. healthy) (\<lambda>_ _. False)) (\<lambda>_ _. False))
        (\<lambda>_ _. False) s"
      by (rule wp_mono [OF roll]) (use twice in auto)
    with True p show ?thesis by (simp add: tick_def wp_simps pending_job_def)
  qed
qed

lemma healthy_restore:
  assumes "healthy s" and "valid_configuration c"
  shows "wp (restore_hardware c) (\<lambda>_. healthy) (\<lambda>_ _. False) s"
proof -
  have loop: "wp (for_each (\<lambda>g. set_lanes (pg_epl g) (group_enabled_mask c g)) (sc_groups c)) (\<lambda>_. healthy) (\<lambda>_ _. False) s"
  proof (rule wp_for_each [where I = "\<lambda>_. healthy"])
    fix ys g zs u assume "sc_groups c = ys @ g # zs" and u: "healthy u"
    then have g: "pg_epl g \<in> set EPLS" using accepted_groups(2) [OF valid_accepted [OF assms(2)]] by simp
    show "wp (set_lanes (pg_epl g) (group_enabled_mask c g)) (\<lambda>_. healthy) (\<lambda>_ _. False) u"
      by (rule healthy_set_lanes [OF u g group_enabled_within [OF g]])
  qed (rule assms(1))
  show ?thesis
    unfolding restore_hardware_def wp_then
    by (rule wp_mono [OF loop], rule wp_mono [OF healthy_fan [OF _ valid_fan [OF assms(2)]]])
      (simp_all add: set_hardware_def wp_simps healthy_def)
qed

lemma valid_result:
  assumes "validate_configuration c = Inr v"
  shows "valid_configuration v"
proof -
  from validate_accepted [OF assms] have "normalise v = v" by simp
  with validate_accepted(1,2) [OF assms] show ?thesis by (simp add: validate_Inr valid_configuration_def)
qed

lemma restart_healthy:
  assumes "restart now disk = Inr s"
  shows "healthy s" and "settled t s"
proof -
  have cfg: "cd_configuration (boot_state n d im) = im_configuration im" for n d im by (simp add: boot_state_def)
  from assms obtain c im where c: "valid_configuration c"
    and run: "then_action (restore_hardware c) persist (boot_state now disk im) = (Inr (), s)"
    by (auto simp: restart_def Let_def cfg split: sum.splits option.splits prod.splits
        dest: valid_result)
  let ?b = "boot_state now disk im"
  have b: "healthy ?b" "settled t ?b" "quiet_bus (cd_bus ?b)"
    using fresh_bus_quiet by (simp_all add: boot_state_def healthy_def settled_def)
  obtain r u where u: "restore_hardware c ?b = (r, u)" by (metis surj_pair)
  from wp_resultD [OF wp_conj [OF healthy_restore [OF b(1) c] wp_restore_hardware [OF c b(3)]] u]
  have "healthy u" "keeps (set EPLS) ?b u" "r = Inr ()" by (auto split: sum.splits)
  moreover from this run u have "s = u\<lparr>cd_disk := image_of u # cd_disk u\<rparr>" by (simp add: monad_simps persist_def)
  moreover note keeps_settled [OF \<open>keeps (set EPLS) ?b u\<close> b(2)]
  ultimately show "healthy s" "settled t s" by (simp_all add: healthy_def settled_def)
qed

lemma boot_run:
  obtains s where "restart now [] = Inr s" and "reachable s" and "configd_ok s" and "healthy s" and "\<And>t. settled t s"
    and "image_of s = empty_image" and "cd_degraded_ports s = {}"
proof -
  have "image_ok (stored_image [])"
    using default_valid by (simp add: image_ok_def stored_image_def empty_image_def)
  from restart_run [OF this, of now] obtain s where s: "restart now [] = Inr s" "configd_ok s" "image_of s = empty_image"
    "cd_degraded_ports s = {}"
    by (auto simp: stored_image_def empty_image_def)
  with restart_healthy [OF s(1)] reachable_boot [OF s(1)] that show thesis by blast
qed

lemma boot_default:
  obtains s where "restart now [] = Inr s" and "reachable s" and "configd_ok s" and "healthy s" and "\<And>t. settled t s"
    and "cd_configuration s = default_configuration" and "cd_revision s = 1" and "cd_pending s = None"
    and "cd_degraded_ports s = {}"
proof (rule boot_run)
  fix s assume "restart now [] = Inr s" "reachable s" "configd_ok s" "healthy s" "\<And>t. settled t s"
    "image_of s = empty_image" "cd_degraded_ports s = {}"
  then show thesis by (intro that) (auto simp: image_of_def empty_image_def)
qed

end
