(* ===== verification/Configd_Properties.thy ===== *)
theory Configd_Properties
  imports Configd_Liveness Config_Properties
begin

text \<open>
  The properties of the board algorithms on the simulated bus and of the simulated authority, each
  with a witness at a concrete bus, configuration or run.
\<close>

subsection \<open>Board algorithms\<close>

text \<open>On a bus that answers, a transmit-mask update restores the selected branch, writes no
  register but the two mask bytes, never changes a lane outside the group, and succeeds with
  exactly the requested lanes whenever the module loses fewer than twelve writes of each byte.\<close>

theorem transmit_mask_update:
  assumes "sim_live b" and "mpo \<in> {1, 2}" and "lane AND NOT 0xFFF = 0" and "enabled AND NOT lane = 0"
    and "update_tx_mask sim_ops mpo lane enabled default_retries b = (res, b')"
  shows "sim_mux b' = sim_mux b
    \<and> (\<forall>k. k \<noteq> (branch_of mpo, 0x50, 56) \<and> k \<noteq> (branch_of mpo, 0x50, 57) \<longrightarrow> sim_registers b' k = sim_registers b k)
    \<and> tx_mask_of b' mpo AND NOT lane = tx_mask_of b mpo AND NOT lane
    \<and> (\<forall>v. res = Inr v \<longrightarrow> v = (tx_mask_of b mpo AND NOT lane) OR enabled \<and> tx_mask_of b' mpo = v)
    \<and> (sim_drop_writes b (branch_of mpo, 0x50, 56) < 12 \<and> sim_drop_writes b (branch_of mpo, 0x50, 57) < 12 \<longrightarrow>
         res = Inr ((tx_mask_of b mpo AND NOT lane) OR enabled))"
proof -
  from sim.update_tx_mask_run [OF assms(1-4), of default_retries] assms(5)
  have m: "sim_mux b' = sim_mux b" and out: "tx_outcome mpo lane enabled default_retries (sim_registers b)
      (sim_drop_writes b) res (sim_registers b') (sim_drop_writes b')" by (metis Pair_inject)+
  have "sim_bytes b" using assms(1) by (simp add: sim_live_def)
  from sim_update_tx_mask [OF this assms(2-5)]
  have u: "tx_mask_of b' mpo AND NOT lane = tx_mask_of b mpo AND NOT lane"
    "\<forall>v. res = Inr v \<longrightarrow> v = (tx_mask_of b mpo AND NOT lane) OR enabled \<and> tx_mask_of b' mpo = v"
    by (simp_all add: tx_update_def)
  have "\<exists>v. res = Inr v" if "sim_drop_writes b (branch_of mpo, 0x50, 56) < 12" "sim_drop_writes b (branch_of mpo, 0x50, 57) < 12"
    using out that by (auto simp: tx_outcome_def Let_def default_retries_def)
  with u(2) have "sim_drop_writes b (branch_of mpo, 0x50, 56) < 12 \<and> sim_drop_writes b (branch_of mpo, 0x50, 57) < 12 \<longrightarrow>
         res = Inr ((tx_mask_of b mpo AND NOT lane) OR enabled)" by metis
  moreover have "\<forall>k. k \<noteq> (branch_of mpo, 0x50, 56) \<and> k \<noteq> (branch_of mpo, 0x50, 57) \<longrightarrow> sim_registers b' k = sim_registers b k"
    using out by (simp add: tx_outcome_def Let_def)
  ultimately show ?thesis using m u by blast
qed

definition slow_module :: sim_bus where
  "slow_module = fresh_bus\<lparr>sim_drop_writes := (\<lambda>_. 3)\<rparr>"

theorem transmit_mask_update_witness:
  "fst (update_tx_mask sim_ops 2 0xF0 0x50 default_retries slow_module) = Inr 0x50"
proof -
  have "sim_live slow_module" "tx_mask_of slow_module 2 = 0" "sim_drop_writes slow_module k = 3" for k
    using fresh_bus_quiet by (simp_all add: slow_module_def quiet_bus_def sim_live_def sim_bytes_def
        tx_mask_of_def fresh_bus_def tx_mask_bytes_def)
  then show ?thesis
    using transmit_mask_update [of slow_module 2 "0xF0" "0x50",
        OF _ _ _ _ prod.collapse [symmetric]] by simp
qed

text \<open>For every accepted configuration the fan program writes bytes only, starts by entering
  direct mode at full PWM before it changes the LUT or the critical limit, and its twelve LUT points
  rise in temperature and in PWM, never below the idle speed, to full PWM at the critical
  temperature.\<close>

theorem fan_program_safe:
  assumes "validate_configuration c = Inr v"
  defines "p \<equiv> fan_register_program (sc_fan v)" and "points \<equiv> lut_points (sc_fan v)"
  shows "(\<forall>(r, x) \<in> set p. 0 \<le> x \<and> x < 256)
    \<and> take 5 p = [(0x30, 0x02), (0x4A, 0x30), (0x4B, 0x3F), (0x4D, 0x08), (0x4C, 0xFF)]
    \<and> distinct (map fst p) \<and> length points = 12
    \<and> sorted (map fst points) \<and> sorted (map snd points)
    \<and> (\<forall>(t, pwm) \<in> set points. fc_idle_speed_percent (sc_fan v) \<le> pwm \<and> pwm \<le> 100
         \<and> (fc_critical_temperature_c (sc_fan v) \<le> t \<longrightarrow> pwm = 100))"
proof -
  have ok: "first_failure (fan_curve_checks (sc_fan v)) = None"
    by (rule accepted_fields(5) [OF validate_accepted(1) [OF assms(1)]])
  note b = fan_checks_bounds [OF ok]
  have r: "lo \<le> ramp lo hi i \<and> ramp lo hi i \<le> hi" if "lo \<le> hi" "i \<in> {0, 1, 2, 3, 4, 5, 6, 7, 8}" for lo hi i
    by (rule ramp_bounds) (use that in auto)
  have "\<forall>(t, pwm) \<in> set points. fc_idle_speed_percent (sc_fan v) \<le> pwm \<and> pwm \<le> 100
         \<and> (fc_critical_temperature_c (sc_fan v) \<le> t \<longrightarrow> pwm = 100)"
  proof (clarify)
    fix t pwm assume "(t, pwm) \<in> set points"
    then consider "t = 0 \<and> pwm = fc_idle_speed_percent (sc_fan v)"
      | i where "i \<in> {0, 1, 2, 3, 4, 5, 6, 7, 8}"
          "t = ramp (fc_idle_temperature_c (sc_fan v)) (fc_load_temperature_c (sc_fan v)) i"
          "pwm = ramp (fc_idle_speed_percent (sc_fan v)) (fc_load_speed_percent (sc_fan v)) i"
      | "pwm = 100"
      by (auto simp: points_def lut_points_ramp)
    then show "fc_idle_speed_percent (sc_fan v) \<le> pwm \<and> pwm \<le> 100
         \<and> (fc_critical_temperature_c (sc_fan v) \<le> t \<longrightarrow> pwm = 100)"
    proof cases
      case 1
      with b show ?thesis by auto
    next
      case 2
      with r [OF _ 2(1), of "fc_idle_temperature_c (sc_fan v)" "fc_load_temperature_c (sc_fan v)"]
        r [OF b(6) 2(1)] b show ?thesis by auto
    next
      case 3
      with b show ?thesis by auto
    qed
  qed
  moreover have "take 5 p = [(0x30, 0x02), (0x4A, 0x30), (0x4B, 0x3F), (0x4D, 0x08), (0x4C, 0xFF)]"
    by (simp add: p_def fan_register_program_def)
  ultimately show ?thesis
    using fan_program_bytes [OF ok] fan_program_distinct lut_points_shape(1-3) [OF ok]
    by (simp add: p_def points_def is_byte_def)
qed

theorem fan_program_safe_witness:
  "sorted (map snd (lut_points (sc_fan sample_configuration)))"
  using fan_program_safe [OF sample_accepted] by blast

text \<open>C19: programming the fan of an accepted configuration leaves the transmit masks and the selected
  branch alone. When it returns, the bus answered, every register is programmed and the controller is
  in LUT mode. When it raises, either the bus did not answer and nothing was written, or the
  controller had lost at least one write; the fan is then in direct mode at full PWM, provided the
  controller loses no write of the mode and the PWM register. A write lost on those two registers is
  the one case in which the fallback cannot be promised.\<close>

theorem fan_failsafe:
  assumes "validate_configuration c = Inr v" and "sim_bytes b"
    and "apply_fan_curve sim_ops (sc_fan v) b = (res, b')"
  defines "reg \<equiv> \<lambda>r. sim_registers b' (0x08, 0x4C, r)" and "lost \<equiv> \<lambda>r. sim_drop_writes b (0x08, 0x4C, r)"
  shows "sim_mux b' = sim_mux b \<and> tx_mask_of b' 1 = tx_mask_of b 1 \<and> tx_mask_of b' 2 = tx_mask_of b 2
    \<and> (case res of
         Inr _ \<Rightarrow> \<not> sim_unavailable b \<and> reg 0x4A = 0x10
           \<and> (\<forall>(r, x) \<in> set (fan_register_program (sc_fan v)). r \<noteq> 0x4A \<longrightarrow> reg r = x)
       | Inl _ \<Rightarrow> sim_unavailable b \<and> sim_registers b' = sim_registers b
           \<or> \<not> sim_unavailable b \<and> (\<exists>r. 0 < lost r)
             \<and> (lost 0x4A = 0 \<and> lost 0x4C = 0 \<longrightarrow> reg 0x4A = 0x30 \<and> reg 0x4C = 0xFF))"
proof (cases "sim_unavailable b")
  case True
  with assms(3) show ?thesis by (auto simp: apply_fan_curve_def sim_unavailable_selected)
next
  case False
  have ok: "first_failure (fan_curve_checks (sc_fan v)) = None"
    by (rule accepted_fields(5) [OF validate_accepted(1) [OF assms(1)]])
  have "sim_live b" using assms(2) False by (simp add: sim_live_def)
  from sim.apply_fan_curve_run [OF this ok] assms(3)
  have "sim_mux b' = sim_mux b" and "fan_outcome (sc_fan v) (sim_registers b) (sim_drop_writes b) res
      (sim_registers b') (sim_drop_writes b')" by (metis Pair_inject)+
  moreover have "tx_mask_of b' mpo = tx_mask_of b mpo" for mpo
    using calculation(2) by (simp add: fan_outcome_def tx_mask_of_def)
  ultimately show ?thesis using False by (auto simp: fan_outcome_def reg_def lost_def split: sum.splits)
qed

theorem fan_failsafe_witness:
  "sim_registers (snd (apply_fan_curve sim_ops (sc_fan sample_configuration) fresh_bus)) (0x08, 0x4C, 0x4A) = 0x10"
proof -
  have live: "sim_bytes fresh_bus" "\<not> sim_unavailable fresh_bus" and none: "\<forall>k. sim_drop_writes fresh_bus k = 0"
    using fresh_bus_quiet unfolding quiet_bus_def sim_live_def by blast+
  from fan_failsafe [OF sample_accepted live(1) prod.collapse [symmetric]] live(2) none show ?thesis
    by (auto split: sum.splits)
qed

subsection \<open>The authority\<close>

text \<open>C1: in every state the authority can reach, by any sequence of operations, injected faults,
  lost writes and crashes, the transmitter lanes of each group are exactly those the active
  configuration enables, unless the four ports of the group are reported as degraded.\<close>

theorem laser_safety:
  assumes "reachable s" and "g \<in> set (sc_groups (cd_configuration s))"
  shows "tx_mask_of (cd_bus s) (ph_mpo (physical_of (pg_epl g))) AND group_lane_mask (pg_epl g)
      = group_enabled_mask (cd_configuration s) g
    \<or> set (ports_of_epl (pg_epl g)) \<subseteq> cd_degraded_ports s"
proof -
  have ok: "configd_ok s" by (rule reachable_ok [OF assms(1)])
  note v = configd_okD(1) [OF ok]
  have "pg_epl g \<in> set EPLS" using accepted_groups(2) [OF valid_accepted [OF v]] assms(2) by blast
  with configd_okD(4) [OF ok] have "lanes_of (cd_bus s) (pg_epl g) = enabled_lanes (cd_configuration s) (pg_epl g)
      \<or> set (ports_of_epl (pg_epl g)) \<subseteq> cd_degraded_ports s"
    by (simp add: lanes_follow_def)
  then show ?thesis
    by (simp add: lanes_of_def enabled_lanes_def first_group_unique [OF v assms(2)])
qed

theorem laser_safety_witness:
  "\<exists>s. restart 0 [] = Inr s \<and> tx_mask_of (cd_bus s) 1 AND group_lane_mask 0
     = group_enabled_mask default_configuration (default_group 0)"
proof (rule boot_default)
  fix s assume s: "restart 0 [] = Inr s" "reachable s" "cd_configuration s = default_configuration" "cd_degraded_ports s = {}"
  have "default_group 0 \<in> set (sc_groups (cd_configuration s))"
    by (simp add: s(3) default_configuration_def EPLS_def)
  from laser_safety [OF s(2) this] s show ?thesis
    by (auto simp: ports_of_epl_def default_group_def physical_of_eval)
qed

text \<open>C5: a revision number identifies one configuration. Along every operation and every crash
  the revision never decreases, and while it stays the same the active configuration does too, so a
  client that saw a revision cannot commit against other data.\<close>

theorem revision_identifies_configuration:
  assumes "reachable s" and "moves s s'"
  shows "cd_revision s \<le> cd_revision s'
    \<and> (cd_revision s' = cd_revision s \<longrightarrow> cd_configuration s' = cd_configuration s)"
  using moves_ok [OF reachable_ok [OF assms(1)] assms(2)] by (simp add: evolves_def)

theorem revision_identifies_configuration_witness:
  "\<exists>s. restart 0 [] = Inr s \<and> 1 \<le> cd_revision (snd (perform 0 (OpApply sample_configuration 1 ''job'' 60) s))"
proof (rule boot_default)
  fix s assume s: "restart 0 [] = Inr s" "reachable s" "cd_revision s = 1"
  let ?op = "OpApply sample_configuration 1 ''job'' 60"
  have "operation_ok ?op" by (simp add: operation_ok_def valid_configuration_def sample_accepted)
  from moves_operation [OF this prod.collapse [symmetric]] have "moves s (snd (perform 0 ?op s))" .
  from revision_identifies_configuration [OF s(2) this] s show ?thesis by auto
qed

text \<open>The stored image of a state file that a restart takes back to the configuration \<open>c\<close>.\<close>

definition falls_to :: "switch_configuration \<Rightarrow> image \<Rightarrow> bool" where
  "falls_to c im = (case im_pending im of None \<Rightarrow> im_configuration im = c | Some p \<Rightarrow> pd_before p = c)"

lemma applied_images:
  assumes m: "cd_configuration m = cd_configuration s" "cd_disk m = cd_disk s"
    and u: "applied now m c job timeout u" and v: "ticked now u v \<or> uncommitted u v"
  shows "\<exists>w. cd_disk v = w @ cd_disk s \<and> (\<forall>im \<in> set w. falls_to (cd_configuration s) im)"
proof -
  let ?ims = "[applied_image now m c job timeout, applying_image now m job timeout]"
  have ims: "\<forall>im \<in> set ?ims. falls_to (cd_configuration s) im"
    using m by (simp add: falls_to_def applying_image_def applied_image_def request_def)
  have du: "cd_disk u = ?ims @ cd_disk s" and iu: "image_of u = applied_image now m c job timeout"
    using u m by (simp_all add: applied_def)
  from v consider "cd_disk v = cd_disk u" | p n where "cd_pending u = Some p" "rolled_back u p n" "still n v"
    using stillD(1) by (auto simp: ticked_def uncommitted_def)
  then show ?thesis
  proof cases
    case 1
    with du ims show ?thesis by (intro exI [of _ ?ims]) simp
  next
    case 2
    then have "pd_before p = cd_configuration s"
      using iu image_of_simps(3) [of u] m by (auto simp: applied_image_def request_def)
    then have "falls_to (cd_configuration s) (image_of n)"
      using 2(2) by (simp add: falls_to_def rolled_back_def del: image_of_simps)
    moreover have "cd_disk v = (image_of n # ?ims) @ cd_disk s"
      using 2 du stillD(1) by (simp add: rolled_back_def)
    ultimately show ?thesis using ims by (intro exI [of _ "image_of n # ?ims"]) simp
  qed
qed

lemma apply_images:
  assumes ok: "configd_ok s" and "cd_pending s = None" and "valid_configuration c"
    and run: "apply_configuration now c expected job timeout s = (r, t)"
  shows "\<exists>w. cd_disk t = w @ cd_disk s \<and> (\<forall>im \<in> set w. falls_to (cd_configuration s) im)"
proof -
  have nd: "\<not> due now s" by (rule no_pending_not_due [OF assms(2)])
  have m: "cd_configuration m = cd_configuration s" "cd_disk m = cd_disk s" "cd_pending m = None"
    if "ticked now s m" for m
    using that nd stillD assms(2) by (auto simp: ticked_def)
  note after = applied_images [OF m(1,2)]
  from wp_resultD [OF wp_apply_configuration [OF ok assms(3)] run] nd
  consider "ticked now s t" | m e where "ticked now s m" "apply_failed now m c job timeout e t"
    | m u where "ticked now s m" "applied now m c job timeout u" "ticked now u t \<or> uncommitted u t"
    by (cases r) auto
  then show ?thesis
  proof cases
    case 1
    with m show ?thesis by simp
  next
    case (2 m e)
    with m [OF 2(1)] show ?thesis
      by (intro exI [of _ "[image_of m, applying_image now m job timeout]"])
        (simp add: apply_failed_def falls_to_def applying_image_def request_def)
  next
    case 3
    with after show ?thesis by blast
  qed
qed

lemma restart_falls_to:
  assumes "configd_ok t" and "cd_disk t = w @ im0 # rest" and "k \<le> length w"
    and "\<forall>im \<in> set w. falls_to c im" and "falls_to c im0"
  shows "\<exists>u. restart later (drop k (cd_disk t)) = Inr u \<and> cd_configuration u = c \<and> cd_hardware u = c
    \<and> cd_pending u = None"
proof -
  have imok: "\<forall>im \<in> set (drop k (cd_disk t)). image_ok im"
    using configd_okD(5) [OF assms(1)] by (auto dest: in_set_dropD)
  have ne: "drop k (cd_disk t) \<noteq> []" using assms(2,3) by simp
  then obtain im ims where im: "drop k (cd_disk t) = im # ims" by (cases "drop k (cd_disk t)") auto
  then have "im = cd_disk t ! k" using ne by (metis hd_drop_conv_nth list.sel(1) drop_eq_Nil not_le)
  then have falls: "falls_to c im"
    using assms(2-5) by (cases "k < length w") (auto simp: nth_append)
  have st: "stored_image (drop k (cd_disk t)) = im" by (simp add: stored_image_def im)
  have "image_ok im" using imok im by simp
  with restart_run [of "drop k (cd_disk t)", OF _ imok, of later] falls show ?thesis
    unfolding st falls_to_def by (auto split: option.splits dest: image_of_eqD)
qed

text \<open>C2: a crash at any moment of an apply restores the configuration that was active before it.
  Whatever prefix of the images written by the apply reached the state file, restarting from it
  succeeds, activates the earlier configuration with the hardware programmed to it, and leaves
  nothing pending.\<close>

theorem apply_crash_safe:
  assumes "reachable s" and "cd_pending s = None" and "valid_configuration c"
    and "apply_configuration now c expected job timeout s = (r, t)"
    and "k \<le> length (cd_disk t) - length (cd_disk s)"
  shows "\<exists>u. restart later (drop k (cd_disk t)) = Inr u \<and> cd_configuration u = cd_configuration s
    \<and> cd_hardware u = cd_configuration s \<and> cd_pending u = None"
proof -
  have ok: "configd_ok s" by (rule reachable_ok [OF assms(1)])
  obtain w where w: "cd_disk t = w @ cd_disk s" "\<forall>im \<in> set w. falls_to (cd_configuration s) im"
    using apply_images [OF ok assms(2,3,4)] by blast
  obtain rest where rest: "cd_disk s = image_of s # rest" using ok by (auto simp: configd_ok_def)
  from wp_resultD [OF apply_stepped [OF ok assms(3)] assms(4)] have "configd_ok t"
    by (auto simp: stepped_def split: sum.splits)
  from restart_falls_to [OF this, of w "image_of s" rest k] w rest assms(2,5) show ?thesis
    by (simp add: falls_to_def)
qed

theorem apply_crash_safe_witness:
  "\<exists>s u. restart 0 [] = Inr s
     \<and> restart 99 (cd_disk (snd (apply_configuration 0 sample_configuration 1 ''job'' 60 s))) = Inr u
     \<and> cd_configuration u = default_configuration"
proof (rule boot_default)
  fix s assume s: "restart 0 [] = Inr s" "reachable s" "cd_pending s = None" "cd_configuration s = default_configuration"
  have "valid_configuration sample_configuration" by (simp add: valid_configuration_def sample_accepted)
  from apply_crash_safe [OF s(2,3) this, of 0 1 "''job''" 60 _ _ 0 99, OF prod.collapse [symmetric]] s
  show ?thesis by auto
qed

lemma applied_waits:
  assumes "applied now m c job timeout u" and "0 < timeout"
  shows "\<not> due now u"
proof -
  have "cd_pending u = Some (request now m job timeout AwaitingConfirmation)"
    using assms(1) image_of_simps(3) [of u] by (simp add: applied_def applied_image_def del: image_of_simps)
  with assms(2) show ?thesis by (simp add: due_def request_def)
qed



text \<open>C10: on a healthy authority (no injected fault, no lost write, nothing pending, no manual test
  overdue) an apply of a valid configuration at the current revision is accepted: the commit makes
  progress.\<close>

theorem healthy_apply_succeeds:
  assumes "reachable s" and "healthy s" and "settled now s" and "cd_pending s = None"
    and "valid_configuration c" and "0 < timeout"
  shows "\<exists>t. apply_configuration now c (cd_revision s) job timeout s = (Inr (view t), t) \<and> healthy t
    \<and> cd_configuration t = c \<and> cd_hardware t = c"
proof -
  have ok: "configd_ok s" by (rule reachable_ok [OF assms(1)])
  obtain r t where run: "apply_configuration now c (cd_revision s) job timeout s = (r, t)" by (metis surj_pair)
  from wp_resultD [OF fault_free_commit [OF ok assms(2,4,3,5,6)] run] have r: "r = Inr (view t)" "healthy t"
    by (auto split: sum.splits)
  have nd: "\<not> due now s" by (rule no_pending_not_due [OF assms(4)])
  from wp_resultD [OF wp_apply_configuration [OF ok assms(5)] run] r(1) obtain m u where
    u: "applied now m c job timeout u" "ticked now u t" by auto
  have "\<not> due now u" using applied_waits [OF u(1) assms(6)] .
  then have ut: "still u t" using u(2) by (simp add: ticked_def)
  have "cd_configuration u = c" using u(1) image_of_simps(2) [of u] by (simp add: applied_def applied_image_def)
  with u(1) stillD [OF ut] have "cd_configuration t = c" "cd_hardware t = c" by (simp_all add: applied_def)
  with run r show ?thesis by blast
qed

theorem healthy_apply_succeeds_witness:
  "\<exists>s t. restart 0 [] = Inr s
     \<and> apply_configuration 0 sample_configuration 1 ''job'' 60 s = (Inr (view t), t)
     \<and> cd_hardware t = sample_configuration"
proof (rule boot_default)
  fix s assume s: "restart 0 [] = Inr s" "reachable s" "healthy s" "\<And>t. settled t s" "cd_pending s = None"
    "cd_revision s = 1"
  have "valid_configuration sample_configuration" by (simp add: valid_configuration_def sample_accepted)
  from healthy_apply_succeeds [OF s(2,3) s(4) s(5) this, of 60 0 "''job''"] s show ?thesis by auto
qed

text \<open>A first commit on a freshly started authority, for the witnesses below.\<close>

lemma boot_commit:
  obtains s m where "restart 0 [] = Inr s" and "snd (apply_configuration 0 sample_configuration 1 ''job'' 60 s) = m"
    and "reachable m" and "settled 0 m" and "cd_configuration m = sample_configuration"
    and "cd_configuration s = default_configuration" and "healthy m"
    and "cd_pending m = Some (request 0 s ''job'' 60 AwaitingConfirmation)"
proof (rule boot_default)
  fix s assume s: "restart 0 [] = Inr s" "reachable s" "configd_ok s" "healthy s" "\<And>t. settled t s"
    "cd_pending s = None" "cd_revision s = 1" "cd_configuration s = default_configuration"
  have v: "valid_configuration sample_configuration" by (simp add: valid_configuration_def sample_accepted)
  obtain r m where run: "apply_configuration 0 sample_configuration 1 ''job'' 60 s = (r, m)" by (metis surj_pair)
  have nd: "\<not> due 0 s" by (rule no_pending_not_due [OF s(6)])
  from fault_free_commit [OF s(3,4,6) s(5) v, of 60 0 "''job''"] run s(7) have r: "r = Inr (view m)" and hm: "healthy m"
    by (auto simp: wp_def split: sum.splits)
  from wp_resultD [OF wp_apply_configuration [OF s(3) v] run] r obtain n u where
    u: "ticked 0 s n" "applied 0 n sample_configuration ''job'' 60 u" "ticked 0 u m" by auto
  have um: "still u m" using u(3) applied_waits [OF u(2)] by (simp add: ticked_def)
  have sn: "still s n" using u(1) nd by (simp add: ticked_def)
  have pm: "cd_pending m = Some (request 0 s ''job'' 60 AwaitingConfirmation)"
    and cm: "cd_configuration m = sample_configuration"
    using u(2) stillD(3,4) [OF um] stillD(4) [OF sn] image_of_simps(2,3) [of u]
    by (simp_all add: applied_def applied_image_def request_def)
  have "perform 0 (OpApply sample_configuration 1 ''job'' 60) s = (Inr (), m)"
    using run r by (simp add: forget_def monad_simps)
  moreover have "operation_ok (OpApply sample_configuration 1 ''job'' 60)" by (simp add: operation_ok_def v)
  ultimately have "reachable m" using reachable_moves [OF s(2) moves_operation] by blast
  moreover have "settled 0 m" using u(2) um keeps_settled by (auto simp: applied_def still_def)
  ultimately show thesis using that [of s m] s(1,8) pm cm run hm by simp
qed

text \<open>C12: a confirmation that returns came before the deadline and named the pending commit; it makes
  the configuration permanent: from then on a restart from the state file, at any time, keeps the
  configuration and its revision.\<close>

theorem confirm_makes_durable:
  assumes "reachable s" and "confirm now job s = (Inr v, t)"
  shows "\<exists>p. cd_pending s = Some p \<and> pd_job p = job \<and> now < pd_deadline p
    \<and> cd_pending t = None \<and> cd_configuration t = cd_configuration s \<and> cd_revision t = cd_revision s
    \<and> cd_last_transaction t = Some \<lparr>tr_job = job, tr_revision = cd_revision s, tr_state = TxConfirmed\<rparr>
    \<and> (\<forall>later. \<exists>u. restart later (cd_disk t) = Inr u \<and> cd_configuration u = cd_configuration s
         \<and> cd_revision u = cd_revision s)"
proof -
  have ok: "configd_ok s" by (rule reachable_ok [OF assms(1)])
  from wp_resultD [OF wp_confirm [OF ok] assms(2)] obtain m u p where
    c: "\<not> due now s" "still s m" "cd_pending s = Some p" "pd_job p = job" "confirmed m p u" "still u t" by auto
  have t: "image_of t = (image_of m)\<lparr>im_pending := None, im_last_transaction :=
          Some \<lparr>tr_job = job, tr_revision = cd_revision m, tr_state = TxConfirmed\<rparr>\<rparr>"
    and okt: "configd_ok t"
    using c(4,5) stillD(2) [OF c(6)] still_ok [OF c(6)] by (simp_all add: confirmed_def)
  have im: "cd_pending t = None" "cd_configuration t = cd_configuration s" "cd_revision t = cd_revision s"
    "cd_last_transaction t = Some \<lparr>tr_job = job, tr_revision = cd_revision s, tr_state = TxConfirmed\<rparr>"
    using t image_of_simps [of t] stillD [OF c(2)] by simp_all
  have "now < pd_deadline p" using c(1,3) configd_okD(6) [OF ok c(3)] by (simp add: due_def)
  moreover have "\<exists>u. restart later (cd_disk t) = Inr u \<and> cd_configuration u = cd_configuration s
         \<and> cd_revision u = cd_revision s" for later
  proof -
    have "image_ok (stored_image (cd_disk t))"
      using configd_okD(1,2) [OF okt] by (auto simp: configd_okD(7) [OF okt] image_ok_def)
    from restart_run [OF this configd_okD(5) [OF okt], of later] im show ?thesis
      unfolding configd_okD(7) [OF okt] by (auto dest: image_of_eqD)
  qed
  ultimately show ?thesis using c(3,4) im by blast
qed

theorem confirm_makes_durable_witness:
  "\<exists>s t. restart 0 [] = Inr s \<and> confirm 0 ''job''
      (snd (apply_configuration 0 sample_configuration 1 ''job'' 60 s)) = (Inr (view t), t)
    \<and> (\<exists>u. restart 99 (cd_disk t) = Inr u \<and> cd_configuration u = sample_configuration)"
proof (rule boot_commit)
  fix s m assume s: "restart 0 [] = Inr s" "snd (apply_configuration 0 sample_configuration 1 ''job'' 60 s) = m"
    "reachable m" "settled 0 m" "cd_configuration m = sample_configuration"
    "cd_pending m = Some (request 0 s ''job'' 60 AwaitingConfirmation)"
  have dm: "\<not> due 0 m" by (simp add: due_def s(6) request_def)
  define w where "w = m\<lparr>cd_last_transaction := Some \<lparr>tr_job = ''job'', tr_revision = cd_revision m, tr_state = TxConfirmed\<rparr>,
            cd_pending := None\<rparr>"
  define x where "x = w\<lparr>cd_disk := image_of w # cd_disk w\<rparr>"
  have "settled 0 x" "\<not> due 0 x" using s(4) by (simp_all add: x_def w_def settled_def due_def)
  from settled_tick [OF this] settled_tick [OF s(4) dm] have q: "confirm 0 ''job'' m = (Inr (view x), x)"
    by (simp add: confirm_def monad_simps pending_job_def s(6) request_def persist_def snapshot_def x_def w_def)
  from confirm_makes_durable [OF s(3) q] s(5) obtain u where
    "restart 99 (cd_disk x) = Inr u" "cd_configuration u = sample_configuration" by metis
  with s(1,2) q show ?thesis by blast
qed

text \<open>What an operation does after it has looked at the clock leaves the committed data alone: it
  answers, refuses, or starts a manual test, but only an apply or a confirmation could change them.\<close>

definition data_kept :: "configd \<Rightarrow> configd \<Rightarrow> bool" where
  "data_kept m u \<longleftrightarrow> image_of u = image_of m \<and> cd_disk u = cd_disk m \<and> cd_hardware u = cd_hardware m"

lemma wp_tick_first:
  assumes "configd_ok s" and "due now s" and "cd_pending s = Some p"
    and "\<And>m. cd_pending m = None \<Longrightarrow> cd_revision m = cd_revision s + 1 \<Longrightarrow> wp k (\<lambda>_. data_kept m) (\<lambda>_. data_kept m) m"
  shows "wp (then_action (tick now) k)
    (\<lambda>_ t. \<exists>m. rolled_back s p m \<and> data_kept m t)
    (\<lambda>_ t. (\<exists>m. rolled_back s p m \<and> data_kept m t) \<or> \<not> healthy s \<and> uncommitted s t) s" (is "wp _ ?Q ?E s")
proof -
  have kept: "\<exists>m. rolled_back s p m \<and> data_kept m t" if "ticked now s t" for t
    using that assms(2,3) stillD by (auto simp: ticked_def data_kept_def)
  have next_ok: "wp k ?Q ?E t" if t: "ticked now s t" for t
  proof -
    from kept [OF t] obtain m where m: "rolled_back s p m" "data_kept m t" by blast
    then have "image_of t = image_of m" by (simp add: data_kept_def)
    from image_of_eqD [OF this] m(1) have "cd_pending t = None" "cd_revision t = cd_revision s + 1"
      by (simp_all add: rolled_back_def image_of_def)
    from assms(4) [OF this] show ?thesis
      by (rule wp_mono) (use m in \<open>auto simp: data_kept_def\<close>)
  qed
  have "wp (tick now) (\<lambda>_. ticked now s) (\<lambda>_ t. ticked now s t \<or> \<not> healthy s \<and> uncommitted s t) s"
  proof (cases "healthy s")
    case True
    show ?thesis by (rule wp_mono [OF wp_conj [OF wp_tick [OF assms(1)] healthy_tick [OF assms(1) True]]]) auto
  next
    case False
    show ?thesis by (rule wp_mono [OF wp_tick [OF assms(1)]]) (use False assms(2) in auto)
  qed
  then show ?thesis
    unfolding wp_then by (rule wp_mono) (use next_ok kept in auto)
qed

text \<open>The operations that look at the clock first: every reading of the authority, a manual test, a
  confirmation, and an apply prepared against a revision that the expiry leaves behind.\<close>

definition clocked :: "configd \<Rightarrow> operation \<Rightarrow> bool" where
  "clocked s op = (case op of
     OpSnapshot \<Rightarrow> True | OpConfirm _ \<Rightarrow> True | OpManual _ _ \<Rightarrow> True | OpSensors \<Rightarrow> True | OpPorts \<Rightarrow> True
   | OpApply _ expected _ _ \<Rightarrow> expected \<noteq> cd_revision s + 1
   | OpRollback _ \<Rightarrow> False | OpOptics \<Rightarrow> False | OpClearFdb \<Rightarrow> False)"

lemma forget_tick: "forget (then_action (tick now) k) = then_action (tick now) (forget k)"
  by (rule ext) (simp add: forget_def monad_simps split: prod.splits sum.splits)

lemma wp_clocked:
  assumes "configd_ok s" and "due now s" and "cd_pending s = Some p" and "clocked s op"
  shows "wp (perform now op)
    (\<lambda>_ t. \<exists>m. rolled_back s p m \<and> data_kept m t)
    (\<lambda>_ t. (\<exists>m. rolled_back s p m \<and> data_kept m t) \<or> \<not> healthy s \<and> uncommitted s t) s"
proof -
  note t = wp_tick_first [OF assms(1-3)]
  show ?thesis
    using assms(4)
    by (cases op; simp add: clocked_def snapshot_def confirm_def manual_def sensors_def ports_def
        apply_configuration_def forget_tick)
      (rule t; auto simp: forget_def wp_simps data_kept_def image_of_def Let_def split: prod.splits option.splits)+
qed

text \<open>C13: once the deadline of a pending commit has passed, the next operation that looks at the
  clock (a snapshot, a confirmation, a fan command, a reading of sensors or ports, or an apply, except
  one against the revision that the rollback itself creates, which goes on to commit) takes it back: the earlier configuration is active again, on disk and on the hardware, under a
  new revision, and the rollback is recorded. On a healthy authority this always happens, whether the
  operation itself then answers or refuses. Otherwise the only other outcome is an error that leaves
  the commit pending and overdue, so that the next operation tries again.\<close>

theorem expiry_restores:
  assumes "reachable s" and "cd_pending s = Some p" and "pd_deadline p \<le> now"
    and "clocked s op" and "perform now op s = (r, t)"
  shows "cd_pending t = None \<and> cd_configuration t = pd_before p \<and> cd_hardware t = pd_before p
      \<and> cd_revision t = cd_revision s + 1
      \<and> cd_last_transaction t = Some \<lparr>tr_job = pd_job p, tr_revision = cd_revision s, tr_state = TxRolledBack\<rparr>
      \<and> stored_image (cd_disk t) = image_of t
    \<or> \<not> healthy s \<and> (\<exists>e. r = Inl e) \<and> cd_pending t = Some p \<and> cd_configuration t = cd_configuration s
      \<and> cd_revision t = cd_revision s"
proof -
  have ok: "configd_ok s" by (rule reachable_ok [OF assms(1)])
  have due: "due now s" using assms(2,3) configd_okD(6) [OF ok assms(2)] by (simp add: due_def)
  from wp_resultD [OF wp_clocked [OF ok due assms(2,4)] assms(5)]
  consider m where "rolled_back s p m" "data_kept m t" | e where "r = Inl e" "\<not> healthy s" "uncommitted s t"
    by (cases r) auto
  then show ?thesis
  proof cases
    case 1
    have "stored_image (cd_disk m) = image_of m"
      by (rule configd_okD(7)) (use 1 in \<open>simp add: rolled_back_def\<close>)
    moreover have "image_of t = image_of m" "cd_disk t = cd_disk m" "cd_hardware t = pd_before p"
      using 1 by (simp_all add: rolled_back_def data_kept_def)
    moreover from calculation(2) 1(1) have "cd_pending t = None" "cd_configuration t = pd_before p"
      "cd_revision t = cd_revision s + 1"
      "cd_last_transaction t = Some \<lparr>tr_job = pd_job p, tr_revision = cd_revision s, tr_state = TxRolledBack\<rparr>"
      by (simp_all add: rolled_back_def image_of_def)
    ultimately show ?thesis by simp
  next
    case 2
    then have "image_of t = image_of s" by (simp add: uncommitted_def)
    from image_of_eqD [OF this] 2 assms(2) show ?thesis by simp
  qed
qed

theorem expiry_restores_witness:
  "\<exists>s m. restart 0 [] = Inr s \<and> snd (apply_configuration 0 sample_configuration 1 ''job'' 60 s) = m
     \<and> cd_configuration m = sample_configuration \<and> sample_configuration \<noteq> default_configuration
     \<and> cd_configuration (snd (perform 60000 OpSnapshot m)) = default_configuration
     \<and> cd_hardware (snd (perform 60000 OpSnapshot m)) = default_configuration"
proof (rule boot_commit)
  fix s m assume s: "restart 0 [] = Inr s" "snd (apply_configuration 0 sample_configuration 1 ''job'' 60 s) = m"
    "reachable m" "cd_configuration m = sample_configuration" "cd_configuration s = default_configuration" "healthy m"
    "cd_pending m = Some (request 0 s ''job'' 60 AwaitingConfirmation)"
  have "sample_configuration \<noteq> default_configuration"
    by (simp add: sample_configuration_def default_configuration_def)
  with expiry_restores [OF s(3,7) _ _ prod.collapse [symmetric], of 60000 OpSnapshot] s
  show ?thesis by (auto simp: request_def clocked_def)
qed

subsection \<open>Cooling\<close>

lemma find_rev_sorted_mono:
  fixes f :: "'a \<Rightarrow> int" and g :: "'a \<Rightarrow> int"
  assumes "sorted (map f xs)" and "sorted (map g xs)" and "\<And>y. P y \<Longrightarrow> Q y"
    and "find P (rev xs) = Some a" and "find Q (rev xs) = Some b"
    and "\<And>y z. f y \<le> f z \<Longrightarrow> Q z \<Longrightarrow> Q y" and "\<And>y z. f y \<le> f z \<Longrightarrow> P z \<Longrightarrow> P y"
  shows "g a \<le> g b"
proof -
  from assms(4) obtain i where i: "i < length xs" "P (rev xs ! i)" "a = rev xs ! i" "\<forall>j < i. \<not> P (rev xs ! j)"
    by (auto simp: find_Some_iff)
  from assms(5) obtain j where j: "j < length xs" "Q (rev xs ! j)" "b = rev xs ! j" "\<forall>k < j. \<not> Q (rev xs ! k)"
    by (auto simp: find_Some_iff)
  have "j \<le> i" using i(2) j(4) assms(3) not_less by blast
  with i j assms(2) show ?thesis by (simp add: rev_nth sorted_iff_nth_mono)
qed

lemma lut_pwm_follows:
  assumes ok: "first_failure (fan_curve_checks c) = None"
  shows "fc_idle_speed_percent c \<le> lut_pwm c temp \<and> lut_pwm c temp \<le> 100"
    and "x \<le> y \<Longrightarrow> lut_pwm c x \<le> lut_pwm c y"
proof -
  let ?ps = "lut_points c"
  let ?P = "\<lambda>temp. \<lambda>(t, _). 100 * t \<le> (temp :: int)"
  note b = fan_checks_bounds [OF ok] and shape = lut_points_shape [OF ok]
  have first: "hd ?ps = (0, fc_idle_speed_percent c)" "?ps \<noteq> []" by (simp_all add: lut_points_ramp)
  have idle: "\<forall>(t, p) \<in> set ?ps. fc_idle_speed_percent c \<le> p"
  proof -
    have "\<forall>i < length ?ps. snd (?ps ! 0) \<le> snd (?ps ! i)"
      using sorted_iff_nth_mono [of "map snd ?ps"] shape(3) by simp
    then show ?thesis using first by (auto simp: in_set_conv_nth hd_conv_nth) (metis snd_conv)
  qed
  have at: "(case find (?P temp) (rev ?ps) of None \<Rightarrow> temp < 0 | Some q \<Rightarrow> q \<in> set ?ps)" for temp
  proof (cases "find (?P temp) (rev ?ps)")
    case None
    moreover have "(0, fc_idle_speed_percent c) \<in> set (rev ?ps)" using first by (metis list.set_sel(1) set_rev)
    ultimately have "\<not> 100 * 0 \<le> temp" by (force simp: find_None_iff)
    with None show ?thesis by simp
  next
    case (Some q)
    then have "q \<in> set (rev ?ps)" by (metis find_Some_iff nth_mem)
    with Some show ?thesis by simp
  qed
  have range: "fc_idle_speed_percent c \<le> lut_pwm c temp \<and> lut_pwm c temp \<le> 100" for temp
    using at [of temp] idle shape(4) b by (auto simp: lut_pwm_def split: option.splits prod.splits)
  have mono: "lut_pwm c x \<le> lut_pwm c y" if "x \<le> y" for x y
  proof (cases "find (?P x) (rev ?ps)")
    case None
    then have "lut_pwm c x = fc_idle_speed_percent c" by (simp add: lut_pwm_def)
    with range show ?thesis by simp
  next
    case (Some q)
    then have "\<exists>z \<in> set (rev ?ps). ?P x z" by (metis find_Some_iff nth_mem)
    then obtain z where "z \<in> set (rev ?ps)" "?P x z" by blast
    moreover from this that have "?P y z" by (auto split: prod.splits)
    ultimately have "find (?P y) (rev ?ps) \<noteq> None" by (metis find_None_iff)
    then obtain r where r: "find (?P y) (rev ?ps) = Some r" by blast
    have "snd q \<le> snd r"
      by (rule find_rev_sorted_mono [OF shape(2,3) _ Some r]) (use that in auto)
    with Some r show ?thesis by (auto simp: lut_pwm_def split: prod.splits)
  qed
  show "fc_idle_speed_percent c \<le> lut_pwm c temp \<and> lut_pwm c temp \<le> 100" by (rule range)
  show "x \<le> y \<Longrightarrow> lut_pwm c x \<le> lut_pwm c y" by (rule mono)
qed

text \<open>The fan speed the authority reports for an accepted configuration is full at and above the
  critical temperature whatever the manual setting, and without a manual test it is never below the
  idle speed and never falls when the core gets warmer.\<close>

theorem cooling_follows_temperature:
  assumes "validate_configuration c = Inr v" and "cd_configuration s = v" and "cd_configuration t = v"
    and "cd_temperature s \<le> cd_temperature t"
  shows "(100 * fc_critical_temperature_c (sc_fan v) \<le> cd_temperature s \<longrightarrow> current_pwm s = 100)
    \<and> (cd_manual_pwm s = None \<and> cd_manual_pwm t = None \<longrightarrow>
         fc_idle_speed_percent (sc_fan v) \<le> current_pwm s \<and> current_pwm s \<le> current_pwm t \<and> current_pwm t \<le> 100)"
proof -
  have ok: "first_failure (fan_curve_checks (sc_fan v)) = None"
    by (rule accepted_fields(5) [OF validate_accepted(1) [OF assms(1)]])
  have "cd_temperature s \<le> cd_temperature t \<Longrightarrow> lut_pwm (sc_fan v) (cd_temperature s) \<le> lut_pwm (sc_fan v) (cd_temperature t)"
    by (rule lut_pwm_follows(2) [OF ok])
  then show ?thesis
    using lut_pwm_follows(1) [OF ok] fan_checks_bounds [OF ok] assms(2-4) by (auto simp: current_pwm_def Let_def)
qed

theorem cooling_follows_temperature_witness:
  "\<exists>s. restart 0 [] = Inr s \<and> 50 \<le> current_pwm (s\<lparr>cd_manual_pwm := None\<rparr>)
     \<and> current_pwm (s\<lparr>cd_temperature := 8000, cd_manual_pwm := Some 30\<rparr>) = 100"
proof (rule boot_default)
  fix s assume s: "restart 0 [] = Inr s" "cd_configuration s = default_configuration"
  have v: "validate_configuration default_configuration = Inr default_configuration"
    using default_valid by (simp add: valid_configuration_def)
  have fan: "fc_idle_speed_percent (sc_fan default_configuration) = 50"
    "fc_critical_temperature_c (sc_fan default_configuration) = 80"
    by (simp_all add: default_configuration_def default_fan_def)
  let ?a = "s\<lparr>cd_manual_pwm := None\<rparr>" and ?b = "s\<lparr>cd_temperature := 8000, cd_manual_pwm := Some 30\<rparr>"
  have "cd_configuration ?a = default_configuration" "cd_configuration ?b = default_configuration" by (simp_all add: s)
  with cooling_follows_temperature [OF v, of ?a ?a] cooling_follows_temperature [OF v, of ?b ?b] fan s(1)
  show ?thesis by auto
qed

end
