(* ===== verification/Documents.thy ===== *)
theory Documents
  imports Prelude Complex_Main "HOL-Library.Char_ord" "HOL-Library.List_Lexorder"
begin

text \<open>
  The two document languages the panel exchanges with its surroundings: JSON values (as Python's
  \<^verbatim>\<open>json\<close> returns them, objects in insertion order) and XML element trees (as \<^verbatim>\<open>ElementTree\<close>
  returns them, name spaces stripped), with Python's \<^verbatim>\<open>int(text)\<close>.
\<close>

subsection \<open>Numbers in text\<close>

definition py_space :: "char \<Rightarrow> bool" where
  "py_space c \<longleftrightarrow> (let n = (of_char c :: nat) in n \<in> {9, 10, 11, 12, 13, 28, 29, 30, 31, 32})"

definition py_strip :: "string \<Rightarrow> string" where
  "py_strip s = rev (dropWhile py_space (rev (dropWhile py_space s)))"

definition digit_value :: "char \<Rightarrow> nat option" where
  "digit_value c = (let n = (of_char c :: nat) in
     if 48 \<le> n \<and> n \<le> 57 then Some (n - 48)
     else if 97 \<le> n \<and> n \<le> 122 then Some (n - 87)
     else if 65 \<le> n \<and> n \<le> 90 then Some (n - 55) else None)"

text \<open>Digits in a base with single underscores between them; the flag says a digit came just before.\<close>

fun digits :: "nat \<Rightarrow> string \<Rightarrow> bool \<Rightarrow> nat \<Rightarrow> nat option" where
  "digits b [] before acc = (if before then Some acc else None)"
| "digits b (c # cs) before acc =
     (case digit_value c of
        Some d \<Rightarrow> if d < b then digits b cs True (b * acc + d) else None
      | None \<Rightarrow> if c = CHR ''_'' \<and> before then digits b cs False acc else None)"

definition unsigned_text :: "nat \<Rightarrow> string \<Rightarrow> int option" where
  "unsigned_text b s = map_option int
     (if b = 16 \<and> (take 2 s = ''0x'' \<or> take 2 s = ''0X'') then digits b (drop 2 s) (take 1 (drop 2 s) = ''_'') 0
      else digits b s False 0)"

definition py_int_base :: "nat \<Rightarrow> string \<Rightarrow> int option" where
  "py_int_base b text = (case py_strip text of
     [] \<Rightarrow> None
   | c # rest \<Rightarrow> if c = CHR ''-'' then map_option uminus (unsigned_text b rest)
       else if c = CHR ''+'' then unsigned_text b rest else unsigned_text b (c # rest))"

abbreviation py_int :: "string \<Rightarrow> int option" where "py_int \<equiv> py_int_base 10"

lemma digit_value_decimal [simp]: "n < 10 \<Longrightarrow> digit_value (char_of (48 + n)) = Some n"
  by (simp add: digit_value_def Let_def of_char_of)

lemma digits_append_digit:
  "digits b xs before acc = Some n \<Longrightarrow> d < b \<Longrightarrow> digit_value c = Some d \<Longrightarrow>
   digits b (xs @ [c]) before acc = Some (b * n + d)"
  by (induction b xs before acc rule: digits.induct) (auto split: option.splits if_splits)

lemma digits_decimal: "digits 10 (decimal n) False 0 = Some n"
proof (induction n rule: decimal.induct)
  case (1 n)
  show ?case
  proof (cases "n < 10")
    case True
    then show ?thesis by (simp add: decimal.simps [of n])
  next
    case False
    with 1 have "digits 10 (decimal (n div 10)) False 0 = Some (n div 10)" by simp
    from digits_append_digit [OF this, of "n mod 10"] False show ?thesis
      by (simp add: decimal.simps [of n])
  qed
qed

lemma decimal_nonempty: "decimal n \<noteq> []" by (subst decimal.simps) simp

lemma strip_decimal: "py_strip (decimal n) = decimal n"
proof -
  have "\<not> py_space c" if "c \<in> set (decimal n)" for c
    using decimal_digits [OF that] by (auto simp: py_space_def Let_def)
  then have "dropWhile py_space xs = xs" if "set xs \<subseteq> set (decimal n)" for xs
    using that by (cases xs) auto
  then show ?thesis by (simp add: py_strip_def)
qed

lemma py_int_decimal [simp]: "py_int (decimal n) = Some (int n)"
proof -
  obtain c cs where d: "decimal n = c # cs" using decimal_nonempty [of n] by (cases "decimal n") auto
  with decimal_digits [of c n] have "c \<noteq> CHR ''-''" "c \<noteq> CHR ''+''" by auto
  with d digits_decimal [of n] strip_decimal [of n] show ?thesis
    by (simp add: py_int_base_def unsigned_text_def)
qed

definition decimal_int :: "int \<Rightarrow> string" where
  "decimal_int n = (if n < 0 then CHR ''-'' # decimal (nat (- n)) else decimal (nat n))"

text \<open>Every element or none, as a comprehension over readings that may fail.\<close>

fun all_some :: "'a option list \<Rightarrow> 'a list option" where
  "all_some [] = Some []"
| "all_some (x # xs) = (case x of None \<Rightarrow> None | Some v \<Rightarrow> map_option ((#) v) (all_some xs))"

subsection \<open>JSON\<close>

datatype json =
  JNull | JBool bool | JInt int | JFloat rat | JNotFinite | JStr text_points
| JList "json list" | JObj "(string \<times> json) list"

definition ascii :: "string \<Rightarrow> text_points" where
  "ascii s = map of_char s"

abbreviation jstr :: "string \<Rightarrow> json" where "jstr s \<equiv> JStr (ascii s)"

lemma ascii_inject [simp]: "ascii s = ascii t \<longleftrightarrow> s = t"
  by (simp add: ascii_def inj_on_def inj_map_eq_map)

text \<open>\<^verbatim>\<open>value.get(name)\<close> of an object: the value or \<^verbatim>\<open>None\<close>, which is also what \<^verbatim>\<open>null\<close> reads as.\<close>

fun entries :: "json \<Rightarrow> (string \<times> json) list" where
  "entries (JObj fs) = fs"
| "entries _ = []"

definition jget :: "json \<Rightarrow> string \<Rightarrow> json" where
  "jget v name = (case map_of (entries v) name of None \<Rightarrow> JNull | Some x \<Rightarrow> x)"

text \<open>
  Python's \<^verbatim>\<open>==\<close>: numbers and booleans compare by value, objects by their entries in any order. A
  number that is not finite is equal to nothing here.
\<close>

primrec canon :: "json \<Rightarrow> json" where
  "canon JNull = JNull"
| "canon (JBool b) = JFloat (if b then 1 else 0)"
| "canon (JInt n) = JFloat (of_int n)"
| "canon (JFloat q) = JFloat q"
| "canon JNotFinite = JNotFinite"
| "canon (JStr s) = JStr s"
| "canon (JList xs) = JList (map canon xs)"
| "canon (JObj fs) = JObj (sort_key fst (map (map_prod id canon) fs))"

definition py_eq :: "json \<Rightarrow> json \<Rightarrow> bool" where
  "py_eq a b \<longleftrightarrow> canon a = canon b \<and> a \<noteq> JNotFinite"

text \<open>The value of an \<^verbatim>\<open>int\<close> or finite \<^verbatim>\<open>float\<close>; a bool is an int.\<close>

fun as_number :: "json \<Rightarrow> rat option" where
  "as_number (JBool b) = Some (if b then 1 else 0)"
| "as_number (JInt n) = Some (of_int n)"
| "as_number (JFloat q) = Some q"
| "as_number _ = None"

text \<open>\<^verbatim>\<open>type(x) is int and low <= x <= high\<close>\<close>

fun int_between :: "int \<Rightarrow> int \<Rightarrow> json \<Rightarrow> bool" where
  "int_between low high (JInt n) \<longleftrightarrow> low \<le> n \<and> n \<le> high"
| "int_between low high _ \<longleftrightarrow> False"

fun int_of :: "json \<Rightarrow> int" where
  "int_of (JInt n) = n"
| "int_of _ = 0"

fun elements :: "json \<Rightarrow> json list" where
  "elements (JList xs) = xs"
| "elements _ = []"

fun is_list :: "json \<Rightarrow> bool" where
  "is_list (JList _) = True"
| "is_list _ = False"

fun is_object :: "json \<Rightarrow> bool" where
  "is_object (JObj _) = True"
| "is_object _ = False"

fun finite_number :: "json \<Rightarrow> bool" where
  "finite_number (JInt _) = True"
| "finite_number (JFloat _) = True"
| "finite_number (JBool _) = True"
| "finite_number _ = False"

text \<open>Python's truth value of a JSON value.\<close>

fun truthy :: "json \<Rightarrow> bool" where
  "truthy JNull = False"
| "truthy (JBool b) = b"
| "truthy (JInt n) = (n \<noteq> 0)"
| "truthy (JFloat q) = (q \<noteq> 0)"
| "truthy JNotFinite = True"
| "truthy (JStr s) = (s \<noteq> [])"
| "truthy (JList xs) = (xs \<noteq> [])"
| "truthy (JObj fs) = (fs \<noteq> [])"

subsection \<open>XML\<close>

datatype xml = Xml (xml_tag: string) (xml_attributes: "(string \<times> string) list") (xml_text: text_points)
  (xml_children: "xml list")

definition attribute :: "xml \<Rightarrow> string \<Rightarrow> string option" where
  "attribute node name = map_of (xml_attributes node) name"

text \<open>\<^verbatim>\<open>node.get(name, default)\<close>\<close>

definition attribute_or :: "xml \<Rightarrow> string \<Rightarrow> string \<Rightarrow> string" where
  "attribute_or node name fallback = (case attribute node name of None \<Rightarrow> fallback | Some v \<Rightarrow> v)"

text \<open>\<^verbatim>\<open>findall\<close> and \<^verbatim>\<open>find\<close> of a path of child tags.\<close>

definition children_named :: "string \<Rightarrow> xml \<Rightarrow> xml list" where
  "children_named tag node = filter (\<lambda>c. xml_tag c = tag) (xml_children node)"

fun find_all :: "string list \<Rightarrow> xml \<Rightarrow> xml list" where
  "find_all [] node = [node]"
| "find_all (tag # path) node = concat (map (find_all path) (children_named tag node))"

definition find_first :: "string list \<Rightarrow> xml \<Rightarrow> xml option" where
  "find_first path node = (case find_all path node of [] \<Rightarrow> None | c # _ \<Rightarrow> Some c)"

text \<open>\<^verbatim>\<open>node.find("tag[@name='value']")\<close>\<close>

definition find_with :: "string \<Rightarrow> string \<Rightarrow> string \<Rightarrow> xml \<Rightarrow> xml option" where
  "find_with tag name val node = find (\<lambda>c. attribute c name = Some val) (children_named tag node)"

text \<open>\<^verbatim>\<open>findall(".//tag")\<close>: all descendants with the tag, in document order.\<close>

fun descendants :: "string \<Rightarrow> xml \<Rightarrow> xml list" where
  "descendants tag (Xml _ _ _ cs) =
     concat (map (\<lambda>c. (if xml_tag c = tag then [c] else []) @ descendants tag c) cs)"

end
