(* ===== verification/Eye.thy ===== *)
theory Eye
  imports Documents Board
begin

text \<open>
  eye.py: validation of one page of a native eye scan, the merge of pages into a scan and the eye
  opening computed from a complete one. A page is the JSON object the native service returned. A
  sentence of \<^verbatim>\<open>ERRORS\<close> is represented by its key. Ratios of counts are exact; with at most ten million
  samples per point the float comparison with 1e-4 decides the same.
\<close>

datatype eye_error =
  NotAnObject | ScanRefused json | UnhashableValue | BadScanIdentity | BadScanParameter string
| MissingScanKey string | InconsistentScan | BadScanPage | BadScanCounts | BadScanTime | NotFinished
| DifferentScan | ProgressLost | PageMissing | CountsChanged

definition ACTIVE :: "string list" where
  "ACTIVE = [''preparing'', ''running'', ''cancelling'', ''reading'']"

subsection \<open>One page\<close>

definition hex_id :: "text_points \<Rightarrow> bool" where
  "hex_id t \<longleftrightarrow> length t = 32 \<and> list_all (\<lambda>n. 48 \<le> n \<and> n \<le> 57 \<or> 97 \<le> n \<and> n \<le> 102) t"

record eye_request =
  er_request_id :: text_points
  er_lane :: int
  er_internal_loopback :: bool
  er_x_resolution :: int
  er_y_step :: int
  er_dwell_bits :: int

text \<open>The validators of \<^verbatim>\<open>EyeRequest\<close>; the identifier is a fresh UUID when the client sends none.\<close>

definition eye_request_ok :: "eye_request \<Rightarrow> bool" where
  "eye_request_ok r \<longleftrightarrow> hex_id (er_request_id r) \<and> 0 \<le> er_lane r \<and> er_lane r \<le> 3
     \<and> er_x_resolution r \<in> {16, 32, 64} \<and> er_y_step r \<in> {1, 2, 4, 8}
     \<and> er_dwell_bits r \<in> {100000, 1000000, 10000000}"

text \<open>\<^verbatim>\<open>str(value)\<close> as far as it can be 32 hexadecimal digits.\<close>

fun id_text :: "json \<Rightarrow> text_points" where
  "id_text (JStr t) = t"
| "id_text (JInt n) = ascii (decimal_int n)"
| "id_text _ = []"

fun hashable :: "json \<Rightarrow> bool" where
  "hashable (JList _) = False"
| "hashable (JObj _) = False"
| "hashable _ = True"

definition one_of :: "string list \<Rightarrow> json \<Rightarrow> bool" where
  "one_of names v \<longleftrightarrow> v \<in> set (map jstr names)"

definition EYE_LIMITS :: "(string \<times> int \<times> int) list" where
  "EYE_LIMITS = [(''port'', 1, 24), (''lane'', 0, 3), (''x_resolution'', 16, 64), (''x_points'', 33, 129),
     (''y_points'', 32, 256), (''y_step'', 1, 8), (''dwell_bits'', 100000, 10000000),
     (''columns_done'', 0, 129), (''column_offset'', 0, 129)]"

definition scan_int :: "json \<Rightarrow> string \<Rightarrow> int" where
  "scan_int v name = int_of (jget v name)"

definition geometry_wrong :: "json \<Rightarrow> bool" where
  "geometry_wrong v \<longleftrightarrow> scan_int v ''x_resolution'' \<notin> {16, 32, 64} \<or> scan_int v ''y_step'' \<notin> {1, 2, 4, 8}
     \<or> scan_int v ''x_points'' \<noteq> 2 * scan_int v ''x_resolution'' + 1
     \<or> scan_int v ''y_points'' \<noteq> 256 div scan_int v ''y_step'' \<or> \<not> py_eq (jget v ''y_min'') (JInt (- 128))
     \<or> scan_int v ''dwell_bits'' mod 20 \<noteq> 0"

definition position_wrong :: "json \<Rightarrow> bool" where
  "position_wrong v \<longleftrightarrow> \<not> py_eq (jget v ''epl'') (JInt (group_for_port (scan_int v ''port'')))
     \<or> \<not> (0 \<le> scan_int v ''column_offset'' \<and> scan_int v ''column_offset'' \<le> scan_int v ''columns_done''
          \<and> scan_int v ''columns_done'' \<le> scan_int v ''x_points'')"

definition scan_rows :: "json \<Rightarrow> json list" where
  "scan_rows v = elements (jget v ''errors'')"

definition row_ok :: "int \<Rightarrow> json \<Rightarrow> bool" where
  "row_ok points row \<longleftrightarrow> is_list row \<and> int (length (elements row)) = points
     \<and> list_all (int_between 0 134201344) (elements row)"

definition page_checks :: "json \<Rightarrow> (bool \<times> eye_error) list" where
  "page_checks v =
     [(\<not> hashable (jget v ''state''), UnhashableValue),
      (\<not> hex_id (id_text (jget v ''id''))
         \<or> \<not> one_of [''preparing'', ''running'', ''cancelling'', ''complete'', ''cancelled'', ''failed''] (jget v ''state''),
       BadScanIdentity)]
     @ map (\<lambda>(name, low, high). (\<not> int_between low high (jget v name), BadScanParameter name)) EYE_LIMITS
     @ [(geometry_wrong v, InconsistentScan),
        (map_of (entries v) ''epl'' = None, MissingScanKey ''epl''),
        (position_wrong v, InconsistentScan),
        (\<not> hashable (jget v ''source''), UnhashableValue),
        (\<not> one_of [''serdes-hardware'', ''simulator''] (jget v ''source''), InconsistentScan),
        (\<not> hashable (jget v ''signal_source''), UnhashableValue),
        (\<not> one_of [''external'', ''internal_prbs31_loopback''] (jget v ''signal_source'')
           \<or> jget v ''measurement'' \<noteq> jstr ''offset-sampler-xor'' \<or> jget v ''vertical_unit'' \<noteq> jstr ''DAC'',
         InconsistentScan),
        (\<not> is_list (jget v ''errors'') \<or> length (scan_rows v) > 4
           \<or> scan_int v ''column_offset'' + int (length (scan_rows v)) > scan_int v ''columns_done'', BadScanPage),
        (\<not> list_all (row_ok (scan_int v ''y_points'')) (scan_rows v), BadScanCounts),
        (\<not> finite_number (jget v ''started_at''), BadScanTime),
        (jget v ''state'' = jstr ''complete''
           \<and> (scan_int v ''columns_done'' \<noteq> scan_int v ''x_points'' \<or> jget v ''restored'' \<noteq> JBool True
                \<or> truthy (jget v ''restore_failed'')), NotFinished)]"

definition validate_chunk :: "json \<Rightarrow> eye_error + json" where
  "validate_chunk v =
     (if \<not> is_object v then Inl NotAnObject
      else if truthy (jget v ''error'') \<and> \<not> truthy (jget v ''id'')
        then Inl (if hashable (jget v ''error'') then ScanRefused (jget v ''error'') else UnhashableValue)
      else if jget v ''state'' = jstr ''idle'' then Inr v
      else raise_first (first_failure (page_checks v)) v)"

subsection \<open>Eye opening\<close>

definition count_at :: "json list \<Rightarrow> nat \<Rightarrow> nat \<Rightarrow> int" where
  "count_at rows x y = int_of (elements (rows ! x) ! y)"

text \<open>
  The four loops of \<^verbatim>\<open>metrics\<close>: walk away from the centre while the next point is open, towards 0 or
  towards the last index.
\<close>

fun walk_down :: "(nat \<Rightarrow> bool) \<Rightarrow> nat \<Rightarrow> nat" where
  "walk_down ok 0 = 0"
| "walk_down ok (Suc n) = (if ok n then walk_down ok n else Suc n)"

function walk_up :: "(nat \<Rightarrow> bool) \<Rightarrow> nat \<Rightarrow> nat \<Rightarrow> nat" where
  "walk_up ok bound n = (if n + 1 < bound \<and> ok (n + 1) then walk_up ok bound (n + 1) else n)"
  by auto
termination by (relation "measure (\<lambda>(_, bound, n). bound - n)") auto

declare walk_up.simps [simp del]

record eye_opening =
  eo_width :: rat
  eo_height :: int
  eo_width_clipped :: bool
  eo_height_clipped :: bool

record eye_metrics =
  em_center_errors :: int
  em_sampled_bits :: int
  em_opening :: "eye_opening option"

definition point_open :: "int \<Rightarrow> int \<Rightarrow> bool" where
  "point_open bits count \<longleftrightarrow> 10000 * count \<le> bits"

definition eye_opening_of :: "json list \<Rightarrow> int \<Rightarrow> int \<Rightarrow> int \<Rightarrow> eye_opening" where
  "eye_opening_of rows bits x_resolution y_step =
     (let x0 = nat x_resolution; y0 = nat (128 div y_step); height = length (elements (rows ! x0));
          left = walk_down (\<lambda>x. point_open bits (count_at rows x y0)) x0;
          right = walk_up (\<lambda>x. point_open bits (count_at rows x y0)) (length rows) x0;
          bottom = walk_down (\<lambda>y. point_open bits (count_at rows x0 y)) y0;
          top = walk_up (\<lambda>y. point_open bits (count_at rows x0 y)) height y0
      in \<lparr>eo_width = of_int (int right - int left) / of_int x_resolution,
          eo_height = (int top - int bottom) * y_step,
          eo_width_clipped = (left = 0 \<or> right = length rows - 1),
          eo_height_clipped = (bottom = 0 \<or> top = height - 1)\<rparr>)"

definition metrics :: "json \<Rightarrow> eye_metrics option" where
  "metrics v =
     (if jget v ''state'' \<noteq> jstr ''complete'' \<or> int (length (scan_rows v)) \<noteq> scan_int v ''x_points'' then None
      else let rows = scan_rows v; bits = scan_int v ''dwell_bits''; step = scan_int v ''y_step'';
               center = count_at rows (nat (scan_int v ''x_resolution'')) (nat (128 div step))
      in Some \<lparr>em_center_errors = center, em_sampled_bits = bits,
           em_opening = (if point_open bits center
             then Some (eye_opening_of rows bits (scan_int v ''x_resolution'') step) else None)\<rparr>)"

subsection \<open>Merging pages\<close>

definition SCAN_IDENTITY :: "string list" where
  "SCAN_IDENTITY = [''id'', ''port'', ''epl'', ''lane'', ''source'', ''signal_source'', ''speed_mbps'',
     ''x_points'', ''y_points'', ''x_resolution'', ''x_step'', ''y_step'', ''y_min'',
     ''dwell_bits'', ''dwell_scale'', ''rx_clock_divider'', ''started_at'',
     ''firmware'', ''master_firmware'', ''sampling_master_firmware'',
     ''temporary_master'', ''phase_multiplier'', ''compare_mode_before'']"

fun merge_rows :: "json list \<Rightarrow> nat \<Rightarrow> json list \<Rightarrow> eye_error + json list" where
  "merge_rows points index [] = Inr points"
| "merge_rows points index (row # rows) =
     (if index < length points
      then if \<not> py_eq (points ! index) row then Inl CountsChanged else merge_rows points (index + 1) rows
      else merge_rows (points @ [row]) (index + 1) rows)"

definition dict_update :: "(string \<times> json) list \<Rightarrow> (string \<times> json) list \<Rightarrow> (string \<times> json) list" where
  "dict_update d updates = fold (\<lambda>(k, v) d. dict_set d k v) updates d"

record eye_scan =
  es_value :: json
  es_metrics :: "eye_metrics option"

definition no_scan :: eye_scan where
  "no_scan = \<lparr>es_value = JObj [], es_metrics = None\<rparr>"

definition merged_value :: "json \<Rightarrow> json \<Rightarrow> json list \<Rightarrow> json" where
  "merged_value previous chunk points =
     (let state = jget chunk ''state'';
          state' = (if state = jstr ''complete'' \<and> int (length points) \<noteq> scan_int chunk ''x_points''
                    then jstr ''reading'' else state)
      in JObj (dict_update (entries previous) (entries chunk @
           [(''errors'', JList points), (''native_state'', state), (''column_offset'', JInt 0), (''state'', state'),
            (''received_columns'', JInt (int (length points))),
            (''progress'', JFloat (of_int (scan_int chunk ''columns_done'') / of_int (scan_int chunk ''x_points''))),
            (''message'', jget chunk ''error'')])))"

text \<open>\<open>previous\<close> is the empty object when nothing was received yet (\<^verbatim>\<open>previous or {}\<close>).\<close>

definition merge_chunk :: "eye_scan option \<Rightarrow> json \<Rightarrow> eye_error + eye_scan" where
  "merge_chunk previous chunk =
     ebind (validate_chunk chunk) (\<lambda>_.
       if jget chunk ''state'' = jstr ''idle'' then Inr \<lparr>es_value = chunk, es_metrics = None\<rparr>
       else let old = (case previous of None \<Rightarrow> JObj [] | Some p \<Rightarrow> es_value p); points = scan_rows old;
                offset = scan_int chunk ''column_offset'' in
       ebind (raise_first (first_failure
           [(entries old \<noteq> [] \<and> \<not> list_all (\<lambda>name. py_eq (jget old name) (jget chunk name)) SCAN_IDENTITY, DifferentScan),
            (entries old \<noteq> [] \<and> scan_int chunk ''columns_done'' < scan_int old ''columns_done'', ProgressLost),
            (offset > int (length points), PageMissing)]) ()) (\<lambda>_.
       ebind (merge_rows points (nat offset) (scan_rows chunk)) (\<lambda>points'.
         if \<not> hashable (jget chunk ''error'') then Inl UnhashableValue
         else let v = merged_value old chunk points' in Inr \<lparr>es_value = v, es_metrics = metrics v\<rparr>)))"

subsection \<open>Export\<close>

definition export_header :: "string list" where
  "export_header = [''scan_id'', ''source'', ''port'', ''epl'', ''lane'', ''phase_ui'', ''threshold_dac'', ''errors'',
     ''sampled_bits'', ''xor_error_ratio'', ''signal_source'', ''state'', ''restored'', ''columns_done'', ''x_points'',
     ''y_points'', ''started_at'']"

definition export_row :: "json \<Rightarrow> int \<Rightarrow> int \<Rightarrow> json \<Rightarrow> json list" where
  "export_row v x y errors =
     (let resolution = scan_int v ''x_resolution''; bits = scan_int v ''dwell_bits'' in
      [jget v ''id'', jget v ''source'', jget v ''port'', jget v ''epl'', jget v ''lane'',
       JFloat (of_int (x - resolution) / of_int resolution), JInt (y * scan_int v ''y_step'' - 128),
       errors, JInt bits, JFloat (of_int (int_of errors) / of_int bits), jget v ''signal_source'',
       jget v ''state'', JBool (jget v ''restored'' = JBool True), jget v ''columns_done'',
       jget v ''x_points'', jget v ''y_points'', jget v ''started_at''])"

definition export_rows :: "json \<Rightarrow> json list list" where
  "export_rows v = map jstr export_header
     # concat (map (\<lambda>(x, row). map (\<lambda>(y, errors). export_row v x y errors) (enumerate_int (elements row)))
         (enumerate_int (scan_rows v)))"

end
