(* ===== verification/Eye_Properties.thy ===== *)
theory Eye_Properties
  imports Eye
begin

text \<open>
  What the pages of an eye scan add up to: received columns are never changed or dropped, a scan is
  complete only with every column, and the reported opening is the widest run of open points around
  the centre.
\<close>

subsection \<open>Merged objects\<close>

lemma map_of_dict_update:
  "map_of (dict_update d u) k = (case map_of (rev u) k of None \<Rightarrow> map_of d k | Some v \<Rightarrow> Some v)"
proof (induction u arbitrary: d)
  case (Cons p u)
  obtain k' v' where p: "p = (k', v')" by (cases p)
  have "map_of (dict_update d (p # u)) k = map_of (dict_update (dict_set d k' v') u) k"
    by (simp add: dict_update_def p)
  then show ?case by (simp add: Cons.IH p map_add_def split: option.splits)
qed (simp add: dict_update_def)

lemma map_of_distinct_rev: "distinct (map fst u) \<Longrightarrow> map_of (rev u) = map_of u"
  by (rule ext) (metis (no_types, lifting) distinct_rev map_of_SomeD map_of_eq_Some_iff not_Some_eq rev_map set_rev)

text \<open>The keys \<^verbatim>\<open>merge_chunk\<close> computes itself, and what a merged object reads at any key.\<close>

definition COMPUTED :: "string list" where
  "COMPUTED = [''errors'', ''native_state'', ''column_offset'', ''state'', ''received_columns'', ''progress'', ''message'']"

lemma jget_merged:
  assumes "distinct (map fst (entries chunk))"
  shows "name \<notin> set COMPUTED \<Longrightarrow> jget chunk name \<noteq> JNull \<Longrightarrow> jget (merged_value old chunk pts) name = jget chunk name"
    and "jget (merged_value old chunk pts) ''errors'' = JList pts"
    and "jget (merged_value old chunk pts) ''column_offset'' = JInt 0"
    and "jget (merged_value old chunk pts) ''state'' = (if jget chunk ''state'' = jstr ''complete''
           \<and> int (length pts) \<noteq> scan_int chunk ''x_points'' then jstr ''reading'' else jget chunk ''state'')"
  using map_of_distinct_rev [OF assms]
  by (auto simp: merged_value_def jget_def map_of_dict_update Let_def COMPUTED_def map_add_def split: option.splits)

lemma merged_nonempty: "entries (merged_value old chunk pts) \<noteq> []"
proof -
  have "map_of (entries (merged_value old chunk pts)) ''errors'' \<noteq> None"
    by (simp add: merged_value_def map_of_dict_update Let_def)
  then show ?thesis by (metis map_of.simps(1))
qed

subsection \<open>Received columns\<close>

lemma merge_rows_extends:
  assumes "merge_rows pts index rows = Inr pts'" and "index \<le> length pts"
  shows "take (length pts) pts' = pts \<and> length pts' = max (length pts) (index + length rows)
    \<and> set pts' \<subseteq> set pts \<union> set rows"
  using assms
proof (induction pts index rows rule: merge_rows.induct)
  case (2 pts index row rows)
  show ?case
  proof (cases "index < length pts")
    case True
    with 2 show ?thesis by (auto split: if_splits)
  next
    case False
    with 2 have *: "take (length (pts @ [row])) pts' = pts @ [row]" "length pts' = max (length (pts @ [row])) (index + 1 + length rows)"
      "set pts' \<subseteq> set (pts @ [row]) \<union> set rows" by auto
    have "take (length pts) pts' = take (length pts) (take (length (pts @ [row])) pts')" by (simp add: min_def)
    also have "\<dots> = pts" by (simp only: *(1)) simp
    finally show ?thesis using * False 2(4) by auto
  qed
qed auto

definition scan_ok :: "json \<Rightarrow> bool" where
  "scan_ok v \<longleftrightarrow> entries v \<noteq> [] \<and> (\<forall>(name, low, high) \<in> set EYE_LIMITS. int_between low high (jget v name))
     \<and> list_all (row_ok (scan_int v ''y_points'')) (scan_rows v)
     \<and> int (length (scan_rows v)) \<le> scan_int v ''columns_done'' \<and> scan_int v ''columns_done'' \<le> scan_int v ''x_points''
     \<and> (jget v ''state'' = jstr ''complete'' \<longrightarrow>
          int (length (scan_rows v)) = scan_int v ''x_points'' \<and> jget v ''restored'' = JBool True)"

lemma int_betweenE:
  assumes "int_between low high x"
  obtains n where "x = JInt n" and "low \<le> n" and "n \<le> high"
  using assms by (cases x) auto

lemma py_eq_int: "py_eq (JInt m) (JInt n) \<longleftrightarrow> m = n"
  by (simp add: py_eq_def)

lemma validate_chunkD:
  assumes "validate_chunk v = Inr w" and "jget v ''state'' \<noteq> jstr ''idle''"
  shows "w = v" and "first_failure (page_checks v) = None"
  using assms by (auto simp: validate_chunk_def check_simps split: if_splits)

lemma page_limits:
  assumes "first_failure (page_checks v) = None" and "(name, low, high) \<in> set EYE_LIMITS"
  shows "int_between low high (jget v name)"
proof -
  have "(\<not> int_between low high (jget v name), BadScanParameter name) \<in> set (page_checks v)"
    using assms(2) by (force simp: page_checks_def)
  from first_failure_None_mem [OF assms(1) this] show ?thesis by simp
qed

text \<open>Two pages of one scan agree on its geometry.\<close>

lemma same_geometry:
  assumes "list_all (\<lambda>name. py_eq (jget old name) (jget chunk name)) SCAN_IDENTITY" and "name \<in> set SCAN_IDENTITY"
    and "int_between l h (jget old name)" and "int_between l h (jget chunk name)"
  shows "scan_int old name = scan_int chunk name"
proof -
  from assms(1,2) have "py_eq (jget old name) (jget chunk name)" by (simp add: list_all_iff)
  with assms(3,4) show ?thesis by (auto elim!: int_betweenE simp: scan_int_def py_eq_int)
qed

text \<open>What a successful merge of a page of a running scan did.\<close>

lemma merge_chunkD:
  assumes "merge_chunk previous chunk = Inr s" and "jget chunk ''state'' \<noteq> jstr ''idle''"
  shows "\<exists>pts. first_failure (page_checks chunk) = None
    \<and> es_value s = merged_value (case previous of None \<Rightarrow> JObj [] | Some p \<Rightarrow> es_value p) chunk pts
    \<and> merge_rows (scan_rows (case previous of None \<Rightarrow> JObj [] | Some p \<Rightarrow> es_value p)) (nat (scan_int chunk ''column_offset''))
           (scan_rows chunk) = Inr pts
    \<and> nat (scan_int chunk ''column_offset'') \<le> length (scan_rows (case previous of None \<Rightarrow> JObj [] | Some p \<Rightarrow> es_value p))
    \<and> (\<forall>p. previous = Some p \<and> entries (es_value p) \<noteq> [] \<longrightarrow>
           list_all (\<lambda>name. py_eq (jget (es_value p) name) (jget chunk name)) SCAN_IDENTITY
           \<and> scan_int (es_value p) ''columns_done'' \<le> scan_int chunk ''columns_done'')
    \<and> es_metrics s = metrics (es_value s)"
proof -
  from assms(1) obtain w where "validate_chunk chunk = Inr w" by (auto simp: merge_chunk_def ebind_eq_Inr)
  note v = validate_chunkD [OF this assms(2)]
  let ?old = "case previous of None \<Rightarrow> JObj [] | Some p \<Rightarrow> es_value p"
  from assms obtain pts where
    pts: "merge_rows (scan_rows ?old) (nat (scan_int chunk ''column_offset'')) (scan_rows chunk) = Inr pts"
      "s = \<lparr>es_value = merged_value ?old chunk pts, es_metrics = metrics (merged_value ?old chunk pts)\<rparr>"
    by (auto simp: merge_chunk_def ebind_eq_Inr check_simps Let_def split: if_splits)
  from assms have c: "\<not> (entries ?old \<noteq> [] \<and> \<not> list_all (\<lambda>name. py_eq (jget ?old name) (jget chunk name)) SCAN_IDENTITY)"
      "\<not> (entries ?old \<noteq> [] \<and> scan_int chunk ''columns_done'' < scan_int ?old ''columns_done'')"
      "\<not> scan_int chunk ''column_offset'' > int (length (scan_rows ?old))"
    by (auto simp: merge_chunk_def ebind_eq_Inr check_simps Let_def split: if_splits)
  show ?thesis by (rule exI [of _ pts]) (use v(2) pts c in auto)
qed

lemma eye_limit:
  "(''y_points'', 32, 256) \<in> set EYE_LIMITS" "(''columns_done'', 0, 129) \<in> set EYE_LIMITS"
  "(''x_points'', 33, 129) \<in> set EYE_LIMITS"
  by (simp_all add: EYE_LIMITS_def)

lemma limits_merged:
  assumes "first_failure (page_checks chunk) = None" and "distinct (map fst (entries chunk))"
    and "(name, low, high) \<in> set EYE_LIMITS" and "name \<noteq> ''column_offset''"
  shows "jget (merged_value old chunk pts) name = jget chunk name"
proof (rule jget_merged(1) [OF assms(2)])
  show "name \<notin> set COMPUTED" using assms(3,4) by (auto simp: EYE_LIMITS_def COMPUTED_def)
  show "jget chunk name \<noteq> JNull" using page_limits [OF assms(1,3)] by auto
qed

lemma page_facts:
  assumes "first_failure (page_checks v) = None"
  shows "list_all (row_ok (scan_int v ''y_points'')) (scan_rows v)"
    and "scan_int v ''column_offset'' + int (length (scan_rows v)) \<le> scan_int v ''columns_done''"
    and "0 \<le> scan_int v ''column_offset'' \<and> scan_int v ''columns_done'' \<le> scan_int v ''x_points''"
    and "jget v ''state'' = jstr ''complete'' \<Longrightarrow>
      scan_int v ''columns_done'' = scan_int v ''x_points'' \<and> jget v ''restored'' = JBool True"
proof -
  note m = first_failure_None_mem [OF assms]
  have "\<not> \<not> list_all (row_ok (scan_int v ''y_points'')) (scan_rows v)" by (rule m [of _ BadScanCounts]) (simp add: page_checks_def)
  then show "list_all (row_ok (scan_int v ''y_points'')) (scan_rows v)" by simp
  have "\<not> (\<not> is_list (jget v ''errors'') \<or> length (scan_rows v) > 4
       \<or> scan_int v ''column_offset'' + int (length (scan_rows v)) > scan_int v ''columns_done'')"
    by (rule m [of _ BadScanPage]) (simp add: page_checks_def)
  then show "scan_int v ''column_offset'' + int (length (scan_rows v)) \<le> scan_int v ''columns_done''" by simp
  have "\<not> position_wrong v" by (rule m [of _ InconsistentScan]) (simp add: page_checks_def)
  then show "0 \<le> scan_int v ''column_offset'' \<and> scan_int v ''columns_done'' \<le> scan_int v ''x_points''"
    by (simp add: position_wrong_def)
  have "\<not> (jget v ''state'' = jstr ''complete'' \<and> (scan_int v ''columns_done'' \<noteq> scan_int v ''x_points''
       \<or> jget v ''restored'' \<noteq> JBool True \<or> truthy (jget v ''restore_failed'')))"
    by (rule m [of _ NotFinished]) (simp add: page_checks_def)
  then show "jget v ''state'' = jstr ''complete'' \<Longrightarrow>
      scan_int v ''columns_done'' = scan_int v ''x_points'' \<and> jget v ''restored'' = JBool True" by simp
qed

text \<open>C21: merging a page keeps every column received before, bit for bit, and adds only columns the
  device reports as done; each column has one count in range per threshold, and a scan that reads as
  complete has all its columns and a restored lane.\<close>

theorem eye_merge_extends:
  assumes "merge_chunk previous chunk = Inr s" and "jget chunk ''state'' \<noteq> jstr ''idle''"
    and "distinct (map fst (entries chunk))"
    and "\<And>p. previous = Some p \<Longrightarrow> scan_ok (es_value p)"
  shows "scan_ok (es_value s) \<and> (case previous of None \<Rightarrow> True | Some p \<Rightarrow>
      take (length (scan_rows (es_value p))) (scan_rows (es_value s)) = scan_rows (es_value p)
      \<and> scan_int (es_value p) ''columns_done'' \<le> scan_int (es_value s) ''columns_done'')"
proof -
  let ?old = "case previous of None \<Rightarrow> JObj [] | Some p \<Rightarrow> es_value p"
  from merge_chunkD [OF assms(1,2)] obtain pts where
    page: "first_failure (page_checks chunk) = None" and s: "es_value s = merged_value ?old chunk pts"
    and rows: "merge_rows (scan_rows ?old) (nat (scan_int chunk ''column_offset'')) (scan_rows chunk) = Inr pts"
    and off: "nat (scan_int chunk ''column_offset'') \<le> length (scan_rows ?old)"
    and same: "\<forall>p. previous = Some p \<and> entries (es_value p) \<noteq> [] \<longrightarrow>
           list_all (\<lambda>name. py_eq (jget (es_value p) name) (jget chunk name)) SCAN_IDENTITY
           \<and> scan_int (es_value p) ''columns_done'' \<le> scan_int chunk ''columns_done''"
    by blast
  note ext = merge_rows_extends [OF rows off] and lim = page_limits [OF page] and facts = page_facts [OF page]
  note get = jget_merged [OF assms(3)] and keep = limits_merged [OF page assms(3)]
  have int_keep: "scan_int (es_value s) ''y_points'' = scan_int chunk ''y_points''"
    "scan_int (es_value s) ''columns_done'' = scan_int chunk ''columns_done''"
    "scan_int (es_value s) ''x_points'' = scan_int chunk ''x_points''"
    by (simp_all add: s scan_int_def keep [OF eye_limit(1)] keep [OF eye_limit(2)] keep [OF eye_limit(3)])
  have sr: "scan_rows (es_value s) = pts" by (simp add: s scan_rows_def get(2))
  have old: "list_all (row_ok (scan_int chunk ''y_points'')) (scan_rows ?old)
      \<and> int (length (scan_rows ?old)) \<le> scan_int chunk ''columns_done''"
  proof (cases previous)
    case None
    then show ?thesis using facts(2,3) by (simp add: scan_rows_def jget_def)
  next
    case (Some p)
    note ok = assms(4) [OF Some, unfolded scan_ok_def]
    have sm: "list_all (\<lambda>name. py_eq (jget (es_value p) name) (jget chunk name)) SCAN_IDENTITY
        \<and> scan_int (es_value p) ''columns_done'' \<le> scan_int chunk ''columns_done''"
      using same Some ok by blast
    have "scan_int (es_value p) ''y_points'' = scan_int chunk ''y_points''"
      by (rule same_geometry [OF _ _ _ lim [OF eye_limit(1)]])
        (use ok sm eye_limit(1) in \<open>auto simp: SCAN_IDENTITY_def\<close>)
    with ok sm Some show ?thesis by auto
  qed
  have kept: "case previous of None \<Rightarrow> True | Some p \<Rightarrow>
      take (length (scan_rows (es_value p))) (scan_rows (es_value s)) = scan_rows (es_value p)
      \<and> scan_int (es_value p) ''columns_done'' \<le> scan_int (es_value s) ''columns_done''"
    using ext same assms(4) int_keep by (auto simp: sr scan_ok_def split: option.splits)
  have "int_between low high (jget (es_value s) name)" if "(name, low, high) \<in> set EYE_LIMITS" for name low high
  proof (cases "name = ''column_offset''")
    case True
    then show ?thesis using that get(3) by (auto simp: s EYE_LIMITS_def)
  next
    case False
    then show ?thesis using keep [OF that False] lim [OF that] by (simp add: s)
  qed
  moreover have "list_all (row_ok (scan_int chunk ''y_points'')) pts"
    using ext old facts(1) by (auto simp: list_all_iff)
  moreover have "int (length pts) \<le> scan_int chunk ''columns_done''" using ext old facts(2,3) by auto
  moreover have "jget (es_value s) ''state'' = jstr ''complete'' \<longrightarrow>
      int (length pts) = scan_int chunk ''x_points'' \<and> jget (es_value s) ''restored'' = JBool True"
    using get(4) [of ?old pts] facts(4) get(1) [of "''restored''" ?old pts] by (auto simp: s COMPUTED_def split: if_splits)
  moreover have "entries (es_value s) \<noteq> []" by (simp add: s merged_nonempty)
  ultimately have "scan_ok (es_value s)"
    using facts(3) by (auto simp: scan_ok_def sr int_keep)
  with kept show ?thesis by simp
qed

definition sample_page :: "int \<Rightarrow> int \<Rightarrow> json list \<Rightarrow> json" where
  "sample_page done offset rows = JObj
     [(''id'', JStr (replicate 32 97)), (''state'', jstr ''running''), (''port'', JInt 5), (''epl'', JInt 1), (''lane'', JInt 0),
      (''source'', jstr ''simulator''), (''signal_source'', jstr ''external''), (''x_resolution'', JInt 16),
      (''x_points'', JInt 33), (''y_points'', JInt 32), (''y_step'', JInt 8), (''y_min'', JInt (- 128)),
      (''dwell_bits'', JInt 100000), (''columns_done'', JInt done), (''column_offset'', JInt offset),
      (''errors'', JList rows), (''started_at'', JInt 5), (''measurement'', jstr ''offset-sampler-xor''),
      (''vertical_unit'', jstr ''DAC'')]"

lemma sample_merged:
  "case merge_chunk None (sample_page 2 0 [JList (replicate 32 (JInt 7))]) of Inl _ \<Rightarrow> False
   | Inr s \<Rightarrow> length (scan_rows (es_value s)) = 1"
  by code_simp

theorem eye_merge_extends_witness:
  "\<exists>s. merge_chunk None (sample_page 2 0 [JList (replicate 32 (JInt 7))]) = Inr s \<and> scan_ok (es_value s)
     \<and> length (scan_rows (es_value s)) = 1"
proof -
  let ?page = "sample_page 2 0 [JList (replicate 32 (JInt 7))]"
  obtain s where s: "merge_chunk None ?page = Inr s" "length (scan_rows (es_value s)) = 1"
    using sample_merged by (auto split: sum.splits)
  have "distinct (map fst (entries ?page))" "jget ?page ''state'' \<noteq> jstr ''idle''"
    by (simp_all add: sample_page_def jget_def)
  from eye_merge_extends [OF s(1) this(2,1)] s show ?thesis by auto
qed

subsection \<open>The opening\<close>

lemma walk_down_spec:
  "walk_down ok n \<le> n" "walk_down ok n \<le> i \<Longrightarrow> i < n \<Longrightarrow> ok i" "walk_down ok n = 0 \<or> \<not> ok (walk_down ok n - 1)"
  by (induction n arbitrary: i) (auto simp: less_Suc_eq split: if_splits)

lemma walk_up_spec:
  "n \<le> walk_up ok bound n \<and> (n < bound \<longrightarrow> walk_up ok bound n < bound)
   \<and> (\<forall>i. n < i \<and> i \<le> walk_up ok bound n \<longrightarrow> ok i)
   \<and> (walk_up ok bound n + 1 < bound \<longrightarrow> \<not> ok (walk_up ok bound n + 1))"
proof (induction ok bound n rule: walk_up.induct)
  case (1 ok bound n)
  show ?case
  proof (cases "n + 1 < bound \<and> ok (n + 1)")
    case True
    with 1 show ?thesis
      by (simp add: walk_up.simps [of ok bound n])
        (metis Suc_leI Suc_le_lessD le_eq_less_or_eq)
  next
    case False
    then show ?thesis by (auto simp: walk_up.simps [of ok bound n])
  qed
qed

text \<open>The reported eye width spans the longest run of phases around the centre whose error count at
  the centre threshold is at most one in ten thousand: every phase in the run is open, the next one on
  either side is not, unless the run is clipped by the edge of the scan.\<close>

theorem eye_width_maximal:
  assumes "metrics v = Some m" and "em_opening m = Some opening"
    and "scan_int v ''x_points'' = 2 * scan_int v ''x_resolution'' + 1"
  defines "ok \<equiv> \<lambda>x. 10000 * count_at (scan_rows v) x (nat (128 div scan_int v ''y_step'')) \<le> scan_int v ''dwell_bits''"
  shows "\<exists>left right. left \<le> nat (scan_int v ''x_resolution'') \<and> nat (scan_int v ''x_resolution'') \<le> right
    \<and> right < length (scan_rows v) \<and> (\<forall>x. left \<le> x \<and> x \<le> right \<longrightarrow> ok x)
    \<and> (eo_width_clipped opening \<or> \<not> ok (left - 1) \<and> \<not> ok (right + 1))
    \<and> eo_width opening = of_int (int right - int left) / of_int (scan_int v ''x_resolution'')
    \<and> 0 \<le> eo_width opening \<and> eo_width opening \<le> 2"
proof -
  let ?x0 = "nat (scan_int v ''x_resolution'')" and ?n = "length (scan_rows v)"
  define left where "left = walk_down ok ?x0"
  define right where "right = walk_up ok ?n ?x0"
  have fin: "jget v ''state'' = jstr ''complete'' \<and> int ?n = scan_int v ''x_points''"
    using assms(1) by (simp add: metrics_def Let_def split: if_splits)
  then have x0: "?x0 < ?n" "0 \<le> scan_int v ''x_resolution''" using assms(3) by linarith+
  let ?c = "count_at (scan_rows v) ?x0 (nat (128 div scan_int v ''y_step''))"
  have "em_opening m = (if point_open (scan_int v ''dwell_bits'') ?c
      then Some (eye_opening_of (scan_rows v) (scan_int v ''dwell_bits'') (scan_int v ''x_resolution'') (scan_int v ''y_step''))
      else None)"
    using assms(1) by (simp add: metrics_def Let_def split: if_splits) (erule subst [of _ m], simp)+
  then have centre: "ok ?x0" and op: "opening =
      eye_opening_of (scan_rows v) (scan_int v ''dwell_bits'') (scan_int v ''x_resolution'') (scan_int v ''y_step'')"
    using assms(2) by (simp_all add: ok_def point_open_def split: if_splits)
  have o: "eo_width opening = of_int (int right - int left) / of_int (scan_int v ''x_resolution'')"
    "eo_width_clipped opening \<longleftrightarrow> left = 0 \<or> right = ?n - 1"
    by (simp_all add: op eye_opening_of_def Let_def left_def right_def ok_def point_open_def)
  note l = walk_down_spec [where ok = ok and n = ?x0, folded left_def]
    and r = walk_up_spec [of ?x0 ok ?n, folded right_def]
  have range: "left \<le> ?x0" "?x0 \<le> right" "right < ?n" using l(1) r x0(1) by auto
  have run: "ok x" if "left \<le> x" "x \<le> right" for x
    using l(2) [of x] r centre that by (cases x ?x0 rule: linorder_cases) auto
  have edge: "eo_width_clipped opening \<or> \<not> ok (left - 1) \<and> \<not> ok (right + 1)"
    using l(3) r o(2) range(3) by auto
  have "int right - int left \<le> 2 * scan_int v ''x_resolution''" using range(3) fin assms(3) by linarith
  then have "(of_int (int right - int left) :: rat) \<le> 2 * of_int (scan_int v ''x_resolution'')"
    by (metis of_int_le_iff of_int_mult of_int_numeral)
  then have "eo_width opening \<le> 2" using x0(2) o(1)
    by (cases "scan_int v ''x_resolution'' = 0") (simp_all add: divide_le_eq)
  moreover have "0 \<le> eo_width opening" using range x0(2) o(1) by simp
  ultimately show ?thesis using range run edge o(1) by blast
qed

definition sample_scan :: json where
  "sample_scan = JObj
     [(''state'', jstr ''complete''), (''x_resolution'', JInt 16), (''x_points'', JInt 33), (''y_step'', JInt 8),
      (''dwell_bits'', JInt 100000),
      (''errors'', JList (replicate 8 (JList (replicate 32 (JInt 900))) @ replicate 17 (JList (replicate 32 (JInt 3)))
          @ replicate 8 (JList (replicate 32 (JInt 900)))))]"

lemma sample_scan_open:
  "(case metrics sample_scan of None \<Rightarrow> False | Some m \<Rightarrow> (case em_opening m of None \<Rightarrow> False | Some _ \<Rightarrow> True))
   \<and> scan_int sample_scan ''x_points'' = 2 * scan_int sample_scan ''x_resolution'' + 1"
  by code_simp

theorem eye_width_maximal_witness:
  "\<exists>m opening. metrics sample_scan = Some m \<and> em_opening m = Some opening \<and> eo_width opening \<le> 2"
proof -
  obtain m eye where m: "metrics sample_scan = Some m" "em_opening m = Some eye"
    using sample_scan_open by (auto split: option.splits)
  from eye_width_maximal [OF m] sample_scan_open m show ?thesis by blast
qed

end
