(* ===== verification/Panel_Review.thy ===== *)
theory Panel_Review
  imports Documents Board
begin

text \<open>
  What the panel shows before a commit: the differences of two configurations as JSON
  (\<^verbatim>\<open>differences\<close> of service.py) and the review of port-group changes with their VLAN side effects
  (port_modes.py). The sentences of the review are constructors that carry the interpolated values;
  the dump of a configuration to JSON is pydantic's and is a parameter.
\<close>

subsection \<open>Differences of two documents\<close>

definition all_keys :: "json \<Rightarrow> json \<Rightarrow> string list" where
  "all_keys a b = sort (remdups (map fst (entries a) @ map fst (entries b)))"

lemma jget_smaller: "k \<in> fst ` set (entries v) \<Longrightarrow> size (jget v k) < size v"
proof (cases v)
  case (JObj fs)
  assume "k \<in> fst ` set (entries v)"
  with JObj obtain x where x: "map_of fs k = Some x" by (cases "map_of fs k") (auto simp: map_of_eq_None_iff)
  then have "(k, x) \<in> set fs" by (rule map_of_SomeD)
  then have "size x < size v" unfolding JObj by (induction fs) auto
  with x JObj show ?thesis by (simp add: jget_def)
qed auto

lemma jget_no_larger: "size (jget v k) \<le> size v"
proof (cases "k \<in> fst ` set (entries v)")
  case True
  then show ?thesis using jget_smaller less_imp_le by blast
next
  case False
  then have "map_of (entries v) k = None" by (simp add: map_of_eq_None_iff)
  then show ?thesis by (simp add: jget_def)
qed

lemma set_all_keys: "k \<in> set (all_keys a b) \<longleftrightarrow> k \<in> fst ` set (entries a) \<or> k \<in> fst ` set (entries b)"
  by (simp add: all_keys_def)

lemma all_keys_smaller:
  assumes "k \<in> set (all_keys a b)"
  shows "size (jget a k) + size (jget b k) < size a + size b"
proof -
  from assms have "k \<in> fst ` set (entries a) \<or> k \<in> fst ` set (entries b)" by (simp only: set_all_keys)
  then show ?thesis
    using jget_smaller [of k a] jget_smaller [of k b] jget_no_larger [of a k] jget_no_larger [of b k] by linarith
qed

function differences :: "json \<Rightarrow> json \<Rightarrow> string \<Rightarrow> (string \<times> json \<times> json) list" where
  "differences before after path =
     (if is_object before \<and> is_object after
      then concat (map (\<lambda>key. differences (jget before key) (jget after key) (path @ ''/'' @ key))
             (all_keys before after))
      else if \<not> py_eq before after then [(path, before, after)] else [])"
  by auto
termination
  by (relation "measure (\<lambda>(a, b, _). size a + size b)") (auto dest: all_keys_smaller)

declare differences.simps [simp del]

text \<open>The value a path of keys leads to, and the paths that stay inside both documents: all along them
  both are objects, and each step is a key that at least one of the two has.\<close>

fun at_path :: "json \<Rightarrow> string list \<Rightarrow> json" where
  "at_path v [] = v"
| "at_path v (k # ks) = at_path (jget v k) ks"

fun common_path :: "json \<Rightarrow> json \<Rightarrow> string list \<Rightarrow> bool" where
  "common_path a b [] \<longleftrightarrow> True"
| "common_path a b (k # ks) \<longleftrightarrow> is_object a \<and> is_object b
     \<and> (k \<in> fst ` set (entries a) \<or> k \<in> fst ` set (entries b))
     \<and> common_path (jget a k) (jget b k) ks"

definition path_text :: "string list \<Rightarrow> string" where
  "path_text ks = concat (map (\<lambda>k. ''/'' @ k) ks)"

definition differs_at :: "json \<Rightarrow> json \<Rightarrow> string list \<Rightarrow> bool" where
  "differs_at a b ks \<longleftrightarrow> common_path a b ks \<and> \<not> (is_object (at_path a ks) \<and> is_object (at_path b ks))
     \<and> \<not> py_eq (at_path a ks) (at_path b ks)"

lemma differs_at_Nil: "differs_at a b [] \<longleftrightarrow> \<not> (is_object a \<and> is_object b) \<and> \<not> py_eq a b"
  by (simp add: differs_at_def)

lemma differs_at_Cons:
  "differs_at a b (k # ks) \<longleftrightarrow> is_object a \<and> is_object b \<and> k \<in> set (all_keys a b)
     \<and> differs_at (jget a k) (jget b k) ks"
  unfolding set_all_keys by (auto simp: differs_at_def)

lemma differences_at:
  "set (differences a b path) = {(path @ path_text ks, at_path a ks, at_path b ks) | ks. differs_at a b ks}"
proof (induction a b path rule: differences.induct)
  case (1 a b path)
  show ?case
  proof (cases "is_object a \<and> is_object b")
    case True
    with 1 have "set (differences a b path)
        = (\<Union>k \<in> set (all_keys a b). {((path @ ''/'' @ k) @ path_text ks, at_path (jget a k) ks, at_path (jget b k) ks)
            | ks. differs_at (jget a k) (jget b k) ks})"
      by (simp add: differences.simps [of a b])
    also have "\<dots> = {(path @ path_text ks, at_path a ks, at_path b ks) | ks. differs_at a b ks}"
    proof (intro set_eqI iffI)
      fix x assume "x \<in> (\<Union>k \<in> set (all_keys a b). {((path @ ''/'' @ k) @ path_text ks, at_path (jget a k) ks, at_path (jget b k) ks)
            | ks. differs_at (jget a k) (jget b k) ks})"
      then obtain k ks where k: "k \<in> set (all_keys a b)" "differs_at (jget a k) (jget b k) ks"
        "x = ((path @ ''/'' @ k) @ path_text ks, at_path (jget a k) ks, at_path (jget b k) ks)" by blast
      then have "differs_at a b (k # ks)" "x = (path @ path_text (k # ks), at_path a (k # ks), at_path b (k # ks))"
        using True by (simp_all add: differs_at_Cons path_text_def)
      then show "x \<in> {(path @ path_text ks, at_path a ks, at_path b ks) | ks. differs_at a b ks}" by blast
    next
      fix x assume "x \<in> {(path @ path_text ks, at_path a ks, at_path b ks) | ks. differs_at a b ks}"
      then obtain ks where ks: "differs_at a b ks" "x = (path @ path_text ks, at_path a ks, at_path b ks)" by blast
      then obtain k js where "ks = k # js" using True by (cases ks) (auto simp: differs_at_Nil)
      with ks show "x \<in> (\<Union>k \<in> set (all_keys a b). {((path @ ''/'' @ k) @ path_text ks, at_path (jget a k) ks, at_path (jget b k) ks)
            | ks. differs_at (jget a k) (jget b k) ks})"
        by (auto simp: differs_at_Cons path_text_def)
    qed
    finally show ?thesis .
  next
    case False
    have "differs_at a b ks \<longleftrightarrow> ks = [] \<and> \<not> py_eq a b" for ks
      using False by (cases ks) (auto simp: differs_at_Nil differs_at_Cons)
    with False show ?thesis by (auto simp: differences.simps [of a b] path_text_def)
  qed
qed

subsection \<open>Review of port-group changes\<close>

datatype vlan_part = Native int | Tagged "int list"

definition vlan_parts :: "int option \<Rightarrow> int list \<Rightarrow> vlan_part list" where
  "vlan_parts pvid tagged =
     (case pvid of None \<Rightarrow> [] | Some v \<Rightarrow> [Native v]) @ (if tagged \<noteq> [] then [Tagged tagged] else [])"

definition vlan_description :: "port_config \<Rightarrow> vlan_part list" where
  "vlan_description p = vlan_parts (pc_pvid p) (pc_tagged_vlans p)"

definition backup_description :: "port_group \<Rightarrow> (int \<times> vlan_part list \<times> bool) list option" where
  "backup_description g = map_option
     (\<lambda>backup. map (\<lambda>(lane, b). (base_of (pg_epl g) + lane, vlan_parts (sb_pvid b) (sb_tagged_vlans b), sb_enabled b))
        (enumerate_int backup)) (pg_split_vlan_backup g)"

datatype review_note = SavesSplit int | RestoresSplit | SkipsVlans int "int list" | NoSplitRecord

record review_row =
  rr_port :: int
  rr_before :: "vlan_part list"
  rr_after :: "vlan_part list"
  rr_was_active :: bool
  rr_active :: bool
  rr_enabled_before :: bool
  rr_enabled_after :: bool

record group_change =
  gc_epl :: int
  gc_before_mode :: group_mode
  gc_after_mode :: group_mode
  gc_rows :: "review_row list"
  gc_notes :: "review_note list"

definition review_row_of ::
  "switch_configuration \<Rightarrow> switch_configuration \<Rightarrow> port_group \<Rightarrow> port_group \<Rightarrow> int \<Rightarrow> review_row" where
  "review_row_of before after previous g port =
     (let a = port_of before port; b = port_of after port in
      \<lparr>rr_port = port, rr_before = vlan_description a, rr_after = vlan_description b,
       rr_was_active = (port \<in> set (group_active_ports previous)), rr_active = (port \<in> set (group_active_ports g)),
       rr_enabled_before = pc_enabled a, rr_enabled_after = pc_enabled b\<rparr>)"

definition missing_vlans :: "int list \<Rightarrow> split_vlan_backup \<Rightarrow> int list" where
  "missing_vlans existing b =
     sort (remdups (filter (\<lambda>v. v \<notin> set existing)
       ((case sb_pvid b of None \<Rightarrow> [] | Some v \<Rightarrow> [v]) @ sb_tagged_vlans b)))"

definition review_notes :: "int list \<Rightarrow> port_group \<Rightarrow> port_group \<Rightarrow> review_note list" where
  "review_notes existing previous g =
     (let base = base_of (pg_epl g) in
      (if pg_mode previous = Split \<and> pg_split_vlan_backup g \<noteq> None then [SavesSplit base] else [])
      @ (if pg_mode g = Split
         then (case pg_split_vlan_backup previous of
             None \<Rightarrow> [NoSplitRecord]
           | Some backup \<Rightarrow> RestoresSplit # concat (map (\<lambda>(lane, b).
               if missing_vlans existing b \<noteq> [] then [SkipsVlans (base + lane) (missing_vlans existing b)] else [])
               (enumerate_int backup)))
         else []))"

definition group_change_of ::
  "switch_configuration \<Rightarrow> switch_configuration \<Rightarrow> port_group \<Rightarrow> port_group \<Rightarrow> group_change" where
  "group_change_of before after previous g =
     (let base = base_of (pg_epl g) in
      \<lparr>gc_epl = pg_epl g, gc_before_mode = pg_mode previous, gc_after_mode = pg_mode g,
       gc_rows = map (review_row_of before after previous g) [base, base + 1, base + 2, base + 3],
       gc_notes = review_notes (map vl_id (sc_vlans after)) previous g\<rparr>)"

text \<open>\<^verbatim>\<open>old[group.epl]\<close> of a missing EPL raises; a validated configuration has all of them.\<close>

definition group_changes :: "switch_configuration \<Rightarrow> switch_configuration \<Rightarrow> group_change list" where
  "group_changes before after =
     concat (map (\<lambda>g. case group_of before (pg_epl g) of
         None \<Rightarrow> []
       | Some previous \<Rightarrow> if pg_mode g = pg_mode previous then [] else [group_change_of before after previous g])
       (sc_groups after))"

datatype change_value =
  Plain json | ModeValue group_mode | SpeedsValue "int list"
| BackupValue "(int \<times> vlan_part list \<times> bool) list option"

datatype change_label = GroupMode int | GroupSpeeds int | GroupBackup int | RoceField string | PortField string string

record change =
  ch_path :: string
  ch_label :: "change_label option"
  ch_before :: change_value
  ch_after :: change_value

definition group_path :: "int \<Rightarrow> string \<Rightarrow> string" where
  "group_path epl key = ''/groups/'' @ decimal_int epl @ ''/'' @ key"

definition group_value_changes :: "port_group \<Rightarrow> port_group \<Rightarrow> change list" where
  "group_value_changes previous g =
     (let epl = pg_epl g in
      (if pg_mode previous \<noteq> pg_mode g
       then [\<lparr>ch_path = group_path epl ''mode'', ch_label = Some (GroupMode epl),
              ch_before = ModeValue (pg_mode previous), ch_after = ModeValue (pg_mode g)\<rparr>] else [])
      @ (if pg_lane_speeds previous \<noteq> pg_lane_speeds g
         then [\<lparr>ch_path = group_path epl ''lane_speeds'', ch_label = Some (GroupSpeeds epl),
              ch_before = SpeedsValue (pg_lane_speeds previous), ch_after = SpeedsValue (pg_lane_speeds g)\<rparr>] else [])
      @ (if pg_split_vlan_backup previous \<noteq> pg_split_vlan_backup g
         then [\<lparr>ch_path = group_path epl ''split_vlan_backup'', ch_label = Some (GroupBackup epl),
              ch_before = BackupValue (backup_description previous),
              ch_after = BackupValue (backup_description g)\<rparr>] else []))"

text \<open>\<^verbatim>\<open>path.strip("/").split("/")\<close>\<close>

fun split_slash :: "string \<Rightarrow> string list" where
  "split_slash [] = [[]]"
| "split_slash (c # cs) = (if c = CHR ''/'' then [] # split_slash cs
     else (case split_slash cs of [] \<Rightarrow> [[c]] | w # ws \<Rightarrow> (c # w) # ws))"

definition path_parts :: "string \<Rightarrow> string list" where
  "path_parts p = (let slash = (\<lambda>c. c = CHR ''/'') in
     split_slash (rev (dropWhile slash (rev (dropWhile slash p)))))"

definition with_label :: "change \<Rightarrow> change" where
  "with_label c = (case path_parts (ch_path c) of
     [x, y, z] \<Rightarrow> if x = ''qos'' \<and> y = ''roce'' then c\<lparr>ch_label := Some (RoceField z)\<rparr>
        else if x = ''ports'' \<and> z \<in> {''enabled'', ''pvid'', ''tagged_vlans'', ''vlan_mode'', ''ingress_filtering''}
        then c\<lparr>ch_label := Some (PortField y z)\<rparr> else c
   | x # y # z # _ \<Rightarrow> if x = ''qos'' \<and> y = ''roce'' then c\<lparr>ch_label := Some (RoceField z)\<rparr> else c
   | _ \<Rightarrow> c)"

definition without_groups :: "json \<Rightarrow> json" where
  "without_groups v = JObj (dict_del (entries v) ''groups'')"

definition configuration_changes ::
  "(switch_configuration \<Rightarrow> json) \<Rightarrow> switch_configuration \<Rightarrow> switch_configuration \<Rightarrow> change list" where
  "configuration_changes dump before after =
     map with_label
       (map (\<lambda>(p, a, b). \<lparr>ch_path = p, ch_label = None, ch_before = Plain a, ch_after = Plain b\<rparr>)
          (differences (without_groups (dump before)) (without_groups (dump after)) [])
        @ concat (map (\<lambda>g. case group_of before (pg_epl g) of None \<Rightarrow> [] | Some previous \<Rightarrow> group_value_changes previous g)
            (sc_groups after)))"

end
