(* ===== verification/Roce_Preflight.thy ===== *)
theory Roce_Preflight
  imports Switch_Config Documents
begin

text \<open>
  \<^verbatim>\<open>preflight\<close> of roce.py: the explanation of a RoCE draft that may still be invalid. The draft is
  validated with RoCE switched off, the issues of the requested policy are listed, and every setting
  that can be repaired mechanically comes with a suggestion. Labels are left out; a suggestion is the
  setting and its new value.
\<close>

datatype suggestion =
  SetEnabled int | ClearIngress int | ClearEgress int | SetPortLldp int | SetPriorityMap "int list"
| SetDefaultPriority int | SetLldp | SetTrustNone

datatype row_reason = Eligible | InactiveSlot | LagMember | UnsupportedSpeed

record preflight_row =
  pf_port :: int
  pf_epl :: int
  pf_obt :: int
  pf_speed_gbps :: int
  pf_reason :: row_reason
  pf_enabled :: bool
  pf_mtu :: int
  pf_tagged_vlans :: "int list"
  pf_headroom_bytes :: "int option"

datatype preflight_warning = ChipWide | MtuMismatch

record preflight_report =
  pf_valid :: bool
  pf_issues :: "roce_issue list"
  pf_warnings :: "preflight_warning list"
  pf_rows :: "preflight_row list"
  pf_dscp_map :: "int list"
  pf_dcbx_policy :: dcbx_policy
  pf_suggestions :: "suggestion list"
  pf_common_vlans :: "int list"
  pf_budget :: buffer_budget
  pf_affected_epls :: "int list"

definition row_reason_of :: "switch_configuration \<Rightarrow> int \<Rightarrow> row_reason" where
  "row_reason_of c n = (if speed c n = 0 then InactiveSlot else if n \<in> set (lag_members c) then LagMember
     else if speed c n \<notin> {10, 25, 40, 100} then UnsupportedSpeed else Eligible)"

definition slot_numbers :: "port_group \<Rightarrow> int list" where
  "slot_numbers g = (let b = base_of (pg_epl g) in [b, b + 1, b + 2, b + 3])"

definition preflight_row_of :: "switch_configuration \<Rightarrow> port_group \<Rightarrow> int \<Rightarrow> preflight_row" where
  "preflight_row_of c g n =
     (let p = port_of c n; r = qo_roce (sc_qos c) in
      \<lparr>pf_port = n, pf_epl = pg_epl g, pf_obt = ph_mpo (physical_of (pg_epl g)), pf_speed_gbps = speed c n,
       pf_reason = row_reason_of c n, pf_enabled = pc_enabled p, pf_mtu = pc_mtu p,
       pf_tagged_vlans = pc_tagged_vlans p,
       pf_headroom_bytes = (if speed c n \<noteq> 0
          then Some (headroom_bytes (speed c n) (pc_mtu p) (ro_cable_length_m r) (ro_response_time_ns r)) else None)\<rparr>)"

definition port_suggestions :: "switch_configuration \<Rightarrow> int \<Rightarrow> suggestion list" where
  "port_suggestions c n =
     (let p = port_of c n; r = qo_roce (sc_qos c) in
      if ro_enabled r \<and> n \<in> set (ro_ports r) \<and> row_reason_of c n = Eligible
      then (if pc_enabled p then [] else [SetEnabled n])
         @ (if pc_ingress_kbps p = 0 then [] else [ClearIngress n])
         @ (if ro_classification r = Dscp \<and> pc_egress_kbps p \<noteq> 0 then [ClearEgress n] else [])
         @ (if ro_dcbx r = DcbxIeee \<and> \<not> pc_lldp p then [SetPortLldp n] else [])
      else [])"

definition suggested_map :: "classification \<Rightarrow> int list \<Rightarrow> int list" where
  "suggested_map cl priority_map =
     (let free = (\<lambda>tc keep m. map (\<lambda>(i, t). if t = tc \<and> i \<noteq> keep then 0 else t) (enumerate_int m));
          m = (free 3 3 priority_map)[3 := 3]
      in if cl = Dscp
         then (free CNP_TC CNP_PRIORITY (if m ! 7 = CNP_TC then m[7 := 6] else m))[nat CNP_PRIORITY := CNP_TC]
         else m)"

definition global_suggestions :: "switch_configuration \<Rightarrow> suggestion list" where
  "global_suggestions c =
     (let q = sc_qos c; r = qo_roce q; m = suggested_map (ro_classification r) (qo_priority_map q) in
      if \<not> ro_enabled r then []
      else (if m \<noteq> qo_priority_map q then [SetPriorityMap m] else [])
         @ (if qo_default_priority q = 3 then [SetDefaultPriority 0] else [])
         @ (if ro_classification r = Dscp \<and> qo_default_priority q = 6 then [SetDefaultPriority 0] else [])
         @ (if ro_dcbx r = DcbxIeee \<and> \<not> ll_enabled (sc_lldp c) then [SetLldp] else [])
         @ (if IssueTrustConflict \<in> set (configuration_issues c) \<and> qo_trust q \<noteq> TrustNone then [SetTrustNone] else []))"

definition preflight_of :: "switch_configuration \<Rightarrow> preflight_report" where
  "preflight_of c =
     (let r = qo_roce (sc_qos c); slots = concat (map (\<lambda>g. map (\<lambda>n. (g, n)) (slot_numbers g)) (sc_groups c)) in
      \<lparr>pf_valid = (configuration_issues c = []), pf_issues = configuration_issues c,
       pf_warnings = ChipWide # (if length (remdups (map (\<lambda>n. pc_mtu (port_of c n)) (ro_ports r))) > 1
                                 then [MtuMismatch] else []),
       pf_rows = map (\<lambda>(g, n). preflight_row_of c g n) slots,
       pf_dscp_map = dscp_map c, pf_dcbx_policy = dcbx_policy_of c,
       pf_suggestions = concat (map (\<lambda>(g, n). port_suggestions c n) slots) @ global_suggestions c,
       pf_common_vlans = sort (remdups (common_vlans c)), pf_budget = buffer_budget (max_mtu c),
       pf_affected_epls = EPLS\<rparr>)"

subsection \<open>Drafts as documents\<close>

datatype preflight_problem = NotObjects | EnabledNotBool | DraftInvalid config_error

definition set_roce_enabled :: "bool \<Rightarrow> switch_configuration \<Rightarrow> switch_configuration" where
  "set_roce_enabled b c = c\<lparr>sc_qos := (sc_qos c)\<lparr>qo_roce := (qo_roce (sc_qos c))\<lparr>ro_enabled := b\<rparr>\<rparr>\<rparr>"

definition member_or :: "json \<Rightarrow> string \<Rightarrow> json \<Rightarrow> json" where
  "member_or v name fallback = (case map_of (entries v) name of None \<Rightarrow> fallback | Some x \<Rightarrow> x)"

definition with_member :: "json \<Rightarrow> string \<Rightarrow> json \<Rightarrow> json" where
  "with_member v name x = JObj (dict_set (entries v) name x)"

text \<open>\<open>load\<close> is pydantic's parser followed by the validation of the model.\<close>

definition preflight ::
  "(json \<Rightarrow> config_error + switch_configuration) \<Rightarrow> json \<Rightarrow> preflight_problem + preflight_report" where
  "preflight load raw =
     (let q = member_or raw ''qos'' (JObj []); r = member_or q ''roce'' (JObj []);
          requested = member_or r ''enabled'' (JBool False);
          candidate = with_member raw ''qos'' (with_member q ''roce'' (with_member r ''enabled'' (JBool False)))
      in if \<not> is_object q \<or> \<not> is_object r then Inl NotObjects
         else case load candidate of
             Inl e \<Rightarrow> Inl (DraftInvalid e)
           | Inr c \<Rightarrow> (case requested of
                 JBool b \<Rightarrow> Inr (preflight_of (set_roce_enabled b c))
               | _ \<Rightarrow> Inl EnabledNotBool))"

end
