(* ===== verification/Review_Properties.thy ===== *)
theory Review_Properties
  imports Panel_Review Roce_Preflight
begin

text \<open>
  Properties of what an operator reviews before a commit: the listed differences are exactly the
  places where two documents differ, and the suggested priority map is one the RoCE policy accepts.
\<close>

text \<open>C22: the differences of two documents are exact. A path is listed, with the values it leads to on
  both sides, if and only if both documents are objects all along it, each of its keys belongs to at
  least one of the two, its ends are not both objects and the ends differ. So a setting that only one
  of the two documents has is listed too, and the recursion ends for every pair of documents.\<close>

theorem differences_exact:
  "set (differences a b []) = {(path_text ks, at_path a ks, at_path b ks) | ks. differs_at a b ks}"
  using differences_at [of a b "[]"] by simp

lemma eight: "length xs = 8 \<Longrightarrow> \<exists>a b c d e f g h. xs = [a, b, c, d, e, f, g, h]"
  by (auto simp: numeral_eq_Suc length_Suc_conv)

text \<open>The suggested priority map satisfies what the policy demands of it, for every map of eight
  traffic classes: priority 3 alone uses class 3 and, with DSCP classification, priority 6 alone uses
  class 7. The classes stay in range, and applying the suggestion twice changes nothing more.\<close>

theorem suggested_map_accepted:
  assumes "length m = 8" and "list_all (\<lambda>t. 0 \<le> t \<and> t \<le> 7) m"
  shows "length (suggested_map cl m) = 8 \<and> list_all (\<lambda>t. 0 \<le> t \<and> t \<le> 7) (suggested_map cl m)
    \<and> reserves (suggested_map cl m) 3 3 \<and> (cl = Dscp \<longrightarrow> reserves (suggested_map cl m) CNP_PRIORITY CNP_TC)
    \<and> suggested_map cl (suggested_map cl m) = suggested_map cl m"
proof -
  from eight [OF assms(1)] obtain a b c d e f g h where m: "m = [a, b, c, d, e, f, g, h]" by blast
  show ?thesis
    using assms(2) unfolding m
    by (cases cl) (auto simp: suggested_map_def reserves_def enumerate_int_def Let_def CNP_TC_def CNP_PRIORITY_def)
qed

theorem suggested_map_accepted_witness:
  "reserves (suggested_map Dscp [0, 1, 2, 3, 3, 5, 6, 7]) CNP_PRIORITY CNP_TC
    \<and> suggested_map Dscp [0, 1, 2, 3, 3, 5, 6, 7] = [0, 1, 2, 3, 0, 5, 7, 6]"
  using suggested_map_accepted [of "[0, 1, 2, 3, 3, 5, 6, 7]" Dscp]
  by (simp add: Let_def suggested_map_def enumerate_int_def CNP_TC_def CNP_PRIORITY_def)

end
