(* ===== verification/Owner_Queue.thy ===== *)
theory Owner_Queue
  imports Prelude
begin

text \<open>
  \<^verbatim>\<open>OwnerQueue\<close> of service.py: a bounded priority queue with one worker. Entries are ordered by
  priority, then by submission; a key suppresses a second submission while the first is waiting or
  running. The queue is kept in the order its entries are taken.
\<close>

datatype queue_error = QueueStopping | QueueOverflow

record 't queue_item =
  qi_priority :: int
  qi_sequence :: nat
  qi_task :: 't
  qi_key :: "string option"

record 't owner_queue =
  oq_items :: "'t queue_item list"
  oq_sequence :: nat
  oq_keys :: "string list"
  oq_stopping :: bool
  oq_finalized :: bool

definition QUEUE_CAPACITY :: nat where "QUEUE_CAPACITY = 32"

definition empty_queue :: "'t owner_queue" where
  "empty_queue = \<lparr>oq_items = [], oq_sequence = 0, oq_keys = [], oq_stopping = False, oq_finalized = False\<rparr>"

definition item_rank :: "'t queue_item \<Rightarrow> int \<times> nat" where
  "item_rank i = (qi_priority i, qi_sequence i)"

text \<open>
  \<^verbatim>\<open>submit\<close>: the sequence number is consumed also when the queue turns out to be full. The result says
  whether a future was created (a duplicate key gives none).
\<close>

definition submit :: "'t \<Rightarrow> int \<Rightarrow> string option \<Rightarrow> ('t owner_queue, queue_error, bool) action" where
  "submit task priority key = with_state (\<lambda>q.
     if oq_stopping q then raise_error QueueStopping
     else if (case key of None \<Rightarrow> False | Some k \<Rightarrow> k \<in> set (oq_keys q)) then ret False
     else then_action (modify_state (\<lambda>q. q\<lparr>oq_sequence := oq_sequence q + 1\<rparr>))
       (if length (oq_items q) \<ge> QUEUE_CAPACITY then raise_error QueueOverflow
        else then_action (modify_state (\<lambda>q'. q'\<lparr>
            oq_items := insort_key item_rank \<lparr>qi_priority = priority, qi_sequence = oq_sequence q, qi_task = task, qi_key = key\<rparr> (oq_items q'),
            oq_keys := (case key of None \<Rightarrow> oq_keys q' | Some k \<Rightarrow> k # oq_keys q')\<rparr>))
          (ret True)))"

definition take_item :: "'t owner_queue \<Rightarrow> ('t queue_item \<times> 't owner_queue) option" where
  "take_item q = (case oq_items q of [] \<Rightarrow> None | i # is \<Rightarrow> Some (i, q\<lparr>oq_items := is\<rparr>))"

definition release_key :: "'t queue_item \<Rightarrow> 't owner_queue \<Rightarrow> 't owner_queue" where
  "release_key i q = (case qi_key i of None \<Rightarrow> q | Some k \<Rightarrow> q\<lparr>oq_keys := filter (\<lambda>k'. k' \<noteq> k) (oq_keys q)\<rparr>)"

definition stop_queue :: "'t owner_queue \<Rightarrow> 't owner_queue" where
  "stop_queue q = q\<lparr>oq_stopping := True\<rparr>"

text \<open>The worker leaves its loop, and runs the finalizer, when it is stopping and nothing waits.\<close>

definition drained :: "'t owner_queue \<Rightarrow> bool" where
  "drained q \<longleftrightarrow> oq_stopping q \<and> oq_items q = []"

definition queue_keys :: "'t queue_item list \<Rightarrow> string list" where
  "queue_keys is = concat (map (\<lambda>i. case qi_key i of None \<Rightarrow> [] | Some k \<Rightarrow> [k]) is)"

subsection \<open>Invariant\<close>

definition queue_ok :: "'t owner_queue \<Rightarrow> bool" where
  "queue_ok q \<longleftrightarrow> sorted (map item_rank (oq_items q)) \<and> length (oq_items q) \<le> QUEUE_CAPACITY
     \<and> (\<forall>i \<in> set (oq_items q). qi_sequence i < oq_sequence q)
     \<and> distinct (map qi_sequence (oq_items q))
     \<and> distinct (queue_keys (oq_items q)) \<and> set (queue_keys (oq_items q)) \<subseteq> set (oq_keys q)"

lemma queue_ok_empty [simp]: "queue_ok empty_queue"
  by (simp add: queue_ok_def empty_queue_def queue_keys_def)

lemma set_queue_keys: "set (queue_keys is) = {k. \<exists>i \<in> set is. qi_key i = Some k}"
  by (force simp: queue_keys_def split: option.splits)

lemma mset_queue_keys_insort:
  "distinct (queue_keys (insort_key f x is)) \<longleftrightarrow> distinct (queue_keys (x # is))"
proof (induction "is")
  case (Cons i "is")
  have "set (queue_keys (insort_key f x is)) = set (queue_keys (x # is))" by (simp add: set_queue_keys set_insort_key)
  with Cons show ?case by (auto simp: queue_keys_def split: option.splits)
qed simp

lemma distinct_map_insort: "distinct (map g (insort_key f x is)) \<longleftrightarrow> distinct (map g (x # is))"
  by (induction "is") (auto simp: set_insort_key)

lemma submit_run:
  "submit task priority key q =
     (if oq_stopping q then (Inl QueueStopping, q)
      else if (case key of None \<Rightarrow> False | Some k \<Rightarrow> k \<in> set (oq_keys q)) then (Inr False, q)
      else if length (oq_items q) \<ge> QUEUE_CAPACITY then (Inl QueueOverflow, q\<lparr>oq_sequence := oq_sequence q + 1\<rparr>)
      else (Inr True, q\<lparr>oq_sequence := oq_sequence q + 1,
            oq_items := insort_key item_rank \<lparr>qi_priority = priority, qi_sequence = oq_sequence q, qi_task = task, qi_key = key\<rparr> (oq_items q),
            oq_keys := (case key of None \<Rightarrow> oq_keys q | Some k \<Rightarrow> k # oq_keys q)\<rparr>))"
  by (simp add: submit_def monad_simps split: option.splits)

lemma submit_ok:
  assumes "queue_ok q"
  shows "queue_ok (snd (submit task priority key q))"
proof -
  let ?i = "\<lparr>qi_priority = priority, qi_sequence = oq_sequence q, qi_task = task, qi_key = key\<rparr>"
  have a: "sorted (map item_rank (insort_key item_rank ?i (oq_items q)))"
    using assms by (simp add: queue_ok_def sorted_insort_key)
  have b: "distinct (queue_keys (insort_key item_rank ?i (oq_items q)))
      \<and> set (queue_keys (insort_key item_rank ?i (oq_items q))) \<subseteq> set (case key of None \<Rightarrow> oq_keys q | Some k \<Rightarrow> k # oq_keys q)"
    if "\<not> (case key of None \<Rightarrow> False | Some k \<Rightarrow> k \<in> set (oq_keys q))"
  proof -
    have "distinct (queue_keys (?i # oq_items q))"
      using assms that by (cases key) (auto simp: queue_ok_def queue_keys_def)
    moreover have "set (queue_keys (insort_key item_rank ?i (oq_items q))) = set (queue_keys (?i # oq_items q))"
      by (simp add: set_queue_keys set_insort_key)
    moreover have "set (queue_keys (?i # oq_items q)) \<subseteq> set (case key of None \<Rightarrow> oq_keys q | Some k \<Rightarrow> k # oq_keys q)"
      using assms by (cases key) (auto simp: queue_ok_def queue_keys_def)
    ultimately show ?thesis by (simp add: mset_queue_keys_insort)
  qed
  have c: "distinct (map qi_sequence (insort_key item_rank ?i (oq_items q)))
      \<and> (\<forall>j \<in> set (insort_key item_rank ?i (oq_items q)). qi_sequence j < Suc (oq_sequence q))"
    using assms by (auto simp: queue_ok_def distinct_map_insort set_insort_key less_Suc_eq)
  let ?r = "snd (submit task priority key q)"
  have bump: "queue_ok (q\<lparr>oq_sequence := oq_sequence q + 1\<rparr>)"
    using assms unfolding queue_ok_def by (simp add: less_SucI)
  consider "?r = q" | "?r = q\<lparr>oq_sequence := oq_sequence q + 1\<rparr>"
    | "\<not> (case key of None \<Rightarrow> False | Some k \<Rightarrow> k \<in> set (oq_keys q))" "length (oq_items q) < QUEUE_CAPACITY"
      "oq_items ?r = insort_key item_rank ?i (oq_items q)" "oq_sequence ?r = Suc (oq_sequence q)"
      "oq_keys ?r = (case key of None \<Rightarrow> oq_keys q | Some k \<Rightarrow> k # oq_keys q)"
    unfolding submit_run by (cases "oq_stopping q"; cases "case key of None \<Rightarrow> False | Some k \<Rightarrow> k \<in> set (oq_keys q)";
        cases "QUEUE_CAPACITY \<le> length (oq_items q)"; simp)
  then show ?thesis
  proof cases
    case 3
    then have "length (oq_items ?r) \<le> QUEUE_CAPACITY" by simp
    then show ?thesis unfolding queue_ok_def 3(3-5) using a b [OF 3(1)] c 3(2) by (auto simp: length_insort)
  qed (use assms bump in simp_all)
qed

lemma take_itemE:
  assumes "take_item q = Some (i, q')"
  shows "oq_items q = i # oq_items q' \<and> oq_sequence q' = oq_sequence q \<and> oq_keys q' = oq_keys q"
  using assms by (auto simp: take_item_def split: list.splits)

lemma take_item_ok:
  assumes "queue_ok q" and "take_item q = Some (i, q')"
  shows "queue_ok q'" and "\<forall>j \<in> set (oq_items q'). item_rank i < item_rank j"
    and "\<forall>k. qi_key i = Some k \<longrightarrow> k \<notin> set (queue_keys (oq_items q'))"
proof -
  note i = take_itemE [OF assms(2)]
  note q = assms(1) [unfolded queue_ok_def, simplified i list.map]
  have keys: "queue_keys (i # oq_items q') = (case qi_key i of None \<Rightarrow> [] | Some k \<Rightarrow> [k]) @ queue_keys (oq_items q')"
    by (simp add: queue_keys_def)
  show "queue_ok q'" unfolding queue_ok_def using q i by (auto simp: keys)
  show "\<forall>j \<in> set (oq_items q'). item_rank i < item_rank j"
  proof
    fix j assume j: "j \<in> set (oq_items q')"
    then have "qi_sequence j \<in> qi_sequence ` set (oq_items q')" by (rule imageI)
    moreover have "qi_sequence i \<notin> qi_sequence ` set (oq_items q')" using q by auto
    ultimately have "qi_sequence j \<noteq> qi_sequence i" by metis
    moreover have "item_rank i \<le> item_rank j" using q j by auto
    ultimately have "item_rank i \<le> item_rank j" "qi_sequence j \<noteq> qi_sequence i" by simp_all
    then show "item_rank i < item_rank j" by (auto simp: item_rank_def)
  qed
  show "\<forall>k. qi_key i = Some k \<longrightarrow> k \<notin> set (queue_keys (oq_items q'))"
    using q by (auto simp: keys)
qed

lemma release_key_ok:
  assumes "queue_ok q" and "\<forall>k. qi_key i = Some k \<longrightarrow> k \<notin> set (queue_keys (oq_items q))"
  shows "queue_ok (release_key i q)"
  using assms by (auto simp: release_key_def queue_ok_def split: option.splits)

lemma stop_queue_ok [simp]: "queue_ok (stop_queue q) \<longleftrightarrow> queue_ok q"
  by (simp add: stop_queue_def queue_ok_def)

end
