(* ===== verification/Optics.thy ===== *)
theory Optics
  imports Documents Board
begin

text \<open>
  optics.py: the PHY snapshot of one EPL decoded from its XML and the receive power of its four lanes
  taken from the module report. Clock values are exact numbers; the logarithm of a power is given by
  its argument.
\<close>

definition PHY_REFRESH_SECONDS :: int where "PHY_REFRESH_SECONDS = 5"
definition PHY_STALE_SECONDS :: int where "PHY_STALE_SECONDS = 15"

definition ethernet_code :: "group_mode \<Rightarrow> int option" where
  "ethernet_code mode = (case mode of Mode40G \<Rightarrow> Some 0x70005 | Mode100G \<Rightarrow> Some 0xB0000 | Split \<Rightarrow> None)"

datatype phy_error =
  PhyMismatch | PhyModeChanged | PhyClock | PhyDuplicateField | PhyOutOfRange | PhyLaneNumber
| PhyLaneMissing | PhyNotANumber | PhyKeyError

subsection \<open>PHY snapshot\<close>

datatype field_problem = FieldStatus int | FieldMissing

record phy_fields =
  pf_values :: "(string \<times> int option) list"
  pf_errors :: "(string \<times> field_problem) list"

definition int_text :: "string \<Rightarrow> phy_error + int" where
  "int_text t = (case py_int t of None \<Rightarrow> Inl PhyNotANumber | Some n \<Rightarrow> Inr n)"

definition int_attribute :: "xml \<Rightarrow> string \<Rightarrow> phy_error + int" where
  "int_attribute node name = (case attribute node name of None \<Rightarrow> Inl PhyKeyError | Some t \<Rightarrow> int_text t)"

definition read_field :: "string list \<Rightarrow> string \<Rightarrow> xml \<Rightarrow> phy_fields \<Rightarrow> phy_error + phy_fields" where
  "read_field names prefix item found =
     (case attribute item ''name'' of
        None \<Rightarrow> Inr found
      | Some name \<Rightarrow>
          if name \<notin> set names then Inr found
          else if map_of (pf_values found) name \<noteq> None then Inl PhyDuplicateField
          else ebind (int_attribute item ''status'') (\<lambda>status.
            if status \<noteq> 0
            then Inr (found\<lparr>pf_values := pf_values found @ [(name, None)],
                            pf_errors := pf_errors found @ [(prefix @ name, FieldStatus status)]\<rparr>)
            else ebind (int_attribute item ''value'') (\<lambda>val.
              if \<not> (- (2 ^ 31) \<le> val \<and> val < 2 ^ 31) then Inl PhyOutOfRange
              else Inr (found\<lparr>pf_values := pf_values found @ [(name, Some val)]\<rparr>))))"

fun read_fields :: "string list \<Rightarrow> string \<Rightarrow> xml list \<Rightarrow> phy_fields \<Rightarrow> phy_error + phy_fields" where
  "read_fields names prefix [] found =
     (let missing = filter (\<lambda>n. map_of (pf_values found) n = None) names in
      Inr \<lparr>pf_values = pf_values found @ map (\<lambda>n. (n, None)) missing,
           pf_errors = pf_errors found @ map (\<lambda>n. (prefix @ n, FieldMissing)) missing\<rparr>)"
| "read_fields names prefix (item # items) found =
     ebind (read_field names prefix item found) (read_fields names prefix items)"

definition node_fields :: "xml \<Rightarrow> string \<Rightarrow> string list \<Rightarrow> phy_error + phy_fields" where
  "node_fields node prefix names = read_fields names prefix (children_named ''field'' node) \<lparr>pf_values = [], pf_errors = []\<rparr>"

definition field_value :: "phy_fields \<Rightarrow> string \<Rightarrow> int option" where
  "field_value f name = (case map_of (pf_values f) name of Some v \<Rightarrow> v | None \<Rightarrow> None)"

definition bit_of :: "int option \<Rightarrow> nat \<Rightarrow> bool option" where
  "bit_of v shift = map_option (\<lambda>n. bit n shift) v"

record pcs_reading =
  pcs_block_lock :: "bool option list"
  pcs_am_lock :: "bool option list"
  pcs_aligned :: "bool option"
  pcs_high_ber :: "bool option"
  pcs_raw :: "int option"

record lane_reading =
  ln_lane :: int
  ln_tx_ready :: "bool option"
  ln_rx_ready :: "bool option"
  ln_rx_idle :: "bool option"
  ln_rx_activity :: "bool option"
  ln_serdes_raw :: "int option"
  ln_values :: "(string \<times> int option) list"

datatype phy_quality = PhyPending | PhyValid | PhyPartial | PhyStale | PhyUnsupported | PhyUnavailable | PhySimulated

record phy_reading =
  ph_quality :: phy_quality
  ph_sampled_at :: "rat option"
  ph_pcs :: "pcs_reading option"
  ph_lanes :: "lane_reading list"
  ph_errors :: "(string \<times> field_problem) list"

definition pcs_of :: "int option \<Rightarrow> pcs_reading" where
  "pcs_of v = \<lparr>pcs_block_lock = map (\<lambda>lane. bit_of v (8 + lane)) [0, 1, 2, 3],
     pcs_am_lock = map (\<lambda>lane. bit_of v (22 + lane)) [0, 1, 2, 3],
     pcs_aligned = bit_of v 21, pcs_high_ber = bit_of v 20, pcs_raw = map_option (take_bit 32) v\<rparr>"

definition LANE_FIELDS :: "string list" where
  "LANE_FIELDS = [''lane_serdes_status'', ''tx_pre'', ''tx_cursor'', ''tx_post'', ''rx_polarity'', ''tx_polarity'',
     ''rx_termination'', ''dfe_mode'', ''coarse_dfe'', ''fine_dfe'', ''signal_transition_threshold'']"

definition lane_of :: "int \<Rightarrow> phy_fields \<Rightarrow> lane_reading" where
  "lane_of lane f = (let status = field_value f ''lane_serdes_status'' in
     \<lparr>ln_lane = lane, ln_tx_ready = bit_of status 25, ln_rx_ready = bit_of status 24, ln_rx_idle = bit_of status 26,
      ln_rx_activity = bit_of status 27, ln_serdes_raw = map_option (take_bit 32) status,
      ln_values = dict_del (pf_values f) ''lane_serdes_status''\<rparr>)"

fun read_lanes :: "xml list \<Rightarrow> lane_reading list \<Rightarrow> (string \<times> field_problem) list
    \<Rightarrow> phy_error + (lane_reading list \<times> (string \<times> field_problem) list)" where
  "read_lanes [] lanes errors = Inr (lanes, errors)"
| "read_lanes (node # nodes) lanes errors =
     ebind (int_attribute node ''id'') (\<lambda>lane.
       if lane \<notin> {0, 1, 2, 3} \<or> lane \<in> ln_lane ` set lanes then Inl PhyLaneNumber
       else ebind (node_fields node (''lane'' @ decimal_int lane @ ''.'') LANE_FIELDS) (\<lambda>f.
         read_lanes nodes (lanes @ [lane_of lane f]) (errors @ pf_errors f)))"

definition phy_identity :: "xml \<Rightarrow> port_group \<Rightarrow> phy_error + unit" where
  "phy_identity doc g =
     (if xml_tag doc \<noteq> ''fm10k-phy'' then Inl PhyMismatch
      else ebind (int_text (attribute_or doc ''port'' ''0'')) (\<lambda>port.
        if port \<noteq> base_of (pg_epl g) then Inl PhyMismatch
        else ebind (int_text (attribute_or doc ''epl'' ''-1'')) (\<lambda>epl.
          if epl \<noteq> pg_epl g then Inl PhyMismatch
          else case ethernet_code (pg_mode g) of
              None \<Rightarrow> Inl PhyModeChanged
            | Some code \<Rightarrow> ebind (int_text (attribute_or doc ''ethernet-mode-raw'' ''0'')) (\<lambda>raw.
                if raw \<noteq> code then Inl PhyModeChanged else Inr ()))))"

definition decode_phy :: "xml \<Rightarrow> port_group \<Rightarrow> rat \<Rightarrow> rat \<Rightarrow> phy_error + phy_reading" where
  "decode_phy doc g wall monotonic_ms =
     ebind (phy_identity doc g) (\<lambda>_.
     ebind (int_attribute doc ''sampled-monotonic-ms'') (\<lambda>sampled_ms.
       if sampled_ms < 0 \<or> of_int sampled_ms > monotonic_ms + 1 then Inl PhyClock
       else let age = max 0 ((monotonic_ms - of_int sampled_ms) / 1000) in
     ebind (node_fields doc [] [''pcs_ml_baser_cfg'', ''pcs_ml_baser_rx_status'', ''speed_mbps'']) (\<lambda>shared.
     ebind (read_lanes (children_named ''lane'' doc) [] (pf_errors shared)) (\<lambda>(lanes, errors).
       if \<not> {0, 1, 2, 3} \<subseteq> ln_lane ` set lanes then Inl PhyLaneMissing
       else Inr \<lparr>ph_quality = (if age > of_int PHY_STALE_SECONDS then PhyStale
                   else if errors \<noteq> [] then PhyPartial else PhyValid),
                 ph_sampled_at = Some (wall - age), ph_pcs = Some (pcs_of (field_value shared ''pcs_ml_baser_rx_status'')),
                 ph_lanes = sort_key ln_lane lanes, ph_errors = errors\<rparr>))))"

subsection \<open>The diagnostic shell\<close>

record diagnostic =
  dg_epl :: int
  dg_mpo :: int
  dg_owner_port :: int
  dg_mode :: "group_mode option"
  dg_revision :: "int option"
  dg_phy :: phy_reading

definition pending_phy :: phy_reading where
  "pending_phy = \<lparr>ph_quality = PhyPending, ph_sampled_at = None, ph_pcs = None, ph_lanes = [], ph_errors = []\<rparr>"

definition diagnostic_shell :: "int \<Rightarrow> group_mode option \<Rightarrow> int option \<Rightarrow> diagnostic" where
  "diagnostic_shell epl mode revision =
     (let physical = physical_of epl in
      \<lparr>dg_epl = epl, dg_mpo = ph_mpo physical, dg_owner_port = ph_base physical, dg_mode = mode,
       dg_revision = revision, dg_phy = pending_phy\<rparr>)"

subsection \<open>Receive power\<close>

record power_channel =
  pw_lane :: int
  pw_module_channel :: int
  pw_raw :: int
  pw_microwatts :: rat
  pw_dbm_argument :: "rat option"

record power_reading =
  pr_quality :: json
  pr_sampled_power_at :: json
  pr_source :: json
  pr_tx_quality :: json
  pr_channels :: "power_channel list"

definition jget_or :: "json \<Rightarrow> string \<Rightarrow> json \<Rightarrow> json" where
  "jget_or v name fallback = (case map_of (entries v) name of None \<Rightarrow> fallback | Some x \<Rightarrow> x)"

text \<open>The raw readings by channel; \<open>None\<close> as soon as one entry is malformed or repeats a channel.\<close>

fun channel_values :: "json list \<Rightarrow> (int \<times> int) list \<Rightarrow> (int \<times> int) list option" where
  "channel_values [] found = Some found"
| "channel_values (v # vs) found =
     (if is_object v \<and> int_between 0 11 (jget v ''channel'') \<and> map_of found (int_of (jget v ''channel'')) = None
         \<and> int_between 0 65535 (jget v ''raw'')
      then channel_values vs (found @ [(int_of (jget v ''channel''), int_of (jget v ''raw''))]) else None)"

definition power_stale :: "json \<Rightarrow> rat \<Rightarrow> bool" where
  "power_stale sampled now \<longleftrightarrow> (case as_number sampled of
     None \<Rightarrow> True | Some t \<Rightarrow> t > now + 1 \<or> now - t > of_int PHY_STALE_SECONDS)"

definition power_channel_of :: "(int \<times> int) list \<Rightarrow> int \<Rightarrow> int \<Rightarrow> power_channel" where
  "power_channel_of values first lane =
     (let raw = the (map_of values (first + lane)) in
      \<lparr>pw_lane = lane, pw_module_channel = first + lane, pw_raw = raw, pw_microwatts = of_int raw / 10,
       pw_dbm_argument = (if raw \<noteq> 0 then Some (of_int raw / 10000) else None)\<rparr>)"

definition power_for_epl :: "json option \<Rightarrow> int \<Rightarrow> rat \<Rightarrow> power_reading" where
  "power_for_epl optic epl now =
     (let m = (case optic of Some m \<Rightarrow> m | None \<Rightarrow> JObj []);
          quality = jget_or m ''rx_power_quality'' (jstr ''unavailable'');
          result = \<lparr>pr_quality = quality, pr_sampled_power_at = jget m ''rx_power_sampled_at'',
            pr_source = jget m ''power_source'', pr_tx_quality = jget_or m ''tx_power_quality'' (jstr ''not_exposed''),
            pr_channels = []\<rparr>;
          channels = jget m ''rx_power'' in
      if \<not> is_list channels then result
      else if \<not> py_eq (jget m ''mpo'') (JInt (ph_mpo (physical_of epl)))
           \<or> jget m ''power_source'' \<noteq> jstr ''cxp-rx-page1'' \<or> length (elements channels) \<noteq> 12
        then result\<lparr>pr_quality := jstr ''unqualified''\<rparr>
      else case channel_values (elements channels) [] of
          None \<Rightarrow> result\<lparr>pr_quality := jstr ''unavailable''\<rparr>
        | Some values \<Rightarrow> result\<lparr>
            pr_quality := (if quality = jstr ''valid'' \<and> power_stale (jget m ''rx_power_sampled_at'') now
                           then jstr ''stale'' else quality),
            pr_channels := map (power_channel_of values (ph_position (physical_of epl) * 4)) [0, 1, 2, 3]\<rparr>)"

end
