(* ===== verification/Panel.thy ===== *)
theory Panel
  imports Owner_Queue Panel_Review Roce_Preflight Optics Eye Mock_Configd
begin

text \<open>
  \<^verbatim>\<open>PanelService\<close> of service.py: the web service between the browser and the switch authority. Its state
  holds the authority it was given (\<open>'s\<close>, reached through \<open>'s backend\<close>), the work queue with its
  single worker, the drafts, the jobs and the caches. A request handler is one action; the work a
  request leaves to the worker is a task in the queue and runs as a later action. Clock values are
  milliseconds; \<open>now\<close> is the wall clock and \<open>mnow\<close> the monotonic clock, read once per action.
  Sentences for the operator are constructors.
\<close>

subsection \<open>What the panel sees of the authority\<close>

record pending_view =
  pv_job :: string
  pv_phase :: commit_phase
  pv_deadline :: "int option"
  pv_remaining :: "int option"

record terminal_view =
  tv_job :: "string option"
  tv_revision :: "int option"
  tv_state :: "transaction_state option"

record panel_snapshot =
  ps_revision :: int
  ps_configuration :: switch_configuration
  ps_pending :: "pending_view option"
  ps_terminal :: "terminal_view option"

record reading =
  rd_quality :: string
  rd_sampled_at :: "int option"
  rd_value :: json

record fan_reading =
  fn_quality :: string
  fn_sampled_at :: "int option"
  fn_pwm_quality :: string
  fn_pwm_sampled_at :: "int option"

record sensor_reading =
  sr_quality :: string
  sr_sampled_at :: "int option"
  sr_temperatures :: "reading list"
  sr_fan :: "fan_reading option"

record optic_reading =
  or_quality :: string
  or_sampled_at :: "int option"
  or_power_quality :: string
  or_power_sampled_at :: "int option"
  or_module :: json

text \<open>
  The operations of a backend. \<open>None\<close> stands for a method the backend does not have
  (\<^verbatim>\<open>hasattr(self.backend, ...)\<close>); a PHY reading distinguishes the ValueErrors of its decoder.
\<close>

record 's backend =
  bk_snapshot :: "int \<Rightarrow> ('s, hw_error, panel_snapshot) action"
  bk_ports :: "int \<Rightarrow> ('s, hw_error, reading list) action"
  bk_sensors :: "int \<Rightarrow> ('s, hw_error, sensor_reading) action"
  bk_optics :: "int \<Rightarrow> ('s, hw_error, optic_reading list) action"
  bk_apply :: "int \<Rightarrow> switch_configuration \<Rightarrow> int \<Rightarrow> string \<Rightarrow> int \<Rightarrow> ('s, hw_error, panel_snapshot) action"
  bk_confirm :: "int \<Rightarrow> string \<Rightarrow> ('s, hw_error, panel_snapshot) action"
  bk_rollback :: "int \<Rightarrow> string \<Rightarrow> ('s, hw_error, panel_snapshot) action"
  bk_validate :: "(int \<Rightarrow> switch_configuration \<Rightarrow> ('s, hw_error, unit) action) option"
  bk_recover :: "(int \<Rightarrow> ('s, hw_error, panel_snapshot) action) option"
  bk_sample_roce :: "(int \<Rightarrow> ('s, hw_error, unit) action) option"
  bk_phy :: "int \<Rightarrow> port_group \<Rightarrow> ('s, hw_error, phy_error + phy_reading) action"
  bk_eye_start :: "int \<Rightarrow> int \<Rightarrow> eye_request \<Rightarrow> ('s, hw_error, json) action"
  bk_eye_read :: "int \<Rightarrow> text_points option \<Rightarrow> int \<Rightarrow> ('s, hw_error, json) action"
  bk_eye_cancel :: "int \<Rightarrow> text_points \<Rightarrow> ('s, hw_error, json) action"
  bk_close :: "('s, hw_error, unit) action"

subsection \<open>Errors\<close>

datatype panel_error =
  ShuttingDown | QueueFull | StaleRevision | PendingConfirmation | ProfileMismatch | TooManyDrafts | JobsFull
| PreviewExpired | CommitBusy | BandwidthUnacknowledged | UnknownJob | RecoveryUnsupported | OperationBusy
| NotAwaitingJob | InvalidPort | ConfigurationBusy | PortLaneMismatch | PortDisabled | InvalidEyeId
| BackupFormat | BackupVersion | BackupDigest | AuthorityRefused hw_error

fun error_status :: "panel_error \<Rightarrow> int" where
  "error_status ShuttingDown = 503"
| "error_status QueueFull = 503"
| "error_status TooManyDrafts = 429"
| "error_status JobsFull = 503"
| "error_status UnknownJob = 404"
| "error_status InvalidPort = 422"
| "error_status PortLaneMismatch = 422"
| "error_status InvalidEyeId = 422"
| "error_status BackupFormat = 400"
| "error_status BackupVersion = 400"
| "error_status BackupDigest = 400"
| "error_status _ = 409"

fun error_code :: "panel_error \<Rightarrow> string" where
  "error_code ShuttingDown = ''shutting_down''"
| "error_code QueueFull = ''queue_full''"
| "error_code StaleRevision = ''stale_revision''"
| "error_code PendingConfirmation = ''pending_confirmation''"
| "error_code ProfileMismatch = ''profile_mismatch''"
| "error_code BandwidthUnacknowledged = ''bandwidth_ack_required''"
| "error_code UnknownJob = ''not_found''"
| "error_code RecoveryUnsupported = ''recovery_unsupported''"
| "error_code InvalidPort = ''invalid_port''"
| "error_code PortLaneMismatch = ''port_lane_mismatch''"
| "error_code PortDisabled = ''port_disabled''"
| "error_code InvalidEyeId = ''invalid_eye_id''"
| "error_code _ = ''conflict''"

datatype panel_fault = Panel panel_error | Hardware hw_error | Invalid config_error | Scan eye_error | NoSuchGroup

text \<open>The errors of a backend that are a \<^verbatim>\<open>HardwareError\<close>, not some other Python exception.\<close>

fun is_hardware_error :: "hw_error \<Rightarrow> bool" where
  "is_hardware_error PyTypeError = False"
| "is_hardware_error PyValueError = False"
| "is_hardware_error PyIndexError = False"
| "is_hardware_error PyLookup = False"
| "is_hardware_error (StoredInvalid _) = False"
| "is_hardware_error _ = True"

fun is_rollback_error :: "hw_error \<Rightarrow> bool" where
  "is_rollback_error (RollbackFailed _ _) = True"
| "is_rollback_error _ = False"

subsection \<open>State\<close>

record draft =
  dr_id :: string
  dr_expected_revision :: int
  dr_configuration :: switch_configuration
  dr_changes :: "change list"
  dr_group_changes :: "group_change list"
  dr_affected_epls :: "int list"
  dr_global_qos_change :: bool
  dr_bandwidth :: bandwidth_report
  dr_requires_ack :: bool
  dr_expires_at :: int
  dr_fan_lut :: "(int \<times> int) list"
  dr_preflight :: "preflight_problem + preflight_report"

datatype job_state = JobQueued | JobRunning | JobApplying | JobAwaiting | JobDone | JobFailed | JobRolledBack

datatype job_message =
  MsgQueued | MsgApplying | MsgConfirmBeforeDeadline | MsgApplied | MsgApplyFailed | MsgQueueFull | MsgConfirmed
| MsgRestored | MsgReconciling | MsgRecoveredJob | MsgRecovering | MsgSynchronized | MsgStillLocked | MsgNotQueued
| MsgFinished | MsgOperationFailed

record job =
  jb_id :: string
  jb_kind :: string
  jb_actor :: string
  jb_state :: job_state
  jb_created :: "int option"
  jb_updated :: int
  jb_message :: job_message
  jb_revision :: "int option"
  jb_deadline :: "int option"
  jb_error :: "panel_fault option"
  jb_rollback_failed :: bool
  jb_result :: "json option"

definition terminal :: "job_state \<Rightarrow> bool" where
  "terminal st \<longleftrightarrow> st \<in> {JobDone, JobFailed, JobRolledBack}"

datatype audit_event =
  AuditReconciled string transaction_state | AuditApplied string string int "int list"
| AuditApplyFailed string string panel_fault | AuditRecovered string string int
| AuditRecoveryFailed string string panel_fault | AuditFinished bool string string
| AuditOperation string string string | AuditEyeStarted string int int json | AuditEyeCancelled string text_points

datatype 's task =
  SampleTask | RoceTask | CollectTask int | CommitTask string string draft int string
| RecoverTask string string | OperationTask string string string "'s \<Rightarrow> (hw_error + json) \<times> 's"

record optic_entry =
  oe_diagnostic :: diagnostic
  oe_mode_changed :: bool
  oe_error :: "panel_fault option"

record history_entry =
  hs_time :: "int option"
  hs_temperatures :: "reading list"
  hs_fan :: "fan_reading option"

record cache =
  ca_ports :: "reading list"
  ca_sensors :: sensor_reading
  ca_optics :: "optic_reading list"
  ca_sampled_at :: "int option"
  ca_control_available :: "bool option"

record 's panel =
  pn_backend :: 's
  pn_queue :: "'s task owner_queue"
  pn_drafts :: "(string \<times> draft) list"
  pn_jobs :: "(string \<times> job) list"
  pn_deadlines :: "(string \<times> int) list"
  pn_busy :: "string option"
  pn_cache :: cache
  pn_last_error :: "panel_fault option"
  pn_history :: "history_entry list"
  pn_last_sensor :: int
  pn_last_roce :: int
  pn_optics_revision :: "int option"
  pn_optics_cache :: "(int \<times> optic_entry) list"
  pn_optics_due :: "(int \<times> int) list"
  pn_optics_inflight :: "int list"
  pn_eye_cache :: "(json \<times> eye_scan) list"
  pn_audit :: "audit_event list"

type_synonym ('s, 'a) panel_action = "('s panel, panel_fault, 'a) action"

definition initial_cache :: cache where
  "initial_cache = \<lparr>ca_ports = [], ca_sensors = \<lparr>sr_quality = ''pending'', sr_sampled_at = None,
     sr_temperatures = [], sr_fan = None\<rparr>, ca_optics = [], ca_sampled_at = None, ca_control_available = None\<rparr>"

definition new_panel :: "'s \<Rightarrow> 's panel" where
  "new_panel b = \<lparr>pn_backend = b, pn_queue = empty_queue, pn_drafts = [], pn_jobs = [], pn_deadlines = [],
     pn_busy = None, pn_cache = initial_cache, pn_last_error = None, pn_history = [], pn_last_sensor = 0,
     pn_last_roce = 0, pn_optics_revision = None, pn_optics_cache = [], pn_optics_due = [], pn_optics_inflight = [],
     pn_eye_cache = [], pn_audit = []\<rparr>"

subsection \<open>Building blocks\<close>

definition on_backend :: "('s, hw_error, 'a) action \<Rightarrow> ('s, 'a) panel_action" where
  "on_backend m = (\<lambda>s. case m (pn_backend s) of
     (Inl e, b) \<Rightarrow> (Inl (Hardware e), s\<lparr>pn_backend := b\<rparr>) | (Inr a, b) \<Rightarrow> (Inr a, s\<lparr>pn_backend := b\<rparr>))"

definition queue_fault :: "queue_error \<Rightarrow> panel_fault" where
  "queue_fault e = Panel (case e of QueueStopping \<Rightarrow> ShuttingDown | QueueOverflow \<Rightarrow> QueueFull)"

definition enqueue :: "'s task \<Rightarrow> int \<Rightarrow> string option \<Rightarrow> ('s, bool) panel_action" where
  "enqueue task priority key = (\<lambda>s. case submit task priority key (pn_queue s) of
     (Inl e, q) \<Rightarrow> (Inl (queue_fault e), s\<lparr>pn_queue := q\<rparr>) | (Inr b, q) \<Rightarrow> (Inr b, s\<lparr>pn_queue := q\<rparr>))"

text \<open>
  \<^verbatim>\<open>scheduler.call(f)\<close> from a request: the submission can be refused; otherwise the request waits for
  the worker to run \<open>f\<close>. The handlers below are therefore only started when no earlier work waits.
\<close>

definition scheduled :: "('s, 'a) panel_action \<Rightarrow> ('s, 'a) panel_action" where
  "scheduled body = with_state (\<lambda>s.
     if oq_stopping (pn_queue s) then raise_error (Panel ShuttingDown)
     else if length (oq_items (pn_queue s)) \<ge> QUEUE_CAPACITY then raise_error (Panel QueueFull) else body)"

definition audit :: "audit_event \<Rightarrow> ('s, unit) panel_action" where
  "audit e = modify_state (\<lambda>s. s\<lparr>pn_audit := e # pn_audit s\<rparr>)"

definition alter :: "('k \<times> 'v) list \<Rightarrow> 'k \<Rightarrow> ('v \<Rightarrow> 'v) \<Rightarrow> ('k \<times> 'v) list" where
  "alter d k f = map (\<lambda>(k', v). (k', if k' = k then f v else v)) d"

definition update_job :: "string \<Rightarrow> (job \<Rightarrow> job) \<Rightarrow> ('s, unit) panel_action" where
  "update_job ident f = modify_state (\<lambda>s. s\<lparr>pn_jobs := alter (pn_jobs s) ident f\<rparr>)"

definition set_busy :: "string option \<Rightarrow> ('s, unit) panel_action" where
  "set_busy b = modify_state (\<lambda>s. s\<lparr>pn_busy := b\<rparr>)"

definition observe_timer :: "string \<Rightarrow> pending_view option \<Rightarrow> int \<Rightarrow> ('s, unit) panel_action" where
  "observe_timer ident p received = modify_state (\<lambda>s. s\<lparr>pn_deadlines :=
     (case p of None \<Rightarrow> dict_del (pn_deadlines s) ident
      | Some v \<Rightarrow> (case pv_remaining v of
            Some r \<Rightarrow> if r \<ge> 0 then dict_set (pn_deadlines s) ident (received + 1000 * r) else dict_del (pn_deadlines s) ident
          | None \<Rightarrow> dict_del (pn_deadlines s) ident))\<rparr>)"

definition observe_revision :: "int \<Rightarrow> ('s, unit) panel_action" where
  "observe_revision revision = modify_state (\<lambda>s.
     if pn_optics_revision s \<noteq> Some revision
     then s\<lparr>pn_optics_revision := Some revision, pn_optics_cache := [], pn_optics_due := []\<rparr> else s)"

definition read_config :: "'s backend \<Rightarrow> int \<Rightarrow> ('s, panel_snapshot) panel_action" where
  "read_config bk now = bind_action (on_backend (bk_snapshot bk now)) (\<lambda>sn.
     then_action (observe_revision (ps_revision sn)) (ret sn))"

definition validated :: "switch_configuration \<Rightarrow> ('s, switch_configuration) panel_action" where
  "validated c = (case validate_configuration c of Inl e \<Rightarrow> raise_error (Invalid e) | Inr v \<Rightarrow> ret v)"

subsection \<open>Telemetry sampling\<close>

definition stale_reading :: "reading \<Rightarrow> reading" where
  "stale_reading r = r\<lparr>rd_quality := ''stale''\<rparr>"

definition mark_failed :: "bool \<Rightarrow> panel_fault \<Rightarrow> ('s, unit) panel_action" where
  "mark_failed received e = modify_state (\<lambda>s. let c = pn_cache s in
     s\<lparr>pn_last_error := Some e, pn_cache := c\<lparr>
       ca_control_available := (if received then ca_control_available c else Some False),
       ca_sensors := (ca_sensors c)\<lparr>sr_quality := ''stale''\<rparr>, ca_ports := map stale_reading (ca_ports c)\<rparr>\<rparr>)"

definition terminal_matches :: "job \<Rightarrow> terminal_view option \<Rightarrow> bool" where
  "terminal_matches j t = (case t of None \<Rightarrow> False
     | Some v \<Rightarrow> tv_job v = Some (jb_id j) \<or> jb_revision j \<noteq> None \<and> tv_revision v = jb_revision j)"

text \<open>The body of the loop over \<^verbatim>\<open>self.jobs.values()\<close> in \<^verbatim>\<open>_sample\<close>.\<close>

definition reconcile_job :: "int \<Rightarrow> int \<Rightarrow> panel_snapshot \<Rightarrow> job \<Rightarrow> ('s, unit) panel_action" where
  "reconcile_job now mnow sn j =
     (if jb_state j \<noteq> JobAwaiting then ret ()
      else if map_option pv_job (ps_pending sn) = Some (jb_id j)
      then then_action (observe_timer (jb_id j) (ps_pending sn) mnow)
        (update_job (jb_id j) (\<lambda>j. j\<lparr>jb_deadline := (case ps_pending sn of None \<Rightarrow> None | Some v \<Rightarrow> pv_deadline v)\<rparr>))
      else then_action (modify_state (\<lambda>s. s\<lparr>pn_deadlines := dict_del (pn_deadlines s) (jb_id j)\<rparr>))
        (case (case ps_terminal sn of None \<Rightarrow> None | Some v \<Rightarrow> tv_state v) of
           Some st \<Rightarrow>
             if terminal_matches j (ps_terminal sn)
             then then_action (update_job (jb_id j) (\<lambda>j. j\<lparr>
                 jb_state := (if st = TxConfirmed then JobDone else JobRolledBack),
                 jb_message := (if st = TxConfirmed then MsgConfirmed else MsgRestored), jb_updated := now\<rparr>))
               (audit (AuditReconciled (jb_id j) st))
             else update_job (jb_id j) (\<lambda>j. j\<lparr>jb_message := MsgReconciling, jb_updated := now\<rparr>)
         | None \<Rightarrow> update_job (jb_id j) (\<lambda>j. j\<lparr>jb_message := MsgReconciling, jb_updated := now\<rparr>)))"

definition sensor_due :: "int \<Rightarrow> int \<Rightarrow> bool" where
  "sensor_due mnow previous \<longleftrightarrow> mnow - previous \<ge> 5000 \<or> previous = 0"

definition read_sensors :: "'s backend \<Rightarrow> int \<Rightarrow> int \<Rightarrow> ('s, (sensor_reading \<times> optic_reading list) option) panel_action" where
  "read_sensors bk now mnow = with_state (\<lambda>s.
     if sensor_due mnow (pn_last_sensor s)
     then bind_action (on_backend (bk_sensors bk now)) (\<lambda>temps.
       bind_action (on_backend (bk_optics bk now)) (\<lambda>mods.
         then_action (modify_state (\<lambda>s. s\<lparr>pn_last_sensor := mnow\<rparr>)) (ret (Some (temps, mods)))))
     else ret None)"

definition schedule_roce :: "'s backend \<Rightarrow> int \<Rightarrow> panel_snapshot \<Rightarrow> ('s, unit) panel_action" where
  "schedule_roce bk mnow sn = with_state (\<lambda>s.
     if bk_sample_roce bk \<noteq> None \<and> mnow - pn_last_roce s \<ge> 10000
     then then_action (modify_state (\<lambda>s. s\<lparr>pn_last_roce := mnow\<rparr>))
       (if ps_pending sn = None \<and> ro_enabled (qo_roce (sc_qos (ps_configuration sn)))
        then then_action (enqueue RoceTask 20 (Some ''roce-diagnostics'')) (ret ()) else ret ())
     else ret ())"

definition store_sample :: "int \<Rightarrow> reading list \<Rightarrow> (sensor_reading \<times> optic_reading list) option \<Rightarrow> ('s, unit) panel_action" where
  "store_sample now rows slow = modify_state (\<lambda>s. let c = (pn_cache s)\<lparr>ca_ports := rows, ca_sampled_at := Some now\<rparr> in
     case slow of
       None \<Rightarrow> s\<lparr>pn_cache := c, pn_last_error := None\<rparr>
     | Some (temps, mods) \<Rightarrow> s\<lparr>pn_cache := c\<lparr>ca_sensors := temps, ca_optics := mods\<rparr>,
         pn_history := py_last 17280 (pn_history s @ [\<lparr>hs_time =
             (case sr_sampled_at temps of None \<Rightarrow> Some now | Some t \<Rightarrow> Some t),
             hs_temperatures = sr_temperatures temps, hs_fan = sr_fan temps\<rparr>]),
         pn_last_error := None\<rparr>)"

definition sample :: "'s backend \<Rightarrow> int \<Rightarrow> int \<Rightarrow> ('s, unit) panel_action" where
  "sample bk now mnow =
     bind_action (catch_action (on_backend (bk_snapshot bk now))
         (\<lambda>e. then_action (mark_failed False e) (raise_error e))) (\<lambda>sn.
       catch_action
         (then_action (modify_state (\<lambda>s. s\<lparr>pn_cache := (pn_cache s)\<lparr>ca_control_available := Some True\<rparr>\<rparr>))
         (then_action (observe_revision (ps_revision sn))
         (bind_action (on_backend (bk_ports bk now)) (\<lambda>rows.
          bind_action (read_sensors bk now mnow) (\<lambda>slow.
          then_action (schedule_roce bk mnow sn)
         (then_action (store_sample now rows slow)
           (with_state (\<lambda>s. for_each (reconcile_job now mnow sn) (map snd (pn_jobs s))))))))))
         (\<lambda>e. then_action (mark_failed True e) (raise_error e)))"

text \<open>A failed read after a write leaves the outcome of the write alone.\<close>

definition refresh_after_write :: "'s backend \<Rightarrow> int \<Rightarrow> int \<Rightarrow> ('s, unit) panel_action" where
  "refresh_after_write bk now mnow = catch_action (sample bk now mnow) (\<lambda>_. ret ())"

subsection \<open>Preview\<close>

definition global_watermarks :: "switch_configuration \<Rightarrow> switch_configuration \<Rightarrow> bool" where
  "global_watermarks before after \<longleftrightarrow> sc_qos before \<noteq> sc_qos after \<or> changed_groups before after \<noteq> []
     \<or> list_ex (\<lambda>(n, p). pc_mtu (port_of before n) \<noteq> pc_mtu p) (sc_ports after)"

definition draft_of ::
  "(switch_configuration \<Rightarrow> json) \<Rightarrow> (json \<Rightarrow> config_error + switch_configuration) \<Rightarrow>
   int \<Rightarrow> string \<Rightarrow> int \<Rightarrow> switch_configuration \<Rightarrow> switch_configuration \<Rightarrow> draft" where
  "draft_of dump load now ident expected before after =
     (let changed = changed_groups before after; budget = bandwidth after in
      \<lparr>dr_id = ident, dr_expected_revision = expected, dr_configuration = after,
       dr_changes = configuration_changes dump before after, dr_group_changes = group_changes before after,
       dr_affected_epls = (if sc_qos before \<noteq> sc_qos after then EPLS else changed),
       dr_global_qos_change = global_watermarks before after, dr_bandwidth = budget,
       dr_requires_ack = (changed \<noteq> [] \<and> bw_over_sku_budget budget), dr_expires_at = now + 600000,
       dr_fan_lut = lut_points (sc_fan after), dr_preflight = preflight load (dump after)\<rparr>)"

definition store_draft :: "int \<Rightarrow> draft \<Rightarrow> ('s, unit) panel_action" where
  "store_draft now d =
     then_action (modify_state (\<lambda>s. s\<lparr>pn_drafts := filter (\<lambda>(_, v). dr_expires_at v > now) (pn_drafts s)\<rparr>))
       (with_state (\<lambda>s. if length (pn_drafts s) \<ge> 64 then raise_error (Panel TooManyDrafts)
          else modify_state (\<lambda>s. s\<lparr>pn_drafts := dict_set (pn_drafts s) (dr_id d) d\<rparr>)))"

definition preview ::
  "'s backend \<Rightarrow> (switch_configuration \<Rightarrow> json) \<Rightarrow> (json \<Rightarrow> config_error + switch_configuration) \<Rightarrow>
   int \<Rightarrow> string \<Rightarrow> int \<Rightarrow> switch_configuration \<Rightarrow> ('s, draft) panel_action" where
  "preview bk dump load now ident expected proposal =
     bind_action (scheduled (on_backend (bk_snapshot bk now))) (\<lambda>current.
       if expected \<noteq> ps_revision current then raise_error (Panel StaleRevision)
       else if ps_pending current \<noteq> None then raise_error (Panel PendingConfirmation)
       else bind_action (validated (ps_configuration current)) (\<lambda>before.
         if sc_profile before \<noteq> sc_profile proposal then raise_error (Panel ProfileMismatch)
         else let d = draft_of dump load now ident expected before proposal in
         then_action (case bk_validate bk of None \<Rightarrow> ret () | Some check \<Rightarrow> scheduled (on_backend (check now proposal)))
           (then_action (store_draft now d) (ret d))))"

subsection \<open>Jobs\<close>

definition queued_job :: "string \<Rightarrow> string \<Rightarrow> string \<Rightarrow> int \<Rightarrow> job" where
  "queued_job ident kind actor now = \<lparr>jb_id = ident, jb_kind = kind, jb_actor = actor, jb_state = JobQueued,
     jb_created = Some now, jb_updated = now, jb_message = MsgQueued, jb_revision = None, jb_deadline = None,
     jb_error = None, jb_rollback_failed = False, jb_result = None\<rparr>"

definition new_job :: "int \<Rightarrow> string \<Rightarrow> string \<Rightarrow> string \<Rightarrow> ('s, unit) panel_action" where
  "new_job now ident kind actor =
     then_action (with_state (\<lambda>s.
       if length (pn_jobs s) \<ge> 128
       then (case filter (\<lambda>(_, j). terminal (jb_state j)) (pn_jobs s) of
               [] \<Rightarrow> raise_error (Panel JobsFull)
             | (old, _) # _ \<Rightarrow> modify_state (\<lambda>s. s\<lparr>pn_jobs := dict_del (pn_jobs s) old\<rparr>))
       else ret ()))
     (modify_state (\<lambda>s. s\<lparr>pn_jobs := dict_set (pn_jobs s) ident (queued_job ident kind actor now)\<rparr>))"

record job_view =
  jv_job :: job
  jv_remaining_ms :: "int option"

definition job_status :: "int \<Rightarrow> string \<Rightarrow> ('s, job_view) panel_action" where
  "job_status mnow ident = with_state (\<lambda>s. case map_of (pn_jobs s) ident of
     None \<Rightarrow> raise_error (Panel UnknownJob)
   | Some j \<Rightarrow> ret \<lparr>jv_job = j, jv_remaining_ms =
       (if jb_state j = JobAwaiting then map_option (\<lambda>d. max 0 (d - mnow)) (map_of (pn_deadlines s) ident) else None)\<rparr>)"

text \<open>A configuration job of the authority that this process does not know, after a Web restart.\<close>

definition recovered_job :: "int \<Rightarrow> panel_snapshot \<Rightarrow> pending_view \<Rightarrow> job" where
  "recovered_job now sn p = \<lparr>jb_id = pv_job p, jb_kind = ''configuration'', jb_actor = ''recovered'',
     jb_state = (case pv_phase p of Applying \<Rightarrow> JobApplying | AwaitingConfirmation \<Rightarrow> JobAwaiting),
     jb_created = None, jb_updated = now, jb_message = MsgRecoveredJob,
     jb_revision = Some (ps_revision sn), jb_deadline = pv_deadline p, jb_error = None,
     jb_rollback_failed = False, jb_result = None\<rparr>"

definition config :: "'s backend \<Rightarrow> int \<Rightarrow> int \<Rightarrow> ('s, panel_snapshot) panel_action" where
  "config bk now mnow =
     bind_action (scheduled (read_config bk now)) (\<lambda>sn.
       then_action (case ps_pending sn of
           None \<Rightarrow> ret ()
         | Some p \<Rightarrow> then_action (observe_timer (pv_job p) (Some p) mnow)
             (modify_state (\<lambda>s. if map_of (pn_jobs s) (pv_job p) \<noteq> None then s
                else s\<lparr>pn_jobs := dict_set (pn_jobs s) (pv_job p) (recovered_job now sn p)\<rparr>)))
         (ret sn))"

subsection \<open>Commit\<close>

definition accept_commit :: "int \<Rightarrow> string \<Rightarrow> string \<Rightarrow> bool \<Rightarrow> string \<Rightarrow> ('s, draft) panel_action" where
  "accept_commit now ident draft_id accept_warning actor = with_state (\<lambda>s.
     case map_of (pn_drafts s) draft_id of
       None \<Rightarrow> raise_error (Panel PreviewExpired)
     | Some d \<Rightarrow>
         if dr_expires_at d \<le> now then raise_error (Panel PreviewExpired)
         else if pn_busy s \<noteq> None then raise_error (Panel CommitBusy)
         else if dr_requires_ack d \<and> \<not> accept_warning then raise_error (Panel BandwidthUnacknowledged)
         else then_action (new_job now ident ''configuration'' actor)
           (then_action (set_busy (Some ident)) (ret d)))"

definition abandon :: "string \<Rightarrow> job_message \<Rightarrow> panel_fault \<Rightarrow> ('s, unit) panel_action" where
  "abandon ident msg e = then_action (set_busy None)
     (then_action (update_job ident (\<lambda>j. j\<lparr>jb_state := JobFailed, jb_message := msg\<rparr>)) (raise_error e))"

definition commit :: "int \<Rightarrow> int \<Rightarrow> string \<Rightarrow> string \<Rightarrow> int \<Rightarrow> bool \<Rightarrow> string \<Rightarrow> ('s, job_view) panel_action" where
  "commit now mnow ident draft_id timeout accept_warning actor =
     bind_action (accept_commit now ident draft_id accept_warning actor) (\<lambda>d.
       then_action (catch_action (then_action (enqueue (CommitTask ident draft_id d timeout actor) 0 None) (ret ()))
           (abandon ident MsgQueueFull))
         (job_status mnow ident))"

definition commit_applied :: "string \<Rightarrow> panel_snapshot \<Rightarrow> int \<Rightarrow> int \<Rightarrow> ('s, unit) panel_action" where
  "commit_applied ident sn now mnow =
     then_action (observe_timer ident (ps_pending sn) mnow)
       (update_job ident (\<lambda>j. j\<lparr>
          jb_state := (if ps_pending sn \<noteq> None then JobAwaiting else JobDone), jb_revision := Some (ps_revision sn),
          jb_deadline := (case ps_pending sn of None \<Rightarrow> None | Some p \<Rightarrow> pv_deadline p),
          jb_message := (if ps_pending sn \<noteq> None then MsgConfirmBeforeDeadline else MsgApplied), jb_updated := now\<rparr>))"

definition failed_job :: "panel_fault \<Rightarrow> job_message \<Rightarrow> int \<Rightarrow> job \<Rightarrow> job" where
  "failed_job e msg now j = j\<lparr>jb_state := JobFailed, jb_error := Some e, jb_message := msg,
     jb_rollback_failed := (case e of Hardware h \<Rightarrow> is_rollback_error h | _ \<Rightarrow> False), jb_updated := now\<rparr>"

definition commit_work :: "'s backend \<Rightarrow> int \<Rightarrow> int \<Rightarrow> string \<Rightarrow> string \<Rightarrow> draft \<Rightarrow> int \<Rightarrow> string \<Rightarrow> ('s, unit) panel_action" where
  "commit_work bk now mnow ident draft_id d timeout actor =
     then_action (update_job ident (\<lambda>j. j\<lparr>jb_state := JobRunning, jb_message := MsgApplying, jb_updated := now\<rparr>))
     (then_action (catch_action
       (bind_action (validated (dr_configuration d)) (\<lambda>target.
        bind_action (on_backend (bk_apply bk now target (dr_expected_revision d) ident timeout)) (\<lambda>sn.
          then_action (commit_applied ident sn now mnow)
         (then_action (audit (AuditApplied ident actor (ps_revision sn) (dr_affected_epls d)))
           (refresh_after_write bk now mnow)))))
       (\<lambda>e. then_action (update_job ident (failed_job e MsgApplyFailed now)) (audit (AuditApplyFailed ident actor e))))
     (then_action (set_busy None) (modify_state (\<lambda>s. s\<lparr>pn_drafts := dict_del (pn_drafts s) draft_id\<rparr>))))"

subsection \<open>Finishing a commit, recovering control, other operations\<close>

definition finish :: "'s backend \<Rightarrow> int \<Rightarrow> int \<Rightarrow> string \<Rightarrow> bool \<Rightarrow> string \<Rightarrow> ('s, panel_snapshot) panel_action" where
  "finish bk now mnow ident confirming actor = scheduled
     (bind_action (job_status mnow ident) (\<lambda>v.
       if jb_state (jv_job v) \<noteq> JobAwaiting then raise_error (Panel NotAwaitingJob)
       else bind_action (catch_action (on_backend (if confirming then bk_confirm bk now ident else bk_rollback bk now ident))
           (\<lambda>e. case e of Hardware h \<Rightarrow> raise_error (if is_hardware_error h then Panel (AuthorityRefused h) else e)
             | _ \<Rightarrow> raise_error e)) (\<lambda>sn.
         then_action (update_job ident (\<lambda>j. j\<lparr>jb_state := (if confirming then JobDone else JobRolledBack),
             jb_message := (if confirming then MsgConfirmed else MsgRestored), jb_updated := now\<rparr>))
         (then_action (modify_state (\<lambda>s. s\<lparr>pn_deadlines := dict_del (pn_deadlines s) ident\<rparr>))
         (then_action (audit (AuditFinished confirming ident actor))
         (then_action (refresh_after_write bk now mnow) (ret sn)))))))"

definition recover_control :: "'s backend \<Rightarrow> int \<Rightarrow> string \<Rightarrow> string \<Rightarrow> ('s, unit) panel_action" where
  "recover_control bk now ident actor =
     (if bk_recover bk = None then raise_error (Panel RecoveryUnsupported)
      else then_action (with_state (\<lambda>s. if pn_busy s \<noteq> None then raise_error (Panel OperationBusy)
          else then_action (new_job now ident ''control_recovery'' actor)
            (then_action (set_busy (Some ident)) (modify_state (\<lambda>s. s\<lparr>pn_drafts := []\<rparr>)))))
        (catch_action (then_action (enqueue (RecoverTask ident actor) 0 None) (ret ())) (abandon ident MsgNotQueued)))"

definition recover_work :: "'s backend \<Rightarrow> int \<Rightarrow> int \<Rightarrow> string \<Rightarrow> string \<Rightarrow> ('s, unit) panel_action" where
  "recover_work bk now mnow ident actor =
     then_action (update_job ident (\<lambda>j. j\<lparr>jb_state := JobRunning, jb_message := MsgRecovering, jb_updated := now\<rparr>))
     (then_action (catch_action
       (bind_action (case bk_recover bk of None \<Rightarrow> raise_error (Panel RecoveryUnsupported) | Some m \<Rightarrow> on_backend (m now)) (\<lambda>sn.
         then_action (update_job ident (\<lambda>j. j\<lparr>jb_state := JobDone, jb_revision := Some (ps_revision sn),
             jb_message := MsgSynchronized, jb_updated := now\<rparr>))
           (audit (AuditRecovered ident actor (ps_revision sn)))))
       (\<lambda>e. then_action (update_job ident (\<lambda>j. j\<lparr>jb_state := JobFailed, jb_error := Some e,
             jb_message := MsgStillLocked, jb_updated := now\<rparr>))
           (audit (AuditRecoveryFailed ident actor e))))
     (then_action (refresh_after_write bk now mnow) (set_busy None)))"

definition operation_request ::
  "int \<Rightarrow> string \<Rightarrow> string \<Rightarrow> ('s, hw_error, json) action \<Rightarrow> string \<Rightarrow> ('s, unit) panel_action" where
  "operation_request now ident kind body actor =
     then_action (new_job now ident kind actor)
       (catch_action (then_action (enqueue (OperationTask ident kind actor body) 0 None) (ret ()))
         (\<lambda>e. then_action (update_job ident (\<lambda>j. j\<lparr>jb_state := JobFailed, jb_error := Some e,
                jb_message := MsgNotQueued, jb_updated := now\<rparr>)) (raise_error e)))"

definition operation_work ::
  "'s backend \<Rightarrow> int \<Rightarrow> int \<Rightarrow> string \<Rightarrow> string \<Rightarrow> string \<Rightarrow> ('s, hw_error, json) action \<Rightarrow> ('s, unit) panel_action" where
  "operation_work bk now mnow ident kind actor body =
     then_action (update_job ident (\<lambda>j. j\<lparr>jb_state := JobRunning, jb_updated := now\<rparr>))
     (catch_action
       (bind_action (on_backend body) (\<lambda>result.
         then_action (update_job ident (\<lambda>j. j\<lparr>jb_state := JobDone, jb_result := Some result,
             jb_message := MsgFinished, jb_updated := now\<rparr>))
         (then_action (audit (AuditOperation kind actor ident))
         (then_action (modify_state (\<lambda>s. s\<lparr>pn_last_sensor := 0\<rparr>)) (refresh_after_write bk now mnow)))))
       (\<lambda>e. update_job ident (\<lambda>j. j\<lparr>jb_state := JobFailed, jb_error := Some e,
             jb_message := MsgOperationFailed, jb_updated := now\<rparr>)))"

subsection \<open>Optical diagnostics\<close>

definition optic_entry_of :: "diagnostic \<Rightarrow> optic_entry" where
  "optic_entry_of d = \<lparr>oe_diagnostic = d, oe_mode_changed = False, oe_error = None\<rparr>"

definition with_quality :: "phy_quality \<Rightarrow> optic_entry \<Rightarrow> optic_entry" where
  "with_quality q e = e\<lparr>oe_diagnostic := (oe_diagnostic e)\<lparr>dg_phy := (dg_phy (oe_diagnostic e))\<lparr>ph_quality := q\<rparr>\<rparr>\<rparr>"

definition has_lanes :: "optic_entry \<Rightarrow> bool" where
  "has_lanes e \<longleftrightarrow> ph_lanes (dg_phy (oe_diagnostic e)) \<noteq> []"

text \<open>The outcome of one collection: a reading, a mode change, or an error with the best older entry.\<close>

definition collected_entry :: "'s panel \<Rightarrow> int \<Rightarrow> optic_entry \<Rightarrow> panel_fault \<Rightarrow> optic_entry" where
  "collected_entry s epl shell e =
     (case map_of (pn_optics_cache s) epl of
        Some old \<Rightarrow> if dg_revision (oe_diagnostic old) = pn_optics_revision s \<and> has_lanes old
          then (with_quality PhyStale old)\<lparr>oe_error := Some e\<rparr> else (with_quality PhyUnavailable shell)\<lparr>oe_error := Some e\<rparr>
      | None \<Rightarrow> (with_quality PhyUnavailable shell)\<lparr>oe_error := Some e\<rparr>)"

definition store_entry :: "int \<Rightarrow> int \<Rightarrow> optic_entry \<Rightarrow> ('s, unit) panel_action" where
  "store_entry mnow epl e = modify_state (\<lambda>s. s\<lparr>pn_optics_cache := dict_set (pn_optics_cache s) epl e,
     pn_optics_due := dict_set (pn_optics_due s) epl (mnow + 1000 * PHY_REFRESH_SECONDS),
     pn_optics_inflight := filter (\<lambda>x. x \<noteq> epl) (pn_optics_inflight s)\<rparr>)"

definition store_failure :: "int \<Rightarrow> int \<Rightarrow> optic_entry \<Rightarrow> panel_fault \<Rightarrow> ('s, unit) panel_action" where
  "store_failure mnow epl shell e = with_state (\<lambda>s. store_entry mnow epl (collected_entry s epl shell e))"

definition collect_optics :: "'s backend \<Rightarrow> int \<Rightarrow> int \<Rightarrow> int \<Rightarrow> ('s, unit) panel_action" where
  "collect_optics bk now mnow epl =
     bind_action (catch_action
       (bind_action (read_config bk now) (\<lambda>sn.
        bind_action (validated (ps_configuration sn)) (\<lambda>c.
          case first_group c epl of
            None \<Rightarrow> raise_error NoSuchGroup
          | Some g \<Rightarrow> ret (Inr (g, optic_entry_of (diagnostic_shell epl (Some (pg_mode g)) (Some (ps_revision sn))))))))
       (\<lambda>e. ret (Inl e)))
     (\<lambda>found. case found of
        Inl e \<Rightarrow> store_failure mnow epl (optic_entry_of (diagnostic_shell epl None None)) e
      | Inr (g, shell) \<Rightarrow>
          bind_action (catch_action (bind_action (on_backend (bk_phy bk now g)) (\<lambda>r. ret (Inr r))) (\<lambda>e. ret (Inl e)))
          (\<lambda>outcome. case outcome of
             Inr (Inr reading) \<Rightarrow> store_entry mnow epl (shell\<lparr>oe_diagnostic := (oe_diagnostic shell)\<lparr>dg_phy := reading\<rparr>\<rparr>)
           | Inr (Inl PhyModeChanged) \<Rightarrow> store_entry mnow epl (shell\<lparr>oe_mode_changed := True\<rparr>)
           | Inr (Inl _) \<Rightarrow> store_failure mnow epl shell (Hardware PyValueError)
           | Inl e \<Rightarrow> store_failure mnow epl shell e))"

record port_optics_view =
  po_port :: int
  po_entry :: optic_entry
  po_refreshing :: bool
  po_power :: power_reading

definition refresh_due :: "int \<Rightarrow> int \<Rightarrow> 's panel \<Rightarrow> bool" where
  "refresh_due mnow epl s \<longleftrightarrow>
     \<not> (case map_of (pn_optics_cache s) epl of None \<Rightarrow> False
          | Some e \<Rightarrow> ph_quality (dg_phy (oe_diagnostic e)) = PhyUnsupported)
     \<and> epl \<notin> set (pn_optics_inflight s)
     \<and> mnow \<ge> (case map_of (pn_optics_due s) epl of None \<Rightarrow> 0 | Some t \<Rightarrow> t)"

definition request_collection :: "int \<Rightarrow> int \<Rightarrow> ('s, unit) panel_action" where
  "request_collection mnow epl =
     catch_action (bind_action (enqueue (CollectTask epl) 20 (Some (''optics-'' @ decimal_int epl))) (\<lambda>created.
         if created then modify_state (\<lambda>s. s\<lparr>pn_optics_inflight := epl # pn_optics_inflight s\<rparr>) else ret ()))
       (\<lambda>e. modify_state (\<lambda>s.
          let cached = (case map_of (pn_optics_cache s) epl of Some c \<Rightarrow> c
                | None \<Rightarrow> optic_entry_of (diagnostic_shell epl None None));
              entry = (with_quality (if has_lanes cached then PhyStale else PhyUnavailable) cached)\<lparr>oe_error := Some e\<rparr>
          in s\<lparr>pn_optics_cache := dict_set (pn_optics_cache s) epl entry,
               pn_optics_due := dict_set (pn_optics_due s) epl (mnow + 1000 * PHY_REFRESH_SECONDS)\<rparr>))"

definition freshened :: "int \<Rightarrow> optic_entry \<Rightarrow> optic_entry" where
  "freshened now e = (let phy = dg_phy (oe_diagnostic e) in case ph_sampled_at phy of
     None \<Rightarrow> e
   | Some t \<Rightarrow> if \<not> (0 \<le> of_int now / 1000 - t \<and> of_int now / 1000 - t \<le> of_int PHY_STALE_SECONDS)
        \<and> ph_quality phy \<in> {PhyValid, PhyPartial, PhySimulated} then with_quality PhyStale e else e)"

definition port_optics :: "int \<Rightarrow> int \<Rightarrow> int \<Rightarrow> ('s, port_optics_view) panel_action" where
  "port_optics now mnow port =
     (if \<not> (1 \<le> port \<and> port \<le> 24) then raise_error (Panel InvalidPort)
      else let epl = group_for_port port in
      then_action (with_state (\<lambda>s. if refresh_due mnow epl s then request_collection mnow epl else ret ()))
        (with_state (\<lambda>s.
          let entry = (case map_of (pn_optics_cache s) epl of Some c \<Rightarrow> c
                | None \<Rightarrow> optic_entry_of (diagnostic_shell epl None None));
              optic = find (\<lambda>m. py_eq (jget (or_module m) ''mpo'') (JInt (ph_mpo (physical_of epl)))) (ca_optics (pn_cache s))
          in ret \<lparr>po_port = port, po_entry = freshened now entry, po_refreshing = (epl \<in> set (pn_optics_inflight s)),
                  po_power = power_for_epl (map_option or_module optic) epl (of_int now / 1000)\<rparr>)))"

subsection \<open>Eye scans\<close>

definition merged_scan :: "eye_scan option \<Rightarrow> json \<Rightarrow> ('s, eye_scan) panel_action" where
  "merged_scan previous chunk = (case merge_chunk previous chunk of Inl e \<Rightarrow> raise_error (Scan e) | Inr v \<Rightarrow> ret v)"

definition cached_scan :: "'s panel \<Rightarrow> json \<Rightarrow> eye_scan option" where
  "cached_scan s ident = map_of (pn_eye_cache s) ident"

definition store_scan :: "json \<Rightarrow> eye_scan \<Rightarrow> ('s, unit) panel_action" where
  "store_scan ident v = modify_state (\<lambda>s. s\<lparr>pn_eye_cache := dict_set (pn_eye_cache s) ident v\<rparr>)"

definition start_eye :: "'s backend \<Rightarrow> int \<Rightarrow> int \<Rightarrow> eye_request \<Rightarrow> string \<Rightarrow> ('s, eye_scan) panel_action" where
  "start_eye bk now port request actor =
     (if \<not> (1 \<le> port \<and> port \<le> 24) then raise_error (Panel InvalidPort)
      else scheduled (with_state (\<lambda>s. if pn_busy s \<noteq> None then raise_error (Panel ConfigurationBusy)
        else bind_action (read_config bk now) (\<lambda>sn.
        bind_action (validated (ps_configuration sn)) (\<lambda>c.
        case first_group c (group_for_port port) of
          None \<Rightarrow> raise_error NoSuchGroup
        | Some g \<Rightarrow>
          let base = base_of (pg_epl g); actual = (if pg_mode g = Split then base + er_lane request else base) in
          if pg_mode g = Split \<and> actual \<noteq> port then raise_error (Panel PortLaneMismatch)
          else if \<not> pc_enabled (port_of c actual) then raise_error (Panel PortDisabled)
          else bind_action (on_backend (bk_eye_start bk now actual request)) (\<lambda>chunk.
          with_state (\<lambda>s. bind_action (merged_scan (cached_scan s (jget chunk ''id'')) chunk) (\<lambda>v.
            then_action (store_scan (jget (es_value v) ''id'') v)
            (then_action (audit (AuditEyeStarted actor actual (er_lane request) (jget (es_value v) ''id''))) (ret v))))))))))"

fun more_pages :: "'s backend \<Rightarrow> int \<Rightarrow> nat \<Rightarrow> json \<Rightarrow> eye_scan \<Rightarrow> ('s, eye_scan) panel_action" where
  "more_pages bk now 0 ident v = ret v"
| "more_pages bk now (Suc n) ident v =
     (if int (length (scan_rows (es_value v))) \<ge> scan_int (es_value v) ''columns_done'' then ret v
      else bind_action (on_backend (bk_eye_read bk now (Some (id_text ident)) (int (length (scan_rows (es_value v))))))
        (\<lambda>chunk. bind_action (merged_scan (Some v) chunk) (more_pages bk now n ident)))"

text \<open>\<^verbatim>\<open>while len(cache) > 8\<close>: the oldest entries go.\<close>

definition trim_scans :: "('k \<times> 'v) list \<Rightarrow> ('k \<times> 'v) list" where
  "trim_scans d = drop (length d - 8) d"

definition absorb_chunk :: "'s backend \<Rightarrow> int \<Rightarrow> json \<Rightarrow> ('s, eye_scan) panel_action" where
  "absorb_chunk bk now chunk =
     (if jget chunk ''state'' = jstr ''idle'' then ret \<lparr>es_value = chunk, es_metrics = None\<rparr>
      else let ident = jget chunk ''id'' in
      with_state (\<lambda>s. bind_action (merged_scan (cached_scan s ident) chunk) (\<lambda>v.
        bind_action (more_pages bk now 3 ident v) (\<lambda>v.
          then_action (store_scan ident v)
          (then_action (modify_state (\<lambda>s. s\<lparr>pn_eye_cache := trim_scans (pn_eye_cache s)\<rparr>)) (ret v))))))"

definition finished_scan :: "'s panel \<Rightarrow> text_points option \<Rightarrow> eye_scan option" where
  "finished_scan s ident = (case ident of None \<Rightarrow> None | Some t \<Rightarrow> (case cached_scan s (JStr t) of
     None \<Rightarrow> None
   | Some v \<Rightarrow> if \<not> one_of ACTIVE (jget (es_value v) ''state'')
         \<and> int (length (scan_rows (es_value v))) = scan_int (es_value v) ''columns_done'' then Some v else None))"

definition read_eye :: "'s backend \<Rightarrow> int \<Rightarrow> text_points option \<Rightarrow> ('s, eye_scan) panel_action" where
  "read_eye bk now ident =
     (if (case ident of None \<Rightarrow> False | Some t \<Rightarrow> \<not> hex_id t) then raise_error (Panel InvalidEyeId)
      else scheduled (with_state (\<lambda>s. case finished_scan s ident of
          Some v \<Rightarrow> ret v
        | None \<Rightarrow> bind_action (on_backend (bk_eye_read bk now ident 0)) (absorb_chunk bk now))))"

definition cancel_eye :: "'s backend \<Rightarrow> int \<Rightarrow> text_points \<Rightarrow> string \<Rightarrow> ('s, eye_scan) panel_action" where
  "cancel_eye bk now ident actor =
     (if \<not> hex_id ident then raise_error (Panel InvalidEyeId)
      else scheduled (bind_action (on_backend (bk_eye_cancel bk now ident)) (\<lambda>chunk.
        with_state (\<lambda>s. bind_action (merged_scan (cached_scan s (JStr ident)) chunk) (\<lambda>v.
          then_action (store_scan (JStr ident) v)
          (then_action (audit (AuditEyeCancelled actor ident)) (ret v)))))))"

subsection \<open>Backup and restore\<close>

text \<open>
  The digest of a canonical document is SHA-256 of its serialisation and is a parameter; so are the
  dump and the parser of configurations.
\<close>

definition backup_content :: "json \<Rightarrow> json" where
  "backup_content configuration = JObj [(''format'', jstr ''fm10k-controlpanel-backup''), (''version'', JInt 1),
     (''configuration'', configuration)]"

definition backup ::
  "'s backend \<Rightarrow> (switch_configuration \<Rightarrow> json) \<Rightarrow> (json \<Rightarrow> text_points) \<Rightarrow> int \<Rightarrow> int \<Rightarrow> ('s, json) panel_action" where
  "backup bk dump digest now mnow = bind_action (config bk now mnow) (\<lambda>sn.
     let content = backup_content (dump (ps_configuration sn)) in
     ret (JObj (entries content @ [(''sha256'', JStr (digest content))])))"

definition restore_preview ::
  "'s backend \<Rightarrow> (switch_configuration \<Rightarrow> json) \<Rightarrow> (json \<Rightarrow> config_error + switch_configuration) \<Rightarrow> (json \<Rightarrow> text_points) \<Rightarrow>
   int \<Rightarrow> int \<Rightarrow> string \<Rightarrow> json \<Rightarrow> ('s, draft) panel_action" where
  "restore_preview bk dump load digest now mnow ident envelope =
     (let content = JObj (dict_del (entries envelope) ''sha256'') in
      if \<not> is_object envelope \<or> set (map fst (entries envelope)) \<noteq> {''format'', ''version'', ''configuration'', ''sha256''}
        then raise_error (Panel BackupFormat)
      else if jget content ''format'' \<noteq> jstr ''fm10k-controlpanel-backup'' \<or> \<not> py_eq (jget content ''version'') (JInt 1)
        then raise_error (Panel BackupVersion)
      else if jget envelope ''sha256'' \<noteq> JStr (digest content) then raise_error (Panel BackupDigest)
      else case load (jget content ''configuration'') of
          Inl e \<Rightarrow> raise_error (Invalid e)
        | Inr target \<Rightarrow> bind_action (config bk now mnow) (\<lambda>sn.
            preview bk dump load now ident (ps_revision sn) target))"

subsection \<open>Telemetry\<close>

definition out_of_date :: "int \<Rightarrow> int \<Rightarrow> int \<Rightarrow> bool" where
  "out_of_date limit now t \<longleftrightarrow> \<not> (0 \<le> now - t \<and> now - t \<le> limit)"

text \<open>\<^verbatim>\<open>if t and not 0 <= now - t <= 15\<close>: a missing or zero time never counts.\<close>

definition expired :: "int \<Rightarrow> int option \<Rightarrow> bool" where
  "expired now t = (case t of None \<Rightarrow> False | Some t \<Rightarrow> t \<noteq> 0 \<and> out_of_date 15000 now t)"

definition port_reading :: "int \<Rightarrow> reading \<Rightarrow> reading" where
  "port_reading now r = (if out_of_date 3000 now (case rd_sampled_at r of None \<Rightarrow> 0 | Some t \<Rightarrow> t) then stale_reading r else r)"

definition temperature_reading :: "int \<Rightarrow> int option \<Rightarrow> reading \<Rightarrow> reading" where
  "temperature_reading now sensor_at r =
     (if expired now (case rd_sampled_at r of None \<Rightarrow> sensor_at | Some t \<Rightarrow> Some t) then stale_reading r else r)"

definition fan_view :: "int \<Rightarrow> fan_reading \<Rightarrow> fan_reading" where
  "fan_view now f = f\<lparr>fn_quality := (if expired now (fn_sampled_at f) then ''stale'' else fn_quality f),
     fn_pwm_quality := (if expired now (fn_pwm_sampled_at f) then ''stale'' else fn_pwm_quality f)\<rparr>"

definition sensor_view :: "int \<Rightarrow> sensor_reading \<Rightarrow> sensor_reading" where
  "sensor_view now r = r\<lparr>sr_quality := (if expired now (sr_sampled_at r) then ''stale'' else sr_quality r),
     sr_temperatures := map (temperature_reading now (sr_sampled_at r)) (sr_temperatures r),
     sr_fan := map_option (fan_view now) (sr_fan r)\<rparr>"

definition optic_view :: "int \<Rightarrow> optic_reading \<Rightarrow> optic_reading" where
  "optic_view now m = m\<lparr>
     or_power_quality := (if expired now (or_power_sampled_at m) \<and> or_power_quality m = ''valid'' then ''stale''
       else or_power_quality m),
     or_quality := (if expired now (or_sampled_at m) then ''stale'' else or_quality m)\<rparr>"

record telemetry_view =
  tm_ports :: "reading list"
  tm_sensors :: sensor_reading
  tm_optics :: "optic_reading list"
  tm_control_available :: "bool option"
  tm_error :: "panel_fault option"
  tm_queue_depth :: nat
  tm_server_time :: int

definition telemetry :: "int \<Rightarrow> ('s, telemetry_view) panel_action" where
  "telemetry now = with_state (\<lambda>s. let c = pn_cache s in ret
     \<lparr>tm_ports = map (port_reading now) (ca_ports c), tm_sensors = sensor_view now (ca_sensors c),
      tm_optics = map (optic_view now) (ca_optics c), tm_control_available = ca_control_available c,
      tm_error = pn_last_error s, tm_queue_depth = length (oq_items (pn_queue s)), tm_server_time = now\<rparr>)"

subsection \<open>The worker\<close>

definition run_task :: "'s backend \<Rightarrow> int \<Rightarrow> int \<Rightarrow> 's task \<Rightarrow> ('s, unit) panel_action" where
  "run_task bk now mnow task = (case task of
     SampleTask \<Rightarrow> sample bk now mnow
   | RoceTask \<Rightarrow> (case bk_sample_roce bk of None \<Rightarrow> ret () | Some m \<Rightarrow> on_backend (m now))
   | CollectTask epl \<Rightarrow> collect_optics bk now mnow epl
   | CommitTask ident draft_id d timeout actor \<Rightarrow> commit_work bk now mnow ident draft_id d timeout actor
   | RecoverTask ident actor \<Rightarrow> recover_work bk now mnow ident actor
   | OperationTask ident kind actor body \<Rightarrow> operation_work bk now mnow ident kind actor body)"

text \<open>
  One turn of \<^verbatim>\<open>OwnerQueue._run\<close>: take an entry, run it (an exception goes into its future), release its
  key; with nothing left and a stop requested, run the finalizer.
\<close>

definition work :: "'s backend \<Rightarrow> int \<Rightarrow> int \<Rightarrow> ('s, unit) panel_action" where
  "work bk now mnow = with_state (\<lambda>s. case take_item (pn_queue s) of
     Some (i, q) \<Rightarrow>
       then_action (modify_state (\<lambda>s. s\<lparr>pn_queue := q\<rparr>))
       (then_action (catch_action (run_task bk now mnow (qi_task i)) (\<lambda>_. ret ()))
         (modify_state (\<lambda>s. s\<lparr>pn_queue := release_key i (pn_queue s)\<rparr>)))
   | None \<Rightarrow>
       if oq_stopping (pn_queue s) \<and> \<not> oq_finalized (pn_queue s)
       then then_action (catch_action (on_backend (bk_close bk)) (\<lambda>_. ret ()))
         (modify_state (\<lambda>s. s\<lparr>pn_queue := (pn_queue s)\<lparr>oq_finalized := True\<rparr>\<rparr>))
       else ret ())"

text \<open>\<^verbatim>\<open>_monitor\<close>, once per second.\<close>

definition monitor :: "('s, unit) panel_action" where
  "monitor = catch_action (then_action (enqueue SampleTask 10 (Some ''telemetry'')) (ret ())) (\<lambda>_. ret ())"

definition close_panel :: "('s, unit) panel_action" where
  "close_panel = modify_state (\<lambda>s. s\<lparr>pn_queue := stop_queue (pn_queue s)\<rparr>)"

end
