(* ===== verification/Panel_Frame.thy ===== *)
theory Panel_Frame
  imports Panel
begin

text \<open>
  What the actions of the panel leave alone. An action is calm for a set of jobs when it neither
  starts nor ends work: the queued jobs, the busy mark and the drafts stay, and outside the set the
  only job whose state may change is one that waits for its confirmation. Sampling, the optical and
  eye handlers and every read are calm for the empty set.
\<close>

named_theorems calm_intros \<open>actions that keep jobs, drafts and queued work\<close>

subsection \<open>Jobs of queued tasks\<close>

fun task_job :: "'s task \<Rightarrow> string list" where
  "task_job (CommitTask ident _ _ _ _) = [ident]"
| "task_job (RecoverTask ident _) = [ident]"
| "task_job (OperationTask ident _ _ _) = [ident]"
| "task_job _ = []"

fun exclusive_job :: "'s task \<Rightarrow> string list" where
  "exclusive_job (CommitTask ident _ _ _ _) = [ident]"
| "exclusive_job (RecoverTask ident _) = [ident]"
| "exclusive_job _ = []"

text \<open>The queued tasks that carry a job, in queue order.\<close>

definition queued_work :: "'s panel \<Rightarrow> 's task list" where
  "queued_work s = filter (\<lambda>t. task_job t \<noteq> []) (map qi_task (oq_items (pn_queue s)))"

definition jobs_of :: "('s task \<Rightarrow> string list) \<Rightarrow> 's task list \<Rightarrow> string list" where
  "jobs_of f ts = concat (map f ts)"

lemma jobs_of_simps [simp]:
  "jobs_of f [] = []" "jobs_of f (t # ts) = f t @ jobs_of f ts" "jobs_of f (ts @ us) = jobs_of f ts @ jobs_of f us"
  by (simp_all add: jobs_of_def)

lemma insort_splits:
  "\<exists>xs ys. map g is = xs @ ys \<and> map g (insort_key r x is) = xs @ g x # ys"
proof (induction "is")
  case (Cons i "is")
  then obtain xs ys where "map g is = xs @ ys" "map g (insort_key r x is) = xs @ g x # ys" by blast
  then show ?case
  proof (cases "r x \<le> r i")
    case True
    then show ?thesis by (intro exI [of _ "[]"] exI [of _ "map g (i # is)"]) simp
  next
    case False
    with \<open>map g is = xs @ ys\<close> \<open>map g (insort_key r x is) = xs @ g x # ys\<close> show ?thesis
      by (intro exI [of _ "g i # xs"] exI [of _ ys]) simp
  qed
qed simp

lemma queued_insort:
  assumes "oq_items (pn_queue s') = insort_key r x (oq_items (pn_queue s))"
  obtains xs ys where "queued_work s = xs @ ys" and "queued_work s' = xs @ (if task_job (qi_task x) = [] then [] else [qi_task x]) @ ys"
proof -
  from insort_splits [of qi_task "oq_items (pn_queue s)" r x] obtain xs ys where
    "map qi_task (oq_items (pn_queue s)) = xs @ ys"
    "map qi_task (insort_key r x (oq_items (pn_queue s))) = xs @ qi_task x # ys" by blast
  then show thesis
    by (intro that [of "filter (\<lambda>t. task_job t \<noteq> []) xs" "filter (\<lambda>t. task_job t \<noteq> []) ys"])
      (simp_all add: queued_work_def assms)
qed

subsection \<open>Calm actions\<close>

definition job_steps :: "string set \<Rightarrow> job \<Rightarrow> job \<Rightarrow> bool" where
  "job_steps X j j' \<longleftrightarrow> jb_id j' = jb_id j
     \<and> (jb_id j \<in> X \<or> jb_state j' = jb_state j \<or> jb_state j = JobAwaiting \<and> jb_state j' \<in> {JobDone, JobRolledBack})"

definition jobs_step :: "string set \<Rightarrow> (string \<times> job) list \<Rightarrow> (string \<times> job) list \<Rightarrow> bool" where
  "jobs_step X d d' \<longleftrightarrow> map fst d' = map fst d \<and> list_all2 (\<lambda>p q. job_steps X (snd p) (snd q)) d d'"

text \<open>A key that is taken by the running task alone.\<close>

definition key_held :: "string \<Rightarrow> 's task owner_queue \<Rightarrow> bool" where
  "key_held k q \<longleftrightarrow> k \<in> set (oq_keys q) \<and> k \<notin> set (queue_keys (oq_items q))"

lemma submit_key_held: "key_held k q \<Longrightarrow> key_held k (snd (submit t p key q))"
  by (cases key) (auto simp: key_held_def submit_run set_queue_keys set_insort_key)

definition quiet :: "string set \<Rightarrow> 's panel \<Rightarrow> 's panel \<Rightarrow> bool" where
  "quiet X s t \<longleftrightarrow> (queue_ok (pn_queue s) \<longrightarrow> queue_ok (pn_queue t))
     \<and> (\<forall>k. key_held k (pn_queue s) \<longrightarrow> key_held k (pn_queue t)) \<and> queued_work t = queued_work s
     \<and> oq_stopping (pn_queue t) = oq_stopping (pn_queue s)
     \<and> pn_busy t = pn_busy s \<and> pn_drafts t = pn_drafts s \<and> jobs_step X (pn_jobs s) (pn_jobs t)"

definition jobs_ok :: "(string \<times> job) list \<Rightarrow> bool" where
  "jobs_ok d \<longleftrightarrow> distinct (map fst d) \<and> (\<forall>(k, j) \<in> set d. jb_id j = k)"

definition calm :: "string set \<Rightarrow> ('s, 'a) panel_action \<Rightarrow> bool" where
  "calm X m \<longleftrightarrow> (\<forall>s. jobs_ok (pn_jobs s) \<longrightarrow> quiet X s (snd (m s)))"

lemma job_steps_refl [simp]: "job_steps X j j" by (simp add: job_steps_def)

lemma job_steps_trans: "job_steps X i j \<Longrightarrow> job_steps X j k \<Longrightarrow> job_steps X i k"
  by (auto simp: job_steps_def)

lemma jobs_step_refl [simp]: "jobs_step X d d"
  by (simp add: jobs_step_def list_all2_refl)

lemma jobs_step_trans: "jobs_step X a b \<Longrightarrow> jobs_step X b c \<Longrightarrow> jobs_step X a c"
  unfolding jobs_step_def by (auto intro: list_all2_trans [OF job_steps_trans])

lemma quiet_refl [simp]: "quiet X s s" by (simp add: quiet_def)

lemma quiet_trans: "quiet X s t \<Longrightarrow> quiet X t u \<Longrightarrow> quiet X s u"
  unfolding quiet_def by (auto intro: jobs_step_trans)

lemma jobs_step_ok:
  assumes "jobs_step X d d'" and "jobs_ok d"
  shows "jobs_ok d'"
proof -
  have l: "length d' = length d" and k: "map fst d' = map fst d"
    and a: "list_all2 (\<lambda>p q. job_steps X (snd p) (snd q)) d d'"
    using assms(1) by (auto simp: jobs_step_def dest: list_all2_lengthD)
  have "jb_id (snd (d' ! n)) = fst (d' ! n)" if "n < length d'" for n
  proof -
    have "job_steps X (snd (d ! n)) (snd (d' ! n))" using a that l by (auto simp: list_all2_conv_all_nth)
    moreover have "fst (d' ! n) = fst (d ! n)" using k that l by (metis nth_map)
    moreover have "jb_id (snd (d ! n)) = fst (d ! n)"
      using assms(2) that l by (auto simp: jobs_ok_def case_prod_beta)
    ultimately show ?thesis by (simp add: job_steps_def)
  qed
  then have "\<forall>p \<in> set d'. jb_id (snd p) = fst p" by (metis in_set_conv_nth)
  then have "\<forall>(k, j) \<in> set d'. jb_id j = k" by auto
  with assms(2) k show ?thesis by (simp add: jobs_ok_def)
qed

lemma quiet_jobs_ok: "quiet X s t \<Longrightarrow> jobs_ok (pn_jobs s) \<Longrightarrow> jobs_ok (pn_jobs t)"
  by (auto simp: quiet_def intro: jobs_step_ok)

lemma calmD: "calm X m \<Longrightarrow> m s = (r, t) \<Longrightarrow> jobs_ok (pn_jobs s) \<Longrightarrow> quiet X s t"
  by (metis calm_def snd_conv)

lemma calmI: "(\<And>s r t. m s = (r, t) \<Longrightarrow> jobs_ok (pn_jobs s) \<Longrightarrow> quiet X s t) \<Longrightarrow> calm X m"
  by (metis calm_def prod.collapse)

lemma calm_ret [calm_intros]: "calm X (ret a)"
  and calm_raise [calm_intros]: "calm X (raise_error e)"
  by (simp_all add: calm_def monad_simps)

lemma calm_modify [calm_intros]: "(\<And>s. quiet X s (f s)) \<Longrightarrow> calm X (modify_state f)"
  by (simp add: calm_def monad_simps)

lemma calm_with_state [calm_intros]: "(\<And>s. calm X (g s)) \<Longrightarrow> calm X (with_state g)"
  by (simp add: calm_def monad_simps)

lemma calm_bind [calm_intros]:
  assumes "calm X m" and "\<And>a. calm X (k a)"
  shows "calm X (bind_action m k)"
proof (rule calmI)
  fix s r t assume run: "bind_action m k s = (r, t)" and ok: "jobs_ok (pn_jobs s)"
  obtain q u where m: "m s = (q, u)" by (cases "m s")
  have q: "quiet X s u" by (rule calmD [OF assms(1) m ok])
  moreover have "quiet X u t"
    using run m calmD [OF assms(2) _ quiet_jobs_ok [OF q ok]] by (cases q) (auto simp: monad_simps)
  ultimately show "quiet X s t" by (rule quiet_trans)
qed

lemma calm_then [calm_intros]: "calm X m \<Longrightarrow> calm X k \<Longrightarrow> calm X (then_action m k)"
  unfolding then_action_def by (rule calm_bind)

lemma calm_catch [calm_intros]:
  assumes "calm X m" and "\<And>e. calm X (h e)"
  shows "calm X (catch_action m h)"
proof (rule calmI)
  fix s r t assume run: "catch_action m h s = (r, t)" and ok: "jobs_ok (pn_jobs s)"
  obtain q u where m: "m s = (q, u)" by (cases "m s")
  have q: "quiet X s u" by (rule calmD [OF assms(1) m ok])
  moreover have "quiet X u t"
    using run m calmD [OF assms(2) _ quiet_jobs_ok [OF q ok]] by (cases q) (auto simp: monad_simps)
  ultimately show "quiet X s t" by (rule quiet_trans)
qed

lemma calm_for_each [calm_intros]: "(\<And>x. calm X (f x)) \<Longrightarrow> calm X (for_each f xs)"
  by (induction xs) (simp_all add: calm_intros)

lemma calm_if [calm_intros]: "calm X a \<Longrightarrow> calm X b \<Longrightarrow> calm X (if c then a else b)"
  by simp

lemma calm_option [calm_intros]: "calm X a \<Longrightarrow> (\<And>x. calm X (f x)) \<Longrightarrow> calm X (case v of None \<Rightarrow> a | Some x \<Rightarrow> f x)"
  by (simp split: option.splits)

lemma calm_sum [calm_intros]: "(\<And>x. calm X (f x)) \<Longrightarrow> (\<And>x. calm X (g x)) \<Longrightarrow> calm X (case v of Inl x \<Rightarrow> f x | Inr x \<Rightarrow> g x)"
  by (simp split: sum.splits)

lemma calm_pair [calm_intros]: "(\<And>x y. calm X (f x y)) \<Longrightarrow> calm X (case v of (x, y) \<Rightarrow> f x y)"
  by (simp split: prod.splits)

lemma calm_phy_error [calm_intros]:
  "(\<And>e. calm X (f e)) \<Longrightarrow> calm X a \<Longrightarrow> calm X (case e of PhyModeChanged \<Rightarrow> a | _ \<Rightarrow> f e)"
  by (cases e) simp_all

lemma calm_on_backend [calm_intros]: "calm X (on_backend m)"
  by (auto simp: calm_def on_backend_def quiet_def queued_work_def split: prod.splits sum.splits)

lemma calm_audit [calm_intros]: "calm X (audit e)"
  unfolding audit_def by (rule calm_modify) (simp add: quiet_def queued_work_def)

lemma calm_enqueue [calm_intros]:
  assumes "task_job t = []"
  shows "calm X (enqueue t p k)"
proof (rule calmI)
  fix s r u assume run: "enqueue t p k s = (r, u)"
  have u: "u = s\<lparr>pn_queue := snd (submit t p k (pn_queue s))\<rparr>"
    using run by (auto simp: enqueue_def split: prod.splits sum.splits)
  let ?i = "\<lparr>qi_priority = p, qi_sequence = oq_sequence (pn_queue s), qi_task = t, qi_key = k\<rparr>"
  have "oq_items (pn_queue u) = oq_items (pn_queue s) \<or> oq_items (pn_queue u) = insort_key item_rank ?i (oq_items (pn_queue s))"
    by (simp add: u submit_run)
  then have "queued_work u = queued_work s"
    by (elim disjE queued_insort) (simp_all add: assms queued_work_def)
  moreover have "oq_stopping (snd (submit t p k (pn_queue s))) = oq_stopping (pn_queue s)" by (simp add: submit_run)
  ultimately show "quiet X s u" by (simp add: u quiet_def queued_work_def submit_ok submit_key_held)
qed

lemma calm_observe_timer [calm_intros]: "calm X (observe_timer i p r)"
  unfolding observe_timer_def by (rule calm_modify) (simp add: quiet_def queued_work_def)

lemma calm_observe_revision [calm_intros]: "calm X (observe_revision r)"
  unfolding observe_revision_def by (rule calm_modify) (simp add: quiet_def queued_work_def)

lemma calm_mark_failed [calm_intros]: "calm X (mark_failed b e)"
  unfolding mark_failed_def Let_def by (rule calm_modify) (simp add: quiet_def queued_work_def)

lemma calm_validated [calm_intros]: "calm X (validated c)"
  unfolding validated_def by (intro calm_intros)

lemma calm_read_config [calm_intros]: "calm X (read_config bk now)"
  unfolding read_config_def by (intro calm_intros)

lemma calm_scheduled [calm_intros]: "calm X m \<Longrightarrow> calm X (scheduled m)"
  unfolding scheduled_def by (intro calm_intros)

lemma keys_alter [simp]: "map fst (alter d k f) = map fst d"
  by (simp add: alter_def case_prod_beta comp_def)

lemma map_of_alter: "map_of (alter d k f) k' = (if k' = k then map_option f (map_of d k) else map_of d k')"
  by (induction d) (auto simp: alter_def)

lemma jobs_step_alter:
  assumes "\<And>j. (k, j) \<in> set d \<Longrightarrow> job_steps X j (f j)"
  shows "jobs_step X d (alter d k f)"
  using assms unfolding jobs_step_def
  by (auto simp: alter_def list_all2_map2 case_prod_beta comp_def intro!: list_all2_refl list.rel_refl_strong)

lemma calm_update_job [calm_intros]:
  "(\<And>j. jb_id (f j) = jb_id j \<and> jb_state (f j) = jb_state j) \<Longrightarrow> calm X (update_job i f)"
  unfolding update_job_def by (rule calm_modify) (simp add: quiet_def queued_work_def jobs_step_alter job_steps_def)

subsection \<open>Sampling\<close>

text \<open>One job is reconciled: its entry alone may change, and only while it waits.\<close>

lemma reconcile_quiet:
  assumes "jobs_ok (pn_jobs s)" and "(jb_id j, j) \<in> set (pn_jobs s)"
  shows "\<exists>t. reconcile_job now mnow sn j s = (Inr (), t) \<and> quiet X s t
    \<and> (\<forall>k v. k \<noteq> jb_id j \<longrightarrow> (k, v) \<in> set (pn_jobs s) \<longrightarrow> (k, v) \<in> set (pn_jobs t))"
proof -
  have own: "v = j" if "(jb_id j, v) \<in> set (pn_jobs s)" for v
    using assms that by (metis eq_key_imp_eq_value jobs_ok_def)
  have alt: "jobs_step X (pn_jobs s) (alter (pn_jobs s) (jb_id j) f)" if "job_steps X j (f j)" for f
    by (rule jobs_step_alter) (use own that in auto)
  have other: "(k, v) \<in> set (alter (pn_jobs s) (jb_id j) f)" if "k \<noteq> jb_id j" "(k, v) \<in> set (pn_jobs s)" for k v f
    using that by (force simp: alter_def)
  show ?thesis
    by (auto simp: reconcile_job_def observe_timer_def update_job_def audit_def monad_simps quiet_def queued_work_def
        job_steps_def other split: option.splits intro!: alt)
qed

lemma reconcile_loop_quiet:
  assumes "jobs_ok (pn_jobs s)" and "distinct (map jb_id js)" and "\<forall>j \<in> set js. (jb_id j, j) \<in> set (pn_jobs s)"
  shows "quiet X s (snd (for_each (reconcile_job now mnow sn) js s))"
  using assms
proof (induction js arbitrary: s)
  case (Cons j js)
  from reconcile_quiet [OF Cons.prems(1)] Cons.prems(3) obtain t where
    t: "reconcile_job now mnow sn j s = (Inr (), t)" "quiet X s t"
      "\<forall>k v. k \<noteq> jb_id j \<longrightarrow> (k, v) \<in> set (pn_jobs s) \<longrightarrow> (k, v) \<in> set (pn_jobs t)" by (metis list.set_intros(1))
  have "\<forall>i \<in> set js. jb_id i \<noteq> jb_id j" using Cons.prems(2) by (auto simp: image_iff)
  then have "\<forall>i \<in> set js. (jb_id i, i) \<in> set (pn_jobs t)" using Cons.prems(3) t(3) by simp
  with Cons.IH [OF quiet_jobs_ok [OF t(2) Cons.prems(1)]] Cons.prems(2)
  have "quiet X t (snd (for_each (reconcile_job now mnow sn) js t))" by simp
  with quiet_trans [OF t(2)] show ?case by (simp add: monad_simps t(1))
qed (simp add: monad_simps)

lemma calm_reconcile [calm_intros]:
  "calm X (with_state (\<lambda>s. for_each (reconcile_job now mnow sn) (map snd (pn_jobs s))))"
proof (rule calmI)
  fix s r t
  assume run: "with_state (\<lambda>s. for_each (reconcile_job now mnow sn) (map snd (pn_jobs s))) s = (r, t)"
    and ok: "jobs_ok (pn_jobs s)"
  have "map jb_id (map snd (pn_jobs s)) = map fst (pn_jobs s)" using ok by (auto simp: jobs_ok_def)
  moreover have "\<forall>j \<in> set (map snd (pn_jobs s)). (jb_id j, j) \<in> set (pn_jobs s)" using ok by (auto simp: jobs_ok_def)
  ultimately have "quiet X s (snd (for_each (reconcile_job now mnow sn) (map snd (pn_jobs s)) s))"
    using reconcile_loop_quiet [OF ok] ok by (metis jobs_ok_def)
  with run show "quiet X s t" by (simp add: monad_simps)
qed

lemma calm_read_sensors [calm_intros]: "calm X (read_sensors bk now mnow)"
  unfolding read_sensors_def by (intro calm_intros) (simp add: quiet_def queued_work_def)

lemma calm_schedule_roce [calm_intros]: "calm X (schedule_roce bk mnow sn)"
  unfolding schedule_roce_def by (intro calm_intros) (simp_all add: quiet_def queued_work_def)

lemma calm_store_sample [calm_intros]: "calm X (store_sample now rows slow)"
  unfolding store_sample_def Let_def by (rule calm_modify) (auto simp: quiet_def queued_work_def split: option.splits)

lemma calm_sample [calm_intros]: "calm X (sample bk now mnow)"
  unfolding sample_def by (intro calm_intros) (simp add: quiet_def queued_work_def)

lemma calm_refresh [calm_intros]: "calm X (refresh_after_write bk now mnow)"
  unfolding refresh_after_write_def by (intro calm_intros)

subsection \<open>Reads, optics and eye scans\<close>

lemma calm_job_status [calm_intros]: "calm X (job_status mnow i)"
  unfolding job_status_def by (intro calm_intros)

lemma calm_telemetry [calm_intros]: "calm X (telemetry now)"
  unfolding telemetry_def Let_def by (intro calm_intros)

lemma calm_store_entry [calm_intros]: "calm X (store_entry mnow epl e)"
  unfolding store_entry_def by (rule calm_modify) (simp add: quiet_def queued_work_def)

lemma calm_store_failure [calm_intros]: "calm X (store_failure mnow epl shell e)"
  unfolding store_failure_def by (intro calm_intros)

lemma calm_collect_optics [calm_intros]: "calm X (collect_optics bk now mnow epl)"
  unfolding collect_optics_def by (intro calm_intros)

lemma calm_request_collection [calm_intros]: "calm X (request_collection mnow epl)"
  unfolding request_collection_def Let_def by (intro calm_intros) (auto simp: quiet_def queued_work_def)

lemma calm_port_optics [calm_intros]: "calm X (port_optics now mnow port)"
  unfolding port_optics_def Let_def by (intro calm_intros)

lemma calm_merged_scan [calm_intros]: "calm X (merged_scan p c)"
  unfolding merged_scan_def by (intro calm_intros)

lemma calm_store_scan [calm_intros]: "calm X (store_scan i v)"
  unfolding store_scan_def by (rule calm_modify) (simp add: quiet_def queued_work_def)

lemma calm_more_pages [calm_intros]: "calm X (more_pages bk now n i v)"
  by (induction n arbitrary: v) (simp_all add: calm_intros)

lemma calm_absorb_chunk [calm_intros]: "calm X (absorb_chunk bk now c)"
  unfolding absorb_chunk_def Let_def by (intro calm_intros) (simp add: quiet_def queued_work_def)

lemma calm_read_eye [calm_intros]: "calm X (read_eye bk now i)"
  unfolding read_eye_def by (intro calm_intros)

lemma calm_cancel_eye [calm_intros]: "calm X (cancel_eye bk now i actor)"
  unfolding cancel_eye_def by (intro calm_intros)

lemma calm_start_eye [calm_intros]: "calm X (start_eye bk now port request actor)"
  unfolding start_eye_def Let_def by (intro calm_intros)

lemma calm_monitor [calm_intros]: "calm X monitor"
  unfolding monitor_def by (intro calm_intros) simp

lemma calm_update_owned [calm_intros]:
  "i \<in> X \<Longrightarrow> (\<And>j. jb_id (f j) = jb_id j) \<Longrightarrow> calm X (update_job i f)"
proof (rule calmI)
  fix s r t assume i: "i \<in> X" and f: "\<And>j. jb_id (f j) = jb_id j" and run: "update_job i f s = (r, t)"
    and ok: "jobs_ok (pn_jobs s)"
  have "job_steps X j (f j)" if "(i, j) \<in> set (pn_jobs s)" for j
    using ok that i f by (auto simp: job_steps_def jobs_ok_def)
  then have "jobs_step X (pn_jobs s) (alter (pn_jobs s) i f)" by (rule jobs_step_alter)
  then show "quiet X s t"
    using run by (auto simp: update_job_def monad_simps quiet_def queued_work_def)
qed

lemma calm_commit_applied [calm_intros]: "i \<in> X \<Longrightarrow> calm X (commit_applied i sn now mnow)"
  unfolding commit_applied_def by (intro calm_intros) simp_all

lemma calm_operation_work [calm_intros]: "i \<in> X \<Longrightarrow> calm X (operation_work bk now mnow i kind actor body)"
  unfolding operation_work_def by (intro calm_intros) (simp_all add: quiet_def queued_work_def)

end
