(* ===== verification/Panel_Safety.thy ===== *)
theory Panel_Safety
  imports Panel_Frame
begin

text \<open>
  Runs of the panel: requests, worker turns and the monitor's ticks as events, the states they reach
  and the invariant of those states. One configuration change at most is queued or running, drafts
  and queued work stay bounded, and a queued task always has its job.
\<close>

subsection \<open>Events\<close>

record codec =
  cx_dump :: "switch_configuration \<Rightarrow> json"
  cx_load :: "json \<Rightarrow> config_error + switch_configuration"
  cx_digest :: "json \<Rightarrow> text_points"

datatype 's event =
  EvWork | EvMonitor | EvClose | EvTelemetry | EvJob string | EvConfig
| EvPreview string int switch_configuration | EvCommit string string int bool string
| EvFinish string bool string | EvRecover string string
| EvOperation string string "'s \<Rightarrow> (hw_error + json) \<times> 's" string
| EvPortOptics int | EvStartEye int eye_request string | EvReadEye "text_points option" | EvCancelEye text_points string
| EvBackup | EvRestore string json

definition quietly :: "('s, 'a) panel_action \<Rightarrow> ('s, unit) panel_action" where
  "quietly m = bind_action m (\<lambda>_. ret ())"

definition handle :: "'s backend \<Rightarrow> codec \<Rightarrow> int \<Rightarrow> int \<Rightarrow> 's event \<Rightarrow> ('s, unit) panel_action" where
  "handle bk cx now mnow ev = (case ev of
     EvWork \<Rightarrow> work bk now mnow
   | EvMonitor \<Rightarrow> monitor
   | EvClose \<Rightarrow> close_panel
   | EvTelemetry \<Rightarrow> quietly (telemetry now)
   | EvJob ident \<Rightarrow> quietly (job_status mnow ident)
   | EvConfig \<Rightarrow> quietly (config bk now mnow)
   | EvPreview ident expected c \<Rightarrow> quietly (preview bk (cx_dump cx) (cx_load cx) now ident expected c)
   | EvCommit ident draft_id timeout accept actor \<Rightarrow> quietly (commit now mnow ident draft_id timeout accept actor)
   | EvFinish ident confirming actor \<Rightarrow> quietly (finish bk now mnow ident confirming actor)
   | EvRecover ident actor \<Rightarrow> recover_control bk now ident actor
   | EvOperation ident kind body actor \<Rightarrow> operation_request now ident kind body actor
   | EvPortOptics port \<Rightarrow> quietly (port_optics now mnow port)
   | EvStartEye port request actor \<Rightarrow> quietly (start_eye bk now port request actor)
   | EvReadEye ident \<Rightarrow> quietly (read_eye bk now ident)
   | EvCancelEye ident actor \<Rightarrow> quietly (cancel_eye bk now ident actor)
   | EvBackup \<Rightarrow> quietly (backup bk (cx_dump cx) (cx_digest cx) now mnow)
   | EvRestore ident envelope \<Rightarrow> quietly (restore_preview bk (cx_dump cx) (cx_load cx) (cx_digest cx) now mnow ident envelope))"

text \<open>
  A request that calls the authority runs on the worker: after the earlier work, so nothing of its
  priority waits when it does. Identifiers are fresh (\<^verbatim>\<open>uuid4\<close>), proposals passed the validation of
  the request body, and the body of an operation is one of the authority's (\<open>body_ok\<close>).
\<close>

definition on_worker :: "'s event \<Rightarrow> bool" where
  "on_worker ev \<longleftrightarrow> (case ev of EvConfig \<Rightarrow> True | EvPreview _ _ _ \<Rightarrow> True | EvFinish _ _ _ \<Rightarrow> True | EvStartEye _ _ _ \<Rightarrow> True
     | EvReadEye _ \<Rightarrow> True | EvCancelEye _ _ \<Rightarrow> True | EvBackup \<Rightarrow> True | EvRestore _ _ \<Rightarrow> True | _ \<Rightarrow> False)"

definition fresh_ids :: "'s panel \<Rightarrow> 's event \<Rightarrow> bool" where
  "fresh_ids s ev \<longleftrightarrow> (case ev of
     EvPreview ident _ _ \<Rightarrow> map_of (pn_drafts s) ident = None
   | EvRestore ident _ \<Rightarrow> map_of (pn_drafts s) ident = None
   | EvCommit ident _ _ _ _ \<Rightarrow> map_of (pn_jobs s) ident = None
   | EvRecover ident _ \<Rightarrow> map_of (pn_jobs s) ident = None
   | EvOperation ident _ _ _ \<Rightarrow> map_of (pn_jobs s) ident = None
   | _ \<Rightarrow> True)"

definition proposal_ok :: "codec \<Rightarrow> (('s, hw_error, json) action \<Rightarrow> bool) \<Rightarrow> 's event \<Rightarrow> bool" where
  "proposal_ok cx body_ok ev \<longleftrightarrow> (case ev of
     EvPreview _ _ c \<Rightarrow> valid_configuration c
   | EvRestore _ _ \<Rightarrow> (\<forall>v c. cx_load cx v = Inr c \<longrightarrow> valid_configuration c)
   | EvOperation _ _ body _ \<Rightarrow> body_ok body
   | _ \<Rightarrow> True)"

definition admissible :: "codec \<Rightarrow> (('s, hw_error, json) action \<Rightarrow> bool) \<Rightarrow> 's panel \<Rightarrow> 's event \<Rightarrow> bool" where
  "admissible cx body_ok s ev \<longleftrightarrow> fresh_ids s ev \<and> proposal_ok cx body_ok ev
     \<and> (on_worker ev \<longrightarrow> (\<forall>i \<in> set (oq_items (pn_queue s)). qi_priority i > 0))"

inductive panel_steps :: "'s backend \<Rightarrow> codec \<Rightarrow> (('s, hw_error, json) action \<Rightarrow> bool) \<Rightarrow> 's panel \<Rightarrow> 's panel \<Rightarrow> bool"
  for bk cx body_ok where
  panel_event: "admissible cx body_ok s ev \<Longrightarrow> handle bk cx now mnow ev s = (r, s') \<Longrightarrow> panel_steps bk cx body_ok s s'"

inductive panel_reachable :: "'s backend \<Rightarrow> codec \<Rightarrow> (('s, hw_error, json) action \<Rightarrow> bool) \<Rightarrow> 's \<Rightarrow> 's panel \<Rightarrow> bool"
  for bk cx body_ok b where
  panel_start: "panel_reachable bk cx body_ok b (new_panel b)"
| panel_next: "panel_reachable bk cx body_ok b s \<Longrightarrow> panel_steps bk cx body_ok s s' \<Longrightarrow> panel_reachable bk cx body_ok b s'"

subsection \<open>Invariant\<close>

definition drafts_ok :: "(string \<times> draft) list \<Rightarrow> bool" where
  "drafts_ok d \<longleftrightarrow> distinct (map fst d) \<and> length d \<le> 64 \<and> (\<forall>(k, v) \<in> set d. dr_id v = k \<and> valid_configuration (dr_configuration v))"

definition work_ok :: "'s task list \<Rightarrow> (string \<times> job) list \<Rightarrow> string option \<Rightarrow> bool" where
  "work_ok ts jobs busy \<longleftrightarrow> jobs_of exclusive_job ts = (case busy of None \<Rightarrow> [] | Some i \<Rightarrow> [i])
     \<and> distinct (jobs_of task_job ts)
     \<and> (\<forall>i \<in> set (jobs_of task_job ts). \<exists>j. map_of jobs i = Some j \<and> jb_state j = JobQueued)
     \<and> (\<forall>ident draft_id d timeout actor. CommitTask ident draft_id d timeout actor \<in> set ts \<longrightarrow> valid_configuration (dr_configuration d))"

definition panel_ok :: "'s panel \<Rightarrow> bool" where
  "panel_ok s \<longleftrightarrow> queue_ok (pn_queue s) \<and> jobs_ok (pn_jobs s) \<and> drafts_ok (pn_drafts s)
     \<and> work_ok (queued_work s) (pn_jobs s) (pn_busy s)"

lemma panel_ok_start [simp]: "panel_ok (new_panel b)"
  by (simp add: panel_ok_def new_panel_def jobs_ok_def drafts_ok_def work_ok_def queued_work_def)
    (simp add: empty_queue_def)

lemma jobs_step_lookup:
  assumes "jobs_step X d d'" and "map_of d k = Some j"
  shows "\<exists>j'. map_of d' k = Some j' \<and> job_steps X j j'"
  using assms
proof (induction d arbitrary: d')
  case (Cons p d)
  then obtain q e where d': "d' = q # e" "fst q = fst p" "job_steps X (snd p) (snd q)" "jobs_step X d e"
    by (auto simp: jobs_step_def list_all2_Cons1)
  with Cons show ?case by (cases p; cases q) (auto split: if_splits)
qed simp

lemma jobs_step_none: "jobs_step X d d' \<Longrightarrow> map_of d k = None \<Longrightarrow> map_of d' k = None"
  by (metis jobs_step_def list.set_map map_of_eq_None_iff)

lemma work_ok_jobs:
  assumes "work_ok ts jobs busy"
    and "\<And>i j. i \<in> set (jobs_of task_job ts) \<Longrightarrow> map_of jobs i = Some j \<Longrightarrow> jb_state j = JobQueued \<Longrightarrow>
           \<exists>j'. map_of jobs' i = Some j' \<and> jb_state j' = JobQueued"
  shows "work_ok ts jobs' busy"
  using assms unfolding work_ok_def by blast

lemma quiet_ok:
  assumes "quiet {} s t" and "panel_ok s"
  shows "panel_ok t"
proof -
  have "work_ok (queued_work s) (pn_jobs t) (pn_busy s)"
  proof (rule work_ok_jobs)
    show "work_ok (queued_work s) (pn_jobs s) (pn_busy s)" using assms(2) by (simp add: panel_ok_def)
    fix i j assume "map_of (pn_jobs s) i = Some j" "jb_state j = JobQueued"
    with assms(1) jobs_step_lookup show "\<exists>j'. map_of (pn_jobs t) i = Some j' \<and> jb_state j' = JobQueued"
      by (fastforce simp: quiet_def job_steps_def)
  qed
  with assms show ?thesis by (auto simp: panel_ok_def quiet_def intro: jobs_step_ok)
qed

lemma calm_ok: "calm {} m \<Longrightarrow> m s = (r, t) \<Longrightarrow> panel_ok s \<Longrightarrow> panel_ok t"
  by (metis calmD panel_ok_def quiet_ok)

lemma calm_quietly [calm_intros]: "calm X m \<Longrightarrow> calm X (quietly m)"
  unfolding quietly_def by (intro calm_intros)

subsection \<open>Adding a job and its task\<close>

lemma new_job_run:
  assumes "new_job now i kind actor s = (r, t)"
  shows "r = Inl (Panel JobsFull) \<and> t = s
    \<or> r = Inr () \<and> (\<exists>d. t = s\<lparr>pn_jobs := dict_set d i (queued_job i kind actor now)\<rparr>
        \<and> (d = pn_jobs s \<and> length d < 128
           \<or> (\<exists>old j. (old, j) \<in> set (pn_jobs s) \<and> terminal (jb_state j) \<and> d = dict_del (pn_jobs s) old)))"
proof (cases "length (pn_jobs s) \<ge> 128")
  case True
  show ?thesis
  proof (cases "filter (\<lambda>(_, j). terminal (jb_state j)) (pn_jobs s)")
    case Nil
    with True assms show ?thesis by (simp add: new_job_def monad_simps)
  next
    case (Cons p ps)
    obtain old j where p: "p = (old, j)" by (cases p)
    have "p \<in> set (filter (\<lambda>(_, j). terminal (jb_state j)) (pn_jobs s))" using Cons by simp
    with p have "(old, j) \<in> set (pn_jobs s) \<and> terminal (jb_state j)" by auto
    with True Cons p assms show ?thesis by (auto simp: new_job_def monad_simps)
  qed
next
  case False
  with assms show ?thesis by (auto simp: new_job_def monad_simps)
qed

lemma jobs_ok_dict_del [simp]: "jobs_ok d \<Longrightarrow> jobs_ok (dict_del d k)"
  by (auto simp: jobs_ok_def dict_del_def distinct_map_filter)

lemma jobs_ok_dict_set [simp]: "jobs_ok d \<Longrightarrow> jb_id j = k \<Longrightarrow> jobs_ok (dict_set d k j)"
  using set_dict_set [of d k j] by (fastforce simp: jobs_ok_def)

lemma new_job_jobs:
  assumes "new_job now i kind actor s = (Inr u, t)" and "jobs_ok (pn_jobs s)" and "map_of (pn_jobs s) i = None"
  shows "jobs_ok (pn_jobs t)" and "t = s\<lparr>pn_jobs := pn_jobs t\<rparr>"
    and "map_of (pn_jobs t) i = Some (queued_job i kind actor now)"
    and "\<And>k j. k \<noteq> i \<Longrightarrow> map_of (pn_jobs t) k = Some j \<Longrightarrow> map_of (pn_jobs s) k = Some j"
    and "\<And>k j. map_of (pn_jobs s) k = Some j \<Longrightarrow> \<not> terminal (jb_state j) \<Longrightarrow> map_of (pn_jobs t) k = Some j"
    and "length (pn_jobs t) \<le> max 128 (length (pn_jobs s))"
proof -
  from new_job_run [OF assms(1)] obtain d where
    t: "t = s\<lparr>pn_jobs := dict_set d i (queued_job i kind actor now)\<rparr>"
    and d: "d = pn_jobs s \<and> length d < 128
           \<or> (\<exists>old j. (old, j) \<in> set (pn_jobs s) \<and> terminal (jb_state j) \<and> d = dict_del (pn_jobs s) old)" by auto
  have dok: "jobs_ok d" using d assms(2) by auto
  then show "jobs_ok (pn_jobs t)" by (simp add: t queued_job_def)
  show "t = s\<lparr>pn_jobs := pn_jobs t\<rparr>" by (simp add: t)
  show "map_of (pn_jobs t) i = Some (queued_job i kind actor now)" by (simp add: t)
  have look: "map_of d k = map_of (pn_jobs s) k \<or> (\<exists>j. map_of d k = None \<and> map_of (pn_jobs s) k = Some j \<and> terminal (jb_state j))" for k
    using d
  proof (elim disjE exE conjE)
    fix old j assume o: "(old, j) \<in> set (pn_jobs s)" "terminal (jb_state j)" "d = dict_del (pn_jobs s) old"
    have "map_of (pn_jobs s) old = Some j" using assms(2) o(1) by (simp add: jobs_ok_def)
    with o show ?thesis by auto
  qed simp
  have get: "map_of (pn_jobs t) k = (if k = i then Some (queued_job i kind actor now) else map_of d k)" for k by (simp add: t)
  show "map_of (pn_jobs s) k = Some j" if "k \<noteq> i" "map_of (pn_jobs t) k = Some j" for k j
    using look [of k] that by (auto simp: get)
  show "map_of (pn_jobs t) k = Some j" if "map_of (pn_jobs s) k = Some j" "\<not> terminal (jb_state j)" for k j
  proof -
    have "k \<noteq> i" using that(1) assms(3) by auto
    with look [of k] that show ?thesis by (auto simp: get)
  qed
  show "length (pn_jobs t) \<le> max 128 (length (pn_jobs s))"
  proof -
    have "length (dict_set d i v) \<le> length d + 1" for v by (simp add: length_dict_set)
    moreover have "length d + 1 \<le> max 128 (length (pn_jobs s))"
      using d
    proof (elim disjE exE conjE)
      fix old j assume "(old, j) \<in> set (pn_jobs s)" "d = dict_del (pn_jobs s) old"
      then have "length d < length (pn_jobs s)" using length_dict_del_mem [of old "pn_jobs s"] by force
      then show ?thesis by simp
    qed simp
    ultimately have "length (dict_set d i (queued_job i kind actor now)) \<le> max 128 (length (pn_jobs s))"
      by (rule order_trans)
    then show ?thesis by (simp add: t)
  qed
qed

lemma enqueue_work:
  assumes "enqueue task 0 None s = (r, t)" and "queue_ok (pn_queue s)" and "task_job task = [i]"
  shows "queue_ok (pn_queue t) \<and> t = s\<lparr>pn_queue := pn_queue t\<rparr>
    \<and> (case r of Inl e \<Rightarrow> queued_work t = queued_work s
       | Inr _ \<Rightarrow> \<exists>xs ys. queued_work s = xs @ ys \<and> queued_work t = xs @ task # ys)"
proof -
  let ?q = "submit task 0 None (pn_queue s)"
  have t: "t = s\<lparr>pn_queue := snd ?q\<rparr>" and r: "(case r of Inl _ \<Rightarrow> \<exists>e. fst ?q = Inl e | Inr b \<Rightarrow> fst ?q = Inr b)"
    using assms(1) by (auto simp: enqueue_def split: prod.splits sum.splits)
  have "queue_ok (pn_queue t)" using submit_ok [OF assms(2)] by (simp add: t)
  moreover have "t = s\<lparr>pn_queue := pn_queue t\<rparr>" by (simp add: t)
  moreover have "case r of Inl e \<Rightarrow> queued_work t = queued_work s
       | Inr _ \<Rightarrow> \<exists>xs ys. queued_work s = xs @ ys \<and> queued_work t = xs @ task # ys"
  proof (cases r)
    case (Inl e)
    with r obtain e' where "fst ?q = Inl e'" by auto
    then have "oq_items (snd ?q) = oq_items (pn_queue s)" by (simp add: submit_run split: if_splits)
    with Inl show ?thesis by (simp add: t queued_work_def)
  next
    case (Inr b)
    let ?i = "\<lparr>qi_priority = 0, qi_sequence = oq_sequence (pn_queue s), qi_task = task, qi_key = None\<rparr>"
    from Inr r have "fst ?q = Inr b" by simp
    then have "oq_items (pn_queue t) = insort_key item_rank ?i (oq_items (pn_queue s))"
      by (simp add: t submit_run split: if_splits)
    from queued_insort [OF this] obtain xs ys where "queued_work s = xs @ ys" "queued_work t = xs @ task # ys"
      by (auto simp: assms(3))
    with Inr show ?thesis by auto
  qed
  ultimately show ?thesis by blast
qed

lemma work_ok_insert:
  assumes "work_ok (xs @ ys) jobs busy" and "task_job task = [i]" and "map_of jobs i = None"
    and "map_of jobs' i = Some j" and "jb_state j = JobQueued"
    and "\<And>k j. map_of jobs k = Some j \<Longrightarrow> jb_state j = JobQueued \<Longrightarrow> map_of jobs' k = Some j"
    and "exclusive_job task = [] \<and> busy' = busy \<or> exclusive_job task = [i] \<and> busy = None \<and> busy' = Some i"
    and "\<And>ident draft_id d timeout actor. task = CommitTask ident draft_id d timeout actor \<Longrightarrow> valid_configuration (dr_configuration d)"
  shows "work_ok (xs @ task # ys) jobs' busy'"
proof -
  have fresh: "i \<notin> set (jobs_of task_job (xs @ ys))" using assms(1,3) unfolding work_ok_def by (metis option.distinct(1))
  have ex: "jobs_of exclusive_job (xs @ task # ys) = (case busy' of None \<Rightarrow> [] | Some i \<Rightarrow> [i])"
    using assms(1,7) by (auto simp: work_ok_def)
  have all: "\<forall>k \<in> set (jobs_of task_job (xs @ task # ys)). \<exists>j. map_of jobs' k = Some j \<and> jb_state j = JobQueued"
  proof
    fix k assume "k \<in> set (jobs_of task_job (xs @ task # ys))"
    then consider "k = i" | "k \<in> set (jobs_of task_job (xs @ ys))" using assms(2) by auto
    then show "\<exists>j. map_of jobs' k = Some j \<and> jb_state j = JobQueued"
    proof cases
      case 2
      with assms(1) obtain j where "map_of jobs k = Some j" "jb_state j = JobQueued"
        unfolding work_ok_def by blast
      with assms(6) show ?thesis by blast
    qed (use assms(4,5) in blast)
  qed
  have "distinct (jobs_of task_job (xs @ task # ys))" using assms(1,2) fresh by (auto simp: work_ok_def)
  with ex all assms(1,8) show ?thesis by (auto simp: work_ok_def)
qed

subsection \<open>The requests keep the invariant\<close>

named_theorems sound_intros \<open>actions that keep the invariant of the panel\<close>

definition sound :: "('s, 'a) panel_action \<Rightarrow> bool" where
  "sound m \<longleftrightarrow> (\<forall>s. panel_ok s \<longrightarrow> panel_ok (snd (m s)))"

lemma soundI: "(\<And>s r t. m s = (r, t) \<Longrightarrow> panel_ok s \<Longrightarrow> panel_ok t) \<Longrightarrow> sound m"
  by (metis sound_def prod.collapse)

lemma soundD: "sound m \<Longrightarrow> m s = (r, t) \<Longrightarrow> panel_ok s \<Longrightarrow> panel_ok t"
  by (metis sound_def snd_conv)

lemma sound_calm: "calm {} m \<Longrightarrow> sound m"
  by (rule soundI) (rule calm_ok)

lemma sound_ret [sound_intros]: "sound (ret a)"
  and sound_raise [sound_intros]: "sound (raise_error e)"
  and sound_on_backend [sound_intros]: "sound (on_backend m)"
  and sound_validated [sound_intros]: "sound (validated c)"
  and sound_audit [sound_intros]: "sound (audit ev)"
  and sound_refresh [sound_intros]: "sound (refresh_after_write bk now mnow)"
  by (rule sound_calm, intro calm_intros)+

lemma sound_bind [sound_intros]: "sound m \<Longrightarrow> (\<And>a. sound (k a)) \<Longrightarrow> sound (bind_action m k)"
  unfolding sound_def by (auto simp: monad_simps split: prod.splits sum.splits)

lemma sound_then [sound_intros]: "sound m \<Longrightarrow> sound k \<Longrightarrow> sound (then_action m k)"
  unfolding then_action_def by (rule sound_bind)

lemma sound_catch [sound_intros]: "sound m \<Longrightarrow> (\<And>e. sound (h e)) \<Longrightarrow> sound (catch_action m h)"
  unfolding sound_def by (auto simp: monad_simps split: prod.splits sum.splits)

lemma sound_with_state [sound_intros]: "(\<And>s. sound (g s)) \<Longrightarrow> sound (with_state g)"
  by (simp add: sound_def monad_simps)

lemma sound_if [sound_intros]: "(c \<Longrightarrow> sound a) \<Longrightarrow> (\<not> c \<Longrightarrow> sound b) \<Longrightarrow> sound (if c then a else b)"
  by simp

lemma sound_option [sound_intros]:
  "(v = None \<Longrightarrow> sound a) \<Longrightarrow> (\<And>x. v = Some x \<Longrightarrow> sound (f x)) \<Longrightarrow> sound (case v of None \<Rightarrow> a | Some x \<Rightarrow> f x)"
  by (cases v) simp_all

lemma sound_sum [sound_intros]:
  "(\<And>x. v = Inl x \<Longrightarrow> sound (f x)) \<Longrightarrow> (\<And>x. v = Inr x \<Longrightarrow> sound (g x)) \<Longrightarrow> sound (case v of Inl x \<Rightarrow> f x | Inr x \<Rightarrow> g x)"
  by (cases v) simp_all

lemma sound_scheduled [sound_intros]: "sound m \<Longrightarrow> sound (scheduled m)"
  unfolding scheduled_def by (intro sound_intros) (simp_all add: sound_def monad_simps)

lemma sound_quietly [sound_intros]: "sound m \<Longrightarrow> sound (quietly m)"
  unfolding quietly_def by (intro sound_intros) (simp_all add: sound_def monad_simps)

lemma sound_store_draft [sound_intros]:
  assumes "valid_configuration (dr_configuration d)"
  shows "sound (store_draft now d)"
proof (rule soundI)
  fix s r t assume run: "store_draft now d s = (r, t)" and ok: "panel_ok s"
  define kept where "kept = filter (\<lambda>(_, v). dr_expires_at v > now) (pn_drafts s)"
  have kept: "drafts_ok kept"
    using ok order_trans [OF length_filter_le [of "\<lambda>(_, v). dr_expires_at v > now" "pn_drafts s"], of 64]
    unfolding kept_def panel_ok_def drafts_ok_def by (auto simp: distinct_map_filter)
  have t: "t = s\<lparr>pn_drafts := kept\<rparr> \<or> t = s\<lparr>pn_drafts := dict_set kept (dr_id d) d\<rparr> \<and> length kept < 64"
    using run by (auto simp: store_draft_def monad_simps kept_def split: if_splits)
  have "drafts_ok (dict_set kept (dr_id d) d)" if "length kept < 64"
  proof -
    have "length (dict_set kept (dr_id d) d) \<le> 64" using that by (simp add: length_dict_set)
    moreover have "\<forall>(k, v) \<in> set (dict_set kept (dr_id d) d). dr_id v = k \<and> valid_configuration (dr_configuration v)"
      using set_dict_set [of kept "dr_id d" d] kept assms by (auto simp: drafts_ok_def)
    ultimately show ?thesis using kept by (simp add: drafts_ok_def)
  qed
  with t kept ok show "panel_ok t" by (auto simp: panel_ok_def queued_work_def)
qed

lemma sound_preview [sound_intros]:
  "valid_configuration c \<Longrightarrow> sound (preview bk dump load now ident expected c)"
  unfolding preview_def Let_def by (intro sound_intros) (simp add: draft_of_def Let_def)

text \<open>A job that no queued task carries can take any state.\<close>

lemma alter_free_ok:
  assumes "panel_ok s" and "i \<notin> set (jobs_of task_job (queued_work s))" and "\<And>j. jb_id (f j) = jb_id j"
  shows "panel_ok (s\<lparr>pn_jobs := alter (pn_jobs s) i f\<rparr>)"
proof -
  have jobs: "jobs_ok (alter (pn_jobs s) i f)"
    using assms(1,3) by (auto simp: panel_ok_def jobs_ok_def alter_def case_prod_beta comp_def)
  have "work_ok (queued_work s) (alter (pn_jobs s) i f) (pn_busy s)"
  proof (rule work_ok_jobs)
    show "work_ok (queued_work s) (pn_jobs s) (pn_busy s)" using assms(1) by (simp add: panel_ok_def)
    fix k j assume "k \<in> set (jobs_of task_job (queued_work s))" "map_of (pn_jobs s) k = Some j" "jb_state j = JobQueued"
    with assms(2) show "\<exists>j'. map_of (alter (pn_jobs s) i f) k = Some j' \<and> jb_state j' = JobQueued"
      by (auto simp: map_of_alter)
  qed
  with jobs assms(1) show ?thesis by (simp add: panel_ok_def queued_work_def)
qed

lemma queued_job_state:
  assumes "panel_ok s" and "i \<in> set (jobs_of task_job (queued_work s))"
  shows "\<exists>j. map_of (pn_jobs s) i = Some j \<and> jb_state j = JobQueued"
  using assms by (simp add: panel_ok_def work_ok_def)

lemma sound_config [sound_intros]: "sound (config bk now mnow)"
proof -
  have add: "sound (modify_state (\<lambda>s. if map_of (pn_jobs s) (jb_id j) \<noteq> None then s
      else s\<lparr>pn_jobs := dict_set (pn_jobs s) (jb_id j) j\<rparr>))" for j
  proof -
    have "panel_ok (s\<lparr>pn_jobs := dict_set (pn_jobs s) (jb_id j) j\<rparr>)"
      if "panel_ok s" "map_of (pn_jobs s) (jb_id j) = None" for s :: "'b panel"
    proof -
      have "work_ok (queued_work s) (dict_set (pn_jobs s) (jb_id j) j) (pn_busy s)"
        by (rule work_ok_jobs [of _ "pn_jobs s"]) (use that in \<open>auto simp: panel_ok_def\<close>)
      with that show ?thesis by (simp add: panel_ok_def queued_work_def)
    qed
    then show ?thesis by (simp add: sound_def monad_simps)
  qed
  have recovered_id: "jb_id (recovered_job now sn p) = pv_job p" for p sn by (simp add: recovered_job_def)
  have "sound (modify_state (\<lambda>s. if map_of (pn_jobs s) (pv_job p) \<noteq> None then s
      else s\<lparr>pn_jobs := dict_set (pn_jobs s) (pv_job p) (recovered_job now sn p)\<rparr>))" for p sn
    using add [of "recovered_job now sn p"] unfolding recovered_id .
  then show ?thesis
    unfolding config_def
    by (intro sound_intros sound_calm [OF calm_read_config] sound_calm [OF calm_observe_timer])
qed

lemma on_backend_run:
  "on_backend m s = (case m (pn_backend s) of (Inl e, b) \<Rightarrow> (Inl (Hardware e), s\<lparr>pn_backend := b\<rparr>)
     | (Inr a, b) \<Rightarrow> (Inr a, s\<lparr>pn_backend := b\<rparr>))"
  by (simp add: on_backend_def)

lemma panel_ok_backend [simp]: "panel_ok (s\<lparr>pn_backend := b\<rparr>) = panel_ok s"
  by (simp add: panel_ok_def queued_work_def)

lemma update_then_ok:
  assumes "panel_ok s" and "i \<notin> set (jobs_of task_job (queued_work s))" and "\<And>j. jb_id (f j) = jb_id j" and "sound rest"
  shows "panel_ok (snd (then_action (update_job i f) rest s))"
proof -
  have "panel_ok (s\<lparr>pn_jobs := alter (pn_jobs s) i f\<rparr>)" by (rule alter_free_ok [OF assms(1-3)])
  with assms(4) show ?thesis by (simp add: sound_def monad_simps update_job_def)
qed

lemma sound_drop_deadline [sound_intros]: "sound (modify_state (\<lambda>s. s\<lparr>pn_deadlines := dict_del (pn_deadlines s) i\<rparr>))"
  by (simp add: sound_def monad_simps panel_ok_def queued_work_def)

lemma sound_finish [sound_intros]: "sound (finish bk now mnow ident confirming actor)"
proof (rule soundI)
  fix s r t
  assume run: "finish bk now mnow ident confirming actor s = (r, t)" and ok: "panel_ok s"
  show "panel_ok t"
  proof (cases "\<exists>j. map_of (pn_jobs s) ident = Some j \<and> jb_state j = JobAwaiting")
    case False
    then have "t = s" using run
      by (auto simp: finish_def scheduled_def job_status_def monad_simps split: option.splits if_splits)
    with ok show ?thesis by simp
  next
    case True
    then have free: "ident \<notin> set (jobs_of task_job (queued_work s))" using queued_job_state [OF ok, of ident] by auto
    let ?f = "\<lambda>j. j\<lparr>jb_state := (if confirming then JobDone else JobRolledBack),
             jb_message := (if confirming then MsgConfirmed else MsgRestored), jb_updated := now\<rparr>"
    let ?rest = "\<lambda>sn. then_action (modify_state (\<lambda>s. s\<lparr>pn_deadlines := dict_del (pn_deadlines s) ident\<rparr>))
         (then_action (audit (AuditFinished confirming ident actor))
         (then_action (refresh_after_write bk now mnow) (ret sn)))"
    define tail where "tail = (\<lambda>sn :: panel_snapshot. then_action (update_job ident ?f) (?rest sn))"
    have fin: "finish bk now mnow ident confirming actor = scheduled (bind_action (job_status mnow ident) (\<lambda>v.
       if jb_state (jv_job v) \<noteq> JobAwaiting then raise_error (Panel NotAwaitingJob)
       else bind_action (catch_action (on_backend (if confirming then bk_confirm bk now ident else bk_rollback bk now ident))
           (\<lambda>e. case e of Hardware h \<Rightarrow> raise_error (if is_hardware_error h then Panel (AuthorityRefused h) else e)
             | _ \<Rightarrow> raise_error e)) tail))"
      unfolding finish_def tail_def ..
    obtain q b where m: "(if confirming then bk_confirm bk now ident else bk_rollback bk now ident) (pn_backend s) = (q, b)"
      by (metis surj_pair)
    let ?u = "s\<lparr>pn_backend := b\<rparr>"
    have "panel_ok (snd (tail sn ?u))" for sn
      unfolding tail_def by (rule update_then_ok) (use ok free in \<open>auto simp: queued_work_def intro!: sound_intros\<close>)
    then have "panel_ok t'" if "tail sn ?u = (q', t')" for sn q' t' by (metis that snd_conv)
    moreover have "t = s \<or> t = ?u \<or> (\<exists>sn q'. tail sn ?u = (q', t))"
      using run True m unfolding fin
      by (cases q) (auto simp: scheduled_def job_status_def on_backend_run monad_simps split: if_splits)
    ultimately show ?thesis using ok by auto
  qed
qed

text \<open>
  The common part of the three requests that leave a job to the worker: the job is new, the task goes
  into the queue, and when the queue refuses it the request takes its mark back and fails the job.
\<close>

lemma add_work_ok:
  assumes ok: "panel_ok s" and "map_of (pn_jobs s) i = None" and new: "new_job now i kind actor s = (Inr u, s1)"
    and "drafts_ok dr" and run: "enqueue task 0 None (s1\<lparr>pn_busy := busy', pn_drafts := dr\<rparr>) = (r, t)"
    and "task_job task = [i]"
    and "exclusive_job task = [] \<and> busy' = pn_busy s \<or> exclusive_job task = [i] \<and> pn_busy s = None \<and> busy' = Some i"
    and "\<And>ident draft_id d timeout actor. task = CommitTask ident draft_id d timeout actor \<Longrightarrow> valid_configuration (dr_configuration d)"
  shows "case r of Inr _ \<Rightarrow> panel_ok t
    | Inl _ \<Rightarrow> \<forall>f. (\<forall>j. jb_id (f j) = jb_id j) \<longrightarrow> panel_ok (t\<lparr>pn_busy := pn_busy s, pn_jobs := alter (pn_jobs t) i f\<rparr>)"
proof -
  note n = new_job_jobs [OF new _ assms(2)]
  have jobs: "jobs_ok (pn_jobs s)" and q: "queue_ok (pn_queue s)" and w: "work_ok (queued_work s) (pn_jobs s) (pn_busy s)"
    using ok by (simp_all add: panel_ok_def)
  let ?s2 = "s1\<lparr>pn_busy := busy', pn_drafts := dr\<rparr>"
  have s2: "pn_queue ?s2 = pn_queue s" "queued_work ?s2 = queued_work s"
    using arg_cong [OF n(2) [OF jobs], of pn_queue] by (simp_all add: queued_work_def)
  from enqueue_work [OF run _ assms(6), unfolded s2, OF q] have
    e: "queue_ok (pn_queue t)" "t = ?s2\<lparr>pn_queue := pn_queue t\<rparr>"
      "case r of Inl e \<Rightarrow> queued_work t = queued_work s
       | Inr _ \<Rightarrow> \<exists>xs ys. queued_work s = xs @ ys \<and> queued_work t = xs @ task # ys" by blast+
  have t: "pn_jobs t = pn_jobs s1" "pn_busy t = busy'" "pn_drafts t = dr"
    using arg_cong [OF e(2), of pn_jobs] arg_cong [OF e(2), of pn_busy] arg_cong [OF e(2), of pn_drafts] by simp_all
  show ?thesis
  proof (cases r)
    case (Inr b)
    with e(3) obtain xs ys where x: "queued_work s = xs @ ys" "queued_work t = xs @ task # ys" by auto
    have "work_ok (xs @ task # ys) (pn_jobs s1) busy'"
    proof (rule work_ok_insert [OF _ assms(6,2) n(3) [OF jobs] _ _ assms(7,8)])
      show "work_ok (xs @ ys) (pn_jobs s) (pn_busy s)" using w x by simp
      show "jb_state (queued_job i kind actor now) = JobQueued" by (simp add: queued_job_def)
      fix k j assume "map_of (pn_jobs s) k = Some j" "jb_state j = JobQueued"
      then show "map_of (pn_jobs s1) k = Some j" by (intro n(5) [OF jobs]) (simp_all add: terminal_def)
    qed
    with Inr e(1) t assms(4) n(1) [OF jobs] x show ?thesis by (simp add: panel_ok_def)
  next
    case (Inl err)
    have "panel_ok (t\<lparr>pn_busy := pn_busy s, pn_jobs := alter (pn_jobs t) i f\<rparr>)" if "\<forall>j. jb_id (f j) = jb_id j" for f
    proof -
      have "work_ok (queued_work s) (pn_jobs s1) (pn_busy s)"
      proof (rule work_ok_jobs [OF w])
        fix k j assume "map_of (pn_jobs s) k = Some j" "jb_state j = JobQueued"
        then have "map_of (pn_jobs s1) k = Some j" by (intro n(5) [OF jobs]) (simp_all add: terminal_def)
        with \<open>jb_state j = JobQueued\<close> show "\<exists>j'. map_of (pn_jobs s1) k = Some j' \<and> jb_state j' = JobQueued" by blast
      qed
      with Inl e t assms(4) n(1) [OF jobs] have "panel_ok (t\<lparr>pn_busy := pn_busy s\<rparr>)"
        by (simp add: panel_ok_def queued_work_def)
      moreover have "i \<notin> set (jobs_of task_job (queued_work (t\<lparr>pn_busy := pn_busy s\<rparr>)))"
        using Inl e(3) assms(2) queued_job_state [OF ok, of i] by (auto simp: queued_work_def)
      ultimately show ?thesis using alter_free_ok [of "t\<lparr>pn_busy := pn_busy s\<rparr>" i f] that by simp
    qed
    with Inl show ?thesis by simp
  qed
qed

lemma submit_task_ok:
  assumes ok: "panel_ok s" and "map_of (pn_jobs s) i = None" and new: "new_job now i kind actor s = (Inr u, s1)"
    and "drafts_ok dr" and "task_job task = [i]"
    and "exclusive_job task = [] \<and> busy' = pn_busy s \<or> exclusive_job task = [i] \<and> pn_busy s = None \<and> busy' = Some i"
    and "\<And>ident draft_id d timeout actor. task = CommitTask ident draft_id d timeout actor \<Longrightarrow> valid_configuration (dr_configuration d)"
    and h: "\<And>e t. \<exists>f. (\<forall>j. jb_id (f j) = jb_id j) \<and> snd (h e t) = t\<lparr>pn_busy := pn_busy s, pn_jobs := alter (pn_jobs t) i f\<rparr>"
  shows "panel_ok (snd (catch_action (then_action (enqueue task 0 None) (ret ())) h (s1\<lparr>pn_busy := busy', pn_drafts := dr\<rparr>)))"
proof -
  obtain r t where run: "enqueue task 0 None (s1\<lparr>pn_busy := busy', pn_drafts := dr\<rparr>) = (r, t)" by (metis surj_pair)
  note a = add_work_ok [OF ok assms(2) new assms(4) run assms(5,6,7)]
  show ?thesis
  proof (cases r)
    case (Inl e)
    from h [of e t] obtain f where f: "\<forall>j. jb_id (f j) = jb_id j" "snd (h e t) = t\<lparr>pn_busy := pn_busy s, pn_jobs := alter (pn_jobs t) i f\<rparr>"
      by blast
    with a Inl show ?thesis by (simp add: monad_simps run)
  next
    case (Inr b)
    with a show ?thesis by (simp add: monad_simps run)
  qed
qed

lemma abandon_run:
  "pn_busy s = None \<Longrightarrow> \<exists>f. (\<forall>j. jb_id (f j) = jb_id j)
     \<and> snd (abandon i msg e t) = t\<lparr>pn_busy := pn_busy s, pn_jobs := alter (pn_jobs t) i f\<rparr>"
  by (intro exI [of _ "\<lambda>j. j\<lparr>jb_state := JobFailed, jb_message := msg\<rparr>"])
    (simp add: abandon_def set_busy_def update_job_def monad_simps)

definition fresh_start :: "string \<Rightarrow> ('s, 'a) panel_action \<Rightarrow> bool" where
  "fresh_start i m \<longleftrightarrow> (\<forall>s r t. m s = (r, t) \<longrightarrow> panel_ok s \<longrightarrow> map_of (pn_jobs s) i = None \<longrightarrow> panel_ok t)"

lemma commit_fresh: "fresh_start ident (commit now mnow ident draft_id timeout accept actor)"
proof -
  have "panel_ok t" if run: "commit now mnow ident draft_id timeout accept actor s = (r, t)" and ok: "panel_ok s"
    and fresh: "map_of (pn_jobs s) ident = None" for s :: "'b panel" and r t
  proof (cases "accept_commit now ident draft_id accept actor s")
    case (Pair q s2)
    show ?thesis
    proof (cases q)
      case (Inl e)
      with Pair have "s2 = s"
        by (auto simp: accept_commit_def monad_simps set_busy_def dest: new_job_run split: option.splits if_splits prod.splits sum.splits)
      with Inl Pair run ok show ?thesis by (simp add: commit_def monad_simps)
    next
      case (Inr d)
      with Pair obtain s1 where d: "map_of (pn_drafts s) draft_id = Some d" "pn_busy s = None"
        "new_job now ident ''configuration'' actor s = (Inr (), s1)" "s2 = s1\<lparr>pn_busy := Some ident\<rparr>"
        by (auto simp: accept_commit_def monad_simps set_busy_def split: option.splits if_splits prod.splits sum.splits)
      have dr: "pn_drafts s1 = pn_drafts s" using new_job_run [OF d(3)] by auto
      have val: "valid_configuration (dr_configuration d)"
        using ok map_of_SomeD [OF d(1)] by (auto simp: panel_ok_def drafts_ok_def)
      have s2: "s2 = s1\<lparr>pn_busy := Some ident, pn_drafts := pn_drafts s\<rparr>" by (simp add: d(4) dr [symmetric])
      have "panel_ok (snd (catch_action (then_action (enqueue (CommitTask ident draft_id d timeout actor) 0 None) (ret ()))
           (abandon ident MsgQueueFull) s2))" (is "panel_ok (snd (?m s2))")
        unfolding s2 by (rule submit_task_ok [OF ok fresh d(3) _ _ _ _ abandon_run [OF d(2)]])
          (use ok d(2) val in \<open>auto simp: panel_ok_def\<close>)
      moreover have "sound (job_status mnow ident :: ('b, job_view) panel_action)" by (rule sound_calm) (intro calm_intros)
      ultimately show ?thesis
        using run Pair Inr unfolding commit_def
        by (cases "?m s2") (auto simp: bind_apply then_apply [of ?m] split: sum.splits dest: soundD)
    qed
  qed
  then show ?thesis by (auto simp: fresh_start_def)
qed

lemma recover_fresh: "fresh_start ident (recover_control bk now ident actor)"
proof -
  have "panel_ok t" if run: "recover_control bk now ident actor s = (r, t)" and ok: "panel_ok s"
    and fresh: "map_of (pn_jobs s) ident = None" for s :: "'a panel" and r t
  proof (cases "bk_recover bk = None \<or> pn_busy s \<noteq> None \<or> (\<exists>e. fst (new_job now ident ''control_recovery'' actor s) = Inl e)")
    case True
    then have "t = s" using run new_job_run [of now ident "''control_recovery''" actor s]
      by (auto simp: recover_control_def monad_simps split: if_splits prod.splits sum.splits)
    with ok show ?thesis by simp
  next
    case False
    then obtain s1 where n: "new_job now ident ''control_recovery'' actor s = (Inr (), s1)" and b: "pn_busy s = None"
      and k: "bk_recover bk \<noteq> None"
      by (cases "new_job now ident ''control_recovery'' actor s"; cases "fst (new_job now ident ''control_recovery'' actor s)") auto
    let ?m = "catch_action (then_action (enqueue (RecoverTask ident actor) 0 None) (ret ())) (abandon ident MsgNotQueued)
        :: ('a, unit) panel_action"
    have "panel_ok (snd (?m (s1\<lparr>pn_busy := Some ident, pn_drafts := []\<rparr>)))"
      by (rule submit_task_ok [OF ok fresh n _ _ _ _ abandon_run [OF b]]) (use b in \<open>auto simp: drafts_ok_def\<close>)
    moreover have "recover_control bk now ident actor s = ?m (s1\<lparr>pn_busy := Some ident, pn_drafts := []\<rparr>)"
      using k b by (auto simp: recover_control_def then_apply with_state_apply n set_busy_def modify_apply)
    ultimately show ?thesis using run by (metis snd_conv)
  qed
  then show ?thesis by (auto simp: fresh_start_def)
qed

lemma operation_fresh: "fresh_start ident (operation_request now ident kind body actor)"
proof -
  have "panel_ok t" if run: "operation_request now ident kind body actor s = (r, t)" and ok: "panel_ok s"
    and fresh: "map_of (pn_jobs s) ident = None" for s :: "'a panel" and r t
  proof (cases "new_job now ident kind actor s")
    case (Pair q s1)
    show ?thesis
    proof (cases q)
      case (Inl e)
      with Pair new_job_run [OF Pair] run ok show ?thesis by (auto simp: operation_request_def monad_simps)
    next
      case (Inr u)
      let ?h = "\<lambda>e. then_action (update_job ident (\<lambda>j. j\<lparr>jb_state := JobFailed, jb_error := Some e,
                jb_message := MsgNotQueued, jb_updated := now\<rparr>)) (raise_error e)"
      let ?m = "catch_action (then_action (enqueue (OperationTask ident kind actor body) 0 None) (ret ())) ?h"
      have s1: "pn_busy s1 = pn_busy s" "pn_drafts s1 = pn_drafts s" using new_job_run [OF Pair] Inr by auto
      then have same: "s1\<lparr>pn_busy := pn_busy s, pn_drafts := pn_drafts s\<rparr> = s1" by simp
      obtain q' t' where e': "enqueue (OperationTask ident kind actor body) 0 None (s1\<lparr>pn_busy := pn_busy s, pn_drafts := pn_drafts s\<rparr>) = (q', t')"
        by (metis surj_pair)
      then have e: "enqueue (OperationTask ident kind actor body) 0 None s1 = (q', t')" by (simp only: same)
      then have busy: "pn_busy t' = pn_busy s" using s1 by (auto simp: enqueue_def split: prod.splits sum.splits)
      note a = add_work_ok [OF ok fresh Pair [unfolded Inr] _ e']
      have "case q' of Inr _ \<Rightarrow> panel_ok t'
        | Inl _ \<Rightarrow> \<forall>f. (\<forall>j. jb_id (f j) = jb_id j) \<longrightarrow> panel_ok (t'\<lparr>pn_busy := pn_busy s, pn_jobs := alter (pn_jobs t') ident f\<rparr>)"
        by (rule a) (use ok in \<open>auto simp: panel_ok_def\<close>)
      moreover have "t'\<lparr>pn_busy := pn_busy s\<rparr> = t'" using busy by simp
      moreover have "case q' of Inr _ \<Rightarrow> snd (?m s1) = t'
        | Inl e \<Rightarrow> snd (?m s1) = t'\<lparr>pn_jobs := alter (pn_jobs t') ident (\<lambda>j. j\<lparr>jb_state := JobFailed, jb_error := Some e,
            jb_message := MsgNotQueued, jb_updated := now\<rparr>)\<rparr>"
        by (simp add: monad_simps e update_job_def split: sum.splits)
      ultimately have "panel_ok (snd (?m s1))"
        by (auto split: sum.splits)
      moreover have "operation_request now ident kind body actor s = ?m s1"
        using Inr by (simp add: operation_request_def then_apply Pair)
      ultimately show ?thesis using run by (metis snd_conv)
    qed
  qed
  then show ?thesis by (auto simp: fresh_start_def)
qed

subsection \<open>The worker keeps the invariant\<close>

lemma owned_work_ok:
  assumes "quiet {i} s u" and "jobs_ok (pn_jobs s)" and "work_ok (queued_work s) (pn_jobs s) b"
    and "i \<notin> set (jobs_of task_job (queued_work s))"
  shows "work_ok (queued_work u) (pn_jobs u) b"
proof -
  have "work_ok (queued_work s) (pn_jobs u) b"
  proof (rule work_ok_jobs [OF assms(3)])
    fix k j assume k: "k \<in> set (jobs_of task_job (queued_work s))" "map_of (pn_jobs s) k = Some j" "jb_state j = JobQueued"
    have "jb_id j = k" using assms(2) map_of_SomeD [OF k(2)] by (auto simp: jobs_ok_def)
    then have "jb_id j \<notin> {i}" using k(1) assms(4) by auto
    moreover obtain j' where "map_of (pn_jobs u) k = Some j'" "job_steps {i} j j'"
      using jobs_step_lookup [of "{i}" "pn_jobs s"] assms(1) k(2) unfolding quiet_def by blast
    ultimately show "\<exists>j'. map_of (pn_jobs u) k = Some j' \<and> jb_state j' = JobQueued"
      using k(3) by (auto simp: job_steps_def)
  qed
  with assms(1) show ?thesis by (simp add: quiet_def)
qed

lemma drafts_ok_dict_del: "drafts_ok d \<Longrightarrow> drafts_ok (dict_del d k)"
  using order_trans [OF length_filter_le [of "\<lambda>p. fst p \<noteq> k" d], of 64]
  by (auto simp: drafts_ok_def dict_del_def distinct_map_filter)

lemma commit_work_run:
  assumes "jobs_ok (pn_jobs s)"
  shows "\<exists>u. quiet {ident} s u \<and> commit_work bk now mnow ident draft_id d timeout actor s
      = (Inr (), u\<lparr>pn_busy := None, pn_drafts := dict_del (pn_drafts u) draft_id\<rparr>)"
proof -
  define body :: "('a, unit) panel_action" where "body = then_action (update_job ident (\<lambda>j. j\<lparr>jb_state := JobRunning, jb_message := MsgApplying, jb_updated := now\<rparr>))
     (catch_action
       (bind_action (validated (dr_configuration d)) (\<lambda>target.
        bind_action (on_backend (bk_apply bk now target (dr_expected_revision d) ident timeout)) (\<lambda>sn.
          then_action (commit_applied ident sn now mnow)
         (then_action (audit (AuditApplied ident actor (ps_revision sn) (dr_affected_epls d)))
           (refresh_after_write bk now mnow)))))
       (\<lambda>e. then_action (update_job ident (failed_job e MsgApplyFailed now)) (audit (AuditApplyFailed ident actor e))))"
  have calm: "calm {ident} body" unfolding body_def by (intro calm_intros) (simp_all add: failed_job_def)
  obtain r u where run: "body s = (r, u)" by (metis surj_pair)
  have r: "r = Inr ()" using run
    by (auto simp: body_def monad_simps update_job_def audit_def refresh_after_write_def split: sum.splits prod.splits)
  from calmD [OF calm run assms] have "quiet {ident} s u" .
  moreover have "commit_work bk now mnow ident draft_id d timeout actor s
      = (Inr (), u\<lparr>pn_busy := None, pn_drafts := dict_del (pn_drafts u) draft_id\<rparr>)"
    using run r unfolding body_def commit_work_def
    by (auto simp: then_apply set_busy_def modify_apply split: sum.splits prod.splits)
  ultimately show ?thesis by blast
qed

lemma recover_work_run:
  assumes "jobs_ok (pn_jobs s)"
  shows "\<exists>u. quiet {ident} s u \<and> recover_work bk now mnow ident actor s = (Inr (), u\<lparr>pn_busy := None\<rparr>)"
proof -
  define body :: "('a, unit) panel_action" where "body = then_action (update_job ident (\<lambda>j. j\<lparr>jb_state := JobRunning, jb_message := MsgRecovering, jb_updated := now\<rparr>))
     (then_action (catch_action
       (bind_action (case bk_recover bk of None \<Rightarrow> raise_error (Panel RecoveryUnsupported) | Some m \<Rightarrow> on_backend (m now)) (\<lambda>sn.
         then_action (update_job ident (\<lambda>j. j\<lparr>jb_state := JobDone, jb_revision := Some (ps_revision sn),
             jb_message := MsgSynchronized, jb_updated := now\<rparr>))
           (audit (AuditRecovered ident actor (ps_revision sn)))))
       (\<lambda>e. then_action (update_job ident (\<lambda>j. j\<lparr>jb_state := JobFailed, jb_error := Some e,
             jb_message := MsgStillLocked, jb_updated := now\<rparr>))
           (audit (AuditRecoveryFailed ident actor e)))) (refresh_after_write bk now mnow))"
  have calm: "calm {ident} body" unfolding body_def by (intro calm_intros) simp_all
  obtain r u where run: "body s = (r, u)" by (metis surj_pair)
  have r: "r = Inr ()" using run
    by (auto simp: body_def monad_simps update_job_def audit_def refresh_after_write_def split: sum.splits prod.splits)
  from calmD [OF calm run assms] have "quiet {ident} s u" .
  moreover have "recover_work bk now mnow ident actor s = (Inr (), u\<lparr>pn_busy := None\<rparr>)"
    using run r unfolding body_def recover_work_def
    by (auto simp: then_apply set_busy_def modify_apply split: sum.splits prod.splits)
  ultimately show ?thesis by blast
qed

lemma run_task_ok:
  assumes q: "queue_ok (pn_queue s)" and j: "jobs_ok (pn_jobs s)" and d: "drafts_ok (pn_drafts s)"
    and w: "work_ok ((if task_job task = [] then [] else [task]) @ queued_work s) (pn_jobs s) (pn_busy s)"
    and run: "run_task bk now mnow task s = (r, t)"
  shows "panel_ok t \<and> (\<forall>k. key_held k (pn_queue s) \<longrightarrow> key_held k (pn_queue t))"
proof (cases "task_job task = []")
  case True
  then have "calm {} (run_task bk now mnow task)"
    by (cases task) (auto simp: run_task_def intro!: calm_intros)
  then have "quiet {} s t" using run j by (rule calmD)
  moreover have "panel_ok s" using q j d w True by (simp add: panel_ok_def)
  ultimately show ?thesis by (auto simp: quiet_def intro: quiet_ok)
next
  case False
  then obtain i where i: "task_job task = [i]" by (cases task) auto
  have rest: "work_ok (queued_work s) (pn_jobs s) (if exclusive_job task = [] then pn_busy s else None)"
    and free: "i \<notin> set (jobs_of task_job (queued_work s))"
    using w i by (cases task; auto simp: work_ok_def split: option.splits)+
  have settled: "panel_ok (u\<lparr>pn_busy := b, pn_drafts := dr\<rparr>)"
    if "quiet {i} s u" "b = (if exclusive_job task = [] then pn_busy s else None)" "drafts_ok dr" for u b dr
    using owned_work_ok [OF that(1) j rest free] quiet_jobs_ok [OF that(1) j] that q
    by (simp add: panel_ok_def queued_work_def quiet_def)
  have held: "key_held k (pn_queue s) \<Longrightarrow> key_held k (pn_queue u)" if "quiet {i} s u" for u k
    using that by (simp add: quiet_def)
  show ?thesis
  proof (cases task)
    case (CommitTask ident draft_id dd timeout actor)
    from commit_work_run [OF j, of ident bk now mnow draft_id dd timeout actor] obtain u where
      u: "quiet {ident} s u" "t = u\<lparr>pn_busy := None, pn_drafts := dict_del (pn_drafts u) draft_id\<rparr>"
      using run CommitTask by (auto simp: run_task_def)
    have "drafts_ok (dict_del (pn_drafts u) draft_id)" using d u(1) by (simp add: quiet_def drafts_ok_dict_del)
    with u CommitTask i settled [of u None] held [of u] show ?thesis by simp
  next
    case (RecoverTask ident actor)
    from recover_work_run [OF j, of ident bk now mnow actor] obtain u where
      u: "quiet {ident} s u" "t = u\<lparr>pn_busy := None\<rparr>"
      using run RecoverTask by (auto simp: run_task_def)
    have "t = u\<lparr>pn_busy := None, pn_drafts := pn_drafts u\<rparr>" using u(2) by simp
    with u RecoverTask i d settled [of u None "pn_drafts u"] held [of u] show ?thesis by (simp add: quiet_def)
  next
    case (OperationTask ident kind actor body)
    have "calm {i} (run_task bk now mnow task)" using i OperationTask by (simp add: run_task_def calm_operation_work)
    then have u: "quiet {i} s t" using run j by (rule calmD)
    then have "t = t\<lparr>pn_busy := pn_busy s, pn_drafts := pn_drafts s\<rparr>" by (simp add: quiet_def)
    with u OperationTask d settled [of t "pn_busy s" "pn_drafts s"] held [of t] show ?thesis by simp
  qed (use i in simp_all)
qed

lemma sound_work: "sound (work bk now mnow)"
proof (rule soundI)
  fix s r t assume run: "work bk now mnow s = (r, t)" and ok: "panel_ok s"
  show "panel_ok t"
  proof (cases "take_item (pn_queue s)")
    case None
    have "panel_ok (u\<lparr>pn_queue := (pn_queue u)\<lparr>oq_finalized := True\<rparr>\<rparr>)" if "panel_ok u" for u :: "'a panel"
      using that by (simp add: panel_ok_def queued_work_def queue_ok_def)
    then have fin: "sound (modify_state (\<lambda>s :: 'a panel. s\<lparr>pn_queue := (pn_queue s)\<lparr>oq_finalized := True\<rparr>\<rparr>))"
      by (simp add: sound_def monad_simps)
    have "sound (then_action (catch_action (on_backend (bk_close bk)) (\<lambda>_. ret ()))
         (modify_state (\<lambda>s. s\<lparr>pn_queue := (pn_queue s)\<lparr>oq_finalized := True\<rparr>\<rparr>)))"
      by (intro sound_intros fin)
    from soundD [OF this _ ok] run None ok show ?thesis
      by (auto simp: work_def with_state_apply ret_apply split: if_splits)
  next
    case (Some p)
    obtain i q where p: "p = (i, q)" by (cases p)
    let ?s = "s\<lparr>pn_queue := q\<rparr>"
    have take: "take_item (pn_queue s) = Some (i, q)" using Some p by simp
    note items = take_itemE [OF take]
    have qo: "queue_ok (pn_queue s)" using ok by (simp add: panel_ok_def)
    note free = take_item_ok(3) [OF qo take]
    have qok: "queue_ok (pn_queue ?s)" using take_item_ok(1) [OF qo take] by simp
    have held: "key_held k (pn_queue ?s)" if "qi_key i = Some k" for k
      using free that qo items by (auto simp: key_held_def queue_ok_def queue_keys_def)
    obtain r' u where u: "run_task bk now mnow (qi_task i) ?s = (r', u)" by (metis surj_pair)
    have w: "work_ok ((if task_job (qi_task i) = [] then [] else [qi_task i]) @ queued_work ?s) (pn_jobs ?s) (pn_busy ?s)"
      using ok items by (cases "task_job (qi_task i) = []") (simp_all add: panel_ok_def queued_work_def)
    have "panel_ok u \<and> (\<forall>k. key_held k (pn_queue ?s) \<longrightarrow> key_held k (pn_queue u))"
      by (rule run_task_ok [OF qok _ _ w u]) (use ok in \<open>simp_all add: panel_ok_def\<close>)
    then have u_ok: "panel_ok u" and "\<forall>k. qi_key i = Some k \<longrightarrow> k \<notin> set (queue_keys (oq_items (pn_queue u)))"
      using held by (auto simp: key_held_def)
    then have "queue_ok (release_key i (pn_queue u))" by (intro release_key_ok) (simp_all add: panel_ok_def)
    moreover have "oq_items (release_key i (pn_queue u)) = oq_items (pn_queue u)"
      by (simp add: release_key_def split: option.splits)
    moreover have "t = u\<lparr>pn_queue := release_key i (pn_queue u)\<rparr>"
      using run take u by (auto simp: work_def monad_simps split: sum.splits)
    ultimately show ?thesis using u_ok by (simp add: panel_ok_def queued_work_def)
  qed
qed

subsection \<open>Every event keeps the invariant\<close>

lemma sound_close: "sound close_panel"
  by (simp add: sound_def close_panel_def monad_simps panel_ok_def queued_work_def) (simp add: stop_queue_def)

lemma sound_backup [sound_intros]: "sound (backup bk dump digest now mnow)"
  unfolding backup_def Let_def by (intro sound_intros)

lemma sound_restore [sound_intros]:
  "(\<And>v c. load v = Inr c \<Longrightarrow> valid_configuration c) \<Longrightarrow> sound (restore_preview bk dump load digest now mnow ident envelope)"
  unfolding restore_preview_def Let_def by (intro sound_intros)

lemma quietly_run: "quietly m s = (r, t) \<Longrightarrow> \<exists>q. m s = (q, t)"
  by (auto simp: quietly_def monad_simps split: prod.splits sum.splits)

lemma fresh_startD: "fresh_start i m \<Longrightarrow> m s = (r, t) \<Longrightarrow> panel_ok s \<Longrightarrow> map_of (pn_jobs s) i = None \<Longrightarrow> panel_ok t"
  by (auto simp: fresh_start_def)

lemma handle_ok:
  assumes "admissible cx body_ok s ev" and run: "handle bk cx now mnow ev s = (r, t)" and ok: "panel_ok s"
  shows "panel_ok t"
proof (cases ev)
  case (EvCommit ident draft_id timeout accept actor)
  with run quietly_run obtain q where "commit now mnow ident draft_id timeout accept actor s = (q, t)"
    by (fastforce simp: handle_def)
  from fresh_startD [OF commit_fresh this ok] assms(1) EvCommit show ?thesis by (simp add: admissible_def fresh_ids_def)
next
  case (EvRecover ident actor)
  with fresh_startD [OF recover_fresh _ ok] assms(1) run show ?thesis
    by (simp add: handle_def admissible_def fresh_ids_def)
next
  case (EvOperation ident kind body actor)
  with fresh_startD [OF operation_fresh _ ok] assms(1) run show ?thesis
    by (simp add: handle_def admissible_def fresh_ids_def)
next
  case (EvPreview ident expected c)
  then have "sound (handle bk cx now mnow ev)" using assms(1)
    by (auto simp: handle_def admissible_def proposal_ok_def intro!: sound_intros)
  then show ?thesis using run ok by (rule soundD)
next
  case (EvRestore ident envelope)
  then have "sound (handle bk cx now mnow ev)" using assms(1)
    by (auto simp: handle_def admissible_def proposal_ok_def intro!: sound_intros)
  then show ?thesis using run ok by (rule soundD)
next
  case EvWork
  with run sound_work [of bk now mnow] ok show ?thesis by (auto simp: handle_def dest: soundD)
next
  case EvClose
  with run sound_close ok show ?thesis by (auto simp: handle_def dest: soundD)
next
  case (EvFinish ident confirming actor)
  then have "sound (handle bk cx now mnow ev)" by (auto simp: handle_def intro!: sound_intros)
  then show ?thesis using run ok by (rule soundD)
next
  case EvConfig
  then have "sound (handle bk cx now mnow ev)" by (auto simp: handle_def intro!: sound_intros)
  then show ?thesis using run ok by (rule soundD)
next
  case EvBackup
  then have "sound (handle bk cx now mnow ev)" by (auto simp: handle_def intro!: sound_intros)
  then show ?thesis using run ok by (rule soundD)
qed (rule calm_ok [of "handle bk cx now mnow ev" s r t, OF _ run ok]; simp add: handle_def; intro calm_intros)+

lemma panel_steps_ok: "panel_steps bk cx body_ok s t \<Longrightarrow> panel_ok s \<Longrightarrow> panel_ok t"
  by (erule panel_steps.cases) (blast intro: handle_ok)

lemma panel_reachable_ok: "panel_reachable bk cx body_ok b s \<Longrightarrow> panel_ok s"
  by (induction rule: panel_reachable.induct) (simp, blast intro: panel_steps_ok)

end
