(* ===== verification/Panel_Jobs.thy ===== *)
theory Panel_Jobs
  imports Panel_Safety
begin

text \<open>
  The life of a job. Between two events a job that is still in the table keeps its state, except that
  a queued one may have run and one that waits for confirmation may have been confirmed or rolled
  back: a finished job stays finished.
\<close>

definition job_move :: "job_state \<Rightarrow> job_state \<Rightarrow> bool" where
  "job_move a b \<longleftrightarrow> b = a \<or> a = JobQueued \<or> a = JobAwaiting \<and> b \<in> {JobDone, JobRolledBack}"

definition jobs_move :: "(string \<times> job) list \<Rightarrow> (string \<times> job) list \<Rightarrow> bool" where
  "jobs_move d d' \<longleftrightarrow> (\<forall>k j j'. map_of d k = Some j \<longrightarrow> map_of d' k = Some j' \<longrightarrow> job_move (jb_state j) (jb_state j'))"

lemma jobs_move_refl [simp]: "jobs_move d d"
  by (simp add: jobs_move_def job_move_def)

text \<open>The actions that add jobs at most and otherwise step them as sampling does.\<close>

definition grows :: "(string \<times> job) list \<Rightarrow> (string \<times> job) list \<Rightarrow> bool" where
  "grows d d' \<longleftrightarrow> (\<forall>k j. map_of d k = Some j \<longrightarrow> (\<exists>j'. map_of d' k = Some j' \<and> job_steps {} j j'))"

definition growing :: "('s, 'a) panel_action \<Rightarrow> bool" where
  "growing m \<longleftrightarrow> (\<forall>s. jobs_ok (pn_jobs s) \<longrightarrow> jobs_ok (pn_jobs (snd (m s))) \<and> grows (pn_jobs s) (pn_jobs (snd (m s))))"

named_theorems growing_intros \<open>actions that only add jobs and reconcile waiting ones\<close>

lemma grows_refl [simp]: "grows d d"
  by (simp add: grows_def)

lemma grows_trans: "grows a b \<Longrightarrow> grows b c \<Longrightarrow> grows a c"
  unfolding grows_def by (meson job_steps_trans)

lemma grows_move: "grows d d' \<Longrightarrow> jobs_move d d'"
  by (fastforce simp: grows_def jobs_move_def job_move_def job_steps_def)

lemma growingI:
  "(\<And>s r t. m s = (r, t) \<Longrightarrow> jobs_ok (pn_jobs s) \<Longrightarrow> jobs_ok (pn_jobs t) \<and> grows (pn_jobs s) (pn_jobs t)) \<Longrightarrow> growing m"
  by (metis growing_def prod.collapse)

lemma growingD:
  "growing m \<Longrightarrow> m s = (r, t) \<Longrightarrow> jobs_ok (pn_jobs s) \<Longrightarrow> jobs_ok (pn_jobs t) \<and> grows (pn_jobs s) (pn_jobs t)"
  by (metis growing_def snd_conv)

lemma growing_calm:
  assumes "calm {} m"
  shows "growing m"
proof (rule growingI)
  fix s r t assume run: "m s = (r, t)" and ok: "jobs_ok (pn_jobs s)"
  have q: "quiet {} s t" using assms run ok by (rule calmD)
  then have "jobs_step {} (pn_jobs s) (pn_jobs t)" by (simp add: quiet_def)
  then have "grows (pn_jobs s) (pn_jobs t)" unfolding grows_def by (blast dest: jobs_step_lookup)
  with quiet_jobs_ok [OF q ok] show "jobs_ok (pn_jobs t) \<and> grows (pn_jobs s) (pn_jobs t)" by simp
qed

lemma growing_bind [growing_intros]:
  assumes "growing m" and "\<And>a. growing (k a)"
  shows "growing (bind_action m k)"
proof (rule growingI)
  fix s r t assume run: "bind_action m k s = (r, t)" and ok: "jobs_ok (pn_jobs s)"
  obtain q u where m: "m s = (q, u)" by (cases "m s")
  have u: "jobs_ok (pn_jobs u) \<and> grows (pn_jobs s) (pn_jobs u)" by (rule growingD [OF assms(1) m ok])
  show "jobs_ok (pn_jobs t) \<and> grows (pn_jobs s) (pn_jobs t)"
  proof (cases q)
    case (Inl e)
    with run m u show ?thesis by (simp add: monad_simps)
  next
    case (Inr a)
    with run m have "k a u = (r, t)" by (simp add: monad_simps)
    with growingD [OF assms(2) this] u grows_trans show ?thesis by blast
  qed
qed

lemma growing_then [growing_intros]: "growing m \<Longrightarrow> growing k \<Longrightarrow> growing (then_action m k)"
  unfolding then_action_def by (rule growing_bind)

lemma growing_if [growing_intros]: "growing a \<Longrightarrow> growing b \<Longrightarrow> growing (if c then a else b)"
  by simp

lemma growing_option [growing_intros]:
  "growing a \<Longrightarrow> (\<And>x. growing (f x)) \<Longrightarrow> growing (case v of None \<Rightarrow> a | Some x \<Rightarrow> f x)"
  by (cases v) simp_all

lemma growing_sum [growing_intros]:
  "(\<And>x. growing (f x)) \<Longrightarrow> (\<And>x. growing (g x)) \<Longrightarrow> growing (case v of Inl x \<Rightarrow> f x | Inr x \<Rightarrow> g x)"
  by (cases v) simp_all

lemma growing_ret [growing_intros]: "growing (ret a)"
  and growing_raise [growing_intros]: "growing (raise_error e)"
  by (simp_all add: growing_def monad_simps)

lemma growing_quietly [growing_intros]: "growing m \<Longrightarrow> growing (quietly m)"
  unfolding quietly_def by (intro growing_intros)

lemma growing_store_draft [growing_intros]: "growing (store_draft now d)"
  by (simp add: growing_def store_draft_def monad_simps)

lemma growing_preview [growing_intros]: "growing (preview bk dump load now ident expected c)"
  unfolding preview_def Let_def
  by (intro growing_intros) (rule growing_calm, intro calm_intros)+

lemma growing_add [growing_intros]:
  "growing (modify_state (\<lambda>s. if map_of (pn_jobs s) (pv_job p) \<noteq> None then s
      else s\<lparr>pn_jobs := dict_set (pn_jobs s) (pv_job p) (recovered_job now sn p)\<rparr>))"
proof (rule growingI)
  fix s r t
  assume run: "modify_state (\<lambda>s. if map_of (pn_jobs s) (pv_job p) \<noteq> None then s
      else s\<lparr>pn_jobs := dict_set (pn_jobs s) (pv_job p) (recovered_job now sn p)\<rparr>) s = (r, t)"
    and ok: "jobs_ok (pn_jobs s)"
  have "jb_id (recovered_job now sn p) = pv_job p" by (simp add: recovered_job_def)
  with run ok show "jobs_ok (pn_jobs t) \<and> grows (pn_jobs s) (pn_jobs t)"
    by (auto simp: monad_simps grows_def)
qed

lemma growing_config [growing_intros]: "growing (config bk now mnow)"
  unfolding config_def
  by (intro growing_intros) (rule growing_calm, intro calm_intros)+

lemma growing_backup [growing_intros]: "growing (backup bk dump digest now mnow)"
  unfolding backup_def Let_def by (intro growing_intros)

lemma growing_restore [growing_intros]: "growing (restore_preview bk dump load digest now mnow ident envelope)"
  unfolding restore_preview_def Let_def by (intro growing_intros)

subsection \<open>Requests that add a job\<close>

text \<open>An action on the job \<open>i\<close> alone: every other entry stays or disappears.\<close>

definition others_stay :: "string \<Rightarrow> 's panel \<Rightarrow> 's panel \<Rightarrow> bool" where
  "others_stay i s t \<longleftrightarrow> (\<forall>k j. k \<noteq> i \<longrightarrow> map_of (pn_jobs t) k = Some j \<longrightarrow> map_of (pn_jobs s) k = Some j)"

lemma others_stay_move:
  assumes "others_stay i s t" and "map_of (pn_jobs s) i = None"
  shows "jobs_move (pn_jobs s) (pn_jobs t)"
  unfolding jobs_move_def
proof (intro allI impI)
  fix k j j' assume j: "map_of (pn_jobs s) k = Some j" "map_of (pn_jobs t) k = Some j'"
  then have "k \<noteq> i" using assms(2) by auto
  with assms(1) j(2) have "map_of (pn_jobs s) k = Some j'" by (simp add: others_stay_def)
  with j(1) show "job_move (jb_state j) (jb_state j')" by (simp add: job_move_def)
qed

definition only_job :: "string \<Rightarrow> ('s, 'a) panel_action \<Rightarrow> bool" where
  "only_job i m \<longleftrightarrow> (\<forall>s. others_stay i s (snd (m s)))"

named_theorems only_intros \<open>actions that touch one job at most\<close>

lemma others_stay_trans: "others_stay i s t \<Longrightarrow> others_stay i t u \<Longrightarrow> others_stay i s u"
  by (auto simp: others_stay_def)

lemma others_stay_refl [simp]: "others_stay i s s"
  by (simp add: others_stay_def)

lemma only_jobI: "(\<And>s r t. m s = (r, t) \<Longrightarrow> others_stay i s t) \<Longrightarrow> only_job i m"
  by (metis only_job_def prod.collapse)

lemma only_jobD: "only_job i m \<Longrightarrow> m s = (r, t) \<Longrightarrow> others_stay i s t"
  by (metis only_job_def snd_conv)

lemma only_bind [only_intros]:
  assumes "only_job i m" and "\<And>a. only_job i (k a)"
  shows "only_job i (bind_action m k)"
proof (rule only_jobI)
  fix s r t assume run: "bind_action m k s = (r, t)"
  obtain q u where m: "m s = (q, u)" by (cases "m s")
  have u: "others_stay i s u" by (rule only_jobD [OF assms(1) m])
  show "others_stay i s t"
    using run m u only_jobD [OF assms(2)] by (cases q) (auto simp: monad_simps intro: others_stay_trans)
qed

lemma only_then [only_intros]: "only_job i m \<Longrightarrow> only_job i k \<Longrightarrow> only_job i (then_action m k)"
  unfolding then_action_def by (rule only_bind)

lemma only_catch [only_intros]:
  assumes "only_job i m" and "\<And>e. only_job i (h e)"
  shows "only_job i (catch_action m h)"
proof (rule only_jobI)
  fix s r t assume run: "catch_action m h s = (r, t)"
  obtain q u where m: "m s = (q, u)" by (cases "m s")
  have u: "others_stay i s u" by (rule only_jobD [OF assms(1) m])
  show "others_stay i s t"
    using run m u only_jobD [OF assms(2)] by (cases q) (auto simp: monad_simps intro: others_stay_trans)
qed

lemma only_with_state [only_intros]: "(\<And>s. only_job i (g s)) \<Longrightarrow> only_job i (with_state g)"
  by (simp add: only_job_def monad_simps)

lemma only_if [only_intros]: "only_job i a \<Longrightarrow> only_job i b \<Longrightarrow> only_job i (if c then a else b)"
  by simp

lemma only_option [only_intros]:
  "only_job i a \<Longrightarrow> (\<And>x. only_job i (f x)) \<Longrightarrow> only_job i (case v of None \<Rightarrow> a | Some x \<Rightarrow> f x)"
  by (cases v) simp_all

lemma only_ret [only_intros]: "only_job i (ret a)"
  and only_raise [only_intros]: "only_job i (raise_error e)"
  and only_set_busy [only_intros]: "only_job i (set_busy b)"
  and only_clear_drafts [only_intros]: "only_job i (modify_state (\<lambda>s. s\<lparr>pn_drafts := []\<rparr>))"
  and only_update [only_intros]: "only_job i (update_job i f)"
  by (simp_all add: only_job_def others_stay_def monad_simps set_busy_def update_job_def map_of_alter)

lemma only_enqueue [only_intros]: "only_job i (enqueue t p k)"
  by (auto simp: only_job_def others_stay_def enqueue_def split: prod.splits sum.splits)

lemma only_job_status [only_intros]: "only_job i (job_status mnow k)"
  unfolding job_status_def by (intro only_intros)

lemma only_new_job [only_intros]: "only_job i (new_job now i kind actor)"
proof -
  have "others_stay i s t" if "new_job now i kind actor s = (r, t)" for s r and t :: "'a panel"
    using new_job_run [OF that] by (auto simp: others_stay_def split: if_splits)
  then show ?thesis unfolding only_job_def by (metis prod.collapse)
qed

lemma only_commit: "only_job ident (commit now mnow ident draft_id timeout accept actor)"
  unfolding commit_def accept_commit_def abandon_def by (intro only_intros)

lemma only_recover: "only_job ident (recover_control bk now ident actor)"
  unfolding recover_control_def abandon_def by (intro only_intros)

lemma only_operation: "only_job ident (operation_request now ident kind body actor)"
  unfolding operation_request_def by (intro only_intros)

lemma only_job_move:
  "only_job i m \<Longrightarrow> m s = (r, t) \<Longrightarrow> map_of (pn_jobs s) i = None \<Longrightarrow> jobs_move (pn_jobs s) (pn_jobs t)"
  unfolding only_job_def by (metis others_stay_move snd_conv)

subsection \<open>The worker and the confirmation\<close>

lemma quiet_move:
  assumes q: "quiet {i} s u" and ok: "panel_ok s" and free: "map_of (pn_jobs s) i = Some j" and "jb_state j = JobQueued"
  shows "jobs_move (pn_jobs s) (pn_jobs u)"
  unfolding jobs_move_def
proof (intro allI impI)
  fix k x y assume x: "map_of (pn_jobs s) k = Some x" and y: "map_of (pn_jobs u) k = Some y"
  from q have "jobs_step {i} (pn_jobs s) (pn_jobs u)" by (simp add: quiet_def)
  from jobs_step_lookup [OF this x] y have st: "job_steps {i} x y" by simp
  have "jobs_ok (pn_jobs s)" using ok by (simp add: panel_ok_def)
  then have "jb_id x = k" using map_of_SomeD [OF x] by (auto simp: jobs_ok_def)
  then show "job_move (jb_state x) (jb_state y)"
    using st free x assms(4) by (auto simp: job_steps_def job_move_def)
qed

lemma work_move:
  assumes run: "work bk now mnow s = (r, t)" and ok: "panel_ok s"
  shows "jobs_move (pn_jobs s) (pn_jobs t)"
proof (cases "take_item (pn_queue s)")
  case None
  have "pn_jobs t = pn_jobs s"
    using run None by (auto simp: work_def monad_simps on_backend_run split: if_splits sum.splits prod.splits)
  then show ?thesis by simp
next
  case (Some p)
  obtain i q where p: "p = (i, q)" by (cases p)
  let ?s = "s\<lparr>pn_queue := q\<rparr>" and ?task = "qi_task i"
  have take: "take_item (pn_queue s) = Some (i, q)" using Some p by simp
  note items = take_itemE [OF take]
  have jobs: "jobs_ok (pn_jobs ?s)" using ok by (simp add: panel_ok_def)
  obtain r' u where u: "run_task bk now mnow ?task ?s = (r', u)" by (metis surj_pair)
  have t: "pn_jobs t = pn_jobs u" using run take u by (auto simp: work_def monad_simps split: sum.splits)
  have "jobs_move (pn_jobs s) (pn_jobs u)"
  proof (cases "task_job ?task = []")
    case True
    then have "calm {} (run_task bk now mnow ?task)"
      by (cases ?task) (auto simp: run_task_def intro!: calm_intros)
    from growingD [OF growing_calm [OF this] u jobs] show ?thesis by (simp add: grows_move)
  next
    case False
    then obtain k where k: "task_job ?task = [k]" by (cases ?task) auto
    have "k \<in> set (jobs_of task_job (queued_work s))" using items k by (simp add: queued_work_def)
    from queued_job_state [OF ok this] obtain j where j: "map_of (pn_jobs s) k = Some j" "jb_state j = JobQueued" by blast
    have "\<exists>v. quiet {k} ?s v \<and> pn_jobs u = pn_jobs v"
    proof (cases ?task)
      case (CommitTask ident draft_id dd timeout actor)
      with commit_work_run [OF jobs, of ident bk now mnow draft_id dd timeout actor] k u show ?thesis
        by (fastforce simp: run_task_def)
    next
      case (RecoverTask ident actor)
      with recover_work_run [OF jobs, of ident bk now mnow actor] k u show ?thesis by (fastforce simp: run_task_def)
    next
      case (OperationTask ident kind actor body)
      have "calm {k} (run_task bk now mnow ?task)" using k OperationTask by (simp add: run_task_def calm_operation_work)
      from calmD [OF this u jobs] show ?thesis by blast
    qed (use k in simp_all)
    then obtain v where v: "quiet {k} ?s v" "pn_jobs u = pn_jobs v" by blast
    have "jobs_step {k} (pn_jobs s) (pn_jobs u)" using v by (simp add: quiet_def)
    then have "quiet {k} s (s\<lparr>pn_jobs := pn_jobs u\<rparr>)" by (simp add: quiet_def queued_work_def)
    from quiet_move [OF this ok j] show ?thesis by simp
  qed
  with t show ?thesis by simp
qed

lemma finish_move:
  assumes run: "finish bk now mnow ident confirming actor s = (r, t)" and ok: "panel_ok s"
  shows "jobs_move (pn_jobs s) (pn_jobs t)"
proof (cases "\<exists>j. map_of (pn_jobs s) ident = Some j \<and> jb_state j = JobAwaiting")
  case False
  then have "t = s" using run
    by (auto simp: finish_def scheduled_def job_status_def monad_simps split: option.splits if_splits)
  then show ?thesis by simp
next
  case True
  let ?f = "\<lambda>j. j\<lparr>jb_state := (if confirming then JobDone else JobRolledBack),
           jb_message := (if confirming then MsgConfirmed else MsgRestored), jb_updated := now\<rparr>"
  define rest where "rest = (\<lambda>sn :: panel_snapshot. then_action (modify_state (\<lambda>s :: 'a panel. s\<lparr>pn_deadlines := dict_del (pn_deadlines s) ident\<rparr>))
       (then_action (audit (AuditFinished confirming ident actor))
       (then_action (refresh_after_write bk now mnow) (ret sn))))"
  define tail where "tail = (\<lambda>sn :: panel_snapshot. then_action (update_job ident ?f) (rest sn))"
  have fin: "finish bk now mnow ident confirming actor = scheduled (bind_action (job_status mnow ident) (\<lambda>v.
     if jb_state (jv_job v) \<noteq> JobAwaiting then raise_error (Panel NotAwaitingJob)
     else bind_action (catch_action (on_backend (if confirming then bk_confirm bk now ident else bk_rollback bk now ident))
         (\<lambda>e. case e of Hardware h \<Rightarrow> raise_error (if is_hardware_error h then Panel (AuthorityRefused h) else e)
           | _ \<Rightarrow> raise_error e)) tail))"
    unfolding finish_def tail_def rest_def ..
  obtain q b where m: "(if confirming then bk_confirm bk now ident else bk_rollback bk now ident) (pn_backend s) = (q, b)"
    by (metis surj_pair)
  let ?u = "s\<lparr>pn_backend := b\<rparr>" and ?d = "alter (pn_jobs s) ident ?f"
  have first: "grows (pn_jobs s) ?d" using True by (auto simp: grows_def map_of_alter job_steps_def)
  have ok': "jobs_ok ?d"
    using ok by (auto simp: panel_ok_def jobs_ok_def alter_def case_prod_beta comp_def)
  have "growing (rest sn)" for sn :: panel_snapshot
    unfolding rest_def
    by (rule growing_calm, intro calm_intros) (simp add: quiet_def queued_work_def)
  then have rest: "grows ?d (pn_jobs t')" if "rest sn (?u\<lparr>pn_jobs := ?d\<rparr>) = (q', t')" for sn q' t'
    using growingD [of "rest sn", OF _ that] ok' by simp
  have "t = s \<or> t = ?u \<or> (\<exists>sn q'. rest sn (?u\<lparr>pn_jobs := ?d\<rparr>) = (q', t))"
    using run True m unfolding fin tail_def
    by (cases q) (auto simp: scheduled_def job_status_def on_backend_run monad_simps update_job_def split: if_splits)
  then have "grows (pn_jobs s) (pn_jobs t)" using grows_trans [OF first rest] by fastforce
  then show ?thesis by (rule grows_move)
qed

subsection \<open>Every event\<close>

lemma handle_move:
  assumes adm: "admissible cx body_ok s ev" and run: "handle bk cx now mnow ev s = (r, t)" and ok: "panel_ok s"
  shows "jobs_move (pn_jobs s) (pn_jobs t)"
proof -
  have jobs: "jobs_ok (pn_jobs s)" using ok by (simp add: panel_ok_def)
  have grow: "jobs_move (pn_jobs s) (pn_jobs t)" if "growing (handle bk cx now mnow ev)"
    using growingD [OF that run jobs] by (simp add: grows_move)
  show ?thesis
  proof (cases ev)
    case EvWork
    with run ok show ?thesis by (auto simp: handle_def intro: work_move)
  next
    case EvClose
    with run show ?thesis by (auto simp: handle_def close_panel_def monad_simps)
  next
    case (EvFinish ident confirming actor)
    with run quietly_run obtain q where "finish bk now mnow ident confirming actor s = (q, t)" by (fastforce simp: handle_def)
    then show ?thesis using ok by (rule finish_move)
  next
    case (EvCommit ident draft_id timeout accept actor)
    with run quietly_run obtain q where "commit now mnow ident draft_id timeout accept actor s = (q, t)"
      by (fastforce simp: handle_def)
    from only_job_move [OF only_commit this] adm EvCommit show ?thesis by (simp add: admissible_def fresh_ids_def)
  next
    case (EvRecover ident actor)
    with run have "recover_control bk now ident actor s = (r, t)" by (simp add: handle_def)
    from only_job_move [OF only_recover this] adm EvRecover show ?thesis by (simp add: admissible_def fresh_ids_def)
  next
    case (EvOperation ident kind body actor)
    with run have "operation_request now ident kind body actor s = (r, t)" by (simp add: handle_def)
    from only_job_move [OF only_operation this] adm EvOperation show ?thesis by (simp add: admissible_def fresh_ids_def)
  qed (rule grow; simp add: handle_def; (intro growing_intros; fail | rule growing_calm; intro calm_intros))+
qed

lemma panel_steps_move: "panel_steps bk cx body_ok s t \<Longrightarrow> panel_ok s \<Longrightarrow> jobs_move (pn_jobs s) (pn_jobs t)"
  by (erule panel_steps.cases) (blast intro: handle_move)

end
