(* ===== verification/Authority.thy ===== *)
theory Authority
  imports Panel_Jobs Configd_Liveness
begin

text \<open>
  What the panel needs of a switch authority, as an interface: revisions identify configurations and
  an apply refuses a revision that is not current. From it, once for every backend: a draft the panel
  keeps or has queued still describes the change it was computed for, whenever its revision is the
  current one. The interface is discharged for the simulated authority in Mock_Authority.
\<close>

subsection \<open>Interface\<close>

type_synonym position = "int \<times> switch_configuration"

definition onward :: "position \<Rightarrow> position \<Rightarrow> bool" where
  "onward p q \<longleftrightarrow> fst p \<le> fst q \<and> (fst q = fst p \<longrightarrow> snd q = snd p)"

definition advances :: "('s \<Rightarrow> bool) \<Rightarrow> ('s \<Rightarrow> position) \<Rightarrow> ('s, hw_error, 'a) action \<Rightarrow> bool" where
  "advances fit pos m \<longleftrightarrow> (\<forall>s r t. m s = (r, t) \<longrightarrow> fit s \<longrightarrow> fit t \<and> onward (pos s) (pos t))"

lemma onward_refl [simp]: "onward p p"
  by (simp add: onward_def)

lemma onward_trans: "onward p q \<Longrightarrow> onward q r \<Longrightarrow> onward p r"
  by (auto simp: onward_def)

text \<open>The draft was computed from the configuration its revision stands for.\<close>

definition reviewed :: "codec \<Rightarrow> position \<Rightarrow> draft \<Rightarrow> bool" where
  "reviewed cx p d \<longleftrightarrow> dr_expected_revision d \<le> fst p
     \<and> (fst p = dr_expected_revision d \<longrightarrow> (\<exists>before now. validate_configuration (snd p) = Inr before
          \<and> d = draft_of (cx_dump cx) (cx_load cx) now (dr_id d) (dr_expected_revision d) before (dr_configuration d)))"

lemma reviewed_onward: "reviewed cx p d \<Longrightarrow> onward p q \<Longrightarrow> reviewed cx q d"
  by (cases p; cases q) (auto simp: reviewed_def onward_def)

locale authority =
  fixes bk :: "'s backend" and fit :: "'s \<Rightarrow> bool" and pos :: "'s \<Rightarrow> position"
  assumes snapshot_advances: "advances fit pos (bk_snapshot bk now)"
    and snapshot_current: "bk_snapshot bk now s = (Inr sn, t) \<Longrightarrow> fit s \<Longrightarrow> pos t = (ps_revision sn, ps_configuration sn)"
    and ports_advances: "advances fit pos (bk_ports bk now)"
    and sensors_advances: "advances fit pos (bk_sensors bk now)"
    and optics_advances: "advances fit pos (bk_optics bk now)"
    and phy_advances: "advances fit pos (bk_phy bk now g)"
    and eye_start_advances: "advances fit pos (bk_eye_start bk now port scan_request)"
    and eye_read_advances: "advances fit pos (bk_eye_read bk now ident column)"
    and eye_cancel_advances: "advances fit pos (bk_eye_cancel bk now scan)"
    and confirm_advances: "advances fit pos (bk_confirm bk now job)"
    and rollback_advances: "advances fit pos (bk_rollback bk now job)"
    and close_advances: "advances fit pos (bk_close bk)"
    and validate_advances: "bk_validate bk = Some check \<Longrightarrow> advances fit pos (check now c)"
    and recover_advances: "bk_recover bk = Some recover \<Longrightarrow> advances fit pos (recover now)"
    and roce_advances: "bk_sample_roce bk = Some sample_it \<Longrightarrow> advances fit pos (sample_it now)"
    and apply_advances: "valid_configuration c \<Longrightarrow> advances fit pos (bk_apply bk now c expected job timeout)"
    and apply_checks: "bk_apply bk now c expected job timeout s = (Inr sn, t) \<Longrightarrow> fit s \<Longrightarrow> valid_configuration c \<Longrightarrow>
          \<exists>p. onward (pos s) p \<and> fst p = expected"
begin

subsection \<open>Actions that keep drafts and queued work\<close>

text \<open>
  The action advances the authority, adds no draft outside \<open>D\<close> and queues no work outside \<open>T\<close>.
\<close>

definition tame :: "'s task set \<Rightarrow> draft set \<Rightarrow> ('s, 'a) panel_action \<Rightarrow> bool" where
  "tame T D m \<longleftrightarrow> (\<forall>s r t. m s = (r, t) \<longrightarrow> fit (pn_backend s) \<longrightarrow>
     fit (pn_backend t) \<and> onward (pos (pn_backend s)) (pos (pn_backend t))
     \<and> set (queued_work t) \<subseteq> set (queued_work s) \<union> T \<and> snd ` set (pn_drafts t) \<subseteq> snd ` set (pn_drafts s) \<union> D)"

lemma tameD:
  assumes "tame T D m" and "m s = (r, t)" and "fit (pn_backend s)"
  shows "fit (pn_backend t)" "onward (pos (pn_backend s)) (pos (pn_backend t))"
    "set (queued_work t) \<subseteq> set (queued_work s) \<union> T" "snd ` set (pn_drafts t) \<subseteq> snd ` set (pn_drafts s) \<union> D"
  using assms unfolding tame_def by blast+

named_theorems tame_intros \<open>actions that keep drafts and queued work\<close>

lemma tame_compose:
  assumes "tame T D m" and "m s = (q, u)" and "fit (pn_backend s)" and "tame T D k" and "k u = (r, t)"
  shows "fit (pn_backend t) \<and> onward (pos (pn_backend s)) (pos (pn_backend t))
     \<and> set (queued_work t) \<subseteq> set (queued_work s) \<union> T \<and> snd ` set (pn_drafts t) \<subseteq> snd ` set (pn_drafts s) \<union> D"
  using tameD [OF assms(1-3)] tameD [OF assms(4,5)] by (blast intro: onward_trans)

lemma tame_bind [tame_intros]:
  assumes "tame T D m" and "\<And>a. tame T D (k a)"
  shows "tame T D (bind_action m k)"
  unfolding tame_def
proof (intro allI impI)
  fix s r t assume run: "bind_action m k s = (r, t)" and f: "fit (pn_backend s)"
  obtain q u where m: "m s = (q, u)" by (cases "m s")
  show "fit (pn_backend t) \<and> onward (pos (pn_backend s)) (pos (pn_backend t))
     \<and> set (queued_work t) \<subseteq> set (queued_work s) \<union> T \<and> snd ` set (pn_drafts t) \<subseteq> snd ` set (pn_drafts s) \<union> D"
  proof (cases q)
    case (Inl e)
    with run m have "t = u" by (simp add: monad_simps)
    with tameD [OF assms(1) m f] show ?thesis by simp
  next
    case (Inr a)
    with run m have "k a u = (r, t)" by (simp add: monad_simps)
    with tame_compose [OF assms(1) m f assms(2)] show ?thesis by simp
  qed
qed

lemma tame_catch [tame_intros]:
  assumes "tame T D m" and "\<And>e. tame T D (h e)"
  shows "tame T D (catch_action m h)"
  unfolding tame_def
proof (intro allI impI)
  fix s r t assume run: "catch_action m h s = (r, t)" and f: "fit (pn_backend s)"
  obtain q u where m: "m s = (q, u)" by (cases "m s")
  show "fit (pn_backend t) \<and> onward (pos (pn_backend s)) (pos (pn_backend t))
     \<and> set (queued_work t) \<subseteq> set (queued_work s) \<union> T \<and> snd ` set (pn_drafts t) \<subseteq> snd ` set (pn_drafts s) \<union> D"
  proof (cases q)
    case (Inr a)
    with run m have "t = u" by (simp add: monad_simps)
    with tameD [OF assms(1) m f] show ?thesis by simp
  next
    case (Inl e)
    with run m have "h e u = (r, t)" by (simp add: monad_simps)
    with tame_compose [OF assms(1) m f assms(2)] show ?thesis by simp
  qed
qed

lemma tame_then [tame_intros]: "tame T D m \<Longrightarrow> tame T D k \<Longrightarrow> tame T D (then_action m k)"
  unfolding then_action_def by (rule tame_bind)

lemma tame_ret [tame_intros]: "tame T D (ret a)"
  and tame_raise [tame_intros]: "tame T D (raise_error e)"
  by (auto simp: tame_def monad_simps)

lemma tame_with_state [tame_intros]: "(\<And>s. tame T D (g s)) \<Longrightarrow> tame T D (with_state g)"
  by (simp add: tame_def monad_simps)

lemma tame_modify [tame_intros]:
  "(\<And>s. pn_backend (f s) = pn_backend s \<and> oq_items (pn_queue (f s)) = oq_items (pn_queue s)
      \<and> set (pn_drafts (f s)) \<subseteq> set (pn_drafts s)) \<Longrightarrow> tame T D (modify_state f)"
  by (auto simp: tame_def monad_simps queued_work_def)

lemma tame_if [tame_intros]: "(c \<Longrightarrow> tame T D a) \<Longrightarrow> (\<not> c \<Longrightarrow> tame T D b) \<Longrightarrow> tame T D (if c then a else b)"
  by simp

lemma tame_option [tame_intros]:
  "(v = None \<Longrightarrow> tame T D a) \<Longrightarrow> (\<And>x. v = Some x \<Longrightarrow> tame T D (f x)) \<Longrightarrow> tame T D (case v of None \<Rightarrow> a | Some x \<Rightarrow> f x)"
  by (cases v) simp_all

lemma tame_sum [tame_intros]:
  "(\<And>x. v = Inl x \<Longrightarrow> tame T D (f x)) \<Longrightarrow> (\<And>x. v = Inr x \<Longrightarrow> tame T D (g x)) \<Longrightarrow> tame T D (case v of Inl x \<Rightarrow> f x | Inr x \<Rightarrow> g x)"
  by (cases v) simp_all

lemma tame_pair [tame_intros]: "(\<And>x y. tame T D (f x y)) \<Longrightarrow> tame T D (case v of (x, y) \<Rightarrow> f x y)"
  by (simp split: prod.splits)

lemma tame_list [tame_intros]: "tame T D a \<Longrightarrow> (\<And>x xs. tame T D (f x xs)) \<Longrightarrow> tame T D (case v of [] \<Rightarrow> a | x # xs \<Rightarrow> f x xs)"
  by (simp split: list.splits)

lemma tame_phy_error [tame_intros]:
  "(\<And>e. tame T D (f e)) \<Longrightarrow> tame T D a \<Longrightarrow> tame T D (case e of PhyModeChanged \<Rightarrow> a | _ \<Rightarrow> f e)"
  by (cases e) simp_all

lemma tame_for_each [tame_intros]: "(\<And>x. tame T D (f x)) \<Longrightarrow> tame T D (for_each f xs)"
  by (induction xs) (simp_all add: tame_intros)

lemma tame_on_backend [tame_intros]: "advances fit pos m \<Longrightarrow> tame T D (on_backend m)"
  by (auto simp: tame_def advances_def on_backend_def queued_work_def split: prod.splits sum.splits)

lemma tame_enqueue [tame_intros]:
  assumes "task_job task = [] \<or> task \<in> T"
  shows "tame T D (enqueue task p k)"
  unfolding tame_def
proof (intro allI impI)
  fix s r t assume run: "enqueue task p k s = (r, t)" and f: "fit (pn_backend s)"
  have t: "t = s\<lparr>pn_queue := snd (submit task p k (pn_queue s))\<rparr>"
    using run by (auto simp: enqueue_def split: prod.splits sum.splits)
  let ?i = "\<lparr>qi_priority = p, qi_sequence = oq_sequence (pn_queue s), qi_task = task, qi_key = k\<rparr>"
  have "oq_items (pn_queue t) = oq_items (pn_queue s) \<or> oq_items (pn_queue t) = insort_key item_rank ?i (oq_items (pn_queue s))"
    by (simp add: t submit_run)
  then have "set (queued_work t) \<subseteq> set (queued_work s) \<union> T"
    using assms by (auto simp: queued_work_def set_insort_key)
  with f t show "fit (pn_backend t) \<and> onward (pos (pn_backend s)) (pos (pn_backend t))
     \<and> set (queued_work t) \<subseteq> set (queued_work s) \<union> T \<and> snd ` set (pn_drafts t) \<subseteq> snd ` set (pn_drafts s) \<union> D"
    by simp
qed

subsection \<open>The building blocks are tame\<close>

lemmas backend_laws [tame_intros] = snapshot_advances ports_advances sensors_advances optics_advances phy_advances
  eye_start_advances eye_read_advances eye_cancel_advances confirm_advances rollback_advances close_advances

lemma advances_if [tame_intros]: "advances fit pos a \<Longrightarrow> advances fit pos b \<Longrightarrow> advances fit pos (if c then a else b)"
  by simp

lemma tame_scheduled [tame_intros]: "tame T D m \<Longrightarrow> tame T D (scheduled m)"
  unfolding scheduled_def by (intro tame_intros)

lemma tame_audit [tame_intros]: "tame T D (audit e)"
  unfolding audit_def by (intro tame_intros) simp

lemma tame_set_busy [tame_intros]: "tame T D (set_busy b)"
  unfolding set_busy_def by (intro tame_intros) simp

lemma tame_update_job [tame_intros]: "tame T D (update_job i f)"
  unfolding update_job_def by (intro tame_intros) simp

lemma tame_observe_timer [tame_intros]: "tame T D (observe_timer i p received)"
  unfolding observe_timer_def by (intro tame_intros) simp

lemma tame_observe_revision [tame_intros]: "tame T D (observe_revision r)"
  unfolding observe_revision_def by (intro tame_intros) simp

lemma tame_read_config [tame_intros]: "tame T D (read_config bk now)"
  unfolding read_config_def by (intro tame_intros)

lemma tame_validated [tame_intros]: "tame T D (validated c)"
  unfolding validated_def by (intro tame_intros)

lemma tame_mark_failed [tame_intros]: "tame T D (mark_failed b e)"
  unfolding mark_failed_def Let_def by (intro tame_intros) simp

lemma tame_reconcile [tame_intros]: "tame T D (reconcile_job now mnow sn j)"
  unfolding reconcile_job_def by (intro tame_intros) simp

lemma tame_read_sensors [tame_intros]: "tame T D (read_sensors bk now mnow)"
  unfolding read_sensors_def by (intro tame_intros) simp

lemma tame_schedule_roce [tame_intros]: "tame T D (schedule_roce bk mnow sn)"
  unfolding schedule_roce_def by (intro tame_intros) simp_all

lemma tame_store_sample [tame_intros]: "tame T D (store_sample now rows slow)"
  unfolding store_sample_def Let_def by (intro tame_intros) (auto split: option.splits)

lemma tame_sample [tame_intros]: "tame T D (sample bk now mnow)"
  unfolding sample_def by (intro tame_intros) simp

lemma tame_refresh [tame_intros]: "tame T D (refresh_after_write bk now mnow)"
  unfolding refresh_after_write_def by (intro tame_intros)

lemma tame_job_status [tame_intros]: "tame T D (job_status mnow i)"
  unfolding job_status_def by (intro tame_intros)

lemma tame_new_job [tame_intros]: "tame T D (new_job now i kind actor)"
  unfolding new_job_def by (intro tame_intros) simp_all

lemma tame_quietly [tame_intros]: "tame T D m \<Longrightarrow> tame T D (quietly m)"
  unfolding quietly_def by (intro tame_intros)

subsection \<open>The handlers are tame\<close>

lemma tame_store_draft:
  assumes "d \<in> D"
  shows "tame T D (store_draft now d)"
proof -
  have "set (dict_set ds k d) \<subseteq> insert (k, d) (set ds)" for ds k by (rule set_dict_set)
  then have m: "tame T D (modify_state (\<lambda>s. s\<lparr>pn_drafts := dict_set (pn_drafts s) (dr_id d) d\<rparr>))"
    using assms by (fastforce simp: tame_def monad_simps queued_work_def)
  show ?thesis unfolding store_draft_def by (intro tame_then tame_with_state tame_if tame_raise m; rule tame_modify; auto)
qed

lemma tame_config [tame_intros]: "tame T D (config bk now mnow)"
  unfolding config_def by (intro tame_intros) simp

lemma tame_finish [tame_intros]: "tame T D (finish bk now mnow ident confirming actor)"
proof -
  have "tame T D (case e of Hardware h \<Rightarrow> raise_error (if is_hardware_error h then Panel (AuthorityRefused h) else e)
             | _ \<Rightarrow> raise_error e)" for e by (cases e) (simp_all add: tame_intros)
  then show ?thesis unfolding finish_def by (intro tame_intros) simp_all
qed

lemma tame_recover [tame_intros]:
  "RecoverTask ident actor \<in> T \<Longrightarrow> tame T D (recover_control bk now ident actor)"
  unfolding recover_control_def abandon_def by (intro tame_intros) simp_all

lemma tame_operation [tame_intros]:
  "OperationTask ident kind actor body \<in> T \<Longrightarrow> tame T D (operation_request now ident kind body actor)"
  unfolding operation_request_def by (intro tame_intros) simp_all

lemma tame_monitor [tame_intros]: "tame T D monitor"
  unfolding monitor_def by (intro tame_intros) simp

lemma tame_close [tame_intros]: "tame T D close_panel"
  unfolding close_panel_def by (intro tame_intros) (simp add: stop_queue_def)

lemma tame_telemetry [tame_intros]: "tame T D (telemetry now)"
  unfolding telemetry_def Let_def by (intro tame_intros)

lemma tame_store_entry [tame_intros]: "tame T D (store_entry mnow epl e)"
  unfolding store_entry_def by (intro tame_intros) simp

lemma tame_collect_optics [tame_intros]: "tame T D (collect_optics bk now mnow epl)"
  unfolding collect_optics_def store_failure_def by (intro tame_intros)

lemma tame_port_optics [tame_intros]: "tame T D (port_optics now mnow port)"
  unfolding port_optics_def request_collection_def Let_def by (intro tame_intros) simp_all

lemma tame_merged_scan [tame_intros]: "tame T D (merged_scan p c)"
  unfolding merged_scan_def by (intro tame_intros)

lemma tame_store_scan [tame_intros]: "tame T D (store_scan i v)"
  unfolding store_scan_def by (intro tame_intros) simp

lemma tame_start_eye [tame_intros]: "tame T D (start_eye bk now port scan_request actor)"
  unfolding start_eye_def Let_def by (intro tame_intros)

lemma tame_more_pages [tame_intros]: "tame T D (more_pages bk now n i v)"
  by (induction n arbitrary: v) (simp_all add: tame_intros)

lemma tame_absorb_chunk [tame_intros]: "tame T D (absorb_chunk bk now c)"
  unfolding absorb_chunk_def Let_def by (intro tame_intros) simp

lemma tame_read_eye [tame_intros]: "tame T D (read_eye bk now i)"
  unfolding read_eye_def by (intro tame_intros)

lemma tame_cancel_eye [tame_intros]: "tame T D (cancel_eye bk now i actor)"
  unfolding cancel_eye_def by (intro tame_intros)

lemma tame_backup [tame_intros]: "tame T D (backup bk dump digest now mnow)"
  unfolding backup_def Let_def by (intro tame_intros)

lemma tame_run_task [tame_intros]:
  assumes "\<And>ident kind actor body. task = OperationTask ident kind actor body \<Longrightarrow> advances fit pos body"
  shows "tame T D (run_task bk now mnow task)"
proof (cases task)
  case (CommitTask ident draft_id d timeout actor)
  have ap: "advances fit pos (bk_apply bk now target e job limit)" if "validate_configuration (dr_configuration d) = Inr target" for target e job limit
    by (rule apply_advances [OF valid_result [OF that]])
  have target: "tame T D (bind_action (validated (dr_configuration d)) k)"
    if "\<And>target. validate_configuration (dr_configuration d) = Inr target \<Longrightarrow> tame T D (k target)" for k :: "_ \<Rightarrow> ('s, unit) panel_action"
    using that unfolding validated_def
    by (cases "validate_configuration (dr_configuration d)") (auto simp: tame_def monad_simps)
  show ?thesis unfolding CommitTask run_task_def commit_work_def commit_applied_def
    by simp (intro tame_then tame_catch target; intro tame_intros ap; auto simp: dict_del_def)
next
  case RoceTask
  then show ?thesis by (auto simp: run_task_def intro!: tame_intros elim: roce_advances)
next
  case (RecoverTask ident actor)
  then show ?thesis unfolding run_task_def recover_work_def
    by simp (intro tame_intros; simp add: recover_advances)
next
  case (OperationTask ident kind actor body)
  from assms [OF this] show ?thesis unfolding run_task_def operation_work_def OperationTask
    by simp (intro tame_intros; simp)
qed (simp_all add: run_task_def tame_intros)

subsection \<open>Reviewed drafts and commits\<close>

fun task_reviewed :: "codec \<Rightarrow> position \<Rightarrow> 's task \<Rightarrow> bool" where
  "task_reviewed cx p (CommitTask ident draft_id d timeout actor) = reviewed cx p d"
| "task_reviewed cx p (OperationTask ident kind actor body) = advances fit pos body"
| "task_reviewed cx p _ = True"

definition review_ok :: "codec \<Rightarrow> 's panel \<Rightarrow> bool" where
  "review_ok cx s \<longleftrightarrow> fit (pn_backend s) \<and> (\<forall>d \<in> snd ` set (pn_drafts s). reviewed cx (pos (pn_backend s)) d)
     \<and> (\<forall>task \<in> set (queued_work s). task_reviewed cx (pos (pn_backend s)) task)"

lemma task_reviewed_onward: "task_reviewed cx p task \<Longrightarrow> onward p q \<Longrightarrow> task_reviewed cx q task"
  by (cases task) (auto intro: reviewed_onward)

lemma tame_review:
  assumes "tame T D m" and "m s = (r, t)" and ok: "review_ok cx s"
    and "\<And>d. d \<in> D \<Longrightarrow> reviewed cx (pos (pn_backend s)) d"
    and "\<And>task. task \<in> T \<Longrightarrow> task_reviewed cx (pos (pn_backend s)) task"
  shows "review_ok cx t"
proof -
  have f: "fit (pn_backend s)" using ok by (simp add: review_ok_def)
  note t = tameD [OF assms(1,2) f]
  have "reviewed cx (pos (pn_backend t)) d" if "d \<in> snd ` set (pn_drafts t)" for d
  proof -
    have "reviewed cx (pos (pn_backend s)) d" using that t(4) ok assms(4) unfolding review_ok_def by blast
    then show ?thesis using t(2) by (rule reviewed_onward)
  qed
  moreover have "task_reviewed cx (pos (pn_backend t)) task" if "task \<in> set (queued_work t)" for task
  proof -
    have "task_reviewed cx (pos (pn_backend s)) task" using that t(3) ok assms(5) unfolding review_ok_def by blast
    then show ?thesis using t(2) by (rule task_reviewed_onward)
  qed
  ultimately show ?thesis using t(1) by (simp add: review_ok_def)
qed

lemma calm_review: "tame {} {} m \<Longrightarrow> m s = (r, t) \<Longrightarrow> review_ok cx s \<Longrightarrow> review_ok cx t"
  using tame_review [of "{}" "{}" m s r t cx] by simp

lemma preview_review:
  assumes run: "preview bk (cx_dump cx) (cx_load cx) now ident expected c s = (r, t)" and ok: "review_ok cx s"
  shows "review_ok cx t"
proof -
  let ?read = "scheduled (on_backend (bk_snapshot bk now)) :: ('s, panel_snapshot) panel_action"
  obtain q u where q: "?read s = (q, u)" by (metis surj_pair)
  have "tame {} {} ?read" by (intro tame_intros)
  from calm_review [OF this q ok] have u: "review_ok cx u" .
  show ?thesis
  proof (cases q)
    case (Inl e)
    with run q u show ?thesis by (simp add: preview_def bind_apply)
  next
    case (Inr sn)
    have at: "pos (pn_backend u) = (ps_revision sn, ps_configuration sn)"
      using q Inr ok snapshot_current unfolding scheduled_def review_ok_def
      by (auto simp: monad_simps on_backend_def split: if_splits prod.splits sum.splits)
    show ?thesis
    proof (cases "expected = ps_revision sn \<and> ps_pending sn = None")
      case False
      with run q Inr u show ?thesis by (auto simp: preview_def monad_simps split: if_splits)
    next
      case True
      show ?thesis
      proof (cases "validate_configuration (ps_configuration sn)")
        case (Inl e)
        with True run q Inr u show ?thesis by (auto simp: preview_def monad_simps validated_def)
      next
        case before: (Inr before)
        let ?d = "draft_of (cx_dump cx) (cx_load cx) now ident expected before c"
        let ?rest = "if sc_profile before \<noteq> sc_profile c then raise_error (Panel ProfileMismatch)
          else then_action (case bk_validate bk of None \<Rightarrow> ret () | Some check \<Rightarrow> scheduled (on_backend (check now c)))
           (then_action (store_draft now ?d) (ret ?d)) :: ('s, draft) panel_action"
        have d: "dr_id ?d = ident" "dr_expected_revision ?d = expected" "dr_configuration ?d = c"
          by (simp_all add: draft_of_def Let_def)
        have "?rest u = (r, t)" using run q Inr True before
          by (cases "sc_profile before = sc_profile c") (simp_all add: preview_def bind_apply validated_def ret_apply Let_def)
        moreover have "tame {} {?d} ?rest"
          by (intro tame_intros tame_store_draft) (simp_all add: validate_advances)
        moreover have "reviewed cx (pos (pn_backend u)) ?d"
          unfolding reviewed_def at d using True before by (auto intro!: exI)
        ultimately show ?thesis using u by (intro tame_review [of "{}" "{?d}" ?rest u r t]) auto
      qed
    qed
  qed
qed

lemma commit_review:
  assumes run: "commit now mnow ident draft_id timeout accept actor s = (r, t)" and ok: "review_ok cx s"
  shows "review_ok cx t"
proof -
  obtain q u where q: "accept_commit now ident draft_id accept actor s = (q, u)" by (metis surj_pair)
  have "tame {} {} (accept_commit now ident draft_id accept actor)"
    unfolding accept_commit_def by (intro tame_intros)
  from calm_review [OF this q ok] have u: "review_ok cx u" .
  show ?thesis
  proof (cases q)
    case (Inl e)
    with run q u show ?thesis by (simp add: commit_def bind_apply)
  next
    case (Inr d)
    let ?task = "CommitTask ident draft_id d timeout actor"
    let ?rest = "then_action (catch_action (then_action (enqueue ?task 0 None) (ret ())) (abandon ident MsgQueueFull))
         (job_status mnow ident) :: ('s, job_view) panel_action"
    have "map_of (pn_drafts s) draft_id = Some d" "pn_drafts u = pn_drafts s"
      using q Inr new_job_run [of now ident "''configuration''" actor s]
      by (auto simp: accept_commit_def monad_simps set_busy_def split: option.splits if_splits prod.splits sum.splits)
    then have "d \<in> snd ` set (pn_drafts u)" by (force dest: map_of_SomeD)
    then have "task_reviewed cx (pos (pn_backend u)) ?task" using u unfolding review_ok_def by simp blast
    moreover have "tame {?task} {} ?rest"
      unfolding abandon_def by (intro tame_intros) simp
    moreover have "?rest u = (r, t)" using run q Inr by (simp add: commit_def bind_apply)
    ultimately show ?thesis using u by (intro tame_review [of "{?task}" "{}" ?rest u r t]) auto
  qed
qed

lemma work_review:
  assumes run: "work bk now mnow s = (r, t)" and ok: "review_ok cx s"
  shows "review_ok cx t"
proof (cases "take_item (pn_queue s)")
  case None
  let ?rest = "if oq_stopping (pn_queue s) \<and> \<not> oq_finalized (pn_queue s)
       then then_action (catch_action (on_backend (bk_close bk)) (\<lambda>_. ret ()))
         (modify_state (\<lambda>s. s\<lparr>pn_queue := (pn_queue s)\<lparr>oq_finalized := True\<rparr>\<rparr>))
       else ret () :: ('s, unit) panel_action"
  have "?rest s = (r, t)" using run None by (simp add: work_def with_state_apply)
  moreover have "tame {} {} ?rest" by (intro tame_intros) simp
  ultimately show ?thesis using ok by (intro calm_review [of ?rest s r t])
next
  case (Some p)
  obtain i q where p: "p = (i, q)" by (cases p)
  have take: "take_item (pn_queue s) = Some (i, q)" using Some p by simp
  note items = take_itemE [OF take]
  let ?u = "s\<lparr>pn_queue := q\<rparr>"
  let ?rest = "then_action (catch_action (run_task bk now mnow (qi_task i)) (\<lambda>_. ret ()))
         (modify_state (\<lambda>s. s\<lparr>pn_queue := release_key i (pn_queue s)\<rparr>)) :: ('s, unit) panel_action"
  have u: "review_ok cx ?u" using ok items by (auto simp: review_ok_def queued_work_def)
  have "advances fit pos body" if "qi_task i = OperationTask ident kind actor body" for ident kind actor body
  proof -
    have "qi_task i \<in> set (queued_work s)" using items that by (simp add: queued_work_def)
    then show ?thesis using ok that unfolding review_ok_def by force
  qed
  then have "tame {} {} ?rest"
    by (intro tame_intros) (auto simp: release_key_def split: option.splits)
  moreover have "?rest ?u = (r, t)" using run take by (simp add: work_def with_state_apply then_apply modify_apply)
  ultimately show ?thesis using u by (intro calm_review [of ?rest ?u r t])
qed

lemma restore_run:
  assumes "restore_preview bk dump load digest now mnow ident envelope s = (q, t)"
  shows "t = s \<or> (\<exists>target. bind_action (config bk now mnow) (\<lambda>sn.
    preview bk dump load now ident (ps_revision sn) target) s = (q, t))"
  using assms unfolding restore_preview_def Let_def by (auto simp: raise_apply split: if_split_asm sum.split_asm)

lemma handle_review:
  assumes adm: "admissible cx (advances fit pos) s ev" and run: "handle bk cx now mnow ev s = (r, t)" and ok: "review_ok cx s"
  shows "review_ok cx t"
proof -
  have calm: "review_ok cx t" if "tame {} {} (handle bk cx now mnow ev)" using that run ok by (rule calm_review)
  show ?thesis
  proof (cases ev)
    case EvWork
    with run ok show ?thesis by (auto simp: handle_def intro: work_review)
  next
    case (EvPreview ident expected c)
    with run quietly_run obtain q where "preview bk (cx_dump cx) (cx_load cx) now ident expected c s = (q, t)"
      by (fastforce simp: handle_def)
    then show ?thesis using ok by (rule preview_review)
  next
    case (EvCommit ident draft_id timeout accept actor)
    with run quietly_run obtain q where "commit now mnow ident draft_id timeout accept actor s = (q, t)"
      by (fastforce simp: handle_def)
    then show ?thesis using ok by (rule commit_review)
  next
    case (EvRecover ident actor)
    then have "tame {RecoverTask ident actor} {} (handle bk cx now mnow ev)" by (auto simp: handle_def intro: tame_intros)
    from tame_review [OF this run ok] show ?thesis by simp
  next
    case (EvOperation ident kind body actor)
    then have "tame {OperationTask ident kind actor body} {} (handle bk cx now mnow ev)"
      by (auto simp: handle_def intro: tame_intros)
    from tame_review [OF this run ok] adm EvOperation show ?thesis by (simp add: admissible_def proposal_ok_def)
  next
    case (EvRestore ident envelope)
    with run quietly_run obtain q where
      q: "restore_preview bk (cx_dump cx) (cx_load cx) (cx_digest cx) now mnow ident envelope s = (q, t)"
      by (fastforce simp: handle_def)
    obtain q' u where c: "config bk now mnow s = (q', u)" by (metis surj_pair)
    have u: "review_ok cx u" by (rule calm_review [OF tame_config c ok])
    from restore_run [OF q] consider "t = s" | target where "bind_action (config bk now mnow) (\<lambda>sn.
        preview bk (cx_dump cx) (cx_load cx) now ident (ps_revision sn) target) s = (q, t)" by blast
    then show ?thesis
    proof cases
      case 1
      with ok show ?thesis by simp
    next
      case 2
      then have "t = u \<or> (\<exists>e q''. preview bk (cx_dump cx) (cx_load cx) now ident e target u = (q'', t))"
        using c by (cases q') (auto simp: bind_apply)
      with u preview_review show ?thesis by blast
    qed
  qed (rule calm; simp add: handle_def; intro tame_intros)+
qed

theorem reachable_review:
  assumes "panel_reachable bk cx (advances fit pos) b s" and "fit b"
  shows "review_ok cx s"
  using assms
proof (induction rule: panel_reachable.induct)
  case panel_start
  then show ?case by (simp add: review_ok_def new_panel_def queued_work_def) (simp add: empty_queue_def)
next
  case (panel_next s s')
  from panel_next.hyps(2) panel_next.IH [OF panel_next.prems] show ?case
    by (cases rule: panel_steps.cases) (blast intro: handle_review)
qed

text \<open>
  A commit the authority accepts applies exactly the change that was reviewed: the draft was computed
  from the configuration that was active under the revision at which the authority accepted it.
\<close>

theorem commit_applies_review:
  assumes "panel_reachable bk cx (advances fit pos) b s" and "fit b"
    and "CommitTask ident draft_id d timeout actor \<in> set (queued_work s)"
    and "validate_configuration (dr_configuration d) = Inr target"
    and "bk_apply bk now target (dr_expected_revision d) ident timeout (pn_backend s) = (Inr sn, t)"
  shows "\<exists>p before time. onward (pos (pn_backend s)) p \<and> fst p = dr_expected_revision d
    \<and> validate_configuration (snd p) = Inr before
    \<and> d = draft_of (cx_dump cx) (cx_load cx) time (dr_id d) (dr_expected_revision d) before (dr_configuration d)"
proof -
  from reachable_review [OF assms(1,2)] have f: "fit (pn_backend s)" and d: "reviewed cx (pos (pn_backend s)) d"
    using assms(3) unfolding review_ok_def by force+
  from apply_checks [OF assms(5) f valid_result [OF assms(4)]] obtain p where
    p: "onward (pos (pn_backend s)) p" "fst p = dr_expected_revision d" by blast
  from reviewed_onward [OF d p(1)] p show ?thesis unfolding reviewed_def by blast
qed

end

end
