(* ===== verification/Simulated_Panel.thy ===== *)
theory Simulated_Panel
  imports Panel
begin

text \<open>
  The simulated authority as the panel uses it: \<^verbatim>\<open>MockConfigd\<close> with its synthetic eye diagram, optical
  diagnostics and operational reports, and the translation of its results to what the panel reads.
  The power of ten in the synthetic eye is floating point and is a parameter (\<open>pow10\<close>).
\<close>

subsection \<open>Synthetic eye\<close>

datatype eye_phase = EyePreparing | EyeRunning | EyeComplete | EyeCancelled

record simulated_eye =
  ey_request :: eye_request
  ey_phase :: eye_phase
  ey_port :: int
  ey_started :: int
  ey_elapsed_ms :: int
  ey_columns_done :: int
  ey_restored :: bool

record simulator =
  si_configd :: configd
  si_eye :: "simulated_eye option"

type_synonym 'a simulator_action = "(simulator, hw_error, 'a) action"

definition on_configd :: "'a configd_action \<Rightarrow> 'a simulator_action" where
  "on_configd m = (\<lambda>s. case m (si_configd s) of (r, c) \<Rightarrow> (r, s\<lparr>si_configd := c\<rparr>))"

fun eye_phase_name :: "eye_phase \<Rightarrow> string" where
  "eye_phase_name EyePreparing = ''preparing''"
| "eye_phase_name EyeRunning = ''running''"
| "eye_phase_name EyeComplete = ''complete''"
| "eye_phase_name EyeCancelled = ''cancelled''"

definition eye_active :: "simulated_eye \<Rightarrow> bool" where
  "eye_active e \<longleftrightarrow> ey_phase e = EyePreparing \<or> ey_phase e = EyeRunning"

definition eye_columns :: "simulated_eye \<Rightarrow> int" where
  "eye_columns e = er_x_resolution (ey_request e) * 2 + 1"

definition eye_points :: "simulated_eye \<Rightarrow> int" where
  "eye_points e = 256 div er_y_step (ey_request e)"

definition synthetic_count :: "(rat \<Rightarrow> rat) \<Rightarrow> eye_request \<Rightarrow> int \<Rightarrow> int \<Rightarrow> int" where
  "synthetic_count pow10 r x y =
     (let resolution = of_int (er_x_resolution r); phase = (of_int x - resolution) / resolution;
          open_dac = max 0 (1 - \<bar>phase\<bar> * 18 / 10) * 80;
          threshold = of_int \<bar>- 128 + y * er_y_step r\<bar>
      in \<lfloor>of_int (er_dwell_bits r) * min (1 / 2) (pow10 (min 0 ((threshold - open_dac) / 12 - 5)))\<rfloor>)"

definition eye_page :: "(rat \<Rightarrow> rat) \<Rightarrow> simulated_eye \<Rightarrow> int \<Rightarrow> json" where
  "eye_page pow10 e column =
     (let r = ey_request e in JObj
       [(''id'', JStr (er_request_id r)), (''state'', jstr (eye_phase_name (ey_phase e))),
        (''source'', jstr ''simulator''),
        (''signal_source'', jstr (if er_internal_loopback r then ''internal_prbs31_loopback'' else ''external'')),
        (''port'', JInt (ey_port e)), (''epl'', JInt (EPLS ! nat ((ey_port e - 1) div 4))), (''lane'', JInt (er_lane r)),
        (''speed_mbps'', JInt 25000), (''x_resolution'', JInt (er_x_resolution r)),
        (''x_points'', JInt (eye_columns e)), (''y_points'', JInt (eye_points e)),
        (''y_step'', JInt (er_y_step r)), (''y_min'', JInt (- 128)), (''dwell_bits'', JInt (er_dwell_bits r)),
        (''columns_done'', JInt (ey_columns_done e)), (''column_offset'', JInt column),
        (''errors'', JList (map (\<lambda>x. JList (map (\<lambda>y. JInt (synthetic_count pow10 r x y)) [0..eye_points e - 1]))
           [column..min (ey_columns_done e) (column + 4) - 1])),
        (''started_at'', JFloat (of_int (ey_started e) / 1000)), (''elapsed_ms'', JInt (ey_elapsed_ms e)),
        (''restored'', JBool (ey_restored e)), (''restore_failed'', JBool False),
        (''error'', jstr (if ey_phase e = EyeCancelled then ''user_cancelled'' else '''')),
        (''vertical_unit'', jstr ''DAC''), (''measurement'', jstr ''offset-sampler-xor'')])"

definition advance_eye :: "int \<Rightarrow> simulated_eye \<Rightarrow> simulated_eye" where
  "advance_eye now e =
     (if eye_active e
      then let elapsed = max 0 (now - ey_started e); columns = min (eye_columns e) (elapsed * 32 div 1000);
               finished = columns = eye_columns e
           in e\<lparr>ey_elapsed_ms := elapsed, ey_columns_done := columns,
                ey_phase := (if finished then EyeComplete else EyeRunning), ey_restored := finished\<rparr>
      else e)"

definition eye_read :: "(rat \<Rightarrow> rat) \<Rightarrow> int \<Rightarrow> text_points option \<Rightarrow> int \<Rightarrow> json simulator_action" where
  "eye_read pow10 now ident column = with_state (\<lambda>s. case si_eye s of
     None \<Rightarrow> ret (JObj [(''state'', jstr ''idle''), (''source'', jstr ''simulator'')])
   | Some e \<Rightarrow>
       if ident \<noteq> None \<and> ident \<noteq> Some [] \<and> ident \<noteq> Some (er_request_id (ey_request e)) then raise_error EyeReplaced
       else let e' = advance_eye now e in
         then_action (modify_state (\<lambda>s. s\<lparr>si_eye := Some e'\<rparr>)) (ret (eye_page pow10 e' column)))"

definition eye_start :: "(rat \<Rightarrow> rat) \<Rightarrow> int \<Rightarrow> int \<Rightarrow> eye_request \<Rightarrow> json simulator_action" where
  "eye_start pow10 now port request = with_state (\<lambda>s.
     if (case si_eye s of None \<Rightarrow> False | Some e \<Rightarrow> er_request_id (ey_request e) = er_request_id request)
     then eye_read pow10 now None 0
     else if (case si_eye s of None \<Rightarrow> False | Some e \<Rightarrow> eye_active e) then raise_error EyeBusy
     else then_action (modify_state (\<lambda>s. s\<lparr>si_eye := Some
         \<lparr>ey_request = request, ey_phase = EyePreparing, ey_port = port, ey_started = now, ey_elapsed_ms = 0,
          ey_columns_done = 0, ey_restored = False\<rparr>\<rparr>))
       (eye_read pow10 now None 0))"

definition eye_cancel :: "(rat \<Rightarrow> rat) \<Rightarrow> int \<Rightarrow> text_points \<Rightarrow> json simulator_action" where
  "eye_cancel pow10 now ident =
     bind_action (eye_read pow10 now (Some ident) 0) (\<lambda>_.
       then_action (modify_state (\<lambda>s. case si_eye s of
           Some e \<Rightarrow> if eye_active e then s\<lparr>si_eye := Some (e\<lparr>ey_phase := EyeCancelled, ey_restored := True\<rparr>)\<rparr> else s
         | None \<Rightarrow> s))
       (eye_read pow10 now (Some ident) 0))"

subsection \<open>Optical diagnostics\<close>

definition simulated_lane :: "bool \<Rightarrow> int \<Rightarrow> lane_reading" where
  "simulated_lane enabled lane = \<lparr>ln_lane = lane, ln_tx_ready = Some enabled, ln_rx_ready = Some enabled,
     ln_rx_idle = Some (\<not> enabled), ln_rx_activity = Some enabled, ln_serdes_raw = None,
     ln_values = [(''coarse_dfe'', Some (if enabled then 2 else 0)), (''fine_dfe'', Some (if enabled then 2 else 0)),
       (''dfe_mode'', Some 1), (''tx_pre'', Some 0), (''tx_cursor'', Some 0), (''tx_post'', Some 0),
       (''rx_polarity'', Some 0), (''tx_polarity'', Some 0), (''rx_termination'', Some 0),
       (''signal_transition_threshold'', Some 20)]\<rparr>"

definition optical_diagnostics :: "int \<Rightarrow> port_group \<Rightarrow> phy_reading simulator_action" where
  "optical_diagnostics now g = with_state (\<lambda>s.
     if pg_mode g = Split
     then ret \<lparr>ph_quality = PhyUnsupported, ph_sampled_at = None, ph_pcs = None, ph_lanes = [], ph_errors = []\<rparr>
     else let enabled = pc_enabled (port_of (cd_configuration (si_configd s)) (base_of (pg_epl g))) in
       ret \<lparr>ph_quality = PhySimulated, ph_sampled_at = Some (of_int now / 1000),
         ph_pcs = Some \<lparr>pcs_block_lock = replicate 4 (Some enabled), pcs_am_lock = replicate 4 (Some enabled),
           pcs_aligned = Some enabled, pcs_high_ber = Some False, pcs_raw = None\<rparr>,
         ph_lanes = map (simulated_lane enabled) [0, 1, 2, 3], ph_errors = []\<rparr>)"

subsection \<open>Operational reports\<close>

datatype operational_report =
  SimulatedRoce | SimulatedFdb "static_mac list" | SimulatedLldp | SimulatedLags "lag list"
| SimulatedRstp bool | SimulatedIgmp "multicast_group list" | NoReport

definition operational :: "string \<Rightarrow> configd \<Rightarrow> operational_report" where
  "operational feature s = (let c = cd_configuration s in
     if feature = ''roce'' then SimulatedRoce
     else if feature = ''fdb'' then SimulatedFdb (sc_static_macs c)
     else if feature = ''lldp'' then SimulatedLldp
     else if feature = ''lags'' then SimulatedLags (sc_lags c)
     else if feature = ''rstp'' then SimulatedRstp (rs_enabled (sc_rstp c))
     else if feature = ''igmp'' then SimulatedIgmp (ig_static_groups (sc_igmp c))
     else NoReport)"

subsection \<open>What the panel reads\<close>

definition pending_view_of :: "pending_commit \<Rightarrow> pending_view" where
  "pending_view_of p = \<lparr>pv_job = pd_job p, pv_phase = pd_phase p, pv_deadline = Some (pd_deadline p), pv_remaining = None\<rparr>"

definition terminal_view_of :: "transaction \<Rightarrow> terminal_view" where
  "terminal_view_of t = \<lparr>tv_job = Some (tr_job t), tv_revision = Some (tr_revision t), tv_state = Some (tr_state t)\<rparr>"

definition panel_snapshot_of :: "configd_snapshot \<Rightarrow> panel_snapshot" where
  "panel_snapshot_of v = \<lparr>ps_revision = sn_revision v, ps_configuration = sn_configuration v,
     ps_pending = map_option pending_view_of (sn_pending v), ps_terminal = map_option terminal_view_of (sn_last_transaction v)\<rparr>"

definition port_reading_of :: "port_row \<Rightarrow> reading" where
  "port_reading_of r = \<lparr>rd_quality = ''simulated'', rd_sampled_at = Some (pr_sampled_at r),
     rd_value = JObj [(''id'', JInt (pr_id r)), (''epl'', JInt (pr_epl r)), (''mpo'', JInt (pr_mpo r)),
       (''lane'', JInt (pr_lane r)), (''active'', JBool (pr_active r)), (''enabled'', JBool (pr_enabled r)),
       (''speed_gbps'', JInt (pr_speed_gbps r)), (''link'', jstr (if pr_link_up r then ''up'' else ''down'')),
       (''counter_epoch'', JInt (pr_counter_epoch r)), (''rx_bytes'', JInt (pr_octets r)),
       (''tx_bytes'', JInt (pr_octets r)), (''crc_errors'', JInt 0), (''degraded'', JBool (pr_degraded r))]\<rparr>"

fun sensor_quality_name :: "sensor_quality \<Rightarrow> string" where
  "sensor_quality_name SensorSimulated = ''simulated''"
| "sensor_quality_name SensorStale = ''stale''"
| "sensor_quality_name SensorUnavailable = ''unavailable''"

definition temperature_reading_of :: "int option \<Rightarrow> string \<times> int \<Rightarrow> reading" where
  "temperature_reading_of sampled = (\<lambda>(name, centi). \<lparr>rd_quality = (if name = ''atom_cpu'' then ''simulated'' else ''''),
     rd_sampled_at = (if name = ''atom_cpu'' then sampled else None),
     rd_value = JObj [(''id'', jstr name), (''celsius'', JFloat (of_int centi / 100))]\<rparr>)"

definition fan_reading_of :: "sensor_sample \<Rightarrow> fan_reading" where
  "fan_reading_of s = \<lparr>fn_quality = (if se_rpm s \<noteq> None then ''simulated'' else ''invalid_tach''),
     fn_sampled_at = None, fn_pwm_quality = '''', fn_pwm_sampled_at = None\<rparr>"

definition sensor_reading_of :: "sensor_sample \<Rightarrow> sensor_reading" where
  "sensor_reading_of s = \<lparr>sr_quality = sensor_quality_name (se_quality s), sr_sampled_at = se_sampled_at s,
     sr_temperatures = map (temperature_reading_of (se_sampled_at s)) (se_temperatures s),
     sr_fan = Some (fan_reading_of s)\<rparr>"

definition optic_reading_of :: "int \<Rightarrow> int \<times> int \<Rightarrow> optic_reading" where
  "optic_reading_of now = (\<lambda>(mpo, mask). \<lparr>or_quality = ''simulated'', or_sampled_at = Some now,
     or_power_quality = ''unqualified'', or_power_sampled_at = None,
     or_module = JObj [(''mpo'', JInt mpo), (''tx_enable_mask'', JInt mask), (''rx_power'', JNull),
       (''rx_power_quality'', jstr ''unqualified''), (''quality'', jstr ''simulated'')]\<rparr>)"

definition mapped :: "('a \<Rightarrow> 'b) \<Rightarrow> ('s, 'e, 'a) action \<Rightarrow> ('s, 'e, 'b) action" where
  "mapped f m = bind_action m (\<lambda>a. ret (f a))"

definition mock_backend :: "(rat \<Rightarrow> rat) \<Rightarrow> simulator backend" where
  "mock_backend pow10 = \<lparr>
     bk_snapshot = (\<lambda>now. on_configd (mapped panel_snapshot_of (snapshot now))),
     bk_ports = (\<lambda>now. on_configd (mapped (map port_reading_of) (ports now))),
     bk_sensors = (\<lambda>now. on_configd (mapped sensor_reading_of (sensors now))),
     bk_optics = (\<lambda>now. on_configd (mapped (map (optic_reading_of now)) optics)),
     bk_apply = (\<lambda>now c expected job timeout. on_configd (mapped panel_snapshot_of (apply_configuration now c expected job timeout))),
     bk_confirm = (\<lambda>now job. on_configd (mapped panel_snapshot_of (confirm now job))),
     bk_rollback = (\<lambda>now job. on_configd (mapped panel_snapshot_of (rollback now job))),
     bk_validate = None, bk_recover = None, bk_sample_roce = None,
     bk_phy = (\<lambda>now g. mapped Inr (optical_diagnostics now g)),
     bk_eye_start = eye_start pow10, bk_eye_read = eye_read pow10, bk_eye_cancel = eye_cancel pow10,
     bk_close = ret ()\<rparr>"

definition new_simulator :: "configd \<Rightarrow> simulator" where
  "new_simulator s = \<lparr>si_configd = s, si_eye = None\<rparr>"

end
