(* ===== verification/Mock_Authority.thy ===== *)
theory Mock_Authority
  imports Authority Simulated_Panel
begin

text \<open>
  The simulated authority discharges the interface of Authority: its reachable states are fit, its
  position is the revision with the active configuration. The panel on the simulator follows.
\<close>

definition simulator_position :: "simulator \<Rightarrow> position" where
  "simulator_position s = (cd_revision (si_configd s), cd_configuration (si_configd s))"

definition simulator_fit :: "simulator \<Rightarrow> bool" where
  "simulator_fit s \<longleftrightarrow> configd_ok (si_configd s)"

lemma stepped_position:
  "stepped (si_configd s) (si_configd t) \<Longrightarrow> simulator_fit t \<and> onward (simulator_position s) (simulator_position t)"
  by (simp add: stepped_def evolves_def simulator_fit_def simulator_position_def onward_def)

lemma advances_configd:
  assumes "\<And>s r t. m s = (r, t) \<Longrightarrow> configd_ok s \<Longrightarrow> stepped s t"
  shows "advances simulator_fit simulator_position (on_configd (mapped f m))"
  unfolding advances_def
proof (intro allI impI)
  fix s r t assume run: "on_configd (mapped f m) s = (r, t)" and fit: "simulator_fit s"
  obtain q c where m: "m (si_configd s) = (q, c)" by (metis surj_pair)
  have "t = s\<lparr>si_configd := c\<rparr>" using run m by (auto simp: on_configd_def mapped_def monad_simps split: sum.splits)
  moreover have "stepped (si_configd s) c" using m fit by (intro assms) (simp_all add: simulator_fit_def)
  ultimately show "simulator_fit t \<and> onward (simulator_position s) (simulator_position t)"
    by (intro stepped_position) simp
qed

lemma perform_run:
  assumes "m s = (r, t)" and "perform now op = forget m" and "operation_ok op" and "configd_ok s"
  shows "stepped s t"
proof -
  obtain q where "perform now op s = (q, t)"
    using assms(1,2) by (cases r) (auto simp: forget_def monad_simps)
  from wp_resultD [OF perform_stepped [OF assms(4,3)] this] show ?thesis by (auto split: sum.splits)
qed

lemma advances_simulator:
  assumes "\<And>s r t. m s = (r, t) \<Longrightarrow> si_configd t = si_configd s"
  shows "advances simulator_fit simulator_position m"
  unfolding advances_def
proof (intro allI impI)
  fix s r t assume "m s = (r, t)" and "simulator_fit s"
  then show "simulator_fit t \<and> onward (simulator_position s) (simulator_position t)"
    using assms [of s r t] by (simp add: simulator_fit_def simulator_position_def)
qed

lemma eye_read_configd: "eye_read pow10 now ident column s = (r, t) \<Longrightarrow> si_configd t = si_configd s"
  by (auto simp: eye_read_def Let_def monad_simps split: option.splits if_splits)

lemma eye_start_configd: "eye_start pow10 now port wish s = (r, t) \<Longrightarrow> si_configd t = si_configd s"
  unfolding eye_start_def
  by (auto simp: with_state_apply then_apply modify_apply raise_apply dest!: eye_read_configd split: if_split_asm)

lemma eye_cancel_configd:
  assumes "eye_cancel pow10 now ident s = (r, t)"
  shows "si_configd t = si_configd s"
proof -
  obtain q u where u: "eye_read pow10 now (Some ident) 0 s = (q, u)" by (metis surj_pair)
  show ?thesis
  proof (cases q)
    case (Inl e)
    with assms u eye_read_configd [OF u] show ?thesis by (simp add: eye_cancel_def bind_apply)
  next
    case (Inr v)
    define w where "w = (case si_eye u of
           Some e \<Rightarrow> if eye_active e then u\<lparr>si_eye := Some (e\<lparr>ey_phase := EyeCancelled, ey_restored := True\<rparr>)\<rparr> else u
         | None \<Rightarrow> u)"
    have "eye_read pow10 now (Some ident) 0 w = (r, t)"
      using assms u Inr by (simp add: eye_cancel_def bind_apply then_apply modify_apply w_def)
    from eye_read_configd [OF this] have "si_configd t = si_configd w" .
    also have "\<dots> = si_configd u" by (simp add: w_def split: option.splits)
    finally show ?thesis using eye_read_configd [OF u] by simp
  qed
qed

lemma optical_configd: "mapped Inr (optical_diagnostics now g) s = (r, t) \<Longrightarrow> si_configd t = si_configd s"
  by (auto simp: mapped_def optical_diagnostics_def Let_def monad_simps split: if_splits)

lemma apply_accepted:
  assumes "on_configd (mapped f (apply_configuration now c expected job timeout)) s = (Inr sn, t)"
    and "simulator_fit s" and "valid_configuration c"
  shows "\<exists>m. ticked now (si_configd s) m \<and> accepts m expected"
proof -
  obtain v u where "apply_configuration now c expected job timeout (si_configd s) = (Inr v, u)"
    using assms(1) by (auto simp: on_configd_def mapped_def monad_simps split: prod.splits sum.splits)
  with wp_resultD [OF wp_apply_configuration] assms(2,3) show ?thesis unfolding simulator_fit_def by fastforce
qed

lemmas backend_simps = mock_backend_def backend.simps

interpretation mock: authority "mock_backend pow10" simulator_fit simulator_position
proof unfold_locales
  show "advances simulator_fit simulator_position (bk_snapshot (mock_backend pow10) now)" for now
    by (simp add: backend_simps) (rule advances_configd, erule perform_run [of _ _ _ _ now OpSnapshot], simp_all add: operation_ok_def)
  show "simulator_position t = (ps_revision sn, ps_configuration sn)"
    if "bk_snapshot (mock_backend pow10) now s = (Inr sn, t)" "simulator_fit s" for now s sn t
    using that by (auto simp: backend_simps on_configd_def mapped_def snapshot_def monad_simps panel_snapshot_of_def
        view_def simulator_position_def split: prod.splits sum.splits)
  show "advances simulator_fit simulator_position (bk_ports (mock_backend pow10) now)" for now
    by (simp add: backend_simps) (rule advances_configd, erule perform_run [of _ _ _ _ now OpPorts], simp_all add: operation_ok_def)
  show "advances simulator_fit simulator_position (bk_sensors (mock_backend pow10) now)" for now
    by (simp add: backend_simps) (rule advances_configd, erule perform_run [of _ _ _ _ now OpSensors], simp_all add: operation_ok_def)
  show "advances simulator_fit simulator_position (bk_optics (mock_backend pow10) now)" for now
    by (simp add: backend_simps) (rule advances_configd, erule perform_run [of _ _ _ _ now OpOptics], simp_all add: operation_ok_def)
  show "advances simulator_fit simulator_position (bk_phy (mock_backend pow10) now g)" for now g
    by (simp add: backend_simps advances_simulator optical_configd)
  show "advances simulator_fit simulator_position (bk_eye_start (mock_backend pow10) now port wish)" for now port wish
    by (simp add: backend_simps advances_simulator eye_start_configd)
  show "advances simulator_fit simulator_position (bk_eye_read (mock_backend pow10) now ident column)" for now ident column
    by (simp add: backend_simps advances_simulator eye_read_configd)
  show "advances simulator_fit simulator_position (bk_eye_cancel (mock_backend pow10) now scan)" for now scan
    by (simp add: backend_simps advances_simulator eye_cancel_configd)
  show "advances simulator_fit simulator_position (bk_confirm (mock_backend pow10) now job)" for now job
    by (simp add: backend_simps) (rule advances_configd, erule perform_run [of _ _ _ _ now "OpConfirm job"], simp_all add: operation_ok_def)
  show "advances simulator_fit simulator_position (bk_rollback (mock_backend pow10) now job)" for now job
    by (simp add: backend_simps) (rule advances_configd, erule perform_run [of _ _ _ _ now "OpRollback job"], simp_all add: operation_ok_def)
  show "advances simulator_fit simulator_position (bk_close (mock_backend pow10))"
    by (simp add: backend_simps) (rule advances_simulator, simp add: monad_simps)
  show "advances simulator_fit simulator_position (bk_apply (mock_backend pow10) now c expected job timeout)"
    if "valid_configuration c" for c now expected job timeout
    by (simp add: backend_simps) (rule advances_configd, erule perform_run [of _ _ _ _ now "OpApply c expected job timeout"],
        simp_all add: operation_ok_def that)
  show "\<exists>p. onward (simulator_position s) p \<and> fst p = expected"
    if run: "bk_apply (mock_backend pow10) now c expected job timeout s = (Inr sn, t)"
      and fit: "simulator_fit s" and val: "valid_configuration c" for now c expected job timeout s sn t
  proof -
    from run have "on_configd (mapped panel_snapshot_of (apply_configuration now c expected job timeout)) s = (Inr sn, t)"
      by (simp add: backend_simps)
    from apply_accepted [OF this fit val] obtain m where m: "ticked now (si_configd s) m" "accepts m expected" by blast
    have "stepped (si_configd s) m" using ticked_stepped [OF m(1)] fit by (simp add: simulator_fit_def)
    then have "onward (simulator_position s) (simulator_position (s\<lparr>si_configd := m\<rparr>))"
      using stepped_position [of s "s\<lparr>si_configd := m\<rparr>"] by simp
    moreover have "fst (simulator_position (s\<lparr>si_configd := m\<rparr>)) = expected"
      using m(2) by (simp add: simulator_position_def accepts_def)
    ultimately show ?thesis by blast
  qed
qed (simp_all add: backend_simps)

end
