(* ===== verification/Panel_Properties.thy ===== *)
theory Panel_Properties
  imports Mock_Authority Config_Properties
begin

text \<open>
  The properties of the panel service, each with a witness at a concrete run.
\<close>

subsection \<open>A panel whose authority does not answer\<close>

definition lost :: "('s, hw_error, 'a) action" where
  "lost = raise_error BusLost"

definition lost_backend :: "unit backend" where
  "lost_backend = \<lparr>bk_snapshot = (\<lambda>_. lost), bk_ports = (\<lambda>_. lost), bk_sensors = (\<lambda>_. lost), bk_optics = (\<lambda>_. lost),
     bk_apply = (\<lambda>_ _ _ _ _. lost), bk_confirm = (\<lambda>_ _. lost), bk_rollback = (\<lambda>_ _. lost), bk_validate = None,
     bk_recover = None, bk_sample_roce = None, bk_phy = (\<lambda>_ _. lost), bk_eye_start = (\<lambda>_ _ _. lost),
     bk_eye_read = (\<lambda>_ _ _. lost), bk_eye_cancel = (\<lambda>_ _. lost), bk_close = ret ()\<rparr>"

text \<open>A codec that knows the default configuration only.\<close>

definition default_codec :: codec where
  "default_codec = \<lparr>cx_dump = (\<lambda>_. JObj []), cx_load = (\<lambda>_. Inr default_configuration), cx_digest = (\<lambda>_. ascii ''00'')\<rparr>"

text \<open>The state after the request of an operation named \<open>clear\<close>.\<close>

definition clearing :: "unit panel" where
  "clearing = (new_panel ())\<lparr>
     pn_jobs := [(''op'', queued_job ''op'' ''clear'' ''admin'' 1000)],
     pn_queue := \<lparr>oq_items = [\<lparr>qi_priority = 0, qi_sequence = 0, qi_task = OperationTask ''op'' ''clear'' ''admin'' (ret JNull),
        qi_key = None\<rparr>], oq_sequence = 1, oq_keys = [], oq_stopping = False, oq_finalized = False\<rparr>\<rparr>"

lemma clearing_run: "handle bk cx 1000 0 (EvOperation ''op'' ''clear'' (ret JNull) ''admin'') (new_panel ()) = (Inr (), clearing)"
  by (simp add: handle_def operation_request_def new_job_def monad_simps enqueue_def submit_run new_panel_def empty_queue_def
      QUEUE_CAPACITY_def clearing_def)

lemma clearing_reachable: "panel_reachable bk cx (\<lambda>_. True) () clearing"
proof (rule panel_next [OF panel_start])
  show "panel_steps bk cx (\<lambda>_. True) (new_panel ()) clearing"
    by (rule panel_event [OF _ clearing_run]) (simp add: admissible_def fresh_ids_def proposal_ok_def on_worker_def new_panel_def)
qed

subsection \<open>Exclusive work\<close>

text \<open>C7: in every reachable state the work queue holds at most 32 tasks in the order of priority and
  submission, at most 64 drafts wait, the only configuration or recovery task queued is the one the
  busy mark names, and every queued task still has its job, in state queued.\<close>

theorem single_flight:
  assumes "panel_reachable bk cx body_ok b s"
  shows "length (oq_items (pn_queue s)) \<le> QUEUE_CAPACITY \<and> sorted (map item_rank (oq_items (pn_queue s)))
    \<and> length (pn_drafts s) \<le> 64
    \<and> jobs_of exclusive_job (queued_work s) = (case pn_busy s of None \<Rightarrow> [] | Some i \<Rightarrow> [i])
    \<and> (\<forall>i \<in> set (jobs_of task_job (queued_work s)). \<exists>j. map_of (pn_jobs s) i = Some j \<and> jb_state j = JobQueued)"
  using panel_reachable_ok [OF assms] by (simp add: panel_ok_def queue_ok_def drafts_ok_def work_ok_def)

theorem single_flight_witness:
  "length (oq_items (pn_queue clearing)) = 1 \<and> (\<exists>j. map_of (pn_jobs clearing) ''op'' = Some j \<and> jb_state j = JobQueued)"
proof -
  have "''op'' \<in> set (jobs_of task_job (queued_work clearing))" by (simp add: clearing_def queued_work_def)
  with single_flight [OF clearing_reachable [of lost_backend default_codec]]
  have "\<exists>j. map_of (pn_jobs clearing) ''op'' = Some j \<and> jb_state j = JobQueued" by blast
  then show ?thesis by (simp add: clearing_def)
qed

subsection \<open>Jobs\<close>

text \<open>C8: between two events a job that stays in the table keeps its state, except that a queued job
  may have run and one that waits for its confirmation may have been confirmed or rolled back. A job
  that is done, failed or rolled back never changes its outcome.\<close>

theorem job_outcome_final:
  assumes "panel_reachable bk cx body_ok b s" and "panel_steps bk cx body_ok s t"
    and "map_of (pn_jobs s) k = Some j" and "map_of (pn_jobs t) k = Some j'"
  shows "(jb_state j' = jb_state j \<or> jb_state j = JobQueued
      \<or> jb_state j = JobAwaiting \<and> jb_state j' \<in> {JobDone, JobRolledBack})
    \<and> (terminal (jb_state j) \<longrightarrow> jb_state j' = jb_state j)"
proof -
  from panel_steps_move [OF assms(2) panel_reachable_ok [OF assms(1)]] assms(3,4)
  have "job_move (jb_state j) (jb_state j')" by (simp add: jobs_move_def)
  then show ?thesis by (auto simp: job_move_def terminal_def)
qed

lemma work_clearing:
  "\<exists>t j. work lost_backend 2000 0 clearing = (Inr (), t) \<and> map_of (pn_jobs t) ''op'' = Some j \<and> jb_state j = JobDone"
  by (simp add: work_def take_item_def clearing_def run_task_def operation_work_def refresh_after_write_def sample_def
      monad_simps update_job_def alter_def on_backend_def lost_backend_def lost_def mark_failed_def audit_def
      new_panel_def queued_job_def release_key_def Let_def)

theorem job_outcome_final_witness:
  "\<exists>s t. panel_steps lost_backend default_codec (\<lambda>_. True) s t \<and> map_of (pn_jobs s) ''op'' \<noteq> None
     \<and> (\<forall>j. map_of (pn_jobs t) ''op'' = Some j \<longrightarrow> jb_state j = JobDone)"
proof -
  from work_clearing obtain s j where s: "work lost_backend 2000 0 clearing = (Inr (), s)"
    and j: "map_of (pn_jobs s) ''op'' = Some j" "jb_state j = JobDone" by blast
  have "handle lost_backend default_codec 2000 0 EvWork clearing = (Inr (), s)" by (simp add: handle_def s)
  then have "panel_steps lost_backend default_codec (\<lambda>_. True) clearing s"
    by (rule panel_event [rotated]) (simp add: admissible_def fresh_ids_def proposal_ok_def on_worker_def)
  from panel_next [OF clearing_reachable this] have r: "panel_reachable lost_backend default_codec (\<lambda>_. True) () s" .
  obtain q t where t: "handle lost_backend default_codec 3000 0 EvMonitor s = (q, t)" by (metis surj_pair)
  then have st: "panel_steps lost_backend default_codec (\<lambda>_. True) s t"
    by (rule panel_event [rotated]) (simp add: admissible_def fresh_ids_def proposal_ok_def on_worker_def)
  have "jb_state j' = JobDone" if "map_of (pn_jobs t) ''op'' = Some j'" for j'
    using job_outcome_final [OF r st j(1) that] j(2) by (simp add: terminal_def)
  with j(1) st show ?thesis by blast
qed

subsection \<open>Commit\<close>

lemma commit_effect:
  assumes "panel_reachable bk cx body_ok b s" and "map_of (pn_jobs s) ident = None"
    and "commit now mnow ident draft_id timeout accept actor s = (r, t)"
  shows "pn_backend t = pn_backend s \<and> pn_drafts t = pn_drafts s \<and> (case r of
      Inl e \<Rightarrow> pn_busy t = pn_busy s \<and> queued_work t = queued_work s
    | Inr v \<Rightarrow> \<exists>d xs ys. map_of (pn_drafts s) draft_id = Some d \<and> now < dr_expires_at d \<and> pn_busy s = None
        \<and> (dr_requires_ack d \<longrightarrow> accept) \<and> pn_busy t = Some ident \<and> jb_state (jv_job v) = JobQueued
        \<and> queued_work s = xs @ ys \<and> queued_work t = xs @ CommitTask ident draft_id d timeout actor # ys)"
proof (cases "accept_commit now ident draft_id accept actor s")
  case (Pair q u)
  have ok: "queue_ok (pn_queue s)" "jobs_ok (pn_jobs s)"
    using panel_reachable_ok [OF assms(1)] by (simp_all add: panel_ok_def)
  show ?thesis
  proof (cases q)
    case (Inl e)
    with Pair have "u = s"
      by (auto simp: accept_commit_def monad_simps set_busy_def dest: new_job_run split: option.splits if_splits prod.splits sum.splits)
    with Inl Pair assms(3) show ?thesis by (auto simp: commit_def bind_apply)
  next
    case (Inr d)
    with Pair obtain s1 where d: "map_of (pn_drafts s) draft_id = Some d" "now < dr_expires_at d" "pn_busy s = None"
      "dr_requires_ack d \<longrightarrow> accept" "new_job now ident ''configuration'' actor s = (Inr (), s1)" "u = s1\<lparr>pn_busy := Some ident\<rparr>"
      by (auto simp: accept_commit_def monad_simps set_busy_def split: option.splits if_splits prod.splits sum.splits)
    note n = new_job_jobs [OF d(5) ok(2) assms(2)]
    have u: "pn_backend u = pn_backend s" "pn_drafts u = pn_drafts s" "pn_queue u = pn_queue s"
      "map_of (pn_jobs u) ident = Some (queued_job ident ''configuration'' actor now)" "queued_work u = queued_work s"
      "pn_busy u = Some ident"
      using new_job_run [OF d(5)] n(3) by (auto simp: d(6) queued_work_def)
    let ?task = "CommitTask ident draft_id d timeout actor"
    obtain q' v where e: "enqueue ?task 0 None u = (q', v)" by (metis surj_pair)
    note w = enqueue_work [OF e, unfolded u(3) u(5), OF ok(1), of ident, simplified]
    have v: "pn_backend v = pn_backend u" "pn_drafts v = pn_drafts u" "pn_jobs v = pn_jobs u" "pn_busy v = pn_busy u"
      using arg_cong [OF conjunct1 [OF conjunct2 [OF w]], of pn_backend] arg_cong [OF conjunct1 [OF conjunct2 [OF w]], of pn_drafts]
        arg_cong [OF conjunct1 [OF conjunct2 [OF w]], of pn_jobs] arg_cong [OF conjunct1 [OF conjunct2 [OF w]], of pn_busy] by simp_all
    show ?thesis
    proof (cases q')
      case (Inl e')
      with assms(3) Pair Inr e w u v d(3) show ?thesis
        by (auto simp: commit_def monad_simps abandon_def set_busy_def update_job_def queued_work_def)
    next
      case (Inr x)
      with assms(3) Pair \<open>q = Inr d\<close> e u v have t: "t = v" and r: "\<exists>v. r = Inr v \<and> jb_state (jv_job v) = JobQueued"
        by (auto simp: commit_def monad_simps job_status_def queued_job_def)
      from w Inr have ex: "\<exists>xs ys. queued_work s = xs @ ys \<and> queued_work v = xs @ ?task # ys" by simp
      from r obtain view where view: "r = Inr view" "jb_state (jv_job view) = JobQueued" by blast
      show ?thesis unfolding view(1) t sum.case using ex u(1,2,6) v(1,2,4) d(1-4) view(2) by simp
    qed
  qed
qed

lemma new_job_succeeds:
  "(\<exists>u. new_job now ident kind actor s = (Inr (), u))
     \<longleftrightarrow> length (pn_jobs s) < 128 \<or> (\<exists>(i, j) \<in> set (pn_jobs s). terminal (jb_state j))"
proof -
  have "filter (\<lambda>(_, j). terminal (jb_state j)) (pn_jobs s) = [] \<longleftrightarrow> \<not> (\<exists>(i, j) \<in> set (pn_jobs s). terminal (jb_state j))"
    by (auto simp: filter_empty_conv)
  then show ?thesis
    by (cases "filter (\<lambda>(_, j). terminal (jb_state j)) (pn_jobs s)") (auto simp: new_job_def monad_simps)
qed

lemma accept_commit_succeeds:
  "(\<exists>d u. accept_commit now ident draft_id accept actor s = (Inr d, u))
     \<longleftrightarrow> (\<exists>d. map_of (pn_drafts s) draft_id = Some d \<and> now < dr_expires_at d \<and> pn_busy s = None
            \<and> (dr_requires_ack d \<longrightarrow> accept))
       \<and> (length (pn_jobs s) < 128 \<or> (\<exists>(i, j) \<in> set (pn_jobs s). terminal (jb_state j)))"
proof -
  have "(\<exists>d u. accept_commit now ident draft_id accept actor s = (Inr d, u))
     \<longleftrightarrow> (\<exists>d. map_of (pn_drafts s) draft_id = Some d \<and> now < dr_expires_at d \<and> pn_busy s = None
            \<and> (dr_requires_ack d \<longrightarrow> accept)) \<and> (\<exists>u. new_job now ident ''configuration'' actor s = (Inr (), u))"
    by (cases "map_of (pn_drafts s) draft_id"; cases "new_job now ident ''configuration'' actor s"; cases "fst (new_job now ident ''configuration'' actor s)")
      (auto simp: accept_commit_def monad_simps set_busy_def)
  then show ?thesis by (simp only: new_job_succeeds)
qed

lemma commit_succeeds:
  assumes "jobs_ok (pn_jobs s)" and "map_of (pn_jobs s) ident = None"
    and "commit now mnow ident draft_id timeout accept actor s = (r, t)"
  shows "(\<exists>v. r = Inr v) \<longleftrightarrow> (\<exists>d u. accept_commit now ident draft_id accept actor s = (Inr d, u))
     \<and> \<not> oq_stopping (pn_queue s) \<and> length (oq_items (pn_queue s)) < QUEUE_CAPACITY"
proof (cases "\<exists>d u. accept_commit now ident draft_id accept actor s = (Inr d, u)")
  case False
  with assms(3) show ?thesis
    by (cases "accept_commit now ident draft_id accept actor s"; cases "fst (accept_commit now ident draft_id accept actor s)")
      (auto simp: commit_def bind_apply)
next
  case True
  then obtain d u where a: "accept_commit now ident draft_id accept actor s = (Inr d, u)" by blast
  then obtain s1 where d: "new_job now ident ''configuration'' actor s = (Inr (), s1)" "u = s1\<lparr>pn_busy := Some ident\<rparr>"
    by (auto simp: accept_commit_def monad_simps set_busy_def split: option.splits if_splits prod.splits sum.splits)
  note n = new_job_jobs [OF d(1) assms(1,2)]
  have u: "pn_queue u = pn_queue s" "map_of (pn_jobs u) ident = Some (queued_job ident ''configuration'' actor now)"
    using new_job_run [OF d(1)] n(3) by (auto simp: d(2))
  show ?thesis
    using assms(3) a u
    by (simp add: commit_def monad_simps enqueue_def submit_run abandon_def set_busy_def update_job_def job_status_def
        split: if_splits) (auto simp: a)
qed

text \<open>C9: a commit request is accepted if and only if its guards hold: the draft exists and has not
  expired, no other exclusive work is queued or running, the bandwidth warning is accepted where the
  draft asks for it, the job table has a free or a finished entry, and the work queue is open and has
  room. Then exactly one commit task joins the queue, carrying that draft. A refused request changes
  neither the authority, the drafts, the busy mark nor the queued work.\<close>

theorem commit_guard:
  assumes "panel_reachable bk cx body_ok b s" and "map_of (pn_jobs s) ident = None"
    and "commit now mnow ident draft_id timeout accept actor s = (r, t)"
  shows "((\<exists>v. r = Inr v) \<longleftrightarrow>
      (\<exists>d. map_of (pn_drafts s) draft_id = Some d \<and> now < dr_expires_at d \<and> pn_busy s = None
         \<and> (dr_requires_ack d \<longrightarrow> accept))
      \<and> (length (pn_jobs s) < 128 \<or> (\<exists>(i, j) \<in> set (pn_jobs s). terminal (jb_state j)))
      \<and> \<not> oq_stopping (pn_queue s) \<and> length (oq_items (pn_queue s)) < 32)
    \<and> pn_backend t = pn_backend s \<and> pn_drafts t = pn_drafts s \<and> (case r of
      Inl e \<Rightarrow> pn_busy t = pn_busy s \<and> queued_work t = queued_work s
    | Inr v \<Rightarrow> \<exists>d xs ys. map_of (pn_drafts s) draft_id = Some d \<and> now < dr_expires_at d \<and> pn_busy s = None
        \<and> (dr_requires_ack d \<longrightarrow> accept) \<and> pn_busy t = Some ident \<and> jb_state (jv_job v) = JobQueued
        \<and> queued_work s = xs @ ys \<and> queued_work t = xs @ CommitTask ident draft_id d timeout actor # ys)"
  (is "?iff \<and> ?effect")
proof
  have "jobs_ok (pn_jobs s)" using panel_reachable_ok [OF assms(1)] by (simp add: panel_ok_def)
  from commit_succeeds [OF this assms(2,3)] show ?iff
    unfolding accept_commit_succeeds QUEUE_CAPACITY_def by blast
  show ?effect by (rule commit_effect [OF assms])
qed

subsection \<open>A reviewed change on the simulated authority\<close>

abbreviation demo_draft :: "codec \<Rightarrow> draft" where
  "demo_draft cx \<equiv> draft_of (cx_dump cx) (cx_load cx) 0 ''draft'' 1 default_configuration sample_configuration"

definition demo_reviewed :: "codec \<Rightarrow> configd \<Rightarrow> simulator panel" where
  "demo_reviewed cx s = (new_panel (new_simulator s))\<lparr>pn_drafts := [(''draft'', demo_draft cx)]\<rparr>"

definition demo_queued :: "codec \<Rightarrow> configd \<Rightarrow> simulator panel" where
  "demo_queued cx s = (demo_reviewed cx s)\<lparr>
     pn_jobs := [(''job'', queued_job ''job'' ''configuration'' ''admin'' 0)], pn_busy := Some ''job'',
     pn_queue := \<lparr>oq_items = [\<lparr>qi_priority = 0, qi_sequence = 0,
        qi_task = CommitTask ''job'' ''draft'' (demo_draft cx) 60 ''admin'', qi_key = None\<rparr>],
        oq_sequence = 1, oq_keys = [], oq_stopping = False, oq_finalized = False\<rparr>\<rparr>"

lemma settled_snapshot: "settled now s \<Longrightarrow> cd_pending s = None \<Longrightarrow> snapshot now s = (Inr (view s), s)"
  by (simp add: snapshot_def monad_simps settled_tick no_pending_not_due)

lemma demo_draft_simps [simp]:
  "dr_id (demo_draft cx) = ''draft''" "dr_expected_revision (demo_draft cx) = 1"
  "dr_configuration (demo_draft cx) = sample_configuration" "dr_expires_at (demo_draft cx) = 600000"
  by (simp_all add: draft_of_def Let_def)

lemma default_accepted: "validate_configuration default_configuration = Inr default_configuration"
  by code_simp

lemma sample_profile: "sc_profile sample_configuration = sc_profile default_configuration"
  by (simp add: sample_configuration_def)

lemma demo_preview:
  assumes "settled 0 s" and "cd_pending s = None" and "cd_revision s = 1" and "cd_configuration s = default_configuration"
  shows "preview (mock_backend pow10) (cx_dump cx) (cx_load cx) 0 ''draft'' 1 sample_configuration (new_panel (new_simulator s))
     = (Inr (demo_draft cx), demo_reviewed cx s)"
proof -
  let ?b = "new_panel (new_simulator s)"
  have read: "scheduled (on_backend (bk_snapshot (mock_backend pow10) 0)) ?b = (Inr (panel_snapshot_of (view s)), ?b)"
    using settled_snapshot [OF assms(1,2)]
    by (simp add: scheduled_def monad_simps new_panel_def empty_queue_def QUEUE_CAPACITY_def on_backend_def backend_simps
        on_configd_def mapped_def new_simulator_def)
  have sn: "ps_revision (panel_snapshot_of (view s)) = 1" "ps_pending (panel_snapshot_of (view s)) = None"
    "ps_configuration (panel_snapshot_of (view s)) = default_configuration"
    using assms by (simp_all add: panel_snapshot_of_def view_def)
  have none: "bk_validate (mock_backend pow10) = None" by (simp add: backend_simps)
  define d where "d = demo_draft cx"
  have "store_draft 0 d ?b = (Inr (), ?b\<lparr>pn_drafts := [(''draft'', d)]\<rparr>)"
    by (simp add: store_draft_def monad_simps new_panel_def) (simp add: d_def)
  then show ?thesis
    unfolding demo_reviewed_def preview_def d_def [symmetric]
    by (simp add: bind_apply then_apply ret_apply read sn validated_def default_accepted Let_def sample_profile d_def [symmetric] none)
qed

lemma demo_commit: "commit 0 0 ''job'' ''draft'' 60 True ''admin'' (demo_reviewed cx s)
   = (Inr \<lparr>jv_job = queued_job ''job'' ''configuration'' ''admin'' 0, jv_remaining_ms = None\<rparr>, demo_queued cx s)"
proof -
  define d where "d = demo_draft cx"
  have d: "dr_expires_at d = 600000" by (simp add: d_def)
  show ?thesis
    unfolding demo_queued_def demo_reviewed_def d_def [symmetric]
    by (simp add: commit_def accept_commit_def monad_simps new_job_def set_busy_def enqueue_def submit_run new_panel_def
        empty_queue_def QUEUE_CAPACITY_def job_status_def queued_job_def d)
qed

lemma demo_reachable:
  assumes "settled 0 s" and "cd_pending s = None" and "cd_revision s = 1" and "cd_configuration s = default_configuration"
  shows "panel_reachable (mock_backend pow10) cx body_ok (new_simulator s) (demo_reviewed cx s)"
    and "panel_reachable (mock_backend pow10) cx body_ok (new_simulator s) (demo_queued cx s)"
proof -
  have val: "valid_configuration sample_configuration" by (simp add: valid_configuration_def sample_accepted)
  have "handle (mock_backend pow10) cx 0 0 (EvPreview ''draft'' 1 sample_configuration) (new_panel (new_simulator s))
      = (Inr (), demo_reviewed cx s)"
    by (simp add: handle_def quietly_def bind_apply ret_apply demo_preview [OF assms])
  then have "panel_steps (mock_backend pow10) cx body_ok (new_panel (new_simulator s)) (demo_reviewed cx s)"
    by (rule panel_event [rotated])
      (simp add: admissible_def fresh_ids_def proposal_ok_def val new_panel_def empty_queue_def)
  from panel_next [OF panel_start this]
  show r: "panel_reachable (mock_backend pow10) cx body_ok (new_simulator s) (demo_reviewed cx s)" .
  have "handle (mock_backend pow10) cx 0 0 (EvCommit ''job'' ''draft'' 60 True ''admin'') (demo_reviewed cx s)
      = (Inr (), demo_queued cx s)"
    by (simp add: handle_def quietly_def bind_apply ret_apply demo_commit)
  then have "panel_steps (mock_backend pow10) cx body_ok (demo_reviewed cx s) (demo_queued cx s)"
    by (rule panel_event [rotated])
      (simp add: admissible_def fresh_ids_def proposal_ok_def on_worker_def demo_reviewed_def new_panel_def)
  from panel_next [OF r this]
  show "panel_reachable (mock_backend pow10) cx body_ok (new_simulator s) (demo_queued cx s)" .
qed

theorem commit_guard_witness:
  "\<exists>s xs ys. restart 0 [] = Inr s \<and> queued_work (demo_reviewed default_codec s) = xs @ ys
     \<and> queued_work (demo_queued default_codec s) = xs @ CommitTask ''job'' ''draft'' (demo_draft default_codec) 60 ''admin'' # ys"
proof (rule boot_default)
  fix s assume s: "restart 0 [] = Inr s" "\<And>t. settled t s" "cd_configuration s = default_configuration" "cd_revision s = 1"
    "cd_pending s = None"
  note r = demo_reachable(1) [OF s(2,5,4,3), of "\<lambda>_. 0" default_codec "\<lambda>_. True"]
  have "map_of (pn_jobs (demo_reviewed default_codec s)) ''job'' = None" by (simp add: demo_reviewed_def new_panel_def)
  from commit_guard [OF r this demo_commit] have "\<exists>d xs ys. map_of (pn_drafts (demo_reviewed default_codec s)) ''draft'' = Some d
      \<and> queued_work (demo_reviewed default_codec s) = xs @ ys
      \<and> queued_work (demo_queued default_codec s) = xs @ CommitTask ''job'' ''draft'' d 60 ''admin'' # ys" by auto
  then show ?thesis using s(1) by (auto simp: demo_reviewed_def)
qed

text \<open>C6: a commit the authority accepts applies exactly the change that was reviewed. For every run of
  the panel on the simulated authority, when the authority accepts the apply of a queued commit, the
  draft of that commit was computed (changes, affected groups, preflight) from the configuration that
  was active under the revision at which the authority accepted it.\<close>

theorem reviewed_commit:
  assumes "panel_reachable (mock_backend pow10) cx (advances simulator_fit simulator_position) (new_simulator b) s"
    and "restart boot [] = Inr b"
    and "CommitTask ident draft_id d timeout actor \<in> set (queued_work s)"
    and "validate_configuration (dr_configuration d) = Inr target"
    and "bk_apply (mock_backend pow10) now target (dr_expected_revision d) ident timeout (pn_backend s) = (Inr sn, t)"
  shows "\<exists>p before time. onward (simulator_position (pn_backend s)) p \<and> fst p = dr_expected_revision d
    \<and> validate_configuration (snd p) = Inr before
    \<and> d = draft_of (cx_dump cx) (cx_load cx) time (dr_id d) (dr_expected_revision d) before (dr_configuration d)"
proof (rule mock.commit_applies_review [OF assms(1) _ assms(3-5)])
  show "simulator_fit (new_simulator b)"
    using reachable_ok [OF reachable_boot [OF assms(2)]] by (simp add: simulator_fit_def new_simulator_def)
qed

theorem reviewed_commit_witness:
  "\<exists>s p before time. restart 0 [] = Inr s \<and> onward (cd_revision s, cd_configuration s) p \<and> fst p = 1
     \<and> validate_configuration (snd p) = Inr before
     \<and> demo_draft default_codec = draft_of (cx_dump default_codec) (cx_load default_codec) time ''draft'' 1 before sample_configuration"
proof (rule boot_default)
  fix s assume s: "restart 0 [] = Inr s" "\<And>t. settled t s" "cd_configuration s = default_configuration" "cd_revision s = 1"
    "cd_pending s = None" "configd_ok s" "healthy s"
  let ?pow = "\<lambda>_ :: rat. 0 :: rat" and ?cx = "default_codec"
  note r = demo_reachable(2) [OF s(2,5,4,3), of ?pow ?cx "advances simulator_fit simulator_position"]
  have val: "valid_configuration sample_configuration" by (simp add: valid_configuration_def sample_accepted)
  have at_boot: "pn_backend (demo_queued ?cx s) = new_simulator s" by (simp add: demo_queued_def demo_reviewed_def new_panel_def)
  obtain q u where u: "apply_configuration 0 sample_configuration 1 ''job'' 60 s = (q, u)" by (metis surj_pair)
  from wp_resultD [OF fault_free_commit [OF s(6,7,5) s(2) [of 0] val], of 60 "''job''"] u s(4) obtain v where q: "q = Inr v"
    by (auto split: sum.splits)
  have "bk_apply (mock_backend ?pow) 0 sample_configuration (dr_expected_revision (demo_draft ?cx)) ''job'' 60 (pn_backend (demo_queued ?cx s))
      = (Inr (panel_snapshot_of v), (new_simulator s)\<lparr>si_configd := u\<rparr>)"
    using u q by (simp add: backend_simps at_boot on_configd_def mapped_def monad_simps new_simulator_def)
  moreover have "CommitTask ''job'' ''draft'' (demo_draft ?cx) 60 ''admin'' \<in> set (queued_work (demo_queued ?cx s))"
    by (simp add: demo_queued_def queued_work_def)
  moreover have "validate_configuration (dr_configuration (demo_draft ?cx)) = Inr sample_configuration"
    by (simp add: sample_accepted)
  ultimately have "\<exists>p before time. onward (simulator_position (pn_backend (demo_queued ?cx s))) p
      \<and> fst p = dr_expected_revision (demo_draft ?cx) \<and> validate_configuration (snd p) = Inr before
      \<and> demo_draft ?cx = draft_of (cx_dump ?cx) (cx_load ?cx) time (dr_id (demo_draft ?cx))
           (dr_expected_revision (demo_draft ?cx)) before (dr_configuration (demo_draft ?cx))"
    using reviewed_commit [OF r s(1)] by blast
  then show ?thesis
    using s(1) unfolding at_boot simulator_position_def new_simulator_def demo_draft_simps simulator.simps by blast
qed

subsection \<open>Backup and restore\<close>

text \<open>C20: a backup restores. While the authority's configuration stays, the envelope that a backup
  returns is accepted by a restore, whatever else the operator does not change in it, and gives a
  draft with exactly that configuration, against the current revision.\<close>

theorem backup_restores:
  fixes s :: "'s panel"
  assumes snap: "bk_snapshot bk now (pn_backend s) = (Inr sn, pn_backend s)" and "ps_pending sn = None"
    and "cx_load cx (cx_dump cx (ps_configuration sn)) = Inr (ps_configuration sn)"
    and "validate_configuration (ps_configuration sn) = Inr (ps_configuration sn)"
    and "bk_validate bk = None" and "\<not> oq_stopping (pn_queue s)" and "length (oq_items (pn_queue s)) < QUEUE_CAPACITY"
    and "length (filter (\<lambda>(_, v). dr_expires_at v > now) (pn_drafts s)) < 64"
    and "backup bk (cx_dump cx) (cx_digest cx) now mnow s = (r, s1)"
  shows "\<exists>envelope d s2. r = Inr envelope
    \<and> restore_preview bk (cx_dump cx) (cx_load cx) (cx_digest cx) now mnow ident envelope s1 = (Inr d, s2)
    \<and> dr_configuration d = ps_configuration sn \<and> dr_expected_revision d = ps_revision sn
    \<and> map_of (pn_drafts s2) ident = Some d"
proof -
  define obs where "obs = (\<lambda>s :: 's panel. if pn_optics_revision s \<noteq> Some (ps_revision sn)
     then s\<lparr>pn_optics_revision := Some (ps_revision sn), pn_optics_cache := [], pn_optics_due := []\<rparr> else s)"
  have obs: "pn_backend (obs u) = pn_backend u" "pn_queue (obs u) = pn_queue u" "pn_drafts (obs u) = pn_drafts u" for u
    by (simp_all add: obs_def)
  have room: "scheduled m u = m u" if "pn_queue u = pn_queue s" for m :: "('s, 'b) panel_action" and u
    using assms(6,7) that by (simp add: scheduled_def with_state_apply)
  have conf: "config bk now mnow u = (Inr sn, obs u)" if "pn_backend u = pn_backend s" "pn_queue u = pn_queue s" for u
  proof -
    have "scheduled (read_config bk now) u = (Inr sn, obs u)"
      using assms(6,7) snap that by (simp add: scheduled_def with_state_apply read_config_def on_backend_run monad_simps observe_revision_def obs_def)
    then show ?thesis by (simp add: config_def bind_apply assms(2) then_apply ret_apply)
  qed
  let ?content = "backup_content (cx_dump cx (ps_configuration sn))"
  let ?envelope = "JObj (entries ?content @ [(''sha256'', JStr (cx_digest cx ?content))])"
  have b: "r = Inr ?envelope" "s1 = obs s" using assms(9) conf by (simp_all add: backup_def bind_apply ret_apply Let_def)
  have env: "JObj (dict_del (entries ?envelope) ''sha256'') = ?content" by (simp add: backup_content_def dict_del_def)
  define d where "d = draft_of (cx_dump cx) (cx_load cx) now ident (ps_revision sn) (ps_configuration sn) (ps_configuration sn)"
  have d: "dr_configuration d = ps_configuration sn" "dr_expected_revision d = ps_revision sn" "dr_id d = ident"
    by (simp_all add: d_def draft_of_def Let_def)
  let ?u = "obs (obs s)"
  define kept where "kept = filter (\<lambda>(_, v). dr_expires_at v > now) (pn_drafts s)"
  have few: "length kept < 64" using assms(8) by (simp add: kept_def)
  have read: "scheduled (on_backend (bk_snapshot bk now)) ?u = (Inr sn, ?u)"
    using assms(6,7) snap by (simp add: scheduled_def with_state_apply on_backend_run obs)
  have store: "store_draft now d ?u = (Inr (), ?u\<lparr>pn_drafts := dict_set kept ident d\<rparr>)"
    using few by (simp add: store_draft_def monad_simps obs kept_def [symmetric] d(3))
  have "preview bk (cx_dump cx) (cx_load cx) now ident (ps_revision sn) (ps_configuration sn) ?u
      = (Inr d, ?u\<lparr>pn_drafts := dict_set kept ident d\<rparr>)"
    by (simp add: preview_def bind_apply read assms(2,4,5) validated_def ret_apply then_apply Let_def d_def [symmetric] store)
  then have "restore_preview bk (cx_dump cx) (cx_load cx) (cx_digest cx) now mnow ident ?envelope s1
      = (Inr d, ?u\<lparr>pn_drafts := dict_set kept ident d\<rparr>)"
    unfolding restore_preview_def Let_def env b(2)
    by (simp add: backup_content_def jget_def py_eq_def bind_apply conf obs assms(3))
  with b d show ?thesis by simp
qed

theorem backup_restores_witness:
  "\<exists>s envelope d t. restart 0 [] = Inr s
    \<and> restore_preview (mock_backend (\<lambda>_. 0)) (cx_dump default_codec) (cx_load default_codec) (cx_digest default_codec) 0 0 ''d'' envelope
        (snd (backup (mock_backend (\<lambda>_. 0)) (cx_dump default_codec) (cx_digest default_codec) 0 0 (new_panel (new_simulator s)))) = (Inr d, t)
    \<and> dr_configuration d = default_configuration"
proof (rule boot_default)
  fix s assume s: "restart 0 [] = Inr s" "\<And>t. settled t s" "cd_configuration s = default_configuration" "cd_revision s = 1"
    "cd_pending s = None"
  let ?s = "new_panel (new_simulator s)" and ?bk = "mock_backend (\<lambda>_. 0)"
  have snap: "bk_snapshot ?bk 0 (pn_backend ?s) = (Inr (panel_snapshot_of (view s)), pn_backend ?s)"
    using settled_snapshot [OF s(2,5)]
    by (simp add: monad_simps new_panel_def backend_simps on_configd_def mapped_def new_simulator_def)
  have conf: "ps_configuration (panel_snapshot_of (view s)) = default_configuration" by (simp add: panel_snapshot_of_def view_def s(3))
  have "\<exists>envelope d s2. fst (backup ?bk (cx_dump default_codec) (cx_digest default_codec) 0 0 ?s) = Inr envelope
    \<and> restore_preview ?bk (cx_dump default_codec) (cx_load default_codec) (cx_digest default_codec) 0 0 ''d'' envelope
        (snd (backup ?bk (cx_dump default_codec) (cx_digest default_codec) 0 0 ?s)) = (Inr d, s2)
    \<and> dr_configuration d = ps_configuration (panel_snapshot_of (view s))
    \<and> dr_expected_revision d = ps_revision (panel_snapshot_of (view s)) \<and> map_of (pn_drafts s2) ''d'' = Some d"
    by (rule backup_restores [OF snap])
      (simp_all add: panel_snapshot_of_def view_def s(3,5) default_codec_def default_accepted backend_simps new_panel_def
        empty_queue_def QUEUE_CAPACITY_def)
  with s(1) conf show ?thesis by metis
qed

subsection \<open>Telemetry\<close>

definition recent :: "int \<Rightarrow> int \<Rightarrow> int \<Rightarrow> bool" where
  "recent limit now t \<longleftrightarrow> 0 \<le> now - t \<and> now - t \<le> limit"

text \<open>Old data is never shown as current. A port reading whose quality is not stale was sampled in the
  last three seconds; a sensor, temperature, fan or module reading that carries a time and is not
  stale was sampled in the last fifteen. Reading telemetry changes nothing.\<close>

theorem telemetry_recent:
  assumes "telemetry now s = (Inr v, t)" and "3000 < now"
  shows "t = s
    \<and> (\<forall>r \<in> set (tm_ports v). rd_quality r \<noteq> ''stale'' \<longrightarrow> (\<exists>u. rd_sampled_at r = Some u \<and> recent 3000 now u))
    \<and> (\<forall>u. sr_sampled_at (tm_sensors v) = Some u \<longrightarrow> u \<noteq> 0 \<longrightarrow> sr_quality (tm_sensors v) \<noteq> ''stale'' \<longrightarrow> recent 15000 now u)
    \<and> (\<forall>r \<in> set (sr_temperatures (tm_sensors v)). \<forall>u. rd_sampled_at r = Some u \<longrightarrow> u \<noteq> 0 \<longrightarrow> rd_quality r \<noteq> ''stale'' \<longrightarrow>
          recent 15000 now u)
    \<and> (\<forall>m \<in> set (tm_optics v). \<forall>u. or_sampled_at m = Some u \<longrightarrow> u \<noteq> 0 \<longrightarrow> or_quality m \<noteq> ''stale'' \<longrightarrow> recent 15000 now u)
    \<and> (\<forall>f u. sr_fan (tm_sensors v) = Some f \<longrightarrow> fn_pwm_sampled_at f = Some u \<longrightarrow> u \<noteq> 0 \<longrightarrow> fn_pwm_quality f \<noteq> ''stale'' \<longrightarrow>
          recent 15000 now u)"
proof -
  have v: "t = s" "tm_ports v = map (port_reading now) (ca_ports (pn_cache s))" "tm_sensors v = sensor_view now (ca_sensors (pn_cache s))"
    "tm_optics v = map (optic_view now) (ca_optics (pn_cache s))"
    using assms(1) by (auto simp: telemetry_def monad_simps Let_def)
  have ports: "\<exists>u. rd_sampled_at (port_reading now r) = Some u \<and> recent 3000 now u"
    if "rd_quality (port_reading now r) \<noteq> ''stale''" for r
    using that assms(2)
    by (cases "rd_sampled_at r") (auto simp: port_reading_def out_of_date_def stale_reading_def recent_def split: if_splits)
  have temps: "recent 15000 now u"
    if "rd_sampled_at (temperature_reading now d r) = Some u" "u \<noteq> 0" "rd_quality (temperature_reading now d r) \<noteq> ''stale''" for d r u
    using that by (auto simp: temperature_reading_def expired_def out_of_date_def stale_reading_def recent_def split: if_splits option.splits)
  have sens: "recent 15000 now u"
    if "sr_sampled_at (sensor_view now c) = Some u" "u \<noteq> 0" "sr_quality (sensor_view now c) \<noteq> ''stale''" for c u
    using that by (auto simp: sensor_view_def expired_def out_of_date_def recent_def split: if_splits)
  have opts: "recent 15000 now u"
    if "or_sampled_at (optic_view now m) = Some u" "u \<noteq> 0" "or_quality (optic_view now m) \<noteq> ''stale''" for m u
    using that by (auto simp: optic_view_def expired_def out_of_date_def recent_def split: if_splits)
  have fans: "recent 15000 now u"
    if "fn_pwm_sampled_at (fan_view now f) = Some u" "u \<noteq> 0" "fn_pwm_quality (fan_view now f) \<noteq> ''stale''" for f u
    using that by (auto simp: fan_view_def expired_def out_of_date_def recent_def split: if_splits)
  have "\<forall>r \<in> set (sr_temperatures (tm_sensors v)). \<forall>u. rd_sampled_at r = Some u \<longrightarrow> u \<noteq> 0 \<longrightarrow> rd_quality r \<noteq> ''stale'' \<longrightarrow>
          recent 15000 now u"
    unfolding v(3) sensor_view_def using temps by simp
  moreover have "\<forall>f u. sr_fan (tm_sensors v) = Some f \<longrightarrow> fn_pwm_sampled_at f = Some u \<longrightarrow> u \<noteq> 0 \<longrightarrow> fn_pwm_quality f \<noteq> ''stale'' \<longrightarrow>
          recent 15000 now u"
    unfolding v(3) sensor_view_def using fans by (cases "sr_fan (ca_sensors (pn_cache s))") simp_all
  ultimately show ?thesis unfolding v(2,4) v(3) using v(1) ports sens [of "ca_sensors (pn_cache s)"] opts by simp
qed

theorem telemetry_recent_witness:
  "\<exists>v. telemetry 9000 (new_panel ()) = (Inr v, new_panel ()) \<and> tm_ports v = []"
proof -
  have "telemetry 9000 (new_panel ()) = (Inr (the (case fst (telemetry 9000 (new_panel ())) of Inr v \<Rightarrow> Some v | _ \<Rightarrow> None)),
      snd (telemetry 9000 (new_panel ())))" by (simp add: telemetry_def monad_simps Let_def)
  from telemetry_recent [OF this] show ?thesis
    by (auto simp: telemetry_def monad_simps Let_def new_panel_def initial_cache_def)
qed

end
