(* ===== verification/Accounts.thy ===== *)
theory Accounts
  imports Prelude
begin

text \<open>
  auth.py: the administrator account, its sessions and the limit on wrong passwords. Clock values are
  milliseconds (\<open>now\<close> monotonic, \<open>wall\<close> epoch). PBKDF2 and the random tokens are the library's: the
  digest is a parameter, tokens and salts are arguments. Writing the account file can fail before or
  after the rename that commits it.
\<close>

subsection \<open>Requests\<close>

definition user_point :: "int \<Rightarrow> bool" where
  "user_point n \<longleftrightarrow> 97 \<le> n \<and> n \<le> 122 \<or> 65 \<le> n \<and> n \<le> 90 \<or> 48 \<le> n \<and> n \<le> 57 \<or> n \<in> {95, 46, 45}"

definition username_ok :: "text_points \<Rightarrow> bool" where
  "username_ok u \<longleftrightarrow> 3 \<le> length u \<and> length u \<le> 64 \<and> list_all user_point u"

record credentials =
  cr_username :: text_points
  cr_password :: text_points

definition credentials_ok :: "credentials \<Rightarrow> bool" where
  "credentials_ok c \<longleftrightarrow> username_ok (cr_username c) \<and> 12 \<le> length (cr_password c) \<and> length (cr_password c) \<le> 256"

record administrator_update =
  ad_username :: text_points
  ad_current_password :: text_points
  ad_new_password :: "text_points option"
  ad_confirm_password :: "text_points option"

definition new_password_ok :: "text_points option \<Rightarrow> bool" where
  "new_password_ok p = (case p of None \<Rightarrow> True | Some t \<Rightarrow> 12 \<le> length t \<and> length t \<le> 256)"

definition administrator_update_ok :: "administrator_update \<Rightarrow> bool" where
  "administrator_update_ok u \<longleftrightarrow> username_ok (ad_username u)
     \<and> 1 \<le> length (ad_current_password u) \<and> length (ad_current_password u) \<le> 256
     \<and> new_password_ok (ad_new_password u) \<and> new_password_ok (ad_confirm_password u)
     \<and> ad_new_password u = ad_confirm_password u"

subsection \<open>State\<close>

record account =
  ac_username :: text_points
  ac_salt :: text_points
  ac_rounds :: int
  ac_digest :: text_points

record session =
  ss_username :: text_points
  ss_csrf :: text_points
  ss_deadline :: int

record auth_state =
  au_account :: "account option"
  au_sessions :: "(text_points \<times> session) list"
  au_failures :: "(string \<times> int list) list"

datatype auth_error =
  AlreadyInitialized | NotInitialized | WrongCredentials | TooManyAttempts | SessionExpired | WrongPassword
| NothingChanged | WriteUncertain | WriteFailed

type_synonym 'a auth_action = "(auth_state, auth_error, 'a) action"
type_synonym password_digest = "text_points \<Rightarrow> text_points \<Rightarrow> int \<Rightarrow> text_points"

datatype write_outcome = Written | FailedBefore | FailedAfter

record session_view =
  sv_username :: text_points
  sv_csrf :: text_points
  sv_expires :: int

record fresh_secrets =
  fs_token :: text_points
  fs_csrf :: text_points
  fs_salt :: text_points

definition new_auth :: auth_state where
  "new_auth = \<lparr>au_account = None, au_sessions = [], au_failures = []\<rparr>"

definition ROUNDS :: int where "ROUNDS = 600000"
definition SESSION_MS :: int where "SESSION_MS = 12 * 3600 * 1000"

definition account_of :: "password_digest \<Rightarrow> text_points \<Rightarrow> text_points \<Rightarrow> text_points \<Rightarrow> account" where
  "account_of digest username password salt =
     \<lparr>ac_username = username, ac_salt = salt, ac_rounds = ROUNDS, ac_digest = digest password salt ROUNDS\<rparr>"

definition password_matches :: "password_digest \<Rightarrow> account \<Rightarrow> text_points \<Rightarrow> bool" where
  "password_matches digest a password \<longleftrightarrow> ac_digest a = digest password (ac_salt a) (ac_rounds a)"

text \<open>\<^verbatim>\<open>atomic_json\<close>: after the rename the file is the new one even when the directory could not be flushed.\<close>

definition write_account :: "write_outcome \<Rightarrow> account \<Rightarrow> unit auth_action" where
  "write_account outcome a = (case outcome of
     Written \<Rightarrow> modify_state (\<lambda>s. s\<lparr>au_account := Some a\<rparr>)
   | FailedBefore \<Rightarrow> raise_error WriteFailed
   | FailedAfter \<Rightarrow> then_action (modify_state (\<lambda>s. s\<lparr>au_account := Some a\<rparr>)) (raise_error WriteFailed))"

subsection \<open>Sessions\<close>

definition public_session :: "int \<Rightarrow> int \<Rightarrow> session \<Rightarrow> session_view" where
  "public_session now wall v = \<lparr>sv_username = ss_username v, sv_csrf = ss_csrf v, sv_expires = wall + ss_deadline v - now\<rparr>"

definition live_sessions :: "int \<Rightarrow> (text_points \<times> session) list \<Rightarrow> (text_points \<times> session) list" where
  "live_sessions now d = filter (\<lambda>(_, v). ss_deadline v > now) d"

text \<open>\<^verbatim>\<open>min(sessions, key=deadline)\<close>: the first of the least deadlines.\<close>

fun oldest_session :: "(text_points \<times> session) list \<Rightarrow> text_points option" where
  "oldest_session [] = None"
| "oldest_session ((t, v) # d) = (case oldest_session d of
     None \<Rightarrow> Some t
   | Some u \<Rightarrow> (case map_of d u of
       None \<Rightarrow> Some t | Some w \<Rightarrow> if ss_deadline v \<le> ss_deadline w then Some t else Some u))"

definition admit_session :: "int \<Rightarrow> text_points \<Rightarrow> session \<Rightarrow> (text_points \<times> session) list \<Rightarrow> (text_points \<times> session) list" where
  "admit_session now token v d =
     (let live = live_sessions now d;
          kept = (if length live \<ge> 64 then (case oldest_session live of None \<Rightarrow> live | Some t \<Rightarrow> dict_del live t) else live)
      in dict_set kept token v)"

definition new_session :: "int \<Rightarrow> int \<Rightarrow> fresh_secrets \<Rightarrow> text_points \<Rightarrow> (text_points \<times> session_view) auth_action" where
  "new_session now wall f username =
     (let v = \<lparr>ss_username = username, ss_csrf = fs_csrf f, ss_deadline = now + SESSION_MS\<rparr> in
      then_action (modify_state (\<lambda>s. s\<lparr>au_sessions := admit_session now (fs_token f) v (au_sessions s)\<rparr>))
        (ret (fs_token f, public_session now wall v)))"

definition session_of :: "int \<Rightarrow> int \<Rightarrow> text_points \<Rightarrow> session_view option auth_action" where
  "session_of now wall token = with_state (\<lambda>s. case map_of (au_sessions s) token of
     None \<Rightarrow> ret None
   | Some v \<Rightarrow> if ss_deadline v \<le> now
       then then_action (modify_state (\<lambda>s. s\<lparr>au_sessions := dict_del (au_sessions s) token\<rparr>)) (ret None)
       else ret (Some (public_session now wall v)))"

definition logout :: "text_points \<Rightarrow> unit auth_action" where
  "logout token = modify_state (\<lambda>s. s\<lparr>au_sessions := dict_del (au_sessions s) token\<rparr>)"

subsection \<open>Passwords\<close>

definition within_minute :: "int \<Rightarrow> int \<Rightarrow> bool" where
  "within_minute now t \<longleftrightarrow> now - t < 60000"

definition recent_failures :: "int \<Rightarrow> (string \<times> int list) list \<Rightarrow> (string \<times> int list) list" where
  "recent_failures now d = filter (\<lambda>(_, ts). ts \<noteq> []) (map (\<lambda>(a, ts). (a, filter (within_minute now) ts)) d)"

definition failures_of :: "(string \<times> int list) list \<Rightarrow> string \<Rightarrow> int list" where
  "failures_of d address = (case map_of d address of None \<Rightarrow> [] | Some ts \<Rightarrow> ts)"

definition attempts :: "int \<Rightarrow> string \<Rightarrow> int list auth_action" where
  "attempts now address =
     then_action (modify_state (\<lambda>s. s\<lparr>au_failures := recent_failures now (au_failures s)\<rparr>))
       (with_state (\<lambda>s. let ts = failures_of (au_failures s) address in
          if length ts \<ge> 5 then raise_error TooManyAttempts else ret ts))"

definition note_failure :: "string \<Rightarrow> int list \<Rightarrow> int \<Rightarrow> unit auth_action" where
  "note_failure address ts now = modify_state (\<lambda>s. s\<lparr>au_failures := dict_set (au_failures s) address (ts @ [now])\<rparr>)"

definition setup_account ::
  "password_digest \<Rightarrow> int \<Rightarrow> int \<Rightarrow> fresh_secrets \<Rightarrow> write_outcome \<Rightarrow> credentials \<Rightarrow> (text_points \<times> session_view) auth_action" where
  "setup_account digest now wall f outcome c = with_state (\<lambda>s.
     if au_account s \<noteq> None then raise_error AlreadyInitialized
     else then_action (write_account outcome (account_of digest (cr_username c) (cr_password c) (fs_salt f)))
       (new_session now wall f (cr_username c)))"

definition login ::
  "password_digest \<Rightarrow> int \<Rightarrow> int \<Rightarrow> fresh_secrets \<Rightarrow> credentials \<Rightarrow> string \<Rightarrow> (text_points \<times> session_view) auth_action" where
  "login digest now wall f c address = bind_action (attempts now address) (\<lambda>ts.
     with_state (\<lambda>s. case au_account s of
       None \<Rightarrow> raise_error NotInitialized
     | Some a \<Rightarrow>
         if \<not> (ac_username a = cr_username c \<and> password_matches digest a (cr_password c))
         then then_action (note_failure address ts now) (raise_error WrongCredentials)
         else then_action (modify_state (\<lambda>s. s\<lparr>au_failures := dict_del (au_failures s) address\<rparr>))
           (new_session now wall f (cr_username c))))"

definition replacement_account :: "password_digest \<Rightarrow> fresh_secrets \<Rightarrow> administrator_update \<Rightarrow> account \<Rightarrow> account" where
  "replacement_account digest f u a = (case ad_new_password u of
     None \<Rightarrow> a\<lparr>ac_username := ad_username u\<rparr>
   | Some p \<Rightarrow> account_of digest (ad_username u) p (fs_salt f))"

definition update_administrator ::
  "password_digest \<Rightarrow> int \<Rightarrow> int \<Rightarrow> fresh_secrets \<Rightarrow> write_outcome \<Rightarrow> text_points \<Rightarrow> administrator_update \<Rightarrow> string \<Rightarrow>
   (text_points \<times> session_view) auth_action" where
  "update_administrator digest now wall f outcome token u address =
     bind_action (session_of now wall token) (\<lambda>current. case current of
       None \<Rightarrow> raise_error SessionExpired
     | Some view \<Rightarrow> bind_action (attempts now address) (\<lambda>ts. with_state (\<lambda>s. case au_account s of
         None \<Rightarrow> raise_error SessionExpired
       | Some a \<Rightarrow>
           if ac_username a \<noteq> sv_username view then raise_error SessionExpired
           else if \<not> password_matches digest a (ad_current_password u)
           then then_action (note_failure address ts now) (raise_error WrongPassword)
           else if ad_username u = ac_username a \<and> ad_new_password u = None then raise_error NothingChanged
           else then_action (catch_action (write_account outcome (replacement_account digest f u a))
               (\<lambda>_. then_action (modify_state (\<lambda>s. s\<lparr>au_sessions := []\<rparr>)) (raise_error WriteUncertain)))
             (then_action (modify_state (\<lambda>s. s\<lparr>au_sessions := [], au_failures := []\<rparr>))
               (new_session now wall f (ad_username u))))))"

subsection \<open>Runs\<close>

datatype auth_event =
  EvSetup fresh_secrets write_outcome credentials | EvLogin fresh_secrets credentials string
| EvUpdate fresh_secrets write_outcome text_points administrator_update string
| EvSession text_points | EvLogout text_points

definition auth_step :: "password_digest \<Rightarrow> int \<Rightarrow> int \<Rightarrow> auth_event \<Rightarrow> auth_state \<Rightarrow> auth_error option \<times> auth_state" where
  "auth_step digest now wall ev s =
     (let strip = (\<lambda>(r, t). (case r of Inl e \<Rightarrow> Some e | Inr _ \<Rightarrow> None, t)) in case ev of
        EvSetup f outcome c \<Rightarrow> strip (setup_account digest now wall f outcome c s)
      | EvLogin f c address \<Rightarrow> strip (login digest now wall f c address s)
      | EvUpdate f outcome token u address \<Rightarrow> strip (update_administrator digest now wall f outcome token u address s)
      | EvSession token \<Rightarrow> (None, snd (session_of now wall token s))
      | EvLogout token \<Rightarrow> (None, snd (logout token s)))"

text \<open>
  The wrong passwords of each address, as an observer would log them: since its last accepted login and
  since the last accepted change of the administrator, which clears the counts of every address
  (\<^verbatim>\<open>failures.clear()\<close> in auth.py).
\<close>

definition logged :: "int \<Rightarrow> auth_event \<Rightarrow> auth_error option \<Rightarrow> (string \<Rightarrow> int list) \<Rightarrow> string \<Rightarrow> int list" where
  "logged now ev err log = (case ev of
     EvLogin _ _ address \<Rightarrow>
       if err = Some WrongCredentials then log(address := log address @ [now])
       else if err = None then log(address := []) else log
   | EvUpdate _ _ _ _ address \<Rightarrow>
       if err = Some WrongPassword then log(address := log address @ [now])
       else if err = None then (\<lambda>_. []) else log
   | _ \<Rightarrow> log)"

inductive auth_run :: "password_digest \<Rightarrow> int \<Rightarrow> (string \<Rightarrow> int list) \<Rightarrow> auth_state \<Rightarrow> bool" for digest where
  auth_start: "auth_run digest now (\<lambda>_. []) new_auth"
| auth_next: "auth_run digest before log s \<Longrightarrow> before \<le> now \<Longrightarrow> auth_step digest now wall ev s = (err, t) \<Longrightarrow>
    auth_run digest now (logged now ev err log) t"

end
