(* ===== verification/Accounts_Properties.thy ===== *)
theory Accounts_Properties
  imports Accounts
begin

text \<open>
  The limit on wrong passwords over every run, and what a change of the administrator does to the
  sessions.
\<close>

subsection \<open>Wrong passwords\<close>

definition in_window :: "int \<Rightarrow> int \<Rightarrow> bool" where
  "in_window start t \<longleftrightarrow> start \<le> t \<and> t < start + 60000"

text \<open>The recorded failures agree with the log as far as the last minute is concerned.\<close>

definition tracked :: "int \<Rightarrow> (string \<Rightarrow> int list) \<Rightarrow> (string \<times> int list) list \<Rightarrow> bool" where
  "tracked now log d \<longleftrightarrow> distinct (map fst d)
     \<and> (\<forall>a. filter (within_minute now) (failures_of d a) = filter (within_minute now) (log a))"

definition throttled :: "(string \<Rightarrow> int list) \<Rightarrow> bool" where
  "throttled log \<longleftrightarrow> (\<forall>a start. length (filter (in_window start) (log a)) \<le> 5)"

lemma within_minute_later: "now \<le> later \<Longrightarrow> within_minute later t \<Longrightarrow> within_minute now t"
  by (simp add: within_minute_def)

lemma filter_later: "now \<le> later \<Longrightarrow> filter (within_minute later) (filter (within_minute now) ts) = filter (within_minute later) ts"
  by (induction ts) (auto dest: within_minute_later)

lemma tracked_later: "tracked now log d \<Longrightarrow> now \<le> later \<Longrightarrow> tracked later log d"
  unfolding tracked_def by (metis filter_later)

lemma failures_of_recent:
  assumes "distinct (map fst d)"
  shows "failures_of (recent_failures now d) a = filter (within_minute now) (failures_of d a)"
  using assms
proof (induction d)
  case (Cons p d)
  have "fst ` set (recent_failures now d) \<subseteq> fst ` set d" by (force simp: recent_failures_def)
  then have none: "map_of (recent_failures now d) (fst p) = None"
    using Cons.prems by (auto simp: map_of_eq_None_iff)
  with Cons show ?case
    by (cases p) (auto simp: recent_failures_def failures_of_def split: if_splits option.splits)
qed (simp add: recent_failures_def failures_of_def)

lemma distinct_recent: "distinct (map fst d) \<Longrightarrow> distinct (map fst (recent_failures now d))"
  by (simp add: recent_failures_def distinct_map_filter comp_def case_prod_beta)

lemma tracked_recent: "tracked now log d \<Longrightarrow> tracked now log (recent_failures now d)"
  by (simp add: tracked_def distinct_recent failures_of_recent)

lemma tracked_failure:
  assumes "tracked now log d" and "ts = failures_of (recent_failures now d) a"
  shows "tracked now (log(a := log a @ [now])) (dict_set (recent_failures now d) a (ts @ [now]))"
proof -
  have "distinct (map fst d)" using assms(1) by (simp add: tracked_def)
  from failures_of_recent [OF this] distinct_recent [OF this] assms show ?thesis
    by (auto simp: tracked_def failures_of_def)
qed

lemma tracked_success:
  "tracked now log d \<Longrightarrow> tracked now (log(a := [])) (dict_del (recent_failures now d) a)"
  using tracked_recent [of now log d]
  by (auto simp: tracked_def failures_of_def dict_del_def distinct_map_filter simp flip: dict_del_def)

lemma throttled_failure:
  assumes "throttled log" and "tracked now log d" and "length (failures_of (recent_failures now d) a) < 5"
  shows "throttled (log(a := log a @ [now]))"
proof -
  have few: "length (filter (within_minute now) (log a)) < 5"
    using assms(2,3) by (simp add: tracked_def failures_of_recent)
  have "length (filter (in_window start) (log a @ [now])) \<le> 5" for start
  proof (cases "in_window start now")
    case True
    then have "in_window start t \<Longrightarrow> within_minute now t" for t by (simp add: in_window_def within_minute_def)
    then have "filter (in_window start) (log a) = filter (in_window start) (filter (within_minute now) (log a))"
      by (auto simp: filter_filter intro!: filter_cong)
    then have "length (filter (in_window start) (log a)) \<le> length (filter (within_minute now) (log a))"
      by (metis length_filter_le)
    with few True show ?thesis by simp
  next
    case False
    with assms(1) show ?thesis by (simp add: throttled_def)
  qed
  with assms(1) show ?thesis by (simp add: throttled_def)
qed

text \<open>What a step does to the recorded failures.\<close>

definition noted :: "int \<Rightarrow> auth_event \<Rightarrow> auth_error option \<Rightarrow> (string \<times> int list) list \<Rightarrow> (string \<times> int list) list \<Rightarrow> bool" where
  "noted now ev err d d' \<longleftrightarrow> (case ev of
     EvLogin _ _ a \<Rightarrow>
       (if err = Some WrongCredentials
        then length (failures_of (recent_failures now d) a) < 5
          \<and> d' = dict_set (recent_failures now d) a (failures_of (recent_failures now d) a @ [now])
        else if err = None then d' = dict_del (recent_failures now d) a else d' = recent_failures now d)
   | EvUpdate _ _ _ _ a \<Rightarrow>
       (if err = Some WrongPassword
        then length (failures_of (recent_failures now d) a) < 5
          \<and> d' = dict_set (recent_failures now d) a (failures_of (recent_failures now d) a @ [now])
        else if err = None then d' = [] else d' = d \<or> d' = recent_failures now d)
   | _ \<Rightarrow> d' = d)"

lemma failures_write_account:
  "write_account outcome a s = (r, t) \<Longrightarrow> au_failures t = au_failures s \<and> (r = Inr () \<or> r = Inl WriteFailed)"
  by (cases outcome) (auto simp: write_account_def monad_simps)

lemma failures_session: "session_of now wall token s = (r, t) \<Longrightarrow> au_failures t = au_failures s \<and> (\<exists>v. r = Inr v)"
  by (auto simp: session_of_def monad_simps split: option.splits if_splits)

lemma attempts_run:
  "attempts now a s = (if length (failures_of (recent_failures now (au_failures s)) a) \<ge> 5
     then (Inl TooManyAttempts, s\<lparr>au_failures := recent_failures now (au_failures s)\<rparr>)
     else (Inr (failures_of (recent_failures now (au_failures s)) a), s\<lparr>au_failures := recent_failures now (au_failures s)\<rparr>))"
  by (simp add: attempts_def monad_simps Let_def)

lemma noted_login:
  assumes "login digest now wall f c a s = (r, t)"
  shows "noted now (EvLogin f c a) (case r of Inl e \<Rightarrow> Some e | Inr _ \<Rightarrow> None) (au_failures s) (au_failures t)"
  using assms unfolding login_def bind_apply attempts_run
  by (auto simp: noted_def monad_simps new_session_def note_failure_def Let_def split: option.splits if_splits)

lemma noted_update:
  assumes "update_administrator digest now wall f outcome token u a s = (r, t)"
  shows "noted now (EvUpdate f outcome token u a) (case r of Inl e \<Rightarrow> Some e | Inr _ \<Rightarrow> None) (au_failures s) (au_failures t)"
proof -
  obtain q v where v: "session_of now wall token s = (q, v)" by (metis surj_pair)
  from failures_session [OF v] obtain view where q: "q = Inr view" "au_failures v = au_failures s" by blast
  show ?thesis
    using assms v q(2) unfolding update_administrator_def bind_apply q(1)
    by (auto simp: noted_def attempts_run monad_simps new_session_def note_failure_def write_account_def Let_def
        split: option.splits if_splits write_outcome.splits)
qed

lemma noted_step: "auth_step digest now wall ev s = (err, t) \<Longrightarrow> noted now ev err (au_failures s) (au_failures t)"
proof (cases ev)
  case (EvSetup f outcome c)
  assume "auth_step digest now wall ev s = (err, t)"
  with EvSetup show ?thesis
    by (auto simp: auth_step_def noted_def setup_account_def monad_simps new_session_def write_account_def Let_def
        split: if_splits write_outcome.splits)
next
  case (EvLogin f c a)
  assume "auth_step digest now wall ev s = (err, t)"
  with EvLogin noted_login [of digest now wall f c a s] show ?thesis
    by (auto simp: auth_step_def Let_def split: prod.splits)
next
  case (EvUpdate f outcome token u a)
  assume "auth_step digest now wall ev s = (err, t)"
  with EvUpdate noted_update [of digest now wall f outcome token u a s] show ?thesis
    by (auto simp: auth_step_def Let_def split: prod.splits)
qed (auto simp: auth_step_def noted_def session_of_def logout_def monad_simps Let_def split: option.splits if_splits)

lemma tracked_step:
  assumes "tracked now log d" and "throttled log" and "noted now ev err d d'"
  shows "tracked now (logged now ev err log) d' \<and> throttled (logged now ev err log)"
proof -
  have fail: "tracked now (log(a := log a @ [now])) (dict_set (recent_failures now d) a (failures_of (recent_failures now d) a @ [now]))
      \<and> throttled (log(a := log a @ [now]))" if "length (failures_of (recent_failures now d) a) < 5" for a
    using tracked_failure [OF assms(1) refl, of a] throttled_failure [OF assms(2,1) that] by simp
  have clear: "throttled (log(a := []))" "throttled (\<lambda>_. [])" "tracked now (\<lambda>_. []) []" for a
    using assms(2) by (simp_all add: throttled_def tracked_def failures_of_def)
  show ?thesis
    using assms fail clear tracked_success [OF assms(1)] tracked_recent [OF assms(1)]
    by (cases ev) (auto simp: noted_def logged_def split: if_splits)
qed

lemma auth_run_tracked: "auth_run digest now log s \<Longrightarrow> tracked now log (au_failures s) \<and> throttled log"
proof (induction rule: auth_run.induct)
  case (auth_start now)
  then show ?case by (simp add: tracked_def throttled_def new_auth_def failures_of_def)
next
  case (auth_next before log s now wall ev err t)
  have "tracked now log (au_failures s)" using auth_next tracked_later by blast
  from tracked_step [OF this _ noted_step [OF auth_next.hyps(3)]] auth_next.IH show ?case by blast
qed

text \<open>The event presents the administrator's current password: a login from the address itself, or a
  change of the administrator from any address.\<close>

definition presents_password :: "password_digest \<Rightarrow> account \<Rightarrow> string \<Rightarrow> auth_event \<Rightarrow> bool" where
  "presents_password digest a address ev = (case ev of
     EvLogin _ c from \<Rightarrow> from = address \<and> cr_username c = ac_username a
       \<and> digest (cr_password c) (ac_salt a) (ac_rounds a) = ac_digest a
   | EvUpdate _ _ _ u _ \<Rightarrow> digest (ad_current_password u) (ac_salt a) (ac_rounds a) = ac_digest a
   | _ \<Rightarrow> False)"

lemma forgiven_step:
  assumes "auth_step digest now wall ev s = (err, t)" and "log address \<noteq> []" and "logged now ev err log address = []"
  shows "\<exists>a. au_account s = Some a \<and> presents_password digest a address ev"
proof (cases ev)
  case (EvLogin f c addr)
  with assms(2,3) have "err = None" "addr = address" by (auto simp: logged_def split: if_splits)
  with assms(1) EvLogin show ?thesis
    by (auto simp: auth_step_def login_def attempts_def monad_simps note_failure_def presents_password_def
        password_matches_def Let_def split: option.splits if_splits sum.splits prod.splits)
next
  case (EvUpdate f outcome token u addr)
  with assms(2,3) have "err = None" by (auto simp: logged_def split: if_splits)
  moreover obtain q v where v: "session_of now wall token s = (q, v)" by (metis surj_pair)
  moreover have "au_account v = au_account s"
    using v by (auto simp: session_of_def monad_simps split: option.splits if_splits)
  ultimately show ?thesis
    using assms(1) EvUpdate
    by (auto simp: auth_step_def update_administrator_def attempts_def monad_simps note_failure_def presents_password_def
        password_matches_def Let_def split: option.splits if_splits sum.splits prod.splits)
qed (use assms in \<open>auto simp: logged_def\<close>)

text \<open>C23: password guessing is limited on every run. The wrong passwords of an address, of a login or of
  a change of the administrator, are at most five in any window of one minute, counted from the last
  event that clears its count. What clears it is only an event that presents the current password: a
  login from that address with the right name and password, or an accepted change of the
  administrator, which clears the counts of all addresses. No other event of any address does.\<close>

theorem guessing_limited:
  assumes "auth_run digest now log s" and "auth_step digest later wall ev s = (err, t)"
  shows "length (filter (in_window start) (log address)) \<le> 5
    \<and> (log address \<noteq> [] \<and> logged later ev err log address = [] \<longrightarrow>
        (\<exists>a. au_account s = Some a \<and> presents_password digest a address ev))"
  using auth_run_tracked [OF assms(1)] forgiven_step [OF assms(2), of log address] by (simp add: throttled_def)

text \<open>A setup and a wrong password a second later.\<close>

definition plain_digest :: password_digest where
  "plain_digest password salt rounds = password @ salt"

definition some_secrets :: fresh_secrets where
  "some_secrets = \<lparr>fs_token = [1], fs_csrf = [2], fs_salt = [3]\<rparr>"

definition admin :: credentials where
  "admin = \<lparr>cr_username = [97, 98, 99], cr_password = [112, 119]\<rparr>"

definition guess :: auth_event where
  "guess = EvLogin some_secrets (admin\<lparr>cr_password := [0]\<rparr>) ''10.0.0.1''"

definition installed :: auth_state where
  "installed = snd (auth_step plain_digest 0 0 (EvSetup some_secrets Written admin) new_auth)"

lemma guess_fails: "auth_step plain_digest 1000 0 guess installed = (Some WrongCredentials, snd (auth_step plain_digest 1000 0 guess installed))"
  by code_simp

lemma guess_run: "auth_run plain_digest 1000 (\<lambda>a. if a = ''10.0.0.1'' then [1000] else []) (snd (auth_step plain_digest 1000 0 guess installed))"
proof -
  have "auth_step plain_digest 0 0 (EvSetup some_secrets Written admin) new_auth = (None, installed)"
    unfolding installed_def by code_simp
  from auth_next [OF auth_start _ this, of 0] have "auth_run plain_digest 0 (\<lambda>_. []) installed"
    by (simp add: logged_def)
  from auth_next [OF this _ guess_fails] have "auth_run plain_digest 1000
      (logged 1000 guess (Some WrongCredentials) (\<lambda>_. [])) (snd (auth_step plain_digest 1000 0 guess installed))" by simp
  moreover have "logged 1000 guess (Some WrongCredentials) (\<lambda>_. []) = (\<lambda>a. if a = ''10.0.0.1'' then [1000] else [])"
    by (auto simp: logged_def guess_def fun_eq_iff)
  ultimately show ?thesis by simp
qed

text \<open>After one wrong password, the right one from the same address clears the count.\<close>

definition right_login :: auth_event where
  "right_login = EvLogin some_secrets admin ''10.0.0.1''"

lemma right_login_accepted:
  "fst (auth_step plain_digest 2000 0 right_login (snd (auth_step plain_digest 1000 0 guess installed))) = None"
  by code_simp

theorem guessing_limited_witness:
  "\<exists>log s a. auth_run plain_digest 1000 log s \<and> log ''10.0.0.1'' = [1000]
     \<and> length (filter (in_window 0) (log ''10.0.0.1'')) \<le> 5
     \<and> logged 2000 right_login None log ''10.0.0.1'' = []
     \<and> au_account s = Some a \<and> presents_password plain_digest a ''10.0.0.1'' right_login"
proof -
  let ?s = "snd (auth_step plain_digest 1000 0 guess installed)"
  let ?log = "\<lambda>a. if a = ''10.0.0.1'' then [1000] else []"
  have step: "auth_step plain_digest 2000 0 right_login ?s = (None, snd (auth_step plain_digest 2000 0 right_login ?s))"
    using right_login_accepted by (metis prod.collapse)
  have cleared: "logged 2000 right_login None ?log ''10.0.0.1'' = []" by (simp add: logged_def right_login_def)
  from guessing_limited [OF guess_run step, of 0 "''10.0.0.1''"] cleared guess_run show ?thesis
    by (intro exI [of _ ?log] exI [of _ ?s]) simp
qed

subsection \<open>Sessions\<close>

text \<open>C24: a change of the administrator revokes every earlier session. When the change succeeds, or when
  its outcome on the disk is uncertain, no token but the one the change returned opens a session any
  more.\<close>

theorem change_revokes_sessions:
  assumes "update_administrator digest now wall f outcome token u address s = (r, t)"
    and "r = Inl WriteUncertain \<or> (\<exists>v. r = Inr v)"
    and "session_of later wall' token' t = (Inr (Some view), t')"
  shows "token' = fs_token f \<and> sv_username view = ad_username u \<and> later < now + SESSION_MS \<and> (\<exists>v. r = Inr v)"
proof -
  obtain q v where v: "session_of now wall token s = (q, v)" by (metis surj_pair)
  from failures_session [OF v] obtain got where q: "q = Inr got" by blast
  have "r = Inl WriteUncertain \<and> au_sessions t = []
      \<or> (\<exists>v. r = Inr v) \<and> au_sessions t = [(fs_token f, \<lparr>ss_username = ad_username u, ss_csrf = fs_csrf f, ss_deadline = now + SESSION_MS\<rparr>)]"
    using assms(1,2) v unfolding update_administrator_def bind_apply q
    by (auto simp: attempts_run monad_simps new_session_def write_account_def note_failure_def admit_session_def
        live_sessions_def Let_def split: option.splits if_splits write_outcome.splits)
  with assms(3) show ?thesis
    by (auto simp: session_of_def monad_simps public_session_def split: if_splits)
qed

definition rename_admin :: administrator_update where
  "rename_admin = \<lparr>ad_username = [120, 121, 122], ad_current_password = [112, 119], ad_new_password = None, ad_confirm_password = None\<rparr>"

definition other_secrets :: fresh_secrets where
  "other_secrets = \<lparr>fs_token = [7], fs_csrf = [8], fs_salt = [9]\<rparr>"

lemma rename_run:
  "case update_administrator plain_digest 5 0 other_secrets Written [1] rename_admin ''a'' installed of
     (r, t) \<Rightarrow> (case r of Inl _ \<Rightarrow> False | Inr _ \<Rightarrow> True)
       \<and> (case fst (session_of 6 0 [7] t) of Inr (Some view) \<Rightarrow> True | _ \<Rightarrow> False)"
  by code_simp

theorem change_revokes_sessions_witness:
  "\<exists>t view. snd (update_administrator plain_digest 5 0 other_secrets Written [1] rename_admin ''a'' installed) = t
     \<and> fst (session_of 6 0 [7] t) = Inr (Some view) \<and> sv_username view = [120, 121, 122]"
proof -
  obtain r t where rt: "update_administrator plain_digest 5 0 other_secrets Written [1] rename_admin ''a'' installed = (r, t)"
    by (metis surj_pair)
  with rename_run obtain v where r: "r = Inr v" by (auto split: sum.splits)
  from rename_run rt obtain view where view: "fst (session_of 6 0 [7] t) = Inr (Some view)"
    by (auto split: sum.splits option.splits)
  obtain t' where s: "session_of 6 0 [7] t = (Inr (Some view), t')" using view by (metis prod.collapse)
  from change_revokes_sessions [OF rt _ s] r have "sv_username view = ad_username rename_admin" by blast
  with rt view show ?thesis by (auto simp: rename_admin_def)
qed

definition sessions_ok :: "int \<Rightarrow> (text_points \<times> session) list \<Rightarrow> bool" where
  "sessions_ok now d \<longleftrightarrow> distinct (map fst d) \<and> length d \<le> 64 \<and> (\<forall>(t, v) \<in> set d. ss_deadline v \<le> now + SESSION_MS)"

lemma sessions_later: "sessions_ok now d \<Longrightarrow> now \<le> later \<Longrightarrow> sessions_ok later d"
  by (fastforce simp: sessions_ok_def)

lemma sessions_del: "sessions_ok now d \<Longrightarrow> sessions_ok now (dict_del d t)"
  using order_trans [OF length_filter_le [of "\<lambda>p. fst p \<noteq> t" d], of 64]
  by (auto simp: sessions_ok_def dict_del_def distinct_map_filter)

lemma oldest_session_mem: "d \<noteq> [] \<Longrightarrow> \<exists>t. oldest_session d = Some t \<and> t \<in> fst ` set d"
proof (induction d)
  case (Cons p d)
  show ?case
  proof (cases "d = []")
    case False
    with Cons.IH obtain u where u: "oldest_session d = Some u" "u \<in> fst ` set d" by blast
    then obtain w where "map_of d u = Some w" by (metis map_of_eq_None_iff not_None_eq)
    with u show ?thesis by (cases p) auto
  qed (cases p, simp)
qed simp

lemma sessions_admit:
  assumes "sessions_ok now d" and "ss_deadline v = now + SESSION_MS"
  shows "sessions_ok now (admit_session now token v d)"
proof -
  have live: "sessions_ok now (live_sessions now d)"
    using assms(1) order_trans [OF length_filter_le [of "\<lambda>(_, v). ss_deadline v > now" d], of 64]
    by (auto simp: sessions_ok_def live_sessions_def distinct_map_filter)
  define kept where "kept = (if length (live_sessions now d) \<ge> 64
    then (case oldest_session (live_sessions now d) of None \<Rightarrow> live_sessions now d | Some t \<Rightarrow> dict_del (live_sessions now d) t)
    else live_sessions now d)"
  have kept: "sessions_ok now kept" using live sessions_del by (auto simp: kept_def split: option.splits)
  have "length kept < 64"
  proof (cases "length (live_sessions now d) \<ge> 64")
    case True
    then have "live_sessions now d \<noteq> []" by auto
    from oldest_session_mem [OF this] obtain t where t: "oldest_session (live_sessions now d) = Some t" "t \<in> fst ` set (live_sessions now d)"
      by blast
    then have "length (dict_del (live_sessions now d) t) < length (live_sessions now d)" by (intro length_dict_del_mem)
    with True t(1) live show ?thesis by (simp add: kept_def sessions_ok_def)
  qed (simp add: kept_def)
  then have "length (dict_set kept token v) \<le> 64" by (simp add: length_dict_set)
  moreover have "\<forall>(t, w) \<in> set (dict_set kept token v). ss_deadline w \<le> now + SESSION_MS"
    using set_dict_set [of kept token v] kept assms(2) by (fastforce simp: sessions_ok_def)
  ultimately show ?thesis using kept by (simp add: sessions_ok_def admit_session_def Let_def kept_def [symmetric])
qed

lemma sessions_new_session:
  "new_session now wall f username s = (r, t) \<Longrightarrow> sessions_ok now (au_sessions s) \<Longrightarrow> sessions_ok now (au_sessions t)"
  by (auto simp: new_session_def monad_simps Let_def sessions_admit)

lemma sessions_step:
  assumes "auth_step digest now wall ev s = (err, t)" and ok: "sessions_ok now (au_sessions s)"
  shows "sessions_ok now (au_sessions t)"
proof -
  have login: "sessions_ok now (au_sessions t)" if "login digest now wall f c a s = (r, t)" for f c a r t
    using that ok unfolding login_def bind_apply attempts_run
    by (auto simp: monad_simps note_failure_def split: option.splits if_splits dest: sessions_new_session)
  have init: "sessions_ok now (au_sessions t)" if "setup_account digest now wall f outcome c s = (r, t)" for f outcome c r t
    using that ok unfolding setup_account_def
    by (auto simp: monad_simps write_account_def split: option.splits if_splits write_outcome.splits dest: sessions_new_session)
  have current: "sessions_ok now (au_sessions (snd (session_of now wall token s)))" for token
    using ok by (auto simp: session_of_def monad_simps intro: sessions_del split: option.splits if_splits)
  have empty: "sessions_ok now []" by (simp add: sessions_ok_def)
  have update: "sessions_ok now (au_sessions t)" if "update_administrator digest now wall f outcome token u a s = (r, t)" for f outcome token u a r t
  proof -
    obtain q v where v: "session_of now wall token s = (q, v)" by (metis surj_pair)
    from failures_session [OF v] obtain got where q: "q = Inr got" by blast
    show ?thesis using that v current [of token] empty unfolding update_administrator_def bind_apply q
      by (auto simp: attempts_run monad_simps write_account_def note_failure_def
          split: option.splits if_splits write_outcome.splits dest: sessions_new_session)
  qed
  show ?thesis using assms(1) login init update current ok
    by (cases ev) (auto simp: auth_step_def logout_def monad_simps intro: sessions_del split: prod.splits)
qed

text \<open>At every moment of a run at most 64 sessions exist, under distinct tokens, and none outlives
  the twelve hours it was given.\<close>

theorem sessions_bounded:
  assumes "auth_run digest now log s"
  shows "distinct (map fst (au_sessions s)) \<and> length (au_sessions s) \<le> 64
    \<and> (\<forall>(token, v) \<in> set (au_sessions s). ss_deadline v \<le> now + SESSION_MS)"
proof -
  from assms have "sessions_ok now (au_sessions s)"
  proof (induction rule: auth_run.induct)
    case (auth_next before log s now wall ev err t)
    then show ?case using sessions_step sessions_later by blast
  qed (simp add: sessions_ok_def new_auth_def)
  then show ?thesis by (simp add: sessions_ok_def)
qed

theorem sessions_bounded_witness:
  "length (au_sessions (snd (auth_step plain_digest 1000 0 guess installed))) \<le> 64"
  using sessions_bounded [OF guess_run] by blast

end
