(* ===== verification/Netlab_Codec.thy ===== *)
theory Netlab_Codec
  imports Roce_Policy Switch_Config Documents
begin

text \<open>
  netlab_codec.py: the translation of a configuration to the tree of native settings that configd
  stores, the reader of native XML documents and the reader of the stored configuration. The writer
  and the parser of XML text (\<^verbatim>\<open>ElementTree\<close>) and the dump and the parser of the configuration's JSON
  (pydantic) are the libraries': they are parameters. Bytes are numbers in 0..255.
\<close>

subsection \<open>Elements\<close>

definition leaf :: "string \<Rightarrow> text_points \<Rightarrow> xml" where "leaf tag t = Xml tag [] t []"
definition elem :: "string \<Rightarrow> xml list \<Rightarrow> xml" where "elem tag kids = Xml tag [] [] kids"
definition name_leaf :: "string \<Rightarrow> string \<Rightarrow> xml" where "name_leaf tag s = leaf tag (ascii s)"
definition number_leaf :: "string \<Rightarrow> int \<Rightarrow> xml" where "number_leaf tag n = name_leaf tag (decimal_int n)"
definition flag_leaf :: "string \<Rightarrow> bool \<Rightarrow> xml" where
  "flag_leaf tag b = name_leaf tag (if b then ''true'' else ''false'')"

lemma xml_tag_elements [simp]:
  "xml_tag (leaf t v) = t" "xml_tag (elem t ks) = t" "xml_tag (name_leaf t s) = t"
  "xml_tag (number_leaf t n) = t" "xml_tag (flag_leaf t b) = t"
  "xml_children (elem t ks) = ks" "xml_text (leaf t v) = v"
  by (simp_all add: leaf_def elem_def name_leaf_def number_leaf_def flag_leaf_def)

text \<open>\<^verbatim>\<open>interface(port)\<close>; the ports of an accepted configuration are in 1..24, so its ValueError is not reached.\<close>

definition interface_name :: "int \<Rightarrow> string" where
  "interface_name port = ''et-0/0/'' @ decimal_int (port - 1)"

definition vlan_name :: "int \<Rightarrow> string" where
  "vlan_name vid = CHR ''V'' # decimal_int vid"

fun group_mode_name :: "group_mode \<Rightarrow> string" where
  "group_mode_name Mode100G = ''100g''"
| "group_mode_name Mode40G = ''40g''"
| "group_mode_name Split = ''split''"

fun vlan_mode_name :: "vlan_mode \<Rightarrow> string" where
  "vlan_mode_name Access = ''access''"
| "vlan_mode_name Trunk = ''trunk''"

fun lag_mode_name :: "lag_mode \<Rightarrow> string" where
  "lag_mode_name Static = ''static''"
| "lag_mode_name Active = ''active''"
| "lag_mode_name Passive = ''passive''"

fun lag_period_name :: "lag_period \<Rightarrow> string" where
  "lag_period_name Fast = ''fast''"
| "lag_period_name Slow = ''slow''"

fun trust_name :: "trust_mode \<Rightarrow> string" where
  "trust_name TrustNone = ''none''"
| "trust_name TrustPcp = ''ieee-802.1p''"

fun response_name :: "fan_response \<Rightarrow> string" where
  "response_name S5_45 = ''5.45''"
| "response_name S10_9 = ''10.9''"
| "response_name S21_6 = ''21.6''"
| "response_name S43_7 = ''43.7''"

fun profile_name :: "board_profile \<Rightarrow> string" where
  "profile_name HW4_B0 = ''sil001-hw4-b0''"
| "profile_name HW5_A11 = ''sil001-hw5-a11''"

fun direction_name :: "mirror_direction \<Rightarrow> string" where
  "direction_name MirrorRx = ''ingress''"
| "direction_name MirrorTx = ''egress''"
| "direction_name MirrorBoth = ''both''"

subsection \<open>Ports, groups and VLANs\<close>

definition lane_node :: "int \<times> int \<Rightarrow> xml" where
  "lane_node entry = (case entry of (index, rate) \<Rightarrow>
     elem ''lane'' [number_leaf ''index'' index, number_leaf ''speed'' rate])"

definition group_node :: "port_group \<Rightarrow> xml" where
  "group_node g = elem ''port-group''
     ([number_leaf ''epl'' (pg_epl g), name_leaf ''mode'' (group_mode_name (pg_mode g))]
      @ map lane_node (enumerate_int (pg_lane_speeds g)))"

definition fan_node :: "fan_curve \<Rightarrow> xml" where
  "fan_node f = elem ''fan''
     [name_leaf ''sensor'' ''fm10840_core'',
      number_leaf ''idle-temperature-c'' (fc_idle_temperature_c f),
      number_leaf ''load-temperature-c'' (fc_load_temperature_c f),
      number_leaf ''critical-temperature-c'' (fc_critical_temperature_c f),
      number_leaf ''idle-speed-percent'' (fc_idle_speed_percent f),
      number_leaf ''load-speed-percent'' (fc_load_speed_percent f),
      number_leaf ''hysteresis-c'' (fc_hysteresis_c f),
      name_leaf ''response-time-s'' (response_name (fc_response_time f))]"

definition chassis_node :: "(switch_configuration \<Rightarrow> text_points) \<Rightarrow> string \<Rightarrow> switch_configuration \<Rightarrow> xml" where
  "chassis_node dump job_id c = elem ''chassis'' [elem ''fm10k-panel''
     ([name_leaf ''profile'' (profile_name (sc_profile c)), number_leaf ''schema-version'' 1,
       name_leaf ''job-id'' job_id, leaf ''intent'' (dump c)]
      @ map group_node (sc_groups c) @ [fan_node (sc_fan c)])]"

definition vlan_node :: "vlan \<Rightarrow> xml" where
  "vlan_node v = elem ''vlan''
     ([name_leaf ''name'' (vlan_name (vl_id v)), number_leaf ''vlan-id'' (vl_id v)]
      @ (if vl_name v \<noteq> [] then [leaf ''description'' (vl_name v)] else []))"

text \<open>\<^verbatim>\<open>{p: lag.name for lag in c.lags for p in lag.members}\<close>: a later entry replaces an earlier one.\<close>

definition member_lag :: "switch_configuration \<Rightarrow> int \<Rightarrow> string option" where
  "member_lag c = map_of (rev (concat (map (\<lambda>l. map (\<lambda>p. (p, lg_name l)) (lg_members l)) (sc_lags c))))"

definition profile_vlans :: "port_config \<Rightarrow> int list" where
  "profile_vlans p = sort (remdups (pc_tagged_vlans p
     @ (case pc_pvid p of None \<Rightarrow> [] | Some v \<Rightarrow> if v \<noteq> 0 then [v] else [])))"

definition vlan_profile :: "port_config \<Rightarrow> xml list" where
  "vlan_profile p =
     (case pc_pvid p of None \<Rightarrow> []
      | Some v \<Rightarrow> if pc_vlan_mode p = Trunk then [number_leaf ''native-vlan-id'' v] else [])
   @ (if pc_pvid p \<noteq> None \<or> pc_tagged_vlans p \<noteq> []
      then [elem ''unit'' [elem ''logical-unit'' [number_leaf ''unit-id'' 0,
        elem ''family'' [elem ''ethernet-switching''
          (name_leaf ''interface-mode'' (vlan_mode_name (pc_vlan_mode p))
           # map (\<lambda>vid. name_leaf ''vlan-members'' (vlan_name vid)) (profile_vlans p))]]]]
      else [])"

definition storm_leaves :: "storm_control \<Rightarrow> xml list" where
  "storm_leaves s = [number_leaf ''broadcast-kbps'' (st_broadcast_kbps s),
     number_leaf ''multicast-kbps'' (st_multicast_kbps s),
     number_leaf ''unknown-unicast-kbps'' (st_unknown_unicast_kbps s)]"

definition interface_node :: "switch_configuration \<Rightarrow> int \<times> port_config \<Rightarrow> xml" where
  "interface_node c entry = (case entry of (number, p) \<Rightarrow> elem ''interface''
     ([name_leaf ''name'' (interface_name number), flag_leaf ''disable'' (\<not> pc_enabled p)]
      @ (if pc_name p \<noteq> [] then [leaf ''description'' (pc_name p)] else [])
      @ [number_leaf ''mtu'' (pc_mtu p)]
      @ (if number \<in> set (active_ports c) \<and> speed c number \<in> {10, 25}
         then [name_leaf ''speed'' (decimal_int (speed c number) @ ''g'')] else [])
      @ (case member_lag c number of
           Some l \<Rightarrow> [elem ''ether-options'' [name_leaf ''ieee8023ad'' l]]
         | None \<Rightarrow> vlan_profile p)
      @ [elem ''fm10k-port''
          ([flag_leaf ''ingress-filtering'' (pc_ingress_filtering p),
            flag_leaf ''direct-receiver'' (pc_direct_receiver p)] @ storm_leaves (pc_storm p))]))"

definition first_member :: "switch_configuration \<Rightarrow> lag \<Rightarrow> port_config" where
  "first_member c l = port_of c (hd (lg_members l))"

definition lag_node :: "switch_configuration \<Rightarrow> lag \<Rightarrow> xml" where
  "lag_node c l = (let first = first_member c l in elem ''interface''
     ([name_leaf ''name'' (lg_name l), number_leaf ''mtu'' (pc_mtu first),
       elem ''fm10k-port'' [flag_leaf ''ingress-filtering'' (pc_ingress_filtering first)],
       elem ''aggregated-ether-options''
         [number_leaf ''minimum-links'' (lg_minimum_links l),
          (if lg_mode l = Static then flag_leaf ''static'' True
           else elem ''lacp'' [name_leaf ''mode'' (lag_mode_name (lg_mode l)),
                               name_leaf ''periodic'' (lag_period_name (lg_periodic l))])]]
      @ vlan_profile first))"

definition sorted_ports :: "switch_configuration \<Rightarrow> (int \<times> port_config) list" where
  "sorted_ports c = sort_key fst (sc_ports c)"

definition interfaces_node :: "switch_configuration \<Rightarrow> xml" where
  "interfaces_node c = elem ''interfaces'' (map (interface_node c) (sorted_ports c) @ map (lag_node c) (sc_lags c))"

subsection \<open>Switching options\<close>

definition static_mac_node :: "switch_configuration \<Rightarrow> static_mac \<Rightarrow> xml" where
  "static_mac_node c m = elem ''mac-table-entry''
     [name_leaf ''mac-address'' (sm_mac m), name_leaf ''vlan'' (vlan_name (sm_vlan m)),
      name_leaf ''interface'' (case member_lag c (sm_port m) of Some l \<Rightarrow> l | None \<Rightarrow> interface_name (sm_port m))]"

definition rate_section :: "string \<Rightarrow> (port_config \<Rightarrow> int) \<Rightarrow> switch_configuration \<Rightarrow> xml list" where
  "rate_section tag rate c =
     (let rates = filter (\<lambda>(_, r). r \<noteq> 0) (map (\<lambda>(p, port). (p, rate port)) (sc_ports c)) in
      if rates = [] then [] else [elem tag (map (\<lambda>(number, r). elem ''interface''
        [name_leaf ''name'' (interface_name number), number_leaf ''bandwidth'' r, number_leaf ''burst-size'' 32768]) rates)])"

definition switching_node :: "switch_configuration \<Rightarrow> xml" where
  "switching_node c = elem ''ethernet-switching-options''
     ([number_leaf ''mac-table-aging-time'' (sc_mac_aging_seconds c)]
      @ (if sc_static_macs c \<noteq> [] then [elem ''static'' (map (static_mac_node c) (sc_static_macs c))] else [])
      @ rate_section ''ingress-rate-limit'' pc_ingress_kbps c
      @ rate_section ''egress-rate-limit'' pc_egress_kbps c)"

subsection \<open>Protocols\<close>

definition sorted_active :: "switch_configuration \<Rightarrow> int list" where
  "sorted_active c = sort (active_ports c)"

definition numbers_text :: "int list \<Rightarrow> string" where
  "numbers_text ns = concat (map (\<lambda>(i, n). (if i = 0 then [] else '' '') @ decimal_int n) (enumerate_int ns))"

definition application_node :: "dcbx_app \<Rightarrow> xml" where
  "application_node a = elem ''application'' [number_leaf ''selector'' (da_selector a),
     number_leaf ''protocol'' (da_protocol a), number_leaf ''priority'' (da_priority a)]"

definition dcbx_node :: "dcbx_policy \<Rightarrow> xml" where
  "dcbx_node d = elem ''dcbx''
     ([flag_leaf ''enabled'' True, number_leaf ''pfc-mask'' (dp_pfc_mask d),
       name_leaf ''priority-map'' (numbers_text (dp_priority_map d)),
       name_leaf ''bandwidth'' (numbers_text (dp_bandwidth d)),
       name_leaf ''tsa-map'' (numbers_text (dp_tsa_map d))]
      @ map application_node (dp_applications d))"

definition lldp_interface :: "switch_configuration \<Rightarrow> int \<Rightarrow> xml" where
  "lldp_interface c number = (let d = dcbx_policy_of c in elem ''interface''
     ([name_leaf ''name'' (interface_name number), flag_leaf ''disable'' (\<not> pc_lldp (port_of c number))]
      @ (if dp_enabled d \<and> number \<in> set (ro_ports (qo_roce (sc_qos c))) then [dcbx_node d] else [])))"

definition lldp_node :: "switch_configuration \<Rightarrow> xml" where
  "lldp_node c = elem ''lldp''
     ([flag_leaf ''disable'' (\<not> ll_enabled (sc_lldp c)),
       number_leaf ''transmit-interval'' (ll_transmit_interval (sc_lldp c)),
       number_leaf ''hold-multiplier'' (ll_hold_multiplier (sc_lldp c))]
      @ map (lldp_interface c) (sorted_active c))"

definition rstp_interface :: "switch_configuration \<Rightarrow> int \<Rightarrow> xml" where
  "rstp_interface c number = (let p = port_of c number in elem ''interface''
     ([name_leaf ''name'' (interface_name number), flag_leaf ''edge'' (pc_edge p),
       flag_leaf ''bpdu-block-on-edge'' (pc_bpdu_guard p)]
      @ (if pc_path_cost p \<noteq> 0 then [number_leaf ''path-cost'' (pc_path_cost p)] else [])
      @ [number_leaf ''port-priority'' (pc_port_priority p)]))"

definition rstp_nodes :: "switch_configuration \<Rightarrow> xml list" where
  "rstp_nodes c = (if \<not> rs_enabled (sc_rstp c) then [] else [elem ''rstp''
     ([number_leaf ''bridge-priority'' (rs_bridge_priority (sc_rstp c))]
      @ map (rstp_interface c) (filter (\<lambda>n. member_lag c n = None) (sorted_active c))
      @ map (\<lambda>l. elem ''interface'' [name_leaf ''name'' (lg_name l)]) (sc_lags c))])"

definition igmp_interface :: "switch_configuration \<Rightarrow> int \<Rightarrow> int \<Rightarrow> xml" where
  "igmp_interface c vid number = (let i = sc_igmp c in elem ''interface''
     ([name_leaf ''name'' (interface_name number), flag_leaf ''mrouter'' (number \<in> set (ig_router_ports i)),
       flag_leaf ''fast-leave'' (number \<in> set (ig_fast_leave_ports i))]
      @ map (\<lambda>g. name_leaf ''static-group'' (mg_address g))
          (filter (\<lambda>g. mg_vlan g = vid \<and> number \<in> set (mg_ports g)) (ig_static_groups i))))"

definition igmp_nodes :: "switch_configuration \<Rightarrow> xml list" where
  "igmp_nodes c = (let i = sc_igmp c in if \<not> ig_enabled i then [] else [elem ''igmp-snooping''
     ([number_leaf ''membership-timeout'' (ig_membership_timeout i)]
      @ map (\<lambda>vid. elem ''vlan'' (name_leaf ''name'' (vlan_name vid)
           # map (igmp_interface c vid) (filter (\<lambda>n. vid \<in> set (port_vlan_list (port_of c n))) (sorted_active c))))
          (sort (remdups (snooped_vlans c))))])"

subsection \<open>Class of service\<close>

definition roce_ports :: "switch_configuration \<Rightarrow> int list" where
  "roce_ports c = (if ro_enabled (qo_roce (sc_qos c)) then ro_ports (qo_roce (sc_qos c)) else [])"

definition dscp_mode :: "switch_configuration \<Rightarrow> bool" where
  "dscp_mode c \<longleftrightarrow> roce_ports c \<noteq> [] \<and> ro_classification (qo_roce (sc_qos c)) = Dscp"

definition dscp_priority :: "switch_configuration \<Rightarrow> int \<Rightarrow> int" where
  "dscp_priority c dscp = (if dscp_mode c \<and> dscp = ro_dscp (qo_roce (sc_qos c)) then 3
     else if dscp_mode c \<and> dscp = ro_cnp_dscp (qo_roce (sc_qos c)) then 6 else 0)"

definition dscp_map_node :: "switch_configuration \<Rightarrow> xml" where
  "dscp_map_node c = elem ''dscp-map'' (map (\<lambda>d. elem ''entry''
     [number_leaf ''dscp'' (int d), number_leaf ''switch-priority'' (dscp_priority c (int d))]) [0..<64])"

definition shared_memory_node :: "switch_configuration \<Rightarrow> xml" where
  "shared_memory_node c = elem ''shared-memory'' (map (\<lambda>tc. elem ''traffic-class''
     [number_leaf ''class'' tc, number_leaf ''partition'' (if roce_ports c \<noteq> [] \<and> tc = 3 then 1 else 0)])
     [0, 1, 2, 3, 4, 5, 6, 7])"

definition pfc_nodes :: "switch_configuration \<Rightarrow> int \<Rightarrow> xml list" where
  "pfc_nodes c number = (let w = ro_watchdog (qo_roce (sc_qos c)) in
     if number \<notin> set (roce_ports c) then [] else [elem ''priority-flow-control''
       [number_leaf ''rx-class-mask'' 8, number_leaf ''tx-class-mask'' 8,
        number_leaf ''lossless-smp-mask'' 2, number_leaf ''shared-pause-mask'' 2,
        number_leaf ''watchdog-detect-ms'' (if wd_enabled w then wd_detect_ms w else 0),
        number_leaf ''watchdog-recovery-ms'' (wd_recovery_ms w),
        number_leaf ''watchdog-cooldown-ms'' (wd_cooldown_ms w)]])"

definition qos_interface :: "switch_configuration \<Rightarrow> int \<Rightarrow> xml" where
  "qos_interface c number = elem ''interface''
     ([name_leaf ''name'' (interface_name number),
       name_leaf ''trust'' (if number \<in> set (roce_ports c) then (if dscp_mode c then ''dscp'' else ''ieee-802.1p'')
         else trust_name (qo_trust (sc_qos c))),
       number_leaf ''default-priority'' (qo_default_priority (sc_qos c))]
      @ pfc_nodes c number)"

definition internal_class :: "switch_configuration \<Rightarrow> int \<Rightarrow> int" where
  "internal_class c priority = (if priority = 11 \<or> dscp_mode c \<and> priority = 15 then 0 else priority AND 7)"

definition priority_node :: "int \<times> int \<Rightarrow> xml" where
  "priority_node entry = (case entry of (priority, tc) \<Rightarrow>
     elem ''switch-priority'' [number_leaf ''priority'' priority, number_leaf ''traffic-class'' tc])"

definition forwarding_classes :: "switch_configuration \<Rightarrow> (int \<times> int) list" where
  "forwarding_classes c = enumerate_int (qo_priority_map (sc_qos c))
     @ (if roce_ports c \<noteq> [] then map (\<lambda>p. (p, internal_class c p)) [8, 9, 10, 11, 12, 13, 14, 15] else [])"

definition scheduler_weight :: "switch_configuration \<Rightarrow> int \<Rightarrow> int \<Rightarrow> int" where
  "scheduler_weight c number tc =
     (let d = dcbx_policy_of c; max_frame = (pc_mtu (port_of c number) + 22 + 3) AND NOT 3;
          weight = (if number \<in> set (roce_ports c) \<and> dp_enabled d then max 1 (dp_bandwidth d ! nat tc)
                    else qo_weights (sc_qos c) ! nat tc)
      in 2 * max_frame * weight)"

definition strict_class :: "switch_configuration \<Rightarrow> int \<Rightarrow> int \<Rightarrow> bool" where
  "strict_class c number tc \<longleftrightarrow> (if number \<in> set (roce_ports c) then tc = 7 \<and> dscp_mode c
     else qo_scheduler (sc_qos c) = Strict)"

definition class_nodes :: "switch_configuration \<Rightarrow> int \<Rightarrow> int \<Rightarrow> xml list" where
  "class_nodes c number tc =
     (if pc_egress_kbps (port_of c number) = 0
      then [elem ''traffic-class'' [number_leaf ''class'' tc, number_leaf ''shaping-group'' tc]] else [])
   @ [elem ''group'' [number_leaf ''id'' tc, flag_leaf ''strict-priority'' (strict_class c number tc),
        number_leaf ''weight'' (scheduler_weight c number tc)]]"

definition scheduler_interface :: "switch_configuration \<Rightarrow> int \<Rightarrow> xml" where
  "scheduler_interface c number = elem ''interface''
     ([name_leaf ''name'' (interface_name number), number_leaf ''traffic-class-enable-mask'' 255]
      @ concat (map (class_nodes c number) [0, 1, 2, 3, 4, 5, 6, 7]))"

definition qos_node :: "switch_configuration \<Rightarrow> xml" where
  "qos_node c = elem ''class-of-service''
     [dscp_map_node c, shared_memory_node c,
      elem ''interfaces'' (map (qos_interface c) (sorted_active c)),
      elem ''forwarding'' (map priority_node (forwarding_classes c)),
      elem ''scheduler'' [elem ''interfaces'' (map (scheduler_interface c) (sorted_active c))]]"

text \<open>An enabled mirror of an accepted configuration has both ports.\<close>

definition mirror_nodes :: "switch_configuration \<Rightarrow> xml list" where
  "mirror_nodes c = (let m = sc_mirror c; port = (\<lambda>p. interface_name (case p of None \<Rightarrow> 0 | Some n \<Rightarrow> n)) in
     if \<not> mi_enabled m then [] else [elem ''forwarding-options'' [elem ''port-mirroring'' [elem ''instance''
       [name_leaf ''name'' ''panel'', elem ''output'' [name_leaf ''interface'' (port (mi_destination m))],
        elem ''input'' [elem ''interface'' [name_leaf ''name'' (port (mi_source m)),
          name_leaf ''direction'' (direction_name (mi_direction m))]]]]]])"

subsection \<open>The document\<close>

definition MAX_XML :: int where "MAX_XML = 250000"

datatype codec_error = CodecInvalid config_error | CodecTooLarge | CodecXmlRejected | CodecXmlInvalid
| CodecRoot | CodecNoIntent | CodecIntentInvalid

definition native_tree :: "(switch_configuration \<Rightarrow> text_points) \<Rightarrow> string \<Rightarrow> switch_configuration \<Rightarrow> xml" where
  "native_tree dump job_id c = Xml ''netlab-config'' [(''xmlns'', ''urn:netlab:config'')] []
     ([chassis_node dump job_id c, elem ''vlans'' (map vlan_node (sc_vlans c)), interfaces_node c, switching_node c,
       elem ''protocols'' (lldp_node c # rstp_nodes c @ igmp_nodes c), qos_node c] @ mirror_nodes c)"

definition compile_configuration ::
  "(xml \<Rightarrow> int list) \<Rightarrow> (switch_configuration \<Rightarrow> text_points) \<Rightarrow> string \<Rightarrow> switch_configuration \<Rightarrow> codec_error + int list" where
  "compile_configuration tostring dump job_id configuration =
     (case validate_configuration configuration of
        Inl e \<Rightarrow> Inl (CodecInvalid e)
      | Inr c \<Rightarrow> (let result = tostring (native_tree dump job_id c) in
          if int (length result) > MAX_XML then Inl CodecTooLarge else Inr result))"

text \<open>The reader of documents; name spaces stand in braces before a tag.\<close>

definition upper_byte :: "int \<Rightarrow> int" where
  "upper_byte b = (if 97 \<le> b \<and> b \<le> 122 then b - 32 else b)"

fun has_bytes :: "int list \<Rightarrow> int list \<Rightarrow> bool" where
  "has_bytes needle [] = (needle = [])"
| "has_bytes needle (b # bs) = (take (length needle) (b # bs) = needle \<or> has_bytes needle bs)"

definition local_name :: "string \<Rightarrow> string" where
  "local_name tag = rev (takeWhile (\<lambda>ch. ch \<noteq> CHR ''}'') (rev tag))"

primrec strip_names :: "xml \<Rightarrow> xml" where
  "strip_names (Xml tag attrs t kids) = Xml (local_name tag) attrs t (map strip_names kids)"

definition parse_xml :: "(int list \<Rightarrow> xml option) \<Rightarrow> int list \<Rightarrow> codec_error + xml" where
  "parse_xml fromstring payload =
     (let upper = map upper_byte payload in
      if int (length payload) > 256 * 1024 \<or> has_bytes (ascii ''<!DOCTYPE'') upper \<or> has_bytes (ascii ''<!ENTITY'') upper
      then Inl CodecXmlRejected
      else case fromstring payload of None \<Rightarrow> Inl CodecXmlInvalid | Some doc \<Rightarrow> Inr (strip_names doc))"

definition decode_tree :: "(text_points \<Rightarrow> switch_configuration option) \<Rightarrow> xml \<Rightarrow> codec_error + switch_configuration" where
  "decode_tree load doc =
     (if xml_tag doc \<noteq> ''netlab-config'' then Inl CodecRoot
      else case find_first [''chassis'', ''fm10k-panel'', ''intent''] doc of
        None \<Rightarrow> Inl CodecNoIntent
      | Some node \<Rightarrow> (case load (xml_text node) of None \<Rightarrow> Inl CodecIntentInvalid | Some c \<Rightarrow> Inr c))"

definition decode_configuration ::
  "(int list \<Rightarrow> xml option) \<Rightarrow> (text_points \<Rightarrow> switch_configuration option) \<Rightarrow> int list \<Rightarrow> codec_error + switch_configuration" where
  "decode_configuration fromstring load payload = ebind (parse_xml fromstring payload) (decode_tree load)"

end
