(* ===== verification/Roce_Operational.thy ===== *)
theory Roce_Operational
  imports Netlab_Codec
begin

text \<open>
  The decoders of the native RoCE diagnostics: \<^verbatim>\<open>decode_operational\<close> of roce.py and \<^verbatim>\<open>decode\<close> of dcbx.py. They
  compare what switchd and lldpd report with the configuration; \<^verbatim>\<open>configuration_applied\<close> is the verdict.
  Documents are element trees, the monotonic clock is a number of milliseconds.
\<close>

datatype diagnostic_error = RoceIncomplete | RoceMapping | RoceDscpMap | RocePortInvalid | RocePortMissing
| DcbxIncompatible | DcbxPortInvalid | DcbxPortRepeated

subsection \<open>Numbers and nodes\<close>

definition number :: "string option \<Rightarrow> int option" where
  "number text = (case text of None \<Rightarrow> None | Some s \<Rightarrow>
     (case py_int_base (if take 2 s = ''0x'' then 16 else 10) s of
        None \<Rightarrow> None | Some n \<Rightarrow> if n \<ge> 0 then Some n else None))"

abbreviation number_of :: "xml \<Rightarrow> string \<Rightarrow> int option" where
  "number_of node name \<equiv> number (attribute node name)"

definition number_of_option :: "xml option \<Rightarrow> string \<Rightarrow> int option" where
  "number_of_option node name = (case node of None \<Rightarrow> None | Some x \<Rightarrow> number_of x name)"

lemma number_nonneg: "number text = Some n \<Longrightarrow> 0 \<le> n"
  by (auto simp: number_def split: option.splits if_splits)

text \<open>A dict built by a comprehension: the last entry of a key stands.\<close>

definition py_dict :: "('k \<times> 'v) list \<Rightarrow> 'k \<Rightarrow> 'v option" where
  "py_dict kvs = map_of (rev kvs)"

text \<open>\<^verbatim>\<open>text.split()\<close>\<close>

fun py_words :: "string \<Rightarrow> string list" where
  "py_words [] = []"
| "py_words (c # cs) = (if py_space c then py_words cs
     else case cs of [] \<Rightarrow> [[c]]
       | d # _ \<Rightarrow> if py_space d then [c] # py_words cs
           else (case py_words cs of [] \<Rightarrow> [[c]] | w # ws \<Rightarrow> (c # w) # ws))"

definition quality :: "bool \<Rightarrow> string" where
  "quality ok = (if ok then ''valid'' else ''unavailable'')"

definition CLASSES :: "int list" where "CLASSES = [0, 1, 2, 3, 4, 5, 6, 7]"

record roce_parts =
  rq_flow_control :: xml
  rq_watermarks :: xml
  rq_ports :: xml
  rq_forwarding :: xml
  rq_interfaces :: xml
  rq_dscp_map :: "xml option"
  rq_scheduler :: "xml option"
  rq_dcbx :: "xml option"

subsection \<open>Global maps\<close>

definition smp_map :: "xml \<Rightarrow> int option \<Rightarrow> string option option" where
  "smp_map flow = py_dict (map (\<lambda>p. (number_of p ''id'', attribute p ''smp'')) (children_named ''traffic-class'' flow))"

definition smp_complete :: "xml \<Rightarrow> bool" where
  "smp_complete flow \<longleftrightarrow> set (map (\<lambda>p. number_of p ''id'') (children_named ''traffic-class'' flow)) = set (map Some CLASSES)"

definition forwarding_map :: "xml \<Rightarrow> int \<Rightarrow> int option" where
  "forwarding_map doc p = (case py_dict (map (\<lambda>n. (number_of n ''priority'', number_of n ''traffic-class''))
     (find_all [''forwarding'', ''switch-priority''] doc)) (Some p) of None \<Rightarrow> None | Some v \<Rightarrow> v)"

definition read_dscp_map :: "xml \<Rightarrow> diagnostic_error + int list" where
  "read_dscp_map doc =
     (let entries = map (\<lambda>p. (number_of p ''dscp'', number_of p ''switch-priority'')) (find_all [''dscp-map'', ''entry''] doc) in
      if length entries \<noteq> 64 \<or> set (map fst entries) \<noteq> set (map (\<lambda>d. Some (int d)) [0..<64])
        \<or> list_ex (\<lambda>(_, v). case v of None \<Rightarrow> True | Some n \<Rightarrow> n > 15) entries
      then Inl RoceDscpMap
      else Inr (map (\<lambda>d. case py_dict entries (Some (int d)) of Some (Some n) \<Rightarrow> n | _ \<Rightarrow> 0) [0..<64]))"

definition actual_dscp :: "roce_parts \<Rightarrow> diagnostic_error + int list option" where
  "actual_dscp parts = (case rq_dscp_map parts of None \<Rightarrow> Inr None
     | Some doc \<Rightarrow> ebind (read_dscp_map doc) (\<lambda>m. Inr (Some m)))"

definition pause_source_ok :: "string \<Rightarrow> bool" where
  "pause_source_ok mac \<longleftrightarrow> mac_format mac \<and> map lower mac \<noteq> ''00:00:00:00:00:00'' \<and> even (first_octet mac)"

definition expected_smp :: "switch_configuration \<Rightarrow> int \<Rightarrow> string" where
  "expected_smp c tc = (if roce_ports c \<noteq> [] \<and> tc = 3 then ''smp-1'' else ''smp-0'')"

definition expected_internal :: "switch_configuration \<Rightarrow> int \<Rightarrow> int" where
  "expected_internal c p = (if p = 11 \<or> dscp_mode c \<and> p = 15 then 0 else p AND 7)"

definition global_matches :: "switch_configuration \<Rightarrow> roce_parts \<Rightarrow> xml \<Rightarrow> int list option \<Rightarrow> bool" where
  "global_matches c parts flow dscp \<longleftrightarrow>
     list_all (\<lambda>tc. smp_map flow (Some tc) = Some (Some (expected_smp c tc))) CLASSES
   \<and> list_all (\<lambda>(p, tc). forwarding_map (rq_forwarding parts) p = Some tc) (enumerate_int (qo_priority_map (sc_qos c)))
   \<and> (case dscp of Some m \<Rightarrow> m = dscp_map c | None \<Rightarrow> \<not> dscp_mode c)
   \<and> (roce_ports c \<noteq> [] \<longrightarrow>
        list_all (\<lambda>p. forwarding_map (rq_forwarding parts) p = Some (expected_internal c p)) [8, 9, 10, 11, 12, 13, 14, 15]
      \<and> pause_source_ok (attribute_or flow ''pause-smac'' []))"

subsection \<open>Watchdog\<close>

record watchdog_row =
  wr_supported :: bool
  wr_enabled :: bool
  wr_phase :: string
  wr_quality :: string
  wr_configuration_matches :: bool
  wr_saved_rx_mask :: "int option"
  wr_hardware_rx_mask :: "int option"
  wr_events :: "(string \<times> int option) list"

definition phase_name :: "int option \<Rightarrow> string" where
  "phase_name n = (case n of Some v \<Rightarrow>
     (case map_of [(0, ''disabled''), (1, ''observing''), (2, ''suspect''), (3, ''recovering''), (4, ''cooldown''),
                   (5, ''suspended''), (6, ''restore-failed'')] v of Some s \<Rightarrow> s | None \<Rightarrow> ''unavailable'')
   | None \<Rightarrow> ''unavailable'')"

definition watchdog_wanted :: "switch_configuration \<Rightarrow> int \<Rightarrow> bool" where
  "watchdog_wanted c port \<longleftrightarrow> port \<in> set (roce_ports c) \<and> wd_enabled (ro_watchdog (qo_roce (sc_qos c)))"

definition watchdog_expected :: "switch_configuration \<Rightarrow> int \<Rightarrow> int option list" where
  "watchdog_expected c port = (let w = ro_watchdog (qo_roce (sc_qos c)); wanted = port \<in> set (roce_ports c) in
     [Some (if watchdog_wanted c port then wd_detect_ms w else 0), Some (if wanted then wd_recovery_ms w else 100),
      Some (if wanted then wd_cooldown_ms w else 30000)])"

definition watchdog_matches :: "switch_configuration \<Rightarrow> xml \<Rightarrow> int \<Rightarrow> bool" where
  "watchdog_matches c node port =
     (let supported = attribute node ''watchdog-supported'' = Some ''1'';
          actual = map (number_of node) [''watchdog-detect-ms'', ''watchdog-recovery-ms'', ''watchdog-cooldown-ms''];
          expected = watchdog_expected c port
      in actual = [None, None, None] \<and> expected = [Some 0, Some 100, Some 30000]
         \<or> actual = expected \<and> (supported \<or> \<not> watchdog_wanted c port))"

definition leased :: "switch_configuration \<Rightarrow> xml \<Rightarrow> int \<Rightarrow> bool" where
  "leased c node port \<longleftrightarrow> watchdog_wanted c port \<and> watchdog_matches c node port
     \<and> phase_name (number_of node ''watchdog-phase'') = ''recovering''
     \<and> number_of node ''watchdog-saved-rx-mask'' = Some 8
     \<and> number_of node ''rx-class-mask'' = Some 0 \<and> number_of node ''rx-class-mask-hardware'' = Some 0"

definition watchdog_row_of :: "switch_configuration \<Rightarrow> rat \<Rightarrow> xml \<Rightarrow> int \<Rightarrow> watchdog_row" where
  "watchdog_row_of c monotonic_ms node port =
     (let phase = phase_name (number_of node ''watchdog-phase'');
          supported = attribute node ''watchdog-supported'' = Some ''1'';
          fresh = (case number_of node ''watchdog-sampled-ms'' of None \<Rightarrow> False
            | Some t \<Rightarrow> 0 \<le> monotonic_ms - of_int t \<and> monotonic_ms - of_int t \<le> 1500)
      in \<lparr>wr_supported = supported, wr_enabled = watchdog_wanted c port, wr_phase = phase,
          wr_quality = quality (supported \<and> (phase = ''disabled'' \<or> fresh \<and> attribute node ''watchdog-sample-status'' = Some ''0'')),
          wr_configuration_matches = watchdog_matches c node port,
          wr_saved_rx_mask = number_of node ''watchdog-saved-rx-mask'',
          wr_hardware_rx_mask = number_of node ''rx-class-mask-hardware'',
          wr_events = map (\<lambda>k. (k, number_of node (''watchdog-'' @ k))) [''detections'', ''restorations'', ''failures'', ''gaps'']\<rparr>)"

subsection \<open>Ports\<close>

text \<open>The scheduler is compared for a selected port when it is reported, or when a feature depends on it.\<close>

definition expected_weight :: "switch_configuration \<Rightarrow> int \<Rightarrow> int \<Rightarrow> int" where
  "expected_weight c port tc = (let d = dcbx_policy_of c; max_frame = (pc_mtu (port_of c port) + 25) AND NOT 3 in
     2 * max_frame * (if dp_enabled d then max 1 (dp_bandwidth d ! nat tc) else qo_weights (sc_qos c) ! nat tc))"

definition expected_strict :: "switch_configuration \<Rightarrow> int \<Rightarrow> string" where
  "expected_strict c tc = (if dscp_mode c \<and> tc = CNP_TC then ''on'' else ''off'')"

definition class_scheduled :: "switch_configuration \<Rightarrow> int \<Rightarrow> xml \<Rightarrow> int \<Rightarrow> bool" where
  "class_scheduled c port scheduler tc =
     ((case find_with ''group'' ''id'' (decimal_int tc) scheduler of None \<Rightarrow> False
       | Some g \<Rightarrow> attribute g ''strict'' = Some (expected_strict c tc) \<and> number_of g ''weight'' = Some (expected_weight c port tc)
           \<and> number_of g ''tc-boundary-a'' = Some tc \<and> number_of g ''tc-boundary-b'' = Some tc)
      \<and> (pc_egress_kbps (port_of c port) = 0 \<longrightarrow>
           (case find_with ''traffic-class'' ''id'' (decimal_int tc) scheduler of None \<Rightarrow> False
            | Some m \<Rightarrow> number_of m ''shaping-group'' = Some tc)))"

definition scheduler_node :: "roce_parts \<Rightarrow> int \<Rightarrow> xml option" where
  "scheduler_node parts port = (case rq_scheduler parts of None \<Rightarrow> None
     | Some doc \<Rightarrow> find (\<lambda>n. attribute n ''port'' = Some (decimal_int port)) (find_all [''scheduler'', ''interface''] doc))"

definition scheduler_matches :: "switch_configuration \<Rightarrow> roce_parts \<Rightarrow> int \<Rightarrow> bool option" where
  "scheduler_matches c parts port =
     (if port \<in> set (roce_ports c) \<and> (rq_scheduler parts \<noteq> None \<or> dscp_mode c \<or> dp_enabled (dcbx_policy_of c))
      then Some (case scheduler_node parts port of None \<Rightarrow> False
        | Some s \<Rightarrow> number_of s ''sched-groups'' = Some 8 \<and> number_of s ''tc-enable-mask'' = Some 255
            \<and> list_all (class_scheduled c port s) CLASSES)
      else None)"

definition trust_of :: "roce_parts \<Rightarrow> int \<Rightarrow> string option" where
  "trust_of parts port = (case py_dict (map (\<lambda>n. (number_of n ''port'', n))
     (find_all [''interfaces'', ''interface''] (rq_interfaces parts))) (Some port) of
     None \<Rightarrow> None | Some n \<Rightarrow> attribute n ''trust'')"

definition masks_match :: "switch_configuration \<Rightarrow> xml \<Rightarrow> int \<Rightarrow> bool" where
  "masks_match c node port = (let wanted = port \<in> set (roce_ports c); mask = (if wanted then 8 else 0); pool = (if wanted then 2 else 0) in
     (number_of node ''rx-class-mask'' = Some mask \<or> leased c node port)
   \<and> number_of node ''smp-lossless-mask'' = Some pool \<and> number_of node ''shared-pause-mask'' = Some pool
   \<and> watchdog_matches c node port \<and> phase_name (number_of node ''watchdog-phase'') \<noteq> ''restore-failed''
   \<and> (wanted \<or> attribute node ''pc3-smp'' \<noteq> None \<longrightarrow> number_of node ''pc3-smp'' = Some (if wanted then 1 else 2))
   \<and> (case number_of node ''rx-class-mask-hardware'' of None \<Rightarrow> True | Some m \<Rightarrow> m = mask \<or> leased c node port))"

definition selection_match :: "switch_configuration \<Rightarrow> roce_parts \<Rightarrow> xml \<Rightarrow> int \<Rightarrow> bool" where
  "selection_match c parts node port \<longleftrightarrow>
     number_of node ''tx-class-mask'' = Some 8 \<and> attribute node ''tx-pause-mode'' = Some ''class-based''
   \<and> number_of node ''tc3-pause-class'' = Some 3
   \<and> trust_of parts port = Some (if dscp_mode c then ''dscp'' else ''ieee-802.1p'')
   \<and> attribute node ''rx-pause'' = Some ''off''"

definition port_matches :: "switch_configuration \<Rightarrow> roce_parts \<Rightarrow> xml \<Rightarrow> int \<Rightarrow> bool" where
  "port_matches c parts node port \<longleftrightarrow> masks_match c node port
     \<and> (port \<in> set (roce_ports c) \<longrightarrow> selection_match c parts node port)
     \<and> scheduler_matches c parts port \<noteq> Some False"

record pause_row =
  pa_quality :: string
  pa_rx_quanta :: "int option list option"
  pa_paused_class_mask :: "int option"
  pa_generated_smp_mask :: "int option"

record roce_row =
  rr_port :: int
  rr_selected :: bool
  rr_configuration_matches :: bool
  rr_watchdog :: watchdog_row
  rr_scheduler_matches :: "bool option"
  rr_counter_epoch :: "string option"
  rr_pause :: pause_row
  rr_cnp_usage_bytes :: "int option"
  rr_link :: string
  rr_state_quality :: string
  rr_counter_quality :: string
  rr_rx_class_mask :: "int option"
  rr_tx_class_mask :: "int option"
  rr_pc3_smp :: "int option"
  rr_tc3_usage_bytes :: "int option"
  rr_rx_smp0_usage_bytes :: "int option"
  rr_rx_smp1_usage_bytes :: "int option"
  rr_counters :: "(string \<times> int option) list"
  rr_quality :: string

definition pause_of :: "xml \<Rightarrow> pause_row" where
  "pause_of node =
     (let quanta = map (\<lambda>v. number (Some v)) (py_words (attribute_or node ''rx-pause-quanta'' []));
          ok = attribute node ''pause-state-status'' = Some ''0'' \<and> length quanta = 8
             \<and> list_all (\<lambda>v. case v of None \<Rightarrow> False | Some n \<Rightarrow> n \<le> 65535) quanta
      in \<lparr>pa_quality = quality ok, pa_rx_quanta = (if ok then Some quanta else None),
          pa_paused_class_mask = (if ok then number_of node ''paused-class-mask'' else None),
          pa_generated_smp_mask = (if ok then number_of node ''generated-smp-pause-mask'' else None)\<rparr>)"

text \<open>The counters with their names in the report and in the native document.\<close>

definition COUNTERS :: "(string \<times> string) list" where
  "COUNTERS = [(''rx_pfc_packets'', ''rx-pfc-packets''), (''tx_pfc_packets'', ''tx-pfc-packets''),
     (''rx_pause_packets'', ''rx-pause-packets''), (''tx_pause_packets'', ''tx-pause-packets''),
     (''rx_congestion_drops'', ''rx-congestion-drops''), (''tx_congestion_drops'', ''tx-congestion-drops''),
     (''rx_errors'', ''rx-errors''), (''tx_errors'', ''tx-errors''), (''rx_bytes'', ''rx-bytes''), (''tx_bytes'', ''tx-bytes'')]"

definition counter_node :: "roce_parts \<Rightarrow> int \<Rightarrow> xml option" where
  "counter_node parts port = py_dict (map (\<lambda>p. (number_of p ''id'', p)) (children_named ''port'' (rq_ports parts))) (Some port)"

definition attribute_is :: "xml option \<Rightarrow> string \<Rightarrow> string \<Rightarrow> bool" where
  "attribute_is node name v = (case node of None \<Rightarrow> False | Some n \<Rightarrow> attribute n name = Some v)"

definition row_of :: "switch_configuration \<Rightarrow> roce_parts \<Rightarrow> rat \<Rightarrow> xml \<Rightarrow> int \<Rightarrow> roce_row" where
  "row_of c parts monotonic_ms node port =
     (let counter = counter_node parts port;
          valid_state = attribute_is counter ''state-status'' ''0'';
          valid_counter = attribute (rq_ports parts) ''counters'' = Some ''true'' \<and> attribute_is counter ''counter-status'' ''0'';
          stats = map (\<lambda>(k, tag). (k, if valid_counter then number_of_option counter tag else None)) COUNTERS;
          complete = list_all (\<lambda>(_, v). v \<noteq> None) stats
      in \<lparr>rr_port = port, rr_selected = (port \<in> set (roce_ports c)), rr_configuration_matches = port_matches c parts node port,
          rr_watchdog = watchdog_row_of c monotonic_ms node port, rr_scheduler_matches = scheduler_matches c parts port,
          rr_counter_epoch = (case counter of None \<Rightarrow> None | Some n \<Rightarrow> attribute n ''counter-epoch''),
          rr_pause = pause_of node, rr_cnp_usage_bytes = number_of node ''cnp-tc-usage'',
          rr_link = (if valid_state then (case counter of None \<Rightarrow> ''unknown'' | Some n \<Rightarrow> attribute_or n ''link'' ''unknown'') else ''unknown''),
          rr_state_quality = quality valid_state, rr_counter_quality = quality (valid_counter \<and> complete),
          rr_rx_class_mask = number_of node ''rx-class-mask'', rr_tx_class_mask = number_of node ''tx-class-mask'',
          rr_pc3_smp = number_of node ''pc3-smp'', rr_tc3_usage_bytes = number_of node ''tc3-usage'',
          rr_rx_smp0_usage_bytes = number_of node ''rx-smp0-usage'', rr_rx_smp1_usage_bytes = number_of node ''rx-smp1-usage'',
          rr_counters = stats, rr_quality = quality (valid_state \<and> valid_counter \<and> complete)\<rparr>)"

text \<open>The loop over the interfaces: every one counts for the verdict, the active ones get a row.\<close>

fun read_interfaces ::
  "switch_configuration \<Rightarrow> roce_parts \<Rightarrow> rat \<Rightarrow> xml list \<Rightarrow> int list \<Rightarrow> diagnostic_error + bool \<times> roce_row list \<times> int list" where
  "read_interfaces c parts ms [] seen = Inr (True, [], seen)"
| "read_interfaces c parts ms (node # nodes) seen =
     (case number_of node ''port'' of None \<Rightarrow> Inl RocePortInvalid
      | Some port \<Rightarrow> if port \<notin> fst ` set (sc_ports c) \<or> port \<in> set seen then Inl RocePortInvalid
          else ebind (read_interfaces c parts ms nodes (seen @ [port])) (\<lambda>(good, rows, all_seen).
            Inr (port_matches c parts node port \<and> good,
                 (if port \<in> set (active_ports c) then row_of c parts ms node port # rows else rows), all_seen)))"

subsection \<open>DCBX\<close>

record dcbx_profile =
  dx_priority_map :: "int list"
  dx_bandwidth :: "int list"
  dx_tsa_map :: "int list"
  dx_enabled :: bool
  dx_malformed :: bool
  dx_pfc_mask :: int
  dx_pfc_willing :: "string option"
  dx_ets_willing :: "string option"
  dx_complete :: bool
  dx_applications :: "dcbx_app list"

definition int_vector :: "xml \<Rightarrow> string \<Rightarrow> int list option" where
  "int_vector node name = (case all_some (map py_int (py_words (attribute_or node name []))) of
     None \<Rightarrow> None | Some v \<Rightarrow> if length v = 8 then Some v else None)"

definition int_attr :: "xml \<Rightarrow> string \<Rightarrow> int option" where
  "int_attr node name = (case attribute node name of None \<Rightarrow> None | Some s \<Rightarrow> py_int s)"

definition read_application :: "xml \<Rightarrow> dcbx_app option" where
  "read_application a = (case (int_attr a ''selector'', int_attr a ''protocol'', int_attr a ''priority'') of
     (Some s, Some p, Some q) \<Rightarrow> Some \<lparr>da_selector = s, da_protocol = p, da_priority = q\<rparr> | _ \<Rightarrow> None)"

definition application_ok :: "dcbx_app \<Rightarrow> bool" where
  "application_ok a \<longleftrightarrow> 1 \<le> da_selector a \<and> da_selector a \<le> 5 \<and> 0 \<le> da_priority a \<and> da_priority a \<le> 7
     \<and> 0 \<le> da_protocol a \<and> da_protocol a \<le> (if da_selector a = 5 then 63 else 65535)"

definition read_profile :: "xml option \<Rightarrow> dcbx_profile option" where
  "read_profile node = (case node of None \<Rightarrow> None | Some n \<Rightarrow>
     (case (int_vector n ''priority-map'', int_vector n ''bandwidth'', int_vector n ''tsa-map'',
            all_some (map read_application (children_named ''application'' n)), int_attr n ''pfc-mask'') of
        (Some prio, Some bw, Some tsa, Some apps, Some pfc) \<Rightarrow>
          if list_ex (\<lambda>v. \<not> (0 \<le> v \<and> v \<le> 7)) prio \<or> list_ex (\<lambda>v. \<not> (0 \<le> v \<and> v \<le> 100)) bw
            \<or> list_ex (\<lambda>v. v \<notin> {0, 1, 2, 255}) tsa \<or> length apps > 32 \<or> list_ex (\<lambda>a. \<not> application_ok a) apps then None
          else Some \<lparr>dx_priority_map = prio, dx_bandwidth = bw, dx_tsa_map = tsa,
            dx_enabled = (attribute n ''enabled'' = Some ''true''), dx_malformed = (attribute n ''malformed'' \<noteq> Some ''false''),
            dx_pfc_mask = pfc, dx_pfc_willing = attribute n ''pfc-willing'', dx_ets_willing = attribute n ''ets-willing'',
            dx_complete = list_all (\<lambda>k. attribute n (k @ ''-present'') = Some ''true'') [''pfc'', ''ets'', ''app''],
            dx_applications = apps\<rparr>
      | _ \<Rightarrow> None))"

definition app_key :: "dcbx_app \<Rightarrow> int \<times> int \<times> int" where
  "app_key a = (da_selector a, da_protocol a, da_priority a)"

definition local_policy :: "dcbx_policy \<Rightarrow> dcbx_profile \<Rightarrow> bool" where
  "local_policy expected l \<longleftrightarrow> dx_enabled l \<and> dx_complete l \<and> \<not> dx_malformed l
     \<and> dx_pfc_willing l = Some ''false'' \<and> dx_ets_willing l = Some ''false''
     \<and> dx_pfc_mask l = dp_pfc_mask expected \<and> dx_priority_map l = dp_priority_map expected
     \<and> dx_bandwidth l = dp_bandwidth expected \<and> dx_tsa_map l = dp_tsa_map expected
     \<and> sort_key app_key (dx_applications l) = sort_key app_key (dp_applications expected)"

record dcbx_peer =
  pe_state :: string
  pe_system_name :: string
  pe_age_seconds :: "string option"
  pe_ttl :: "string option"
  pe_policy :: "dcbx_profile option"

definition peer_of :: "xml \<Rightarrow> dcbx_peer" where
  "peer_of p =
     (let policy = read_profile (find_first [''remote''] p); state = attribute_or p ''state'' ''unknown'';
          current = (case (int_attr p ''age-seconds'', int_attr p ''ttl'') of (Some a, Some t) \<Rightarrow> 0 \<le> a \<and> a < t | _ \<Rightarrow> False)
      in \<lparr>pe_state = (if \<not> current then ''expired''
            else if state = ''matched'' \<and> (case policy of None \<Rightarrow> True | Some x \<Rightarrow> dx_malformed x \<or> \<not> dx_complete x)
            then ''malformed-peer'' else state),
          pe_system_name = attribute_or p ''system-name'' [], pe_age_seconds = attribute p ''age-seconds'',
          pe_ttl = attribute p ''ttl'', pe_policy = policy\<rparr>)"

record dcbx_row =
  dr_port :: int
  dr_configuration_matches :: bool
  dr_state :: string
  dr_local :: "dcbx_profile option"
  dr_peers :: "dcbx_peer list"
  dr_tx_frames :: "int option"

definition dcbx_selected :: "switch_configuration \<Rightarrow> int list" where
  "dcbx_selected c = (if dp_enabled (dcbx_policy_of c) then ro_ports (qo_roce (sc_qos c)) else [])"

definition dcbx_row_of :: "switch_configuration \<Rightarrow> (int \<Rightarrow> string option) \<Rightarrow> xml \<Rightarrow> int \<Rightarrow> int \<Rightarrow> dcbx_row" where
  "dcbx_row_of c links node port tx_frames =
     (let l = read_profile (find_first [''local''] node);
          good = port \<in> set (dcbx_selected c) \<and> attribute node ''lldp-enabled'' = Some ''true''
            \<and> (case l of None \<Rightarrow> False | Some x \<Rightarrow> local_policy (dcbx_policy_of c) x);
          peers = map peer_of (children_named ''peer'' node)
      in \<lparr>dr_port = port, dr_configuration_matches = good,
          dr_state = (if \<not> good then ''local-mismatch'' else if links port \<noteq> Some ''up'' then ''link-down''
            else (case peers of [] \<Rightarrow> ''no-peer'' | [p] \<Rightarrow> pe_state p | _ \<Rightarrow> ''multiple-peers'')),
          dr_local = l, dr_peers = peers, dr_tx_frames = Some tx_frames\<rparr>)"

fun read_dcbx_rows ::
  "switch_configuration \<Rightarrow> (int \<Rightarrow> string option) \<Rightarrow> xml list \<Rightarrow> int list \<Rightarrow> diagnostic_error + dcbx_row list" where
  "read_dcbx_rows c links [] seen = Inr []"
| "read_dcbx_rows c links (node # nodes) seen =
     (case (int_attr node ''port'', int_attr node ''tx-frames'') of
        (Some port, Some tx) \<Rightarrow>
          if port \<in> set seen \<or> port \<notin> fst ` set (sc_ports c) \<or> tx < 0 then Inl DcbxPortRepeated
          else ebind (read_dcbx_rows c links nodes (seen @ [port])) (\<lambda>rows. Inr (dcbx_row_of c links node port tx # rows))
      | _ \<Rightarrow> Inl DcbxPortInvalid)"

record dcbx_report =
  dc_mode :: string
  dc_quality :: string
  dc_configuration_matches :: bool
  dc_ports :: "dcbx_row list"

definition missing_row :: "int \<Rightarrow> dcbx_row" where
  "missing_row port = \<lparr>dr_port = port, dr_configuration_matches = False, dr_state = ''local-missing'',
     dr_local = None, dr_peers = [], dr_tx_frames = None\<rparr>"

definition decode_dcbx :: "switch_configuration \<Rightarrow> (int \<Rightarrow> string option) \<Rightarrow> xml \<Rightarrow> diagnostic_error + dcbx_report" where
  "decode_dcbx c links doc =
     (if xml_tag doc \<noteq> ''dcbx'' \<or> attribute doc ''mode'' \<noteq> Some ''ieee-local'' \<or> attribute doc ''peer-policy-applied'' \<noteq> Some ''false''
      then Inl DcbxIncompatible
      else ebind (read_dcbx_rows c links (children_named ''interface'' doc) []) (\<lambda>found.
        let selected = dcbx_selected c; seen = map dr_port found;
            rows = found @ map missing_row (filter (\<lambda>p. p \<notin> set seen) (sort (remdups selected)))
        in Inr \<lparr>dc_mode = (if dp_enabled (dcbx_policy_of c) then ''ieee'' else ''off''), dc_quality = ''valid'',
             dc_configuration_matches = (set selected = set seen \<and> list_all dr_configuration_matches rows),
             dc_ports = sort_key dr_port rows\<rparr>))"

subsection \<open>The report\<close>

record watermark_row =
  wm_port :: "int option"
  wm_partitions :: "(string \<times> string) list list"
  wm_traffic_classes :: "(string \<times> string) list list"

record roce_report =
  ro_revision :: int
  ro_sampled_at :: rat
  ro_sample_generation :: "int option"
  ro_configuration_applied :: bool
  ro_active :: bool
  ro_buffer_ready :: bool
  ro_buffer_status :: string
  ro_pause_source_mac :: "string option"
  ro_dcbx_report :: dcbx_report
  ro_dscp_map :: "int list option"
  ro_cnp_enabled :: bool
  ro_tc_smp_map :: "string option list"
  ro_rows :: "roce_row list"
  ro_smp_usage_bytes :: "int option list"
  ro_shared_watermarks :: "(string \<times> string) list list"
  ro_watermarks :: "watermark_row list"
  ro_budget :: Roce_Policy.buffer_budget

definition no_dcbx :: "switch_configuration \<Rightarrow> dcbx_report" where
  "no_dcbx c = \<lparr>dc_mode = ''off'', dc_quality = ''unavailable'',
     dc_configuration_matches = (\<not> dp_enabled (dcbx_policy_of c)), dc_ports = []\<rparr>"

definition dcbx_of :: "switch_configuration \<Rightarrow> roce_parts \<Rightarrow> roce_row list \<Rightarrow> diagnostic_error + dcbx_report" where
  "dcbx_of c parts rows = (case rq_dcbx parts of None \<Rightarrow> Inr (no_dcbx c)
     | Some doc \<Rightarrow> decode_dcbx c (\<lambda>p. py_dict (map (\<lambda>r. (rr_port r, rr_link r)) rows) p) doc)"

definition watermark_row_of :: "xml \<Rightarrow> watermark_row" where
  "watermark_row_of p = \<lparr>wm_port = number_of p ''port'',
     wm_partitions = map xml_attributes (children_named ''memory-partition'' p),
     wm_traffic_classes = map xml_attributes (children_named ''traffic-class'' p)\<rparr>"

definition decode_operational ::
  "switch_configuration \<Rightarrow> roce_parts \<Rightarrow> int \<Rightarrow> rat \<Rightarrow> rat \<Rightarrow> diagnostic_error + roce_report" where
  "decode_operational c parts revision wall monotonic_ms =
     (case (find_first [''flow-control''] (rq_flow_control parts), find_first [''watermarks''] (rq_watermarks parts)) of
        (Some flow, Some marks) \<Rightarrow>
          if attribute (rq_ports parts) ''status'' \<noteq> Some ''ok'' then Inl RoceIncomplete
          else if \<not> smp_complete flow then Inl RoceMapping
          else ebind (actual_dscp parts) (\<lambda>dscp.
            ebind (read_interfaces c parts monotonic_ms (children_named ''interface'' flow) []) (\<lambda>(good, rows, seen).
              if \<not> set (active_ports c) \<subseteq> set seen then Inl RocePortMissing
              else ebind (dcbx_of c parts rows) (\<lambda>dcbx.
                let ready = attribute flow ''roce-buffer-status'' = Some ''0'';
                    matches = global_matches c parts flow dscp \<and> good \<and> dc_configuration_matches dcbx
                in Inr \<lparr>ro_revision = revision, ro_sampled_at = wall, ro_sample_generation = number_of (rq_ports parts) ''generation'',
                     ro_configuration_applied = (matches \<and> (roce_ports c \<noteq> [] \<longrightarrow> ready)), ro_active = (roce_ports c \<noteq> []),
                     ro_buffer_ready = ready, ro_buffer_status = attribute_or flow ''roce-buffer-status'' ''unsupported'',
                     ro_pause_source_mac = attribute flow ''pause-smac'', ro_dcbx_report = dcbx, ro_dscp_map = dscp,
                     ro_cnp_enabled = dscp_mode c,
                     ro_tc_smp_map = map (\<lambda>tc. case smp_map flow (Some tc) of Some s \<Rightarrow> s | None \<Rightarrow> None) CLASSES,
                     ro_rows = rows,
                     ro_smp_usage_bytes = map (number_of flow) [''smp0-usage'', ''smp1-usage''],
                     ro_shared_watermarks = map xml_attributes (children_named ''shared-memory'' marks),
                     ro_watermarks = map watermark_row_of (children_named ''interface'' marks),
                     ro_budget = buffer_budget (max_mtu c)\<rparr>)))
      | _ \<Rightarrow> Inl RoceIncomplete)"

end
