(* ===== verification/Roce_Monitor.thy ===== *)
theory Roce_Monitor
  imports Roce_Operational
begin

text \<open>
  roce_monitor.py: the bounded history of RoCE samples and the suspicion that a port is stuck paused.
  Times are milliseconds. A suspicion is raised from samples only: the state keeps, per port, how long
  consecutive samples have shown the stall.
\<close>

definition INTERVAL_MS :: int where "INTERVAL_MS = 10000"

record prior_row =
  pr_stalled :: bool
  pr_observed :: int
  pr_alarm :: bool
  pr_tx_bytes :: "int option"

datatype stall_kind = StallSuspected | StallCleared

record stall_event =
  se_time :: rat
  se_revision :: int
  se_port :: int
  se_kind :: stall_kind

record monitor_row =
  mr_port :: int
  mr_pause_observed :: "bool option"
  mr_observed_stall :: int
  mr_suspected_stall :: bool
  mr_tc3_usage :: "int option"
  mr_tc3_peak :: "int option"
  mr_quality :: string

record monitor_sample =
  ms_time :: rat
  ms_revision :: int
  ms_ports :: "monitor_row list"

record stall_monitor =
  mo_last_read :: "int option"
  mo_revision :: "int option"
  mo_generation :: "int option"
  mo_previous :: "(int \<times> prior_row) list"
  mo_history :: "monitor_sample list"
  mo_events :: "stall_event list"
  mo_peaks :: "(int \<times> int) list"

definition new_monitor :: stall_monitor where
  "new_monitor = \<lparr>mo_last_read = None, mo_revision = None, mo_generation = None, mo_previous = [],
     mo_history = [], mo_events = [], mo_peaks = []\<rparr>"

definition monitor_gap :: "stall_monitor \<Rightarrow> stall_monitor" where
  "monitor_gap m = m\<lparr>mo_previous := [], mo_generation := None\<rparr>"

definition pause_seen :: "roce_row \<Rightarrow> bool option" where
  "pause_seen r = (case pa_paused_class_mask (rr_pause r) of None \<Rightarrow> None
     | Some pauses \<Rightarrow> if pa_quality (rr_pause r) = ''valid'' then Some (pauses AND 8 \<noteq> 0) else None)"

definition row_valid :: "roce_report \<Rightarrow> roce_row \<Rightarrow> bool" where
  "row_valid sample r \<longleftrightarrow> ro_configuration_applied sample \<and> rr_link r = ''up'' \<and> rr_quality r = ''valid''
     \<and> pa_quality (rr_pause r) = ''valid''"

definition tx_bytes :: "roce_row \<Rightarrow> int option" where
  "tx_bytes r = (case map_of (rr_counters r) ''tx_bytes'' of None \<Rightarrow> None | Some v \<Rightarrow> v)"

definition stalled :: "roce_report \<Rightarrow> roce_row \<Rightarrow> bool" where
  "stalled sample r \<longleftrightarrow> row_valid sample r \<and> pause_seen r = Some True
     \<and> (case rr_tc3_usage_bytes r of None \<Rightarrow> False | Some u \<Rightarrow> u > 0) \<and> tx_bytes r \<noteq> None"

definition continuous_with :: "stall_monitor \<Rightarrow> roce_report \<Rightarrow> int \<Rightarrow> bool" where
  "continuous_with m sample now = (case (mo_last_read m, ro_sample_generation sample, mo_generation m) of
     (Some before, Some g, Some h) \<Rightarrow> 0 < now - before \<and> now - before \<le> 3 * INTERVAL_MS \<and> g > h
   | _ \<Rightarrow> False)"

definition elapsed_since :: "stall_monitor \<Rightarrow> int \<Rightarrow> int" where
  "elapsed_since m now = (case mo_last_read m of None \<Rightarrow> 0 | Some before \<Rightarrow> now - before)"

text \<open>What one port of the sample does to the record of the previous sample.\<close>

definition judge :: "roce_report \<Rightarrow> bool \<Rightarrow> int \<Rightarrow> prior_row option \<Rightarrow> roce_row \<Rightarrow> prior_row" where
  "judge sample steady elapsed prior r =
     (let st = stalled sample r;
          observed = (case prior of
              Some p \<Rightarrow> if st \<and> pr_stalled p \<and> tx_bytes r = pr_tx_bytes p \<and> steady then pr_observed p + elapsed else 0
            | None \<Rightarrow> 0)
      in \<lparr>pr_stalled = st, pr_observed = observed, pr_alarm = (st \<and> observed \<ge> 30000), pr_tx_bytes = tx_bytes r\<rparr>)"

definition event_of :: "roce_report \<Rightarrow> roce_row \<Rightarrow> stall_kind \<Rightarrow> stall_event" where
  "event_of sample r kind = \<lparr>se_time = ro_sampled_at sample, se_revision = ro_revision sample, se_port = rr_port r, se_kind = kind\<rparr>"

definition alarm_before :: "prior_row option \<Rightarrow> bool" where
  "alarm_before prior \<longleftrightarrow> (case prior of None \<Rightarrow> False | Some p \<Rightarrow> pr_alarm p)"

definition new_events :: "roce_report \<Rightarrow> prior_row option \<Rightarrow> prior_row \<Rightarrow> roce_row \<Rightarrow> stall_event list" where
  "new_events sample prior verdict r =
     (if pr_alarm verdict \<and> \<not> alarm_before prior then [event_of sample r StallSuspected] else [])
   @ (if alarm_before prior \<and> row_valid sample r \<and> \<not> pr_alarm verdict then [event_of sample r StallCleared] else [])"

definition new_peaks :: "(int \<times> int) list \<Rightarrow> roce_row \<Rightarrow> (int \<times> int) list" where
  "new_peaks peaks r = (case rr_tc3_usage_bytes r of
     Some u \<Rightarrow> if u \<ge> 0 then dict_set peaks (rr_port r) (max (case map_of peaks (rr_port r) of None \<Rightarrow> 0 | Some p \<Rightarrow> p) u) else peaks
   | None \<Rightarrow> peaks)"

definition observe_row ::
  "roce_report \<Rightarrow> bool \<Rightarrow> int \<Rightarrow> roce_row \<Rightarrow> stall_monitor \<times> monitor_row list \<Rightarrow> stall_monitor \<times> monitor_row list" where
  "observe_row sample steady elapsed r acc = (case acc of (m, rows) \<Rightarrow>
     (let prior = map_of (mo_previous m) (rr_port r);
          verdict = judge sample steady elapsed prior r;
          peaks = new_peaks (mo_peaks m) r
      in (m\<lparr>mo_events := py_last 64 (mo_events m @ new_events sample prior verdict r),
            mo_previous := dict_set (mo_previous m) (rr_port r) verdict, mo_peaks := peaks\<rparr>,
          rows @ [\<lparr>mr_port = rr_port r, mr_pause_observed = pause_seen r, mr_observed_stall = pr_observed verdict,
            mr_suspected_stall = pr_alarm verdict, mr_tc3_usage = rr_tc3_usage_bytes r,
            mr_tc3_peak = map_of peaks (rr_port r), mr_quality = quality (row_valid sample r)\<rparr>])))"

definition fresh_revision :: "roce_report \<Rightarrow> stall_monitor \<Rightarrow> stall_monitor" where
  "fresh_revision sample m =
     (if mo_revision m = Some (ro_revision sample) then m
      else (monitor_gap m)\<lparr>mo_peaks := [], mo_history := [], mo_revision := Some (ro_revision sample)\<rparr>)"

definition observe :: "roce_report \<Rightarrow> int \<Rightarrow> stall_monitor \<Rightarrow> monitor_row list \<times> stall_monitor" where
  "observe sample now m0 =
     (let m1 = fresh_revision sample m0;
          steady = continuous_with m1 sample now;
          m2 = (if steady then m1 else m1\<lparr>mo_previous := []\<rparr>);
          (m3, rows) = fold (observe_row sample steady (elapsed_since m1 now)) (filter rr_selected (ro_rows sample)) (m2, [])
      in (rows, m3\<lparr>mo_last_read := Some now, mo_generation := ro_sample_generation sample,
            mo_history := py_last 180 (mo_history m3 @ [\<lparr>ms_time = ro_sampled_at sample, ms_revision = ro_revision sample, ms_ports = rows\<rparr>])\<rparr>))"

text \<open>A run of the monitor: samples with their clock value and, after a failed reading, gaps.\<close>

datatype monitor_event = Sampled roce_report int | Gap

fun monitor_step :: "monitor_event \<Rightarrow> stall_monitor \<Rightarrow> stall_monitor" where
  "monitor_step (Sampled sample now) m = snd (observe sample now m)"
| "monitor_step Gap m = monitor_gap m"

definition observe_all :: "monitor_event list \<Rightarrow> stall_monitor" where
  "observe_all obs = fold monitor_step obs new_monitor"

subsection \<open>What a suspicion is evidence of\<close>

definition follows :: "roce_report \<times> int \<Rightarrow> roce_report \<times> int \<Rightarrow> bool" where
  "follows a b \<longleftrightarrow> snd a < snd b \<and> snd b - snd a \<le> 3 * INTERVAL_MS \<and> ro_revision (fst a) = ro_revision (fst b)
     \<and> (\<exists>g h. ro_sample_generation (fst a) = Some g \<and> ro_sample_generation (fst b) = Some h \<and> g < h)"

definition stuck :: "int \<Rightarrow> int option \<Rightarrow> roce_report \<times> int \<Rightarrow> bool" where
  "stuck port bytes x \<longleftrightarrow> (\<forall>r \<in> set (ro_rows (fst x)). rr_selected r \<and> rr_port r = port \<longrightarrow> stalled (fst x) r \<and> tx_bytes r = bytes)"

definition evidence :: "int \<Rightarrow> prior_row \<Rightarrow> monitor_event list \<Rightarrow> bool" where
  "evidence port p obs \<longleftrightarrow> (\<exists>early late. obs = early @ map (\<lambda>(s, t). Sampled s t) late \<and> late \<noteq> []
     \<and> successively follows late \<and> (\<forall>x \<in> set late. stuck port (pr_tx_bytes p) x)
     \<and> pr_observed p \<le> snd (last late) - snd (hd late))"

lemma fold_rows:
  assumes "distinct (map rr_port rows)"
  shows "map_of (mo_previous (fst (fold (observe_row sample st el) rows (m, acc)))) port =
    (case find (\<lambda>r. rr_port r = port) rows of None \<Rightarrow> map_of (mo_previous m) port
       | Some r \<Rightarrow> Some (judge sample st el (map_of (mo_previous m) port) r))"
  using assms
proof (induction rows arbitrary: m acc)
  case (Cons r rows)
  obtain m' acc' where step: "observe_row sample st el r (m, acc) = (m', acc')" by (metis surj_pair)
  then have prev: "mo_previous m' = dict_set (mo_previous m) (rr_port r) (judge sample st el (map_of (mo_previous m) (rr_port r)) r)"
    by (auto simp: observe_row_def Let_def)
  have "find (\<lambda>q. rr_port q = rr_port r) rows = None" using Cons.prems by (auto simp: find_None_iff) (metis imageI)
  with Cons step prev show ?case by (auto split: option.splits)
qed simp

text \<open>The clock and the generation of the monitor are those of the last sample, when it is not followed by a gap.\<close>

definition synchronised :: "stall_monitor \<Rightarrow> monitor_event list \<Rightarrow> bool" where
  "synchronised m obs \<longleftrightarrow> (\<forall>g. mo_generation m = Some g \<longrightarrow> (\<exists>early s t. obs = early @ [Sampled s t]
     \<and> mo_last_read m = Some t \<and> ro_sample_generation s = Some g \<and> mo_revision m = Some (ro_revision s)))"

definition supported :: "stall_monitor \<Rightarrow> monitor_event list \<Rightarrow> bool" where
  "supported m obs \<longleftrightarrow> (\<forall>port p. map_of (mo_previous m) port = Some p \<longrightarrow>
     (pr_alarm p \<longrightarrow> pr_stalled p \<and> 30000 \<le> pr_observed p) \<and> 0 \<le> pr_observed p \<and> (pr_stalled p \<longrightarrow> evidence port p obs))"

lemma evidence_first:
  assumes "\<forall>r \<in> set (ro_rows s). rr_selected r \<and> rr_port r = port \<longrightarrow> stalled s r \<and> tx_bytes r = pr_tx_bytes p" and "pr_observed p \<le> 0"
  shows "evidence port p (obs @ [Sampled s now])"
  unfolding evidence_def using assms by (intro exI [of _ obs] exI [of _ "[(s, now)]"]) (auto simp: stuck_def)

lemma evidence_next:
  assumes "evidence port p (early @ [Sampled s t])" and "follows (s, t) (s', now)"
    and "\<forall>r \<in> set (ro_rows s'). rr_selected r \<and> rr_port r = port \<longrightarrow> stalled s' r \<and> tx_bytes r = pr_tx_bytes p"
    and "pr_tx_bytes q = pr_tx_bytes p" and "pr_observed q \<le> pr_observed p + (now - t)"
  shows "evidence port q (early @ [Sampled s t, Sampled s' now])"
proof -
  from assms(1) obtain before late where late: "early @ [Sampled s t] = before @ map (\<lambda>(s, t). Sampled s t) late" "late \<noteq> []"
    "successively follows late" "\<forall>x \<in> set late. stuck port (pr_tx_bytes p) x" "pr_observed p \<le> snd (last late) - snd (hd late)"
    by (auto simp: evidence_def)
  then obtain rest x where rest: "late = rest @ [x]" by (metis append_butlast_last_id)
  with late(1) have x: "x = (s, t)" "early = before @ map (\<lambda>(s, t). Sampled s t) rest" by (cases x; auto)+
  have "early @ [Sampled s t, Sampled s' now] = before @ map (\<lambda>(s, t). Sampled s t) (late @ [(s', now)])"
    using rest x by simp
  moreover have "successively follows (late @ [(s', now)])"
    using late(3) assms(2) rest x by (simp add: successively_append_iff)
  moreover have "\<forall>y \<in> set (late @ [(s', now)]). stuck port (pr_tx_bytes q) y"
    using late(4) assms(3,4) by (auto simp: stuck_def)
  moreover have "pr_observed q \<le> snd (last (late @ [(s', now)])) - snd (hd (late @ [(s', now)]))"
  proof -
    have "hd (late @ [(s', now)]) = hd late" using late(2) by simp
    moreover have "last late = (s, t)" using rest x by simp
    ultimately show ?thesis using late(5) assms(5) by simp
  qed
  ultimately show ?thesis unfolding evidence_def by blast
qed

lemma supported_gap: "supported m obs \<Longrightarrow> supported (monitor_gap m) obs'" "synchronised (monitor_gap m) obs'"
  by (simp_all add: supported_def synchronised_def monitor_gap_def)

lemma observe_state:
  assumes "observe sample now m = (rows, m')" and "distinct (map rr_port (ro_rows sample))"
  defines "m1 \<equiv> fresh_revision sample m"
  shows "mo_last_read m' = Some now" and "mo_generation m' = ro_sample_generation sample"
    and "mo_revision m' = Some (ro_revision sample)"
    and "map_of (mo_previous m') port =
      (let before = (if continuous_with m1 sample now then map_of (mo_previous m1) port else None) in
       case find (\<lambda>r. rr_port r = port) (filter rr_selected (ro_rows sample)) of None \<Rightarrow> before
         | Some r \<Rightarrow> Some (judge sample (continuous_with m1 sample now) (elapsed_since m1 now) before r))"
proof -
  define st where "st = continuous_with m1 sample now"
  define m2 where "m2 = (if st then m1 else m1\<lparr>mo_previous := []\<rparr>)"
  define res where "res = fold (observe_row sample st (elapsed_since m1 now)) (filter rr_selected (ro_rows sample)) (m2, [])"
  have m': "m' = (fst res)\<lparr>mo_last_read := Some now, mo_generation := ro_sample_generation sample,
      mo_history := py_last 180 (mo_history (fst res) @ [\<lparr>ms_time = ro_sampled_at sample, ms_revision = ro_revision sample, ms_ports = snd res\<rparr>])\<rparr>"
    using assms(1) by (auto simp: observe_def Let_def m1_def [symmetric] st_def [symmetric] m2_def [symmetric] res_def [symmetric] split: prod.splits)
  have "mo_revision (fst (fold (observe_row sample st el) rs (n, acc))) = mo_revision n" for el rs n acc
    by (induction rs arbitrary: n acc) (simp_all add: observe_row_def Let_def)
  moreover have "mo_revision m2 = Some (ro_revision sample)" by (simp add: m2_def m1_def fresh_revision_def)
  ultimately show "mo_revision m' = Some (ro_revision sample)" by (simp add: m' res_def)
  show "mo_last_read m' = Some now" "mo_generation m' = ro_sample_generation sample" by (simp_all add: m')
  have "distinct (map rr_port (filter rr_selected (ro_rows sample)))" using assms(2) by (rule distinct_map_filter)
  note fold = fold_rows [OF this, of sample st "elapsed_since m1 now" m2 "[]" port, folded res_def]
  have prev: "map_of (mo_previous m2) port = (if st then map_of (mo_previous m1) port else None)" by (simp add: m2_def)
  show "map_of (mo_previous m') port =
      (let before = (if continuous_with m1 sample now then map_of (mo_previous m1) port else None) in
       case find (\<lambda>r. rr_port r = port) (filter rr_selected (ro_rows sample)) of None \<Rightarrow> before
         | Some r \<Rightarrow> Some (judge sample (continuous_with m1 sample now) (elapsed_since m1 now) before r))"
    unfolding st_def [symmetric] Let_def using fold [unfolded prev] by (simp add: m')
qed

lemma selected_row_unique:
  assumes "distinct (map rr_port rows)" and "find (\<lambda>r. rr_port r = port) (filter rr_selected rows) = Some r"
    and "q \<in> set rows" and "rr_selected q" and "rr_port q = port"
  shows "q = r"
proof -
  from assms(2) have "r \<in> set rows" "rr_port r = port" by (auto simp: find_Some_iff dest: nth_mem)
  with assms(1,3,5) show ?thesis by (simp add: distinct_map inj_on_def)
qed

lemma continuous_follows:
  assumes "synchronised m obs" and "continuous_with (fresh_revision sample m) sample now"
  obtains early s t where "obs = early @ [Sampled s t]" and "follows (s, t) (sample, now)"
    and "fresh_revision sample m = m" and "elapsed_since m now = now - t" and "0 < now - t"
proof -
  have same: "fresh_revision sample m = m"
    using assms(2) by (auto simp: fresh_revision_def continuous_with_def monitor_gap_def split: option.splits if_splits)
  with assms(2) obtain before g h where c: "mo_last_read m = Some before" "ro_sample_generation sample = Some g" "mo_generation m = Some h"
    "0 < now - before" "now - before \<le> 3 * INTERVAL_MS" "g > h"
    by (auto simp: continuous_with_def split: option.splits)
  from assms(1) c(3) obtain early s t where s: "obs = early @ [Sampled s t]" "mo_last_read m = Some t" "ro_sample_generation s = Some h"
    "mo_revision m = Some (ro_revision s)" by (auto simp: synchronised_def)
  have "mo_generation (fresh_revision sample m) = Some h" using same c(3) by simp
  then have "mo_revision m = Some (ro_revision sample)"
    by (auto simp: fresh_revision_def monitor_gap_def split: if_splits)
  with c s same show thesis by (intro that [of early s t]) (auto simp: follows_def elapsed_since_def)
qed

text \<open>One sample keeps the evidence.\<close>

lemma supported_observe:
  assumes "supported m obs" and "synchronised m obs" and "distinct (map rr_port (ro_rows sample))"
  shows "supported (snd (observe sample now m)) (obs @ [Sampled sample now])"
proof -
  define m1 where "m1 = fresh_revision sample m"
  define st where "st = continuous_with m1 sample now"
  obtain rows m' where run: "observe sample now m = (rows, m')" by (metis surj_pair)
  note state = observe_state [OF run assms(3), folded m1_def, folded st_def]
  have "(pr_alarm p \<longrightarrow> pr_stalled p \<and> 30000 \<le> pr_observed p) \<and> 0 \<le> pr_observed p \<and> (pr_stalled p \<longrightarrow> evidence port p (obs @ [Sampled sample now]))"
    if p: "map_of (mo_previous m') port = Some p" for port p
  proof -
    define before where "before = (if st then map_of (mo_previous m1) port else None)"
    have cases: "(case find (\<lambda>r. rr_port r = port) (filter rr_selected (ro_rows sample)) of None \<Rightarrow> before
        | Some r \<Rightarrow> Some (judge sample st (elapsed_since m1 now) before r)) = Some p"
      using state(4) [of port, folded before_def] p by (simp add: Let_def)
    have prior: "\<exists>early s t. obs = early @ [Sampled s t] \<and> follows (s, t) (sample, now) \<and> elapsed_since m1 now = now - t \<and> 0 < now - t
        \<and> (pr_alarm q \<longrightarrow> pr_stalled q \<and> 30000 \<le> pr_observed q) \<and> 0 \<le> pr_observed q \<and> (pr_stalled q \<longrightarrow> evidence port q obs)"
      if q: "before = Some q" for q
    proof -
      from q have st: "continuous_with (fresh_revision sample m) sample now" "map_of (mo_previous m1) port = Some q"
        by (auto simp: before_def st_def m1_def split: if_splits)
      show ?thesis
        by (rule continuous_follows [OF assms(2) st(1)])
          (use st(2) assms(1) in \<open>auto simp: m1_def supported_def\<close>)
    qed
    show ?thesis
    proof (cases "find (\<lambda>r. rr_port r = port) (filter rr_selected (ro_rows sample))")
      case None
      with cases have q: "before = Some p" by simp
      have absent: "\<forall>r \<in> set (ro_rows sample). rr_selected r \<and> rr_port r = port \<longrightarrow> stalled sample r \<and> tx_bytes r = pr_tx_bytes p"
        using None by (auto simp: find_None_iff)
      from prior [OF q] obtain early s t where e: "obs = early @ [Sampled s t]" "follows (s, t) (sample, now)" "0 < now - t"
        "pr_alarm p \<longrightarrow> pr_stalled p \<and> 30000 \<le> pr_observed p" "0 \<le> pr_observed p" "pr_stalled p \<longrightarrow> evidence port p obs" by blast
      have "pr_stalled p \<longrightarrow> evidence port p (early @ [Sampled s t, Sampled sample now])"
        using e evidence_next [of port p early s t sample now p] absent by simp
      with e show ?thesis by simp
    next
      case (Some r)
      with cases have p: "p = judge sample st (elapsed_since m1 now) before r" by simp
      have row: "\<forall>q \<in> set (ro_rows sample). rr_selected q \<and> rr_port q = port \<longrightarrow> q = r"
        using selected_row_unique [OF assms(3) Some] by blast
      have fields: "pr_stalled p = stalled sample r" "pr_tx_bytes p = tx_bytes r" "pr_alarm p = (stalled sample r \<and> pr_observed p \<ge> 30000)"
        by (simp_all add: p judge_def Let_def)
      show ?thesis
      proof (cases "pr_observed p \<le> 0 \<or> \<not> stalled sample r")
        case True
        moreover have "0 \<le> pr_observed p"
        proof (cases before)
          case (Some q)
          with prior [OF Some] show ?thesis by (auto simp: p judge_def Let_def)
        qed (simp add: p judge_def)
        ultimately show ?thesis using fields row evidence_first [of sample port p obs now] by auto
      next
        case False
        then obtain q where q: "before = Some q" "pr_stalled q" "tx_bytes r = pr_tx_bytes q" "pr_observed p = pr_observed q + elapsed_since m1 now"
          by (auto simp: p judge_def Let_def split: option.splits if_splits)
        from prior [OF q(1)] q(2) obtain early s t where e: "obs = early @ [Sampled s t]" "follows (s, t) (sample, now)"
          "elapsed_since m1 now = now - t" "evidence port q obs" by blast
        have "evidence port p (early @ [Sampled s t, Sampled sample now])"
          by (rule evidence_next [OF e(4) [unfolded e(1)] e(2)]) (use row fields False q e(3) in auto)
        with e(1) False fields show ?thesis by simp
      qed
    qed
  qed
  then show ?thesis by (simp add: run supported_def)
qed

end
