(* ===== verification/Roce_Properties.thy ===== *)
theory Roce_Properties
  imports Roce_Monitor Config_Properties "HOL-Library.Multiset"
begin

text \<open>
  What the verdict of the RoCE diagnostics rests on, the agreement of the compiled configuration with
  what the diagnostics expect to read back, and what a suspected stall is evidence of.
\<close>

subsection \<open>The verdict\<close>

lemma read_interfaces_facts:
  "read_interfaces c parts ms nodes seen = Inr (good, rows, all_seen) \<Longrightarrow>
   \<exists>ports. map (\<lambda>n. number_of n ''port'') nodes = map Some ports \<and> all_seen = seen @ ports
     \<and> (distinct seen \<longrightarrow> distinct all_seen)
     \<and> rows = map (\<lambda>(n, p). row_of c parts ms n p) (filter (\<lambda>(n, p). p \<in> set (active_ports c)) (zip nodes ports))
     \<and> (good \<longleftrightarrow> (\<forall>(n, p) \<in> set (zip nodes ports). port_matches c parts n p))"
proof (induction c parts ms nodes seen arbitrary: good rows all_seen rule: read_interfaces.induct)
  case (2 c parts ms node nodes seen)
  then obtain port where port: "number_of node ''port'' = Some port" "port \<in> fst ` set (sc_ports c)" "port \<notin> set seen"
    by (auto split: option.splits if_splits)
  with "2.prems" obtain g rs where rest: "read_interfaces c parts ms nodes (seen @ [port]) = Inr (g, rs, all_seen)"
    and out: "good = (port_matches c parts node port \<and> g)"
      "rows = (if port \<in> set (active_ports c) then row_of c parts ms node port # rs else rs)"
    by (auto simp: ebind_eq_Inr)
  from "2.IH" [OF port(1) _ rest] port(2,3) obtain ports where
    "map (\<lambda>n. number_of n ''port'') nodes = map Some ports" "all_seen = (seen @ [port]) @ ports"
    "distinct (seen @ [port]) \<longrightarrow> distinct all_seen"
    "rs = map (\<lambda>(n, p). row_of c parts ms n p) (filter (\<lambda>(n, p). p \<in> set (active_ports c)) (zip nodes ports))"
    "g \<longleftrightarrow> (\<forall>(n, p) \<in> set (zip nodes ports). port_matches c parts n p)" by auto
  with port out show ?case by (intro exI [of _ "port # ports"]) auto
qed simp

lemma decode_operational_Inr:
  assumes "decode_operational c parts revision wall ms = Inr r"
  obtains flow dscp good rows seen dcbx where
    "actual_dscp parts = Inr dscp" "find_first [''flow-control''] (rq_flow_control parts) = Some flow"
    "read_interfaces c parts ms (children_named ''interface'' flow) [] = Inr (good, rows, seen)"
    "set (active_ports c) \<subseteq> set seen" "dcbx_of c parts rows = Inr dcbx"
    "ro_rows r = rows" "ro_dscp_map r = dscp" "ro_dcbx_report r = dcbx" "ro_active r = (roce_ports c \<noteq> [])"
    "ro_pause_source_mac r = attribute flow ''pause-smac''"
    "ro_tc_smp_map r = map (\<lambda>tc. case smp_map flow (Some tc) of Some s \<Rightarrow> s | None \<Rightarrow> None) CLASSES"
    "ro_buffer_ready r = (attribute flow ''roce-buffer-status'' = Some ''0'')"
    "ro_configuration_applied r = ((global_matches c parts flow dscp \<and> good \<and> dc_configuration_matches dcbx)
       \<and> (roce_ports c \<noteq> [] \<longrightarrow> ro_buffer_ready r))"
proof -
  obtain flow marks where fm: "find_first [''flow-control''] (rq_flow_control parts) = Some flow"
      "find_first [''watermarks''] (rq_watermarks parts) = Some marks"
    using assms by (auto simp: decode_operational_def simp del: find_all.simps split: option.splits)
  have "attribute (rq_ports parts) ''status'' = Some ''ok''" "smp_complete flow"
    using assms by (auto simp: decode_operational_def fm split: if_splits)
  with assms fm obtain dscp good rows seen dcbx where parts:
    "actual_dscp parts = Inr dscp"
    "read_interfaces c parts ms (children_named ''interface'' flow) [] = Inr (good, rows, seen)"
    "set (active_ports c) \<subseteq> set seen" "dcbx_of c parts rows = Inr dcbx"
    by (auto simp: decode_operational_def ebind_eq_Inr split: if_splits)
  with assms fm \<open>attribute _ _ = _\<close> \<open>smp_complete flow\<close> show thesis
    by (intro that [of dscp flow good rows seen dcbx]) (auto simp: decode_operational_def Let_def)
qed

lemma row_of_fields [simp]:
  "rr_port (row_of c parts ms n p) = p" "rr_selected (row_of c parts ms n p) = (p \<in> set (roce_ports c))"
  "rr_configuration_matches (row_of c parts ms n p) = port_matches c parts n p"
  "rr_rx_class_mask (row_of c parts ms n p) = number_of n ''rx-class-mask''"
  "rr_tx_class_mask (row_of c parts ms n p) = number_of n ''tx-class-mask''"
  "rr_pc3_smp (row_of c parts ms n p) = number_of n ''pc3-smp''"
  "rr_scheduler_matches (row_of c parts ms n p) = scheduler_matches c parts p"
  "rr_watchdog (row_of c parts ms n p) = watchdog_row_of c ms n p"
  by (simp_all add: row_of_def Let_def)

lemma rows_cover:
  fixes parts ms c
  assumes "map (\<lambda>n. number_of n ''port'') nodes = map Some ports" and "distinct ports" and "set active \<subseteq> set ports"
  defines "rows \<equiv> map (\<lambda>(n, p). row_of c parts ms n p) (filter (\<lambda>(n, p). p \<in> set active) (zip nodes ports))"
  shows "distinct (map rr_port rows)" and "set (map rr_port rows) = set active"
    and "row \<in> set rows \<Longrightarrow> \<exists>n p. (n, p) \<in> set (zip nodes ports) \<and> row = row_of c parts ms n p"
proof -
  have len: "length nodes = length ports" using assms(1) by (metis length_map)
  have ports: "map rr_port rows = filter (\<lambda>p. p \<in> set active) ports"
    using len unfolding rows_def by (induction nodes ports rule: list_induct2) auto
  with assms(2,3) show "distinct (map rr_port rows)" "set (map rr_port rows) = set active" by (auto simp del: set_map)
  show "row \<in> set rows \<Longrightarrow> \<exists>n p. (n, p) \<in> set (zip nodes ports) \<and> row = row_of c parts ms n p"
    by (auto simp: rows_def)
qed

subsection \<open>DCBX\<close>

lemma read_dcbx_rows_facts:
  "read_dcbx_rows c links nodes seen = Inr rows \<Longrightarrow> distinct seen \<Longrightarrow>
   distinct (seen @ map dr_port rows)
   \<and> (\<forall>row \<in> set rows. dr_configuration_matches row \<longrightarrow>
        (\<exists>l. dr_local row = Some l \<and> local_policy (dcbx_policy_of c) l) \<and> dr_port row \<in> set (dcbx_selected c))"
proof (induction c links nodes seen arbitrary: rows rule: read_dcbx_rows.induct)
  case (2 c links node nodes seen)
  then obtain port tx rest where r: "int_attr node ''port'' = Some port" "int_attr node ''tx-frames'' = Some tx"
    "port \<notin> set seen" "read_dcbx_rows c links nodes (seen @ [port]) = Inr rest" "rows = dcbx_row_of c links node port tx # rest"
    by (auto simp: ebind_eq_Inr split: option.splits if_splits)
  have ok: "\<not> (port \<in> set seen \<or> port \<notin> fst ` set (sc_ports c) \<or> tx < 0)"
    using "2.prems"(1) r(1,2) by (auto split: if_splits)
  have row: "dr_port (dcbx_row_of c links node port tx) = port"
    "dr_configuration_matches (dcbx_row_of c links node port tx) \<longrightarrow>
      (\<exists>l. dr_local (dcbx_row_of c links node port tx) = Some l \<and> local_policy (dcbx_policy_of c) l) \<and> port \<in> set (dcbx_selected c)"
    by (auto simp: dcbx_row_of_def Let_def split: option.splits)
  from "2.IH" [OF _ refl _ ok r(4)] r(1,2,3) "2.prems"(2) row show ?case by (auto simp: r(5))
qed auto

text \<open>DCBX is reported as matching only when the reported ports are exactly the selected ones, each once,
  and every one of them advertises the complete local policy, unwilling to take the peer's, with the
  applications of the policy in some order.\<close>

theorem dcbx_match_exact:
  assumes "decode_dcbx c links doc = Inr r" and "dc_configuration_matches r"
  shows "distinct (map dr_port (dc_ports r)) \<and> set (map dr_port (dc_ports r)) = set (dcbx_selected c)
    \<and> (\<forall>row \<in> set (dc_ports r). \<exists>l. dr_local row = Some l \<and> local_policy (dcbx_policy_of c) l
         \<and> mset (dx_applications l) = mset (dp_applications (dcbx_policy_of c)))"
proof -
  from assms(1) obtain found where found: "read_dcbx_rows c links (children_named ''interface'' doc) [] = Inr found"
    and r: "dc_configuration_matches r = (set (dcbx_selected c) = set (map dr_port found)
        \<and> list_all dr_configuration_matches (found @ map missing_row (filter (\<lambda>p. p \<notin> set (map dr_port found)) (sort (remdups (dcbx_selected c))))))"
      "dc_ports r = sort_key dr_port (found @ map missing_row (filter (\<lambda>p. p \<notin> set (map dr_port found)) (sort (remdups (dcbx_selected c)))))"
    by (auto simp: decode_dcbx_def ebind_eq_Inr Let_def split: if_splits)
  from assms(2) r(1) have all: "set (dcbx_selected c) = set (map dr_port found)" "list_all dr_configuration_matches found" by auto
  then have none: "filter (\<lambda>p. p \<notin> set (map dr_port found)) (sort (remdups (dcbx_selected c))) = []" by (auto simp: filter_empty_conv)
  have ports: "dc_ports r = sort_key dr_port found" by (simp add: r(2) none del: set_map)
  have policy: "mset (dx_applications l) = mset (dp_applications (dcbx_policy_of c))" if "local_policy (dcbx_policy_of c) l" for l
    using that by (metis local_policy_def mset_sort)
  have "mset (map dr_port (dc_ports r)) = mset (map dr_port found)" by (simp add: ports)
  then have "distinct (map dr_port (dc_ports r)) = distinct (map dr_port found)" "set (map dr_port (dc_ports r)) = set (map dr_port found)"
    by (metis mset_eq_imp_distinct_iff, metis mset_eq_setD)
  with all policy read_dcbx_rows_facts [OF found] show ?thesis by (auto simp: ports list_all_iff)
qed

subsection \<open>What the verdict requires\<close>

text \<open>What the raw report of one port has to say, written out from the policy: the port is in a watchdog
  recovery that saved its mask; its class masks and pools; its watchdog; the pauses of a selected port;
  and its schedule.\<close>

definition in_recovery :: "switch_configuration \<Rightarrow> xml \<Rightarrow> int \<Rightarrow> bool" where
  "in_recovery c node port \<longleftrightarrow> port \<in> set (roce_ports c) \<and> wd_enabled (ro_watchdog (qo_roce (sc_qos c)))
     \<and> number_of node ''watchdog-phase'' = Some 3 \<and> number_of node ''watchdog-saved-rx-mask'' = Some 8
     \<and> number_of node ''rx-class-mask'' = Some 0 \<and> number_of node ''rx-class-mask-hardware'' = Some 0"

definition masks_as_wanted :: "switch_configuration \<Rightarrow> xml \<Rightarrow> int \<Rightarrow> bool" where
  "masks_as_wanted c node port \<longleftrightarrow>
     (number_of node ''rx-class-mask'' = Some (if port \<in> set (roce_ports c) then 8 else 0) \<or> in_recovery c node port)
   \<and> (number_of node ''rx-class-mask-hardware'' \<in> {None, Some (if port \<in> set (roce_ports c) then 8 else 0)}
        \<or> in_recovery c node port)
   \<and> number_of node ''smp-lossless-mask'' = Some (if port \<in> set (roce_ports c) then 2 else 0)
   \<and> number_of node ''shared-pause-mask'' = Some (if port \<in> set (roce_ports c) then 2 else 0)
   \<and> (if port \<in> set (roce_ports c) then number_of node ''pc3-smp'' = Some 1
      else attribute node ''pc3-smp'' = None \<or> number_of node ''pc3-smp'' = Some 2)"

definition watchdog_as_wanted :: "switch_configuration \<Rightarrow> xml \<Rightarrow> int \<Rightarrow> bool" where
  "watchdog_as_wanted c node port \<longleftrightarrow> number_of node ''watchdog-phase'' \<noteq> Some 6
   \<and> (let w = ro_watchdog (qo_roce (sc_qos c)); wanted = port \<in> set (roce_ports c);
          times = (if wanted \<and> wd_enabled w then wd_detect_ms w else 0, if wanted then wd_recovery_ms w else 100,
            if wanted then wd_cooldown_ms w else 30000)
      in number_of node ''watchdog-detect-ms'' = Some (fst times) \<and> number_of node ''watchdog-recovery-ms'' = Some (fst (snd times))
           \<and> number_of node ''watchdog-cooldown-ms'' = Some (snd (snd times))
           \<and> (wanted \<and> wd_enabled w \<longrightarrow> attribute node ''watchdog-supported'' = Some ''1'')
         \<or> number_of node ''watchdog-detect-ms'' = None \<and> number_of node ''watchdog-recovery-ms'' = None
           \<and> number_of node ''watchdog-cooldown-ms'' = None \<and> times = (0, 100, 30000))"

definition pauses_as_wanted :: "switch_configuration \<Rightarrow> roce_parts \<Rightarrow> xml \<Rightarrow> int \<Rightarrow> bool" where
  "pauses_as_wanted c parts node port \<longleftrightarrow>
     number_of node ''tx-class-mask'' = Some 8 \<and> attribute node ''tx-pause-mode'' = Some ''class-based''
   \<and> number_of node ''tc3-pause-class'' = Some 3 \<and> attribute node ''rx-pause'' = Some ''off''
   \<and> trust_of parts port = Some (if dscp_mode c then ''dscp'' else ''ieee-802.1p'')"

definition scheduled_as_wanted :: "switch_configuration \<Rightarrow> int \<Rightarrow> xml \<Rightarrow> bool" where
  "scheduled_as_wanted c port sch \<longleftrightarrow>
     number_of sch ''sched-groups'' = Some 8 \<and> number_of sch ''tc-enable-mask'' = Some 255
   \<and> (\<forall>tc \<in> {0, 1, 2, 3, 4, 5, 6, 7}.
        (\<exists>g. find_with ''group'' ''id'' (decimal_int tc) sch = Some g
           \<and> attribute g ''strict'' = Some (if dscp_mode c \<and> tc = 7 then ''on'' else ''off'')
           \<and> number_of g ''weight'' = Some (2 * ((pc_mtu (port_of c port) + 25) AND NOT 3)
                * (if dp_enabled (dcbx_policy_of c) then max 1 (dp_bandwidth (dcbx_policy_of c) ! nat tc)
                   else qo_weights (sc_qos c) ! nat tc))
           \<and> number_of g ''tc-boundary-a'' = Some tc \<and> number_of g ''tc-boundary-b'' = Some tc)
      \<and> (pc_egress_kbps (port_of c port) = 0 \<longrightarrow>
           (\<exists>m. find_with ''traffic-class'' ''id'' (decimal_int tc) sch = Some m \<and> number_of m ''shaping-group'' = Some tc)))"

definition runs_policy :: "switch_configuration \<Rightarrow> roce_parts \<Rightarrow> xml \<Rightarrow> int \<Rightarrow> bool" where
  "runs_policy c parts node port \<longleftrightarrow> masks_as_wanted c node port \<and> watchdog_as_wanted c node port
   \<and> (port \<in> set (roce_ports c) \<longrightarrow> pauses_as_wanted c parts node port
      \<and> (rq_scheduler parts \<noteq> None \<or> dscp_mode c \<or> dp_enabled (dcbx_policy_of c) \<longrightarrow>
           (\<exists>sch. scheduler_node parts port = Some sch \<and> scheduled_as_wanted c port sch)))"

lemma phase_name_recovering: "phase_name n = ''recovering'' \<longleftrightarrow> n = Some 3"
  and phase_name_failed: "phase_name n = ''restore-failed'' \<longleftrightarrow> n = Some 6"
  by (auto simp: phase_name_def split: option.splits if_splits)

lemma watchdog_as_wanted: "watchdog_matches c n p \<Longrightarrow> number_of n ''watchdog-phase'' \<noteq> Some 6 \<Longrightarrow> watchdog_as_wanted c n p"
  by (auto simp: watchdog_as_wanted_def watchdog_matches_def watchdog_expected_def watchdog_wanted_def Let_def)

lemma leased_recovery: "leased c n p \<Longrightarrow> in_recovery c n p"
  by (simp add: leased_def in_recovery_def watchdog_wanted_def phase_name_recovering)

lemma masks_as_wanted: "masks_match c n p \<Longrightarrow> masks_as_wanted c n p"
  using leased_recovery [of c n p]
  by (cases "p \<in> set (roce_ports c)") (auto simp: masks_as_wanted_def masks_match_def Let_def split: option.splits)

lemma scheduled_as_wanted:
  assumes "scheduler_matches c parts p \<noteq> Some False" and "p \<in> set (roce_ports c)"
    and "rq_scheduler parts \<noteq> None \<or> dscp_mode c \<or> dp_enabled (dcbx_policy_of c)"
  shows "\<exists>sch. scheduler_node parts p = Some sch \<and> scheduled_as_wanted c p sch"
proof -
  from assms obtain sch where s: "scheduler_node parts p = Some sch" "number_of sch ''sched-groups'' = Some 8"
    "number_of sch ''tc-enable-mask'' = Some 255" "\<forall>tc \<in> set CLASSES. class_scheduled c p sch tc"
    by (auto simp: scheduler_matches_def list_all_iff split: option.splits if_splits)
  have "scheduled_as_wanted c p sch"
    unfolding scheduled_as_wanted_def
  proof (intro conjI ballI)
    fix tc :: int assume "tc \<in> {0, 1, 2, 3, 4, 5, 6, 7}"
    then have tc: "class_scheduled c p sch tc" using s(4) by (auto simp: CLASSES_def)
    then obtain g where g: "find_with ''group'' ''id'' (decimal_int tc) sch = Some g"
      "attribute g ''strict'' = Some (expected_strict c tc)" "number_of g ''weight'' = Some (expected_weight c p tc)"
      "number_of g ''tc-boundary-a'' = Some tc" "number_of g ''tc-boundary-b'' = Some tc"
      by (auto simp: class_scheduled_def split: option.splits)
    then show "\<exists>g. find_with ''group'' ''id'' (decimal_int tc) sch = Some g
           \<and> attribute g ''strict'' = Some (if dscp_mode c \<and> tc = 7 then ''on'' else ''off'')
           \<and> number_of g ''weight'' = Some (2 * ((pc_mtu (port_of c p) + 25) AND NOT 3)
                * (if dp_enabled (dcbx_policy_of c) then max 1 (dp_bandwidth (dcbx_policy_of c) ! nat tc)
                   else qo_weights (sc_qos c) ! nat tc))
           \<and> number_of g ''tc-boundary-a'' = Some tc \<and> number_of g ''tc-boundary-b'' = Some tc"
      unfolding expected_strict_def expected_weight_def CNP_TC_def Let_def by blast
    show "pc_egress_kbps (port_of c p) = 0 \<longrightarrow>
           (\<exists>m. find_with ''traffic-class'' ''id'' (decimal_int tc) sch = Some m \<and> number_of m ''shaping-group'' = Some tc)"
      using tc unfolding class_scheduled_def by (auto split: option.splits)
  qed (fact s)+
  with s(1) show ?thesis by blast
qed

lemma runs_policy:
  assumes "port_matches c parts n p"
  shows "runs_policy c parts n p"
proof -
  have m: "masks_match c n p" and w: "watchdog_matches c n p" "number_of n ''watchdog-phase'' \<noteq> Some 6"
    using assms phase_name_failed by (simp_all add: port_matches_def masks_match_def Let_def)
  moreover have "pauses_as_wanted c parts n p" if "p \<in> set (roce_ports c)"
    using assms that by (simp add: port_matches_def selection_match_def pauses_as_wanted_def)
  moreover have "scheduler_matches c parts p \<noteq> Some False" using assms by (simp add: port_matches_def)
  ultimately show ?thesis
    unfolding runs_policy_def
    using masks_as_wanted [OF m] watchdog_as_wanted [OF w] scheduled_as_wanted by blast
qed

text \<open>The maps of the whole board: the pools of the traffic classes, the traffic classes of the
  priorities, the DSCP map, and a source address for pause frames.\<close>

definition board_maps :: "switch_configuration \<Rightarrow> roce_parts \<Rightarrow> roce_report \<Rightarrow> bool" where
  "board_maps c parts r \<longleftrightarrow>
     ro_tc_smp_map r = map (\<lambda>tc. Some (if roce_ports c \<noteq> [] \<and> tc = 3 then ''smp-1'' else ''smp-0'')) [0, 1, 2, 3, 4, 5, 6, 7 :: int]
   \<and> (\<forall>(p, tc) \<in> set (enumerate_int (qo_priority_map (sc_qos c))). forwarding_map (rq_forwarding parts) p = Some tc)
   \<and> (if dscp_mode c then ro_dscp_map r = Some (dscp_map c) else ro_dscp_map r \<in> {None, Some (dscp_map c)})
   \<and> (roce_ports c \<noteq> [] \<longrightarrow> ro_buffer_ready r
      \<and> (\<forall>p \<in> {8, 9, 10, 11, 12, 13, 14, 15}. forwarding_map (rq_forwarding parts) p
           = Some (if p = 11 \<or> dscp_mode c \<and> p = 15 then 0 else p - 8))
      \<and> (case ro_pause_source_mac r of None \<Rightarrow> False
         | Some mac \<Rightarrow> mac_format mac \<and> map lower mac \<noteq> ''00:00:00:00:00:00'' \<and> even (first_octet mac)))"

lemma internal_class_value: "p \<in> {8, 9, 10, 11, 12, 13, 14, 15 :: int} \<Longrightarrow>
    expected_internal c p = (if p = 11 \<or> dscp_mode c \<and> p = 15 then 0 else p - 8)"
  by (auto simp: expected_internal_def)

text \<open>What an interface taking part in DCBX advertises: the complete policy, for information only.\<close>

definition advertises_policy :: "dcbx_policy \<Rightarrow> dcbx_row \<Rightarrow> bool" where
  "advertises_policy d row \<longleftrightarrow> (\<exists>l. dr_local row = Some l \<and> dx_enabled l \<and> dx_complete l \<and> \<not> dx_malformed l
     \<and> dx_pfc_willing l = Some ''false'' \<and> dx_ets_willing l = Some ''false''
     \<and> dx_pfc_mask l = dp_pfc_mask d \<and> dx_priority_map l = dp_priority_map d
     \<and> dx_bandwidth l = dp_bandwidth d \<and> dx_tsa_map l = dp_tsa_map d
     \<and> mset (dx_applications l) = mset (dp_applications d))"

lemma dcbx_verdict:
  assumes "dcbx_of c parts rows = Inr dcbx" and "dc_configuration_matches dcbx"
  shows "if rq_dcbx parts = None then \<not> dp_enabled (dcbx_policy_of c)
     else set (map dr_port (dc_ports dcbx)) = set (dcbx_selected c)
       \<and> (\<forall>row \<in> set (dc_ports dcbx). advertises_policy (dcbx_policy_of c) row)"
proof (cases "rq_dcbx parts")
  case None
  with assms show ?thesis by (auto simp: dcbx_of_def no_dcbx_def)
next
  case (Some doc)
  then have "decode_dcbx c (\<lambda>p. py_dict (map (\<lambda>r. (rr_port r, rr_link r)) rows) p) doc = Inr dcbx"
    using assms(1) by (simp add: dcbx_of_def)
  from dcbx_match_exact [OF this assms(2)] Some show ?thesis
    unfolding advertises_policy_def local_policy_def by (simp only: option.distinct(2) if_False) metis
qed

text \<open>C25: the diagnostics call a configuration applied only on evidence. Every active port has exactly one
  row. Every interface of the report, active or not, runs the policy: its receive masks are the
  policy's or those of a watchdog recovery that saved them, its lossless and shared pause pools and its
  pause class pool are the policy's, its watchdog is set as wanted and has not failed to restore; a
  selected port also sends and accepts pauses of class 3 only, trusts the field the policy classifies
  by, and, when a schedule is reported or the policy depends on one, has the eight scheduling groups
  with the policy's priorities, weights and shapers. The traffic classes are mapped to the pools, the
  priorities and internal classes to the traffic classes, and the DSCP values to the priorities of the
  policy; with a selected port the buffers are ready and the pause source is a usable address. With
  DCBX the ports that take part are exactly the selected ones, and every one advertises the policy.\<close>

theorem applied_evidence:
  assumes "decode_operational c parts revision wall ms = Inr r" and "ro_configuration_applied r"
  shows "distinct (map rr_port (ro_rows r)) \<and> set (map rr_port (ro_rows r)) = set (active_ports c)
    \<and> (\<exists>flow. find_first [''flow-control''] (rq_flow_control parts) = Some flow
         \<and> set (active_ports c) \<subseteq> {p. Some p \<in> (\<lambda>n. number_of n ''port'') ` set (children_named ''interface'' flow)}
         \<and> (\<forall>node \<in> set (children_named ''interface'' flow).
              \<exists>port. number_of node ''port'' = Some port \<and> runs_policy c parts node port))
    \<and> board_maps c parts r
    \<and> (if rq_dcbx parts = None then \<not> dp_enabled (dcbx_policy_of c)
       else set (map dr_port (dc_ports (ro_dcbx_report r))) = set (dcbx_selected c)
         \<and> (\<forall>row \<in> set (dc_ports (ro_dcbx_report r)). advertises_policy (dcbx_policy_of c) row))"
proof -
  obtain flow dscp good rows seen dcbx where d0: "actual_dscp parts = Inr dscp"
    and df: "find_first [''flow-control''] (rq_flow_control parts) = Some flow"
    and d1: "read_interfaces c parts ms (children_named ''interface'' flow) [] = Inr (good, rows, seen)"
    and d2: "set (active_ports c) \<subseteq> set seen" and dx: "dcbx_of c parts rows = Inr dcbx"
    and d3: "ro_rows r = rows" and d4: "ro_dscp_map r = dscp" and dy: "ro_dcbx_report r = dcbx"
    and da: "ro_active r = (roce_ports c \<noteq> [])" and dm: "ro_pause_source_mac r = attribute flow ''pause-smac''"
    and d5: "ro_tc_smp_map r = map (\<lambda>tc. case smp_map flow (Some tc) of Some s \<Rightarrow> s | None \<Rightarrow> None) CLASSES"
    and db: "ro_buffer_ready r = (attribute flow ''roce-buffer-status'' = Some ''0'')"
    and d6: "ro_configuration_applied r = ((global_matches c parts flow dscp \<and> good \<and> dc_configuration_matches dcbx)
       \<and> (roce_ports c \<noteq> [] \<longrightarrow> ro_buffer_ready r))"
    by (rule decode_operational_Inr [OF assms(1)])
  let ?nodes = "children_named ''interface'' flow"
  from read_interfaces_facts [OF d1] obtain ports where ports:
    "map (\<lambda>n. number_of n ''port'') ?nodes = map Some ports" "seen = ports" "distinct seen"
    "rows = map (\<lambda>(n, p). row_of c parts ms n p) (filter (\<lambda>(n, p). p \<in> set (active_ports c)) (zip ?nodes ports))"
    "good \<longleftrightarrow> (\<forall>(n, p) \<in> set (zip ?nodes ports). port_matches c parts n p)" by auto
  have cover: "distinct ports" "set (active_ports c) \<subseteq> set ports" using ports(2,3) d2 by auto
  note rows = rows_cover [OF ports(1) cover, where c = c and parts = parts and ms = ms, folded ports(4)]
  from assms(2) d6 have g: "global_matches c parts flow dscp" "good" "dc_configuration_matches dcbx"
    "roce_ports c \<noteq> [] \<longrightarrow> ro_buffer_ready r" by auto
  have "(\<lambda>n. number_of n ''port'') ` set ?nodes = Some ` set ports"
    unfolding set_map [symmetric] ports(1) ..
  with cover(2) have named: "set (active_ports c) \<subseteq> {p. Some p \<in> (\<lambda>n. number_of n ''port'') ` set ?nodes}" by auto
  have policy: "\<exists>port. number_of node ''port'' = Some port \<and> runs_policy c parts node port" if "node \<in> set ?nodes" for node
  proof -
    from that obtain i where i: "i < length ?nodes" "node = ?nodes ! i" by (auto simp: in_set_conv_nth)
    have len: "length ports = length ?nodes" using ports(1) by (metis length_map)
    then have "(node, ports ! i) \<in> set (zip ?nodes ports)" using i by (auto simp: set_zip)
    then have "runs_policy c parts node (ports ! i)" using ports(5) g(2) runs_policy by blast
    moreover have "number_of node ''port'' = Some (ports ! i)"
      using arg_cong [OF ports(1), of "\<lambda>xs. xs ! i"] i len by simp
    ultimately show ?thesis by blast
  qed
  have maps: "board_maps c parts r"
    using g(1,4) internal_class_value [of _ c] unfolding board_maps_def d4 d5 dm
    by (auto simp: global_matches_def list_all_iff pause_source_ok_def attribute_or_def mac_format_def expected_smp_def CLASSES_def
        split: option.splits)
  note verdict = dcbx_verdict [OF dx g(3)]
  show ?thesis
    unfolding d3 dy using rows(1,2) df named policy maps verdict by blast
qed

subsection \<open>A reporting board\<close>

text \<open>A policy on the ports 1 and 5, and what a board that runs it reports.\<close>

definition policy_configuration :: switch_configuration where
  "policy_configuration = default_configuration\<lparr>sc_qos := default_qos\<lparr>qo_roce := default_roce\<lparr>ro_enabled := True, ro_ports := [1, 5]\<rparr>\<rparr>\<rparr>"

definition flow_interface :: "int \<Rightarrow> xml" where
  "flow_interface p = Xml ''interface''
     (if p \<in> {1, 5}
      then [(''port'', decimal_int p), (''rx-class-mask'', ''8''), (''tx-class-mask'', ''8''), (''smp-lossless-mask'', ''2''),
            (''shared-pause-mask'', ''2''), (''pc3-smp'', ''1''), (''tx-pause-mode'', ''class-based''), (''tc3-pause-class'', ''3''),
            (''rx-pause'', ''off'')]
      else [(''port'', decimal_int p), (''rx-class-mask'', ''0''), (''smp-lossless-mask'', ''0''), (''shared-pause-mask'', ''0'')]) [] []"

definition flow_report :: xml where
  "flow_report = Xml ''reply'' [] [] [Xml ''flow-control'' [(''roce-buffer-status'', ''0''), (''pause-smac'', ''02:00:00:00:00:01'')] []
     (map (\<lambda>tc. Xml ''traffic-class'' [(''id'', decimal_int tc), (''smp'', if tc = 3 then ''smp-1'' else ''smp-0'')] [] []) CLASSES
      @ map flow_interface [1, 5, 9, 13, 17, 21])]"

definition reported :: roce_parts where
  "reported = \<lparr>rq_flow_control = flow_report,
     rq_watermarks = Xml ''reply'' [] [] [Xml ''watermarks'' [] [] []], rq_ports = Xml ''port-snapshot'' [(''status'', ''ok'')] [] [],
     rq_forwarding = Xml ''reply'' [] [] [Xml ''forwarding'' [] [] (map (\<lambda>p. Xml ''switch-priority''
       [(''priority'', decimal_int p), (''traffic-class'', decimal_int (if p = 11 then 0 else p mod 8))] [] [])
       [0, 1, 2, 3, 4, 5, 6, 7, 8, 9, 10, 11, 12, 13, 14, 15])],
     rq_interfaces = Xml ''reply'' [] [] [Xml ''interfaces'' [] [] (map (\<lambda>p. Xml ''interface''
       [(''port'', decimal_int p), (''trust'', ''ieee-802.1p'')] [] []) [1, 5])],
     rq_dscp_map = None, rq_scheduler = None, rq_dcbx = None\<rparr>"

lemma reported_run:
  "case decode_operational policy_configuration reported 7 0 0 of Inl _ \<Rightarrow> False
     | Inr r \<Rightarrow> ro_configuration_applied r \<and> map rr_port (ro_rows r) = [1, 5, 9, 13, 17, 21]"
  by code_simp

lemma reported_flow: "find_first [''flow-control''] (rq_flow_control reported) = Some (hd (xml_children flow_report))"
  "flow_interface 5 \<in> set (children_named ''interface'' (hd (xml_children flow_report)))"
  "number_of (flow_interface 5) ''port'' = Some 5" "5 \<in> set (roce_ports policy_configuration)"
  by code_simp+

theorem applied_evidence_witness:
  "\<exists>r. decode_operational policy_configuration reported 7 0 0 = Inr r \<and> ro_configuration_applied r
     \<and> runs_policy policy_configuration reported (flow_interface 5) 5
     \<and> pauses_as_wanted policy_configuration reported (flow_interface 5) 5 \<and> board_maps policy_configuration reported r"
proof -
  from reported_run obtain r where r: "decode_operational policy_configuration reported 7 0 0 = Inr r" "ro_configuration_applied r"
    by (auto split: sum.splits)
  from applied_evidence [OF r] reported_flow(1) have
    "\<forall>node \<in> set (children_named ''interface'' (hd (xml_children flow_report))).
       \<exists>port. number_of node ''port'' = Some port \<and> runs_policy policy_configuration reported node port"
    and maps: "board_maps policy_configuration reported r" by simp_all
  with reported_flow(2,3) have "runs_policy policy_configuration reported (flow_interface 5) 5" by fastforce
  moreover from this have "pauses_as_wanted policy_configuration reported (flow_interface 5) 5"
    using reported_flow(4) by (simp add: runs_policy_def)
  ultimately show ?thesis using r maps by blast
qed

definition dcbx_configuration :: switch_configuration where
  "dcbx_configuration = default_configuration\<lparr>sc_qos := default_qos\<lparr>qo_roce := default_roce\<lparr>ro_enabled := True, ro_ports := [5], ro_dcbx := DcbxIeee\<rparr>\<rparr>\<rparr>"

definition dcbx_document :: xml where
  "dcbx_document = Xml ''dcbx'' [(''mode'', ''ieee-local''), (''peer-policy-applied'', ''false'')] [] [Xml ''interface''
     [(''port'', ''5''), (''tx-frames'', ''12''), (''lldp-enabled'', ''true'')] [] [Xml ''local''
       [(''priority-map'', ''0 1 2 3 4 5 6 7''), (''bandwidth'', ''13 13 13 13 12 12 12 12''), (''tsa-map'', ''2 2 2 2 2 2 2 2''),
        (''enabled'', ''true''), (''malformed'', ''false''), (''pfc-mask'', ''8''), (''pfc-willing'', ''false''), (''ets-willing'', ''false''),
        (''pfc-present'', ''true''), (''ets-present'', ''true''), (''app-present'', ''true'')] []
       [Xml ''application'' [(''selector'', ''3''), (''protocol'', ''4791''), (''priority'', ''3'')] [] []]]]"

lemma dcbx_run:
  "case decode_dcbx dcbx_configuration (\<lambda>_. Some ''up'') dcbx_document of Inl _ \<Rightarrow> False
     | Inr r \<Rightarrow> dc_configuration_matches r \<and> map dr_state (dc_ports r) = [''no-peer'']"
  by code_simp

theorem dcbx_match_exact_witness:
  "\<exists>r. decode_dcbx dcbx_configuration (\<lambda>_. Some ''up'') dcbx_document = Inr r \<and> set (map dr_port (dc_ports r)) = {5}"
proof -
  from dcbx_run obtain r where r: "decode_dcbx dcbx_configuration (\<lambda>_. Some ''up'') dcbx_document = Inr r" "dc_configuration_matches r"
    by (auto split: sum.splits)
  have "set (dcbx_selected dcbx_configuration) = {5}" by code_simp
  with dcbx_match_exact [OF r] r show ?thesis by metis
qed

subsection \<open>Suspected stalls\<close>

lemma monitor_evidence:
  "\<forall>s t. Sampled s t \<in> set obs \<longrightarrow> distinct (map rr_port (ro_rows s)) \<Longrightarrow>
   supported (observe_all obs) obs \<and> synchronised (observe_all obs) obs"
proof (induction obs rule: rev_induct)
  case Nil
  show ?case by (simp add: observe_all_def new_monitor_def supported_def synchronised_def)
next
  case (snoc e obs)
  have run: "observe_all (obs @ [e]) = monitor_step e (observe_all obs)" by (simp add: observe_all_def)
  from snoc have IH: "supported (observe_all obs) obs" "synchronised (observe_all obs) obs" by auto
  show ?case
  proof (cases e)
    case (Sampled s t)
    with snoc.prems have d: "distinct (map rr_port (ro_rows s))" by auto
    obtain rows m' where o: "observe s t (observe_all obs) = (rows, m')" by (metis surj_pair)
    from observe_state(1-3) [OF o d] have "synchronised m' (obs @ [e])" by (auto simp: synchronised_def Sampled)
    with supported_observe [OF IH d, of t] o show ?thesis unfolding run by (simp add: Sampled)
  next
    case Gap
    with IH supported_gap show ?thesis unfolding run by simp
  qed
qed

text \<open>C26: a suspected stall is supported by the samples. When the monitor suspects a port, the latest
  samples, without a failed reading in between, span at least thirty seconds; each follows the one
  before within three intervals, under the same revision and a later generation; and in every one of
  them the selected port was applied, up, paused for priority three with a filled queue, and had sent
  the same number of bytes.\<close>

theorem stall_supported:
  assumes "\<forall>s t. Sampled s t \<in> set obs \<longrightarrow> distinct (map rr_port (ro_rows s))"
    and "map_of (mo_previous (observe_all obs)) port = Some p" and "pr_alarm p"
  shows "\<exists>early late. obs = early @ map (\<lambda>(s, t). Sampled s t) late \<and> late \<noteq> []
    \<and> 30000 \<le> snd (last late) - snd (hd late) \<and> successively follows late
    \<and> (\<forall>(s, t) \<in> set late. \<forall>r \<in> set (ro_rows s). rr_selected r \<and> rr_port r = port \<longrightarrow> stalled s r \<and> tx_bytes r = pr_tx_bytes p)"
proof -
  from monitor_evidence [OF assms(1)] assms(2,3) have "evidence port p obs" "30000 \<le> pr_observed p"
    by (auto simp: supported_def)
  then show ?thesis unfolding evidence_def stuck_def by fastforce
qed

text \<open>Four samples ten seconds apart.\<close>

definition stuck_row :: roce_row where
  "stuck_row = \<lparr>rr_port = 5, rr_selected = True, rr_configuration_matches = True,
     rr_watchdog = watchdog_row_of policy_configuration 0 (flow_interface 5) 5, rr_scheduler_matches = None, rr_counter_epoch = None,
     rr_pause = \<lparr>pa_quality = ''valid'', pa_rx_quanta = None, pa_paused_class_mask = Some 8, pa_generated_smp_mask = None\<rparr>,
     rr_cnp_usage_bytes = None, rr_link = ''up'', rr_state_quality = ''valid'', rr_counter_quality = ''valid'',
     rr_rx_class_mask = Some 8, rr_tx_class_mask = Some 8, rr_pc3_smp = Some 1, rr_tc3_usage_bytes = Some 4096,
     rr_rx_smp0_usage_bytes = None, rr_rx_smp1_usage_bytes = None, rr_counters = [(''tx_bytes'', Some 77)], rr_quality = ''valid''\<rparr>"

definition stuck_sample :: "int \<Rightarrow> roce_report" where
  "stuck_sample generation = \<lparr>ro_revision = 7, ro_sampled_at = 0, ro_sample_generation = Some generation,
     ro_configuration_applied = True, ro_active = True, ro_buffer_ready = True, ro_buffer_status = ''0'', ro_pause_source_mac = None,
     ro_dcbx_report = no_dcbx policy_configuration, ro_dscp_map = None, ro_cnp_enabled = False, ro_tc_smp_map = [],
     ro_rows = [stuck_row], ro_smp_usage_bytes = [], ro_shared_watermarks = [], ro_watermarks = [],
     ro_budget = buffer_budget 1518\<rparr>"

definition stuck_run :: "monitor_event list" where
  "stuck_run = map (\<lambda>i. Sampled (stuck_sample i) (10000 * i)) [1, 2, 3, 4]"

lemma stuck_alarm:
  "map_of (mo_previous (observe_all stuck_run)) 5 = Some \<lparr>pr_stalled = True, pr_observed = 30000, pr_alarm = True, pr_tx_bytes = Some 77\<rparr>"
  by code_simp

theorem stall_supported_witness:
  "\<exists>early late. stuck_run = early @ map (\<lambda>(s, t). Sampled s t) late \<and> 30000 \<le> snd (last late) - snd (hd late)"
proof -
  have "\<forall>s t. Sampled s t \<in> set stuck_run \<longrightarrow> distinct (map rr_port (ro_rows s))"
    by (auto simp: stuck_run_def stuck_sample_def)
  from stall_supported [OF this stuck_alarm] show ?thesis by auto
qed

end
