(* ===== verification/Codec_Properties.thy ===== *)
theory Codec_Properties
  imports Roce_Properties
begin

text \<open>
  The compiled configuration against the diagnostics. A board that reports each stored entry of the
  class of service with the entry's leaves as attributes is read back as exactly the maps of the
  policy, and the compiled schedule is the one the diagnostics expect.
\<close>

subsection \<open>Reports of stored entries\<close>

definition text_string :: "text_points \<Rightarrow> string" where
  "text_string t = map char_of t"

lemma text_string_ascii [simp]: "text_string (ascii s) = s"
proof -
  have "char_of (of_char ch :: int) = ch" for ch :: char by (rule char_of_char)
  then show ?thesis by (induction s) (simp_all add: text_string_def ascii_def)
qed

definition leaf_texts :: "xml \<Rightarrow> (string \<times> string) list" where
  "leaf_texts n = map (\<lambda>k. (xml_tag k, text_string (xml_text k))) (xml_children n)"

definition flat :: "xml \<Rightarrow> xml" where
  "flat n = Xml (xml_tag n) (leaf_texts n) [] []"

definition board_report :: "xml \<Rightarrow> xml" where
  "board_report doc = Xml ''reply'' [] []
     (map (\<lambda>n. Xml (xml_tag n) [] [] (map flat (xml_children n))) (concat (map xml_children (children_named ''class-of-service'' doc))))"

lemma leaf_texts_elem [simp]: "leaf_texts (elem t ks) = map (\<lambda>k. (xml_tag k, text_string (xml_text k))) ks"
  by (simp add: leaf_texts_def)

lemma xml_text_leaves [simp]:
  "text_string (xml_text (name_leaf t s)) = s" "text_string (xml_text (number_leaf t n)) = decimal_int n"
  "text_string (xml_text (flag_leaf t b)) = (if b then ''true'' else ''false'')"
  by (simp_all add: name_leaf_def number_leaf_def flag_leaf_def)

lemma number_decimal [simp]: "0 \<le> n \<Longrightarrow> number (Some (decimal_int n)) = Some n"
proof -
  assume n: "0 \<le> n"
  have digits: "c \<in> set (decimal m) \<Longrightarrow> c \<noteq> CHR ''x''" for c m using decimal_digits [of c m] by auto
  have "take 2 (decimal m) \<noteq> ''0x''" for m
  proof
    assume "take 2 (decimal m) = ''0x''"
    then have "CHR ''x'' \<in> set (take 2 (decimal m))" by simp
    then have "CHR ''x'' \<in> set (decimal m)" by (rule in_set_takeD)
    with digits show False by blast
  qed
  with n show ?thesis by (simp add: number_def decimal_int_def)
qed

lemma py_dict_mem: "distinct (map fst kvs) \<Longrightarrow> (k, v) \<in> set kvs \<Longrightarrow> py_dict kvs k = Some v"
  by (simp add: py_dict_def rev_map [symmetric])

lemma report_children:
  "children_named ''class-of-service'' (native_tree dump job c) = [qos_node c]"
  by (simp add: children_named_def native_tree_def chassis_node_def interfaces_node_def switching_node_def qos_node_def
      mirror_nodes_def Let_def)

definition stored :: "xml \<Rightarrow> xml" where
  "stored n = Xml (xml_tag n) [] [] (map flat (xml_children n))"

lemma stored_simps [simp]: "xml_tag (stored n) = xml_tag n" "xml_children (stored n) = map flat (xml_children n)" "xml_tag (flat n) = xml_tag n"
  by (simp_all add: stored_def flat_def)

lemma report_nodes:
  "xml_children (board_report (native_tree dump job c)) = map stored (xml_children (qos_node c))"
  by (simp add: board_report_def report_children stored_def [abs_def])

lemma tags [simp]: "xml_tag (dscp_map_node c) = ''dscp-map''" "xml_tag (shared_memory_node c) = ''shared-memory''"
  "xml_tag (priority_node e) = ''switch-priority''"
  by (simp_all add: dscp_map_node_def shared_memory_node_def priority_node_def split: prod.splits)

lemma find_dscp: "find_all [''dscp-map'', ''entry''] (board_report (native_tree dump job c)) = map flat (xml_children (dscp_map_node c))"
  by (simp add: children_named_def report_nodes qos_node_def) (simp add: dscp_map_node_def flat_def comp_def)

lemma find_forwarding: "find_all [''forwarding'', ''switch-priority''] (board_report (native_tree dump job c))
    = map flat (map priority_node (forwarding_classes c))"
  by (simp add: children_named_def report_nodes qos_node_def comp_def)

subsection \<open>The maps\<close>

lemma read_dscp_report:
  "read_dscp_map (board_report (native_tree dump job c)) = Inr (map (\<lambda>d. dscp_priority c (int d)) [0..<64])"
proof -
  define es where "es = map (\<lambda>d. (Some (int d), Some (dscp_priority c (int d)))) [0..<64]"
  have pri: "0 \<le> dscp_priority c d \<and> dscp_priority c d \<le> 15" for d by (simp add: dscp_priority_def)
  have entries: "map (\<lambda>p. (number_of p ''dscp'', number_of p ''switch-priority'')) (find_all [''dscp-map'', ''entry''] (board_report (native_tree dump job c))) = es"
    unfolding find_dscp using pri by (simp add: es_def dscp_map_node_def flat_def attribute_def comp_def)
  have keys: "distinct (map fst es)" "set (map fst es) = set (map (\<lambda>d. Some (int d)) [0..<64])" "length es = 64"
    by (simp_all add: es_def comp_def distinct_map inj_on_def)
  have small: "\<not> list_ex (\<lambda>(_, v). case v of None \<Rightarrow> True | Some n \<Rightarrow> n > 15) es"
    using pri by (auto simp: es_def list_ex_iff not_less)
  have "py_dict es (Some (int d)) = Some (Some (dscp_priority c (int d)))" if "d < 64" for d
    by (rule py_dict_mem [OF keys(1)]) (use that in \<open>auto simp: es_def\<close>)
  then have "map (\<lambda>d. case py_dict es (Some (int d)) of Some (Some n) \<Rightarrow> n | _ \<Rightarrow> 0) [0..<64] = map (\<lambda>d. dscp_priority c (int d)) [0..<64]"
    by simp
  with keys(2,3) small show ?thesis unfolding read_dscp_map_def entries Let_def by simp
qed

lemma accepted_qos:
  assumes "validate_configuration c = Inr c"
  shows "length (qo_priority_map (sc_qos c)) = 8"
    and "\<forall>x \<in> set (qo_priority_map (sc_qos c)). 0 \<le> x \<and> x \<le> 7"
    and "0 \<le> ro_dscp (qo_roce (sc_qos c)) \<and> ro_dscp (qo_roce (sc_qos c)) \<le> 63"
    and "0 \<le> ro_cnp_dscp (qo_roce (sc_qos c)) \<and> ro_cnp_dscp (qo_roce (sc_qos c)) \<le> 63"
    and "ro_enabled (qo_roce (sc_qos c)) \<Longrightarrow> ro_ports (qo_roce (sc_qos c)) \<noteq> []"
    and "ro_classification (qo_roce (sc_qos c)) = Dscp \<Longrightarrow> ro_dscp (qo_roce (sc_qos c)) \<noteq> ro_cnp_dscp (qo_roce (sc_qos c))"
proof -
  have "first_failure (qos_checks (sc_qos c)) = None"
    by (rule accepted_fields(4) [OF validate_accepted(1) [OF assms]])
  then show "length (qo_priority_map (sc_qos c)) = 8"
    and "\<forall>x \<in> set (qo_priority_map (sc_qos c)). 0 \<le> x \<and> x \<le> 7"
    and "0 \<le> ro_dscp (qo_roce (sc_qos c)) \<and> ro_dscp (qo_roce (sc_qos c)) \<le> 63"
    and "0 \<le> ro_cnp_dscp (qo_roce (sc_qos c)) \<and> ro_cnp_dscp (qo_roce (sc_qos c)) \<le> 63"
    and "ro_enabled (qo_roce (sc_qos c)) \<Longrightarrow> ro_ports (qo_roce (sc_qos c)) \<noteq> []"
    and "ro_classification (qo_roce (sc_qos c)) = Dscp \<Longrightarrow> ro_dscp (qo_roce (sc_qos c)) \<noteq> ro_cnp_dscp (qo_roce (sc_qos c))"
    by (auto simp: qos_checks_def roce_checks_def check_simps list_all_iff split: if_splits)
qed

lemma dscp_map_priorities:
  assumes "validate_configuration c = Inr c"
  shows "map (\<lambda>d. dscp_priority c (int d)) [0..<64] = dscp_map c"
proof (rule nth_equalityI)
  show "length (map (\<lambda>d. dscp_priority c (int d)) [0..<64]) = length (dscp_map c)" by (simp add: dscp_map_def Let_def)
  fix i assume "i < length (map (\<lambda>d. dscp_priority c (int d)) [0..<64])"
  then have "i < 64" by simp
  with accepted_qos [OF assms] show "map (\<lambda>d. dscp_priority c (int d)) [0..<64] ! i = dscp_map c ! i"
    by (auto simp: dscp_map_def dscp_priority_def dscp_mode_def roce_ports_def Let_def CNP_PRIORITY_def nth_list_update nat_eq_iff)
qed

lemma forwarding_report:
  assumes "validate_configuration c = Inr c" and "(p, tc) \<in> set (forwarding_classes c)"
  shows "forwarding_map (board_report (native_tree dump job c)) p = Some tc"
proof -
  define fs where "fs = forwarding_classes c"
  note q = accepted_qos(1,2) [OF assms(1)]
  have range: "0 \<le> p \<and> 0 \<le> tc" if "(p, tc) \<in> set fs" for p tc
    using that q(2) by (auto simp: fs_def forwarding_classes_def enumerate_int_def internal_class_def in_set_zip split: if_splits)
  have keys: "distinct (map fst fs)"
    using q(1) by (auto simp: fs_def forwarding_classes_def enumerate_int_def comp_def upt_rec)
  have entries: "map (\<lambda>n. (number_of n ''priority'', number_of n ''traffic-class'')) (map flat (map priority_node fs))
      = map (\<lambda>(p, tc). (Some p, Some tc)) fs"
    using range by (auto simp: priority_node_def flat_def attribute_def)
  have "py_dict (map (\<lambda>(p, tc). (Some p, Some tc)) fs) (Some p) = Some (Some tc)"
  proof (rule py_dict_mem)
    have "map fst (map (\<lambda>(p, tc). (Some p, Some tc)) fs) = map Some (map fst fs)" by auto
    with keys show "distinct (map fst (map (\<lambda>(p, tc). (Some p, Some tc)) fs))" by (simp add: distinct_map inj_on_def)
    from assms(2) show "(Some p, Some tc) \<in> set (map (\<lambda>(p, tc). (Some p, Some tc)) fs)" by (force simp: fs_def)
  qed
  with entries show ?thesis unfolding forwarding_map_def find_forwarding fs_def by (simp only: option.case)
qed

text \<open>C27: the compiled maps are read back as the policy's. When the board reports the stored class of
  service, the diagnostics read the DSCP map of the policy, the configured class of each of the eight
  priorities, and with a RoCE policy the class the diagnostics expect of the internal priorities, so no
  healthy board is reported as differing by its maps.\<close>

theorem compiled_maps_read_back:
  fixes dump job_id
  assumes "validate_configuration c = Inr c"
  defines "report \<equiv> board_report (native_tree dump job_id c)"
  shows "read_dscp_map report = Inr (dscp_map c)
    \<and> (\<forall>(p, tc) \<in> set (enumerate_int (qo_priority_map (sc_qos c))). forwarding_map report p = Some tc)
    \<and> (roce_ports c \<noteq> [] \<longrightarrow> (\<forall>p \<in> {8, 9, 10, 11, 12, 13, 14, 15}. forwarding_map report p = Some (expected_internal c p)))"
proof (intro conjI impI)
  show "read_dscp_map report = Inr (dscp_map c)"
    by (simp add: report_def read_dscp_report dscp_map_priorities [OF assms(1)])
  show "\<forall>(p, tc) \<in> set (enumerate_int (qo_priority_map (sc_qos c))). forwarding_map report p = Some tc"
    using forwarding_report [OF assms(1)] unfolding report_def by (auto simp: forwarding_classes_def)
  assume "roce_ports c \<noteq> []"
  then have "(p, expected_internal c p) \<in> set (forwarding_classes c)" if "p \<in> {8, 9, 10, 11, 12, 13, 14, 15}" for p
    using that by (auto simp: forwarding_classes_def expected_internal_def internal_class_def)
  with forwarding_report [OF assms(1)] show "\<forall>p \<in> {8, 9, 10, 11, 12, 13, 14, 15}. forwarding_map report p = Some (expected_internal c p)"
    unfolding report_def by blast
qed

subsection \<open>The schedule\<close>

lemma find_scheduler:
  "find_all [''class-of-service'', ''scheduler'', ''interfaces'', ''interface''] (native_tree dump job c)
     = map (scheduler_interface c) (sorted_active c)"
proof -
  have "xml_tag (scheduler_interface c n) = ''interface''" for n by (simp add: scheduler_interface_def)
  then have "find_all [''scheduler'', ''interfaces'', ''interface''] (qos_node c) = map (scheduler_interface c) (sorted_active c)"
    by (simp add: qos_node_def children_named_def comp_def)
  then show ?thesis by (subst find_all.simps(2)) (simp add: report_children)
qed

lemma selected_weight:
  assumes "p \<in> set (roce_ports c)"
  shows "scheduler_weight c p tc = expected_weight c p tc"
    and "strict_class c p tc \<longleftrightarrow> expected_strict c tc = ''on''"
  using assms by (simp add: scheduler_weight_def expected_weight_def Let_def add.assoc)
    (use assms in \<open>auto simp: strict_class_def expected_strict_def CNP_TC_def\<close>)

lemma class_groups: "children_named ''group'' (scheduler_interface c p) =
  map (\<lambda>tc. elem ''group'' [number_leaf ''id'' tc, flag_leaf ''strict-priority'' (strict_class c p tc),
    number_leaf ''weight'' (scheduler_weight c p tc)]) CLASSES"
  by (simp add: children_named_def scheduler_interface_def class_nodes_def CLASSES_def)

text \<open>The compiled schedule is the expected one. Every port of a RoCE policy has its schedule in the
  compiled document, whose eight groups carry in order the weights and strict priorities the
  diagnostics compare the board's schedule with.\<close>

theorem compiled_schedule_expected:
  assumes "validate_configuration c = Inr c" and "p \<in> set (roce_ports c)"
  shows "\<exists>node \<in> set (find_all [''class-of-service'', ''scheduler'', ''interfaces'', ''interface''] (native_tree dump job_id c)).
     leaf_texts node ! 0 = (''name'', interface_name p)
   \<and> map leaf_texts (children_named ''group'' node) = map (\<lambda>tc. [(''id'', decimal_int tc),
        (''strict-priority'', if expected_strict c tc = ''on'' then ''true'' else ''false''),
        (''weight'', decimal_int (expected_weight c p tc))]) CLASSES"
proof (intro bexI conjI)
  have on: "ro_enabled (qo_roce (sc_qos c))" "p \<in> set (ro_ports (qo_roce (sc_qos c)))"
    using assms(2) by (auto simp: roce_ports_def split: if_splits)
  have "first_failure (issue_checks c) = None"
    using accepted_cross(8) [OF validate_accepted(2) [OF assms(1)]] on(1) by (simp add: configuration_issues_Nil)
  then have "first_failure (port_issues c p) = None"
    using on(2) by (auto simp: issue_checks_def first_failure_concat_None check_simps Let_def split: if_splits)
  then have "p \<in> set (active_ports c)" by (auto simp: port_issues_def Let_def check_simps split: if_splits)
  then show "scheduler_interface c p \<in> set (find_all [''class-of-service'', ''scheduler'', ''interfaces'', ''interface''] (native_tree dump job_id c))"
    unfolding find_scheduler by (simp add: sorted_active_def)
  show "leaf_texts (scheduler_interface c p) ! 0 = (''name'', interface_name p)" by (simp add: scheduler_interface_def)
  show "map leaf_texts (children_named ''group'' (scheduler_interface c p)) = map (\<lambda>tc. [(''id'', decimal_int tc),
        (''strict-priority'', if expected_strict c tc = ''on'' then ''true'' else ''false''),
        (''weight'', decimal_int (expected_weight c p tc))]) CLASSES"
    unfolding class_groups by (simp add: selected_weight [OF assms(2)] del: xml_tag_elements) (simp add: CLASSES_def)
qed

theorem compiled_maps_read_back_witness:
  "forwarding_map (board_report (native_tree (\<lambda>_. []) ''j'' sample_configuration)) 11 = Some 0"
proof -
  have "roce_ports sample_configuration \<noteq> []" "expected_internal sample_configuration 11 = 0" by code_simp+
  with compiled_maps_read_back [OF sample_accepted, of "\<lambda>_. []" "''j''"] show ?thesis by auto
qed

theorem compiled_schedule_expected_witness:
  "\<exists>node \<in> set (find_all [''class-of-service'', ''scheduler'', ''interfaces'', ''interface''] (native_tree (\<lambda>_. []) ''j'' sample_configuration)).
     leaf_texts node ! 0 = (''name'', ''et-0/0/4'')"
proof -
  have five: "5 \<in> set (roce_ports sample_configuration)" and name: "interface_name 5 = ''et-0/0/4''" by code_simp+
  from compiled_schedule_expected [OF sample_accepted five, of "\<lambda>_. []" "''j''"] show ?thesis unfolding name by blast
qed

end
