(* ===== verification/Upgrade.thy ===== *)
theory Upgrade
  imports Documents
begin

text \<open>
  The paired upgrade of native programs and Web service: upgrade and rollback of installation.py and the
  worker of update_helper.py. Every operation on the disk and every command can fail or be cut off by a
  power loss, before, after or in the middle of its effect: the faults to come are part of the state. A
  power loss is not an exception, no handler or cleanup sees it. A directory is the list of its files
  with their contents; SHA-256, the built programs, the admission checks and the answers of configd are
  parameters.
\<close>

type_synonym tree = "(string \<times> string) list"
type_synonym version = "int \<times> int \<times> int"
type_synonym digests = "(string \<times> string) list"

subsection \<open>State\<close>

datatype phase = Stopping | Checkpointed | Switching | Committed | Aborted | RolledBack

definition terminal_phase :: "phase \<Rightarrow> bool" where
  "terminal_phase p \<longleftrightarrow> p = Committed \<or> p = Aborted \<or> p = RolledBack"

record metadata =
  md_version :: version
  md_package_sha :: string
  md_sdk_sha :: string
  md_dependencies_sha :: string

record update_journal =
  tr_phase :: phase
  tr_backup :: string
  tr_before :: metadata
  tr_configuration :: json
  tr_target :: version
  tr_job :: "string option"
  tr_digests :: "(string \<times> digests) list"

record checkpoint_dir =
  bk_native :: "tree option"
  bk_etc :: "tree option"
  bk_native_state :: "tree option"
  bk_web_state :: "tree option"
  bk_package :: "string option"

datatype update_state = Idle | Available | UpToDate | CheckFailed | Queued | Downloading | Preparing | Installing
| Restarting | RollingBack | RecoveryRequired | RolledBackState | Succeeded | Failed

record helper_job =
  uj_id :: string
  uj_version :: version
  uj_state :: update_state

record candidate =
  cn_version :: version
  cn_manifest_sha :: string
  cn_sdk_sha :: string

record manager_state =
  um_state :: update_state
  um_candidate :: "candidate option"
  um_job :: "helper_job option"
  um_checked_at :: int

text \<open>What was on the disk when a service started.\<close>

record start_image =
  im_native :: "tree option"
  im_etc :: "tree option"
  im_native_state :: "tree option"
  im_web_state :: "tree option"
  im_package :: "string option"

datatype disk_fault = Fine | Fails nat | Halts nat

record host =
  ho_native :: "tree option"
  ho_etc :: "tree option"
  ho_native_state :: "tree option"
  ho_web_state :: "tree option"
  ho_package :: "string option"
  ho_installation :: metadata
  ho_packages :: "(version \<times> string) list"
  ho_journal :: "update_journal option"
  ho_backup :: checkpoint_dir
  ho_manager :: manager_state
  ho_marker :: bool
  ho_permission :: bool
  ho_running :: bool
  ho_panel :: bool
  ho_starts :: "start_image list"
  ho_daemon_starts :: "start_image list"
  ho_panel_starts :: "start_image list"
  ho_transaction :: update_journal
  ho_ready :: bool
  ho_faults :: "disk_fault list"

datatype release_error = PowerLoss | OperationFailed | NotNewer | AdmissionFailed | NoRollbackPackage | SnapshotRefused
| ConfigurationChanged | SourceMissing | CheckpointPath | CheckpointMissing | CheckpointIntegrity | PackageIntegrity
| EtcChanged | AccountChanged | RollbackFailed2 release_error release_error | JournalUnknown
| VersionsDisagree | CandidateGone

type_synonym 'a host_action = "(host, release_error, 'a) action"

subsection \<open>Operations that can fail\<close>

text \<open>\<open>part n\<close> is the effect when the operation stops after \<open>n\<close> of its parts.\<close>

definition disk_operation :: "(nat \<Rightarrow> host \<Rightarrow> host) \<Rightarrow> (host \<Rightarrow> host) \<Rightarrow> unit host_action" where
  "disk_operation part full = (\<lambda>s. case ho_faults s of
     [] \<Rightarrow> (Inr (), full s)
   | f # fs \<Rightarrow> (let t = s\<lparr>ho_faults := fs\<rparr> in case f of
       Fine \<Rightarrow> (Inr (), full t)
     | Fails n \<Rightarrow> (Inl OperationFailed, part n t)
     | Halts n \<Rightarrow> (Inl PowerLoss, part n t)))"

text \<open>A rename, a file written through one, a command: the effect is there or not.\<close>

definition atomic :: "(host \<Rightarrow> host) \<Rightarrow> unit host_action" where
  "atomic full = disk_operation (\<lambda>n s. if n = 0 then s else full s) full"

definition command :: "unit host_action" where
  "command = disk_operation (\<lambda>_ s. s) (\<lambda>s. s)"

definition catch_failure :: "'a host_action \<Rightarrow> (release_error \<Rightarrow> 'a host_action) \<Rightarrow> 'a host_action" where
  "catch_failure body handler = (\<lambda>s. case body s of
     (Inr a, t) \<Rightarrow> (Inr a, t) | (Inl e, t) \<Rightarrow> if e = PowerLoss then (Inl PowerLoss, t) else handler e t)"

definition finally_failure :: "'a host_action \<Rightarrow> unit host_action \<Rightarrow> 'a host_action" where
  "finally_failure body cleanup = (\<lambda>s. case body s of (r, t) \<Rightarrow>
     (if (case r of Inl e \<Rightarrow> e = PowerLoss | Inr _ \<Rightarrow> False) then (r, t)
      else case cleanup t of (Inl e, u) \<Rightarrow> (Inl e, u) | (Inr _, u) \<Rightarrow> (r, u)))"

subsection \<open>Services\<close>

text \<open>
  \<^verbatim>\<open>verify_update_gate\<close>, called by the startup helper of switchd: it refuses while the journal names an
  unfinished update, unless a live worker has left its permission. Only switchd calls it. The other native
  daemons and the panel start without asking.
\<close>

definition gate_open :: "host \<Rightarrow> bool" where
  "gate_open s \<longleftrightarrow> (case ho_journal s of None \<Rightarrow> True | Some t \<Rightarrow> terminal_phase (tr_phase t) \<or> ho_permission s)"

definition start_image_of :: "host \<Rightarrow> start_image" where
  "start_image_of s = \<lparr>im_native = ho_native s, im_etc = ho_etc s, im_native_state = ho_native_state s,
     im_web_state = ho_web_state s, im_package = ho_package s\<rparr>"

record world =
  wo_sha :: "string \<Rightarrow> string"
  wo_touch :: "start_image \<Rightarrow> tree option \<times> tree option \<times> tree option"
  wo_panel :: "start_image \<Rightarrow> tree option"

text \<open>
  \<^verbatim>\<open>systemctl start fm10k-switch.target\<close> starts every native daemon, at once and with no state of the gate
  in between: the units are simple services ordered after each other, so the command returns whether or not
  switchd is let through. \<open>ho_starts\<close> are the starts of switchd that the gate let through, \<open>ho_daemon_starts\<close>
  all starts of the other daemons. What started services write to their directories is the world's.
\<close>

definition services_started :: "world \<Rightarrow> host \<Rightarrow> host" where
  "services_started w s = (case wo_touch w (start_image_of s) of (e, n, v) \<Rightarrow>
     s\<lparr>ho_etc := e, ho_native_state := n, ho_web_state := v, ho_running := True,
       ho_daemon_starts := ho_daemon_starts s @ [start_image_of s]\<rparr>)"

definition start_native :: "world \<Rightarrow> host \<Rightarrow> host" where
  "start_native w s = (if gate_open s
     then (services_started w s)\<lparr>ho_starts := ho_starts s @ [start_image_of s]\<rparr> else services_started w s)"

definition start_panel :: "world \<Rightarrow> host \<Rightarrow> host" where
  "start_panel w s = s\<lparr>ho_web_state := wo_panel w (start_image_of s), ho_panel := True,
     ho_panel_starts := ho_panel_starts s @ [start_image_of s]\<rparr>"

definition stop_services :: "unit host_action" where
  "stop_services = atomic (\<lambda>s. s\<lparr>ho_running := False, ho_panel := False\<rparr>)"

definition start_services :: "world \<Rightarrow> unit host_action" where
  "start_services w = then_action (atomic (start_native w)) (atomic (start_panel w))"

definition with_permission :: "unit host_action \<Rightarrow> unit host_action" where
  "with_permission body = then_action (atomic (\<lambda>s. s\<lparr>ho_permission := True\<rparr>))
     (finally_failure body (atomic (\<lambda>s. s\<lparr>ho_permission := False\<rparr>)))"

subsection \<open>Trees and records\<close>

definition tree_digests :: "world \<Rightarrow> tree \<Rightarrow> digests" where
  "tree_digests w t = map (\<lambda>(name, content). (name, wo_sha w content)) t"

datatype place = Etc | NativeState | WebState

fun place_name :: "place \<Rightarrow> string" where
  "place_name Etc = ''etc''"
| "place_name NativeState = ''native-state''"
| "place_name WebState = ''web-state''"

fun place_of :: "place \<Rightarrow> host \<Rightarrow> tree option" where
  "place_of Etc s = ho_etc s"
| "place_of NativeState s = ho_native_state s"
| "place_of WebState s = ho_web_state s"

fun set_place :: "place \<Rightarrow> tree option \<Rightarrow> host \<Rightarrow> host" where
  "set_place Etc t s = s\<lparr>ho_etc := t\<rparr>"
| "set_place NativeState t s = s\<lparr>ho_native_state := t\<rparr>"
| "set_place WebState t s = s\<lparr>ho_web_state := t\<rparr>"

fun saved_of :: "place \<Rightarrow> checkpoint_dir \<Rightarrow> tree option" where
  "saved_of Etc b = bk_etc b"
| "saved_of NativeState b = bk_native_state b"
| "saved_of WebState b = bk_web_state b"

fun set_saved :: "place \<Rightarrow> tree option \<Rightarrow> checkpoint_dir \<Rightarrow> checkpoint_dir" where
  "set_saved Etc t b = b\<lparr>bk_etc := t\<rparr>"
| "set_saved NativeState t b = b\<lparr>bk_native_state := t\<rparr>"
| "set_saved WebState t b = b\<lparr>bk_web_state := t\<rparr>"

definition empty_backup :: checkpoint_dir where
  "empty_backup = \<lparr>bk_native = None, bk_etc = None, bk_native_state = None, bk_web_state = None, bk_package = None\<rparr>"

definition set_phase :: "phase \<Rightarrow> unit host_action" where
  "set_phase p = modify_state (\<lambda>s. s\<lparr>ho_transaction := (ho_transaction s)\<lparr>tr_phase := p\<rparr>\<rparr>)"

definition note_digests :: "string \<Rightarrow> digests \<Rightarrow> unit host_action" where
  "note_digests name d = modify_state (\<lambda>s. s\<lparr>ho_transaction := (ho_transaction s)\<lparr>tr_digests :=
     dict_set (tr_digests (ho_transaction s)) name d\<rparr>\<rparr>)"

text \<open>\<^verbatim>\<open>save(paths.journal, transaction)\<close>\<close>

definition save_journal :: "unit host_action" where
  "save_journal = atomic (\<lambda>s. s\<lparr>ho_journal := Some (ho_transaction s)\<rparr>)"

definition save_installation :: "metadata \<Rightarrow> unit host_action" where
  "save_installation m = atomic (\<lambda>s. s\<lparr>ho_installation := m\<rparr>)"

definition progress_to :: "update_state \<Rightarrow> unit host_action" where
  "progress_to st = atomic (\<lambda>s. s\<lparr>ho_manager := (ho_manager s)\<lparr>um_state := st,
     um_job := map_option (\<lambda>j. j\<lparr>uj_state := st\<rparr>) (um_job (ho_manager s))\<rparr>\<rparr>)"

text \<open>\<^verbatim>\<open>dpkg -i\<close>: cut off in the middle it leaves the package half installed.\<close>

definition install_package :: "string \<Rightarrow> unit host_action" where
  "install_package deb = disk_operation (\<lambda>n s. if n = 0 then s else s\<lparr>ho_package := None\<rparr>) (\<lambda>s. s\<lparr>ho_package := Some deb\<rparr>)"

subsection \<open>Rollback\<close>

definition restore_native :: "world \<Rightarrow> update_journal \<Rightarrow> unit host_action" where
  "restore_native w t = with_state (\<lambda>s. case bk_native (ho_backup s) of
     Some saved \<Rightarrow>
       if map_of (tr_digests t) ''native'' \<noteq> Some (tree_digests w saved) then raise_error CheckpointIntegrity
       else then_action command
         (then_action (if ho_native s \<noteq> None then atomic (\<lambda>s. s\<lparr>ho_native := None\<rparr>) else ret ())
           (atomic (\<lambda>s. s\<lparr>ho_native := Some saved\<rparr>)))
   | None \<Rightarrow> if tr_phase t \<notin> {Checkpointed, Stopping} then raise_error CheckpointMissing else ret ())"

text \<open>\<^verbatim>\<open>shutil.rmtree\<close> and \<^verbatim>\<open>checkpoint_copy\<close> go file by file.\<close>

definition remove_place :: "place \<Rightarrow> unit host_action" where
  "remove_place p = disk_operation (\<lambda>n s. set_place p (map_option (drop n) (place_of p s)) s) (set_place p None)"

definition restore_place :: "world \<Rightarrow> update_journal \<Rightarrow> place \<Rightarrow> unit host_action" where
  "restore_place w t p = with_state (\<lambda>s. case saved_of p (ho_backup s) of
     None \<Rightarrow> ret ()
   | Some saved \<Rightarrow>
       if map_of (tr_digests t) (place_name p) \<noteq> Some (tree_digests w saved) then raise_error CheckpointIntegrity
       else then_action (if place_of p s \<noteq> None then remove_place p else ret ())
         (disk_operation (\<lambda>n. set_place p (Some (take n saved))) (set_place p (Some saved))))"

definition backup_path_ok :: "string \<Rightarrow> bool" where
  "backup_path_ok name \<longleftrightarrow> take 10 name = ''.rollback-''"

definition restore_package :: "world \<Rightarrow> metadata \<Rightarrow> unit host_action" where
  "restore_package w old = with_state (\<lambda>s. case bk_package (ho_backup s) of
     None \<Rightarrow> raise_error SourceMissing
   | Some deb \<Rightarrow> if wo_sha w deb \<noteq> md_package_sha old then raise_error PackageIntegrity else install_package deb)"

definition rollback_upgrade :: "world \<Rightarrow> unit host_action" where
  "rollback_upgrade w = with_state (\<lambda>s. let t = ho_transaction s; old = tr_before t in
     if \<not> backup_path_ok (tr_backup t) then raise_error CheckpointPath
     else if tr_phase t = Committed then ret ()
     else then_action stop_services
       (then_action (restore_native w t)
       (then_action (for_each (restore_place w t) [Etc, NativeState, WebState])
       (then_action (restore_package w old)
       (then_action command
       (then_action (save_installation old)
       (then_action (with_permission (then_action (start_services w) command))
       (then_action (set_phase RolledBack) save_journal))))))))"

subsection \<open>Upgrade\<close>

record upgrade_inputs =
  up_version :: version
  up_stage :: tree
  up_package :: string
  up_admitted :: "bool \<times> bool"
  up_snapshots :: "bool \<times> (int \<times> json) option"
  up_token :: string
  up_job :: "string option"

definition file_of :: "tree option \<Rightarrow> string \<Rightarrow> string option" where
  "file_of t name = (case t of None \<Rightarrow> None | Some files \<Rightarrow> map_of files name)"

definition save_place :: "world \<Rightarrow> place \<Rightarrow> unit host_action" where
  "save_place w p = with_state (\<lambda>s. case place_of p s of
     None \<Rightarrow> raise_error SourceMissing
   | Some files \<Rightarrow> then_action
       (disk_operation (\<lambda>n s. s\<lparr>ho_backup := set_saved p (Some (take n files)) (ho_backup s)\<rparr>)
         (\<lambda>s. s\<lparr>ho_backup := set_saved p (Some files) (ho_backup s)\<rparr>))
       (note_digests (place_name p) (tree_digests w files)))"

definition check_pointer :: "int \<Rightarrow> unit host_action" where
  "check_pointer revision = with_state (\<lambda>s. case file_of (ho_native_state s) ''config/journal/tx_counter'' of
     None \<Rightarrow> raise_error SourceMissing
   | Some text \<Rightarrow> (case py_int text of None \<Rightarrow> raise_error OperationFailed
       | Some pointer \<Rightarrow> if pointer + 1 \<noteq> revision then raise_error ConfigurationChanged else ret ()))"

definition save_checkpoint :: "world \<Rightarrow> string \<Rightarrow> unit host_action" where
  "save_checkpoint w old_package =
     then_action (for_each (save_place w) [Etc, NativeState, WebState])
     (then_action (with_state (\<lambda>s. case ho_native s of None \<Rightarrow> raise_error SourceMissing
        | Some files \<Rightarrow> note_digests ''native'' (tree_digests w files)))
     (then_action command
     (then_action (disk_operation (\<lambda>n s. if n = 0 then s else s\<lparr>ho_backup := (ho_backup s)\<lparr>bk_package := Some old_package\<rparr>\<rparr>)
        (\<lambda>s. s\<lparr>ho_backup := (ho_backup s)\<lparr>bk_package := Some old_package\<rparr>\<rparr>))
     (then_action (set_phase Checkpointed)
     (then_action save_journal (modify_state (\<lambda>s. s\<lparr>ho_ready := True\<rparr>)))))))"

definition verify_preserved :: "world \<Rightarrow> unit host_action" where
  "verify_preserved w = with_state (\<lambda>s. let d = tr_digests (ho_transaction s) in
     if map_option (tree_digests w) (ho_etc s) \<noteq> map_of d ''etc'' then raise_error EtcChanged
     else (case file_of (ho_web_state s) ''accounts.json'' of
         None \<Rightarrow> raise_error SourceMissing
       | Some content \<Rightarrow>
           if Some (wo_sha w content) \<noteq> (case map_of d ''web-state'' of None \<Rightarrow> None | Some m \<Rightarrow> map_of m ''accounts.json'')
           then raise_error AccountChanged else ret ()))"

definition switch_over :: "world \<Rightarrow> upgrade_inputs \<Rightarrow> metadata \<Rightarrow> unit host_action" where
  "switch_over w u old =
     then_action (atomic (\<lambda>s. s\<lparr>ho_backup := (ho_backup s)\<lparr>bk_native := ho_native s\<rparr>, ho_native := None\<rparr>))
     (then_action (set_phase Switching)
     (then_action save_journal
     (then_action (atomic (\<lambda>s. s\<lparr>ho_native := Some (up_stage u)\<rparr>))
     (then_action (install_package (up_package u))
     (then_action command
     (then_action (progress_to Restarting)
     (then_action (with_permission (then_action (start_services w) command))
     (then_action (verify_preserved w)
     (then_action (atomic (\<lambda>s. s\<lparr>ho_packages := dict_set (ho_packages s) (up_version u) (up_package u)\<rparr>))
     (then_action (save_installation (old\<lparr>md_version := up_version u, md_package_sha := wo_sha w (up_package u)\<rparr>))
     (then_action (set_phase Committed) save_journal)))))))))))"

definition fall_back :: "world \<Rightarrow> release_error \<Rightarrow> unit host_action" where
  "fall_back w e = with_state (\<lambda>s.
     if ho_ready s then
       then_action (progress_to RollingBack)
       (then_action (catch_failure (rollback_upgrade w)
          (\<lambda>r. then_action (progress_to RecoveryRequired) (raise_error (RollbackFailed2 e r))))
       (then_action (progress_to RolledBackState) (raise_error e)))
     else then_action (set_phase Aborted) (then_action save_journal (then_action (start_services w) (raise_error e))))"

definition enter_maintenance :: "world \<Rightarrow> upgrade_inputs \<Rightarrow> metadata \<Rightarrow> unit host_action" where
  "enter_maintenance w u old = catch_failure
     (then_action (atomic (\<lambda>s. s\<lparr>ho_panel := False\<rparr>))
       (case snd (up_snapshots u) of
          None \<Rightarrow> raise_error SnapshotRefused
        | Some (revision, configuration) \<Rightarrow> then_action (modify_state (\<lambda>s. s\<lparr>ho_transaction :=
              \<lparr>tr_phase = Stopping, tr_backup = ''.rollback-'' @ up_token u, tr_before = old, tr_configuration = configuration,
               tr_target = up_version u, tr_job = up_job u, tr_digests = []\<rparr>, ho_ready := False\<rparr>)) save_journal))
     (\<lambda>e. then_action (atomic (start_panel w)) (raise_error e))"

definition snapshot_revision :: "upgrade_inputs \<Rightarrow> int" where
  "snapshot_revision u = (case snd (up_snapshots u) of None \<Rightarrow> 0 | Some (r, _) \<Rightarrow> r)"

definition upgrade :: "world \<Rightarrow> upgrade_inputs \<Rightarrow> unit host_action" where
  "upgrade w u = with_state (\<lambda>s. let old = ho_installation s in
     if up_version u \<le> md_version old then raise_error NotNewer
     else if \<not> fst (up_admitted u) then raise_error AdmissionFailed
     else (case map_of (ho_packages s) (md_version old) of
       None \<Rightarrow> raise_error NoRollbackPackage
     | Some old_package \<Rightarrow>
         if wo_sha w old_package \<noteq> md_package_sha old then raise_error NoRollbackPackage
         else if \<not> fst (up_snapshots u) then raise_error SnapshotRefused
         else then_action (progress_to Preparing)
           (then_action command
           (if \<not> snd (up_admitted u) then raise_error AdmissionFailed
            else then_action (progress_to Installing)
              (then_action (atomic (\<lambda>s. s\<lparr>ho_backup := empty_backup\<rparr>))
              (then_action (enter_maintenance w u old)
                (catch_failure
                  (then_action stop_services
                    (then_action (check_pointer (snapshot_revision u))
                    (then_action (save_checkpoint w old_package) (switch_over w u old))))
                  (fall_back w))))))))"

subsection \<open>The worker\<close>

definition busy_state :: "update_state \<Rightarrow> bool" where
  "busy_state st \<longleftrightarrow> st \<in> {Queued, Downloading, Preparing, Installing, Restarting, RollingBack, RecoveryRequired}"

definition set_marker :: "bool \<Rightarrow> unit host_action" where
  "set_marker b = atomic (\<lambda>s. s\<lparr>ho_marker := b\<rparr>)"

definition close_job :: "update_state \<Rightarrow> bool host_action" where
  "close_job st = then_action (progress_to st) (then_action (set_marker False) (ret True))"

definition job_version :: "host \<Rightarrow> version option" where
  "job_version s = map_option uj_version (um_job (ho_manager s))"

definition job_id :: "host \<Rightarrow> string option" where
  "job_id s = map_option uj_id (um_job (ho_manager s))"

definition recover_update :: "world \<Rightarrow> bool host_action" where
  "recover_update w = with_state (\<lambda>s. case ho_journal s of
     None \<Rightarrow> ret False
   | Some t \<Rightarrow>
       if tr_phase t = Committed then
         (if busy_state (um_state (ho_manager s)) \<and> job_version s = Some (tr_target t)
          then (if md_version (ho_installation s) \<noteq> tr_target t then raise_error VersionsDisagree else close_job Succeeded)
          else ret False)
       else if tr_phase t = Aborted \<or> tr_phase t = RolledBack then
         (if busy_state (um_state (ho_manager s)) \<and> tr_job t \<noteq> None \<and> job_id s = tr_job t
          then close_job (if tr_phase t = RolledBack then RolledBackState else Failed)
          else ret False)
       else then_action (progress_to RollingBack)
         (then_action (modify_state (\<lambda>s. s\<lparr>ho_transaction := t, ho_ready := True\<rparr>))
         (then_action
           (if tr_phase t = Stopping
            then then_action (set_phase Aborted) (then_action save_journal (start_services w))
            else rollback_upgrade w)
           (close_job RolledBackState))))"

text \<open>What GitHub and the extraction deliver for the queued candidate: nothing, or the inputs of the upgrade.\<close>

definition queued_upgrade :: "world \<Rightarrow> upgrade_inputs option \<Rightarrow> unit host_action" where
  "queued_upgrade w fetched = with_state (\<lambda>s. case um_candidate (ho_manager s) of
     None \<Rightarrow> raise_error CandidateGone
   | Some c \<Rightarrow> if cn_version c \<le> md_version (ho_installation s) then raise_error NotNewer
       else then_action (progress_to Downloading) (case fetched of
         None \<Rightarrow> raise_error OperationFailed
       | Some u \<Rightarrow> then_action (upgrade w u)
           (then_action (progress_to Succeeded)
             (atomic (\<lambda>s. s\<lparr>ho_manager := (ho_manager s)\<lparr>um_candidate := None\<rparr>\<rparr>)))))"

definition note_failed_job :: "release_error \<Rightarrow> unit host_action" where
  "note_failed_job e = with_state (\<lambda>s.
     then_action (if um_state (ho_manager s) \<in> {RolledBackState, RecoveryRequired} then ret () else progress_to Failed) (raise_error e))"

definition release_marker :: "unit host_action" where
  "release_marker = with_state (\<lambda>s. if um_state (ho_manager s) = RecoveryRequired then ret () else set_marker False)"

definition work_update :: "world \<Rightarrow> upgrade_inputs option \<Rightarrow> unit host_action" where
  "work_update w fetched = with_state (\<lambda>prior.
     then_action (if busy_state (um_state (ho_manager prior)) \<or> ho_journal prior \<noteq> None then set_marker True else ret ())
     (bind_action (catch_failure (recover_update w)
        (\<lambda>e. then_action (progress_to RecoveryRequired) (raise_error e)))
     (\<lambda>recovered. if recovered then ret () else with_state (\<lambda>s.
        if \<not> busy_state (um_state (ho_manager s)) then set_marker False
        else if um_state (ho_manager s) \<noteq> Queued then then_action (progress_to Failed) (set_marker False)
        else finally_failure (catch_failure (queued_upgrade w fetched) note_failed_job) release_marker))))"

text \<open>
  The permission names the worker's process and ends with it. A power loss clears the memory and \<^verbatim>\<open>/run\<close>; a boot
  starts the native units, the panel and the worker, in any order. The life of a board is any sequence of
  worker runs, with any faults, power losses, starts of the native units and of the panel between them, and
  new requests.
\<close>

definition lose_power :: "host \<Rightarrow> host" where
  "lose_power s = s\<lparr>ho_marker := False, ho_permission := False, ho_running := False, ho_panel := False\<rparr>"

inductive life :: "world \<Rightarrow> (tree \<times> string) set \<Rightarrow> host \<Rightarrow> bool" for w releases where
  installed: "ho_native s = Some n \<Longrightarrow> ho_package s = Some p \<Longrightarrow> (n, wo_sha w p) \<in> releases \<Longrightarrow>
     md_package_sha (ho_installation s) = wo_sha w p \<Longrightarrow> ho_journal s = None \<Longrightarrow> ho_permission s = False \<Longrightarrow> ho_starts s = [] \<Longrightarrow>
     life w releases s"
| worked: "life w releases s \<Longrightarrow> (case fetched of None \<Rightarrow> True | Some u \<Rightarrow> (up_stage u, wo_sha w (up_package u)) \<in> releases) \<Longrightarrow>
     work_update w fetched (s\<lparr>ho_faults := faults\<rparr>) = (r, t) \<Longrightarrow> life w releases (t\<lparr>ho_permission := False\<rparr>)"
| lost_power: "life w releases s \<Longrightarrow> life w releases (lose_power s)"
| booted: "life w releases s \<Longrightarrow> life w releases (start_native w s)"
| panel_started: "life w releases s \<Longrightarrow> life w releases (start_panel w s)"
| requested: "life w releases s \<Longrightarrow> life w releases (s\<lparr>ho_manager := m, ho_marker := b, ho_faults := fs\<rparr>)"

end
