(* ===== verification/Upgrade_Safety.thy ===== *)
theory Upgrade_Safety
  imports Upgrade
begin

text \<open>
  The invariant of an upgrade over all faults: what the disk holds in each phase of the journal, and that
  switchd is only let through on the programs and the Web package of one release. A calculus of partial
  specifications with one error condition for exceptions and power losses carries the proofs.
\<close>

named_theorems host_defs \<open>the predicates of the invariant\<close>

subsection \<open>Specifications\<close>

definition spec :: "(host \<Rightarrow> bool) \<Rightarrow> 'a host_action \<Rightarrow> ('a \<Rightarrow> host \<Rightarrow> bool) \<Rightarrow> (release_error \<Rightarrow> host \<Rightarrow> bool) \<Rightarrow> bool" where
  "spec P m Q E \<longleftrightarrow> (\<forall>s. P s \<longrightarrow> wp m Q E s)"

lemma specI: "(\<And>s. P s \<Longrightarrow> wp m Q E s) \<Longrightarrow> spec P m Q E"
  by (simp add: spec_def)

lemma spec_ret: "(\<And>s. P s \<Longrightarrow> Q a s) \<Longrightarrow> spec P (ret a) Q E"
  by (simp add: spec_def wp_simps)

lemma spec_raise: "(\<And>s. P s \<Longrightarrow> E e s) \<Longrightarrow> spec P (raise_error e) Q E"
  by (simp add: spec_def wp_simps)

lemma spec_modify: "(\<And>s. P s \<Longrightarrow> Q () (f s)) \<Longrightarrow> spec P (modify_state f) Q E"
  by (simp add: spec_def wp_simps)

lemma spec_then: "spec P m (\<lambda>_. R) E \<Longrightarrow> spec R k Q E \<Longrightarrow> spec P (then_action m k) Q E"
  unfolding spec_def wp_then by (intro allI impI, rule wp_mono [where Q = "\<lambda>_. R" and E = E]) blast+

lemma spec_bind: "spec P m R E \<Longrightarrow> (\<And>a. spec (R a) (k a) Q E) \<Longrightarrow> spec P (bind_action m k) Q E"
  unfolding spec_def wp_bind by (intro allI impI, rule wp_mono [where Q = R and E = E]) blast+

lemma spec_state: "(\<And>s. P s \<Longrightarrow> spec (\<lambda>t. t = s) (f s) Q E) \<Longrightarrow> spec P (with_state f) Q E"
  by (auto simp: spec_def wp_simps)

lemma spec_conseq:
  "spec P' m Q' E' \<Longrightarrow> (\<And>s. P s \<Longrightarrow> P' s) \<Longrightarrow> (\<And>a s. Q' a s \<Longrightarrow> Q a s) \<Longrightarrow> (\<And>e s. E' e s \<Longrightarrow> E e s) \<Longrightarrow> spec P m Q E"
  unfolding spec_def by (intro allI impI, rule wp_mono [where Q = Q' and E = E']) blast+

lemma spec_pre: "spec P' m Q E \<Longrightarrow> (\<And>s. P s \<Longrightarrow> P' s) \<Longrightarrow> spec P m Q E"
  by (auto simp: spec_def)

lemma spec_at: "spec P m Q E \<Longrightarrow> P s \<Longrightarrow> spec (\<lambda>t. t = s) m Q E"
  by (simp add: spec_def)

lemma spec_if: "(b \<Longrightarrow> spec P m Q E) \<Longrightarrow> (\<not> b \<Longrightarrow> spec P k Q E) \<Longrightarrow> spec P (if b then m else k) Q E"
  by simp

lemma spec_for_each: "(\<And>x. x \<in> set xs \<Longrightarrow> spec P (f x) (\<lambda>_. P) E) \<Longrightarrow> spec P (for_each f xs) (\<lambda>_. P) E"
  by (induction xs) (auto intro: spec_ret spec_then)

lemma spec_operation:
  assumes "\<And>s fs. P s \<Longrightarrow> Q () (full (s\<lparr>ho_faults := fs\<rparr>))"
    and "\<And>s fs n e. P s \<Longrightarrow> e \<in> {OperationFailed, PowerLoss} \<Longrightarrow> E e (part n (s\<lparr>ho_faults := fs\<rparr>))"
  shows "spec P (disk_operation part full) Q E"
proof (rule specI)
  fix s assume P: "P s"
  have same: "s\<lparr>ho_faults := ho_faults s\<rparr> = s" by simp
  from assms(1) [OF P, of "ho_faults s"] same have "Q () (full s)" by simp
  with P assms show "wp (disk_operation part full) Q E s"
    by (auto simp: wp_def disk_operation_def Let_def split: list.split disk_fault.split)
qed

lemma spec_atomic:
  assumes "\<And>s fs. P s \<Longrightarrow> Q () (full (s\<lparr>ho_faults := fs\<rparr>))"
    and "\<And>s fs e. P s \<Longrightarrow> e \<in> {OperationFailed, PowerLoss} \<Longrightarrow> E e (s\<lparr>ho_faults := fs\<rparr>) \<and> E e (full (s\<lparr>ho_faults := fs\<rparr>))"
  shows "spec P (atomic full) Q E"
  unfolding atomic_def by (rule spec_operation) (use assms in auto)

lemma spec_catch:
  assumes "spec P body Q (\<lambda>e t. if e = PowerLoss then E PowerLoss t else H e t)"
    and "\<And>e. e \<noteq> PowerLoss \<Longrightarrow> spec (H e) (handler e) Q E"
  shows "spec P (catch_failure body handler) Q E"
proof (rule specI)
  fix s assume "P s"
  with assms show "wp (catch_failure body handler) Q E s"
    by (fastforce simp: spec_def wp_def catch_failure_def split: prod.splits sum.splits if_splits)
qed

lemma spec_finally:
  assumes "spec P body Q1 E1" and "\<And>a. spec (Q1 a) cleanup (\<lambda>_. Q a) E"
    and "\<And>e. e \<noteq> PowerLoss \<Longrightarrow> spec (E1 e) cleanup (\<lambda>_. E e) E" and "\<And>s. E1 PowerLoss s \<Longrightarrow> E PowerLoss s"
  shows "spec P (finally_failure body cleanup) Q E"
proof (rule specI)
  fix s assume "P s"
  with assms show "wp (finally_failure body cleanup) Q E s"
    by (fastforce simp: spec_def wp_def finally_failure_def split: prod.splits sum.splits if_splits)
qed

subsection \<open>The disk in each phase\<close>

definition intact :: "world \<Rightarrow> (tree \<times> string) set \<Rightarrow> host \<Rightarrow> bool" where
  [host_defs]: "intact w R s \<longleftrightarrow> (\<exists>n p. ho_native s = Some n \<and> ho_package s = Some p \<and> (n, wo_sha w p) \<in> R
     \<and> md_package_sha (ho_installation s) = wo_sha w p)"

definition package_kept :: "world \<Rightarrow> metadata \<Rightarrow> host \<Rightarrow> bool" where
  [host_defs]: "package_kept w old s \<longleftrightarrow> (\<exists>q. bk_package (ho_backup s) = Some q \<and> wo_sha w q = md_package_sha old)"

text \<open>The old programs are in the checkpoint, or have not been moved there yet.\<close>

definition kept :: "world \<Rightarrow> (tree \<times> string) set \<Rightarrow> metadata \<Rightarrow> host \<Rightarrow> bool" where
  [host_defs]: "kept w R old s \<longleftrightarrow> package_kept w old s \<and> (\<exists>n. bk_native (ho_backup s) = Some n \<and> (n, md_package_sha old) \<in> R)"

definition unmoved :: "world \<Rightarrow> (tree \<times> string) set \<Rightarrow> metadata \<Rightarrow> host \<Rightarrow> bool" where
  [host_defs]: "unmoved w R old s \<longleftrightarrow> package_kept w old s \<and> bk_native (ho_backup s) = None
     \<and> (\<exists>n. ho_native s = Some n \<and> (n, md_package_sha old) \<in> R)"

definition phase_ok :: "world \<Rightarrow> (tree \<times> string) set \<Rightarrow> update_journal \<Rightarrow> host \<Rightarrow> bool" where
  [host_defs]: "phase_ok w R j s \<longleftrightarrow> (case tr_phase j of
     Checkpointed \<Rightarrow> kept w R (tr_before j) s \<or> unmoved w R (tr_before j) s
   | Switching \<Rightarrow> kept w R (tr_before j) s
   | _ \<Rightarrow> intact w R s)"

definition whole :: "world \<Rightarrow> (tree \<times> string) set \<Rightarrow> start_image \<Rightarrow> bool" where
  "whole w R im \<longleftrightarrow> (\<exists>n p. im_native im = Some n \<and> im_package im = Some p \<and> (n, wo_sha w p) \<in> R)"

definition starts_whole :: "world \<Rightarrow> (tree \<times> string) set \<Rightarrow> host \<Rightarrow> bool" where
  [host_defs]: "starts_whole w R s \<longleftrightarrow> (\<forall>im \<in> set (ho_starts s). whole w R im)"

definition durable :: "world \<Rightarrow> (tree \<times> string) set \<Rightarrow> host \<Rightarrow> bool" where
  [host_defs]: "durable w R s \<longleftrightarrow> starts_whole w R s
     \<and> (case ho_journal s of None \<Rightarrow> intact w R s | Some j \<Rightarrow> phase_ok w R j s)"

text \<open>What a rollback of the transaction \<open>T\<close> in memory can rely on.\<close>

definition restorable :: "world \<Rightarrow> (tree \<times> string) set \<Rightarrow> update_journal \<Rightarrow> host \<Rightarrow> bool" where
  [host_defs]: "restorable w R T s \<longleftrightarrow> starts_whole w R s \<and> ho_transaction s = T
     \<and> (\<exists>j. ho_journal s = Some j \<and> tr_before j = tr_before T
         \<and> (tr_phase j \<in> {Checkpointed, Switching} \<and> kept w R (tr_before T) s
            \<or> tr_phase j = Checkpointed \<and> tr_phase T = Checkpointed \<and> unmoved w R (tr_before T) s))"

lemma restorable_durable: "restorable w R T s \<Longrightarrow> durable w R s"
  by (auto simp: restorable_def durable_def phase_ok_def split: phase.splits)

lemma pair_restored:
  "ho_native s = Some n \<Longrightarrow> ho_package s = Some p \<Longrightarrow> (n, wo_sha w p) \<in> R \<Longrightarrow> whole w R (start_image_of s)"
  by (simp add: whole_def start_image_of_def)

lemma intact_image: "intact w R s \<Longrightarrow> whole w R (start_image_of s)"
  by (auto simp: intact_def pair_restored)

lemma services_started_fields [simp]:
  "ho_native (services_started w s) = ho_native s" "ho_package (services_started w s) = ho_package s"
  "ho_installation (services_started w s) = ho_installation s" "ho_journal (services_started w s) = ho_journal s"
  "ho_backup (services_started w s) = ho_backup s" "ho_transaction (services_started w s) = ho_transaction s"
  "ho_ready (services_started w s) = ho_ready s" "ho_starts (services_started w s) = ho_starts s"
  "ho_permission (services_started w s) = ho_permission s"
  by (simp_all add: services_started_def split: prod.splits)

lemma start_native_fields [simp]:
  "ho_native (start_native w s) = ho_native s" "ho_package (start_native w s) = ho_package s"
  "ho_installation (start_native w s) = ho_installation s" "ho_journal (start_native w s) = ho_journal s"
  "ho_backup (start_native w s) = ho_backup s" "ho_transaction (start_native w s) = ho_transaction s"
  "ho_ready (start_native w s) = ho_ready s" "ho_permission (start_native w s) = ho_permission s"
  "ho_starts (start_native w s) = (if gate_open s then ho_starts s @ [start_image_of s] else ho_starts s)"
  by (simp_all add: start_native_def)

lemma start_panel_fields [simp]:
  "ho_native (start_panel w s) = ho_native s" "ho_package (start_panel w s) = ho_package s"
  "ho_installation (start_panel w s) = ho_installation s" "ho_journal (start_panel w s) = ho_journal s"
  "ho_backup (start_panel w s) = ho_backup s" "ho_transaction (start_panel w s) = ho_transaction s"
  "ho_ready (start_panel w s) = ho_ready s" "ho_permission (start_panel w s) = ho_permission s"
  "ho_starts (start_panel w s) = ho_starts s"
  by (simp_all add: start_panel_def)

text \<open>Conditions that do not look at what a start or a record of progress changes.\<close>

definition steady :: "(host \<Rightarrow> bool) \<Rightarrow> bool" where
  "steady P \<longleftrightarrow> (\<forall>s. P s \<longrightarrow> (\<forall>x. P (s\<lparr>ho_faults := x\<rparr>)) \<and> (\<forall>x. P (s\<lparr>ho_manager := x\<rparr>)) \<and> (\<forall>x. P (s\<lparr>ho_marker := x\<rparr>))
     \<and> (\<forall>x. P (s\<lparr>ho_permission := x\<rparr>)) \<and> (\<forall>x. P (s\<lparr>ho_panel := x\<rparr>)) \<and> (\<forall>x. P (s\<lparr>ho_running := x\<rparr>)) \<and> (\<forall>p x. P (set_place p x s))
     \<and> (\<forall>w. P (start_panel w s)))"

lemma steadyI:
  assumes "\<And>s x. P (s\<lparr>ho_faults := x\<rparr>) = P s" "\<And>s x. P (s\<lparr>ho_manager := x\<rparr>) = P s" "\<And>s x. P (s\<lparr>ho_marker := x\<rparr>) = P s"
    "\<And>s x. P (s\<lparr>ho_permission := x\<rparr>) = P s" "\<And>s x. P (s\<lparr>ho_panel := x\<rparr>) = P s" "\<And>s x. P (s\<lparr>ho_running := x\<rparr>) = P s"
    "\<And>s p x. P (set_place p x s) = P s" "\<And>s w. P (start_panel w s) = P s"
  shows "steady P"
  using assms by (simp add: steady_def)

lemma set_place_fields [simp]:
  "ho_native (set_place p x s) = ho_native s" "ho_package (set_place p x s) = ho_package s"
  "ho_installation (set_place p x s) = ho_installation s" "ho_journal (set_place p x s) = ho_journal s"
  "ho_backup (set_place p x s) = ho_backup s" "ho_transaction (set_place p x s) = ho_transaction s"
  "ho_ready (set_place p x s) = ho_ready s" "ho_starts (set_place p x s) = ho_starts s"
  by (cases p; simp)+

lemma steady_command: "steady P \<Longrightarrow> (\<And>s e. P s \<Longrightarrow> E e s) \<Longrightarrow> spec P command (\<lambda>_. P) E"
  unfolding command_def steady_def by (rule spec_operation) blast+

lemma steady_progress: "steady P \<Longrightarrow> (\<And>s e. P s \<Longrightarrow> E e s) \<Longrightarrow> spec P (progress_to st) (\<lambda>_. P) E"
  unfolding progress_to_def steady_def by (rule spec_atomic) (simp_all; blast)+

lemma steady_state:
  assumes "steady P" and "\<And>s e. P s \<Longrightarrow> E e s"
  shows "spec P stop_services (\<lambda>_. P) E" "spec P (set_marker b) (\<lambda>_. P) E"
    "spec P (atomic (\<lambda>s. s\<lparr>ho_panel := b\<rparr>)) (\<lambda>_. P) E" "spec P (atomic (\<lambda>s. s\<lparr>ho_permission := b\<rparr>)) (\<lambda>_. P) E"
    "spec P (atomic (start_panel w)) (\<lambda>_. P) E"
proof -
  have P: "P (s\<lparr>ho_faults := x\<rparr>)" "P (s\<lparr>ho_panel := y\<rparr>)" "P (s\<lparr>ho_marker := y\<rparr>)" "P (s\<lparr>ho_permission := y\<rparr>)" "P (s\<lparr>ho_running := y\<rparr>)"
    "P (start_panel w s)"
    if "P s" for s x y using assms(1) that by (simp_all add: steady_def)
  have stop: "P (s\<lparr>ho_running := False, ho_panel := False\<rparr>)" if "P s" for s using P(2) [OF P(5) [OF that]] by simp
  show "spec P stop_services (\<lambda>_. P) E" unfolding stop_services_def by (rule spec_atomic) (intro conjI assms(2) stop P(1); assumption)+
  show "spec P (set_marker b) (\<lambda>_. P) E" unfolding set_marker_def by (rule spec_atomic) (intro conjI assms(2) P(3) P(1); assumption)+
  show "spec P (atomic (\<lambda>s. s\<lparr>ho_panel := b\<rparr>)) (\<lambda>_. P) E" by (rule spec_atomic) (intro conjI assms(2) P(2) P(1); assumption)+
  show "spec P (atomic (\<lambda>s. s\<lparr>ho_permission := b\<rparr>)) (\<lambda>_. P) E" by (rule spec_atomic) (intro conjI assms(2) P(4) P(1); assumption)+
  show "spec P (atomic (start_panel w)) (\<lambda>_. P) E" by (rule spec_atomic) (intro conjI assms(2) P(6) P(1); assumption)+
qed

text \<open>A start keeps a condition that admits one more whole image.\<close>

lemma spec_start:
  assumes "steady P" and "\<And>s e. P s \<Longrightarrow> E e s"
    and "\<And>s. P s \<Longrightarrow> P (start_native w s)"
  shows "spec P (start_services w) (\<lambda>_. P) E"
proof -
  have P: "P (s\<lparr>ho_faults := x\<rparr>)" if "P s" for s x using assms(1) that by (simp add: steady_def)
  show ?thesis unfolding start_services_def
    by (rule spec_then [OF spec_atomic steady_state(5) [OF assms(1,2)]])
      (intro conjI assms(2,3) P; assumption)+
qed

lemma spec_permission:
  assumes "steady P" and "\<And>s e. P s \<Longrightarrow> E e s" and "spec P body (\<lambda>_. P) (\<lambda>_. P)"
  shows "spec P (with_permission body) (\<lambda>_. P) E"
proof -
  have clean: "spec P (atomic (\<lambda>s. s\<lparr>ho_permission := False\<rparr>)) (\<lambda>_. P) E"
    "spec P (atomic (\<lambda>s. s\<lparr>ho_permission := False\<rparr>)) (\<lambda>_. E e) E" for e
    by (rule steady_state(4) [OF assms(1,2)], assumption)
      (rule spec_conseq [OF steady_state(4) [OF assms(1,2)]], auto intro: assms(2))
  show ?thesis unfolding with_permission_def
    by (rule spec_then [OF steady_state(4) [OF assms(1,2)] spec_finally [OF assms(3) clean(1,2)]]) (use assms(2) in auto)
qed

subsection \<open>Rollback\<close>

definition native_ready :: "world \<Rightarrow> (tree \<times> string) set \<Rightarrow> update_journal \<Rightarrow> host \<Rightarrow> bool" where
  [host_defs]: "native_ready w R T s \<longleftrightarrow> restorable w R T s \<and> (\<exists>n. ho_native s = Some n \<and> (n, md_package_sha (tr_before T)) \<in> R)"

definition both_ready :: "world \<Rightarrow> (tree \<times> string) set \<Rightarrow> update_journal \<Rightarrow> host \<Rightarrow> bool" where
  [host_defs]: "both_ready w R T s \<longleftrightarrow> native_ready w R T s \<and> (\<exists>p. ho_package s = Some p \<and> wo_sha w p = md_package_sha (tr_before T))"

definition all_ready :: "world \<Rightarrow> (tree \<times> string) set \<Rightarrow> update_journal \<Rightarrow> host \<Rightarrow> bool" where
  [host_defs]: "all_ready w R T s \<longleftrightarrow> both_ready w R T s \<and> md_package_sha (ho_installation s) = md_package_sha (tr_before T)"

lemma steady_rollback [simp]:
  "steady (restorable w R T)" "steady (native_ready w R T)" "steady (both_ready w R T)" "steady (all_ready w R T)"
  by (rule steadyI; simp add: host_defs)+

lemma ready_weaken:
  "all_ready w R T s \<Longrightarrow> both_ready w R T s" "both_ready w R T s \<Longrightarrow> native_ready w R T s" "native_ready w R T s \<Longrightarrow> restorable w R T s"
  by (simp_all add: all_ready_def both_ready_def native_ready_def)

lemma all_ready_intact: "all_ready w R T s \<Longrightarrow> intact w R s"
  by (auto simp: all_ready_def both_ready_def native_ready_def intact_def)

lemma all_ready_start: "all_ready w R T s \<Longrightarrow> all_ready w R T (start_native w s)"
  using intact_image [OF all_ready_intact] by (auto simp: host_defs)

lemma spec_restore_native: "spec (restorable w R T) (restore_native w T) (\<lambda>_. native_ready w R T) (\<lambda>_. restorable w R T)"
  unfolding restore_native_def
proof (rule spec_state)
  fix s assume s: "restorable w R T s"
  show "spec (\<lambda>t. t = s) (case bk_native (ho_backup s) of
     Some saved \<Rightarrow>
       if map_of (tr_digests T) ''native'' \<noteq> Some (tree_digests w saved) then raise_error CheckpointIntegrity
       else then_action command
         (then_action (if ho_native s \<noteq> None then atomic (\<lambda>s. s\<lparr>ho_native := None\<rparr>) else ret ())
           (atomic (\<lambda>s. s\<lparr>ho_native := Some saved\<rparr>)))
   | None \<Rightarrow> if tr_phase T \<notin> {Checkpointed, Stopping} then raise_error CheckpointMissing else ret ())
     (\<lambda>_. native_ready w R T) (\<lambda>_. restorable w R T)"
  proof (cases "bk_native (ho_backup s)")
    case None
    with s have "native_ready w R T s" by (auto simp: host_defs)
    with None s show ?thesis by (auto intro!: spec_ret spec_raise)
  next
    case (Some saved)
    define P where "P = (\<lambda>t. restorable w R T t \<and> bk_native (ho_backup t) = Some saved)"
    have steady: "steady P" unfolding P_def by (rule steadyI; simp add: host_defs)
    have "(saved, md_package_sha (tr_before T)) \<in> R" using s Some by (auto simp: host_defs)
    then have set: "native_ready w R T (t\<lparr>ho_faults := fs, ho_native := Some saved\<rparr>)" if "P t" for t fs
      using that by (auto simp: P_def host_defs)
    have gone: "P (t\<lparr>ho_faults := fs\<rparr>) \<and> P (t\<lparr>ho_faults := fs, ho_native := None\<rparr>)" if "P t" for t fs
      using that by (auto simp: P_def host_defs)
    have E: "P t \<Longrightarrow> restorable w R T t" for t by (simp add: P_def)
    have "spec P (if ho_native s \<noteq> None then atomic (\<lambda>s. s\<lparr>ho_native := None\<rparr>) else ret ()) (\<lambda>_. P) (\<lambda>_. restorable w R T)"
      using gone E by (auto intro!: spec_atomic spec_ret)
    moreover have "spec P (atomic (\<lambda>s. s\<lparr>ho_native := Some saved\<rparr>)) (\<lambda>_. native_ready w R T) (\<lambda>_. restorable w R T)"
      using set gone E ready_weaken(3) by (auto intro!: spec_atomic)
    ultimately have "spec P (then_action command (then_action (if ho_native s \<noteq> None then atomic (\<lambda>s. s\<lparr>ho_native := None\<rparr>) else ret ())
           (atomic (\<lambda>s. s\<lparr>ho_native := Some saved\<rparr>)))) (\<lambda>_. native_ready w R T) (\<lambda>_. restorable w R T)"
      using E by (intro spec_then [OF steady_command [OF steady]] spec_then)
    with Some s show ?thesis by (auto intro!: spec_raise elim!: spec_pre simp: P_def)
  qed
qed

lemma spec_restore_place:
  assumes P: "steady P" and E: "\<And>s e. P s \<Longrightarrow> E e s"
  shows "spec P (restore_place w T p) (\<lambda>_. P) E"
  unfolding restore_place_def
proof (rule spec_state)
  fix s assume s: "P s"
  have set: "P (set_place p x (t\<lparr>ho_faults := fs\<rparr>))" if "P t" for x t fs using P that by (simp add: steady_def)
  have remove: "spec P (remove_place p) (\<lambda>_. P) E"
    unfolding remove_place_def by (rule spec_operation) (intro set E; assumption)+
  have "spec P (then_action (if place_of p s \<noteq> None then remove_place p else ret ())
         (disk_operation (\<lambda>n. set_place p (Some (take n saved))) (set_place p (Some saved)))) (\<lambda>_. P) E" for saved
  proof (rule spec_then [where R = P])
    show "spec P (if place_of p s \<noteq> None then remove_place p else ret ()) (\<lambda>_. P) E" using remove by (auto intro: spec_ret)
    show "spec P (disk_operation (\<lambda>n. set_place p (Some (take n saved))) (set_place p (Some saved))) (\<lambda>_. P) E"
      by (rule spec_operation) (intro set E; assumption)+
  qed
  then show "spec (\<lambda>t. t = s) (case saved_of p (ho_backup s) of None \<Rightarrow> ret ()
   | Some saved \<Rightarrow> if map_of (tr_digests T) (place_name p) \<noteq> Some (tree_digests w saved) then raise_error CheckpointIntegrity
       else then_action (if place_of p s \<noteq> None then remove_place p else ret ())
         (disk_operation (\<lambda>n. set_place p (Some (take n saved))) (set_place p (Some saved)))) (\<lambda>_. P) E"
    by (cases "saved_of p (ho_backup s)") (auto simp only: option.case intro!: spec_ret spec_raise spec_if s E spec_at [where P = P and s = s])
qed

lemma spec_restore_package:
  assumes "old = tr_before T"
  shows "spec (native_ready w R T) (restore_package w old) (\<lambda>_. both_ready w R T) (\<lambda>_. restorable w R T)"
  unfolding restore_package_def
proof (rule spec_state)
  fix s assume s: "native_ready w R T s"
  have E: "native_ready w R T t \<Longrightarrow> restorable w R T t" for t by (rule ready_weaken)
  have set: "both_ready w R T (t\<lparr>ho_faults := fs, ho_package := Some deb\<rparr>)" "restorable w R T (t\<lparr>ho_faults := fs, ho_package := None\<rparr>)"
    "restorable w R T (t\<lparr>ho_faults := fs\<rparr>)"
    if "native_ready w R T t" "wo_sha w deb = md_package_sha old" for t fs deb using that assms by (auto simp: host_defs)
  have "spec (native_ready w R T) (install_package deb) (\<lambda>_. both_ready w R T) (\<lambda>_. restorable w R T)"
    if "wo_sha w deb = md_package_sha old" for deb
    unfolding install_package_def by (rule spec_operation) (use set that in auto)
  then show "spec (\<lambda>t. t = s) (case bk_package (ho_backup s) of None \<Rightarrow> raise_error SourceMissing
   | Some deb \<Rightarrow> if wo_sha w deb \<noteq> md_package_sha old then raise_error PackageIntegrity else install_package deb)
     (\<lambda>_. both_ready w R T) (\<lambda>_. restorable w R T)"
    using E [OF s] by (cases "bk_package (ho_backup s)") (auto simp only: option.case intro!: spec_raise spec_if s E spec_at [where P = "native_ready w R T" and s = s])
qed

text \<open>A rollback that is not skipped restores the pair, and whatever cuts it off, the next one can.\<close>

lemma spec_rollback:
  assumes "tr_phase T \<noteq> Committed"
  shows "spec (restorable w R T) (rollback_upgrade w)
    (\<lambda>_. durable w R) (\<lambda>_. durable w R)"
  unfolding rollback_upgrade_def
proof (rule spec_state)
  fix s assume s: "restorable w R T s"
  then have T: "ho_transaction s = T" by (simp add: restorable_def)
  let ?E = "\<lambda>(_::release_error). durable w R"
  note weaken = restorable_durable [OF ready_weaken(3)] restorable_durable
    restorable_durable [OF ready_weaken(3) [OF ready_weaken(2)]]
    restorable_durable [OF ready_weaken(3) [OF ready_weaken(2) [OF ready_weaken(1)]]]
  have save: "spec (both_ready w R T) (save_installation (tr_before T)) (\<lambda>_. all_ready w R T) ?E"
    unfolding save_installation_def
    by (rule spec_atomic) (auto intro!: weaken(3) simp: host_defs)
  define F where "F = (\<lambda>s. intact w R s \<and> durable w R s \<and> tr_phase (ho_transaction s) = RolledBack)"
  have phase: "spec (all_ready w R T) (set_phase RolledBack) (\<lambda>_. F) ?E"
    unfolding set_phase_def
    by (rule spec_modify) (use all_ready_intact [of w R T] weaken(4) [of w R T] in \<open>auto simp: F_def host_defs split: phase.splits\<close>)
  have journal: "spec F save_journal (\<lambda>_. durable w R) ?E"
    unfolding save_journal_def by (rule spec_atomic) (auto simp: F_def host_defs split: option.splits phase.splits)
  have start: "spec (all_ready w R T) (then_action (start_services w) command) (\<lambda>_. all_ready w R T) (\<lambda>_. all_ready w R T)"
    by (rule spec_then [OF spec_start steady_command]) (auto intro: all_ready_start)
  have s1: "spec (restorable w R T) stop_services (\<lambda>_. restorable w R T) ?E" by (rule steady_state(1)) (auto intro: weaken)
  have s2: "spec (restorable w R T) (restore_native w T) (\<lambda>_. native_ready w R T) ?E"
    by (rule spec_conseq [OF spec_restore_native]) (auto intro: weaken)
  have s3: "spec (native_ready w R T) (for_each (restore_place w T) [Etc, NativeState, WebState]) (\<lambda>_. native_ready w R T) ?E"
    by (rule spec_for_each, rule spec_restore_place) (auto intro: weaken)
  have s4: "spec (native_ready w R T) (restore_package w (tr_before T)) (\<lambda>_. both_ready w R T) ?E"
    by (rule spec_conseq [OF spec_restore_package [OF refl]]) (auto intro: weaken)
  have s5: "spec (both_ready w R T) command (\<lambda>_. both_ready w R T) ?E" by (rule steady_command) (auto intro: weaken)
  have s7: "spec (all_ready w R T) (with_permission (then_action (start_services w) command)) (\<lambda>_. all_ready w R T) ?E"
    by (rule spec_permission [OF _ _ start]) (auto intro: weaken)
  have body: "spec (restorable w R T) (then_action stop_services
       (then_action (restore_native w T)
       (then_action (for_each (restore_place w T) [Etc, NativeState, WebState])
       (then_action (restore_package w (tr_before T))
       (then_action command
       (then_action (save_installation (tr_before T))
       (then_action (with_permission (then_action (start_services w) command))
       (then_action (set_phase RolledBack) save_journal)))))))) (\<lambda>_. durable w R) ?E"
    by (rule spec_then [OF s1 spec_then [OF s2 spec_then [OF s3 spec_then [OF s4 spec_then [OF s5 spec_then [OF save
        spec_then [OF s7 spec_then [OF phase journal]]]]]]]])
  from spec_at [where P = "restorable w R T", OF body s] show "spec (\<lambda>t. t = s) (let t = ho_transaction s; old = tr_before t in
     if \<not> backup_path_ok (tr_backup t) then raise_error CheckpointPath
     else if tr_phase t = Committed then ret ()
     else then_action stop_services
       (then_action (restore_native w t)
       (then_action (for_each (restore_place w t) [Etc, NativeState, WebState])
       (then_action (restore_package w old)
       (then_action command
       (then_action (save_installation old)
       (then_action (with_permission (then_action (start_services w) command))
       (then_action (set_phase RolledBack) save_journal)))))))) (\<lambda>_. durable w R) ?E"
    using assms restorable_durable [OF s] by (auto simp only: Let_def T intro!: spec_if spec_raise)
qed

subsection \<open>Upgrade\<close>

lemma intact_durable:
  "intact w R s \<Longrightarrow> starts_whole w R s \<Longrightarrow> ho_journal s = None \<or> (\<exists>j. ho_journal s = Some j \<and> tr_phase j \<notin> {Checkpointed, Switching}) \<Longrightarrow>
   durable w R s"
  by (auto simp: durable_def phase_ok_def split: phase.splits)

text \<open>Before the checkpoint is on record: everything is still in place, the checkpoint grows.\<close>

definition checkpointing :: "world \<Rightarrow> (tree \<times> string) set \<Rightarrow> metadata \<Rightarrow> host \<Rightarrow> bool" where
  [host_defs]: "checkpointing w R old s \<longleftrightarrow> intact w R s \<and> starts_whole w R s \<and> ho_installation s = old \<and> \<not> ho_ready s
     \<and> tr_before (ho_transaction s) = old \<and> tr_phase (ho_transaction s) = Stopping \<and> bk_native (ho_backup s) = None
     \<and> (\<exists>j. ho_journal s = Some j \<and> tr_phase j = Stopping \<and> tr_before j = old)"

text \<open>What a failed upgrade hands to its handler.\<close>

definition failed_ok :: "world \<Rightarrow> (tree \<times> string) set \<Rightarrow> host \<Rightarrow> bool" where
  [host_defs]: "failed_ok w R s \<longleftrightarrow> durable w R s
     \<and> (if ho_ready s then tr_phase (ho_transaction s) = Committed \<or> restorable w R (ho_transaction s) s else intact w R s)"

lemma checkpointing_failed: "checkpointing w R old s \<Longrightarrow> failed_ok w R s"
  by (auto simp: checkpointing_def failed_ok_def intro: intact_durable)

lemma steady_upgrade [simp]: "steady (checkpointing w R old)" "steady (failed_ok w R)" "steady (intact w R)" "steady (durable w R)"
  by (rule steadyI; simp add: host_defs split: option.split phase.split)+

lemma steady_faults: "steady P \<Longrightarrow> P s \<Longrightarrow> P (s\<lparr>ho_faults := fs\<rparr>)"
  by (simp add: steady_def)

lemma bk_set_saved [simp]: "bk_native (set_saved p x b) = bk_native b" "bk_package (set_saved p x b) = bk_package b"
  by (cases p; simp)+

lemma checkpointing_backup: "checkpointing w R old s \<Longrightarrow> bk_native b = None \<Longrightarrow> checkpointing w R old (s\<lparr>ho_faults := fs, ho_backup := b\<rparr>)"
  by (auto simp: host_defs)

lemma checkpointing_digests: "checkpointing w R old s \<Longrightarrow> checkpointing w R old (s\<lparr>ho_transaction := (ho_transaction s)\<lparr>tr_digests := d\<rparr>\<rparr>)"
  by (auto simp: host_defs)

lemma checkpointing_native: "checkpointing w R old s \<Longrightarrow> bk_native (ho_backup s) = None" by (simp add: checkpointing_def)

lemma spec_save_place: "spec (checkpointing w R old) (save_place w p) (\<lambda>_. checkpointing w R old) (\<lambda>_. failed_ok w R)"
  unfolding save_place_def
proof (rule spec_state)
  fix s assume s: "checkpointing w R old s"
  have "spec (checkpointing w R old) (then_action
       (disk_operation (\<lambda>n s. s\<lparr>ho_backup := set_saved p (Some (take n files)) (ho_backup s)\<rparr>)
         (\<lambda>s. s\<lparr>ho_backup := set_saved p (Some files) (ho_backup s)\<rparr>))
       (note_digests (place_name p) (tree_digests w files))) (\<lambda>_. checkpointing w R old) (\<lambda>_. failed_ok w R)" for files
  proof (rule spec_then)
    show "spec (checkpointing w R old) (disk_operation (\<lambda>n s. s\<lparr>ho_backup := set_saved p (Some (take n files)) (ho_backup s)\<rparr>)
         (\<lambda>s. s\<lparr>ho_backup := set_saved p (Some files) (ho_backup s)\<rparr>)) (\<lambda>_. checkpointing w R old) (\<lambda>_. failed_ok w R)"
      by (rule spec_operation) (auto intro!: checkpointing_failed checkpointing_backup simp: checkpointing_native)
    show "spec (checkpointing w R old) (note_digests (place_name p) (tree_digests w files)) (\<lambda>_. checkpointing w R old) (\<lambda>_. failed_ok w R)"
      unfolding note_digests_def by (rule spec_modify) (rule checkpointing_digests)
  qed
  then show "spec (\<lambda>t. t = s) (case place_of p s of None \<Rightarrow> raise_error SourceMissing
   | Some files \<Rightarrow> then_action
       (disk_operation (\<lambda>n s. s\<lparr>ho_backup := set_saved p (Some (take n files)) (ho_backup s)\<rparr>)
         (\<lambda>s. s\<lparr>ho_backup := set_saved p (Some files) (ho_backup s)\<rparr>))
       (note_digests (place_name p) (tree_digests w files))) (\<lambda>_. checkpointing w R old) (\<lambda>_. failed_ok w R)"
    using checkpointing_failed [OF s] by (cases "place_of p s") (auto simp only: option.case intro!: spec_raise s spec_at [where P = "checkpointing w R old" and s = s])
qed

text \<open>The checkpoint is on record; nothing has moved.\<close>

definition checkpointed :: "world \<Rightarrow> (tree \<times> string) set \<Rightarrow> metadata \<Rightarrow> host \<Rightarrow> bool" where
  [host_defs]: "checkpointed w R old s \<longleftrightarrow> restorable w R (ho_transaction s) s \<and> unmoved w R old s \<and> ho_ready s
     \<and> tr_before (ho_transaction s) = old \<and> tr_phase (ho_transaction s) = Checkpointed"

lemma spec_save_checkpoint:
  assumes deb: "wo_sha w deb = md_package_sha old"
  shows "spec (checkpointing w R old) (save_checkpoint w deb) (\<lambda>_. checkpointed w R old) (\<lambda>_. failed_ok w R)"
proof -
  let ?E = "\<lambda>(_::release_error). failed_ok w R"
  define G where "G = (\<lambda>s. checkpointing w R old s \<and> package_kept w old s)"
  define H where "H = (\<lambda>s. intact w R s \<and> starts_whole w R s \<and> unmoved w R old s \<and> \<not> ho_ready s \<and> ho_installation s = old
     \<and> tr_before (ho_transaction s) = old \<and> tr_phase (ho_transaction s) = Checkpointed \<and> (\<exists>j. ho_journal s = Some j \<and> tr_phase j = Stopping))"
  have s1: "spec (checkpointing w R old) (for_each (save_place w) [Etc, NativeState, WebState]) (\<lambda>_. checkpointing w R old) ?E"
    by (rule spec_for_each) (rule spec_save_place)
  have s2: "spec (checkpointing w R old) (with_state (\<lambda>s. case ho_native s of None \<Rightarrow> raise_error SourceMissing
        | Some files \<Rightarrow> note_digests ''native'' (tree_digests w files))) (\<lambda>_. checkpointing w R old) ?E"
    unfolding note_digests_def
    by (rule spec_state) (auto simp only: split: option.split intro!: spec_raise spec_modify checkpointing_failed checkpointing_digests)
  have s3: "spec (checkpointing w R old) command (\<lambda>_. checkpointing w R old) ?E"
    by (rule steady_command) (auto intro: checkpointing_failed)
  have set: "G (s\<lparr>ho_faults := fs, ho_backup := (ho_backup s)\<lparr>bk_package := Some deb\<rparr>\<rparr>)" if "checkpointing w R old s" for s fs
    using checkpointing_backup [OF that] deb that by (simp add: G_def package_kept_def checkpointing_def)
  have s4: "spec (checkpointing w R old) (disk_operation (\<lambda>n s. if n = 0 then s else s\<lparr>ho_backup := (ho_backup s)\<lparr>bk_package := Some deb\<rparr>\<rparr>)
        (\<lambda>s. s\<lparr>ho_backup := (ho_backup s)\<lparr>bk_package := Some deb\<rparr>\<rparr>)) (\<lambda>_. G) ?E"
  proof (rule spec_operation)
    fix s fs n e assume s: "checkpointing w R old s"
    have "failed_ok w R (s\<lparr>ho_faults := fs\<rparr>)" 
      by (rule steady_faults) (simp, rule checkpointing_failed [OF s])
    moreover have "failed_ok w R (s\<lparr>ho_faults := fs, ho_backup := (ho_backup s)\<lparr>bk_package := Some deb\<rparr>\<rparr>)"
      using set [OF s, of fs] by (auto simp: G_def intro: checkpointing_failed)
    ultimately show "failed_ok w R (if n = 0 then s\<lparr>ho_faults := fs\<rparr>
        else (s\<lparr>ho_faults := fs\<rparr>)\<lparr>ho_backup := (ho_backup (s\<lparr>ho_faults := fs\<rparr>))\<lparr>bk_package := Some deb\<rparr>\<rparr>)" by simp
  qed (use set in auto)
  have s5: "spec G (set_phase Checkpointed) (\<lambda>_. H) ?E"
    unfolding set_phase_def by (rule spec_modify) (auto simp: G_def H_def host_defs)
  have HE: "failed_ok w R s" if "H s" for s using that by (auto simp: H_def failed_ok_def intro: intact_durable)
  define C where "C = (\<lambda>s. \<not> ho_ready s \<and> intact w R s \<and> checkpointed w R old (s\<lparr>ho_ready := True\<rparr>))"
  have CE: "failed_ok w R s" if "C s" for s
    using that by (auto simp: C_def checkpointed_def failed_ok_def restorable_def durable_def starts_whole_def phase_ok_def kept_def unmoved_def package_kept_def)
  have set: "C (s\<lparr>ho_faults := fs, ho_journal := Some (ho_transaction s)\<rparr>)" "H (s\<lparr>ho_faults := fs\<rparr>)" if "H s" for s fs
    using that by (auto simp: C_def H_def host_defs)
  have s6: "spec H save_journal (\<lambda>_. C) ?E"
    unfolding save_journal_def by (rule spec_atomic) (use set HE CE in auto)
  have s7: "spec C (modify_state (\<lambda>s. s\<lparr>ho_ready := True\<rparr>)) (\<lambda>_. checkpointed w R old) ?E"
    by (rule spec_modify) (simp add: C_def)
  show ?thesis unfolding save_checkpoint_def
    by (rule spec_then [OF s1 spec_then [OF s2 spec_then [OF s3 spec_then [OF s4 spec_then [OF s5 spec_then [OF s6 s7]]]]]])
qed

text \<open>The old programs are in the checkpoint; the journal follows.\<close>

definition moved :: "world \<Rightarrow> (tree \<times> string) set \<Rightarrow> metadata \<Rightarrow> phase \<Rightarrow> host \<Rightarrow> bool" where
  [host_defs]: "moved w R old ph s \<longleftrightarrow> restorable w R (ho_transaction s) s \<and> kept w R old s \<and> ho_ready s
     \<and> tr_before (ho_transaction s) = old \<and> tr_phase (ho_transaction s) = ph"

definition new_pair :: "world \<Rightarrow> (tree \<times> string) set \<Rightarrow> metadata \<Rightarrow> upgrade_inputs \<Rightarrow> host \<Rightarrow> bool" where
  [host_defs]: "new_pair w R old u s \<longleftrightarrow> moved w R old Switching s \<and> ho_native s = Some (up_stage u) \<and> ho_package s = Some (up_package u)"

lemma moved_failed: "moved w R old ph s \<Longrightarrow> failed_ok w R s"
  by (auto simp: moved_def failed_ok_def dest: restorable_durable)

lemma steady_moved [simp]: "steady (moved w R old ph)" "steady (new_pair w R old u)"
  by (rule steadyI; simp add: host_defs)+

lemma moved_native:
  "moved w R old ph s \<Longrightarrow> moved w R old ph (s\<lparr>ho_faults := fs, ho_native := x\<rparr>)"
  "moved w R old ph s \<Longrightarrow> moved w R old ph (s\<lparr>ho_faults := fs, ho_package := y\<rparr>)"
  "moved w R old ph s \<Longrightarrow> moved w R old ph (s\<lparr>ho_faults := fs, ho_installation := m\<rparr>)"
  "moved w R old ph s \<Longrightarrow> moved w R old ph (s\<lparr>ho_faults := fs, ho_packages := ps\<rparr>)"
  "moved w R old ph s \<Longrightarrow> moved w R old ph (s\<lparr>ho_faults := fs\<rparr>)"
  by (auto simp: host_defs)

lemma new_pair_start:
  assumes "(up_stage u, wo_sha w (up_package u)) \<in> R" and "new_pair w R old u s"
  shows "new_pair w R old u (start_native w s)"
proof -
  from assms have "whole w R (start_image_of s)" by (auto simp: new_pair_def intro: pair_restored)
  with assms(2) show ?thesis by (auto simp: host_defs)
qed

lemma spec_switch_over:
  assumes pair: "(up_stage u, wo_sha w (up_package u)) \<in> R"
  shows "spec (checkpointed w R old) (switch_over w u old) (\<lambda>_. durable w R) (\<lambda>_. failed_ok w R)"
proof -
  let ?E = "\<lambda>(_::release_error). failed_ok w R"
  have CE: "checkpointed w R old s \<Longrightarrow> failed_ok w R (s\<lparr>ho_faults := fs\<rparr>)" for s fs
    by (rule steady_faults) (simp, auto simp: checkpointed_def failed_ok_def dest: restorable_durable)
  have move: "moved w R old Checkpointed (s\<lparr>ho_faults := fs, ho_backup := (ho_backup s)\<lparr>bk_native := ho_native s\<rparr>, ho_native := None\<rparr>)"
    if "checkpointed w R old s" for s fs using that by (auto simp: host_defs)
  have s1: "spec (checkpointed w R old) (atomic (\<lambda>s. s\<lparr>ho_backup := (ho_backup s)\<lparr>bk_native := ho_native s\<rparr>, ho_native := None\<rparr>))
      (\<lambda>_. moved w R old Checkpointed) ?E"
    by (rule spec_atomic) (use move CE moved_failed [of w R old Checkpointed] in auto)
  have s2: "spec (moved w R old Checkpointed) (set_phase Switching) (\<lambda>_. moved w R old Switching) ?E"
    unfolding set_phase_def by (rule spec_modify) (auto simp: host_defs)
  have s3: "spec (moved w R old Switching) save_journal (\<lambda>_. moved w R old Switching) ?E"
  proof -
    have "moved w R old Switching (s\<lparr>ho_faults := fs, ho_journal := Some (ho_transaction s)\<rparr>)" if "moved w R old Switching s" for s fs
      using that by (simp add: moved_def restorable_def kept_def package_kept_def starts_whole_def)
    then show ?thesis unfolding save_journal_def
      by (intro spec_atomic conjI) (simp_all add: moved_failed [where ph = Switching and old = old] moved_native(5))
  qed
  have s4: "spec (moved w R old Switching) (atomic (\<lambda>s. s\<lparr>ho_native := Some (up_stage u)\<rparr>))
      (\<lambda>_ s. moved w R old Switching s \<and> ho_native s = Some (up_stage u)) ?E"
    by (rule spec_atomic) (auto intro!: moved_failed [where ph = Switching and old = old] moved_native)
  have s5: "spec (\<lambda>s. moved w R old Switching s \<and> ho_native s = Some (up_stage u)) (install_package (up_package u))
      (\<lambda>_. new_pair w R old u) ?E"
    unfolding install_package_def
    by (rule spec_operation) (auto intro!: moved_failed [where ph = Switching and old = old] moved_native simp: new_pair_def)
  have NE: "failed_ok w R s" if "new_pair w R old u s" for s using that moved_failed by (auto simp: new_pair_def)
  have s6: "spec (new_pair w R old u) command (\<lambda>_. new_pair w R old u) ?E"
    "spec (new_pair w R old u) (progress_to Restarting) (\<lambda>_. new_pair w R old u) ?E"
    by (rule steady_command [OF steady_moved(2)], erule NE) (rule steady_progress [OF steady_moved(2)], erule NE)
  have "spec (new_pair w R old u) (then_action (start_services w) command) (\<lambda>_. new_pair w R old u) (\<lambda>_. new_pair w R old u)"
    by (rule spec_then [OF spec_start steady_command]) (auto intro: new_pair_start [OF pair])
  then have s7: "spec (new_pair w R old u) (with_permission (then_action (start_services w) command)) (\<lambda>_. new_pair w R old u) ?E"
    by (intro spec_permission steady_moved(2) NE)
  have s8: "spec (new_pair w R old u) (verify_preserved w) (\<lambda>_. new_pair w R old u) ?E"
    unfolding verify_preserved_def
    by (rule spec_state) (auto simp only: Let_def NE split: option.split intro!: spec_if spec_raise spec_ret)
  have s9: "spec (new_pair w R old u) (atomic (\<lambda>s. s\<lparr>ho_packages := dict_set (ho_packages s) (up_version u) (up_package u)\<rparr>))
      (\<lambda>_. new_pair w R old u) ?E"
    by (rule spec_atomic) (auto intro!: NE moved_native simp: new_pair_def)
  define N where "N = (\<lambda>s. new_pair w R old u s \<and> intact w R s)"
  have s10: "spec (new_pair w R old u) (save_installation (old\<lparr>md_version := up_version u, md_package_sha := wo_sha w (up_package u)\<rparr>)) (\<lambda>_. N) ?E"
    unfolding save_installation_def
    by (rule spec_atomic) (auto intro!: NE moved_native simp: new_pair_def N_def intact_def pair)
  define M where "M = (\<lambda>s. intact w R s \<and> durable w R s \<and> ho_ready s \<and> tr_phase (ho_transaction s) = Committed)"
  have s11: "spec N (set_phase Committed) (\<lambda>_. M) ?E"
    unfolding set_phase_def
    by (rule spec_modify) (auto simp: N_def M_def new_pair_def moved_def restorable_def durable_def starts_whole_def phase_ok_def kept_def package_kept_def
        intact_def unmoved_def split: phase.splits)
  have saved: "durable w R (s\<lparr>ho_faults := fs, ho_journal := Some (ho_transaction s)\<rparr>)" "failed_ok w R (s\<lparr>ho_faults := fs\<rparr>)"
    "failed_ok w R (s\<lparr>ho_faults := fs, ho_journal := Some (ho_transaction s)\<rparr>)" if "M s" for s fs
    using that by (auto simp: M_def host_defs split: option.splits phase.splits)
  have s12: "spec M save_journal (\<lambda>_. durable w R) ?E"
    unfolding save_journal_def by (rule spec_atomic) (use saved in auto)
  show ?thesis unfolding switch_over_def
    by (rule spec_then [OF s1 spec_then [OF s2 spec_then [OF s3 spec_then [OF s4 spec_then [OF s5 spec_then [OF s6(1)
        spec_then [OF s6(2) spec_then [OF s7 spec_then [OF s8 spec_then [OF s9 spec_then [OF s10 spec_then [OF s11 s12]]]]]]]]]]]])
qed

lemma spec_fall_back: "spec (failed_ok w R) (fall_back w e) (\<lambda>_. durable w R) (\<lambda>_. durable w R)"
  unfolding fall_back_def
proof (rule spec_state)
  fix s assume s: "failed_ok w R s"
  let ?E = "\<lambda>(_::release_error). durable w R"
  show "spec (\<lambda>t. t = s) (if ho_ready s then
       then_action (progress_to RollingBack)
       (then_action (catch_failure (rollback_upgrade w)
          (\<lambda>r. then_action (progress_to RecoveryRequired) (raise_error (RollbackFailed2 e r))))
       (then_action (progress_to RolledBackState) (raise_error e)))
     else then_action (set_phase Aborted) (then_action save_journal (then_action (start_services w) (raise_error e))))
     (\<lambda>(_::unit). durable w R) ?E"
  proof (rule spec_if)
    assume ready: "ho_ready s"
    define T where "T = ho_transaction s"
    define P where "P = (\<lambda>t. durable w R t \<and> ho_transaction t = T \<and> (tr_phase T = Committed \<or> restorable w R T t))"
    have steady: "steady P" unfolding P_def
      by (rule steadyI; simp add: host_defs split: option.split phase.split)
    have Ps: "P s" using s ready by (auto simp: P_def T_def failed_ok_def)
    have report: "spec (durable w R) (then_action (progress_to st) (raise_error x)) Q ?E" for st x and Q :: "unit \<Rightarrow> host \<Rightarrow> bool"
      by (rule spec_then [OF steady_progress spec_raise]) auto
    have run: "spec P (rollback_upgrade w) (\<lambda>_. durable w R) ?E"
    proof (cases "tr_phase T = Committed")
      case True
      show ?thesis unfolding rollback_upgrade_def
        by (rule spec_state) (use True in \<open>auto simp only: P_def Let_def simp_thms if_True intro!: spec_if spec_raise spec_ret\<close>)
    next
      case False
      show ?thesis by (rule spec_pre [OF spec_rollback [OF False]]) (use False in \<open>auto simp: P_def\<close>)
    qed
    have "spec P (catch_failure (rollback_upgrade w)
          (\<lambda>r. then_action (progress_to RecoveryRequired) (raise_error (RollbackFailed2 e r)))) (\<lambda>_. durable w R) ?E"
      by (rule spec_catch [OF _ report]) (rule spec_conseq [OF run]; simp)
    note caught = this
    have "spec P (progress_to RollingBack) (\<lambda>_. P) ?E" by (rule steady_progress [OF steady]) (simp add: P_def)
    from spec_then [OF this spec_then [OF caught report [of RolledBackState e "\<lambda>_. durable w R"]]]
    have chain: "spec P (then_action (progress_to RollingBack)
       (then_action (catch_failure (rollback_upgrade w)
          (\<lambda>r. then_action (progress_to RecoveryRequired) (raise_error (RollbackFailed2 e r))))
       (then_action (progress_to RolledBackState) (raise_error e)))) (\<lambda>(_::unit). durable w R) ?E" .
    show "spec (\<lambda>t. t = s) (then_action (progress_to RollingBack)
       (then_action (catch_failure (rollback_upgrade w)
          (\<lambda>r. then_action (progress_to RecoveryRequired) (raise_error (RollbackFailed2 e r))))
       (then_action (progress_to RolledBackState) (raise_error e)))) (\<lambda>(_::unit). durable w R) ?E"
      by (rule spec_at [where P = P and s = s, OF chain Ps])
  next
    assume ready: "\<not> ho_ready s"
    define P where "P = (\<lambda>t. intact w R t \<and> durable w R t)"
    define A where "A = (\<lambda>t. P t \<and> tr_phase (ho_transaction t) = Aborted)"
    have Ps: "P s" using s ready by (simp add: P_def failed_ok_def)
    have "P (start_native w t)" if "P t" for t
    proof -
      from that have "whole w R (start_image_of t)" by (simp add: P_def intact_image)
      with that show ?thesis by (auto simp: P_def host_defs split: option.splits phase.splits)
    qed
    moreover have "steady P" unfolding P_def by (rule steadyI; simp add: host_defs split: option.split phase.split)
    ultimately have start: "spec P (start_services w) (\<lambda>_. P) ?E" by (intro spec_start) (auto simp: P_def)
    have abort: "spec P (set_phase Aborted) (\<lambda>_. A) ?E"
      unfolding set_phase_def by (rule spec_modify) (auto simp: A_def P_def host_defs split: option.splits phase.splits)
    have saved: "P (t\<lparr>ho_faults := fs, ho_journal := Some (ho_transaction t)\<rparr>)" "P (t\<lparr>ho_faults := fs\<rparr>)" if "A t" for t fs
      using that by (auto simp: A_def P_def host_defs split: option.splits phase.splits)
    have journal: "spec A save_journal (\<lambda>_. P) ?E"
      unfolding save_journal_def by (rule spec_atomic) (use saved in \<open>auto simp: P_def\<close>)
    have raised: "spec P (raise_error e :: unit host_action) (\<lambda>_. durable w R) ?E" by (rule spec_raise) (simp add: P_def)
    from spec_at [where P = P, OF spec_then [OF abort spec_then [OF journal spec_then [OF start raised]]] Ps]
    show "spec (\<lambda>t. t = s) (then_action (set_phase Aborted) (then_action save_journal (then_action (start_services w) (raise_error e))))
      (\<lambda>(_::unit). durable w R) ?E" .
  qed
qed

lemma spec_enter_maintenance:
  assumes "md_package_sha old = wo_sha w p" and "(n, wo_sha w p) \<in> R"
  defines "Q0 \<equiv> \<lambda>s. intact w R s \<and> durable w R s \<and> ho_installation s = old \<and> bk_native (ho_backup s) = None"
  shows "spec Q0 (enter_maintenance w u old) (\<lambda>_. checkpointing w R old) (\<lambda>_. durable w R)"
proof -
  let ?E = "\<lambda>(_::release_error). durable w R"
  have steady: "steady Q0" unfolding Q0_def by (rule steadyI; simp add: host_defs split: option.split phase.split)
  define S where "S = (\<lambda>s. Q0 s \<and> \<not> ho_ready s \<and> tr_phase (ho_transaction s) = Stopping \<and> tr_before (ho_transaction s) = old)"
  have panel: "spec Q0 (atomic (\<lambda>s. s\<lparr>ho_panel := False\<rparr>)) (\<lambda>_. Q0) ?E"
    "spec (durable w R) (then_action (atomic (start_panel w)) (raise_error e)) (\<lambda>_. checkpointing w R old) ?E" for e
    by (rule steady_state(3) [OF steady]) (simp add: Q0_def, rule spec_then [OF steady_state(5) spec_raise], auto)
  have start: "spec Q0 (modify_state (\<lambda>s. s\<lparr>ho_transaction :=
      \<lparr>tr_phase = Stopping, tr_backup = b, tr_before = old, tr_configuration = c, tr_target = v, tr_job = j, tr_digests = []\<rparr>,
      ho_ready := False\<rparr>)) (\<lambda>_. S) ?E" for b c v j
    by (rule spec_modify) (auto simp: S_def Q0_def host_defs split: option.splits phase.splits)
  have saved: "checkpointing w R old (s\<lparr>ho_faults := fs, ho_journal := Some (ho_transaction s)\<rparr>)" "durable w R (s\<lparr>ho_faults := fs\<rparr>)" if "S s" for s fs
    using that by (auto simp: S_def Q0_def host_defs split: option.splits phase.splits)
  have weak: "durable w R s" if "checkpointing w R old s" for s using checkpointing_failed [OF that] by (simp add: failed_ok_def)
  have journal: "spec S save_journal (\<lambda>_. checkpointing w R old) ?E"
    unfolding save_journal_def by (rule spec_atomic) (use saved weak in auto)
  show ?thesis unfolding enter_maintenance_def
  proof (rule spec_catch [OF _ panel(2)])
    have "spec Q0 (case snd (up_snapshots u) of None \<Rightarrow> raise_error SnapshotRefused
        | Some (revision, configuration) \<Rightarrow> then_action (modify_state (\<lambda>s. s\<lparr>ho_transaction :=
              \<lparr>tr_phase = Stopping, tr_backup = ''.rollback-'' @ up_token u, tr_before = old, tr_configuration = configuration,
               tr_target = up_version u, tr_job = up_job u, tr_digests = []\<rparr>, ho_ready := False\<rparr>)) save_journal)
      (\<lambda>_. checkpointing w R old) (\<lambda>e t. if e = PowerLoss then durable w R t else durable w R t)"
      using spec_then [OF start journal]
      by (cases "snd (up_snapshots u)") (auto simp only: option.case prod.case if_cancel Q0_def intro!: spec_raise split: prod.splits)
    then show "spec Q0 (then_action (atomic (\<lambda>s. s\<lparr>ho_panel := False\<rparr>)) (case snd (up_snapshots u) of None \<Rightarrow> raise_error SnapshotRefused
        | Some (revision, configuration) \<Rightarrow> then_action (modify_state (\<lambda>s. s\<lparr>ho_transaction :=
              \<lparr>tr_phase = Stopping, tr_backup = ''.rollback-'' @ up_token u, tr_before = old, tr_configuration = configuration,
               tr_target = up_version u, tr_job = up_job u, tr_digests = []\<rparr>, ho_ready := False\<rparr>)) save_journal))
      (\<lambda>_. checkpointing w R old) (\<lambda>e t. if e = PowerLoss then durable w R t else durable w R t)"
      using panel(1) by (auto simp only: if_cancel intro: spec_then)
  qed
qed

text \<open>No update is under way.\<close>

definition at_rest :: "world \<Rightarrow> (tree \<times> string) set \<Rightarrow> host \<Rightarrow> bool" where
  [host_defs]: "at_rest w R s \<longleftrightarrow> intact w R s \<and> starts_whole w R s \<and> (\<forall>j. ho_journal s = Some j \<longrightarrow> terminal_phase (tr_phase j))"

lemma settled_durable: "at_rest w R s \<Longrightarrow> durable w R s"
  by (cases "ho_journal s") (auto simp: at_rest_def terminal_phase_def intro!: intact_durable)

lemma durable_settled: "durable w R s \<Longrightarrow> (\<And>j. ho_journal s = Some j \<Longrightarrow> terminal_phase (tr_phase j)) \<Longrightarrow> at_rest w R s"
  by (auto simp: durable_def at_rest_def phase_ok_def terminal_phase_def split: option.splits)

lemma steady_settled [simp]: "steady (at_rest w R)" "steady (\<lambda>s. at_rest w R s \<and> ho_installation s = old)"
  by (rule steadyI; simp add: host_defs)+

lemma spec_upgrade:
  assumes pair: "(up_stage u, wo_sha w (up_package u)) \<in> R"
  shows "spec (at_rest w R) (upgrade w u) (\<lambda>_. durable w R) (\<lambda>_. durable w R)"
  unfolding upgrade_def
proof (rule spec_state)
  fix s assume s: "at_rest w R s"
  let ?E = "\<lambda>(_::release_error). durable w R"
  define old where "old = ho_installation s"
  define P where "P = (\<lambda>t. at_rest w R t \<and> ho_installation t = old)"
  have Ps: "P s" by (simp add: P_def s old_def)
  obtain n p where np: "md_package_sha old = wo_sha w p" "(n, wo_sha w p) \<in> R"
    using s by (auto simp: at_rest_def intact_def old_def)
  have PE: "durable w R t" if "P t" for t using that by (simp add: P_def settled_durable)
  have s1: "spec P (progress_to st) (\<lambda>_. P) ?E" "spec P command (\<lambda>_. P) ?E" for st
    unfolding P_def by (rule steady_progress, simp, simp add: settled_durable, rule steady_command, simp, simp add: settled_durable)
  define Q0 where "Q0 = (\<lambda>t. intact w R t \<and> durable w R t \<and> ho_installation t = old \<and> bk_native (ho_backup t) = None)"
  have clear: "Q0 (t\<lparr>ho_faults := fs, ho_backup := empty_backup\<rparr>)" "durable w R (t\<lparr>ho_faults := fs\<rparr>)" if "P t" for t fs
    using that by (auto simp: P_def Q0_def host_defs empty_backup_def terminal_phase_def split: option.splits phase.splits)
  have s2: "spec P (atomic (\<lambda>s. s\<lparr>ho_backup := empty_backup\<rparr>)) (\<lambda>_. Q0) ?E"
    by (rule spec_atomic) (use clear in \<open>auto simp: Q0_def\<close>)
  have s3: "spec Q0 (enter_maintenance w u old) (\<lambda>_. checkpointing w R old) ?E"
    unfolding Q0_def by (rule spec_enter_maintenance [OF np])
  have s4: "spec (checkpointing w R old) (then_action stop_services (then_action (check_pointer revision)
      (then_action (save_checkpoint w deb) (switch_over w u old)))) (\<lambda>_. durable w R) (\<lambda>_. failed_ok w R)"
    if "wo_sha w deb = md_package_sha old" for deb revision
  proof (rule spec_then [OF steady_state(1) spec_then [OF _ spec_then [OF spec_save_checkpoint [OF that] spec_switch_over [OF pair]]]])
    show "spec (checkpointing w R old) (check_pointer revision) (\<lambda>_. checkpointing w R old) (\<lambda>_. failed_ok w R)"
      unfolding check_pointer_def
      by (rule spec_state) (auto simp only: checkpointing_failed split: option.split intro!: spec_if spec_raise spec_ret)
  qed (auto intro: checkpointing_failed)
  have s5: "spec (checkpointing w R old) (catch_failure (then_action stop_services (then_action (check_pointer revision)
      (then_action (save_checkpoint w deb) (switch_over w u old)))) (fall_back w)) (\<lambda>_. durable w R) ?E"
    if "wo_sha w deb = md_package_sha old" for deb revision
    by (rule spec_catch [OF spec_conseq [OF s4 [OF that]] spec_fall_back]) (auto simp: failed_ok_def)
  have body: "spec P (then_action (progress_to Preparing) (then_action command (if \<not> snd (up_admitted u) then raise_error AdmissionFailed
      else then_action (progress_to Installing) (then_action (atomic (\<lambda>s. s\<lparr>ho_backup := empty_backup\<rparr>))
        (then_action (enter_maintenance w u old) (catch_failure (then_action stop_services (then_action (check_pointer (snapshot_revision u))
          (then_action (save_checkpoint w deb) (switch_over w u old)))) (fall_back w))))))) (\<lambda>_. durable w R) ?E"
    if deb: "wo_sha w deb = md_package_sha old" for deb
    by (rule spec_then [OF s1(1) spec_then [OF s1(2) spec_if]])
      (auto intro: spec_raise PE spec_then [OF s1(1) spec_then [OF s2 spec_then [OF s3 s5 [OF deb]]]])
  have err: "spec (\<lambda>t. t = s) (raise_error e :: unit host_action) (\<lambda>_. durable w R) ?E" for e
    by (rule spec_raise) (simp add: settled_durable [OF s])
  note at = spec_at [where P = P and s = s, OF body Ps]
  show "spec (\<lambda>t. t = s) (let old = ho_installation s in
     if up_version u \<le> md_version old then raise_error NotNewer
     else if \<not> fst (up_admitted u) then raise_error AdmissionFailed
     else (case map_of (ho_packages s) (md_version old) of
       None \<Rightarrow> raise_error NoRollbackPackage
     | Some old_package \<Rightarrow>
         if wo_sha w old_package \<noteq> md_package_sha old then raise_error NoRollbackPackage
         else if \<not> fst (up_snapshots u) then raise_error SnapshotRefused
         else then_action (progress_to Preparing)
           (then_action command
           (if \<not> snd (up_admitted u) then raise_error AdmissionFailed
            else then_action (progress_to Installing)
              (then_action (atomic (\<lambda>s. s\<lparr>ho_backup := empty_backup\<rparr>))
              (then_action (enter_maintenance w u old)
                (catch_failure
                  (then_action stop_services
                    (then_action (check_pointer (snapshot_revision u))
                    (then_action (save_checkpoint w old_package) (switch_over w u old))))
                  (fall_back w)))))))) (\<lambda>_. durable w R) ?E"
    unfolding Let_def old_def [symmetric]
    by (cases "map_of (ho_packages s) (md_version old)") (auto simp only: option.case not_not intro!: spec_if err at)
qed

lemma spec_close_job:
  assumes "steady P" and "\<And>s e. P s \<Longrightarrow> E e s"
  shows "spec P (close_job st) (\<lambda>b s. b \<and> P s) E"
  unfolding close_job_def
proof (rule spec_then)
  show "spec P (progress_to st) (\<lambda>_. P) E" by (rule steady_progress [OF assms])
  show "spec P (then_action (set_marker False) (ret True)) (\<lambda>b s. b \<and> P s) E"
  proof (rule spec_then)
    show "spec P (set_marker False) (\<lambda>_. P) E" by (rule steady_state(2) [OF assms])
    show "spec P (ret True) (\<lambda>b s. b \<and> P s) E" by (rule spec_ret) simp
  qed
qed

lemma spec_recover: "spec (durable w R) (recover_update w) (\<lambda>b s. if b then durable w R s else at_rest w R s) (\<lambda>_. durable w R)"
  unfolding recover_update_def
proof (rule spec_state)
  fix s assume s: "durable w R s"
  let ?Q = "\<lambda>b s. if b then durable w R s else at_rest w R s" and ?E = "\<lambda>(_::release_error). durable w R"
  have close: "spec (durable w R) (close_job st) ?Q ?E" for st
    by (rule spec_conseq [OF spec_close_job [where P = "durable w R" and E = ?E]]) auto
  show "spec (\<lambda>t. t = s) (case ho_journal s of None \<Rightarrow> ret False
   | Some t \<Rightarrow>
       if tr_phase t = Committed then
         (if busy_state (um_state (ho_manager s)) \<and> job_version s = Some (tr_target t)
          then (if md_version (ho_installation s) \<noteq> tr_target t then raise_error VersionsDisagree else close_job Succeeded)
          else ret False)
       else if tr_phase t = Aborted \<or> tr_phase t = RolledBack then
         (if busy_state (um_state (ho_manager s)) \<and> tr_job t \<noteq> None \<and> job_id s = tr_job t
          then close_job (if tr_phase t = RolledBack then RolledBackState else Failed)
          else ret False)
       else then_action (progress_to RollingBack)
         (then_action (modify_state (\<lambda>s. s\<lparr>ho_transaction := t, ho_ready := True\<rparr>))
         (then_action
           (if tr_phase t = Stopping
            then then_action (set_phase Aborted) (then_action save_journal (start_services w))
            else rollback_upgrade w)
           (close_job RolledBackState)))) ?Q ?E"
  proof (cases "ho_journal s")
    case None
    with durable_settled [OF s] show ?thesis by (auto intro!: spec_ret)
  next
    case (Some t)
    show ?thesis
    proof (cases "terminal_phase (tr_phase t)")
      case True
      with Some durable_settled [OF s] have "at_rest w R s" by simp
      have at: "spec (\<lambda>t. t = s) (close_job st) ?Q ?E" for st by (rule spec_at [where P = "durable w R" and s = s, OF close s])
      have none: "spec (\<lambda>t. t = s) (ret False) ?Q ?E" by (rule spec_ret) (simp add: \<open>at_rest w R s\<close>)
      have err: "spec (\<lambda>t. t = s) (raise_error e) ?Q ?E" for e by (rule spec_raise) (simp add: s)
      from True show ?thesis unfolding Some option.case terminal_phase_def by (intro spec_if at none err) blast
    next
      case False
      define P where "P = (\<lambda>x. durable w R x \<and> ho_journal x = Some t)"
      have steady: "steady P" unfolding P_def by (rule steadyI; simp add: host_defs split: option.split phase.split)
      have step: "spec P (progress_to RollingBack) (\<lambda>_. P) ?E" by (rule steady_progress [OF steady]) (simp add: P_def)
      define M where "M = (\<lambda>x. P x \<and> ho_transaction x = t)"
      have load: "spec P (modify_state (\<lambda>s. s\<lparr>ho_transaction := t, ho_ready := True\<rparr>)) (\<lambda>_. M) ?E"
        by (rule spec_modify) (auto simp: M_def P_def host_defs split: option.splits phase.splits)
      have "spec M (if tr_phase t = Stopping
            then then_action (set_phase Aborted) (then_action save_journal (start_services w))
            else rollback_upgrade w) (\<lambda>_. durable w R) ?E"
      proof (rule spec_if)
        assume stopping: "tr_phase t = Stopping"
        define I where "I = (\<lambda>x. intact w R x \<and> durable w R x)"
        define A where "A = (\<lambda>x. I x \<and> tr_phase (ho_transaction x) = Aborted)"
        have abort: "spec M (set_phase Aborted) (\<lambda>_. A) ?E" unfolding set_phase_def
          by (rule spec_modify) (use stopping in \<open>auto simp: M_def P_def A_def I_def host_defs split: option.splits phase.splits\<close>)
        have saved: "I (x\<lparr>ho_faults := fs, ho_journal := Some (ho_transaction x)\<rparr>)" "I (x\<lparr>ho_faults := fs\<rparr>)" if "A x" for x fs
          using that by (auto simp: A_def I_def host_defs split: option.splits phase.splits)
        have journal: "spec A save_journal (\<lambda>_. I) ?E"
          unfolding save_journal_def by (rule spec_atomic) (use saved in \<open>auto simp: I_def\<close>)
        have "I (start_native w x)" if "I x" for x
        proof -
          from that have "whole w R (start_image_of x)" by (simp add: I_def intact_image)
          with that show ?thesis by (auto simp: I_def host_defs split: option.splits phase.splits)
        qed
        moreover have "steady I" unfolding I_def by (rule steadyI; simp add: host_defs split: option.split phase.split)
        ultimately have start: "spec I (start_services w) (\<lambda>_. I) ?E" by (intro spec_start) (auto simp: I_def)
        show "spec M (then_action (set_phase Aborted) (then_action save_journal (start_services w))) (\<lambda>_. durable w R) ?E"
          by (rule spec_then [OF abort spec_then [OF journal spec_conseq [OF start]]]) (auto simp: I_def)
      next
        assume "tr_phase t \<noteq> Stopping"
        with False have ph: "tr_phase t = Checkpointed \<or> tr_phase t = Switching" by (cases "tr_phase t") (auto simp: terminal_phase_def)
        show "spec M (rollback_upgrade w) (\<lambda>_. durable w R) ?E"
          by (rule spec_pre [OF spec_rollback [of t]])
            (use ph in \<open>auto simp: M_def P_def restorable_def durable_def phase_ok_def\<close>)
      qed
      from spec_then [OF step spec_then [OF load spec_then [OF this close]]]
      have chain: "spec P (then_action (progress_to RollingBack)
         (then_action (modify_state (\<lambda>s. s\<lparr>ho_transaction := t, ho_ready := True\<rparr>))
         (then_action
           (if tr_phase t = Stopping
            then then_action (set_phase Aborted) (then_action save_journal (start_services w))
            else rollback_upgrade w)
           (close_job RolledBackState)))) ?Q ?E" .
      have "P s" by (simp add: P_def s Some)
      from spec_at [where P = P and s = s, OF chain this] False Some show ?thesis by (simp add: terminal_phase_def)
    qed
  qed
qed

subsection \<open>The worker\<close>

lemma steady_durable_pre: "steady (\<lambda>s. durable w R s)" by simp

lemma spec_queued:
  assumes "case fetched of None \<Rightarrow> True | Some u \<Rightarrow> (up_stage u, wo_sha w (up_package u)) \<in> R"
  shows "spec (at_rest w R) (queued_upgrade w fetched) (\<lambda>_. durable w R) (\<lambda>_. durable w R)"
  unfolding queued_upgrade_def
proof (rule spec_state)
  fix s assume s: "at_rest w R s"
  let ?E = "\<lambda>(_::release_error). durable w R"
  have keep: "spec (durable w R) (atomic (\<lambda>s. s\<lparr>ho_manager := (ho_manager s)\<lparr>um_candidate := None\<rparr>\<rparr>)) (\<lambda>_. durable w R) ?E"
    by (rule spec_atomic) (use steady_durable_pre [of w R] in \<open>auto simp: steady_def\<close>)
  have "spec (at_rest w R) (case fetched of None \<Rightarrow> raise_error OperationFailed
       | Some u \<Rightarrow> then_action (upgrade w u) (then_action (progress_to Succeeded)
             (atomic (\<lambda>s. s\<lparr>ho_manager := (ho_manager s)\<lparr>um_candidate := None\<rparr>\<rparr>)))) (\<lambda>_. durable w R) ?E"
    using assms by (cases fetched)
      (auto simp only: option.case intro!: spec_raise settled_durable spec_then [OF spec_upgrade spec_then [OF steady_progress keep]] steady_upgrade)
  then have go: "spec (at_rest w R) (then_action (progress_to Downloading) (case fetched of None \<Rightarrow> raise_error OperationFailed
       | Some u \<Rightarrow> then_action (upgrade w u) (then_action (progress_to Succeeded)
             (atomic (\<lambda>s. s\<lparr>ho_manager := (ho_manager s)\<lparr>um_candidate := None\<rparr>\<rparr>))))) (\<lambda>_. durable w R) ?E"
    by (rule spec_then [OF steady_progress [OF steady_settled(1)], rotated]) (rule settled_durable)
  have err: "spec (\<lambda>t. t = s) (raise_error e :: unit host_action) (\<lambda>_. durable w R) ?E" for e
    by (rule spec_raise) (simp add: settled_durable [OF s])
  note at = spec_at [where P = "at_rest w R" and s = s, OF go s]
  show "spec (\<lambda>t. t = s) (case um_candidate (ho_manager s) of None \<Rightarrow> raise_error CandidateGone
   | Some c \<Rightarrow> if cn_version c \<le> md_version (ho_installation s) then raise_error NotNewer
       else then_action (progress_to Downloading) (case fetched of
         None \<Rightarrow> raise_error OperationFailed
       | Some u \<Rightarrow> then_action (upgrade w u)
           (then_action (progress_to Succeeded)
             (atomic (\<lambda>s. s\<lparr>ho_manager := (ho_manager s)\<lparr>um_candidate := None\<rparr>\<rparr>))))) (\<lambda>_. durable w R) ?E"
    by (cases "um_candidate (ho_manager s)") (auto simp only: option.case intro!: spec_if err at)
qed

lemma spec_work:
  assumes "case fetched of None \<Rightarrow> True | Some u \<Rightarrow> (up_stage u, wo_sha w (up_package u)) \<in> R"
  shows "spec (durable w R) (work_update w fetched) (\<lambda>_. durable w R) (\<lambda>_. durable w R)"
  unfolding work_update_def
proof (rule spec_state)
  fix prior assume prior: "durable w R prior"
  let ?E = "\<lambda>(_::release_error). durable w R" and ?Q = "\<lambda>(_::unit). durable w R"
  have D: "steady (durable w R)" by simp
  have mark: "spec P (set_marker b) (\<lambda>_. durable w R) ?E" if "\<And>s. P s \<Longrightarrow> durable w R s" for b P
    by (rule spec_pre [OF steady_state(2) [OF D]]) (use that in auto)
  have report: "spec (durable w R) (then_action (progress_to st) (raise_error e)) Q ?E" for st e and Q :: "bool \<Rightarrow> host \<Rightarrow> bool"
    by (rule spec_then [OF steady_progress [OF D] spec_raise]) auto
  have note_job: "spec (durable w R) (note_failed_job e) ?Q ?E" for e
    unfolding note_failed_job_def
    by (rule spec_state, rule spec_then [OF spec_if spec_raise, where R = "durable w R"])
      (auto intro: spec_ret spec_pre [OF steady_progress [OF D]])
  have release: "spec (durable w R) release_marker ?Q ?E"
    unfolding release_marker_def by (rule spec_state) (auto intro!: spec_if spec_ret mark)
  have queued: "spec (at_rest w R) (finally_failure (catch_failure (queued_upgrade w fetched) note_failed_job) release_marker) ?Q ?E"
  proof (rule spec_finally [where ?Q1.0 = ?Q and ?E1.0 = ?E])
    show "spec (at_rest w R) (catch_failure (queued_upgrade w fetched) note_failed_job) ?Q ?E"
      by (rule spec_catch [OF spec_conseq [OF spec_queued [OF assms]] note_job]) auto
  qed (auto intro: release)
  have rest: "spec (\<lambda>s. if recovered then durable w R s else at_rest w R s) (if recovered then ret () else with_state (\<lambda>s.
        if \<not> busy_state (um_state (ho_manager s)) then set_marker False
        else if um_state (ho_manager s) \<noteq> Queued then then_action (progress_to Failed) (set_marker False)
        else finally_failure (catch_failure (queued_upgrade w fetched) note_failed_job) release_marker)) ?Q ?E" for recovered
  proof (rule spec_if)
    assume r: "\<not> recovered"
    have "spec (\<lambda>t. t = s) (if \<not> busy_state (um_state (ho_manager s)) then set_marker False
        else if um_state (ho_manager s) \<noteq> Queued then then_action (progress_to Failed) (set_marker False)
        else finally_failure (catch_failure (queued_upgrade w fetched) note_failed_job) release_marker) ?Q ?E" if s: "at_rest w R s" for s
    proof (intro spec_if)
      show "spec (\<lambda>t. t = s) (set_marker False) ?Q ?E" by (rule mark) (simp add: settled_durable [OF s])
      show "spec (\<lambda>t. t = s) (then_action (progress_to Failed) (set_marker False)) ?Q ?E"
        by (rule spec_at [where P = "durable w R", OF spec_then [OF steady_progress [OF D] mark] settled_durable [OF s]]) auto
      show "spec (\<lambda>t. t = s) (finally_failure (catch_failure (queued_upgrade w fetched) note_failed_job) release_marker) ?Q ?E"
        by (rule spec_at [where P = "at_rest w R", OF queued s])
    qed
    with r show "spec (\<lambda>s. if recovered then durable w R s else at_rest w R s) (with_state (\<lambda>s.
        if \<not> busy_state (um_state (ho_manager s)) then set_marker False
        else if um_state (ho_manager s) \<noteq> Queued then then_action (progress_to Failed) (set_marker False)
        else finally_failure (catch_failure (queued_upgrade w fetched) note_failed_job) release_marker)) ?Q ?E"
      by (intro spec_state) simp
  qed (rule spec_ret, simp)
  have caught: "spec (durable w R) (catch_failure (recover_update w) (\<lambda>e. then_action (progress_to RecoveryRequired) (raise_error e)))
      (\<lambda>b s. if b then durable w R s else at_rest w R s) ?E"
    by (rule spec_catch [OF spec_conseq [OF spec_recover] report]) auto
  have first: "spec (\<lambda>t. t = prior) (if busy_state (um_state (ho_manager prior)) \<or> ho_journal prior \<noteq> None then set_marker True else ret ())
      (\<lambda>_. durable w R) ?E"
    by (rule spec_if [OF mark spec_ret]) (simp_all add: prior)
  show "spec (\<lambda>t. t = prior) (then_action (if busy_state (um_state (ho_manager prior)) \<or> ho_journal prior \<noteq> None then set_marker True else ret ())
     (bind_action (catch_failure (recover_update w)
        (\<lambda>e. then_action (progress_to RecoveryRequired) (raise_error e)))
     (\<lambda>recovered. if recovered then ret () else with_state (\<lambda>s.
        if \<not> busy_state (um_state (ho_manager s)) then set_marker False
        else if um_state (ho_manager s) \<noteq> Queued then then_action (progress_to Failed) (set_marker False)
        else finally_failure (catch_failure (queued_upgrade w fetched) note_failed_job) release_marker)))) ?Q ?E"
    by (rule spec_then [OF first spec_bind [OF caught rest]])
qed

lemma durable_fields:
  "durable w R (s\<lparr>ho_faults := fs\<rparr>) = durable w R s" "durable w R (s\<lparr>ho_permission := b\<rparr>) = durable w R s"
  "durable w R (s\<lparr>ho_manager := m\<rparr>) = durable w R s" "durable w R (lose_power s) = durable w R s"
  "durable w R (s\<lparr>ho_marker := b\<rparr>) = durable w R s"
  by (simp_all add: host_defs lose_power_def split: option.split phase.split)

lemma gate_whole:
  assumes "durable w R s" and "gate_open s" and "\<not> ho_permission s"
  shows "whole w R (start_image_of s)"
proof -
  have "at_rest w R s" by (rule durable_settled [OF assms(1)]) (use assms(2,3) in \<open>auto simp: gate_open_def\<close>)
  then show ?thesis by (simp add: at_rest_def intact_image)
qed

lemma life_durable: "life w R s \<Longrightarrow> durable w R s \<and> \<not> ho_permission s"
proof (induction rule: life.induct)
  case (installed s n p)
  then have "at_rest w R s" by (auto simp: at_rest_def intact_def starts_whole_def)
  with installed show ?case by (simp add: settled_durable)
next
  case (worked s fetched faults r t)
  have "wp (work_update w fetched) (\<lambda>_. durable w R) (\<lambda>_. durable w R) (s\<lparr>ho_faults := faults\<rparr>)"
    using spec_work [OF worked.hyps(2)] worked.IH by (simp add: spec_def durable_fields)
  with worked.hyps(3) have "durable w R t" by (auto simp: wp_def split: sum.splits)
  then show ?case by (simp add: durable_fields)
next
  case (lost_power s)
  then show ?case by (simp add: durable_fields) (simp add: lose_power_def)
next
  case (booted s)
  then have "gate_open s \<Longrightarrow> whole w R (start_image_of s)" using gate_whole by blast
  with booted show ?case by (auto simp: host_defs split: option.splits phase.splits)
next
  case (panel_started s)
  then show ?case by (auto simp: host_defs split: option.splits phase.splits)
next
  case (requested s m b fs)
  then show ?case by (simp add: durable_fields)
qed

end
