(* ===== verification/Upgrade_Properties.thy ===== *)
theory Upgrade_Properties
  imports Upgrade_Safety
begin

text \<open>What the upgrade guarantees over all faults, and how an interrupted one is recovered.\<close>

subsection \<open>Pairing\<close>

text \<open>C28: native switching only starts on a pair. In the life of a board, whatever operations of its
  updates fail, wherever power is lost, however often its units and its panel are started and its worker
  run, every start of switchd that passes the startup gate finds the native programs and the Web package
  of one release, up to the digest of the package; and whenever the gate is open, the disk holds such a
  pair. The gate is asked by switchd only: the panel and the other daemons are not held back by it
  (\<open>panel_starts_unpaired\<close> below).\<close>

theorem switching_starts_paired:
  assumes "life w releases s"
  shows "(\<forall>im \<in> set (ho_starts s). \<exists>n p. im_native im = Some n \<and> im_package im = Some p \<and> (n, wo_sha w p) \<in> releases)
    \<and> (gate_open s \<longrightarrow> (\<exists>n p. ho_native s = Some n \<and> ho_package s = Some p \<and> (n, wo_sha w p) \<in> releases))"
proof -
  from life_durable [OF assms] have d: "durable w releases s" "\<not> ho_permission s" by auto
  then have "\<forall>im \<in> set (ho_starts s). whole w releases im" by (simp add: durable_def starts_whole_def)
  moreover have "gate_open s \<longrightarrow> whole w releases (start_image_of s)" using gate_whole [OF d(1) _ d(2)] by blast
  ultimately show ?thesis by (auto simp: whole_def start_image_of_def)
qed

text \<open>A board on release 1.0.0 with an update to 1.1.0 queued; digests are the contents themselves.\<close>

definition plain_world :: world where
  "plain_world = \<lparr>wo_sha = (\<lambda>content. content), wo_touch = (\<lambda>im. (im_etc im, im_native_state im, im_web_state im)), wo_panel = im_web_state\<rparr>"

definition old_release :: metadata where
  "old_release = \<lparr>md_version = (1, 0, 0), md_package_sha = ''deb-1.0'', md_sdk_sha = ''sdk'', md_dependencies_sha = ''deps''\<rparr>"

definition next_update :: upgrade_inputs where
  "next_update = \<lparr>up_version = (1, 1, 0), up_stage = [(''switchd'', ''new'')], up_package = ''deb-1.1'', up_admitted = (True, True),
     up_snapshots = (True, Some (8, JNull)), up_token = ''ab'', up_job = Some ''j1''\<rparr>"

definition queued_manager :: manager_state where
  "queued_manager = \<lparr>um_state = Queued,
     um_candidate = Some \<lparr>cn_version = (1, 1, 0), cn_manifest_sha = ''m'', cn_sdk_sha = ''sdk''\<rparr>,
     um_job = Some \<lparr>uj_id = ''j1'', uj_version = (1, 1, 0), uj_state = Queued\<rparr>, um_checked_at = 0\<rparr>"

definition board :: host where
  "board = \<lparr>ho_native = Some [(''switchd'', ''old'')], ho_etc = Some [(''native.env'', ''e'')],
     ho_native_state = Some [(''config/journal/tx_counter'', ''7'')], ho_web_state = Some [(''accounts.json'', ''a'')],
     ho_package = Some ''deb-1.0'', ho_installation = old_release, ho_packages = [((1, 0, 0), ''deb-1.0'')], ho_journal = None,
     ho_backup = empty_backup, ho_manager = queued_manager, ho_marker = False, ho_permission = False, ho_running = True, ho_panel = True,
     ho_starts = [], ho_daemon_starts = [], ho_panel_starts = [], ho_transaction = \<lparr>tr_phase = Aborted, tr_backup = [], tr_before = old_release, tr_configuration = JNull,
       tr_target = (0, 0, 0), tr_job = None, tr_digests = []\<rparr>, ho_ready = False, ho_faults = []\<rparr>"

definition releases_of_board :: "(tree \<times> string) set" where
  "releases_of_board = {([(''switchd'', ''old'')], ''deb-1.0''), ([(''switchd'', ''new'')], ''deb-1.1'')}"

lemma board_life: "life plain_world releases_of_board board"
  by (rule installed) (simp_all add: board_def plain_world_def releases_of_board_def old_release_def)

definition after_work :: "disk_fault list \<Rightarrow> release_error option \<times> host" where
  "after_work faults = (case work_update plain_world (Some next_update) (board\<lparr>ho_faults := faults\<rparr>) of
     (r, t) \<Rightarrow> (case r of Inl e \<Rightarrow> Some e | Inr _ \<Rightarrow> None, t))"


lemma switching_starts_paired_witness:
  "ho_starts (start_native plain_world board) = [start_image_of board]
   \<and> (\<exists>n p. ho_native board = Some n \<and> ho_package board = Some p \<and> (n, wo_sha plain_world p) \<in> releases_of_board)"
proof -
  have starts: "ho_starts (start_native plain_world board) = [start_image_of board]" by code_simp
  with switching_starts_paired [OF booted [OF board_life]] show ?thesis by (auto simp: start_image_of_def)
qed

subsection \<open>Recovery\<close>

definition checkpoint_recorded :: "world \<Rightarrow> update_journal \<Rightarrow> checkpoint_dir \<Rightarrow> bool" where
  "checkpoint_recorded w t b \<longleftrightarrow> backup_path_ok (tr_backup t)
     \<and> (\<forall>p \<in> set [Etc, NativeState, WebState]. case saved_of p b of None \<Rightarrow> False
          | Some files \<Rightarrow> map_of (tr_digests t) (place_name p) = Some (tree_digests w files))
     \<and> (case bk_native b of None \<Rightarrow> tr_phase t = Checkpointed
          | Some files \<Rightarrow> map_of (tr_digests t) ''native'' = Some (tree_digests w files))
     \<and> (case bk_package b of None \<Rightarrow> False | Some deb \<Rightarrow> wo_sha w deb = md_package_sha (tr_before t))"

lemma clean_operation: "ho_faults s = [] \<Longrightarrow> disk_operation part full s = (Inr (), full s)"
  by (simp add: disk_operation_def)

lemma clean_atomic: "ho_faults s = [] \<Longrightarrow> atomic full s = (Inr (), full s)"
  by (simp add: atomic_def clean_operation)

lemma clean_command: "ho_faults s = [] \<Longrightarrow> command s = (Inr (), s)"
  by (simp add: command_def clean_operation)

lemma set_place_faults [simp]: "ho_faults (set_place p t s) = ho_faults s" by (cases p) simp_all

lemma set_place_twice [simp]: "set_place p a (set_place p b s) = set_place p a s" by (cases p) simp_all

lemma clean_restore_place:
  assumes "ho_faults s = []" and "saved_of p (ho_backup s) = Some files"
    and "map_of (tr_digests t) (place_name p) = Some (tree_digests w files)"
  shows "restore_place w t p s = (Inr (), set_place p (Some files) s)"
  using assms by (simp add: restore_place_def remove_place_def monad_simps clean_operation)

lemma clean_restore_native:
  assumes "ho_faults s = []" and "checkpoint_recorded w t (ho_backup s)"
  shows "restore_native w t s = (Inr (), s\<lparr>ho_native := (case bk_native (ho_backup s) of None \<Rightarrow> ho_native s | Some n \<Rightarrow> Some n)\<rparr>)"
  using assms by (auto simp: restore_native_def checkpoint_recorded_def monad_simps command_def clean_operation clean_atomic
      split: option.splits)

lemma clean_restore_package:
  assumes "ho_faults s = []" and "checkpoint_recorded w t (ho_backup s)"
  shows "restore_package w (tr_before t) s = (Inr (), s\<lparr>ho_package := bk_package (ho_backup s)\<rparr>)"
  using assms by (auto simp: restore_package_def checkpoint_recorded_def monad_simps install_package_def clean_operation
      split: option.splits)

lemma clean_permission:
  "ho_faults s = [] \<Longrightarrow> with_permission (then_action (start_services w) command) s =
     (Inr (), (start_panel w ((services_started w (s\<lparr>ho_permission := True\<rparr>))\<lparr>ho_starts := ho_starts s @ [start_image_of s]\<rparr>))
        \<lparr>ho_permission := False\<rparr>)"
  by (simp add: with_permission_def finally_failure_def monad_simps clean_atomic start_services_def command_def clean_operation
      start_native_def start_panel_def gate_open_def services_started_def start_image_of_def split: prod.splits option.splits)

text \<open>The disk a rollback leads to.\<close>

definition restored_image :: "host \<Rightarrow> start_image" where
  "restored_image s = (let b = ho_backup s in \<lparr>im_native = (case bk_native b of None \<Rightarrow> ho_native s | Some n \<Rightarrow> Some n),
     im_etc = bk_etc b, im_native_state = bk_native_state b, im_web_state = bk_web_state b, im_package = bk_package b\<rparr>)"

definition rollback_done :: "host \<Rightarrow> update_journal \<Rightarrow> host \<Rightarrow> bool" where
  "rollback_done s t u \<longleftrightarrow> ho_faults u = [] \<and> ho_starts u = ho_starts s @ [restored_image s]
     \<and> ho_journal u = Some (t\<lparr>tr_phase := RolledBack\<rparr>) \<and> ho_installation u = tr_before t \<and> ho_running u \<and> ho_panel u
     \<and> ho_native u = im_native (restored_image s) \<and> ho_package u = im_package (restored_image s)
     \<and> ho_manager u = ho_manager s"

lemma clean_rollback:
  assumes "ho_faults s = []" and c: "checkpoint_recorded w (ho_transaction s) (ho_backup s)"
    and p: "tr_phase (ho_transaction s) \<noteq> Committed"
  shows "\<exists>u. rollback_upgrade w s = (Inr (), u) \<and> rollback_done s (ho_transaction s) u"
proof -
  let ?t = "ho_transaction s"
  let ?n = "case bk_native (ho_backup s) of None \<Rightarrow> ho_native s | Some n \<Rightarrow> Some n"
  from c obtain e n v where places: "bk_etc (ho_backup s) = Some e" "bk_native_state (ho_backup s) = Some n"
      "bk_web_state (ho_backup s) = Some v" "map_of (tr_digests ?t) (place_name Etc) = Some (tree_digests w e)"
      "map_of (tr_digests ?t) (place_name NativeState) = Some (tree_digests w n)"
      "map_of (tr_digests ?t) (place_name WebState) = Some (tree_digests w v)"
    by (auto simp: checkpoint_recorded_def split: option.splits)
  from c have path: "backup_path_ok (tr_backup ?t)" by (simp add: checkpoint_recorded_def)
  let ?s1 = "s\<lparr>ho_running := False, ho_panel := False\<rparr>"
  have native: "restore_native w ?t ?s1 = (Inr (), ?s1\<lparr>ho_native := ?n\<rparr>)"
    using clean_restore_native [of ?s1 w ?t] assms by (simp cong: option.case_cong)
  let ?s2 = "?s1\<lparr>ho_native := ?n, ho_etc := Some e, ho_native_state := Some n, ho_web_state := Some v\<rparr>"
  have state: "for_each (restore_place w ?t) [Etc, NativeState, WebState] (?s1\<lparr>ho_native := ?n\<rparr>) = (Inr (), ?s2)"
    using places assms(1) by (simp add: monad_simps clean_restore_place)
  have package: "restore_package w (tr_before ?t) ?s2 = (Inr (), ?s2\<lparr>ho_package := bk_package (ho_backup s)\<rparr>)"
    using clean_restore_package [of ?s2 w ?t] assms by simp
  show ?thesis
    using assms(1) path p native state package places
    by (simp add: rollback_upgrade_def Let_def monad_simps stop_services_def clean_atomic clean_command
        save_installation_def clean_permission set_phase_def save_journal_def services_started_def start_panel_def rollback_done_def
        restored_image_def start_image_of_def del: for_each.simps split: prod.splits)
qed


text \<open>C30: an interrupted update is undone by the next run of its worker. From a journal left at a
  checkpoint or in the middle of the switch, whatever the interruption left of the native programs, the
  Web package and the state directories, a run without further faults returns, starts the services on
  exactly the saved checkpoint, records the old release and the rollback, and releases the write lock.\<close>

theorem interrupted_upgrade_recovered:
  assumes "ho_faults s = []" and j: "ho_journal s = Some t" and p: "tr_phase t = Checkpointed \<or> tr_phase t = Switching"
    and c: "checkpoint_recorded w t (ho_backup s)"
  shows "\<exists>u. work_update w fetched s = (Inr (), u)
    \<and> ho_starts u = ho_starts s @ [restored_image s] \<and> ho_running u \<and> ho_panel u
    \<and> ho_native u = im_native (restored_image s) \<and> ho_package u = bk_package (ho_backup s)
    \<and> ho_installation u = tr_before t \<and> ho_journal u = Some (t\<lparr>tr_phase := RolledBack\<rparr>)
    \<and> um_state (ho_manager u) = RolledBackState \<and> \<not> ho_marker u"
proof -
  let ?m = "\<lambda>st m. m\<lparr>um_state := st, um_job := map_option (\<lambda>j. j\<lparr>uj_state := st\<rparr>) (um_job m)\<rparr>"
  let ?s = "s\<lparr>ho_marker := True, ho_manager := ?m RollingBack (ho_manager s), ho_transaction := t, ho_ready := True\<rparr>"
  obtain u where u: "rollback_upgrade w ?s = (Inr (), u)" "rollback_done ?s t u"
    using clean_rollback [of ?s w] assms by auto
  let ?u = "u\<lparr>ho_manager := ?m RolledBackState (ho_manager u), ho_marker := False\<rparr>"
  have "recover_update w (s\<lparr>ho_marker := True\<rparr>) = (Inr True, ?u)"
    using u assms(1) j p by (auto simp: recover_update_def monad_simps progress_to_def clean_atomic close_job_def set_marker_def
        rollback_done_def)
  then have "work_update w fetched s = (Inr (), ?u)"
    using assms(1) j by (simp add: work_update_def monad_simps set_marker_def clean_atomic catch_failure_def)
  with u(2) show ?thesis by (simp add: rollback_done_def restored_image_def Let_def cong: option.case_cong)
qed

text \<open>
  After a power loss in the middle of the switch the gate keeps switchd down, but a boot still starts the
  other daemons and the panel, here on the new programs without any Web package.
\<close>

definition crashed :: host where
  "crashed = lose_power (snd (after_work (replicate 18 Fine @ [Halts 1])))"

lemma interrupted_upgrade_recovered_witness:
  "tr_phase (the (ho_journal crashed)) = Switching \<and> ho_native crashed = Some [(''switchd'', ''new'')] \<and> ho_package crashed = None
   \<and> (\<exists>u. work_update plain_world None crashed = (Inr (), u) \<and> ho_native u = Some [(''switchd'', ''old'')]
        \<and> ho_package u = Some ''deb-1.0'' \<and> um_state (ho_manager u) = RolledBackState \<and> ho_running u)"
proof -
  have s: "ho_faults crashed = []" "ho_journal crashed = Some (the (ho_journal crashed))" by code_simp+
  have p: "tr_phase (the (ho_journal crashed)) = Switching" by code_simp
  have c: "checkpoint_recorded plain_world (the (ho_journal crashed)) (ho_backup crashed)" by code_simp
  have d: "ho_native crashed = Some [(''switchd'', ''new'')]" "ho_package crashed = None"
    "im_native (restored_image crashed) = Some [(''switchd'', ''old'')]" "bk_package (ho_backup crashed) = Some ''deb-1.0''"
    by code_simp+
  from interrupted_upgrade_recovered [OF s disjI2 [OF p] c, of None] p d show ?thesis by auto
qed

lemma panel_starts_unpaired:
  "ho_starts (start_native plain_world crashed) = ho_starts crashed \<and> \<not> gate_open crashed
   \<and> (\<forall>im \<in> {List.last (ho_daemon_starts (start_native plain_world crashed)), List.last (ho_panel_starts (start_panel plain_world crashed))}.
        im_native im = Some [(''switchd'', ''new'')] \<and> im_package im = None)"
  by code_simp

text \<open>
  When only the last write of the journal fails, the rollback that follows reads the phase already set in
  memory and returns at once: the update is reported as rolled back while the new release stays
  installed and runs, and the journal still names an unfinished switch.
\<close>

lemma failed_commit_reported_as_rolled_back:
  assumes "ho_faults s = []" and "ho_ready s" and "tr_phase (ho_transaction s) = Committed"
    and "backup_path_ok (tr_backup (ho_transaction s))"
  shows "\<exists>u. fall_back w e s = (Inl e, u) \<and> um_state (ho_manager u) = RolledBackState
    \<and> ho_native u = ho_native s \<and> ho_package u = ho_package s \<and> ho_installation u = ho_installation s
    \<and> ho_journal u = ho_journal s \<and> ho_running u = ho_running s"
  using assms by (simp add: fall_back_def monad_simps progress_to_def clean_atomic catch_failure_def rollback_upgrade_def Let_def)

lemma failed_commit_of_board:
  "case after_work (replicate 28 Fine @ [Fails 0]) of (e, t) \<Rightarrow>
     e = Some OperationFailed \<and> um_state (ho_manager t) = RolledBackState \<and> ho_native t = Some [(''switchd'', ''new'')]
     \<and> md_version (ho_installation t) = (1, 1, 0) \<and> map_option tr_phase (ho_journal t) = Some Switching \<and> ho_running t"
  by code_simp

end
