(* ===== verification/Netlab_Wire.thy ===== *)
theory Netlab_Wire
  imports Board Documents
begin

text \<open>
  netlab_wire.py: the binary snapshot of the MAC table. Bytes are 8-bit words and the fields have their
  widths on the wire, in network byte order as \<^verbatim>\<open>struct\<close> unpacks them.
\<close>

type_synonym octet = "8 word"

subsection \<open>Big-endian fields\<close>

fun unpack_be :: "octet list \<Rightarrow> 'a::len word" where
  "unpack_be [] = 0"
| "unpack_be (b # bs) = push_bit (8 * length bs) (ucast b) OR unpack_be bs"

fun pack_be :: "nat \<Rightarrow> 'a::len word \<Rightarrow> octet list" where
  "pack_be 0 w = []"
| "pack_be (Suc n) w = ucast (drop_bit (8 * n) w) # pack_be n w"

lemma length_pack_be [simp]: "length (pack_be n w) = n"
  by (induction n) simp_all

lemma bit_unpack_be: "bit (unpack_be bs :: 'a::len word) k \<Longrightarrow> k < 8 * length bs"
proof (induction bs)
  case (Cons b bs)
  then show ?case
    by (auto simp: bit_or_iff bit_push_bit_iff bit_ucast_iff dest: bit_imp_le_length)
qed simp

lemma pack_be_cong: "(\<And>k. k < 8 * n \<Longrightarrow> bit v k = bit w k) \<Longrightarrow> pack_be n v = pack_be n w"
proof (induction n)
  case (Suc n)
  have "(ucast (drop_bit (8 * n) v) :: octet) = ucast (drop_bit (8 * n) w)"
    by (rule bit_eqI) (use Suc.prems in \<open>auto simp: bit_ucast_iff bit_drop_bit_eq\<close>)
  with Suc show ?case by simp
qed simp

lemma pack_unpack_be:
  assumes "8 * length bs \<le> LENGTH('a::len)"
  shows "pack_be (length bs) (unpack_be bs :: 'a word) = bs"
  using assms
proof (induction bs)
  case (Cons b bs)
  let ?u = "unpack_be bs :: 'a word" and ?w = "unpack_be (b # bs) :: 'a word"
  have low: "bit ?w k = bit ?u k" if "k < 8 * length bs" for k
    using that by (auto simp: bit_or_iff bit_push_bit_iff)
  have "(ucast (drop_bit (8 * length bs) ?w) :: octet) = b"
  proof (rule bit_eqI)
    fix i assume "possible_bit TYPE(octet) i"
    then have i: "i < 8" by simp
    then have "\<not> bit ?u (8 * length bs + i)" using bit_unpack_be [of bs "8 * length bs + i"] by auto
    with i Cons.prems show "bit (ucast (drop_bit (8 * length bs) ?w) :: octet) i = bit b i"
      by (auto simp: bit_ucast_iff bit_drop_bit_eq bit_or_iff bit_push_bit_iff)
  qed
  moreover have "pack_be (length bs) ?w = pack_be (length bs) ?u" by (rule pack_be_cong) (use low in simp)
  ultimately show ?case using Cons by (simp del: unpack_be.simps)
qed simp

lemma unpack_pack_be: "8 * n = LENGTH('a::len) \<Longrightarrow> unpack_be (pack_be n w) = (w :: 'a word)"
proof -
  have "unpack_be (pack_be m w) = take_bit (8 * m) w" for m
  proof (induction m)
    case (Suc m)
    have "push_bit (8 * m) (ucast (ucast (drop_bit (8 * m) w) :: octet)) OR take_bit (8 * m) w = take_bit (8 * m + 8) w"
      by (rule bit_word_eqI) (auto simp: bit_or_iff bit_push_bit_iff bit_ucast_iff bit_drop_bit_eq bit_take_bit_iff)
    with Suc show ?case by (simp add: add.commute)
  qed simp
  moreover assume "8 * n = LENGTH('a)"
  ultimately show ?thesis by simp
qed

subsection \<open>The snapshot of the MAC table\<close>

text \<open>\<^verbatim>\<open>MAC_ENTRY\<close> as it stands on the wire, and a row of the result (\<open>None\<close>: not on a LAG).\<close>

record mac_entry =
  me_vlan :: "16 word"
  me_port :: "16 word"
  me_lag :: octet
  me_mac :: "48 word"
  me_age :: "32 word"

record mac_row =
  mw_vlan :: int
  mw_port :: int
  mw_lag :: "string option"
  mw_mac :: string
  mw_age_raw :: int
  mw_age_state :: string
  mw_static :: bool
  mw_generation :: int

definition MAC_MAGIC :: "32 word" where "MAC_MAGIC = 0x4E4D4143"

definition part :: "nat \<Rightarrow> nat \<Rightarrow> octet list \<Rightarrow> octet list" where
  "part start n p = take n (drop start p)"

definition entry_of :: "octet list \<Rightarrow> mac_entry" where
  "entry_of q = \<lparr>me_vlan = unpack_be (part 0 2 q), me_port = unpack_be (part 2 2 q), me_lag = unpack_be (part 4 1 q),
     me_mac = unpack_be (part 5 6 q), me_age = unpack_be (part 11 4 q)\<rparr>"

fun iter_entries :: "octet list \<Rightarrow> mac_entry list" where
  "iter_entries p = (if length p < 15 then [] else entry_of (take 15 p) # iter_entries (drop 15 p))"

declare iter_entries.simps [simp del]

definition hex_digit_of :: "octet \<Rightarrow> char" where
  "hex_digit_of d = (if d < 10 then char_of (48 + unat d) else char_of (87 + unat d))"

definition hex_octet :: "octet \<Rightarrow> string" where
  "hex_octet b = [hex_digit_of (drop_bit 4 b), hex_digit_of (b AND 15)]"

fun colon_separated :: "string list \<Rightarrow> string" where
  "colon_separated [] = []"
| "colon_separated [x] = x"
| "colon_separated (x # xs) = x @ CHR '':'' # colon_separated xs"

definition age_state :: "32 word \<Rightarrow> string" where
  "age_state age = (if bit age 31 then ''static''
     else let raw = age AND 0x7FFFFFFF in if raw = 0 then ''aging'' else if raw = 1 then ''young'' else ''unknown'')"

definition entry_ok :: "mac_entry \<Rightarrow> bool" where
  "entry_ok e \<longleftrightarrow> 1 \<le> uint (me_vlan e) \<and> uint (me_vlan e) \<le> 4094 \<and> me_port e \<noteq> 0
     \<and> - 1 \<le> sint (me_lag e) \<and> sint (me_lag e) \<le> 63"

definition mac_row_of :: "64 word \<Rightarrow> mac_entry \<Rightarrow> mac_row" where
  "mac_row_of generation e = \<lparr>mw_vlan = uint (me_vlan e), mw_port = uint (me_port e),
     mw_lag = (if 0 \<le> sint (me_lag e) then Some (''ae'' @ decimal_int (sint (me_lag e))) else None),
     mw_mac = colon_separated (map hex_octet (pack_be 6 (me_mac e))),
     mw_age_raw = uint (me_age e AND 0x7FFFFFFF), mw_age_state = age_state (me_age e), mw_static = bit (me_age e) 31,
     mw_generation = uint generation\<rparr>"

fun read_entries :: "64 word \<Rightarrow> mac_entry list \<Rightarrow> hw_error + mac_row list" where
  "read_entries generation [] = Inr []"
| "read_entries generation (e # es) =
     (if \<not> entry_ok e then Inl (Native ''mac-entry'')
      else ebind (read_entries generation es) (\<lambda>rows. Inr (mac_row_of generation e # rows)))"

definition decode_mac_snapshot :: "octet list \<Rightarrow> hw_error + mac_row list" where
  "decode_mac_snapshot p =
     (if length p < 28 then Inl (Native ''mac-header'')
      else let magic = unpack_be (part 0 4 p) :: 32 word; version = unpack_be (part 4 2 p) :: 16 word;
               size = unpack_be (part 6 2 p) :: 16 word; generation = unpack_be (part 8 8 p) :: 64 word;
               total = unpack_be (part 16 4 p) :: 32 word; count = unpack_be (part 20 4 p) :: 32 word;
               flags = unpack_be (part 24 4 p) :: 32 word
        in if magic \<noteq> MAC_MAGIC \<or> version \<noteq> 1 \<or> size \<noteq> 15 \<or> flags \<noteq> 1 \<or> total \<noteq> count \<or> unat count > 16384
             \<or> length p \<noteq> 28 + unat count * 15
           then Inl (Native ''mac-protocol'')
           else read_entries generation (iter_entries (drop 28 p)))"

subsection \<open>Exactness\<close>

text \<open>What \<^verbatim>\<open>struct.pack\<close> writes for a complete snapshot.\<close>

definition encode_entry :: "mac_entry \<Rightarrow> octet list" where
  "encode_entry e = pack_be 2 (me_vlan e) @ pack_be 2 (me_port e) @ pack_be 1 (me_lag e) @ pack_be 6 (me_mac e) @ pack_be 4 (me_age e)"

definition encode_mac_snapshot :: "64 word \<Rightarrow> mac_entry list \<Rightarrow> octet list" where
  "encode_mac_snapshot generation es = pack_be 4 MAC_MAGIC @ pack_be 2 (1 :: 16 word) @ pack_be 2 (15 :: 16 word)
     @ pack_be 8 generation @ pack_be 4 (of_nat (length es) :: 32 word) @ pack_be 4 (of_nat (length es) :: 32 word)
     @ pack_be 4 (1 :: 32 word) @ concat (map encode_entry es)"

lemma length_encode_entry [simp]: "length (encode_entry e) = 15"
  by (simp add: encode_entry_def)

lemma length_encode_entries [simp]: "length (concat (map encode_entry es)) = length es * 15"
  by (induction es) simp_all

lemma entry_of_encode: "entry_of (encode_entry e) = e"
  by (simp add: entry_of_def encode_entry_def part_def unpack_pack_be)

lemma take_parts: "i \<le> length p \<Longrightarrow> take i p @ part i n p = take (i + n) p"
  by (simp add: part_def take_add)

lemma pack_part: "i + n \<le> length q \<Longrightarrow> 8 * n \<le> LENGTH('a::len) \<Longrightarrow> pack_be n (unpack_be (part i n q) :: 'a word) = part i n q"
  using pack_unpack_be [of "part i n q"] by (simp add: part_def)

lemma encode_entry_of:
  assumes "length q = 15"
  shows "encode_entry (entry_of q) = q"
proof -
  have "q = part 0 2 q @ part 2 2 q @ part 4 1 q @ part 5 6 q @ part 11 4 q"
    using assms take_parts [of 2 q 2] take_parts [of 4 q 1] take_parts [of 5 q 6] take_parts [of 11 q 4]
    by (simp add: part_def [of 0] flip: append_assoc)
  then show ?thesis using assms by (simp add: encode_entry_def entry_of_def pack_part del: pack_be.simps)
qed

lemma iter_encode: "iter_entries (concat (map encode_entry es)) = es"
  by (induction es) (simp_all add: iter_entries.simps [of "[]"] iter_entries.simps [of "_ @ _"] entry_of_encode)

lemma encode_iter: "length p = n * 15 \<Longrightarrow> concat (map encode_entry (iter_entries p)) = p \<and> length (iter_entries p) = n"
proof (induction n arbitrary: p)
  case 0
  then show ?case by (simp add: iter_entries.simps [of "[]"])
next
  case (Suc n)
  then have "iter_entries p = entry_of (take 15 p) # iter_entries (drop 15 p)" by (subst iter_entries.simps) simp
  with Suc show ?case by (simp add: encode_entry_of)
qed

lemma read_entries_Inr: "read_entries g es = Inr rows \<longleftrightarrow> list_all entry_ok es \<and> rows = map (mac_row_of g) es"
  by (induction es arbitrary: rows) (auto simp: ebind_eq_Inr)

end
