(* ===== verification/Host_Sensors.thy ===== *)
theory Host_Sensors
  imports Documents
begin

text \<open>
  host_sensors.py: the CPU temperature from Linux sysfs. A directory of sysfs is what reading its files
  gives: \<open>None\<close> is an \<^verbatim>\<open>OSError\<close>. Directories and files stand in the sorted order in which the code visits
  them; a temperature is exact (\<^verbatim>\<open>int / 1000\<close>).
\<close>

datatype label_file = NoLabel | LabelFile "string option"

record temperature_file =
  tf_path :: string
  tf_label :: label_file
  tf_value :: "string option"

record sysfs =
  sy_hwmon :: "(string option \<times> temperature_file list) list"
  sy_thermal :: "(string option \<times> temperature_file) list"

datatype cpu_source = Coretemp string | ThermalZone string

record cpu_reading =
  cp_celsius :: rat
  cp_source :: cpu_source
  cp_path :: string
  cp_sampled_at :: int

text \<open>\<open>None\<close>: no reading was ever possible; the flag says the reading is a new one.\<close>

type_synonym cpu_result = "(bool \<times> cpu_reading) option"

definition THERMAL_TYPES :: "string list" where
  "THERMAL_TYPES = [''x86_pkg_temp'', ''coretemp'', ''soc_dts0'', ''soc_dts1'', ''intel_soc_dts_thermal'']"

definition lower_char :: "char \<Rightarrow> char" where
  "lower_char c = (let n = (of_char c :: nat) in if 65 \<le> n \<and> n \<le> 90 then char_of (n + 32) else c)"

definition starts_with :: "string \<Rightarrow> string \<Rightarrow> bool" where
  "starts_with prefix s \<longleftrightarrow> take (length prefix) s = prefix"

definition cpu_value :: "string option \<Rightarrow> rat option" where
  "cpu_value text = (case text of None \<Rightarrow> None | Some t \<Rightarrow> (case py_int t of None \<Rightarrow> None
     | Some n \<Rightarrow> let v = of_int n / 1000 in if - 20 \<le> v \<and> v \<le> 125 then Some v else None))"

definition label_of :: "label_file \<Rightarrow> string option" where
  "label_of l = (case l of NoLabel \<Rightarrow> Some [] | LabelFile t \<Rightarrow> map_option py_strip t)"

text \<open>Rank, value, source and path of a candidate.\<close>

definition core_candidate :: "temperature_file \<Rightarrow> (nat \<times> rat \<times> cpu_source \<times> string) list" where
  "core_candidate f = (case label_of (tf_label f) of None \<Rightarrow> [] | Some label \<Rightarrow>
     let l = map lower_char label; package = starts_with ''package id'' l in
     if \<not> package \<and> \<not> starts_with ''core '' l then []
     else (case cpu_value (tf_value f) of None \<Rightarrow> []
       | Some v \<Rightarrow> [(if package then 0 else 1, v, Coretemp label, tf_path f)]))"

definition hwmon_candidates :: "sysfs \<Rightarrow> (nat \<times> rat \<times> cpu_source \<times> string) list" where
  "hwmon_candidates s = concat (map (\<lambda>(name, files).
     if map_option py_strip name = Some ''coretemp'' then concat (map core_candidate files) else []) (sy_hwmon s))"

definition thermal_candidate :: "string option \<Rightarrow> temperature_file \<Rightarrow> (nat \<times> rat \<times> cpu_source \<times> string) list" where
  "thermal_candidate name f = (case map_option py_strip name of None \<Rightarrow> [] | Some kind \<Rightarrow>
     if kind \<notin> set THERMAL_TYPES then []
     else (case cpu_value (tf_value f) of None \<Rightarrow> [] | Some v \<Rightarrow> [(2, v, ThermalZone kind, tf_path f)]))"

definition thermal_candidates :: "sysfs \<Rightarrow> (nat \<times> rat \<times> cpu_source \<times> string) list" where
  "thermal_candidates s = concat (map (\<lambda>(name, f). thermal_candidate name f) (sy_thermal s))"

text \<open>\<^verbatim>\<open>max(..., key=value)\<close>: the first of the greatest.\<close>

fun hottest :: "(nat \<times> rat \<times> cpu_source \<times> string) list \<Rightarrow> (nat \<times> rat \<times> cpu_source \<times> string) option" where
  "hottest [] = None"
| "hottest (c # cs) = (case hottest cs of None \<Rightarrow> Some c
     | Some d \<Rightarrow> if fst (snd d) \<le> fst (snd c) then Some c else Some d)"

definition best_candidate :: "(nat \<times> rat \<times> cpu_source \<times> string) list \<Rightarrow> (nat \<times> rat \<times> cpu_source \<times> string) option" where
  "best_candidate cs = (let rank = Min (set (map fst cs)) in hottest (filter (\<lambda>c. fst c = rank) cs))"

definition cpu_sample :: "sysfs \<Rightarrow> int \<Rightarrow> cpu_reading option \<Rightarrow> cpu_result \<times> cpu_reading option" where
  "cpu_sample s now previous =
     (let core = hwmon_candidates s; cs = (if core = [] then thermal_candidates s else core) in
      case (if cs = [] then None else best_candidate cs) of
        Some (_, v, source, path) \<Rightarrow> let r = \<lparr>cp_celsius = v, cp_source = source, cp_path = path, cp_sampled_at = now\<rparr>
          in (Some (True, r), Some r)
      | None \<Rightarrow> (map_option (\<lambda>r. (False, r)) previous, previous))"

text \<open>A new value is one that some file of the accepted kinds shows, inside the sensor's range.\<close>

lemma hottest_mem: "hottest cs = Some c \<Longrightarrow> c \<in> set cs"
  by (induction cs arbitrary: c) (auto split: option.splits if_splits)

lemma cpu_value_range: "cpu_value t = Some v \<Longrightarrow> - 20 \<le> v \<and> v \<le> 125"
  by (auto simp: cpu_value_def Let_def split: option.splits if_splits)

lemma candidate_range: "(k, v, source, path) \<in> set (core_candidate f) \<Longrightarrow> - 20 \<le> v \<and> v \<le> 125"
  "(k, v, source, path) \<in> set (thermal_candidate name f) \<Longrightarrow> - 20 \<le> v \<and> v \<le> 125"
  by (cases "cpu_value (tf_value f)"; auto simp: core_candidate_def thermal_candidate_def Let_def
      dest: cpu_value_range split: option.splits if_splits)+

lemma cpu_sample_new:
  assumes "cpu_sample s now previous = (Some (True, r), l)"
  shows "- 20 \<le> cp_celsius r \<and> cp_celsius r \<le> 125 \<and> cp_sampled_at r = now \<and> l = Some r"
proof -
  from assms obtain k v source path cs where c: "best_candidate cs = Some (k, v, source, path)"
      and cs: "cs = hwmon_candidates s \<or> cs = thermal_candidates s"
      and r: "r = \<lparr>cp_celsius = v, cp_source = source, cp_path = path, cp_sampled_at = now\<rparr>" "l = Some r"
    by (auto simp: cpu_sample_def Let_def split: option.splits prod.splits if_splits)
  from c hottest_mem have "(k, v, source, path) \<in> set cs" by (fastforce simp: best_candidate_def Let_def)
  with cs have "- 20 \<le> v \<and> v \<le> 125"
    by (auto simp: hwmon_candidates_def thermal_candidates_def dest: candidate_range split: if_splits prod.splits)
  with r show ?thesis by simp
qed

end
