(* ===== verification/Netlab_Backend.thy ===== *)
theory Netlab_Backend
  imports Netlab_Wire Netlab_Codec Roce_Monitor Host_Sensors Panel
begin

text \<open>
  netlab.py: the panel's backend over the authenticated IPC of the native services. The far side is a
  parameter: a request may be answered, or its answer lost, whether or not the service acted on it.
  The text formats of XML and JSON, pydantic's dump and loader and UTF-8 are parameters as in the codec.
  An \<^verbatim>\<open>HardwareError\<close> is \<open>Native\<close> with a name for its message.
\<close>

subsection \<open>The connection\<close>

datatype reply = Lost | Reply int int "int list"

record 't link =
  ln_connect :: "'t \<Rightarrow> bool \<times> 't"
  ln_send :: "int \<Rightarrow> int \<Rightarrow> int list \<Rightarrow> int \<Rightarrow> 't \<Rightarrow> reply \<times> 't"
  ln_close :: "'t \<Rightarrow> 't"
  ln_monotonic :: "'t \<Rightarrow> int"
  ln_sysfs :: "'t \<Rightarrow> sysfs"

record formats =
  fm_xml :: "int list \<Rightarrow> xml option"
  fm_text :: "xml \<Rightarrow> int list"
  fm_load :: "text_points \<Rightarrow> switch_configuration option"
  fm_dump :: "switch_configuration \<Rightarrow> text_points"
  fm_json :: "int list \<Rightarrow> json option"
  fm_utf8 :: "int list \<Rightarrow> text_points option"

record 't netlab =
  nl_remote :: 't
  nl_configuration :: "switch_configuration option"
  nl_contract :: "(string \<times> string) list"
  nl_board_sample :: "json option"
  nl_cpu :: "cpu_reading option"
  nl_monitor :: stall_monitor

type_synonym ('t, 'a) netlab_action = "('t netlab, hw_error, 'a) action"

definition new_netlab :: "'t \<Rightarrow> 't netlab" where
  "new_netlab t = \<lparr>nl_remote = t, nl_configuration = None, nl_contract = [], nl_board_sample = None, nl_cpu = None,
     nl_monitor = new_monitor\<rparr>"

definition CONFIGD :: int where "CONFIGD = 2"
definition SWITCHD :: int where "SWITCHD = 7"
definition SNAPSHOT :: int where "SNAPSHOT = 19"
definition VALIDATE :: int where "VALIDATE = 20"
definition APPLY :: int where "APPLY = 21"
definition CONFIRM :: int where "CONFIRM = 22"
definition ROLLBACK :: int where "ROLLBACK = 23"
definition RECOVER :: int where "RECOVER = 24"
definition BOARD_TELEMETRY :: int where "BOARD_TELEMETRY = 132"
definition FAN_MANUAL :: int where "FAN_MANUAL = 133"

definition native_error :: "string \<Rightarrow> ('t, 'a) netlab_action" where
  "native_error name = raise_error (hw_error.Native name)"

text \<open>
  Every request opens a session of its own and closes it afterwards; nothing is sent twice.
\<close>

definition rpc :: "'t link \<Rightarrow> int \<Rightarrow> int \<Rightarrow> int list \<Rightarrow> int \<Rightarrow> ('t, int list) netlab_action" where
  "rpc lk service meth payload timeout = (\<lambda>s.
     case ln_connect lk (nl_remote s) of
       (False, t) \<Rightarrow> (Inl (hw_error.Native ''connect''), s\<lparr>nl_remote := t\<rparr>)
     | (True, t) \<Rightarrow> (case ln_send lk service meth payload timeout t of
           (Lost, u) \<Rightarrow> (Inl (hw_error.Native ''connection''), s\<lparr>nl_remote := ln_close lk u\<rparr>)
         | (Reply code n data, u) \<Rightarrow>
             (if code \<noteq> 0 \<or> n \<noteq> int (length data) then Inl (hw_error.Native ''operation'') else Inr data,
              s\<lparr>nl_remote := ln_close lk u\<rparr>)))"

fun codec_fault :: "codec_error \<Rightarrow> hw_error" where
  "codec_fault (CodecInvalid _) = PyValueError"
| "codec_fault CodecTooLarge = hw_error.Native ''configuration-size''"
| "codec_fault CodecXmlRejected = hw_error.Native ''xml-rejected''"
| "codec_fault CodecXmlInvalid = hw_error.Native ''xml-invalid''"
| "codec_fault CodecRoot = hw_error.Native ''configuration-root''"
| "codec_fault CodecNoIntent = hw_error.Native ''intent-missing''"
| "codec_fault CodecIntentInvalid = hw_error.Native ''intent-invalid''"

definition of_codec :: "codec_error + 'a \<Rightarrow> ('t, 'a) netlab_action" where
  "of_codec r = (case r of Inl e \<Rightarrow> raise_error (codec_fault e) | Inr a \<Rightarrow> ret a)"

definition rpc_xml :: "'t link \<Rightarrow> formats \<Rightarrow> int \<Rightarrow> int \<Rightarrow> int list \<Rightarrow> int \<Rightarrow> ('t, xml) netlab_action" where
  "rpc_xml lk fm service meth payload timeout =
     bind_action (rpc lk service meth payload timeout) (\<lambda>data. of_codec (parse_xml (fm_xml fm) data))"

definition rpc_json :: "'t link \<Rightarrow> formats \<Rightarrow> int \<Rightarrow> int \<Rightarrow> int list \<Rightarrow> int \<Rightarrow> hw_error \<Rightarrow> ('t, json) netlab_action" where
  "rpc_json lk fm service meth payload timeout invalid =
     bind_action (rpc lk service meth payload timeout) (\<lambda>data.
       case fm_json fm data of None \<Rightarrow> raise_error invalid | Some v \<Rightarrow> ret v)"

subsection \<open>Snapshot\<close>

record native_pending =
  np_job :: "string option"
  np_deadline :: int
  np_remaining :: "int option"

record native_state =
  ns_revision :: int
  ns_configuration :: switch_configuration
  ns_pending :: "native_pending option"
  ns_transaction_revision :: int
  ns_transaction_state :: string
  ns_synchronized :: bool
  ns_ready :: bool
  ns_integration :: string

definition python_int :: "string \<Rightarrow> ('t, int) netlab_action" where
  "python_int text = (case py_int text of None \<Rightarrow> raise_error PyValueError | Some n \<Rightarrow> ret n)"

text \<open>\<^verbatim>\<open>node.attrib[name]\<close>\<close>

definition required :: "xml \<Rightarrow> string \<Rightarrow> ('t, string) netlab_action" where
  "required node name = (case attribute node name of None \<Rightarrow> raise_error PyLookup | Some v \<Rightarrow> ret v)"

definition read_pending :: "xml \<Rightarrow> ('t, native_pending option) netlab_action" where
  "read_pending doc =
     (if attribute doc ''pending'' \<noteq> Some ''true'' then ret None
      else bind_action (python_int (attribute_or doc ''deadline'' ''0'')) (\<lambda>deadline.
        case attribute doc ''remaining-seconds'' of
          None \<Rightarrow> ret (Some \<lparr>np_job = attribute doc ''job-id'', np_deadline = deadline, np_remaining = None\<rparr>)
        | Some text \<Rightarrow> (case py_int text of
            None \<Rightarrow> native_error ''countdown''
          | Some remaining \<Rightarrow> if remaining < 0 then native_error ''countdown''
              else ret (Some \<lparr>np_job = attribute doc ''job-id'', np_deadline = deadline, np_remaining = Some remaining\<rparr>))))"

definition read_snapshot :: "xml \<Rightarrow> switch_configuration \<Rightarrow> ('t, native_state) netlab_action" where
  "read_snapshot doc c =
     bind_action (read_pending doc) (\<lambda>pending.
     bind_action (bind_action (required doc ''revision'') python_int) (\<lambda>revision.
     bind_action (python_int (attribute_or doc ''transaction-revision'' ''0'')) (\<lambda>transaction.
       let synchronized = attribute doc ''synchronized'' = Some ''true'' in
       ret \<lparr>ns_revision = revision, ns_configuration = c, ns_pending = pending, ns_transaction_revision = transaction,
         ns_transaction_state = attribute_or doc ''transaction-state'' ''unknown'', ns_synchronized = synchronized,
         ns_ready = (attribute doc ''board-hal'' = Some ''bound'' \<and> synchronized),
         ns_integration = attribute_or doc ''board-hal'' ''unbound''\<rparr>)))"

definition native_snapshot :: "'t link \<Rightarrow> formats \<Rightarrow> ('t, native_state) netlab_action" where
  "native_snapshot lk fm =
     bind_action (rpc_xml lk fm CONFIGD SNAPSHOT [] 30000) (\<lambda>doc.
       if xml_tag doc \<noteq> ''fm10k-panel-state'' \<or> attribute doc ''api'' \<noteq> Some ''1'' then native_error ''incompatible''
       else case find_first [''netlab-config''] doc of
         None \<Rightarrow> native_error ''no-configuration''
       | Some node \<Rightarrow> bind_action (of_codec (decode_configuration (fm_xml fm) (fm_load fm) (fm_text fm node))) (\<lambda>c.
           then_action (modify_state (\<lambda>s. s\<lparr>nl_configuration := Some c, nl_contract := xml_attributes doc\<rparr>))
             (read_snapshot doc c)))"

subsection \<open>Transactions\<close>

definition line :: "string \<Rightarrow> int list" where
  "line text = ascii text @ [10]"

definition envelope :: "formats \<Rightarrow> switch_configuration \<Rightarrow> int \<Rightarrow> string \<Rightarrow> int \<Rightarrow> ('t, int list) netlab_action" where
  "envelope fm c expected job timeout =
     bind_action (of_codec (compile_configuration (fm_text fm) (fm_dump fm) job c)) (\<lambda>document.
       ret (line (decimal_int expected) @ line job @ line (decimal_int timeout) @ document))"

definition native_validate :: "'t link \<Rightarrow> formats \<Rightarrow> switch_configuration \<Rightarrow> ('t, unit) netlab_action" where
  "native_validate lk fm c =
     bind_action (native_snapshot lk fm) (\<lambda>current.
       if \<not> ns_ready current then native_error ''hal-unbound''
       else then_action
         (if ro_enabled (qo_roce (sc_qos c))
          then bind_action (rpc_xml lk fm SWITCHD 68 (ascii ''flow-control'') 30000) (\<lambda>doc.
            case find_first [''flow-control''] doc of
              None \<Rightarrow> native_error ''buffer''
            | Some flow \<Rightarrow> if attribute flow ''roce-buffer-status'' \<noteq> Some ''0'' then native_error ''buffer'' else ret ())
          else ret ())
         (bind_action (envelope fm c (ns_revision current) (replicate 32 (CHR ''0'')) 60) (\<lambda>payload.
           then_action (rpc lk CONFIGD VALIDATE payload 30000) (ret ()))))"

text \<open>Equality of the dumped configurations: the dict of ports compares in any order.\<close>

definition same_configuration :: "switch_configuration \<Rightarrow> switch_configuration \<Rightarrow> bool" where
  "same_configuration a b \<longleftrightarrow> a\<lparr>sc_ports := []\<rparr> = b\<lparr>sc_ports := []\<rparr> \<and> set (sc_ports a) = set (sc_ports b)"

definition native_job :: "native_state \<Rightarrow> string option" where
  "native_job s = (case ns_pending s of None \<Rightarrow> None | Some p \<Rightarrow> np_job p)"

definition shows_commit :: "native_state \<Rightarrow> switch_configuration \<Rightarrow> string \<Rightarrow> bool" where
  "shows_commit s c job \<longleftrightarrow> native_job s = Some job \<and> same_configuration (ns_configuration s) c \<and> ns_ready s"

text \<open>\<^verbatim>\<open>except HardwareError\<close>\<close>

definition catch_hardware :: "('t, 'a) netlab_action \<Rightarrow> (hw_error \<Rightarrow> ('t, 'a) netlab_action) \<Rightarrow> ('t, 'a) netlab_action" where
  "catch_hardware body handler = catch_action body (\<lambda>e. if is_hardware_error e then handler e else raise_error e)"

text \<open>
  The reply to an apply can be lost after the commit: the outcome is then read, never the request
  repeated.
\<close>

definition native_apply ::
  "'t link \<Rightarrow> formats \<Rightarrow> switch_configuration \<Rightarrow> int \<Rightarrow> string \<Rightarrow> int \<Rightarrow> ('t, native_state) netlab_action" where
  "native_apply lk fm c expected job timeout =
     bind_action (catch_hardware
       (bind_action (envelope fm c expected job timeout) (\<lambda>payload.
         then_action (rpc lk CONFIGD APPLY payload 120000) (ret None)))
       (\<lambda>e. bind_action (catch_hardware (native_snapshot lk fm) (\<lambda>_. native_error ''apply-and-check''))
         (\<lambda>state. if \<not> shows_commit state c job then raise_error e else ret (Some state))))
     (\<lambda>recovered. case recovered of
        Some state \<Rightarrow> ret state
      | None \<Rightarrow> bind_action (native_snapshot lk fm) (\<lambda>state.
          if \<not> shows_commit state c job then native_error ''apply-mismatch'' else ret state))"

definition outcome_name :: "int \<Rightarrow> string" where
  "outcome_name meth = (if meth = CONFIRM then ''confirmed'' else ''rolled_back'')"

definition native_finish :: "'t link \<Rightarrow> formats \<Rightarrow> string \<Rightarrow> int \<Rightarrow> ('t, native_state) netlab_action" where
  "native_finish lk fm job meth =
     bind_action (native_snapshot lk fm) (\<lambda>before.
       if native_job before \<noteq> Some job then native_error ''not-pending''
       else bind_action (catch_hardware (then_action (rpc lk CONFIGD meth (ascii job) 120000) (ret None)) (\<lambda>e. ret (Some e)))
         (\<lambda>failed. bind_action (native_snapshot lk fm) (\<lambda>state.
           if ns_synchronized state \<and> ns_pending state = None \<and> ns_transaction_revision state = ns_revision before
              \<and> ns_transaction_state state = outcome_name meth
           then ret state
           else (case failed of Some e \<Rightarrow> raise_error e | None \<Rightarrow> native_error ''no-outcome''))))"

definition contract_is :: "'t netlab \<Rightarrow> string \<Rightarrow> string \<Rightarrow> bool" where
  "contract_is s name v \<longleftrightarrow> map_of (nl_contract s) name = Some v"

definition native_recover :: "'t link \<Rightarrow> formats \<Rightarrow> ('t, native_state) netlab_action" where
  "native_recover lk fm =
     bind_action (native_snapshot lk fm) (\<lambda>before. with_state (\<lambda>s.
       if \<not> contract_is s ''startup-mode'' ''control'' \<or> \<not> contract_is s ''recovery'' ''active-replay-v1''
       then native_error ''recovery-unsupported''
       else then_action (rpc lk CONFIGD RECOVER (ascii (decimal_int (ns_revision before))) 120000)
         (bind_action (native_snapshot lk fm) (\<lambda>state.
           if \<not> ns_ready state then native_error ''still-locked'' else ret state))))"

subsection \<open>Ports\<close>

record native_port =
  nq_id :: int
  nq_epl :: int
  nq_mpo :: int
  nq_lane :: int
  nq_active :: bool
  nq_name :: text_points
  nq_enabled :: bool
  nq_speed :: "int option"
  nq_scheduler_speed :: "rat option"
  nq_mode :: string
  nq_link :: string
  nq_generation :: "string option"
  nq_state_valid :: bool
  nq_counters_valid :: bool
  nq_counters :: "(string \<times> int option) list"

definition PORT_COUNTERS :: "(string \<times> string) list" where
  "PORT_COUNTERS = [(''rx_bytes'', ''rx-bytes''), (''tx_bytes'', ''tx-bytes''), (''rx_packets'', ''rx-packets''),
     (''tx_packets'', ''tx-packets''), (''rx_errors'', ''rx-errors''), (''tx_errors'', ''tx-errors''),
     (''rx_drops'', ''rx-drops''), (''tx_drops'', ''tx-drops''), (''crc_errors'', ''rx-fcs-errors'')]"

text \<open>The rate in front of \<^verbatim>\<open>GBase-\<close>, in any case.\<close>

definition line_rate :: "string \<Rightarrow> int option" where
  "line_rate mode = (case find (\<lambda>r. starts_with (decimal_int r @ ''gbase-'') (map lower_char mode)) [10, 25, 40, 100] of
     Some r \<Rightarrow> Some r
   | None \<Rightarrow> if mode = ''DISABLED'' then Some 0 else None)"

fun collect :: "('a \<Rightarrow> ('t, 'b) netlab_action) \<Rightarrow> 'a list \<Rightarrow> ('t, 'b list) netlab_action" where
  "collect f [] = ret []"
| "collect f (x # xs) = bind_action (f x) (\<lambda>y. bind_action (collect f xs) (\<lambda>ys. ret (y # ys)))"

definition read_counter :: "xml \<Rightarrow> bool \<Rightarrow> string \<times> string \<Rightarrow> ('t, string \<times> int option) netlab_action" where
  "read_counter node valid = (\<lambda>(target, source). case attribute node source of
     Some text \<Rightarrow> if valid then bind_action (python_int text) (\<lambda>n. ret (target, Some n)) else ret (target, None)
   | None \<Rightarrow> ret (target, None))"

definition read_port :: "switch_configuration \<Rightarrow> xml \<Rightarrow> port_group \<Rightarrow> int \<Rightarrow> xml \<Rightarrow> ('t, native_port) netlab_action" where
  "read_port c doc g lane node =
     (let physical = physical_of (pg_epl g); n = ph_base physical + lane;
          state_valid = attribute node ''state-status'' = Some ''0'';
          counters_valid = attribute node ''counter-status'' = Some ''0'' \<and> attribute doc ''counters'' = Some ''true'';
          mode = attribute_or node ''ethernet-mode'' [] in
      bind_action (if state_valid then bind_action (python_int (attribute_or node ''speed'' ''0'')) (\<lambda>v. ret (Some (of_int v / 1000)))
                   else ret None) (\<lambda>scheduler.
      bind_action (collect (read_counter node counters_valid) PORT_COUNTERS) (\<lambda>counters.
        ret \<lparr>nq_id = n, nq_epl = pg_epl g, nq_mpo = ph_mpo physical, nq_lane = lane,
          nq_active = (n \<in> set (group_active_ports g)), nq_name = pc_name (port_of c n),
          nq_enabled = (attribute node ''admin'' \<in> {Some ''up'', Some ''enabled'', Some ''1''}),
          nq_speed = (if state_valid then line_rate mode else None), nq_scheduler_speed = scheduler, nq_mode = mode,
          nq_link = (if state_valid then attribute_or node ''link'' ''unknown'' else ''unknown''),
          nq_generation = attribute doc ''generation'', nq_state_valid = state_valid, nq_counters_valid = counters_valid,
          nq_counters = counters\<rparr>)))"

definition indexed_port :: "xml \<Rightarrow> ('t, int \<times> xml) netlab_action" where
  "indexed_port p = bind_action (bind_action (required p ''id'') python_int) (\<lambda>n. ret (n, p))"

definition active_configuration :: "'t link \<Rightarrow> formats \<Rightarrow> ('t, switch_configuration) netlab_action" where
  "active_configuration lk fm = with_state (\<lambda>s. case nl_configuration s of
     Some c \<Rightarrow> ret c
   | None \<Rightarrow> bind_action (native_snapshot lk fm) (\<lambda>v. ret (ns_configuration v)))"

definition native_ports :: "'t link \<Rightarrow> formats \<Rightarrow> ('t, native_port list) netlab_action" where
  "native_ports lk fm =
     bind_action (rpc_xml lk fm SWITCHD 120 (ascii ''counters=1'') 10000) (\<lambda>doc.
       if xml_tag doc \<noteq> ''port-snapshot'' then native_error ''port-snapshot''
       else bind_action (active_configuration lk fm) (\<lambda>c.
         bind_action (collect indexed_port (children_named ''port'' doc)) (\<lambda>nodes.
         collect (\<lambda>(g, lane). case py_dict nodes (base_of (pg_epl g) + lane) of
             None \<Rightarrow> native_error ''slot-missing''
           | Some node \<Rightarrow> read_port c doc g lane node)
           (concat (map (\<lambda>g. map (\<lambda>lane. (g, lane)) [0, 1, 2, 3]) (sc_groups c))))))"

subsection \<open>Sensors and optics\<close>

definition cpu_source_text :: "cpu_source \<Rightarrow> text_points" where
  "cpu_source_text c = (case c of Coretemp name \<Rightarrow> ascii ''Linux coretemp '' @ [183] @ ascii ('' '' @ name)
     | ThermalZone kind \<Rightarrow> ascii ''Linux thermal '' @ [183] @ ascii ('' '' @ kind))"

text \<open>The entry of \<^verbatim>\<open>atom_cpu\<close>; the sentence that explains a missing reading is left out.\<close>

definition cpu_entry :: "cpu_result \<Rightarrow> json" where
  "cpu_entry v = (case v of
     None \<Rightarrow> JObj [(''id'', jstr ''atom_cpu''), (''label'', jstr ''Intel Atom CPU''), (''celsius'', JNull),
       (''source'', jstr ''Linux CPU DTS''), (''sampled_at'', JNull), (''quality'', jstr ''unavailable'')]
   | Some (fresh, r) \<Rightarrow> JObj [(''id'', jstr ''atom_cpu''), (''label'', jstr ''Intel Atom CPU''),
       (''celsius'', JFloat (cp_celsius r)), (''source'', JStr (cpu_source_text (cp_source r))),
       (''sampled_at'', JFloat (of_int (cp_sampled_at r) / 1000)),
       (''quality'', jstr (if fresh then ''valid'' else ''stale'')), (''sensor_path'', jstr (cp_path r))])"

definition host_temperature :: "'t link \<Rightarrow> int \<Rightarrow> ('t, json) netlab_action" where
  "host_temperature lk now = (\<lambda>s. case cpu_sample (ln_sysfs lk (nl_remote s)) now (nl_cpu s) of
     (v, l) \<Rightarrow> (Inr (cpu_entry v), s\<lparr>nl_cpu := l\<rparr>))"

text \<open>\<^verbatim>\<open>value[name]\<close> and iteration over a value, with the exceptions of other types.\<close>

definition item :: "json \<Rightarrow> string \<Rightarrow> ('t, json) netlab_action" where
  "item v name = (if \<not> is_object v then raise_error PyTypeError
     else case map_of (entries v) name of None \<Rightarrow> raise_error PyLookup | Some x \<Rightarrow> ret x)"

definition iterate :: "json \<Rightarrow> ('t, json list) netlab_action" where
  "iterate v = (if is_list v then ret (elements v) else if v = JObj [] \<or> v = JStr [] then ret [] else raise_error PyTypeError)"

definition temperatures_of :: "json \<Rightarrow> json" where
  "temperatures_of v = (case map_of (entries v) ''temperatures'' of None \<Rightarrow> JList [] | Some x \<Rightarrow> x)"

definition native_sensors :: "'t link \<Rightarrow> formats \<Rightarrow> int \<Rightarrow> ('t, json) netlab_action" where
  "native_sensors lk fm now =
     bind_action (active_configuration lk fm) (\<lambda>c.
     bind_action (rpc_json lk fm SWITCHD BOARD_TELEMETRY [] 30000 (hw_error.Native ''telemetry'')) (\<lambda>board_doc.
       if \<not> is_object board_doc then raise_error PyTypeError
       else if \<not> py_eq (jget board_doc ''api'') (JInt 1) \<or> jget board_doc ''profile'' \<noteq> jstr (profile_name (sc_profile c))
       then native_error ''telemetry-mismatch''
       else then_action (modify_state (\<lambda>s. s\<lparr>nl_board_sample := Some board_doc\<rparr>))
         (bind_action (item board_doc ''sensors'') (\<lambda>sensors.
           if \<not> is_object sensors then raise_error PyTypeError
           else bind_action (iterate (temperatures_of sensors)) (\<lambda>rows.
             if \<not> list_all is_object rows then raise_error PyTypeError
             else bind_action (host_temperature lk now) (\<lambda>cpu.
               let kept = filter (\<lambda>r. jget r ''id'' \<noteq> jstr ''atom_cpu'') rows;
                   full = JObj (dict_set (entries sensors) ''temperatures'' (JList (kept @ [cpu])))
               in then_action (modify_state (\<lambda>s. s\<lparr>nl_board_sample := Some (JObj (dict_set (entries board_doc) ''sensors'' full))\<rparr>))
                 (ret full)))))))"

definition native_optics :: "'t link \<Rightarrow> formats \<Rightarrow> int \<Rightarrow> ('t, json) netlab_action" where
  "native_optics lk fm now =
     then_action (with_state (\<lambda>s. if nl_board_sample s = None then then_action (native_sensors lk fm now) (ret ()) else ret ()))
       (with_state (\<lambda>s. case nl_board_sample s of None \<Rightarrow> raise_error PyTypeError | Some board_doc \<Rightarrow> item board_doc ''optics''))"

definition native_diagnostics :: "'t link \<Rightarrow> formats \<Rightarrow> int \<Rightarrow> port_group \<Rightarrow> ('t, phy_error + phy_reading) netlab_action" where
  "native_diagnostics lk fm now g =
     (if pg_mode g = Split
      then ret (Inr \<lparr>ph_quality = PhyUnsupported, ph_sampled_at = None, ph_pcs = None, ph_lanes = [], ph_errors = []\<rparr>)
      else bind_action (rpc_xml lk fm SWITCHD 120 (ascii (''phy-port='' @ decimal_int (base_of (pg_epl g)))) 6000) (\<lambda>doc.
        with_state (\<lambda>s. ret (decode_phy doc g (of_int now / 1000) (of_int (ln_monotonic lk (nl_remote s)))))))"

subsection \<open>Eye scans and the fan\<close>

definition scan_chunk :: "'t link \<Rightarrow> formats \<Rightarrow> int \<Rightarrow> int list \<Rightarrow> ('t, json) netlab_action" where
  "scan_chunk lk fm meth command =
     bind_action (rpc_json lk fm SWITCHD meth command 6000 PyValueError) (\<lambda>v.
       case validate_chunk v of Inl UnhashableValue \<Rightarrow> raise_error PyTypeError | Inl _ \<Rightarrow> native_error ''scan'' | Inr chunk \<Rightarrow> ret chunk)"

definition words_of :: "string list \<Rightarrow> int list" where
  "words_of ws = concat (map (\<lambda>w. 32 # ascii w) ws)"

definition native_eye_start :: "'t link \<Rightarrow> formats \<Rightarrow> int \<Rightarrow> eye_request \<Rightarrow> ('t, json) netlab_action" where
  "native_eye_start lk fm port r = scan_chunk lk fm 137 (ascii ''start '' @ er_request_id r
     @ words_of [decimal_int port, decimal_int (er_lane r), decimal_int (er_x_resolution r), decimal_int (er_y_step r),
         decimal_int (er_dwell_bits r), if er_internal_loopback r then ''internal_loopback'' else ''external''])"

definition native_eye_read :: "'t link \<Rightarrow> formats \<Rightarrow> text_points option \<Rightarrow> int \<Rightarrow> ('t, json) netlab_action" where
  "native_eye_read lk fm ident column =
     (if (case ident of None \<Rightarrow> False | Some t \<Rightarrow> \<not> hex_id t) then native_error ''eye-id''
      else if \<not> (0 \<le> column \<and> column \<le> 129) then native_error ''eye-page''
      else scan_chunk lk fm 136 ((case ident of None \<Rightarrow> ascii ''latest'' | Some t \<Rightarrow> ascii ''get '' @ t)
        @ words_of [decimal_int column]))"

definition native_eye_cancel :: "'t link \<Rightarrow> formats \<Rightarrow> text_points \<Rightarrow> ('t, json) netlab_action" where
  "native_eye_cancel lk fm ident =
     (if \<not> hex_id ident then native_error ''eye-id'' else scan_chunk lk fm 137 (ascii ''cancel '' @ ident))"

definition native_manual :: "'t link \<Rightarrow> formats \<Rightarrow> int \<Rightarrow> int \<Rightarrow> ('t, json) netlab_action" where
  "native_manual lk fm percent seconds =
     rpc_json lk fm SWITCHD FAN_MANUAL (ascii (decimal_int percent) @ words_of [decimal_int seconds]) 30000 PyValueError"

definition native_clear_fdb :: "'t link \<Rightarrow> formats \<Rightarrow> int option \<Rightarrow> int option \<Rightarrow> ('t, json) netlab_action" where
  "native_clear_fdb lk fm port vlan =
     (let parts = (case port of None \<Rightarrow> [] | Some p \<Rightarrow> [''port='' @ decimal_int p])
            @ (case vlan of None \<Rightarrow> [] | Some v \<Rightarrow> [''vid='' @ decimal_int v]) in
      bind_action (rpc lk SWITCHD 53 (drop 1 (words_of parts)) 30000) (\<lambda>data.
        case fm_utf8 fm data of None \<Rightarrow> raise_error PyValueError
        | Some text \<Rightarrow> ret (JObj [(''mode'', jstr ''netlab''), (''native_result'', JStr text)])))"

subsection \<open>RoCE sampling\<close>

definition roce_part :: "'t link \<Rightarrow> formats \<Rightarrow> string \<Rightarrow> ('t, xml) netlab_action" where
  "roce_part lk fm name = rpc_xml lk fm SWITCHD 68 (ascii name) 30000"

definition read_roce_parts :: "'t link \<Rightarrow> formats \<Rightarrow> ('t, roce_parts) netlab_action" where
  "read_roce_parts lk fm =
     bind_action (roce_part lk fm ''flow-control'') (\<lambda>flow.
     bind_action (roce_part lk fm ''forwarding'') (\<lambda>forwarding.
     bind_action (roce_part lk fm ''interfaces'') (\<lambda>ifs.
     bind_action (roce_part lk fm ''dscp-map'') (\<lambda>dscp.
     bind_action (roce_part lk fm ''scheduler'') (\<lambda>scheduler.
     then_action (roce_part lk fm ''queues'')
     (bind_action (roce_part lk fm ''watermarks'') (\<lambda>marks.
     bind_action (rpc_xml lk fm 10 7 [] 30000) (\<lambda>dcbx.
     bind_action (rpc_xml lk fm SWITCHD 120 (ascii ''counters=1'') 10000) (\<lambda>port_doc.
       ret \<lparr>rq_flow_control = flow, rq_watermarks = marks, rq_ports = port_doc, rq_forwarding = forwarding,
         rq_interfaces = ifs, rq_dscp_map = Some dscp, rq_scheduler = Some scheduler, rq_dcbx = Some dcbx\<rparr>)))))))))"

definition settled_state :: "native_state \<Rightarrow> bool" where
  "settled_state v \<longleftrightarrow> ns_pending v = None \<and> ns_synchronized v"

definition read_roce :: "'t link \<Rightarrow> formats \<Rightarrow> int \<Rightarrow> ('t, roce_report \<times> monitor_row list) netlab_action" where
  "read_roce lk fm now =
     bind_action (native_snapshot lk fm) (\<lambda>before.
       if \<not> settled_state before then native_error ''roce-busy''
       else bind_action (read_roce_parts lk fm) (\<lambda>parts.
         bind_action (native_snapshot lk fm) (\<lambda>after.
           if ns_revision before \<noteq> ns_revision after \<or> \<not> settled_state after then native_error ''roce-changed''
           else with_state (\<lambda>s. let mono_ms = ln_monotonic lk (nl_remote s) in
             case decode_operational (ns_configuration after) parts (ns_revision after) (of_int now / 1000) (of_int mono_ms) of
               Inl _ \<Rightarrow> native_error ''roce-diagnostics''
             | Inr report \<Rightarrow> (case observe report mono_ms (nl_monitor s) of
                 (rows, m) \<Rightarrow> then_action (modify_state (\<lambda>s. s\<lparr>nl_monitor := m\<rparr>)) (ret (report, rows)))))))"

definition native_roce :: "'t link \<Rightarrow> formats \<Rightarrow> int \<Rightarrow> ('t, roce_report \<times> monitor_row list) netlab_action" where
  "native_roce lk fm now = catch_hardware (read_roce lk fm now)
     (\<lambda>e. then_action (modify_state (\<lambda>s. s\<lparr>nl_monitor := monitor_gap (nl_monitor s)\<rparr>)) (raise_error e))"

definition native_sample_roce :: "'t link \<Rightarrow> formats \<Rightarrow> int \<Rightarrow> ('t, unit) netlab_action" where
  "native_sample_roce lk fm now = with_state (\<lambda>s. case mo_last_read (nl_monitor s) of
     Some t \<Rightarrow> if ln_monotonic lk (nl_remote s) - t < INTERVAL_MS then ret () else then_action (native_roce lk fm now) (ret ())
   | None \<Rightarrow> then_action (native_roce lk fm now) (ret ()))"

subsection \<open>Protocol reports\<close>

type_synonym attributes = "(string \<times> string) list"

record native_lag =
  lg_name :: "string option"
  lg_state :: "string option"
  lg_mode :: "string option"
  lg_synchronized :: "bool option"
  lg_members :: "attributes list"

datatype igmp_member = MemberAttributes attributes | RouterPort int bool bool bool

record igmp_group =
  gr_ports :: "int list"
  gr_listeners :: "int list"
  gr_pending_listeners :: "int list"
  gr_retiring_listeners :: "int list"
  gr_routers :: "int list"
  gr_pending_routers :: "int list"
  gr_members :: "igmp_member list"

type_synonym igmp_groups = "((int \<times> string) \<times> igmp_group) list"

datatype native_report =
  RoceReport roce_report "monitor_row list" | FdbReport "mac_row list"
| LldpReport "(string \<times> text_points option) list list" | LagReport "native_lag list"
| RstpReport attributes "attributes list" | IgmpReport igmp_groups

definition LLDP_TAGS :: "(string \<times> string) list" where
  "LLDP_TAGS = [(''port'', ''local-interface''), (''system_name'', ''sys-name''), (''chassis_id'', ''chassis-id''),
     (''port_id'', ''port-id''), (''ttl'', ''ttl'')]"

definition lldp_rows :: "xml \<Rightarrow> (string \<times> text_points option) list list" where
  "lldp_rows doc = map (\<lambda>node. map (\<lambda>(key, tag). (key, map_option xml_text (find_first [tag] node))) LLDP_TAGS)
     (descendants ''neighbor'' doc)"

text \<open>A LAG is synchronised on evidence only: every member reports and every selected one agrees.\<close>

definition lag_row :: "xml \<Rightarrow> native_lag" where
  "lag_row node =
     (let members = map xml_attributes (children_named ''member'' node);
          selected = filter (\<lambda>m. map_of m ''selected'' = Some ''true'') members;
          reported = attribute node ''mode'' \<noteq> Some ''static'' \<and> members \<noteq> []
            \<and> list_all (\<lambda>m. map_of m ''sync'' \<noteq> None) members
      in \<lparr>lg_name = attribute node ''name'', lg_state = attribute node ''status'', lg_mode = attribute node ''mode'',
          lg_synchronized = (if reported then Some (selected \<noteq> [] \<and> list_all (\<lambda>m. map_of m ''sync'' = Some ''true'') selected)
            else None), lg_members = members\<rparr>)"

definition empty_group :: igmp_group where
  "empty_group = \<lparr>gr_ports = [], gr_listeners = [], gr_pending_listeners = [], gr_retiring_listeners = [], gr_routers = [],
     gr_pending_routers = [], gr_members = []\<rparr>"

definition group_at :: "igmp_groups \<Rightarrow> int \<times> string \<Rightarrow> igmp_group" where
  "group_at gs key = (case map_of gs key of None \<Rightarrow> empty_group | Some g \<Rightarrow> g)"

definition group_key :: "xml \<Rightarrow> ('t, int \<times> string) netlab_action" where
  "group_key node = bind_action (required node ''vlan'') (\<lambda>vlan. bind_action (required node ''group'') (\<lambda>address.
     bind_action (python_int vlan) (\<lambda>n. ret (n, address))))"

definition with_port :: "int \<Rightarrow> int list \<Rightarrow> int list" where
  "with_port port ps = (if port \<in> set ps then ps else ps @ [port])"

definition member_step :: "xml \<Rightarrow> igmp_groups \<Rightarrow> ('t, igmp_groups) netlab_action" where
  "member_step node gs =
     bind_action (group_key node) (\<lambda>key.
     bind_action (bind_action (required node ''port'') python_int) (\<lambda>port.
       let state = attribute_or node ''hardware-state'' ''installed''; g = group_at gs key;
           h = g\<lparr>gr_members := gr_members g @ [MemberAttributes (xml_attributes node)]\<rparr> in
       if attribute node ''source'' = Some ''dynamic'' \<and> state \<noteq> ''installed''
       then (if state = ''pending''
             then ret (dict_set gs key (h\<lparr>gr_pending_listeners := with_port port (gr_pending_listeners g)\<rparr>))
             else if state = ''retiring''
             then ret (dict_set gs key (h\<lparr>gr_retiring_listeners := with_port port (gr_retiring_listeners g)\<rparr>))
             else native_error ''igmp-member-state'')
       else let i = h\<lparr>gr_ports := with_port port (gr_ports g)\<rparr> in
         ret (dict_set gs key
           (if attribute node ''source'' = Some ''static-router'' then i\<lparr>gr_routers := with_port port (gr_routers g)\<rparr>
            else i\<lparr>gr_listeners := with_port port (gr_listeners g)\<rparr>))))"

definition hex_mask :: "xml \<Rightarrow> string \<Rightarrow> ('t, int) netlab_action" where
  "hex_mask node name = bind_action (required node name) (\<lambda>text.
     case py_int_base 16 text of None \<Rightarrow> raise_error PyValueError | Some n \<Rightarrow> ret n)"

definition router_port :: "int \<Rightarrow> int \<Rightarrow> int \<Rightarrow> int \<Rightarrow> igmp_group \<Rightarrow> igmp_group" where
  "router_port applied desired uncertain port g =
     (let a = bit applied (nat (port - 1)); d = bit desired (nat (port - 1)); u = bit uncertain (nat (port - 1));
          g1 = (if a \<and> \<not> u then g\<lparr>gr_ports := with_port port (gr_ports g), gr_routers := with_port port (gr_routers g)\<rparr> else g);
          g2 = (if a \<noteq> d \<or> u then g1\<lparr>gr_pending_routers := with_port port (gr_pending_routers g1)\<rparr> else g1)
      in if a \<or> d \<or> u then g2\<lparr>gr_members := gr_members g2 @ [RouterPort port a d u]\<rparr> else g2)"

definition router_step :: "xml \<Rightarrow> igmp_groups \<Rightarrow> ('t, igmp_groups) netlab_action" where
  "router_step node gs =
     bind_action (group_key node) (\<lambda>key.
     bind_action (hex_mask node ''applied-mask'') (\<lambda>a.
     bind_action (hex_mask node ''desired-mask'') (\<lambda>d.
     bind_action (hex_mask node ''uncertain-mask'') (\<lambda>u.
       if (a OR d OR u) AND NOT 0xffffff \<noteq> 0 then native_error ''igmp-range''
       else ret (dict_set gs key (fold (router_port a d u) [1..24] (group_at gs key)))))))"

fun fold_action :: "('x \<Rightarrow> 'a \<Rightarrow> ('t, 'a) netlab_action) \<Rightarrow> 'x list \<Rightarrow> 'a \<Rightarrow> ('t, 'a) netlab_action" where
  "fold_action f [] a = ret a"
| "fold_action f (x # xs) a = bind_action (f x a) (fold_action f xs)"

definition read_igmp :: "xml \<Rightarrow> ('t, igmp_groups) netlab_action" where
  "read_igmp doc =
     (if attribute doc ''recovery-state'' = Some ''retrying'' then native_error ''igmp-recovery''
      else if (case find_first [''multicast-owner''] doc of None \<Rightarrow> False
          | Some hardware \<Rightarrow> attribute hardware ''status'' \<notin> {None, Some ''ok''}) then native_error ''igmp-readback''
      else bind_action (fold_action member_step (children_named ''member'' doc) [])
        (fold_action router_step (children_named ''router-group'' doc)))"

text \<open>Service, method and the root of the answer of each feature.\<close>

definition ROUTES :: "(string \<times> int \<times> int \<times> string) list" where
  "ROUTES = [(''lldp'', 10, 1, ''lldp-neighbors''), (''lags'', 11, 1, ''lags''), (''rstp'', 16, 3, ''stp-state''),
     (''igmp'', 14, 9, ''igmp-snooping'')]"

definition bytes_of :: "int list \<Rightarrow> octet list" where
  "bytes_of data = map word_of_int data"

definition protocol_report :: "string \<Rightarrow> xml \<Rightarrow> ('t, native_report) netlab_action" where
  "protocol_report feature doc =
     (if feature = ''lldp'' then ret (LldpReport (lldp_rows doc))
      else if feature = ''lags'' then ret (LagReport (map lag_row (descendants ''lag'' doc)))
      else if feature = ''rstp'' then ret (RstpReport (xml_attributes doc) (map xml_attributes (descendants ''port'' doc)))
      else bind_action (read_igmp doc) (\<lambda>gs. ret (IgmpReport gs)))"

definition native_operational :: "'t link \<Rightarrow> formats \<Rightarrow> int \<Rightarrow> string \<Rightarrow> ('t, native_report) netlab_action" where
  "native_operational lk fm now feature =
     (if feature = ''roce'' then bind_action (native_roce lk fm now) (\<lambda>(report, rows). ret (RoceReport report rows))
      else if feature = ''fdb'' then bind_action (rpc lk SWITCHD 125 [] 30000) (\<lambda>data.
        case decode_mac_snapshot (bytes_of data) of Inl e \<Rightarrow> raise_error e | Inr rows \<Rightarrow> ret (FdbReport rows))
      else case map_of ROUTES feature of
        None \<Rightarrow> native_error ''unknown-feature''
      | Some (service, meth, expected) \<Rightarrow> bind_action (rpc_xml lk fm service meth [] 30000) (\<lambda>doc.
          if xml_tag doc \<noteq> expected then native_error ''response-type'' else protocol_report feature doc))"

end
