(* ===== verification/Netlab_Panel.thy ===== *)
theory Netlab_Panel
  imports Netlab_Backend Simulated_Panel
begin

text \<open>
  The native backend as the panel uses it: what the service reads of its snapshots, port rows and board
  telemetry. Times in the JSON of the board are seconds and are read to the millisecond.
\<close>

definition native_pending_view :: "native_pending \<Rightarrow> pending_view" where
  "native_pending_view p = \<lparr>pv_job = (case np_job p of None \<Rightarrow> [] | Some j \<Rightarrow> j), pv_phase = AwaitingConfirmation,
     pv_deadline = Some (1000 * np_deadline p), pv_remaining = np_remaining p\<rparr>"

definition native_outcome :: "string \<Rightarrow> transaction_state option" where
  "native_outcome name = (if name = ''confirmed'' then Some TxConfirmed
     else if name = ''rolled_back'' then Some TxRolledBack else None)"

definition native_view :: "native_state \<Rightarrow> panel_snapshot" where
  "native_view v = \<lparr>ps_revision = ns_revision v, ps_configuration = ns_configuration v,
     ps_pending = map_option native_pending_view (ns_pending v),
     ps_terminal = Some \<lparr>tv_job = None, tv_revision = Some (ns_transaction_revision v),
       tv_state = native_outcome (ns_transaction_state v)\<rparr>\<rparr>"

definition optional_json :: "('a \<Rightarrow> json) \<Rightarrow> 'a option \<Rightarrow> json" where
  "optional_json f v = (case v of None \<Rightarrow> JNull | Some x \<Rightarrow> f x)"

definition validity :: "bool \<Rightarrow> string" where
  "validity b = (if b then ''valid'' else ''unavailable'')"

definition native_port_reading :: "int \<Rightarrow> native_port \<Rightarrow> reading" where
  "native_port_reading now p = \<lparr>rd_quality = validity (nq_state_valid p \<and> nq_counters_valid p), rd_sampled_at = Some now,
     rd_value = JObj ([(''id'', JInt (nq_id p)), (''epl'', JInt (nq_epl p)), (''mpo'', JInt (nq_mpo p)),
       (''lane'', JInt (nq_lane p)), (''active'', JBool (nq_active p)), (''name'', JStr (nq_name p)),
       (''enabled'', JBool (nq_enabled p)), (''speed_gbps'', optional_json JInt (nq_speed p)),
       (''scheduler_speed_gbps'', optional_json JFloat (nq_scheduler_speed p)), (''ethernet_mode'', jstr (nq_mode p)),
       (''link'', jstr (nq_link p)), (''sample_generation'', optional_json jstr (nq_generation p)),
       (''counter_epoch'', JNull), (''degraded'', JBool False),
       (''state_quality'', jstr (validity (nq_state_valid p))), (''counter_quality'', jstr (validity (nq_counters_valid p)))]
       @ map (\<lambda>(k, v). (k, optional_json JInt v)) (nq_counters p))\<rparr>"

definition json_text :: "json \<Rightarrow> string" where
  "json_text v = (case v of JStr t \<Rightarrow> map (\<lambda>n. char_of (nat n)) t | _ \<Rightarrow> [])"

definition json_time :: "json \<Rightarrow> int option" where
  "json_time v = map_option (\<lambda>q. \<lfloor>1000 * q\<rfloor>) (as_number v)"

definition json_reading :: "json \<Rightarrow> reading" where
  "json_reading v = \<lparr>rd_quality = json_text (jget v ''quality''), rd_sampled_at = json_time (jget v ''sampled_at''), rd_value = v\<rparr>"

definition json_sensors :: "json \<Rightarrow> sensor_reading" where
  "json_sensors v = (let fan = jget v ''fan'' in
     \<lparr>sr_quality = json_text (jget v ''quality''), sr_sampled_at = json_time (jget v ''sampled_at''),
      sr_temperatures = map json_reading (elements (jget v ''temperatures'')),
      sr_fan = (if is_object fan then Some \<lparr>fn_quality = json_text (jget fan ''quality''),
        fn_sampled_at = json_time (jget fan ''sampled_at''), fn_pwm_quality = json_text (jget fan ''pwm_quality''),
        fn_pwm_sampled_at = json_time (jget fan ''pwm_sampled_at'')\<rparr> else None)\<rparr>)"

definition json_optic :: "json \<Rightarrow> optic_reading" where
  "json_optic v = \<lparr>or_quality = json_text (jget v ''quality''), or_sampled_at = json_time (jget v ''sampled_at''),
     or_power_quality = json_text (jget v ''rx_power_quality''), or_power_sampled_at = json_time (jget v ''rx_power_sampled_at''),
     or_module = v\<rparr>"

definition netlab_backend :: "'t link \<Rightarrow> formats \<Rightarrow> 't netlab backend" where
  "netlab_backend lk fm = \<lparr>
     bk_snapshot = (\<lambda>now. mapped native_view (native_snapshot lk fm)),
     bk_ports = (\<lambda>now. mapped (map (native_port_reading now)) (native_ports lk fm)),
     bk_sensors = (\<lambda>now. mapped json_sensors (native_sensors lk fm now)),
     bk_optics = (\<lambda>now. mapped (\<lambda>v. map json_optic (elements v)) (native_optics lk fm now)),
     bk_apply = (\<lambda>now c expected job timeout. mapped native_view (native_apply lk fm c expected job timeout)),
     bk_confirm = (\<lambda>now job. mapped native_view (native_finish lk fm job CONFIRM)),
     bk_rollback = (\<lambda>now job. mapped native_view (native_finish lk fm job ROLLBACK)),
     bk_validate = Some (\<lambda>now. native_validate lk fm),
     bk_recover = Some (\<lambda>now. mapped native_view (native_recover lk fm)),
     bk_sample_roce = Some (native_sample_roce lk fm),
     bk_phy = native_diagnostics lk fm,
     bk_eye_start = (\<lambda>now. native_eye_start lk fm),
     bk_eye_read = (\<lambda>now. native_eye_read lk fm),
     bk_eye_cancel = (\<lambda>now. native_eye_cancel lk fm),
     bk_close = ret ()\<rparr>"

end
