(* ===== verification/Netlab_Properties.thy ===== *)
theory Netlab_Properties
  imports Netlab_Panel
begin

text \<open>What the native backend guarantees about the replies it accepts and the requests it sends.\<close>

subsection \<open>The MAC table\<close>

lemma decode_encode_mac:
  assumes "length es \<le> 16384" and "list_all entry_ok es"
  shows "decode_mac_snapshot (encode_mac_snapshot g es) = Inr (map (mac_row_of g) es)"
proof -
  let ?p = "encode_mac_snapshot g es" and ?n = "of_nat (length es) :: 32 word"
  have body: "drop 28 ?p = concat (map encode_entry es)" by (simp add: encode_mac_snapshot_def del: pack_be.simps)
  have len: "length ?p = 28 + length es * 15" by (simp add: encode_mac_snapshot_def)
  have count: "unat ?n = length es" using assms(1) by (simp add: unat_of_nat take_bit_nat_eq_self)
  have parts: "part 0 4 ?p = pack_be 4 MAC_MAGIC" "part 4 2 ?p = pack_be 2 (1 :: 16 word)" "part 6 2 ?p = pack_be 2 (15 :: 16 word)"
    "part 8 8 ?p = pack_be 8 g" "part 16 4 ?p = pack_be 4 ?n" "part 20 4 ?p = pack_be 4 ?n" "part 24 4 ?p = pack_be 4 (1 :: 32 word)"
    by (simp_all add: encode_mac_snapshot_def part_def del: pack_be.simps)
  have "read_entries g es = Inr (map (mac_row_of g) es)" using assms(2) by (simp add: read_entries_Inr)
  with assms(1) show ?thesis
    by (simp add: decode_mac_snapshot_def Let_def parts len count unpack_pack_be body iter_encode del: pack_be.simps)
qed

lemma encode_decode_mac:
  assumes "decode_mac_snapshot p = Inr rows"
  shows "\<exists>g es. p = encode_mac_snapshot g es \<and> length es \<le> 16384 \<and> list_all entry_ok es \<and> rows = map (mac_row_of g) es"
proof -
  let ?g = "unpack_be (part 8 8 p) :: 64 word" and ?n = "unpack_be (part 20 4 p) :: 32 word" and ?es = "iter_entries (drop 28 p)"
  from assms have header: "unpack_be (part 0 4 p) = MAC_MAGIC" "unpack_be (part 4 2 p) = (1 :: 16 word)"
      "unpack_be (part 6 2 p) = (15 :: 16 word)" "unpack_be (part 16 4 p) = ?n" "unpack_be (part 24 4 p) = (1 :: 32 word)"
      "unat ?n \<le> 16384" and len: "length p = 28 + unat ?n * 15" and rows: "read_entries ?g ?es = Inr rows"
    by (auto simp: decode_mac_snapshot_def Let_def split: if_splits)
  from len have es: "concat (map encode_entry ?es) = drop 28 p" "length ?es = unat ?n" using encode_iter [of "drop 28 p"] by auto
  have pack: "pack_be 4 MAC_MAGIC = part 0 4 p" "pack_be 2 (1 :: 16 word) = part 4 2 p" "pack_be 2 (15 :: 16 word) = part 6 2 p"
      "pack_be 8 ?g = part 8 8 p" "pack_be 4 ?n = part 20 4 p" "pack_be 4 (1 :: 32 word) = part 24 4 p"
    using len by (simp_all flip: header(1-3) header(5) add: pack_part)
  have total: "pack_be 4 ?n = part 16 4 p"
    using len pack_part [of 16 4 p, where 'a = 32] header(4) by simp
  have total_count: "part 16 4 p = part 20 4 p" using total pack(5) by simp
  have count: "(of_nat (length ?es) :: 32 word) = ?n" using es(2) by simp
  have "p = part 0 4 p @ part 4 2 p @ part 6 2 p @ part 8 8 p @ part 16 4 p @ part 20 4 p @ part 24 4 p @ drop 28 p"
    using len take_parts [of 4 p 2] take_parts [of 6 p 2] take_parts [of 8 p 8] take_parts [of 16 p 4] take_parts [of 20 p 4]
      take_parts [of 24 p 4] by (simp add: part_def [of 0] flip: append_assoc)
  also have "\<dots> = encode_mac_snapshot ?g ?es"
    by (simp only: encode_mac_snapshot_def count es(1) pack total_count)
  finally have "p = encode_mac_snapshot ?g ?es \<and> length ?es \<le> 16384 \<and> list_all entry_ok ?es \<and> rows = map (mac_row_of ?g) ?es"
    using rows header(6) es(2) by (simp add: read_entries_Inr)
  then show ?thesis by blast
qed

text \<open>The MAC table is read exactly. The decoder accepts precisely the byte strings that encode at most
  16384 entries in full, each with a VLAN in 1..4094, a port and a LAG in -1..63, and returns those
  entries: no truncated, padded or foreign reply reads as a table.\<close>

theorem mac_snapshot_exact:
  "decode_mac_snapshot p = Inr rows \<longleftrightarrow>
     (\<exists>g es. p = encode_mac_snapshot g es \<and> length es \<le> 16384 \<and> list_all entry_ok es \<and> rows = map (mac_row_of g) es)"
  using decode_encode_mac encode_decode_mac by blast

subsection \<open>Writes\<close>

text \<open>The link with a record of the requests it was given.\<close>

definition recording :: "'t link \<Rightarrow> ('t \<times> (int \<times> int) list) link" where
  "recording lk = \<lparr>
     ln_connect = (\<lambda>(t, l). case ln_connect lk t of (ok, u) \<Rightarrow> (ok, (u, l))),
     ln_send = (\<lambda>service meth payload timeout (t, l). case ln_send lk service meth payload timeout t of
        (r, u) \<Rightarrow> (r, (u, l @ [(service, meth)]))),
     ln_close = (\<lambda>(t, l). (ln_close lk t, l)),
     ln_monotonic = (\<lambda>(t, l). ln_monotonic lk t), ln_sysfs = (\<lambda>(t, l). ln_sysfs lk t)\<rparr>"

definition sent :: "('t \<times> (int \<times> int) list) netlab \<Rightarrow> (int \<times> int) list" where
  "sent s = snd (nl_remote s)"

definition changing :: "(int \<times> int) list \<Rightarrow> (int \<times> int) list" where
  "changing l = filter (\<lambda>x. x \<noteq> (CONFIGD, SNAPSHOT)) l"

text \<open>The action sends snapshots and at most \<open>n\<close> other requests, all of the set \<open>W\<close>.\<close>

definition sends_at_most :: "(int \<times> int) set \<Rightarrow> nat \<Rightarrow> ('t \<times> (int \<times> int) list, 'a) netlab_action \<Rightarrow> bool" where
  "sends_at_most W n m \<longleftrightarrow> (\<forall>s r t. m s = (r, t) \<longrightarrow>
     (\<exists>new. sent t = sent s @ new \<and> length (changing new) \<le> n \<and> set (changing new) \<subseteq> W))"

lemma changing_append [simp]: "changing (a @ b) = changing a @ changing b"
  by (simp add: changing_def)

lemma sends_mono: "sends_at_most W n m \<Longrightarrow> n \<le> k \<Longrightarrow> sends_at_most W k m"
  unfolding sends_at_most_def by (meson order_trans)

lemma sends_silent: "(\<And>s. sent (snd (m s)) = sent s) \<Longrightarrow> sends_at_most W n m"
  unfolding sends_at_most_def by (metis append_Nil2 changing_def empty_subsetI filter.simps(1) list.set(1) list.size(3) snd_conv zero_le)

lemma sends_bind:
  assumes "sends_at_most W n m" and "\<And>a. sends_at_most W k (f a)"
  shows "sends_at_most W (n + k) (bind_action m f)"
  unfolding sends_at_most_def
proof (intro allI impI)
  fix s r t assume run: "bind_action m f s = (r, t)"
  obtain q u where m: "m s = (q, u)" by (cases "m s")
  with assms(1) obtain a where a: "sent u = sent s @ a" "length (changing a) \<le> n" "set (changing a) \<subseteq> W"
    unfolding sends_at_most_def by meson
  show "\<exists>new. sent t = sent s @ new \<and> length (changing new) \<le> n + k \<and> set (changing new) \<subseteq> W"
  proof (cases q)
    case (Inl e)
    with run m a show ?thesis by (auto simp: bind_apply intro!: exI [of _ a])
  next
    case (Inr v)
    with run m have "f v u = (r, t)" by (simp add: bind_apply)
    with assms(2) obtain b where "sent t = sent u @ b" "length (changing b) \<le> k" "set (changing b) \<subseteq> W"
      unfolding sends_at_most_def by meson
    with a show ?thesis by (intro exI [of _ "a @ b"]) simp
  qed
qed

lemma sends_then: "sends_at_most W n m \<Longrightarrow> sends_at_most W k f \<Longrightarrow> sends_at_most W (n + k) (then_action m f)"
  unfolding then_action_def by (rule sends_bind)

lemma sends_catch:
  assumes "sends_at_most W n m" and "\<And>e. sends_at_most W k (f e)"
  shows "sends_at_most W (n + k) (catch_hardware m f)"
  unfolding sends_at_most_def
proof (intro allI impI)
  fix s r t assume run: "catch_hardware m f s = (r, t)"
  obtain q u where m: "m s = (q, u)" by (cases "m s")
  with assms(1) obtain a where a: "sent u = sent s @ a" "length (changing a) \<le> n" "set (changing a) \<subseteq> W"
    unfolding sends_at_most_def by meson
  show "\<exists>new. sent t = sent s @ new \<and> length (changing new) \<le> n + k \<and> set (changing new) \<subseteq> W"
  proof (cases "\<exists>e. q = Inl e \<and> is_hardware_error e")
    case False
    with run m have "t = u" by (cases q) (auto simp: catch_hardware_def catch_apply raise_apply)
    with a show ?thesis by (intro exI [of _ a]) simp
  next
    case True
    then obtain e where "q = Inl e" "is_hardware_error e" by blast
    with run m have "f e u = (r, t)" by (simp add: catch_hardware_def catch_apply)
    with assms(2) obtain b where "sent t = sent u @ b" "length (changing b) \<le> k" "set (changing b) \<subseteq> W"
      unfolding sends_at_most_def by meson
    with a show ?thesis by (intro exI [of _ "a @ b"]) simp
  qed
qed

lemma sends_with_state: "(\<And>s. sends_at_most W n (f s)) \<Longrightarrow> sends_at_most W n (with_state f)"
  unfolding sends_at_most_def by (simp add: with_state_apply)

lemma sends_basic:
  "sends_at_most W n (ret a)" "sends_at_most W n (raise_error e)" "sends_at_most W n (native_error name)"
  "sends_at_most W n (of_codec c)" "sends_at_most W n (python_int text)" "sends_at_most W n (required node name)"
  by (rule sends_silent, simp add: monad_simps native_error_def of_codec_def python_int_def required_def
      split: sum.splits option.splits)+

lemma sent_rpc:
  "\<exists>new. sent (snd (rpc (recording lk) service meth payload timeout s)) = sent s @ new \<and> (new = [] \<or> new = [(service, meth)])"
  by (simp add: rpc_def recording_def sent_def split: prod.splits bool.splits reply.splits)

lemma sends_rpc: "(service, meth) \<in> W \<Longrightarrow> sends_at_most W 1 (rpc (recording lk) service meth payload timeout)"
  unfolding sends_at_most_def
proof (intro allI impI)
  fix s r t assume W: "(service, meth) \<in> W" and run: "rpc (recording lk) service meth payload timeout s = (r, t)"
  with sent_rpc [of lk service meth payload timeout s] obtain new where
    "sent t = sent s @ new" "new = [] \<or> new = [(service, meth)]" by auto
  with W show "\<exists>new. sent t = sent s @ new \<and> length (changing new) \<le> 1 \<and> set (changing new) \<subseteq> W"
    by (intro exI [of _ new]) (auto simp: changing_def)
qed

lemma sends_snapshot_rpc: "sends_at_most W 0 (rpc (recording lk) CONFIGD SNAPSHOT payload timeout)"
  unfolding sends_at_most_def
proof (intro allI impI)
  fix s r t assume run: "rpc (recording lk) CONFIGD SNAPSHOT payload timeout s = (r, t)"
  with sent_rpc [of lk CONFIGD SNAPSHOT payload timeout s] obtain new where
    "sent t = sent s @ new" "new = [] \<or> new = [(CONFIGD, SNAPSHOT)]" by auto
  then show "\<exists>new. sent t = sent s @ new \<and> length (changing new) \<le> 0 \<and> set (changing new) \<subseteq> W"
    by (intro exI [of _ new]) (auto simp: changing_def)
qed

lemma sends_first:
  "sends_at_most W 0 m \<Longrightarrow> (\<And>a. sends_at_most W n (f a)) \<Longrightarrow> sends_at_most W n (bind_action m f)"
  using sends_bind [of W 0 m n f] by simp

lemma sends_last:
  "sends_at_most W n m \<Longrightarrow> (\<And>a. sends_at_most W 0 (f a)) \<Longrightarrow> sends_at_most W n (bind_action m f)"
  "sends_at_most W n m \<Longrightarrow> sends_at_most W 0 k \<Longrightarrow> sends_at_most W n (then_action m k)"
  "sends_at_most W n m \<Longrightarrow> (\<And>e. sends_at_most W 0 (h e)) \<Longrightarrow> sends_at_most W n (catch_hardware m h)"
  using sends_bind [of W n m 0 f] sends_then [of W n m 0 k] sends_catch [of W n m 0 h] by simp_all

lemmas sends_quiet = sends_bind [where n = 0 and k = 0, simplified] sends_then [where n = 0 and k = 0, simplified]

lemma sends_if: "sends_at_most W n a \<Longrightarrow> sends_at_most W n b \<Longrightarrow> sends_at_most W n (if c then a else b)"
  by simp

lemma sends_option: "sends_at_most W n a \<Longrightarrow> (\<And>x. sends_at_most W n (f x)) \<Longrightarrow> sends_at_most W n (case v of None \<Rightarrow> a | Some x \<Rightarrow> f x)"
  by (cases v) simp_all

lemma sends_read_snapshot: "sends_at_most W 0 (read_snapshot doc c)"
  unfolding read_snapshot_def read_pending_def Let_def
  by (intro sends_quiet sends_if sends_option sends_basic)

lemma sends_snapshot: "sends_at_most W 0 (native_snapshot (recording lk) fm)"
proof -
  have keep: "sends_at_most W 0 (modify_state (\<lambda>s. s\<lparr>nl_configuration := a, nl_contract := b\<rparr>))" for a b
    by (rule sends_silent) (simp add: modify_apply sent_def)
  have doc: "sends_at_most W 0 (rpc_xml (recording lk) fm CONFIGD SNAPSHOT payload timeout)" for payload timeout
    unfolding rpc_xml_def by (intro sends_quiet sends_snapshot_rpc sends_basic)
  show ?thesis unfolding native_snapshot_def
    by (intro sends_quiet sends_if sends_option sends_basic doc keep sends_read_snapshot)
qed

lemma sends_envelope: "sends_at_most W 0 (envelope fm c expected job timeout)"
  unfolding envelope_def by (intro sends_quiet sends_basic)

lemma sends_apply: "sends_at_most {(CONFIGD, APPLY)} 1 (native_apply (recording lk) fm c expected job timeout)"
proof -
  let ?W = "{(CONFIGD, APPLY)}"
  have once: "sends_at_most ?W 1 (bind_action (envelope fm c expected job timeout) (\<lambda>payload.
      then_action (rpc (recording lk) CONFIGD APPLY payload 120000) (ret None)))" (is "sends_at_most _ _ ?write")
    by (rule sends_first [OF sends_envelope], rule sends_last(2) [OF sends_rpc sends_basic(1)]) simp
  have check: "sends_at_most ?W 0 (bind_action (catch_hardware (native_snapshot (recording lk) fm) (\<lambda>_. native_error ''apply-and-check''))
      (\<lambda>state. if \<not> shows_commit state c job then raise_error e else ret (Some state)))" for e
    by (intro sends_quiet sends_if sends_basic sends_last(3) [where n = 0] sends_snapshot)
  have final: "sends_at_most ?W 0 (case recovered of Some state \<Rightarrow> ret state
      | None \<Rightarrow> bind_action (native_snapshot (recording lk) fm) (\<lambda>state.
          if \<not> shows_commit state c job then native_error ''apply-mismatch'' else ret state))" for recovered
    by (intro sends_quiet sends_option sends_if sends_basic sends_snapshot)
  show ?thesis unfolding native_apply_def
    by (rule sends_last(1) [OF sends_last(3) [OF once check] final])
qed

lemma sends_finish: "sends_at_most {(CONFIGD, meth)} 1 (native_finish (recording lk) fm job meth)"
proof -
  let ?W = "{(CONFIGD, meth)}"
  have once: "sends_at_most ?W 1 (catch_hardware (then_action (rpc (recording lk) CONFIGD meth (ascii job) 120000) (ret None))
      (\<lambda>e. ret (Some e)))"
    by (rule sends_last(3) [OF sends_last(2) [OF sends_rpc sends_basic(1)] sends_basic(1)]) simp
  have final: "sends_at_most ?W 0 (bind_action (native_snapshot (recording lk) fm) (\<lambda>state.
      if ns_synchronized state \<and> ns_pending state = None \<and> ns_transaction_revision state = ns_revision before
         \<and> ns_transaction_state state = outcome_name meth
      then ret state else (case failed of Some e \<Rightarrow> raise_error e | None \<Rightarrow> native_error ''no-outcome'')))" for before failed
    by (intro sends_quiet sends_option sends_if sends_basic sends_snapshot)
  have rest: "sends_at_most ?W 1 (if native_job before \<noteq> Some job then native_error ''not-pending''
      else bind_action (catch_hardware (then_action (rpc (recording lk) CONFIGD meth (ascii job) 120000) (ret None)) (\<lambda>e. ret (Some e)))
         (\<lambda>failed. bind_action (native_snapshot (recording lk) fm) (\<lambda>state.
           if ns_synchronized state \<and> ns_pending state = None \<and> ns_transaction_revision state = ns_revision before
              \<and> ns_transaction_state state = outcome_name meth
           then ret state else (case failed of Some e \<Rightarrow> raise_error e | None \<Rightarrow> native_error ''no-outcome''))))" for before
    by (rule sends_if [OF sends_basic(3)]) (rule sends_last(1) [OF once final])
  show ?thesis unfolding native_finish_def
    by (rule sends_first [OF sends_snapshot rest])
qed

lemma apply_evidence: "native_apply lk fm c expected job timeout s = (Inr v, t) \<Longrightarrow> shows_commit v c job"
  by (auto simp: native_apply_def catch_hardware_def monad_simps native_error_def
      split: prod.splits sum.splits option.splits if_splits)

lemma finish_evidence:
  "native_finish lk fm job meth s = (Inr v, t) \<Longrightarrow>
     ns_synchronized v \<and> ns_pending v = None \<and> ns_transaction_state v = outcome_name meth"
  by (auto simp: native_finish_def catch_hardware_def monad_simps native_error_def
      split: prod.splits sum.splits option.splits if_splits)

lemma rpc_sends: "rpc (recording lk) service meth payload timeout s = (Inr d, t) \<Longrightarrow> sent t = sent s @ [(service, meth)]"
  by (auto simp: rpc_def recording_def sent_def split: prod.splits bool.splits reply.splits if_splits)

lemma snapshot_sends:
  assumes "native_snapshot (recording lk) fm s = (Inr v, t)"
  shows "sent t = sent s @ [(CONFIGD, SNAPSHOT)]"
proof -
  from assms obtain d u where "rpc (recording lk) CONFIGD SNAPSHOT [] 30000 s = (Inr d, u)" "sent t = sent u"
    by (auto simp: native_snapshot_def rpc_xml_def of_codec_def read_snapshot_def read_pending_def python_int_def required_def
        native_error_def monad_simps sent_def Let_def split: prod.splits sum.splits option.splits if_splits)
  with rpc_sends show ?thesis by metis
qed

lemma apply_reads: "native_apply lk fm c expected job timeout s = (Inr v, t) \<Longrightarrow> \<exists>u. native_snapshot lk fm u = (Inr v, t)"
  by (auto simp: native_apply_def catch_hardware_def monad_simps native_error_def
      split: prod.splits sum.splits option.splits if_splits)

text \<open>C37: a native commit is sent once and believed only on evidence. Whatever the native side and the
  connection do, an apply puts at most one apply request on the wire and nothing else that changes
  state, also when its reply is lost; and it succeeds only with a snapshot, read last, that shows this
  job pending with exactly the submitted configuration on synchronised hardware.\<close>

theorem native_apply_evidenced:
  assumes "native_apply (recording lk) fm c expected job timeout s = (r, t)"
  shows "\<exists>new. sent t = sent s @ new \<and> (changing new = [] \<or> changing new = [(CONFIGD, APPLY)])
    \<and> (case r of Inl _ \<Rightarrow> True | Inr v \<Rightarrow> shows_commit v c job \<and> last (sent t) = (CONFIGD, SNAPSHOT))"
proof -
  from sends_apply assms obtain new where new: "sent t = sent s @ new" "length (changing new) \<le> 1"
      "set (changing new) \<subseteq> {(CONFIGD, APPLY)}"
    unfolding sends_at_most_def by meson
  then have one: "changing new = [] \<or> changing new = [(CONFIGD, APPLY)]" by (cases "changing new") auto
  have "shows_commit v c job \<and> last (sent t) = (CONFIGD, SNAPSHOT)" if "r = Inr v" for v
  proof -
    from assms that have run: "native_apply (recording lk) fm c expected job timeout s = (Inr v, t)" by simp
    from apply_reads [OF run] obtain u where "native_snapshot (recording lk) fm u = (Inr v, t)" by blast
    from snapshot_sends [OF this] apply_evidence [OF run] show ?thesis by simp
  qed
  with new(1) one show ?thesis by (auto split: sum.splits)
qed

text \<open>A native side that commits but whose reply to the apply is lost.\<close>

definition native_node :: xml where
  "native_node = Xml ''netlab-config'' [] [] [Xml ''chassis'' [] [] [Xml ''fm10k-panel'' [] [] [Xml ''intent'' [] [] []]]]"

definition native_doc :: "bool \<Rightarrow> xml" where
  "native_doc committed = Xml ''fm10k-panel-state'' ([(''api'', ''1''), (''board-hal'', ''bound''), (''synchronized'', ''true'')]
     @ (if committed then [(''pending'', ''true''), (''job-id'', ''j''), (''deadline'', ''60''), (''revision'', ''2'')]
        else [(''revision'', ''1'')])) [] [native_node]"

definition lossy_link :: "bool link" where
  "lossy_link = \<lparr>ln_connect = (\<lambda>t. (True, t)),
     ln_send = (\<lambda>service meth payload timeout t. if meth = APPLY then (Lost, True) else (Reply 0 1 [if t then 1 else 0], t)),
     ln_close = (\<lambda>t. t), ln_monotonic = (\<lambda>t. 0), ln_sysfs = (\<lambda>t. \<lparr>sy_hwmon = [], sy_thermal = []\<rparr>)\<rparr>"

definition plain_formats :: formats where
  "plain_formats = \<lparr>fm_xml = (\<lambda>d. if d = [0] then Some (native_doc False) else if d = [1] then Some (native_doc True) else Some native_node),
     fm_text = (\<lambda>_. [2]), fm_load = (\<lambda>_. Some default_configuration), fm_dump = (\<lambda>_. []),
     fm_json = (\<lambda>_. None), fm_utf8 = (\<lambda>_. None)\<rparr>"

definition lossy_apply :: "(hw_error + native_state) \<times> (bool \<times> (int \<times> int) list) netlab" where
  "lossy_apply = native_apply (recording lossy_link) plain_formats default_configuration 1 ''j'' 60 (new_netlab (False, []))"

lemma lossy_apply_run:
  "case lossy_apply of (Inl _, _) \<Rightarrow> False | (Inr v, t) \<Rightarrow> ns_revision v = 2 \<and> sent t = [(2, 21), (2, 19)]"
  by code_simp

lemma native_apply_evidenced_witness:
  "\<exists>v t. lossy_apply = (Inr v, t) \<and> ns_revision v = 2 \<and> changing (sent t) = [(CONFIGD, APPLY)]
     \<and> shows_commit v default_configuration ''j''"
proof -
  obtain r t where run: "lossy_apply = (r, t)" by (cases lossy_apply)
  from lossy_apply_run [unfolded run] obtain v where v: "r = Inr v" "ns_revision v = 2" and log: "sent t = [(2, 21), (2, 19)]"
    by (cases r) auto
  from log have "changing (sent t) = [(CONFIGD, APPLY)]" by (simp add: changing_def CONFIGD_def APPLY_def SNAPSHOT_def)
  with run v native_apply_evidenced [OF run [unfolded lossy_apply_def]] show ?thesis by auto
qed

end
