(* ===== verification/Web.thy ===== *)
theory Web
  imports Panel_Safety Accounts Roce_Preflight
begin

text \<open>
  app.py: the HTTP interface, from the request the framework has routed and parsed to the answer. The
  framework's routing, its parsing of bodies and the rendering of values are its own; a request names
  its endpoint with the parsed parameters. What the helper services, the random source and the disk
  answer in one request is the \<open>moment\<close> of that request; what the update and time services are asked
  is kept in a list. The audit entries of the interface itself are left out.
\<close>

subsection \<open>Requests and answers\<close>

datatype endpoint =
  Health | SimulationFault json | AuthSession | SetupAccount credentials | LogIn credentials | LogOut
| ChangeAccount administrator_update | Capabilities | ReadConfig | RecoverControl | CheckRoce json
| PreviewChange int switch_configuration | CommitChange string int bool | ReadJob string | FinishJob string bool
| TelemetryAll | TelemetryPorts | TelemetrySensors | TelemetryOptics | PortDiagnostics int | StartScan int eye_request
| LatestScan | ReadScan text_points | CancelScan text_points | DownloadScan text_points string | SensorHistory
| ManualFan int int | OperationalReport string | ClearFdb json | ExportBackup | RestoreBackup json
| UpdateStatus | UpdateCheck json | UpdateInstall json | Logs | System | SystemTime | SyncTime "string list option"
| LayerThree | RejectLayerThree string

record request =
  hr_endpoint :: endpoint
  hr_origin :: "string option"
  hr_base_url :: string
  hr_length :: "string option"
  hr_cookie :: "text_points option"
  hr_csrf :: text_points
  hr_client :: "string option"

datatype content =
  NoContent | HealthContent bool | SessionContent bool "session_view option" | LoginContent session_view
| ConfigContent panel_snapshot | DraftContent draft | JobContent job_view | TelemetryContent telemetry_view
| ReadingsContent "reading list" | SensorsContent sensor_reading | OpticsContent "optic_reading list"
| DiagnosticsContent port_optics_view | ScanContent string eye_scan | HistoryContent "history_entry list"
| JsonContent json | PreflightContent "preflight_problem + preflight_report" | InjectedContent "string option" bool

datatype cookie_change = KeepCookie | SetCookie text_points bool | DropCookie

record response =
  rs_status :: int
  rs_code :: string
  rs_content :: content
  rs_cookie :: cookie_change
  rs_headers :: "(string \<times> string) list"

datatype helper_reply = NoReply | Refused int | Answer json

record moment =
  at_now :: int
  at_mono :: int
  at_id :: string
  at_secrets :: fresh_secrets
  at_write :: write_outcome
  at_maintenance :: bool
  at_reply :: helper_reply

datatype helper_call = UpdateCall string json | TimeCall "string list option"

record 's site =
  st_backend :: "'s backend"
  st_codec :: codec
  st_digest :: password_digest
  st_mode :: string
  st_secure :: bool
  st_manual :: "int \<Rightarrow> int \<Rightarrow> ('s, hw_error, json) action"
  st_clear :: "int option \<Rightarrow> int option \<Rightarrow> ('s, hw_error, json) action"
  st_operational :: "int \<Rightarrow> string \<Rightarrow> ('s, hw_error, json) action"
  st_inject :: "string option \<Rightarrow> bool \<Rightarrow> 's \<Rightarrow> 's"

record 's web =
  wb_panel :: "'s panel"
  wb_auth :: auth_state
  wb_calls :: "helper_call list"
  wb_time_servers :: "string list"

text \<open>What ends a request early: an \<^verbatim>\<open>HTTPException\<close>, an error of the parts below, any other exception.\<close>

datatype web_error = Http int | FromPanel panel_fault | Coded string int | AccountUncertain | Unhandled

type_synonym ('s, 'a) web_action = "('s web, web_error, 'a) action"

definition on_panel :: "('s, 'a) panel_action \<Rightarrow> ('s, 'a) web_action" where
  "on_panel m = (\<lambda>s. case m (wb_panel s) of (r, p) \<Rightarrow> (map_sum FromPanel id r, s\<lparr>wb_panel := p\<rparr>))"

definition on_auth :: "(auth_error \<Rightarrow> web_error) \<Rightarrow> 'a auth_action \<Rightarrow> ('s, 'a) web_action" where
  "on_auth f m = (\<lambda>s. case m (wb_auth s) of (r, a) \<Rightarrow> (map_sum f id r, s\<lparr>wb_auth := a\<rparr>))"

subsection \<open>Routes\<close>

datatype access = Open | SignedIn | Writer

fun access_of :: "endpoint \<Rightarrow> access" where
  "access_of Health = Open"
| "access_of AuthSession = Open"
| "access_of (SetupAccount _) = Open"
| "access_of (LogIn _) = Open"
| "access_of (SimulationFault _) = Writer"
| "access_of LogOut = Writer"
| "access_of (ChangeAccount _) = Writer"
| "access_of RecoverControl = Writer"
| "access_of (CheckRoce _) = Writer"
| "access_of (PreviewChange _ _) = Writer"
| "access_of (CommitChange _ _ _) = Writer"
| "access_of (FinishJob _ _) = Writer"
| "access_of (StartScan _ _) = Writer"
| "access_of (CancelScan _) = Writer"
| "access_of (ManualFan _ _) = Writer"
| "access_of (ClearFdb _) = Writer"
| "access_of (RestoreBackup _) = Writer"
| "access_of (UpdateCheck _) = Writer"
| "access_of (UpdateInstall _) = Writer"
| "access_of (SyncTime _) = Writer"
| "access_of (RejectLayerThree _) = Writer"
| "access_of _ = SignedIn"

text \<open>The endpoints with a method among POST, PUT, PATCH and DELETE.\<close>

definition writing :: "endpoint \<Rightarrow> bool" where
  "writing ep \<longleftrightarrow> access_of ep = Writer \<or> (case ep of SetupAccount _ \<Rightarrow> True | LogIn _ \<Rightarrow> True | _ \<Rightarrow> False)"

fun success_status :: "endpoint \<Rightarrow> int" where
  "success_status RecoverControl = 202"
| "success_status (CommitChange _ _ _) = 202"
| "success_status (StartScan _ _) = 202"
| "success_status (CancelScan _) = 202"
| "success_status (ManualFan _ _) = 202"
| "success_status (ClearFdb _) = 202"
| "success_status (UpdateInstall _) = 202"
| "success_status _ = 200"

text \<open>The paths that stay writable during maintenance: \<^verbatim>\<open>/api/v1/updates/...\<close> and the logout.\<close>

definition allowed_in_maintenance :: "endpoint \<Rightarrow> bool" where
  "allowed_in_maintenance ep \<longleftrightarrow> (case ep of UpdateCheck _ \<Rightarrow> True | UpdateInstall _ \<Rightarrow> True | LogOut \<Rightarrow> True | _ \<Rightarrow> False)"

subsection \<open>Guards\<close>

definition strip_slashes :: "string \<Rightarrow> string" where
  "strip_slashes s = rev (dropWhile (\<lambda>c. c = CHR ''/'') (rev s))"

text \<open>The first middleware: the answer it gives itself, if any.\<close>

definition early_refusal :: "request \<Rightarrow> int option" where
  "early_refusal r =
     (if writing (hr_endpoint r) \<and> (case hr_origin r of None \<Rightarrow> False
         | Some origin \<Rightarrow> origin \<noteq> [] \<and> strip_slashes origin \<noteq> strip_slashes (hr_base_url r)) then Some 403
      else case hr_length r of
        None \<Rightarrow> None
      | Some text \<Rightarrow> if text = [] then None
          else (case py_int text of None \<Rightarrow> Some 400 | Some n \<Rightarrow> if n > 2000000 then Some 413 else None))"

definition quoted :: "string \<Rightarrow> string" where
  "quoted s = CHR 0x27 # s @ [CHR 0x27]"

definition security_headers :: "(string \<times> string) list" where
  "security_headers = [(''X-Content-Type-Options'', ''nosniff''), (''X-Frame-Options'', ''DENY''),
     (''Referrer-Policy'', ''same-origin''),
     (''Content-Security-Policy'', ''default-src '' @ quoted ''self'' @ ''; style-src '' @ quoted ''self'' @ '' '' @ quoted ''unsafe-inline''
        @ ''; img-src '' @ quoted ''self'' @ '' data:; connect-src '' @ quoted ''self'' @ ''; frame-ancestors '' @ quoted ''none''
        @ ''; base-uri '' @ quoted ''self''),
     (''Cache-Control'', ''no-store'')]"

definition signed_in :: "moment \<Rightarrow> request \<Rightarrow> ('s, session_view) web_action" where
  "signed_in mt r = (case hr_cookie r of None \<Rightarrow> raise_error (Http 401)
     | Some token \<Rightarrow> bind_action (on_auth (\<lambda>_. Unhandled) (session_of (at_mono mt) (at_now mt) token)) (\<lambda>v.
         case v of None \<Rightarrow> raise_error (Http 401) | Some seen \<Rightarrow> ret seen))"

definition maintenance :: "'s site \<Rightarrow> moment \<Rightarrow> bool" where
  "maintenance st mt \<longleftrightarrow> st_mode st = ''netlab'' \<and> at_maintenance mt"

text \<open>\<^verbatim>\<open>hmac.compare_digest\<close> of two \<^verbatim>\<open>str\<close> raises \<^verbatim>\<open>TypeError\<close> when one is not ASCII.\<close>

definition writer :: "'s site \<Rightarrow> moment \<Rightarrow> request \<Rightarrow> ('s, session_view) web_action" where
  "writer st mt r = bind_action (signed_in mt r) (\<lambda>user.
     if \<not> list_all (\<lambda>n. n < 128) (hr_csrf r @ sv_csrf user) then raise_error Unhandled
     else if hr_csrf r \<noteq> sv_csrf user then raise_error (Http 403)
     else if maintenance st mt \<and> \<not> allowed_in_maintenance (hr_endpoint r) then raise_error (Http 423)
     else ret user)"

definition granted :: "'s site \<Rightarrow> moment \<Rightarrow> request \<Rightarrow> ('s, session_view option) web_action" where
  "granted st mt r = (case access_of (hr_endpoint r) of
     Open \<Rightarrow> ret None
   | SignedIn \<Rightarrow> bind_action (signed_in mt r) (\<lambda>u. ret (Some u))
   | Writer \<Rightarrow> bind_action (writer st mt r) (\<lambda>u. ret (Some u)))"

subsection \<open>Handlers\<close>

definition actor_of :: "session_view option \<Rightarrow> string" where
  "actor_of user = (case user of None \<Rightarrow> [] | Some u \<Rightarrow> map (\<lambda>n. char_of (nat n)) (sv_username u))"

definition answer :: "('a \<Rightarrow> content) \<Rightarrow> ('s, 'a) panel_action \<Rightarrow> ('s, content \<times> cookie_change) web_action" where
  "answer f m = bind_action (on_panel m) (\<lambda>a. ret (f a, KeepCookie))"

definition plain :: "content \<Rightarrow> ('s, content \<times> cookie_change) web_action" where
  "plain c = ret (c, KeepCookie)"

definition login_response :: "'s site \<Rightarrow> text_points \<times> session_view \<Rightarrow> content \<times> cookie_change" where
  "login_response st v = (LoginContent (snd v), SetCookie (fst v) (st_secure st))"

definition client_of :: "request \<Rightarrow> string" where
  "client_of r = (case hr_client r of None \<Rightarrow> ''local'' | Some host \<Rightarrow> host)"

fun login_fault :: "auth_error \<Rightarrow> web_error" where
  "login_fault TooManyAttempts = Http 429"
| "login_fault _ = Http 401"

fun setup_fault :: "auth_error \<Rightarrow> web_error" where
  "setup_fault AlreadyInitialized = Http 409"
| "setup_fault _ = Unhandled"

fun account_fault :: "auth_error \<Rightarrow> web_error" where
  "account_fault SessionExpired = Http 401"
| "account_fault WriteUncertain = AccountUncertain"
| "account_fault TooManyAttempts = Http 429"
| "account_fault WrongPassword = Http 400"
| "account_fault NothingChanged = Http 400"
| "account_fault _ = Unhandled"

text \<open>The simulated faults; a phase that cannot be hashed is a \<^verbatim>\<open>TypeError\<close>.\<close>

definition FAULT_PHASES :: "string list" where
  "FAULT_PHASES = [''quiesce_protocols'', ''disable_group'', ''set_ethernet_mode'', ''restore_group_configuration'',
     ''verify_group'', ''resume_protocols'', ''fan_write'', ''apply_l2'', ''readback'']"

definition phase_of :: "json \<Rightarrow> string option" where
  "phase_of v = find (\<lambda>p. v = jstr p) FAULT_PHASES"

definition simulation_fault :: "'s site \<Rightarrow> json \<Rightarrow> ('s, content \<times> cookie_change) web_action" where
  "simulation_fault st body =
     (let phase = jget body ''phase''; sensor = member_or body ''sensor_error'' (JBool False) in
      if set (map fst (entries body)) - {''phase'', ''sensor_error''} \<noteq> {} then raise_error (Http 422)
      else if is_list phase \<or> is_object phase then raise_error Unhandled
      else if phase \<noteq> JNull \<and> phase_of phase = None then raise_error (Http 422)
      else (case sensor of
          JBool b \<Rightarrow> answer (\<lambda>_. InjectedContent (phase_of phase) b)
            (scheduled (modify_state (\<lambda>s. s\<lparr>pn_backend := st_inject st (phase_of phase) b (pn_backend s)\<rparr>)))
        | _ \<Rightarrow> raise_error (Http 422)))"

definition check_roce :: "'s site \<Rightarrow> moment \<Rightarrow> json \<Rightarrow> ('s, content \<times> cookie_change) web_action" where
  "check_roce st mt body = bind_action (on_panel (config (st_backend st) (at_now mt) (at_mono mt))) (\<lambda>current.
     if \<not> py_eq (jget body ''expected_revision'') (JInt (ps_revision current)) then raise_error (FromPanel (Panel StaleRevision))
     else if \<not> is_object (jget body ''configuration'') then raise_error (Http 422)
     else plain (PreflightContent (preflight (cx_load (st_codec st)) (jget body ''configuration''))))"

definition in_range :: "int \<Rightarrow> int \<Rightarrow> json \<Rightarrow> bool" where
  "in_range low high v \<longleftrightarrow> v = JNull \<or> int_between low high v"

definition int_option :: "json \<Rightarrow> int option" where
  "int_option v = (case v of JInt n \<Rightarrow> Some n | _ \<Rightarrow> None)"

definition run_operation ::
  "moment \<Rightarrow> string \<Rightarrow> ('s, hw_error, json) action \<Rightarrow> session_view option \<Rightarrow> ('s, content \<times> cookie_change) web_action" where
  "run_operation mt kind body user =
     answer (\<lambda>_. NoContent) (operation_request (at_now mt) (at_id mt) kind body (actor_of user))"

definition clear_dynamic :: "'s site \<Rightarrow> moment \<Rightarrow> json \<Rightarrow> session_view option \<Rightarrow> ('s, content \<times> cookie_change) web_action" where
  "clear_dynamic st mt body user =
     (if set (map fst (entries body)) - {''port'', ''vlan''} \<noteq> {} then raise_error (Http 422)
      else if \<not> in_range 1 24 (jget body ''port'') \<or> \<not> in_range 1 4094 (jget body ''vlan'') then raise_error (Http 422)
      else run_operation mt ''clear_dynamic_fdb'' (st_clear st (int_option (jget body ''port'')) (int_option (jget body ''vlan''))) user)"

definition FEATURES :: "string list" where
  "FEATURES = [''fdb'', ''lldp'', ''lags'', ''rstp'', ''igmp'', ''roce'']"

definition feature_report :: "'s site \<Rightarrow> moment \<Rightarrow> string \<Rightarrow> ('s, content \<times> cookie_change) web_action" where
  "feature_report st mt feature =
     (if feature \<notin> set FEATURES then raise_error (Http 404)
      else answer JsonContent (scheduled (on_backend (st_operational st (at_now mt) feature))))"

text \<open>\<^verbatim>\<open>history[-720::6]\<close>\<close>

fun every :: "nat \<Rightarrow> 'a list \<Rightarrow> 'a list" where
  "every k [] = []"
| "every k (x # xs) = x # every k (drop (k - 1) xs)"

definition sensor_history :: "('s, history_entry list) panel_action" where
  "sensor_history = with_state (\<lambda>s. ret (every 6 (py_last 720 (pn_history s))))"

definition download_scan :: "'s site \<Rightarrow> moment \<Rightarrow> text_points \<Rightarrow> string \<Rightarrow> ('s, content \<times> cookie_change) web_action" where
  "download_scan st mt ident form =
     (if form \<noteq> ''json'' \<and> form \<noteq> ''csv'' then raise_error (Http 422)
      else answer (ScanContent form) (read_eye (st_backend st) (at_now mt) (Some ident)))"

subsection \<open>Updates and time\<close>

text \<open>\<^verbatim>\<open>UpdateClient.request\<close>: only a status is answered without the helper.\<close>

definition unavailable_update :: json where
  "unavailable_update = JObj [(''enabled'', JBool False), (''state'', jstr ''unavailable''), (''component'', jstr ''native+web''),
     (''candidate'', JNull), (''job'', JNull)]"

definition update_request :: "'s site \<Rightarrow> moment \<Rightarrow> string \<Rightarrow> json \<Rightarrow> ('s, json) web_action" where
  "update_request st mt action body =
     (if st_mode st = ''mock''
      then (if action = ''status'' then ret unavailable_update else raise_error (Coded ''update_error'' 409))
      else then_action (modify_state (\<lambda>s. s\<lparr>wb_calls := wb_calls s @ [UpdateCall action body]\<rparr>))
        (case at_reply mt of
           NoReply \<Rightarrow> if action = ''status'' then ret unavailable_update else raise_error (Coded ''update_error'' 503)
         | Refused status \<Rightarrow> raise_error (Coded ''update_error'' status)
         | Answer v \<Rightarrow> ret v))"

definition unfinished :: "job_state \<Rightarrow> bool" where
  "unfinished st \<longleftrightarrow> st \<in> {JobQueued, JobRunning, JobAwaiting}"

definition jobs_unfinished :: "'s panel \<Rightarrow> bool" where
  "jobs_unfinished p \<longleftrightarrow> list_ex (\<lambda>(_, j). unfinished (jb_state j)) (pn_jobs p)"

definition install_update :: "'s site \<Rightarrow> moment \<Rightarrow> json \<Rightarrow> ('s, content \<times> cookie_change) web_action" where
  "install_update st mt body =
     (if set (map fst (entries body)) \<noteq> {''version'', ''manifest_sha256'', ''confirm_restart''}
        \<or> jget body ''confirm_restart'' \<noteq> JBool True then raise_error (Http 422)
      else bind_action (on_panel (config (st_backend st) (at_now mt) (at_mono mt))) (\<lambda>current. with_state (\<lambda>s.
        if pn_busy (wb_panel s) \<noteq> None \<or> ps_pending current \<noteq> None \<or> jobs_unfinished (wb_panel s)
        then raise_error (Coded ''conflict'' 409)
        else bind_action (update_request st mt ''install'' body) (\<lambda>v. plain (JsonContent v)))))"

definition check_update :: "'s site \<Rightarrow> moment \<Rightarrow> json \<Rightarrow> ('s, content \<times> cookie_change) web_action" where
  "check_update st mt body = (if entries body \<noteq> [] then raise_error (Http 422)
     else bind_action (update_request st mt ''check'' (JObj [])) (\<lambda>v. plain (JsonContent v)))"

definition time_request :: "'s site \<Rightarrow> moment \<Rightarrow> string list option \<Rightarrow> bool \<Rightarrow> ('s, json) web_action" where
  "time_request st mt servers sync =
     (if st_mode st = ''mock''
      then then_action (modify_state (\<lambda>s. if sync then s\<lparr>wb_time_servers := (case servers of None \<Rightarrow> wb_time_servers s
          | Some names \<Rightarrow> if names = [] then wb_time_servers s else names)\<rparr> else s))
        (with_state (\<lambda>s. ret (JObj [(''servers'', JList (map jstr (wb_time_servers s))), (''state'', jstr ''simulated'')])))
      else then_action (modify_state (\<lambda>s. if sync then s\<lparr>wb_calls := wb_calls s @ [TimeCall servers]\<rparr> else s))
        (case at_reply mt of Answer v \<Rightarrow> ret v | _ \<Rightarrow> raise_error (Coded ''time_sync_error'' 503)))"

definition synchronize_time :: "'s site \<Rightarrow> moment \<Rightarrow> string list option \<Rightarrow> ('s, content \<times> cookie_change) web_action" where
  "synchronize_time st mt servers =
     bind_action (on_panel (scheduled (on_backend (bk_snapshot (st_backend st) (at_now mt))))) (\<lambda>current. with_state (\<lambda>s.
       if ps_pending current \<noteq> None \<or> jobs_unfinished (wb_panel s) then raise_error (Coded ''pending_operation'' 409)
       else bind_action (time_request st mt servers True) (\<lambda>v.
         then_action (modify_state (\<lambda>s. s\<lparr>wb_panel := (wb_panel s)\<lparr>pn_last_sensor := 0\<rparr>\<rparr>)) (plain (JsonContent v)))))"

subsection \<open>Serving a request\<close>

definition account_handler ::
  "'s site \<Rightarrow> moment \<Rightarrow> request \<Rightarrow> endpoint \<Rightarrow> ('s, content \<times> cookie_change) web_action" where
  "account_handler st mt r ep = (let f = at_secrets mt; now = at_mono mt; wall = at_now mt in case ep of
     SetupAccount c \<Rightarrow> bind_action (on_auth setup_fault (setup_account (st_digest st) now wall f (at_write mt) c))
       (\<lambda>v. ret (login_response st v))
   | LogIn c \<Rightarrow> bind_action (on_auth login_fault (login (st_digest st) now wall f c (client_of r))) (\<lambda>v. ret (login_response st v))
   | ChangeAccount u \<Rightarrow> bind_action (on_auth account_fault (update_administrator (st_digest st) now wall f (at_write mt)
       (case hr_cookie r of None \<Rightarrow> [] | Some token \<Rightarrow> token) u (client_of r))) (\<lambda>v. ret (login_response st v))
   | LogOut \<Rightarrow> then_action (on_auth (\<lambda>_. Unhandled) (logout (case hr_cookie r of None \<Rightarrow> [] | Some token \<Rightarrow> token)))
       (ret (NoContent, DropCookie))
   | _ \<Rightarrow> with_state (\<lambda>s. let initialized = au_account (wb_auth s) \<noteq> None in case hr_cookie r of
       None \<Rightarrow> plain (SessionContent initialized None)
     | Some token \<Rightarrow> bind_action (on_auth (\<lambda>_. Unhandled) (session_of now wall token)) (\<lambda>v. plain (SessionContent initialized v))))"

definition telemetry_part :: "endpoint \<Rightarrow> telemetry_view \<Rightarrow> content" where
  "telemetry_part ep v = (case ep of TelemetryPorts \<Rightarrow> ReadingsContent (tm_ports v) | TelemetrySensors \<Rightarrow> SensorsContent (tm_sensors v)
     | TelemetryOptics \<Rightarrow> OpticsContent (tm_optics v) | _ \<Rightarrow> TelemetryContent v)"

definition panel_handler ::
  "'s site \<Rightarrow> moment \<Rightarrow> session_view option \<Rightarrow> endpoint \<Rightarrow> ('s, content \<times> cookie_change) web_action" where
  "panel_handler st mt user ep =
     (let bk = st_backend st; cx = st_codec st; now = at_now mt; mono_now = at_mono mt; actor = actor_of user in case ep of
        Health \<Rightarrow> with_state (\<lambda>s. plain (HealthContent (pn_last_error (wb_panel s) = None)))
      | SimulationFault body \<Rightarrow> simulation_fault st body
      | Capabilities \<Rightarrow> answer ConfigContent (config bk now mono_now)
      | System \<Rightarrow> answer ConfigContent (config bk now mono_now)
      | ReadConfig \<Rightarrow> answer ConfigContent (config bk now mono_now)
      | RecoverControl \<Rightarrow> answer (\<lambda>_. NoContent) (recover_control bk now (at_id mt) actor)
      | CheckRoce body \<Rightarrow> check_roce st mt body
      | PreviewChange expected c \<Rightarrow> answer DraftContent (preview bk (cx_dump cx) (cx_load cx) now (at_id mt) expected c)
      | CommitChange draft_id timeout accept \<Rightarrow> answer JobContent (commit now mono_now (at_id mt) draft_id timeout accept actor)
      | ReadJob ident \<Rightarrow> answer JobContent (job_status mono_now ident)
      | FinishJob ident confirming \<Rightarrow> answer ConfigContent (finish bk now mono_now ident confirming actor)
      | PortDiagnostics port \<Rightarrow> answer DiagnosticsContent (port_optics now mono_now port)
      | StartScan port scan \<Rightarrow> answer (ScanContent ''json'') (start_eye bk now port scan actor)
      | LatestScan \<Rightarrow> answer (ScanContent ''json'') (read_eye bk now None)
      | ReadScan ident \<Rightarrow> answer (ScanContent ''json'') (read_eye bk now (Some ident))
      | CancelScan ident \<Rightarrow> answer (ScanContent ''json'') (cancel_eye bk now ident actor)
      | DownloadScan ident form \<Rightarrow> download_scan st mt ident form
      | SensorHistory \<Rightarrow> answer HistoryContent sensor_history
      | ManualFan percent seconds \<Rightarrow> run_operation mt ''manual_pwm'' (st_manual st percent seconds) user
      | OperationalReport feature \<Rightarrow> feature_report st mt feature
      | ClearFdb body \<Rightarrow> clear_dynamic st mt body user
      | ExportBackup \<Rightarrow> answer JsonContent (backup bk (cx_dump cx) (cx_digest cx) now mono_now)
      | RestoreBackup body \<Rightarrow> answer DraftContent (restore_preview bk (cx_dump cx) (cx_load cx) (cx_digest cx) now mono_now (at_id mt) body)
      | UpdateStatus \<Rightarrow> bind_action (update_request st mt ''status'' (JObj [])) (\<lambda>v. plain (JsonContent v))
      | UpdateCheck body \<Rightarrow> check_update st mt body
      | UpdateInstall body \<Rightarrow> install_update st mt body
      | SystemTime \<Rightarrow> bind_action (time_request st mt None False) (\<lambda>v. plain (JsonContent v))
      | SyncTime servers \<Rightarrow> synchronize_time st mt servers
      | RejectLayerThree _ \<Rightarrow> raise_error (Http 501)
      | Logs \<Rightarrow> plain NoContent
      | LayerThree \<Rightarrow> plain NoContent
      | _ \<Rightarrow> answer (telemetry_part ep) (telemetry now))"

definition account_endpoint :: "endpoint \<Rightarrow> bool" where
  "account_endpoint ep \<longleftrightarrow> (case ep of SetupAccount _ \<Rightarrow> True | LogIn _ \<Rightarrow> True | ChangeAccount _ \<Rightarrow> True
     | LogOut \<Rightarrow> True | AuthSession \<Rightarrow> True | _ \<Rightarrow> False)"

text \<open>The simulation endpoint exists in mock mode only.\<close>

definition registered :: "'s site \<Rightarrow> endpoint \<Rightarrow> bool" where
  "registered st ep \<longleftrightarrow> (case ep of SimulationFault _ \<Rightarrow> st_mode st = ''mock'' | _ \<Rightarrow> True)"

definition respond :: "'s site \<Rightarrow> moment \<Rightarrow> request \<Rightarrow> ('s, content \<times> cookie_change) web_action" where
  "respond st mt r = (let ep = hr_endpoint r in
     if \<not> registered st ep then raise_error (Http 404)
     else bind_action (granted st mt r) (\<lambda>user.
       if account_endpoint ep then account_handler st mt r ep else panel_handler st mt user ep))"

fun fault_status :: "panel_fault \<Rightarrow> int \<times> string" where
  "fault_status (Panel e) = (error_status e, error_code e)"
| "fault_status (Hardware e) = (if is_hardware_error e then (503, ''hardware_error'') else (500, []))"
| "fault_status (Invalid _) = (422, ''validation_error'')"
| "fault_status (Scan UnhashableValue) = (500, [])"
| "fault_status (Scan _) = (503, ''hardware_error'')"
| "fault_status NoSuchGroup = (500, [])"

fun error_response :: "web_error \<Rightarrow> int \<times> string" where
  "error_response (Http n) = (n, [])"
| "error_response (FromPanel e) = fault_status e"
| "error_response (Coded code n) = (n, code)"
| "error_response AccountUncertain = (503, ''account_write_uncertain'')"
| "error_response Unhandled = (500, [])"

text \<open>An exception nobody handles leaves the middleware before it adds its headers.\<close>

definition serve :: "'s site \<Rightarrow> moment \<Rightarrow> request \<Rightarrow> 's web \<Rightarrow> response \<times> 's web" where
  "serve st mt r s = (case early_refusal r of
     Some n \<Rightarrow> (\<lparr>rs_status = n, rs_code = [], rs_content = NoContent, rs_cookie = KeepCookie, rs_headers = []\<rparr>, s)
   | None \<Rightarrow> (case respond st mt r s of
       (Inl e, t) \<Rightarrow> (\<lparr>rs_status = fst (error_response e), rs_code = snd (error_response e), rs_content = NoContent,
         rs_cookie = KeepCookie, rs_headers = (if fst (error_response e) = 500 then [] else security_headers)\<rparr>, t)
     | (Inr (c, k), t) \<Rightarrow> (\<lparr>rs_status = success_status (hr_endpoint r), rs_code = [], rs_content = c, rs_cookie = k,
         rs_headers = security_headers\<rparr>, t)))"

end
