(* ===== verification/Web_Properties.thy ===== *)
theory Web_Properties
  imports Web
begin

text \<open>What the interface lets through: authority for every write, and an idle panel for an update.\<close>

subsection \<open>Authority\<close>

definition session_live :: "moment \<Rightarrow> request \<Rightarrow> 's web \<Rightarrow> bool" where
  "session_live mt r s \<longleftrightarrow> (case hr_cookie r of None \<Rightarrow> False | Some token \<Rightarrow>
     (case map_of (au_sessions (wb_auth s)) token of None \<Rightarrow> False | Some v \<Rightarrow> at_mono mt < ss_deadline v))"

definition token_matches :: "request \<Rightarrow> 's web \<Rightarrow> bool" where
  "token_matches r s \<longleftrightarrow> (case hr_cookie r of None \<Rightarrow> False | Some token \<Rightarrow>
     (case map_of (au_sessions (wb_auth s)) token of None \<Rightarrow> False | Some v \<Rightarrow> hr_csrf r = ss_csrf v))"

definition same_site :: "request \<Rightarrow> bool" where
  "same_site r \<longleftrightarrow> (case hr_origin r of None \<Rightarrow> True
     | Some origin \<Rightarrow> origin = [] \<or> strip_slashes origin = strip_slashes (hr_base_url r))"

definition authorised :: "'s site \<Rightarrow> moment \<Rightarrow> request \<Rightarrow> 's web \<Rightarrow> bool" where
  "authorised st mt r s \<longleftrightarrow> (case access_of (hr_endpoint r) of
     Open \<Rightarrow> True
   | SignedIn \<Rightarrow> session_live mt r s
   | Writer \<Rightarrow> session_live mt r s \<and> token_matches r s \<and> same_site r
       \<and> (maintenance st mt \<longrightarrow> allowed_in_maintenance (hr_endpoint r)))"

text \<open>Nothing changed, except that the session the request itself names may be gone when it had expired.\<close>

definition untouched :: "moment \<Rightarrow> request \<Rightarrow> 's web \<Rightarrow> 's web \<Rightarrow> bool" where
  "untouched mt r s t \<longleftrightarrow> wb_panel t = wb_panel s \<and> wb_calls t = wb_calls s \<and> wb_time_servers t = wb_time_servers s
     \<and> au_account (wb_auth t) = au_account (wb_auth s) \<and> au_failures (wb_auth t) = au_failures (wb_auth s)
     \<and> (au_sessions (wb_auth t) = au_sessions (wb_auth s)
        \<or> (\<exists>token v. hr_cookie r = Some token \<and> map_of (au_sessions (wb_auth s)) token = Some v
             \<and> ss_deadline v \<le> at_mono mt
             \<and> au_sessions (wb_auth t) = filter (\<lambda>e. fst e \<noteq> token) (au_sessions (wb_auth s))))"

lemma untouched_refl [simp]: "untouched mt r s s"
  by (simp add: untouched_def)

lemma signed_in_run:
  assumes "signed_in mt r s = (q, t)"
  shows "untouched mt r s t \<and> (case q of
      Inl e \<Rightarrow> e = Http 401 \<and> \<not> session_live mt r s
    | Inr user \<Rightarrow> t = s \<and> session_live mt r s \<and> (token_matches r s \<longleftrightarrow> hr_csrf r = sv_csrf user))"
  using assms
  by (auto simp: signed_in_def on_auth_def session_of_def monad_simps untouched_def session_live_def token_matches_def
      public_session_def dict_del_def split: option.splits if_splits)

lemma granted_run:
  assumes "granted st mt r s = (q, t)" and "early_refusal r = None"
  shows "untouched mt r s t \<and> (case q of
      Inl e \<Rightarrow> e \<in> {Http 401, Http 403, Http 423, Unhandled}
    | Inr user \<Rightarrow> t = s \<and> authorised st mt r s)"
proof (cases "access_of (hr_endpoint r)")
  case Open
  with assms show ?thesis by (auto simp: granted_def monad_simps authorised_def)
next
  case SignedIn
  obtain q' u where run: "signed_in mt r s = (q', u)" by (cases "signed_in mt r s")
  with assms(1) SignedIn signed_in_run [OF run] show ?thesis
    by (cases q') (auto simp: granted_def monad_simps authorised_def)
next
  case Writer
  obtain q' u where run: "signed_in mt r s = (q', u)" by (cases "signed_in mt r s")
  have site: "same_site r"
    using assms(2) Writer by (auto simp: early_refusal_def writing_def same_site_def split: if_splits option.splits)
  from assms(1) Writer signed_in_run [OF run] run site show ?thesis
    by (cases q') (auto simp: granted_def writer_def monad_simps authorised_def split: if_splits)
qed

lemma error_response_status: "e \<in> {Http 401, Http 403, Http 423, Unhandled} \<Longrightarrow> fst (error_response e) \<in> {401, 403, 423, 500}"
  by auto

text \<open>C11: no effect without authority. A request to an endpoint that is not open is authorised when it
  carries the cookie of a live session and, for a write, the CSRF token of that session, comes from the
  panel's own site and, during maintenance, concerns the update itself. Any request that is not
  authorised is refused with an error status and an empty answer and leaves the panel, the
  administrator, the failure counts, the helper services and all sessions as they were; only the
  session that the request itself names is forgotten when it had already expired.\<close>

theorem refused_without_authority:
  assumes "serve st mt r s = (resp, t)" and "\<not> authorised st mt r s"
  shows "untouched mt r s t \<and> 400 \<le> rs_status resp \<and> rs_content resp = NoContent \<and> rs_cookie resp = KeepCookie"
proof (cases "early_refusal r")
  case (Some n)
  then have "400 \<le> n" by (auto simp: early_refusal_def split: if_splits option.splits)
  with Some assms(1) show ?thesis by (auto simp: serve_def)
next
  case None
  show ?thesis
  proof (cases "registered st (hr_endpoint r)")
    case False
    with None assms(1) show ?thesis by (auto simp: serve_def respond_def monad_simps Let_def)
  next
    case True
    obtain q u where run: "granted st mt r s = (q, u)" by (cases "granted st mt r s")
    from granted_run [OF run None] assms(2) obtain e where e: "q = Inl e" "untouched mt r s u" "e \<in> {Http 401, Http 403, Http 423, Unhandled}"
      by (cases q) auto
    with error_response_status [OF e(3)] None True run assms(1) show ?thesis
      by (auto simp: serve_def respond_def monad_simps Let_def)
  qed
qed

subsection \<open>Updates\<close>

text \<open>The action asks the helpers at most for what is in \<open>A\<close>.\<close>

definition asks :: "helper_call set \<Rightarrow> ('s, 'a) web_action \<Rightarrow> bool" where
  "asks A m \<longleftrightarrow> (\<forall>s q t. m s = (q, t) \<longrightarrow> set (wb_calls t) \<subseteq> set (wb_calls s) \<union> A)"

lemma asks_quiet: "(\<And>s. wb_calls (snd (m s)) = wb_calls s) \<Longrightarrow> asks A m"
  unfolding asks_def by (metis Un_upper1 snd_conv)

lemma asks_bind: "asks A m \<Longrightarrow> (\<And>a. asks A (f a)) \<Longrightarrow> asks A (bind_action m f)"
  unfolding asks_def by (fastforce simp: bind_apply split: prod.splits sum.splits)

lemma asks_then: "asks A m \<Longrightarrow> asks A k \<Longrightarrow> asks A (then_action m k)"
  unfolding then_action_def by (rule asks_bind)

lemma asks_state: "(\<And>s. asks A (f s)) \<Longrightarrow> asks A (with_state f)"
  unfolding asks_def by (simp add: with_state_apply)

lemma asks_basic: "asks A (ret a)" "asks A (raise_error e)" "asks A (plain c)" "asks A (on_panel m)" "asks A (on_auth f n)"
  by (rule asks_quiet, simp add: monad_simps plain_def on_panel_def on_auth_def split: prod.splits)+

lemma asks_answer: "asks A (answer f m)"
  unfolding answer_def by (intro asks_bind asks_basic)

lemma asks_update: "UpdateCall action body \<in> A \<Longrightarrow> asks A (update_request st mt action body)"
  unfolding asks_def
  by (auto simp: update_request_def monad_simps split: helper_reply.splits if_splits)

lemma asks_time: "(\<And>names. TimeCall names \<in> A) \<Longrightarrow> asks A (time_request st mt servers sync)"
  unfolding asks_def
  by (auto simp: time_request_def monad_simps split: helper_reply.splits if_splits)

definition harmless :: "helper_call set" where
  "harmless = {c. \<forall>body. c \<noteq> UpdateCall ''install'' body}"

lemma harmless_calls [simp]: "TimeCall names \<in> harmless" "UpdateCall action body \<in> harmless \<longleftrightarrow> action \<noteq> ''install''"
  by (auto simp: harmless_def)

lemma asks_account: "asks A (account_handler st mt r ep)"
  unfolding account_handler_def Let_def
  by (cases ep; simp; intro asks_bind asks_then asks_state asks_basic; simp split: option.splits; intro impI conjI allI asks_bind asks_basic)

lemma asks_panel:
  assumes "\<And>body. ep \<noteq> UpdateInstall body"
  shows "asks harmless (panel_handler st mt user ep)"
proof -
  note rules = asks_bind asks_then asks_state asks_basic asks_answer
  have quiet: "asks harmless (simulation_fault st body)" "asks harmless (check_roce st mt body)" "asks harmless (clear_dynamic st mt body user)"
    "asks harmless (feature_report st mt feature)" "asks harmless (download_scan st mt ident form)"
    "asks harmless (run_operation mt kind work_body user)" for body feature ident form kind work_body
    by (auto simp: simulation_fault_def check_roce_def clear_dynamic_def feature_report_def download_scan_def run_operation_def
        Let_def split: json.splits intro!: rules)
  have time: "asks harmless (synchronize_time st mt servers)" for servers
    unfolding synchronize_time_def
    by (auto intro!: rules asks_time) (rule asks_quiet, simp add: modify_apply)
  have check: "asks harmless (check_update st mt body)" for body
    by (auto simp: check_update_def intro!: rules asks_update)
  show ?thesis
    using assms by (cases ep) (auto simp: panel_handler_def Let_def intro!: rules quiet time check asks_update asks_time)
qed

lemma update_request_panel: "update_request st mt action body s = (q, t) \<Longrightarrow>
    wb_panel t = wb_panel s \<and> set (wb_calls t) \<subseteq> insert (UpdateCall action body) (set (wb_calls s))"
  by (auto simp: update_request_def monad_simps split: helper_reply.splits if_splits)

lemma install_run:
  assumes "install_update st mt body s = (q, t)" and "c \<in> set (wb_calls t)" and "c \<notin> set (wb_calls s)"
  shows "c = UpdateCall ''install'' body \<and> jget body ''confirm_restart'' = JBool True
    \<and> (\<exists>current. config (st_backend st) (at_now mt) (at_mono mt) (wb_panel s) = (Inr current, wb_panel t) \<and> ps_pending current = None)
    \<and> pn_busy (wb_panel t) = None \<and> \<not> jobs_unfinished (wb_panel t)"
proof (cases "config (st_backend st) (at_now mt) (at_mono mt) (wb_panel s)")
  case (Pair e p)
  let ?u = "s\<lparr>wb_panel := p\<rparr>"
  let ?rest = "bind_action (update_request st mt ''install'' body) (\<lambda>v. plain (JsonContent v)) ?u"
  let ?bad = "set (map fst (entries body)) \<noteq> {''version'', ''manifest_sha256'', ''confirm_restart''} \<or> jget body ''confirm_restart'' \<noteq> JBool True"
  have read: "on_panel (config (st_backend st) (at_now mt) (at_mono mt)) s = (map_sum FromPanel id e, ?u)"
    by (simp add: on_panel_def Pair)
  have unfolded: "install_update st mt body s = (if ?bad then (Inl (Http 422), s) else case e of
      Inl x \<Rightarrow> (Inl (FromPanel x), ?u)
    | Inr current \<Rightarrow> if pn_busy p \<noteq> None \<or> ps_pending current \<noteq> None \<or> jobs_unfinished p
        then (Inl (Coded ''conflict'' 409), ?u) else ?rest)"
    by (cases e) (simp_all add: install_update_def bind_apply [of "on_panel m" for m] read with_state_apply raise_apply)
  have kept: "wb_calls ?u = wb_calls s" by simp
  have good: "\<not> ?bad"
  proof
    assume "?bad"
    with unfolded assms(1) have "t = s" by (simp only: if_True prod.inject)
    with assms(2,3) show False by simp
  qed
  then have body: "jget body ''confirm_restart'' = JBool True" by blast
  note run1 = assms(1) [unfolded unfolded if_not_P [OF good]]
  obtain current where e: "e = Inr current"
  proof (cases e)
    case (Inl x)
    with run1 have "t = ?u" by simp
    with kept assms(2,3) show ?thesis by simp
  qed
  have idle: "pn_busy p = None" "ps_pending current = None" "\<not> jobs_unfinished p"
    using run1 kept assms(2,3) e by (auto split: if_splits)
  with run1 e have run: "?rest = (q, t)" by simp
  obtain q' t' where u: "update_request st mt ''install'' body ?u = (q', t')" by (cases "update_request st mt ''install'' body ?u")
  with run have "t' = t" by (cases q') (auto simp: bind_apply plain_def ret_apply)
  with update_request_panel [OF u] assms(2,3) Pair e idle body show ?thesis by auto
qed

lemma granted_asks: "asks A (granted st mt r)"
proof -
  have signed: "asks A (signed_in mt r)" unfolding signed_in_def
    by (cases "hr_cookie r") (auto intro!: asks_bind asks_basic split: option.split)
  then have "asks A (writer st mt r)" unfolding writer_def by (auto intro!: asks_bind asks_basic)
  with signed show ?thesis unfolding granted_def by (cases "access_of (hr_endpoint r)") (auto intro!: asks_bind asks_basic)
qed

text \<open>C29: an update starts on an idle panel only. The helper is asked to install only for an authorised request
  that confirms the restart, after a fresh reading of the authority shows no pending transaction, while
  no job is queued, running or waiting and none holds the panel.\<close>

theorem update_only_when_idle:
  assumes "serve st mt r s = (resp, t)" and "UpdateCall ''install'' body \<in> set (wb_calls t)"
    and "UpdateCall ''install'' body \<notin> set (wb_calls s)"
  shows "authorised st mt r s \<and> hr_endpoint r = UpdateInstall body \<and> jget body ''confirm_restart'' = JBool True
    \<and> (\<exists>current. config (st_backend st) (at_now mt) (at_mono mt) (wb_panel s) = (Inr current, wb_panel t) \<and> ps_pending current = None)
    \<and> pn_busy (wb_panel t) = None \<and> \<not> jobs_unfinished (wb_panel t)"
proof -
  let ?c = "UpdateCall ''install'' body" and ?ep = "hr_endpoint r"
  from assms obtain q where early: "early_refusal r = None" and run: "respond st mt r s = (q, t)"
    by (auto simp: serve_def split: option.splits prod.splits sum.splits)
  obtain g u where grant: "granted st mt r s = (g, u)" by (cases "granted st mt r s")
  from granted_asks [of "{}"] grant have calls: "set (wb_calls u) \<subseteq> set (wb_calls s)" unfolding asks_def by fastforce
  from run assms(2,3) calls grant obtain user where g: "g = Inr user"
    by (cases g) (auto simp: respond_def monad_simps Let_def split: if_splits)
  from granted_run [OF grant early] g have u: "u = s" "authorised st mt r s" by auto
  from run grant g u(1) assms(2,3)
  have body: "(if account_endpoint ?ep then account_handler st mt r ?ep else panel_handler st mt user ?ep) s = (q, t)"
    by (auto simp: respond_def monad_simps Let_def split: if_splits)
  show ?thesis
  proof (cases "\<exists>given. ?ep = UpdateInstall given")
    case True
    then obtain given where ep: "?ep = UpdateInstall given" by blast
    with body have "install_update st mt given s = (q, t)" by (simp add: account_endpoint_def panel_handler_def Let_def)
    from install_run [OF this assms(2,3)] ep u(2) show ?thesis by auto
  next
    case False
    then have "asks harmless (if account_endpoint ?ep then account_handler st mt r ?ep else panel_handler st mt user ?ep)"
      by (auto intro: asks_account asks_panel)
    with body assms(2,3) have "?c \<in> harmless" unfolding asks_def by blast
    then show ?thesis by simp
  qed
qed

subsection \<open>A site\<close>

definition idle_backend :: "unit backend" where
  "idle_backend = \<lparr>bk_snapshot = (\<lambda>_. ret \<lparr>ps_revision = 1, ps_configuration = default_configuration, ps_pending = None, ps_terminal = None\<rparr>),
     bk_ports = (\<lambda>_. ret []), bk_sensors = (\<lambda>_. raise_error BusLost), bk_optics = (\<lambda>_. ret []),
     bk_apply = (\<lambda>_ _ _ _ _. raise_error BusLost), bk_confirm = (\<lambda>_ _. raise_error NotAwaiting),
     bk_rollback = (\<lambda>_ _. raise_error NotAwaiting), bk_validate = None, bk_recover = None, bk_sample_roce = None,
     bk_phy = (\<lambda>_ _. raise_error BusLost), bk_eye_start = (\<lambda>_ _ _. raise_error EyeBusy), bk_eye_read = (\<lambda>_ _ _. raise_error EyeReplaced),
     bk_eye_cancel = (\<lambda>_ _. raise_error EyeReplaced), bk_close = ret ()\<rparr>"

definition demo_site :: "unit site" where
  "demo_site = \<lparr>st_backend = idle_backend,
     st_codec = \<lparr>cx_dump = (\<lambda>_. JNull), cx_load = (\<lambda>_. Inr default_configuration), cx_digest = (\<lambda>_. [])\<rparr>,
     st_digest = (\<lambda>password salt _. password @ salt), st_mode = ''netlab'', st_secure = True,
     st_manual = (\<lambda>_ _. ret JNull), st_clear = (\<lambda>_ _. ret JNull), st_operational = (\<lambda>_ _. ret JNull), st_inject = (\<lambda>_ _ s. s)\<rparr>"

definition demo_session :: session where
  "demo_session = \<lparr>ss_username = ascii ''admin'', ss_csrf = ascii ''c5'', ss_deadline = 1000\<rparr>"

definition demo_web :: "unit web" where
  "demo_web = \<lparr>wb_panel = new_panel (), wb_auth = new_auth\<lparr>au_sessions := [(ascii ''t1'', demo_session)]\<rparr>, wb_calls = [],
     wb_time_servers = []\<rparr>"

definition install_body :: json where
  "install_body = JObj [(''version'', jstr ''1.1.0''), (''manifest_sha256'', jstr ''m''), (''confirm_restart'', JBool True)]"

definition install_request :: "text_points \<Rightarrow> request" where
  "install_request csrf = \<lparr>hr_endpoint = UpdateInstall install_body, hr_origin = Some ''https://switch/'', hr_base_url = ''https://switch'',
     hr_length = Some ''80'', hr_cookie = Some (ascii ''t1''), hr_csrf = csrf, hr_client = None\<rparr>"

definition demo_moment :: moment where
  "demo_moment = \<lparr>at_now = 0, at_mono = 0, at_id = ''id'', at_secrets = \<lparr>fs_token = [], fs_csrf = [], fs_salt = []\<rparr>, at_write = Written,
     at_maintenance = False, at_reply = Answer JNull\<rparr>"

lemma refused_without_authority_witness:
  "\<not> authorised demo_site demo_moment (install_request (ascii ''guess'')) demo_web
   \<and> wb_calls (snd (serve demo_site demo_moment (install_request (ascii ''guess'')) demo_web)) = []"
proof -
  have no: "\<not> authorised demo_site demo_moment (install_request (ascii ''guess'')) demo_web" by code_simp
  obtain resp t where run: "serve demo_site demo_moment (install_request (ascii ''guess'')) demo_web = (resp, t)"
    by (cases "serve demo_site demo_moment (install_request (ascii ''guess'')) demo_web")
  from refused_without_authority [OF run no] run no show ?thesis by (simp add: untouched_def demo_web_def)
qed

lemma update_only_when_idle_witness:
  "\<exists>t. snd (serve demo_site demo_moment (install_request (ascii ''c5'')) demo_web) = t
     \<and> wb_calls t = [UpdateCall ''install'' install_body] \<and> \<not> jobs_unfinished (wb_panel t)
     \<and> authorised demo_site demo_moment (install_request (ascii ''c5'')) demo_web"
proof -
  obtain resp t where run: "serve demo_site demo_moment (install_request (ascii ''c5'')) demo_web = (resp, t)"
    by (cases "serve demo_site demo_moment (install_request (ascii ''c5'')) demo_web")
  have "wb_calls (snd (serve demo_site demo_moment (install_request (ascii ''c5'')) demo_web)) = [UpdateCall ''install'' install_body]"
    by code_simp
  with run have calls: "wb_calls t = [UpdateCall ''install'' install_body]" by simp
  then have asked: "UpdateCall ''install'' install_body \<in> set (wb_calls t)" by simp
  have fresh: "UpdateCall ''install'' install_body \<notin> set (wb_calls demo_web)" by (simp add: demo_web_def)
  from update_only_when_idle [OF run asked fresh] run calls show ?thesis by simp
qed

end
