(* ===== verification/Configd_Refinement.thy ===== *)
theory Configd_Refinement
  imports Configd_Properties
begin

text \<open>
  What the authority promises, as a ledger with three moves: a trial of a configuration begins, is kept
  before its deadline, or is undone. Every operation of the simulated authority refines it, whatever the
  bus does and whether the operation returns or raises.
\<close>

record trial =
  tl_job :: string
  tl_fallback :: switch_configuration
  tl_deadline :: int

record ledger =
  le_revision :: int
  le_active :: switch_configuration
  le_trial :: "trial option"
  le_outcome :: "transaction option"

inductive ledger_step :: "int \<Rightarrow> ledger \<Rightarrow> ledger \<Rightarrow> bool" for now where
  begin_trial: "le_trial l = None \<Longrightarrow> valid_configuration c \<Longrightarrow> ledger_step now l
     (l\<lparr>le_revision := le_revision l + 1, le_active := c,
        le_trial := Some \<lparr>tl_job = job, tl_fallback = le_active l, tl_deadline = now + 1000 * timeout\<rparr>\<rparr>)"
| keep_trial: "le_trial l = Some t \<Longrightarrow> now < tl_deadline t \<Longrightarrow> ledger_step now l
     (l\<lparr>le_trial := None, le_outcome := Some \<lparr>tr_job = tl_job t, tr_revision = le_revision l, tr_state = TxConfirmed\<rparr>\<rparr>)"
| undo_trial: "le_trial l = Some t \<Longrightarrow> ledger_step now l
     (l\<lparr>le_revision := le_revision l + 1, le_active := tl_fallback t, le_trial := None,
        le_outcome := Some \<lparr>tr_job = tl_job t, tr_revision = le_revision l, tr_state = TxRolledBack\<rparr>\<rparr>)"

abbreviation ledger_steps :: "int \<Rightarrow> ledger \<Rightarrow> ledger \<Rightarrow> bool" where
  "ledger_steps now \<equiv> (ledger_step now)\<^sup>*\<^sup>*"

definition trial_of :: "pending_commit \<Rightarrow> trial" where
  "trial_of p = \<lparr>tl_job = pd_job p, tl_fallback = pd_before p, tl_deadline = pd_deadline p\<rparr>"

definition ledger_of_image :: "image \<Rightarrow> ledger" where
  "ledger_of_image im = \<lparr>le_revision = im_revision im, le_active = im_configuration im,
     le_trial = map_option trial_of (im_pending im), le_outcome = im_last_transaction im\<rparr>"

definition ledger_of :: "configd \<Rightarrow> ledger" where
  "ledger_of s = ledger_of_image (image_of s)"

lemma ledger_same: "image_of t = image_of s \<Longrightarrow> ledger_of t = ledger_of s"
  by (simp add: ledger_of_def)

lemma ledger_still: "still s t \<Longrightarrow> ledger_of t = ledger_of s"
  by (rule ledger_same) (rule stillD(2))

lemma ledger_uncommitted: "uncommitted s t \<Longrightarrow> ledger_of t = ledger_of s"
  by (rule ledger_same) (simp add: uncommitted_def)

lemma ledger_rolled_back:
  assumes "cd_pending s = Some p" and "rolled_back s p t"
  shows "ledger_step now (ledger_of s) (ledger_of t)"
  using undo_trial [of "ledger_of s" "trial_of p" now] assms
  by (simp add: rolled_back_def ledger_of_def ledger_of_image_def trial_of_def)

lemma ledger_ticked:
  assumes "ticked now s t"
  shows "ledger_steps now (ledger_of s) (ledger_of t)"
proof (cases "due now s")
  case False
  with assms ledger_still [of s t] show ?thesis by (simp add: ticked_def)
next
  case True
  with assms obtain p m where p: "cd_pending s = Some p" "rolled_back s p m" "still m t" by (auto simp: ticked_def)
  from ledger_rolled_back [OF p(1,2)] ledger_still [OF p(3)] show ?thesis by auto
qed

lemma ledger_confirmed:
  assumes "configd_ok s" and "\<not> due now s" and "cd_pending s = Some p" and "still s m" and "confirmed m p u"
  shows "ledger_step now (ledger_of s) (ledger_of u)"
proof -
  have "now < tl_deadline (trial_of p)" using assms(1-3) by (auto simp: due_def trial_of_def configd_ok_def)
  moreover have "image_of m = image_of s" using stillD(2) [OF assms(4)] .
  moreover from this have "cd_revision m = cd_revision s" using image_of_eqD by blast
  ultimately show ?thesis
    using keep_trial [of "ledger_of s" "trial_of p" now] assms(3,5)
    by (simp add: confirmed_def ledger_of_def ledger_of_image_def trial_of_def)
qed

lemma ledger_applied:
  assumes "accepts m expected" and "applied now m c job timeout u" and "valid_configuration c"
  shows "ledger_step now (ledger_of m) (ledger_of u)"
  using begin_trial [of "ledger_of m" c now job timeout] assms
  by (simp add: accepts_def applied_def applied_image_def request_def ledger_of_def ledger_of_image_def trial_of_def)

lemma ledger_apply_failed: "apply_failed now m c job timeout e u \<Longrightarrow> ledger_of u = ledger_of m"
  by (rule ledger_same) (simp add: apply_failed_def)

text \<open>An action refines the ledger when it moves it by ledger steps only, returning or raising.\<close>

definition refines :: "int \<Rightarrow> configd \<Rightarrow> 'a configd_action \<Rightarrow> bool" where
  "refines now s m \<longleftrightarrow> wp m (\<lambda>_ t. ledger_steps now (ledger_of s) (ledger_of t)) (\<lambda>_ t. ledger_steps now (ledger_of s) (ledger_of t)) s"

lemma refines_trans:
  assumes "ledger_steps now (ledger_of s) (ledger_of m)" and "refines now m k"
  shows "wp k (\<lambda>_ t. ledger_steps now (ledger_of s) (ledger_of t)) (\<lambda>_ t. ledger_steps now (ledger_of s) (ledger_of t)) m"
  by (rule wp_mono [OF assms(2) [unfolded refines_def]]) (use assms(1) in \<open>auto intro: rtranclp_trans\<close>)

lemma refines_tick:
  assumes "configd_ok s" and "\<And>m. configd_ok m \<Longrightarrow> refines now m k"
  shows "refines now s (then_action (tick now) k)"
  unfolding refines_def wp_then
proof (rule wp_mono [OF wp_tick [OF assms(1)]])
  fix m assume m: "ticked now s m \<and> settled now m"
  then have "configd_ok m" using ticked_stepped [OF _ assms(1)] by (auto simp: stepped_def)
  from refines_trans [OF ledger_ticked assms(2) [OF this]] m
  show "wp k (\<lambda>_ t. ledger_steps now (ledger_of s) (ledger_of t)) (\<lambda>_ t. ledger_steps now (ledger_of s) (ledger_of t)) m" by blast
qed (use ledger_ticked ledger_uncommitted in fastforce)

lemma refines_still: "wp m (\<lambda>_. still s) (\<lambda>_. still s) s \<Longrightarrow> refines now s m"
  unfolding refines_def by (erule wp_mono) (simp_all add: ledger_still)

lemma refines_unstored: "wp m (\<lambda>_ t. image_of t = image_of s) (\<lambda>_ t. image_of t = image_of s) s \<Longrightarrow> refines now s m"
  unfolding refines_def by (erule wp_mono) (drule ledger_same, simp)+

lemma refines_forget: "refines now s (forget m) = refines now s m"
  by (simp add: refines_def wp_forget)

lemma refines_applied:
  assumes "ticked now s m" and "accepts m expected" and "applied now m c job timeout u" and "valid_configuration c"
  shows "ledger_steps now (ledger_of s) (ledger_of u)"
  using ledger_ticked [OF assms(1)] ledger_applied [OF assms(2-4)] by (rule rtranclp.rtrancl_into_rtrancl)

lemma refines_apply:
  assumes "configd_ok s" and "valid_configuration c"
  shows "refines now s (apply_configuration now c expected job timeout)"
  unfolding refines_def
proof (rule wp_mono [OF wp_apply_configuration [OF assms]])
  fix v t assume "v = view t \<and> (\<exists>m u. ticked now s m \<and> accepts m expected \<and> applied now m c job timeout u \<and> ticked now u t)"
  then show "ledger_steps now (ledger_of s) (ledger_of t)"
    using refines_applied [OF _ _ _ assms(2)] ledger_ticked by (blast intro: rtranclp_trans)
next
  fix e t
  assume "(ticked now s t \<or> due now s \<and> uncommitted s t)
       \<or> (\<exists>m. ticked now s m \<and> accepts m expected \<and> apply_failed now m c job timeout e t)
       \<or> (\<exists>m u. ticked now s m \<and> accepts m expected \<and> applied now m c job timeout u
             \<and> due now u \<and> (ticked now u t \<or> uncommitted u t))"
  then consider "ticked now s t" | "uncommitted s t"
    | m where "ticked now s m" "apply_failed now m c job timeout e t"
    | u where "ledger_steps now (ledger_of s) (ledger_of u)" "ticked now u t"
    | u where "ledger_steps now (ledger_of s) (ledger_of u)" "uncommitted u t"
    using refines_applied [OF _ _ _ assms(2)] by blast
  then show "ledger_steps now (ledger_of s) (ledger_of t)"
  proof cases
    case 3
    with ledger_ticked [OF 3(1)] ledger_apply_failed [OF 3(2)] show ?thesis by simp
  next
    case 4
    with ledger_ticked [OF 4(2)] show ?thesis by simp
  next
    case 5
    with ledger_uncommitted [OF 5(2)] show ?thesis by simp
  qed (use ledger_ticked ledger_uncommitted in fastforce)+
qed

text \<open>A confirmation that comes too late finds its trial undone.\<close>

lemma wp_confirm_late:
  assumes "configd_ok s" and "due now s"
  shows "wp (confirm now job) (\<lambda>_ _. False) (\<lambda>_ t. ticked now s t \<or> uncommitted s t) s"
  unfolding confirm_def wp_then [of "tick _"]
proof (rule wp_mono [OF wp_tick [OF assms(1)]])
  fix m assume m: "ticked now s m \<and> settled now m"
  then have "cd_pending m = None"
    using assms(2) by (auto simp: ticked_def rolled_back_def image_of_def dest!: stillD(3))
  with m show "wp (with_state (\<lambda>s. if cd_pending s = None \<or> pending_job s \<noteq> job then raise_error NotAwaiting
     else then_action (modify_state (\<lambda>s. s\<lparr>
            cd_last_transaction := Some \<lparr>tr_job = job, tr_revision = cd_revision s, tr_state = TxConfirmed\<rparr>,
            cd_pending := None\<rparr>))
       (then_action persist (snapshot now)))) (\<lambda>_ _. False) (\<lambda>_ t. ticked now s t \<or> uncommitted s t) m"
    by (simp add: wp_simps)
qed auto

lemma refines_confirm:
  assumes "configd_ok s"
  shows "refines now s (confirm now job)"
proof (cases "due now s")
  case True
  show ?thesis unfolding refines_def
    by (rule wp_mono [OF wp_confirm_late [OF assms True]]) (use ledger_ticked ledger_uncommitted in fastforce)+
next
  case False
  have step: "ledger_steps now (ledger_of s) (ledger_of t)"
    if "still s m" "cd_pending s = Some p" "confirmed m p u" "still u t" for m u p t
    using ledger_confirmed [OF assms False that(2,1,3)] ledger_still [OF that(4)] by auto
  show ?thesis unfolding refines_def
    by (rule wp_mono [OF wp_confirm [OF assms]]) (use step ledger_ticked False in blast)+
qed

lemma refines_rollback:
  assumes "configd_ok s"
  shows "refines now s (rollback now job)"
proof -
  have step: "ledger_steps now (ledger_of s) (ledger_of t)" if "cd_pending s = Some p" "rolled_back s p m" "still m t" for p m t
    using ledger_rolled_back [OF that(1,2)] ledger_still [OF that(3)] by auto
  show ?thesis unfolding refines_def
    by (rule wp_mono [OF wp_rollback [OF assms]]) (use step ledger_uncommitted in fastforce)+
qed

lemma refines_perform:
  assumes "configd_ok s" and "operation_ok op"
  shows "refines now s (perform now op)"
proof (cases op)
  case OpSnapshot
  show ?thesis unfolding OpSnapshot perform.simps refines_forget snapshot_def
    by (rule refines_tick [OF assms(1)]) (simp add: refines_def wp_simps)
next
  case (OpApply c expected job timeout)
  with refines_apply [OF assms(1)] assms(2) show ?thesis by (simp add: refines_forget operation_ok_def)
next
  case (OpManual pwm seconds)
  show ?thesis unfolding OpManual perform.simps refines_forget manual_def
    by (rule refines_tick [OF assms(1)]) (rule refines_unstored, auto simp: wp_simps Let_def image_of_def)
next
  case OpSensors
  show ?thesis unfolding OpSensors perform.simps refines_forget sensors_def
    by (rule refines_tick [OF assms(1)]) (rule refines_unstored, auto simp: wp_simps Let_def image_of_def split: prod.splits)
next
  case OpPorts
  show ?thesis unfolding OpPorts perform.simps refines_forget ports_def
    by (rule refines_tick [OF assms(1)]) (simp add: refines_def wp_simps)
next
  case OpOptics
  have "wp optics (\<lambda>_. still s) (\<lambda>_. still s) s"
    unfolding optics_def by (rule wp_read_masks) (use configd_okD(3) [OF assms(1)] in \<open>auto simp: still_def\<close>)
  then show ?thesis by (simp add: OpOptics refines_forget refines_still)
next
  case OpClearFdb
  have "wp (step now name arg) (\<lambda>_. still s) (\<lambda>_. still s) s" for name arg by (rule wp_step) (auto simp: still_def)
  then show ?thesis by (simp add: OpClearFdb clear_fdb_def refines_still)
qed (simp_all add: refines_forget refines_confirm refines_rollback assms(1))

subsection \<open>The refinement\<close>

text \<open>C4: every operation of the simulated authority refines the ledger: from any reachable state, whatever the
  bus does and whether the call returns or raises, what it committed is a sequence of ledger moves, each
  of which begins a trial of a valid configuration when none runs, keeps a trial before its deadline, or
  restores the configuration the trial replaced.\<close>

theorem authority_refines_ledger:
  assumes "reachable s" and "operation_ok op" and "perform now op s = (r, t)"
  shows "ledger_steps now (ledger_of s) (ledger_of t)"
  using wp_resultD [OF refines_perform [OF reachable_ok [OF assms(1)] assms(2), unfolded refines_def] assms(3)]
  by (auto split: sum.splits)

lemma authority_refines_ledger_witness:
  "\<exists>m t. reachable m \<and> le_trial (ledger_of m) = Some \<lparr>tl_job = ''job'', tl_fallback = default_configuration, tl_deadline = 60000\<rparr>
     \<and> snd (perform 0 (OpRollback ''job'') m) = t \<and> ledger_steps 0 (ledger_of m) (ledger_of t)"
proof (rule boot_commit)
  fix s m assume m: "reachable m" "cd_configuration s = default_configuration"
    "cd_pending m = Some (request 0 s ''job'' 60 AwaitingConfirmation)"
  have "operation_ok (OpRollback ''job'')" by (simp add: operation_ok_def)
  from authority_refines_ledger [OF m(1) this prod.collapse [symmetric]] m show ?thesis
    by (auto simp: ledger_of_def ledger_of_image_def trial_of_def request_def)
qed

end
