(* ===== verification/Helper_Wire.thy ===== *)
theory Helper_Wire
  imports Netlab_Wire
begin

text \<open>
  The bounded readers: the JSON line of the update and time helpers (updates.py and time_sync.py) and the
  request body (http_limits.py). A peer is what each \<^verbatim>\<open>recv\<close> delivers, of which a call takes at most
  the bytes it asked for; no bytes is the end of the stream. Nothing bounds how often a peer delivers.
\<close>

subsection \<open>One line\<close>

datatype delivery = Delivered "octet list" | TransportError

type_synonym peer = "nat \<Rightarrow> delivery"

definition recv :: "peer \<Rightarrow> nat \<Rightarrow> nat \<Rightarrow> delivery" where
  "recv peer k count = (case peer k of TransportError \<Rightarrow> TransportError | Delivered bs \<Rightarrow> Delivered (take count bs))"

abbreviation newline :: octet where "newline \<equiv> 10"

datatype gathered = Complete "octet list" | Ended "octet list" | Lost

fun held :: "gathered \<Rightarrow> octet list" where
  "held (Complete raw) = raw"
| "held (Ended raw) = raw"
| "held Lost = []"

text \<open>The loop of both readers, with the number of calls made.\<close>

function gather :: "nat \<Rightarrow> nat \<Rightarrow> peer \<Rightarrow> nat \<Rightarrow> octet list \<Rightarrow> gathered \<times> nat" where
  "gather block maximum peer k raw =
     (if newline \<in> set raw \<or> maximum < length raw then (Complete raw, k)
      else case recv peer k (min block (maximum + 1 - length raw)) of
        TransportError \<Rightarrow> (Lost, Suc k)
      | Delivered [] \<Rightarrow> (Ended raw, Suc k)
      | Delivered (b # bs) \<Rightarrow> gather block maximum peer (Suc k) (raw @ b # bs))"
  by pat_completeness auto
termination
  by (relation "measure (\<lambda>(block, maximum, peer, k, raw). maximum + 1 - length raw)")
    auto

declare gather.simps [simp del]

datatype receive_error = Unanswered | Oversized | SeveralRequests | BadJson | NotAnObject | NetworkError

text \<open>updates.py. Python splits at the first newline; only white space may follow it.\<close>

definition ascii_space :: "octet \<Rightarrow> bool" where
  "ascii_space b \<longleftrightarrow> b \<in> {9, 10, 11, 12, 13, 32}"

definition receive_update :: "(octet list \<Rightarrow> json option) \<Rightarrow> nat \<Rightarrow> peer \<Rightarrow> (receive_error + json) \<times> nat" where
  "receive_update loads maximum peer = (case gather 8192 maximum peer 0 [] of
     (Lost, k) \<Rightarrow> (Inl NetworkError, k)
   | (Ended raw, k) \<Rightarrow> (Inl Unanswered, k)
   | (Complete raw, k) \<Rightarrow>
       (if maximum < length raw then Inl Oversized
        else let line = takeWhile (\<lambda>b. b \<noteq> newline) raw; rest = drop (length line + 1) raw in
          if \<not> list_all ascii_space rest then Inl SeveralRequests
          else (case loads line of
              None \<Rightarrow> Inl BadJson
            | Some v \<Rightarrow> if is_object v then Inr v else Inl NotAnObject), k))"

fun update_status :: "receive_error \<Rightarrow> int" where
  "update_status Unanswered = 503"
| "update_status NetworkError = 503"
| "update_status _ = 422"

text \<open>time_sync.py. The message is one line and ends with its newline; a JSON error is a \<^verbatim>\<open>ValueError\<close>.\<close>

definition MAX_MESSAGE :: nat where "MAX_MESSAGE = 16384"

definition receive_time :: "(octet list \<Rightarrow> json option) \<Rightarrow> peer \<Rightarrow> (receive_error + json) \<times> nat" where
  "receive_time loads peer =
     (let check = (\<lambda>data. if MAX_MESSAGE < length data \<or> data = [] \<or> List.last data \<noteq> newline \<or> count_list data newline \<noteq> 1
            then Inl SeveralRequests
            else case loads data of None \<Rightarrow> Inl BadJson | Some v \<Rightarrow> if is_object v then Inr v else Inl NotAnObject) in
      case gather 4096 MAX_MESSAGE peer 0 [] of
        (Lost, k) \<Rightarrow> (Inl NetworkError, k)
      | (Ended raw, k) \<Rightarrow> (check raw, k)
      | (Complete raw, k) \<Rightarrow> (check raw, k))"

subsection \<open>How often it calls\<close>

lemma gather_calls:
  assumes "length raw \<le> maximum + 1"
  shows "snd (gather block maximum peer k raw) + length raw \<le> k + maximum + 1"
  using assms
proof (induction block maximum peer k raw rule: gather.induct)
  case (1 block maximum peer k raw)
  show ?case
  proof (cases "newline \<in> set raw \<or> maximum < length raw")
    case True
    with "1.prems" show ?thesis by (simp add: gather.simps)
  next
    case False
    let ?got = "recv peer k (min block (maximum + 1 - length raw))"
    show ?thesis
    proof (cases ?got)
      case (Delivered bs)
      then have small: "length bs \<le> maximum + 1 - length raw" by (auto simp: recv_def split: delivery.splits)
      show ?thesis
      proof (cases bs)
        case Nil
        with False Delivered show ?thesis by (simp add: gather.simps)
      next
        case (Cons c cs)
        from "1.IH" [OF False Delivered [unfolded Cons]] small False
        have "snd (gather block maximum peer (Suc k) (raw @ c # cs)) + length (raw @ c # cs) \<le> Suc k + maximum + 1"
          by (simp add: Cons)
        with False Delivered Cons show ?thesis by (simp add: gather.simps [of block maximum peer k raw])
      qed
    qed (use False in \<open>simp add: gather.simps\<close>)
  qed
qed

lemma receive_calls:
  "snd (receive_update loads maximum peer) \<le> maximum + 1" "snd (receive_time loads peer) \<le> MAX_MESSAGE + 1"
  using gather_calls [of "[]" maximum 8192 peer 0] gather_calls [of "[]" MAX_MESSAGE 4096 peer 0]
  by (auto simp: receive_update_def receive_time_def Let_def split: prod.splits gathered.splits)

lemma gather_held:
  assumes "length raw \<le> maximum + 1"
  shows "length (held (fst (gather block maximum peer k raw))) \<le> maximum + 1"
  using assms
proof (induction block maximum peer k raw rule: gather.induct)
  case (1 block maximum peer k raw)
  show ?case
  proof (cases "newline \<in> set raw \<or> maximum < length raw")
    case True
    with "1.prems" show ?thesis by (simp add: gather.simps)
  next
    case False
    let ?got = "recv peer k (min block (maximum + 1 - length raw))"
    show ?thesis
    proof (cases ?got)
      case TransportError
      with False "1.prems" show ?thesis by (simp add: gather.simps)
    next
      case (Delivered bs)
      then have small: "length bs \<le> maximum + 1 - length raw" by (auto simp: recv_def split: delivery.splits)
      show ?thesis
      proof (cases bs)
        case Nil
        with False Delivered "1.prems" show ?thesis by (simp add: gather.simps)
      next
        case (Cons c cs)
        have "gather block maximum peer k raw = gather block maximum peer (Suc k) (raw @ c # cs)"
          using False Delivered Cons by (simp add: gather.simps [of block maximum peer k raw])
        with "1.IH" [OF False Delivered [unfolded Cons]] small False Cons show ?thesis by simp
      qed
    qed
  qed
qed

text \<open>Cn: the readers of the helper messages end, however the peer behaves: a peer that never completes its line is
  given at most one \<^verbatim>\<open>recv\<close> per byte of the limit and one more, and at no time is more than one byte
  beyond the limit held in memory.\<close>

theorem helper_readers_bounded:
  "snd (receive_update loads maximum peer) \<le> maximum + 1 \<and> snd (receive_time loads peer) \<le> MAX_MESSAGE + 1
   \<and> length (held (fst (gather block maximum peer 0 []))) \<le> maximum + 1"
  by (intro conjI receive_calls gather_held) simp

text \<open>A line that arrives in pieces, none larger than the call asks for, is gathered as it was sent.\<close>

lemma gather_pieces:
  assumes "\<And>i. i < length ps \<Longrightarrow> peer (k + i) = Delivered (ps ! i)" and "\<forall>p \<in> set ps. p \<noteq> [] \<and> length p \<le> block"
    and "raw @ concat ps = line @ [newline]" and "newline \<notin> set line" and "length line < maximum" and "ps \<noteq> []"
  shows "gather block maximum peer k raw = (Complete (line @ [newline]), k + length ps)"
  using assms
proof (induction ps arbitrary: k raw)
  case (Cons p ps)
  have p: "p \<noteq> []" "length p \<le> block" "peer k = Delivered p" using Cons.prems(1) [of 0] Cons.prems(2) by auto
  have total: "length raw + length p + length (concat ps) = length line + 1"
    using arg_cong [OF Cons.prems(3), of length] by simp
  have open_raw: "newline \<notin> set raw"
  proof -
    obtain q where "line @ [newline] = raw @ q" "q \<noteq> []"
      using Cons.prems(3) p(1) that [of "p @ concat ps"] by simp
    then have "set raw \<subseteq> set line" by (cases q rule: rev_cases) auto
    with Cons.prems(4) show ?thesis by blast
  qed
  have fits: "length raw \<le> maximum" "take (min block (maximum + 1 - length raw)) p = p"
    using total p(2) Cons.prems(5) by auto
  have one: "gather block maximum peer k raw = gather block maximum peer (Suc k) (raw @ p)"
    using open_raw fits p by (subst gather.simps) (auto simp: recv_def split: list.splits)
  show ?case
  proof (cases "ps = []")
    case True
    then have "raw @ p = line @ [newline]" using Cons.prems(3) by simp
    with one True show ?thesis by (simp add: gather.simps [of block maximum peer "Suc k"])
  next
    case False
    have "gather block maximum peer (Suc k) (raw @ p) = (Complete (line @ [newline]), Suc k + length ps)"
    proof (rule Cons.IH)
      show "peer (Suc k + i) = Delivered (ps ! i)" if "i < length ps" for i
        using Cons.prems(1) [of "Suc i"] that by simp
    qed (use Cons.prems False in auto)
    with one show ?thesis by simp
  qed
qed simp

lemma update_line_received:
  assumes "\<And>i. i < length ps \<Longrightarrow> peer i = Delivered (ps ! i)" and "\<forall>p \<in> set ps. p \<noteq> [] \<and> length p \<le> 8192"
    and "concat ps = line @ [newline]" and "newline \<notin> set line" and "length line < maximum"
    and "loads line = Some v" and "is_object v"
  shows "receive_update loads maximum peer = (Inr v, length ps)"
proof -
  have "ps \<noteq> []" using assms(3) by auto
  with gather_pieces [of ps peer 0 8192 "[]"] assms(1-5)
  have run: "gather 8192 maximum peer 0 [] = (Complete (line @ [newline]), length ps)" by simp
  have "takeWhile (\<lambda>b. b \<noteq> newline) (line @ [newline]) = line" using assms(4) by (induction line) auto
  with run assms(5-7) show ?thesis by (simp add: receive_update_def)
qed

lemma time_line_received:
  assumes "\<And>i. i < length ps \<Longrightarrow> peer i = Delivered (ps ! i)" and "\<forall>p \<in> set ps. p \<noteq> [] \<and> length p \<le> 4096"
    and "concat ps = line @ [newline]" and "newline \<notin> set line" and "length line < MAX_MESSAGE"
    and "loads (line @ [newline]) = Some v" and "is_object v"
  shows "receive_time loads peer = (Inr v, length ps)"
proof -
  have "ps \<noteq> []" using assms(3) by auto
  with gather_pieces [of ps peer 0 4096 "[]"] assms(1-5)
  have run: "gather 4096 MAX_MESSAGE peer 0 [] = (Complete (line @ [newline]), length ps)" by simp
  have "count_list (line @ [newline]) newline = 1" using assms(4) by (simp add: count_list_0_iff)
  with run assms(5-7) show ?thesis by (simp add: receive_time_def)
qed

subsection \<open>A request body\<close>

text \<open>What \<^verbatim>\<open>receive()\<close> of the ASGI server delivers, a missing body or flag being its default.\<close>

datatype asgi_event = Disconnected | Part "octet list" bool

datatype body_outcome = NoAnswer | TooLarge | WholeBody "octet list" "asgi_event list" | StillReading

fun read_body :: "nat \<Rightarrow> octet list \<Rightarrow> asgi_event list \<Rightarrow> body_outcome" where
  "read_body limit body [] = StillReading"
| "read_body limit body (Disconnected # es) = NoAnswer"
| "read_body limit body (Part chunk again # es) =
     (if limit < length body + length chunk then TooLarge
      else if again then read_body limit (body @ chunk) es else WholeBody (body @ chunk) es)"

definition BODY_LIMIT :: nat where "BODY_LIMIT = 2000000"

text \<open>What the application receives in place of the server's events.\<close>

definition replayed :: "nat \<Rightarrow> asgi_event list \<Rightarrow> asgi_event list option" where
  "replayed limit es = (case read_body limit [] es of WholeBody body rest \<Rightarrow> Some (Part body False # rest) | _ \<Rightarrow> None)"

text \<open>The body the server sends: every part up to the first that announces no more.\<close>

fun sent_body :: "asgi_event list \<Rightarrow> octet list option" where
  "sent_body [] = None"
| "sent_body (Disconnected # es) = None"
| "sent_body (Part chunk again # es) = (if again then map_option ((@) chunk) (sent_body es) else Some chunk)"

lemma read_body_exact:
  "length body \<le> limit \<Longrightarrow> (\<exists>rest. read_body limit body es = WholeBody whole rest) \<longleftrightarrow>
    (\<exists>b. sent_body es = Some b \<and> whole = body @ b \<and> length whole \<le> limit)"
proof (induction limit body es rule: read_body.induct)
  case (3 limit body chunk again es)
  show ?case
  proof (cases "limit < length body + length chunk")
    case True
    then show ?thesis by auto
  next
    case False
    with 3 show ?thesis by auto
  qed
qed auto

end
