(* ===== verification/Text_Points.thy ===== *)
theory Text_Points
  imports Documents
begin

text \<open>
  Python's \<^verbatim>\<open>str\<close> as a list of code points: splitting and joining at a separator, and numbers printed in a
  base up to sixteen with the value their digits have.
\<close>

fun split_points :: "int \<Rightarrow> text_points \<Rightarrow> text_points list" where
  "split_points sep [] = [[]]"
| "split_points sep (c # cs) =
     (if c = sep then [] # split_points sep cs
      else case split_points sep cs of [] \<Rightarrow> [[c]] | w # ws \<Rightarrow> (c # w) # ws)"

fun join_points :: "int \<Rightarrow> text_points list \<Rightarrow> text_points" where
  "join_points sep [] = []"
| "join_points sep [w] = w"
| "join_points sep (w # ws) = w @ sep # join_points sep ws"

lemma split_nonempty [simp]: "split_points sep s \<noteq> []"
  by (induction s) (auto split: list.splits)

lemma split_word: "sep \<notin> set w \<Longrightarrow> split_points sep w = [w]"
  by (induction w) auto

lemma split_append_sep: "sep \<notin> set w \<Longrightarrow> split_points sep (w @ sep # s) = w # split_points sep s"
  by (induction w) auto

lemma split_join: "ws \<noteq> [] \<Longrightarrow> \<forall>w \<in> set ws. sep \<notin> set w \<Longrightarrow> split_points sep (join_points sep ws) = ws"
  by (induction sep ws rule: join_points.induct) (simp_all add: split_word split_append_sep)

lemma set_join: "set (join_points sep ws) \<subseteq> insert sep (\<Union> (set ` set ws))"
  by (induction sep ws rule: join_points.induct) auto

text \<open>Python's \<^verbatim>\<open>'%d'\<close> and \<^verbatim>\<open>'%x'\<close>, and the value of a digit string.\<close>

definition digit_point :: "nat \<Rightarrow> int" where
  "digit_point d = (if d < 10 then 48 + int d else 87 + int d)"

fun base_text :: "nat \<Rightarrow> nat \<Rightarrow> text_points" where
  "base_text b n = (if n < b \<or> b < 2 then [digit_point n] else base_text b (n div b) @ [digit_point (n mod b)])"

declare base_text.simps [simp del]

definition point_value :: "int \<Rightarrow> nat" where
  "point_value c = nat (if c \<le> 57 then c - 48 else if c \<le> 70 then c - 55 else c - 87)"

definition text_value :: "nat \<Rightarrow> text_points \<Rightarrow> nat" where
  "text_value b s = foldl (\<lambda>acc c. b * acc + point_value c) 0 s"

definition decimal_point :: "int \<Rightarrow> bool" where
  "decimal_point c \<longleftrightarrow> 48 \<le> c \<and> c \<le> 57"

definition hex_point :: "int \<Rightarrow> bool" where
  "hex_point c \<longleftrightarrow> decimal_point c \<or> 97 \<le> c \<and> c \<le> 102 \<or> 65 \<le> c \<and> c \<le> 70"

lemma point_value_digit: "d < 16 \<Longrightarrow> point_value (digit_point d) = d"
  by (simp add: point_value_def digit_point_def)

lemma text_value_base: "2 \<le> b \<Longrightarrow> b \<le> 16 \<Longrightarrow> text_value b (base_text b n) = n"
proof (induction b n rule: base_text.induct)
  case (1 b n)
  show ?case
  proof (cases "n < b")
    case True
    with 1 show ?thesis by (simp add: base_text.simps [of b n] text_value_def point_value_digit)
  next
    case False
    with 1 have "text_value b (base_text b (n div b)) = n div b" and "n mod b < 16"
      by (simp, metis mod_less_divisor order_less_le_trans not_numeral_le_zero not_gr_zero)
    with "1.prems" False show ?thesis
      by (simp add: base_text.simps [of b n] text_value_def point_value_digit)
  qed
qed

lemma base_text_nonempty [simp]: "base_text b n \<noteq> []"
  by (subst base_text.simps) simp

lemma base_text_points: "2 \<le> b \<Longrightarrow> c \<in> set (base_text b n) \<Longrightarrow> \<exists>d < b. c = digit_point d"
proof (induction b n rule: base_text.induct)
  case (1 b n)
  then show ?case
  proof (cases "n < b")
    case False
    have rest: "n mod b < b" using 1(2) by simp
    from 1(3) False 1(2) have "c \<in> set (base_text b (n div b)) \<or> c = digit_point (n mod b)" by (auto simp: base_text.simps [of b n])
    moreover have "\<exists>d < b. c = digit_point d" if "c \<in> set (base_text b (n div b))"
      using 1(1) [OF _ 1(2) that] False 1(2) by simp
    ultimately show ?thesis using rest by blast
  qed (auto simp: base_text.simps [of b n])
qed

lemma length_base_text:
  assumes "2 \<le> b"
  shows "0 < k \<Longrightarrow> n < b ^ k \<Longrightarrow> length (base_text b n) \<le> k"
proof (induction k arbitrary: n)
  case (Suc k)
  show ?case
  proof (cases "n < b")
    case True
    then show ?thesis by (simp add: base_text.simps)
  next
    case False
    with Suc.prems have "0 < k" by (cases k) auto
    moreover have "n div b < b ^ k" using Suc.prems(2) assms by (simp add: less_mult_imp_div_less mult.commute)
    ultimately have "length (base_text b (n div b)) \<le> k" by (rule Suc.IH)
    with False assms show ?thesis by (simp add: base_text.simps [of b n])
  qed
qed simp

lemma base_text_leading: "2 \<le> b \<Longrightarrow> b \<le> 16 \<Longrightarrow> 0 < n \<Longrightarrow> hd (base_text b n) \<noteq> 48"
proof (induction b n rule: base_text.induct)
  case (1 b n)
  show ?case
  proof (cases "n < b")
    case True
    with 1 show ?thesis by (simp add: base_text.simps [of b n] digit_point_def)
  next
    case False
    with 1 have "0 < n div b" by (simp add: div_greater_zero_iff)
    with 1 False show ?thesis by (simp add: base_text.simps [of b n])
  qed
qed

lemma text_value_snoc: "text_value b (s @ [c]) = b * text_value b s + point_value c"
  by (simp add: text_value_def)

text \<open>A number is printed in exactly one way: decimal digits without leading zeros.\<close>

lemma base_text_value:
  assumes "s \<noteq> []" and "list_all decimal_point s" and "s = [48] \<or> hd s \<noteq> 48"
  shows "base_text 10 (text_value 10 s) = s \<and> (hd s \<noteq> 48 \<longrightarrow> 0 < text_value 10 s)"
  using assms
proof (induction s rule: rev_induct)
  case (snoc c s)
  from snoc.prems(2) have c: "48 \<le> c" "c \<le> 57" by (auto simp: decimal_point_def)
  then have d: "digit_point (point_value c) = c" "point_value c < 10" "c \<noteq> 48 \<Longrightarrow> 0 < point_value c"
    by (auto simp: digit_point_def point_value_def)
  show ?case
  proof (cases "s = []")
    case True
    with d show ?thesis by (auto simp: text_value_def base_text.simps)
  next
    case False
    with snoc.prems have h: "hd s \<noteq> 48" "list_all decimal_point s" by auto
    with False snoc.IH have v: "base_text 10 (text_value 10 s) = s" "0 < text_value 10 s" by auto
    have "(10 * text_value 10 s + point_value c) div 10 = text_value 10 s" "(10 * text_value 10 s + point_value c) mod 10 = point_value c"
      using d(2) by simp_all
    with v d show ?thesis by (simp add: text_value_snoc base_text.simps [of 10 "10 * text_value 10 s + point_value c"])
  qed
qed simp

end
