(* ===== verification/Time_Servers.thy ===== *)
theory Time_Servers
  imports Text_Points
begin

text \<open>
  time_sync.py, the validation of time servers: names are code points; what \<^verbatim>\<open>str\<close> knows of the
  Unicode tables is a parameter, and the addresses are those of \<^verbatim>\<open>ipaddress\<close> in Python 3.13. Of the
  tables the development uses only what they say of ASCII, stated as \<open>ascii_rules\<close>.
\<close>

subsection \<open>Text\<close>

record unicode =
  uc_strip :: "text_points \<Rightarrow> text_points"
  uc_lower :: "text_points \<Rightarrow> text_points"
  uc_space :: "int \<Rightarrow> bool"
  uc_digit :: "int \<Rightarrow> bool"

definition plain_point :: "int \<Rightarrow> bool" where
  "plain_point c \<longleftrightarrow> 33 \<le> c \<and> c \<le> 126 \<and> \<not> (65 \<le> c \<and> c \<le> 90)"

definition ascii_rules :: "unicode \<Rightarrow> bool" where
  "ascii_rules u \<longleftrightarrow> (\<forall>s. list_all plain_point s \<longrightarrow> uc_strip u s = s \<and> uc_lower u s = s)
     \<and> (\<forall>c. plain_point c \<longrightarrow> \<not> uc_space u c) \<and> uc_space u 32
     \<and> (\<forall>c. plain_point c \<longrightarrow> (uc_digit u c \<longleftrightarrow> 48 \<le> c \<and> c \<le> 57))"

subsection \<open>Addresses\<close>

datatype address = V4 "nat list" | V6 "nat list"

definition parse_octet :: "text_points \<Rightarrow> nat option" where
  "parse_octet s =
     (if s = [] \<or> \<not> list_all decimal_point s \<or> length s > 3 \<or> (s \<noteq> [48] \<and> hd s = 48) \<or> text_value 10 s > 255 then None
      else Some (text_value 10 s))"

definition parse_v4 :: "text_points \<Rightarrow> nat list option" where
  "parse_v4 s = (let parts = split_points 46 s in
     if length parts \<noteq> 4 then None else all_some (map parse_octet parts))"

definition parse_hextet :: "text_points \<Rightarrow> nat option" where
  "parse_hextet s = (if s = [] \<or> \<not> list_all hex_point s \<or> length s > 4 then None else Some (text_value 16 s))"

text \<open>The last part may be an IPv4 address, which stands for two hextets.\<close>

definition expand_parts :: "text_points list \<Rightarrow> text_points list option" where
  "expand_parts parts = (if 46 \<in> set (List.last parts)
     then (case parse_v4 (List.last parts) of
         Some [a, b, c, d] \<Rightarrow> Some (butlast parts @ [base_text 16 (256 * a + b), base_text 16 (256 * c + d)])
       | _ \<Rightarrow> None)
     else Some parts)"

definition parse_parts :: "text_points list \<Rightarrow> nat list option" where
  "parse_parts parts =
     (if length parts > 9 then None
      else case filter (\<lambda>i. parts ! i = []) [1..<length parts - 1] of
        [] \<Rightarrow> if length parts \<noteq> 8 \<or> hd parts = [] \<or> List.last parts = [] then None else all_some (map parse_hextet parts)
      | [skip] \<Rightarrow>
          (let hi = (if hd parts = [] then skip - 1 else skip);
               lo = (if List.last parts = [] then length parts - skip - 2 else length parts - skip - 1) in
           if (hd parts = [] \<and> hi \<noteq> 0) \<or> (List.last parts = [] \<and> lo \<noteq> 0) \<or> 8 - (hi + lo) < 1 then None
           else (case (all_some (map parse_hextet (take hi parts)), all_some (map parse_hextet (drop (length parts - lo) parts))) of
               (Some hs, Some ls) \<Rightarrow> Some (hs @ replicate (8 - (hi + lo)) 0 @ ls)
             | _ \<Rightarrow> None))
      | _ \<Rightarrow> None)"

definition parse_v6 :: "text_points \<Rightarrow> nat list option" where
  "parse_v6 s = (let addr = takeWhile (\<lambda>c. c \<noteq> 37) s; scope = drop (length addr + 1) s; parts = split_points 58 addr in
     if 47 \<in> set s \<or> (37 \<in> set s \<and> (scope = [] \<or> 37 \<in> set scope)) \<or> length parts < 3 then None
     else (case expand_parts parts of None \<Rightarrow> None | Some ps \<Rightarrow> parse_parts ps))"

definition parse_address :: "text_points \<Rightarrow> address option" where
  "parse_address s = (case parse_v4 s of Some os \<Rightarrow> Some (V4 os) | None \<Rightarrow> map_option V6 (parse_v6 s))"

definition mapped_v4 :: "nat list \<Rightarrow> nat list option" where
  "mapped_v4 hs = (if take 6 hs = [0, 0, 0, 0, 0, 65535]
     then Some [hs ! 6 div 256, hs ! 6 mod 256, hs ! 7 div 256, hs ! 7 mod 256] else None)"

fun v4_special :: "nat list \<Rightarrow> bool" where
  "v4_special os \<longleftrightarrow> 224 \<le> hd os \<and> hd os \<le> 239 \<or> os = [0, 0, 0, 0]"

fun multicast_or_unspecified :: "address \<Rightarrow> bool" where
  "multicast_or_unspecified (V4 os) = v4_special os"
| "multicast_or_unspecified (V6 hs) = (case mapped_v4 hs of
     Some os \<Rightarrow> v4_special os
   | None \<Rightarrow> hd hs div 256 = 255 \<or> list_all (\<lambda>h. h = 0) hs)"

text \<open>The first longest run of zeros: best start and length, current start and length, next index.\<close>

fun zero_run :: "nat list \<Rightarrow> nat \<Rightarrow> nat \<times> nat \<Rightarrow> nat \<times> nat \<Rightarrow> nat \<times> nat" where
  "zero_run [] i best cur = best"
| "zero_run (h # hs) i (bs, bl) (cs, cl) =
     (if h = 0
      then let start = (if cl = 0 then i else cs); n = cl + 1 in
        zero_run hs (i + 1) (if n > bl then (start, n) else (bs, bl)) (start, n)
      else zero_run hs (i + 1) (bs, bl) (0, 0))"

definition compressed :: "nat list \<Rightarrow> text_points list" where
  "compressed hs = (let texts = map (base_text 16) hs in case zero_run hs 0 (0, 0) (0, 0) of (start, n) \<Rightarrow>
     if n > 1 then (if start = 0 then [[]] else []) @ take start texts @ [[]] @ drop (start + n) texts
       @ (if start + n = length hs then [[]] else [])
     else texts)"

fun print_v4 :: "nat list \<Rightarrow> text_points" where
  "print_v4 os = join_points 46 (map (base_text 10) os)"

fun print_address :: "address \<Rightarrow> text_points" where
  "print_address (V4 os) = print_v4 os"
| "print_address (V6 hs) = (case mapped_v4 hs of
     Some os \<Rightarrow> join_points 58 [[], [], ascii ''ffff'', print_v4 os]
   | None \<Rightarrow> join_points 58 (compressed hs))"

subsection \<open>Server names\<close>

definition alnum :: "int \<Rightarrow> bool" where
  "alnum c \<longleftrightarrow> decimal_point c \<or> 97 \<le> c \<and> c \<le> 122"

definition host_label :: "text_points \<Rightarrow> bool" where
  "host_label w \<longleftrightarrow> w \<noteq> [] \<and> length w \<le> 63 \<and> alnum (hd w) \<and> alnum (List.last w) \<and> list_all (\<lambda>c. alnum c \<or> c = 45) w"

definition strip_dots :: "text_points \<Rightarrow> text_points" where
  "strip_dots s = rev (dropWhile (\<lambda>c. c = 46) (rev s))"

definition host_name :: "unicode \<Rightarrow> text_points \<Rightarrow> bool" where
  "host_name u s \<longleftrightarrow> 58 \<notin> set s \<and> \<not> (s \<noteq> [] \<and> list_all (\<lambda>c. uc_digit u c \<or> c = 46) s)
     \<and> list_all host_label (split_points 46 (strip_dots s))"

text \<open>One value; what \<^verbatim>\<open>try\<close> raises is caught by its own \<^verbatim>\<open>except\<close>, which tests for a host name.\<close>

definition server_name :: "unicode \<Rightarrow> text_points \<Rightarrow> text_points option" where
  "server_name u raw = (let s = uc_lower u (uc_strip u raw) in
     if s = [] \<or> length s > 253 \<or> list_ex (uc_space u) s then None
     else case parse_address s of
       Some a \<Rightarrow> if multicast_or_unspecified a \<or> 37 \<in> set s then (if host_name u s then Some s else None)
         else Some (print_address a)
     | None \<Rightarrow> if host_name u s then Some s else None)"

fun collect_new :: "text_points list \<Rightarrow> text_points list \<Rightarrow> text_points list" where
  "collect_new acc [] = acc"
| "collect_new acc (v # vs) = collect_new (if v \<in> set acc then acc else acc @ [v]) vs"

definition validate_servers :: "unicode \<Rightarrow> text_points list \<Rightarrow> text_points list option" where
  "validate_servers u values =
     (if length values < 1 \<or> length values > 4 then None
      else map_option (collect_new []) (all_some (map (server_name u) values)))"

text \<open>\<^verbatim>\<open>None\<close> keeps the servers of the system.\<close>

definition time_sync_request :: "unicode \<Rightarrow> text_points list option \<Rightarrow> text_points list option option" where
  "time_sync_request u servers = (case servers of None \<Rightarrow> Some None | Some vs \<Rightarrow> map_option Some (validate_servers u vs))"

end
