(* ===== verification/Time_Helper.thy ===== *)
theory Time_Helper
  imports Time_Servers Helper_Wire
begin

text \<open>
  time_helper.py: the root service that reports and configures systemd-timesyncd. The system behind its
  commands is a parameter: a runner answers a command line on a state of its own. Of the files, the drop-in
  configuration is part of the state; every read, replacement and removal of it may fail. A replacement
  ends with the rename, so a failed one has left the old file. The status leaves out the clock readings.
\<close>

subsection \<open>Text of the commands\<close>

definition line_end :: "int \<Rightarrow> bool" where
  "line_end c \<longleftrightarrow> c \<in> {10, 11, 12, 13, 28, 29, 30, 0x85, 0x2028, 0x2029}"

fun split_lines :: "text_points \<Rightarrow> text_points list" where
  "split_lines [] = []"
| "split_lines (c # cs) =
     (if c = 13 \<and> take 1 cs = [10] then split_lines cs
      else if line_end c then [] # split_lines cs
      else case split_lines cs of [] \<Rightarrow> [[c]] | w # ws \<Rightarrow> (c # w) # ws)"

fun words_from :: "(int \<Rightarrow> bool) \<Rightarrow> text_points \<Rightarrow> text_points \<Rightarrow> text_points list" where
  "words_from space acc [] = (if acc = [] then [] else [acc])"
| "words_from space acc (c # cs) =
     (if space c then (if acc = [] then [] else [acc]) @ words_from space [] cs else words_from space (acc @ [c]) cs)"

abbreviation text_words :: "unicode \<Rightarrow> text_points \<Rightarrow> text_points list" where
  "text_words u \<equiv> words_from (uc_space u) []"

text \<open>\<^verbatim>\<open>dict(line.split("=", 1) ...)\<close>: the last line of a key counts.\<close>

definition properties :: "text_points \<Rightarrow> (text_points \<times> text_points) list" where
  "properties text = rev (map (\<lambda>line. let key = takeWhile (\<lambda>c. c \<noteq> 61) line in (key, drop (length key + 1) line))
     (filter (\<lambda>line. 61 \<in> set line) (split_lines text)))"

definition value_of :: "(text_points \<times> text_points) list \<Rightarrow> string \<Rightarrow> text_points option" where
  "value_of ps name = map_of ps (ascii name)"

definition value_or_empty :: "(text_points \<times> text_points) list \<Rightarrow> string \<Rightarrow> text_points" where
  "value_or_empty ps name = (case value_of ps name of None \<Rightarrow> [] | Some v \<Rightarrow> v)"

definition value_is :: "(text_points \<times> text_points) list \<Rightarrow> string \<Rightarrow> string \<Rightarrow> bool" where
  "value_is ps name v \<longleftrightarrow> value_of ps name = Some (ascii v)"

fun contains :: "text_points \<Rightarrow> text_points \<Rightarrow> bool" where
  "contains pat [] = (pat = [])"
| "contains pat (c # cs) = (take (length pat) (c # cs) = pat \<or> contains pat cs)"

text \<open>The first \<^verbatim>\<open>PacketCount=\<close> that digits follow; the commands print ASCII digits.\<close>

fun packet_count :: "text_points \<Rightarrow> nat option" where
  "packet_count [] = None"
| "packet_count (c # cs) =
     (let s = c # cs; tag = ascii ''PacketCount=''; digits = takeWhile decimal_point (drop (length tag) s) in
      if take (length tag) s = tag \<and> digits \<noteq> [] then Some (text_value 10 digits) else packet_count cs)"

subsection \<open>Status\<close>

datatype time_error =
  CommandFailed | FileFailed | NotInstalled | OtherService | ReadbackDiffers | BadServers | BadRequest | HelperBusy
| BadMessage receive_error | SyncFailed time_error | RecoveryIncomplete time_error time_error

record time_status =
  ts_available :: bool
  ts_state :: string
  ts_enabled :: bool
  ts_synchronized :: bool
  ts_timezone :: text_points
  ts_servers :: "text_points list"
  ts_fallback :: "text_points list"
  ts_network :: "text_points list"
  ts_runtime :: "text_points list"
  ts_selected :: "text_points option"
  ts_address :: "text_points option"
  ts_service :: text_points
  ts_message :: string

type_synonym 's runner = "string list \<Rightarrow> 's \<Rightarrow> (time_error + text_points) \<times> 's"

record 's time_host =
  th_config :: "text_points option"
  th_access :: "bool list"
  th_system :: 's

type_synonym ('s, 'a) time_action = "('s time_host, time_error, 'a) action"

definition run_command :: "'s runner \<Rightarrow> string list \<Rightarrow> ('s, text_points) time_action" where
  "run_command run args = (\<lambda>s. case run args (th_system s) of (r, t) \<Rightarrow> (r, s\<lparr>th_system := t\<rparr>))"

definition CLOCK_COMMAND :: "string list" where
  "CLOCK_COMMAND = [''/usr/bin/timedatectl'', ''show'', ''-p'', ''Timezone'', ''-p'', ''NTP'', ''-p'', ''NTPSynchronized'']"

definition UNIT_COMMAND :: "string list" where
  "UNIT_COMMAND = [''/usr/bin/systemctl'', ''show'', ''systemd-timesyncd.service'', ''-p'', ''LoadState'', ''-p'', ''ActiveState'', ''-p'', ''StatusText'']"

definition NTP_COMMAND :: "string list" where
  "NTP_COMMAND = [''/usr/bin/timedatectl'', ''show-timesync'', ''--all'']"

text \<open>The servers of a configuration file: those of its last \<^verbatim>\<open>NTP=\<close> line.\<close>

definition config_servers :: "unicode \<Rightarrow> text_points list \<Rightarrow> text_points \<Rightarrow> text_points list" where
  "config_servers u servers text = foldl (\<lambda>acc line. if take 4 line = ascii ''NTP='' then text_words u (drop 4 line) else acc)
     servers (split_lines text)"

definition nonempty :: "text_points \<Rightarrow> text_points option" where
  "nonempty t = (if t = [] then None else Some t)"

definition status_of ::
  "unicode \<Rightarrow> text_points option \<Rightarrow> (text_points \<times> text_points) list \<Rightarrow> (text_points \<times> text_points) list
    \<Rightarrow> (text_points \<times> text_points) list \<Rightarrow> time_status" where
  "status_of u config clock unit ntp =
     (let enabled = value_is clock ''NTP'' ''yes''; available = value_is unit ''LoadState'' ''loaded'';
          active = value_is unit ''ActiveState'' ''active''; message = value_or_empty ntp ''NTPMessage'';
          synchronized = (active \<and> enabled \<and> value_is clock ''NTPSynchronized'' ''yes''
            \<and> (case packet_count message of None \<Rightarrow> False | Some n \<Rightarrow> 0 < n \<and> contains (ascii ''Ignored=no'') message));
          reported = text_words u (value_or_empty ntp ''SystemNTPServers'');
          servers = (case config of Some text \<Rightarrow> if active then reported else config_servers u reported text | None \<Rightarrow> reported);
          state = (if \<not> available then ''unavailable'' else if synchronized then ''synchronized''
            else if \<not> enabled then ''disabled'' else if active then ''waiting'' else ''service-error'')
      in \<lparr>ts_available = available, ts_state = state, ts_enabled = enabled, ts_synchronized = synchronized,
          ts_timezone = (case value_of clock ''Timezone'' of None \<Rightarrow> ascii ''UTC'' | Some z \<Rightarrow> z), ts_servers = servers,
          ts_fallback = text_words u (value_or_empty ntp ''FallbackNTPServers''),
          ts_network = text_words u (value_or_empty ntp ''LinkNTPServers''),
          ts_runtime = text_words u (value_or_empty ntp ''RuntimeNTPServers''),
          ts_selected = nonempty (value_or_empty ntp ''ServerName''), ts_address = nonempty (value_or_empty ntp ''ServerAddress''),
          ts_service = value_or_empty unit ''StatusText'', ts_message = state\<rparr>)"

text \<open>One access to the configuration file, which fails when the next entry says so; \<^verbatim>\<open>exists()\<close> does not fail.\<close>

definition file_access :: "('s time_host \<Rightarrow> 's time_host) \<Rightarrow> ('s, unit) time_action" where
  "file_access f = with_state (\<lambda>s. case th_access s of
     False # rest \<Rightarrow> then_action (modify_state (\<lambda>s. s\<lparr>th_access := rest\<rparr>)) (raise_error FileFailed)
   | True # rest \<Rightarrow> modify_state (\<lambda>s. f (s\<lparr>th_access := rest\<rparr>))
   | [] \<Rightarrow> modify_state f)"

definition stored_config :: "('s, text_points option) time_action" where
  "stored_config = with_state (\<lambda>s. case th_config s of None \<Rightarrow> ret None
     | Some text \<Rightarrow> then_action (file_access (\<lambda>s. s)) (ret (Some text)))"

definition time_status_now :: "unicode \<Rightarrow> 's runner \<Rightarrow> ('s, time_status) time_action" where
  "time_status_now u run =
     bind_action (run_command run CLOCK_COMMAND) (\<lambda>clock.
     bind_action (run_command run UNIT_COMMAND) (\<lambda>unit.
       let u_props = properties unit; active = value_is u_props ''ActiveState'' ''active'';
           live = value_is u_props ''LoadState'' ''loaded'' \<and> active in
       bind_action (if live then bind_action (run_command run NTP_COMMAND) (\<lambda>text. ret (properties text)) else ret [])
         (\<lambda>ntp. bind_action (if active then ret None else stored_config)
           (\<lambda>config. ret (status_of u config (properties clock) u_props ntp)))))"

subsection \<open>Synchronisation\<close>

definition replace_config :: "text_points \<Rightarrow> ('s, unit) time_action" where
  "replace_config text = file_access (\<lambda>s. s\<lparr>th_config := Some text\<rparr>)"

definition remove_config :: "('s, unit) time_action" where
  "remove_config = file_access (\<lambda>s. s\<lparr>th_config := None\<rparr>)"

definition config_text :: "text_points list \<Rightarrow> text_points" where
  "config_text servers = ascii ''# Managed by FM10K Control Panel'' @ [10] @ ascii ''[Time]'' @ [10] @ ascii ''NTP='' @ [10]
     @ ascii ''NTP='' @ join_points 32 servers @ [10] @ ascii ''FallbackNTP='' @ [10]"

definition OTHER_SERVICES :: "string list" where
  "OTHER_SERVICES = [''chrony.service'', ''ntpsec.service'', ''ntp.service'']"

definition check_other :: "'s runner \<Rightarrow> string \<Rightarrow> ('s, unit) time_action" where
  "check_other run name = bind_action (run_command run [''/usr/bin/systemctl'', ''show'', name, ''-p'', ''ActiveState'']) (\<lambda>text.
     if value_is (properties text) ''ActiveState'' ''active'' \<or> value_is (properties text) ''ActiveState'' ''activating''
     then raise_error OtherService else ret ())"

definition switch_sync :: "'s runner \<Rightarrow> bool \<Rightarrow> ('s, unit) time_action" where
  "switch_sync run on = bind_action (run_command run [''/usr/bin/timedatectl'', ''set-ntp'', if on then ''true'' else ''false'']) (\<lambda>_. ret ())"

definition restart_sync :: "'s runner \<Rightarrow> ('s, unit) time_action" where
  "restart_sync run = bind_action (run_command run [''/usr/bin/systemctl'', ''restart'', ''systemd-timesyncd.service'']) (\<lambda>_. ret ())"

definition switch_servers :: "unicode \<Rightarrow> 's runner \<Rightarrow> text_points list option \<Rightarrow> ('s, time_status) time_action" where
  "switch_servers u run servers =
     then_action (case servers of None \<Rightarrow> ret () | Some ns \<Rightarrow> replace_config (config_text ns))
    (then_action (switch_sync run True)
    (then_action (restart_sync run)
    (bind_action (time_status_now u run) (\<lambda>current.
       if (case servers of None \<Rightarrow> False | Some ns \<Rightarrow> ts_servers current \<noteq> ns) then raise_error ReadbackDiffers
       else ret (if ts_synchronized current then current else current\<lparr>ts_message := ''requested''\<rparr>)))))"

definition restore_servers ::
  "'s runner \<Rightarrow> text_points list option \<Rightarrow> text_points option \<Rightarrow> bool \<Rightarrow> ('s, unit) time_action" where
  "restore_servers run servers old enabled =
     then_action (if servers = None then ret ()
       else (case old of None \<Rightarrow> remove_config | Some text \<Rightarrow> replace_config text))
     (if enabled then restart_sync run else switch_sync run False)"

definition sync_time :: "unicode \<Rightarrow> 's runner \<Rightarrow> text_points list option \<Rightarrow> ('s, time_status) time_action" where
  "sync_time u run given = (case time_sync_request u given of
     None \<Rightarrow> raise_error BadServers
   | Some servers \<Rightarrow> bind_action (time_status_now u run) (\<lambda>before.
       if \<not> ts_available before then raise_error NotInstalled
       else then_action (for_each (check_other run) OTHER_SERVICES)
         (bind_action stored_config (\<lambda>old. catch_action (switch_servers u run servers)
           (\<lambda>cause. then_action (catch_action (restore_servers run servers old (ts_enabled before))
               (\<lambda>recovery. raise_error (RecoveryIncomplete cause recovery)))
             (raise_error (SyncFailed cause)))))))"

subsection \<open>The service\<close>

definition servers_of :: "json \<Rightarrow> text_points list option option" where
  "servers_of v = (case v of JNull \<Rightarrow> Some None
     | JList xs \<Rightarrow> map_option Some (all_some (map (\<lambda>x. case x of JStr s \<Rightarrow> Some s | _ \<Rightarrow> None) xs))
     | _ \<Rightarrow> None)"

definition handle_time :: "unicode \<Rightarrow> 's runner \<Rightarrow> json \<Rightarrow> ('s, time_status) time_action" where
  "handle_time u run req =
     (let action = jget req ''action'' in
      if set (map fst (entries req)) - {''action'', ''servers''} \<noteq> {} \<or> action \<notin> {jstr ''status'', jstr ''sync''}
      then raise_error BadRequest
      else case servers_of (jget req ''servers'') of
        None \<Rightarrow> raise_error BadServers
      | Some given \<Rightarrow> (case time_sync_request u given of
          None \<Rightarrow> raise_error BadServers
        | Some servers \<Rightarrow> if action = jstr ''status'' then time_status_now u run else sync_time u run servers))"

text \<open>One connection: a peer that is neither root nor the panel's user gets no answer.\<close>

definition serve_time ::
  "unicode \<Rightarrow> 's runner \<Rightarrow> (octet list \<Rightarrow> json option) \<Rightarrow> int \<Rightarrow> int \<Rightarrow> bool \<Rightarrow> peer \<Rightarrow> 's time_host
    \<Rightarrow> (time_error + time_status) option \<times> 's time_host" where
  "serve_time u run loads web_user user lock_free peer s =
     (if user \<notin> {0, web_user} then (None, s)
      else case fst (receive_time loads peer) of
        Inl e \<Rightarrow> (Some (Inl (BadMessage e)), s)
      | Inr req \<Rightarrow> if \<not> lock_free then (Some (Inl HelperBusy), s)
          else map_prod Some id (handle_time u run req s))"

end
