(* ===== verification/Time_Properties.thy ===== *)
theory Time_Properties
  imports Time_Helper
begin

text \<open>Accepted time servers: what they look like, and that an accepted name is read back as it is.\<close>

subsection \<open>Addresses are printed as they are read\<close>

definition v4_ok :: "nat list \<Rightarrow> bool" where
  "v4_ok os \<longleftrightarrow> length os = 4 \<and> list_all (\<lambda>n. n < 256) os"

definition v6_ok :: "nat list \<Rightarrow> bool" where
  "v6_ok hs \<longleftrightarrow> length hs = 8 \<and> list_all (\<lambda>n. n < 65536) hs"

fun address_ok :: "address \<Rightarrow> bool" where
  "address_ok (V4 os) = v4_ok os"
| "address_ok (V6 hs) = v6_ok hs"

lemma all_some_map: "(\<And>x. x \<in> set xs \<Longrightarrow> f x = Some (g x)) \<Longrightarrow> all_some (map f xs) = Some (map g xs)"
  by (induction xs) auto

lemma all_some_SomeD: "all_some xs = Some ys \<Longrightarrow> xs = map Some ys"
  by (induction xs arbitrary: ys) (auto split: option.splits)

lemma all_some_map_inverse: "(\<And>x. x \<in> set xs \<Longrightarrow> f (g x) = Some x) \<Longrightarrow> all_some (map f (map g xs)) = Some xs"
  by (induction xs) auto

lemma decimal_text: "list_all decimal_point (base_text 10 n)"
  unfolding list_all_iff
proof
  fix c assume "c \<in> set (base_text 10 n)"
  then obtain d where "d < 10" "c = digit_point d" using base_text_points [of 10 c n] by auto
  then show "decimal_point c" by (simp add: digit_point_def decimal_point_def)
qed

lemma hex_text: "list_all (\<lambda>c. decimal_point c \<or> 97 \<le> c \<and> c \<le> 102) (base_text 16 n)"
  unfolding list_all_iff
proof
  fix c assume "c \<in> set (base_text 16 n)"
  then obtain d where "d < 16" "c = digit_point d" using base_text_points [of 16 c n] by auto
  then show "decimal_point c \<or> 97 \<le> c \<and> c \<le> 102" by (simp add: digit_point_def decimal_point_def)
qed

lemma base_text_zero: "2 \<le> b \<Longrightarrow> base_text b 0 = [48]"
  by (simp add: base_text.simps [of b 0] digit_point_def)

lemma parse_octet_text:
  assumes "n < 256"
  shows "parse_octet (base_text 10 n) = Some n"
proof -
  have "length (base_text 10 n) \<le> 3" using length_base_text [of 10 3 n] assms by simp
  moreover have "base_text 10 n = [48] \<or> hd (base_text 10 n) \<noteq> 48"
    using base_text_leading [of 10 n] base_text_zero [of 10] by (cases "n = 0") auto
  ultimately show ?thesis using assms decimal_text [of n] by (auto simp: parse_octet_def text_value_base)
qed

lemma parse_hextet_text:
  assumes "n < 65536"
  shows "parse_hextet (base_text 16 n) = Some n"
proof -
  have "length (base_text 16 n) \<le> 4" using length_base_text [of 16 4 n] assms by simp
  moreover have "list_all hex_point (base_text 16 n)" using hex_text [of n] by (auto simp: list_all_iff hex_point_def)
  ultimately show ?thesis by (simp add: parse_hextet_def text_value_base)
qed

lemma no_dot_decimal: "46 \<notin> set (base_text 10 n)" and no_colon_decimal: "58 \<notin> set (base_text 10 n)"
  using decimal_text [of n] by (auto simp: list_all_iff decimal_point_def)

lemma no_dot_hex: "46 \<notin> set (base_text 16 n)" and no_colon_hex: "58 \<notin> set (base_text 16 n)"
  and no_percent_hex: "37 \<notin> set (base_text 16 n)"
  using hex_text [of n] by (auto simp: list_all_iff decimal_point_def)

lemma parse_print_v4:
  assumes "v4_ok os"
  shows "parse_v4 (print_v4 os) = Some os"
proof -
  have "split_points 46 (print_v4 os) = map (base_text 10) os"
    using assms no_dot_decimal by (subst print_v4.simps, intro split_join) (auto simp: v4_ok_def)
  moreover have "all_some (map parse_octet (map (base_text 10) os)) = Some os"
    using assms by (intro all_some_map_inverse) (auto simp: v4_ok_def list_all_iff parse_octet_text)
  ultimately show ?thesis using assms by (simp add: parse_v4_def v4_ok_def)
qed

lemma print_v4_points: "c \<in> set (print_v4 os) \<Longrightarrow> decimal_point c \<or> c = 46"
  using set_join [of 46 "map (base_text 10) os"] decimal_text unfolding list_all_iff by auto

lemma eight_hextets:
  assumes "v6_ok hs"
  obtains a b c d e f g h where "hs = [a, b, c, d, e, f, g, h]"
proof (rule that)
  have "hs = map ((!) hs) [0..<8]" using assms map_nth [of hs] by (simp add: v6_ok_def)
  then show "hs = [hs ! 0, hs ! 1, hs ! 2, hs ! 3, hs ! 4, hs ! 5, hs ! 6, hs ! 7]" by (simp add: upt_rec numeral_eq_Suc)
qed

text \<open>The run of zeros the printer leaves out.\<close>

definition zeros_at :: "nat list \<Rightarrow> nat \<Rightarrow> nat \<Rightarrow> bool" where
  "zeros_at hs start n \<longleftrightarrow> start + n \<le> length hs \<and> (\<forall>i. start \<le> i \<and> i < start + n \<longrightarrow> hs ! i = 0)"

lemma zero_run_spec:
  assumes "zeros_at (pre @ hs) bs bl" and "cl > 0 \<Longrightarrow> cs + cl = length pre" and "zeros_at (pre @ hs) cs cl \<or> cl = 0" and "bl > 0 \<or> bs = 0"
    and "zero_run hs (length pre) (bs, bl) (cs, cl) = (start, n)"
  shows "zeros_at (pre @ hs) start n"
  using assms
proof (induction hs arbitrary: pre bs bl cs cl)
  case (Cons h hs)
  show ?case
  proof (cases "h = 0")
    case True
    let ?s = "if cl = 0 then length pre else cs"
    have grown: "zeros_at ((pre @ [h]) @ hs) ?s (cl + 1)"
      using Cons.prems(2,3) True by (auto simp: zeros_at_def nth_append less_Suc_eq)
    show ?thesis
      using Cons.IH [of "pre @ [h]" "if cl + 1 > bl then ?s else bs" "if cl + 1 > bl then cl + 1 else bl" "cl + 1" ?s]
        Cons.prems True grown by (auto simp: Let_def split: if_splits)
  next
    case False
    with Cons.IH [of "pre @ [h]" bs bl 0 0] Cons.prems show ?thesis by simp
  qed
qed simp

text \<open>Parts with one gap, which stands at an end when nothing precedes or follows it.\<close>

definition gapped :: "(nat \<Rightarrow> text_points) \<Rightarrow> nat list \<Rightarrow> nat list \<Rightarrow> text_points list" where
  "gapped t hi lo = (if hi = [] then [[]] else []) @ map t hi @ [[]] @ map t lo @ (if lo = [] then [[]] else [])"

lemma gapped_empty:
  assumes "\<And>x. t x \<noteq> []" and "1 \<le> i" and "i < length (gapped t hi lo) - 1"
  shows "gapped t hi lo ! i = [] \<longleftrightarrow> i = max 1 (length hi)"
  using assms by (cases hi) (auto simp: gapped_def nth_append nth_Cons split: nat.splits if_splits)

lemma filter_one: "a \<le> k \<Longrightarrow> k < m \<Longrightarrow> filter (\<lambda>i. i = k) [a..<m] = [k]"
  by (induction m) (auto simp: less_Suc_eq)

lemma parse_gapped:
  assumes ne: "\<And>x. t x \<noteq> []" and hi: "all_some (map parse_hextet (map t hi)) = Some hi"
    and lo: "all_some (map parse_hextet (map t lo)) = Some lo" and room: "length hi + length lo < 8"
  shows "parse_parts (gapped t hi lo) = Some (hi @ replicate (8 - (length hi + length lo)) 0 @ lo)"
proof -
  let ?p = "gapped t hi lo" and ?k = "max 1 (length hi)"
  have len: "length ?p = (if hi = [] then 1 else 0) + length hi + 1 + length lo + (if lo = [] then 1 else 0)"
    by (simp add: gapped_def)
  have "filter (\<lambda>i. ?p ! i = []) [1..<length ?p - 1] = filter (\<lambda>i. i = ?k) [1..<length ?p - 1]"
    by (rule filter_cong) (auto simp: gapped_empty [OF ne])
  moreover have "?k < length ?p - 1" unfolding len by (cases hi; cases lo) auto
  ultimately have skip: "filter (\<lambda>i. ?p ! i = []) [1..<length ?p - 1] = [?k]" by (simp add: filter_one)
  have hd: "hd ?p = [] \<longleftrightarrow> hi = []" by (cases hi) (auto simp: gapped_def ne)
  have last: "List.last ?p = [] \<longleftrightarrow> lo = []" by (cases lo rule: rev_cases) (auto simp: gapped_def ne)
  have counts: "(if hd ?p = [] then ?k - 1 else ?k) = length hi"
    "(if List.last ?p = [] then length ?p - ?k - 2 else length ?p - ?k - 1) = length lo"
    unfolding hd last len by (cases hi; simp) (cases hi; cases lo; simp)
  have parts: "take (length hi) ?p = map t hi" "drop (length ?p - length lo) ?p = map t lo"
    by (cases hi; simp add: gapped_def) (cases hi; cases lo; simp add: gapped_def)
  have small: "length ?p \<le> 9" using room unfolding len by (cases hi; cases lo) auto
  show ?thesis
    using small room unfolding parse_parts_def skip list.case counts Let_def parts hi lo
    by (simp add: hd last)
qed

lemma parse_compressed:
  assumes "v6_ok hs"
  shows "parse_parts (compressed hs) = Some hs"
proof -
  obtain start n where run: "zero_run hs 0 (0, 0) (0, 0) = (start, n)" by (metis surj_pair)
  have z: "zeros_at hs start n"
    using zero_run_spec [of "[]" hs 0 0 0 0 start n] run by (simp add: zeros_at_def)
  have texts: "all_some (map parse_hextet (map (base_text 16) xs)) = Some xs" if "set xs \<subseteq> set hs" for xs
    using assms that by (intro all_some_map_inverse) (auto simp: v6_ok_def list_all_iff intro!: parse_hextet_text)
  have len: "length hs = 8" using assms by (simp add: v6_ok_def)
  show ?thesis
  proof (cases "n > 1")
    case False
    then have c: "compressed hs = map (base_text 16) hs" by (simp add: compressed_def run)
    have none: "filter (\<lambda>i. map (base_text 16) hs ! i = []) [1..<7] = []" by (auto simp: filter_empty_conv len)
    have "hd (map (base_text 16) hs) \<noteq> []" "List.last (map (base_text 16) hs) \<noteq> []"
      using len by (cases hs; simp add: last_map)+
    with none texts [of hs] len show ?thesis unfolding c parse_parts_def by simp
  next
    case True
    let ?hi = "take start hs" and ?lo = "drop (start + n) hs"
    have bounds: "start + n \<le> 8" using z len by (simp add: zeros_at_def)
    have nonempty: "hs \<noteq> []" using len by auto
    have zeros: "take n (drop start hs) = replicate n 0"
      using z by (intro nth_equalityI) (auto simp: zeros_at_def len)
    have whole: "hs = ?hi @ replicate n 0 @ ?lo"
      using zeros append_take_drop_id [of start hs] append_take_drop_id [of n "drop start hs"] by (simp add: add.commute)
    have c: "compressed hs = gapped (base_text 16) ?hi ?lo"
      using True bounds len nonempty by (simp add: compressed_def run gapped_def take_map drop_map Let_def)
    have "parse_parts (compressed hs) = Some (?hi @ replicate (8 - (length ?hi + length ?lo)) 0 @ ?lo)"
      unfolding c
    proof (intro parse_gapped texts)
      show "length ?hi + length ?lo < 8" using bounds len True by simp
    qed (use set_take_subset [of start hs] set_drop_subset [of "start + n" hs] in simp_all)
    with whole bounds len show ?thesis by simp
  qed
qed

lemma compressed_words: "set (compressed hs) \<subseteq> insert [] (base_text 16 ` set hs)"
  by (auto simp: compressed_def Let_def split: prod.splits if_splits dest!: in_set_takeD in_set_dropD)

lemma compressed_points:
  assumes "w \<in> set (compressed hs)" and "c \<in> set w"
  shows "decimal_point c \<or> 97 \<le> c \<and> c \<le> 102"
proof -
  from assms compressed_words [of hs] obtain n where "w = base_text 16 n" by auto
  with assms(2) hex_text [of n] show ?thesis by (simp add: list_all_iff)
qed

lemma compressed_shape:
  assumes "v6_ok hs"
  shows "3 \<le> length (compressed hs)" and "compressed hs \<noteq> []"
proof -
  obtain start n where run: "zero_run hs 0 (0, 0) (0, 0) = (start, n)" by (metis surj_pair)
  have "zeros_at hs start n" using zero_run_spec [of "[]" hs 0 0 0 0 start n] run by (simp add: zeros_at_def)
  with assms show "3 \<le> length (compressed hs)" by (auto simp: compressed_def run zeros_at_def v6_ok_def Let_def)
  then show "compressed hs \<noteq> []" by auto
qed

lemma no_percent: "37 \<notin> set s \<Longrightarrow> takeWhile (\<lambda>c. c \<noteq> 37) s = s"
  by (induction s) auto

lemma parse_v6_join:
  assumes "length parts \<ge> 3" and "\<And>w c. w \<in> set parts \<Longrightarrow> c \<in> set w \<Longrightarrow> c \<notin> {37, 47, 58}"
  shows "parse_v6 (join_points 58 parts) = (case expand_parts parts of None \<Rightarrow> None | Some ps \<Rightarrow> parse_parts ps)"
proof -
  have "split_points 58 (join_points 58 parts) = parts" using assms by (intro split_join) auto
  moreover have "37 \<notin> set (join_points 58 parts)" "47 \<notin> set (join_points 58 parts)"
    using set_join [of 58 parts] assms(2) by fastforce+
  ultimately show ?thesis using assms(1) by (simp add: parse_v6_def Let_def no_percent)
qed

lemma parse_print_v6:
  assumes "v6_ok hs" and "mapped_v4 hs = None"
  shows "parse_v6 (join_points 58 (compressed hs)) = Some hs"
proof -
  note points = compressed_points [of _ hs]
  have "46 \<notin> set (List.last (compressed hs))"
    using points [OF last_in_set [OF compressed_shape(2) [OF assms(1)]]] by (force simp: decimal_point_def)
  then have "expand_parts (compressed hs) = Some (compressed hs)" by (simp add: expand_parts_def)
  moreover have "c \<notin> {37, 47, 58}" if "w \<in> set (compressed hs)" "c \<in> set w" for w c
    using points [OF that] by (auto simp: decimal_point_def)
  ultimately show ?thesis
    using parse_v6_join [OF compressed_shape(1) [OF assms(1)]] parse_compressed [OF assms(1)] by simp
qed

lemma parse_print_mapped:
  assumes "v6_ok hs" and "mapped_v4 hs = Some os"
  shows "v4_ok os \<and> parse_v6 (join_points 58 [[], [], ascii ''ffff'', print_v4 os]) = Some hs"
proof -
  from eight_hextets [OF assms(1)] obtain a b c d e f g h where hs: "hs = [a, b, c, d, e, f, g, h]" .
  with assms have m: "hs = [0, 0, 0, 0, 0, 65535, g, h]" "os = [g div 256, g mod 256, h div 256, h mod 256]"
    and small: "g < 65536" "h < 65536"
    by (auto simp: mapped_v4_def v6_ok_def split: if_splits)
  have ok: "v4_ok os" using small by (auto simp: m v4_ok_def)
  have dot: "46 \<in> set (print_v4 os)" by (simp add: m)
  have ffff: "ascii ''ffff'' = base_text 16 65535"
    by (simp add: base_text.simps [of 16 65535] base_text.simps [of 16 4095] base_text.simps [of 16 255] base_text.simps [of 16 15]
        digit_point_def ascii_def)
  have "expand_parts [[], [], ascii ''ffff'', print_v4 os] = Some [[], [], ascii ''ffff'', base_text 16 g, base_text 16 h]"
    using parse_print_v4 [OF ok] dot unfolding expand_parts_def by (simp add: m del: print_v4.simps)
  moreover have "[[], [], ascii ''ffff'', base_text 16 g, base_text 16 h] = gapped (base_text 16) [] [65535, g, h]"
    by (simp add: gapped_def ffff)
  moreover have "parse_parts (gapped (base_text 16) [] [65535, g, h]) = Some hs"
  proof (subst parse_gapped)
    have "replicate 5 (0::nat) = [0, 0, 0, 0, 0]" by (simp add: eval_nat_numeral)
    then show "Some ([] @ replicate (8 - (length ([] :: nat list) + length [65535, g, h])) 0 @ [65535, g, h]) = Some hs"
      by (simp add: m)
  qed (use small in \<open>simp_all add: parse_hextet_text\<close>)
  moreover have "c \<notin> {37, 47, 58}" if "w \<in> set [[], [], ascii ''ffff'', print_v4 os]" "c \<in> set w" for w c
    using that print_v4_points [of c os] by (auto simp: ascii_def decimal_point_def simp del: print_v4.simps)
  ultimately show ?thesis using ok parse_v6_join [of "[[], [], ascii ''ffff'', print_v4 os]"] by simp
qed

lemma v4_needs_decimals: "58 \<in> set s \<Longrightarrow> parse_v4 s = None"
proof -
  assume colon: "58 \<in> set s"
  have "\<exists>w \<in> set (split_points 46 s). 58 \<in> set w" using colon by (induction s) (auto split: list.splits)
  then obtain w where w: "w \<in> set (split_points 46 s)" "58 \<in> set w" by blast
  have "\<not> list_all decimal_point w" using w(2) by (auto simp: list_all_iff decimal_point_def intro!: bexI [of _ 58])
  then have "parse_octet w = None" by (simp add: parse_octet_def)
  with w(1) have "all_some (map parse_octet (split_points 46 s)) = None"
    by (cases "all_some (map parse_octet (split_points 46 s))") (auto dest!: all_some_SomeD simp: map_eq_conv, metis (no_types) in_set_conv_nth length_map nth_map option.distinct(1))
  then show "parse_v4 s = None" by (simp add: parse_v4_def Let_def)
qed

lemma parse_print:
  assumes "address_ok a"
  shows "parse_address (print_address a) = Some a"
proof (cases a)
  case (V4 os)
  with assms show ?thesis using parse_print_v4 [of os] by (simp add: parse_address_def del: print_v4.simps)
next
  case (V6 hs)
  show ?thesis
  proof (cases "mapped_v4 hs")
    case None
    have "58 \<in> set (join_points 58 ws)" if "3 \<le> length ws" for ws :: "text_points list"
      using that by (cases ws; cases "tl ws") auto
    with None V6 assms v4_needs_decimals compressed_shape parse_print_v6 show ?thesis by (simp add: parse_address_def)
  next
    case (Some os)
    with V6 assms v4_needs_decimals parse_print_mapped show ?thesis by (simp add: parse_address_def del: print_v4.simps)
  qed
qed

subsection \<open>What is parsed is an address\<close>

lemma text_value_bound: "(\<forall>c \<in> set s. point_value c < b) \<Longrightarrow> text_value b s < b ^ length s"
proof (induction s rule: rev_induct)
  case (snoc c s)
  then have "text_value b s < b ^ length s" "point_value c < b" by auto
  then have "b * text_value b s + point_value c < b * (text_value b s + 1)" "text_value b s + 1 \<le> b ^ length s" by auto
  then have "b * text_value b s + point_value c < b * b ^ length s"
    by (meson mult_le_mono2 order_less_le_trans)
  then show ?case by (simp add: text_value_def)
qed (simp add: text_value_def)

lemma parse_octet_bound: "parse_octet s = Some n \<Longrightarrow> n < 256"
  by (auto simp: parse_octet_def split: if_splits)

lemma parse_hextet_bound:
  assumes "parse_hextet s = Some n"
  shows "n < 65536"
proof -
  have s: "list_all hex_point s" "length s \<le> 4" "n = text_value 16 s" using assms by (auto simp: parse_hextet_def split: if_splits)
  have "n < 16 ^ length s"
    unfolding s(3) by (rule text_value_bound) (use s(1) in \<open>auto simp: list_all_iff hex_point_def decimal_point_def point_value_def\<close>)
  also have "(16::nat) ^ length s \<le> 16 ^ 4" using s(2) by (intro power_increasing) auto
  finally show ?thesis by simp
qed

lemma all_some_bound:
  assumes "all_some (map f xs) = Some ys" and "\<And>x y. f x = Some y \<Longrightarrow> P y"
  shows "length ys = length xs \<and> list_all P ys"
proof -
  from all_some_SomeD [OF assms(1)] have m: "map f xs = map Some ys" .
  then have len: "length ys = length xs" by (metis length_map)
  have "P (ys ! i)" if "i < length ys" for i
    using m that len assms(2) by (metis nth_map)
  with len show ?thesis by (auto simp: list_all_length)
qed

lemma parse_v4_ok: "parse_v4 s = Some os \<Longrightarrow> v4_ok os"
  using all_some_bound [of parse_octet "split_points 46 s" os "\<lambda>n. n < 256"] parse_octet_bound
  by (auto simp: parse_v4_def Let_def v4_ok_def split: if_splits)

lemma parse_parts_ok:
  assumes "parse_parts parts = Some hs"
  shows "v6_ok hs"
proof -
  note bound = all_some_bound [of parse_hextet _ _ "\<lambda>n. n < 65536", OF _ parse_hextet_bound]
  have skip: "k < length parts" if "filter (\<lambda>i. parts ! i = []) [1..<length parts - 1] = [k]" for k
  proof -
    from that have "k \<in> set (filter (\<lambda>i. parts ! i = []) [1..<length parts - 1])" by simp
    then show ?thesis by auto
  qed
  show ?thesis
    using assms skip unfolding parse_parts_def
    by (auto simp: v6_ok_def Let_def list_all_iff split: if_splits list.splits option.splits dest!: bound)
qed

lemma parse_address_ok: "parse_address s = Some a \<Longrightarrow> address_ok a"
  using parse_v4_ok parse_parts_ok
  by (auto simp: parse_address_def parse_v6_def Let_def split: option.splits if_splits)

subsection \<open>Accepted names\<close>

text \<open>The characters of an accepted name: digits, lower-case letters, dots, hyphens and colons.\<close>

definition name_point :: "int \<Rightarrow> bool" where
  "name_point c \<longleftrightarrow> alnum c \<or> c \<in> {45, 46, 58}"

definition server_ok :: "unicode \<Rightarrow> text_points \<Rightarrow> bool" where
  "server_ok u n \<longleftrightarrow> n \<noteq> [] \<and> length n \<le> 253 \<and> list_all name_point n
     \<and> (host_name u n \<or> (\<exists>a. address_ok a \<and> \<not> multicast_or_unspecified a \<and> n = print_address a))"

lemma length_join: "length (join_points sep ws) \<le> sum_list (map (\<lambda>w. length w + 1) ws)"
  by (induction sep ws rule: join_points.induct) auto

lemma sum_bounded: "(\<And>w. w \<in> set ws \<Longrightarrow> f w \<le> k) \<Longrightarrow> sum_list (map f ws) \<le> k * length (ws :: 'a list)" for f :: "'a \<Rightarrow> nat"
proof (induction ws)
  case (Cons w ws)
  then have "f w \<le> k" "sum_list (map f ws) \<le> k * length ws" by auto
  then show ?case by simp
qed simp

lemma length_print_v4:
  assumes "v4_ok os"
  shows "length (print_v4 os) \<le> 20"
proof -
  have "length w + 1 \<le> 5" if "w \<in> set (map (base_text 10) os)" for w
  proof -
    from that assms obtain n where "w = base_text 10 n" "n < 256" by (auto simp: v4_ok_def list_all_iff)
    with length_base_text [of 10 3 n] show ?thesis by simp
  qed
  with sum_bounded [of "map (base_text 10) os" "\<lambda>w. length w + 1" 5] length_join [of 46 "map (base_text 10) os"] assms
  show ?thesis by (simp add: v4_ok_def comp_def)
qed

lemma length_compressed: "v6_ok hs \<Longrightarrow> length (compressed hs) \<le> 10"
  by (auto simp: compressed_def Let_def v6_ok_def split: prod.splits)

lemma length_print_v6:
  assumes "v6_ok hs"
  shows "length (join_points 58 (compressed hs)) \<le> 50"
proof -
  have "length w + 1 \<le> 5" if "w \<in> set (compressed hs)" for w
  proof -
    from that compressed_words [of hs] have "w = [] \<or> (\<exists>n \<in> set hs. w = base_text 16 n)" by auto
    then consider "w = []" | n where "n < 65536" "w = base_text 16 n" using assms by (auto simp: v6_ok_def list_all_iff)
    then show ?thesis by cases (use length_base_text [of 16 4] in auto)
  qed
  from sum_bounded [OF this] have "sum_list (map (\<lambda>w. length w + 1) (compressed hs)) \<le> 5 * length (compressed hs)" .
  with length_join [of 58 "compressed hs"] length_compressed [OF assms] show ?thesis by linarith
qed

lemma print_points:
  assumes "address_ok a"
  shows "list_all name_point (print_address a)" and "length (print_address a) \<le> 253" and "print_address a \<noteq> []"
proof -
  have v4: "list_all name_point (print_v4 os)" for os
    using print_v4_points [of _ os] by (auto simp: list_all_iff name_point_def alnum_def simp del: print_v4.simps)
  have v6: "list_all name_point (join_points 58 (compressed hs))" for hs
    using set_join [of 58 "compressed hs"] compressed_points [of _ hs]
    by (fastforce simp: list_all_iff name_point_def alnum_def)
  show "list_all name_point (print_address a)"
    using v4 v6 by (cases a) (auto simp: name_point_def alnum_def decimal_point_def ascii_def simp del: print_v4.simps split: option.splits)
  show "length (print_address a) \<le> 253"
  proof (cases a)
    case (V4 os)
    with assms length_print_v4 [of os] show ?thesis by (simp del: print_v4.simps)
  next
    case (V6 hs)
    show ?thesis
    proof (cases "mapped_v4 hs")
      case None
      with V6 assms length_print_v6 [of hs] show ?thesis by simp
    next
      case (Some os)
      with V6 assms parse_print_mapped [of hs os] length_print_v4 [of os] show ?thesis by (simp add: ascii_def del: print_v4.simps)
    qed
  qed
  show "print_address a \<noteq> []" using parse_print [OF assms] by (auto simp: parse_address_def parse_v4_def parse_v6_def)
qed

lemma strip_dots_split: "\<exists>dots. s = strip_dots s @ dots \<and> set dots \<subseteq> {46}"
proof
  let ?d = "rev (takeWhile (\<lambda>c. c = 46) (rev s))"
  have "rev s = takeWhile (\<lambda>c. c = 46) (rev s) @ dropWhile (\<lambda>c. c = 46) (rev s)" by simp
  then have "s = rev (dropWhile (\<lambda>c. c = 46) (rev s)) @ ?d" by (metis rev_append rev_rev_ident)
  then show "s = strip_dots s @ ?d \<and> set ?d \<subseteq> {46}" by (auto simp: strip_dots_def dest: set_takeWhileD)
qed

lemma split_points_set: "x \<in> set s \<Longrightarrow> x = sep \<or> (\<exists>w \<in> set (split_points sep s). x \<in> set w)"
  by (induction s) (auto split: list.splits)

lemma host_name_points:
  assumes "host_name u s"
  shows "list_all name_point s"
  unfolding list_all_iff
proof
  fix x assume "x \<in> set s"
  moreover obtain dots where "s = strip_dots s @ dots" "set dots \<subseteq> {46}" using strip_dots_split by blast
  ultimately have "x = 46 \<or> x \<in> set (strip_dots s)" by (metis Un_iff set_append singletonD subsetD)
  with split_points_set [of x "strip_dots s" 46] obtain w where "x = 46 \<or> w \<in> set (split_points 46 (strip_dots s)) \<and> x \<in> set w" by blast
  with assms show "name_point x" by (auto simp: host_name_def host_label_def list_all_iff name_point_def)
qed

lemma server_name_ok:
  assumes "server_name u raw = Some n"
  shows "server_ok u n"
proof -
  let ?s = "uc_lower u (uc_strip u raw)"
  have s: "?s \<noteq> []" "length ?s \<le> 253" using assms by (auto simp: server_name_def Let_def split: if_splits)
  consider "host_name u ?s" "n = ?s"
    | a where "parse_address ?s = Some a" "\<not> multicast_or_unspecified a" "n = print_address a"
    using assms by (auto simp: server_name_def Let_def split: if_splits option.splits)
  then show ?thesis
  proof cases
    case 1
    with s host_name_points show ?thesis by (simp add: server_ok_def)
  next
    case 2
    from parse_address_ok [OF 2(1)] print_points [of a] 2 show ?thesis by (auto simp: server_ok_def)
  qed
qed

lemma set_collect_new: "set (collect_new acc vs) = set acc \<union> set vs"
  by (induction acc vs rule: collect_new.induct) auto

lemma distinct_collect_new: "distinct acc \<Longrightarrow> distinct (collect_new acc vs)"
  by (induction acc vs rule: collect_new.induct) auto

lemma length_collect_new: "length (collect_new acc vs) \<le> length acc + length vs"
  by (induction acc vs rule: collect_new.induct) fastforce+

lemma collect_new_distinct: "distinct (acc @ vs) \<Longrightarrow> collect_new acc vs = acc @ vs"
  by (induction acc vs rule: collect_new.induct) auto

lemma validated_names:
  assumes "validate_servers u vs = Some ns"
  shows "ns \<noteq> []" and "length ns \<le> 4" and "distinct ns" and "\<And>n. n \<in> set ns \<Longrightarrow> \<exists>raw \<in> set vs. server_name u raw = Some n"
proof -
  from assms obtain ms where m: "all_some (map (server_name u) vs) = Some ms" "ns = collect_new [] ms"
    and vs: "0 < length vs" "length vs \<le> 4"
    by (auto simp: validate_servers_def split: if_splits)
  from all_some_SomeD [OF m(1)] have map: "map (server_name u) vs = map Some ms" .
  then have len: "length ms = length vs" by (metis length_map)
  then have "set ms \<noteq> {}" using vs by auto
  with set_collect_new [of "[]" ms] show "ns \<noteq> []" unfolding m(2) by auto
  show "length ns \<le> 4" using length_collect_new [of "[]" ms] len vs m(2) by simp
  show "distinct ns" using distinct_collect_new [of "[]" ms] m(2) by simp
  fix n assume "n \<in> set ns"
  then have "Some n \<in> set (map (server_name u) vs)" unfolding map m(2) by (simp add: set_collect_new)
  then show "\<exists>raw \<in> set vs. server_name u raw = Some n" by auto
qed

text \<open>C40: the type of an accepted server list: one to four different names, each of at most 253 characters and made
  of digits, lower-case letters, dots, hyphens and colons only, that is a host name of well-formed labels
  or an address, printed in its canonical form, that is neither multicast nor unspecified.\<close>

theorem accepted_servers:
  assumes "validate_servers u vs = Some ns"
  shows "ns \<noteq> [] \<and> length ns \<le> 4 \<and> distinct ns \<and> list_all (server_ok u) ns"
  using validated_names [OF assms] server_name_ok by (auto simp: list_all_iff)

subsection \<open>Accepted names stay as they are\<close>

lemma name_point_plain: "name_point c \<Longrightarrow> plain_point c"
  by (auto simp: name_point_def plain_point_def alnum_def decimal_point_def)

lemma server_name_stable:
  assumes rules: "ascii_rules u" and given: "server_name u raw = Some n"
  shows "server_name u n = Some n"
proof -
  let ?s = "uc_lower u (uc_strip u raw)"
  from server_name_ok [OF given] have n: "n \<noteq> []" "length n \<le> 253" "list_all plain_point n"
    using name_point_plain by (auto simp: server_ok_def list_all_iff)
  then have self: "uc_lower u (uc_strip u n) = n" "\<not> list_ex (uc_space u) n"
    using rules by (auto simp: ascii_rules_def list_all_iff list_ex_iff)
  consider "host_name u ?s" "n = ?s" "parse_address ?s = None \<or> (\<exists>a. parse_address ?s = Some a \<and> (multicast_or_unspecified a \<or> 37 \<in> set ?s))"
    | a where "parse_address ?s = Some a" "\<not> multicast_or_unspecified a" "n = print_address a"
    using given by (auto simp: server_name_def Let_def split: if_splits option.splits)
  then show ?thesis
  proof cases
    case 1
    with n self show ?thesis by (auto simp: server_name_def Let_def)
  next
    case 2
    have "parse_address n = Some a" unfolding 2(3) by (rule parse_print [OF parse_address_ok [OF 2(1)]])
    moreover have "37 \<notin> set n" using server_name_ok [OF given]
      by (auto simp: server_ok_def list_all_iff name_point_def alnum_def decimal_point_def)
    ultimately show ?thesis using 2(2) n self by (simp add: server_name_def 2(3) [symmetric])
  qed
qed

lemma validate_stable:
  assumes "ascii_rules u" and "validate_servers u vs = Some ns"
  shows "validate_servers u ns = Some ns"
proof -
  note v = validated_names [OF assms(2)]
  have "all_some (map (server_name u) ns) = Some ns"
    using all_some_map [of ns "server_name u" "\<lambda>n. n"] v(4) server_name_stable [OF assms(1)] by auto
  with v(1-3) show ?thesis by (simp add: validate_servers_def collect_new_distinct Suc_le_eq)
qed

lemma words_from_word:
  "list_all (\<lambda>c. \<not> space c) w \<Longrightarrow> words_from space acc (w @ rest) = words_from space (acc @ w) rest"
  by (induction w arbitrary: acc) auto

lemma words_join:
  assumes "space 32" and "\<And>w. w \<in> set ws \<Longrightarrow> w \<noteq> [] \<and> list_all (\<lambda>c. \<not> space c) w"
  shows "words_from space [] (join_points 32 ws) = ws"
  using assms(2)
proof (induction "32::int" ws rule: join_points.induct)
  case (2 w)
  with words_from_word [of space w "[]" "[]"] show ?case by simp
next
  case (3 w v vs)
  then have "words_from space [] (join_points 32 (w # v # vs)) = words_from space w (32 # join_points 32 (v # vs))"
    using words_from_word [of space w "[]" "32 # join_points 32 (v # vs)"] by simp
  with 3 assms(1) show ?case by simp
qed simp

lemma split_lines_line:
  assumes "list_all (\<lambda>c. \<not> line_end c) w"
  shows "split_lines (w @ 10 # rest) = w # split_lines rest"
  using assms by (induction w) (auto simp: line_end_def)

lemma config_lines:
  assumes "list_all (list_all name_point) ns"
  shows "split_lines (config_text ns) = [ascii ''# Managed by FM10K Control Panel'', ascii ''[Time]'', ascii ''NTP='',
    ascii ''NTP='' @ join_points 32 ns, ascii ''FallbackNTP='']"
proof -
  have "\<not> line_end c" if "c \<in> set (join_points 32 ns)" for c
    using that set_join [of 32 ns] assms
    by (fastforce simp: list_all_iff name_point_def alnum_def decimal_point_def line_end_def)
  then have names: "list_all (\<lambda>c. \<not> line_end c) (ascii ''NTP='' @ join_points 32 ns)"
    by (auto simp: list_all_iff ascii_def line_end_def)
  have fixed: "list_all (\<lambda>c. \<not> line_end c) (ascii ''# Managed by FM10K Control Panel'')" "list_all (\<lambda>c. \<not> line_end c) (ascii ''[Time]'')"
    "list_all (\<lambda>c. \<not> line_end c) (ascii ''NTP='')" "list_all (\<lambda>c. \<not> line_end c) (ascii ''FallbackNTP='')"
    by (simp_all add: ascii_def line_end_def)
  show ?thesis
    using split_lines_line [OF fixed(1)] split_lines_line [OF fixed(2)] split_lines_line [OF fixed(3)] split_lines_line [OF names]
      split_lines_line [OF fixed(4), of "[]"]
    by (simp add: config_text_def)
qed

text \<open>An accepted list passes unchanged through every later stage: the client and the root service validate it
  again and keep it, the configuration file it is written to has the five intended lines and no other,
  and the servers read back from that file are the list.\<close>

theorem servers_read_back:
  assumes "ascii_rules u" and "validate_servers u vs = Some ns"
  shows "time_sync_request u (Some ns) = Some (Some ns) \<and> length (split_lines (config_text ns)) = 5
    \<and> config_servers u [] (config_text ns) = ns"
proof -
  have "server_ok u n" if "n \<in> set ns" for n
    using validated_names(4) [OF assms(2) that] server_name_ok by blast
  then have ok: "list_all (list_all name_point) ns" "\<And>n. n \<in> set ns \<Longrightarrow> n \<noteq> []"
    by (auto simp: list_all_iff server_ok_def)
  have "\<not> uc_space u c" if "name_point c" for c
    using assms(1) name_point_plain [OF that] by (simp add: ascii_rules_def)
  with ok have "text_words u (join_points 32 ns) = ns"
    using assms(1) by (intro words_join) (auto simp: list_all_iff ascii_rules_def)
  with config_lines [OF ok(1)] validate_stable [OF assms] show ?thesis
    by (simp add: config_servers_def time_sync_request_def ascii_def)
qed

subsection \<open>A failed synchronisation\<close>
























subsection \<open>A board\<close>

definition ascii_space_point :: "int \<Rightarrow> bool" where
  "ascii_space_point c \<longleftrightarrow> c = 32 \<or> 9 \<le> c \<and> c \<le> 13 \<or> 28 \<le> c \<and> c \<le> 31"

definition ascii_tables :: unicode where
  "ascii_tables = \<lparr>uc_strip = (\<lambda>s. rev (dropWhile ascii_space_point (rev (dropWhile ascii_space_point s)))),
     uc_lower = map (\<lambda>c. if 65 \<le> c \<and> c \<le> 90 then c + 32 else c), uc_space = ascii_space_point,
     uc_digit = (\<lambda>c. 48 \<le> c \<and> c \<le> 57)\<rparr>"

lemma dropWhile_none: "list_all (\<lambda>c. \<not> P c) s \<Longrightarrow> dropWhile P s = s"
  by (cases s) auto

lemma ascii_tables_rules: "ascii_rules ascii_tables"
proof -
  have space: "\<not> ascii_space_point c" if "plain_point c" for c using that by (simp add: plain_point_def ascii_space_point_def)
  have "uc_strip ascii_tables s = s" if "list_all plain_point s" for s
  proof -
    have "list_all (\<lambda>c. \<not> ascii_space_point c) s" "list_all (\<lambda>c. \<not> ascii_space_point c) (rev s)"
      using that space by (auto simp: list_all_iff)
    then show ?thesis by (simp add: ascii_tables_def dropWhile_none)
  qed
  moreover have "uc_lower ascii_tables s = s" if "list_all plain_point s" for s
    using that by (auto simp: ascii_tables_def list_all_iff plain_point_def intro!: map_idI)
  ultimately show ?thesis using space by (auto simp: ascii_rules_def ascii_tables_def plain_point_def ascii_space_point_def)
qed





lemma accepted_servers_witness:
  "validate_servers ascii_tables [ascii '' 10.0.0.7'', ascii ''time.example.org''] = Some [ascii ''10.0.0.7'', ascii ''time.example.org'']
   \<and> list_all (server_ok ascii_tables) [ascii ''10.0.0.7'', ascii ''time.example.org'']"
proof -
  have run: "validate_servers ascii_tables [ascii '' 10.0.0.7'', ascii ''time.example.org''] = Some [ascii ''10.0.0.7'', ascii ''time.example.org'']"
    by code_simp
  from accepted_servers [OF run] run show ?thesis by blast
qed

lemma servers_read_back_witness:
  "config_servers ascii_tables [] (config_text [ascii ''ntp.example.org'']) = [ascii ''ntp.example.org'']"
proof -
  have run: "validate_servers ascii_tables [ascii '' NTP.example.org''] = Some [ascii ''ntp.example.org'']" by code_simp
  from servers_read_back [OF ascii_tables_rules run] show ?thesis by blast
qed


end
