(* ===== verification/Release.thy ===== *)
theory Release
  imports Text_Points Netlab_Wire
begin

text \<open>
  release.py: the manifest of a release, the extraction of its archive, the check of the extracted bundle
  and the client of the GitHub releases. SHA-256, the JSON parser, the splitting of a URL and the answers of
  the server are parameters; names and texts are code points, an extracted tree is a list of paths, each the
  list of its segments, with what stands there.
\<close>

subsection \<open>Values of a manifest\<close>

datatype release_fault =
  BadVersion | BadJson | DuplicateKey | BadDigest | BadManifest | Mismatch | Incompatible | BadCommit | BadAssets | BadAsset
| ChecksumMismatch | NotNew | UnsafeEntry | TooMuch | Collision | WriteConflict | BadBundle | BadPath | BadMetadata | Unlisted
| Incomplete | Special_link | UntrustedRedirect | UnsupportedRequest | HttpStatus int | NoConnection | TooLong | NotStable | Ambiguous
| SizeChanged | ReadFailed

definition REPOSITORY :: text_points where "REPOSITORY = ascii ''AAA404/fm10k-controlpanel-public''"
definition MANIFEST_NAME :: text_points where "MANIFEST_NAME = ascii ''release-manifest.json''"
definition MAX_ASSET_BYTES :: int where "MAX_ASSET_BYTES = 134217728"

definition COMPATIBILITY :: json where
  "COMPATIBILITY = JObj [(''os'', jstr ''debian''), (''os_version'', jstr ''13''), (''architecture'', jstr ''x86_64''),
     (''kernel_series'', jstr ''6.12''), (''driver'', jstr ''6.12.101-ies2''), (''pci_bdf'', jstr ''0000:01:00.0''),
     (''profiles'', JList [jstr ''sil001-hw4-b0'', jstr ''sil001-hw5-a11'']),
     (''native_abi'', JInt 1), (''configuration_schema'', JInt 1), (''installer_format'', JInt 1), (''libyang'', jstr ''2.1.148'')]"

definition version_part :: "text_points \<Rightarrow> bool" where
  "version_part s \<longleftrightarrow> s = [48] \<or> s \<noteq> [] \<and> length s \<le> 6 \<and> list_all decimal_point s \<and> hd s \<noteq> 48"

definition version_tuple :: "json \<Rightarrow> release_fault + (nat \<times> nat \<times> nat)" where
  "version_tuple v = (case v of
     JStr s \<Rightarrow> (case split_points 46 s of
         [a, b, c] \<Rightarrow> if version_part a \<and> version_part b \<and> version_part c
           then Inr (text_value 10 a, text_value 10 b, text_value 10 c) else Inl BadVersion
       | _ \<Rightarrow> Inl BadVersion)
   | _ \<Rightarrow> Inl BadVersion)"

text \<open>\<^verbatim>\<open>json.loads\<close> keeps the last of equal keys, the hook sees all of them: the parser delivers all.\<close>

fun unique_keys :: "json \<Rightarrow> bool" where
  "unique_keys (JObj fs) \<longleftrightarrow> distinct (map fst fs) \<and> (\<forall>x \<in> set (map snd fs). unique_keys x)"
| "unique_keys (JList xs) \<longleftrightarrow> (\<forall>x \<in> set xs. unique_keys x)"
| "unique_keys _ \<longleftrightarrow> True"

definition load_json :: "(octet list \<Rightarrow> json option) \<Rightarrow> octet list \<Rightarrow> release_fault + json" where
  "load_json parse raw = (case parse raw of None \<Rightarrow> Inl BadJson | Some v \<Rightarrow> if unique_keys v then Inr v else Inl DuplicateKey)"

definition safe_relative :: "text_points \<Rightarrow> bool" where
  "safe_relative name \<longleftrightarrow> name \<noteq> [] \<and> hd name \<noteq> 47
     \<and> list_all (\<lambda>part. part \<noteq> [] \<and> part \<noteq> [46] \<and> part \<noteq> [46, 46]) (split_points 47 name)
     \<and> 92 \<notin> set name \<and> list_all (\<lambda>c. \<not> (c < 32 \<or> c = 127)) name"

definition lower_hex :: "nat \<Rightarrow> text_points \<Rightarrow> bool" where
  "lower_hex n s \<longleftrightarrow> length s = n \<and> list_all (\<lambda>c. decimal_point c \<or> 97 \<le> c \<and> c \<le> 102) s"

definition digest_ok :: "json \<Rightarrow> bool" where
  "digest_ok v = (case v of JStr s \<Rightarrow> lower_hex 64 s | _ \<Rightarrow> False)"

text \<open>\<^verbatim>\<open>str(value)\<close> has forty hexadecimal digits for a text or an integer only.\<close>

definition commit_ok :: "json \<Rightarrow> bool" where
  "commit_ok v = (case v of JStr s \<Rightarrow> lower_hex 40 s | JInt n \<Rightarrow> lower_hex 40 (ascii (decimal_int n)) | _ \<Rightarrow> False)"

definition key_set :: "json \<Rightarrow> string set" where
  "key_set v = set (map fst (entries v))"

fun text_of :: "json \<Rightarrow> text_points" where
  "text_of (JStr s) = s"
| "text_of _ = []"

definition bundle_name :: "text_points \<Rightarrow> text_points" where
  "bundle_name version = ascii ''fm10k-controlpanel-'' @ version @ ascii ''.tar.gz''"

definition package_name :: "text_points \<Rightarrow> text_points" where
  "package_name version = ascii ''fm10k-controlpanel_'' @ version @ ascii ''_all.deb''"

definition asset_ok :: "text_points \<Rightarrow> json \<Rightarrow> bool" where
  "asset_ok expected a \<longleftrightarrow> is_object a \<and> key_set a = {''name'', ''size'', ''sha256''} \<and> py_eq (jget a ''name'') (JStr expected)
     \<and> (case jget a ''size'' of JInt n \<Rightarrow> 0 < n \<and> n \<le> MAX_ASSET_BYTES | _ \<Rightarrow> False)"

definition assets_check :: "text_points \<Rightarrow> (string \<times> json) list \<Rightarrow> release_fault option" where
  "assets_check version assets = first_failure (concat (map (\<lambda>(key, a).
     [(\<not> asset_ok (if key = ''bundle'' then bundle_name version else package_name version) a, BadAsset),
      (\<not> digest_ok (jget a ''sha256''), BadDigest)]) assets))"

definition validate_manifest :: "json \<Rightarrow> text_points option \<Rightarrow> release_fault + json" where
  "validate_manifest v tag =
     (if \<not> is_object v \<or> key_set v \<noteq> {''schema'', ''repository'', ''version'', ''tag'', ''source_commit'', ''compatibility'',
           ''sdk_manifest_sha256'', ''assets''} then Inl BadManifest
      else ebind (version_tuple (jget v ''version'')) (\<lambda>_. let version = text_of (jget v ''version'') in
        if \<not> py_eq (jget v ''schema'') (JInt 1) \<or> \<not> py_eq (jget v ''repository'') (JStr REPOSITORY)
           \<or> \<not> py_eq (jget v ''tag'') (JStr (118 # version))
           \<or> (case tag of None \<Rightarrow> False | Some t \<Rightarrow> \<not> py_eq (jget v ''tag'') (JStr t)) then Inl Mismatch
        else if \<not> py_eq (jget v ''compatibility'') COMPATIBILITY then Inl Incompatible
        else if \<not> commit_ok (jget v ''source_commit'') then Inl BadCommit
        else if \<not> digest_ok (jget v ''sdk_manifest_sha256'') then Inl BadDigest
        else if \<not> is_object (jget v ''assets'') \<or> key_set (jget v ''assets'') \<noteq> {''bundle'', ''web''} then Inl BadAssets
        else (case assets_check version (entries (jget v ''assets'')) of Some e \<Rightarrow> Inl e | None \<Rightarrow> Inr v)))"

subsection \<open>Files\<close>

type_synonym path = "text_points list"

datatype node = Folder | File "octet list" int | Special

type_synonym files = "(path \<times> node) list"

definition node_at :: "files \<Rightarrow> path \<Rightarrow> node option" where
  "node_at fs p = map_of fs p"

text \<open>\<^verbatim>\<open>mkdir(parents=True, exist_ok=True)\<close> and an exclusive creation; an occupied path is an \<^verbatim>\<open>OSError\<close>.\<close>

fun make_folders :: "path list \<Rightarrow> files \<Rightarrow> release_fault + files" where
  "make_folders [] fs = Inr fs"
| "make_folders (p # ps) fs = (case node_at fs p of
     None \<Rightarrow> make_folders ps ((p, Folder) # fs)
   | Some Folder \<Rightarrow> make_folders ps fs
   | Some _ \<Rightarrow> Inl WriteConflict)"

fun path_prefixes :: "path \<Rightarrow> path list" where
  "path_prefixes [] = []"
| "path_prefixes (w # ws) = [w] # map ((#) w) (path_prefixes ws)"

definition make_parents :: "path \<Rightarrow> files \<Rightarrow> release_fault + files" where
  "make_parents p fs = make_folders (path_prefixes p) fs"

definition create_file :: "path \<Rightarrow> octet list \<Rightarrow> int \<Rightarrow> files \<Rightarrow> release_fault + files" where
  "create_file p data mode fs = ebind (make_parents (butlast p) fs) (\<lambda>fs.
     if node_at fs p \<noteq> None then Inl WriteConflict else Inr ((p, File data mode) # fs))"

definition verify_asset :: "(octet list \<Rightarrow> text_points) \<Rightarrow> node option \<Rightarrow> json \<Rightarrow> bool" where
  "verify_asset sha f a = (case f of
     Some (File data _) \<Rightarrow> jget a ''size'' = JInt (int (length data)) \<and> jget a ''sha256'' = JStr (sha data)
   | _ \<Rightarrow> False)"

subsection \<open>Extraction\<close>

datatype member_kind = RegularFile | Directory | OtherKind

record member =
  mb_name :: text_points
  mb_kind :: member_kind
  mb_mode :: int
  mb_size :: int
  mb_data :: "octet list"

definition strip_slash :: "text_points \<Rightarrow> text_points" where
  "strip_slash s = rev (dropWhile (\<lambda>c. c = 47) (rev s))"

definition member_name :: "member \<Rightarrow> text_points" where
  "member_name m = (if mb_kind m = Directory then strip_slash (mb_name m) else mb_name m)"

abbreviation path_of :: "text_points \<Rightarrow> path" where "path_of \<equiv> split_points 47"

definition member_ok :: "text_points \<Rightarrow> text_points list \<Rightarrow> member \<Rightarrow> bool" where
  "member_ok prefix seen m \<longleftrightarrow> safe_relative (member_name m) \<and> hd (path_of (member_name m)) = prefix
     \<and> member_name m \<notin> set seen \<and> mb_kind m \<noteq> OtherKind \<and> mb_mode m AND 0xE12 = 0
     \<and> 0 \<le> mb_size m \<and> mb_size m \<le> MAX_ASSET_BYTES"

fun scan_members :: "text_points \<Rightarrow> text_points list \<Rightarrow> int \<Rightarrow> member list \<Rightarrow> release_fault + unit" where
  "scan_members prefix seen bytes [] = Inr ()"
| "scan_members prefix seen bytes (m # ms) =
     (if \<not> member_ok prefix seen m then Inl UnsafeEntry
      else if bytes + mb_size m > 536870912 \<or> 12000 \<le> int (length seen) then Inl TooMuch
      else scan_members prefix (member_name m # seen) (bytes + mb_size m) ms)"

text \<open>A file is the parent of an entry.\<close>

definition collides :: "member list \<Rightarrow> bool" where
  "collides ms \<longleftrightarrow> (let file_paths = map (path_of \<circ> member_name) (filter (\<lambda>m. mb_kind m = RegularFile) ms) in
     list_ex (\<lambda>m. list_ex (\<lambda>p. p \<in> set file_paths) (path_prefixes (butlast (path_of (member_name m))))) ms)"

definition file_mode :: "member \<Rightarrow> int" where
  "file_mode m = (if mb_mode m AND 0x49 \<noteq> 0 then 0x1ED else 0x1A4)"

fun write_members :: "member list \<Rightarrow> files \<Rightarrow> release_fault + files" where
  "write_members [] fs = Inr fs"
| "write_members (m # ms) fs = (let p = path_of (member_name m) in
     ebind (if mb_kind m = Directory then make_parents p fs
        else create_file p (mb_data m) (file_mode m) fs)
       (write_members ms))"

subsection \<open>The bundle\<close>

text \<open>The files of a folder, by their paths below it.\<close>

definition below :: "text_points \<Rightarrow> files \<Rightarrow> files" where
  "below w fs = map (\<lambda>(p, n). (tl p, n)) (filter (\<lambda>(p, n). p \<noteq> [] \<and> hd p = w \<and> tl p \<noteq> []) fs)"

definition bundle_manifest_path :: path where "bundle_manifest_path = [ascii ''bundle-manifest.json'']"

definition REQUIRED_FILES :: "text_points list" where
  "REQUIRED_FILES = [ascii ''install.sh'', ascii ''scripts/install_release.py'', ascii ''VERSION'', ascii ''hardware/sdk-inputs.json'',
     ascii ''deploy/release-dependencies.json'']"

record tools =
  tl_sha :: "octet list \<Rightarrow> text_points"
  tl_parse :: "octet list \<Rightarrow> json option"
  tl_version :: "octet list \<Rightarrow> text_points"

definition entry_check :: "tools \<Rightarrow> files \<Rightarrow> string \<times> json \<Rightarrow> release_fault option" where
  "entry_check t base = (\<lambda>(name, e). let p = path_of (ascii name) in first_failure
     [(\<not> safe_relative (ascii name) \<or> p = bundle_manifest_path, BadPath),
      (\<not> is_object e \<or> key_set e \<noteq> {''sha256'', ''size'', ''mode''}
         \<or> \<not> (py_eq (jget e ''mode'') (JInt 0x1A4) \<or> py_eq (jget e ''mode'') (JInt 0x1ED))
         \<or> \<not> int_between 0 MAX_ASSET_BYTES (jget e ''size''), BadMetadata),
      (\<not> digest_ok (jget e ''sha256''), BadDigest),
      (list_ex (\<lambda>q. node_at base q = Some Special) (path_prefixes p), Special_link),
      (\<not> verify_asset (tl_sha t) (node_at base p) e
         \<or> (case node_at base p of Some (File _ mode) \<Rightarrow> \<not> py_eq (JInt mode) (jget e ''mode'') | _ \<Rightarrow> True), ChecksumMismatch)])"

fun first_some :: "('a \<Rightarrow> 'e option) \<Rightarrow> 'a list \<Rightarrow> 'e option" where
  "first_some f [] = None"
| "first_some f (x # xs) = (case f x of Some e \<Rightarrow> Some e | None \<Rightarrow> first_some f xs)"

definition file_paths_of :: "files \<Rightarrow> path list" where
  "file_paths_of base = map fst (filter (\<lambda>(p, n). case n of File _ _ \<Rightarrow> True | _ \<Rightarrow> False) base)"

definition verify_files :: "tools \<Rightarrow> files \<Rightarrow> json \<Rightarrow> release_fault + json" where
  "verify_files t base v = (let listed = entries (jget v ''files''); names = map (ascii \<circ> fst) listed; own = text_of (jget v ''version'') in
     if \<not> is_object (jget v ''files'') \<or> listed = [] \<or> 12000 < int (length listed) then Inl BadBundle
     else case first_some (entry_check t base) listed of
       Some e \<Rightarrow> Inl e
     | None \<Rightarrow>
         if Special \<in> set (map snd base) then Inl UnsafeEntry
         else if set (file_paths_of base) \<noteq> insert bundle_manifest_path (set (map path_of names)) then Inl Unlisted
         else if \<not> list_all (\<lambda>r. r \<in> set names) ((ascii ''packages/'' @ package_name own) # REQUIRED_FILES) then Inl Incomplete
         else (case node_at base [ascii ''VERSION''] of
             Some (File text _) \<Rightarrow> if tl_version t text \<noteq> own then Inl Incomplete else Inr v
           | _ \<Rightarrow> Inl ReadFailed))"

definition verify_bundle :: "tools \<Rightarrow> files \<Rightarrow> text_points option \<Rightarrow> release_fault + json" where
  "verify_bundle t base version = (case node_at base bundle_manifest_path of
     Some (File raw _) \<Rightarrow> ebind (load_json (tl_parse t) raw) (\<lambda>v.
       if \<not> is_object v \<or> key_set v \<noteq> {''schema'', ''version'', ''repository'', ''compatibility'', ''files''} then Inl BadBundle
       else ebind (version_tuple (jget v ''version'')) (\<lambda>_.
         if \<not> py_eq (jget v ''schema'') (JInt 1) \<or> \<not> py_eq (jget v ''repository'') (JStr REPOSITORY)
            \<or> \<not> py_eq (jget v ''compatibility'') COMPATIBILITY
            \<or> (case version of None \<Rightarrow> False | Some w \<Rightarrow> text_of (jget v ''version'') \<noteq> w) then Inl Mismatch
         else verify_files t base v))
   | _ \<Rightarrow> Inl ReadFailed)"

text \<open>\<open>there\<close> says whether the destination exists before the extraction; the result is what stands in it after.\<close>

definition extract_bundle :: "tools \<Rightarrow> bool \<Rightarrow> member list \<Rightarrow> text_points \<Rightarrow> release_fault + files" where
  "extract_bundle t there members version = ebind (version_tuple (JStr version)) (\<lambda>_.
     let prefix = ascii ''fm10k-controlpanel-'' @ version in
     if there then Inl NotNew
     else ebind (scan_members prefix [] 0 members) (\<lambda>_.
     if collides members then Inl Collision
     else ebind (write_members members []) (\<lambda>fs. ebind (verify_bundle t (below prefix fs) (Some version)) (\<lambda>_. Inr fs))))"

subsection \<open>The GitHub client\<close>

text \<open>A redirect is followed to four hosts only, and the credential goes to the API host only.\<close>

record url =
  ur_scheme :: string
  ur_user :: "text_points option"
  ur_password :: "text_points option"
  ur_port :: "int option"
  ur_host :: "text_points option"
  ur_path :: text_points

definition begins_with :: "text_points \<Rightarrow> text_points \<Rightarrow> bool" where
  "begins_with pre s \<longleftrightarrow> take (length pre) s = pre"

definition given :: "text_points option \<Rightarrow> bool" where
  "given v \<longleftrightarrow> v \<noteq> None \<and> v \<noteq> Some []"

definition redirect_request :: "url \<Rightarrow> release_fault + bool" where
  "redirect_request u =
     (if ur_scheme u \<noteq> ''https'' \<or> given (ur_user u) \<or> given (ur_password u) \<or> ur_port u \<notin> {None, Some 443}
        \<or> ur_host u \<notin> Some ` {ascii ''api.github.com'', ascii ''github.com'', ascii ''release-assets.githubusercontent.com'',
             ascii ''objects.githubusercontent.com''} then Inl UntrustedRedirect
      else if ur_host u = Some (ascii ''api.github.com'') \<and> \<not> begins_with (ascii ''/repos/'' @ REPOSITORY @ ascii ''/releases/'') (ur_path u)
        then Inl UntrustedRedirect
      else if ur_host u = Some (ascii ''github.com'') \<and> \<not> begins_with (ascii ''/'' @ REPOSITORY @ ascii ''/releases/download/'') (ur_path u)
        then Inl UntrustedRedirect
      else Inr (ur_host u = Some (ascii ''api.github.com'')))"

datatype attempt = Opened "octet list" | HttpError int | Unreachable

type_synonym server = "text_points \<Rightarrow> nat \<Rightarrow> attempt"

definition some_digits :: "text_points \<Rightarrow> bool" where
  "some_digits s \<longleftrightarrow> s \<noteq> [] \<and> list_all decimal_point s"

definition suffix_ok :: "text_points \<Rightarrow> bool" where
  "suffix_ok s \<longleftrightarrow> s = ascii ''/releases/latest''
     \<or> begins_with (ascii ''/releases/assets/'') s \<and> (let n = drop 17 s in some_digits n \<and> hd n \<noteq> 48)
     \<or> begins_with (ascii ''/releases/tags/v'') s \<and> (let ps = split_points 46 (drop 16 s) in length ps = 3 \<and> list_all some_digits ps)"

text \<open>Three attempts; only a connection that fails is tried again.\<close>

fun try_open :: "nat \<Rightarrow> (nat \<Rightarrow> attempt) \<Rightarrow> nat \<Rightarrow> release_fault + octet list" where
  "try_open 0 answers k = Inl NoConnection"
| "try_open (Suc left) answers k = (case answers k of
     Opened body \<Rightarrow> Inr body | HttpError n \<Rightarrow> Inl (HttpStatus n) | Unreachable \<Rightarrow> try_open left answers (k + 1))"

definition open_request :: "server \<Rightarrow> text_points \<Rightarrow> release_fault + octet list" where
  "open_request server suffix = (if \<not> suffix_ok suffix then Inl UnsupportedRequest else try_open 3 (server suffix) 0)"

definition fetch_bytes :: "server \<Rightarrow> text_points \<Rightarrow> int \<Rightarrow> release_fault + octet list" where
  "fetch_bytes server suffix limit = ebind (open_request server suffix) (\<lambda>raw.
     if int (length raw) > limit then Inl TooLong else Inr raw)"

definition asset_id :: "json \<Rightarrow> int \<Rightarrow> release_fault + int" where
  "asset_id a maximum = (case (jget a ''id'', jget a ''size'') of
     (JInt n, JInt bytes) \<Rightarrow> if is_object a \<and> n > 0 \<and> 0 < bytes \<and> bytes \<le> maximum then Inr n else Inl BadAsset
   | _ \<Rightarrow> Inl BadAsset)"

definition asset_suffix :: "int \<Rightarrow> text_points" where
  "asset_suffix n = ascii ''/releases/assets/'' @ ascii (decimal_int n)"

definition asset_bytes :: "server \<Rightarrow> json \<Rightarrow> int \<Rightarrow> release_fault + octet list" where
  "asset_bytes server a maximum = ebind (asset_id a maximum) (\<lambda>n. ebind (fetch_bytes server (asset_suffix n) maximum) (\<lambda>raw.
     if \<not> py_eq (JInt (int (length raw))) (jget a ''size'') then Inl ReadFailed else Inr raw))"

text \<open>The assets of a release by their names, which must be different.\<close>

fun named_assets :: "(text_points \<times> json) list \<Rightarrow> json list \<Rightarrow> release_fault + (text_points \<times> json) list" where
  "named_assets acc [] = Inr acc"
| "named_assets acc (a # rest) = (case jget a ''name'' of
     JStr name \<Rightarrow> if \<not> is_object a then Inl BadAsset
       else if name \<in> fst ` set acc then Inl Ambiguous else named_assets (acc @ [(name, a)]) rest
   | _ \<Rightarrow> Inl (if is_object a then Ambiguous else BadAsset))"

definition tagged_digest :: "text_points \<Rightarrow> json" where
  "tagged_digest d = JStr (ascii ''sha256:'' @ d)"

definition remote_matches :: "(text_points \<times> json) list \<Rightarrow> json \<Rightarrow> bool" where
  "remote_matches assets a = (case map_of assets (text_of (jget a ''name'')) of
     None \<Rightarrow> False
   | Some remote \<Rightarrow> entries remote \<noteq> [] \<and> py_eq (jget remote ''size'') (jget a ''size'')
       \<and> (jget remote ''digest'' = JNull \<or> py_eq (jget remote ''digest'') (tagged_digest (text_of (jget a ''sha256'')))))"

record offered_release =
  of_manifest :: json
  of_digest :: text_points
  of_release :: json
  of_assets :: "(text_points \<times> json \<times> json) list"

definition latest_release :: "tools \<Rightarrow> server \<Rightarrow> release_fault + offered_release" where
  "latest_release t server = ebind (fetch_bytes server (ascii ''/releases/latest'') 1048576) (\<lambda>body.
     ebind (load_json (tl_parse t) body) (\<lambda>release.
     if \<not> is_object release \<or> jget release ''draft'' \<noteq> JBool False \<or> jget release ''prerelease'' \<noteq> JBool False
        \<or> (case jget release ''id'' of JInt n \<Rightarrow> n \<le> 0 | _ \<Rightarrow> True) then Inl NotStable
     else let tag = text_of (jget release ''tag_name'') in
       ebind (version_tuple (JStr (if take 1 tag = [118] then drop 1 tag else []))) (\<lambda>_.
       if \<not> is_list (jget release ''assets'') \<or> elements (jget release ''assets'') = []
          \<or> 128 < length (elements (jget release ''assets'')) then Inl BadAssets
       else ebind (named_assets [] (elements (jget release ''assets''))) (\<lambda>assets.
         case map_of assets MANIFEST_NAME of
           None \<Rightarrow> Inl BadAsset
         | Some descriptor \<Rightarrow> ebind (asset_bytes server descriptor 131072) (\<lambda>raw. let digest = tl_sha t raw in
             if jget descriptor ''digest'' \<noteq> JNull \<and> \<not> py_eq (jget descriptor ''digest'') (tagged_digest digest) then Inl ChecksumMismatch
             else ebind (load_json (tl_parse t) raw) (\<lambda>v. ebind (validate_manifest v (Some tag)) (\<lambda>manifest.
               let wanted = map snd (entries (jget manifest ''assets'')) in
               if \<not> list_all (remote_matches assets) wanted then Inl Mismatch
               else Inr \<lparr>of_manifest = manifest, of_digest = digest, of_release = jget release ''id'',
                 of_assets = map (\<lambda>(name, item). (name, jget item ''id'', jget item ''size''))
                   (filter (\<lambda>(name, _). name = MANIFEST_NAME \<or> name \<in> set (map (\<lambda>a. text_of (jget a ''name'')) wanted)) assets)\<rparr>)))))))"

text \<open>The body of a download, piece by piece; no piece is larger than a mebibyte.\<close>

function read_pieces :: "int \<Rightarrow> (nat \<Rightarrow> octet list option) \<Rightarrow> nat \<Rightarrow> octet list \<Rightarrow> release_fault + octet list" where
  "read_pieces bytes pieces k got = (case pieces k of
     None \<Rightarrow> Inl ReadFailed
   | Some [] \<Rightarrow> Inr got
   | Some (b # bs) \<Rightarrow> if int (length (got @ b # bs)) > bytes then Inl TooLong else read_pieces bytes pieces (k + 1) (got @ b # bs))"
  by pat_completeness auto
termination
  by (relation "measure (\<lambda>(bytes, pieces, k, got). nat (bytes + 1 - int (length got)))") auto

declare read_pieces.simps [simp del]

definition download_asset ::
  "tools \<Rightarrow> (text_points \<Rightarrow> release_fault + (nat \<Rightarrow> octet list option)) \<Rightarrow> json \<Rightarrow> json \<Rightarrow> path \<Rightarrow> files \<Rightarrow> release_fault option \<times> files" where
  "download_asset t stream remote expected p fs = (case asset_id remote MAX_ASSET_BYTES of
     Inl e \<Rightarrow> (Some e, fs)
   | Inr n \<Rightarrow>
       if \<not> py_eq (jget remote ''size'') (jget expected ''size'') then (Some SizeChanged, fs)
       else (case (stream (asset_suffix n)) of
           Inl e \<Rightarrow> (Some e, fs)
         | Inr pieces \<Rightarrow>
             if node_at fs p \<noteq> None then (Some WriteConflict, fs)
             else (case read_pieces (int_of (jget expected ''size'')) pieces 0 [] of
                 Inl e \<Rightarrow> (Some e, fs)
               | Inr got \<Rightarrow> if verify_asset (tl_sha t) (Some (File got 0x180)) expected then (None, (p, File got 0x180) # fs)
                   else (Some ChecksumMismatch, fs))))"

end
