(* ===== verification/Release_Properties.thy ===== *)
theory Release_Properties
  imports Release
begin

text \<open>
  What the extraction of a release leaves on the disk: nothing outside its folder, exactly the files of the
  archive, and each of them with the digest its manifest lists.
\<close>

subsection \<open>Paths\<close>

lemma join_split: "join_points sep (split_points sep s) = s"
proof (induction s)
  case (Cons c s)
  then show ?case
    by (cases "split_points sep s" rule: list.exhaust; cases "tl (split_points sep s)") auto
qed simp

lemma path_inject: "path_of s = path_of t \<Longrightarrow> s = t"
  by (metis join_split)

lemma prefixes_iff: "q \<in> set (path_prefixes p) \<longleftrightarrow> q \<noteq> [] \<and> (\<exists>r. p = q @ r)"
  by (induction p arbitrary: q) (auto simp: image_iff Cons_eq_append_conv)

lemma make_folders_run:
  "list_all (\<lambda>q. node_at fs q \<in> {None, Some Folder}) ps \<Longrightarrow> \<exists>gs. make_folders ps fs = Inr gs
     \<and> (\<forall>q. node_at gs q = (if q \<in> set ps \<and> node_at fs q = None then Some Folder else node_at fs q))"
proof (induction ps arbitrary: fs)
  case (Cons p ps)
  show ?case
  proof (cases "node_at fs p")
    case None
    have "list_all (\<lambda>q. node_at ((p, Folder) # fs) q \<in> {None, Some Folder}) ps"
      using Cons.prems by (auto simp: list_all_iff node_at_def)
    from Cons.IH [OF this] None show ?thesis by (auto simp: node_at_def)
  next
    case (Some n)
    with Cons.prems have "n = Folder" by simp
    with Some Cons.IH [of fs] Cons.prems show ?thesis by auto
  qed
qed simp

subsection \<open>What is laid out\<close>

definition folder_path :: "member \<Rightarrow> path" where
  "folder_path m = (if mb_kind m = Directory then path_of (member_name m) else butlast (path_of (member_name m)))"

definition is_file_at :: "path \<Rightarrow> member \<Rightarrow> bool" where
  "is_file_at q m \<longleftrightarrow> mb_kind m = RegularFile \<and> path_of (member_name m) = q"

definition laid_out :: "member list \<Rightarrow> path \<Rightarrow> node option" where
  "laid_out ms q = (case find (is_file_at q) ms of
     Some m \<Rightarrow> Some (File (mb_data m) (file_mode m))
   | None \<Rightarrow> if \<exists>m \<in> set ms. q \<in> set (path_prefixes (folder_path m)) then Some Folder else None)"

definition members_ok :: "text_points \<Rightarrow> member list \<Rightarrow> bool" where
  "members_ok prefix ms \<longleftrightarrow> distinct (map member_name ms) \<and> (\<forall>m \<in> set ms. safe_relative (member_name m)
     \<and> hd (path_of (member_name m)) = prefix \<and> mb_kind m \<noteq> OtherKind)"

lemma scan_members_ok:
  "scan_members prefix seen bytes ms = Inr () \<Longrightarrow> members_ok prefix ms \<and> set seen \<inter> member_name ` set ms = {}
     \<and> length seen + length ms \<le> max 12000 (length seen) \<and> (ms = [] \<or> bytes + sum_list (map mb_size ms) \<le> 536870912)"
proof (induction prefix seen bytes ms rule: scan_members.induct)
  case (2 prefix seen bytes m ms)
  then have ok: "member_ok prefix seen m" "bytes + mb_size m \<le> 536870912" "length seen < 12000"
    and rest: "scan_members prefix (member_name m # seen) (bytes + mb_size m) ms = Inr ()"
    by (auto split: if_splits)
  have "\<not> \<not> member_ok prefix seen m" "\<not> (bytes + mb_size m > 536870912 \<or> 12000 \<le> int (length seen))" using ok by auto
  from 2(1) [OF this rest] have IH: "members_ok prefix ms" "set (member_name m # seen) \<inter> member_name ` set ms = {}"
    "length (member_name m # seen) + length ms \<le> max 12000 (length (member_name m # seen))"
    "ms = [] \<or> (bytes + mb_size m) + sum_list (map mb_size ms) \<le> 536870912" by blast+
  have first: "safe_relative (member_name m)" "hd (path_of (member_name m)) = prefix" "member_name m \<notin> set seen" "mb_kind m \<noteq> OtherKind"
    using ok(1) unfolding member_ok_def by blast+
  have "members_ok prefix (m # ms)" using IH(1,2) first by (auto simp: members_ok_def)
  moreover have "set seen \<inter> member_name ` set (m # ms) = {}" using IH(2) first(3) by auto
  ultimately show ?case using IH(3,4) ok(2,3) by auto
qed (simp add: members_ok_def)

lemma no_collision:
  assumes "\<not> collides ms" and "m \<in> set ms" and "f \<in> set ms" and "mb_kind f = RegularFile"
  shows "path_of (member_name f) \<notin> set (path_prefixes (butlast (path_of (member_name m))))"
  using assms unfolding collides_def Let_def list_ex_iff by auto

lemma file_not_prefix:
  assumes "\<not> collides ms" and "members_ok prefix ms" and "m \<in> set ms" and "f \<in> set ms" and "is_file_at q f"
    and "m = f \<longrightarrow> mb_kind m = Directory"
  shows "q \<notin> set (path_prefixes (folder_path m))"
proof
  assume q: "q \<in> set (path_prefixes (folder_path m))"
  have f: "mb_kind f = RegularFile" "path_of (member_name f) = q" using assms(5) by (auto simp: is_file_at_def)
  note free = no_collision [OF assms(1,3,4) f(1), unfolded f(2)]
  have dir: "mb_kind m = Directory" using free q by (auto simp: folder_path_def split: if_splits)
  then obtain r where r: "path_of (member_name m) = q @ r" "q \<noteq> []" using q by (auto simp: folder_path_def prefixes_iff)
  show False
  proof (cases r rule: rev_cases)
    case Nil
    with r f(2) have "member_name m = member_name f" using path_inject by simp
    with assms(2-4) have "m = f" by (auto simp: members_ok_def distinct_map dest: inj_onD)
    with dir f(1) show False by simp
  next
    case (snoc r' x)
    with r free show False by (auto simp: prefixes_iff butlast_append)
  qed
qed

lemma find_app: "find P (xs @ ys) = (case find P xs of None \<Rightarrow> find P ys | Some x \<Rightarrow> Some x)"
  by (induction xs) auto

lemma find_none_of: "(\<And>x. x \<in> set xs \<Longrightarrow> \<not> P x) \<Longrightarrow> find P xs = None"
  by (simp add: find_None_iff)

lemma write_one:
  assumes free: "\<not> collides ms" and ok: "members_ok prefix ms" and ms: "ms = ys @ m # zs"
    and fs: "\<And>q. node_at fs q = laid_out ys q"
  shows "\<exists>gs. (if mb_kind m = Directory then make_parents (path_of (member_name m)) fs
      else create_file (path_of (member_name m)) (mb_data m) (file_mode m) fs) = Inr gs \<and> (\<forall>q. node_at gs q = laid_out (ys @ [m]) q)"
proof -
  let ?p = "path_of (member_name m)"
  have m: "m \<in> set ms" "m \<notin> set ys" and kind: "mb_kind m \<noteq> OtherKind"
    using ms ok by (auto simp: members_ok_def)
  have names: "member_name y \<noteq> member_name m" if "y \<in> set ys" for y 
  proof -
    have "member_name m \<notin> member_name ` set ys" using ms ok by (simp add: members_ok_def)
    with that show ?thesis by (metis imageI)
  qed
  have ysms: "y \<in> set ms" if "y \<in> set ys" for y using that ms by simp
  have "node_at fs q \<in> {None, Some Folder}" if q: "q \<in> set (path_prefixes (folder_path m))" for q
  proof -
    have "\<not> is_file_at q y" if y: "y \<in> set ys" for y
      using file_not_prefix [OF free ok m(1) ysms [OF y]] q y m(2) by blast
    then have "find (is_file_at q) ys = None" by (rule find_none_of)
    then show ?thesis by (simp add: fs laid_out_def)
  qed
  then have "list_all (\<lambda>q. node_at fs q \<in> {None, Some Folder}) (path_prefixes (folder_path m))" by (simp add: list_all_iff)
  from make_folders_run [OF this] obtain gs where gs: "make_parents (folder_path m) fs = Inr gs"
    and at: "\<And>q. node_at gs q = (if q \<in> set (path_prefixes (folder_path m)) \<and> node_at fs q = None then Some Folder else node_at fs q)"
    by (auto simp: make_parents_def)
  show ?thesis
  proof (cases "mb_kind m = Directory")
    case True
    then have "\<not> is_file_at q m" for q by (simp add: is_file_at_def)
    then have "find (is_file_at q) (ys @ [m]) = find (is_file_at q) ys" for q by (simp add: find_app split: option.splits)
    with True gs at fs show ?thesis by (auto simp: laid_out_def folder_path_def split: option.splits)
  next
    case False
    with kind have regular: "mb_kind m = RegularFile" by (cases "mb_kind m") auto
    have fresh: "\<not> is_file_at ?p y" if "y \<in> set ys" for y
      using names [OF that] path_inject by (auto simp: is_file_at_def)
    have self: "is_file_at q m \<longleftrightarrow> q = ?p" for q using regular by (auto simp: is_file_at_def)
    have "?p \<notin> set (path_prefixes (folder_path y))" if "y \<in> set ys" for y
      using file_not_prefix [OF free ok ysms [OF that] m(1)] self that m(2) by auto
    moreover have "?p \<notin> set (path_prefixes (butlast ?p))"
      by (rule no_collision [OF free m(1) m(1) regular])
    ultimately have empty: "node_at gs ?p = None"
      using fresh by (auto simp: at fs laid_out_def find_none_of folder_path_def regular)
    then have new: "create_file ?p (mb_data m) (file_mode m) fs = Inr ((?p, File (mb_data m) (file_mode m)) # gs)"
      using gs by (simp add: create_file_def folder_path_def regular)
    have "node_at ((?p, File (mb_data m) (file_mode m)) # gs) q = laid_out (ys @ [m]) q" for q
    proof (cases "q = ?p")
      case True
      have "find (is_file_at ?p) (ys @ [m]) = Some m" using fresh self by (simp add: find_app find_none_of)
      with True show ?thesis by (simp add: node_at_def laid_out_def)
    next
      case other: False
      then have "find (is_file_at q) (ys @ [m]) = find (is_file_at q) ys" using self by (simp add: find_app split: option.splits)
      with other at [of q] fs [of q] show ?thesis by (auto simp: node_at_def laid_out_def split: option.splits)
    qed
    with new False show ?thesis by auto
  qed
qed

lemma write_all:
  assumes "\<not> collides ms" and "members_ok prefix ms"
  shows "ms = ys @ zs \<Longrightarrow> (\<And>q. node_at fs q = laid_out ys q) \<Longrightarrow>
     \<exists>gs. write_members zs fs = Inr gs \<and> (\<forall>q. node_at gs q = laid_out ms q)"
proof (induction zs arbitrary: ys fs)
  case (Cons m zs)
  from write_one [OF assms Cons.prems] obtain gs where gs:
    "(if mb_kind m = Directory then make_parents (path_of (member_name m)) fs
      else create_file (path_of (member_name m)) (mb_data m) (file_mode m) fs) = Inr gs" "\<And>q. node_at gs q = laid_out (ys @ [m]) q"
    by blast
  have step: "write_members (m # zs) fs = write_members zs gs" by (simp only: write_members.simps Let_def gs(1) ebind_def sum.case)
  from Cons.IH [of "ys @ [m]" gs] gs(2) Cons.prems(1) show ?case unfolding step by simp
qed simp

lemma write_members_exact:
  assumes "\<not> collides ms" and "members_ok prefix ms"
  shows "\<exists>fs. write_members ms [] = Inr fs \<and> (\<forall>q. node_at fs q = laid_out ms q)"
proof -
  have "node_at [] q = laid_out [] q" for q by (simp add: node_at_def laid_out_def)
  from write_all [OF assms, of "[]" ms "[]"] this show ?thesis by simp
qed

subsection \<open>The extracted release\<close>

lemma laid_out_path:
  assumes "members_ok prefix ms" and "laid_out ms q = Some n"
  shows "q \<noteq> [] \<and> hd q = prefix \<and> list_all (\<lambda>w. w \<noteq> [] \<and> w \<noteq> [46] \<and> w \<noteq> [46, 46]) q \<and> n \<noteq> Special"
proof -
  have "\<exists>m \<in> set ms. \<exists>r. path_of (member_name m) = q @ r \<and> q \<noteq> []"
  proof (cases "find (is_file_at q) ms")
    case None
    with assms(2) obtain m r where "m \<in> set ms" "folder_path m = q @ r" "q \<noteq> []"
      by (auto simp: laid_out_def prefixes_iff split: if_splits)
    moreover have "path_of (member_name m) = butlast (path_of (member_name m)) @ [List.last (path_of (member_name m))]" by simp
    ultimately have "path_of (member_name m) = q @ (if mb_kind m = Directory then r else r @ [List.last (path_of (member_name m))])"
      by (simp add: folder_path_def split: if_splits) (metis append_assoc append_butlast_last_id split_nonempty)
    with \<open>m \<in> set ms\<close> \<open>q \<noteq> []\<close> show ?thesis by blast
  next
    case (Some m)
    then have "m \<in> set ms" "is_file_at q m" by (auto simp: find_Some_iff)
    then show ?thesis by (auto simp: is_file_at_def)
  qed
  then obtain m r where m: "m \<in> set ms" "path_of (member_name m) = q @ r" "q \<noteq> []" by blast
  with assms(1) have "safe_relative (member_name m)" "hd (q @ r) = prefix" by (auto simp: members_ok_def)
  with m(2,3) have "hd q = prefix" "list_all (\<lambda>w. w \<noteq> [] \<and> w \<noteq> [46] \<and> w \<noteq> [46, 46]) q" by (auto simp: safe_relative_def)
  moreover have "n \<noteq> Special" using assms(2) by (auto simp: laid_out_def split: option.splits if_splits)
  ultimately show ?thesis using m(3) by simp
qed

lemma laid_out_file: "laid_out ms q = Some (File d mode) \<Longrightarrow> \<exists>m \<in> set ms. is_file_at q m \<and> mb_data m = d \<and> file_mode m = mode"
  by (auto simp: laid_out_def find_Some_iff split: option.splits if_splits)

lemma laid_out_member:
  assumes "members_ok prefix ms" and "m \<in> set ms" and "mb_kind m = RegularFile"
  shows "laid_out ms (path_of (member_name m)) = Some (File (mb_data m) (file_mode m))"
proof -
  have "is_file_at (path_of (member_name m)) x \<longleftrightarrow> x = m" if "x \<in> set ms" for x
    using that assms path_inject by (auto simp: is_file_at_def members_ok_def distinct_map dest: inj_onD)
  then have "find (is_file_at (path_of (member_name m))) ms = Some m"
    using assms(2) by (induction ms) auto
  then show ?thesis by (simp add: laid_out_def)
qed

lemma map_of_below: "q \<noteq> [] \<Longrightarrow> node_at (below w fs) q = node_at fs (w # q)"
proof (induction fs)
  case (Cons x fs)
  obtain p n where x: "x = (p, n)" by (cases x)
  with Cons show ?case by (cases p) (auto simp: below_def node_at_def)
qed (simp add: below_def node_at_def)

lemma first_some_None: "first_some f xs = None \<longleftrightarrow> (\<forall>x \<in> set xs. f x = None)"
  by (induction xs) (auto split: option.splits)

lemma verify_files_Inr:
  assumes "verify_files t base v = Inr w"
  shows "w = v \<and> first_some (entry_check t base) (entries (jget v ''files'')) = None
    \<and> set (file_paths_of base) = insert bundle_manifest_path (set (map path_of (map (ascii \<circ> fst) (entries (jget v ''files'')))))"
  using assms unfolding verify_files_def Let_def
  by (simp split: option.split_asm node.split_asm if_split_asm)

lemma verify_bundle_Inr:
  assumes "verify_bundle t base version = Inr v"
  shows "verify_files t base v = Inr v"
proof -
  obtain raw mode where "node_at base bundle_manifest_path = Some (File raw mode)"
    using assms unfolding verify_bundle_def by (simp split: option.split_asm node.split_asm)
  with assms obtain w where "verify_files t base w = Inr v"
    by (auto simp: verify_bundle_def ebind_eq_Inr simp del: py_eq_def split: if_split_asm)
  then show ?thesis using verify_files_Inr by blast
qed

lemma verify_bundle_listed:
  assumes "verify_bundle t base version = Inr v" and "node_at base p = Some (File d mode)" and "p \<noteq> bundle_manifest_path"
  shows "\<exists>name e. (name, e) \<in> set (entries (jget v ''files'')) \<and> path_of (ascii name) = p
    \<and> jget e ''sha256'' = JStr (tl_sha t d) \<and> jget e ''size'' = JInt (int (length d)) \<and> py_eq (JInt mode) (jget e ''mode'')"
proof -
  let ?listed = "entries (jget v ''files'')"
  from verify_files_Inr [OF verify_bundle_Inr [OF assms(1)]] have v: "first_some (entry_check t base) ?listed = None"
    "set (file_paths_of base) = insert bundle_manifest_path (set (map path_of (map (ascii \<circ> fst) ?listed)))" by auto
  have "p \<in> set (file_paths_of base)" using assms(2) by (force simp: file_paths_of_def node_at_def dest: map_of_SomeD)
  with v(2) assms(3) obtain name e where e: "(name, e) \<in> set ?listed" "path_of (ascii name) = p" by auto
  with v(1) have "entry_check t base (name, e) = None" by (auto simp: first_some_None)
  then have "verify_asset (tl_sha t) (node_at base p) e" "py_eq (JInt mode) (jget e ''mode'')"
    using e(2) assms(2) by (simp_all add: entry_check_def Let_def first_failure_None_iff)
  with e assms(2) show ?thesis by (auto simp: verify_asset_def)
qed

lemma laid_out_files:
  assumes "members_ok prefix ms"
  shows "laid_out ms q = Some (File d mode) \<longleftrightarrow> (\<exists>m \<in> set ms. mb_kind m = RegularFile \<and> path_of (member_name m) = q
    \<and> mb_data m = d \<and> mode = (if mb_mode m AND 0x49 \<noteq> 0 then 0x1ED else 0x1A4))"
  unfolding file_mode_def [symmetric]
  using laid_out_file [of ms q d mode] laid_out_member [OF assms] by (auto simp: is_file_at_def)

lemma laid_out_folder: "laid_out ms q = Some Folder \<Longrightarrow> \<exists>m \<in> set ms. \<exists>r. path_of (member_name m) = q @ r"
proof -
  assume "laid_out ms q = Some Folder"
  then obtain m r where m: "m \<in> set ms" "folder_path m = q @ r"
    by (auto simp: laid_out_def prefixes_iff split: option.splits if_splits)
  have "path_of (member_name m) = butlast (path_of (member_name m)) @ [List.last (path_of (member_name m))]" by simp
  with m(2) have "path_of (member_name m) = q @ (if mb_kind m = Directory then r else r @ [List.last (path_of (member_name m))])"
    by (simp add: folder_path_def split: if_splits) (metis append_assoc append_butlast_last_id split_nonempty)
  with m(1) show ?thesis by blast
qed

lemma verify_bundle_present:
  assumes "verify_bundle t base version = Inr v"
  shows "\<exists>d mode. node_at base bundle_manifest_path = Some (File d mode)"
    and "(name, e) \<in> set (entries (jget v ''files'')) \<Longrightarrow> \<exists>d mode. node_at base (path_of (ascii name)) = Some (File d mode)"
proof -
  show "\<exists>d mode. node_at base bundle_manifest_path = Some (File d mode)"
    using assms unfolding verify_bundle_def by (simp split: option.split_asm node.split_asm)
  assume "(name, e) \<in> set (entries (jget v ''files''))"
  with verify_files_Inr [OF verify_bundle_Inr [OF assms]] have "entry_check t base (name, e) = None" by (auto simp: first_some_None)
  then show "\<exists>d mode. node_at base (path_of (ascii name)) = Some (File d mode)"
    by (auto simp: entry_check_def Let_def first_failure_None_iff verify_asset_def split: option.splits node.splits)
qed

text \<open>No file of the archive stands where the folder of the release has to be.\<close>

lemma home_is_folder:
  assumes "\<not> collides ms" and "members_ok prefix ms" and "laid_out ms (prefix # x # p) = Some (File d mode)"
  shows "laid_out ms [prefix] \<noteq> Some (File d' mode')"
proof
  assume "laid_out ms [prefix] = Some (File d' mode')"
  then obtain f where f: "f \<in> set ms" "mb_kind f = RegularFile" "path_of (member_name f) = [prefix]"
    using laid_out_files [OF assms(2)] by blast
  from assms(3) obtain m where m: "m \<in> set ms" "path_of (member_name m) = prefix # x # p"
    using laid_out_files [OF assms(2)] by blast
  from no_collision [OF assms(1) m(1) f(1,2)] show False unfolding f(3) m(2) by (simp add: prefixes_iff)
qed

text \<open>C31: an extraction starts in a new folder and leaves exactly what the archive holds. No path leaves the
  folder of the release or has an empty, dot or dot-dot segment, the files are at most 512 MiB, a file
  stands on the disk if and only if it is a file of the archive, with that content and one of two modes,
  and a folder only where a member needs one. The release was verified: its manifest lists exactly these
  files, the manifest itself apart, each with its size, its mode and the SHA-256 of its content.\<close>

theorem extracted_as_listed:
  assumes "extract_bundle t there members version = Inr fs"
  defines "home \<equiv> ascii ''fm10k-controlpanel-'' @ version"
  shows "\<not> there \<and> sum_list (map mb_size members) \<le> 536870912
    \<and> (\<forall>q n. node_at fs q = Some n \<longrightarrow> q \<noteq> [] \<and> hd q = home \<and> list_all (\<lambda>w. w \<noteq> [] \<and> w \<noteq> [46] \<and> w \<noteq> [46, 46]) q \<and> n \<noteq> Special)
    \<and> (\<forall>q d mode. node_at fs q = Some (File d mode) \<longleftrightarrow> (\<exists>m \<in> set members. mb_kind m = RegularFile
         \<and> path_of (member_name m) = q \<and> mb_data m = d \<and> mode = (if mb_mode m AND 0x49 \<noteq> 0 then 0x1ED else 0x1A4)))
    \<and> (\<forall>q. node_at fs q = Some Folder \<longrightarrow> (\<exists>m \<in> set members. \<exists>r. path_of (member_name m) = q @ r))
    \<and> (\<exists>v. verify_bundle t (below home fs) (Some version) = Inr v
         \<and> (\<forall>q d mode. node_at fs q = Some (File d mode) \<longrightarrow> q = [home, ascii ''bundle-manifest.json'']
            \<or> (\<exists>name e. (name, e) \<in> set (entries (jget v ''files'')) \<and> q = home # path_of (ascii name)
                \<and> jget e ''sha256'' = JStr (tl_sha t d) \<and> jget e ''size'' = JInt (int (length d)) \<and> py_eq (JInt mode) (jget e ''mode'')))
         \<and> (\<forall>(name, e) \<in> set (entries (jget v ''files'')). \<exists>d mode. node_at fs (home # path_of (ascii name)) = Some (File d mode)))"
proof -
  from assms(1) obtain v where scan: "scan_members home [] 0 members = Inr ()" and free: "\<not> collides members" and new: "\<not> there"
    and written: "write_members members [] = Inr fs" and v: "verify_bundle t (below home fs) (Some version) = Inr v"
    unfolding extract_bundle_def Let_def home_def by (auto simp: ebind_eq_Inr split: if_split_asm)
  note ok = scan_members_ok [OF scan]
  then have mem: "members_ok home members" by blast
  with write_members_exact [OF free] written have at: "node_at fs q = laid_out members q" for q by fastforce
  have "laid_out members (home # ascii ''bundle-manifest.json'' # []) \<noteq> None"
    "\<exists>d mode. laid_out members (home # ascii ''bundle-manifest.json'' # []) = Some (File d mode)"
    using verify_bundle_present(1) [OF v] map_of_below [of bundle_manifest_path home fs] by (auto simp: bundle_manifest_path_def at)
  then have folder: "laid_out members [home] \<noteq> Some (File d mode)" for d mode
    using home_is_folder [OF free mem] by blast
  have listed: "q = [home, ascii ''bundle-manifest.json''] \<or> (\<exists>name e. (name, e) \<in> set (entries (jget v ''files'')) \<and> q = home # path_of (ascii name)
      \<and> jget e ''sha256'' = JStr (tl_sha t d) \<and> jget e ''size'' = JInt (int (length d)) \<and> py_eq (JInt mode) (jget e ''mode''))"
    if q: "laid_out members q = Some (File d mode)" for q d mode
  proof -
    obtain p where p: "q = home # p" using laid_out_path [OF mem q] by (cases q) auto
    with q folder have "p \<noteq> []" by auto
    with q p verify_bundle_listed [OF v, of p d mode] map_of_below [of p home fs] at show ?thesis
      by (auto simp: bundle_manifest_path_def)
  qed
  have "\<exists>d mode. laid_out members (home # path_of (ascii name)) = Some (File d mode)"
    if "(name, e) \<in> set (entries (jget v ''files''))" for name e
    using verify_bundle_present(2) [OF v that] map_of_below [of "path_of (ascii name)" home fs] at by auto
  with listed have "\<exists>v. verify_bundle t (below home fs) (Some version) = Inr v
         \<and> (\<forall>q d mode. node_at fs q = Some (File d mode) \<longrightarrow> q = [home, ascii ''bundle-manifest.json'']
            \<or> (\<exists>name e. (name, e) \<in> set (entries (jget v ''files'')) \<and> q = home # path_of (ascii name)
                \<and> jget e ''sha256'' = JStr (tl_sha t d) \<and> jget e ''size'' = JInt (int (length d)) \<and> py_eq (JInt mode) (jget e ''mode'')))
         \<and> (\<forall>(name, e) \<in> set (entries (jget v ''files'')). \<exists>d mode. node_at fs (home # path_of (ascii name)) = Some (File d mode))"
    using v unfolding at by blast
  then show ?thesis
    using ok new laid_out_path [OF mem] laid_out_files [OF mem] laid_out_folder unfolding at by auto
qed

subsection \<open>A small release\<close>

definition demo_entry :: json where
  "demo_entry = JObj [(''sha256'', JStr (replicate 64 48)), (''size'', JInt 1), (''mode'', JInt 0x1A4)]"

definition demo_names :: "string list" where
  "demo_names = [''install.sh'', ''scripts/install_release.py'', ''VERSION'', ''hardware/sdk-inputs.json'',
     ''deploy/release-dependencies.json'', ''packages/fm10k-controlpanel_1.0.0_all.deb'']"

definition demo_manifest :: json where
  "demo_manifest = JObj [(''schema'', JInt 1), (''version'', jstr ''1.0.0''), (''repository'', JStr REPOSITORY),
     (''compatibility'', COMPATIBILITY), (''files'', JObj (map (\<lambda>n. (n, demo_entry)) demo_names))]"

definition demo_tools :: tools where
  "demo_tools = \<lparr>tl_sha = (\<lambda>_. replicate 64 48), tl_parse = (\<lambda>_. Some demo_manifest), tl_version = (\<lambda>_. ascii ''1.0.0'')\<rparr>"

definition demo_member :: "string \<Rightarrow> member" where
  "demo_member n = \<lparr>mb_name = ascii (''fm10k-controlpanel-1.0.0/'' @ n), mb_kind = RegularFile, mb_mode = 0x1A4, mb_size = 1, mb_data = [1]\<rparr>"

definition demo_archive :: "member list" where
  "demo_archive = map demo_member (''bundle-manifest.json'' # demo_names)"

lemma demo_extracts: "\<exists>fs. extract_bundle demo_tools False demo_archive (ascii ''1.0.0'') = Inr fs"
proof -
  have "\<not> isl (extract_bundle demo_tools False demo_archive (ascii ''1.0.0''))" by code_simp
  then show ?thesis by (cases "extract_bundle demo_tools False demo_archive (ascii ''1.0.0'')") auto
qed

lemma demo_script: "demo_member ''scripts/install_release.py'' \<in> set demo_archive"
  "mb_kind (demo_member ''scripts/install_release.py'') = RegularFile"
  "path_of (member_name (demo_member ''scripts/install_release.py''))
     = [ascii ''fm10k-controlpanel-1.0.0'', ascii ''scripts'', ascii ''install_release.py'']"
  "mb_data (demo_member ''scripts/install_release.py'') = [1]"
  "420 = (if mb_mode (demo_member ''scripts/install_release.py'') AND 0x49 \<noteq> 0 then 0x1ED else (0x1A4 :: int))"
  by code_simp+

lemma extracted_as_listed_witness:
  "\<exists>fs. extract_bundle demo_tools False demo_archive (ascii ''1.0.0'') = Inr fs
     \<and> node_at fs [ascii ''fm10k-controlpanel-1.0.0'', ascii ''scripts'', ascii ''install_release.py''] = Some (File [1] 0x1A4)"
proof -
  obtain fs where run: "extract_bundle demo_tools False demo_archive (ascii ''1.0.0'') = Inr fs" using demo_extracts by blast
  from extracted_as_listed [OF run] have "node_at fs q = Some (File d mode)"
    if "m \<in> set demo_archive" "mb_kind m = RegularFile" "path_of (member_name m) = q" "mb_data m = d"
      "mode = (if mb_mode m AND 0x49 \<noteq> 0 then 0x1ED else 0x1A4)" for q d mode m
    using that by blast
  from this [OF demo_script] run show ?thesis by blast
qed

subsection \<open>Downloads\<close>

lemma read_pieces_bounded: "read_pieces bytes pieces k got = Inr all \<Longrightarrow> int (length got) \<le> bytes \<Longrightarrow> int (length all) \<le> bytes"
proof (induction bytes pieces k got rule: read_pieces.induct)
  case (1 bytes pieces k got)
  show ?case
  proof (cases "pieces k")
    case None
    with 1 show ?thesis by (simp add: read_pieces.simps)
  next
    case (Some bs)
    show ?thesis
    proof (cases bs)
      case Nil
      with Some 1 show ?thesis by (simp add: read_pieces.simps)
    next
      case (Cons c cs)
      from 1(2) Some Cons have fits: "\<not> int (length (got @ c # cs)) > bytes" and rest: "read_pieces bytes pieces (k + 1) (got @ c # cs) = Inr all"
        by (simp_all add: read_pieces.simps [of bytes pieces k got] split: if_splits)
      from 1(1) [OF Some Cons fits rest] fits show ?thesis by simp
    qed
  qed
qed

text \<open>A download leaves the verified file, or nothing of its own.\<close>

lemma download_all_or_nothing:
  assumes "download_asset t stream remote expected p fs = (e, gs)"
  shows "case e of Some _ \<Rightarrow> gs = fs
    | None \<Rightarrow> node_at fs p = None \<and> verify_asset (tl_sha t) (node_at gs p) expected \<and> (\<forall>q. q \<noteq> p \<longrightarrow> node_at gs q = node_at fs q)"
  using assms unfolding download_asset_def by (auto simp: node_at_def split: sum.splits if_splits)

text \<open>What an offered release is: its manifest is valid for its tag and every asset is offered with its size and digest.\<close>

lemma offered_release_valid:
  assumes "latest_release t server = Inr r"
  shows "\<exists>tag v assets. validate_manifest v (Some tag) = Inr (of_manifest r)
    \<and> list_all (remote_matches assets) (map snd (entries (jget (of_manifest r) ''assets'')))"
  using assms unfolding latest_release_def Let_def
  by (auto simp: ebind_eq_Inr split: option.split_asm if_split_asm) blast+

end
