(* ===== verification/Update_Manager.thy ===== *)
theory Update_Manager
  imports Upgrade Release Helper_Wire Time_Servers
begin

text \<open>
  The update service of update_helper.py that answers the panel: status, check and install of UpdateManager
  over the host of the paired upgrade, and the connection with its peer check and lock. The client of the
  releases is the one of Release; a write or a command may fail, or be cut off by a power loss, as in Upgrade.
  Clock values are milliseconds; sentences for the operator are left out.
\<close>

datatype manager_fault =
  NotManaged | UpdateBusy | BadInstall | CheckStale | UnknownAction | CustomCheck | NotHashable
| HostFault release_error | MessageFault receive_error | LockHeld

type_synonym 'a manager_action = "(host, manager_fault, 'a) action"

definition host_step :: "'a host_action \<Rightarrow> 'a manager_action" where
  "host_step a = (\<lambda>s. case a s of (Inl e, t) \<Rightarrow> (Inl (HostFault e), t) | (Inr x, t) \<Rightarrow> (Inr x, t))"

subsection \<open>What a request meets\<close>

text \<open>The credential file: absent, or its mode with its trusted content.\<close>

datatype credential = NoCredential | Credential int "text_points option"

definition github_client :: "unicode \<Rightarrow> credential \<Rightarrow> bool" where
  "github_client u c = (case c of
     NoCredential \<Rightarrow> True
   | Credential mode content \<Rightarrow> mode = 0x180 \<and> (case content of
         None \<Rightarrow> False
       | Some raw \<Rightarrow> (let token = uc_strip u raw in
           token \<noteq> [] \<and> length token \<le> 512 \<and> \<not> list_ex (uc_space u) token)))"

record helper_env =
  he_unicode :: unicode
  he_managed :: bool
  he_credential :: credential
  he_tools :: tools
  he_server :: server
  he_now :: int
  he_token :: string

text \<open>A version printed, and the candidate the manager keeps of an offered release.\<close>

definition version_text :: "version \<Rightarrow> text_points" where
  "version_text v = (case v of (a, b, c) \<Rightarrow> join_points 46 (map (base_text 10 \<circ> nat) [a, b, c]))"

definition chars :: "text_points \<Rightarrow> string" where
  "chars s = map char_of s"

definition candidate_of :: "offered_release \<Rightarrow> release_fault + candidate" where
  "candidate_of o_r = ebind (version_tuple (jget (of_manifest o_r) ''version'')) (\<lambda>(a, b, c).
     Inr \<lparr>cn_version = (int a, int b, int c), cn_manifest_sha = chars (of_digest o_r),
       cn_sdk_sha = chars (text_of (jget (of_manifest o_r) ''sdk_manifest_sha256''))\<rparr>)"

definition found_candidate :: "helper_env \<Rightarrow> metadata \<Rightarrow> candidate option" where
  "found_candidate env old =
     (if \<not> github_client (he_unicode env) (he_credential env) then None
      else case ebind (latest_release (he_tools env) (he_server env)) candidate_of of
        Inl _ \<Rightarrow> None
      | Inr c \<Rightarrow> if cn_sdk_sha c \<noteq> md_sdk_sha old then None else Some c)"

subsection \<open>Requests\<close>

record manager_report =
  mr_state :: "update_state option"
  mr_version :: "version option"
  mr_candidate :: "candidate option"
  mr_job :: "helper_job option"
  mr_checked_at :: int

definition write_manager :: "manager_state \<Rightarrow> unit manager_action" where
  "write_manager m = host_step (atomic (\<lambda>s. s\<lparr>ho_manager := m\<rparr>))"

definition manager_status :: "helper_env \<Rightarrow> manager_report manager_action" where
  "manager_status env = with_state (\<lambda>s. let m = ho_manager s; current = md_version (ho_installation s) in
     ret (if \<not> he_managed env
       then \<lparr>mr_state = None, mr_version = None, mr_candidate = None, mr_job = None, mr_checked_at = 0\<rparr>
       else \<lparr>mr_state = Some (um_state m), mr_version = Some current,
         mr_candidate = (case um_candidate m of None \<Rightarrow> None | Some c \<Rightarrow> if cn_version c \<le> current then None else Some c),
         mr_job = um_job m, mr_checked_at = um_checked_at m\<rparr>))"

definition checked_manager :: "helper_env \<Rightarrow> metadata \<Rightarrow> manager_state \<Rightarrow> manager_state" where
  "checked_manager env old m = (case found_candidate env old of
     None \<Rightarrow> m\<lparr>um_state := CheckFailed\<rparr>
   | Some c \<Rightarrow> if md_version old < cn_version c then m\<lparr>um_state := Available, um_candidate := Some c\<rparr>
       else m\<lparr>um_state := UpToDate, um_candidate := None\<rparr>)"

definition check_releases :: "helper_env \<Rightarrow> manager_report manager_action" where
  "check_releases env = (if \<not> he_managed env then raise_error NotManaged
     else with_state (\<lambda>s. if busy_state (um_state (ho_manager s)) then raise_error UpdateBusy
       else let m = (ho_manager s)\<lparr>um_candidate := None, um_checked_at := he_now env\<rparr> in
         then_action (write_manager m)
         (then_action (write_manager (checked_manager env (ho_installation s) m)) (manager_status env))))"

definition install_fields :: "string set" where
  "install_fields = {''action'', ''version'', ''manifest_sha256'', ''confirm_restart''}"

definition selected_candidate :: "helper_env \<Rightarrow> json \<Rightarrow> host \<Rightarrow> candidate option" where
  "selected_candidate env req s = (case um_candidate (ho_manager s) of
     None \<Rightarrow> None
   | Some c \<Rightarrow> let age = he_now env - um_checked_at (ho_manager s) in
       if \<not> (0 \<le> age \<and> age \<le> 3600000) \<or> \<not> py_eq (jget req ''version'') (JStr (version_text (cn_version c)))
          \<or> \<not> py_eq (jget req ''manifest_sha256'') (JStr (ascii (cn_manifest_sha c)))
          \<or> cn_version c \<le> md_version (ho_installation s) then None else Some c)"

definition queued_state :: "helper_env \<Rightarrow> candidate \<Rightarrow> manager_state \<Rightarrow> manager_state" where
  "queued_state env c m = m\<lparr>um_state := Queued,
     um_job := Some \<lparr>uj_id = he_token env, uj_version = cn_version c, uj_state = Queued\<rparr>\<rparr>"

text \<open>A start that is not confirmed leaves the job queued.\<close>

definition start_worker :: "manager_state \<Rightarrow> unit host_action" where
  "start_worker m = catch_failure command (\<lambda>_. atomic (\<lambda>s. s\<lparr>ho_manager := m\<rparr>))"

definition install_update_request :: "helper_env \<Rightarrow> json \<Rightarrow> manager_report manager_action" where
  "install_update_request env req =
     (if key_set req \<noteq> install_fields \<or> jget req ''confirm_restart'' \<noteq> JBool True then raise_error BadInstall
      else if \<not> he_managed env then raise_error NotManaged
      else with_state (\<lambda>s. if busy_state (um_state (ho_manager s)) then raise_error UpdateBusy
        else case selected_candidate env req s of
          None \<Rightarrow> raise_error CheckStale
        | Some c \<Rightarrow> (let m = queued_state env c (ho_manager s) in
            then_action (write_manager m)
            (then_action (host_step (set_marker True)) (then_action (host_step (start_worker m)) (manager_status env))))))"

definition handle_update :: "helper_env \<Rightarrow> json \<Rightarrow> manager_report manager_action" where
  "handle_update env req = (let action = jget req ''action'' in
     if is_list action \<or> is_object action then raise_error NotHashable
     else if action = jstr ''status'' \<or> action = jstr ''check'' then
       (if key_set req \<noteq> {''action''} then raise_error CustomCheck
        else if action = jstr ''status'' then manager_status env else check_releases env)
     else if action = jstr ''install'' then install_update_request env req
     else raise_error UnknownAction)"

text \<open>One connection. What is neither an \<^verbatim>\<open>OSError\<close> nor a \<^verbatim>\<open>ValueError\<close> ends the process without an answer.\<close>

definition answered :: "manager_fault + manager_report \<Rightarrow> (manager_fault + manager_report) option" where
  "answered r = (if r = Inl NotHashable \<or> r = Inl (HostFault PowerLoss) then None else Some r)"

definition serve_update :: "helper_env \<Rightarrow> (octet list \<Rightarrow> json option) \<Rightarrow> int \<Rightarrow> int \<Rightarrow> bool \<Rightarrow> peer \<Rightarrow> host
    \<Rightarrow> (manager_fault + manager_report) option \<times> host" where
  "serve_update env loads web_user user lock_free peer s =
     (if user \<notin> {0, web_user} then (None, s)
      else case fst (receive_update loads 4096 peer) of
        Inl e \<Rightarrow> (Some (Inl (MessageFault e)), s)
      | Inr req \<Rightarrow> if \<not> lock_free then (Some (Inl LockHeld), s)
          else map_prod answered id (handle_update env req s))"

text \<open>A \<^verbatim>\<open>ReleaseError\<close> and an \<^verbatim>\<open>OSError\<close> have no status of their own.\<close>

fun manager_fault_status :: "manager_fault \<Rightarrow> int" where
  "manager_fault_status BadInstall = 422"
| "manager_fault_status CustomCheck = 422"
| "manager_fault_status UnknownAction = 422"
| "manager_fault_status (MessageFault e) = (if e = NetworkError then 409 else update_status e)"
| "manager_fault_status _ = 409"

end
