(* ===== verification/Update_Properties.thy ===== *)
theory Update_Properties
  imports Update_Manager Upgrade_Properties Release_Properties
begin

text \<open>What a request to the update service can change, and what has to hold before an update is queued.\<close>

subsection \<open>Steps of a request\<close>

text \<open>A request writes the manager's state and the write lock; programs, packages and the journal stay.\<close>

definition same_board :: "host \<Rightarrow> host \<Rightarrow> bool" where
  "same_board s t \<longleftrightarrow> t\<lparr>ho_manager := ho_manager s, ho_marker := ho_marker s, ho_faults := ho_faults s\<rparr> = s"

lemma wp_atomic:
  assumes "\<And>fs. Q () (f (s\<lparr>ho_faults := fs\<rparr>))"
    and "\<And>e fs. E e (f (s\<lparr>ho_faults := fs\<rparr>))" and "\<And>e fs. E e (s\<lparr>ho_faults := fs\<rparr>)"
  shows "wp (host_step (atomic f)) Q E s"
proof (cases "ho_faults s")
  case Nil
  then have "s = s\<lparr>ho_faults := []\<rparr>" by simp
  with assms(1) [of "[]"] Nil show ?thesis by (simp add: wp_def host_step_def atomic_def disk_operation_def)
next
  case (Cons d fs)
  with assms show ?thesis
    by (cases d) (auto simp: wp_def host_step_def atomic_def disk_operation_def Let_def)
qed

lemma wp_command_caught:
  assumes "\<And>fs. Q () (s\<lparr>ho_faults := fs\<rparr>)" and "\<And>e fs. E e (s\<lparr>ho_faults := fs\<rparr>)"
    and "\<And>fs. Q () (s\<lparr>ho_faults := fs, ho_manager := m\<rparr>)" and "\<And>e fs. E e (s\<lparr>ho_faults := fs, ho_manager := m\<rparr>)"
  shows "wp (host_step (start_worker m)) Q E s"
proof (cases "ho_faults s")
  case Nil
  then have "s = s\<lparr>ho_faults := []\<rparr>" by simp
  with assms(1) [of "[]"] Nil show ?thesis
    by (simp add: wp_def host_step_def start_worker_def catch_failure_def command_def disk_operation_def)
next
  case (Cons d fs)
  note wp = wp_atomic [of Q "\<lambda>s. s\<lparr>ho_manager := m\<rparr>" "s\<lparr>ho_faults := fs\<rparr>" E, simplified, OF assms(3,4,2)]
  show ?thesis
  proof (cases d)
    case (Fails n)
    with Cons wp show ?thesis
      by (simp add: wp_def host_step_def start_worker_def catch_failure_def command_def disk_operation_def cong: if_cong)
  qed (use Cons assms in \<open>simp_all add: wp_def host_step_def start_worker_def catch_failure_def command_def disk_operation_def\<close>)
qed

text \<open>A valid version is printed back as it was, so comparing the texts compares the versions.\<close>

lemma version_text_tuple:
  assumes "version_tuple v = Inr (a, b, c)"
  shows "v = JStr (version_text (int a, int b, int c))"
proof -
  from assms obtain s x y z where v: "v = JStr s" "split_points 46 s = [x, y, z]" "version_part x" "version_part y" "version_part z"
    "a = text_value 10 x" "b = text_value 10 y" "c = text_value 10 z"
    by (auto simp: version_tuple_def split: json.splits list.splits if_splits)
  have "base_text 10 (text_value 10 p) = p" if "version_part p" for p
    using that base_text_value [of p] by (auto simp: version_part_def decimal_point_def)
  with v join_split [of 46 s] show ?thesis by (simp add: version_text_def)
qed

subsection \<open>The outcome\<close>

definition install_granted :: "helper_env \<Rightarrow> json \<Rightarrow> host \<Rightarrow> candidate \<Rightarrow> bool" where
  "install_granted env req s c \<longleftrightarrow> he_managed env \<and> key_set req = install_fields \<and> jget req ''confirm_restart'' = JBool True
     \<and> um_candidate (ho_manager s) = Some c
     \<and> py_eq (jget req ''version'') (JStr (version_text (cn_version c)))
     \<and> py_eq (jget req ''manifest_sha256'') (JStr (ascii (cn_manifest_sha c)))
     \<and> 0 \<le> he_now env - um_checked_at (ho_manager s) \<and> he_now env - um_checked_at (ho_manager s) \<le> 3600000
     \<and> md_version (ho_installation s) < cn_version c"

definition newly_checked :: "helper_env \<Rightarrow> host \<Rightarrow> manager_state \<Rightarrow> bool" where
  "newly_checked env s m \<longleftrightarrow> um_checked_at m = he_now env \<and> um_job m = um_job (ho_manager s)
     \<and> (um_candidate m = None \<and> (um_state m = um_state (ho_manager s) \<or> um_state m = UpToDate \<or> um_state m = CheckFailed)
        \<or> (\<exists>offer c. latest_release (he_tools env) (he_server env) = Inr offer \<and> candidate_of offer = Inr c
            \<and> cn_sdk_sha c = md_sdk_sha (ho_installation s) \<and> md_version (ho_installation s) < cn_version c
            \<and> um_candidate m = Some c \<and> um_state m = Available))"

definition request_outcome :: "helper_env \<Rightarrow> json \<Rightarrow> host \<Rightarrow> host \<Rightarrow> bool" where
  "request_outcome env req s t \<longleftrightarrow> same_board s t
     \<and> (ho_manager t = ho_manager s
        \<or> \<not> busy_state (um_state (ho_manager s)) \<and> newly_checked env s (ho_manager t)
        \<or> \<not> busy_state (um_state (ho_manager s)) \<and> (\<exists>c. install_granted env req s c \<and> ho_manager t = queued_state env c (ho_manager s)))
     \<and> (busy_state (um_state (ho_manager s)) \<longrightarrow> t = s)"

lemma outcome_same: "request_outcome env req s s"
  by (auto simp: request_outcome_def same_board_def)

lemma wp_status: "(\<And>r. Q r s) \<Longrightarrow> wp (manager_status env) Q E s"
  by (simp add: manager_status_def wp_simps Let_def)

definition check_begun :: "helper_env \<Rightarrow> manager_state \<Rightarrow> manager_state" where
  "check_begun env m = m\<lparr>um_candidate := None, um_checked_at := he_now env\<rparr>"

lemma outcome_checked: "newly_checked env s (check_begun env (ho_manager s))"
  "newly_checked env s (checked_manager env (ho_installation s) (check_begun env (ho_manager s)))"
  by (auto simp: newly_checked_def check_begun_def checked_manager_def found_candidate_def ebind_def
      split: option.splits if_splits sum.splits)

lemma outcome_manager:
  assumes "\<not> busy_state (um_state (ho_manager s))" and "same_board s t"
    and "ho_manager t = ho_manager s \<or> newly_checked env s (ho_manager t)
      \<or> (\<exists>c. install_granted env req s c \<and> ho_manager t = queued_state env c (ho_manager s))"
  shows "request_outcome env req s t"
  using assms by (auto simp: request_outcome_def)

lemma wp_check_releases: "wp (check_releases env) (\<lambda>_. request_outcome env req s) (\<lambda>_. request_outcome env req s) s"
proof (cases "he_managed env \<and> \<not> busy_state (um_state (ho_manager s))")
  case True
  from True show ?thesis
    unfolding check_releases_def wp_simps write_manager_def Let_def check_begun_def [symmetric]
    by (auto intro!: wp_atomic wp_status outcome_manager outcome_checked simp: wp_simps same_board_def)
qed (auto simp: check_releases_def wp_simps Let_def outcome_same)

lemma selected_granted:
  assumes "selected_candidate env req s = Some c" and "he_managed env" and "key_set req = install_fields"
    and "jget req ''confirm_restart'' = JBool True"
  shows "install_granted env req s c"
  using assms by (auto simp: selected_candidate_def install_granted_def Let_def split: option.splits if_splits)

lemma wp_queue:
  assumes good: "\<And>t. same_board s t \<Longrightarrow> ho_manager t = ho_manager s \<or> ho_manager t = m \<Longrightarrow> P t"
  shows "wp (then_action (write_manager m) (then_action (host_step (set_marker True))
      (then_action (host_step (start_worker m)) (manager_status env)))) (\<lambda>_. P) (\<lambda>_. P) s"
  unfolding wp_simps write_manager_def set_marker_def
  by (intro wp_atomic wp_command_caught wp_status; rule good; simp add: same_board_def)

lemma wp_install_request:
  "wp (install_update_request env req) (\<lambda>_. request_outcome env req s) (\<lambda>_. request_outcome env req s) s"
proof (cases "key_set req = install_fields \<and> jget req ''confirm_restart'' = JBool True \<and> he_managed env
    \<and> \<not> busy_state (um_state (ho_manager s)) \<and> selected_candidate env req s \<noteq> None")
  case True
  then obtain c where c: "selected_candidate env req s = Some c" by auto
  with True have "install_granted env req s c" by (intro selected_granted) auto
  with True have "wp (then_action (write_manager m) (then_action (host_step (set_marker True))
      (then_action (host_step (start_worker m)) (manager_status env))))
      (\<lambda>_. request_outcome env req s) (\<lambda>_. request_outcome env req s) s"
    if "m = queued_state env c (ho_manager s)" for m
    using that by (intro wp_queue outcome_manager) auto
  with True c show ?thesis by (simp add: install_update_request_def wp_with_state Let_def)
next
  case False
  then consider "key_set req \<noteq> install_fields \<or> jget req ''confirm_restart'' \<noteq> JBool True" | "\<not> he_managed env"
    | "busy_state (um_state (ho_manager s))" | "selected_candidate env req s = None" by blast
  then show ?thesis
    by cases (simp_all add: install_update_request_def wp_raise wp_with_state outcome_same)
qed

lemma wp_handle_update:
  "wp (handle_update env req) (\<lambda>_. request_outcome env req s) (\<lambda>_. request_outcome env req s) s"
proof -
  have "wp (manager_status env) (\<lambda>_. request_outcome env req s) (\<lambda>_. request_outcome env req s) s"
    by (rule wp_status) (rule outcome_same)
  then show ?thesis
    unfolding handle_update_def Let_def
    by (simp only: wp_raise outcome_same wp_check_releases wp_install_request if_cancel split: if_split) simp
qed

text \<open>A request is a step in the life of a board, so services still start on paired programs only.\<close>

lemma serve_update_outcome:
  assumes "serve_update env loads web_user user lock_free peer s = (r, t)"
  shows "t = s \<or> (\<exists>req. user \<in> {0, web_user} \<and> lock_free \<and> fst (receive_update loads 4096 peer) = Inr req
    \<and> request_outcome env req s t)"
proof (cases "user \<in> {0, web_user} \<and> lock_free \<and> \<not> isl (fst (receive_update loads 4096 peer))")
  case True
  then obtain req where req: "fst (receive_update loads 4096 peer) = Inr req"
    by (cases "fst (receive_update loads 4096 peer)") auto
  with True assms have "snd (handle_update env req s) = t" by (auto simp: serve_update_def map_prod_def split: prod.splits)
  with wp_handle_update [of env req s] have "request_outcome env req s t"
    by (auto simp: wp_def split: prod.splits sum.splits)
  with True req show ?thesis by auto
next
  case False
  with assms show ?thesis
    by (cases "fst (receive_update loads 4096 peer)") (auto simp: serve_update_def split: if_splits)
qed

lemma serve_update_life:
  assumes "life w releases s" and "serve_update env loads web_user user lock_free peer s = (r, t)"
  shows "life w releases t"
proof -
  from serve_update_outcome [OF assms(2)] have "t = s \<or> same_board s t" by (auto simp: request_outcome_def)
  then show ?thesis
  proof
    assume "same_board s t"
    then have "t = s\<lparr>ho_manager := ho_manager t, ho_marker := ho_marker t, ho_faults := ho_faults t\<rparr>"
      by (cases s; cases t) (simp add: same_board_def)
    with requested [OF assms(1)] show ?thesis by metis
  qed (use assms in simp)
qed

text \<open>C32: an update is queued only as the administrator confirmed it. Whatever a peer sends and whatever
  fails meanwhile, a request changes nothing but the manager's record and the write lock, and nothing at all
  while an update or a recovery is under way. If it queues an update, the peer was root or the panel, held
  the lock, sent exactly the fields of an installation with the maintenance confirmed, and named the
  version and the manifest digest of the recorded candidate, which is newer than the installed release and
  at most one hour old. A candidate is recorded only for a release the server offers now, with a manifest that
  passes validation, the SDK inputs of the installation and a newer version.\<close>

theorem update_requests_guarded:
  assumes "serve_update env loads web_user user lock_free peer s = (r, t)"
  shows "same_board s t \<and> (busy_state (um_state (ho_manager s)) \<longrightarrow> t = s)
    \<and> (um_state (ho_manager t) = Queued \<longrightarrow> um_state (ho_manager s) = Queued \<or>
        (\<exists>req c. user \<in> {0, web_user} \<and> lock_free \<and> fst (receive_update loads 4096 peer) = Inr req
          \<and> install_granted env req s c \<and> ho_manager t = queued_state env c (ho_manager s)))
    \<and> (\<forall>c. um_candidate (ho_manager t) = Some c \<longrightarrow> um_candidate (ho_manager s) = Some c \<or>
        (\<exists>offer. latest_release (he_tools env) (he_server env) = Inr offer \<and> candidate_of offer = Inr c
          \<and> um_checked_at (ho_manager t) = he_now env \<and> cn_sdk_sha c = md_sdk_sha (ho_installation s)
          \<and> md_version (ho_installation s) < cn_version c))"
proof -
  from serve_update_outcome [OF assms] consider "t = s"
    | req where "user \<in> {0, web_user}" "lock_free" "fst (receive_update loads 4096 peer) = Inr req" "request_outcome env req s t"
    by blast
  then show ?thesis
  proof cases
    case 2
    then have kept: "same_board s t" "busy_state (um_state (ho_manager s)) \<longrightarrow> t = s"
      unfolding request_outcome_def by blast+
    from 2 consider "ho_manager t = ho_manager s" | "newly_checked env s (ho_manager t)"
      | c where "install_granted env req s c" "ho_manager t = queued_state env c (ho_manager s)"
      unfolding request_outcome_def by blast
    then show ?thesis
    proof cases
      case 1
      with kept show ?thesis by (simp only:) blast
    next
      case new: 2
      have "um_state (ho_manager t) = Queued \<longrightarrow> um_state (ho_manager s) = Queued"
        using new by (auto simp: newly_checked_def)
      moreover have "um_candidate (ho_manager t) = None \<or> (\<exists>offer c. latest_release (he_tools env) (he_server env) = Inr offer
          \<and> candidate_of offer = Inr c \<and> um_checked_at (ho_manager t) = he_now env
          \<and> cn_sdk_sha c = md_sdk_sha (ho_installation s) \<and> md_version (ho_installation s) < cn_version c
          \<and> um_candidate (ho_manager t) = Some c)"
        using new unfolding newly_checked_def by blast
      ultimately show ?thesis using kept by (metis option.distinct(1) option.inject)
    next
      case 3
      then have "um_candidate (ho_manager t) = um_candidate (ho_manager s)" by (simp add: queued_state_def)
      with kept 2(1-3) 3 show ?thesis by metis
    qed
  qed (simp add: same_board_def)
qed

text \<open>Release 1.1.0 was found five minutes ago; the panel asks for its installation.\<close>

definition panel_env :: helper_env where
  "panel_env = \<lparr>he_unicode = \<lparr>uc_strip = (\<lambda>s. s), uc_lower = (\<lambda>s. s), uc_space = (\<lambda>c. c = 32), uc_digit = decimal_point\<rparr>,
     he_managed = True, he_credential = NoCredential,
     he_tools = \<lparr>tl_sha = (\<lambda>_. []), tl_parse = (\<lambda>_. None), tl_version = (\<lambda>_. [])\<rparr>, he_server = (\<lambda>_ _. Unreachable),
     he_now = 300000, he_token = ''j1''\<rparr>"

definition checked_board :: host where
  "checked_board = board\<lparr>ho_manager := \<lparr>um_state = Available,
     um_candidate = Some \<lparr>cn_version = (1, 1, 0), cn_manifest_sha = ''m'', cn_sdk_sha = ''sdk''\<rparr>, um_job = None, um_checked_at = 0\<rparr>\<rparr>"

definition install_request :: json where
  "install_request = JObj [(''action'', jstr ''install''), (''version'', jstr ''1.1.0''), (''manifest_sha256'', jstr ''m''),
     (''confirm_restart'', JBool True)]"

definition asking_panel :: peer where
  "asking_panel k = Delivered [10]"

definition served :: "host" where
  "served = snd (serve_update panel_env (\<lambda>_. Some install_request) 990 990 True asking_panel checked_board)"

lemma update_requests_guarded_witness:
  "um_state (ho_manager served) = Queued \<and> ho_marker served \<and> same_board checked_board served
   \<and> (\<exists>req c. install_granted panel_env req checked_board c
        \<and> ho_manager served = queued_state panel_env c (ho_manager checked_board))"
proof -
  have t: "serve_update panel_env (\<lambda>_. Some install_request) 990 990 True asking_panel checked_board =
      (fst (serve_update panel_env (\<lambda>_. Some install_request) 990 990 True asking_panel checked_board), served)"
    by (simp add: served_def)
  have e: "um_state (ho_manager served) = Queued" "ho_marker served" "um_state (ho_manager checked_board) = Available"
    by code_simp+
  with update_requests_guarded [OF t] show ?thesis by auto
qed

end
