(* ===== verification/Board_Identity.thy ===== *)
theory Board_Identity
  imports Text_Points Netlab_Wire
begin

text \<open>
  preflight.py: the identity of the board, read from its PCI function and its vital product data (VPD), and
  the inventory that decides whether a host may run the native services. Sysfs is what reading its files
  gives, without the white space \<^verbatim>\<open>strip\<close> takes away; SHA-256 is a parameter.
\<close>

subsection \<open>Vital product data\<close>

datatype vpd_fault = VpdSize | TruncatedHeader | TruncatedResource | MisplacedIdentifier | DuplicateReadOnly
| TruncatedKeyword | KeywordExceeds | DuplicateKeyword | ChecksumNotLast | InvalidEnd

text \<open>Maximal runs of at least four printable characters, as texts.\<close>

definition printable :: "octet \<Rightarrow> bool" where
  "printable b \<longleftrightarrow> 0x20 \<le> b \<and> b \<le> 0x7E"

function printable_runs :: "octet list \<Rightarrow> octet list list" where
  "printable_runs [] = []"
| "printable_runs (b # bs) =
     (if printable b then (b # takeWhile printable bs) # printable_runs (dropWhile printable bs) else printable_runs bs)"
  by pat_completeness auto
termination
  by (relation "measure length") (auto simp: length_dropWhile_le le_imp_less_Suc)

definition point_of :: "octet \<Rightarrow> int" where
  "point_of b = uint b"

definition strip_blanks :: "text_points \<Rightarrow> text_points" where
  "strip_blanks s = rev (dropWhile (\<lambda>c. c = 32) (rev (dropWhile (\<lambda>c. c = 32) s)))"

definition identity_strings :: "octet list \<Rightarrow> text_points list" where
  "identity_strings d = map (strip_blanks \<circ> map point_of) (filter (\<lambda>r. 4 \<le> length r) (printable_runs d))"

record vpd_state =
  vp_values :: "text_points list"
  vp_checksum :: "bool option"
  vp_identifier :: bool
  vp_readonly :: bool

definition no_vpd :: vpd_state where
  "no_vpd = \<lparr>vp_values = [], vp_checksum = None, vp_identifier = False, vp_readonly = False\<rparr>"

definition slice :: "octet list \<Rightarrow> nat \<Rightarrow> nat \<Rightarrow> octet list" where
  "slice d a n = take n (drop a d)"

definition sums_to_zero :: "octet list \<Rightarrow> bool" where
  "sums_to_zero d \<longleftrightarrow> sum_list (map uint d) mod 256 = 0"

definition RV :: "octet list" where "RV = [0x52, 0x56]"

text \<open>The keywords of a read-only resource, from \<open>cursor\<close> to its end; \<open>seen\<close> are the keywords before.\<close>

function scan_keywords :: "octet list \<Rightarrow> nat \<Rightarrow> nat \<Rightarrow> octet list list \<Rightarrow> vpd_state \<Rightarrow> vpd_fault + vpd_state" where
  "scan_keywords d cursor stop seen st =
     (if stop \<le> cursor then Inr st
      else if stop < cursor + 3 then Inl TruncatedKeyword
      else let key = slice d cursor 2; bytes = unat (d ! (cursor + 2)); c = cursor + 3 in
        if stop < c + bytes then Inl KeywordExceeds
        else if key \<in> set seen then Inl DuplicateKeyword
        else if key = RV then
          (if bytes = 0 \<or> c + bytes \<noteq> stop then Inl ChecksumNotLast
           else scan_keywords d (c + bytes) stop (key # seen) (st\<lparr>vp_checksum := Some (sums_to_zero (take (c + 1) d))\<rparr>))
        else scan_keywords d (c + bytes) stop (key # seen)
               (st\<lparr>vp_values := vp_values st @ identity_strings (slice d c bytes)\<rparr>))"
  by pat_completeness auto
termination
  by (relation "measure (\<lambda>(d, cursor, stop, seen, st). stop - cursor)") auto

declare scan_keywords.simps [simp del]

text \<open>The header of the resource at an offset: the start and the length of its body.\<close>

definition resource_header :: "octet list \<Rightarrow> nat \<Rightarrow> vpd_fault + nat \<times> nat" where
  "resource_header d offset = (let tag = d ! offset in
     if tag AND 0x80 \<noteq> 0 then
       (if length d < offset + 3 then Inl TruncatedHeader
        else Inr (offset + 3, unat (d ! (offset + 1)) + 256 * unat (d ! (offset + 2))))
     else Inr (offset + 1, unat (tag AND 7)))"

definition read_resource :: "octet list \<Rightarrow> octet \<Rightarrow> nat \<Rightarrow> nat \<Rightarrow> vpd_state \<Rightarrow> vpd_fault + vpd_state" where
  "read_resource d tag start bytes st =
     (if length d < start + bytes then Inl TruncatedResource
      else if tag = 0x82 then
        (if vp_identifier st \<or> vp_readonly st then Inl MisplacedIdentifier
         else Inr (st\<lparr>vp_identifier := True, vp_values := vp_values st @ identity_strings (slice d start bytes)\<rparr>))
      else if tag = 0x90 then
        (if vp_readonly st then Inl DuplicateReadOnly
         else scan_keywords d start (start + bytes) [] (st\<lparr>vp_readonly := True\<rparr>))
      else Inr st)"

text \<open>The result names the offset after the end tag, if there is one.\<close>

function scan_resources :: "octet list \<Rightarrow> nat \<Rightarrow> vpd_state \<Rightarrow> vpd_fault + nat option \<times> vpd_state" where
  "scan_resources d offset st =
     (if length d \<le> offset then Inr (None, st)
      else if d ! offset = 0x78 then Inr (Some (offset + 1), st)
      else case resource_header d offset of
        Inl e \<Rightarrow> Inl e
      | Inr (start, bytes) \<Rightarrow> (case read_resource d (d ! offset) start bytes st of
          Inl e \<Rightarrow> Inl e
        | Inr st' \<Rightarrow> scan_resources d (start + bytes) st'))"
  by pat_completeness auto
termination
  by (relation "measure (\<lambda>(d, offset, st). length d - offset)")
    (auto simp: resource_header_def Let_def split: if_splits)

declare scan_resources.simps [simp del]

definition the_only :: "text_points list \<Rightarrow> text_points option" where
  "the_only xs = (case remdups xs of [x] \<Rightarrow> Some x | _ \<Rightarrow> None)"

definition upper_point :: "int \<Rightarrow> int" where
  "upper_point c = (if 97 \<le> c \<and> c \<le> 122 then c - 32 else c)"

definition is_model :: "text_points \<Rightarrow> bool" where
  "is_model s \<longleftrightarrow> map upper_point s \<in> {ascii ''PE31625G24DIRA'', ascii ''PE31625G24DIRA-MPS''}"

definition is_revision :: "text_points \<Rightarrow> bool" where
  "is_revision s \<longleftrightarrow> length s = 4 \<and> list_all decimal_point s"

definition is_serial :: "text_points \<Rightarrow> bool" where
  "is_serial s \<longleftrightarrow> 11 \<le> length s \<and> hd s \<in> {70, 83} \<and> list_all decimal_point (tl s)"

datatype family = B0 | A11

record vpd_identity =
  bi_model :: "text_points option"
  bi_serial :: "text_points option"
  bi_version :: "text_points option"
  bi_family :: "family option"
  bi_checksum :: "bool option"

text \<open>The rule of the supplier: the first digit of the revision that is not zero.\<close>

definition family_of :: "text_points \<Rightarrow> family option" where
  "family_of v = (case dropWhile (\<lambda>c. c = 48) v of [] \<Rightarrow> None | c # _ \<Rightarrow> Some (if 54 \<le> c then A11 else B0))"

definition identity_of :: "vpd_state \<Rightarrow> vpd_identity" where
  "identity_of st = (let vs = vp_values st; version = the_only (filter is_revision vs) in
     \<lparr>bi_model = the_only (map (map upper_point) (filter is_model vs)), bi_serial = the_only (filter is_serial vs),
      bi_version = version, bi_family = Option.bind version family_of, bi_checksum = vp_checksum st\<rparr>)"

definition parse_vpd :: "octet list \<Rightarrow> vpd_fault + vpd_identity" where
  "parse_vpd d = (if d = [] \<or> 32768 < int (length d) then Inl VpdSize
     else case scan_resources d 0 no_vpd of
       Inl e \<Rightarrow> Inl e
     | Inr (stop, st) \<Rightarrow>
         if stop = None \<or> vp_checksum st = Some False \<or> \<not> list_all (\<lambda>b. b = 0 \<or> b = 255) (drop (the stop) d) then Inl InvalidEnd
         else Inr (identity_of st))"

subsection \<open>The PCI function\<close>

record pci_function =
  pf_bdf :: string
  pf_vendor :: "text_points option"
  pf_device :: "text_points option"
  pf_subsystem_vendor :: "text_points option"
  pf_subsystem_device :: "text_points option"
  pf_vpd :: "octet list option"
  pf_driver :: "string option"
  pf_uio :: "string list"

definition pci_matches :: "pci_function \<Rightarrow> bool" where
  "pci_matches f \<longleftrightarrow> pf_vendor f = Some (ascii ''0x8086'') \<and> pf_device f = Some (ascii ''0x15a4'')
     \<and> pf_subsystem_vendor f = Some (ascii ''0x1374'') \<and> pf_subsystem_device f = Some (ascii ''0x01d0'')"

definition CANDIDATE_PROFILES :: "family \<Rightarrow> string" where
  "CANDIDATE_PROFILES f = (case f of B0 \<Rightarrow> ''sil001-hw4-b0'' | A11 \<Rightarrow> ''sil001-hw5-a11'')"

datatype rejection = InvalidVpd | UnsupportedPci | MissingChecksum | IncompleteIdentity

record device_report =
  dr_bdf :: string
  dr_identity :: "vpd_identity option"
  dr_rejection :: "rejection option"
  dr_matched :: bool
  dr_profile :: "string option"
  dr_driver :: "string option"
  dr_uio :: "string list"

text \<open>An empty text is as good as none.\<close>

definition stated :: "text_points option \<Rightarrow> bool" where
  "stated v \<longleftrightarrow> v \<noteq> None \<and> v \<noteq> Some []"

definition read_identity :: "pci_function \<Rightarrow> vpd_identity option" where
  "read_identity f = (case pf_vpd f of None \<Rightarrow> None
     | Some raw \<Rightarrow> (case parse_vpd (take 32769 raw) of Inl _ \<Rightarrow> None | Inr i \<Rightarrow> Some i))"

definition inspect_pci_device :: "pci_function \<Rightarrow> device_report" where
  "inspect_pci_device f = (let identity = read_identity f;
     candidate = map_option CANDIDATE_PROFILES (Option.bind identity bi_family);
     full = (case identity of None \<Rightarrow> False | Some i \<Rightarrow> stated (bi_model i) \<and> stated (bi_serial i));
     checked = (case identity of None \<Rightarrow> False | Some i \<Rightarrow> bi_checksum i = Some True);
     matched = pci_matches f \<and> full \<and> candidate \<noteq> None \<and> checked in
     \<lparr>dr_bdf = pf_bdf f, dr_identity = identity,
      dr_rejection = (if identity = None then Some InvalidVpd else if \<not> pci_matches f then Some UnsupportedPci
        else if \<not> checked then Some MissingChecksum else if \<not> full \<or> candidate = None then Some IncompleteIdentity else None),
      dr_matched = matched, dr_profile = (if matched then candidate else None), dr_driver = pf_driver f, dr_uio = pf_uio f\<rparr>)"

subsection \<open>SDK inputs\<close>

definition hex_text :: "octet list \<Rightarrow> text_points" where
  "hex_text d = concat (map (\<lambda>b. [digit_point (unat b div 16), digit_point (unat b mod 16)]) d)"

record sdk_header =
  sh_name :: "octet list"
  sh_link :: bool
  sh_content :: "octet list"

text \<open>The headers in the order of their paths; a symbolic link is an error.\<close>

definition header_digest :: "(octet list \<Rightarrow> octet list) \<Rightarrow> sdk_header list \<Rightarrow> (nat \<times> text_points) option" where
  "header_digest sha hs = (if list_ex sh_link hs then None
     else Some (length hs, hex_text (sha (concat (map (\<lambda>h. sh_name h @ 0 # sha (sh_content h)) hs)))))"

record sdk_library =
  sl_expected :: text_points
  sl_link :: bool
  sl_content :: "octet list option"

definition library_valid :: "(octet list \<Rightarrow> octet list) \<Rightarrow> sdk_library \<Rightarrow> bool" where
  "library_valid sha l \<longleftrightarrow> \<not> sl_link l \<and> (case sl_content l of
     None \<Rightarrow> False
   | Some raw \<Rightarrow> hex_text (sha raw) = sl_expected l \<and> 20 \<le> length raw
       \<and> take 6 raw = [0x7F, 0x45, 0x4C, 0x46, 0x02, 0x01] \<and> unat (raw ! 18) + 256 * unat (raw ! 19) = 62)"

text \<open>No manifest: invalid. The expected headers are a count and a digest.\<close>

definition inspect_sdk ::
  "(octet list \<Rightarrow> octet list) \<Rightarrow> sdk_header list \<Rightarrow> (sdk_library list \<times> (nat \<times> text_points) option) option \<Rightarrow> bool" where
  "inspect_sdk sha headers manifest = (case manifest of
     None \<Rightarrow> False
   | Some (libraries, expected) \<Rightarrow> (case header_digest sha headers of
         None \<Rightarrow> False
       | Some (n, digest) \<Rightarrow> 0 < n \<and> expected = Some (n, digest))
       \<and> libraries \<noteq> [] \<and> list_all (library_valid sha) libraries)"

subsection \<open>Inventory\<close>

definition strip_quotes :: "text_points \<Rightarrow> text_points" where
  "strip_quotes s = rev (dropWhile (\<lambda>c. c = 34) (rev (dropWhile (\<lambda>c. c = 34) s)))"

fun os_fields :: "text_points list \<Rightarrow> (text_points \<times> text_points) list" where
  "os_fields [] = []"
| "os_fields (l # ls) = (if 61 \<in> set l
     then (takeWhile (\<lambda>c. c \<noteq> 61) l, strip_quotes (tl (dropWhile (\<lambda>c. c \<noteq> 61) l))) # os_fields ls else os_fields ls)"

definition os_value :: "text_points list \<Rightarrow> string \<Rightarrow> text_points option" where
  "os_value ls key = map_of (rev (os_fields ls)) (ascii key)"

record inventory_host =
  bh_os_lines :: "text_points list"
  bh_machine :: string
  bh_functions :: "pci_function list"
  bh_driver_version :: "text_points option"
  bh_sdk :: "bool option"

record inventory_report =
  iv_profile :: "string option"
  iv_devices :: "device_report list"
  iv_checks :: "(string \<times> bool) list"
  iv_passed :: bool

definition inventory :: "inventory_host \<Rightarrow> string option \<Rightarrow> inventory_report" where
  "inventory h bdf = (let
     devices = map inspect_pci_device (filter (\<lambda>f. (bdf = None \<or> bdf = Some (pf_bdf f)) \<and> pf_device f = Some (ascii ''0x15a4''))
       (bh_functions h));
     matched = filter dr_matched devices;
     checks = [(''debian13_amd64'', os_value (bh_os_lines h) ''ID'' = Some (ascii ''debian'')
                  \<and> os_value (bh_os_lines h) ''VERSION_ID'' = Some (ascii ''13'') \<and> bh_machine h = ''x86_64''),
       (''unique_supported_board'', length matched = 1),
       (''driver_version'', bh_driver_version h = Some (ascii ''6.12.101-ies2'')),
       (''uio_bound'', length devices = 1 \<and> dr_driver (hd devices) = Some ''fm10k'' \<and> dr_uio (hd devices) \<noteq> [])]
       @ (case bh_sdk h of None \<Rightarrow> [] | Some valid \<Rightarrow> [(''sdk_inputs'', valid)]) in
     \<lparr>iv_profile = (case matched of [d] \<Rightarrow> dr_profile d | _ \<Rightarrow> None), iv_devices = devices, iv_checks = checks,
      iv_passed = list_all snd checks\<rparr>)"

end
