(* ===== verification/Startup_Guard.thy ===== *)
theory Startup_Guard
  imports Board_Identity Netlab_Codec
begin

text \<open>
  native_guard.py: what switchd checks, as root, before it starts the SDK. Files are bytes with their owner and
  modes; SHA-256, the JSON and XML parsers, pydantic's loader and the commands that write to the board are
  parameters. Every refusal ends the helper with an error; the reason is kept where the code names one.
\<close>

datatype refusal = NotRoot | UpdateInterrupted | SharedIpc | Untrusted string | BadStartupManifest | ModeDiffers | EnvironmentDiffers
| IncompleteManifest | ArtifactChanged string | NoBaseline | NotInitialConfiguration | BadSeed | BadPointer | PredatesSeed
| UnreadableSnapshot | OtherProfile | RoutingIntent | AuthorityChanged | ExistingConfiguration | WrongIdentity | WrongFunction | WrongUio | WrongParent
| LibraryChanged | WrongMapping | OtherOwner | AmbiguousAdapter | CommandFailed | PowerNotLatched | AmbiguousInterface | InterfaceNotReady

subsection \<open>Trusted files\<close>

record file_entry =
  fe_regular :: bool
  fe_uid :: int
  fe_mode :: int
  fe_content :: "int list"

record folder_entry =
  fo_directory :: bool
  fo_uid :: int
  fo_mode :: int

record file_tree =
  ft_file :: "string \<Rightarrow> file_entry option"
  ft_parents :: "string \<Rightarrow> folder_entry list"

definition trusted_file :: "file_tree \<Rightarrow> string \<Rightarrow> refusal + int list" where
  "trusted_file fs path = (case ft_file fs path of
     None \<Rightarrow> Inl (Untrusted path)
   | Some e \<Rightarrow>
       if \<not> fe_regular e \<or> fe_uid e \<noteq> 0 \<or> fe_mode e AND 0x12 \<noteq> 0
          \<or> \<not> list_all (\<lambda>p. fo_directory p \<and> fo_uid p = 0 \<and> fo_mode p AND 0x12 = 0) (ft_parents fs path)
       then Inl (Untrusted path) else Inr (fe_content e))"

definition ROOT :: string where "ROOT = ''/opt/fm10k-controlpanel/native''"
definition BOOT :: string where "BOOT = ''/etc/fm10k-controlpanel/native''"
definition STATE :: string where "STATE = ''/var/lib/fm10k-controlpanel-native''"

definition pointer_path :: string where "pointer_path = STATE @ ''/config/journal/tx_counter''"

definition hex16 :: "nat \<Rightarrow> string" where
  "hex16 n = (let t = map char_of (base_text 16 n) in replicate (16 - length t) CHR ''0'' @ t)"

definition snapshot_path :: "int \<Rightarrow> string" where
  "snapshot_path commit = STATE @ ''/config/rollback/'' @ hex16 (nat commit) @ ''.conf''"

subsection \<open>The configuration that may start\<close>

record guard_tools =
  gt_sha :: "int list \<Rightarrow> text_points"
  gt_json :: "int list \<Rightarrow> json option"
  gt_xml :: "int list \<Rightarrow> xml option"
  gt_load :: "text_points \<Rightarrow> switch_configuration option"

definition connectivity_port :: "physical \<Rightarrow> port_config \<Rightarrow> port_config" where
  "connectivity_port p c = c\<lparr>pc_enabled := True, pc_pvid := Some 1, pc_lldp := False,
     pc_name := ascii (''MPO'' @ decimal_int (ph_mpo p) @ ''-EPL'' @ decimal_int (ph_epl p) @ ''-100G'')\<rparr>"

definition connectivity_configuration :: "switch_configuration \<Rightarrow> switch_configuration" where
  "connectivity_configuration c = c\<lparr>sc_vlans := [\<lparr>vl_id = 1, vl_name = ascii ''100G connectivity test''\<rparr>],
     sc_rstp := (sc_rstp c)\<lparr>rs_enabled := False\<rparr>, sc_lldp := (sc_lldp c)\<lparr>ll_enabled := False\<rparr>,
     sc_ports := map (\<lambda>(n, pc). (n, case find (\<lambda>p. ph_base p = n) (map snd PHYSICAL) of
       None \<Rightarrow> pc | Some p \<Rightarrow> connectivity_port p pc)) (sc_ports c)\<rparr>"

definition initial_configuration :: "board_profile \<Rightarrow> string \<Rightarrow> switch_configuration option" where
  "initial_configuration profile mode =
     (case validate_configuration (default_configuration\<lparr>sc_profile := profile\<rparr>) of
        Inl _ \<Rightarrow> None
      | Inr c \<Rightarrow>
          if mode = ''observe'' then Some c
          else if mode \<noteq> ''basic100g'' then None
          else (case validate_configuration (connectivity_configuration c) of Inl _ \<Rightarrow> None | Inr d \<Rightarrow> Some d))"

definition read_configuration :: "guard_tools \<Rightarrow> int list \<Rightarrow> switch_configuration option" where
  "read_configuration g raw = (case decode_configuration (gt_xml g) (gt_load g) raw of Inl _ \<Rightarrow> None | Inr c \<Rightarrow> Some c)"

definition validate_initial_configuration :: "guard_tools \<Rightarrow> int list \<Rightarrow> board_profile \<Rightarrow> string \<Rightarrow> bool" where
  "validate_initial_configuration g raw profile mode \<longleftrightarrow>
     read_configuration g raw \<noteq> None \<and> read_configuration g raw = initial_configuration profile mode"

text \<open>\<^verbatim>\<open>[1-9][0-9]{0,15}\n\<close>\<close>

definition pointer_value :: "int list \<Rightarrow> int option" where
  "pointer_value raw = (if raw \<noteq> [] \<and> List.last raw = 10 \<and> butlast raw \<noteq> [] \<and> length raw \<le> 17
     \<and> list_all decimal_point (butlast raw) \<and> hd raw \<noteq> 48 then Some (int (text_value 10 (butlast raw))) else None)"

definition routing_paths :: "string list list" where
  "routing_paths = [[''routing-options''], [''routing-instances''], [''interfaces-routing''], [''protocols'', ''ospf''], [''protocols'', ''bgp'']]"

text \<open>The snapshot the pointer names, and the pointer read once more.\<close>

definition validate_replay_authority ::
  "guard_tools \<Rightarrow> file_tree \<Rightarrow> file_tree \<Rightarrow> board_profile \<Rightarrow> int \<Rightarrow> refusal + int" where
  "validate_replay_authority g fs later profile seed =
     ebind (trusted_file fs pointer_path) (\<lambda>pointer. case pointer_value pointer of
       None \<Rightarrow> Inl BadPointer
     | Some commit \<Rightarrow>
         if commit < seed then Inl PredatesSeed
         else ebind (trusted_file fs (snapshot_path commit)) (\<lambda>raw.
           case (read_configuration g raw, parse_xml (gt_xml g) raw) of
             (Some c, Inr tree) \<Rightarrow>
               if sc_profile c \<noteq> profile
                  \<or> map_option xml_text (find_first [''chassis'', ''fm10k-panel'', ''profile''] tree) \<noteq> Some (ascii (profile_name profile))
               then Inl OtherProfile
               else if list_ex (\<lambda>p. find_first p tree \<noteq> None) routing_paths then Inl RoutingIntent
               else ebind (trusted_file later pointer_path) (\<lambda>again. if again \<noteq> pointer then Inl AuthorityChanged else Inr commit)
           | _ \<Rightarrow> Inl UnreadableSnapshot))"

subsection \<open>The static checks\<close>

record guard_process =
  gp_pid :: int
  gp_readable :: bool
  gp_maps :: text_points
  gp_descriptors :: "text_points list"

record guard_host =
  gh_root :: bool
  gh_gate :: bool
  gh_private_ipc :: bool
  gh_environment :: "string \<Rightarrow> string option"
  gh_files :: file_tree
  gh_files_later :: file_tree
  gh_board :: inventory_host
  gh_uio :: bool
  gh_parent :: int
  gh_parent_exe :: string
  gh_sdk_mappings :: "string set"
  gh_processes :: "guard_process list"
  gh_own :: int
  gh_targets :: "text_points list"
  gh_adapters :: "(string \<times> text_points) list"
  gh_interfaces :: "string list"

definition need :: "bool \<Rightarrow> refusal \<Rightarrow> refusal + unit" where
  "need b e = (if b then Inr () else Inl e)"

definition entry_or :: "json \<Rightarrow> string \<Rightarrow> json \<Rightarrow> json" where
  "entry_or v key fallback = (case map_of (entries v) key of None \<Rightarrow> fallback | Some x \<Rightarrow> x)"

definition startup_modes :: "string list" where "startup_modes = [''observe'', ''basic100g'', ''control'']"

definition mode_of :: "json \<Rightarrow> string option" where
  "mode_of manifest = find (\<lambda>m. jget manifest ''mode'' = jstr m) startup_modes"

definition expected_environment :: "string \<Rightarrow> (string \<times> string) list" where
  "expected_environment mode =
     [(''NETLAB_ROOT'', ROOT @ ''/vendor/netlab''), (''NETLAB_PLATFORM_PROFILE'', BOOT @ ''/platform.profile''),
      (''FM_LIBERTY_TRAIL_CONFIG_FILE'', BOOT @ ''/fm_platform_attributes.cfg''), (''NETLAB_CONFIG_DIR'', STATE @ ''/config''),
      (''NETLAB_FM10K_OBSERVE_ONLY'', if mode = ''control'' then ''0'' else ''1''), (''FM_API_SHM_KEY'', ''51701''),
      (''LD_LIBRARY_PATH'', ROOT @ ''/hardware/sdk/ies/build:/opt/netlab-deps/libyang2/lib'')]"

definition boot_files :: "string list" where
  "boot_files = map (\<lambda>n. BOOT @ ''/'' @ n) [''platform.profile'', ''fm_platform_attributes.cfg'', ''active.conf'']"

definition check_artifact :: "guard_tools \<Rightarrow> file_tree \<Rightarrow> string \<times> json \<Rightarrow> refusal + unit" where
  "check_artifact g fs = (\<lambda>(path, digest). ebind (trusted_file fs path) (\<lambda>raw.
     need (py_eq (JStr (gt_sha g raw)) digest) (ArtifactChanged path)))"

fun check_each :: "('x \<Rightarrow> refusal + unit) \<Rightarrow> 'x list \<Rightarrow> refusal + unit" where
  "check_each f [] = Inr ()"
| "check_each f (x # xs) = ebind (f x) (\<lambda>_. check_each f xs)"

definition check_manifest :: "guard_tools \<Rightarrow> guard_host \<Rightarrow> board_profile \<Rightarrow> refusal + json \<times> string" where
  "check_manifest g h profile = ebind (trusted_file (gh_files h) (BOOT @ ''/startup.json'')) (\<lambda>raw. case gt_json g raw of
     None \<Rightarrow> Inl BadStartupManifest
   | Some manifest \<Rightarrow> (case mode_of manifest of
       None \<Rightarrow> Inl BadStartupManifest
     | Some mode \<Rightarrow>
         if \<not> is_object manifest \<or> \<not> py_eq (jget manifest ''schema'') (JInt 1)
            \<or> \<not> py_eq (jget manifest ''profile'') (jstr (profile_name profile)) then Inl BadStartupManifest
         else ebind (need ((case gh_environment h ''NETLAB_FM10K_STARTUP_MODE'' of None \<Rightarrow> ''observe'' | Some m \<Rightarrow> m) = mode) ModeDiffers) (\<lambda>_.
           ebind (need (list_all (\<lambda>(k, v). gh_environment h k = Some v) (expected_environment mode)) EnvironmentDiffers) (\<lambda>_.
           ebind (need (is_object (entry_or manifest ''sha256'' (JObj []))
               \<and> set (map fst (entries (entry_or manifest ''sha256'' (JObj [])))) = set boot_files) IncompleteManifest) (\<lambda>_.
           ebind (check_each (check_artifact g (gh_files h)) (entries (entry_or manifest ''sha256'' (JObj [])))) (\<lambda>_. Inr (manifest, mode)))))))"

definition seed_of :: "json \<Rightarrow> int option" where
  "seed_of manifest = (case entry_or manifest ''seed_commit_id'' (JInt 1) of
     JInt n \<Rightarrow> if 1 \<le> n \<and> n \<le> 9999999999999999 then Some n else None | _ \<Rightarrow> None)"

definition bootstrap_of :: "json \<Rightarrow> string \<Rightarrow> string option" where
  "bootstrap_of manifest mode =
     (if mode = ''control'' then find (\<lambda>m. jget manifest ''bootstrap_mode'' = jstr m) [''observe'', ''basic100g''] else Some mode)"

definition check_authority :: "guard_tools \<Rightarrow> guard_host \<Rightarrow> board_profile \<Rightarrow> json \<times> string \<Rightarrow> refusal + int" where
  "check_authority g h profile = (\<lambda>(manifest, mode). ebind (trusted_file (gh_files h) (BOOT @ ''/active.conf'')) (\<lambda>raw.
     case bootstrap_of manifest mode of
       None \<Rightarrow> Inl NoBaseline
     | Some bootstrap \<Rightarrow>
         if \<not> validate_initial_configuration g raw profile bootstrap then Inl NotInitialConfiguration
         else (case seed_of manifest of
             None \<Rightarrow> Inl BadSeed
           | Some seed \<Rightarrow>
               if mode = ''control'' then validate_replay_authority g (gh_files h) (gh_files_later h) profile seed
               else ebind (trusted_file (gh_files h) pointer_path) (\<lambda>pointer.
                 ebind (need (pointer = ascii (decimal_int seed) @ [10]) ExistingConfiguration) (\<lambda>_.
                 ebind (trusted_file (gh_files h) (snapshot_path seed)) (\<lambda>stored.
                 ebind (need (stored = raw) ExistingConfiguration) (\<lambda>_. Inr seed)))))))"

definition PCI_BDF :: string where "PCI_BDF = ''0000:01:00.0''"

definition check_identity :: "guard_host \<Rightarrow> board_profile \<Rightarrow> refusal + device_report" where
  "check_identity h profile = (let report = inventory (gh_board h) (Some PCI_BDF) in
     if \<not> iv_passed report \<or> iv_profile report \<noteq> Some (profile_name profile) then Inl WrongIdentity
     else (case iv_devices report of
         [d] \<Rightarrow> if dr_bdf d \<noteq> PCI_BDF then Inl WrongFunction else Inr d
       | _ \<Rightarrow> Inl WrongFunction))"

definition base_name :: "string \<Rightarrow> string" where
  "base_name path = rev (takeWhile (\<lambda>c. c \<noteq> CHR ''/'') (rev path))"

definition check_library :: "guard_tools \<Rightarrow> file_tree \<Rightarrow> json \<Rightarrow> refusal + unit" where
  "check_library g fs e = (case jget e ''suffix'' of
     JStr suffix \<Rightarrow> ebind (trusted_file fs (ROOT @ ''/hardware/sdk/ies/build/'' @ base_name (map char_of suffix))) (\<lambda>raw.
       need (py_eq (JStr (gt_sha g raw)) (jget e ''sha256'')) LibraryChanged)
   | _ \<Rightarrow> Inl LibraryChanged)"

definition check_libraries :: "guard_tools \<Rightarrow> guard_host \<Rightarrow> refusal + unit" where
  "check_libraries g h = ebind (trusted_file (gh_files h) (ROOT @ ''/hardware/sdk-inputs.json'')) (\<lambda>raw.
     case gt_json g raw of
       None \<Rightarrow> Inl LibraryChanged
     | Some v \<Rightarrow> if \<not> is_list (jget v ''libraries'') then Inl LibraryChanged
         else ebind (check_each (check_library g (gh_files h)) (elements (jget v ''libraries''))) (\<lambda>_.
           need (gh_sdk_mappings h = {ROOT @ ''/hardware/sdk/ies/build/libFocalpointSDK.so''}) WrongMapping))"

definition owns_mapping :: "text_points list \<Rightarrow> guard_process \<Rightarrow> bool" where
  "owns_mapping targets p \<longleftrightarrow> gp_readable p \<and> list_ex (\<lambda>t. has_bytes t (gp_maps p) \<or> t \<in> set (gp_descriptors p)) targets"

definition check_other_owners :: "guard_host \<Rightarrow> refusal + unit" where
  "check_other_owners h = need (\<not> list_ex (\<lambda>p. gp_pid p \<noteq> gh_parent h \<and> gp_pid p \<noteq> gh_own h \<and> owns_mapping (gh_targets h) p)
     (gh_processes h)) OtherOwner"

definition static_checks :: "guard_tools \<Rightarrow> guard_host \<Rightarrow> board_profile \<Rightarrow> refusal + int" where
  "static_checks g h profile =
     ebind (need (gh_root h) NotRoot) (\<lambda>_. ebind (need (gh_gate h) UpdateInterrupted) (\<lambda>_. ebind (need (gh_private_ipc h) SharedIpc) (\<lambda>_.
     ebind (check_manifest g h profile) (\<lambda>m. ebind (check_authority g h profile m) (\<lambda>commit.
     ebind (check_identity h profile) (\<lambda>_. ebind (need (gh_uio h) WrongUio) (\<lambda>_.
     ebind (need (gh_parent_exe h = ROOT @ ''/vendor/netlab/build/switchd'') WrongParent) (\<lambda>_.
     ebind (check_libraries g h) (\<lambda>_. ebind (check_other_owners h) (\<lambda>_. Inr commit))))))))))"

subsection \<open>Writes to the board\<close>

text \<open>The board's power register, the MTU and flags of the CPU interface, and what was written.\<close>

datatype guard_event = PowerWritten int | LinkRaised int | ReportWritten

record guard_board =
  gb_power :: int
  gb_link :: "int \<times> int"
  gb_events :: "guard_event list"

text \<open>What a command does: whether it succeeds and what it leaves.\<close>

record guard_commands =
  gc_read :: "int \<Rightarrow> int option"
  gc_power :: "int \<Rightarrow> int \<Rightarrow> bool \<times> int"
  gc_link :: "int \<Rightarrow> int \<times> int \<Rightarrow> bool \<times> (int \<times> int)"

type_synonym 'a guard_action = "(guard_board, refusal, 'a) action"

definition digits_only :: "string \<Rightarrow> bool" where
  "digits_only s \<longleftrightarrow> s \<noteq> [] \<and> list_all (\<lambda>c. (48::nat) \<le> of_char c \<and> (of_char c::nat) \<le> 57) s"

definition i801_adapters :: "guard_host \<Rightarrow> string list" where
  "i801_adapters h = map fst (filter (\<lambda>(_, name). take 18 name = ascii ''SMBus I801 adapter'') (gh_adapters h))"

definition read_power :: "guard_commands \<Rightarrow> int guard_action" where
  "read_power c = with_state (\<lambda>s. case gc_read c (gb_power s) of None \<Rightarrow> raise_error CommandFailed | Some v \<Rightarrow> ret v)"

definition write_power :: "guard_commands \<Rightarrow> int \<Rightarrow> unit guard_action" where
  "write_power c v = with_state (\<lambda>s. case gc_power c v (gb_power s) of (ok, p) \<Rightarrow>
     then_action (modify_state (\<lambda>s. s\<lparr>gb_power := p, gb_events := gb_events s @ [PowerWritten v]\<rparr>))
       (if ok then ret () else raise_error CommandFailed))"

definition prepare_power :: "guard_host \<Rightarrow> guard_commands \<Rightarrow> unit guard_action" where
  "prepare_power h c = (case i801_adapters h of
     [name] \<Rightarrow> if take 4 name \<noteq> ''i2c-'' \<or> \<not> digits_only (drop 4 name) then raise_error AmbiguousAdapter
       else bind_action (read_power c) (\<lambda>v. if v = 0x3C then ret ()
         else then_action (write_power c 0x3C)
           (bind_action (read_power c) (\<lambda>v. if v \<noteq> 0x3C then raise_error PowerNotLatched else ret ())))
   | _ \<Rightarrow> raise_error AmbiguousAdapter)"

definition interface_ok :: "string \<Rightarrow> bool" where
  "interface_ok s \<longleftrightarrow> 1 \<le> length s \<and> length s \<le> 15 \<and> list_all (\<lambda>c. let n = of_char c :: nat in
     48 \<le> n \<and> n \<le> 58 \<or> 65 \<le> n \<and> n \<le> 90 \<or> 97 \<le> n \<and> n \<le> 122 \<or> n = 95 \<or> n = 46 \<or> n = 45) s"

definition link_ready :: "int \<times> int \<Rightarrow> bool" where
  "link_ready l \<longleftrightarrow> fst l \<ge> 1518 \<and> snd l AND 1 \<noteq> 0"

definition raise_link :: "guard_commands \<Rightarrow> int \<Rightarrow> unit guard_action" where
  "raise_link c mtu = with_state (\<lambda>s. case gc_link c mtu (gb_link s) of (ok, l) \<Rightarrow>
     then_action (modify_state (\<lambda>s. s\<lparr>gb_link := l, gb_events := gb_events s @ [LinkRaised mtu]\<rparr>))
       (if ok then ret () else raise_error CommandFailed))"

definition prepare_cpu_network :: "guard_host \<Rightarrow> guard_commands \<Rightarrow> (string \<times> int) guard_action" where
  "prepare_cpu_network h c = (case gh_interfaces h of
     [name] \<Rightarrow> if \<not> interface_ok name then raise_error AmbiguousInterface
       else then_action (with_state (\<lambda>s. if link_ready (gb_link s) then ret () else raise_link c (max (fst (gb_link s)) 1518)))
         (with_state (\<lambda>s. if \<not> link_ready (gb_link s) then raise_error InterfaceNotReady else ret (name, fst (gb_link s))))
   | _ \<Rightarrow> raise_error AmbiguousInterface)"

record startup_result =
  sr_profile :: board_profile
  sr_commit :: int
  sr_network :: "string \<times> int"

definition verify_startup :: "guard_tools \<Rightarrow> guard_host \<Rightarrow> guard_commands \<Rightarrow> board_profile \<Rightarrow> startup_result guard_action" where
  "verify_startup g h c profile = (case static_checks g h profile of
     Inl e \<Rightarrow> raise_error e
   | Inr commit \<Rightarrow> then_action (prepare_power h c)
       (bind_action (prepare_cpu_network h c) (\<lambda>network.
        then_action (modify_state (\<lambda>s. s\<lparr>gb_events := gb_events s @ [ReportWritten]\<rparr>))
          (ret \<lparr>sr_profile = profile, sr_commit = commit, sr_network = network\<rparr>))))"

end
