(* ===== verification/Identity_Properties.thy ===== *)
theory Identity_Properties
  imports Board_Identity
begin

text \<open>
  The vital product data as a grammar: a list of resources with their fields. The scanner with its offsets
  accepts exactly the encodings of well-formed lists and takes the identity from the identifier and the
  read-only fields alone.
\<close>

subsection \<open>The grammar\<close>

datatype vpd_resource =
  Identifier_text "octet list" | Read_only "(octet list \<times> octet list) list" | Other_resource octet "octet list"

definition le2 :: "nat \<Rightarrow> octet list" where
  "le2 n = [word_of_nat n, word_of_nat (n div 256)]"

fun keyword_bytes :: "octet list \<times> octet list \<Rightarrow> octet list" where
  "keyword_bytes (k, b) = k @ word_of_nat (length b) # b"

definition field_bytes :: "(octet list \<times> octet list) list \<Rightarrow> octet list" where
  "field_bytes ks = concat (map keyword_bytes ks)"

fun resource_bytes :: "vpd_resource \<Rightarrow> octet list" where
  "resource_bytes (Identifier_text b) = 0x82 # le2 (length b) @ b"
| "resource_bytes (Read_only ks) = 0x90 # le2 (length (field_bytes ks)) @ field_bytes ks"
| "resource_bytes (Other_resource tag b) = tag # (if tag AND 0x80 \<noteq> 0 then le2 (length b) else []) @ b"

definition vpd_bytes :: "vpd_resource list \<Rightarrow> octet list" where
  "vpd_bytes rs = concat (map resource_bytes rs)"

fun well_formed_fields :: "octet list list \<Rightarrow> (octet list \<times> octet list) list \<Rightarrow> bool" where
  "well_formed_fields seen [] \<longleftrightarrow> True"
| "well_formed_fields seen ((k, b) # ks) \<longleftrightarrow> length k = 2 \<and> length b < 256 \<and> k \<notin> set seen
     \<and> (k = RV \<longrightarrow> b \<noteq> [] \<and> ks = []) \<and> well_formed_fields (k # seen) ks"

definition other_ok :: "octet \<Rightarrow> octet list \<Rightarrow> bool" where
  "other_ok tag b \<longleftrightarrow> tag \<noteq> 0x82 \<and> tag \<noteq> 0x90 \<and> tag \<noteq> 0x78
     \<and> (if tag AND 0x80 \<noteq> 0 then length b < 65536 else length b = unat (tag AND 7))"

text \<open>At most one identifier, before the read-only fields, of which there is at most one resource.\<close>

fun well_formed :: "bool \<Rightarrow> bool \<Rightarrow> vpd_resource list \<Rightarrow> bool" where
  "well_formed i r [] \<longleftrightarrow> True"
| "well_formed i r (Identifier_text b # rs) \<longleftrightarrow> \<not> i \<and> \<not> r \<and> length b < 65536 \<and> well_formed True r rs"
| "well_formed i r (Read_only ks # rs) \<longleftrightarrow> \<not> r \<and> length (field_bytes ks) < 65536 \<and> well_formed_fields [] ks \<and> well_formed i True rs"
| "well_formed i r (Other_resource tag b # rs) \<longleftrightarrow> other_ok tag b \<and> well_formed i r rs"

text \<open>What the fields say; the checksum counts the bytes of the image up to its own first byte.\<close>

fun fields_state :: "octet list \<Rightarrow> vpd_state \<Rightarrow> (octet list \<times> octet list) list \<Rightarrow> vpd_state" where
  "fields_state pre st [] = st"
| "fields_state pre st ((k, b) # ks) = fields_state (pre @ keyword_bytes (k, b))
     (if k = RV then st\<lparr>vp_checksum := Some (sums_to_zero (pre @ k @ word_of_nat (length b) # take 1 b))\<rparr>
      else st\<lparr>vp_values := vp_values st @ identity_strings b\<rparr>) ks"

fun resource_state :: "octet list \<Rightarrow> vpd_state \<Rightarrow> vpd_resource \<Rightarrow> vpd_state" where
  "resource_state pre st (Identifier_text b) = st\<lparr>vp_identifier := True, vp_values := vp_values st @ identity_strings b\<rparr>"
| "resource_state pre st (Read_only ks) =
     fields_state (pre @ 0x90 # le2 (length (field_bytes ks))) (st\<lparr>vp_readonly := True\<rparr>) ks"
| "resource_state pre st (Other_resource tag b) = st"

fun resources_state :: "octet list \<Rightarrow> vpd_state \<Rightarrow> vpd_resource list \<Rightarrow> vpd_state" where
  "resources_state pre st [] = st"
| "resources_state pre st (r # rs) = resources_state (pre @ resource_bytes r) (resource_state pre st r) rs"

lemma vpd_bytes_simps [simp]: "vpd_bytes [] = []" "vpd_bytes (r # rs) = resource_bytes r @ vpd_bytes rs"
  by (simp_all add: vpd_bytes_def)

lemma field_bytes_simps [simp]: "field_bytes [] = []" "field_bytes (k # ks) = keyword_bytes k @ field_bytes ks"
  by (simp_all add: field_bytes_def)

lemma length_le2 [simp]: "length (le2 n) = 2"
  by (simp add: le2_def)

lemma octet_of_nat: "n < 256 \<Longrightarrow> unat (word_of_nat n :: octet) = n"
  by (simp add: unat_of_nat)

lemma le2_value: "n < 65536 \<Longrightarrow> unat (le2 n ! 0) + 256 * unat (le2 n ! 1) = n"
  by (simp add: le2_def unat_of_nat)

subsection \<open>Encodings are accepted\<close>

lemma slice_append [simp]: "slice (pre @ x @ rest) (length pre) (length x) = x"
  by (simp add: slice_def)

lemma scan_field_step:
  assumes "cursor + 3 + n \<le> stop" and "slice d cursor 2 = k" and "unat (d ! (cursor + 2)) = n" and "k \<notin> set seen"
    and "k = RV \<longrightarrow> n \<noteq> 0 \<and> cursor + 3 + n = stop"
  shows "scan_keywords d cursor stop seen st = scan_keywords d (cursor + 3 + n) stop (k # seen)
    (if k = RV then st\<lparr>vp_checksum := Some (sums_to_zero (take (cursor + 3 + 1) d))\<rparr>
     else st\<lparr>vp_values := vp_values st @ identity_strings (slice d (cursor + 3) n)\<rparr>)"
  using assms by (subst scan_keywords.simps) (auto simp: Let_def)

lemma scan_fields:
  assumes "well_formed_fields seen ks"
  shows "scan_keywords (pre @ field_bytes ks @ rest) (length pre) (length pre + length (field_bytes ks)) seen st =
    Inr (fields_state pre st ks)"
  using assms
proof (induction ks arbitrary: pre seen st)
  case (Cons kb ks)
  obtain k b where kb: "kb = (k, b)" by fastforce
  let ?d = "pre @ field_bytes (kb # ks) @ rest" and ?stop = "length pre + length (field_bytes (kb # ks))"
  have k: "length k = 2" "length b < 256" "k \<notin> set seen" "k = RV \<longrightarrow> b \<noteq> [] \<and> ks = []"
    and wf: "well_formed_fields (k # seen) ks" using Cons.prems kb by auto
  have d: "?d = (pre @ keyword_bytes (k, b)) @ field_bytes ks @ rest" by (simp add: kb)
  have parts: "slice ?d (length pre) 2 = k" "unat (?d ! (length pre + 2)) = length b" "slice ?d (length pre + 3) (length b) = b"
    using k by (simp_all add: kb slice_def nth_append octet_of_nat)
  have head: "k = RV \<Longrightarrow> take (length pre + 3 + 1) ?d = pre @ k @ word_of_nat (length b) # take 1 b"
    using k by (cases b) (simp_all add: kb take_Cons')
  have lengths: "length pre + 3 + length b = length (pre @ keyword_bytes (k, b))"
    "?stop = length (pre @ keyword_bytes (k, b)) + length (field_bytes ks)" using k by (simp_all add: kb)
  have "length pre + 3 + length b \<le> ?stop" "k = RV \<longrightarrow> length b \<noteq> 0 \<and> length pre + 3 + length b = ?stop"
    using k lengths by auto
  note step = scan_field_step [OF this(1) parts(1,2) k(3) this(2)]
  let ?next = "if k = RV then st\<lparr>vp_checksum := Some (sums_to_zero (pre @ k @ word_of_nat (length b) # take 1 b))\<rparr>
      else st\<lparr>vp_values := vp_values st @ identity_strings b\<rparr>"
  have next_state: "(if k = RV then st\<lparr>vp_checksum := Some (sums_to_zero (take (length pre + 3 + 1) ?d))\<rparr>
      else st\<lparr>vp_values := vp_values st @ identity_strings (slice ?d (length pre + 3) (length b))\<rparr>) = ?next"
    using head parts(3) by simp
  have "scan_keywords ?d (length pre) ?stop seen st =
      scan_keywords ?d (length (pre @ keyword_bytes (k, b))) (length (pre @ keyword_bytes (k, b)) + length (field_bytes ks)) (k # seen) ?next"
    unfolding step next_state by (simp only: lengths)
  also have "\<dots> = Inr (fields_state (pre @ keyword_bytes (k, b)) ?next ks)" unfolding d by (rule Cons.IH [OF wf])
  finally show ?case by (simp only: kb fields_state.simps)
qed (simp add: scan_keywords.simps)

lemma header_at:
  assumes "d = pre @ tag # h @ rest" and "length h = (if tag AND 0x80 \<noteq> 0 then 2 else 0)"
  shows "resource_header d (length pre) = Inr (length pre + 1 + length h,
    if tag AND 0x80 \<noteq> 0 then unat (h ! 0) + 256 * unat (h ! 1) else unat (tag AND 7))"
  using assms by (auto simp: resource_header_def Let_def nth_append)

text \<open>One resource: the scanner goes on after it.\<close>

lemma scan_step:
  assumes "d = pre @ tag # h @ body @ rest" and "tag \<noteq> 0x78" and "length h = (if tag AND 0x80 \<noteq> 0 then 2 else 0)"
    and "length body = (if tag AND 0x80 \<noteq> 0 then unat (h ! 0) + 256 * unat (h ! 1) else unat (tag AND 7))"
    and "read_resource d tag (length (pre @ tag # h)) (length body) st = Inr st'"
  shows "scan_resources d (length pre) st = scan_resources d (length (pre @ tag # h @ body)) st'"
proof -
  from header_at [of d pre tag h "body @ rest"] assms
  have "resource_header d (length pre) = Inr (length (pre @ tag # h), length body)" by simp
  with assms(1,2,5) show ?thesis by (subst scan_resources.simps) (simp add: add.assoc)
qed

lemma fields_flags [simp]: "vp_identifier (fields_state pre st ks) = vp_identifier st" "vp_readonly (fields_state pre st ks) = vp_readonly st"
  by (induction pre st ks rule: fields_state.induct) auto

lemma scan_encoded:
  assumes "well_formed (vp_identifier st) (vp_readonly st) rs"
  shows "scan_resources (pre @ vpd_bytes rs @ 0x78 # pad) (length pre) st =
    Inr (Some (length (pre @ vpd_bytes rs) + 1), resources_state pre st rs)"
  using assms
proof (induction rs arbitrary: pre st)
  case Nil
  then show ?case by (subst scan_resources.simps) simp
next
  case (Cons r rs)
  let ?d = "pre @ vpd_bytes (r # rs) @ 0x78 # pad" and ?rest = "vpd_bytes rs @ 0x78 # pad"
  have d: "?d = (pre @ resource_bytes r) @ ?rest" by simp
  have "scan_resources ?d (length pre) st = scan_resources ?d (length (pre @ resource_bytes r)) (resource_state pre st r)
    \<and> well_formed (vp_identifier (resource_state pre st r)) (vp_readonly (resource_state pre st r)) rs"
  proof (cases r)
    case (Identifier_text b)
    have "scan_resources ?d (length pre) st = scan_resources ?d (length (pre @ 0x82 # le2 (length b) @ b)) (resource_state pre st r)"
      by (rule scan_step [where rest = ?rest])
        (use Cons.prems Identifier_text le2_value in \<open>auto simp: read_resource_def slice_def\<close>)
    with Cons.prems Identifier_text show ?thesis by auto
  next
    case (Read_only ks)
    let ?f = "field_bytes ks" and ?pre = "pre @ 0x90 # le2 (length (field_bytes ks))"
    have "read_resource ?d 0x90 (length ?pre) (length ?f) st = Inr (resource_state pre st r)"
      using Cons.prems Read_only scan_fields [of "[]" ks ?pre ?rest "st\<lparr>vp_readonly := True\<rparr>"]
      by (simp add: read_resource_def)
    then have "scan_resources ?d (length pre) st = scan_resources ?d (length (pre @ 0x90 # le2 (length ?f) @ ?f)) (resource_state pre st r)"
      by (rule scan_step [where rest = ?rest, rotated 4])
        (use Cons.prems Read_only le2_value in auto)
    with Cons.prems Read_only show ?thesis by auto
  next
    case (Other_resource tag b)
    let ?h = "if tag AND 0x80 \<noteq> 0 then le2 (length b) else []"
    have "scan_resources ?d (length pre) st = scan_resources ?d (length (pre @ tag # ?h @ b)) (resource_state pre st r)"
      by (rule scan_step [where rest = ?rest])
        (use Cons.prems Other_resource le2_value in \<open>auto simp: read_resource_def other_ok_def split: if_splits\<close>)
    with Cons.prems Other_resource show ?thesis by simp
  qed
  then show ?case using Cons.IH [of "resource_state pre st r" "pre @ resource_bytes r"] unfolding d by (simp add: add.assoc)
qed

subsection \<open>Only encodings are accepted\<close>

lemma slice_split: "m \<le> n \<Longrightarrow> slice d a n = slice d a m @ slice d (a + m) (n - m)"
  by (metis slice_def take_add le_add_diff_inverse drop_drop add.commute)

lemma slice_item: "a < length d \<Longrightarrow> slice d a 1 = [d ! a]"
  by (simp add: slice_def take_Suc_conv_app_nth)

lemma length_slice: "a + n \<le> length d \<Longrightarrow> length (slice d a n) = n"
  by (simp add: slice_def)

lemma slice_field:
  assumes "cursor + 3 + n \<le> stop" and "stop \<le> length d" and "unat (d ! (cursor + 2)) = n"
  shows "slice d cursor (stop - cursor) =
    keyword_bytes (slice d cursor 2, slice d (cursor + 3) n) @ slice d (cursor + 3 + n) (stop - (cursor + 3 + n))"
proof -
  have "slice d cursor (stop - cursor) = slice d cursor 2 @ slice d (cursor + 2) 1 @ slice d (cursor + 3) n @ slice d (cursor + 3 + n) (stop - (cursor + 3 + n))"
    using assms slice_split [of 2 "stop - cursor" d cursor] slice_split [of 1 "stop - cursor - 2" d "cursor + 2"]
      slice_split [of n "stop - cursor - 3" d "cursor + 3"] by (simp add: numeral_3_eq_3)
  moreover have "slice d (cursor + 2) 1 = [d ! (cursor + 2)]" using assms by (intro slice_item) simp
  moreover have "d ! (cursor + 2) = word_of_nat n" using assms(3) by auto
  ultimately show ?thesis using assms by (simp add: length_slice)
qed

lemma fields_sound:
  assumes "scan_keywords d cursor stop seen st = Inr st'" and "cursor \<le> stop" and "stop \<le> length d"
  shows "\<exists>ks. slice d cursor (stop - cursor) = field_bytes ks \<and> well_formed_fields seen ks"
  using assms
proof (induction "stop - cursor" arbitrary: cursor seen st rule: less_induct)
  case less
  show ?case
  proof (cases "stop \<le> cursor")
    case True
    with less.prems show ?thesis by (intro exI [of _ "[]"]) (simp add: slice_def)
  next
    case False
    define n where "n = unat (d ! (cursor + 2))"
    define k where "k = slice d cursor 2"
    define b where "b = slice d (cursor + 3) n"
    have n: "n < 256" using unsigned_less [of "d ! (cursor + 2)"] by (simp add: n_def)
    have ok: "cursor + 3 + n \<le> stop" "k \<notin> set seen" "k = RV \<longrightarrow> n \<noteq> 0 \<and> cursor + 3 + n = stop"
      and more_fields: "\<exists>st. scan_keywords d (cursor + 3 + n) stop (k # seen) st = Inr st'"
      using less.prems(1) False by (auto simp: scan_keywords.simps [of d cursor] Let_def n_def k_def split: if_splits)
    from ok(1) less.prems(3) have lengths: "length k = 2" "length b = n" by (simp_all add: k_def b_def length_slice)
    have "\<exists>ks. slice d (cursor + 3 + n) (stop - (cursor + 3 + n)) = field_bytes ks \<and> well_formed_fields (k # seen) ks"
      using more_fields less.hyps [of "cursor + 3 + n" "k # seen"] ok(1) less.prems(3) by auto
    then obtain ks where ks: "slice d (cursor + 3 + n) (stop - (cursor + 3 + n)) = field_bytes ks" "well_formed_fields (k # seen) ks"
      by blast
    have "ks = []" if "k = RV" using that ok(3) ks(1) by (cases ks) (auto simp: slice_def)
    with ks ok lengths n slice_field [OF ok(1) less.prems(3) n_def [symmetric]] show ?thesis
      by (intro exI [of _ "(k, b) # ks"]) (auto simp: k_def [symmetric] b_def [symmetric])
  qed
qed

lemma drop_slice: "a + n \<le> length d \<Longrightarrow> drop a d = slice d a n @ drop (a + n) d"
  by (metis append_take_drop_id drop_drop slice_def add.commute)

lemma octet_bound: "unat (x :: octet) < 256"
  using unsigned_less [of x, where 'a = nat] by simp

lemma le2_of_bytes: "[x, y] = le2 (unat x + 256 * unat y)"
proof -
  from octet_bound [of x] have "(unat x + 256 * unat y) div 256 = unat y" by simp
  moreover have "(word_of_nat (unat x + 256 * unat y) :: octet) = x"
  proof -
    have "(256 :: octet) = 0" by transfer simp
    then have "256 * y = 0" by (metis mult_zero_left)
    then show ?thesis by simp
  qed
  ultimately show ?thesis by (simp add: le2_def)
qed

text \<open>The resource at an offset, when the scanner passes it.\<close>

lemma resource_sound:
  assumes h: "resource_header d offset = Inr (start, bytes)" and r: "read_resource d (d ! offset) start bytes st = Inr st'"
    and "offset < length d" and "d ! offset \<noteq> 0x78"
  shows "\<exists>x. drop offset d = resource_bytes x @ drop (start + bytes) d \<and> start + bytes \<le> length d \<and> offset < start
    \<and> (\<forall>rs. well_formed (vp_identifier st') (vp_readonly st') rs \<longrightarrow> well_formed (vp_identifier st) (vp_readonly st) (x # rs))"
proof -
  let ?tag = "d ! offset" and ?body = "slice d start bytes"
  define hd2 where "hd2 = (if ?tag AND 0x80 \<noteq> 0 then le2 bytes else [])"
  from r have stop: "start + bytes \<le> length d" by (simp add: read_resource_def split: if_splits)
  have large: "?tag AND 0x80 \<noteq> 0 \<Longrightarrow> start = offset + 3 \<and> bytes < 65536 \<and> slice d (offset + 1) 2 = le2 bytes"
  proof -
    assume "?tag AND 0x80 \<noteq> 0"
    with h have o: "offset + 3 \<le> length d" "start = offset + 3" "bytes = unat (d ! (offset + 1)) + 256 * unat (d ! (offset + 2))"
      by (auto simp: resource_header_def Let_def split: if_splits)
    have "slice d (offset + 1) 2 = [d ! (offset + 1), d ! (offset + 2)]"
      using slice_split [of 1 2 d "offset + 1"] o(1) by (simp add: slice_item [unfolded One_nat_def])
    moreover have "bytes < 65536"
      using octet_bound [of "d ! (offset + 1)"] octet_bound [of "d ! (offset + 2)"] o(3) by linarith
    ultimately show ?thesis using o le2_of_bytes by simp
  qed
  have small: "?tag AND 0x80 = 0 \<Longrightarrow> start = offset + 1 \<and> bytes = unat (?tag AND 7)"
    using h by (auto simp: resource_header_def Let_def)
  have parts: "drop offset d = ?tag # hd2 @ ?body @ drop (start + bytes) d"
  proof (cases "?tag AND 0x80 = 0")
    case True
    with small stop assms(3) drop_slice [of "offset + 1" bytes d] show ?thesis
      by (simp add: hd2_def Cons_nth_drop_Suc [symmetric])
  next
    case False
    with large have "start = offset + 3" "slice d (offset + 1) 2 = le2 bytes" by auto
    with stop assms(3) drop_slice [of "offset + 1" 2 d] drop_slice [of "offset + 3" bytes d] False show ?thesis
      by (simp add: hd2_def Cons_nth_drop_Suc [symmetric] numeral_3_eq_3)
  qed
  have len: "length ?body = bytes" using stop by (rule length_slice)
  have start: "offset < start" using large small by (cases "?tag AND 0x80 = 0") auto
  consider "?tag = 0x82" | "?tag = 0x90" | "?tag \<noteq> 0x82" "?tag \<noteq> 0x90" by blast
  then show ?thesis
  proof cases
    case 1
    with r have "\<not> vp_identifier st" "\<not> vp_readonly st" "vp_identifier st'" "\<not> vp_readonly st'"
      by (auto simp: read_resource_def split: if_splits)
    with 1 parts large start stop len show ?thesis by (intro exI [of _ "Identifier_text ?body"]) (simp add: hd2_def)
  next
    case 2
    with r obtain st1 where k: "\<not> vp_readonly st" "scan_keywords d start (start + bytes) [] (st\<lparr>vp_readonly := True\<rparr>) = Inr st'"
      by (auto simp: read_resource_def split: if_splits)
    from fields_sound [OF k(2)] stop obtain ks where ks: "?body = field_bytes ks" "well_formed_fields [] ks" by auto
    have flags: "vp_identifier st' = vp_identifier st" "vp_readonly st'"
    proof -
      have "d = take start d @ field_bytes ks @ drop (start + bytes) d"
        using drop_slice [OF stop] ks(1) by (metis append_take_drop_id)
      moreover have "length (take start d) = start" "length (field_bytes ks) = bytes" using stop len ks(1) by auto
      ultimately have "scan_keywords d start (start + bytes) [] (st\<lparr>vp_readonly := True\<rparr>) =
          Inr (fields_state (take start d) (st\<lparr>vp_readonly := True\<rparr>) ks)"
        using scan_fields [OF ks(2), of "take start d" "drop (start + bytes) d"] by metis
      with k(2) show "vp_identifier st' = vp_identifier st" "vp_readonly st'" by auto
    qed
    from 2 k(1) ks flags parts large start stop len show ?thesis by (intro exI [of _ "Read_only ks"]) (simp add: hd2_def)
  next
    case 3
    with r have "st' = st" by (auto simp: read_resource_def split: if_splits)
    with 3 assms(4) parts large small start stop len show ?thesis
      by (intro exI [of _ "Other_resource ?tag ?body"]) (auto simp: hd2_def other_ok_def)
  qed
qed

lemma scan_sound:
  assumes "scan_resources d offset st = Inr (Some stop, st')" and "offset \<le> length d"
  shows "\<exists>rs. drop offset d = vpd_bytes rs @ 0x78 # drop stop d \<and> well_formed (vp_identifier st) (vp_readonly st) rs"
  using assms
proof (induction "length d - offset" arbitrary: offset st rule: less_induct)
  case less
  note run = less.prems(1) [unfolded scan_resources.simps [of d offset st]]
  show ?case
  proof (cases "length d \<le> offset \<or> d ! offset = 0x78")
    case True
    with run have "offset < length d" "d ! offset = 0x78" "stop = offset + 1" by (auto split: if_splits)
    then show ?thesis by (intro exI [of _ "[]"]) (simp add: Cons_nth_drop_Suc [symmetric])
  next
    case False
    with run obtain start bytes st1 where h: "resource_header d offset = Inr (start, bytes)"
      and r: "read_resource d (d ! offset) start bytes st = Inr st1"
      and rest: "scan_resources d (start + bytes) st1 = Inr (Some stop, st')"
      by (auto split: sum.splits)
    from resource_sound [OF h r] False obtain x where x: "drop offset d = resource_bytes x @ drop (start + bytes) d"
        "start + bytes \<le> length d" "offset < start"
        "\<And>rs. well_formed (vp_identifier st1) (vp_readonly st1) rs \<Longrightarrow> well_formed (vp_identifier st) (vp_readonly st) (x # rs)"
      by auto
    from x(3) False have "length d - (start + bytes) < length d - offset" by arith
    from less.hyps [OF this rest x(2)] obtain rs where
      "drop (start + bytes) d = vpd_bytes rs @ 0x78 # drop stop d" "well_formed (vp_identifier st1) (vp_readonly st1) rs" by auto
    with x(1,4) show ?thesis by (intro exI [of _ "x # rs"]) simp
  qed
qed

definition vpd_accepted :: "octet list \<Rightarrow> vpd_resource list \<Rightarrow> octet list \<Rightarrow> bool" where
  "vpd_accepted d rs pad \<longleftrightarrow> d = vpd_bytes rs @ 0x78 # pad \<and> int (length d) \<le> 32768 \<and> well_formed False False rs
     \<and> list_all (\<lambda>b. b = 0 \<or> b = 255) pad \<and> vp_checksum (resources_state [] no_vpd rs) \<noteq> Some False"

text \<open>The parser decides exactly the grammar.\<close>

lemma parse_vpd_exact:
  "parse_vpd d = Inr i \<longleftrightarrow> (\<exists>rs pad. vpd_accepted d rs pad \<and> i = identity_of (resources_state [] no_vpd rs))"
proof
  assume "parse_vpd d = Inr i"
  then obtain stop st where p: "int (length d) \<le> 32768" "scan_resources d 0 no_vpd = Inr (Some stop, st)"
      "vp_checksum st \<noteq> Some False" "list_all (\<lambda>b. b = 0 \<or> b = 255) (drop stop d)" "i = identity_of st"
    by (auto simp: parse_vpd_def split: if_splits sum.splits)
  from scan_sound [OF p(2)] obtain rs where rs: "d = vpd_bytes rs @ 0x78 # drop stop d" "well_formed False False rs"
    by (auto simp: no_vpd_def)
  have "scan_resources d 0 no_vpd = Inr (Some (length (vpd_bytes rs) + 1), resources_state [] no_vpd rs)"
    using scan_encoded [of no_vpd rs "[]" "drop stop d"] rs by (simp add: no_vpd_def)
  with p rs show "\<exists>rs pad. vpd_accepted d rs pad \<and> i = identity_of (resources_state [] no_vpd rs)"
    unfolding vpd_accepted_def by auto
next
  assume "\<exists>rs pad. vpd_accepted d rs pad \<and> i = identity_of (resources_state [] no_vpd rs)"
  then obtain rs pad where a: "vpd_accepted d rs pad" and i: "i = identity_of (resources_state [] no_vpd rs)" by blast
  have "scan_resources d 0 no_vpd = Inr (Some (length (vpd_bytes rs) + 1), resources_state [] no_vpd rs)"
    using scan_encoded [of no_vpd rs "[]" pad] a by (simp add: vpd_accepted_def no_vpd_def)
  with a i show "parse_vpd d = Inr i" by (auto simp: parse_vpd_def vpd_accepted_def)
qed

subsection \<open>What an identity rests on\<close>

fun resource_texts :: "vpd_resource \<Rightarrow> text_points list" where
  "resource_texts (Identifier_text b) = identity_strings b"
| "resource_texts (Read_only ks) = concat (map (\<lambda>(k, b). if k = RV then [] else identity_strings b) ks)"
| "resource_texts (Other_resource tag b) = []"

lemma fields_values: "vp_values (fields_state pre st ks) = vp_values st @ resource_texts (Read_only ks)"
  by (induction pre st ks rule: fields_state.induct) auto

lemma resources_values: "vp_values (resources_state pre st rs) = vp_values st @ concat (map resource_texts rs)"
proof (induction pre st rs rule: resources_state.induct)
  case (2 pre st r rs)
  then show ?case by (cases r) (simp_all add: fields_values)
qed simp

text \<open>A checksum field closes the read-only resource, and the bytes up to its first one sum to zero.\<close>

definition checksum_holds :: "vpd_resource list \<Rightarrow> bool" where
  "checksum_holds rs \<longleftrightarrow> (\<exists>xs ks c more_bytes ys. rs = xs @ Read_only (ks @ [(RV, c # more_bytes)]) # ys
     \<and> sums_to_zero (vpd_bytes xs @ 0x90 # le2 (length (field_bytes (ks @ [(RV, c # more_bytes)]))) @ field_bytes ks
         @ RV @ [word_of_nat (length (c # more_bytes)), c]))"

lemma fields_checksum:
  assumes "vp_checksum (fields_state pre st ks) = Some True" and "well_formed_fields seen ks"
  shows "vp_checksum st = Some True \<or> (\<exists>ls c cs. ks = ls @ [(RV, c # cs)]
    \<and> sums_to_zero (pre @ field_bytes ls @ RV @ [word_of_nat (length (c # cs)), c]))"
  using assms
proof (induction pre st ks arbitrary: seen rule: fields_state.induct)
  case (2 pre st k b ks)
  show ?case
  proof (cases "k = RV")
    case True
    with 2(3) obtain c cs where "b = c # cs" "ks = []" by (auto simp: neq_Nil_conv)
    with True 2(2) show ?thesis by (intro disjI2 exI [of _ "[]"]) auto
  next
    case False
    with 2 have "vp_checksum st = Some True \<or> (\<exists>ls c cs. ks = ls @ [(RV, c # cs)]
        \<and> sums_to_zero ((pre @ keyword_bytes (k, b)) @ field_bytes ls @ RV @ [word_of_nat (length (c # cs)), c]))"
      by fastforce
    then show ?thesis
    proof (elim disjE exE conjE)
      fix ls c cs assume "ks = ls @ [(RV, c # cs)]"
        "sums_to_zero ((pre @ keyword_bytes (k, b)) @ field_bytes ls @ RV @ [word_of_nat (length (c # cs)), c])"
      then show ?thesis by (intro disjI2 exI [of _ "(k, b) # ls"] exI [of _ c] exI [of _ cs]) simp
    qed simp
  qed
qed simp

lemma closed_checksum: "well_formed i True rs \<Longrightarrow> vp_checksum (resources_state pre st rs) = vp_checksum st"
proof (induction pre st rs arbitrary: i rule: resources_state.induct)
  case (2 pre st x rs)
  then show ?case by (cases x) auto
qed simp

lemma resources_checksum:
  assumes "vp_checksum (resources_state pre st rs) = Some True" and "well_formed i r rs" and "vp_checksum st = None"
  shows "\<exists>xs ks c cs ys. rs = xs @ Read_only (ks @ [(RV, c # cs)]) # ys
     \<and> sums_to_zero (pre @ vpd_bytes xs @ 0x90 # le2 (length (field_bytes (ks @ [(RV, c # cs)]))) @ field_bytes ks
         @ RV @ [word_of_nat (length (c # cs)), c])"
  using assms
proof (induction pre st rs arbitrary: i r rule: resources_state.induct)
  case (2 pre st x rs)
  have skip: ?case if "vp_checksum (resource_state pre st x) = None" and "well_formed i' r' rs" for i' r'
  proof -
    from 2(1) [OF _ that(2,1)] 2(2) obtain xs ks c cs ys where *: "rs = xs @ Read_only (ks @ [(RV, c # cs)]) # ys"
       "sums_to_zero ((pre @ resource_bytes x) @ vpd_bytes xs @ 0x90 # le2 (length (field_bytes (ks @ [(RV, c # cs)]))) @ field_bytes ks
         @ RV @ [word_of_nat (length (c # cs)), c])" by auto
    then show ?thesis
      by (intro exI [of _ "x # xs"] exI [of _ ks] exI [of _ c] exI [of _ cs] exI [of _ ys]) simp
  qed
  show ?case
  proof (cases x)
    case (Read_only ks)
    let ?pre = "pre @ 0x90 # le2 (length (field_bytes ks))"
    from Read_only 2(2,3) have "vp_checksum (fields_state ?pre (st\<lparr>vp_readonly := True\<rparr>) ks) = Some True"
      "well_formed_fields [] ks" by (auto simp: closed_checksum)
    from fields_checksum [OF this] 2(4) obtain ls c cs where "ks = ls @ [(RV, c # cs)]"
      "sums_to_zero (?pre @ field_bytes ls @ RV @ [word_of_nat (length (c # cs)), c])" by auto
    with Read_only show ?thesis
      by (intro exI [of _ "[]"] exI [of _ ls] exI [of _ c] exI [of _ cs] exI [of _ rs]) simp
  qed (use skip 2(3,4) in auto)
qed simp

lemma the_only_single: "the_only xs = Some x \<Longrightarrow> set xs = {x}"
  by (metis (no_types, lifting) the_only_def list.case_eq_if list.exhaust_sel list.set option.distinct(1) option.inject set_remdups)

lemma matched_identity:
  assumes "dr_matched (inspect_pci_device f)"
  shows "\<exists>raw i family. pf_vpd f = Some raw \<and> parse_vpd (take 32769 raw) = Inr i \<and> pci_matches f \<and> bi_checksum i = Some True
    \<and> bi_model i \<noteq> None \<and> bi_serial i \<noteq> None \<and> bi_family i = Some family
    \<and> dr_profile (inspect_pci_device f) = Some (CANDIDATE_PROFILES family)"
  using assms
  by (auto simp: inspect_pci_device_def Let_def read_identity_def stated_def split: option.splits sum.splits)

text \<open>C34: a board is recognised only by what its read-only data proves. When a PCI function is matched, its
  four PCI identifiers are the supported ones, its VPD is exactly an encoding of well-formed resources,
  closed by the end tag and padding, a checksum field closes the read-only resource and the bytes up to
  it sum to zero, and among the texts of the identifier and the read-only fields (never of writable or
  trailing data) there is exactly one serial number, one revision, which names the profile, and a supported model.\<close>

theorem board_recognised:
  assumes "dr_matched (inspect_pci_device f)"
  shows "pci_matches f \<and> (\<exists>raw rs pad serial revision model family.
      pf_vpd f = Some raw \<and> raw = vpd_bytes rs @ 0x78 # pad \<and> well_formed False False rs
      \<and> list_all (\<lambda>b. b = 0 \<or> b = 255) pad \<and> checksum_holds rs
      \<and> (let texts = concat (map resource_texts rs) in
          {s \<in> set texts. is_serial s} = {serial} \<and> {s \<in> set texts. is_revision s} = {revision}
          \<and> map upper_point ` {s \<in> set texts. is_model s} = {model})
      \<and> family_of revision = Some family \<and> dr_profile (inspect_pci_device f) = Some (CANDIDATE_PROFILES family))"
proof -
  from matched_identity [OF assms] obtain raw i family where m: "pf_vpd f = Some raw" "parse_vpd (take 32769 raw) = Inr i"
    "pci_matches f" "bi_checksum i = Some True" "bi_model i \<noteq> None" "bi_serial i \<noteq> None" "bi_family i = Some family"
    "dr_profile (inspect_pci_device f) = Some (CANDIDATE_PROFILES family)" by blast
  from m(2) obtain rs pad where a: "vpd_accepted (take 32769 raw) rs pad" and i: "i = identity_of (resources_state [] no_vpd rs)"
    unfolding parse_vpd_exact by blast
  from a have raw: "take 32769 raw = raw" by (intro take_all) (simp add: vpd_accepted_def min_def split: if_splits)
  have texts: "vp_values (resources_state [] no_vpd rs) = concat (map resource_texts rs)"
    by (simp add: resources_values no_vpd_def)
  let ?t = "concat (map resource_texts rs)"
  from m(5-7) i texts obtain model serial revision where only: "the_only (map (map upper_point) (filter is_model ?t)) = Some model"
    "the_only (filter is_serial ?t) = Some serial" "the_only (filter is_revision ?t) = Some revision" "family_of revision = Some family"
    by (auto simp: identity_of_def Let_def bind_eq_Some_conv)
  have "checksum_holds rs"
    using resources_checksum [of "[]" no_vpd rs False False] m(4) a i
    by (simp add: checksum_holds_def identity_of_def Let_def vpd_accepted_def no_vpd_def)
  moreover have "{s \<in> set ?t. is_serial s} = {serial}" "{s \<in> set ?t. is_revision s} = {revision}"
    "map upper_point ` {s \<in> set ?t. is_model s} = {model}"
    using only(1-3) [THEN the_only_single] by (simp_all del: set_concat)
  moreover have "raw = vpd_bytes rs @ 0x78 # pad" "well_formed False False rs" "list_all (\<lambda>b. b = 0 \<or> b = 255) pad"
    using a unfolding vpd_accepted_def raw by simp_all
  ultimately show ?thesis using m(1,3,8) only(4) unfolding Let_def
    by (intro conjI exI [of _ raw] exI [of _ rs] exI [of _ pad] exI [of _ serial] exI [of _ revision] exI [of _ model] exI [of _ family])
qed

definition b0_board :: pci_function where
  "b0_board = \<lparr>pf_bdf = ''0000:01:00.0'', pf_vendor = Some (ascii ''0x8086''), pf_device = Some (ascii ''0x15a4''),
     pf_subsystem_vendor = Some (ascii ''0x1374''), pf_subsystem_device = Some (ascii ''0x01d0''),
     pf_vpd = Some [130, 18, 0, 80, 69, 51, 49, 54, 50, 53, 71, 50, 52, 68, 73, 82, 65, 45, 77, 80, 83, 144, 27, 0, 86, 49, 4, 48,
     52, 57, 48, 83, 78, 13, 83, 48, 48, 48, 48, 48, 48, 48, 48, 48, 48, 48, 49, 82, 86, 1, 254, 120, 255, 0],
     pf_driver = Some ''fm10k'', pf_uio = [''uio0'']\<rparr>"

definition b0_identity :: vpd_identity where
  "b0_identity = \<lparr>bi_model = Some (ascii ''PE31625G24DIRA-MPS''), bi_serial = Some (ascii ''S000000000001''),
     bi_version = Some (ascii ''0490''), bi_family = Some B0, bi_checksum = Some True\<rparr>"

lemma b0_read: "read_identity b0_board = Some b0_identity"
proof -
  have "take 32769 (the (pf_vpd b0_board)) = the (pf_vpd b0_board)" by (rule take_all) (simp add: b0_board_def)
  moreover have "parse_vpd (the (pf_vpd b0_board)) = Inr b0_identity" by code_simp
  ultimately show ?thesis by (simp add: read_identity_def b0_board_def)
qed

lemma b0_matched: "dr_matched (inspect_pci_device b0_board)" "dr_profile (inspect_pci_device b0_board) = Some ''sil001-hw4-b0''"
  using b0_read
  by (simp_all add: inspect_pci_device_def pci_matches_def b0_board_def b0_identity_def stated_def CANDIDATE_PROFILES_def ascii_def)

lemma board_recognised_witness:
  "dr_profile (inspect_pci_device b0_board) = Some ''sil001-hw4-b0''
   \<and> (\<exists>rs pad. pf_vpd b0_board = Some (vpd_bytes rs @ 0x78 # pad) \<and> well_formed False False rs \<and> checksum_holds rs)"
  using board_recognised [OF b0_matched(1)] b0_matched(2) by auto

end
