(* ===== verification/Startup_Properties.thy ===== *)
theory Startup_Properties
  imports Startup_Guard Identity_Properties
begin

text \<open>What holds before the startup helper writes anything to the board, and what it leaves on it.\<close>

subsection \<open>The pointer\<close>

lemma ascii_decimal: "ascii (decimal n) = base_text 10 n"
proof (induction n rule: decimal.induct)
  case (1 n)
  have digit: "of_char (char_of (48 + d) :: char) = digit_point d" if "d < 10" for d
  proof -
    have "(of_char (char_of (48 + d) :: char) :: int) = int (of_char (char_of (48 + d) :: char))" by (simp only: of_nat_of_char)
    with that show ?thesis by (simp add: digit_point_def)
  qed
  show ?case
  proof (cases "n < 10")
    case True
    then show ?thesis using digit by (simp add: decimal.simps [of n] base_text.simps [of 10 n] ascii_def)
  next
    case False
    with 1 digit [of "n mod 10"] show ?thesis
      by (simp add: decimal.simps [of n] base_text.simps [of 10 n] ascii_def)
  qed
qed

lemma pointer_printed:
  assumes "pointer_value raw = Some n"
  shows "raw = ascii (decimal_int n) @ [10] \<and> 0 < n"
proof -
  let ?d = "butlast raw"
  from assms have raw: "raw = ?d @ [10]" and d: "?d \<noteq> []" "list_all decimal_point ?d" "hd ?d \<noteq> 48" "n = int (text_value 10 ?d)"
    by (auto simp: pointer_value_def split: if_splits) (metis append_butlast_last_id, metis hd_append2 append_butlast_last_id)
  with base_text_value [of ?d] have "base_text 10 (text_value 10 ?d) = ?d" "0 < text_value 10 ?d" by auto
  with raw d(4) show ?thesis by (simp add: decimal_int_def ascii_decimal)
qed

subsection \<open>Checks before writes\<close>

lemma ebind_Inr: "ebind m f = Inr y \<longleftrightarrow> (\<exists>x. m = Inr x \<and> f x = Inr y)"
  by (cases m) (simp_all add: ebind_def)

lemma need_Inr [simp]: "need b e = Inr u \<longleftrightarrow> b"
  by (simp add: need_def)

lemma check_each_all: "check_each f xs = Inr u \<Longrightarrow> \<forall>x \<in> set xs. f x = Inr ()"
  by (induction xs) (auto simp: ebind_Inr)

text \<open>What has to hold, written out: a file that only root could have written, the boot artifacts and the
  environment, the configuration switchd is going to replay, the board, and the SDK.\<close>

definition secured :: "file_tree \<Rightarrow> string \<Rightarrow> int list \<Rightarrow> bool" where
  "secured fs path content \<longleftrightarrow> (\<exists>e. ft_file fs path = Some e \<and> fe_regular e \<and> fe_uid e = 0 \<and> fe_mode e AND 0x12 = 0
     \<and> fe_content e = content
     \<and> (\<forall>p \<in> set (ft_parents fs path). fo_directory p \<and> fo_uid p = 0 \<and> fo_mode p AND 0x12 = 0))"

lemma trusted_secured: "trusted_file fs path = Inr content \<longleftrightarrow> secured fs path content"
  by (auto simp: trusted_file_def secured_def list_all_iff split: option.splits)

definition boot_manifest_holds :: "guard_tools \<Rightarrow> guard_host \<Rightarrow> board_profile \<Rightarrow> json \<Rightarrow> string \<Rightarrow> bool" where
  "boot_manifest_holds g h profile manifest mode \<longleftrightarrow>
     (\<exists>raw. secured (gh_files h) (BOOT @ ''/startup.json'') raw \<and> gt_json g raw = Some manifest)
   \<and> is_object manifest \<and> py_eq (jget manifest ''schema'') (JInt 1)
   \<and> py_eq (jget manifest ''profile'') (jstr (profile_name profile))
   \<and> mode \<in> {''observe'', ''basic100g'', ''control''} \<and> jget manifest ''mode'' = jstr mode
   \<and> set (map fst (entries (jget manifest ''sha256'')))
       = {BOOT @ ''/platform.profile'', BOOT @ ''/fm_platform_attributes.cfg'', BOOT @ ''/active.conf''}
   \<and> (\<forall>(path, digest) \<in> set (entries (jget manifest ''sha256'')).
        \<exists>content. secured (gh_files h) path content \<and> py_eq (JStr (gt_sha g content)) digest)"

definition environment_holds :: "guard_host \<Rightarrow> string \<Rightarrow> bool" where
  "environment_holds h mode \<longleftrightarrow>
     gh_environment h ''NETLAB_FM10K_STARTUP_MODE'' \<in> (if mode = ''observe'' then {None, Some mode} else {Some mode})
   \<and> gh_environment h ''NETLAB_ROOT'' = Some (ROOT @ ''/vendor/netlab'')
   \<and> gh_environment h ''NETLAB_PLATFORM_PROFILE'' = Some (BOOT @ ''/platform.profile'')
   \<and> gh_environment h ''FM_LIBERTY_TRAIL_CONFIG_FILE'' = Some (BOOT @ ''/fm_platform_attributes.cfg'')
   \<and> gh_environment h ''NETLAB_CONFIG_DIR'' = Some (STATE @ ''/config'')
   \<and> gh_environment h ''NETLAB_FM10K_OBSERVE_ONLY'' = Some (if mode = ''control'' then ''0'' else ''1'')
   \<and> gh_environment h ''FM_API_SHM_KEY'' = Some ''51701''
   \<and> gh_environment h ''LD_LIBRARY_PATH'' = Some (ROOT @ ''/hardware/sdk/ies/build:/opt/netlab-deps/libyang2/lib'')"

text \<open>The snapshot of a commit that may be replayed: a configuration of the profile without routing, whose
  pointer is still the same after it was read.\<close>

definition replayable :: "guard_tools \<Rightarrow> guard_host \<Rightarrow> board_profile \<Rightarrow> int \<Rightarrow> bool" where
  "replayable g h profile commit \<longleftrightarrow> 0 < commit
   \<and> secured (gh_files h) pointer_path (ascii (decimal_int commit) @ [10])
   \<and> secured (gh_files_later h) pointer_path (ascii (decimal_int commit) @ [10])
   \<and> (\<exists>raw c tree. secured (gh_files h) (snapshot_path commit) raw \<and> read_configuration g raw = Some c
        \<and> sc_profile c = profile \<and> parse_xml (gt_xml g) raw = Inr tree
        \<and> map_option xml_text (find_first [''chassis'', ''fm10k-panel'', ''profile''] tree) = Some (ascii (profile_name profile))
        \<and> find_first [''routing-options''] tree = None \<and> find_first [''routing-instances''] tree = None
        \<and> find_first [''interfaces-routing''] tree = None \<and> find_first [''protocols'', ''ospf''] tree = None
        \<and> find_first [''protocols'', ''bgp''] tree = None)"

definition authority_holds :: "guard_tools \<Rightarrow> guard_host \<Rightarrow> board_profile \<Rightarrow> json \<Rightarrow> string \<Rightarrow> int \<Rightarrow> bool" where
  "authority_holds g h profile manifest mode commit \<longleftrightarrow> (\<exists>raw base seed.
     secured (gh_files h) (BOOT @ ''/active.conf'') raw
   \<and> base \<in> {''observe'', ''basic100g''} \<and> (if mode = ''control'' then jget manifest ''bootstrap_mode'' = jstr base else base = mode)
   \<and> initial_configuration profile base \<noteq> None \<and> read_configuration g raw = initial_configuration profile base
   \<and> entry_or manifest ''seed_commit_id'' (JInt 1) = JInt seed \<and> 1 \<le> seed \<and> seed \<le> 9999999999999999
   \<and> (if mode = ''control'' then seed \<le> commit \<and> replayable g h profile commit
      else commit = seed \<and> secured (gh_files h) pointer_path (ascii (decimal_int seed) @ [10])
        \<and> secured (gh_files h) (snapshot_path seed) raw))"

definition board_verified :: "guard_host \<Rightarrow> board_profile \<Rightarrow> bool" where
  "board_verified h profile \<longleftrightarrow> (\<exists>d. iv_devices (inventory (gh_board h) (Some PCI_BDF)) = [d] \<and> dr_matched d
     \<and> dr_bdf d = ''0000:01:00.0'' \<and> dr_profile d = Some (profile_name profile) \<and> dr_driver d = Some ''fm10k'')"

definition libraries_hold :: "guard_tools \<Rightarrow> guard_host \<Rightarrow> bool" where
  "libraries_hold g h \<longleftrightarrow> (\<exists>raw v. secured (gh_files h) (ROOT @ ''/hardware/sdk-inputs.json'') raw \<and> gt_json g raw = Some v
     \<and> is_list (jget v ''libraries'')
     \<and> (\<forall>e \<in> set (elements (jget v ''libraries'')). \<exists>suffix content. jget e ''suffix'' = JStr suffix
          \<and> secured (gh_files h) (ROOT @ ''/hardware/sdk/ies/build/'' @ base_name (map char_of suffix)) content
          \<and> py_eq (JStr (gt_sha g content)) (jget e ''sha256'')))
   \<and> gh_sdk_mappings h = {ROOT @ ''/hardware/sdk/ies/build/libFocalpointSDK.so''}"

definition sole_owner :: "guard_host \<Rightarrow> bool" where
  "sole_owner h \<longleftrightarrow> (\<forall>p \<in> set (gh_processes h). gp_pid p \<in> {gh_parent h, gh_own h} \<or> \<not> gp_readable p
     \<or> (\<forall>t \<in> set (gh_targets h). \<not> has_bytes t (gp_maps p) \<and> t \<notin> set (gp_descriptors p)))"

definition startup_admissible :: "guard_tools \<Rightarrow> guard_host \<Rightarrow> board_profile \<Rightarrow> int \<Rightarrow> bool" where
  "startup_admissible g h profile commit \<longleftrightarrow> gh_root h \<and> gh_gate h \<and> gh_private_ipc h
     \<and> (\<exists>manifest mode. boot_manifest_holds g h profile manifest mode \<and> environment_holds h mode
          \<and> authority_holds g h profile manifest mode commit)
     \<and> board_verified h profile \<and> gh_uio h \<and> gh_parent_exe h = ROOT @ ''/vendor/netlab/build/switchd''
     \<and> libraries_hold g h \<and> sole_owner h"

lemma replay_holds:
  assumes "validate_replay_authority g (gh_files h) (gh_files_later h) profile seed = Inr commit"
  shows "seed \<le> commit \<and> replayable g h profile commit"
proof -
  note run = assms [unfolded validate_replay_authority_def ebind_Inr]
  then obtain pointer where p: "trusted_file (gh_files h) pointer_path = Inr pointer" by blast
  with run obtain n where n: "pointer_value pointer = Some n" by (cases "pointer_value pointer") auto
  with run p obtain raw where seed: "\<not> n < seed" and raw: "trusted_file (gh_files h) (snapshot_path n) = Inr raw"
    by (auto simp: ebind_Inr split: if_splits)
  note run = run [unfolded p sum.inject ex_simps simp_thms n option.case]
  from run n p seed raw obtain c where c: "read_configuration g raw = Some c"
    by (cases "read_configuration g raw") (auto simp: ebind_Inr)
  from run n p seed raw c obtain tree where t: "parse_xml (gt_xml g) raw = Inr tree"
    by (cases "parse_xml (gt_xml g) raw") (auto simp: ebind_Inr)
  with run n p seed raw c have "sc_profile c = profile" "n = commit" "trusted_file (gh_files_later h) pointer_path = Inr pointer"
    "map_option xml_text (find_first [''chassis'', ''fm10k-panel'', ''profile''] tree) = Some (ascii (profile_name profile))"
    "\<not> list_ex (\<lambda>p. find_first p tree \<noteq> None) routing_paths"
    by (auto simp: ebind_Inr split: if_splits)
  with seed p raw c t pointer_printed [OF n] show ?thesis
    by (auto simp: replayable_def trusted_secured routing_paths_def)
qed

lemma bootstrap_base:
  assumes "bootstrap_of manifest mode = Some base" and "mode \<in> {''observe'', ''basic100g'', ''control''}"
  shows "base \<in> {''observe'', ''basic100g''} \<and> (if mode = ''control'' then jget manifest ''bootstrap_mode'' = jstr base else base = mode)"
proof (cases "mode = ''control''")
  case True
  then have "find (\<lambda>m. jget manifest ''bootstrap_mode'' = jstr m) [''observe'', ''basic100g''] = Some base"
    using assms(1) by (simp add: bootstrap_of_def)
  then have "base \<in> set [''observe'', ''basic100g''] \<and> jget manifest ''bootstrap_mode'' = jstr base"
    by (auto split: if_splits)
  with True show ?thesis by simp
next
  case False
  with assms show ?thesis by (auto simp: bootstrap_of_def)
qed

lemma authority_holds:
  assumes "check_authority g h profile (manifest, mode) = Inr commit" and "mode \<in> {''observe'', ''basic100g'', ''control''}"
  shows "authority_holds g h profile manifest mode commit"
proof -
  from assms(1) obtain raw base seed where
    raw: "trusted_file (gh_files h) (BOOT @ ''/active.conf'') = Inr raw" and base: "bootstrap_of manifest mode = Some base"
    and v: "validate_initial_configuration g raw profile base" and seed: "seed_of manifest = Some seed"
    and c: "(if mode = ''control'' then validate_replay_authority g (gh_files h) (gh_files_later h) profile seed
               else ebind (trusted_file (gh_files h) pointer_path) (\<lambda>pointer.
                 ebind (need (pointer = ascii (decimal_int seed) @ [10]) ExistingConfiguration) (\<lambda>_.
                 ebind (trusted_file (gh_files h) (snapshot_path seed)) (\<lambda>stored.
                 ebind (need (stored = raw) ExistingConfiguration) (\<lambda>_. Inr seed))))) = Inr commit"
    by (auto simp: check_authority_def ebind_Inr split: option.splits if_splits)
  have "if mode = ''control'' then seed \<le> commit \<and> replayable g h profile commit
      else commit = seed \<and> secured (gh_files h) pointer_path (ascii (decimal_int seed) @ [10])
        \<and> secured (gh_files h) (snapshot_path seed) raw"
    using c replay_holds [of g h profile seed commit] by (auto simp: ebind_Inr trusted_secured split: if_splits)
  moreover have "entry_or manifest ''seed_commit_id'' (JInt 1) = JInt seed \<and> 1 \<le> seed \<and> seed \<le> 9999999999999999"
    using seed by (auto simp: seed_of_def split: json.splits if_splits)
  moreover have "initial_configuration profile base \<noteq> None \<and> read_configuration g raw = initial_configuration profile base"
    using v unfolding validate_initial_configuration_def by metis
  ultimately show ?thesis
    using bootstrap_base [OF base assms(2)] raw unfolding authority_holds_def trusted_secured by blast
qed

lemma artifact_entry:
  assumes "check_artifact g fs (p, digest) = Inr u"
  shows "\<exists>content. secured fs p content \<and> py_eq (JStr (gt_sha g content)) digest"
  using assms by (auto simp: check_artifact_def ebind_Inr trusted_secured)

lemma environment_listed:
  assumes "list_all (\<lambda>(k, v). gh_environment h k = Some v) (expected_environment mode)"
    and "(case gh_environment h ''NETLAB_FM10K_STARTUP_MODE'' of None \<Rightarrow> ''observe'' | Some m \<Rightarrow> m) = mode"
  shows "environment_holds h mode"
  using assms unfolding expected_environment_def list.pred_inject prod.case environment_holds_def
  by (auto split: option.splits)

lemma manifest_holds:
  assumes "check_manifest g h profile = Inr (manifest, mode)"
  shows "boot_manifest_holds g h profile manifest mode \<and> environment_holds h mode"
proof -
  note run = assms [unfolded check_manifest_def ebind_Inr]
  then obtain raw where raw: "trusted_file (gh_files h) (BOOT @ ''/startup.json'') = Inr raw" by blast
  with run obtain m where m: "gt_json g raw = Some m" by (cases "gt_json g raw") auto
  with run raw obtain md where md: "mode_of m = Some md" by (cases "mode_of m") auto
  let ?es = "entries (entry_or m ''sha256'' (JObj []))"
  from run raw m md have eq: "m = manifest" "md = mode" and shape: "is_object m" "py_eq (jget m ''schema'') (JInt 1)"
    "py_eq (jget m ''profile'') (jstr (profile_name profile))"
    and env: "list_all (\<lambda>(k, v). gh_environment h k = Some v) (expected_environment md)"
      "(case gh_environment h ''NETLAB_FM10K_STARTUP_MODE'' of None \<Rightarrow> ''observe'' | Some m \<Rightarrow> m) = md"
    and keys: "set (map fst ?es) = set boot_files"
    and each: "check_each (check_artifact g (gh_files h)) ?es = Inr ()"
    by (auto simp: ebind_Inr simp del: set_map split: if_split_asm)
  have same: "entry_or m ''sha256'' (JObj []) = jget m ''sha256''"
    using keys by (auto simp: entry_or_def jget_def boot_files_def split: option.splits)
  have pinned: "\<forall>(path, digest) \<in> set ?es. \<exists>content. secured (gh_files h) path content \<and> py_eq (JStr (gt_sha g content)) digest"
    using check_each_all [OF each] artifact_entry by fast
  have "md \<in> set startup_modes \<and> jget m ''mode'' = jstr md"
    using md unfolding mode_of_def find_Some_iff by (auto simp: nth_mem)
  then have mode: "md \<in> {''observe'', ''basic100g'', ''control''}" "jget m ''mode'' = jstr md" by (simp_all add: startup_modes_def)
  have "boot_manifest_holds g h profile m md"
    unfolding boot_manifest_holds_def
    using raw m shape mode pinned keys same by (auto simp: trusted_secured boot_files_def)
  with environment_listed [OF env] eq show ?thesis by simp
qed

lemma identity_verified:
  assumes "check_identity h profile = Inr d"
  shows "board_verified h profile"
proof -
  let ?r = "inventory (gh_board h) (Some PCI_BDF)"
  from assms have r: "iv_passed ?r" "iv_profile ?r = Some (profile_name profile)" "iv_devices ?r = [d]" "dr_bdf d = PCI_BDF"
    by (auto simp: check_identity_def Let_def split: if_splits list.splits)
  have "dr_matched d \<and> dr_profile d = Some (profile_name profile) \<and> dr_driver d = Some ''fm10k''"
    using r(1-3) by (auto simp: inventory_def Let_def split: list.splits if_splits)
  with r show ?thesis by (auto simp: board_verified_def PCI_BDF_def)
qed

lemma library_entry:
  assumes "check_library g fs e = Inr u"
  shows "\<exists>suffix content. jget e ''suffix'' = JStr suffix
    \<and> secured fs (ROOT @ ''/hardware/sdk/ies/build/'' @ base_name (map char_of suffix)) content
    \<and> py_eq (JStr (gt_sha g content)) (jget e ''sha256'')"
  using assms by (auto simp: check_library_def ebind_Inr trusted_secured split: json.splits)

lemma libraries_hold:
  assumes "check_libraries g h = Inr u"
  shows "libraries_hold g h"
proof -
  from assms obtain raw v where v: "trusted_file (gh_files h) (ROOT @ ''/hardware/sdk-inputs.json'') = Inr raw" "gt_json g raw = Some v"
    "is_list (jget v ''libraries'')" "check_each (check_library g (gh_files h)) (elements (jget v ''libraries'')) = Inr ()"
    "gh_sdk_mappings h = {ROOT @ ''/hardware/sdk/ies/build/libFocalpointSDK.so''}"
    by (auto simp: check_libraries_def ebind_Inr split: option.splits if_splits)
  with check_each_all [OF v(4)] library_entry show ?thesis
    unfolding libraries_hold_def trusted_secured by blast
qed

lemma owner_sole: "check_other_owners h = Inr u \<Longrightarrow> sole_owner h"
  by (auto simp: check_other_owners_def sole_owner_def owns_mapping_def list_ex_iff)

lemma static_admissible:
  assumes "static_checks g h profile = Inr commit"
  shows "startup_admissible g h profile commit"
proof -
  from assms obtain manifest mode d u where run: "gh_root h" "gh_gate h" "gh_private_ipc h"
    "check_manifest g h profile = Inr (manifest, mode)" "check_authority g h profile (manifest, mode) = Inr commit"
    "check_identity h profile = Inr d" "gh_uio h" "gh_parent_exe h = ROOT @ ''/vendor/netlab/build/switchd''"
    "check_libraries g h = Inr ()" "check_other_owners h = Inr ()"
    by (auto simp: static_checks_def ebind_Inr)
  note m = manifest_holds [OF run(4)]
  then have "mode \<in> {''observe'', ''basic100g'', ''control''}" by (simp add: boot_manifest_holds_def)
  from authority_holds [OF run(5) this] m identity_verified [OF run(6)] libraries_hold [OF run(9)] owner_sole [OF run(10)] run
  show ?thesis unfolding startup_admissible_def by blast
qed

subsection \<open>Writes\<close>

definition only_events :: "(guard_event \<Rightarrow> bool) \<Rightarrow> guard_board \<Rightarrow> guard_board \<Rightarrow> bool" where
  "only_events P s t \<longleftrightarrow> (\<exists>es. gb_events t = gb_events s @ es \<and> list_all P es)"

lemma only_events_refl [simp]: "only_events P s s"
  by (simp add: only_events_def)

lemma wp_prepare_power:
  "wp (prepare_power h c) (\<lambda>_ t. only_events (\<lambda>e. e = PowerWritten 0x3C) s t \<and> gb_link t = gb_link s \<and> gc_read c (gb_power t) = Some 0x3C)
     (\<lambda>_ t. only_events (\<lambda>e. e = PowerWritten 0x3C) s t) s"
  by (auto simp: prepare_power_def read_power_def write_power_def wp_simps Let_def only_events_def
      split: list.splits option.splits prod.splits)

lemma wp_prepare_network:
  "wp (prepare_cpu_network h c) (\<lambda>_ t. only_events (\<lambda>e. \<exists>m. e = LinkRaised m \<and> 1518 \<le> m) s t \<and> gb_power t = gb_power s \<and> link_ready (gb_link t))
     (\<lambda>_ t. only_events (\<lambda>e. \<exists>m. e = LinkRaised m \<and> 1518 \<le> m) s t) s"
  by (auto simp: prepare_cpu_network_def raise_link_def wp_simps only_events_def
      split: list.splits option.splits prod.splits)

text \<open>What the helper may write, and in what state it lets switchd go on.\<close>

definition startup_write :: "guard_event \<Rightarrow> bool" where
  "startup_write e \<longleftrightarrow> e = PowerWritten 0x3C \<or> (\<exists>m. e = LinkRaised m \<and> 1518 \<le> m) \<or> e = ReportWritten"

lemma only_events_mono: "only_events P s t \<Longrightarrow> (\<And>e. P e \<Longrightarrow> R e) \<Longrightarrow> only_events R s t"
  by (auto simp: only_events_def list_all_iff)

lemma wp_startup_writes:
  "wp (then_action (prepare_power h c) (bind_action (prepare_cpu_network h c) (\<lambda>network.
        then_action (modify_state (\<lambda>s. s\<lparr>gb_events := gb_events s @ [ReportWritten]\<rparr>)) (ret (f network)))))
     (\<lambda>_ t. only_events startup_write s t \<and> gc_read c (gb_power t) = Some 0x3C \<and> link_ready (gb_link t))
     (\<lambda>_ t. only_events startup_write s t) s"
proof -
  have network: "wp (bind_action (prepare_cpu_network h c) (\<lambda>network.
        then_action (modify_state (\<lambda>s. s\<lparr>gb_events := gb_events s @ [ReportWritten]\<rparr>)) (ret (f network))))
     (\<lambda>_ t. only_events startup_write s t \<and> gc_read c (gb_power t) = Some 0x3C \<and> link_ready (gb_link t))
     (\<lambda>_ t. only_events startup_write s t) u"
    if u: "only_events startup_write s u" "gc_read c (gb_power u) = Some 0x3C" for u
    unfolding wp_simps
    by (rule wp_mono [OF wp_prepare_network])
      (use u in \<open>auto simp: only_events_def startup_write_def list_all_iff\<close>)
  show ?thesis
    unfolding wp_then
    by (rule wp_mono [OF wp_prepare_power]) (auto intro!: network elim!: only_events_mono simp: startup_write_def)
qed

text \<open>C33: nothing is written to the board before it is verified. Whenever the startup helper has written
  anything, it ran as root with no interrupted update and in a private IPC namespace; the boot manifest
  is for the profile and the mode, and every artifact has the digest it pins; the mode and the seven
  variables of the environment are the installed ones; the installed configuration is the fixed baseline,
  and the commit that will be replayed is the seed itself or, in control mode, a later one whose snapshot
  is a configuration of the profile without routing and whose pointer did not change while it was read;
  the one PCI function was recognised as a board of the profile, is bound to its driver and is the one
  behind the UIO device; the caller is the installed switchd; every SDK library has its locked digest and
  the loaded one is the installed one; and no other process maps the ASIC. Every file among these is a
  regular file that only root can write, in directories that only root can write. The helper writes at
  most the power setting, the MTU of the CPU interface and its report; if it accepts, the power reads
  back as set and the interface is up.\<close>

theorem verified_before_write:
  assumes "verify_startup g h c profile s = (r, t)"
  shows "only_events startup_write s t \<and> (gb_events t \<noteq> gb_events s \<longrightarrow> (\<exists>commit. startup_admissible g h profile commit))
    \<and> (\<forall>accepted. r = Inr accepted \<longrightarrow> startup_admissible g h profile (sr_commit accepted) \<and> sr_profile accepted = profile
        \<and> gc_read c (gb_power t) = Some 0x3C \<and> link_ready (gb_link t))"
proof (cases "static_checks g h profile")
  case (Inl e)
  with assms show ?thesis by (auto simp: verify_startup_def raise_error_def)
next
  case (Inr commit)
  let ?f = "\<lambda>network. \<lparr>sr_profile = profile, sr_commit = commit, sr_network = network\<rparr>"
  let ?m = "then_action (prepare_power h c) (bind_action (prepare_cpu_network h c) (\<lambda>network.
        then_action (modify_state (\<lambda>s. s\<lparr>gb_events := gb_events s @ [ReportWritten]\<rparr>)) (ret (?f network))))"
  from assms Inr have m: "?m s = (r, t)" by (simp add: verify_startup_def)
  have result: "wp ?m (\<lambda>x _. sr_profile x = profile \<and> sr_commit x = commit) (\<lambda>_ _. True) s"
    by (auto simp: wp_simps wp_def split: prod.splits sum.splits)
  from wp_resultD [OF wp_startup_writes m] wp_resultD [OF result m] static_admissible [OF Inr]
  show ?thesis by (cases r) auto
qed

text \<open>An observing start of a B0 board with the default configuration at commit 1.\<close>

definition boot_contents :: "(string \<times> int list) list" where
  "boot_contents = [(BOOT @ ''/startup.json'', [1]), (ROOT @ ''/hardware/sdk-inputs.json'', [2]), (BOOT @ ''/active.conf'', [3]),
     (BOOT @ ''/platform.profile'', [4]), (BOOT @ ''/fm_platform_attributes.cfg'', [5]), (pointer_path, [49, 10]),
     (snapshot_path 1, [3])]"

definition boot_tree :: file_tree where
  "boot_tree = \<lparr>ft_file = (\<lambda>p. map_option (\<lambda>c. \<lparr>fe_regular = True, fe_uid = 0, fe_mode = 0x1A4, fe_content = c\<rparr>) (map_of boot_contents p)),
     ft_parents = (\<lambda>_. [\<lparr>fo_directory = True, fo_uid = 0, fo_mode = 0x1ED\<rparr>])\<rparr>"

definition observe_manifest :: json where
  "observe_manifest = JObj [(''schema'', JInt 1), (''mode'', jstr ''observe''), (''profile'', jstr ''sil001-hw4-b0''),
     (''sha256'', JObj [(BOOT @ ''/platform.profile'', JStr [4]), (BOOT @ ''/fm_platform_attributes.cfg'', JStr [5]), (BOOT @ ''/active.conf'', JStr [3])])]"

definition plain_tools :: guard_tools where
  "plain_tools = \<lparr>gt_sha = (\<lambda>c. c), gt_json = (\<lambda>c. if c = [1] then Some observe_manifest else Some (JObj [(''libraries'', JList [])])),
     gt_xml = (\<lambda>_. Some (Xml ''netlab-config'' [] [] [Xml ''chassis'' [] [] [Xml ''fm10k-panel'' [] [] [Xml ''intent'' [] [9] []]]])),
     gt_load = (\<lambda>t. if t = [9] then Some default_configuration else None)\<rparr>"

definition boot_host :: guard_host where
  "boot_host = \<lparr>gh_root = True, gh_gate = True, gh_private_ipc = True,
     gh_environment = map_of ((''NETLAB_FM10K_STARTUP_MODE'', ''observe'') # expected_environment ''observe''),
     gh_files = boot_tree, gh_files_later = boot_tree,
     gh_board = \<lparr>bh_os_lines = [ascii ''ID=debian'', ascii ''VERSION_ID=13''], bh_machine = ''x86_64'', bh_functions = [b0_board],
       bh_driver_version = Some (ascii ''6.12.101-ies2''), bh_sdk = None\<rparr>,
     gh_uio = True, gh_parent = 100, gh_parent_exe = ROOT @ ''/vendor/netlab/build/switchd'',
     gh_sdk_mappings = {ROOT @ ''/hardware/sdk/ies/build/libFocalpointSDK.so''},
     gh_processes = [], gh_own = 101, gh_targets = [ascii ''/dev/uio0''],
     gh_adapters = [(''i2c-3'', ascii ''SMBus I801 adapter at f040'')], gh_interfaces = [''enp1s0'']\<rparr>"

definition boot_commands :: guard_commands where
  "boot_commands = \<lparr>gc_read = Some, gc_power = (\<lambda>v _. (True, v)), gc_link = (\<lambda>mtu _. (True, (mtu, 1)))\<rparr>"

definition cold_board :: guard_board where
  "cold_board = \<lparr>gb_power = 0, gb_link = (1500, 0), gb_events = []\<rparr>"

lemma initial_observe: "initial_configuration HW4_B0 ''observe'' = Some default_configuration"
  by code_simp

lemma boot_manifest: "check_manifest plain_tools boot_host HW4_B0 = Inr (observe_manifest, ''observe'')"
  by code_simp

lemma boot_identity: "isl (check_identity boot_host HW4_B0) = False"
proof -
  have "os_value (bh_os_lines (gh_board boot_host)) ''ID'' = Some (ascii ''debian'')"
    "os_value (bh_os_lines (gh_board boot_host)) ''VERSION_ID'' = Some (ascii ''13'')" by code_simp+
  moreover have "dr_bdf (inspect_pci_device b0_board) = PCI_BDF" "dr_driver (inspect_pci_device b0_board) = Some ''fm10k''"
    "dr_uio (inspect_pci_device b0_board) = [''uio0'']" "pf_bdf b0_board = PCI_BDF" "pf_device b0_board = Some (ascii ''0x15a4'')"
    by (simp_all add: inspect_pci_device_def Let_def b0_board_def PCI_BDF_def)
  ultimately show ?thesis using b0_matched
    by (simp add: check_identity_def inventory_def Let_def boot_host_def)
qed

lemma boot_authority: "check_authority plain_tools boot_host HW4_B0 (observe_manifest, ''observe'') = Inr 1"
proof -
  have "read_configuration plain_tools [3] = Some default_configuration" by code_simp
  then have "validate_initial_configuration plain_tools [3] HW4_B0 ''observe''"
    by (simp add: validate_initial_configuration_def initial_observe)
  moreover have "trusted_file (gh_files boot_host) (BOOT @ ''/active.conf'') = Inr [3]"
    "trusted_file (gh_files boot_host) pointer_path = Inr (ascii (decimal_int 1) @ [10])"
    "trusted_file (gh_files boot_host) (snapshot_path 1) = Inr [3]" "seed_of observe_manifest = Some 1"
    "bootstrap_of observe_manifest ''observe'' = Some ''observe''" by code_simp+
  ultimately show ?thesis by (simp add: check_authority_def ebind_def need_def)
qed

lemma boot_static: "static_checks plain_tools boot_host HW4_B0 = Inr 1"
proof -
  obtain d where "check_identity boot_host HW4_B0 = Inr d" using boot_identity by (cases "check_identity boot_host HW4_B0") auto
  moreover have "check_libraries plain_tools boot_host = Inr ()" "check_other_owners boot_host = Inr ()" by code_simp+
  ultimately show ?thesis using boot_manifest boot_authority
    by (simp add: static_checks_def ebind_def need_def) (simp add: boot_host_def)
qed

lemma verified_before_write_witness:
  "gb_events (snd (verify_startup plain_tools boot_host boot_commands HW4_B0 cold_board)) =
     [PowerWritten 0x3C, LinkRaised 1518, ReportWritten] \<and> startup_admissible plain_tools boot_host HW4_B0 1"
proof -
  let ?result = "\<lparr>sr_profile = HW4_B0, sr_commit = 1, sr_network = (''enp1s0'', 1518)\<rparr>"
  let ?t = "\<lparr>gb_power = 0x3C, gb_link = (1518, 1), gb_events = [PowerWritten 0x3C, LinkRaised 1518, ReportWritten]\<rparr>"
  have "i801_adapters boot_host = [''i2c-3'']" "digits_only (drop 4 ''i2c-3'')" "take 4 ''i2c-3'' = ''i2c-''" "interface_ok ''enp1s0''"
    by code_simp+
  moreover have "gh_interfaces boot_host = [''enp1s0'']" by (simp add: boot_host_def)
  ultimately have run: "verify_startup plain_tools boot_host boot_commands HW4_B0 cold_board = (Inr ?result, ?t)"
    by (simp add: verify_startup_def boot_static prepare_power_def read_power_def write_power_def prepare_cpu_network_def raise_link_def
        monad_simps boot_commands_def cold_board_def link_ready_def)
  from verified_before_write [OF run] run show ?thesis by simp
qed

end
