(* ===== verification/Ecn_Lab.thy ===== *)
theory Ecn_Lab
  imports Text_Points Netlab_Wire
begin

text \<open>
  ecn_lab.py: the software laboratory for explicit congestion notification. Its profile with the traffic-control
  commands, the synthetic probe frames with their checksums, the decoder of captured frames and captures, and
  the verdict on a stage of the experiment. SHA-256 is a parameter; the text of a probability is one too.
\<close>

subsection \<open>Profile\<close>

record ecn_profile =
  ec_rate_kbit :: int
  ec_min_bytes :: int
  ec_max_bytes :: int
  ec_limit_bytes :: int
  ec_probability :: rat
  ec_data_dscp :: int
  ec_cnp_dscp :: int
  ec_vlan :: int

definition default_profile :: ecn_profile where
  "default_profile = \<lparr>ec_rate_kbit = 1000, ec_min_bytes = 8192, ec_max_bytes = 24576, ec_limit_bytes = 65536, ec_probability = 1,
     ec_data_dscp = 26, ec_cnp_dscp = 48, ec_vlan = 10\<rparr>"

datatype profile_fault = BadRate | BadThresholds | BadProbability | BadDscp | EqualDscp | BadVlan

definition profile_check :: "ecn_profile \<Rightarrow> profile_fault option" where
  "profile_check p = first_failure
     [(\<not> (100 \<le> ec_rate_kbit p \<and> ec_rate_kbit p \<le> 100000), BadRate),
      (\<not> (2048 \<le> ec_min_bytes p \<and> ec_min_bytes p < ec_max_bytes p \<and> ec_max_bytes p < ec_limit_bytes p \<and> ec_limit_bytes p \<le> 1048576), BadThresholds),
      (\<not> (0 < ec_probability p \<and> ec_probability p \<le> 1), BadProbability),
      (\<not> (0 \<le> ec_data_dscp p \<and> ec_data_dscp p \<le> 63 \<and> 0 \<le> ec_cnp_dscp p \<and> ec_cnp_dscp p \<le> 63), BadDscp),
      (ec_data_dscp p = ec_cnp_dscp p, EqualDscp),
      (\<not> (1 \<le> ec_vlan p \<and> ec_vlan p \<le> 4094), BadVlan)]"

definition lab_number :: "int \<Rightarrow> string" where "lab_number = decimal_int"

definition hex2 :: "nat \<Rightarrow> string" where
  "hex2 n = (let t = map char_of (base_text 16 n) in replicate (2 - length t) CHR ''0'' @ t)"

definition class_command :: "string \<Rightarrow> string \<times> string \<times> string \<Rightarrow> string list" where
  "class_command rate = (\<lambda>(class_id, priority, ceiling).
     [''class'', ''add'', ''dev'', ''out'', ''parent'', ''1:1'', ''classid'', ''1:'' @ class_id, ''htb'', ''rate'', rate, ''ceil'', ceiling,
      ''prio'', priority, ''quantum'', ''1514'', ''burst'', ''4096''])"

definition fifo_command :: "string \<Rightarrow> string list" where
  "fifo_command class_id = [''qdisc'', ''add'', ''dev'', ''out'', ''parent'', ''1:'' @ class_id, ''handle'', class_id @ '':'',
     ''pfifo'', ''limit'', ''4096'']"

definition filter_command :: "ecn_profile \<Rightarrow> int \<Rightarrow> string \<Rightarrow> int \<Rightarrow> string \<Rightarrow> bool \<Rightarrow> string list" where
  "filter_command p dscp class_id priority family tagged =
     [''filter'', ''add'', ''dev'', ''out'', ''parent'', ''1:'', ''protocol'', if tagged then ''802.1Q'' else family, ''prio'', lab_number priority,
      ''flower'', ''skip_hw''] @ (if tagged then [''vlan_id'', lab_number (ec_vlan p), ''vlan_ethtype'', family] else [])
     @ [''ip_proto'', ''udp'', ''ip_tos'', ''0x'' @ hex2 (nat (4 * dscp)) @ ''/0xfc'', ''dst_port'', ''4791'', ''classid'', ''1:'' @ class_id]"

definition filter_commands :: "ecn_profile \<Rightarrow> int \<times> string \<times> int \<Rightarrow> string list list" where
  "filter_commands p = (\<lambda>(dscp, class_id, priority). concat (map (\<lambda>(i, family).
     map (\<lambda>tagged. filter_command p dscp class_id (priority + 2 * i + (if tagged then 1 else 0)) family tagged) [False, True])
     [(0, ''ip''), (1, ''ipv6'')]))"

definition lab_commands :: "(rat \<Rightarrow> string) \<Rightarrow> ecn_profile \<Rightarrow> string list list" where
  "lab_commands shown p = (let parent_rate = lab_number (20 * ec_rate_kbit p) @ ''kbit''; rate = lab_number (ec_rate_kbit p) @ ''kbit'';
       burst = max 2 ((ec_min_bytes p + ec_max_bytes p) div 3300) in
     [[''qdisc'', ''add'', ''dev'', ''out'', ''root'', ''handle'', ''1:'', ''htb'', ''default'', ''30''],
      [''class'', ''add'', ''dev'', ''out'', ''parent'', ''1:'', ''classid'', ''1:1'', ''htb'', ''rate'', parent_rate, ''ceil'', parent_rate]]
     @ map (class_command rate) [(''10'', ''1'', rate), (''20'', ''0'', parent_rate), (''30'', ''2'', parent_rate)]
     @ [[''qdisc'', ''add'', ''dev'', ''out'', ''parent'', ''1:10'', ''handle'', ''10:'', ''red'', ''limit'', lab_number (ec_limit_bytes p),
         ''min'', lab_number (ec_min_bytes p), ''max'', lab_number (ec_max_bytes p), ''avpkt'', ''1100'', ''burst'', lab_number burst,
         ''bandwidth'', rate, ''probability'', shown (ec_probability p), ''ecn'']]
     @ map fifo_command [''20'', ''30'']
     @ concat (map (filter_commands p) [(ec_cnp_dscp p, ''20'', 1), (ec_data_dscp p, ''10'', 10)]))"

subsection \<open>Cases\<close>

datatype ip_version = Ipv4 | Ipv6
datatype queue = Data | Cnp | OtherPort | OtherDscp

record probe_case =
  ca_family :: ip_version
  ca_vlan :: "int option"
  ca_dscp :: int
  ca_ecn :: int
  ca_port :: int
  ca_queue :: queue

definition other_dscp :: "ecn_profile \<Rightarrow> int" where
  "other_dscp p = (case filter (\<lambda>n. n \<noteq> ec_data_dscp p \<and> n \<noteq> ec_cnp_dscp p) [0, 1, 2] of n # _ \<Rightarrow> n | [] \<Rightarrow> 0)"

definition family_cases :: "ecn_profile \<Rightarrow> ip_version \<Rightarrow> int option \<Rightarrow> probe_case list" where
  "family_cases p f vlan =
     map (\<lambda>e. \<lparr>ca_family = f, ca_vlan = vlan, ca_dscp = ec_data_dscp p, ca_ecn = e, ca_port = 4791, ca_queue = Data\<rparr>) [0, 1, 2, 3]
   @ map (\<lambda>(dscp, port, q). \<lparr>ca_family = f, ca_vlan = vlan, ca_dscp = dscp, ca_ecn = 2, ca_port = port, ca_queue = q\<rparr>)
       [(ec_cnp_dscp p, 4791, Cnp), (ec_data_dscp p, 4792, OtherPort), (other_dscp p, 4791, OtherDscp)]"

definition probe_cases :: "ecn_profile \<Rightarrow> probe_case list" where
  "probe_cases p = concat (map (\<lambda>f. concat (map (family_cases p f) [None, Some (ec_vlan p)])) [Ipv4, Ipv6])"

subsection \<open>Frames\<close>

text \<open>Big-endian fields of one, two and four bytes, written and read.\<close>

definition be1 :: "int \<Rightarrow> octet list" where "be1 n = [word_of_int n]"
definition be2 :: "int \<Rightarrow> octet list" where "be2 n = [word_of_int (n div 256), word_of_int n]"
definition be4 :: "int \<Rightarrow> octet list" where "be4 n = be2 (n div 65536) @ be2 (n mod 65536)"

definition byte_at :: "octet list \<Rightarrow> nat \<Rightarrow> int" where "byte_at d k = uint (d ! k)"
definition half_at :: "octet list \<Rightarrow> nat \<Rightarrow> int" where "half_at d k = 256 * byte_at d k + byte_at d (k + 1)"

definition cut :: "octet list \<Rightarrow> nat \<Rightarrow> nat \<Rightarrow> octet list" where "cut d a n = take n (drop a d)"

definition MAGIC :: "octet list" where "MAGIC = [0x46, 0x4D, 0x45, 0x43, 0x4E, 0x30, 0x30, 0x31]"

fun halves :: "octet list \<Rightarrow> int" where
  "halves [] = 0"
| "halves [b] = 256 * uint b"
| "halves (a # b # rest) = 256 * uint a + uint b + halves rest"

function fold16 :: "int \<Rightarrow> int" where
  "fold16 n = (if n < 65536 then n else fold16 (n mod 65536 + n div 65536))"
  by pat_completeness auto
termination
proof (relation "measure nat", goal_cases)
  case (2 n)
  have "n = 65536 * (n div 65536) + n mod 65536" by simp
  moreover have "0 < n div 65536" using 2 by (simp add: pos_imp_zdiv_pos_iff)
  ultimately have "n mod 65536 + n div 65536 < n" by linarith
  with 2 show ?case by simp
qed simp

declare fold16.simps [simp del]

definition checksum :: "octet list \<Rightarrow> int" where
  "checksum d = 65535 - fold16 (halves d)"

definition v4_addresses :: "octet list" where "v4_addresses = [198, 18, 0, 1, 198, 18, 0, 2]"
definition v6_addresses :: "octet list" where
  "v6_addresses = [0x20, 0x01, 0x0D, 0xB8, 0, 0xEC, 0, 0, 0, 0, 0, 0, 0, 0, 0, 1,
     0x20, 0x01, 0x0D, 0xB8, 0, 0xEC, 0, 0, 0, 0, 0, 0, 0, 0, 0, 2]"

definition PAYLOAD_SIZE :: nat where "PAYLOAD_SIZE = 1024"

definition probe_payload :: "octet list \<Rightarrow> int \<Rightarrow> int \<Rightarrow> int \<Rightarrow> octet list" where
  "probe_payload run_id stage case_id sequence = (let marker = MAGIC @ run_id @ be1 stage @ be1 case_id @ be4 sequence in
     marker @ map word_of_nat [0..<PAYLOAD_SIZE - length marker])"

definition pseudo_header :: "ip_version \<Rightarrow> octet list \<Rightarrow> int \<Rightarrow> octet list" where
  "pseudo_header f addresses bytes = addresses @ (case f of Ipv4 \<Rightarrow> [0, 17] @ be2 bytes | Ipv6 \<Rightarrow> be4 bytes @ [0, 0, 0, 17])"

definition v4_header :: "int \<Rightarrow> int \<Rightarrow> int \<Rightarrow> int \<Rightarrow> octet list" where
  "v4_header tos total_bytes sequence check =
     [0x45] @ be1 tos @ be2 total_bytes @ be2 (sequence mod 65536) @ [0x40, 0, 64, 17] @ be2 check @ v4_addresses"

definition v6_word :: "int \<Rightarrow> int" where
  "v6_word tos = push_bit 28 6 OR push_bit 20 tos OR 0x12345"

definition v6_header :: "int \<Rightarrow> int \<Rightarrow> octet list" where
  "v6_header tos bytes = be4 (v6_word tos) @ be2 bytes @ [17, 64] @ v6_addresses"

definition udp_datagram :: "int \<Rightarrow> int \<Rightarrow> int \<Rightarrow> octet list \<Rightarrow> octet list" where
  "udp_datagram source destination check payload =
     be2 source @ be2 destination @ be2 (8 + int (length payload)) @ be2 check @ payload"

definition vlan_tci :: "int \<Rightarrow> int" where "vlan_tci n = push_bit 13 3 OR n"

definition vlan_tag :: "int option \<Rightarrow> octet list" where
  "vlan_tag v = (case v of None \<Rightarrow> [] | Some n \<Rightarrow> [0x81, 0] @ be2 (vlan_tci n))"

definition fits :: "int \<Rightarrow> int \<Rightarrow> bool" where "fits limit n \<longleftrightarrow> 0 \<le> n \<and> n < limit"

text \<open>A value outside of its field is an error of \<^verbatim>\<open>struct\<close>.\<close>

definition traffic_class :: "probe_case \<Rightarrow> int" where
  "traffic_class c = push_bit 2 (ca_dscp c) OR ca_ecn c"

definition make_frame :: "probe_case \<Rightarrow> octet list \<Rightarrow> int \<Rightarrow> int \<Rightarrow> int \<Rightarrow> octet list option" where
  "make_frame c run_id stage case_id sequence =
     (if length run_id \<noteq> 16 \<or> \<not> fits 256 stage \<or> \<not> fits 256 case_id \<or> \<not> fits 4294967296 sequence
         \<or> \<not> fits 65536 (ca_port c)
         \<or> \<not> (case ca_family c of Ipv4 \<Rightarrow> fits 256 (traffic_class c) | Ipv6 \<Rightarrow> fits 4294967296 (v6_word (traffic_class c)))
         \<or> (case ca_vlan c of None \<Rightarrow> False | Some n \<Rightarrow> \<not> fits 65536 (vlan_tci n)) then None
      else let
        payload = probe_payload run_id stage case_id sequence; bytes = 8 + int (length payload); tos = traffic_class c;
        blank = udp_datagram (49152 + case_id) (ca_port c) 0 payload;
        addresses = (case ca_family c of Ipv4 \<Rightarrow> v4_addresses | Ipv6 \<Rightarrow> v6_addresses);
        header = (case ca_family c of Ipv4 \<Rightarrow> v4_header tos (20 + bytes) sequence (checksum (v4_header tos (20 + bytes) sequence 0))
          | Ipv6 \<Rightarrow> v6_header tos bytes);
        ethertype = (case ca_family c of Ipv4 \<Rightarrow> [8, 0] | Ipv6 \<Rightarrow> [0x86, 0xDD]);
        check = checksum (pseudo_header (ca_family c) addresses bytes @ blank);
        udp = udp_datagram (49152 + case_id) (ca_port c) (if check = 0 then 65535 else check) payload in
      Some ([0x02, 0xEC, 0, 0, 0, 0x02, 0x02, 0xEC, 0, 0, 0, 0x01] @ vlan_tag (ca_vlan c) @ ethertype @ header @ udp))"

subsection \<open>Captured frames\<close>

datatype frame_fault = ShortFrame | BadVlanHeader | NotIpv4Udp | Fragmented | NotIpv6Udp | BadEthertype | BadIpLength | BadUdp | BadMarker

record probe =
  pr_run :: "octet list"
  pr_stage :: int
  pr_case :: int
  pr_sequence :: int
  pr_family :: ip_version
  pr_dscp :: int
  pr_ecn :: int
  pr_tags :: "(int \<times> int) list"
  pr_source :: int
  pr_destination :: int
  pr_ip_valid :: bool
  pr_udp_valid :: bool
  pr_digest :: text_points
  pr_offset :: nat

fun occurs :: "octet list \<Rightarrow> octet list \<Rightarrow> bool" where
  "occurs needle [] \<longleftrightarrow> needle = []"
| "occurs needle (b # bs) \<longleftrightarrow> take (length needle) (b # bs) = needle \<or> occurs needle bs"

function read_tags :: "octet list \<Rightarrow> nat \<Rightarrow> int \<Rightarrow> (int \<times> int) list \<Rightarrow> frame_fault + nat \<times> int \<times> (int \<times> int) list" where
  "read_tags d offset ethertype tags =
     (if ethertype = 0x8100 \<or> ethertype = 0x88A8 then
        (if 2 \<le> length tags \<or> length d < offset + 4 then Inl BadVlanHeader
         else read_tags d (offset + 4) (half_at d (offset + 2)) (tags @ [(ethertype, half_at d offset)]))
      else Inr (offset, ethertype, tags))"
  by pat_completeness auto
termination
  by (relation "measure (\<lambda>(d, offset, ethertype, tags). 2 - length tags)") auto

declare read_tags.simps [simp del]

text \<open>The IP layer: family, service byte, header validity, pseudo addresses, the frame without ECN and
  header checksum, the start of UDP and the end of the packet.\<close>

record ip_layer =
  il_family :: ip_version
  il_tos :: int
  il_valid :: bool
  il_addresses :: "octet list"
  il_normalized :: "octet list"
  il_udp :: nat
  il_end :: int

definition read_ip :: "octet list \<Rightarrow> nat \<Rightarrow> int \<Rightarrow> frame_fault + ip_layer" where
  "read_ip d o4 ethertype =
     (if ethertype = 0x800 then
        (if length d < o4 + 20 \<or> d ! o4 \<noteq> 0x45 \<or> d ! (o4 + 9) \<noteq> 17 then Inl NotIpv4Udp
         else if half_at d (o4 + 6) mod 16384 \<noteq> 0 then Inl Fragmented
         else Inr \<lparr>il_family = Ipv4, il_tos = byte_at d (o4 + 1), il_valid = checksum (cut d o4 20) = 0,
           il_addresses = cut d (o4 + 12) 8,
           il_normalized = d[o4 + 1 := d ! (o4 + 1) AND 0xFC, o4 + 10 := 0, o4 + 11 := 0],
           il_udp = o4 + 20, il_end = int o4 + half_at d (o4 + 2)\<rparr>)
      else if ethertype = 0x86DD then
        (if length d < o4 + 40 \<or> byte_at d o4 div 16 \<noteq> 6 \<or> d ! (o4 + 6) \<noteq> 17 then Inl NotIpv6Udp
         else Inr \<lparr>il_family = Ipv6, il_tos = byte_at d o4 mod 16 * 16 + byte_at d (o4 + 1) div 16, il_valid = True,
           il_addresses = cut d (o4 + 8) 32, il_normalized = d[o4 + 1 := d ! (o4 + 1) AND 0xCF],
           il_udp = o4 + 40, il_end = int o4 + 40 + half_at d (o4 + 4)\<rparr>)
      else Inl BadEthertype)"

definition read_probe :: "(octet list \<Rightarrow> text_points) \<Rightarrow> octet list \<Rightarrow> nat \<Rightarrow> (int \<times> int) list \<Rightarrow> ip_layer \<Rightarrow> frame_fault + probe" where
  "read_probe sha d ip_offset tags l = (let u = il_udp l; udp = drop u d in
     if il_end l \<noteq> int (length d) \<or> il_end l < int u + 38 then Inl BadIpLength
     else if half_at udp 4 \<noteq> il_end l - int u \<or> half_at udp 6 = 0 then Inl BadUdp
     else let payload = drop 8 udp in
       if take 8 payload \<noteq> MAGIC then Inl BadMarker
       else Inr \<lparr>pr_run = cut payload 8 16, pr_stage = byte_at payload 24, pr_case = byte_at payload 25,
         pr_sequence = 65536 * half_at payload 26 + half_at payload 28, pr_family = il_family l,
         pr_dscp = il_tos l div 4, pr_ecn = il_tos l mod 4, pr_tags = tags, pr_source = half_at udp 0, pr_destination = half_at udp 2,
         pr_ip_valid = il_valid l,
         pr_udp_valid = checksum (pseudo_header (il_family l) (il_addresses l) (half_at udp 4) @ udp) = 0,
         pr_digest = sha (il_normalized l), pr_offset = ip_offset\<rparr>)"

definition parse_frame :: "(octet list \<Rightarrow> text_points) \<Rightarrow> octet list \<Rightarrow> frame_fault + probe option" where
  "parse_frame sha d =
     (if \<not> occurs MAGIC d then Inr None
      else if length d < 14 then Inl ShortFrame
      else ebind (read_tags d 14 (half_at d 12) []) (\<lambda>(offset, ethertype, tags).
        ebind (read_ip d offset ethertype) (\<lambda>l. ebind (read_probe sha d offset tags l) (\<lambda>p. Inr (Some p)))))"

subsection \<open>Captures\<close>

definition le4 :: "int \<Rightarrow> octet list" where "le4 n = rev (be4 n)"
definition le4_at :: "octet list \<Rightarrow> nat \<Rightarrow> int" where "le4_at d k = half_at (rev (cut d k 4)) 0 * 65536 + half_at (rev (cut d k 4)) 2"

definition PCAP_HEADER :: "octet list" where
  "PCAP_HEADER = [0xD4, 0xC3, 0xB2, 0xA1, 2, 0, 4, 0, 0, 0, 0, 0, 0, 0, 0, 0, 0xFF, 0xFF, 0, 0, 1, 0, 0, 0]"

definition write_packet :: "octet list \<Rightarrow> int \<Rightarrow> int \<Rightarrow> octet list" where
  "write_packet frame seconds micros = le4 seconds @ le4 micros @ le4 (int (length frame)) @ le4 (int (length frame)) @ frame"

datatype capture_fault = WrongHeader | TruncatedHeader | InvalidLength | TruncatedPacket | FrameFault frame_fault | DuplicateProbe

type_synonym probe_key = "octet list \<times> int \<times> int \<times> int"
type_synonym capture = "(probe_key \<times> probe) list"

definition probe_key :: "probe \<Rightarrow> probe_key" where
  "probe_key p = (pr_run p, pr_stage p, pr_case p, pr_sequence p)"

function read_packets :: "(octet list \<Rightarrow> text_points) \<Rightarrow> octet list \<Rightarrow> capture \<Rightarrow> capture_fault + capture" where
  "read_packets sha d frames =
     (if d = [] then Inr frames
      else if length d < 16 then Inl TruncatedHeader
      else let n = le4_at d 8 in
        if n \<noteq> le4_at d 12 \<or> \<not> (14 \<le> n \<and> n \<le> 65535) then Inl InvalidLength
        else if int (length d) < 16 + n then Inl TruncatedPacket
        else case parse_frame sha (cut d 16 (nat n)) of
          Inl e \<Rightarrow> Inl (FrameFault e)
        | Inr None \<Rightarrow> read_packets sha (drop (16 + nat n) d) frames
        | Inr (Some p) \<Rightarrow> if probe_key p \<in> fst ` set frames then Inl DuplicateProbe
            else read_packets sha (drop (16 + nat n) d) (frames @ [(probe_key p, p)]))"
  by pat_completeness auto
termination
  by (relation "measure (\<lambda>(sha, d, frames). length d)") auto

declare read_packets.simps [simp del]

definition read_capture :: "(octet list \<Rightarrow> text_points) \<Rightarrow> octet list \<Rightarrow> capture_fault + capture" where
  "read_capture sha d = (if take 24 d \<noteq> PCAP_HEADER then Inl WrongHeader else read_packets sha (drop 24 d) [])"

subsection \<open>Verdict\<close>

datatype stage_fault = CapturesDiffer | MixedRuns | UnexpectedProbe | CaseMismatch probe_key | UnsentEgress | IngressChecksum probe_key
| ChangedBefore probe_key | EgressChecksum probe_key | FieldsChanged probe_key | IllegalTransition probe_key
| MissingEvidence nat | NotSettled nat | Disturbed nat | NoMarking nat | NoDrop nat

definition key_stage :: "probe_key \<Rightarrow> int" where "key_stage k = fst (snd k)"
definition key_case :: "probe_key \<Rightarrow> int" where "key_case k = fst (snd (snd k))"
definition key_sequence :: "probe_key \<Rightarrow> int" where "key_sequence k = snd (snd (snd k))"

definition flagged :: "(bool \<times> stage_fault) list \<Rightarrow> stage_fault list" where
  "flagged cs = map snd (filter fst cs)"

definition matches_case :: "probe_case \<Rightarrow> int \<Rightarrow> probe \<Rightarrow> bool" where
  "matches_case c index p \<longleftrightarrow> pr_family p = ca_family c \<and> pr_dscp p = ca_dscp c \<and> pr_ecn p = ca_ecn c
     \<and> pr_tags p = (case ca_vlan c of None \<Rightarrow> [] | Some v \<Rightarrow> [(0x8100, vlan_tci v)])
     \<and> pr_destination p = ca_port c \<and> pr_source p = 49152 + index"

definition sent_faults :: "probe_case list \<Rightarrow> int \<Rightarrow> probe_key \<times> probe \<Rightarrow> stage_fault list" where
  "sent_faults cs stage = (\<lambda>(k, p).
     if key_stage k \<noteq> stage \<or> \<not> (0 \<le> key_case k \<and> key_case k < int (length cs)) then [UnexpectedProbe]
     else flagged [(\<not> matches_case (cs ! nat (key_case k)) (key_case k) p, CaseMismatch k)])"

definition ecn_allowed :: "int \<Rightarrow> int list" where
  "ecn_allowed e = (if e = 1 \<or> e = 2 then [e, 3] else [e])"

definition ingress_faults :: "capture \<Rightarrow> capture \<Rightarrow> probe_key \<times> probe \<Rightarrow> stage_fault list" where
  "ingress_faults sent egress = (\<lambda>(k, before). flagged
       [(\<not> pr_ip_valid before \<or> \<not> pr_udp_valid before, IngressChecksum k),
        (case map_of sent k of None \<Rightarrow> False | Some p \<Rightarrow> before \<noteq> p, ChangedBefore k)]
     @ (case map_of egress k of
         None \<Rightarrow> []
       | Some after \<Rightarrow> flagged
           [(\<not> pr_ip_valid after \<or> \<not> pr_udp_valid after, EgressChecksum k),
            (pr_digest before \<noteq> pr_digest after, FieldsChanged k),
            (pr_ecn after \<notin> set (ecn_allowed (pr_ecn before)), IllegalTransition k)]))"

definition marked :: "capture \<Rightarrow> capture \<Rightarrow> probe_key \<Rightarrow> bool" where
  "marked ingress egress k \<longleftrightarrow> (case (map_of ingress k, map_of egress k) of
     (Some before, Some after) \<Rightarrow> (pr_ecn before = 1 \<or> pr_ecn before = 2) \<and> pr_ecn after = 3 | _ \<Rightarrow> False)"

record case_row =
  cr_ingress :: nat
  cr_egress :: nat
  cr_marked :: nat
  cr_dropped :: nat
  cr_steady :: "(nat \<times> nat \<times> nat) option"

definition case_keys :: "int \<Rightarrow> nat \<Rightarrow> capture \<Rightarrow> probe_key list" where
  "case_keys stage index ingress = filter (\<lambda>k. key_stage k = stage \<and> key_case k = int index) (map fst ingress)"

definition got_out :: "capture \<Rightarrow> probe_key list \<Rightarrow> probe_key list" where
  "got_out egress ks = filter (\<lambda>k. k \<in> fst ` set egress) ks"

definition steady_window :: "probe_key list \<Rightarrow> probe_key list" where
  "steady_window ks = py_last 2 (sort_key key_sequence ks)"

definition case_row_of :: "int \<Rightarrow> capture \<Rightarrow> capture \<Rightarrow> nat \<times> probe_case \<Rightarrow> case_row" where
  "case_row_of stage ingress egress = (\<lambda>(index, c). let ks = case_keys stage index ingress; out = got_out egress ks; w = steady_window ks in
     \<lparr>cr_ingress = length ks, cr_egress = length out, cr_marked = length (filter (marked ingress egress) out),
      cr_dropped = length ks - length out,
      cr_steady = (if stage = 2 \<and> ca_queue c = Data
        then Some (length w, length (got_out egress w), length (filter (marked ingress egress) (got_out egress w))) else None)\<rparr>)"

definition case_faults :: "int \<Rightarrow> capture \<Rightarrow> capture \<Rightarrow> nat \<times> probe_case \<Rightarrow> stage_fault list" where
  "case_faults stage ingress egress = (\<lambda>(index, c). let r = case_row_of stage ingress egress (index, c) in flagged
     [(cr_ingress r = 0 \<or> cr_egress r = 0 \<and> \<not> (stage = 1 \<and> ca_queue c = Data \<and> ca_ecn c = 0), MissingEvidence index),
      (case cr_steady r of
         Some (_, out, ms) \<Rightarrow> (cr_ingress r < 3 \<or> out \<noteq> 2 \<or> ms \<noteq> 0, NotSettled index)
       | None \<Rightarrow>
           if stage \<noteq> 1 \<or> ca_queue c \<noteq> Data then (cr_dropped r \<noteq> 0 \<or> cr_marked r \<noteq> 0, Disturbed index)
           else if ca_ecn c = 1 \<or> ca_ecn c = 2 then (cr_marked r = 0, NoMarking index)
           else (ca_ecn c = 0 \<and> cr_dropped r = 0, NoDrop index))])"

record stage_verdict =
  sv_passed :: bool
  sv_rows :: "case_row list"
  sv_errors :: "stage_fault list"
  sv_count :: nat

definition stage_faults :: "ecn_profile \<Rightarrow> int \<Rightarrow> capture \<Rightarrow> capture \<Rightarrow> capture \<Rightarrow> stage_fault list" where
  "stage_faults p stage sent ingress egress = (let cs = probe_cases p in
     flagged [(sent = [] \<or> fst ` set sent \<noteq> fst ` set ingress, CapturesDiffer),
       (length (remdups (map (fst \<circ> fst) sent)) \<noteq> 1, MixedRuns)]
     @ concat (map (sent_faults cs stage) sent)
     @ flagged [(\<not> fst ` set egress \<subseteq> fst ` set ingress, UnsentEgress)]
     @ concat (map (ingress_faults sent egress) ingress)
     @ concat (map (case_faults stage ingress egress) (List.enumerate 0 cs)))"

definition verify_stage :: "ecn_profile \<Rightarrow> int \<Rightarrow> capture \<Rightarrow> capture \<Rightarrow> capture \<Rightarrow> stage_verdict option" where
  "verify_stage p stage sent ingress egress = (if stage \<notin> {0, 1, 2} then None
     else let faults = stage_faults p stage sent ingress egress in
       Some \<lparr>sv_passed = (faults = []), sv_rows = map (case_row_of stage ingress egress) (List.enumerate 0 (probe_cases p)),
         sv_errors = take 50 faults, sv_count = length faults\<rparr>)"

end
