(* ===== verification/Ecn_Properties.thy ===== *)
theory Ecn_Properties
  imports Ecn_Lab
begin

text \<open>
  Properties of the ECN laboratory: every frame the generator builds is read back by the decoder as the probe of its case,
  with both checksums valid, and a stage that passes has evidence for every case of the experiment.
\<close>

subsection \<open>The Internet checksum\<close>

lemma fold16_facts:
  "0 \<le> n \<Longrightarrow> 0 \<le> fold16 n \<and> fold16 n < 65536 \<and> fold16 n mod 65535 = n mod 65535 \<and> (0 < n \<longrightarrow> 0 < fold16 n)"
proof (induction n rule: fold16.induct)
  case (1 n)
  show ?case
  proof (cases "n < 65536")
    case True
    with 1 show ?thesis by (simp add: fold16.simps)
  next
    case False
    let ?m = "n mod 65536 + n div 65536"
    have n: "n = 65535 * (n div 65536) + ?m" by simp
    have "0 < n div 65536" "0 \<le> n mod 65536" using False by (simp_all add: pos_imp_zdiv_pos_iff)
    then have m: "0 < ?m" by linarith
    have "n mod 65535 = ?m mod 65535" using n by (metis mod_mult_self4)
    with "1.IH" [OF False] m False show ?thesis by (simp add: fold16.simps [of n])
  qed
qed

lemma fold16_multiple:
  assumes "0 < n" and "65535 dvd n"
  shows "fold16 n = 65535"
proof -
  from fold16_facts [of n] assms have f: "0 < fold16 n" "fold16 n < 65536" "fold16 n mod 65535 = 0" by auto
  then have "65535 dvd fold16 n" by (simp add: dvd_eq_mod_eq_0)
  then obtain k where "fold16 n = 65535 * k" by (rule dvdE)
  with f(1,2) show ?thesis by simp
qed

lemma fold16_complement:
  assumes "0 \<le> s"
  shows "fold16 (s + (65535 - fold16 s)) = 65535"
proof (rule fold16_multiple)
  note f = fold16_facts [OF assms]
  show "0 < s + (65535 - fold16 s)"
  proof (cases "s = 0")
    case True
    then show ?thesis by (simp add: fold16.simps)
  qed (use assms f in linarith)
  have "65535 dvd s - fold16 s" using f by (metis mod_eq_dvd_iff)
  then have "65535 dvd (s - fold16 s) + 65535" by simp
  then show "65535 dvd s + (65535 - fold16 s)" by (simp add: algebra_simps)
qed

lemma halves_nonnegative: "0 \<le> halves d"
  by (induction d rule: halves.induct) simp_all

lemma checksum_range: "0 \<le> checksum d \<and> checksum d < 65536"
  using fold16_facts [OF halves_nonnegative [of d]] by (simp add: checksum_def)

text \<open>A block of octets with its checksum filled in verifies; so it does when zero is sent as 65535.\<close>

lemma checksum_verifies:
  assumes "halves d' = halves d + (if z \<and> checksum d = 0 then 65535 else checksum d)"
  shows "checksum d' = 0"
proof -
  note h = halves_nonnegative [of d]
  show ?thesis
  proof (cases "z \<and> checksum d = 0")
    case True
    then have "fold16 (halves d) = 65535" by (simp add: checksum_def)
    with fold16_facts [OF h] have "halves d mod 65535 = 0" by simp
    then have "65535 dvd halves d + 65535" by (simp add: dvd_eq_mod_eq_0)
    then have "fold16 (halves d + 65535) = 65535" using h by (intro fold16_multiple) auto
    with True assms show ?thesis by (simp add: checksum_def)
  next
    case False
    with assms have "halves d' = halves d + checksum d" by auto
    with fold16_complement [OF h] show ?thesis by (simp add: checksum_def)
  qed
qed

subsection \<open>Fields\<close>

lemma half_value: "0 \<le> n \<Longrightarrow> n < 65536 \<Longrightarrow> 256 * uint (word_of_int (n div 256) :: octet) + uint (word_of_int n :: octet) = n"
  by (simp add: unsigned_of_int take_bit_eq_mod pos_imp_zdiv_nonneg_iff)

lemma octet_value: "uint (word_of_int n :: octet) = n mod 256"
  by (simp add: unsigned_of_int take_bit_eq_mod)

lemma byte_value: "0 \<le> n \<Longrightarrow> n < 256 \<Longrightarrow> uint (word_of_int n :: octet) = n"
  by (simp add: unsigned_of_int take_bit_eq_mod)

lemma length_fields [simp]: "length (be1 n) = 1" "length (be2 n) = 2" "length (be4 n) = 4"
  by (simp_all add: be1_def be2_def be4_def)

text \<open>Reading inside of a header that stands between other octets.\<close>

lemma in_middle:
  "k < length h \<Longrightarrow> (pre @ h @ rest) ! (length pre + k) = h ! k"
  "k < length h \<Longrightarrow> byte_at (pre @ h @ rest) (length pre + k) = byte_at h k"
  "k + 1 < length h \<Longrightarrow> half_at (pre @ h @ rest) (length pre + k) = half_at h k"
  "k + n \<le> length h \<Longrightarrow> cut (pre @ h @ rest) (length pre + k) n = cut h k n"
  by (simp_all add: byte_at_def half_at_def cut_def nth_append)

subsection \<open>Reading a frame back\<close>

lemma v4_halves:
  assumes "0 \<le> check" "check < 65536"
  shows "halves (v4_header tos bytes sequence check) = halves (v4_header tos bytes sequence 0) + check"
  using half_value [of check] assms by (simp add: v4_header_def be1_def be2_def v4_addresses_def)

lemma v4_layer:
  assumes "fits 256 tos" "fits 65536 bytes" 
    and "check = checksum (v4_header tos bytes sequence 0)"
  shows "\<exists>l. read_ip (pre @ v4_header tos bytes sequence check @ udp) (length pre) 0x800 = Inr l \<and> il_family l = Ipv4 \<and> il_tos l = tos
    \<and> il_valid l \<and> il_addresses l = v4_addresses \<and> il_udp l = length pre + 20 \<and> il_end l = int (length pre) + bytes"
proof -
  let ?h = "v4_header tos bytes sequence check"
  let ?d = "pre @ ?h @ udp"
  have len: "length ?h = 20" by (simp add: v4_header_def v4_addresses_def)
  have fields: "?h ! 0 = 0x45" "?h ! 9 = 17" "byte_at ?h 1 = tos" "half_at ?h 2 = bytes" "half_at ?h 6 = 0x4000" "cut ?h 12 8 = v4_addresses"
    using assms(1,2) byte_value [of tos] half_value [of bytes]
    by (simp_all add: v4_header_def be1_def be2_def v4_addresses_def byte_at_def half_at_def cut_def fits_def)
  have "checksum ?h = 0"
    using checksum_verifies [of ?h "v4_header tos bytes sequence 0" False] v4_halves [of check] checksum_range assms(3) by simp
  note r = in_middle [where pre = pre and h = ?h and rest = udp, unfolded len]
  have "?d ! length pre = 0x45" "?d ! (length pre + 9) = 17" "byte_at ?d (length pre + 1) = tos"
    "half_at ?d (length pre + 2) = bytes" "half_at ?d (length pre + 6) = 0x4000" "cut ?d (length pre + 12) 8 = v4_addresses"
    "cut ?d (length pre) 20 = ?h" "length pre + 20 \<le> length ?d"
    using r(1) [of 0] r(1) [of 9] r(2) [of 1] r(3) [of 2] r(3) [of 6] r(4) [of 12 8] r(4) [of 0 20] fields len
    by (simp_all add: cut_def [of ?h 0])
  then show ?thesis using \<open>checksum ?h = 0\<close> by (simp add: read_ip_def)
qed

text \<open>Disjoint bits are added.\<close>

lemma push_or_add:
  fixes a b :: int
  assumes "0 \<le> b" "b < 2 ^ n"
  shows "push_bit n a OR b = 2 ^ n * a + b"
proof -
  have "push_bit n a AND b = 0"
  proof (rule bit_eqI)
    fix k
    have "\<not> bit b k" if "n \<le> k"
    proof -
      have "b = take_bit n b" using assms by (simp add: take_bit_eq_mod)
      then show ?thesis using that by (metis bit_take_bit_iff leD)
    qed
    then show "bit (push_bit n a AND b) k = bit 0 k" by (auto simp: bit_and_iff bit_push_bit_iff)
  qed
  then show ?thesis by (simp add: disjunctive_add_eq_or [symmetric] push_bit_eq_mult mult.commute)
qed

lemma v6_word_value:
  assumes "0 \<le> tos" "tos < 256"
  shows "v6_word tos = 1610687301 + tos * 1048576"
proof -
  have "push_bit 28 (6 :: int) = push_bit 20 (push_bit 8 6)" by (simp add: push_bit_push_bit)
  then have "v6_word tos = push_bit 20 (push_bit 8 6 OR tos) OR 0x12345"
    by (simp only: v6_word_def push_bit_or or.assoc)
  moreover have "push_bit 8 6 OR tos = 1536 + tos" using push_or_add [of tos 8 6] assms by simp
  ultimately show ?thesis using push_or_add [of "0x12345" 20 "1536 + tos"] by (simp del: push_bit_numeral)
qed

lemma v6_first_bytes:
  assumes "0 \<le> tos" "tos < 256"
  shows "byte_at (v6_header tos bytes) 0 = 96 + tos div 16" "byte_at (v6_header tos bytes) 1 = tos mod 16 * 16 + 1"
proof -
  have "1610687301 + tos * 1048576 = 9029 + (24577 + 16 * tos) * 65536" by simp
  then have n: "(1610687301 + tos * 1048576) div 65536 = 24577 + 16 * tos"
    using div_mult_self1 [of "65536 :: int" 9029 "24577 + 16 * tos"] by simp
  have "byte_at (v6_header tos bytes) 0 = (24576 + 16 * tos + 1) div 256 mod 256"
    "byte_at (v6_header tos bytes) 1 = (24576 + 16 * tos + 1) mod 256"
  proof -
    have "v6_header tos bytes ! 0 = word_of_int ((1610687301 + tos * 1048576) div 65536 div 256)"
      "v6_header tos bytes ! 1 = word_of_int ((1610687301 + tos * 1048576) div 65536)"
      using v6_word_value [OF assms] by (simp_all add: v6_header_def be4_def be2_def)
    then show "byte_at (v6_header tos bytes) 0 = (24576 + 16 * tos + 1) div 256 mod 256"
      "byte_at (v6_header tos bytes) 1 = (24576 + 16 * tos + 1) mod 256"
      by (simp_all only: byte_at_def octet_value n) simp_all
  qed
  moreover have "(24576 + 16 * tos + 1) div 256 = 96 + tos div 16" "(24576 + 16 * tos + 1) mod 256 = tos mod 16 * 16 + 1"
  proof -
    have e: "24576 + 16 * tos + 1 = 256 * (96 + tos div 16) + (tos mod 16 * 16 + 1)"
    proof -
      define q r where "q = tos div 16" and "r = tos mod 16"
      then have "tos = 16 * q + r" by simp
      then show ?thesis unfolding q_def [symmetric] r_def [symmetric] by simp
    qed
    have b: "0 \<le> tos mod 16 * 16 + 1" "tos mod 16 * 16 + 1 < 256"
      using pos_mod_sign [of 16 tos] pos_mod_bound [of 16 tos] by linarith+
    show "(24576 + 16 * tos + 1) div 256 = 96 + tos div 16" by (rule int_div_pos_eq [OF e b])
    show "(24576 + 16 * tos + 1) mod 256 = tos mod 16 * 16 + 1" by (rule int_mod_pos_eq [OF e b])
  qed
  moreover have "(96 + tos div 16) mod 256 = 96 + tos div 16" using assms by simp
  ultimately show "byte_at (v6_header tos bytes) 0 = 96 + tos div 16" "byte_at (v6_header tos bytes) 1 = tos mod 16 * 16 + 1" by (simp_all only:)
qed

lemma v6_layer:
  assumes "fits 256 tos" "fits 65536 bytes"
  shows "\<exists>l. read_ip (pre @ v6_header tos bytes @ udp) (length pre) 0x86DD = Inr l \<and> il_family l = Ipv6 \<and> il_tos l = tos
    \<and> il_valid l \<and> il_addresses l = v6_addresses \<and> il_udp l = length pre + 40 \<and> il_end l = int (length pre) + 40 + bytes"
proof -
  let ?h = "v6_header tos bytes" and ?d = "pre @ v6_header tos bytes @ udp"
  have tos: "0 \<le> tos" "tos < 256" using assms(1) by (simp_all add: fits_def)
  have len: "length ?h = 40" by (simp add: v6_header_def v6_addresses_def)
  have fields: "?h ! 6 = 17" "half_at ?h 4 = bytes" "cut ?h 8 32 = v6_addresses"
    using assms(2) half_value [of bytes]
    by (simp_all add: v6_header_def be4_def be2_def v6_addresses_def byte_at_def half_at_def cut_def fits_def)
  note r = in_middle [where pre = pre and h = ?h and rest = udp, unfolded len]
  have "?d ! (length pre + 6) = 17" "byte_at ?d (length pre) = 96 + tos div 16" "byte_at ?d (length pre + 1) = tos mod 16 * 16 + 1"
    "half_at ?d (length pre + 4) = bytes" "cut ?d (length pre + 8) 32 = v6_addresses" "length pre + 40 \<le> length ?d"
    using r(1) [of 6] r(2) [of 0] r(2) [of 1] r(3) [of 4] r(4) [of 8 32] fields v6_first_bytes [OF tos] len by simp_all
  moreover have "(96 + tos div 16) div 16 = 6" "(96 + tos div 16) mod 16 = tos div 16"
  proof -
    have q: "0 \<le> tos div 16" "tos div 16 < 16" using tos by (simp_all add: pos_imp_zdiv_nonneg_iff)
    then show "(96 + tos div 16) div 16 = 6" "(96 + tos div 16) mod 16 = tos div 16"
      using div_mult_self1 [of 16 "tos div 16" 6] mod_mult_self1 [of "tos div 16" 6 16] by (simp_all add: add.commute)
  qed
  moreover have "tos div 16 * 16 + (tos mod 16 * 16 + 1) div 16 = tos" by simp
  ultimately show ?thesis by (simp add: read_ip_def)
qed

subsection \<open>The datagram\<close>

definition marker :: "octet list \<Rightarrow> int \<Rightarrow> int \<Rightarrow> int \<Rightarrow> octet list" where
  "marker run_id stage case_id sequence = MAGIC @ run_id @ be1 stage @ be1 case_id @ be4 sequence"

lemma payload_split:
  assumes "length run_id = 16"
  shows "\<exists>rest. probe_payload run_id stage case_id sequence = marker run_id stage case_id sequence @ rest"
    "length (probe_payload run_id stage case_id sequence) = 1024"
  using assms by (auto simp: probe_payload_def marker_def Let_def MAGIC_def PAYLOAD_SIZE_def simp del: upt_rec_numeral)

lemma marker_fields:
  assumes "length run_id = 16" "fits 256 stage" "fits 256 case_id" "fits 4294967296 sequence"
    and m_def: "m = marker run_id stage case_id sequence @ rest"
  shows "take 8 m = MAGIC" "cut m 8 16 = run_id" "byte_at m 24 = stage" "byte_at m 25 = case_id"
    "65536 * half_at m 26 + half_at m 28 = sequence"
proof -
  have s: "fits 65536 (sequence div 65536)" "fits 65536 (sequence mod 65536)"
    using assms(4) by (auto simp: fits_def)
  show "take 8 m = MAGIC" "cut m 8 16 = run_id" using assms(1) by (simp_all add: m_def marker_def MAGIC_def cut_def)
  show "byte_at m 24 = stage" "byte_at m 25 = case_id"
    using assms(1-3) byte_value by (simp_all add: m_def marker_def MAGIC_def byte_at_def nth_append be1_def fits_def)
  have "half_at m 26 = sequence div 65536" "half_at m 28 = sequence mod 65536"
    using assms(1) s half_value
    by (simp_all add: m_def marker_def MAGIC_def half_at_def byte_at_def nth_append be1_def be2_def be4_def fits_def)
  then show "65536 * half_at m 26 + half_at m 28 = sequence" by simp
qed

lemma length_udp [simp]: "length (udp_datagram source destination check payload) = 8 + length payload"
  by (simp add: udp_datagram_def)

lemma udp_fields:
  assumes "fits 65536 source" "fits 65536 destination" "fits 65536 check" "length payload = 1024"
  defines "d \<equiv> udp_datagram source destination check payload"
  shows "half_at d 0 = source" "half_at d 2 = destination" "half_at d 4 = 1032" "half_at d 6 = check" "drop 8 d = payload"
  using assms(1-4) half_value [of source] half_value [of destination] half_value [of check]
  by (simp_all add: d_def udp_datagram_def be2_def half_at_def byte_at_def fits_def)

lemma halves_append: "even (length a) \<Longrightarrow> halves (a @ b) = halves a + halves b"
  by (induction a rule: halves.induct) auto

lemma udp_halves:
  assumes "fits 65536 check" and "even (length addresses)"
  shows "halves (pseudo_header f addresses bytes @ udp_datagram source destination check payload) =
    halves (pseudo_header f addresses bytes @ udp_datagram source destination 0 payload) + check"
proof -
  have "even (length (pseudo_header f addresses bytes))" using assms(2) by (cases f) (simp_all add: pseudo_header_def)
  moreover have "halves (udp_datagram source destination check payload) = halves (udp_datagram source destination 0 payload) + check"
    using half_value [of check] assms(1) by (simp add: udp_datagram_def be2_def fits_def)
  ultimately show ?thesis by (simp add: halves_append)
qed

definition frame_probe :: "probe_case \<Rightarrow> octet list \<Rightarrow> int \<Rightarrow> int \<Rightarrow> int \<Rightarrow> probe \<Rightarrow> bool" where
  "frame_probe c run_id stage case_id sequence p \<longleftrightarrow> probe_key p = (run_id, stage, case_id, sequence)
     \<and> matches_case c case_id p \<and> pr_ip_valid p \<and> pr_udp_valid p"

lemma probe_read:
  assumes l: "il_family l = f" "il_tos l = tos" "il_valid l" "il_addresses l = addresses" "il_udp l = length pre" "il_end l = int (length pre) + 1032"
    and fields: "length run_id = 16" "fits 256 stage" "fits 256 case_id" "fits 4294967296 sequence" "fits 65536 port"
    and payload: "payload = probe_payload run_id stage case_id sequence"
    and u: "u = udp_datagram (49152 + case_id) port c payload" "fits 65536 c" "c \<noteq> 0"
    and valid: "checksum (pseudo_header f addresses 1032 @ u) = 0"
  shows "\<exists>p. read_probe sha (pre @ u) o4 tags l = Inr p
     \<and> probe_key p = (run_id, stage, case_id, sequence) \<and> pr_family p = f \<and> pr_dscp p = tos div 4 \<and> pr_ecn p = tos mod 4
     \<and> pr_tags p = tags \<and> pr_source p = 49152 + case_id \<and> pr_destination p = port \<and> pr_ip_valid p \<and> pr_udp_valid p"
proof -
  obtain rest where rest: "payload = marker run_id stage case_id sequence @ rest"
    using payload_split(1) [OF fields(1)] payload by blast
  have len: "length payload = 1024" using payload_split(2) [OF fields(1)] payload by simp
  have s: "fits 65536 (49152 + case_id)" using fields(3) by (simp add: fits_def)
  note uf = udp_fields [OF s fields(5) u(2) len, folded u(1)]
  note m = marker_fields [OF fields(1-4) rest]
  have d: "drop (length pre) (pre @ u) = u" "length u = 1032" using len u(1) by simp_all
  show ?thesis unfolding read_probe_def Let_def l d uf m using d(2) u(3) valid l(3)
    by (simp add: probe_key_def)
qed

lemma traffic_class_value:
  "0 \<le> ca_ecn c \<Longrightarrow> ca_ecn c < 4 \<Longrightarrow> traffic_class c = 4 * ca_dscp c + ca_ecn c"
  using push_or_add [of "ca_ecn c" 2 "ca_dscp c"] by (simp add: traffic_class_def)

lemma magic_found: "occurs needle (pre @ needle @ rest)"
proof (induction pre)
  case Nil
  then show ?case by (cases "needle @ rest") (simp, metis append_Nil append_eq_conv_conj occurs.simps(2))
qed simp

text \<open>The tags in front of the IP layer.\<close>

definition link_layer :: "int option \<Rightarrow> octet list \<Rightarrow> octet list" where
  "link_layer vlan ethertype = [0x02, 0xEC, 0, 0, 0, 0x02, 0x02, 0xEC, 0, 0, 0, 0x01] @ vlan_tag vlan @ ethertype"

lemma tags_read:
  assumes "case vlan of None \<Rightarrow> True | Some n \<Rightarrow> fits 65536 (vlan_tci n)" and "e = [8, 0] \<or> e = [0x86, 0xDD]"
  shows "read_tags (link_layer vlan e @ rest) 14 (half_at (link_layer vlan e @ rest) 12) [] =
    Inr (length (link_layer vlan e), half_at e 0, case vlan of None \<Rightarrow> [] | Some n \<Rightarrow> [(0x8100, vlan_tci n)])"
proof (cases vlan)
  case None
  with assms(2) show ?thesis
    by (auto simp: link_layer_def vlan_tag_def half_at_def byte_at_def read_tags.simps)
next
  case (Some n)
  with assms half_value [of "vlan_tci n"] show ?thesis
    by (auto simp: link_layer_def vlan_tag_def half_at_def byte_at_def be2_def fits_def read_tags.simps)
qed

text \<open>C36: every frame built for a case whose DSCP and ECN fit their six and two bits, as those of the experiment do, with or
  without a VLAN tag, over either version of IP, is decoded as the probe of that case: run, stage, case and sequence are those written in the payload, the tags, ports, code point and
  congestion bits are those of the case, and the checksums of header and datagram verify.\<close>

theorem probe_frames_read_back:
  assumes frame: "make_frame c run_id stage case_id sequence = Some d" and ecn: "0 \<le> ca_ecn c" "ca_ecn c < 4"
    and dscp: "0 \<le> ca_dscp c" "ca_dscp c < 64"
  shows "\<exists>p. parse_frame sha d = Inr (Some p) \<and> frame_probe c run_id stage case_id sequence p"
proof -
  define payload where "payload = probe_payload run_id stage case_id sequence"
  define tos where "tos = traffic_class c"
  define addresses where "addresses = (case ca_family c of Ipv4 \<Rightarrow> v4_addresses | Ipv6 \<Rightarrow> v6_addresses)"
  define header where "header = (case ca_family c of
      Ipv4 \<Rightarrow> v4_header tos 1052 sequence (checksum (v4_header tos 1052 sequence 0)) | Ipv6 \<Rightarrow> v6_header tos 1032)"
  define ethertype :: "octet list" where "ethertype = (case ca_family c of Ipv4 \<Rightarrow> [8, 0] | Ipv6 \<Rightarrow> [0x86, 0xDD])"
  define check where "check = checksum (pseudo_header (ca_family c) addresses 1032 @ udp_datagram (49152 + case_id) (ca_port c) 0 payload)"
  define u where "u = udp_datagram (49152 + case_id) (ca_port c) (if check = 0 then 65535 else check) payload"
  from frame have fields: "length run_id = 16" "fits 256 stage" "fits 256 case_id" "fits 4294967296 sequence" "fits 65536 (ca_port c)"
      "case ca_vlan c of None \<Rightarrow> True | Some n \<Rightarrow> fits 65536 (vlan_tci n)"
    by (auto simp: make_frame_def split: if_splits option.splits)
  have tos: "fits 256 tos" using traffic_class_value [OF ecn] ecn dscp by (simp add: fits_def tos_def)
  have len: "length payload = 1024" unfolding payload_def by (rule payload_split(2) [OF fields(1)])
  have d: "d = link_layer (ca_vlan c) ethertype @ header @ u"
    using frame len by (cases "ca_family c") (auto simp: make_frame_def Let_def payload_def [symmetric] tos_def [symmetric] link_layer_def
        header_def ethertype_def check_def addresses_def u_def split: if_split_asm cong: if_cong)
  have check: "fits 65536 (if check = 0 then 65535 else check)" "(if check = 0 then 65535 else check) \<noteq> 0"
    using checksum_range check_def by (auto simp: fits_def)
  have even_addresses: "even (length addresses)"
    by (cases "ca_family c") (simp_all add: addresses_def v4_addresses_def v6_addresses_def)
  have "halves (pseudo_header (ca_family c) addresses 1032 @ u) =
      halves (pseudo_header (ca_family c) addresses 1032 @ udp_datagram (49152 + case_id) (ca_port c) 0 payload)
      + (if True \<and> check = 0 then 65535 else check)"
    unfolding u_def simp_thms by (rule udp_halves [OF check(1) even_addresses])
  then have valid: "checksum (pseudo_header (ca_family c) addresses 1032 @ u) = 0"
    unfolding check_def by (rule checksum_verifies)
  let ?link = "link_layer (ca_vlan c) ethertype"
  have types: "ethertype = [8, 0] \<or> ethertype = [0x86, 0xDD]" by (cases "ca_family c") (simp_all add: ethertype_def)
  have layer: "\<exists>l. read_ip d (length ?link) (half_at ethertype 0) = Inr l \<and> il_family l = ca_family c \<and> il_tos l = tos \<and> il_valid l
      \<and> il_addresses l = addresses \<and> il_udp l = length (?link @ header) \<and> il_end l = int (length (?link @ header)) + 1032"
  proof (cases "ca_family c")
    case Ipv4
    have "length header = 20" using Ipv4 by (simp add: header_def v4_header_def v4_addresses_def)
    moreover have "half_at ethertype 0 = 0x800" using Ipv4 by (simp add: ethertype_def half_at_def byte_at_def)
    ultimately show ?thesis
      using v4_layer [of tos 1052 _ sequence ?link u] Ipv4 tos by (simp add: d header_def addresses_def fits_def add.commute)
  next
    case Ipv6
    have "length header = 40" using Ipv6 by (simp add: header_def v6_header_def v6_addresses_def)
    moreover have "half_at ethertype 0 = 0x86DD" using Ipv6 by (simp add: ethertype_def half_at_def byte_at_def)
    ultimately show ?thesis
      using v6_layer [of tos 1032 ?link u] Ipv6 tos by (simp add: d header_def addresses_def fits_def add.commute)
  qed
  then obtain l where l: "read_ip d (length ?link) (half_at ethertype 0) = Inr l" "il_family l = ca_family c" "il_tos l = tos" "il_valid l"
      "il_addresses l = addresses" "il_udp l = length (?link @ header)" "il_end l = int (length (?link @ header)) + 1032" by blast
  let ?tags = "case ca_vlan c of None \<Rightarrow> [] | Some n \<Rightarrow> [(0x8100, vlan_tci n)]"
  obtain p where p: "read_probe sha ((?link @ header) @ u) (length ?link) ?tags l = Inr p"
     "probe_key p = (run_id, stage, case_id, sequence)" "pr_family p = ca_family c" "pr_dscp p = tos div 4" "pr_ecn p = tos mod 4"
     "pr_tags p = ?tags" "pr_source p = 49152 + case_id" "pr_destination p = ca_port c" "pr_ip_valid p" "pr_udp_valid p"
    using probe_read [OF l(2-7) fields(1-5) payload_def u_def check valid] by blast
  have "occurs MAGIC d"
  proof -
    obtain rest where "payload = MAGIC @ rest"
      using payload_split(1) [OF fields(1), of stage case_id sequence] by (fastforce simp: payload_def marker_def)
    then have "d = (?link @ header @ be2 (49152 + case_id) @ be2 (ca_port c) @ be2 1032 @ be2 (if check = 0 then 65535 else check))
        @ MAGIC @ rest"
      using len by (simp add: d u_def udp_datagram_def)
    then show ?thesis by (simp only: magic_found)
  qed
  moreover have "14 \<le> length d" using types by (auto simp: d link_layer_def)
  ultimately have "parse_frame sha d = Inr (Some p)"
    using tags_read [OF fields(6) types, of "header @ u"] l(1) p(1) by (simp add: parse_frame_def d ebind_def)
  moreover have "frame_probe c run_id stage case_id sequence p"
    using p traffic_class_value [OF ecn] ecn by (auto simp: frame_probe_def matches_case_def tos_def)
  ultimately show ?thesis by blast
qed

lemma probe_frames_read_back_witness:
  "\<exists>d p. make_frame \<lparr>ca_family = Ipv4, ca_vlan = Some 10, ca_dscp = 26, ca_ecn = 2, ca_port = 4791, ca_queue = Data\<rparr>
       (replicate 16 7) 1 9 300 = Some d
     \<and> parse_frame (\<lambda>_. []) d = Inr (Some p)
     \<and> frame_probe \<lparr>ca_family = Ipv4, ca_vlan = Some 10, ca_dscp = 26, ca_ecn = 2, ca_port = 4791, ca_queue = Data\<rparr>
       (replicate 16 7) 1 9 300 p"
proof -
  let ?c = "\<lparr>ca_family = Ipv4, ca_vlan = Some 10, ca_dscp = 26, ca_ecn = 2, ca_port = 4791, ca_queue = Data\<rparr>"
  have "traffic_class ?c = 106" "vlan_tci 10 = 24586" by code_simp+
  then have "make_frame ?c (replicate 16 7) 1 9 300 \<noteq> None" by (simp add: make_frame_def fits_def Let_def)
  then obtain d where "make_frame ?c (replicate 16 7) 1 9 300 = Some d" by blast
  with probe_frames_read_back [OF this, of "\<lambda>_. []"] show ?thesis by auto
qed

subsection \<open>A passed stage\<close>

lemma flagged_none [simp]: "flagged cs = [] \<longleftrightarrow> (\<forall>(b, e) \<in> set cs. \<not> b)"
  by (auto simp: flagged_def filter_empty_conv)

text \<open>What a passed stage shows of a case: with congestion on the data queue, marks on what may be marked and drops of
  what may not; after it, a window of two probes undisturbed; everywhere else, nothing lost and nothing marked.\<close>

definition case_evidence :: "int \<Rightarrow> capture \<Rightarrow> capture \<Rightarrow> nat \<Rightarrow> probe_case \<Rightarrow> bool" where
  "case_evidence stage ingress egress index c \<longleftrightarrow> (let ks = case_keys stage index ingress;
       undisturbed = (\<lambda>k. k \<in> fst ` set egress \<and> \<not> marked ingress egress k) in
     ks \<noteq> [] \<and>
     (if ca_queue c = Data \<and> stage = 1
      then (ca_ecn c = 1 \<or> ca_ecn c = 2 \<longrightarrow> (\<exists>k \<in> set ks. marked ingress egress k))
        \<and> (ca_ecn c = 0 \<longrightarrow> (\<exists>k \<in> set ks. k \<notin> fst ` set egress))
      else if ca_queue c = Data \<and> stage = 2
      then length (steady_window ks) = 2 \<and> (\<forall>k \<in> set (steady_window ks). undisturbed k)
      else \<forall>k \<in> set ks. undisturbed k))"

lemma got_out_set: "set (got_out egress ks) = {k \<in> set ks. k \<in> fst ` set egress}"
  by (simp add: got_out_def)

lemma nothing_dropped: "length (got_out egress ks) = length ks \<longleftrightarrow> (\<forall>k \<in> set ks. k \<in> fst ` set egress)"
  unfolding got_out_def by (metis (no_types, lifting) filter_id_conv length_filter_less less_irrefl)

lemma some_dropped: "length ks - length (got_out egress ks) = 0 \<longleftrightarrow> (\<forall>k \<in> set ks. k \<in> fst ` set egress)"
proof -
  have "length (got_out egress ks) \<le> length ks" by (simp add: got_out_def)
  then show ?thesis using nothing_dropped [of egress ks] by linarith
qed

lemma none_marked:
  "length (filter (marked ingress egress) (got_out egress ks)) = 0
     \<longleftrightarrow> (\<forall>k \<in> set ks. k \<in> fst ` set egress \<longrightarrow> \<not> marked ingress egress k)"
  unfolding length_0_conv filter_empty_conv got_out_set by blast

lemma two_out: "length (steady_window ks) \<le> 2"
  by (simp add: steady_window_def py_last_def)

lemma case_faults_evidence:
  assumes "case_faults stage ingress egress (index, c) = []"
  shows "case_evidence stage ingress egress index c"
proof -
  let ?ks = "case_keys stage index ingress"
  have some: "?ks \<noteq> []" using assms by (auto simp: case_faults_def case_row_of_def Let_def)
  consider (congested) "ca_queue c = Data" "stage = 1" | (recovered) "ca_queue c = Data" "stage = 2"
    | (quiet) "ca_queue c \<noteq> Data \<or> stage \<noteq> 1 \<and> stage \<noteq> 2" by blast
  then show ?thesis
  proof cases
    case congested
    with assms have "ca_ecn c = 1 \<or> ca_ecn c = 2 \<Longrightarrow> length (filter (marked ingress egress) (got_out egress ?ks)) \<noteq> 0"
      "ca_ecn c = 0 \<Longrightarrow> length ?ks - length (got_out egress ?ks) \<noteq> 0"
      by (auto simp: case_faults_def case_row_of_def Let_def)
    with congested some show ?thesis
      unfolding some_dropped none_marked by (auto simp: case_evidence_def Let_def simp del: length_0_conv)
  next
    case recovered
    let ?w = "steady_window ?ks"
    from assms recovered have out: "length (got_out egress ?w) = 2" "length (filter (marked ingress egress) (got_out egress ?w)) = 0"
      by (auto simp: case_faults_def case_row_of_def Let_def)
    have two: "length ?w = 2"
      using out(1) two_out [of ?ks] length_filter_le [of "\<lambda>k. k \<in> fst ` set egress" ?w] by (simp add: got_out_def)
    with out nothing_dropped [of egress ?w] none_marked [of ingress egress ?w] some recovered show ?thesis
      by (simp add: case_evidence_def Let_def del: length_0_conv)
  next
    case quiet
    with assms have "length ?ks - length (got_out egress ?ks) = 0" "length (filter (marked ingress egress) (got_out egress ?ks)) = 0"
      by (auto simp: case_faults_def case_row_of_def Let_def)
    with quiet some show ?thesis
      unfolding some_dropped none_marked by (auto simp: case_evidence_def Let_def)
  qed
qed

text \<open>What reaches the far side left the sender, and only its mark may differ.\<close>

definition unchanged_probe :: "probe_case list \<Rightarrow> int \<Rightarrow> probe_key \<Rightarrow> probe \<Rightarrow> probe \<Rightarrow> bool" where
  "unchanged_probe cs stage k before after \<longleftrightarrow> key_stage k = stage \<and> 0 \<le> key_case k \<and> key_case k < int (length cs)
     \<and> matches_case (cs ! nat (key_case k)) (key_case k) before \<and> pr_ip_valid after \<and> pr_udp_valid after
     \<and> pr_digest after = pr_digest before
     \<and> (pr_ecn after = pr_ecn before \<or> (pr_ecn before = 1 \<or> pr_ecn before = 2) \<and> pr_ecn after = 3)"

lemma sent_as_declared:
  assumes "sent_faults cs stage (k, b) = []"
  shows "key_stage k = stage \<and> 0 \<le> key_case k \<and> key_case k < int (length cs) \<and> matches_case (cs ! nat (key_case k)) (key_case k) b"
  using assms by (auto simp: sent_faults_def split: if_split_asm)

lemma ingress_unchanged:
  assumes "ingress_faults sent egress (k, b) = []" and "map_of sent k = Some s"
  shows "b = s" and "map_of egress k = Some a \<Longrightarrow> pr_ip_valid a \<and> pr_udp_valid a \<and> pr_digest a = pr_digest b
    \<and> (pr_ecn a = pr_ecn b \<or> (pr_ecn b = 1 \<or> pr_ecn b = 2) \<and> pr_ecn a = 3)"
  using assms by (auto simp: ingress_faults_def ecn_allowed_def split: if_split_asm)

lemma known_key: "fst ` set xs \<subseteq> fst ` set ys \<Longrightarrow> map_of xs k = Some a \<Longrightarrow> \<exists>b. map_of ys k = Some b"
  by (metis (no_types, lifting) fst_conv image_eqI map_of_SomeD map_of_eq_None_iff not_None_eq subsetD)

definition congested_ingress :: capture where
  "congested_ingress = map (\<lambda>(i, c). (([7], 1, int i, 0),
     \<lparr>pr_run = [7], pr_stage = 1, pr_case = int i, pr_sequence = 0, pr_family = ca_family c, pr_dscp = ca_dscp c, pr_ecn = ca_ecn c,
       pr_tags = (case ca_vlan c of None \<Rightarrow> [] | Some v \<Rightarrow> [(0x8100, vlan_tci v)]), pr_source = 49152 + int i,
       pr_destination = ca_port c, pr_ip_valid = True, pr_udp_valid = True, pr_digest = [], pr_offset = 14\<rparr>))
     (List.enumerate 0 (probe_cases default_profile))"

definition congested_egress :: capture where
  "congested_egress = map (\<lambda>(k, p). (k, if pr_dscp p = 26 \<and> pr_destination p = 4791 then p\<lparr>pr_ecn := 3\<rparr> else p))
     (filter (\<lambda>(k, p). pr_ecn p \<noteq> 0) congested_ingress)"

lemma congested_stage_clean: "stage_faults default_profile 1 congested_ingress congested_ingress congested_egress = []"
  by code_simp

text \<open>C35: a stage that passes is evidence. The sent probes are those seen on the way in, of one run; whatever came out was sent as
  its case declares, with valid checksums and nothing but the congestion mark and the header checksum changed, from a capable
  code point only; and every case was exercised: under congestion a capable probe of the data queue was marked and an
  incapable one dropped, after it the last two probes passed unmarked, and no other traffic was marked or lost.\<close>

theorem passed_stage_evidence:
  assumes "verify_stage p stage sent ingress egress = Some v" and "sv_passed v"
  shows "sent \<noteq> [] \<and> fst ` set sent = fst ` set ingress \<and> (\<exists>run. \<forall>k \<in> fst ` set sent. fst k = run)
    \<and> (\<forall>k after. map_of egress k = Some after \<longrightarrow> (\<exists>before. map_of sent k = Some before
        \<and> map_of ingress k = Some before \<and> unchanged_probe (probe_cases p) stage k before after))
    \<and> (\<forall>index < length (probe_cases p). case_evidence stage ingress egress index (probe_cases p ! index))"
proof -
  let ?cs = "probe_cases p"
  from assms have faults: "stage_faults p stage sent ingress egress = []"
    by (auto simp: verify_stage_def Let_def split: if_split_asm)
  then have sides: "sent \<noteq> []" "fst ` set sent = fst ` set ingress" "fst ` set egress \<subseteq> fst ` set ingress"
      "length (remdups (map (fst \<circ> fst) sent)) = 1"
    and sent: "\<And>k b. (k, b) \<in> set sent \<Longrightarrow> sent_faults ?cs stage (k, b) = []"
    and ingress: "\<And>k b. (k, b) \<in> set ingress \<Longrightarrow> ingress_faults sent egress (k, b) = []"
    and cases: "\<And>x. x \<in> set (List.enumerate 0 ?cs) \<Longrightarrow> case_faults stage ingress egress x = []"
    by (simp_all add: stage_faults_def Let_def)
  have run: "\<exists>run. \<forall>k \<in> fst ` set sent. fst k = run"
  proof -
    obtain run where "remdups (map (fst \<circ> fst) sent) = [run]" using sides(4) by (auto simp: length_Suc_conv)
    then have "set (map (fst \<circ> fst) sent) = {run}" by (metis list.simps(15) set_remdups empty_set)
    then have "fst ` fst ` set sent = {run}" by (simp add: image_image)
    then show ?thesis by (metis image_eqI singletonD)
  qed
  have through: "\<exists>before. map_of sent k = Some before \<and> map_of ingress k = Some before \<and> unchanged_probe ?cs stage k before after"
    if a: "map_of egress k = Some after" for k after
  proof -
    obtain b where b: "map_of ingress k = Some b" using known_key [OF sides(3) a] by blast
    obtain s where s: "map_of sent k = Some s" using known_key [OF _ b] sides(2) by blast
    note i = ingress_unchanged [OF ingress [OF map_of_SomeD [OF b]] s]
    show ?thesis using b s i(1) i(2) [OF a] sent_as_declared [OF sent [OF map_of_SomeD [OF s]]] by (auto simp: unchanged_probe_def)
  qed
  have "case_evidence stage ingress egress index (?cs ! index)" if "index < length ?cs" for index
    using that cases by (intro case_faults_evidence) (simp add: in_set_enumerate_eq)
  with sides run through show ?thesis by blast
qed

lemma passed_stage_evidence_witness:
  "map_of congested_egress ([7], 1, 4, 0) \<noteq> None
     \<and> (\<exists>before. map_of congested_ingress ([7], 1, 4, 0) = Some before)
     \<and> case_evidence 1 congested_ingress congested_egress 1 (probe_cases default_profile ! 1)"
proof -
  have "\<exists>v. verify_stage default_profile 1 congested_ingress congested_ingress congested_egress = Some v \<and> sv_passed v"
    by (simp add: verify_stage_def congested_stage_clean)
  then obtain v where v: "verify_stage default_profile 1 congested_ingress congested_ingress congested_egress = Some v" "sv_passed v"
    by blast
  have out: "map_of congested_egress ([7], 1, 4, 0) \<noteq> None" and n: "1 < length (probe_cases default_profile)" by code_simp+
  with passed_stage_evidence [OF v] show ?thesis by blast
qed

end
