(* ===== verification/Install_Checks.thy ===== *)
theory Install_Checks
  imports Startup_Guard Time_Helper
begin

text \<open>
  install_checks.py: the read-only admission of an installation or an upgrade. What the checks read of the host (files,
  sysfs, the answers of apt, ip and systemctl) is a record; a query that fails is \<open>None\<close>. The result is the list of
  checks with their names, and everything else of the report that the installer uses.
\<close>

subsection \<open>Text\<close>

text \<open>The starts of the lines of a multi-line pattern, and a pattern of words that must follow.\<close>

fun after_breaks :: "text_points \<Rightarrow> text_points list" where
  "after_breaks [] = []"
| "after_breaks (c # cs) = (if c = 10 then cs # after_breaks cs else after_breaks cs)"

definition line_starts :: "text_points \<Rightarrow> text_points list" where
  "line_starts s = s # after_breaks s"

definition after_prefix :: "text_points \<Rightarrow> text_points \<Rightarrow> text_points option" where
  "after_prefix w s = (if take (length w) s = w then Some (drop (length w) s) else None)"

definition after_spaces :: "unicode \<Rightarrow> text_points \<Rightarrow> text_points option" where
  "after_spaces u s = (if s \<noteq> [] \<and> uc_space u (hd s) then Some (dropWhile (uc_space u) s) else None)"

subsection \<open>PCI apertures\<close>

definition IORESOURCE_MEM :: int where "IORESOURCE_MEM = 0x200"
definition BAR0_MIN_SIZE :: int where "BAR0_MIN_SIZE = 0x100000"

text \<open>\<^verbatim>\<open>int(text, 16)\<close> of an ASCII text.\<close>

fun grouped_digits :: "text_points \<Rightarrow> bool" where
  "grouped_digits [] \<longleftrightarrow> False"
| "grouped_digits [c] \<longleftrightarrow> hex_point c"
| "grouped_digits (c # d # s) \<longleftrightarrow> hex_point c \<and> (if d = 95 then grouped_digits s else grouped_digits (d # s))"

definition hex_int :: "text_points \<Rightarrow> int option" where
  "hex_int s = (let
       body = (if s \<noteq> [] \<and> (hd s = 43 \<or> hd s = 45) then tl s else s);
       marked = take 2 body = ascii ''0x'' \<or> take 2 body = ascii ''0X'';
       rest = (if marked then drop 2 body else body);
       digits = (if marked \<and> take 1 rest = [95] then tl rest else rest) in
     if \<not> grouped_digits digits then None
     else let n = int (text_value 16 (filter (\<lambda>c. c \<noteq> 95) digits)) in
       Some (if s \<noteq> [] \<and> hd s = 45 then - n else n))"

definition aperture_ok :: "unicode \<Rightarrow> text_points list \<Rightarrow> nat \<times> int \<Rightarrow> bool" where
  "aperture_ok u lines = (\<lambda>(index, minimum). if length lines \<le> index then False
     else case map hex_int (take 3 (text_words u (lines ! index))) of
       [Some start, Some stop, Some flags] \<Rightarrow>
         \<not> (start = 0 \<or> stop < start \<or> stop - start + 1 < minimum \<or> flags AND IORESOURCE_MEM = 0)
     | _ \<Rightarrow> False)"

definition required_pci_apertures :: "unicode \<Rightarrow> text_points option \<Rightarrow> bool" where
  "required_pci_apertures u resource = (case resource of
     None \<Rightarrow> False
   | Some text \<Rightarrow> list_all (aperture_ok u (split_lines text)) [(0, BAR0_MIN_SIZE), (4, 1)])"

subsection \<open>The links behind an interface\<close>

datatype topology_fault = TooLarge | MissingInterface

text \<open>The interfaces to visit with the next one first, and those seen. The last one found is visited first.\<close>

function visit_links :: "(string \<Rightarrow> string list option) \<Rightarrow> string list \<Rightarrow> string list \<Rightarrow> topology_fault + string list" where
  "visit_links links_of pending seen = (case pending of
     [] \<Rightarrow> Inr seen
   | name # rest \<Rightarrow>
       if name \<in> set seen then visit_links links_of rest seen
       else if 128 \<le> length seen then Inl TooLarge
       else case links_of name of
         None \<Rightarrow> Inl MissingInterface
       | Some links \<Rightarrow> visit_links links_of (rev links @ rest) (name # seen))"
  by pat_completeness auto
termination
  by (relation "measures [\<lambda>(links_of, pending, seen). 128 - length seen, \<lambda>(links_of, pending, seen). length pending]") auto

declare visit_links.simps [simp del]

definition network_dependencies :: "(string \<Rightarrow> string list option) \<Rightarrow> string \<Rightarrow> topology_fault + string list" where
  "network_dependencies links_of interface = visit_links links_of [interface] []"

subsection \<open>The host\<close>

record address_entry =
  ad_local :: "text_points option"
  ad_scope :: "text_points option"

record install_process =
  ip_name :: text_points
  ip_maps :: "text_points option"
  ip_descriptors :: "text_points list option"

record firmware_input =
  fw_lock :: "(int \<times> text_points) option"
  fw_link :: bool
  fw_file :: "(int \<times> text_points) option"

record install_host =
  ih_system :: string
  ih_machine :: string
  ih_kernel :: string
  ih_os_lines :: "text_points list"
  ih_headers :: bool
  ih_policy :: "text_points option"
  ih_root :: bool
  ih_python :: "nat \<times> nat"
  ih_systemd_dir :: bool
  ih_init :: text_points
  ih_efi :: bool
  ih_efi_variables :: "octet list option list"
  ih_board :: "inventory_host option"
  ih_resource :: "text_points option"
  ih_bound_functions :: "string list"
  ih_uio_nodes :: "(string \<times> bool) list"
  ih_vpd_digest :: text_points
  ih_sdk_inputs :: "bool option"
  ih_platform_link :: bool
  ih_platform_digest :: "text_points option"
  ih_firmware :: "firmware_input option"
  ih_interface :: string
  ih_management_ip :: text_points
  ih_addresses :: "string \<Rightarrow> address_entry list option"
  ih_asic_nets :: "string list"
  ih_lower :: "string \<Rightarrow> string list option"
  ih_on_board :: "string \<Rightarrow> bool"
  ih_attached :: "string \<Rightarrow> bool"
  ih_legacy :: "text_points option"
  ih_exists :: "string \<Rightarrow> bool"
  ih_processes :: "install_process list option"
  ih_free :: "string \<Rightarrow> int"
  ih_meminfo :: text_points

record admission_report =
  ar_checks :: "(string \<times> bool) list"
  ar_passed :: bool
  ar_profile :: "string option"
  ar_board :: "device_report option"
  ar_vpd :: text_points
  ar_driver_required :: bool

subsection \<open>Checks of the system\<close>

definition ascii_alnum :: "char \<Rightarrow> bool" where
  "ascii_alnum c = (let n = of_char c :: nat in 48 \<le> n \<and> n \<le> 57 \<or> 65 \<le> n \<and> n \<le> 90 \<or> 97 \<le> n \<and> n \<le> 122)"

definition kernel_ok :: "string \<Rightarrow> bool" where
  "kernel_ok k \<longleftrightarrow> take 5 k = ''6.12.'' \<and> digits_only (take 1 (drop 5 k))
     \<and> list_all (\<lambda>c. ascii_alnum c \<or> c \<in> set ''-+.'') (drop 5 k)"

text \<open>\<^verbatim>\<open>^\s*Candidate:\s+(?!\(none\))\S+\<close> and \<^verbatim>\<open>^MemTotal:\s+(\d+)\s+kB\<close> at the start of a line; the output of
  \<^verbatim>\<open>/proc/meminfo\<close> is ASCII.\<close>

definition candidate_line :: "unicode \<Rightarrow> text_points \<Rightarrow> bool" where
  "candidate_line u s = (case after_prefix (ascii ''Candidate:'') (dropWhile (uc_space u) s) of
     None \<Rightarrow> False
   | Some r \<Rightarrow> (case after_spaces u r of None \<Rightarrow> False | Some v \<Rightarrow> v \<noteq> [] \<and> take 6 v \<noteq> ascii ''(none)''))"

definition memory_line :: "unicode \<Rightarrow> text_points \<Rightarrow> nat option" where
  "memory_line u s = Option.bind (after_prefix (ascii ''MemTotal:'') s) (\<lambda>r. Option.bind (after_spaces u r) (\<lambda>v.
     let digits = takeWhile decimal_point v in if digits = [] then None
     else Option.bind (after_spaces u (drop (length digits) v)) (\<lambda>t.
       if take 2 t = ascii ''kB'' then Some (text_value 10 digits) else None)))"

definition memory_ok :: "unicode \<Rightarrow> text_points \<Rightarrow> bool" where
  "memory_ok u s = (case List.map_filter (memory_line u) (line_starts s) of [] \<Rightarrow> False | n # _ \<Rightarrow> 524288 \<le> int n)"

definition secure_boot_off :: "install_host \<Rightarrow> bool" where
  "secure_boot_off h \<longleftrightarrow> \<not> ih_efi h \<or> (case ih_efi_variables h of
     [Some raw] \<Rightarrow> 5 \<le> length raw \<and> raw ! 4 = 0 | _ \<Rightarrow> False)"

definition system_checks :: "unicode \<Rightarrow> bool \<Rightarrow> install_host \<Rightarrow> (string \<times> bool) list" where
  "system_checks u upgrading h =
     [(''debian13'', os_value (ih_os_lines h) ''ID'' = Some (ascii ''debian'') \<and> os_value (ih_os_lines h) ''VERSION_ID'' = Some (ascii ''13'')),
      (''kernel'', kernel_ok (ih_kernel h))]
   @ (if \<not> upgrading \<and> kernel_ok (ih_kernel h)
      then [(''kernel_headers'', ih_headers h \<or> (case ih_policy h of None \<Rightarrow> False | Some t \<Rightarrow> list_ex (candidate_line u) (line_starts t)))]
      else [])
   @ [(''root'', ih_root h),
      (''python'', 3 < fst (ih_python h) \<or> fst (ih_python h) = 3 \<and> 11 \<le> snd (ih_python h)),
      (''systemd'', ih_systemd_dir h \<and> ih_init h = ascii ''systemd''), (''secure_boot'', secure_boot_off h)]"

subsection \<open>Checks of the board and the local inputs\<close>

definition board_of :: "install_host \<Rightarrow> device_report option" where
  "board_of h = (case ih_board h of None \<Rightarrow> None
     | Some i \<Rightarrow> (case iv_devices (inventory i None) of [d] \<Rightarrow> Some d | _ \<Rightarrow> None))"

definition board_admitted :: "install_host \<Rightarrow> bool" where
  "board_admitted h = (case board_of h of None \<Rightarrow> False | Some d \<Rightarrow> dr_matched d \<and> dr_bdf d = PCI_BDF)"

definition profile_of :: "install_host \<Rightarrow> string option" where
  "profile_of h = (if board_admitted h then Option.bind (ih_board h) (\<lambda>i. iv_profile (inventory i None)) else None)"

definition driver_ok :: "install_host \<Rightarrow> bool" where
  "driver_ok h = (case ih_board h of None \<Rightarrow> True
     | Some i \<Rightarrow> (let cs = iv_checks (inventory i None) in
         map_of cs ''driver_version'' = Some True \<and> map_of cs ''uio_bound'' = Some True))"

definition uio_mapped :: "bool \<Rightarrow> install_host \<Rightarrow> bool" where
  "uio_mapped upgrading h \<longleftrightarrow> ih_uio_nodes h = [] \<and> \<not> upgrading \<or> ih_uio_nodes h = [(''uio0'', True)]"

text \<open>When the inventory fails there is one check, which fails, and no driver is asked for.\<close>

definition board_checks :: "unicode \<Rightarrow> bool \<Rightarrow> install_host \<Rightarrow> (string \<times> bool) list" where
  "board_checks u upgrading h = (if ih_board h = None then [(''board_identity'', False)]
     else [(''board_identity'', board_admitted h),
       (''pci_apertures'', board_admitted h \<and> required_pci_apertures u (ih_resource h)),
       (''driver_owner'', case board_of h of None \<Rightarrow> True | Some d \<Rightarrow> dr_driver d = None \<or> dr_driver d = Some ''fm10k'')]
     @ (if upgrading then [(''driver_runtime'', driver_ok h)] else [])
     @ [(''driver_exclusive'', list_all (\<lambda>b. b = PCI_BDF) (ih_bound_functions h)), (''uio_mapping'', uio_mapped upgrading h)])"

definition PLATFORM_DIGESTS :: "(string \<times> string) list" where
  "PLATFORM_DIGESTS =
     [(''sil001-hw4-b0'', ''38c481b5d8035df14bc517735cd8e1c1ba9936fdc512fd18c849878fe323da98''),
      (''sil001-hw5-a11'', ''8f5c1700c48984d539ff526f4a4ba18c814db27282de2afe33c90a2888c87d96'')]"

definition platform_ok :: "install_host \<Rightarrow> bool" where
  "platform_ok h = (case Option.bind (profile_of h) (map_of PLATFORM_DIGESTS) of
     None \<Rightarrow> False | Some digest \<Rightarrow> \<not> ih_platform_link h \<and> ih_platform_digest h = Some (ascii digest))"

definition firmware_ok :: "firmware_input \<Rightarrow> bool" where
  "firmware_ok f \<longleftrightarrow> fw_lock f \<noteq> None \<and> \<not> fw_link f \<and> fw_file f = fw_lock f"

definition input_checks :: "install_host \<Rightarrow> (string \<times> bool) list" where
  "input_checks h = [(''sdk'', ih_sdk_inputs h = Some True), (''platform'', platform_ok h)]
     @ (case ih_firmware h of None \<Rightarrow> [] | Some f \<Rightarrow> [(''eye_firmware'', firmware_ok f)])"

subsection \<open>Checks of the management network\<close>

definition v4_unusable :: "nat list \<Rightarrow> bool" where
  "v4_unusable os \<longleftrightarrow> os = [0, 0, 0, 0] \<or> hd os = 127 \<or> 224 \<le> hd os \<and> hd os \<le> 239 \<or> take 2 os = [169, 254]"

fun unusable_address :: "address \<Rightarrow> bool" where
  "unusable_address (V4 os) = v4_unusable os"
| "unusable_address (V6 hs) = (case mapped_v4 hs of
     Some os \<Rightarrow> v4_unusable os
   | None \<Rightarrow> list_all (\<lambda>h. h = 0) hs \<or> hs = [0, 0, 0, 0, 0, 0, 0, 1] \<or> hd hs div 256 = 255 \<or> hd hs div 64 = 0x3FA)"

definition interface_valid :: "string \<Rightarrow> bool" where
  "interface_valid s \<longleftrightarrow> s \<noteq> [] \<and> length s \<le> 15 \<and> ascii_alnum (hd s) \<and> list_all (\<lambda>c. ascii_alnum c \<or> c \<in> set ''_.-'') s"

text \<open>\<^verbatim>\<open>str\<close> of an address keeps its scope.\<close>

definition shown_address :: "text_points \<Rightarrow> address \<Rightarrow> text_points" where
  "shown_address s a = print_address a @ dropWhile (\<lambda>c. c \<noteq> 37) s"

definition independent :: "install_host \<Rightarrow> string list \<Rightarrow> bool" where
  "independent h links \<longleftrightarrow> list_all (\<lambda>n. n \<notin> set (ih_asic_nets h) \<and> \<not> ih_on_board h n) links"

text \<open>A query that fails ends the group with a check that fails.\<close>

fun asic_checks :: "install_host \<Rightarrow> string list \<Rightarrow> (string \<times> bool) list" where
  "asic_checks h [] = []"
| "asic_checks h (n # ns) = (case ih_addresses h n of
     None \<Rightarrow> [(''management'', False)]
   | Some es \<Rightarrow> (''asic_not_management_'' @ n, list_all (\<lambda>e. ad_scope e = Some (ascii ''link'')) es \<and> \<not> ih_attached h n) # asic_checks h ns)"

definition management_checks :: "bool \<Rightarrow> install_host \<Rightarrow> (string \<times> bool) list" where
  "management_checks upgrading h = (case parse_address (ih_management_ip h) of
     None \<Rightarrow> [(''management'', False)]
   | Some a \<Rightarrow>
       if \<not> interface_valid (ih_interface h) \<or> unusable_address a then [(''management'', False)]
       else (case ih_addresses h (ih_interface h) of
         None \<Rightarrow> [(''management'', False)]
       | Some es \<Rightarrow>
           if list_ex (\<lambda>e. ad_local e = None) es then [(''management'', False)]
           else (case network_dependencies (ih_lower h) (ih_interface h) of
             Inl _ \<Rightarrow> [(''management'', False)]
           | Inr links \<Rightarrow>
               (''management'', Some (shown_address (ih_management_ip h) a) \<in> ad_local ` set es \<and> independent h links)
               # (if upgrading then [] else asic_checks h (ih_asic_nets h)))))"

subsection \<open>Checks of a fresh host\<close>

definition OCCUPIED_PATHS :: "string list" where
  "OCCUPIED_PATHS = [''opt/fm10k-controlpanel/native'', ''var/lib/fm10k-controlpanel-native'',
     ''etc/fm10k-controlpanel/native.env'', ''var/lib/fm10k-controlpanel/accounts.json'',
     ''var/lib/fm10k-controlpanel-updates/installation.json'', ''etc/fm10k-controlpanel/tls'',
     ''etc/systemd/system/fm10k-switch.target'', ''etc/systemd/system/fm10k-switchd.service'',
     ''etc/nginx/sites-available/fm10k-controlpanel'', ''etc/nginx/sites-enabled/fm10k-controlpanel'']"

definition OWNER_NAMES :: "text_points list" where
  "OWNER_NAMES = map ascii [''switchd'', ''TestPoint'', ''testpoint'', ''rrcd'', ''netfabagent'', ''hmonagent'']"

definition maps_asic :: "text_points \<Rightarrow> bool" where
  "maps_asic t \<longleftrightarrow> has_bytes (ascii ''/dev/uio0'') t \<or> has_bytes (ascii (''/'' @ PCI_BDF @ ''/resource'')) t
     \<or> has_bytes (ascii ''libFocalpointSDK.so'') t"

definition process_mappings :: "install_process \<Rightarrow> text_points" where
  "process_mappings p = (case ip_maps p of None \<Rightarrow> [] | Some t \<Rightarrow> t) @ [10]
     @ (case ip_descriptors p of None \<Rightarrow> [] | Some ds \<Rightarrow> join_points 10 ds)"

definition asic_owner :: "install_process \<Rightarrow> bool" where
  "asic_owner p \<longleftrightarrow> ip_name p \<in> set OWNER_NAMES \<or> maps_asic (process_mappings p)"

definition fresh_checks :: "bool \<Rightarrow> bool \<Rightarrow> install_host \<Rightarrow> (string \<times> bool) list" where
  "fresh_checks prepared driver_required h =
     [(''fresh_install'', \<not> list_ex (ih_exists h) OCCUPIED_PATHS)]
   @ (if prepared then [] else [(''dependency_prefix'', \<not> ih_exists h ''opt/netlab-deps/libyang2'')])
   @ (if driver_required then [(''driver_source'', \<not> ih_exists h ''usr/src/fm10k-uio-6.12.101-ies2'')] else [])
   @ [(''asic_owner'', case ih_processes h of None \<Rightarrow> False | Some ps \<Rightarrow> \<not> list_ex asic_owner ps)]"

definition MIN_FREE :: int where "MIN_FREE = 4294967296"

definition legacy_check :: "install_host \<Rightarrow> (string \<times> bool) list" where
  "legacy_check h = [(''legacy_owner'', case ih_legacy h of None \<Rightarrow> False
     | Some t \<Rightarrow> \<not> has_bytes (ascii ''LoadState=loaded'') t \<and> \<not> has_bytes (ascii ''ActiveState=active'') t)]"

definition resource_checks :: "unicode \<Rightarrow> install_host \<Rightarrow> (string \<times> bool) list" where
  "resource_checks u h = map (\<lambda>mount. (''disk_'' @ mount, MIN_FREE \<le> ih_free h mount)) [''opt'', ''var'']
     @ [(''memory'', memory_ok u (ih_meminfo h))]"

subsection \<open>Admission\<close>

text \<open>Off Linux or another architecture nothing more is looked at.\<close>

definition install_preflight :: "unicode \<Rightarrow> bool \<Rightarrow> bool \<Rightarrow> install_host \<Rightarrow> admission_report" where
  "install_preflight u upgrading prepared h = (let linux = (ih_system h = ''Linux'' \<and> ih_machine h = ''x86_64'') in
     if \<not> linux then \<lparr>ar_checks = [(''linux_amd64'', False)], ar_passed = False, ar_profile = None, ar_board = None,
       ar_vpd = [], ar_driver_required = False\<rparr>
     else let driver_required = \<not> driver_ok h;
       checks = (''linux_amd64'', True) # system_checks u upgrading h @ board_checks u upgrading h @ input_checks h
         @ management_checks upgrading h @ legacy_check h @ (if upgrading then [] else fresh_checks prepared driver_required h)
         @ resource_checks u h in
       \<lparr>ar_checks = checks, ar_passed = list_all snd checks, ar_profile = profile_of h, ar_board = board_of h,
        ar_vpd = ih_vpd_digest h, ar_driver_required = driver_required\<rparr>)"

end
