(* ===== verification/Boot_Platform.thy ===== *)
theory Boot_Platform
  imports Install_Checks
begin

text \<open>
  platform_config.py: the platform file of the SDK and the inventory of netlab, generated from a configuration. The
  reference file is a text; SHA-256 is a parameter, and so is what the patterns take from the Unicode tables.
\<close>

subsection \<open>Patterns\<close>

record classes =
  cl_unicode :: unicode
  cl_word :: "int \<Rightarrow> bool"
  cl_digits :: "text_points \<Rightarrow> nat"

definition blank :: "classes \<Rightarrow> int \<Rightarrow> bool" where "blank k = uc_space (cl_unicode k)"

definition PREFIX :: text_points where "PREFIX = ascii ''api.platform.config.switch.0.portIndex.''"

text \<open>A setting of a port: port as written, name, kind and value. White space alone after the kind is a value of its
  last character when there is more than one.\<close>

type_synonym setting = "text_points \<times> text_points"

definition strip_right :: "(int \<Rightarrow> bool) \<Rightarrow> text_points \<Rightarrow> text_points" where
  "strip_right p s = rev (dropWhile p (rev s))"

definition setting_value :: "classes \<Rightarrow> text_points \<Rightarrow> text_points option" where
  "setting_value k s = (let gap = takeWhile (blank k) s; rest = dropWhile (blank k) s in
     if gap = [] then None
     else if rest \<noteq> [] then Some (strip_right (blank k) rest)
     else if 2 \<le> length gap then Some [List.last gap] else None)"

definition port_setting :: "classes \<Rightarrow> text_points \<Rightarrow> (text_points \<times> text_points \<times> setting) option" where
  "port_setting k line = (case after_prefix PREFIX line of None \<Rightarrow> None | Some r \<Rightarrow>
     (let port = takeWhile (uc_digit (cl_unicode k)) r; dot = drop (length port) r;
          name = takeWhile (\<lambda>c. \<not> blank k c) (tl dot); gap = drop (length name) (tl dot);
          kind = takeWhile (cl_word k) (dropWhile (blank k) gap); tail = drop (length kind) (dropWhile (blank k) gap) in
      if port = [] \<or> take 1 dot \<noteq> [46] \<or> name = [] \<or> gap = [] \<or> kind = [] then None
      else map_option (\<lambda>v. (port, name, kind, v)) (setting_value k tail)))"

definition space_after :: "classes \<Rightarrow> string \<Rightarrow> text_points \<Rightarrow> bool" where
  "space_after k w line \<longleftrightarrow> (case after_prefix (ascii w) line of None \<Rightarrow> False | Some r \<Rightarrow> r \<noteq> [] \<and> blank k (hd r))"

text \<open>\<^verbatim>\<open>\s*$\<close> of a multi-line pattern: what is left after the longest match.\<close>

definition after_line_end :: "classes \<Rightarrow> text_points \<Rightarrow> text_points option" where
  "after_line_end k s = (let gap = takeWhile (blank k) s; rest = dropWhile (blank k) s in
     if rest = [] then Some []
     else if 10 \<in> set gap then Some (10 # rev (takeWhile (\<lambda>c. c \<noteq> 10) (rev gap)) @ rest) else None)"

text \<open>Matches of a pattern that begins at the start of a line, from left to right; a match is not empty.\<close>

function find_lines :: "(text_points \<Rightarrow> ('a \<times> text_points) option) \<Rightarrow> bool \<Rightarrow> text_points \<Rightarrow> 'a list" where
  "find_lines m start s = (case s of [] \<Rightarrow> []
     | c # cs \<Rightarrow> (case if start then m s else None of
         Some (x, rest) \<Rightarrow> x # (if length rest < length s then find_lines m False rest else [])
       | None \<Rightarrow> find_lines m (c = 10) cs))"
  by pat_completeness auto
termination
  by (relation "measure (\<lambda>(m, start, s). length s)") auto

declare find_lines.simps [simp del]

function replace_lines :: "(text_points \<Rightarrow> (text_points \<times> text_points) option) \<Rightarrow> bool \<Rightarrow> text_points \<Rightarrow> text_points \<times> nat" where
  "replace_lines m start s = (case s of [] \<Rightarrow> ([], 0)
     | c # cs \<Rightarrow> (case if start then m s else None of
         Some (x, rest) \<Rightarrow> if length rest < length s
           then (case replace_lines m False rest of (t, n) \<Rightarrow> (x @ t, Suc n)) else (x @ rest, 1)
       | None \<Rightarrow> (case replace_lines m (c = 10) cs of (t, n) \<Rightarrow> (c # t, n))))"
  by pat_completeness auto
termination
  by (relation "measure (\<lambda>(m, start, s). length s)") auto

declare replace_lines.simps [simp del]

definition polarity_match :: "classes \<Rightarrow> text_points \<Rightarrow> (setting \<times> text_points) option" where
  "polarity_match k s =
     Option.bind (after_prefix (ascii ''api.platform.config.switch.0.port.default.lanePolarity'') s) (\<lambda>r.
     Option.bind (after_spaces (cl_unicode k) r) (\<lambda>r. Option.bind (after_prefix (ascii ''text'') r) (\<lambda>r.
     Option.bind (after_spaces (cl_unicode k) r) (\<lambda>r. Option.bind (after_prefix (ascii ''INVERT_'') r) (\<lambda>r.
       case List.map_filter (\<lambda>w. Option.bind (after_prefix (ascii w) r) (\<lambda>t.
            map_option (\<lambda>rest. ((ascii ''text'', ascii (''INVERT_'' @ w)), rest)) (after_line_end k t)))
          [''NONE'', ''RX'', ''TX'', ''RX_TX''] of [] \<Rightarrow> None | x # _ \<Rightarrow> Some x)))))"

definition number_match :: "classes \<Rightarrow> string \<Rightarrow> int \<Rightarrow> text_points \<Rightarrow> (text_points \<times> text_points) option" where
  "number_match k name v s =
     Option.bind (after_prefix (ascii (''api.platform.config.switch.0.'' @ name)) s) (\<lambda>r.
     Option.bind (after_spaces (cl_unicode k) r) (\<lambda>r. Option.bind (after_prefix (ascii ''int'') r) (\<lambda>r.
     Option.bind (after_spaces (cl_unicode k) r) (\<lambda>digits. let n = takeWhile (uc_digit (cl_unicode k)) digits in
       if n = [] then None
       else map_option (\<lambda>rest. (take (length s - length digits) s @ ascii (decimal_int v), rest))
         (after_line_end k (drop (length n) digits))))))"

subsection \<open>The reference\<close>

datatype render_fault = WrongReference | LongNumber | NotSil001 | DuplicatePolarity | InvalidEntry string | MissingGroup
| MissingPolarity int int | BadMac | ZeroMac | BadSerial

type_synonym port_values = "(nat \<times> (text_points \<times> setting) list) list"

fun read_settings :: "classes \<Rightarrow> text_points list \<Rightarrow> port_values \<Rightarrow> render_fault + port_values" where
  "read_settings k [] vs = Inr vs"
| "read_settings k (l # ls) vs = (case port_setting k l of
     None \<Rightarrow> read_settings k ls vs
   | Some (port, name, e) \<Rightarrow>
       if 4300 < length port then Inl LongNumber
       else let n = cl_digits k port; d = (case map_of vs n of None \<Rightarrow> [] | Some d \<Rightarrow> d) in
         read_settings k ls (dict_set vs n (dict_set d name e)))"

definition IES432_UNSUPPORTED_PROPERTIES :: "text_points list" where
  "IES432_UNSUPPORTED_PROPERTIES = map ascii [''api.mailbox.ignoreMbxMacUpdates'', ''api.event.countLogicalPortEvents'']"

definition kept_line :: "classes \<Rightarrow> text_points \<Rightarrow> bool" where
  "kept_line k line \<longleftrightarrow> (case port_setting k line of None \<Rightarrow> True | Some (port, _) \<Rightarrow> cl_digits k port = 0)
     \<and> \<not> list_ex (\<lambda>w. space_after k w line) [''api.perLagManagement'', ''api.platform.config.switch.0.fci'',
         ''api.FM10000.wmSelect'', ''api.FM10000.cmPauseBufferBytes'']
     \<and> (case text_words (cl_unicode k) line of [] \<Rightarrow> True | w # _ \<Rightarrow> w \<notin> set IES432_UNSUPPORTED_PROPERTIES)"

definition set_number :: "classes \<Rightarrow> text_points \<Rightarrow> string \<times> int \<Rightarrow> render_fault + text_points" where
  "set_number k s = (\<lambda>(name, v). case replace_lines (number_match k name v) True s of (t, n) \<Rightarrow>
     if n \<noteq> 1 then Inl (InvalidEntry name) else Inr t)"

definition rendered_head :: "classes \<Rightarrow> text_points \<Rightarrow> render_fault + text_points" where
  "rendered_head k base = (let kept = strip_right (blank k) (join_points 10 (filter (kept_line k) (split_lines base))) in
     ebind (set_number k kept (''numPorts'', 30)) (\<lambda>t. set_number k t (''cpuPort'', 27)))"

subsection \<open>The settings of the ports\<close>

definition sdk_mode :: "switch_configuration \<Rightarrow> int \<Rightarrow> nat \<Rightarrow> render_fault + string" where
  "sdk_mode c epl lane = (case find (\<lambda>g. pg_epl g = epl) (sc_groups c) of
     None \<Rightarrow> Inl MissingGroup
   | Some g \<Rightarrow> Inr (case pg_mode g of
       Split \<Rightarrow> decimal_int (pg_lane_speeds g ! lane) @ ''GBase-SR''
     | Mode100G \<Rightarrow> if lane = 0 then ''100GBase-SR4'' else ''DISABLED''
     | Mode40G \<Rightarrow> if lane = 0 then ''40GBase-SR4'' else ''DISABLED''))"

type_synonym port_item = "int \<times> text_points \<times> setting"

definition text_item :: "int \<Rightarrow> string \<Rightarrow> string \<Rightarrow> string \<Rightarrow> port_item" where
  "text_item port name kind v = (port, ascii name, (ascii kind, ascii v))"

definition setting_line :: "port_item \<Rightarrow> text_points" where
  "setting_line = (\<lambda>(port, name, kind, v). PREFIX @ ascii (decimal_int port) @ [46] @ name @ [32] @ kind @ [32] @ v)"

text \<open>\<^verbatim>\<open>0x{(lane << 8) | index:03x}\<close>\<close>

definition resource_text :: "nat \<Rightarrow> int \<Rightarrow> string" where
  "resource_text lane index = (let t = map char_of (base_text 16 (nat (push_bit 8 (int lane) OR index))) in
     ''0x'' @ replicate (3 - length t) CHR ''0'' @ t)"

definition lane_text :: "nat \<Rightarrow> string" where "lane_text lane = decimal lane"

definition slot_items :: "(text_points \<times> setting) list \<Rightarrow> string \<Rightarrow> int \<Rightarrow> int \<Rightarrow> physical \<Rightarrow> nat \<Rightarrow> port_item list" where
  "slot_items source mode index epl p lane = (let number = ph_base p + int lane in
     [text_item number ''portMapping'' ''text'' (CHR 0x22 # ''LOG='' @ decimal_int number @ '' EPL='' @ decimal_int epl
        @ '' LANE='' @ lane_text lane @ [CHR 0x22]),
      text_item number ''interfaceType'' ''text'' (''QSFP_LANE'' @ lane_text lane),
      text_item number ''dfeMode'' ''text'' ''ONE_SHOT'']
   @ (case map_of source (ascii ''linkOptimMode'') of None \<Rightarrow> [] | Some e \<Rightarrow> [(number, ascii ''linkOptimMode'', e)])
   @ [text_item number ''speed'' ''int'' (if lane = 0 then ''100000'' else ''25000''),
      text_item number ''ethernetMode'' ''text'' mode,
      text_item number ''capability'' ''text'' ''LAG,ROUTE,10G,25G,40G,100G'',
      text_item number ''hwResourceId'' ''int'' (resource_text lane index)])"

definition LANE_NAMES :: "string list" where
  "LANE_NAMES = [''lanePolarity'', ''rxTermination'', ''preCursor25GOptical'', ''cursor25GOptical'', ''postCursor25GOptical'']"

definition lane_key :: "nat \<Rightarrow> string \<Rightarrow> text_points" where
  "lane_key lane name = ascii (''lane.'' @ lane_text lane @ ''.'' @ name)"

definition lane_entry :: "(text_points \<times> setting) list \<Rightarrow> setting option \<Rightarrow> nat \<Rightarrow> string \<Rightarrow> setting option" where
  "lane_entry source polarity lane name = (case map_of source (lane_key lane name) of
     Some e \<Rightarrow> Some e | None \<Rightarrow> if name = ''lanePolarity'' then polarity else None)"

text \<open>The physical settings of the lanes belong to the first slot.\<close>

definition lane_items :: "(text_points \<times> setting) list \<Rightarrow> setting option \<Rightarrow> physical \<Rightarrow> nat \<Rightarrow> port_item list" where
  "lane_items source polarity p lane = List.map_filter (\<lambda>name.
     map_option (\<lambda>e. (ph_base p, lane_key lane name, e)) (lane_entry source polarity lane name)) LANE_NAMES"

fun all_results :: "('x \<Rightarrow> 'e + 'y) \<Rightarrow> 'x list \<Rightarrow> 'e + 'y list" where
  "all_results f [] = Inr []"
| "all_results f (x # xs) = ebind (f x) (\<lambda>y. ebind (all_results f xs) (\<lambda>ys. Inr (y # ys)))"

definition LANES :: "nat list" where "LANES = [0, 1, 2, 3]"

definition block_items ::
  "switch_configuration \<Rightarrow> port_values \<Rightarrow> setting option \<Rightarrow> int \<times> int \<times> physical \<Rightarrow> render_fault + port_item list" where
  "block_items c values polarity = (\<lambda>(index, epl, p).
     let source = (case map_of values (nat (index + 1)) of None \<Rightarrow> [] | Some d \<Rightarrow> d) in
     ebind (all_results (\<lambda>lane. map_sum id (\<lambda>mode. slot_items source mode index epl p lane) (sdk_mode c epl lane)) LANES) (\<lambda>slots.
     ebind (all_results (\<lambda>lane. if lane_entry source polarity lane ''lanePolarity'' = None then Inl (MissingPolarity epl (int lane))
       else Inr (lane_items source polarity p lane)) LANES) (\<lambda>lanes. Inr (concat slots @ concat lanes))))"

definition block_title :: "int \<times> physical \<Rightarrow> text_points" where
  "block_title = (\<lambda>(epl, p). ascii (''# OBT'' @ decimal_int (ph_mpo p) @ '', EPL'' @ decimal_int epl @ '', fixed slots ''
     @ decimal_int (ph_base p) @ ''..'' @ decimal_int (ph_base p + 3)))"

definition internal_items :: "port_item list" where
  "internal_items = concat (map (\<lambda>(port, mapping, rate).
     [text_item port ''portMapping'' ''text'' (CHR 0x22 # ''LOG='' @ decimal_int port @ '' '' @ mapping @ [CHR 0x22]),
      text_item port ''speed'' ''int'' (decimal_int rate)])
     [(25, ''PCIE=0'', 0), (26, ''PCIE=2'', 0), (27, ''PCIE=4'', 10000), (28, ''TE=0'', 0), (29, ''TE=1'', 0)])"

definition fixed_lines :: "text_points list" where
  "fixed_lines = map ascii
     ['''', ''# Generated from configd; edit intent through its transaction interface.'',
      ''# IES 4.3.2 compatibility: omit unsupported ignoreMbxMacUpdates/countLogicalPortEvents.'',
      ''# The SDK hardcodes OBT setup to logical ports 1/4. Both are on MPO1 in this inventory.'',
      ''# switchd initializes each physical mux with ports closed and verified readback.'',
      ''api.platform.config.switch.0.fci text off'', ''api.perLagManagement bool true'',
      ''# Static PFC buffer envelope; enabling PFC remains a configd transaction.'',
      ''api.FM10000.wmSelect text lossy_lossless'', ''api.FM10000.cmPauseBufferBytes int 49152'']"

text \<open>The generated part as lines, after the lines of the reference that are kept.\<close>

definition generated_lines :: "switch_configuration \<Rightarrow> port_values \<Rightarrow> setting option \<Rightarrow> render_fault + text_points list" where
  "generated_lines c values polarity =
     ebind (all_results (\<lambda>(index, epl, p). map_sum id (\<lambda>items. [] # block_title (epl, p) # map setting_line items)
         (block_items c values polarity (index, epl, p))) (enumerate_int PHYSICAL)) (\<lambda>blocks.
       Inr (fixed_lines @ concat blocks @ map setting_line internal_items))"

definition render_sdk_platform ::
  "classes \<Rightarrow> (text_points \<Rightarrow> text_points) \<Rightarrow> text_points \<Rightarrow> switch_configuration \<Rightarrow> render_fault + text_points" where
  "render_sdk_platform k digest base c =
     (if Some (digest base) \<noteq> map_option ascii (map_of PLATFORM_DIGESTS (profile_name (sc_profile c))) then Inl WrongReference
      else ebind (read_settings k (split_lines base) []) (\<lambda>values.
        if \<not> has_bytes (ascii ''api.platform.config.platformName text sil001'') base then Inl NotSil001
        else let polarities = find_lines (polarity_match k) True base in
          if 1 < length polarities then Inl DuplicatePolarity
          else ebind (rendered_head k base) (\<lambda>head.
            ebind (generated_lines c values (case polarities of [] \<Rightarrow> None | e # _ \<Rightarrow> Some e)) (\<lambda>lines.
              Inr (join_points 10 (head # lines) @ [10])))))"

subsection \<open>The inventory of netlab\<close>

definition mac_ok :: "text_points \<Rightarrow> bool" where
  "mac_ok s \<longleftrightarrow> (let parts = split_points 58 s in length parts = 6 \<and> list_all (\<lambda>w. length w = 2 \<and> list_all hex_point w) parts
     \<and> even (text_value 16 (take 2 s)))"

definition lower_point :: "int \<Rightarrow> int" where
  "lower_point c = (if 65 \<le> c \<and> c \<le> 90 then c + 32 else c)"

definition serial_ok :: "text_points \<Rightarrow> bool" where
  "serial_ok s \<longleftrightarrow> s \<noteq> [] \<and> length s \<le> 63
     \<and> list_all (\<lambda>c. 65 \<le> c \<and> c \<le> 90 \<or> 97 \<le> c \<and> c \<le> 122 \<or> decimal_point c \<or> c = 95 \<or> c = 45) s"

definition profile_head :: "string \<Rightarrow> text_points \<Rightarrow> text_points \<Rightarrow> text_points list" where
  "profile_head profile serial mac =
     [ascii ''# Generated boot inventory. Runtime topology changes are owned by switchd/configd.'',
      ascii (''platform model=FM10840 chassis-name='' @ profile @ '' serial='') @ serial @ ascii ('' system-name=FM10K ''
        @ ''system-description='' @ CHR 0x22 # ''FM10840 L2 Control Panel'' @ CHR 0x22 # '' system-mac='') @ map lower_point mac
        @ ascii ('' max-ae=64 rstp-bridge-priority=32768 rstp-hello-sec=2 rstp-bpdu-stale-sec=180 ''
        @ ''lacp-system-priority=32768 lacp-port-priority=32768 lacp-ttl-sec=90''),
      ascii (''board model=PE31625G24DiRA-MPS asic=FM10840 fci-count=2 i2c-bus=0 mux-address=0x58 ''
        @ ''cpld-ram-address=0x59 reset-gpio-address=0x64 fci0-mux=0x01 fci1-mux=0x02 environment-mux=0x04 power-mux=0x08 ''
        @ ''shared-memory-bytes=4194304 tcam-entries=32768 mac-nexthop-entries=16384''),
      ascii ''switch index=0 number=0 uio-dev=/dev/uio0 cpu-port=27 management-pep=4'',
      ascii (''ffu ipv4-uc-first=-1 ipv4-uc-last=-1 ipv4-mc-first=-1 ipv4-mc-last=-1 ipv6-uc-first=-1 ipv6-uc-last=-1 ''
        @ ''ipv6-mc-first=-1 ipv6-mc-last=-1 acl-first=0 acl-last=31 cvlan-first=-1 cvlan-last=-1 ''
        @ ''bst-routing-first=-1 bst-routing-last=-1'')]"

definition slot_lines :: "switch_configuration \<Rightarrow> int \<times> int \<times> physical \<Rightarrow> nat \<Rightarrow> render_fault + text_points list" where
  "slot_lines c = (\<lambda>(index, epl, p) lane. map_sum id (\<lambda>mode.
     let resource = decimal_int (push_bit 8 (int lane) OR index); number = ph_base p + int lane;
         d = decimal_int; rate = decimal_int (speed c number * 1000000000) in
     [ascii (''xcvr resource-id='' @ resource @ '' type=QSFP i2c-bus=switchI2C mux-index=0 mux-value='' @ d (ph_mpo p)
        @ '' state-gpio-index=0 state-gpio-base='' @ d (ph_mpo p - 1)),
      ascii (''port name=et-0/0/'' @ d (number - 1) @ '' interface-id='' @ d (1000 + number) @ '' media=et fpc=0 pic=0 port='' @ d (number - 1)
        @ '' switch-index=0 port-index='' @ d number @ '' logical-port='' @ d number @ '' front-panel-port='' @ d number
        @ '' role=external interface-type=QSFP_LANE'' @ lane_text lane @ '' ethernet-mode='' @ mode
        @ '' capabilities=LAG,10G,25G,40G,100G hw-resource-id='' @ resource @ '' epl-port='' @ d epl @ '' lane='' @ lane_text lane
        @ '' default-speed='' @ rate @ '' line-rate='' @ rate @ '' scheduler-speed='' @ rate
        @ '' supported-speeds=10000000000,25000000000,40000000000,100000000000 ''
        @ ''rstp-cost=4 flags=external,trunk,lldp-default,rstp,lacp'')]) (sdk_mode c epl lane))"

definition internal_line :: "int \<times> string \<times> int \<times> string \<times> int \<Rightarrow> text_points" where
  "internal_line = (\<lambda>(number, name, pcie, role, rate). let d = decimal_int in
     ascii (''port name='' @ name @ '' interface-id='' @ d (2000 + number) @ '' media=et fpc=0 pic=0 port='' @ d (number - 1)
       @ '' switch-index=0 port-index='' @ d number @ '' logical-port='' @ d number @ '' front-panel-port='' @ d number
       @ '' role='' @ role @ '' pcie-port='' @ d pcie @ '' default-speed='' @ d rate @ '' line-rate='' @ d rate
       @ '' scheduler-speed='' @ d rate @ '' flags='' @ (if number = 27 then ''hidden,cpu-control'' else ''hidden'')))"

definition render_netlab_profile :: "switch_configuration \<Rightarrow> text_points \<Rightarrow> text_points \<Rightarrow> render_fault + text_points" where
  "render_netlab_profile c mac serial =
     (if \<not> mac_ok mac then Inl BadMac
      else if map lower_point mac = ascii ''00:00:00:00:00:00'' then Inl ZeroMac
      else if \<not> serial_ok serial then Inl BadSerial
      else ebind (all_results (\<lambda>x. map_sum id concat (all_results (slot_lines c x) LANES)) (enumerate_int PHYSICAL)) (\<lambda>slots.
        Inr (join_points 10 (profile_head (profile_name (sc_profile c)) serial mac @ concat slots
          @ map internal_line [(25, ''pcie0'', 0, ''internal'', 0), (26, ''pcie2'', 2, ''internal'', 0),
              (27, ''cpu0'', 4, ''cpu-control'', 10000000000)]) @ [10])))"

end
