(* ===== verification/Boot_Properties.thy ===== *)
theory Boot_Properties
  imports Boot_Platform Startup_Properties
begin

text \<open>
  The generated platform file, read back by the reader of the reference: every slot has the mode and resource of the
  configuration, and every lane a polarity from the reference.
\<close>

subsection \<open>A generated line\<close>

text \<open>What the tables say of ASCII, and that no word has white space.\<close>

definition text_rules :: "classes \<Rightarrow> bool" where
  "text_rules k \<longleftrightarrow> (\<forall>c. cl_word k c \<longrightarrow> \<not> blank k c) \<and> blank k 32 \<and> (\<forall>c. 33 \<le> c \<and> c \<le> 126 \<longrightarrow> \<not> blank k c)
     \<and> (\<forall>c. decimal_point c \<or> 65 \<le> c \<and> c \<le> 90 \<or> 97 \<le> c \<and> c \<le> 122 \<longrightarrow> cl_word k c)
     \<and> (\<forall>c. 0 \<le> c \<and> c \<le> 127 \<longrightarrow> (uc_digit (cl_unicode k) c \<longleftrightarrow> decimal_point c))
     \<and> (\<forall>s. s \<noteq> [] \<and> list_all decimal_point s \<longrightarrow> cl_digits k s = text_value 10 s)"

definition good_setting :: "classes \<Rightarrow> setting \<Rightarrow> bool" where
  "good_setting k = (\<lambda>(kind, v). kind \<noteq> [] \<and> list_all (cl_word k) kind \<and> setting_value k (32 # v) = Some v)"

definition good_item :: "classes \<Rightarrow> port_item \<Rightarrow> bool" where
  "good_item k = (\<lambda>(port, name, e). 0 \<le> port \<and> port < 100 \<and> name \<noteq> [] \<and> list_all (\<lambda>c. \<not> blank k c) name \<and> good_setting k e)"

lemma base_text_digits: "list_all decimal_point (base_text 10 n)"
  by (auto simp: list_all_iff decimal_point_def digit_point_def dest!: base_text_points [rotated])

lemma span_all: "list_all p w \<Longrightarrow> (s = [] \<or> \<not> p (hd s)) \<Longrightarrow> takeWhile p (w @ s) = w \<and> dropWhile p (w @ s) = s"
  by (induction w) (cases s; simp)+

lemma strip_right_last: "w \<noteq> [] \<Longrightarrow> \<not> p (List.last w) \<Longrightarrow> strip_right p w = w"
  by (cases w rule: rev_cases) (simp_all add: strip_right_def)

lemma port_setting_line:
  assumes k: "text_rules k" and item: "good_item k (port, name, kind, v)"
  shows "port_setting k (setting_line (port, name, kind, v)) = Some (base_text 10 (nat port), name, kind, v)"
proof -
  let ?rest = "46 # name @ 32 # kind @ 32 # v"
  from item have i: "0 \<le> port" "name \<noteq> []" "list_all (\<lambda>c. \<not> blank k c) name" "kind \<noteq> []" "list_all (cl_word k) kind"
    "setting_value k (32 # v) = Some v" by (auto simp: good_item_def good_setting_def)
  have digits: "list_all (uc_digit (cl_unicode k)) (base_text 10 (nat port))"
    using base_text_digits [of "nat port"] k by (auto simp: list_all_iff text_rules_def decimal_point_def)
  have "\<not> uc_digit (cl_unicode k) 46" using k by (simp add: text_rules_def decimal_point_def)
  with span_all [OF digits, of ?rest]
  have port: "takeWhile (uc_digit (cl_unicode k)) (base_text 10 (nat port) @ ?rest) = base_text 10 (nat port)" by simp
  have space: "blank k 32" "\<not> cl_word k 32" using k by (auto simp: text_rules_def)
  have name: "takeWhile (\<lambda>c. \<not> blank k c) (name @ 32 # kind @ 32 # v) = name"
    using span_all [OF i(3), of "32 # kind @ 32 # v"] space by simp
  have "\<not> blank k (hd kind)" using i(4,5) k by (cases kind) (auto simp: text_rules_def)
  then have gap: "dropWhile (blank k) (32 # kind @ 32 # v) = kind @ 32 # v" using i(4) space by (cases kind) auto
  have kind: "takeWhile (cl_word k) (kind @ 32 # v) = kind" using span_all [OF i(5), of "32 # v"] space by simp
  have line: "after_prefix PREFIX (setting_line (port, name, kind, v)) = Some (base_text 10 (nat port) @ ?rest)"
    using i(1) by (simp add: after_prefix_def setting_line_def decimal_int_def ascii_decimal)
  show ?thesis unfolding port_setting_def line option.case Let_def port
    using i name gap kind by simp
qed

lemma setting_value_again:
  assumes "text_rules k" and "setting_value k s = Some v"
  shows "setting_value k (32 # v) = Some v"
proof -
  have space: "blank k 32" using assms(1) by (simp add: text_rules_def)
  let ?rest = "dropWhile (blank k) s"
  show ?thesis
  proof (cases "?rest = []")
    case True
    with assms(2) have "v = [List.last (takeWhile (blank k) s)]" "takeWhile (blank k) s \<noteq> []"
      by (auto simp: setting_value_def Let_def split: if_split_asm)
    moreover from this(2) have "blank k (List.last (takeWhile (blank k) s))"
      by (meson last_in_set set_takeWhileD)
    ultimately show ?thesis using space by (simp add: setting_value_def)
  next
    case False
    then have h: "\<not> blank k (hd ?rest)" by (rule hd_dropWhile)
    from False assms(2) have v: "v = strip_right (blank k) ?rest"
      by (auto simp: setting_value_def Let_def split: if_split_asm)
    obtain c cs where r: "?rest = c # cs" using False by (cases ?rest) auto
    have "rev v = dropWhile (blank k) (rev cs @ [c])" using v r by (simp add: strip_right_def)
    moreover have "\<not> blank k c" using h r by simp
    ultimately have "rev v \<noteq> []" "\<not> blank k (hd (rev v))" "List.last (rev v) = c"
      using dropWhile_eq_Nil_conv [of "blank k" "rev cs @ [c]"] hd_dropWhile [of "blank k" "rev cs @ [c]"]
      by (auto simp: dropWhile_append last_appendR)
    then have "v \<noteq> []" "hd v = c" "\<not> blank k (List.last v)" by (auto simp: last_rev hd_rev)
    with \<open>\<not> blank k c\<close> space show ?thesis
      by (cases v) (auto simp: setting_value_def strip_right_last)
  qed
qed

lemma port_setting_good:
  assumes "text_rules k" and "port_setting k line = Some (port, name, e)"
  shows "good_setting k e"
proof -
  from assms(2) obtain kind v tail where "e = (kind, v)" "kind \<noteq> []" "setting_value k tail = Some v" "list_all (cl_word k) kind"
    by (auto simp: port_setting_def Let_def list_all_iff split: option.splits if_split_asm dest: set_takeWhileD)
  with setting_value_again [OF assms(1)] show ?thesis by (auto simp: good_setting_def)
qed

subsection \<open>Reading the generated lines\<close>

definition setting_of :: "port_values \<Rightarrow> nat \<Rightarrow> text_points \<Rightarrow> setting option" where
  "setting_of vs n name = Option.bind (map_of vs n) (\<lambda>d. map_of d name)"

definition put_item :: "port_values \<Rightarrow> port_item \<Rightarrow> port_values" where
  "put_item vs = (\<lambda>(port, name, e). let n = nat port; d = (case map_of vs n of None \<Rightarrow> [] | Some d \<Rightarrow> d) in
     dict_set vs n (dict_set d name e))"

lemma setting_of_put: "setting_of (put_item vs (port, name, e)) n m =
  (if n = nat port \<and> m = name then Some e else setting_of vs n m)"
  by (auto simp: setting_of_def put_item_def Let_def split: option.splits)

definition keyed :: "port_item \<Rightarrow> (nat \<times> text_points) \<times> setting" where
  "keyed = (\<lambda>(port, name, e). ((nat port, name), e))"

lemma setting_of_items:
  "setting_of (foldl put_item vs items) n m =
    (case map_of (rev (map keyed items)) (n, m) of Some e \<Rightarrow> Some e | None \<Rightarrow> setting_of vs n m)"
proof (induction items rule: rev_induct)
  case (snoc i items)
  then show ?case by (cases i) (auto simp: setting_of_put keyed_def split: option.splits)
qed simp

lemma only_value:
  assumes "(key, e) \<in> set xs" and "\<And>e'. (key, e') \<in> set xs \<Longrightarrow> e' = e"
  shows "map_of xs key = Some e"
  using assms by (metis map_of_SomeD map_of_eq_None_iff not_None_eq image_eqI fst_conv)

lemma read_item_line:
  assumes "text_rules k" and "good_item k i"
  shows "read_settings k (setting_line i # ls) vs = read_settings k ls (put_item vs i)"
proof -
  obtain port name kind v where i: "i = (port, name, kind, v)" by (cases i) auto
  have "nat port < 10 ^ 2" using assms(2) by (simp add: i good_item_def nat_less_iff)
  then have short: "length (base_text 10 (nat port)) \<le> 2" using length_base_text [of 10 2 "nat port"] by simp
  have "cl_digits k (base_text 10 (nat port)) = nat port"
    using assms(1) base_text_digits text_value_base [of 10 "nat port"] by (simp add: text_rules_def)
  with short port_setting_line [OF assms [unfolded i]] show ?thesis
    by (simp add: i put_item_def Let_def)
qed

lemma read_item_lines:
  assumes "text_rules k" and "list_all (good_item k) items"
  shows "read_settings k (map setting_line items @ ls) vs = read_settings k ls (foldl put_item vs items)"
  using assms(2) by (induction items arbitrary: vs) (simp_all add: read_item_line [OF assms(1)] del: read_settings.simps)

lemma read_other_line: "after_prefix PREFIX l = None \<Longrightarrow> read_settings k (l # ls) vs = read_settings k ls vs"
  by (simp add: port_setting_def)

lemma fixed_not_settings: "list_all (\<lambda>l. after_prefix PREFIX l = None) fixed_lines"
  by code_simp

lemma title_not_setting: "after_prefix PREFIX (block_title x) = None"
  by (cases x) (simp add: block_title_def after_prefix_def PREFIX_def ascii_def)

lemma read_fixed_lines: "list_all (\<lambda>l. after_prefix PREFIX l = None) ls \<Longrightarrow> read_settings k (ls @ ls') vs = read_settings k ls' vs"
  by (induction ls) (simp_all add: read_other_line del: read_settings.simps)

definition block_lines :: "(int \<times> physical) \<times> port_item list \<Rightarrow> text_points list" where
  "block_lines = (\<lambda>(x, items). [] # block_title x # map setting_line items)"

lemma read_blocks:
  assumes "text_rules k" and "list_all (\<lambda>(x, items). list_all (good_item k) items) bs"
  shows "read_settings k (concat (map block_lines bs) @ ls) vs = read_settings k ls (foldl put_item vs (concat (map snd bs)))"
  using assms(2)
proof (induction bs arbitrary: vs)
  case (Cons b bs)
  have "after_prefix PREFIX [] = None" by (simp add: after_prefix_def PREFIX_def ascii_def)
  with Cons show ?case
    by (cases b) (simp add: block_lines_def read_other_line title_not_setting read_item_lines [OF assms(1)] del: read_settings.simps)
qed simp

subsection \<open>The settings of a slot\<close>

lemma all_results_Inr: "all_results f xs = Inr ys \<Longrightarrow> ys = map (\<lambda>x. projr (f x)) xs \<and> (\<forall>x \<in> set xs. \<exists>y. f x = Inr y)"
  by (induction xs arbitrary: ys) (auto simp: ebind_Inr)

lemma physical_blocks:
  assumes "(i, epl, p) \<in> set (enumerate_int PHYSICAL)"
  shows "ph_base p = 4 * i + 1 \<and> 0 \<le> i \<and> i \<le> 5"
    and "(i, epl', p') \<in> set (enumerate_int PHYSICAL) \<Longrightarrow> epl' = epl \<and> p' = p"
  using assms by (auto simp: enumerate_int_def PHYSICAL_eval upt_rec)

definition source_of :: "port_values \<Rightarrow> int \<Rightarrow> (text_points \<times> setting) list" where
  "source_of values index = (case map_of values (nat (index + 1)) of None \<Rightarrow> [] | Some d \<Rightarrow> d)"

definition mode_of_slot :: "switch_configuration \<Rightarrow> int \<Rightarrow> nat \<Rightarrow> string" where
  "mode_of_slot c epl lane = projr (sdk_mode c epl lane)"

lemma block_items_Inr:
  assumes "block_items c values polarity (i, epl, p) = Inr items"
  shows "items = concat (map (\<lambda>lane. slot_items (source_of values i) (mode_of_slot c epl lane) i epl p lane) LANES)
      @ concat (map (lane_items (source_of values i) polarity p) LANES)"
    and "\<forall>lane \<in> set LANES. sdk_mode c epl lane = Inr (mode_of_slot c epl lane)
      \<and> lane_entry (source_of values i) polarity lane ''lanePolarity'' \<noteq> None"
proof -
  let ?f = "\<lambda>lane. map_sum id (\<lambda>mode. slot_items (source_of values i) mode i epl p lane) (sdk_mode c epl lane)"
  let ?g = "\<lambda>lane. if lane_entry (source_of values i) polarity lane ''lanePolarity'' = None then Inl (MissingPolarity epl (int lane))
       else Inr (lane_items (source_of values i) polarity p lane)"
  from assms obtain slots lanes where r: "all_results ?f LANES = Inr slots" "all_results ?g LANES = Inr lanes"
    and items: "items = concat slots @ concat lanes"
    by (auto simp: block_items_def Let_def source_of_def [symmetric] ebind_Inr)
  note f = all_results_Inr [OF r(1)] and g = all_results_Inr [OF r(2)]
  have modes: "sdk_mode c epl lane = Inr (mode_of_slot c epl lane)" if "lane \<in> set LANES" for lane
    using f that by (cases "sdk_mode c epl lane") (auto simp: mode_of_slot_def)
  have some: "lane_entry (source_of values i) polarity lane ''lanePolarity'' \<noteq> None" if "lane \<in> set LANES" for lane
    using g that by (metis (no_types, lifting) sum.distinct(1))
  from f modes have "slots = map (\<lambda>lane. slot_items (source_of values i) (mode_of_slot c epl lane) i epl p lane) LANES" by simp
  moreover have "projr (?g lane) = lane_items (source_of values i) polarity p lane" if "lane \<in> set LANES" for lane
    using some [OF that] by auto
  with g have "lanes = map (lane_items (source_of values i) polarity p) LANES" by simp
  ultimately show "items = concat (map (\<lambda>lane. slot_items (source_of values i) (mode_of_slot c epl lane) i epl p lane) LANES)
      @ concat (map (lane_items (source_of values i) polarity p) LANES)" using items by simp
  show "\<forall>lane \<in> set LANES. sdk_mode c epl lane = Inr (mode_of_slot c epl lane)
      \<and> lane_entry (source_of values i) polarity lane ''lanePolarity'' \<noteq> None" using modes some by simp
qed

lemma slot_item_port: "(port, name, e) \<in> set (slot_items source mode i epl p lane) \<Longrightarrow> port = ph_base p + int lane"
  by (auto simp: slot_items_def text_item_def Let_def split: option.splits)

lemma slot_item_value:
  "(ph_base p + int lane, ascii ''ethernetMode'', e) \<in> set (slot_items source mode i epl p lane) \<longleftrightarrow> e = (ascii ''text'', ascii mode)"
  "(ph_base p + int lane, ascii ''hwResourceId'', e) \<in> set (slot_items source mode i epl p lane)
     \<longleftrightarrow> e = (ascii ''int'', ascii (resource_text lane i))"
  by (auto simp: slot_items_def text_item_def Let_def split: option.splits)

lemma lane_item_name: "(port, name, e) \<in> set (lane_items source polarity p lane) \<Longrightarrow>
    port = ph_base p \<and> (\<exists>n. name = lane_key lane n \<and> lane_entry source polarity lane n = Some e)"
  by (auto simp: lane_items_def map_filter_def)

lemma lane_texts: "lane_text 0 = ''0''" "lane_text (Suc 0) = ''1''" "lane_text 2 = ''2''" "lane_text 3 = ''3''"
  by code_simp+

lemma lane_key_eq: "lane \<in> set LANES \<Longrightarrow> lane' \<in> set LANES \<Longrightarrow> lane_key lane n = lane_key lane' m \<longleftrightarrow> lane = lane' \<and> n = m"
  using lane_texts by (auto simp: LANES_def lane_key_def)

lemma lane_item_in: "n \<in> set LANE_NAMES \<Longrightarrow> lane_entry source polarity lane n = Some e \<Longrightarrow>
    (ph_base p, lane_key lane n, e) \<in> set (lane_items source polarity p lane)"
  by (auto simp: lane_items_def map_filter_def intro!: rev_image_eqI [of n])

lemma lane_key_other: "lane_key lane n \<noteq> ascii (CHR ''e'' # s)" "lane_key lane n \<noteq> ascii (CHR ''h'' # s)"
  by (simp_all add: lane_key_def)

lemma slot_item_lane: "(port, lane_key l n, e) \<notin> set (slot_items source mode i epl p lane)"
  by (auto simp: slot_items_def text_item_def Let_def lane_key_def split: option.splits)

lemma internal_ports: "(port, name, e) \<in> set internal_items \<Longrightarrow> 25 \<le> port"
  by (auto simp: internal_items_def text_item_def)

subsection \<open>Every generated setting is well formed\<close>

definition graphic :: "int \<Rightarrow> bool" where "graphic c \<longleftrightarrow> 33 \<le> c \<and> c \<le> 126"

lemma graphic_rules:
  assumes "text_rules k"
  shows "graphic c \<Longrightarrow> \<not> blank k c" "list_all graphic w \<Longrightarrow> list_all (\<lambda>c. \<not> blank k c) w"
  using assms by (auto simp: text_rules_def graphic_def list_all_iff)

lemma plain_value:
  assumes "text_rules k" and "w \<noteq> []" and "graphic (hd w)" and "graphic (List.last w)"
  shows "setting_value k (32 # w) = Some w"
proof -
  from assms have "blank k 32" "\<not> blank k (hd w)" "\<not> blank k (List.last w)" by (auto simp: text_rules_def graphic_def)
  with assms(2) show ?thesis by (cases w) (auto simp: setting_value_def strip_right_last)
qed

lemma good_item_plain:
  assumes "text_rules k" and "0 \<le> port" "port < 100" and "list_all graphic (ascii name)" "name \<noteq> []" and "kind \<in> {''text'', ''int''}"
    and "v \<noteq> []" "graphic (of_char (hd v))" "graphic (of_char (List.last v))"
  shows "good_item k (text_item port name kind v)"
proof -
  have "list_all (cl_word k) (ascii kind)" using assms(1,6) by (auto simp: text_rules_def ascii_def)
  moreover have "setting_value k (32 # ascii v) = Some (ascii v)"
    using assms(7-9) by (intro plain_value [OF assms(1)]) (auto simp: ascii_def hd_map last_map)
  ultimately show ?thesis
    using assms(2-6) graphic_rules(2) [OF assms(1)] by (auto simp: good_item_def good_setting_def text_item_def ascii_def)
qed

lemma decimal_graphic: "list_all graphic (ascii (decimal n))"
  using base_text_digits [of n] by (auto simp: ascii_decimal list_all_iff decimal_point_def graphic_def)

lemma decimal_int_graphic: "decimal_int n \<noteq> []" "graphic (of_char (hd (decimal_int n)))"
  "graphic (of_char (List.last (decimal_int n)))"
proof -
  have ne: "decimal m \<noteq> []" for m by (subst decimal.simps) simp
  then show "decimal_int n \<noteq> []" by (simp add: decimal_int_def)
  have "graphic (of_char (hd (decimal m)))" for m
    using decimal_graphic [of m] ne [of m] by (cases "decimal m") (auto simp: ascii_def)
  then show "graphic (of_char (hd (decimal_int n)))" by (auto simp: decimal_int_def graphic_def)
  have "graphic (of_char (List.last (decimal m)))" for m
    using decimal_graphic [of m] ne [of m] by (cases "decimal m" rule: rev_cases) (auto simp: ascii_def)
  with ne show "graphic (of_char (List.last (decimal_int n)))" by (auto simp: decimal_int_def)
qed

lemma mode_graphic:
  assumes "sdk_mode c epl lane = Inr mode"
  shows "mode \<noteq> [] \<and> graphic (of_char (hd mode)) \<and> graphic (of_char (List.last mode))"
  using assms decimal_int_graphic
  by (auto simp: sdk_mode_def graphic_def split: option.splits group_mode.splits if_splits)

lemma hex_digit_graphic: "c \<in> set (base_text 16 n) \<Longrightarrow> graphic (of_char (char_of c :: char))"
proof -
  assume "c \<in> set (base_text 16 n)"
  then obtain d where "d < 16" "c = digit_point d" using base_text_points [of 16 c n] by auto
  then have "48 \<le> c" "c \<le> 102" by (auto simp: digit_point_def)
  then have "of_char (char_of c :: char) = c" by (simp add: of_char_of take_bit_eq_mod)
  then show ?thesis using \<open>48 \<le> c\<close> \<open>c \<le> 102\<close> by (simp add: graphic_def)
qed

lemma resource_graphic: "resource_text lane i \<noteq> [] \<and> graphic (of_char (hd (resource_text lane i)))
    \<and> graphic (of_char (List.last (resource_text lane i)))"
  using hex_digit_graphic [OF last_in_set, OF base_text_nonempty, of "nat (push_bit 8 (int lane) OR i)"]
  by (auto simp: resource_text_def Let_def graphic_def last_append last_map)

lemma item_texts:
  "good_item k (port, name, e) \<longleftrightarrow> 0 \<le> port \<and> port < 100 \<and> name \<noteq> [] \<and> list_all (\<lambda>c. \<not> blank k c) name \<and> good_setting k e"
  by (simp add: good_item_def)

lemma slot_items_good:
  assumes k: "text_rules k" and p: "0 \<le> ph_base p" "ph_base p < 90" and lane: "lane \<in> set LANES"
    and mode: "mode \<noteq> [] \<and> graphic (of_char (hd mode)) \<and> graphic (of_char (List.last mode))"
    and source: "\<And>name e. map_of source name = Some e \<Longrightarrow> good_setting k e"
  shows "list_all (good_item k) (slot_items source mode i epl p lane)"
proof -
  define n where "n = ph_base p + int lane"
  have port: "0 \<le> n" "n < 100" using p lane by (auto simp: LANES_def n_def)
  have optim: "good_item k (n, ascii ''linkOptimMode'', e)" if "map_of source (ascii ''linkOptimMode'') = Some e" for e
    using source [OF that] port graphic_rules [OF k] by (auto simp: item_texts ascii_def graphic_def)
  have digit: "graphic (of_char (hd (lane_text lane)))" "lane_text lane \<noteq> []" "graphic (of_char (List.last (lane_text lane)))"
    using lane lane_texts by (auto simp: LANES_def graphic_def)
  have plain: "good_item k (text_item n name kind v)"
    if "list_all graphic (ascii name)" "name \<noteq> []" "kind \<in> {''text'', ''int''}" "v \<noteq> []" "graphic (of_char (hd v))"
      "graphic (of_char (List.last v))" for name kind v
    using good_item_plain [OF k port that] .
  show ?thesis unfolding slot_items_def Let_def n_def [symmetric]
    using mode resource_graphic [of lane i] digit
    by (auto simp: optim intro!: plain split: option.split) (auto simp: graphic_def ascii_def)
qed

lemma lane_items_good:
  assumes k: "text_rules k" and p: "0 \<le> ph_base p" "ph_base p < 90" and lane: "lane \<in> set LANES"
    and source: "\<And>name e. map_of source name = Some e \<Longrightarrow> good_setting k e" and polarity: "\<And>e. polarity = Some e \<Longrightarrow> good_setting k e"
  shows "list_all (good_item k) (lane_items source polarity p lane)"
proof -
  have "good_item k (ph_base p, lane_key lane n, e)" if "lane_entry source polarity lane n = Some e" and "n \<in> set LANE_NAMES" for n e
  proof -
    have "good_setting k e" using that(1) source polarity by (auto simp: lane_entry_def split: option.splits if_splits)
    moreover have "list_all graphic (lane_key lane n) \<and> lane_key lane n \<noteq> []"
      using that(2) lane lane_texts by (auto simp: LANE_NAMES_def LANES_def lane_key_def ascii_def graphic_def)
    ultimately show ?thesis using p graphic_rules(2) [OF k] by (auto simp: item_texts)
  qed
  then show ?thesis by (auto simp: list_all_iff lane_items_def map_filter_def)
qed

lemma internal_items_good:
  assumes "text_rules k"
  shows "list_all (good_item k) internal_items"
  unfolding internal_items_def using decimal_int_graphic
  by (auto simp: graphic_def ascii_def intro!: good_item_plain [OF assms])

subsection \<open>The generated file\<close>

lemma read_settings_good:
  assumes k: "text_rules k" and run: "read_settings k ls vs = Inr ws" and "\<And>n name e. setting_of vs n name = Some e \<Longrightarrow> good_setting k e"
    and "setting_of ws n name = Some e"
  shows "good_setting k e"
  using assms(2-)
proof (induction ls arbitrary: vs)
  case (Cons l ls)
  show ?case
  proof (cases "port_setting k l")
    case None
    with Cons show ?thesis by simp
  next
    case (Some x)
    then obtain port m e' where x: "port_setting k l = Some (port, m, e')" by (cases x) auto
    with Cons.prems(1) have "read_settings k ls (put_item vs (int (cl_digits k port), m, e')) = Inr ws"
      by (simp add: put_item_def Let_def split: if_split_asm)
    moreover have "good_setting k e''" if "setting_of (put_item vs (int (cl_digits k port), m, e')) i j = Some e''" for i j e''
      using that Cons.prems(2) port_setting_good [OF k x] by (auto simp: setting_of_put split: if_split_asm)
    ultimately show ?thesis using Cons.IH Cons.prems(3) by blast
  qed
qed simp

lemma source_setting: "map_of (source_of values i) name = Some e \<Longrightarrow> setting_of values (nat (i + 1)) name = Some e"
  by (auto simp: source_of_def setting_of_def split: option.splits)

lemma polarity_good:
  assumes "text_rules k" and "polarity_match k s = Some (e, rest)"
  shows "good_setting k e"
proof -
  from assms(2) obtain w where e: "e = (ascii ''text'', ascii (''INVERT_'' @ w))" and w: "w \<in> {''NONE'', ''RX'', ''TX'', ''RX_TX''}"
    by (auto simp: polarity_match_def map_filter_def bind_eq_Some_conv split: list.splits if_splits)
  from w have "w \<noteq> []" "graphic (of_char (List.last w))" by (auto simp: graphic_def)
  then have "good_item k (text_item 0 ''lanePolarity'' ''text'' (''INVERT_'' @ w))"
    by (intro good_item_plain [OF assms(1)]) (auto simp: graphic_def ascii_def)
  then show ?thesis by (simp add: e text_item_def item_texts)
qed

lemma found_line: "x \<in> set (find_lines m start s) \<Longrightarrow> \<exists>t rest. m t = Some (x, rest)"
proof (induction m start s rule: find_lines.induct)
  case (1 m start s)
  show ?case
  proof (cases s)
    case Nil
    with 1(3) show ?thesis by (simp add: find_lines.simps)
  next
    case (Cons c cs)
    show ?thesis
    proof (cases "if start then m s else None")
      case None
      have "find_lines m start s = find_lines m (c = 10) cs"
        by (subst find_lines.simps) (use Cons None in \<open>auto split: if_splits\<close>)
      with 1(1) [OF Cons None] 1(3) show ?thesis by simp
    next
      case (Some y)
      then obtain z rest where y: "(if start then m s else None) = Some (z, rest)" by (cases y) auto
      then have "m s = Some (z, rest)" by (simp split: if_splits)
      moreover have "find_lines m start s = z # (if length rest < length s then find_lines m False rest else [])"
        by (subst find_lines.simps) (use Cons y in \<open>auto split: if_splits\<close>)
      ultimately show ?thesis using 1(2) [OF Cons y refl] 1(3) by (auto split: if_split_asm)
    qed
  qed
qed

text \<open>The settings of the slot and its lane, as the reader of the reference finds them.\<close>

definition slot_rendered :: "switch_configuration \<Rightarrow> port_values \<Rightarrow> int \<times> int \<times> physical \<Rightarrow> nat \<Rightarrow> bool" where
  "slot_rendered c vs = (\<lambda>(i, epl, p) lane. let n = nat (ph_base p + int lane) in
     sdk_mode c epl lane = Inr (mode_of_slot c epl lane)
     \<and> setting_of vs n (ascii ''ethernetMode'') = Some (ascii ''text'', ascii (mode_of_slot c epl lane))
     \<and> setting_of vs n (ascii ''hwResourceId'') = Some (ascii ''int'', ascii (resource_text lane i)))"

definition lane_rendered :: "port_values \<Rightarrow> setting option \<Rightarrow> port_values \<Rightarrow> int \<times> int \<times> physical \<Rightarrow> nat \<Rightarrow> bool" where
  "lane_rendered values polarity vs = (\<lambda>(i, epl, p) lane. \<exists>e.
     setting_of vs (nat (ph_base p)) (lane_key lane ''lanePolarity'') = Some e
     \<and> (setting_of values (nat (i + 1)) (lane_key lane ''lanePolarity'') = Some e
        \<or> setting_of values (nat (i + 1)) (lane_key lane ''lanePolarity'') = None \<and> polarity = Some e))"

definition rendered_items :: "switch_configuration \<Rightarrow> port_values \<Rightarrow> setting option \<Rightarrow> port_item list" where
  "rendered_items c values polarity =
     concat (map (\<lambda>x. projr (block_items c values polarity x)) (enumerate_int PHYSICAL)) @ internal_items"

lemma generated_lines_read:
  assumes k: "text_rules k" and run: "generated_lines c values polarity = Inr ls"
    and reference: "\<And>n name e. setting_of values n name = Some e \<Longrightarrow> good_setting k e"
    and polarity: "\<And>e. polarity = Some e \<Longrightarrow> good_setting k e"
  shows "(\<forall>x \<in> set (enumerate_int PHYSICAL). \<exists>items. block_items c values polarity x = Inr items)
    \<and> read_settings k ls [] = Inr (foldl put_item [] (rendered_items c values polarity))"
proof -
  let ?xs = "enumerate_int PHYSICAL"
  let ?b = "\<lambda>x. projr (block_items c values polarity x)"
  let ?f = "\<lambda>(index, epl, p). map_sum id (\<lambda>items. [] # block_title (epl, p) # map setting_line items) (block_items c values polarity (index, epl, p))"
  from run obtain blocks where blocks: "all_results ?f ?xs = Inr blocks" and ls: "ls = fixed_lines @ concat blocks @ map setting_line internal_items"
    by (auto simp: generated_lines_def ebind_Inr)
  note r = all_results_Inr [OF blocks]
  have some: "\<exists>items. block_items c values polarity x = Inr items" if "x \<in> set ?xs" for x
    using r that by (cases x; cases "block_items c values polarity x") force+
  have "blocks = map (\<lambda>x. block_lines (snd x, ?b x)) ?xs"
  proof -
    have "projr (?f x) = block_lines (snd x, ?b x)" if "x \<in> set ?xs" for x
      using some [OF that] by (cases x) (auto simp: block_lines_def)
    with r show ?thesis by simp
  qed
  then have concat: "concat blocks = concat (map block_lines (map (\<lambda>x. (snd x, ?b x)) ?xs))" by (simp add: comp_def)
  have good: "list_all (good_item k) (?b x)" if x: "x \<in> set ?xs" for x
  proof -
    obtain i epl p where x': "x = (i, epl, p)" by (cases x) auto
    obtain items where items: "block_items c values polarity (i, epl, p) = Inr items" using some [OF x] x' by auto
    have base: "0 \<le> ph_base p" "ph_base p < 90" using physical_blocks(1) [OF x [unfolded x']] by auto
    have source: "map_of (source_of values i) name = Some e \<Longrightarrow> good_setting k e" for name e
      using source_setting reference by blast
    have "list_all (good_item k) items" unfolding block_items_Inr(1) [OF items]
      using block_items_Inr(2) [OF items] slot_items_good [OF k base _ mode_graphic source] lane_items_good [OF k base _ source polarity]
      by (auto simp: list_all_iff)
    then show ?thesis by (simp add: x' items)
  qed
  have "read_settings k ls [] = read_settings k (concat blocks @ map setting_line internal_items @ []) []"
    unfolding ls by (simp add: read_fixed_lines [OF fixed_not_settings])
  also have "\<dots> = read_settings k (map setting_line internal_items @ [])
      (foldl put_item [] (concat (map snd (map (\<lambda>x. (snd x, ?b x)) ?xs))))"
    unfolding concat by (rule read_blocks [OF k]) (use good in \<open>auto simp: list_all_iff\<close>)
  also have "\<dots> = read_settings k [] (foldl put_item (foldl put_item [] (concat (map snd (map (\<lambda>x. (snd x, ?b x)) ?xs)))) internal_items)"
    by (rule read_item_lines [OF k internal_items_good [OF k]])
  finally show ?thesis using some by (simp add: rendered_items_def comp_def)
qed

lemma same_slot:
  assumes "4 * i + 1 + int a = 4 * j + 1 + int b" and "a \<in> set LANES" and "b \<in> set LANES"
  shows "i = j \<and> a = b"
proof -
  from assms(2,3) have "a < 4" "b < 4" by (auto simp: LANES_def)
  with assms(1) show ?thesis by presburger
qed

lemma slot_settings:
  assumes "\<forall>x \<in> set (enumerate_int PHYSICAL). \<exists>items. block_items c values polarity x = Inr items"
    and x: "(i, epl, p) \<in> set (enumerate_int PHYSICAL)" and lane: "lane \<in> set LANES"
  defines "items \<equiv> rendered_items c values polarity"
  shows "(ph_base p + int lane, name, e) \<in> set items
      \<Longrightarrow> (ph_base p + int lane, name, e) \<in> set (slot_items (source_of values i) (mode_of_slot c epl lane) i epl p lane)
        \<or> (\<exists>l n. lane = 0 \<and> l \<in> set LANES \<and> name = lane_key l n \<and> lane_entry (source_of values i) polarity l n = Some e)"
    and "(ph_base p + int lane, name, e) \<in> set (slot_items (source_of values i) (mode_of_slot c epl lane) i epl p lane)
      \<Longrightarrow> (ph_base p + int lane, name, e) \<in> set items"
    and "n \<in> set LANE_NAMES \<Longrightarrow> lane_entry (source_of values i) polarity lane n = Some e \<Longrightarrow> (ph_base p, lane_key lane n, e) \<in> set items"
proof -
  obtain mine where mine: "block_items c values polarity (i, epl, p) = Inr mine" using assms(1) x by blast
  note m = block_items_Inr(1) [OF mine]
  have mem: "y \<in> set mine \<Longrightarrow> y \<in> set items" for y using x mine by (force simp: items_def rendered_items_def)
  show "(ph_base p + int lane, name, e) \<in> set items"
    if "(ph_base p + int lane, name, e) \<in> set (slot_items (source_of values i) (mode_of_slot c epl lane) i epl p lane)"
    using that lane by (intro mem) (auto simp: m)
  show "(ph_base p, lane_key lane n, e) \<in> set items"
    if "n \<in> set LANE_NAMES" "lane_entry (source_of values i) polarity lane n = Some e"
    using lane_item_in [OF that, of p] lane by (intro mem) (auto simp: m)
  assume "(ph_base p + int lane, name, e) \<in> set items"
  moreover have low: "ph_base p + int lane < 25" using physical_blocks(1) [OF x] lane by (auto simp: LANES_def)
  ultimately obtain j epl' p' other where y: "(j, epl', p') \<in> set (enumerate_int PHYSICAL)"
      "block_items c values polarity (j, epl', p') = Inr other" "(ph_base p + int lane, name, e) \<in> set other"
    using assms(1) internal_ports [of "ph_base p + int lane" name e] by (force simp: items_def rendered_items_def)
  from y(3) consider (slot) l where "l \<in> set LANES"
      "(ph_base p + int lane, name, e) \<in> set (slot_items (source_of values j) (mode_of_slot c epl' l) j epl' p' l)"
    | (lane) l where "l \<in> set LANES" "(ph_base p + int lane, name, e) \<in> set (lane_items (source_of values j) polarity p' l)"
    by (auto simp: block_items_Inr(1) [OF y(2)])
  then show "(ph_base p + int lane, name, e) \<in> set (slot_items (source_of values i) (mode_of_slot c epl lane) i epl p lane)
        \<or> (\<exists>l n. lane = 0 \<and> l \<in> set LANES \<and> name = lane_key l n \<and> lane_entry (source_of values i) polarity l n = Some e)"
  proof cases
    case slot
    then have "ph_base p + int lane = ph_base p' + int l" using slot_item_port by blast
    with physical_blocks(1) [OF x] physical_blocks(1) [OF y(1)] same_slot [of i lane j l] lane slot(1) have "j = i" "l = lane" by auto
    with slot physical_blocks(2) [OF x] y(1) show ?thesis by auto
  next
    case lane
    note n = lane_item_name [OF lane(2)]
    with physical_blocks(1) [OF x] physical_blocks(1) [OF y(1)] same_slot [of i lane j 0] assms(3) have "j = i" "lane = 0"
      by (auto simp: LANES_def)
    with lane n physical_blocks(2) [OF x] y(1) show ?thesis by blast
  qed
qed

text \<open>The mode of a slot says its speed in the configuration.\<close>

lemma slot_group:
  assumes valid: "validate_configuration d = Inr c" and x: "(i, epl, p) \<in> set (enumerate_int PHYSICAL)" and lane: "lane \<in> set LANES"
  obtains g where "find (\<lambda>g. pg_epl g = epl) (sc_groups c) = Some g"
    and "speed c (ph_base p + int lane) = group_speed g (ph_base p + int lane)" and "ph_base p = base_of (pg_epl g)"
proof -
  note ok = validate_accepted(1,2) [OF valid]
  let ?n = "ph_base p + int lane"
  have p: "ph_base p = base_of epl" "epl \<in> set EPLS"
    using x by (auto simp: enumerate_int_def PHYSICAL_eval upt_rec physical_of_eval EPLS_def)
  have l: "int lane \<le> 3" using lane by (auto simp: LANES_def)
  from p(2) accepted_cross(1) [OF ok(2)] obtain h where "h \<in> set (sc_groups c)" "pg_epl h = epl" by (metis imageE set_map)
  then obtain g where g: "find (\<lambda>g. pg_epl g = epl) (sc_groups c) = Some g"
    by (cases "find (\<lambda>g. pg_epl g = epl) (sc_groups c)") (auto simp: find_None_iff)
  then have mem: "g \<in> set (sc_groups c)" "pg_epl g = epl" by (auto simp: find_Some_iff)
  have only: "h = g" if "h \<in> set (sc_groups c)" "?n \<in> set (group_active_ports h)" for h
  proof -
    have "pg_epl h \<in> set EPLS" using accepted_groups(2) [OF ok] that(1) by blast
    with that(2) p l have "pg_epl h = epl"
      by (auto simp: group_active_ports_def Let_def EPLS_def physical_of_eval split: if_splits)
    with mem that(1) accepted_groups(1) [OF ok] show ?thesis by (metis distinct_map inj_onD)
  qed
  have "speed c ?n = group_speed g ?n"
  proof (cases "?n \<in> set (group_active_ports g)")
    case True
    then obtain h where h: "find (\<lambda>g. ?n \<in> set (group_active_ports g)) (sc_groups c) = Some h"
      using mem(1) by (cases "find (\<lambda>g. ?n \<in> set (group_active_ports g)) (sc_groups c)") (auto simp: find_None_iff)
    then have "h = g" by (intro only) (auto simp: find_Some_iff)
    with h show ?thesis by (simp add: speed_def)
  next
    case False
    with only have "?n \<notin> set (active_ports c)" by (auto simp: active_ports_def)
    with False show ?thesis by (simp add: speed_of_inactive group_speed_def)
  qed
  then show thesis by (rule that [OF g]) (simp add: mem(2) p(1))
qed

lemma mode_says_speed:
  assumes "validate_configuration d = Inr c" and "(i, epl, p) \<in> set (enumerate_int PHYSICAL)" and "lane \<in> set LANES"
  shows "\<exists>variant. mode_of_slot c epl lane =
    (if speed c (ph_base p + int lane) = 0 then ''DISABLED'' else decimal_int (speed c (ph_base p + int lane)) @ ''GBase-SR'' @ variant)"
proof -
  obtain g where g: "find (\<lambda>g. pg_epl g = epl) (sc_groups c) = Some g"
    "speed c (ph_base p + int lane) = group_speed g (ph_base p + int lane)" "ph_base p = base_of (pg_epl g)"
    using slot_group [OF assms] by blast
  have "g \<in> set (sc_groups c)" using g(1) by (auto simp: find_Some_iff)
  then have rates: "\<forall>r \<in> set (pg_lane_speeds g). r \<noteq> 0" "length (pg_lane_speeds g) = 4"
    using accepted_fields(1) [OF validate_accepted(1) [OF assms(1)]] by (fastforce simp: port_group_checks_def check_simps list_all_iff split: if_splits)+
  have hundred: "decimal_int 100 = ''100''" "decimal_int 40 = ''40''" by code_simp+
  show ?thesis
  proof (cases "pg_mode g")
    case Split
    have "lane < 4" using assms(3) by (auto simp: LANES_def)
    moreover have "ph_base p + int lane \<in> set (group_active_ports g)"
      using Split g(3) assms(3) by (auto simp: group_active_ports_def LANES_def Let_def)
    ultimately have "speed c (ph_base p + int lane) = pg_lane_speeds g ! lane" "pg_lane_speeds g ! lane \<noteq> 0"
      using Split g(2,3) rates by (auto simp: group_speed_def)
    then show ?thesis using Split g(1) by (intro exI [of _ "[]"]) (simp add: mode_of_slot_def sdk_mode_def)
  next
    case Mode100G
    then show ?thesis using g hundred by (intro exI [of _ "''4''"])
      (simp add: mode_of_slot_def sdk_mode_def group_speed_def group_active_ports_def)
  next
    case Mode40G
    then show ?thesis using g hundred by (intro exI [of _ "''4''"])
      (simp add: mode_of_slot_def sdk_mode_def group_speed_def group_active_ports_def)
  qed
qed

subsection \<open>The slots of the generated file\<close>

lemma keyed_eq: "0 < q \<Longrightarrow> keyed i = ((nat q, name), e) \<longleftrightarrow> i = (q, name, e)"
  by (cases i) (auto simp: keyed_def)

lemma keyed_member: "0 < q \<Longrightarrow> ((nat q, name), e) \<in> set (rev (map keyed items)) \<longleftrightarrow> (q, name, e) \<in> set items"
  by (simp add: image_iff eq_commute [of "((nat q, name), e)"] keyed_eq)

lemma item_read:
  assumes "0 < q" and "(q, name, e) \<in> set items" and "\<And>e'. (q, name, e') \<in> set items \<Longrightarrow> e' = e"
  shows "setting_of (foldl put_item [] items) (nat q) name = Some e"
proof -
  have "map_of (rev (map keyed items)) (nat q, name) = Some e"
    by (rule only_value) (simp_all only: keyed_member [OF assms(1)] assms(2,3))
  then show ?thesis by (simp add: setting_of_items)
qed

theorem generated_platform_read:
  assumes k: "text_rules k" and read: "read_settings k (split_lines base) [] = Inr values"
    and polarity: "\<And>e. polarity = Some e \<Longrightarrow> \<exists>t rest. polarity_match k t = Some (e, rest)"
    and run: "generated_lines c values polarity = Inr ls"
  shows "\<exists>vs. read_settings k ls [] = Inr vs
    \<and> (\<forall>x \<in> set (enumerate_int PHYSICAL). \<forall>lane \<in> set LANES. slot_rendered c vs x lane \<and> lane_rendered values polarity vs x lane)"
proof -
  let ?items = "rendered_items c values polarity"
  let ?vs = "foldl put_item [] ?items"
  have good: "setting_of values n name = Some e \<Longrightarrow> good_setting k e" for n name e
    by (rule read_settings_good [OF k read]) (simp_all add: setting_of_def)
  have "polarity = Some e \<Longrightarrow> good_setting k e" for e using polarity polarity_good [OF k] by blast
  with generated_lines_read [OF k run] good
  have blocks: "\<forall>x \<in> set (enumerate_int PHYSICAL). \<exists>items. block_items c values polarity x = Inr items"
    and vs: "read_settings k ls [] = Inr ?vs" by blast+
  have "slot_rendered c ?vs (i, epl, p) lane \<and> lane_rendered values polarity ?vs (i, epl, p) lane"
    if x: "(i, epl, p) \<in> set (enumerate_int PHYSICAL)" and lane: "lane \<in> set LANES" for i epl p lane
  proof -
    note s = slot_settings [OF blocks x lane]
    from blocks x obtain mine where mine: "block_items c values polarity (i, epl, p) = Inr mine" by blast
    note m = block_items_Inr(2) [OF mine]
    have pos: "0 < ph_base p + int lane" "0 < ph_base p" using physical_blocks(1) [OF x] by auto
    have "setting_of ?vs (nat (ph_base p + int lane)) (ascii ''ethernetMode'') = Some (ascii ''text'', ascii (mode_of_slot c epl lane))"
      using s(1,2) slot_item_value(1) lane_key_other(1) by (intro item_read [OF pos(1)]) metis+
    moreover have "setting_of ?vs (nat (ph_base p + int lane)) (ascii ''hwResourceId'') = Some (ascii ''int'', ascii (resource_text lane i))"
      using s(1,2) slot_item_value(2) lane_key_other(2) by (intro item_read [OF pos(1)]) metis+
    ultimately have slot: "slot_rendered c ?vs (i, epl, p) lane" using m lane by (simp add: slot_rendered_def Let_def)
    obtain e where e: "lane_entry (source_of values i) polarity lane ''lanePolarity'' = Some e" using m lane by blast
    have zero: "0 \<in> set LANES" by (simp add: LANES_def)
    have in_items: "(ph_base p, lane_key lane ''lanePolarity'', e) \<in> set ?items"
      using slot_settings(3) [OF blocks x lane _ e] by (simp add: LANE_NAMES_def)
    have only: "e' = e" if "(ph_base p, lane_key lane ''lanePolarity'', e') \<in> set ?items" for e'
      using slot_settings(1) [OF blocks x zero, of "lane_key lane ''lanePolarity''" e'] that slot_item_lane lane_key_eq lane e by auto
    have "setting_of ?vs (nat (ph_base p)) (lane_key lane ''lanePolarity'') = Some e" by (rule item_read [OF pos(2) in_items only])
    moreover have "setting_of values (nat (i + 1)) (lane_key lane ''lanePolarity'') = map_of (source_of values i) (lane_key lane ''lanePolarity'')"
      by (simp add: setting_of_def source_of_def split: option.split)
    ultimately have "lane_rendered values polarity ?vs (i, epl, p) lane"
      using e by (auto simp: lane_rendered_def lane_entry_def split: option.splits)
    with slot show ?thesis ..
  qed
  with vs show ?thesis by (intro exI [of _ ?vs]) auto
qed

end
