(* ===== verification/Spec2Isabelle.thy ===== *)
theory Spec2Isabelle
  imports Config_Properties Configd_Properties Eye_Properties Review_Properties Panel_Properties Accounts_Properties
    Codec_Properties Upgrade_Properties Netlab_Properties Web_Properties
    Configd_Refinement Helper_Wire Time_Properties Release_Properties Update_Properties
    Startup_Properties Ecn_Properties Boot_Properties
begin

text \<open>
  The FM10K control panel, backend/fm10k_controlpanel/: a web service that lets an administrator change the
  configuration of an FM10840 switch board, hands every change to a switch authority as a trial that has to be
  confirmed or is rolled back, watches the board, and updates itself together with the native services. Paths
  below are relative to that directory.

  \<^bold>\<open>The parts and how they meet.\<close> A browser talks to app.py, which checks sessions and CSRF tokens (auth.py) and
  calls the panel service (service.py). The service keeps drafts, jobs, caches and an audit, and runs all work
  for the board on one worker behind a bounded queue. Its backend is the authority: either the simulated one
  (simulator.py, on the board algorithms of board.py) or the native services reached over IPC (netlab.py), to
  which a configuration goes as an XML tree (netlab_codec.py). A configuration is the pydantic model of models.py
  with the RoCE rules of roce.py. Beside the panel stand root helpers that own one task each: the time service
  (time_helper.py), the update service (update_helper.py) with the release format (release.py) and the paired
  upgrade (installation.py, update_gate.py), and the helper that checks a board before switchd touches it
  (native_guard.py, preflight.py). install_checks.py admits a host, platform_config.py writes the boot files, and
  ecn_lab.py is an experiment of its own.

  \<^bold>\<open>The theories.\<close>

  \<^item> Vocabulary. \<open>Prelude\<close>: ordered validation checks, Python's list and rounding idioms, and the state monad with
    exceptions \<open>action\<close> in which all effectful code is written (a raise keeps the state reached so far), with its
    weakest preconditions \<open>wp\<close>. \<open>Documents\<close>: JSON values and XML trees. \<open>Text_Points\<close>: \<^verbatim>\<open>str\<close> as code points, with the
    operations whose Unicode tables are a parameter.
  \<^item> models.py: \<open>Switch_Data\<close> (one record per model), \<open>Switch_Checks\<close> (field constraints and validators of each),
    \<open>Switch_Config\<close> (\<^verbatim>\<open>cross_validate\<close> and the whole \<^verbatim>\<open>model_validate\<close>, as \<open>validate_configuration\<close>), \<open>Config_Properties\<close>.
    roce.py: \<open>Roce_Policy\<close> (policy and buffer arithmetic), \<open>Roce_Preflight\<close> (\<^verbatim>\<open>preflight\<close>), \<open>Roce_Operational\<close>
    (\<^verbatim>\<open>decode_operational\<close>, and dcbx.py), \<open>Roce_Monitor\<close> (roce_monitor.py), \<open>Roce_Properties\<close>.
  \<^item> board.py: \<open>Board\<close> over an abstract bus; \<open>Register_Bus\<close> proves the algorithms once for every live register device
    (locale \<open>register_bus\<close>), and \<open>Simulated_Bus\<close> is the \<^verbatim>\<open>SimulatedBus\<close> that provides one (interpretation \<open>sim\<close>).
  \<^item> \<^verbatim>\<open>MockConfigd\<close> of simulator.py: \<open>Mock_Configd\<close>, its record \<open>configd\<close> with the fields of the object, the images it wrote
    to the state file (\<open>cd_disk\<close>, the newest first) and the bus; one definition per method, and \<open>reachable\<close> for
    everything that operations, injected faults, lost writes and crashes can make of it. \<open>Configd_Hardware\<close>,
    \<open>Configd_Safety\<close>, \<open>Configd_Liveness\<close>, \<open>Configd_Properties\<close>; \<open>Configd_Refinement\<close> states the contract as a ledger of
    trials and proves that every operation refines it.
  \<^item> service.py: \<open>Owner_Queue\<close>, \<open>Panel_Review\<close> (\<^verbatim>\<open>differences\<close> and port_modes.py), \<open>Optics\<close> (optics.py), \<open>Eye\<close> (eye.py), \<open>Panel\<close>
    (the record \<open>panel\<close> and one definition per method), \<open>Panel_Frame\<close>, \<open>Panel_Safety\<close> (events, runs and invariant),
    \<open>Panel_Jobs\<close>, \<open>Review_Properties\<close>, \<open>Eye_Properties\<close>, \<open>Panel_Properties\<close>. What the panel needs of an authority is the
    locale \<open>authority\<close> of \<open>Authority\<close>; \<open>Simulated_Panel\<close> is the simulator as a backend and \<open>Mock_Authority\<close> discharges the
    interface for it (interpretation \<open>mock\<close>).
  \<^item> Native side: \<open>Netlab_Codec\<close>, \<open>Netlab_Wire\<close> (netlab_wire.py), \<open>Netlab_Backend\<close>, \<open>Host_Sensors\<close> (host_sensors.py),
    \<open>Netlab_Panel\<close>, \<open>Codec_Properties\<close>, \<open>Netlab_Properties\<close>.
  \<^item> Interface: \<open>Accounts\<close> and \<open>Accounts_Properties\<close> (auth.py), \<open>Web\<close> and \<open>Web_Properties\<close> (app.py), \<open>Helper_Wire\<close> (the bounded
    readers of updates.py, time_sync.py and http_limits.py).
  \<^item> Helpers: \<open>Time_Servers\<close>, \<open>Time_Helper\<close>, \<open>Time_Properties\<close>; \<open>Release\<close>, \<open>Release_Properties\<close>; \<open>Upgrade\<close> (the record \<open>host\<close>: the
    directories, the journal, the checkpoint, what runs and what was started), \<open>Upgrade_Safety\<close>, \<open>Upgrade_Properties\<close>;
    \<open>Update_Manager\<close>, \<open>Update_Properties\<close>; \<open>Board_Identity\<close>, \<open>Identity_Properties\<close>; \<open>Startup_Guard\<close>, \<open>Startup_Properties\<close>;
    \<open>Install_Checks\<close>, \<open>Boot_Platform\<close>, \<open>Boot_Properties\<close>; \<open>Ecn_Lab\<close>, \<open>Ecn_Properties\<close>.
\<close>

text \<open>
  \<^bold>\<open>What the lemmas show.\<close>

  \<^item> Invariants over runs: transmitters follow the active configuration on every run of the authority, its image on
    disk is the state in memory between operations, the panel has one exclusive job at a time and finished jobs stay
    finished, wrong passwords are limited, switchd starts on the programs and the package of one release.
  \<^item> Behaviour on every branch: an apply commits or puts back what it changed, or says what it could not; a commit
    request is accepted exactly under its guards; an overdue trial is taken back; a refused request leaves everything
    as it was; an interrupted upgrade is undone by the next run of its worker.
  \<^item> Exactness: the listed differences, the merged eye scan, the extracted release, the recognised board data, the
    probe frames read back, the compiled class of service read back, accepted time servers read back, the generated
    platform file read back.
  \<^item> Evidence: a verdict of the diagnostics, of the native apply, of the ECN experiment and of the startup helper is
    only given when the conditions hold that its theorem writes out in terms of the input and the policy, apart from the
    code's own checks.

  \<^bold>\<open>Numbers, times, texts.\<close> Python integers are \<open>int\<close>; bytes of registers are \<open>int\<close> with their range as a proved
  invariant, octets of wire formats are 8-bit words. Clock values are milliseconds. Floating-point values stand as
  exact numbers or as parameters. ASCII texts are \<open>string\<close>, arbitrary ones lists of code points; a sentence for the
  operator is a constructor. Dictionaries are association lists in insertion order. The address rules are those of
  \<^verbatim>\<open>ipaddress\<close> in Python 3.13, the version the service is installed with.

  \<^bold>\<open>Loops and bounds.\<close> There is no fuel: every loop of the code is a total function with a termination proof (a read
  position that advances, a buffer that fills up, a list of pending links with at most 128 seen). The retry count of
  a transmit-mask write is 12 as in board.py; the bounds of queue, drafts, jobs, messages and downloads are the
  constants of the code.

  \<^bold>\<open>Parameters.\<close> What is not in the repository or is not Python: SHA-256 and PBKDF2, the parsers and printers of JSON, XML
  and URLs, pydantic's dump and loader (\<open>codec\<close>), the Unicode tables, random tokens and clocks, the commands of systemd,
  apt and ip, the GitHub server, sysfs and the file system where a check only reads them, the native services. Each
  is an argument of the definitions that use it; no law is assumed of it but those a theorem names as hypotheses.

  \<^bold>\<open>Boundaries of the model.\<close>

  \<^item> The write of the simulator's state file succeeds; a crash may leave any image that was written. storage.py itself
    (temporary file, fsync, rename) is not modelled.
  \<^item> A task of the owner queue is one step. \<^verbatim>\<open>call\<close> gives up waiting after 30 s; the task then still runs and has the
    same effect on the state, and only its answer is lost, so the timeout is left out.
  \<^item> The update gate is asked by switchd only, as in native_guard.py. The other daemons and the panel start without
    it, and \<open>panel_starts_unpaired\<close> shows them on a mixed pair after a power loss.
  \<^item> In the upgrade the admission checks, the built programs and the answers of configd are inputs, and the health
    check is a command that may fail.
  \<^item> The reports of the board that a round trip starts from (\<open>board_report\<close>) describe the native format; they are the
    decoder's input and translate no Python code.

  \<^bold>\<open>Not modelled.\<close> First installation and the build of its stage in installation.py (compilers, packages, users and units
  run in a fixed order), https_setup.py (a certificate and a rendered template), storage.py, the command line, the
  listing of the audit and the host information of app.py, the framework's routing and static files, the scripts,
  deployment files, the frontend, the vendored network operating system and the drivers.
\<close>

end
